(* ===== verification/Prelude.thy ===== *)
theory Prelude
  imports Main "HOL-Library.State_Monad"
begin

text \<open>
  Shared vocabulary of the development: the fact collections, Go errors as values, Go time
  values, the effect monad in which the controllers are written, and the weakest-precondition
  and effect-containment rules by which their proofs proceed.
\<close>

named_theorems wp_simps \<open>weakest precondition equations of the effect monad\<close>
named_theorems only_intros \<open>effect containment rules of the effect monad\<close>
named_theorems cond_simps \<open>equations of condition lists read as maps\<close>


section \<open>Errors\<close>

text \<open>
  A Go \<open>error\<close> is its text together with the identities of the errors it wraps
  (\<open>%w\<close>), which is what \<open>errors.Is\<close> and \<open>errors.As\<close> look for. The first group of
  tags are the classes that \<open>apierrors.IsNotFound\<close>, \<open>IsAlreadyExists\<close> and \<open>IsConflict\<close> of the
  Kubernetes client test; the others are the sentinel and typed errors of the repository, \<open>Sentinel\<close> those that are known by their name.
\<close>

datatype git_operation =
    OperationClone | OperationParse | OperationUpdate | OperationCommit | OperationPush

datatype error_tag =
    NotFound
  | AlreadyExists
  | Conflict
  | ErrTektonUnavailable
  | ErrRegistryCredentialsMissing
  | ErrRegistryCredentialsInvalid
  | ErrDeploymentStatusUnavailable
  | ErrProviderUnavailable
  | ErrDeploymentResourceMissing
  | NoMatch
  | ErrPullRequestProviderNotConfigured
  | ErrPullRequestProviderUnsupported
  | OperationError git_operation
  | ImageTagError
  | BuildError string
  | HookError string
  | Sentinel string

datatype go_error = GoError (err_text: string) (err_tags: "error_tag list")

type_synonym 'a result = "go_error + 'a"

definition errors_New :: "string \<Rightarrow> go_error" where
  "errors_New text = GoError text []"

text \<open>\<open>fmt.Errorf (text + ": %w")\<close>: the text of the wrapped error is appended, its tags are kept.\<close>

definition errorf_w :: "string \<Rightarrow> go_error \<Rightarrow> go_error" where
  "errorf_w text e = GoError (text @ '': '' @ err_text e) (err_tags e)"

definition errors_Is :: "go_error \<Rightarrow> error_tag \<Rightarrow> bool" where
  "errors_Is e t = (t \<in> set (err_tags e))"

text \<open>\<open>errors.As\<close> for the typed error \<open>gitops.OperationError\<close>: the first one in the chain.\<close>

fun first_operation :: "error_tag list \<Rightarrow> git_operation option" where
  "first_operation [] = None"
| "first_operation (t # ts) = (case t of OperationError oper \<Rightarrow> Some oper | _ \<Rightarrow> first_operation ts)"

lemma errors_Is_errorf_w [simp]: "errors_Is (errorf_w s e) t = errors_Is e t"
  by (simp add: errors_Is_def errorf_w_def)

lemma errors_Is_New [simp]: "\<not> errors_Is (errors_New s) t"
  by (simp add: errors_Is_def errors_New_def)

lemma errors_Is_GoError [simp]: "errors_Is (GoError s ts) t = (t \<in> set ts)"
  by (simp add: errors_Is_def)


section \<open>Time\<close>

text \<open>
  An instant is the number of nanoseconds since Go's zero time, so \<open>Time.IsZero\<close> is equality
  with 0; a duration is a number of nanoseconds. A \<open>*metav1.Time\<close> is an option.
\<close>

type_synonym gotime = int
type_synonym duration = int

definition seconds :: "int \<Rightarrow> duration" where
  "seconds n = n * 1000000000"

definition minutes :: "int \<Rightarrow> duration" where
  "minutes n = seconds (60 * n)"

definition IsZero :: "gotime \<Rightarrow> bool" where
  "IsZero t = (t = 0)"


section \<open>The effect monad\<close>

text \<open>
  Controllers call services that are not part of the repository: the Kubernetes API server,
  Git, notification endpoints, the clock. Such a call is a parameter of the model, a function on
  the state \<open>'w\<close> of everything outside the program. \<open>call e f\<close> performs one and records in
  \<^term>\<open>trace\<close> that it was made, so that theorems can speak of which calls a handler makes
  and in which order; the model never reads the trace.
\<close>

record ('w, 'e) sys =
  ext :: 'w
  trace :: "'e list"

type_synonym ('w, 'e, 'a) io = "(('w, 'e) sys, 'a) state"

definition call :: "'e \<Rightarrow> ('w \<Rightarrow> 'a \<times> 'w) \<Rightarrow> ('w, 'e, 'a) io" where
  "call e f = State (\<lambda>s. let r = f (ext s)
     in (fst r, s\<lparr>ext := snd r, trace := trace s @ [e]\<rparr>))"

text \<open>A read of the outside world that no theorem needs to see: it leaves no entry in the trace.\<close>

definition query :: "('w \<Rightarrow> 'a \<times> 'w) \<Rightarrow> ('w, 'e, 'a) io" where
  "query f = State (\<lambda>s. let r = f (ext s) in (fst r, s\<lparr>ext := snd r\<rparr>))"

definition start :: "'w \<Rightarrow> ('w, 'e) sys" where
  "start w = \<lparr>ext = w, trace = []\<rparr>"

definition exec :: "('w, 'e, 'a) io \<Rightarrow> 'w \<Rightarrow> 'a \<times> 'w \<times> 'e list" where
  "exec m w = (case run_state m (start w) of (a, s) \<Rightarrow> (a, ext s, trace s))"

definition exec_result :: "('w, 'e, 'a) io \<Rightarrow> 'w \<Rightarrow> 'a" where
  "exec_result m w = fst (run_state m (start w))"

definition exec_trace :: "('w, 'e, 'a) io \<Rightarrow> 'w \<Rightarrow> 'e list" where
  "exec_trace m w = trace (snd (run_state m (start w)))"

definition exec_ext :: "('w, 'e, 'a) io \<Rightarrow> 'w \<Rightarrow> 'w" where
  "exec_ext m w = ext (snd (run_state m (start w)))"

lemma run_call:
  "run_state (call e f) s = (fst (f (ext s)), s\<lparr>ext := snd (f (ext s)), trace := trace s @ [e]\<rparr>)"
  by (simp add: call_def Let_def)

lemma run_query: "run_state (query f) s = (fst (f (ext s)), s\<lparr>ext := snd (f (ext s))\<rparr>)"
  by (simp add: query_def Let_def)


subsection \<open>Weakest preconditions\<close>

definition wp :: "('s, 'a) state \<Rightarrow> ('a \<Rightarrow> 's \<Rightarrow> bool) \<Rightarrow> 's \<Rightarrow> bool" where
  "wp m Q s = (case run_state m s of (a, t) \<Rightarrow> Q a t)"

lemma wp_return [wp_simps]: "wp (State_Monad.return a) Q s = Q a s"
  by (simp add: wp_def)

lemma wp_bind [wp_simps]: "wp (State_Monad.bind m f) Q s = wp m (\<lambda>a. wp (f a) Q) s"
  by (simp add: wp_def split: prod.split)

lemma wp_call [wp_simps]:
  "wp (call e f) Q s = Q (fst (f (ext s))) (s\<lparr>ext := snd (f (ext s)), trace := trace s @ [e]\<rparr>)"
  by (simp add: wp_def run_call)

lemma wp_query [wp_simps]:
  "wp (query f) Q s = Q (fst (f (ext s))) (s\<lparr>ext := snd (f (ext s))\<rparr>)"
  by (simp add: wp_def run_query)

text \<open>The equations for a postcondition that is not applied to its state.\<close>

lemma wp_eta: "wp (State_Monad.return a) Q = Q a" "wp (State_Monad.bind m f) Q = wp m (\<lambda>a. wp (f a) Q)"
  "wp (call e g) Q = (\<lambda>s. Q (fst (g (ext s))) (s\<lparr>ext := snd (g (ext s)), trace := trace s @ [e]\<rparr>))"
  by (auto simp: wp_simps)

lemma wp_if [wp_simps]: "wp (if b then m else n) Q s = (if b then wp m Q s else wp n Q s)"
  by simp

lemma wp_sum [wp_simps]:
  "wp (case x of Inl e \<Rightarrow> f e | Inr a \<Rightarrow> g a) Q s
   = (case x of Inl e \<Rightarrow> wp (f e) Q s | Inr a \<Rightarrow> wp (g a) Q s)"
  by (simp split: sum.split)

lemma wp_option [wp_simps]:
  "wp (case x of None \<Rightarrow> m | Some a \<Rightarrow> g a) Q s
   = (case x of None \<Rightarrow> wp m Q s | Some a \<Rightarrow> wp (g a) Q s)"
  by (simp split: option.split)

lemma wp_prod [wp_simps]: "wp (case x of (a, b) \<Rightarrow> g a b) Q s = (case x of (a, b) \<Rightarrow> wp (g a b) Q s)"
  by (simp split: prod.split)

lemma wp_mono: "wp m P s \<Longrightarrow> (\<And>a t. P a t \<Longrightarrow> Q a t) \<Longrightarrow> wp m Q s"
  by (auto simp: wp_def split: prod.splits)

lemma wp_conj: "wp m P s \<Longrightarrow> wp m Q s \<Longrightarrow> wp m (\<lambda>a t. P a t \<and> Q a t) s"
  by (auto simp: wp_def split: prod.splits)

lemma wp_result: "wp m (\<lambda>a t. P a) (start w) = P (exec_result m w)"
  by (simp add: wp_def exec_result_def case_prod_beta)

lemma wp_trace: "wp m (\<lambda>a t. P a (trace t)) (start w) = P (exec_result m w) (exec_trace m w)"
  by (simp add: wp_def exec_result_def exec_trace_def case_prod_beta)


subsection \<open>Effect containment\<close>

text \<open>\<open>only E m\<close>: whatever the outside world answers, the calls that \<open>m\<close> makes are all in \<open>E\<close>.\<close>

definition only :: "'e set \<Rightarrow> ('w, 'e, 'a) io \<Rightarrow> bool" where
  "only E m = (\<forall>s. \<exists>new. trace (snd (run_state m s)) = trace s @ new \<and> set new \<subseteq> E)"

lemma only_return [only_intros]: "only E (State_Monad.return a)"
  by (simp add: only_def)

lemma only_call [only_intros]: "e \<in> E \<Longrightarrow> only E (call e f)"
  by (simp add: only_def run_call)

lemma only_query [only_intros]: "only E (query f)"
  by (simp add: only_def run_query)

lemma only_bind [only_intros]:
  assumes "only E m" and "\<And>a. only E (f a)"
  shows "only E (State_Monad.bind m f)"
  unfolding only_def
proof
  fix s
  obtain a t where m: "run_state m s = (a, t)" by (cases "run_state m s")
  from assms(1) m obtain n1 where n1: "trace t = trace s @ n1" "set n1 \<subseteq> E"
    unfolding only_def by (metis snd_conv)
  from assms(2) obtain n2 where n2: "trace (snd (run_state (f a) t)) = trace t @ n2" "set n2 \<subseteq> E"
    unfolding only_def by blast
  from n1 n2 m show "\<exists>new. trace (snd (run_state (State_Monad.bind m f) s)) = trace s @ new \<and> set new \<subseteq> E"
    by (intro exI [of _ "n1 @ n2"]) simp
qed

lemma only_if [only_intros]: "(b \<Longrightarrow> only E m) \<Longrightarrow> (\<not> b \<Longrightarrow> only E n) \<Longrightarrow> only E (if b then m else n)"
  by simp

lemma only_sum [only_intros]:
  "(\<And>e. x = Inl e \<Longrightarrow> only E (f e)) \<Longrightarrow> (\<And>a. x = Inr a \<Longrightarrow> only E (g a)) \<Longrightarrow>
   only E (case x of Inl e \<Rightarrow> f e | Inr a \<Rightarrow> g a)"
  by (simp split: sum.split)

lemma only_option [only_intros]:
  "(x = None \<Longrightarrow> only E m) \<Longrightarrow> (\<And>a. x = Some a \<Longrightarrow> only E (g a)) \<Longrightarrow>
   only E (case x of None \<Rightarrow> m | Some a \<Rightarrow> g a)"
  by (simp split: option.split)

lemma only_prod [only_intros]:
  "(\<And>a b. x = (a, b) \<Longrightarrow> only E (g a b)) \<Longrightarrow> only E (case x of (a, b) \<Rightarrow> g a b)"
  by (simp split: prod.split)

text \<open>Variants that remember where the answer came from.\<close>

lemma only_bind_query:
  assumes "\<And>w. only E (f (fst (g w)))"
  shows "only E (State_Monad.bind (query g) f)"
  using assms unfolding only_def by (simp add: run_query) (metis sys.select_convs(2) sys.surjective
      sys.update_convs(1))

lemma only_bind_call:
  assumes "e \<in> E" and "\<And>w. only E (f (fst (g w)))"
  shows "only E (State_Monad.bind (call e g) f)"
  unfolding only_def
proof
  fix s :: "('b, 'a) sys"
  let ?t = "s\<lparr>ext := snd (g (ext s)), trace := trace s @ [e]\<rparr>"
  from assms(2) obtain n where "trace (snd (run_state (f (fst (g (ext s)))) ?t)) = trace ?t @ n" "set n \<subseteq> E"
    unfolding only_def by blast
  with assms(1) show "\<exists>new. trace (snd (run_state (State_Monad.bind (call e g) f) s)) = trace s @ new \<and> set new \<subseteq> E"
    by (intro exI [of _ "e # n"]) (simp add: run_call)
qed

text \<open>Containment of a computation that continues with a result of a known kind.\<close>

lemma only_bind_wp:
  assumes "only E m" and "\<And>s. wp m (\<lambda>a t. P a) s" and "\<And>a. P a \<Longrightarrow> only E (f a)"
  shows "only E (State_Monad.bind m f)"
  unfolding only_def
proof
  fix s
  obtain a t where m: "run_state m s = (a, t)" by (cases "run_state m s")
  from assms(1) m obtain n1 where n1: "trace t = trace s @ n1" "set n1 \<subseteq> E"
    unfolding only_def by (metis snd_conv)
  from assms(2) [of s] m have "P a" by (simp add: wp_def)
  then obtain n2 where n2: "trace (snd (run_state (f a) t)) = trace t @ n2" "set n2 \<subseteq> E"
    using assms(3) unfolding only_def by blast
  from n1 n2 m show "\<exists>new. trace (snd (run_state (State_Monad.bind m f) s)) = trace s @ new \<and> set new \<subseteq> E"
    by (intro exI [of _ "n1 @ n2"]) simp
qed

lemma only_mono: "only E m \<Longrightarrow> E \<subseteq> F \<Longrightarrow> only F m"
  unfolding only_def by (metis subset_trans)

lemma only_exec: "only E m \<Longrightarrow> set (exec_trace m w) \<subseteq> E"
  unfolding only_def exec_trace_def start_def
  by (metis append_Nil sys.select_convs(2))


subsection \<open>Calls of a component\<close>

text \<open>A computation of a component, run as a part of one whose effects \<open>f\<close> labels.\<close>

definition relabel :: "('e \<Rightarrow> 'f) \<Rightarrow> ('w, 'e, 'a) io \<Rightarrow> ('w, 'f, 'a) io" where
  "relabel f m = State (\<lambda>s. case run_state m (start (ext s)) of
     (a, t) \<Rightarrow> (a, s\<lparr>ext := ext t, trace := trace s @ map f (trace t)\<rparr>))"

lemma wp_relabel:
  "wp (relabel f m) Q s = wp m (\<lambda>a t. Q a (s\<lparr>ext := ext t, trace := trace s @ map f (trace t)\<rparr>)) (start (ext s))"
  by (simp add: wp_def relabel_def split: prod.split)

lemma only_relabel [only_intros]: "(\<And>e. f e \<in> F) \<Longrightarrow> only F (relabel f m)"
  by (auto simp: only_def relabel_def split: prod.split)

lemma only_relabel_image:
  assumes "only E m" and "f ` E \<subseteq> F"
  shows "only F (relabel f m)"
proof -
  have "set (trace (snd (run_state m (start w)))) \<subseteq> E" for w
    using only_exec [OF assms(1)] by (simp add: exec_trace_def)
  with assms(2) show ?thesis by (auto simp: only_def relabel_def case_prod_beta)
qed

end
