(* ===== verification/K8s.thy ===== *)
theory K8s
  imports GoStrings
begin

text \<open>
  The types of the Kubernetes libraries that the repository's own types are built from, with the
  fields that the modelled code reads or writes: object metadata, status conditions, object keys,
  container environment variables. A Go \<open>map[string]string\<close> is a HOL map.
\<close>

type_synonym strmap = "string \<rightharpoonup> string"

record NamespacedName =
  key_Namespace :: string
  key_Name :: string

definition key_String :: "NamespacedName \<Rightarrow> string" where
  "key_String k = key_Namespace k @ ''/'' @ key_Name k"

record ObjectMeta =
  meta_Name :: string
  meta_Namespace :: string
  meta_Generation :: int
  meta_Labels :: strmap
  meta_Annotations :: strmap
  meta_CreationTimestamp :: gotime
  meta_DeletionTimestamp :: "gotime option"
  meta_Finalizers :: "string list"

definition ObjectMeta_zero :: ObjectMeta where
  "ObjectMeta_zero = \<lparr>meta_Name = [], meta_Namespace = [], meta_Generation = 0,
     meta_Labels = Map.empty, meta_Annotations = Map.empty, meta_CreationTimestamp = 0,
     meta_DeletionTimestamp = None, meta_Finalizers = []\<rparr>"

definition object_key :: "ObjectMeta \<Rightarrow> NamespacedName" where
  "object_key m = \<lparr>key_Namespace = meta_Namespace m, key_Name = meta_Name m\<rparr>"

text \<open>Indexing a Go map with an absent key yields the zero value.\<close>

definition map_index :: "strmap \<Rightarrow> string \<Rightarrow> string" where
  "map_index m k = (case m k of Some v \<Rightarrow> v | None \<Rightarrow> [])"

lemma map_index_upd: "map_index (m(k \<mapsto> v)) k' = (if k' = k then v else map_index m k')"
  by (simp add: map_index_def)

lemma map_index_empty [simp]: "map_index Map.empty k = []"
  by (simp add: map_index_def)

datatype ConditionStatus = ConditionTrue | ConditionFalse | ConditionUnknown

record Condition =
  c_Type :: string
  c_Status :: ConditionStatus
  c_ObservedGeneration :: int
  c_LastTransitionTime :: gotime
  c_Reason :: string
  c_Message :: string

record SecretKeySelector =
  sks_Name :: string
  sks_Key :: string

record EnvVar =
  ev_Name :: string
  ev_Value :: string
  ev_SecretKeyRef :: "SecretKeySelector option"

text \<open>What a \<open>Reconcile\<close> returns when it returns no error.\<close>

record ReconcileResult =
  Requeue :: bool
  RequeueAfter :: duration

definition Result_zero :: ReconcileResult where
  "Result_zero = \<lparr>Requeue = False, RequeueAfter = 0\<rparr>"

lemmas Result_simps = Result_zero_def

end
