(* ===== verification/ApiTypes.thy ===== *)
theory ApiTypes
  imports K8s
begin

text \<open>
  The custom resources of \<open>api/v1alpha1/types.go\<close>. A Go struct is a record with the source's
  fields in the source's order; the field names carry a prefix because record fields share one
  name space. \<open>TypeMeta\<close> is left out (the object kinds are separate types here). An enumerated
  string type is a datatype with the source's constants; the extra constructor \<open>Unset\<close> is the
  empty string, and types that code tests against a \<open>default:\<close> branch also have \<open>Other\<close> for any
  string that is none of the constants. The CRD schemas admit no other values for the remaining
  ones (\<open>+kubebuilder:validation:Enum\<close>). Pointers to structs are options. \<open>X_zero\<close> is the zero
  value of \<open>X\<close>, which Go gives to the fields that a composite literal leaves out.
\<close>

section \<open>Enumerations\<close>

datatype ProjectPhase = ProjectPhaseUnset | ProjectPhasePending | ProjectPhaseReady | ProjectPhaseError

datatype PodSecurityLevel =
  PodSecurityLevelUnset | PodSecurityLevelBaseline | PodSecurityLevelRestricted

datatype NetworkPolicyMode =
  NetworkPolicyModeUnset | NetworkPolicyModeDisabled | NetworkPolicyModeDefaultDeny
| NetworkPolicyModeEgressAllowList

datatype RepositoryPhase =
  RepositoryPhaseUnset | RepositoryPhasePending | RepositoryPhaseReady | RepositoryPhaseError

datatype RepositoryProvider =
  RepositoryProviderGitHub | RepositoryProviderGitLab | RepositoryProviderGitea
| RepositoryProviderGeneric | RepositoryProviderOther string

datatype RegistryProviderType =
  RegistryProviderUnset | RegistryProviderGeneric | RegistryProviderGHCR | RegistryProviderGitLab
| RegistryProviderHarbor | RegistryProviderECR | RegistryProviderGCR | RegistryProviderACR

datatype PipelineTemplatePhase =
  PipelineTemplatePhaseUnset | PipelineTemplatePhaseReady | PipelineTemplatePhaseError

datatype BuildBuilder =
  BuildBuilderBuildKit | BuildBuilderBuildah | BuildBuilderNone | BuildBuilderOther string

datatype BuildCacheMode =
  BuildCacheModeUnset | BuildCacheModeInline | BuildCacheModeRegistry | BuildCacheModeLocal
| BuildCacheModeOther string

datatype BuildRunPhase =
  BuildRunPhaseUnset | BuildRunPhasePending | BuildRunPhaseQueued | BuildRunPhaseRunning
| BuildRunPhaseSucceeded | BuildRunPhaseFailed | BuildRunPhaseCancelled

datatype TriggerType =
  TriggerTypeUnset | TriggerTypeWebhook | TriggerTypeManual | TriggerTypeSchedule | TriggerTypeAPI

datatype ExecutorType = ExecutorTypeUnset | ExecutorTypeJob | ExecutorTypeTekton | ExecutorTypeOther string

datatype GitOpsStrategy =
  GitOpsStrategyUnset | GitOpsStrategyHelmValues | GitOpsStrategyKustomizeImage
| GitOpsStrategyRawYAML | GitOpsStrategyOther string

datatype EnvironmentPhase =
  EnvironmentPhaseUnset | EnvironmentPhasePending | EnvironmentPhaseReady | EnvironmentPhaseError

datatype EnvironmentType =
  EnvironmentTypeUnset | EnvironmentTypeDev | EnvironmentTypeStaging | EnvironmentTypeProduction
| EnvironmentTypeCustom

datatype GitOpsProvider =
  GitOpsProviderArgoCD | GitOpsProviderFlux | GitOpsProviderGeneric | GitOpsProviderOther string

datatype ReleasePhase =
  ReleasePhaseUnset | ReleasePhasePending | ReleasePhaseAwaitingApproval
| ReleasePhasePreparingGitOpsChange | ReleasePhaseGitOpsChangeCommitted | ReleasePhaseWaitingForSync
| ReleasePhaseDeployed | ReleasePhaseRolledBack | ReleasePhaseFailedValidation
| ReleasePhaseFailedApproval | ReleasePhaseFailedGitClone | ReleasePhaseFailedGitCommit
| ReleasePhaseFailedGitPush | ReleasePhaseFailedProviderStatus | ReleasePhaseTimedOut

datatype ReleaseStrategy = ReleaseStrategyUnset | ReleaseStrategyGitOps

datatype PromotionMode = PromotionModeUnset | PromotionModeDirectCommit | PromotionModePullRequest

datatype DependencyCacheMode =
  DependencyCacheModeUnset | DependencyCacheModePVC | DependencyCacheModeRegistry
| DependencyCacheModeObjectStorage | DependencyCacheModeOther string

datatype ClusterTargetType =
  ClusterTargetTypeUnset | ClusterTargetTypeBuild | ClusterTargetTypeDeploy | ClusterTargetTypeBoth

datatype ClusterTargetPhase =
  ClusterTargetPhaseUnset | ClusterTargetPhasePending | ClusterTargetPhaseReady
| ClusterTargetPhaseUnreachable

text \<open>The conversion \<open>string(x)\<close> of the enumerations that messages and requests carry.\<close>

fun BuildRunPhase_string :: "BuildRunPhase \<Rightarrow> string" where
  "BuildRunPhase_string BuildRunPhaseUnset = ''''"
| "BuildRunPhase_string BuildRunPhasePending = ''Pending''"
| "BuildRunPhase_string BuildRunPhaseQueued = ''Queued''"
| "BuildRunPhase_string BuildRunPhaseRunning = ''Running''"
| "BuildRunPhase_string BuildRunPhaseSucceeded = ''Succeeded''"
| "BuildRunPhase_string BuildRunPhaseFailed = ''Failed''"
| "BuildRunPhase_string BuildRunPhaseCancelled = ''Cancelled''"

fun ReleasePhase_string :: "ReleasePhase \<Rightarrow> string" where
  "ReleasePhase_string ReleasePhaseUnset = ''''"
| "ReleasePhase_string ReleasePhasePending = ''Pending''"
| "ReleasePhase_string ReleasePhaseAwaitingApproval = ''AwaitingApproval''"
| "ReleasePhase_string ReleasePhasePreparingGitOpsChange = ''PreparingGitOpsChange''"
| "ReleasePhase_string ReleasePhaseGitOpsChangeCommitted = ''GitOpsChangeCommitted''"
| "ReleasePhase_string ReleasePhaseWaitingForSync = ''WaitingForSync''"
| "ReleasePhase_string ReleasePhaseDeployed = ''Deployed''"
| "ReleasePhase_string ReleasePhaseRolledBack = ''RolledBack''"
| "ReleasePhase_string ReleasePhaseFailedValidation = ''FailedValidation''"
| "ReleasePhase_string ReleasePhaseFailedApproval = ''FailedApproval''"
| "ReleasePhase_string ReleasePhaseFailedGitClone = ''FailedGitClone''"
| "ReleasePhase_string ReleasePhaseFailedGitCommit = ''FailedGitCommit''"
| "ReleasePhase_string ReleasePhaseFailedGitPush = ''FailedGitPush''"
| "ReleasePhase_string ReleasePhaseFailedProviderStatus = ''FailedProviderStatus''"
| "ReleasePhase_string ReleasePhaseTimedOut = ''TimedOut''"

fun RepositoryProvider_string :: "RepositoryProvider \<Rightarrow> string" where
  "RepositoryProvider_string RepositoryProviderGitHub = ''github''"
| "RepositoryProvider_string RepositoryProviderGitLab = ''gitlab''"
| "RepositoryProvider_string RepositoryProviderGitea = ''gitea''"
| "RepositoryProvider_string RepositoryProviderGeneric = ''generic''"
| "RepositoryProvider_string (RepositoryProviderOther s) = s"

fun BuildBuilder_string :: "BuildBuilder \<Rightarrow> string" where
  "BuildBuilder_string BuildBuilderBuildKit = ''buildkit''"
| "BuildBuilder_string BuildBuilderBuildah = ''buildah''"
| "BuildBuilder_string BuildBuilderNone = ''none''"
| "BuildBuilder_string (BuildBuilderOther s) = s"

fun GitOpsProvider_string :: "GitOpsProvider \<Rightarrow> string" where
  "GitOpsProvider_string GitOpsProviderArgoCD = ''argocd''"
| "GitOpsProvider_string GitOpsProviderFlux = ''flux''"
| "GitOpsProvider_string GitOpsProviderGeneric = ''generic''"
| "GitOpsProvider_string (GitOpsProviderOther s) = s"

fun ExecutorType_string :: "ExecutorType \<Rightarrow> string" where
  "ExecutorType_string ExecutorTypeUnset = ''''"
| "ExecutorType_string ExecutorTypeJob = ''job''"
| "ExecutorType_string ExecutorTypeTekton = ''tekton''"
| "ExecutorType_string (ExecutorTypeOther s) = s"

fun GitOpsStrategy_string :: "GitOpsStrategy \<Rightarrow> string" where
  "GitOpsStrategy_string GitOpsStrategyUnset = ''''"
| "GitOpsStrategy_string GitOpsStrategyHelmValues = ''helm-values''"
| "GitOpsStrategy_string GitOpsStrategyKustomizeImage = ''kustomize-image''"
| "GitOpsStrategy_string GitOpsStrategyRawYAML = ''raw-yaml''"
| "GitOpsStrategy_string (GitOpsStrategyOther s) = s"

fun RegistryProviderType_string :: "RegistryProviderType \<Rightarrow> string" where
  "RegistryProviderType_string RegistryProviderUnset = ''''"
| "RegistryProviderType_string RegistryProviderGeneric = ''generic''"
| "RegistryProviderType_string RegistryProviderGHCR = ''ghcr''"
| "RegistryProviderType_string RegistryProviderGitLab = ''gitlab''"
| "RegistryProviderType_string RegistryProviderHarbor = ''harbor''"
| "RegistryProviderType_string RegistryProviderECR = ''ecr''"
| "RegistryProviderType_string RegistryProviderGCR = ''gcr''"
| "RegistryProviderType_string RegistryProviderACR = ''acr''"

lemma BuildRunPhase_string_inject: "BuildRunPhase_string p = BuildRunPhase_string q \<longleftrightarrow> p = q"
  by (cases p; cases q; simp)

lemma ReleasePhase_string_empty: "ReleasePhase_string p = '''' \<longleftrightarrow> p = ReleasePhaseUnset"
  by (cases p) simp_all

section \<open>Projects\<close>

record SecretKeyRef =
  skr_Name :: string
  skr_Key :: string

definition SecretKeyRef_zero :: SecretKeyRef where
  "SecretKeyRef_zero = \<lparr>skr_Name = [], skr_Key = []\<rparr>"

record RequiredSecretKeyRef =
  rskr_Name :: string
  rskr_Key :: string

definition RequiredSecretKeyRef_zero :: RequiredSecretKeyRef where
  "RequiredSecretKeyRef_zero = \<lparr>rskr_Name = [], rskr_Key = []\<rparr>"

record ProjectIsolation =
  iso_CreateNamespace :: bool
  iso_PodSecurityLevel :: PodSecurityLevel
  iso_NetworkPolicyMode :: NetworkPolicyMode

definition ProjectIsolation_zero :: ProjectIsolation where
  "ProjectIsolation_zero = \<lparr>iso_CreateNamespace = False, iso_PodSecurityLevel =
     PodSecurityLevelUnset, iso_NetworkPolicyMode = NetworkPolicyModeUnset\<rparr>"

record ProjectRegistrySpec =
  reg_Provider :: RegistryProviderType
  reg_ImagePrefix :: string
  reg_CredentialSecretRef :: "SecretKeyRef option"

definition ProjectRegistrySpec_zero :: ProjectRegistrySpec where
  "ProjectRegistrySpec_zero = \<lparr>reg_Provider = RegistryProviderUnset,
     reg_ImagePrefix = [], reg_CredentialSecretRef = None\<rparr>"

record ProjectImageTagPolicySpec =
  itp_DefaultTagTemplate :: string

definition ProjectImageTagPolicySpec_zero :: ProjectImageTagPolicySpec where
  "ProjectImageTagPolicySpec_zero = \<lparr>itp_DefaultTagTemplate = []\<rparr>"

record ProjectQuotaSpec =
  quo_MaxConcurrentBuildRuns :: int
  quo_MaxQueuedBuildRuns :: int
  quo_MaxCPU :: string
  quo_MaxMemory :: string
  quo_MaxBuildDurationSeconds :: int
  quo_MaxArtifactsSize :: string
  quo_MaxLogSize :: string

definition ProjectQuotaSpec_zero :: ProjectQuotaSpec where
  "ProjectQuotaSpec_zero = \<lparr>quo_MaxConcurrentBuildRuns = 0, quo_MaxQueuedBuildRuns = 0,
     quo_MaxCPU = [], quo_MaxMemory = [], quo_MaxBuildDurationSeconds = 0, quo_MaxArtifactsSize =
     [], quo_MaxLogSize = []\<rparr>"

record NotificationFilters =
  nf_Project :: string
  nf_Repository :: string
  nf_Environment :: string
  nf_Phase :: string

definition NotificationFilters_zero :: NotificationFilters where
  "NotificationFilters_zero = \<lparr>nf_Project = [], nf_Repository = [], nf_Environment =
     [], nf_Phase = []\<rparr>"

record ProjectNotificationSpec =
  pn_Enabled :: bool
  pn_Provider :: string
  pn_SecretRef :: "SecretKeyRef option"
  pn_Events :: "string list"
  pn_Filters :: NotificationFilters

definition ProjectNotificationSpec_zero :: ProjectNotificationSpec where
  "ProjectNotificationSpec_zero = \<lparr>pn_Enabled = False, pn_Provider = [], pn_SecretRef =
     None, pn_Events = [], pn_Filters = NotificationFilters_zero\<rparr>"

record ProjectSpec =
  prs_OrganizationRef :: string
  prs_DisplayName :: string
  prs_Description :: string
  prs_OwnerTeam :: string
  prs_Namespace :: string
  prs_DefaultRegistry :: string
  prs_DefaultBranch :: string
  prs_ServiceAccountName :: string
  prs_Isolation :: ProjectIsolation
  prs_Registry :: "ProjectRegistrySpec option"
  prs_ImageTagPolicy :: "ProjectImageTagPolicySpec option"
  prs_Quotas :: "ProjectQuotaSpec option"
  prs_Notifications :: "ProjectNotificationSpec option"

definition ProjectSpec_zero :: ProjectSpec where
  "ProjectSpec_zero = \<lparr>prs_OrganizationRef = [], prs_DisplayName = [], prs_Description
     = [], prs_OwnerTeam = [], prs_Namespace = [], prs_DefaultRegistry = [], prs_DefaultBranch =
     [], prs_ServiceAccountName = [], prs_Isolation = ProjectIsolation_zero, prs_Registry = None,
     prs_ImageTagPolicy = None, prs_Quotas = None, prs_Notifications = None\<rparr>"

record ProjectStatus =
  prst_Phase :: ProjectPhase
  prst_NamespaceReady :: bool
  prst_Conditions :: "Condition list"
  prst_ObservedGeneration :: int

definition ProjectStatus_zero :: ProjectStatus where
  "ProjectStatus_zero = \<lparr>prst_Phase = ProjectPhaseUnset, prst_NamespaceReady = False,
     prst_Conditions = [], prst_ObservedGeneration = 0\<rparr>"

record Project =
  proj_Meta :: ObjectMeta
  proj_Spec :: ProjectSpec
  proj_Status :: ProjectStatus

definition Project_zero :: Project where
  "Project_zero = \<lparr>proj_Meta = ObjectMeta_zero, proj_Spec = ProjectSpec_zero,
     proj_Status = ProjectStatus_zero\<rparr>"


section \<open>Repositories\<close>

record RepositoryRefFilters =
  rf_Include :: "string list"
  rf_Exclude :: "string list"

definition RepositoryRefFilters_zero :: RepositoryRefFilters where
  "RepositoryRefFilters_zero = \<lparr>rf_Include = [], rf_Exclude = []\<rparr>"

record RepositoryPullRequestFilters =
  prf_Enabled :: bool
  prf_Events :: "string list"
  prf_BuildForks :: bool
  prf_RequireTrustedActor :: bool

definition RepositoryPullRequestFilters_zero :: RepositoryPullRequestFilters where
  "RepositoryPullRequestFilters_zero = \<lparr>prf_Enabled = False, prf_Events = [],
     prf_BuildForks = False, prf_RequireTrustedActor = False\<rparr>"

record RepositoryWebhook =
  wh_Enabled :: bool
  wh_SecretRef :: RequiredSecretKeyRef
  wh_Events :: "string list"
  wh_BranchFilters :: RepositoryRefFilters
  wh_TagFilters :: RepositoryRefFilters
  wh_PullRequest :: RepositoryPullRequestFilters

definition RepositoryWebhook_zero :: RepositoryWebhook where
  "RepositoryWebhook_zero = \<lparr>wh_Enabled = False, wh_SecretRef =
     RequiredSecretKeyRef_zero, wh_Events = [], wh_BranchFilters = RepositoryRefFilters_zero,
     wh_TagFilters = RepositoryRefFilters_zero, wh_PullRequest =
     RepositoryPullRequestFilters_zero\<rparr>"

record RepositorySpec =
  rs_ProjectRef :: string
  rs_Provider :: RepositoryProvider
  rs_URL :: string
  rs_DefaultBranch :: string
  rs_CredentialSecretRef :: SecretKeyRef
  rs_Webhook :: RepositoryWebhook
  rs_PipelineTemplateRef :: string

definition RepositorySpec_zero :: RepositorySpec where
  "RepositorySpec_zero = \<lparr>rs_ProjectRef = [], rs_Provider = RepositoryProviderOther [],
     rs_URL = [], rs_DefaultBranch = [], rs_CredentialSecretRef = SecretKeyRef_zero, rs_Webhook =
     RepositoryWebhook_zero, rs_PipelineTemplateRef = []\<rparr>"

record RepositoryStatus =
  rst_Phase :: RepositoryPhase
  rst_LastWebhookAt :: "gotime option"
  rst_Conditions :: "Condition list"
  rst_ObservedGeneration :: int

definition RepositoryStatus_zero :: RepositoryStatus where
  "RepositoryStatus_zero = \<lparr>rst_Phase = RepositoryPhaseUnset, rst_LastWebhookAt = None,
     rst_Conditions = [], rst_ObservedGeneration = 0\<rparr>"

record Repository =
  repo_Meta :: ObjectMeta
  repo_Spec :: RepositorySpec
  repo_Status :: RepositoryStatus

definition Repository_zero :: Repository where
  "Repository_zero = \<lparr>repo_Meta = ObjectMeta_zero, repo_Spec = RepositorySpec_zero,
     repo_Status = RepositoryStatus_zero\<rparr>"


section \<open>Pipeline templates\<close>

record ParamSpec =
  par_Name :: string
  par_Description :: string
  par_Default :: string
  par_Required :: bool

definition ParamSpec_zero :: ParamSpec where
  "ParamSpec_zero = \<lparr>par_Name = [], par_Description = [], par_Default = [],
     par_Required = False\<rparr>"

record PipelineArtifactSpec =
  pa_Paths :: "string list"
  pa_Optional :: bool
  pa_RetentionDays :: int

definition PipelineArtifactSpec_zero :: PipelineArtifactSpec where
  "PipelineArtifactSpec_zero = \<lparr>pa_Paths = [], pa_Optional = False, pa_RetentionDays =
     0\<rparr>"

record PipelineStep =
  step_Name :: string
  step_Image :: string
  step_Command :: "string list"
  step_Args :: "string list"
  step_WorkingDir :: string
  step_Env :: "EnvVar list"
  step_TimeoutSeconds :: int
  step_ContinueOnError :: bool
  step_Artifacts :: "PipelineArtifactSpec option"

definition PipelineStep_zero :: PipelineStep where
  "PipelineStep_zero = \<lparr>step_Name = [], step_Image = [], step_Command = [], step_Args =
     [], step_WorkingDir = [], step_Env = [], step_TimeoutSeconds = 0, step_ContinueOnError =
     False, step_Artifacts = None\<rparr>"

record PipelineBuildCacheSpec =
  bc_Enabled :: bool
  bc_Mode :: BuildCacheMode
  bc_Ref :: string

definition PipelineBuildCacheSpec_zero :: PipelineBuildCacheSpec where
  "PipelineBuildCacheSpec_zero = \<lparr>bc_Enabled = False, bc_Mode = BuildCacheModeUnset,
     bc_Ref = []\<rparr>"

record PipelineBuildSpec =
  bld_Enabled :: bool
  bld_ContextDir :: string
  bld_Dockerfile :: string
  bld_Builder :: BuildBuilder
  bld_Image :: string
  bld_Push :: bool
  bld_BuildArgs :: strmap
  bld_Target :: string
  bld_Platforms :: "string list"
  bld_Labels :: strmap
  bld_Cache :: PipelineBuildCacheSpec

definition PipelineBuildSpec_zero :: PipelineBuildSpec where
  "PipelineBuildSpec_zero = \<lparr>bld_Enabled = False, bld_ContextDir = [], bld_Dockerfile =
     [], bld_Builder = BuildBuilderOther [], bld_Image = [], bld_Push = False, bld_BuildArgs =
     Map.empty, bld_Target = [], bld_Platforms = [], bld_Labels = Map.empty, bld_Cache =
     PipelineBuildCacheSpec_zero\<rparr>"

record PipelineCacheSpec =
  dc_Enabled :: bool
  dc_Mode :: DependencyCacheMode
  dc_Key :: string
  dc_Paths :: "string list"
  dc_RestoreKeys :: "string list"
  dc_TTLSeconds :: int

definition PipelineCacheSpec_zero :: PipelineCacheSpec where
  "PipelineCacheSpec_zero = \<lparr>dc_Enabled = False, dc_Mode = DependencyCacheModeUnset,
     dc_Key = [], dc_Paths = [], dc_RestoreKeys = [], dc_TTLSeconds = 0\<rparr>"

record PipelineResourceSpec =
  res_CPURequest :: string
  res_CPULimit :: string
  res_MemoryRequest :: string
  res_MemoryLimit :: string
  res_TimeoutSeconds :: int

definition PipelineResourceSpec_zero :: PipelineResourceSpec where
  "PipelineResourceSpec_zero = \<lparr>res_CPURequest = [], res_CPULimit = [],
     res_MemoryRequest = [], res_MemoryLimit = [], res_TimeoutSeconds = 0\<rparr>"

record PipelineSecuritySpec =
  sec_AllowPrivileged :: bool
  sec_RunAsNonRoot :: bool
  sec_ReadOnlyRootFilesystem :: bool

definition PipelineSecuritySpec_zero :: PipelineSecuritySpec where
  "PipelineSecuritySpec_zero = \<lparr>sec_AllowPrivileged = False, sec_RunAsNonRoot = False,
     sec_ReadOnlyRootFilesystem = False\<rparr>"

record PipelineSupplyChainSpec =
  sc_GenerateSBOM :: bool
  sc_ScanImage :: bool
  sc_SignImage :: bool
  sc_RequireSignedBaseImages :: bool
  sc_SBOMAdapter :: string
  sc_ScannerAdapter :: string
  sc_SignerAdapter :: string
  sc_ProvenanceAdapter :: string
  sc_CosignKeyless :: bool
  sc_SigningKeySecretRef :: "RequiredSecretKeyRef option"

definition PipelineSupplyChainSpec_zero :: PipelineSupplyChainSpec where
  "PipelineSupplyChainSpec_zero = \<lparr>sc_GenerateSBOM = False, sc_ScanImage = False,
     sc_SignImage = False, sc_RequireSignedBaseImages = False, sc_SBOMAdapter = [],
     sc_ScannerAdapter = [], sc_SignerAdapter = [], sc_ProvenanceAdapter = [], sc_CosignKeyless =
     False, sc_SigningKeySecretRef = None\<rparr>"

record PipelineTemplateSpec =
  pts_ProjectRef :: string
  pts_Description :: string
  pts_Params :: "ParamSpec list"
  pts_Steps :: "PipelineStep list"
  pts_Build :: PipelineBuildSpec
  pts_Cache :: PipelineCacheSpec
  pts_Resources :: PipelineResourceSpec
  pts_Security :: PipelineSecuritySpec
  pts_SupplyChain :: PipelineSupplyChainSpec

definition PipelineTemplateSpec_zero :: PipelineTemplateSpec where
  "PipelineTemplateSpec_zero = \<lparr>pts_ProjectRef = [], pts_Description = [], pts_Params =
     [], pts_Steps = [], pts_Build = PipelineBuildSpec_zero, pts_Cache = PipelineCacheSpec_zero,
     pts_Resources = PipelineResourceSpec_zero, pts_Security = PipelineSecuritySpec_zero,
     pts_SupplyChain = PipelineSupplyChainSpec_zero\<rparr>"

record PipelineTemplateStatus =
  ptst_Phase :: PipelineTemplatePhase
  ptst_Conditions :: "Condition list"
  ptst_ObservedGeneration :: int

definition PipelineTemplateStatus_zero :: PipelineTemplateStatus where
  "PipelineTemplateStatus_zero = \<lparr>ptst_Phase = PipelineTemplatePhaseUnset,
     ptst_Conditions = [], ptst_ObservedGeneration = 0\<rparr>"

record PipelineTemplate =
  pt_Meta :: ObjectMeta
  pt_Spec :: PipelineTemplateSpec
  pt_Status :: PipelineTemplateStatus

definition PipelineTemplate_zero :: PipelineTemplate where
  "PipelineTemplate_zero = \<lparr>pt_Meta = ObjectMeta_zero, pt_Spec =
     PipelineTemplateSpec_zero, pt_Status = PipelineTemplateStatus_zero\<rparr>"


section \<open>Build runs\<close>

record TriggeredBy =
  trig_Type :: TriggerType
  trig_Actor :: string
  trig_EventID :: string

definition TriggeredBy_zero :: TriggeredBy where
  "TriggeredBy_zero = \<lparr>trig_Type = TriggerTypeUnset, trig_Actor = [], trig_EventID =
     []\<rparr>"

record ImageRef =
  img_Repository :: string
  img_Tag :: string
  img_Digest :: string

definition ImageRef_zero :: ImageRef where
  "ImageRef_zero = \<lparr>img_Repository = [], img_Tag = [], img_Digest = []\<rparr>"

record GitOpsKustomizeSpec =
  kz_KustomizationFile :: string
  kz_ImageName :: string

definition GitOpsKustomizeSpec_zero :: GitOpsKustomizeSpec where
  "GitOpsKustomizeSpec_zero = \<lparr>kz_KustomizationFile = [], kz_ImageName = []\<rparr>"

record GitOpsRawYAMLSpec =
  ry_Files :: "string list"
  ry_WorkloadKind :: string
  ry_WorkloadName :: string
  ry_ContainerName :: string

definition GitOpsRawYAMLSpec_zero :: GitOpsRawYAMLSpec where
  "GitOpsRawYAMLSpec_zero = \<lparr>ry_Files = [], ry_WorkloadKind = [], ry_WorkloadName = [],
     ry_ContainerName = []\<rparr>"

record BuildRunGitOpsSpec =
  bg_Enabled :: bool
  bg_RepoURL :: string
  bg_Branch :: string
  bg_Path :: string
  bg_ValuesFile :: string
  bg_ImageRepositoryField :: string
  bg_ImageTagField :: string
  bg_ImageDigestField :: string
  bg_Kustomize :: GitOpsKustomizeSpec
  bg_RawYAML :: GitOpsRawYAMLSpec
  bg_Strategy :: GitOpsStrategy
  bg_EnvironmentRef :: string

definition BuildRunGitOpsSpec_zero :: BuildRunGitOpsSpec where
  "BuildRunGitOpsSpec_zero = \<lparr>bg_Enabled = False, bg_RepoURL = [], bg_Branch = [],
     bg_Path = [], bg_ValuesFile = [], bg_ImageRepositoryField = [], bg_ImageTagField = [],
     bg_ImageDigestField = [], bg_Kustomize = GitOpsKustomizeSpec_zero, bg_RawYAML =
     GitOpsRawYAMLSpec_zero, bg_Strategy = GitOpsStrategyUnset, bg_EnvironmentRef = []\<rparr>"

record BuildRunSpec =
  brs_ProjectRef :: string
  brs_RepositoryRef :: string
  brs_PipelineTemplateRef :: string
  brs_Revision :: string
  brs_Branch :: string
  brs_CommitSHA :: string
  brs_TriggeredBy :: TriggeredBy
  brs_Image :: ImageRef
  brs_Params :: strmap
  brs_Executor :: ExecutorType
  brs_GitOps :: BuildRunGitOpsSpec

definition BuildRunSpec_zero :: BuildRunSpec where
  "BuildRunSpec_zero = \<lparr>brs_ProjectRef = [], brs_RepositoryRef = [],
     brs_PipelineTemplateRef = [], brs_Revision = [], brs_Branch = [], brs_CommitSHA = [],
     brs_TriggeredBy = TriggeredBy_zero, brs_Image = ImageRef_zero, brs_Params = Map.empty,
     brs_Executor = ExecutorTypeUnset, brs_GitOps = BuildRunGitOpsSpec_zero\<rparr>"

record ObjectRef =
  oref_Name :: string
  oref_Namespace :: string

definition ObjectRef_zero :: ObjectRef where
  "ObjectRef_zero = \<lparr>oref_Name = [], oref_Namespace = []\<rparr>"

record FailureStatus =
  fail_Reason :: string
  fail_Message :: string

definition FailureStatus_zero :: FailureStatus where
  "FailureStatus_zero = \<lparr>fail_Reason = [], fail_Message = []\<rparr>"

record BuildRunLogStatus =
  blog_Backend :: string
  blog_Ref :: string
  blog_PodName :: string
  blog_ContainerName :: string
  blog_LastLines :: "string list"

definition BuildRunLogStatus_zero :: BuildRunLogStatus where
  "BuildRunLogStatus_zero = \<lparr>blog_Backend = [], blog_Ref = [], blog_PodName = [],
     blog_ContainerName = [], blog_LastLines = []\<rparr>"

record BuildRunSupplyChainStatus =
  scs_SBOMPath :: string
  scs_SBOMDigest :: string
  scs_SignatureRef :: string
  scs_ProvenanceRef :: string
  scs_ScannerResultsRef :: string
  scs_CriticalVulnerabilities :: int
  scs_HighVulnerabilities :: int
  scs_MediumVulnerabilities :: int
  scs_LowVulnerabilities :: int

definition BuildRunSupplyChainStatus_zero :: BuildRunSupplyChainStatus where
  "BuildRunSupplyChainStatus_zero = \<lparr>scs_SBOMPath = [], scs_SBOMDigest = [],
     scs_SignatureRef = [], scs_ProvenanceRef = [], scs_ScannerResultsRef = [],
     scs_CriticalVulnerabilities = 0, scs_HighVulnerabilities = 0, scs_MediumVulnerabilities = 0,
     scs_LowVulnerabilities = 0\<rparr>"

record BuildRunArtifactStatus =
  art_Name :: string
  art_Path :: string
  art_Type :: string
  art_Size :: int
  art_Digest :: string
  art_Ref :: string
  art_CreatedAt :: "gotime option"

definition BuildRunArtifactStatus_zero :: BuildRunArtifactStatus where
  "BuildRunArtifactStatus_zero = \<lparr>art_Name = [], art_Path = [], art_Type = [], art_Size
     = 0, art_Digest = [], art_Ref = [], art_CreatedAt = None\<rparr>"

record PolicyViolationStatus =
  pv_Policy :: string
  pv_Severity :: string
  pv_Message :: string
  pv_FieldPath :: string

definition PolicyViolationStatus_zero :: PolicyViolationStatus where
  "PolicyViolationStatus_zero = \<lparr>pv_Policy = [], pv_Severity = [], pv_Message = [],
     pv_FieldPath = []\<rparr>"

record PolicyDecisionStatus =
  pd_Allowed :: bool
  pd_Reason :: string
  pd_Message :: string
  pd_EvaluatedAt :: "gotime option"
  pd_Violations :: "PolicyViolationStatus list"

definition PolicyDecisionStatus_zero :: PolicyDecisionStatus where
  "PolicyDecisionStatus_zero = \<lparr>pd_Allowed = False, pd_Reason = [], pd_Message = [],
     pd_EvaluatedAt = None, pd_Violations = []\<rparr>"

record BuildRunStatus =
  bst_Phase :: BuildRunPhase
  bst_Conditions :: "Condition list"
  bst_ObservedGeneration :: int
  bst_StartedAt :: "gotime option"
  bst_CompletedAt :: "gotime option"
  bst_JobRef :: ObjectRef
  bst_PipelineRunRef :: ObjectRef
  bst_Image :: "ImageRef option"
  bst_SupplyChain :: BuildRunSupplyChainStatus
  bst_Policy :: PolicyDecisionStatus
  bst_Failure :: FailureStatus
  bst_Log :: BuildRunLogStatus
  bst_Artifacts :: "BuildRunArtifactStatus list"

definition BuildRunStatus_zero :: BuildRunStatus where
  "BuildRunStatus_zero = \<lparr>bst_Phase = BuildRunPhaseUnset, bst_Conditions = [],
     bst_ObservedGeneration = 0, bst_StartedAt = None, bst_CompletedAt = None, bst_JobRef =
     ObjectRef_zero, bst_PipelineRunRef = ObjectRef_zero, bst_Image = None, bst_SupplyChain =
     BuildRunSupplyChainStatus_zero, bst_Policy = PolicyDecisionStatus_zero, bst_Failure =
     FailureStatus_zero, bst_Log = BuildRunLogStatus_zero, bst_Artifacts = []\<rparr>"

record BuildRun =
  br_Meta :: ObjectMeta
  br_Spec :: BuildRunSpec
  br_Status :: BuildRunStatus

definition BuildRun_zero :: BuildRun where
  "BuildRun_zero = \<lparr>br_Meta = ObjectMeta_zero, br_Spec = BuildRunSpec_zero, br_Status =
     BuildRunStatus_zero\<rparr>"


section \<open>Environments\<close>

record EnvironmentGitOpsSpec =
  eg_Provider :: GitOpsProvider
  eg_ApplicationName :: string
  eg_Namespace :: string
  eg_ResourceKind :: string

definition EnvironmentGitOpsSpec_zero :: EnvironmentGitOpsSpec where
  "EnvironmentGitOpsSpec_zero = \<lparr>eg_Provider = GitOpsProviderOther [],
     eg_ApplicationName = [], eg_Namespace = [], eg_ResourceKind = []\<rparr>"

record EnvironmentPolicySpec =
  ep_RequireImageDigest :: bool
  ep_AllowLatest :: bool
  ep_RequireSignedImages :: bool
  ep_RequireSBOM :: bool
  ep_BlockCriticalVulnerabilities :: bool
  ep_FailOnDegraded :: bool

definition EnvironmentPolicySpec_zero :: EnvironmentPolicySpec where
  "EnvironmentPolicySpec_zero = \<lparr>ep_RequireImageDigest = False, ep_AllowLatest = False,
     ep_RequireSignedImages = False, ep_RequireSBOM = False, ep_BlockCriticalVulnerabilities =
     False, ep_FailOnDegraded = False\<rparr>"

record EnvironmentSpec =
  es_ProjectRef :: string
  es_DisplayName :: string
  es_Namespace :: string
  es_Type :: EnvironmentType
  es_RequiresApproval :: bool
  es_GitOps :: EnvironmentGitOpsSpec
  es_Policy :: EnvironmentPolicySpec

definition EnvironmentSpec_zero :: EnvironmentSpec where
  "EnvironmentSpec_zero = \<lparr>es_ProjectRef = [], es_DisplayName = [], es_Namespace = [],
     es_Type = EnvironmentTypeUnset, es_RequiresApproval = False, es_GitOps =
     EnvironmentGitOpsSpec_zero, es_Policy = EnvironmentPolicySpec_zero\<rparr>"

record EnvironmentStatus =
  est_Phase :: EnvironmentPhase
  est_SyncStatus :: string
  est_HealthStatus :: string
  est_Conditions :: "Condition list"
  est_ObservedGeneration :: int

definition EnvironmentStatus_zero :: EnvironmentStatus where
  "EnvironmentStatus_zero = \<lparr>est_Phase = EnvironmentPhaseUnset, est_SyncStatus = [],
     est_HealthStatus = [], est_Conditions = [], est_ObservedGeneration = 0\<rparr>"

record Environment =
  env_Meta :: ObjectMeta
  env_Spec :: EnvironmentSpec
  env_Status :: EnvironmentStatus

definition Environment_zero :: Environment where
  "Environment_zero = \<lparr>env_Meta = ObjectMeta_zero, env_Spec = EnvironmentSpec_zero,
     env_Status = EnvironmentStatus_zero\<rparr>"


section \<open>Releases\<close>

record ReleaseApprovalSpec =
  ra_Required :: bool
  ra_ApprovedBy :: string
  ra_ApprovedAt :: "gotime option"
  ra_RejectedBy :: string
  ra_RejectedAt :: "gotime option"
  ra_Comment :: string

definition ReleaseApprovalSpec_zero :: ReleaseApprovalSpec where
  "ReleaseApprovalSpec_zero = \<lparr>ra_Required = False, ra_ApprovedBy = [], ra_ApprovedAt =
     None, ra_RejectedBy = [], ra_RejectedAt = None, ra_Comment = []\<rparr>"

record PullRequestSpec =
  prq_TitleTemplate :: string
  prq_BodyTemplate :: string
  prq_TargetBranch :: string
  prq_Reviewers :: "string list"
  prq_Labels :: "string list"

definition PullRequestSpec_zero :: PullRequestSpec where
  "PullRequestSpec_zero = \<lparr>prq_TitleTemplate = [], prq_BodyTemplate = [],
     prq_TargetBranch = [], prq_Reviewers = [], prq_Labels = []\<rparr>"

record ReleaseSpec =
  rls_ProjectRef :: string
  rls_EnvironmentRef :: string
  rls_BuildRunRef :: string
  rls_Image :: ImageRef
  rls_Approval :: ReleaseApprovalSpec
  rls_Strategy :: ReleaseStrategy
  rls_PromotionMode :: PromotionMode
  rls_PullRequest :: PullRequestSpec
  rls_DeploymentTimeout :: duration
  rls_PromotedFrom :: string
  rls_RollbackOf :: string
  rls_RollbackTo :: string

definition ReleaseSpec_zero :: ReleaseSpec where
  "ReleaseSpec_zero = \<lparr>rls_ProjectRef = [], rls_EnvironmentRef = [], rls_BuildRunRef =
     [], rls_Image = ImageRef_zero, rls_Approval = ReleaseApprovalSpec_zero, rls_Strategy =
     ReleaseStrategyUnset, rls_PromotionMode = PromotionModeUnset, rls_PullRequest =
     PullRequestSpec_zero, rls_DeploymentTimeout = 0, rls_PromotedFrom = [], rls_RollbackOf = [],
     rls_RollbackTo = []\<rparr>"

record ReleaseDeploymentStatus =
  rd_Provider :: string
  rd_ApplicationName :: string
  rd_SyncStatus :: string
  rd_HealthStatus :: string
  rd_OperationPhase :: string
  rd_ObservedRevision :: string
  rd_ObservedAt :: string

definition ReleaseDeploymentStatus_zero :: ReleaseDeploymentStatus where
  "ReleaseDeploymentStatus_zero = \<lparr>rd_Provider = [], rd_ApplicationName = [],
     rd_SyncStatus = [], rd_HealthStatus = [], rd_OperationPhase = [], rd_ObservedRevision = [],
     rd_ObservedAt = []\<rparr>"

record ReleaseApprovalStatus =
  ras_ApprovedBy :: string
  ras_ApprovedAt :: "gotime option"
  ras_RejectedBy :: string
  ras_RejectedAt :: "gotime option"

definition ReleaseApprovalStatus_zero :: ReleaseApprovalStatus where
  "ReleaseApprovalStatus_zero = \<lparr>ras_ApprovedBy = [], ras_ApprovedAt = None,
     ras_RejectedBy = [], ras_RejectedAt = None\<rparr>"

record PullRequestStatus =
  pst_Provider :: string
  pst_URL :: string
  pst_Reference :: string
  pst_HeadBranch :: string
  pst_TargetBranch :: string
  pst_MergeStatus :: string

definition PullRequestStatus_zero :: PullRequestStatus where
  "PullRequestStatus_zero = \<lparr>pst_Provider = [], pst_URL = [], pst_Reference = [],
     pst_HeadBranch = [], pst_TargetBranch = [], pst_MergeStatus = []\<rparr>"

record ReleaseStatus =
  rlst_Phase :: ReleasePhase
  rlst_Conditions :: "Condition list"
  rlst_ObservedGeneration :: int
  rlst_StartedAt :: "gotime option"
  rlst_CompletedAt :: "gotime option"
  rlst_GitCommit :: string
  rlst_Deployment :: ReleaseDeploymentStatus
  rlst_Approval :: ReleaseApprovalStatus
  rlst_PullRequest :: PullRequestStatus
  rlst_Policy :: PolicyDecisionStatus
  rlst_Failure :: FailureStatus

definition ReleaseStatus_zero :: ReleaseStatus where
  "ReleaseStatus_zero = \<lparr>rlst_Phase = ReleasePhaseUnset, rlst_Conditions = [],
     rlst_ObservedGeneration = 0, rlst_StartedAt = None, rlst_CompletedAt = None, rlst_GitCommit
     = [], rlst_Deployment = ReleaseDeploymentStatus_zero, rlst_Approval =
     ReleaseApprovalStatus_zero, rlst_PullRequest = PullRequestStatus_zero, rlst_Policy =
     PolicyDecisionStatus_zero, rlst_Failure = FailureStatus_zero\<rparr>"

record Release =
  rel_Meta :: ObjectMeta
  rel_Spec :: ReleaseSpec
  rel_Status :: ReleaseStatus

definition Release_zero :: Release where
  "Release_zero = \<lparr>rel_Meta = ObjectMeta_zero, rel_Spec = ReleaseSpec_zero, rel_Status
     = ReleaseStatus_zero\<rparr>"


section \<open>Cluster targets\<close>

record ClusterTargetSpec =
  cts_DisplayName :: string
  cts_KubeconfigSecretRef :: "SecretKeyRef option"
  cts_Context :: string
  cts_Type :: ClusterTargetType
  cts_DefaultNamespace :: string
  cts_Labels :: strmap

definition ClusterTargetSpec_zero :: ClusterTargetSpec where
  "ClusterTargetSpec_zero = \<lparr>cts_DisplayName = [], cts_KubeconfigSecretRef = None,
     cts_Context = [], cts_Type = ClusterTargetTypeUnset, cts_DefaultNamespace = [], cts_Labels =
     Map.empty\<rparr>"

record ClusterTargetStatus =
  ctst_Phase :: ClusterTargetPhase
  ctst_Version :: string
  ctst_Reachable :: bool
  ctst_Conditions :: "Condition list"
  ctst_ObservedGeneration :: int

definition ClusterTargetStatus_zero :: ClusterTargetStatus where
  "ClusterTargetStatus_zero = \<lparr>ctst_Phase = ClusterTargetPhaseUnset, ctst_Version = [],
     ctst_Reachable = False, ctst_Conditions = [], ctst_ObservedGeneration = 0\<rparr>"

record ClusterTarget =
  ct_Meta :: ObjectMeta
  ct_Spec :: ClusterTargetSpec
  ct_Status :: ClusterTargetStatus

definition ClusterTarget_zero :: ClusterTarget where
  "ClusterTarget_zero = \<lparr>ct_Meta = ObjectMeta_zero, ct_Spec = ClusterTargetSpec_zero,
     ct_Status = ClusterTargetStatus_zero\<rparr>"

text \<open>The zero values, for evaluating closed examples.\<close>

lemmas zero_defs =
  ObjectMeta_zero_def SecretKeyRef_zero_def RequiredSecretKeyRef_zero_def ProjectIsolation_zero_def
  ProjectRegistrySpec_zero_def ProjectImageTagPolicySpec_zero_def ProjectQuotaSpec_zero_def
  NotificationFilters_zero_def ProjectNotificationSpec_zero_def ProjectSpec_zero_def
  ProjectStatus_zero_def Project_zero_def RepositoryRefFilters_zero_def
  RepositoryPullRequestFilters_zero_def RepositoryWebhook_zero_def RepositorySpec_zero_def
  RepositoryStatus_zero_def Repository_zero_def ParamSpec_zero_def
  PipelineArtifactSpec_zero_def PipelineStep_zero_def PipelineBuildCacheSpec_zero_def
  PipelineBuildSpec_zero_def PipelineCacheSpec_zero_def PipelineResourceSpec_zero_def
  PipelineSecuritySpec_zero_def PipelineSupplyChainSpec_zero_def
  PipelineTemplateSpec_zero_def PipelineTemplateStatus_zero_def PipelineTemplate_zero_def
  TriggeredBy_zero_def ImageRef_zero_def GitOpsKustomizeSpec_zero_def
  GitOpsRawYAMLSpec_zero_def BuildRunGitOpsSpec_zero_def BuildRunSpec_zero_def
  ObjectRef_zero_def FailureStatus_zero_def BuildRunLogStatus_zero_def
  BuildRunSupplyChainStatus_zero_def BuildRunArtifactStatus_zero_def
  PolicyViolationStatus_zero_def PolicyDecisionStatus_zero_def BuildRunStatus_zero_def
  BuildRun_zero_def EnvironmentGitOpsSpec_zero_def EnvironmentPolicySpec_zero_def
  EnvironmentSpec_zero_def EnvironmentStatus_zero_def Environment_zero_def
  ReleaseApprovalSpec_zero_def PullRequestSpec_zero_def ReleaseSpec_zero_def
  ReleaseDeploymentStatus_zero_def ReleaseApprovalStatus_zero_def PullRequestStatus_zero_def
  ReleaseStatus_zero_def Release_zero_def ClusterTargetSpec_zero_def
  ClusterTargetStatus_zero_def ClusterTarget_zero_def

end
