(* ===== verification/DomainStatus.thy ===== *)
theory DomainStatus
  imports ApiTypes
begin

text \<open>
  \<open>internal/domain/status.go\<close>: status conditions and the phase machine of a BuildRun. The
  condition list is proved to refine a map from condition types to conditions; the three
  \<open>Mark...\<close> operations form a step relation whose invariant ties phase, time stamps, failure
  and conditions together.
\<close>

section \<open>Conditions\<close>

definition ConditionReady :: string where "ConditionReady = ''Ready''"
definition ConditionRunning :: string where "ConditionRunning = ''Running''"
definition ConditionSucceeded :: string where "ConditionSucceeded = ''Succeeded''"
definition ConditionFailed :: string where "ConditionFailed = ''Failed''"

lemmas condition_types = ConditionReady_def ConditionRunning_def ConditionSucceeded_def ConditionFailed_def

fun metaSetStatusCondition :: "Condition list \<Rightarrow> Condition \<Rightarrow> Condition list" where
  "metaSetStatusCondition [] c = [c]"
| "metaSetStatusCondition (d # ds) c =
     (if c_Type d = c_Type c
      then (if c_Status d = c_Status c \<and> \<not> IsZero (c_LastTransitionTime d)
            then c\<lparr>c_LastTransitionTime := c_LastTransitionTime d\<rparr> else c) # ds
      else d # metaSetStatusCondition ds c)"

text \<open>\<open>now\<close> is the clock, read only for a condition that carries no transition time.\<close>

definition SetCondition :: "gotime \<Rightarrow> Condition list \<Rightarrow> Condition \<Rightarrow> Condition list" where
  "SetCondition now cs c =
     metaSetStatusCondition cs
       (if IsZero (c_LastTransitionTime c) then c\<lparr>c_LastTransitionTime := now\<rparr> else c)"

definition findCondition :: "Condition list \<Rightarrow> string \<Rightarrow> ConditionStatus \<Rightarrow> Condition option" where
  "findCondition cs ty st = find (\<lambda>c. c_Type c = ty \<and> c_Status c = st) cs"

definition PhaseFromConditions :: "Condition list \<Rightarrow> string \<Rightarrow> string \<Rightarrow> string \<Rightarrow> string" where
  "PhaseFromConditions cs pendingPhase readyPhase errorPhase =
     (if findCondition cs ConditionFailed ConditionTrue \<noteq> None then errorPhase
      else if findCondition cs ConditionReady ConditionTrue \<noteq> None then readyPhase
      else pendingPhase)"

text \<open>The abstraction of a condition list: the first condition of each type.\<close>

definition cond_of :: "Condition list \<Rightarrow> string \<Rightarrow> Condition option" where
  "cond_of cs ty = find (\<lambda>c. c_Type c = ty) cs"

definition types_distinct :: "Condition list \<Rightarrow> bool" where
  "types_distinct cs = distinct (map c_Type cs)"

text \<open>What \<open>SetCondition\<close> stores: the given condition, with the time of the last change of status.\<close>

definition stamped :: "gotime \<Rightarrow> Condition option \<Rightarrow> Condition \<Rightarrow> Condition" where
  "stamped now old c =
     (let c' = (if IsZero (c_LastTransitionTime c) then c\<lparr>c_LastTransitionTime := now\<rparr> else c)
      in case old of
           None \<Rightarrow> c'
         | Some d \<Rightarrow>
             if c_Status d = c_Status c \<and> \<not> IsZero (c_LastTransitionTime d)
             then c\<lparr>c_LastTransitionTime := c_LastTransitionTime d\<rparr> else c')"

lemma cond_of_Nil [cond_simps]: "cond_of [] ty = None"
  by (simp add: cond_of_def)

lemma cond_of_Cons [cond_simps]:
  "cond_of (c # cs) ty = (if c_Type c = ty then Some c else cond_of cs ty)"
  by (simp add: cond_of_def)

lemma cond_of_Some_type: "cond_of cs ty = Some c \<Longrightarrow> c_Type c = ty"
  by (induction cs) (auto simp: cond_simps split: if_splits)

lemma cond_of_None: "cond_of cs ty = None \<longleftrightarrow> ty \<notin> c_Type ` set cs"
  by (induction cs) (auto simp: cond_simps)

lemma cond_of_metaSet:
  "cond_of (metaSetStatusCondition cs c) ty =
     (if ty = c_Type c
      then Some (case cond_of cs ty of
             None \<Rightarrow> c
           | Some d \<Rightarrow> if c_Status d = c_Status c \<and> \<not> IsZero (c_LastTransitionTime d)
                       then c\<lparr>c_LastTransitionTime := c_LastTransitionTime d\<rparr> else c)
      else cond_of cs ty)"
  by (induction cs) (auto simp: cond_simps)

lemma cond_of_SetCondition:
  "cond_of (SetCondition now cs c) ty =
     (if ty = c_Type c then Some (stamped now (cond_of cs ty) c) else cond_of cs ty)"
proof (cases "IsZero (c_LastTransitionTime c)")
  case True
  then show ?thesis
    by (cases "cond_of cs ty") (auto simp: SetCondition_def cond_of_metaSet stamped_def)
next
  case False
  then show ?thesis
    by (cases "cond_of cs ty") (auto simp: SetCondition_def cond_of_metaSet stamped_def)
qed

lemma stamped_fields [simp]:
  "c_Type (stamped now old c) = c_Type c"
  "c_Status (stamped now old c) = c_Status c"
  "c_Reason (stamped now old c) = c_Reason c"
  "c_Message (stamped now old c) = c_Message c"
  "c_ObservedGeneration (stamped now old c) = c_ObservedGeneration c"
  by (auto simp: stamped_def Let_def split: option.split)

lemma types_metaSet:
  "map c_Type (metaSetStatusCondition cs c) =
     (if c_Type c \<in> c_Type ` set cs then map c_Type cs else map c_Type cs @ [c_Type c])"
  by (induction cs) auto

lemma types_distinct_SetCondition:
  "types_distinct cs \<Longrightarrow> types_distinct (SetCondition now cs c)"
  by (auto simp: types_distinct_def SetCondition_def types_metaSet)

lemma findCondition_cond_of:
  assumes "types_distinct cs"
  shows "findCondition cs ty st = (case cond_of cs ty of
           Some c \<Rightarrow> if c_Status c = st then Some c else None | None \<Rightarrow> None)"
  using assms
proof (induction cs)
  case Nil
  show ?case by (simp add: findCondition_def cond_simps)
next
  case (Cons d ds)
  then have IH: "findCondition ds ty st = (case cond_of ds ty of
      Some c \<Rightarrow> if c_Status c = st then Some c else None | None \<Rightarrow> None)"
    and new: "c_Type d \<notin> c_Type ` set ds"
    by (auto simp: types_distinct_def)
  show ?case
  proof (cases "c_Type d = ty")
    case True
    with new have "cond_of ds ty = None" by (simp add: cond_of_None)
    with True IH show ?thesis by (auto simp: findCondition_def cond_simps)
  next
    case False
    with IH show ?thesis by (simp add: findCondition_def cond_simps)
  qed
qed

text \<open>
  the condition list of a status is a map from condition types to conditions, and
  \<open>SetCondition\<close> is the update of that map at the condition's type: the stored condition is the
  given one, with the earlier transition time when its status did not change, every other type
  keeps its condition, and the types in the list are the old ones, in their order, with the new
  type last when it was not there.
\<close>

theorem SetCondition_refines_update:
  "cond_of (SetCondition now cs c) = (cond_of cs)(c_Type c \<mapsto> stamped now (cond_of cs (c_Type c)) c)
   \<and> map c_Type (SetCondition now cs c) =
       (if c_Type c \<in> set (map c_Type cs) then map c_Type cs else map c_Type cs @ [c_Type c])"
proof
  show "cond_of (SetCondition now cs c) =
      (cond_of cs)(c_Type c \<mapsto> stamped now (cond_of cs (c_Type c)) c)"
    by (rule ext) (simp add: cond_of_SetCondition)
qed (simp add: SetCondition_def types_metaSet)

text \<open>The condition with which the reconcilers build most updates.\<close>

definition mk_condition ::
  "string \<Rightarrow> ConditionStatus \<Rightarrow> int \<Rightarrow> string \<Rightarrow> string \<Rightarrow> gotime \<Rightarrow> Condition" where
  "mk_condition ty st gen reason message time =
     \<lparr>c_Type = ty, c_Status = st, c_ObservedGeneration = gen, c_LastTransitionTime = time,
      c_Reason = reason, c_Message = message\<rparr>"

lemma mk_condition_fields [simp]:
  "c_Type (mk_condition ty st gen reason message time) = ty"
  "c_Status (mk_condition ty st gen reason message time) = st"
  "c_Reason (mk_condition ty st gen reason message time) = reason"
  "c_Message (mk_condition ty st gen reason message time) = message"
  "c_ObservedGeneration (mk_condition ty st gen reason message time) = gen"
  "c_LastTransitionTime (mk_condition ty st gen reason message time) = time"
  by (simp_all add: mk_condition_def)


section \<open>The BuildRun phase machine\<close>

fun allowed_transitions :: "BuildRunPhase \<Rightarrow> BuildRunPhase list" where
  "allowed_transitions BuildRunPhaseUnset =
     [BuildRunPhasePending, BuildRunPhaseQueued, BuildRunPhaseRunning, BuildRunPhaseSucceeded,
      BuildRunPhaseFailed]"
| "allowed_transitions BuildRunPhasePending =
     [BuildRunPhaseQueued, BuildRunPhaseRunning, BuildRunPhaseSucceeded, BuildRunPhaseCancelled,
      BuildRunPhaseFailed]"
| "allowed_transitions BuildRunPhaseQueued =
     [BuildRunPhaseRunning, BuildRunPhaseSucceeded, BuildRunPhaseCancelled, BuildRunPhaseFailed]"
| "allowed_transitions BuildRunPhaseRunning =
     [BuildRunPhaseSucceeded, BuildRunPhaseFailed, BuildRunPhaseCancelled]"
| "allowed_transitions _ = []"

text \<open>\<open>None\<close> is Go's nil error.\<close>

definition ValidateBuildRunPhaseTransition ::
  "BuildRunPhase \<Rightarrow> BuildRunPhase \<Rightarrow> go_error option" where
  "ValidateBuildRunPhaseTransition from to_phase =
     (if from = to_phase then None
      else if to_phase \<in> set (allowed_transitions from) then None
      else Some (errors_New (''invalid BuildRun phase transition from '' @
             quote (BuildRunPhase_string from) @ '' to '' @ quote (BuildRunPhase_string to_phase))))"

definition br_generation :: "BuildRun \<Rightarrow> int" where
  "br_generation b = meta_Generation (br_Meta b)"

definition MarkBuildRunStarted :: "BuildRun \<Rightarrow> gotime \<Rightarrow> BuildRun result" where
  "MarkBuildRunStarted b now =
     (case ValidateBuildRunPhaseTransition (bst_Phase (br_Status b)) BuildRunPhaseRunning of
        Some err \<Rightarrow> Inl err
      | None \<Rightarrow>
          let st = br_Status b in
          Inr (b\<lparr>br_Status := st\<lparr>
            bst_Phase := BuildRunPhaseRunning,
            bst_ObservedGeneration := br_generation b,
            bst_StartedAt := (if bst_StartedAt st = None then Some now else bst_StartedAt st),
            bst_Conditions := SetCondition now (bst_Conditions st)
              (mk_condition ConditionRunning ConditionTrue (br_generation b)
                 ''BuildRunStarted'' ''BuildRun execution has started.'' now)\<rparr>\<rparr>))"

definition MarkBuildRunSucceeded :: "BuildRun \<Rightarrow> gotime \<Rightarrow> ImageRef \<Rightarrow> BuildRun result" where
  "MarkBuildRunSucceeded b now img =
     (case ValidateBuildRunPhaseTransition (bst_Phase (br_Status b)) BuildRunPhaseSucceeded of
        Some err \<Rightarrow> Inl err
      | None \<Rightarrow>
          let st = br_Status b;
              cs = SetCondition now (bst_Conditions st)
                (mk_condition ConditionSucceeded ConditionTrue (br_generation b)
                   ''BuildRunSucceeded'' ''BuildRun completed successfully.'' now)
          in Inr (b\<lparr>br_Status := st\<lparr>
            bst_Phase := BuildRunPhaseSucceeded,
            bst_ObservedGeneration := br_generation b,
            bst_CompletedAt := Some now,
            bst_Image := Some img,
            bst_Failure := FailureStatus_zero,
            bst_Conditions := SetCondition now cs
              (mk_condition ConditionRunning ConditionFalse (br_generation b)
                 ''BuildRunCompleted'' ''BuildRun is no longer running.'' now)\<rparr>\<rparr>))"

definition MarkBuildRunFailed :: "BuildRun \<Rightarrow> gotime \<Rightarrow> string \<Rightarrow> string \<Rightarrow> BuildRun result" where
  "MarkBuildRunFailed b now reason message =
     (case ValidateBuildRunPhaseTransition (bst_Phase (br_Status b)) BuildRunPhaseFailed of
        Some err \<Rightarrow> Inl err
      | None \<Rightarrow>
          let st = br_Status b;
              cs = SetCondition now (bst_Conditions st)
                (mk_condition ConditionFailed ConditionTrue (br_generation b) reason message now)
          in Inr (b\<lparr>br_Status := st\<lparr>
            bst_Phase := BuildRunPhaseFailed,
            bst_ObservedGeneration := br_generation b,
            bst_CompletedAt := Some now,
            bst_Failure := \<lparr>fail_Reason = reason, fail_Message = message\<rparr>,
            bst_Conditions := SetCondition now cs
              (mk_condition ConditionRunning ConditionFalse (br_generation b)
                 ''BuildRunCompleted'' ''BuildRun is no longer running.'' now)\<rparr>\<rparr>))"

lemmas Mark_defs =
  MarkBuildRunStarted_def MarkBuildRunSucceeded_def MarkBuildRunFailed_def

fun isTerminalBuildRunPhase :: "BuildRunPhase \<Rightarrow> bool" where
  "isTerminalBuildRunPhase phase =
     (phase = BuildRunPhaseSucceeded \<or> phase = BuildRunPhaseFailed \<or> phase = BuildRunPhaseCancelled)"

lemma validate_terminal:
  "isTerminalBuildRunPhase p \<Longrightarrow> ValidateBuildRunPhaseTransition p q = None \<longleftrightarrow> p = q"
  by (cases p) (auto simp: ValidateBuildRunPhaseTransition_def)

section \<open>Runs of the phase machine\<close>

text \<open>
  One step of the domain: a successful call of one of the three operations, at any time and with
  any arguments. \<open>mark_reachable\<close> are the BuildRuns that such calls can produce from one that was
  accepted but not started.
\<close>

inductive mark_step :: "BuildRun \<Rightarrow> BuildRun \<Rightarrow> bool" where
  started: "MarkBuildRunStarted b now = Inr b' \<Longrightarrow> mark_step b b'"
| succeeded: "MarkBuildRunSucceeded b now img = Inr b' \<Longrightarrow> mark_step b b'"
| failed: "MarkBuildRunFailed b now reason message = Inr b' \<Longrightarrow> mark_step b b'"

inductive_cases mark_stepE: "mark_step b b'"

definition mark_initial :: "BuildRun \<Rightarrow> bool" where
  "mark_initial b =
     (bst_Phase (br_Status b) \<in> {BuildRunPhaseUnset, BuildRunPhasePending, BuildRunPhaseQueued}
      \<and> bst_Conditions (br_Status b) = [] \<and> bst_StartedAt (br_Status b) = None
      \<and> bst_CompletedAt (br_Status b) = None)"

inductive mark_reachable :: "BuildRun \<Rightarrow> bool" where
  initial: "mark_initial b \<Longrightarrow> mark_reachable b"
| step: "mark_reachable b \<Longrightarrow> mark_step b b' \<Longrightarrow> mark_reachable b'"

text \<open>\<open>cond_is b ty st\<close>: the condition \<open>ty\<close> of \<open>b\<close> is present with status \<open>st\<close>.\<close>

definition cond_is :: "BuildRun \<Rightarrow> string \<Rightarrow> ConditionStatus \<Rightarrow> bool" where
  "cond_is b ty st = (map_option c_Status (cond_of (bst_Conditions (br_Status b)) ty) = Some st)"

definition mark_inv :: "BuildRun \<Rightarrow> bool" where
  "mark_inv b = (let st = br_Status b in
     types_distinct (bst_Conditions st)
     \<and> (bst_Phase st = BuildRunPhaseRunning \<longrightarrow>
          bst_StartedAt st \<noteq> None \<and> cond_is b ConditionRunning ConditionTrue)
     \<and> (bst_CompletedAt st \<noteq> None \<longleftrightarrow> bst_Phase st \<in> {BuildRunPhaseSucceeded, BuildRunPhaseFailed})
     \<and> (bst_CompletedAt st \<noteq> None \<longrightarrow> cond_is b ConditionRunning ConditionFalse)
     \<and> (cond_is b ConditionSucceeded ConditionTrue \<longleftrightarrow> bst_Phase st = BuildRunPhaseSucceeded)
     \<and> (cond_is b ConditionFailed ConditionTrue \<longleftrightarrow> bst_Phase st = BuildRunPhaseFailed)
     \<and> (bst_Phase st = BuildRunPhaseSucceeded \<longrightarrow> bst_Failure st = FailureStatus_zero)
     \<and> (bst_Phase st = BuildRunPhaseFailed \<longrightarrow>
          map_option c_Reason (cond_of (bst_Conditions st) ConditionFailed)
            = Some (fail_Reason (bst_Failure st))))"

lemma mark_inv_initial: "mark_initial b \<Longrightarrow> mark_inv b"
  by (auto simp: mark_initial_def mark_inv_def cond_is_def cond_simps types_distinct_def Let_def)

lemma validate_Some_allowed:
  "ValidateBuildRunPhaseTransition p q = None \<Longrightarrow> p = q \<or> q \<in> set (allowed_transitions p)"
  by (auto simp: ValidateBuildRunPhaseTransition_def split: if_splits)

lemma validate_phase:
  "ValidateBuildRunPhaseTransition p BuildRunPhaseRunning = None \<Longrightarrow>
   p \<noteq> BuildRunPhaseSucceeded \<and> p \<noteq> BuildRunPhaseFailed"
  "ValidateBuildRunPhaseTransition p BuildRunPhaseSucceeded = None \<Longrightarrow> p \<noteq> BuildRunPhaseFailed"
  "ValidateBuildRunPhaseTransition p BuildRunPhaseFailed = None \<Longrightarrow> p \<noteq> BuildRunPhaseSucceeded"
  by (auto simp: ValidateBuildRunPhaseTransition_def)

text \<open>What each operation makes of the fields and conditions that the invariant speaks of.\<close>

lemma started_effect:
  assumes "MarkBuildRunStarted b now = Inr b'"
  shows "bst_Phase (br_Status b) \<noteq> BuildRunPhaseSucceeded" "bst_Phase (br_Status b) \<noteq> BuildRunPhaseFailed"
    and "bst_Phase (br_Status b') = BuildRunPhaseRunning"
    and "bst_StartedAt (br_Status b') =
      Some (case bst_StartedAt (br_Status b) of None \<Rightarrow> now | Some t \<Rightarrow> t)"
    and "bst_CompletedAt (br_Status b') = bst_CompletedAt (br_Status b)"
    and "types_distinct (bst_Conditions (br_Status b)) \<Longrightarrow> types_distinct (bst_Conditions (br_Status b'))"
    and "cond_is b' ty s = (if ty = ConditionRunning then s = ConditionTrue else cond_is b ty s)"
proof -
  from assms have v: "ValidateBuildRunPhaseTransition (bst_Phase (br_Status b)) BuildRunPhaseRunning = None"
    by (simp add: MarkBuildRunStarted_def split: option.splits)
  from validate_phase(1) [OF v]
  show "bst_Phase (br_Status b) \<noteq> BuildRunPhaseSucceeded" "bst_Phase (br_Status b) \<noteq> BuildRunPhaseFailed"
    by auto
  note b' = assms [unfolded MarkBuildRunStarted_def v option.case Let_def sum.inject, symmetric]
  show "bst_Phase (br_Status b') = BuildRunPhaseRunning"
    and "bst_StartedAt (br_Status b') =
      Some (case bst_StartedAt (br_Status b) of None \<Rightarrow> now | Some t \<Rightarrow> t)"
    and "bst_CompletedAt (br_Status b') = bst_CompletedAt (br_Status b)"
    and "types_distinct (bst_Conditions (br_Status b)) \<Longrightarrow> types_distinct (bst_Conditions (br_Status b'))"
    by (simp_all add: b' types_distinct_SetCondition split: option.split)
  show "cond_is b' ty s = (if ty = ConditionRunning then s = ConditionTrue else cond_is b ty s)"
    by (auto simp: b' cond_is_def cond_of_SetCondition)
qed

lemma succeeded_effect:
  assumes "MarkBuildRunSucceeded b now img = Inr b'"
  shows "bst_Phase (br_Status b) \<noteq> BuildRunPhaseFailed"
    and "bst_Phase (br_Status b') = BuildRunPhaseSucceeded"
    and "bst_CompletedAt (br_Status b') = Some now"
    and "bst_Failure (br_Status b') = FailureStatus_zero"
    and "bst_Image (br_Status b') = Some img"
    and "types_distinct (bst_Conditions (br_Status b)) \<Longrightarrow> types_distinct (bst_Conditions (br_Status b'))"
    and "cond_is b' ty s = (if ty = ConditionRunning then s = ConditionFalse
           else if ty = ConditionSucceeded then s = ConditionTrue else cond_is b ty s)"
proof -
  from assms have v: "ValidateBuildRunPhaseTransition (bst_Phase (br_Status b)) BuildRunPhaseSucceeded = None"
    by (simp add: MarkBuildRunSucceeded_def split: option.splits)
  from validate_phase(2) [OF v] show "bst_Phase (br_Status b) \<noteq> BuildRunPhaseFailed" .
  note b' = assms [unfolded MarkBuildRunSucceeded_def v option.case Let_def sum.inject, symmetric]
  show "bst_Phase (br_Status b') = BuildRunPhaseSucceeded"
    and "bst_CompletedAt (br_Status b') = Some now"
    and "bst_Failure (br_Status b') = FailureStatus_zero"
    and "bst_Image (br_Status b') = Some img"
    and "types_distinct (bst_Conditions (br_Status b)) \<Longrightarrow> types_distinct (bst_Conditions (br_Status b'))"
    by (simp_all add: b' types_distinct_SetCondition)
  show "cond_is b' ty s = (if ty = ConditionRunning then s = ConditionFalse
           else if ty = ConditionSucceeded then s = ConditionTrue else cond_is b ty s)"
    by (auto simp: b' cond_is_def cond_of_SetCondition)
qed

lemma failed_effect:
  assumes "MarkBuildRunFailed b now reason message = Inr b'"
  shows "bst_Phase (br_Status b) \<noteq> BuildRunPhaseSucceeded"
    and "bst_Phase (br_Status b') = BuildRunPhaseFailed"
    and "bst_CompletedAt (br_Status b') = Some now"
    and "bst_Failure (br_Status b') = \<lparr>fail_Reason = reason, fail_Message = message\<rparr>"
    and "map_option c_Reason (cond_of (bst_Conditions (br_Status b')) ConditionFailed) = Some reason"
    and "types_distinct (bst_Conditions (br_Status b)) \<Longrightarrow> types_distinct (bst_Conditions (br_Status b'))"
    and "cond_is b' ty s = (if ty = ConditionRunning then s = ConditionFalse
           else if ty = ConditionFailed then s = ConditionTrue else cond_is b ty s)"
proof -
  from assms have v: "ValidateBuildRunPhaseTransition (bst_Phase (br_Status b)) BuildRunPhaseFailed = None"
    by (simp add: MarkBuildRunFailed_def split: option.splits)
  from validate_phase(3) [OF v] show "bst_Phase (br_Status b) \<noteq> BuildRunPhaseSucceeded" .
  note b' = assms [unfolded MarkBuildRunFailed_def v option.case Let_def sum.inject, symmetric]
  show "bst_Phase (br_Status b') = BuildRunPhaseFailed"
    and "bst_CompletedAt (br_Status b') = Some now"
    and "bst_Failure (br_Status b') = \<lparr>fail_Reason = reason, fail_Message = message\<rparr>"
    and "types_distinct (bst_Conditions (br_Status b)) \<Longrightarrow> types_distinct (bst_Conditions (br_Status b'))"
    by (simp_all add: b' types_distinct_SetCondition)
  show "map_option c_Reason (cond_of (bst_Conditions (br_Status b')) ConditionFailed) = Some reason"
    by (simp add: b' cond_of_SetCondition condition_types)
  show "cond_is b' ty s = (if ty = ConditionRunning then s = ConditionFalse
           else if ty = ConditionFailed then s = ConditionTrue else cond_is b ty s)"
    by (auto simp: b' cond_is_def cond_of_SetCondition)
qed

lemma mark_started_inv: "MarkBuildRunStarted b now = Inr b' \<Longrightarrow> mark_inv b \<Longrightarrow> mark_inv b'"
  by (frule started_effect(1), frule started_effect(2),
    simp add: mark_inv_def Let_def started_effect condition_types)

lemma mark_succeeded_inv: "MarkBuildRunSucceeded b now img = Inr b' \<Longrightarrow> mark_inv b \<Longrightarrow> mark_inv b'"
  by (frule succeeded_effect(1)) (simp add: mark_inv_def Let_def succeeded_effect condition_types)

lemma mark_failed_inv: "MarkBuildRunFailed b now reason message = Inr b' \<Longrightarrow> mark_inv b \<Longrightarrow> mark_inv b'"
  by (frule failed_effect(1); frule failed_effect(5))
    (simp add: mark_inv_def Let_def failed_effect condition_types)

lemma mark_step_inv: "mark_step b b' \<Longrightarrow> mark_inv b \<Longrightarrow> mark_inv b'"
  by (induction rule: mark_step.induct)
    (blast intro: mark_started_inv mark_succeeded_inv mark_failed_inv)+

lemma mark_reachable_inv: "mark_reachable b \<Longrightarrow> mark_inv b"
  by (induction rule: mark_reachable.induct) (blast intro: mark_inv_initial mark_step_inv)+

lemma mark_step_phase:
  "mark_step b b' \<Longrightarrow>
   ValidateBuildRunPhaseTransition (bst_Phase (br_Status b)) (bst_Phase (br_Status b')) = None"
  by (erule mark_stepE) (auto simp: Mark_defs Let_def split: option.splits)

lemma mark_step_started:
  "mark_step b b' \<Longrightarrow> bst_StartedAt (br_Status b) = Some t \<Longrightarrow> bst_StartedAt (br_Status b') = Some t"
  by (erule mark_stepE) (auto simp: Mark_defs Let_def split: option.splits)

text \<open>
  C18: whatever sequence of started, succeeded and failed marks a BuildRun goes through, its status
  stays consistent: it has a completion time exactly in the phases Succeeded and Failed, a start
  time whenever it is Running, the Succeeded and Failed conditions are true exactly in those phases
  (so never both), a completed run is no longer marked running, and the Failed condition carries
  the reason of the recorded failure.
\<close>

theorem mark_reachable_consistent:
  assumes "mark_reachable b"
  shows "mark_inv b"
  using assms by (rule mark_reachable_inv)

definition sample_started :: BuildRun where
  "sample_started = (case MarkBuildRunStarted BuildRun_zero 5 of Inr b \<Rightarrow> b | Inl e \<Rightarrow> BuildRun_zero)"

definition sample_failed :: BuildRun where
  "sample_failed = (case MarkBuildRunFailed sample_started 9 ''JobFailed'' ''boom'' of
      Inr b \<Rightarrow> b | Inl e \<Rightarrow> BuildRun_zero)"

lemma sample_started_eq: "MarkBuildRunStarted BuildRun_zero 5 = Inr sample_started"
  by (simp add: sample_started_def MarkBuildRunStarted_def ValidateBuildRunPhaseTransition_def Let_def
      zero_defs)

lemma sample_failed_eq: "MarkBuildRunFailed sample_started 9 ''JobFailed'' ''boom'' = Inr sample_failed"
  by (simp add: sample_failed_def MarkBuildRunFailed_def sample_started_def MarkBuildRunStarted_def
      ValidateBuildRunPhaseTransition_def Let_def zero_defs)

lemma sample_reachable: "mark_reachable sample_failed"
proof -
  have "mark_reachable BuildRun_zero"
    by (rule mark_reachable.initial) (simp add: mark_initial_def zero_defs)
  then have "mark_reachable sample_started"
    by (rule mark_reachable.step) (rule mark_step.started [OF sample_started_eq])
  then show ?thesis
    by (rule mark_reachable.step) (rule mark_step.failed [OF sample_failed_eq])
qed

theorem mark_reachable_consistent_witness:
  "mark_reachable sample_failed \<and> mark_inv sample_failed
   \<and> bst_Phase (br_Status sample_failed) = BuildRunPhaseFailed"
  using sample_reachable mark_reachable_consistent [OF sample_reachable]
    failed_effect(2) [OF sample_failed_eq] by blast

lemma mark_step_absorbing:
  "mark_step b b' \<Longrightarrow> isTerminalBuildRunPhase (bst_Phase (br_Status b)) \<Longrightarrow>
   bst_Phase (br_Status b') = bst_Phase (br_Status b)"
  using mark_step_phase validate_terminal by metis

text \<open>
  once a BuildRun has reached a terminal phase, no sequence of marks changes its phase, and a
  start time, once set, is never changed.
\<close>

theorem mark_steps_terminal:
  assumes "mark_step\<^sup>*\<^sup>* b b'"
  shows "(isTerminalBuildRunPhase (bst_Phase (br_Status b)) \<longrightarrow>
            bst_Phase (br_Status b') = bst_Phase (br_Status b))
       \<and> (\<forall>t. bst_StartedAt (br_Status b) = Some t \<longrightarrow> bst_StartedAt (br_Status b') = Some t)"
  using assms
  by (induction rule: rtranclp_induct) (auto simp del: isTerminalBuildRunPhase.simps
      dest: mark_step_absorbing mark_step_started)

theorem mark_steps_terminal_witness:
  "mark_step\<^sup>*\<^sup>* sample_started sample_failed
   \<and> bst_StartedAt (br_Status sample_started) = Some 5
   \<and> bst_StartedAt (br_Status sample_failed) = Some 5"
proof -
  have s: "mark_step\<^sup>*\<^sup>* sample_started sample_failed"
    by (rule r_into_rtranclp) (rule mark_step.failed [OF sample_failed_eq])
  moreover have "bst_StartedAt (br_Status sample_started) = Some 5"
    using started_effect(4) [OF sample_started_eq] by (simp add: zero_defs)
  ultimately show ?thesis using mark_steps_terminal [OF s] by blast
qed

end
