(* ===== verification/KubeStatus.thy ===== *)
theory KubeStatus
  imports DomainStatus
begin

text \<open>
  \<open>internal/kube/status.go\<close>: writing a status back under optimistic concurrency. The retry helper
  \<open>retry.RetryOnConflict\<close>, the client's \<open>Get\<close> and \<open>Status().Update\<close> are not part of the repository
  and are arguments here. The source reaches the \<open>Status\<close> field by reflection, for any object type;
  the record \<open>status_ops\<close> gives that access, and the locale \<open>status_object\<close> states what it has to
  satisfy. The locale is interpreted for the three kinds whose status the controllers write.
\<close>

record ('o, 's) status_ops =
  so_meta :: "'o \<Rightarrow> ObjectMeta"
  so_status :: "'o \<Rightarrow> 's"
  so_set_status :: "'s \<Rightarrow> 'o \<Rightarrow> 'o"
  so_conditions :: "'s \<Rightarrow> Condition list"
  so_set_conditions :: "Condition list \<Rightarrow> 's \<Rightarrow> 's"

text \<open>The inner loop of \<open>mergeConditions\<close>: the first condition of the type is replaced.\<close>

fun merge_one :: "Condition list \<Rightarrow> Condition \<Rightarrow> Condition list" where
  "merge_one [] c = [c]"
| "merge_one (d # ds) c = (if c_Type d = c_Type c then c # ds else d # merge_one ds c)"

definition mergeConditions :: "Condition list \<Rightarrow> Condition list \<Rightarrow> Condition list" where
  "mergeConditions latest desired = foldl merge_one latest desired"

text \<open>\<open>copyStatus(dst, src)\<close>: \<open>dst\<close> takes the status of \<open>src\<close>, with the merged conditions.\<close>

definition copyStatus :: "('o, 's) status_ops \<Rightarrow> 'o \<Rightarrow> 'o \<Rightarrow> 'o" where
  "copyStatus so dst src =
     so_set_status so
       (so_set_conditions so
          (mergeConditions (so_conditions so (so_status so dst)) (so_conditions so (so_status so src)))
          (so_status so src)) dst"

text \<open>
  One attempt. The result of \<open>Update\<close> is the object as the server returned it, which the client
  writes into \<open>latest\<close>; on success the caller's object takes its status.
\<close>

definition update_attempt ::
  "(NamespacedName \<Rightarrow> 'w \<Rightarrow> 'o result \<times> 'w) \<Rightarrow> ('o \<Rightarrow> 'w \<Rightarrow> 'o result \<times> 'w) \<Rightarrow>
   ('o, 's) status_ops \<Rightarrow> ('o \<Rightarrow> 'e) \<Rightarrow> 'o \<Rightarrow> ('w, 'e, 'o result) io" where
  "update_attempt get update so eff obj = do {
     r \<leftarrow> query (get (object_key (so_meta so obj)));
     case r of
       Inl err \<Rightarrow> State_Monad.return (Inl err)
     | Inr latest \<Rightarrow> do {
         let sent = copyStatus so latest obj;
         u \<leftarrow> call (eff sent) (update sent);
         case u of
           Inl err \<Rightarrow> State_Monad.return (Inl err)
         | Inr returned \<Rightarrow> State_Monad.return (Inr (copyStatus so obj returned))
       }
   }"

definition UpdateStatusWithRetry ::
  "(('w, 'e, 'o result) io \<Rightarrow> ('w, 'e, 'o result) io) \<Rightarrow>
   (NamespacedName \<Rightarrow> 'w \<Rightarrow> 'o result \<times> 'w) \<Rightarrow> ('o \<Rightarrow> 'w \<Rightarrow> 'o result \<times> 'w) \<Rightarrow>
   ('o, 's) status_ops \<Rightarrow> ('o \<Rightarrow> 'e) \<Rightarrow> 'o \<Rightarrow> ('w, 'e, 'o result) io" where
  "UpdateStatusWithRetry retry get update so eff obj = retry (update_attempt get update so eff obj)"


section \<open>What the retry helper is relied on for\<close>

text \<open>
  The documented behaviour of \<open>retry.RetryOnConflict\<close>: it runs the function, and as long as the
  error is a conflict runs it again, a bounded number of times; the last outcome is its result.
  \<open>attempts n\<close> makes at most \<open>n + 1\<close> attempts.
\<close>

fun attempts :: "nat \<Rightarrow> ('w, 'e, 'a result) io \<Rightarrow> ('w, 'e, 'a result) io" where
  "attempts 0 m = m"
| "attempts (Suc n) m = do {
     r \<leftarrow> m;
     case r of
       Inl err \<Rightarrow> if errors_Is err Conflict then attempts n m else State_Monad.return (Inl err)
     | Inr a \<Rightarrow> State_Monad.return (Inr a)
   }"

definition retry_spec :: "(('w, 'e, 'a result) io \<Rightarrow> ('w, 'e, 'a result) io) \<Rightarrow> bool" where
  "retry_spec retry \<longleftrightarrow> (\<forall>m. \<exists>n. retry m = attempts n m)"

lemma retry_spec_attempts: "retry_spec (attempts n)"
  by (auto simp: retry_spec_def)

lemma retry_specE:
  assumes "retry_spec retry"
  obtains n where "retry m = attempts n m"
  using assms by (auto simp: retry_spec_def)

lemma only_attempts: "only E m \<Longrightarrow> only E (attempts n m)"
  by (induction n) (auto intro!: only_intros)

lemma only_retry: "retry_spec retry \<Longrightarrow> only E m \<Longrightarrow> only E (retry m)"
  by (erule retry_specE [where m = m]) (simp add: only_attempts)

text \<open>A retried function keeps every relation of states that one run of it keeps.\<close>

lemma wp_attempts:
  assumes "\<And>s. I s \<Longrightarrow> wp m (\<lambda>r t. I t \<and> (\<forall>a. r = Inr a \<longrightarrow> Q a t)) s" and "I s"
  shows "wp (attempts n m) (\<lambda>r t. I t \<and> (\<forall>a. r = Inr a \<longrightarrow> Q a t)) s"
  using assms(2)
proof (induction n arbitrary: s)
  case 0
  with assms(1) show ?case by simp
next
  case (Suc n)
  have "wp m (\<lambda>r t. wp (case r of
       Inl err \<Rightarrow> if errors_Is err Conflict then attempts n m else State_Monad.return (Inl err)
     | Inr a \<Rightarrow> State_Monad.return (Inr a)) (\<lambda>r t. I t \<and> (\<forall>a. r = Inr a \<longrightarrow> Q a t)) t) s"
    by (rule wp_mono [OF assms(1) [OF Suc.prems]]) (auto simp: wp_simps Suc.IH split: sum.splits)
  then show ?case by (simp only: attempts.simps wp_bind)
qed

lemma wp_retry:
  assumes "retry_spec retry"
    and "\<And>s. I s \<Longrightarrow> wp m (\<lambda>r t. I t \<and> (\<forall>a. r = Inr a \<longrightarrow> Q a t)) s" and "I s"
  shows "wp (retry m) (\<lambda>r t. I t \<and> (\<forall>a. r = Inr a \<longrightarrow> Q a t)) s"
  using assms by (elim retry_specE [where m = m]) (simp add: wp_attempts)


section \<open>Merging conditions\<close>

lemma cond_of_merge_one [cond_simps]: "cond_of (merge_one cs c) = (cond_of cs)(c_Type c \<mapsto> c)"
  by (induction cs) (auto simp: cond_simps fun_eq_iff)

lemma types_merge_one:
  "map c_Type (merge_one cs c) =
     (if c_Type c \<in> c_Type ` set cs then map c_Type cs else map c_Type cs @ [c_Type c])"
  by (induction cs) auto

text \<open>Later entries of \<open>desired\<close> win over earlier ones, and over all of \<open>latest\<close>.\<close>

definition last_of :: "Condition list \<Rightarrow> string \<Rightarrow> Condition option" where
  "last_of cs = cond_of (rev cs)"

lemma cond_of_append: "cond_of (xs @ ys) ty = (case cond_of xs ty of None \<Rightarrow> cond_of ys ty | Some c \<Rightarrow> Some c)"
  by (induction xs) (auto simp: cond_simps)

lemma cond_of_foldl_merge:
  "cond_of (foldl merge_one latest desired) = cond_of latest ++ last_of desired"
proof (induction desired arbitrary: latest)
  case Nil
  show ?case by (simp add: last_of_def cond_simps map_add_def)
next
  case (Cons c desired)
  then show ?case
    by (auto simp: last_of_def cond_simps map_add_def cond_of_append fun_eq_iff split: option.splits)
qed

lemma last_of_distinct:
  assumes "types_distinct cs"
  shows "last_of cs = cond_of cs"
  using assms
proof (induction cs)
  case Nil
  show ?case by (simp add: last_of_def)
next
  case (Cons c cs)
  then have "last_of cs = cond_of cs" and "cond_of cs (c_Type c) = None"
    by (auto simp: types_distinct_def cond_of_None)
  then show ?case
    by (auto simp: last_of_def cond_of_append cond_simps fun_eq_iff split: option.splits)
qed

lemma cond_of_mergeConditions [cond_simps]:
  "cond_of (mergeConditions latest desired) = cond_of latest ++ last_of desired"
  by (simp add: mergeConditions_def cond_of_foldl_merge)

lemma types_distinct_merge:
  "types_distinct latest \<Longrightarrow> types_distinct (mergeConditions latest desired)"
  unfolding mergeConditions_def types_distinct_def
proof (induction desired arbitrary: latest)
  case (Cons c desired)
  then show ?case by (auto simp: types_merge_one)
qed simp

text \<open>
  merging the conditions of the caller's status into those that the server holds is, on the
  maps that the lists stand for, the override of the server's map by the caller's: a condition
  type that only another actor wrote survives with its condition, and each type of the caller has
  the caller's condition.
\<close>

theorem mergeConditions_override:
  "cond_of (mergeConditions latest desired) = cond_of latest ++ last_of desired
   \<and> dom (cond_of (mergeConditions latest desired)) = dom (cond_of latest) \<union> dom (cond_of desired)"
proof -
  have "dom (last_of desired) = dom (cond_of desired)"
    by (auto simp: last_of_def dom_def) (metis cond_of_None not_None_eq set_rev)+
  then show ?thesis by (auto simp: cond_simps)
qed


section \<open>Objects with a status\<close>

locale status_object =
  fixes so :: "('o, 's) status_ops"
  assumes status_set: "so_status so (so_set_status so st obj) = st"
    and meta_set: "so_meta so (so_set_status so st obj) = so_meta so obj"
    and set_status_idem: "so_set_status so st (so_set_status so st' obj) = so_set_status so st obj"
    and conditions_set: "so_conditions so (so_set_conditions so cs st) = cs"
    and set_conditions_id: "so_set_conditions so (so_conditions so st) st = st"
    and set_conditions_idem:
      "so_set_conditions so cs (so_set_conditions so cs' st) = so_set_conditions so cs st"
begin

lemma copyStatus_meta: "so_meta so (copyStatus so dst src) = so_meta so dst"
  by (simp add: copyStatus_def meta_set)

lemma copyStatus_conditions:
  "so_conditions so (so_status so (copyStatus so dst src)) =
     mergeConditions (so_conditions so (so_status so dst)) (so_conditions so (so_status so src))"
  by (simp add: copyStatus_def status_set conditions_set)

text \<open>Apart from its conditions, the copied status is the source's.\<close>

lemma copyStatus_status:
  "so_set_conditions so cs (so_status so (copyStatus so dst src)) =
     so_set_conditions so cs (so_status so src)"
  by (simp add: copyStatus_def status_set set_conditions_idem)

lemma copyStatus_no_conditions:
  "so_conditions so (so_status so dst) = [] \<Longrightarrow>
   types_distinct (so_conditions so (so_status so src)) \<Longrightarrow>
   cond_of (so_conditions so (so_status so (copyStatus so dst src)))
     = cond_of (so_conditions so (so_status so src))"
  by (simp add: copyStatus_conditions cond_simps last_of_distinct map_add_def fun_eq_iff
      split: option.split)

end

definition buildrun_ops :: "(BuildRun, BuildRunStatus) status_ops" where
  "buildrun_ops = \<lparr>so_meta = br_Meta, so_status = br_Status,
     so_set_status = (\<lambda>st b. b\<lparr>br_Status := st\<rparr>),
     so_conditions = bst_Conditions, so_set_conditions = (\<lambda>cs st. st\<lparr>bst_Conditions := cs\<rparr>)\<rparr>"

definition release_ops :: "(Release, ReleaseStatus) status_ops" where
  "release_ops = \<lparr>so_meta = rel_Meta, so_status = rel_Status,
     so_set_status = (\<lambda>st r. r\<lparr>rel_Status := st\<rparr>),
     so_conditions = rlst_Conditions, so_set_conditions = (\<lambda>cs st. st\<lparr>rlst_Conditions := cs\<rparr>)\<rparr>"

definition project_ops :: "(Project, ProjectStatus) status_ops" where
  "project_ops = \<lparr>so_meta = proj_Meta, so_status = proj_Status,
     so_set_status = (\<lambda>st p. p\<lparr>proj_Status := st\<rparr>),
     so_conditions = prst_Conditions, so_set_conditions = (\<lambda>cs st. st\<lparr>prst_Conditions := cs\<rparr>)\<rparr>"

interpretation br_obj: status_object buildrun_ops
  by unfold_locales (simp_all add: buildrun_ops_def)

interpretation rel_obj: status_object release_ops
  by unfold_locales (simp_all add: release_ops_def)

interpretation proj_obj: status_object project_ops
  by unfold_locales (simp_all add: project_ops_def)

lemmas status_ops_defs = buildrun_ops_def release_ops_def project_ops_def


section \<open>What a status update sends\<close>

lemma only_update_attempt:
  assumes "\<And>w latest. fst (get (object_key (so_meta so obj)) w) = Inr latest \<Longrightarrow>
             eff (copyStatus so latest obj) \<in> E"
  shows "only E (update_attempt get update so eff obj)"
  unfolding update_attempt_def
  by (rule only_bind_query) (auto simp: Let_def assms intro!: only_intros split: sum.split)

text \<open>Every operation of the controllers that updates a status emits writes of that kind only.\<close>

lemma only_UpdateStatusWithRetry [only_intros]:
  assumes "retry_spec retry" and "\<And>o'. eff o' \<in> E"
  shows "only E (UpdateStatusWithRetry retry get update so eff obj)"
  unfolding UpdateStatusWithRetry_def
  by (rule only_retry [OF assms(1)]) (rule only_update_attempt, rule assms(2))


text \<open>A client whose store is one BuildRun, which refuses the first write with a conflict.\<close>

definition conflict_once :: "BuildRun \<Rightarrow> bool \<times> BuildRun \<Rightarrow> BuildRun result \<times> bool \<times> BuildRun" where
  "conflict_once b w = (if fst w then (Inl (GoError ''conflict'' [Conflict]), (False, snd w))
     else (Inr b, (False, b)))"

abbreviation client_get :: "NamespacedName \<Rightarrow> bool \<times> BuildRun \<Rightarrow> BuildRun result \<times> bool \<times> BuildRun" where
  "client_get k w \<equiv> (Inr (snd w), w)"


end
