(* ===== verification/ControllerKit.thy ===== *)
theory ControllerKit
  imports KubeStatus
begin

text \<open>
  What the reconcilers share: the early return on an error, the executor interface of
  \<open>internal/executor/executor.go\<close>, and the notification request of
  \<open>internal/provider/notifications/providers.go\<close>.
\<close>

section \<open>Early returns\<close>

text \<open>\<open>if err := m; err != nil { return err }\<close>, going on with \<open>f\<close> otherwise.\<close>

definition check :: "('w, 'e, 'a result) io \<Rightarrow> ('a \<Rightarrow> ('w, 'e, 'b result) io) \<Rightarrow> ('w, 'e, 'b result) io" where
  "check m f = do {
     r \<leftarrow> m;
     case r of Inl err \<Rightarrow> State_Monad.return (Inl err) | Inr a \<Rightarrow> f a
   }"

definition ok :: "'a \<Rightarrow> ('w, 'e, 'a result) io" where
  "ok a = State_Monad.return (Inr a)"

definition fail :: "go_error \<Rightarrow> ('w, 'e, 'a result) io" where
  "fail err = State_Monad.return (Inl err)"

text \<open>\<open>fmt.Errorf (text + ": %w", err)\<close> around the error of \<open>m\<close>.\<close>

definition wrap :: "string \<Rightarrow> ('w, 'e, 'a result) io \<Rightarrow> ('w, 'e, 'a result) io" where
  "wrap txt m = do {
     r \<leftarrow> m;
     State_Monad.return (case r of Inl err \<Rightarrow> Inl (errorf_w txt err) | Inr a \<Rightarrow> Inr a)
   }"

lemma wp_ok [wp_simps]: "wp (ok a) Q s = Q (Inr a) s"
  by (simp add: ok_def wp_simps)

lemma wp_fail [wp_simps]: "wp (fail e) Q s = Q (Inl e) s"
  by (simp add: fail_def wp_simps)

lemma wp_check [wp_simps]:
  "wp (check m f) Q s = wp m (\<lambda>r t. case r of Inl err \<Rightarrow> Q (Inl err) t | Inr a \<Rightarrow> wp (f a) Q t) s"
  by (auto simp: check_def wp_def split: prod.split sum.split)

lemma wp_checkI:
  assumes "wp m P s" and "\<And>err t. P (Inl err) t \<Longrightarrow> Q (Inl err) t" and "\<And>a t. P (Inr a) t \<Longrightarrow> wp (f a) Q t"
  shows "wp (check m f) Q s"
  unfolding wp_check by (rule wp_mono [OF assms(1)]) (auto intro: assms(2,3) split: sum.split)

lemma wp_wrap [wp_simps]:
  "wp (wrap txt m) Q s = wp m (\<lambda>r t. Q (case r of Inl err \<Rightarrow> Inl (errorf_w txt err) | Inr a \<Rightarrow> Inr a) t) s"
  by (simp add: wrap_def wp_def split: prod.split)

lemma only_ok [only_intros]: "only E (ok a)"
  by (simp add: ok_def only_return)

lemma only_fail [only_intros]: "only E (fail e)"
  by (simp add: fail_def only_return)

lemma only_check [only_intros]: "only E m \<Longrightarrow> (\<And>a. only E (f a)) \<Longrightarrow> only E (check m f)"
  unfolding check_def by (auto intro!: only_intros)

lemma only_wrap [only_intros]: "only E m \<Longrightarrow> only E (wrap txt m)"
  unfolding wrap_def by (auto intro!: only_intros)

lemma only_Let [only_intros]: "(\<And>x. x = a \<Longrightarrow> only E (f x)) \<Longrightarrow> only E (Let a f)"
  by simp

text \<open>Containment as a weakest precondition: the trace only grows, by effects of \<open>E\<close>.\<close>

definition grown :: "'e set \<Rightarrow> ('w, 'e) sys \<Rightarrow> ('w, 'e) sys \<Rightarrow> bool" where
  "grown E s t \<longleftrightarrow> (\<exists>new. trace t = trace s @ new \<and> set new \<subseteq> E)"

lemma wp_only: "only E m \<longleftrightarrow> (\<forall>s. wp m (\<lambda>r t. grown E s t) s)"
  by (auto simp: only_def wp_def grown_def case_prod_beta)

lemma grown_refl: "grown E s s"
  by (simp add: grown_def)

lemma grown_trans: "grown E s t \<Longrightarrow> grown F t u \<Longrightarrow> grown (E \<union> F) s u"
  by (force simp: grown_def)

lemma wp_strengthen:
  assumes "only E m" and "wp m P s" and "\<And>a t. P a t \<Longrightarrow> grown E s t \<Longrightarrow> Q a t"
  shows "wp m Q s"
  using assms unfolding wp_only by (auto simp: wp_def split: prod.splits)

text \<open>Containment of a computation that goes on with results of a known kind only.\<close>

lemma only_check_wp:
  assumes "only E m" and "\<And>s. wp m (\<lambda>r t. \<forall>a. r = Inr a \<longrightarrow> P a) s" and "\<And>a. P a \<Longrightarrow> only E (f a)"
  shows "only E (check m f)"
  unfolding wp_only
proof
  fix s
  show "wp (check m f) (\<lambda>r t. grown E s t) s"
    unfolding wp_check
  proof (rule wp_strengthen [OF assms(1,2)])
    fix r t assume "\<forall>a. r = Inr a \<longrightarrow> P a" and g: "grown E s t"
    then have "\<And>a. r = Inr a \<Longrightarrow> wp (f a) (\<lambda>r u. grown E t u) t" using assms(3) unfolding wp_only by blast
    then show "case r of Inl err \<Rightarrow> grown E s t | Inr a \<Rightarrow> wp (f a) (\<lambda>r t. grown E s t) t"
      using g grown_trans [OF g, of E] by (auto split: sum.split elim!: wp_mono)
  qed
qed

lemma wp_any: "(\<And>a t. Q a t) \<Longrightarrow> wp m Q s"
  by (simp add: wp_def case_prod_beta)

context status_object
begin

text \<open>A successful status update has sent the caller's status, conditions aside.\<close>

lemma update_sent:
  assumes "retry_spec retry"
  shows "wp (UpdateStatusWithRetry retry get update so eff obj)
    (\<lambda>r t. grown UNIV s t \<and> (\<forall>o'. r = Inr o' \<longrightarrow>
        (\<exists>sent. eff sent \<in> set (trace t)
           \<and> so_set_conditions so [] (so_status so sent) = so_set_conditions so [] (so_status so obj)))) s"
  unfolding UpdateStatusWithRetry_def
proof (rule wp_retry [OF assms])
  show "grown UNIV s s" by (rule grown_refl)
next
  fix u
  assume u: "grown UNIV s u"
  show "wp (update_attempt get update so eff obj)
     (\<lambda>r t. grown UNIV s t \<and> (\<forall>o'. r = Inr o' \<longrightarrow> (\<exists>sent. eff sent \<in> set (trace t)
        \<and> so_set_conditions so [] (so_status so sent) = so_set_conditions so [] (so_status so obj)))) u"
    using u copyStatus_status [of "[]" _ obj]
    by (auto simp: update_attempt_def wp_simps Let_def grown_def split: sum.split)
qed

text \<open>The effects of a status update, successful or not: statuses of the caller, conditions aside.\<close>

lemma only_update_sent:
  assumes "retry_spec retry"
    and "\<And>sent. so_set_conditions so [] (so_status so sent) = so_set_conditions so [] (so_status so obj)
       \<Longrightarrow> eff sent \<in> E"
  shows "only E (UpdateStatusWithRetry retry get update so eff obj)"
  unfolding UpdateStatusWithRetry_def
  by (rule only_retry [OF assms(1)], rule only_update_attempt, rule assms(2), rule copyStatus_status)

end


section \<open>The executor interface\<close>

record EnsureRunRequest =
  req_BuildRun :: BuildRun
  req_Project :: Project
  req_Repository :: Repository
  req_Template :: PipelineTemplate

record RunRef =
  ref_Kind :: string
  ref_Name :: string
  ref_Namespace :: string

datatype RunPhase =
    RunPhasePending | RunPhaseRunning | RunPhaseSucceeded | RunPhaseFailed | RunPhaseCancelled

record RunFailure =
  rfl_Reason :: string
  rfl_Message :: string

record RunStatus =
  run_Phase :: RunPhase
  run_Failure :: RunFailure

record 'w PipelineExecutor =
  ex_EnsureRun :: "EnsureRunRequest \<Rightarrow> 'w \<Rightarrow> RunRef result \<times> 'w"
  ex_ReadRunStatus :: "RunRef \<Rightarrow> 'w \<Rightarrow> RunStatus result \<times> 'w"
  ex_CancelRun :: "RunRef \<Rightarrow> 'w \<Rightarrow> go_error option \<times> 'w"


section \<open>Notifications\<close>

datatype NotificationEvent =
    NotifyBuildRunStarted | NotifyBuildRunSucceeded | NotifyBuildRunFailed
  | NotifyReleaseAwaitingApproval | NotifyReleaseDeployed | NotifyReleaseFailed
  | NotifyPolicyDenied | NotifyWebhookRejected

record NotificationRequest =
  nr_Event :: NotificationEvent
  nr_Project :: string
  nr_Repository :: string
  nr_Environment :: string
  nr_Phase :: string
  nr_Namespace :: string
  nr_ResourceName :: string
  nr_Message :: string
  nr_OccurredAt :: gotime

datatype EventType = EventTypeNormal | EventTypeWarning

end
