(* ===== verification/Policy.thy ===== *)
theory Policy
  imports ApiTypes
begin

text \<open>
  \<open>internal/policy/policy.go\<close>: the policy decisions that gate builds and releases. Each
  \<open>Evaluate...\<close> function collects violations in the order of the source; \<open>decision\<close> turns them into
  a \<open>Decision\<close>. The evaluator's \<open>Now\<close> is the argument \<open>now\<close>. The interface \<open>Evaluator\<close>, which the
  controllers and the API server call, is the locale \<open>policy_evaluator\<close>; \<open>DefaultEvaluator\<close>
  interprets it.
\<close>

definition CanTriggerBuild :: string where "CanTriggerBuild = ''CanTriggerBuild''"
definition CanUseSecret :: string where "CanUseSecret = ''CanUseSecret''"
definition CanDeployToEnvironment :: string where "CanDeployToEnvironment = ''CanDeployToEnvironment''"
definition CanPromoteRelease :: string where "CanPromoteRelease = ''CanPromoteRelease''"
definition ImageMustHaveDigest :: string where "ImageMustHaveDigest = ''ImageMustHaveDigest''"
definition LatestImageForbidden :: string where "LatestImageForbidden = ''LatestImageForbidden''"
definition ImageMustBeSigned :: string where "ImageMustBeSigned = ''ImageMustBeSigned''"
definition SBOMRequired :: string where "SBOMRequired = ''SBOMRequired''"
definition CriticalVulnerabilitiesBlocked :: string where
  "CriticalVulnerabilitiesBlocked = ''CriticalVulnerabilitiesBlocked''"
definition ProductionRequiresApproval :: string where
  "ProductionRequiresApproval = ''ProductionRequiresApproval''"
definition RunnerPrivilegedForbidden :: string where
  "RunnerPrivilegedForbidden = ''RunnerPrivilegedForbidden''"
definition DockerSocketForbidden :: string where "DockerSocketForbidden = ''DockerSocketForbidden''"
definition HostPathForbidden :: string where "HostPathForbidden = ''HostPathForbidden''"
definition UnknownProviderForbidden :: string where
  "UnknownProviderForbidden = ''UnknownProviderForbidden''"

lemmas policy_names =
  CanTriggerBuild_def CanUseSecret_def CanDeployToEnvironment_def CanPromoteRelease_def
  ImageMustHaveDigest_def LatestImageForbidden_def ImageMustBeSigned_def SBOMRequired_def
  CriticalVulnerabilitiesBlocked_def ProductionRequiresApproval_def RunnerPrivilegedForbidden_def
  DockerSocketForbidden_def HostPathForbidden_def UnknownProviderForbidden_def

record Violation =
  vl_Policy :: string
  vl_Severity :: string
  vl_Message :: string
  vl_FieldPath :: string

record Decision =
  dec_Allowed :: bool
  dec_Reason :: string
  dec_Message :: string
  dec_EvaluatedAt :: gotime
  dec_Violations :: "Violation list"

record BuildRunPolicyInput =
  bi_BuildRun :: "BuildRun option"
  bi_Project :: "Project option"
  bi_Repository :: "Repository option"
  bi_PipelineTemplate :: "PipelineTemplate option"
  bi_EnforceAuthorization :: bool
  bi_TriggerAuthorized :: bool
  bi_SecretUseAuthorized :: bool

record ReleasePolicyInput =
  ri_Release :: "Release option"
  ri_BuildRun :: "BuildRun option"
  ri_Environment :: "Environment option"

record PipelineTemplatePolicyInput =
  ti_PipelineTemplate :: "PipelineTemplate option"
  ti_EnforceAuthorization :: bool
  ti_SecretUseAuthorized :: bool

definition violation :: "string \<Rightarrow> string \<Rightarrow> string \<Rightarrow> Violation" where
  "violation name message fieldPath =
     \<lparr>vl_Policy = name, vl_Severity = ''error'', vl_Message = message, vl_FieldPath = fieldPath\<rparr>"

definition decision :: "gotime \<Rightarrow> Violation list \<Rightarrow> Decision" where
  "decision now violations = (case violations of
     [] \<Rightarrow> \<lparr>dec_Allowed = True, dec_Reason = ''PolicyAllowed'',
            dec_Message = ''policy evaluation allowed the operation'', dec_EvaluatedAt = now,
            dec_Violations = []\<rparr>
   | v # _ \<Rightarrow> \<lparr>dec_Allowed = False, dec_Reason = ''PolicyDenied'', dec_Message = vl_Message v,
            dec_EvaluatedAt = now, dec_Violations = violations\<rparr>)"

fun knownRepositoryProvider :: "RepositoryProvider \<Rightarrow> bool" where
  "knownRepositoryProvider (RepositoryProviderOther _) = False"
| "knownRepositoryProvider _ = True"

fun knownGitOpsProvider :: "GitOpsProvider \<Rightarrow> bool" where
  "knownGitOpsProvider (GitOpsProviderOther _) = False"
| "knownGitOpsProvider _ = True"

fun knownBuilder :: "BuildBuilder \<Rightarrow> bool" where
  "knownBuilder (BuildBuilderOther _) = False"
| "knownBuilder _ = True"

definition templateUsesSecret :: "PipelineTemplate \<Rightarrow> bool" where
  "templateUsesSecret template \<longleftrightarrow>
     sc_SigningKeySecretRef (pts_SupplyChain (pt_Spec template)) \<noteq> None
     \<or> list_ex (\<lambda>step. list_ex (\<lambda>env. ev_SecretKeyRef env \<noteq> None) (step_Env step))
         (pts_Steps (pt_Spec template))"

text \<open>\<open>if b then append(violations, v)\<close>.\<close>

abbreviation flag :: "bool \<Rightarrow> Violation \<Rightarrow> Violation list" where
  "flag b v \<equiv> if b then [v] else []"

text \<open>The inner loop over a step's values stops at the first offending value.\<close>

fun value_violation :: "nat \<Rightarrow> string list \<Rightarrow> Violation list" where
  "value_violation index [] = []"
| "value_violation index (value # values) =
     (let low = ToLower value; path = ''spec.steps['' @ Itoa (int index) @ '']'' in
      if Contains low ''/var/run/docker.sock'' \<or> Contains low ''docker.sock''
      then [violation DockerSocketForbidden ''mounting or using the Docker socket is forbidden'' path]
      else if Contains low ''hostpath'' \<or> Contains low ''host-path''
      then [violation HostPathForbidden ''hostPath volumes are forbidden'' path]
      else value_violation index values)"

definition step_values :: "PipelineStep \<Rightarrow> string list" where
  "step_values step = step_Command step @ step_Args step @ [step_WorkingDir step, step_Image step]"

fun step_violations :: "nat \<Rightarrow> PipelineStep list \<Rightarrow> Violation list" where
  "step_violations index [] = []"
| "step_violations index (step # steps) =
     value_violation index (step_values step) @ step_violations (Suc index) steps"

definition EvaluatePipelineTemplate :: "gotime \<Rightarrow> PipelineTemplatePolicyInput \<Rightarrow> Decision" where
  "EvaluatePipelineTemplate now input = (case ti_PipelineTemplate input of
     None \<Rightarrow> decision now []
   | Some template \<Rightarrow>
       let spec = pt_Spec template; build = pts_Build spec in
       decision now (
         flag (sec_AllowPrivileged (pts_Security spec))
           (violation RunnerPrivilegedForbidden
              ''privileged runners are forbidden by the default policy'' ''spec.security.allowPrivileged'')
       @ flag (bld_Enabled build \<and> \<not> knownBuilder (bld_Builder build))
           (violation UnknownProviderForbidden
              (''build provider '' @ quote (BuildBuilder_string (bld_Builder build)) @ '' is not registered'')
              ''spec.build.builder'')
       @ flag (templateUsesSecret template \<and> ti_EnforceAuthorization input \<and> \<not> ti_SecretUseAuthorized input)
           (violation CanUseSecret ''caller is not authorized to use secrets'' ''spec'')
       @ step_violations 0 (pts_Steps spec)))"

definition EvaluateBuildRun :: "gotime \<Rightarrow> BuildRunPolicyInput \<Rightarrow> Decision" where
  "EvaluateBuildRun now input = decision now (
       flag (bi_EnforceAuthorization input \<and> \<not> bi_TriggerAuthorized input)
         (violation CanTriggerBuild ''caller is not authorized to trigger builds'' ''spec.triggeredBy'')
     @ flag (bi_BuildRun input = None)
         (violation CanTriggerBuild ''BuildRun is required for policy evaluation'' ''buildRun'')
     @ (case bi_Repository input of None \<Rightarrow> [] | Some repository \<Rightarrow>
          flag (\<not> knownRepositoryProvider (rs_Provider (repo_Spec repository)))
            (violation UnknownProviderForbidden
              (''repository provider '' @ quote (RepositoryProvider_string (rs_Provider (repo_Spec repository)))
                 @ '' is not registered'') ''repository.spec.provider''))
     @ (case (bi_Project input, bi_BuildRun input) of (Some project, Some buildRun) \<Rightarrow>
          flag (meta_Name (proj_Meta project) \<noteq> brs_ProjectRef (br_Spec buildRun))
            (violation CanTriggerBuild ''BuildRun project does not match the loaded Project'' ''spec.projectRef'')
        | _ \<Rightarrow> [])
     @ (case (bi_Repository input, bi_BuildRun input) of (Some repository, Some buildRun) \<Rightarrow>
          flag (rs_ProjectRef (repo_Spec repository) \<noteq> brs_ProjectRef (br_Spec buildRun))
            (violation CanTriggerBuild ''Repository belongs to a different project'' ''spec.repositoryRef'')
        | _ \<Rightarrow> [])
     @ (case bi_PipelineTemplate input of None \<Rightarrow> [] | Some template \<Rightarrow>
          dec_Violations (EvaluatePipelineTemplate now
            \<lparr>ti_PipelineTemplate = Some template,
             ti_EnforceAuthorization = bi_EnforceAuthorization input,
             ti_SecretUseAuthorized = bi_SecretUseAuthorized input\<rparr>)))"

definition EvaluateRelease :: "gotime \<Rightarrow> ReleasePolicyInput \<Rightarrow> Decision" where
  "EvaluateRelease now input =
    (case (ri_Release input, ri_BuildRun input, ri_Environment input) of
      (Some release, Some buildRun, Some environment) \<Rightarrow>
        let rel = rel_Spec release; env = env_Spec environment; policy = es_Policy env;
            supply = bst_SupplyChain (br_Status buildRun); phase = bst_Phase (br_Status buildRun) in
        decision now (
          flag (rls_ProjectRef rel \<noteq> es_ProjectRef env
                \<or> rls_ProjectRef rel \<noteq> brs_ProjectRef (br_Spec buildRun))
            (violation CanDeployToEnvironment
              ''Release, BuildRun and Environment must belong to the same project'' ''spec.projectRef'')
        @ flag (phase \<noteq> BuildRunPhaseUnset \<and> phase \<noteq> BuildRunPhaseSucceeded)
            (violation CanPromoteRelease ''only a successful BuildRun can be promoted'' ''spec.buildRunRef'')
        @ flag (\<not> knownGitOpsProvider (eg_Provider (es_GitOps env)))
            (violation UnknownProviderForbidden
              (''GitOps provider '' @ quote (GitOpsProvider_string (eg_Provider (es_GitOps env)))
                 @ '' is not registered'') ''environment.spec.gitOps.provider'')
        @ flag (es_Type env = EnvironmentTypeProduction \<and> ra_ApprovedBy (rls_Approval rel) = '''')
            (violation ProductionRequiresApproval ''production releases require approval''
              ''spec.approval.approvedBy'')
        @ flag (ep_RequireImageDigest policy \<and> img_Digest (rls_Image rel) = '''')
            (violation ImageMustHaveDigest ''this environment requires an immutable image digest''
              ''spec.image.digest'')
        @ flag (es_Type env = EnvironmentTypeProduction \<and> \<not> ep_AllowLatest policy
                \<and> EqualFold (img_Tag (rls_Image rel)) ''latest'')
            (violation LatestImageForbidden
              ''production releases forbid the latest image tag unless explicitly allowed'' ''spec.image.tag'')
        @ flag (ep_RequireSignedImages policy \<and> scs_SignatureRef supply = '''')
            (violation ImageMustBeSigned ''this environment requires a signed image''
              ''buildRun.status.supplyChain.signatureRef'')
        @ flag (ep_RequireSBOM policy \<and> scs_SBOMPath supply = '''' \<and> scs_SBOMDigest supply = '''')
            (violation SBOMRequired ''this environment requires SBOM metadata'' ''buildRun.status.supplyChain'')
        @ flag (ep_BlockCriticalVulnerabilities policy
                \<and> (scs_ScannerResultsRef supply = '''' \<or> scs_CriticalVulnerabilities supply > 0))
            (violation CriticalVulnerabilitiesBlocked
              (''critical vulnerabilities are blocked; scanner reported ''
                 @ Itoa (scs_CriticalVulnerabilities supply))
              ''buildRun.status.supplyChain.criticalVulnerabilities''))
    | _ \<Rightarrow> decision now
        [violation CanPromoteRelease ''Release, BuildRun and Environment are required'' ''release''])"

definition violation_status :: "Violation \<Rightarrow> PolicyViolationStatus" where
  "violation_status v = \<lparr>pv_Policy = vl_Policy v, pv_Severity = vl_Severity v,
     pv_Message = vl_Message v, pv_FieldPath = vl_FieldPath v\<rparr>"

definition ToStatus :: "Decision \<Rightarrow> PolicyDecisionStatus" where
  "ToStatus d = \<lparr>pd_Allowed = dec_Allowed d, pd_Reason = dec_Reason d, pd_Message = dec_Message d,
     pd_EvaluatedAt = Some (dec_EvaluatedAt d), pd_Violations = map violation_status (dec_Violations d)\<rparr>"


section \<open>The Evaluator interface\<close>

lemma decision_sels [simp]:
  "dec_Allowed (decision now vs) \<longleftrightarrow> vs = []"
  "dec_Violations (decision now vs) = vs"
  "dec_EvaluatedAt (decision now vs) = now"
  "dec_Reason (decision now vs) = (if vs = [] then ''PolicyAllowed'' else ''PolicyDenied'')"
  by (simp_all add: decision_def split: list.split)

lemma decision_message: "vs \<noteq> [] \<Longrightarrow> dec_Message (decision now vs) = vl_Message (hd vs)"
  by (cases vs) (simp_all add: decision_def)

locale policy_evaluator =
  fixes eval_build :: "gotime \<Rightarrow> BuildRunPolicyInput \<Rightarrow> Decision"
    and eval_release :: "gotime \<Rightarrow> ReleasePolicyInput \<Rightarrow> Decision"
    and eval_template :: "gotime \<Rightarrow> PipelineTemplatePolicyInput \<Rightarrow> Decision"
  assumes build_decides: "\<exists>vs. eval_build now bi = decision now vs"
    and release_decides: "\<exists>vs. eval_release now ri = decision now vs"
    and template_decides: "\<exists>vs. eval_template now ti = decision now vs"
    and template_violations:
      "bi_PipelineTemplate bi = Some template \<Longrightarrow>
       set (dec_Violations (eval_template now \<lparr>ti_PipelineTemplate = Some template,
              ti_EnforceAuthorization = bi_EnforceAuthorization bi,
              ti_SecretUseAuthorized = bi_SecretUseAuthorized bi\<rparr>))
         \<subseteq> set (dec_Violations (eval_build now bi))"
begin

text \<open>What a caller may read off a recorded decision: denied exactly if a violation is listed.\<close>

lemma recorded_build:
  "pd_Allowed (ToStatus (eval_build now bi)) \<longleftrightarrow> pd_Violations (ToStatus (eval_build now bi)) = []"
  using build_decides [of now bi] by (auto simp: ToStatus_def)

lemma recorded_release:
  "pd_Allowed (ToStatus (eval_release now ri)) \<longleftrightarrow> pd_Violations (ToStatus (eval_release now ri)) = []"
  using release_decides [of now ri] by (auto simp: ToStatus_def)

lemma release_denied_reason:
  "\<not> dec_Allowed (eval_release now ri) \<Longrightarrow> dec_Reason (eval_release now ri) = ''PolicyDenied''"
  using release_decides [of now ri] by auto

lemma build_denied_reason:
  "\<not> dec_Allowed (eval_build now bi) \<Longrightarrow> dec_Reason (eval_build now bi) = ''PolicyDenied''"
  using build_decides [of now bi] by auto

text \<open>A build of a template that the template policy denies is denied.\<close>

lemma template_denial:
  assumes "bi_PipelineTemplate bi = Some template"
    and "\<not> dec_Allowed (eval_template now \<lparr>ti_PipelineTemplate = Some template,
              ti_EnforceAuthorization = bi_EnforceAuthorization bi,
              ti_SecretUseAuthorized = bi_SecretUseAuthorized bi\<rparr>)"
  shows "\<not> dec_Allowed (eval_build now bi)"
proof -
  let ?ti = "\<lparr>ti_PipelineTemplate = Some template,
              ti_EnforceAuthorization = bi_EnforceAuthorization bi,
              ti_SecretUseAuthorized = bi_SecretUseAuthorized bi\<rparr>"
  from template_decides [of now ?ti] assms(2) have "dec_Violations (eval_template now ?ti) \<noteq> []"
    by auto
  with template_violations [OF assms(1), of now] have "dec_Violations (eval_build now bi) \<noteq> []" by auto
  with build_decides [of now bi] show ?thesis by auto
qed

end

interpretation default_evaluator:
  policy_evaluator EvaluateBuildRun EvaluateRelease EvaluatePipelineTemplate
proof
  show "\<exists>vs. EvaluateBuildRun now bi = decision now vs" for now bi
    unfolding EvaluateBuildRun_def by (rule exI, rule refl)
  show "\<exists>vs. EvaluateRelease now ri = decision now vs" for now ri
    by (cases "ri_Release ri"; cases "ri_BuildRun ri"; cases "ri_Environment ri";
        simp only: EvaluateRelease_def Let_def prod.case option.case; rule exI; rule refl)
  show "\<exists>vs. EvaluatePipelineTemplate now ti = decision now vs" for now ti
    by (cases "ti_PipelineTemplate ti"; simp only: EvaluatePipelineTemplate_def Let_def option.case;
        rule exI; rule refl)
qed (simp only: EvaluateBuildRun_def decision_sels option.case set_append; blast)


section \<open>What the default policy forbids\<close>

text \<open>
  The release policy as a table: \<open>release_breach rel run env p\<close> says that promoting \<open>rel\<close>, built
  by \<open>run\<close>, to \<open>env\<close> breaches the policy named \<open>p\<close>.
\<close>

inductive release_breach :: "Release \<Rightarrow> BuildRun \<Rightarrow> Environment \<Rightarrow> string \<Rightarrow> bool"
  for rel :: Release and run :: BuildRun and env :: Environment where
  other_project: "rls_ProjectRef (rel_Spec rel) \<noteq> es_ProjectRef (env_Spec env)
      \<or> rls_ProjectRef (rel_Spec rel) \<noteq> brs_ProjectRef (br_Spec run)
    \<Longrightarrow> release_breach rel run env CanDeployToEnvironment"
| not_succeeded: "bst_Phase (br_Status run) \<notin> {BuildRunPhaseUnset, BuildRunPhaseSucceeded}
    \<Longrightarrow> release_breach rel run env CanPromoteRelease"
| unknown_provider: "eg_Provider (es_GitOps (env_Spec env)) = GitOpsProviderOther s
    \<Longrightarrow> release_breach rel run env UnknownProviderForbidden"
| unapproved: "es_Type (env_Spec env) = EnvironmentTypeProduction
      \<Longrightarrow> ra_ApprovedBy (rls_Approval (rel_Spec rel)) = ''''
    \<Longrightarrow> release_breach rel run env ProductionRequiresApproval"
| no_digest: "ep_RequireImageDigest (es_Policy (env_Spec env))
      \<Longrightarrow> img_Digest (rls_Image (rel_Spec rel)) = ''''
    \<Longrightarrow> release_breach rel run env ImageMustHaveDigest"
| latest: "es_Type (env_Spec env) = EnvironmentTypeProduction
      \<Longrightarrow> \<not> ep_AllowLatest (es_Policy (env_Spec env))
      \<Longrightarrow> EqualFold (img_Tag (rls_Image (rel_Spec rel))) ''latest''
    \<Longrightarrow> release_breach rel run env LatestImageForbidden"
| unsigned: "ep_RequireSignedImages (es_Policy (env_Spec env))
      \<Longrightarrow> scs_SignatureRef (bst_SupplyChain (br_Status run)) = ''''
    \<Longrightarrow> release_breach rel run env ImageMustBeSigned"
| no_sbom: "ep_RequireSBOM (es_Policy (env_Spec env))
      \<Longrightarrow> scs_SBOMPath (bst_SupplyChain (br_Status run)) = ''''
      \<Longrightarrow> scs_SBOMDigest (bst_SupplyChain (br_Status run)) = ''''
    \<Longrightarrow> release_breach rel run env SBOMRequired"
| unscanned: "ep_BlockCriticalVulnerabilities (es_Policy (env_Spec env))
      \<Longrightarrow> scs_ScannerResultsRef (bst_SupplyChain (br_Status run)) = ''''
    \<Longrightarrow> release_breach rel run env CriticalVulnerabilitiesBlocked"
| vulnerable: "ep_BlockCriticalVulnerabilities (es_Policy (env_Spec env))
      \<Longrightarrow> scs_CriticalVulnerabilities (bst_SupplyChain (br_Status run)) > 0
    \<Longrightarrow> release_breach rel run env CriticalVulnerabilitiesBlocked"

lemma violation_sels [simp]:
  "vl_Policy (violation p m f) = p" "vl_Message (violation p m f) = m"
  "vl_FieldPath (violation p m f) = f" "vl_Severity (violation p m f) = ''error''"
  by (simp_all add: violation_def)

lemma policies_append: "vl_Policy ` set (vs @ ws) = vl_Policy ` set vs \<union> vl_Policy ` set ws"
  by (simp add: image_Un)

lemma policies_flag: "vl_Policy ` set (flag b v) = {p. b \<and> p = vl_Policy v}"
  by auto

lemma unknown_GitOpsProvider: "\<not> knownGitOpsProvider p \<longleftrightarrow> (\<exists>s. p = GitOpsProviderOther s)"
  by (cases p) simp_all

lemma release_breach_cases:
  "release_breach rel run env p \<longleftrightarrow>
     (rls_ProjectRef (rel_Spec rel) \<noteq> es_ProjectRef (env_Spec env)
       \<or> rls_ProjectRef (rel_Spec rel) \<noteq> brs_ProjectRef (br_Spec run)) \<and> p = CanDeployToEnvironment
   \<or> (bst_Phase (br_Status run) \<noteq> BuildRunPhaseUnset \<and> bst_Phase (br_Status run) \<noteq> BuildRunPhaseSucceeded)
       \<and> p = CanPromoteRelease
   \<or> \<not> knownGitOpsProvider (eg_Provider (es_GitOps (env_Spec env))) \<and> p = UnknownProviderForbidden
   \<or> (es_Type (env_Spec env) = EnvironmentTypeProduction \<and> ra_ApprovedBy (rls_Approval (rel_Spec rel)) = [])
       \<and> p = ProductionRequiresApproval
   \<or> (ep_RequireImageDigest (es_Policy (env_Spec env)) \<and> img_Digest (rls_Image (rel_Spec rel)) = [])
       \<and> p = ImageMustHaveDigest
   \<or> (es_Type (env_Spec env) = EnvironmentTypeProduction \<and> \<not> ep_AllowLatest (es_Policy (env_Spec env))
       \<and> EqualFold (img_Tag (rls_Image (rel_Spec rel))) ''latest'') \<and> p = LatestImageForbidden
   \<or> (ep_RequireSignedImages (es_Policy (env_Spec env)) \<and> scs_SignatureRef (bst_SupplyChain (br_Status run)) = [])
       \<and> p = ImageMustBeSigned
   \<or> (ep_RequireSBOM (es_Policy (env_Spec env)) \<and> scs_SBOMPath (bst_SupplyChain (br_Status run)) = []
       \<and> scs_SBOMDigest (bst_SupplyChain (br_Status run)) = []) \<and> p = SBOMRequired
   \<or> (ep_BlockCriticalVulnerabilities (es_Policy (env_Spec env))
       \<and> (scs_ScannerResultsRef (bst_SupplyChain (br_Status run)) = []
          \<or> scs_CriticalVulnerabilities (bst_SupplyChain (br_Status run)) > 0))
       \<and> p = CriticalVulnerabilitiesBlocked" (is "?l \<longleftrightarrow> ?r")
proof
  show "?l \<Longrightarrow> ?r" by (erule release_breach.cases) (simp_all add: unknown_GitOpsProvider)
  show "?r \<Longrightarrow> ?l"
    by (elim disjE conjE) (auto simp only: unknown_GitOpsProvider insert_iff empty_iff
        intro: release_breach.intros)
qed

text \<open>
  C17: for a release with its build and environment, the policies named by the violations of
  \<open>EvaluateRelease\<close> are exactly those that the table \<open>release_breach\<close> lists, and the release is
  allowed exactly if it breaches none.
\<close>

theorem EvaluateRelease_exact:
  "vl_Policy ` set (dec_Violations (EvaluateRelease now
       \<lparr>ri_Release = Some rel, ri_BuildRun = Some run, ri_Environment = Some env\<rparr>))
     = {p. release_breach rel run env p}
   \<and> (dec_Allowed (EvaluateRelease now
       \<lparr>ri_Release = Some rel, ri_BuildRun = Some run, ri_Environment = Some env\<rparr>)
     \<longleftrightarrow> {p. release_breach rel run env p} = {})"
proof -
  let ?d = "EvaluateRelease now \<lparr>ri_Release = Some rel, ri_BuildRun = Some run, ri_Environment = Some env\<rparr>"
  have *: "vl_Policy ` set (dec_Violations ?d) = {p. release_breach rel run env p}"
    unfolding EvaluateRelease_def Let_def ReleasePolicyInput.select_convs option.case prod.case
      decision_sels policies_append policies_flag violation_sels
    by (simp only: release_breach_cases Collect_disj_eq [symmetric])
  have "dec_Allowed ?d \<longleftrightarrow> dec_Violations ?d = []"
    using default_evaluator.release_decides by (metis decision_sels(1,2))
  then have "dec_Allowed ?d \<longleftrightarrow> vl_Policy ` set (dec_Violations ?d) = {}"
    by simp
  with * show ?thesis by simp
qed

text \<open>A step reaches for the host if one of its values names the Docker socket or a host path.\<close>

definition host_value :: "string \<Rightarrow> bool" where
  "host_value v \<longleftrightarrow> Contains (ToLower v) ''docker.sock'' \<or> Contains (ToLower v) ''hostpath''
     \<or> Contains (ToLower v) ''host-path''"

definition uses_host :: "PipelineStep \<Rightarrow> bool" where
  "uses_host step = list_ex host_value (step_values step)"

definition step_path :: "nat \<Rightarrow> string" where
  "step_path i = ''spec.steps['' @ Itoa (int i) @ '']''"

lemma prefix_suffix_Contains: "prefix (us @ n) s \<Longrightarrow> Contains s n"
proof (induction us arbitrary: s)
  case Nil
  then show ?case by (cases s; cases n) (auto simp: HasPrefix_def)
next
  case (Cons u us)
  then obtain c s' where "s = c # s'" "prefix (us @ n) s'" by (cases s) auto
  with Cons.IH show ?case by simp
qed

lemma Contains_longer: "Contains s (us @ n) \<Longrightarrow> Contains s n"
proof (induction s)
  case Nil
  then show ?case by simp
next
  case (Cons c s)
  show ?case
  proof (cases "HasPrefix (c # s) (us @ n)")
    case True
    then have "prefix (us @ n) (c # s)" by (simp add: HasPrefix_def)
    then show ?thesis by (rule prefix_suffix_Contains)
  next
    case False
    with Cons show ?thesis by (simp add: HasPrefix_def)
  qed
qed

lemma docker_socket: "Contains s ''/var/run/docker.sock'' \<Longrightarrow> Contains s ''docker.sock''"
  using Contains_longer [of s "''/var/run/''" "''docker.sock''"] by simp

lemma value_violation_paths:
  "map vl_FieldPath (value_violation i vs) = (if list_ex host_value vs then [step_path i] else [])"
  by (induction vs) (auto simp: Let_def host_value_def step_path_def dest: docker_socket)

lemma value_violation_policy:
  "v \<in> set (value_violation i vs) \<Longrightarrow> vl_Policy v \<in> {DockerSocketForbidden, HostPathForbidden}"
  by (induction vs) (auto simp: Let_def split: if_splits)

lemma step_violations_paths:
  "map vl_FieldPath (step_violations i steps) =
     map step_path (filter (\<lambda>j. uses_host (steps ! (j - i))) [i..<i + length steps])"
proof (induction steps arbitrary: i)
  case Nil
  show ?case by simp
next
  case (Cons step steps)
  have "filter (\<lambda>j. uses_host ((step # steps) ! (j - i))) [Suc i..<i + length (step # steps)]
      = filter (\<lambda>j. uses_host (steps ! (j - Suc i))) [Suc i..<Suc i + length steps]"
    by (rule filter_cong) (auto simp: nth_Cons')
  then show ?case
    by (simp add: Cons.IH value_violation_paths uses_host_def upt_conv_Cons del: upt_Suc)
qed

lemma step_violations_policy:
  "v \<in> set (step_violations i steps) \<Longrightarrow> vl_Policy v \<in> {DockerSocketForbidden, HostPathForbidden}"
  by (induction steps arbitrary: i) (auto dest: value_violation_policy)

lemma step_violations_empty: "step_violations i steps = [] \<longleftrightarrow> \<not> list_ex uses_host steps"
proof (induction steps arbitrary: i)
  case (Cons step steps)
  have "value_violation i (step_values step) = [] \<longleftrightarrow> \<not> uses_host step"
    using value_violation_paths [of i "step_values step"] by (auto simp: uses_host_def split: if_splits)
  with Cons show ?case by simp
qed simp

text \<open>
  the template policy reports each step that names the Docker socket or a host path in its
  command, arguments, working directory or image (whatever the letter case) exactly once, with the
  index of the step, in the order of the steps; and a template without such a step is allowed
  exactly if it is not privileged, its enabled builder is registered and any secret it uses is authorised.
\<close>

theorem EvaluatePipelineTemplate_steps:
  "map vl_FieldPath (filter (\<lambda>v. vl_Policy v \<in> {DockerSocketForbidden, HostPathForbidden})
       (dec_Violations (EvaluatePipelineTemplate now (ti\<lparr>ti_PipelineTemplate := Some template\<rparr>))))
     = map step_path (filter (\<lambda>i. uses_host (pts_Steps (pt_Spec template) ! i))
         [0..<length (pts_Steps (pt_Spec template))])
   \<and> (dec_Allowed (EvaluatePipelineTemplate now (ti\<lparr>ti_PipelineTemplate := Some template\<rparr>)) \<longleftrightarrow>
       \<not> sec_AllowPrivileged (pts_Security (pt_Spec template))
       \<and> \<not> (bld_Enabled (pts_Build (pt_Spec template)) \<and> \<not> knownBuilder (bld_Builder (pts_Build (pt_Spec template))))
       \<and> \<not> (templateUsesSecret template \<and> ti_EnforceAuthorization ti \<and> \<not> ti_SecretUseAuthorized ti)
       \<and> \<not> list_ex uses_host (pts_Steps (pt_Spec template)))"
proof
  let ?steps = "pts_Steps (pt_Spec template)"
  have "filter (\<lambda>v. vl_Policy v \<in> {DockerSocketForbidden, HostPathForbidden}) (step_violations 0 ?steps)
      = step_violations 0 ?steps"
    by (rule filter_True) (auto dest: step_violations_policy)
  then show "map vl_FieldPath (filter (\<lambda>v. vl_Policy v \<in> {DockerSocketForbidden, HostPathForbidden})
       (dec_Violations (EvaluatePipelineTemplate now (ti\<lparr>ti_PipelineTemplate := Some template\<rparr>))))
     = map step_path (filter (\<lambda>i. uses_host (?steps ! i)) [0..<length ?steps])"
    using step_violations_paths [of 0 ?steps]
    by (simp add: EvaluatePipelineTemplate_def Let_def)
      (simp add: RunnerPrivilegedForbidden_def UnknownProviderForbidden_def CanUseSecret_def
        DockerSocketForbidden_def HostPathForbidden_def)
qed (simp add: EvaluatePipelineTemplate_def Let_def step_violations_empty)

text \<open>
  a build is allowed exactly if the trigger is authorised where authorisation is enforced, the
  BuildRun is there, the repository's provider is registered, project and repository belong to the
  build's project, and the template policy allows the template for the same caller.
\<close>

theorem EvaluateBuildRun_allowed_iff:
  "dec_Allowed (EvaluateBuildRun now bi) \<longleftrightarrow>
     (\<exists>run. bi_BuildRun bi = Some run
        \<and> (case bi_Project bi of None \<Rightarrow> True | Some project \<Rightarrow>
             meta_Name (proj_Meta project) = brs_ProjectRef (br_Spec run))
        \<and> (case bi_Repository bi of None \<Rightarrow> True | Some repository \<Rightarrow>
             knownRepositoryProvider (rs_Provider (repo_Spec repository))
             \<and> rs_ProjectRef (repo_Spec repository) = brs_ProjectRef (br_Spec run)))
     \<and> \<not> (bi_EnforceAuthorization bi \<and> \<not> bi_TriggerAuthorized bi)
     \<and> dec_Allowed (EvaluatePipelineTemplate now
          \<lparr>ti_PipelineTemplate = bi_PipelineTemplate bi,
           ti_EnforceAuthorization = bi_EnforceAuthorization bi,
           ti_SecretUseAuthorized = bi_SecretUseAuthorized bi\<rparr>)"
proof -
  have "dec_Allowed (EvaluatePipelineTemplate now ti) \<longleftrightarrow> dec_Violations (EvaluatePipelineTemplate now ti) = []" for ti
    using default_evaluator.template_decides by (metis decision_sels(1,2))
  moreover have "ti_PipelineTemplate ti = None \<Longrightarrow> dec_Violations (EvaluatePipelineTemplate now ti) = []" for ti
    by (simp add: EvaluatePipelineTemplate_def)
  ultimately show ?thesis
    by (auto simp: EvaluateBuildRun_def split: option.split)
qed

end
