(* ===== verification/Quota.thy ===== *)
theory Quota
  imports DomainStatus "HOL-Library.Product_Lexorder"
begin

text \<open>
  \<open>internal/controller/quota.go\<close>: how many builds of a project run at once, which of the others
  wait, and the caps on a build's resources. \<open>resource.ParseQuantity\<close> is the argument \<open>parse\<close>: a
  quantity is the whole number of its smallest units (a Kubernetes quantity has at most three
  decimal places), and \<open>Cmp\<close> compares those. The two handlers that write the outcome into the
  BuildRun are in theory \<open>BuildRunController\<close>.
\<close>

record quotaDecision =
  qd_queue :: bool
  qd_deny :: bool
  qd_active :: int
  qd_queued :: int

definition quotaDecision_zero :: quotaDecision where
  "quotaDecision_zero = \<lparr>qd_queue = False, qd_deny = False, qd_active = 0, qd_queued = 0\<rparr>"

definition has_run :: "BuildRun \<Rightarrow> bool" where
  "has_run b \<longleftrightarrow> oref_Name (bst_JobRef (br_Status b)) \<noteq> ''''
     \<or> oref_Name (bst_PipelineRunRef (br_Status b)) \<noteq> ''''"

text \<open>The early return: without a positive limit, or once the build has its run, nothing is checked.\<close>

definition quota_exempt :: "BuildRun \<Rightarrow> Project \<Rightarrow> bool" where
  "quota_exempt buildRun project = (case prs_Quotas (proj_Spec project) of
     None \<Rightarrow> True
   | Some quotas \<Rightarrow> quo_MaxConcurrentBuildRuns quotas \<le> 0 \<or> has_run buildRun)"

text \<open>The loop over the listed BuildRuns sorts each into active, waiting or neither.\<close>

definition quota_candidate :: "string \<Rightarrow> BuildRun \<Rightarrow> bool" where
  "quota_candidate project b \<longleftrightarrow>
     brs_ProjectRef (br_Spec b) = project \<and> \<not> isTerminalBuildRunPhase (bst_Phase (br_Status b))"

definition is_active :: "BuildRun \<Rightarrow> bool" where
  "is_active b \<longleftrightarrow> bst_Phase (br_Status b) = BuildRunPhaseRunning
     \<or> bst_Phase (br_Status b) = BuildRunPhaseQueued \<and> has_run b"

fun partition_runs :: "string \<Rightarrow> BuildRun list \<Rightarrow> int \<Rightarrow> BuildRun list \<Rightarrow> int \<times> BuildRun list" where
  "partition_runs project [] active waiting = (active, waiting)"
| "partition_runs project (candidate # runs) active waiting =
     (if \<not> quota_candidate project candidate then partition_runs project runs active waiting
      else if is_active candidate then partition_runs project runs (active + 1) waiting
      else if \<not> has_run candidate then partition_runs project runs active (waiting @ [candidate])
      else partition_runs project runs active waiting)"

text \<open>\<open>sort.Slice\<close> with the source's order: creation time, then name (byte-wise).\<close>

definition sort_waiting :: "BuildRun list \<Rightarrow> BuildRun list" where
  "sort_waiting = sort_key (\<lambda>b. (meta_CreationTimestamp (br_Meta b), meta_Name (br_Meta b)))"

fun target_rank :: "string \<Rightarrow> int \<Rightarrow> BuildRun list \<Rightarrow> int" where
  "target_rank name i [] = -1"
| "target_rank name i (b # bs) = (if meta_Name (br_Meta b) = name then i else target_rank name (i + 1) bs)"

definition quota_of_list :: "BuildRun \<Rightarrow> ProjectQuotaSpec \<Rightarrow> BuildRun list \<Rightarrow> quotaDecision" where
  "quota_of_list buildRun quotas runs =
     (case partition_runs (brs_ProjectRef (br_Spec buildRun)) runs 0 [] of (active, unsorted) \<Rightarrow>
        let waiting = sort_waiting unsorted;
            available = max 0 (quo_MaxConcurrentBuildRuns quotas - active);
            targetRank = target_rank (meta_Name (br_Meta buildRun)) 0 waiting;
            admitted = min available (int (length waiting));
            d = \<lparr>qd_queue = False, qd_deny = False, qd_active = active,
                 qd_queued = int (length waiting) - admitted\<rparr> in
        if targetRank \<ge> 0 \<and> targetRank < available then d
        else if quo_MaxQueuedBuildRuns quotas > 0
                \<and> targetRank - available \<ge> quo_MaxQueuedBuildRuns quotas then d\<lparr>qd_deny := True\<rparr>
        else d\<lparr>qd_queue := True\<rparr>)"

definition evaluateProjectQuota ::
  "(string \<Rightarrow> 'w \<Rightarrow> BuildRun list result \<times> 'w) \<Rightarrow> BuildRun \<Rightarrow> Project \<Rightarrow> ('w, 'e, quotaDecision result) io" where
  "evaluateProjectQuota list_runs buildRun project =
     (if quota_exempt buildRun project then State_Monad.return (Inr quotaDecision_zero)
      else do {
        r \<leftarrow> query (list_runs (meta_Namespace (br_Meta buildRun)));
        case r of
          Inl err \<Rightarrow> State_Monad.return (Inl (errorf_w ''list BuildRuns for project quota'' err))
        | Inr runs \<Rightarrow> State_Monad.return (Inr (case prs_Quotas (proj_Spec project) of
              Some quotas \<Rightarrow> quota_of_list buildRun quotas runs
            | None \<Rightarrow> quotaDecision_zero))
      })"


section \<open>Admission\<close>

text \<open>The builds of a project that run, and those that wait in order.\<close>

definition active_runs :: "string \<Rightarrow> BuildRun list \<Rightarrow> BuildRun list" where
  "active_runs project runs = filter (\<lambda>b. quota_candidate project b \<and> is_active b) runs"

definition waiting_runs :: "string \<Rightarrow> BuildRun list \<Rightarrow> BuildRun list" where
  "waiting_runs project runs =
     sort_waiting (filter (\<lambda>b. quota_candidate project b \<and> \<not> is_active b \<and> \<not> has_run b) runs)"

definition slots :: "string \<Rightarrow> ProjectQuotaSpec \<Rightarrow> BuildRun list \<Rightarrow> nat" where
  "slots project quotas runs =
     nat (quo_MaxConcurrentBuildRuns quotas - int (length (active_runs project runs)))"

lemma partition_runs_filter:
  "partition_runs project runs active waiting =
     (active + int (length (active_runs project runs)),
      waiting @ filter (\<lambda>b. quota_candidate project b \<and> \<not> is_active b \<and> \<not> has_run b) runs)"
  by (induction runs arbitrary: active waiting) (auto simp: active_runs_def)

lemma target_rank_nth:
  assumes "k < length bs" and "distinct (map (\<lambda>b. meta_Name (br_Meta b)) bs)"
  shows "target_rank (meta_Name (br_Meta (bs ! k))) i bs = i + int k"
  using assms
proof (induction bs arbitrary: i k)
  case (Cons b bs)
  show ?case
  proof (cases k)
    case (Suc j)
    with Cons.prems have j: "j < length bs" by simp
    then have "meta_Name (br_Meta (bs ! j)) \<in> set (map (\<lambda>b. meta_Name (br_Meta b)) bs)"
      by simp
    with Cons.prems have "meta_Name (br_Meta b) \<noteq> meta_Name (br_Meta (bs ! j))" by auto
    with Cons.IH [OF j, of "i + 1"] Cons.prems Suc show ?thesis by simp
  qed simp
qed simp

lemma quota_of_waiting:
  fixes project quotas runs k
  defines "w \<equiv> waiting_runs project runs"
  assumes "k < length w" and "distinct (map (\<lambda>b. meta_Name (br_Meta b)) w)"
  shows "qd_active (quota_of_list (w ! k) quotas runs) = int (length (active_runs project runs))"
    and "qd_queue (quota_of_list (w ! k) quotas runs) \<longleftrightarrow> slots project quotas runs \<le> k
       \<and> \<not> (0 < quo_MaxQueuedBuildRuns quotas
            \<and> slots project quotas runs + nat (quo_MaxQueuedBuildRuns quotas) \<le> k)"
    and "qd_deny (quota_of_list (w ! k) quotas runs) \<longleftrightarrow> 0 < quo_MaxQueuedBuildRuns quotas
       \<and> slots project quotas runs + nat (quo_MaxQueuedBuildRuns quotas) \<le> k"
proof -
  have "w ! k \<in> set w" using assms(2) by simp
  then have p: "brs_ProjectRef (br_Spec (w ! k)) = project"
    by (simp add: w_def waiting_runs_def sort_waiting_def quota_candidate_def)
  have r: "target_rank (meta_Name (br_Meta (w ! k))) 0 w = int k"
    using target_rank_nth [OF assms(2,3)] by simp
  have s: "max 0 (quo_MaxConcurrentBuildRuns quotas - int (length (active_runs project runs)))
      = int (slots project quotas runs)" by (simp add: slots_def)
  have *: "quota_of_list (w ! k) quotas runs =
     (let d = \<lparr>qd_queue = False, qd_deny = False, qd_active = int (length (active_runs project runs)),
                 qd_queued = int (length w) - min (int (slots project quotas runs)) (int (length w))\<rparr> in
        if int k < int (slots project quotas runs) then d
        else if quo_MaxQueuedBuildRuns quotas > 0
                \<and> int k - int (slots project quotas runs) \<ge> quo_MaxQueuedBuildRuns quotas then d\<lparr>qd_deny := True\<rparr>
        else d\<lparr>qd_queue := True\<rparr>)"
    unfolding quota_of_list_def p partition_runs_filter prod.case Let_def append_Nil add_0
      waiting_runs_def [symmetric] w_def [symmetric] r s by simp
  show "qd_active (quota_of_list (w ! k) quotas runs) = int (length (active_runs project runs))"
    unfolding * by (simp add: Let_def)
  show "qd_queue (quota_of_list (w ! k) quotas runs) \<longleftrightarrow> slots project quotas runs \<le> k
       \<and> \<not> (0 < quo_MaxQueuedBuildRuns quotas
            \<and> slots project quotas runs + nat (quo_MaxQueuedBuildRuns quotas) \<le> k)"
    unfolding * by (simp add: Let_def) linarith
  show "qd_deny (quota_of_list (w ! k) quotas runs) \<longleftrightarrow> 0 < quo_MaxQueuedBuildRuns quotas
       \<and> slots project quotas runs + nat (quo_MaxQueuedBuildRuns quotas) \<le> k"
    unfolding * by (simp add: Let_def) linarith
qed

lemma filter_index_take:
  "(\<And>k. k < length xs \<Longrightarrow> P (xs ! k) \<longleftrightarrow> k < n) \<Longrightarrow> filter P xs = take n xs"
proof (induction xs arbitrary: n)
  case (Cons x xs)
  from Cons.prems [of 0] have x: "P x \<longleftrightarrow> 0 < n" by simp
  have "filter P xs = take (n - 1) xs"
    by (rule Cons.IH) (use Cons.prems [of "Suc _"] in auto)
  with x show ?case by (cases n) auto
qed simp

lemma filter_index_drop:
  "(\<And>k. k < length xs \<Longrightarrow> P (xs ! k) \<longleftrightarrow> n \<le> k) \<Longrightarrow> filter P xs = drop n xs"
proof (induction xs arbitrary: n)
  case (Cons x xs)
  from Cons.prems [of 0] have x: "P x \<longleftrightarrow> n = 0" by simp
  have "filter P xs = drop (n - 1) xs"
    by (rule Cons.IH) (use Cons.prems [of "Suc _"] in auto)
  with x show ?case by (cases n) auto
qed simp

text \<open>
  C16: the concurrency quota is first come, first served and never overcommits. Against one
  listing of the namespace, in which names are unique, the waiting builds of a project that the
  quota lets start are exactly the oldest ones that fit into the free slots; with a queue limit the
  denied ones are exactly those behind the slots and the queue; every other one is queued.
\<close>

theorem quota_first_come_first_served:
  assumes "distinct (map (\<lambda>b. meta_Name (br_Meta b)) (waiting_runs project runs))"
  shows "filter (\<lambda>b. \<not> qd_queue (quota_of_list b quotas runs) \<and> \<not> qd_deny (quota_of_list b quotas runs))
        (waiting_runs project runs)
      = take (slots project quotas runs) (waiting_runs project runs)
    \<and> filter (\<lambda>b. qd_deny (quota_of_list b quotas runs)) (waiting_runs project runs)
      = (if quo_MaxQueuedBuildRuns quotas > 0
         then drop (slots project quotas runs + nat (quo_MaxQueuedBuildRuns quotas)) (waiting_runs project runs)
         else [])
    \<and> sorted (map (\<lambda>b. (meta_CreationTimestamp (br_Meta b), meta_Name (br_Meta b))) (waiting_runs project runs))"
proof (intro conjI)
  show "filter (\<lambda>b. \<not> qd_queue (quota_of_list b quotas runs) \<and> \<not> qd_deny (quota_of_list b quotas runs))
        (waiting_runs project runs)
      = take (slots project quotas runs) (waiting_runs project runs)"
    by (rule filter_index_take) (use quota_of_waiting [OF _ assms] in auto)
  show "filter (\<lambda>b. qd_deny (quota_of_list b quotas runs)) (waiting_runs project runs)
      = (if quo_MaxQueuedBuildRuns quotas > 0
         then drop (slots project quotas runs + nat (quo_MaxQueuedBuildRuns quotas)) (waiting_runs project runs)
         else [])"
  proof (cases "quo_MaxQueuedBuildRuns quotas > 0")
    case True
    then have "filter (\<lambda>b. qd_deny (quota_of_list b quotas runs)) (waiting_runs project runs)
      = drop (slots project quotas runs + nat (quo_MaxQueuedBuildRuns quotas)) (waiting_runs project runs)"
      by (intro filter_index_drop) (use quota_of_waiting [OF _ assms] in auto)
    with True show ?thesis by simp
  next
    case False
    then have "filter (\<lambda>b. qd_deny (quota_of_list b quotas runs)) (waiting_runs project runs)
      = drop (length (waiting_runs project runs)) (waiting_runs project runs)"
      by (intro filter_index_drop) (use quota_of_waiting [OF _ assms] in auto)
    with False show ?thesis by simp
  qed
qed (simp add: waiting_runs_def sort_waiting_def)

definition waiting_run :: "string \<Rightarrow> gotime \<Rightarrow> BuildRun" where
  "waiting_run name created = BuildRun_zero
     \<lparr>br_Meta := ObjectMeta_zero\<lparr>meta_Name := name, meta_CreationTimestamp := created\<rparr>\<rparr>"

definition sample_runs :: "BuildRun list" where
  "sample_runs = [waiting_run ''c'' 30, waiting_run ''a'' 10, waiting_run ''b'' 20]"

definition sample_quotas :: ProjectQuotaSpec where
  "sample_quotas = ProjectQuotaSpec_zero\<lparr>quo_MaxConcurrentBuildRuns := 1, quo_MaxQueuedBuildRuns := 1\<rparr>"

lemma waiting_run_simps [simp]:
  "quota_candidate '''' (waiting_run name created)" "\<not> is_active (waiting_run name created)"
  "\<not> has_run (waiting_run name created)" "meta_Name (br_Meta (waiting_run name created)) = name"
  "meta_CreationTimestamp (br_Meta (waiting_run name created)) = created"
  by (simp_all add: waiting_run_def quota_candidate_def is_active_def has_run_def BuildRun_zero_def
      BuildRunSpec_zero_def BuildRunStatus_zero_def ObjectRef_zero_def ObjectMeta_zero_def)

theorem quota_first_come_first_served_witness:
  "map (\<lambda>b. meta_Name (br_Meta b)) (filter (\<lambda>b. \<not> qd_queue (quota_of_list b sample_quotas sample_runs)
       \<and> \<not> qd_deny (quota_of_list b sample_quotas sample_runs)) (waiting_runs '''' sample_runs)) = [''a'']
   \<and> map (\<lambda>b. meta_Name (br_Meta b)) (filter (\<lambda>b. qd_deny (quota_of_list b sample_quotas sample_runs))
       (waiting_runs '''' sample_runs)) = [''c'']"
proof -
  have w: "map (\<lambda>b. meta_Name (br_Meta b)) (waiting_runs '''' sample_runs) = [''a'', ''b'', ''c'']"
    by (simp add: waiting_runs_def sample_runs_def sort_waiting_def)
  have s: "slots '''' sample_quotas sample_runs = 1" "quo_MaxQueuedBuildRuns sample_quotas = 1"
    by (simp_all add: slots_def active_runs_def sample_runs_def sample_quotas_def)
  have "distinct (map (\<lambda>b. meta_Name (br_Meta b)) (waiting_runs '''' sample_runs))"
    unfolding w by simp
  from quota_first_come_first_served [OF this, of sample_quotas] w show ?thesis
    by (simp add: s take_map [symmetric] drop_map [symmetric])
qed


section \<open>Resource caps\<close>

definition stricterQuantity :: "(string \<Rightarrow> int option) \<Rightarrow> string \<Rightarrow> string \<Rightarrow> string" where
  "stricterQuantity parse current maximum =
     (if maximum = '''' then current
      else (case parse maximum of
          None \<Rightarrow> current
        | Some limit \<Rightarrow>
            if current = '''' then maximum
            else (case parse current of
                None \<Rightarrow> maximum
              | Some value \<Rightarrow> if value > limit then maximum else current)))"

definition noGreaterThan :: "(string \<Rightarrow> int option) \<Rightarrow> string \<Rightarrow> string \<Rightarrow> string" where
  "noGreaterThan parse request limit =
     (if request = '''' \<or> limit = '''' then request
      else (case (parse request, parse limit) of
          (Some req, Some lim) \<Rightarrow> if req > lim then limit else request
        | _ \<Rightarrow> request))"

definition cap_resources ::
  "(string \<Rightarrow> int option) \<Rightarrow> PipelineResourceSpec \<Rightarrow> ProjectQuotaSpec \<Rightarrow> PipelineResourceSpec" where
  "cap_resources parse res quotas =
     (let timeout = (if quo_MaxBuildDurationSeconds quotas > 0
                        \<and> (res_TimeoutSeconds res = 0 \<or> quo_MaxBuildDurationSeconds quotas < res_TimeoutSeconds res)
                     then quo_MaxBuildDurationSeconds quotas else res_TimeoutSeconds res);
          cpu = stricterQuantity parse (res_CPULimit res) (quo_MaxCPU quotas);
          memory = stricterQuantity parse (res_MemoryLimit res) (quo_MaxMemory quotas)
      in res\<lparr>res_TimeoutSeconds := timeout, res_CPULimit := cpu, res_MemoryLimit := memory,
             res_CPURequest := noGreaterThan parse (res_CPURequest res) cpu,
             res_MemoryRequest := noGreaterThan parse (res_MemoryRequest res) memory\<rparr>)"

definition applyProjectWorkloadQuotas ::
  "(string \<Rightarrow> int option) \<Rightarrow> PipelineTemplate \<Rightarrow> ProjectQuotaSpec option \<Rightarrow> PipelineTemplate" where
  "applyProjectWorkloadQuotas parse template quotas = (case quotas of
     None \<Rightarrow> template
   | Some q \<Rightarrow> template\<lparr>pt_Spec := (pt_Spec template)\<lparr>
       pts_Resources := cap_resources parse (pts_Resources (pt_Spec template)) q\<rparr>\<rparr>)"

lemma stricter_idem: "stricterQuantity parse (stricterQuantity parse c m) m = stricterQuantity parse c m"
  by (auto simp: stricterQuantity_def split: option.split)

lemma noGreater_idem: "noGreaterThan parse (noGreaterThan parse r l) l = noGreaterThan parse r l"
  by (auto simp: noGreaterThan_def split: option.splits)

lemma stricter_le:
  "m \<noteq> [] \<Longrightarrow> parse m = Some u \<Longrightarrow>
   stricterQuantity parse c m \<noteq> [] \<and> (\<exists>v. parse (stricterQuantity parse c m) = Some v \<and> v \<le> u)"
  by (auto simp: stricterQuantity_def split: option.splits)

lemma noGreater_le:
  "l \<noteq> [] \<Longrightarrow> parse l = Some v \<Longrightarrow> noGreaterThan parse r l \<noteq> [] \<Longrightarrow>
   parse (noGreaterThan parse r l) = Some q \<Longrightarrow> q \<le> v"
  by (auto simp: noGreaterThan_def split: if_splits option.splits)

lemma cap_resources_sels:
  "res_CPULimit (cap_resources parse res q) = stricterQuantity parse (res_CPULimit res) (quo_MaxCPU q)"
  "res_MemoryLimit (cap_resources parse res q) = stricterQuantity parse (res_MemoryLimit res) (quo_MaxMemory q)"
  "res_CPURequest (cap_resources parse res q) =
     noGreaterThan parse (res_CPURequest res) (stricterQuantity parse (res_CPULimit res) (quo_MaxCPU q))"
  "res_MemoryRequest (cap_resources parse res q) =
     noGreaterThan parse (res_MemoryRequest res) (stricterQuantity parse (res_MemoryLimit res) (quo_MaxMemory q))"
  "res_TimeoutSeconds (cap_resources parse res q) =
     (if quo_MaxBuildDurationSeconds q > 0
         \<and> (res_TimeoutSeconds res = 0 \<or> quo_MaxBuildDurationSeconds q < res_TimeoutSeconds res)
      then quo_MaxBuildDurationSeconds q else res_TimeoutSeconds res)"
  by (simp_all add: cap_resources_def Let_def split del: if_split)

lemma cap_resources_idem: "cap_resources parse (cap_resources parse res q) q = cap_resources parse res q"
  by (rule PipelineResourceSpec.equality)
    (simp_all only: cap_resources_sels stricter_idem noGreater_idem split: if_split, simp_all)

text \<open>A limit and a request that respect a maximum, where the maximum is a quantity.\<close>

definition capped :: "(string \<Rightarrow> int option) \<Rightarrow> string \<Rightarrow> string \<Rightarrow> string \<Rightarrow> bool" where
  "capped parse maximum limit request =
     (if maximum = [] then True
      else (case parse maximum of None \<Rightarrow> True
        | Some m \<Rightarrow> (case parse limit of None \<Rightarrow> False
            | Some v \<Rightarrow> v \<le> m \<and> (if request = [] then True
                else (case parse request of None \<Rightarrow> True | Some r \<Rightarrow> r \<le> v)))))"

lemma capped_stricter:
  "capped parse m (stricterQuantity parse c m) (noGreaterThan parse r (stricterQuantity parse c m))"
proof (cases "m = [] \<or> parse m = None")
  case True
  then show ?thesis by (auto simp: capped_def)
next
  case False
  then obtain u where u: "m \<noteq> []" "parse m = Some u" by auto
  from stricter_le [of m parse u c] u obtain v
    where v: "stricterQuantity parse c m \<noteq> []" "parse (stricterQuantity parse c m) = Some v" "v \<le> u"
    by blast
  then have
    "noGreaterThan parse r (stricterQuantity parse c m) \<noteq> [] \<Longrightarrow>
     parse (noGreaterThan parse r (stricterQuantity parse c m)) = Some q \<Longrightarrow> q \<le> v" for q
    by (blast intro: noGreater_le)
  with u v show ?thesis by (simp add: capped_def split: option.split)
qed

text \<open>
  the template that a build runs with respects the project's quotas - the CPU and memory limits
  parse and are at most the maxima, the requests are at most the limits, the timeout is set and at
  most the maximal duration, wherever the quota gives one - and capping is idempotent, so
  reconciling again does not change it.
\<close>

theorem applyProjectWorkloadQuotas_caps:
  "(let res = pts_Resources (pt_Spec (applyProjectWorkloadQuotas parse template (Some q))) in
      capped parse (quo_MaxCPU q) (res_CPULimit res) (res_CPURequest res)
      \<and> capped parse (quo_MaxMemory q) (res_MemoryLimit res) (res_MemoryRequest res)
      \<and> (if quo_MaxBuildDurationSeconds q > 0
         then res_TimeoutSeconds res \<noteq> 0 \<and> res_TimeoutSeconds res \<le> quo_MaxBuildDurationSeconds q
         else res_TimeoutSeconds res = res_TimeoutSeconds (pts_Resources (pt_Spec template))))
   \<and> applyProjectWorkloadQuotas parse (applyProjectWorkloadQuotas parse template (Some q)) (Some q)
       = applyProjectWorkloadQuotas parse template (Some q)"
proof
  have "pts_Resources (pt_Spec (applyProjectWorkloadQuotas parse template (Some q)))
      = cap_resources parse (pts_Resources (pt_Spec template)) q"
    by (simp add: applyProjectWorkloadQuotas_def)
  then show "let res = pts_Resources (pt_Spec (applyProjectWorkloadQuotas parse template (Some q))) in
      capped parse (quo_MaxCPU q) (res_CPULimit res) (res_CPURequest res)
      \<and> capped parse (quo_MaxMemory q) (res_MemoryLimit res) (res_MemoryRequest res)
      \<and> (if quo_MaxBuildDurationSeconds q > 0
         then res_TimeoutSeconds res \<noteq> 0 \<and> res_TimeoutSeconds res \<le> quo_MaxBuildDurationSeconds q
         else res_TimeoutSeconds res = res_TimeoutSeconds (pts_Resources (pt_Spec template)))"
    by (simp only: Let_def cap_resources_sels capped_stricter simp_thms if_True if_False split: if_split)
      linarith
  show "applyProjectWorkloadQuotas parse (applyProjectWorkloadQuotas parse template (Some q)) (Some q)
       = applyProjectWorkloadQuotas parse template (Some q)"
    by (simp add: applyProjectWorkloadQuotas_def cap_resources_idem)
qed

end
