(* ===== verification/Tagging.thy ===== *)
theory Tagging
  imports GoStrings
begin

text \<open>
  \<open>internal/build/tagging.go\<close>: the image tag of a build. The template engine (\<open>text/template\<close>) is
  a pair of arguments, its parser and its executor; everything else is modelled, the formatting of
  a UTC timestamp included.
\<close>

definition DefaultTagTemplate :: string where
  "DefaultTagTemplate = ''{{ .Branch }}-{{ .ShortSHA }}''"

record TagInput =
  tgi_Branch :: string
  tgi_CommitSHA :: string
  tgi_Revision :: string
  tgi_BuildRunName :: string
  tgi_Timestamp :: gotime

record TagTemplateData =
  ttd_Branch :: string
  ttd_CommitSHA :: string
  ttd_ShortSHA :: string
  ttd_BuildRunName :: string
  ttd_Timestamp :: string

text \<open>\<open>^[a-fA-F0-9]{7,64}$\<close>\<close>

definition is_hex :: "char \<Rightarrow> bool" where
  "is_hex c = (is_digit c \<or> (97 \<le> byte c \<and> byte c \<le> 102) \<or> (65 \<le> byte c \<and> byte c \<le> 70))"

definition commitPattern :: "string \<Rightarrow> bool" where
  "commitPattern s = (7 \<le> length s \<and> length s \<le> 64 \<and> list_all is_hex s)"


section \<open>Timestamps\<close>

text \<open>\<open>Format("20060102T150405Z")\<close> in the proleptic Gregorian calendar, from the days since 0001-01-01.\<close>

definition is_leap :: "int \<Rightarrow> bool" where
  "is_leap y = (y mod 4 = 0 \<and> (y mod 100 \<noteq> 0 \<or> y mod 400 = 0))"

definition year_yday :: "int \<Rightarrow> int \<times> int" where
  "year_yday d =
     (let n400 = d div 146097; r400 = d mod 146097;
          n100 = min 3 (r400 div 36524); r100 = r400 - 36524 * n100;
          n4 = r100 div 1461; r4 = r100 mod 1461;
          n1 = min 3 (r4 div 365)
      in (400 * n400 + 100 * n100 + 4 * n4 + n1 + 1, r4 - 365 * n1))"

fun month_day :: "int list \<Rightarrow> int \<Rightarrow> int \<Rightarrow> int \<times> int" where
  "month_day [] m yday = (m, yday + 1)"
| "month_day (len # lens) m yday = (if yday < len then (m, yday + 1) else month_day lens (m + 1) (yday - len))"

definition month_lengths :: "int \<Rightarrow> int list" where
  "month_lengths y = [31, if is_leap y then 29 else 28, 31, 30, 31, 30, 31, 31, 30, 31, 30]"

definition pad :: "nat \<Rightarrow> int \<Rightarrow> string" where
  "pad w n = replicate (w - length (Itoa n)) (CHR ''0'') @ Itoa n"

definition format_utc :: "gotime \<Rightarrow> string" where
  "format_utc t =
     (let secs = t div 1000000000; s = secs mod 86400; yd = year_yday (secs div 86400);
          md = month_day (month_lengths (fst yd)) 1 (snd yd) in
      pad 4 (fst yd) @ pad 2 (fst md) @ pad 2 (snd md) @ ''T''
        @ pad 2 (s div 3600) @ pad 2 (s div 60 mod 60) @ pad 2 (s mod 60) @ ''Z'')"

text \<open>\<open>time.Unix(0, 0)\<close> counted from Go's zero time.\<close>

definition unix_epoch :: gotime where
  "unix_epoch = seconds 62135596800"


section \<open>The operations\<close>

definition tagTemplateData :: "TagInput \<Rightarrow> TagTemplateData" where
  "tagTemplateData input =
     (let branch = TrimSpace (tgi_Branch input);
          branch = (if branch = '''' then ''detached'' else branch);
          commit = TrimSpace (tgi_CommitSHA input);
          commit = (if commit = '''' \<and> commitPattern (TrimSpace (tgi_Revision input))
                    then TrimSpace (tgi_Revision input) else commit);
          commit = ToLower commit;
          short = (if 12 < length commit then take 12 commit else commit);
          short = (if commit = '''' then ''unknown'' else short);
          commit = (if commit = '''' then ''unknown'' else commit);
          name = TrimSpace (tgi_BuildRunName input);
          name = (if name = '''' then ''build'' else name);
          timestamp = (if IsZero (tgi_Timestamp input) then unix_epoch else tgi_Timestamp input)
      in \<lparr>ttd_Branch = branch, ttd_CommitSHA = commit, ttd_ShortSHA = short,
          ttd_BuildRunName = name, ttd_Timestamp = format_utc timestamp\<rparr>)"

definition tag_allowed :: "char \<Rightarrow> bool" where
  "tag_allowed c = (byte c < 127 \<and> (is_letter c \<or> is_digit c \<or> c = CHR ''_'' \<or> c = CHR ''.'' \<or> c = CHR ''-''))"

fun sanitize_loop :: "bool \<Rightarrow> string \<Rightarrow> string" where
  "sanitize_loop lastReplacement [] = []"
| "sanitize_loop lastReplacement (current # rest) =
     (if tag_allowed current then lower current # sanitize_loop False rest
      else if \<not> lastReplacement then CHR ''-'' # sanitize_loop True rest
      else sanitize_loop True rest)"

definition SanitizeImageTag :: "string \<Rightarrow> string result" where
  "SanitizeImageTag value =
     (let tag = Trim (sanitize_loop False (TrimSpace value)) ''.-'';
          tag = (if 128 < length tag then TrimRight (take 128 tag) ''.-'' else tag) in
      if tag = '''' then Inl (errors_New ''image tag is empty after sanitization'') else Inr tag)"

definition ResolveImageTag ::
  "(string \<Rightarrow> 'tpl result) \<Rightarrow> ('tpl \<Rightarrow> TagTemplateData \<Rightarrow> string result) \<Rightarrow>
   string \<Rightarrow> string \<Rightarrow> TagInput \<Rightarrow> string result \<times> bool" where
  "ResolveImageTag parse execute explicitTag tagTemplate input =
     (if explicitTag \<noteq> '''' then (SanitizeImageTag explicitTag, False)
      else (case parse (if tagTemplate = '''' then DefaultTagTemplate else tagTemplate) of
          Inl err \<Rightarrow> (Inl (errorf_w ''parse image tag template'' err), True)
        | Inr parsed \<Rightarrow> (case execute parsed (tagTemplateData input) of
            Inl err \<Rightarrow> (Inl (errorf_w ''render image tag template'' err), True)
          | Inr rendered \<Rightarrow> (case SanitizeImageTag rendered of
              Inl err \<Rightarrow> (Inl (errorf_w ''sanitize generated image tag'' err), True)
            | Inr tag \<Rightarrow> (Inr tag, True)))))"


section \<open>Trimming\<close>

lemma TrimFunc_set: "set (TrimFunc p s) \<subseteq> set s"
  by (auto simp: TrimFunc_def TrimRightFunc_def TrimLeftFunc_def dest!: set_dropWhileD)

lemma TrimRightFunc_snoc: "TrimRightFunc p (s @ [c]) = (if p c then TrimRightFunc p s else s @ [c])"
  by (simp add: TrimRightFunc_def)

lemma TrimRightFunc_last: "TrimRightFunc p s \<noteq> [] \<Longrightarrow> \<not> p (last (TrimRightFunc p s))"
  by (induction s rule: rev_induct) (auto simp: TrimRightFunc_snoc TrimRightFunc_def split: if_splits)

lemma TrimRightFunc_prefix: "\<exists>t. s = TrimRightFunc p s @ t \<and> list_all p t"
proof (induction s rule: rev_induct)
  case Nil
  show ?case by (simp add: TrimRightFunc_def)
next
  case (snoc c s)
  then obtain t where "s = TrimRightFunc p s @ t" "list_all p t" by blast
  then show ?case
    by (cases "p c") (auto simp: TrimRightFunc_snoc intro: exI [of _ "t @ [c]"])
qed

lemma TrimRightFunc_hd: "TrimRightFunc p s \<noteq> [] \<Longrightarrow> hd (TrimRightFunc p s) = hd s"
  using TrimRightFunc_prefix [of s p] by (metis hd_append)

lemma TrimRightFunc_empty: "TrimRightFunc p s = [] \<longleftrightarrow> list_all p s"
  by (simp add: TrimRightFunc_def list_all_iff dropWhile_eq_Nil_conv)

lemma TrimRightFunc_id: "s = [] \<or> \<not> p (last s) \<Longrightarrow> TrimRightFunc p s = s"
  by (cases s rule: rev_cases) (auto simp: TrimRightFunc_def)

lemma TrimFunc_ends:
  assumes "TrimFunc p s \<noteq> []"
  shows "\<not> p (hd (TrimFunc p s))" and "\<not> p (last (TrimFunc p s))"
proof -
  have eq: "TrimFunc p s = TrimRightFunc p (dropWhile p s)"
    by (simp add: TrimFunc_def TrimLeftFunc_def)
  with assms have "dropWhile p s \<noteq> []" by (metis TrimRightFunc_id)
  moreover from assms have "hd (TrimFunc p s) = hd (dropWhile p s)"
    unfolding eq by (rule TrimRightFunc_hd)
  ultimately have "hd (TrimFunc p s) = hd (dropWhile p s)" and "dropWhile p s \<noteq> []" by simp_all
  then show "\<not> p (hd (TrimFunc p s))" using hd_dropWhile by metis
  from assms show "\<not> p (last (TrimFunc p s))" by (simp add: TrimFunc_def TrimRightFunc_last)
qed

lemma TrimFunc_mem:
  assumes "\<not> p c"
  shows "c \<in> set (TrimFunc p s) \<longleftrightarrow> c \<in> set s"
proof -
  obtain t where t: "dropWhile p s = TrimFunc p s @ t" "list_all p t"
    using TrimRightFunc_prefix [of "dropWhile p s" p] by (auto simp: TrimFunc_def TrimLeftFunc_def)
  have "c \<in> set s \<longleftrightarrow> c \<in> set (takeWhile p s) \<or> c \<in> set (dropWhile p s)"
    by (metis Un_iff set_append takeWhile_dropWhile_id)
  also have "\<dots> \<longleftrightarrow> c \<in> set (TrimFunc p s)"
    using t assms by (auto simp: list_all_iff dest: set_takeWhileD)
  finally show ?thesis by blast
qed

lemma TrimFunc_empty: "TrimFunc p s = [] \<longleftrightarrow> list_all p s"
proof
  assume "TrimFunc p s = []"
  then show "list_all p s" unfolding list_all_iff using TrimFunc_mem [of p _ s] by auto
next
  assume "list_all p s"
  then show "TrimFunc p s = []"
    by (simp add: TrimFunc_def TrimLeftFunc_def TrimRightFunc_empty list_all_iff
        dropWhile_eq_Nil_conv [THEN iffD2])
qed

lemma TrimFunc_id: "s = [] \<or> \<not> p (hd s) \<and> \<not> p (last s) \<Longrightarrow> TrimFunc p s = s"
  by (cases s) (auto simp: TrimFunc_def TrimLeftFunc_def intro: TrimRightFunc_id)


section \<open>Sanitized tags\<close>

text \<open>
  The tags of the registry's grammar, \<open>[a-z0-9_][a-z0-9_.-]{0,127}\<close>, that also end in a letter,
  a digit or an underscore.
\<close>

definition tag_word :: "char \<Rightarrow> bool" where
  "tag_word c = (is_letter c \<or> is_digit c \<or> c = CHR ''_'')"

definition valid_tag :: "string \<Rightarrow> bool" where
  "valid_tag t = (t \<noteq> [] \<and> length t \<le> 128 \<and> list_all (\<lambda>c. tag_allowed c \<and> \<not> is_upper c) t
     \<and> tag_word (hd t) \<and> tag_word (last t))"

lemma tag_allowed_word: "tag_allowed c \<Longrightarrow> c \<notin> {CHR ''.'', CHR ''-''} \<Longrightarrow> tag_word c"
  by (auto simp: tag_allowed_def tag_word_def)

lemma word_not_trimmed: "tag_word c \<Longrightarrow> c \<notin> {CHR ''.'', CHR ''-''} \<and> \<not> is_space c"
  by (auto simp: tag_word_def is_letter_def is_upper_def is_lower_def is_digit_def is_space_def byte_def)

lemma letter_bound: "is_letter c \<Longrightarrow> byte c < 127" "is_digit c \<Longrightarrow> byte c < 127"
  by (auto simp: is_letter_def is_upper_def is_lower_def is_digit_def)

lemma letter_lower: "is_upper c \<Longrightarrow> is_letter (lower c)"
  by simp (simp add: is_letter_def)

lemma tag_word_lower: "tag_word (lower c) = tag_word c"
  by (cases "is_upper c") (simp_all add: tag_word_def letter_lower lower_id, simp add: is_letter_def)

lemma tag_word_allowed: "tag_word c \<Longrightarrow> tag_allowed c"
  using letter_bound [of c] by (auto simp: tag_word_def tag_allowed_def byte_def)

lemma tag_allowed_lower: "tag_allowed c \<Longrightarrow> tag_allowed (lower c)"
  by (cases "is_upper c")
    (simp_all only: lower_id not_False_eq_True tag_allowed_def letter_bound letter_lower simp_thms)

lemma dash: "tag_allowed (CHR ''-'')" "\<not> is_upper (CHR ''-'')" "\<not> tag_word (CHR ''-'')"
  by code_simp+

lemma sanitize_loop_allowed: "list_all (\<lambda>c. tag_allowed c \<and> \<not> is_upper c) (sanitize_loop b s)"
  by (induction s arbitrary: b) (simp_all add: tag_allowed_lower dash)

lemma sanitize_loop_id: "list_all (\<lambda>c. tag_allowed c \<and> \<not> is_upper c) s \<Longrightarrow> sanitize_loop b s = s"
  by (induction s arbitrary: b) (simp_all add: lower_id)

lemma sanitize_loop_word: "list_ex tag_word (sanitize_loop b s) \<longleftrightarrow> list_ex tag_word s"
  by (induction s arbitrary: b) (auto simp: tag_word_lower dash dest: tag_word_allowed)

lemma trim_set_word: "tag_allowed c \<Longrightarrow> c \<in> set ''.-'' \<longleftrightarrow> \<not> tag_word c"
  using tag_allowed_word [of c] word_not_trimmed [of c]
  by (simp only: list.set insert_iff empty_iff) blast

lemma trimmed_word:
  assumes "list_all tag_allowed s"
  shows "Trim s ''.-'' = [] \<longleftrightarrow> \<not> list_ex tag_word s"
  using assms trim_set_word unfolding Trim_def TrimFunc_empty list_all_iff list_ex_iff by blast

lemma TrimSpace_word: "list_ex tag_word (TrimSpace s) \<longleftrightarrow> list_ex tag_word s"
  unfolding TrimSpace_def list_ex_iff
  using TrimFunc_mem [of is_space _ s] word_not_trimmed by blast

lemma Trim_ends:
  assumes "list_all tag_allowed s" and "Trim s ''.-'' \<noteq> []"
  shows "tag_word (hd (Trim s ''.-''))" and "tag_word (last (Trim s ''.-''))"
proof -
  have "set (Trim s ''.-'') \<subseteq> set s" by (simp add: Trim_def TrimFunc_set)
  with assms have "tag_allowed (hd (Trim s ''.-''))" "tag_allowed (last (Trim s ''.-''))"
    by (auto simp: list_all_iff dest!: subsetD)
  moreover from assms(2) have "hd (Trim s ''.-'') \<notin> set ''.-''" "last (Trim s ''.-'') \<notin> set ''.-''"
    unfolding Trim_def by (auto dest: TrimFunc_ends)
  ultimately show "tag_word (hd (Trim s ''.-''))" and "tag_word (last (Trim s ''.-''))"
    using trim_set_word by blast+
qed

lemma Sanitize_valid:
  assumes "SanitizeImageTag v = Inr t"
  shows "valid_tag t"
proof -
  define l where "l = sanitize_loop False (TrimSpace v)"
  define u where "u = Trim l ''.-''"
  have l: "list_all (\<lambda>c. tag_allowed c \<and> \<not> is_upper c) l" by (simp add: l_def sanitize_loop_allowed)
  then have la: "list_all tag_allowed l" by (simp add: list_all_iff)
  have u: "list_all (\<lambda>c. tag_allowed c \<and> \<not> is_upper c) u"
    using l TrimFunc_set [of "\<lambda>c. c \<in> set ''.-''" l] unfolding u_def Trim_def list_all_iff by blast
  define t' where "t' = (if 128 < length u then TrimRight (take 128 u) ''.-'' else u)"
  from assms have t: "t = t'" "t \<noteq> []"
    by (auto simp: SanitizeImageTag_def Let_def l_def u_def t'_def split: if_splits)
  have "u \<noteq> []" using t by (auto simp: t'_def TrimRight_def TrimRightFunc_def split: if_splits)
  then have ends: "tag_word (hd u)" "tag_word (last u)"
    using Trim_ends [OF la] by (simp_all add: u_def)
  show ?thesis
  proof (cases "128 < length u")
    case True
    then have tt: "t = TrimRightFunc (\<lambda>c. c \<in> set ''.-'') (take 128 u)"
      using t by (simp add: t'_def TrimRight_def)
    then obtain r where r: "take 128 u = t @ r" using TrimRightFunc_prefix by metis
    have sub: "set t \<subseteq> set u" by (metis Un_upper1 order_trans r set_append set_take_subset)
    have "length t \<le> 128" using arg_cong [OF r, of length] True by simp
    moreover have "hd t = hd u"
      using t(2) True tt TrimRightFunc_hd [of "\<lambda>c. c \<in> set ''.-''" "take 128 u"]
      by (cases u) (simp_all del: list.set)
    moreover have "tag_word (last t)"
      using TrimRightFunc_last [of "\<lambda>c. c \<in> set ''.-''" "take 128 u"] t(2) sub u trim_set_word [of "last t"]
      unfolding tt [symmetric] list_all_iff by (metis last_in_set subsetD)
    moreover have "list_all (\<lambda>c. tag_allowed c \<and> \<not> is_upper c) t"
      using u sub unfolding list_all_iff by blast
    ultimately show ?thesis using t(2) ends by (simp add: valid_tag_def)
  next
    case False
    with t u ends show ?thesis by (simp add: valid_tag_def t'_def)
  qed
qed

lemma valid_fixed:
  assumes "valid_tag t"
  shows "SanitizeImageTag t = Inr t"
proof -
  from assms have t: "t \<noteq> []" "length t \<le> 128" "list_all (\<lambda>c. tag_allowed c \<and> \<not> is_upper c) t"
    "tag_word (hd t)" "tag_word (last t)" by (simp_all add: valid_tag_def)
  have "TrimSpace t = t"
    unfolding TrimSpace_def by (rule TrimFunc_id) (use t word_not_trimmed in blast)
  moreover have "Trim t ''.-'' = t"
    unfolding Trim_def
    by (rule TrimFunc_id) (use t word_not_trimmed in \<open>simp only: list.set insert_iff empty_iff, blast\<close>)
  ultimately show ?thesis using t by (simp add: SanitizeImageTag_def sanitize_loop_id)
qed

text \<open>
  the tags that \<open>SanitizeImageTag\<close> returns are exactly the valid ones - at most 128
  characters of the lower-case tag alphabet that begin and end in a letter, a digit or an
  underscore - and these are exactly the inputs that it leaves alone, so it is idempotent.
\<close>

theorem SanitizeImageTag_range:
  "((\<exists>value. SanitizeImageTag value = Inr t) \<longleftrightarrow> valid_tag t)
   \<and> (SanitizeImageTag t = Inr t \<longleftrightarrow> valid_tag t)"
  using Sanitize_valid valid_fixed by blast

text \<open>
  \<open>SanitizeImageTag\<close> fails exactly on the inputs without a letter, a digit or an underscore.
\<close>

theorem SanitizeImageTag_fails_iff:
  "(SanitizeImageTag value = Inl (errors_New ''image tag is empty after sanitization'')
      \<longleftrightarrow> \<not> list_ex tag_word value)
   \<and> ((\<exists>t. SanitizeImageTag value = Inr t) \<longleftrightarrow> list_ex tag_word value)"
proof -
  define l where "l = sanitize_loop False (TrimSpace value)"
  have la: "list_all tag_allowed l"
    using sanitize_loop_allowed [of False "TrimSpace value"] by (simp add: l_def list_all_iff)
  have w: "Trim l ''.-'' = [] \<longleftrightarrow> \<not> list_ex tag_word value"
    using trimmed_word [OF la] by (simp add: l_def sanitize_loop_word TrimSpace_word)
  have "TrimRight (take 128 (Trim l ''.-'')) ''.-'' = [] \<longleftrightarrow> Trim l ''.-'' = []"
  proof
    assume *: "TrimRight (take 128 (Trim l ''.-'')) ''.-'' = []"
    show "Trim l ''.-'' = []"
    proof (rule ccontr)
      assume n: "Trim l ''.-'' \<noteq> []"
      then have "hd (Trim l ''.-'') \<in> set (take 128 (Trim l ''.-''))"
        by (cases "Trim l ''.-''") simp_all
      with * have "hd (Trim l ''.-'') \<in> set ''.-''"
        unfolding TrimRight_def TrimRightFunc_empty list_all_iff by blast
      then have "hd (Trim l ''.-'') \<in> {CHR ''.'', CHR ''-''}" by (simp only: list.set)
      with Trim_ends(1) [OF la n] word_not_trimmed show False by blast
    qed
  qed (simp add: TrimRight_def TrimRightFunc_def)
  with w show ?thesis by (auto simp: SanitizeImageTag_def l_def [symmetric] Let_def)
qed

text \<open>
  resolving is stable: whatever the template engine does, a tag that \<open>ResolveImageTag\<close> returns
  is valid, and resolving again with that tag as the explicit one returns it and generates nothing.
  So a reconcile that has persisted the tag finds it unchanged the next time.
\<close>

theorem ResolveImageTag_stable:
  assumes "ResolveImageTag parse execute explicitTag tagTemplate input = (Inr tag, generated)"
  shows "valid_tag tag \<and> (generated \<longleftrightarrow> explicitTag = '''')
    \<and> ResolveImageTag parse execute tag tagTemplate' input' = (Inr tag, False)"
proof -
  from assms obtain v where "SanitizeImageTag v = Inr tag" and g: "generated \<longleftrightarrow> explicitTag = ''''"
    by (auto simp: ResolveImageTag_def split: if_splits sum.splits)
  then have v: "valid_tag tag" by (blast intro: Sanitize_valid)
  then have "tag \<noteq> []" by (simp add: valid_tag_def)
  with v g show ?thesis by (simp add: ResolveImageTag_def valid_fixed)
qed

text \<open>A template engine that knows the default template only.\<close>

definition default_execute :: "string \<Rightarrow> TagTemplateData \<Rightarrow> string result" where
  "default_execute parsed data =
     (if parsed = DefaultTagTemplate then Inr (ttd_Branch data @ ''-'' @ ttd_ShortSHA data)
      else Inl (errors_New ''unknown template''))"

definition sample_input :: TagInput where
  "sample_input = \<lparr>tgi_Branch = ''feature/Login'', tgi_CommitSHA = '''', tgi_Revision = ''ABCDEF0123456789'',
     tgi_BuildRunName = ''run'', tgi_Timestamp = 0\<rparr>"

theorem ResolveImageTag_stable_witness:
  "ResolveImageTag Inr default_execute ''feature-login-abcdef012345'' '''' sample_input
     = (Inr ''feature-login-abcdef012345'', False)"
proof -
  have "ResolveImageTag Inr default_execute '''' '''' sample_input
     = (Inr ''feature-login-abcdef012345'', True)"
    by code_simp
  from ResolveImageTag_stable [OF this] show ?thesis by blast
qed

lemma format_utc_epoch: "format_utc unix_epoch = ''19700101T000000Z''"
  by code_simp

lemma format_utc_leap_day: "format_utc (unix_epoch + seconds 1709210096) = ''20240229T123456Z''"
  by code_simp

end
