(* ===== verification/BuildRunController.thy ===== *)
theory BuildRunController
  imports ControllerKit Policy Quota Tagging
begin

text \<open>
  \<open>internal/controller/buildrun_controller.go\<close> and the status-writing half of \<open>quota.go\<close>: one
  reconciliation of a BuildRun. The reconciler's collaborators are the fields of \<open>buildrun_deps\<close>:
  the Kubernetes client's calls, the retry helper (at the two result types the code uses it with),
  the clock, the executors, the policy evaluator, the event recorder, the notifier, the template
  engine and the quantity parser. A Go method that mutates its \<open>*BuildRun\<close> argument takes and
  returns the value here. Metrics and log lines are not modelled.
\<close>

section \<open>Collaborators and effects\<close>

datatype br_effect =
    SpecUpdate BuildRun
  | StatusUpdate BuildRun
  | RunEnsured EnsureRunRequest
  | ReleaseCreated Release
  | EventRecorded EventType string string
  | NotificationSent NotificationRequest

record 'w buildrun_deps =
  brd_GetBuildRun :: "NamespacedName \<Rightarrow> 'w \<Rightarrow> BuildRun result \<times> 'w"
  brd_GetProject :: "NamespacedName \<Rightarrow> 'w \<Rightarrow> Project result \<times> 'w"
  brd_GetRepository :: "NamespacedName \<Rightarrow> 'w \<Rightarrow> Repository result \<times> 'w"
  brd_GetPipelineTemplate :: "NamespacedName \<Rightarrow> 'w \<Rightarrow> PipelineTemplate result \<times> 'w"
  brd_GetRelease :: "NamespacedName \<Rightarrow> 'w \<Rightarrow> Release result \<times> 'w"
  brd_ListBuildRuns :: "string \<Rightarrow> 'w \<Rightarrow> BuildRun list result \<times> 'w"
  brd_Update :: "BuildRun \<Rightarrow> 'w \<Rightarrow> BuildRun result \<times> 'w"
  brd_StatusUpdate :: "BuildRun \<Rightarrow> 'w \<Rightarrow> BuildRun result \<times> 'w"
  brd_CreateRelease :: "Release \<Rightarrow> 'w \<Rightarrow> Release result \<times> 'w"
  brd_SetControllerReference :: "BuildRun \<Rightarrow> Release \<Rightarrow> Release result"
  brd_Retry :: "('w, br_effect, BuildRun result) io \<Rightarrow> ('w, br_effect, BuildRun result) io"
  brd_RetryFinalizer :: "('w, br_effect, unit result) io \<Rightarrow> ('w, br_effect, unit result) io"
  brd_Now :: "'w \<Rightarrow> gotime \<times> 'w"
  brd_Recorder :: "(EventType \<Rightarrow> string \<Rightarrow> string \<Rightarrow> 'w \<Rightarrow> unit \<times> 'w) option"
  brd_Notifier :: "(NotificationRequest \<Rightarrow> 'w \<Rightarrow> go_error option \<times> 'w) option"
  brd_PolicyEvaluator :: "(gotime \<Rightarrow> BuildRunPolicyInput \<Rightarrow> Decision) option"
  brd_Executors :: "ExecutorType \<Rightarrow> 'w PipelineExecutor option"
  brd_JobExecutor :: "'w PipelineExecutor"
  brd_TektonExecutor :: "'w PipelineExecutor"
  brd_EnableTekton :: string
  brd_QuotaRequeueAfter :: duration
  brd_ParseTemplate :: "string \<Rightarrow> (TagTemplateData \<Rightarrow> string result) result"
  brd_ParseQuantity :: "string \<Rightarrow> int option"

type_synonym ('w, 'a) br_io = "('w, br_effect, 'a) io"

definition legacyBuildRunFinalizer :: string where
  "legacyBuildRunFinalizer = ''cloudivision.io/buildrun-finalizer''"


section \<open>Pure helpers\<close>

definition tektonEnabled :: "string \<Rightarrow> bool" where
  "tektonEnabled variable = EqualFold variable ''true''"

definition releaseNameForBuildRun :: "string \<Rightarrow> string \<Rightarrow> string" where
  "releaseNameForBuildRun buildRunName environment =
     (let environment = (if environment = '''' then ''default'' else environment);
          name = ToLower (buildRunName @ ''-'' @ environment);
          name = replacer [(''_'', ''-''), (''.'', ''-'')] name
      in if length name \<le> 63 then name else take 63 name)"

definition releaseImage :: "BuildRun \<Rightarrow> ImageRef" where
  "releaseImage b = (case bst_Image (br_Status b) of
     Some img \<Rightarrow> if img_Repository img \<noteq> '''' then img else brs_Image (br_Spec b)
   | None \<Rightarrow> brs_Image (br_Spec b))"

definition setRunRefStatus :: "BuildRun \<Rightarrow> RunRef \<Rightarrow> BuildRun" where
  "setRunRefStatus b ref =
     (let oref = \<lparr>oref_Name = ref_Name ref, oref_Namespace = ref_Namespace ref\<rparr>;
          st = br_Status b in
      if ref_Kind ref = ''PipelineRun'' then b\<lparr>br_Status := st\<lparr>bst_PipelineRunRef := oref\<rparr>\<rparr>
      else b\<lparr>br_Status := st\<lparr>bst_JobRef := oref\<rparr>\<rparr>)"

definition ensureDefaultExecutors :: "'w buildrun_deps \<Rightarrow> ExecutorType \<Rightarrow> 'w PipelineExecutor option" where
  "ensureDefaultExecutors d ty = (case brd_Executors d ty of
     Some ex \<Rightarrow> Some ex
   | None \<Rightarrow> if ty = ExecutorTypeJob then Some (brd_JobExecutor d)
             else if ty = ExecutorTypeTekton then Some (brd_TektonExecutor d) else None)"

definition executorFor :: "'w buildrun_deps \<Rightarrow> BuildRun \<Rightarrow> ('w PipelineExecutor \<times> ExecutorType) result" where
  "executorFor d b =
     (let ty = (if brs_Executor (br_Spec b) = ExecutorTypeUnset then ExecutorTypeJob
                else brs_Executor (br_Spec b)) in
      if ty = ExecutorTypeTekton \<and> \<not> tektonEnabled (brd_EnableTekton d)
      then Inl (GoError ''tekton PipelineRun CRD is not available: set CLOU_DIVISION_ENABLE_TEKTON=true to use executor=tekton''
                  [ErrTektonUnavailable])
      else (case ensureDefaultExecutors d ty of
          None \<Rightarrow> Inl (errors_New (''unsupported BuildRun executor '' @ quote (ExecutorType_string ty)))
        | Some ex \<Rightarrow> Inr (ex, ty)))"

text \<open>Conversion of the status record by one field or by the conditions, with the metadata's generation.\<close>

definition set_condition :: "gotime \<Rightarrow> Condition \<Rightarrow> BuildRun \<Rightarrow> BuildRun" where
  "set_condition now c b = b\<lparr>br_Status := (br_Status b)\<lparr>
     bst_Conditions := SetCondition now (bst_Conditions (br_Status b)) c\<rparr>\<rparr>"


section \<open>Status writing\<close>

definition record_event :: "'w buildrun_deps \<Rightarrow> EventType \<Rightarrow> string \<Rightarrow> string \<Rightarrow> ('w, unit) br_io" where
  "record_event d eventType reason message = (case brd_Recorder d of
     None \<Rightarrow> State_Monad.return ()
   | Some event \<Rightarrow> call (EventRecorded eventType reason message) (event eventType reason message))"

definition updateBuildRunStatus :: "'w buildrun_deps \<Rightarrow> BuildRun \<Rightarrow> ('w, BuildRun result) br_io" where
  "updateBuildRunStatus d b =
     wrap ''update BuildRun status''
       (UpdateStatusWithRetry (brd_Retry d) (brd_GetBuildRun d) (brd_StatusUpdate d) buildrun_ops StatusUpdate b)"

text \<open>A failed delivery is recorded in the status; whether that succeeds is ignored.\<close>

definition notifyBuildRun ::
  "'w buildrun_deps \<Rightarrow> BuildRun \<Rightarrow> NotificationEvent \<Rightarrow> string \<Rightarrow> ('w, BuildRun) br_io" where
  "notifyBuildRun d b event message = (case brd_Notifier d of
     None \<Rightarrow> State_Monad.return b
   | Some notify \<Rightarrow> do {
       now \<leftarrow> query (brd_Now d);
       let req = \<lparr>nr_Event = event, nr_Project = brs_ProjectRef (br_Spec b),
                  nr_Repository = brs_RepositoryRef (br_Spec b), nr_Environment = '''',
                  nr_Phase = BuildRunPhase_string (bst_Phase (br_Status b)),
                  nr_Namespace = meta_Namespace (br_Meta b), nr_ResourceName = meta_Name (br_Meta b),
                  nr_Message = message, nr_OccurredAt = now\<rparr>;
       r \<leftarrow> call (NotificationSent req) (notify req);
       case r of
         None \<Rightarrow> State_Monad.return b
       | Some err \<Rightarrow> do {
           now \<leftarrow> query (brd_Now d);
           let b' = set_condition now (mk_condition ''NotificationDelivered'' ConditionFalse (br_generation b)
               ''ProviderDeliveryFailed'' ''Notification delivery failed; build execution was not affected.'' now) b;
           u \<leftarrow> updateBuildRunStatus d b';
           State_Monad.return (case u of Inl _ \<Rightarrow> b' | Inr b'' \<Rightarrow> b'')
         }
     })"

definition markImageTagError :: "'w buildrun_deps \<Rightarrow> BuildRun \<Rightarrow> go_error \<Rightarrow> ('w, unit result) br_io" where
  "markImageTagError d b err = do {
     now \<leftarrow> query (brd_Now d);
     case MarkBuildRunFailed b now ''ImageTagInvalid'' (err_text err) of
       Inl markErr \<Rightarrow> fail markErr
     | Inr b \<Rightarrow> do {
         record_event d EventTypeWarning ''BuildFailed'' (err_text err);
         check (updateBuildRunStatus d b) (\<lambda>b. ok ())
       }
   }"

definition markReferenceError :: "'w buildrun_deps \<Rightarrow> BuildRun \<Rightarrow> go_error \<Rightarrow> ('w, unit result) br_io" where
  "markReferenceError d b err = do {
     now \<leftarrow> query (brd_Now d);
     let b = b\<lparr>br_Status := (br_Status b)\<lparr>bst_Phase := BuildRunPhaseFailed,
             bst_ObservedGeneration := br_generation b, bst_CompletedAt := Some now,
             bst_Failure := \<lparr>fail_Reason = ''InvalidReference'', fail_Message = err_text err\<rparr>\<rparr>\<rparr>;
     let b = set_condition now (mk_condition ConditionFailed ConditionTrue (br_generation b)
             ''InvalidReference'' (err_text err) now) b;
     record_event d EventTypeWarning ''BuildFailed'' (err_text err);
     check (updateBuildRunStatus d b) (\<lambda>b. ok ())
   }"

definition markExecutorError :: "'w buildrun_deps \<Rightarrow> BuildRun \<Rightarrow> go_error \<Rightarrow> ('w, unit result) br_io" where
  "markExecutorError d b err = do {
     let reason = (if errors_Is err ErrTektonUnavailable then ''TektonUnavailable''
                   else if errors_Is err ErrRegistryCredentialsMissing then ''RegistryCredentialsMissing''
                   else if errors_Is err ErrRegistryCredentialsInvalid then ''RegistryCredentialsInvalid''
                   else ''ExecutorFailed'');
     now \<leftarrow> query (brd_Now d);
     case MarkBuildRunFailed b now reason (err_text err) of
       Inl markErr \<Rightarrow> fail markErr
     | Inr b \<Rightarrow> do {
         record_event d EventTypeWarning ''BuildFailed'' (err_text err);
         check (updateBuildRunStatus d b) (\<lambda>b. do {
           notifyBuildRun d b NotifyBuildRunFailed (err_text err);
           ok ()
         })
       }
   }"

definition markPolicyDenied :: "'w buildrun_deps \<Rightarrow> BuildRun \<Rightarrow> Decision \<Rightarrow> ('w, unit result) br_io" where
  "markPolicyDenied d b dec = do {
     now \<leftarrow> query (brd_Now d);
     let b = b\<lparr>br_Status := (br_Status b)\<lparr>bst_Phase := BuildRunPhaseFailed,
             bst_ObservedGeneration := br_generation b, bst_CompletedAt := Some now,
             bst_Failure := \<lparr>fail_Reason = dec_Reason dec, fail_Message = dec_Message dec\<rparr>\<rparr>\<rparr>;
     let b = set_condition now (mk_condition ''PolicyDenied'' ConditionTrue (br_generation b)
             (dec_Reason dec) (dec_Message dec) now) b;
     record_event d EventTypeWarning ''PolicyDenied'' (dec_Message dec);
     check (updateBuildRunStatus d b) (\<lambda>b. do {
       notifyBuildRun d b NotifyPolicyDenied (dec_Message dec);
       ok ()
     })
   }"

definition markQueued :: "'w buildrun_deps \<Rightarrow> BuildRun \<Rightarrow> RunRef \<Rightarrow> ('w, unit result) br_io" where
  "markQueued d b ref = do {
     now \<leftarrow> query (brd_Now d);
     let b = b\<lparr>br_Status := (br_Status b)\<lparr>bst_Phase := BuildRunPhaseQueued,
             bst_ObservedGeneration := br_generation b\<rparr>\<rparr>;
     let b = setRunRefStatus b ref;
     let b = set_condition now (mk_condition ''Queued'' ConditionTrue (br_generation b)
             (ref_Kind ref @ ''Created'') ''Pipeline run has been created.'' 0) b;
     check (updateBuildRunStatus d b) (\<lambda>b. ok ())
   }"

definition markQuotaQueued :: "'w buildrun_deps \<Rightarrow> BuildRun \<Rightarrow> int \<Rightarrow> int \<Rightarrow> ('w, unit result) br_io" where
  "markQuotaQueued d b active maximum = do {
     now \<leftarrow> query (brd_Now d);
     let b = b\<lparr>br_Status := (br_Status b)\<lparr>bst_Phase := BuildRunPhaseQueued,
             bst_ObservedGeneration := br_generation b, bst_Failure := FailureStatus_zero\<rparr>\<rparr>;
     let b = set_condition now (mk_condition ''Queued'' ConditionTrue (br_generation b) ''ConcurrencyQuotaReached''
             (''Project has '' @ Itoa active @ '' active BuildRuns; waiting for one of '' @ Itoa maximum @ '' slots.'')
             now) b;
     record_event d EventTypeNormal ''BuildQueuedByQuota'' ''BuildRun is waiting for a project concurrency slot.'';
     check (updateBuildRunStatus d b) (\<lambda>b. ok ())
   }"

definition markQuotaExceeded :: "'w buildrun_deps \<Rightarrow> BuildRun \<Rightarrow> int \<Rightarrow> int \<Rightarrow> ('w, unit result) br_io" where
  "markQuotaExceeded d b queued maximum = do {
     let message = ''Project queue contains '' @ Itoa queued @ '' BuildRuns and the configured maximum is ''
                   @ Itoa maximum @ ''.'';
     now \<leftarrow> query (brd_Now d);
     case MarkBuildRunFailed b now ''QuotaExceeded'' message of
       Inl err \<Rightarrow> fail err
     | Inr b \<Rightarrow> do {
         record_event d EventTypeWarning ''QuotaExceeded'' message;
         check (updateBuildRunStatus d b) (\<lambda>b. ok ())
       }
   }"


section \<open>The steps of a reconciliation\<close>

definition removeLegacyFinalizer :: "'w buildrun_deps \<Rightarrow> NamespacedName \<Rightarrow> ('w, unit result) br_io" where
  "removeLegacyFinalizer d key = brd_RetryFinalizer d (do {
     r \<leftarrow> query (brd_GetBuildRun d key);
     case r of
       Inl err \<Rightarrow> if errors_Is err NotFound then ok () else fail err
     | Inr latest \<Rightarrow>
         if legacyBuildRunFinalizer \<notin> set (meta_Finalizers (br_Meta latest)) then ok ()
         else do {
           let latest = latest\<lparr>br_Meta := (br_Meta latest)\<lparr>meta_Finalizers :=
                 filter (\<lambda>f. f \<noteq> legacyBuildRunFinalizer) (meta_Finalizers (br_Meta latest))\<rparr>\<rparr>;
           check (wrap ''remove legacy BuildRun finalizer'' (call (SpecUpdate latest) (brd_Update d latest)))
             (\<lambda>b. ok ())
         }
   })"

definition in_namespace :: "BuildRun \<Rightarrow> string \<Rightarrow> NamespacedName" where
  "in_namespace b name = \<lparr>key_Namespace = meta_Namespace (br_Meta b), key_Name = name\<rparr>"

definition loadReferences ::
  "'w buildrun_deps \<Rightarrow> BuildRun \<Rightarrow> ('w, (Project \<times> Repository \<times> PipelineTemplate) result) br_io" where
  "loadReferences d b =
     check (wrap (''load Project '' @ quote (brs_ProjectRef (br_Spec b)))
              (query (brd_GetProject d (in_namespace b (brs_ProjectRef (br_Spec b)))))) (\<lambda>project.
     if prs_Namespace (proj_Spec project) \<noteq> '''' \<and> prs_Namespace (proj_Spec project) \<noteq> meta_Namespace (br_Meta b)
     then fail (errors_New (''Project '' @ quote (meta_Name (proj_Meta project)) @ '' spec.namespace ''
            @ quote (prs_Namespace (proj_Spec project)) @ '' must match BuildRun namespace ''
            @ quote (meta_Namespace (br_Meta b))
            @ '' so runner ownerReferences and namespaced RBAC remain valid''))
     else
     check (wrap (''load Repository '' @ quote (brs_RepositoryRef (br_Spec b)))
              (query (brd_GetRepository d (in_namespace b (brs_RepositoryRef (br_Spec b)))))) (\<lambda>repository.
     check (wrap (''load PipelineTemplate '' @ quote (brs_PipelineTemplateRef (br_Spec b)))
              (query (brd_GetPipelineTemplate d (in_namespace b (brs_PipelineTemplateRef (br_Spec b)))))) (\<lambda>tmpl.
     ok (project, repository, tmpl))))"

text \<open>\<open>imageTagError\<close>: the tag marks the error for \<open>errors.As\<close>; its text is the wrapped one's.\<close>

definition imageTagError :: "go_error \<Rightarrow> go_error" where
  "imageTagError err = GoError (err_text err) (ImageTagError # err_tags err)"

definition image_of :: "BuildRun \<Rightarrow> ImageRef" where
  "image_of b = (case bst_Image (br_Status b) of None \<Rightarrow> ImageRef_zero | Some img \<Rightarrow> img)"

definition ensureImageTag :: "'w buildrun_deps \<Rightarrow> BuildRun \<Rightarrow> Project \<Rightarrow> ('w, BuildRun result) br_io" where
  "ensureImageTag d b project = (
     let tagTemplate = (case prs_ImageTagPolicy (proj_Spec project) of None \<Rightarrow> '''' | Some p \<Rightarrow> itp_DefaultTagTemplate p);
         spec = br_Spec b in
     case fst (ResolveImageTag (brd_ParseTemplate d) (\<lambda>parsed. parsed) (img_Tag (brs_Image spec)) tagTemplate
            \<lparr>tgi_Branch = brs_Branch spec, tgi_CommitSHA = brs_CommitSHA spec, tgi_Revision = brs_Revision spec,
             tgi_BuildRunName = meta_Name (br_Meta b), tgi_Timestamp = meta_CreationTimestamp (br_Meta b)\<rparr>) of
       Inl err \<Rightarrow> fail (imageTagError err)
     | Inr tag \<Rightarrow> do {
         let specChanged = (tag \<noteq> img_Tag (brs_Image spec));
         check
           (if specChanged
            then do {
              let b = b\<lparr>br_Spec := spec\<lparr>brs_Image := (brs_Image spec)\<lparr>img_Tag := tag\<rparr>\<rparr>\<rparr>;
              wrap ''persist resolved BuildRun image tag'' (call (SpecUpdate b) (brd_Update d b))
            }
            else ok b)
         (\<lambda>b. do {
         let statusChanged = (bst_Image (br_Status b) = None
               \<or> img_Repository (image_of b) \<noteq> img_Repository (brs_Image (br_Spec b))
               \<or> img_Tag (image_of b) \<noteq> tag);
         check
           (if statusChanged
            then do {
              let b = b\<lparr>br_Status := (br_Status b)\<lparr>bst_Image := Some
                    ((image_of b)\<lparr>img_Repository := img_Repository (brs_Image (br_Spec b)), img_Tag := tag\<rparr>)\<rparr>\<rparr>;
              wrap ''persist resolved BuildRun image status'' (call (StatusUpdate b) (brd_StatusUpdate d b))
            }
            else ok b)
         (\<lambda>b.
         if specChanged \<or> statusChanged
         then do {
           record_event d EventTypeNormal ''ImageTagResolved'' (''Resolved image tag '' @ quote tag @ ''.'');
           ok b
         }
         else ok b)
         })
       })"

definition release_for :: "BuildRun \<Rightarrow> Release" where
  "release_for b = Release_zero
     \<lparr>rel_Meta := ObjectMeta_zero
        \<lparr>meta_Name := releaseNameForBuildRun (meta_Name (br_Meta b)) (bg_EnvironmentRef (brs_GitOps (br_Spec b))),
         meta_Namespace := meta_Namespace (br_Meta b),
         meta_Labels := [''app.kubernetes.io/name'' \<mapsto> ''cloudivision'',
                         ''cloudivision.io/buildrun'' \<mapsto> meta_Name (br_Meta b),
                         ''cloudivision.io/project'' \<mapsto> brs_ProjectRef (br_Spec b)]\<rparr>,
      rel_Spec := ReleaseSpec_zero
        \<lparr>rls_ProjectRef := brs_ProjectRef (br_Spec b), rls_BuildRunRef := meta_Name (br_Meta b),
         rls_EnvironmentRef := bg_EnvironmentRef (brs_GitOps (br_Spec b)),
         rls_Image := releaseImage b, rls_Strategy := ReleaseStrategyGitOps\<rparr>\<rparr>"

definition ensureRelease :: "'w buildrun_deps \<Rightarrow> BuildRun \<Rightarrow> ('w, unit result) br_io" where
  "ensureRelease d b =
     (if \<not> bg_Enabled (brs_GitOps (br_Spec b)) then ok ()
      else do {
        let name = releaseNameForBuildRun (meta_Name (br_Meta b)) (bg_EnvironmentRef (brs_GitOps (br_Spec b)));
        let key = in_namespace b name;
        r \<leftarrow> query (brd_GetRelease d key);
        case r of
          Inr existing \<Rightarrow> ok ()
        | Inl err \<Rightarrow>
            if \<not> errors_Is err NotFound then fail (errorf_w (''get Release '' @ key_String key) err)
            else (case brd_SetControllerReference d b (release_for b) of
                Inl err \<Rightarrow> fail (errorf_w ''set Release owner reference'' err)
              | Inr release \<Rightarrow> do {
                  c \<leftarrow> call (ReleaseCreated release) (brd_CreateRelease d release);
                  case c of
                    Inl err \<Rightarrow> if errors_Is err AlreadyExists then ok ()
                               else fail (errorf_w (''create Release '' @ key_String key) err)
                  | Inr created \<Rightarrow> ok ()
                })
      })"

definition recordRunCreated :: "'w buildrun_deps \<Rightarrow> ExecutorType \<Rightarrow> RunRef \<Rightarrow> ('w, unit) br_io" where
  "recordRunCreated d ty ref =
     (if ty = ExecutorTypeJob
      then record_event d EventTypeNormal ''JobCreated'' (''Created runner Job '' @ ref_Name ref)
      else record_event d EventTypeNormal (ref_Kind ref @ ''Created'') (''Created pipeline run '' @ ref_Name ref))"

definition syncStatusFromRun ::
  "'w buildrun_deps \<Rightarrow> BuildRun \<Rightarrow> RunRef \<Rightarrow> RunStatus \<Rightarrow> ('w, unit result) br_io" where
  "syncStatusFromRun d b ref status = do {
     let b = setRunRefStatus b ref;
     now \<leftarrow> query (brd_Now d);
     case run_Phase status of
       RunPhaseSucceeded \<Rightarrow> (case MarkBuildRunSucceeded b now (releaseImage b) of
           Inl err \<Rightarrow> fail err
         | Inr b \<Rightarrow> do {
             record_event d EventTypeNormal ''BuildSucceeded'' ''Pipeline run completed successfully'';
             check (updateBuildRunStatus d b) (\<lambda>b. do {
               b \<leftarrow> notifyBuildRun d b NotifyBuildRunSucceeded ''BuildRun succeeded.'';
               ensureRelease d b
             })
           })
     | RunPhaseFailed \<Rightarrow> (case MarkBuildRunFailed b now (rfl_Reason (run_Failure status)) (rfl_Message (run_Failure status)) of
           Inl err \<Rightarrow> fail err
         | Inr b \<Rightarrow> do {
             record_event d EventTypeWarning ''BuildFailed'' (rfl_Message (run_Failure status));
             check (updateBuildRunStatus d b) (\<lambda>b. do {
               notifyBuildRun d b NotifyBuildRunFailed (rfl_Message (run_Failure status));
               ok ()
             })
           })
     | RunPhaseRunning \<Rightarrow> (let wasRunning = (bst_Phase (br_Status b) = BuildRunPhaseRunning) in
         case MarkBuildRunStarted b now of
           Inl err \<Rightarrow> fail err
         | Inr b \<Rightarrow> do {
             (if \<not> wasRunning then record_event d EventTypeNormal ''BuildStarted'' ''Pipeline run is running''
              else State_Monad.return ());
             check (updateBuildRunStatus d b) (\<lambda>b.
               if \<not> wasRunning then do {
                 notifyBuildRun d b NotifyBuildRunStarted ''BuildRun started.'';
                 ok ()
               }
               else ok ())
           })
     | _ \<Rightarrow>
         if bst_Phase (br_Status b) = BuildRunPhaseUnset
         then check (updateBuildRunStatus d (b\<lparr>br_Status := (br_Status b)\<lparr>bst_Phase := BuildRunPhaseQueued,
                      bst_ObservedGeneration := br_generation b\<rparr>\<rparr>)) (\<lambda>b. ok ())
         else ok ()
   }"


section \<open>Reconcile\<close>

text \<open>\<open>return ctrl.Result{}, m\<close>\<close>

definition finish :: "('w, 'a result) br_io \<Rightarrow> ('w, ReconcileResult result) br_io" where
  "finish m = check m (\<lambda>a. ok Result_zero)"

text \<open>From the choice of the executor on: start the run, or synchronise with it.\<close>

definition reconcile_run ::
  "'w buildrun_deps \<Rightarrow> BuildRun \<Rightarrow> Project \<Rightarrow> Repository \<Rightarrow> PipelineTemplate \<Rightarrow>
   ('w, ReconcileResult result) br_io" where
  "reconcile_run d b project repository tmpl = (case executorFor d b of
     Inl err \<Rightarrow> finish (markExecutorError d b err)
   | Inr (ex, ty) \<Rightarrow> do {
       let req = \<lparr>req_BuildRun = b, req_Project = project, req_Repository = repository, req_Template = tmpl\<rparr>;
       r \<leftarrow> call (RunEnsured req) (ex_EnsureRun ex req);
       case r of
         Inl err \<Rightarrow> finish (markExecutorError d b err)
       | Inr ref \<Rightarrow>
           if bst_Phase (br_Status b) = BuildRunPhaseUnset \<or> bst_Phase (br_Status b) = BuildRunPhasePending
           then do {
             recordRunCreated d ty ref;
             finish (markQueued d b ref)
           }
           else do {
             s \<leftarrow> query (ex_ReadRunStatus ex ref);
             case s of
               Inl err \<Rightarrow> finish (markExecutorError d b err)
             | Inr status \<Rightarrow> finish (syncStatusFromRun d b ref status)
           }
     })"

text \<open>Policy and quota, which decide whether the build may run now.\<close>

definition reconcile_admission ::
  "'w buildrun_deps \<Rightarrow> BuildRun \<Rightarrow> Project \<Rightarrow> Repository \<Rightarrow> PipelineTemplate \<Rightarrow>
   ('w, ReconcileResult result) br_io" where
  "reconcile_admission d b project repository tmpl = do {
     let evaluate = (case brd_PolicyEvaluator d of None \<Rightarrow> EvaluateBuildRun | Some f \<Rightarrow> f);
     now \<leftarrow> query (brd_Now d);
     let dec = evaluate now \<lparr>bi_BuildRun = Some b, bi_Project = Some project, bi_Repository = Some repository,
           bi_PipelineTemplate = Some tmpl, bi_EnforceAuthorization = False, bi_TriggerAuthorized = False,
           bi_SecretUseAuthorized = False\<rparr>;
     let b = b\<lparr>br_Status := (br_Status b)\<lparr>bst_Policy := ToStatus dec\<rparr>\<rparr>;
     if \<not> dec_Allowed dec then finish (markPolicyDenied d b dec)
     else check (evaluateProjectQuota (brd_ListBuildRuns d) b project) (\<lambda>quota.
       let quotas = (case prs_Quotas (proj_Spec project) of None \<Rightarrow> ProjectQuotaSpec_zero | Some q \<Rightarrow> q) in
       if qd_deny quota
       then finish (markQuotaExceeded d b (qd_queued quota) (quo_MaxQueuedBuildRuns quotas))
       else if qd_queue quota
       then check (markQuotaQueued d b (qd_active quota) (quo_MaxConcurrentBuildRuns quotas)) (\<lambda>_.
         ok \<lparr>Requeue = False, RequeueAfter =
              (if brd_QuotaRequeueAfter d \<le> 0 then seconds 5 else brd_QuotaRequeueAfter d)\<rparr>)
       else reconcile_run d b project repository
              (applyProjectWorkloadQuotas (brd_ParseQuantity d) tmpl (prs_Quotas (proj_Spec project))))
   }"

definition deletion_requested :: "BuildRun \<Rightarrow> bool" where
  "deletion_requested b = (case meta_DeletionTimestamp (br_Meta b) of None \<Rightarrow> False | Some t \<Rightarrow> \<not> IsZero t)"

definition reconcile_buildrun ::
  "'w buildrun_deps \<Rightarrow> NamespacedName \<Rightarrow> ('w, ReconcileResult result) br_io" where
  "reconcile_buildrun d req = do {
     r \<leftarrow> query (brd_GetBuildRun d req);
     case r of
       Inl err \<Rightarrow> if errors_Is err NotFound then ok Result_zero
                  else fail (errorf_w (''get BuildRun '' @ key_String req) err)
     | Inr b \<Rightarrow>
         if deletion_requested b
         then (if legacyBuildRunFinalizer \<in> set (meta_Finalizers (br_Meta b))
               then finish (removeLegacyFinalizer d req) else ok Result_zero)
         else do {
           refs \<leftarrow> loadReferences d b;
           case refs of
             Inl err \<Rightarrow> finish (markReferenceError d b err)
           | Inr (project, repository, tmpl) \<Rightarrow> do {
               tagged \<leftarrow> ensureImageTag d b project;
               case tagged of
                 Inl err \<Rightarrow> if errors_Is err ImageTagError then finish (markImageTagError d b err) else fail err
               | Inr b \<Rightarrow>
                   if isTerminalBuildRunPhase (bst_Phase (br_Status b))
                   then (if bst_Phase (br_Status b) = BuildRunPhaseSucceeded then finish (ensureRelease d b)
                         else ok Result_zero)
                   else reconcile_admission d b project repository tmpl
             }
         }
   }"


section \<open>Which calls a step makes\<close>

text \<open>Writes of the status, events and notifications: all that the \<open>mark...\<close> handlers do.\<close>

fun status_effect :: "br_effect \<Rightarrow> bool" where
  "status_effect (StatusUpdate b) = True"
| "status_effect (EventRecorded ty reason message) = True"
| "status_effect (NotificationSent req) = True"
| "status_effect e = False"

definition retries :: "'w buildrun_deps \<Rightarrow> bool" where
  "retries d \<longleftrightarrow> retry_spec (brd_Retry d) \<and> retry_spec (brd_RetryFinalizer d)"

lemma only_record_event [only_intros]: "only {e. status_effect e} (record_event d ty reason message)"
  unfolding record_event_def by (auto intro!: only_intros)

lemma only_updateBuildRunStatus [only_intros]: "retries d \<Longrightarrow> only {e. status_effect e} (updateBuildRunStatus d b)"
  unfolding updateBuildRunStatus_def retries_def by (auto intro!: only_intros)

lemma only_notifyBuildRun [only_intros]: "retries d \<Longrightarrow> only {e. status_effect e} (notifyBuildRun d b event message)"
  unfolding notifyBuildRun_def Let_def by (intro only_intros) (simp_all)

lemmas mark_handler_defs =
  markImageTagError_def markReferenceError_def markExecutorError_def markPolicyDenied_def
  markQueued_def markQuotaQueued_def markQuotaExceeded_def

lemma only_mark_handlers:
  assumes "retries d"
  shows "only {e. status_effect e} (markImageTagError d b err)"
    and "only {e. status_effect e} (markReferenceError d b err)"
    and "only {e. status_effect e} (markExecutorError d b err)"
    and "only {e. status_effect e} (markPolicyDenied d b dec)"
    and "only {e. status_effect e} (markQueued d b ref)"
    and "only {e. status_effect e} (markQuotaQueued d b active maximum)"
    and "only {e. status_effect e} (markQuotaExceeded d b queued maximum)"
  unfolding mark_handler_defs Let_def by (intro only_intros assms)+

fun release_effect :: "br_effect \<Rightarrow> bool" where
  "release_effect (ReleaseCreated rel) = True"
| "release_effect e = status_effect e"

lemma status_release: "{e. status_effect e} \<subseteq> {e. release_effect e}"
proof
  show "e \<in> {e. release_effect e}" if "e \<in> {e. status_effect e}" for e
    using that by (cases e) simp_all
qed

lemma only_ensureRelease: "only {e. release_effect e} (ensureRelease d b)"
  unfolding ensureRelease_def Let_def by (intro only_intros) simp_all

lemma only_RunPhase [only_intros]:
  "only E m1 \<Longrightarrow> only E m2 \<Longrightarrow> only E m3 \<Longrightarrow> only E m4 \<Longrightarrow> only E m5 \<Longrightarrow>
   only E (case p of RunPhasePending \<Rightarrow> m1 | RunPhaseRunning \<Rightarrow> m2 | RunPhaseSucceeded \<Rightarrow> m3
     | RunPhaseFailed \<Rightarrow> m4 | RunPhaseCancelled \<Rightarrow> m5)"
  by (cases p) simp_all

lemma only_syncStatusFromRun:
  assumes "retries d"
  shows "only {e. release_effect e} (syncStatusFromRun d b ref status)"
proof -
  note quiet = only_mono [OF only_record_event status_release]
    only_mono [OF only_updateBuildRunStatus [OF assms] status_release]
    only_mono [OF only_notifyBuildRun [OF assms] status_release]
  show ?thesis
    unfolding syncStatusFromRun_def Let_def
    by (intro only_intros quiet only_ensureRelease)
qed


section \<open>When a run is started\<close>

definition evaluator_of :: "'w buildrun_deps \<Rightarrow> gotime \<Rightarrow> BuildRunPolicyInput \<Rightarrow> Decision" where
  "evaluator_of d = (case brd_PolicyEvaluator d of None \<Rightarrow> EvaluateBuildRun | Some f \<Rightarrow> f)"

definition policy_input :: "BuildRun \<Rightarrow> Project \<Rightarrow> Repository \<Rightarrow> PipelineTemplate \<Rightarrow> BuildRunPolicyInput" where
  "policy_input b project repository tmpl = \<lparr>bi_BuildRun = Some b, bi_Project = Some project,
     bi_Repository = Some repository, bi_PipelineTemplate = Some tmpl, bi_EnforceAuthorization = False,
     bi_TriggerAuthorized = False, bi_SecretUseAuthorized = False\<rparr>"

text \<open>Either the quota does not apply, or some answer of the API server to the listing admitted the build.\<close>

definition quota_admits :: "'w buildrun_deps \<Rightarrow> BuildRun \<Rightarrow> Project \<Rightarrow> bool" where
  "quota_admits d b project \<longleftrightarrow> quota_exempt b project \<or>
     (\<exists>w runs quotas. fst (brd_ListBuildRuns d (meta_Namespace (br_Meta b)) w) = Inr runs
        \<and> prs_Quotas (proj_Spec project) = Some quotas
        \<and> \<not> qd_deny (quota_of_list b quotas runs) \<and> \<not> qd_queue (quota_of_list b quotas runs))"

text \<open>
  What holds of a request with which the reconciler calls \<open>EnsureRun\<close>: the build is not finished,
  the policy evaluator allowed exactly these objects and its decision is the recorded one, the
  quota admits the build, and the template is the evaluated one within the project's caps.
\<close>

definition run_request_ok :: "'w buildrun_deps \<Rightarrow> EnsureRunRequest \<Rightarrow> bool" where
  "run_request_ok d req \<longleftrightarrow>
     \<not> isTerminalBuildRunPhase (bst_Phase (br_Status (req_BuildRun req)))
   \<and> (\<exists>b now tmpl.
        dec_Allowed (evaluator_of d now (policy_input b (req_Project req) (req_Repository req) tmpl))
      \<and> req_BuildRun req = b\<lparr>br_Status := (br_Status b)\<lparr>bst_Policy :=
            ToStatus (evaluator_of d now (policy_input b (req_Project req) (req_Repository req) tmpl))\<rparr>\<rparr>
      \<and> req_Template req = applyProjectWorkloadQuotas (brd_ParseQuantity d) tmpl
            (prs_Quotas (proj_Spec (req_Project req))))
   \<and> quota_admits d (req_BuildRun req) (req_Project req)"

fun guarded :: "'w buildrun_deps \<Rightarrow> br_effect \<Rightarrow> bool" where
  "guarded d (RunEnsured req) = run_request_ok d req"
| "guarded d e = True"

lemma release_guarded: "{e. release_effect e} \<subseteq> {e. guarded d e}"
proof
  show "e \<in> {e. guarded d e}" if "e \<in> {e. release_effect e}" for e
    using that by (cases e) simp_all
qed

lemma status_guarded: "{e. status_effect e} \<subseteq> {e. guarded d e}"
  using status_release release_guarded by (rule order_trans)

lemma only_finish [only_intros]: "only E m \<Longrightarrow> only E (finish m)"
  unfolding finish_def by (intro only_intros)

lemma only_quota:
  assumes "quota_exempt b project \<Longrightarrow> only E (f quotaDecision_zero)"
    and "\<And>w runs quotas. fst (l (meta_Namespace (br_Meta b)) w) = Inr runs \<Longrightarrow>
       prs_Quotas (proj_Spec project) = Some quotas \<Longrightarrow> only E (f (quota_of_list b quotas runs))"
  shows "only E (check (evaluateProjectQuota l b project) f)"
proof (cases "quota_exempt b project")
  case True
  then have "check (evaluateProjectQuota l b project) f = f quotaDecision_zero"
    by (simp add: check_def evaluateProjectQuota_def)
  with assms(1) True show ?thesis by simp
next
  case False
  then obtain quotas where q: "prs_Quotas (proj_Spec project) = Some quotas"
    by (auto simp: quota_exempt_def split: option.splits)
  have "check (evaluateProjectQuota l b project) f =
    query (l (meta_Namespace (br_Meta b))) \<bind> (\<lambda>r. case r of
        Inl err \<Rightarrow> State_Monad.return (Inl (errorf_w ''list BuildRuns for project quota'' err))
      | Inr runs \<Rightarrow> f (quota_of_list b quotas runs))"
    unfolding check_def evaluateProjectQuota_def using False q
    by (simp only: if_False bind_assoc option.case) (rule arg_cong [where f = "State_Monad.bind _"],
        simp add: fun_eq_iff split: sum.split)
  also have "only E \<dots>"
    by (rule only_bind_query) (auto intro!: only_intros assms(2) q)
  finally show ?thesis .
qed

lemma only_reconcile_run:
  assumes "retries d"
    and "run_request_ok d \<lparr>req_BuildRun = b, req_Project = project, req_Repository = repository, req_Template = tmpl\<rparr>"
  shows "only {e. guarded d e} (reconcile_run d b project repository tmpl)"
proof -
  note quiet = only_mono [OF only_record_event status_guarded]
    only_mono [OF only_mark_handlers(3) [OF assms(1)] status_guarded]
    only_mono [OF only_mark_handlers(5) [OF assms(1)] status_guarded]
    only_mono [OF only_syncStatusFromRun [OF assms(1)] release_guarded]
  show ?thesis
    unfolding reconcile_run_def Let_def recordRunCreated_def
    by (intro only_intros quiet) (simp add: assms(2))
qed

lemma only_reconcile_admission:
  assumes "retries d" and "\<not> isTerminalBuildRunPhase (bst_Phase (br_Status b))"
  shows "only {e. guarded d e} (reconcile_admission d b project repository tmpl)"
proof -
  note quiet = only_mono [OF only_mark_handlers(4) [OF assms(1)] status_guarded]
    only_mono [OF only_mark_handlers(6) [OF assms(1)] status_guarded]
    only_mono [OF only_mark_handlers(7) [OF assms(1)] status_guarded]
  have run: "only {e. guarded d e} (reconcile_run d
      (b\<lparr>br_Status := (br_Status b)\<lparr>bst_Policy := ToStatus (evaluator_of d now (policy_input b project repository tmpl))\<rparr>\<rparr>)
      project repository (applyProjectWorkloadQuotas (brd_ParseQuantity d) tmpl (prs_Quotas (proj_Spec project))))"
    if "dec_Allowed (evaluator_of d now (policy_input b project repository tmpl))"
      and "quota_admits d (b\<lparr>br_Status := (br_Status b)\<lparr>bst_Policy :=
          ToStatus (evaluator_of d now (policy_input b project repository tmpl))\<rparr>\<rparr>) project" for now
    by (rule only_reconcile_run [OF assms(1)])
      (use assms(2) that in \<open>auto simp: run_request_ok_def simp del: isTerminalBuildRunPhase.simps\<close>)
  show ?thesis
    unfolding reconcile_admission_def Let_def evaluator_of_def [symmetric] policy_input_def [symmetric]
    by (intro only_intros quiet only_quota run) (auto simp: quota_admits_def quotaDecision_zero_def)
qed


lemma only_ensureImageTag: "only {e. guarded d e} (ensureImageTag d b project)"
proof -
  note quiet = only_mono [OF only_record_event status_guarded]
  show ?thesis unfolding ensureImageTag_def Let_def by (intro only_intros quiet) simp_all
qed

lemma only_loadReferences: "only {} (loadReferences d b)"
  unfolding loadReferences_def by (intro only_intros)

lemma only_removeLegacyFinalizer: "retries d \<Longrightarrow> only {e. guarded d e} (removeLegacyFinalizer d key)"
  unfolding removeLegacyFinalizer_def Let_def retries_def
  by (rule only_retry) (simp, intro only_intros, simp)

lemma only_reconcile_buildrun:
  assumes "retries d"
  shows "only {e. guarded d e} (reconcile_buildrun d req)"
proof -
  note quiet = only_mono [OF only_mark_handlers(1) [OF assms] status_guarded]
    only_mono [OF only_mark_handlers(2) [OF assms] status_guarded]
    only_mono [OF only_ensureRelease release_guarded]
    only_mono [OF only_loadReferences empty_subsetI]
  show ?thesis
    unfolding reconcile_buildrun_def
    by (intro only_intros quiet only_ensureImageTag only_removeLegacyFinalizer only_reconcile_admission assms)
qed

text \<open>
  C1: one reconciliation calls the executor's \<open>EnsureRun\<close> only for a build that is not finished,
  that the policy evaluator allowed on exactly the objects of the request, that the project's quota
  admits against a listing of the namespace, and with the template capped by the project's quotas -
  whatever the API server, the executors and the notifier answer.
\<close>

theorem reconcile_starts_admitted_runs_only:
  assumes "retries d" and "RunEnsured run \<in> set (exec_trace (reconcile_buildrun d req) w)"
  shows "run_request_ok d run"
  using only_exec [OF only_reconcile_buildrun [OF assms(1)], of req w] assms(2) by auto

text \<open>An environment with one BuildRun, whose executor creates a Job and reports it running.\<close>

definition sample_buildrun :: BuildRun where
  "sample_buildrun = BuildRun_zero\<lparr>
     br_Spec := BuildRunSpec_zero\<lparr>brs_Image := ImageRef_zero\<lparr>img_Tag := ''v1''\<rparr>\<rparr>,
     br_Status := BuildRunStatus_zero\<lparr>bst_Image := Some (ImageRef_zero\<lparr>img_Tag := ''v1''\<rparr>)\<rparr>\<rparr>"

definition sample_executor :: "'w PipelineExecutor" where
  "sample_executor = \<lparr>
     ex_EnsureRun = (\<lambda>req w. (Inr \<lparr>ref_Kind = ''Job'', ref_Name = ''job'', ref_Namespace = ''''\<rparr>, w)),
     ex_ReadRunStatus = (\<lambda>ref w. (Inr \<lparr>run_Phase = RunPhaseRunning, run_Failure = \<lparr>rfl_Reason = '''', rfl_Message = ''''\<rparr>\<rparr>, w)),
     ex_CancelRun = (\<lambda>ref w. (None, w))\<rparr>"

definition sample_deps :: "BuildRun buildrun_deps" where
  "sample_deps = \<lparr>
     brd_GetBuildRun = (\<lambda>k w. (Inr w, w)),
     brd_GetProject = (\<lambda>k w. (Inr Project_zero, w)),
     brd_GetRepository = (\<lambda>k w. (Inr (Repository_zero\<lparr>repo_Spec := RepositorySpec_zero\<lparr>rs_Provider := RepositoryProviderGitHub\<rparr>\<rparr>), w)),
     brd_GetPipelineTemplate = (\<lambda>k w. (Inr PipelineTemplate_zero, w)),
     brd_GetRelease = (\<lambda>k w. (Inl (GoError ''not found'' [NotFound]), w)),
     brd_ListBuildRuns = (\<lambda>ns w. (Inr [w], w)),
     brd_Update = (\<lambda>b w. (Inr b, b)),
     brd_StatusUpdate = (\<lambda>b w. (Inr b, b)),
     brd_CreateRelease = (\<lambda>r w. (Inr r, w)),
     brd_SetControllerReference = (\<lambda>b r. Inr r),
     brd_Retry = attempts 4,
     brd_RetryFinalizer = attempts 4,
     brd_Now = (\<lambda>w. (7, w)),
     brd_Recorder = None,
     brd_Notifier = None,
     brd_PolicyEvaluator = None,
     brd_Executors = Map.empty,
     brd_JobExecutor = sample_executor,
     brd_TektonExecutor = sample_executor,
     brd_EnableTekton = '''',
     brd_QuotaRequeueAfter = 0,
     brd_ParseTemplate = (\<lambda>t. Inr (\<lambda>data. Inr t)),
     brd_ParseQuantity = (\<lambda>q. None)\<rparr>"

lemma retries_sample: "retries sample_deps"
  by (simp add: retries_def sample_deps_def retry_spec_attempts)

lemma sample_tag:
  "ResolveImageTag parse execute ''v1'' tmpl input = (Inr ''v1'', False)"
proof -
  have "SanitizeImageTag ''v1'' = Inr ''v1''" by code_simp
  then show ?thesis by (simp add: ResolveImageTag_def)
qed

lemma sample_load:
  "run_state (loadReferences sample_deps b) s = (Inr (Project_zero,
     Repository_zero\<lparr>repo_Spec := RepositorySpec_zero\<lparr>rs_Provider := RepositoryProviderGitHub\<rparr>\<rparr>, PipelineTemplate_zero), s)"
  by (simp add: loadReferences_def check_def wrap_def run_query sample_deps_def ok_def
      Project_zero_def ProjectSpec_zero_def)

lemma sample_image: "run_state (ensureImageTag sample_deps sample_buildrun Project_zero) s = (Inr sample_buildrun, s)"
  by (simp add: ensureImageTag_def sample_tag Let_def check_def ok_def sample_buildrun_def image_of_def
      ImageRef_zero_def)

lemma wp_grown:
  assumes "only E m" and "e \<in> set (trace s)"
  shows "wp m (\<lambda>r t. e \<in> set (trace t)) s"
proof (rule wp_mono)
  from assms(1) show "wp m (\<lambda>r t. grown E s t) s" by (simp add: wp_only)
qed (use assms(2) in \<open>auto simp: grown_def\<close>)

lemma reconcile_run_ensures:
  assumes "retries d" and "executorFor d b = Inr (ex, ty)"
  shows "wp (reconcile_run d b project repository tmpl)
    (\<lambda>r t. RunEnsured \<lparr>req_BuildRun = b, req_Project = project, req_Repository = repository, req_Template = tmpl\<rparr>
        \<in> set (trace t)) s"
proof -
  note quiet = only_mono [OF only_record_event subset_UNIV]
    only_mono [OF only_mark_handlers(3) [OF assms(1)] subset_UNIV]
    only_mono [OF only_mark_handlers(5) [OF assms(1)] subset_UNIV]
    only_mono [OF only_syncStatusFromRun [OF assms(1)] subset_UNIV]
  show ?thesis
    unfolding reconcile_run_def assms(2) sum.case prod.case Let_def recordRunCreated_def wp_bind wp_call
  proof (rule wp_grown [where E = UNIV], goal_cases)
    case 1
    show ?case by (intro only_intros quiet)
  qed simp
qed

definition sample_repository :: Repository where
  "sample_repository = Repository_zero\<lparr>repo_Spec := RepositorySpec_zero\<lparr>rs_Provider := RepositoryProviderGitHub\<rparr>\<rparr>"

definition sample_decision :: Decision where
  "sample_decision = decision 7 []"

lemma sample_allowed:
  "EvaluateBuildRun 7 (policy_input sample_buildrun Project_zero sample_repository PipelineTemplate_zero) = sample_decision"
  by (simp add: EvaluateBuildRun_def EvaluatePipelineTemplate_def Let_def policy_input_def sample_decision_def
      sample_buildrun_def sample_repository_def Project_zero_def PipelineTemplate_zero_def
      PipelineTemplateSpec_zero_def PipelineSecuritySpec_zero_def PipelineBuildSpec_zero_def
      PipelineSupplyChainSpec_zero_def templateUsesSecret_def BuildRunSpec_zero_def RepositorySpec_zero_def
      ObjectMeta_zero_def)

definition sample_request :: EnsureRunRequest where
  "sample_request = \<lparr>req_BuildRun = sample_buildrun\<lparr>br_Status := (br_Status sample_buildrun)\<lparr>
       bst_Policy := ToStatus sample_decision\<rparr>\<rparr>, req_Project = Project_zero,
     req_Repository = sample_repository, req_Template = PipelineTemplate_zero\<rparr>"

lemma sample_ensures: "RunEnsured sample_request \<in> set (exec_trace (reconcile_buildrun sample_deps req) sample_buildrun)"
proof -
  let ?b = "sample_buildrun\<lparr>br_Status := (br_Status sample_buildrun)\<lparr>bst_Policy := ToStatus sample_decision\<rparr>\<rparr>"
  have ex: "executorFor sample_deps ?b = Inr (sample_executor, ExecutorTypeJob)"
    by (simp add: executorFor_def Let_def ensureDefaultExecutors_def sample_deps_def sample_buildrun_def
        BuildRunSpec_zero_def)
  have run: "wp (reconcile_run sample_deps ?b Project_zero sample_repository PipelineTemplate_zero)
      (\<lambda>r t. RunEnsured sample_request \<in> set (trace t)) (start sample_buildrun)"
    unfolding sample_request_def by (rule reconcile_run_ensures [OF retries_sample ex])
  have quota: "evaluateProjectQuota l ?b Project_zero = ok quotaDecision_zero" for l
    by (simp add: evaluateProjectQuota_def quota_exempt_def Project_zero_def ProjectSpec_zero_def ok_def)
  have adm: "wp (reconcile_admission sample_deps sample_buildrun Project_zero sample_repository PipelineTemplate_zero)
      (\<lambda>r t. RunEnsured sample_request \<in> set (trace t)) (start sample_buildrun)"
  proof -
    have [simp]: "brd_PolicyEvaluator sample_deps = None" "brd_Now sample_deps = (\<lambda>w. (7, w))"
      by (simp_all add: sample_deps_def)
    have [simp]: "dec_Allowed sample_decision" by (simp add: sample_decision_def)
    have [simp]: "applyProjectWorkloadQuotas p tmpl (prs_Quotas (proj_Spec Project_zero)) = tmpl" for p tmpl
      by (simp add: applyProjectWorkloadQuotas_def Project_zero_def ProjectSpec_zero_def)
    have st: "start sample_buildrun\<lparr>ext := ext (start sample_buildrun)\<rparr> = start sample_buildrun"
      by (simp add: start_def)
    show ?thesis
      unfolding reconcile_admission_def Let_def policy_input_def [symmetric]
      using run by (simp add: wp_simps sample_allowed quota quotaDecision_zero_def st)
  qed
  have "wp (reconcile_buildrun sample_deps req) (\<lambda>r t. RunEnsured sample_request \<in> set (trace t)) (start sample_buildrun)"
  proof -
    have get: "brd_GetBuildRun sample_deps req w = (Inr w, w)" for w by (simp add: sample_deps_def)
    have nd: "\<not> deletion_requested sample_buildrun" "\<not> isTerminalBuildRunPhase (bst_Phase (br_Status sample_buildrun))"
      by (simp_all add: deletion_requested_def sample_buildrun_def BuildRun_zero_def ObjectMeta_zero_def
          BuildRunStatus_zero_def)
    have l: "wp (loadReferences sample_deps sample_buildrun) Q s = Q (Inr (Project_zero, sample_repository, PipelineTemplate_zero)) s" for Q s
      by (simp add: wp_def sample_load sample_repository_def)
    have i: "wp (ensureImageTag sample_deps sample_buildrun Project_zero) Q s = Q (Inr sample_buildrun) s" for Q s
      by (simp add: wp_def sample_image)
    have ext: "ext (start sample_buildrun) = sample_buildrun" by (simp add: start_def)
    show ?thesis
      unfolding reconcile_buildrun_def wp_bind wp_query ext get fst_conv snd_conv sum.case
      using adm nd ext by (simp only: if_False wp_bind l i prod.case sum.case) (simp add: start_def)
  qed
  then show ?thesis unfolding wp_trace [of _ "\<lambda>r t. RunEnsured sample_request \<in> set t"] .
qed

theorem reconcile_starts_admitted_runs_only_witness:
  "run_request_ok sample_deps sample_request"
  by (rule reconcile_starts_admitted_runs_only [OF retries_sample sample_ensures])


section \<open>Releases follow recorded successes\<close>

definition success_sent :: "br_effect list \<Rightarrow> bool" where
  "success_sent tr = list_ex (\<lambda>e. case e of
     StatusUpdate b \<Rightarrow> bst_Phase (br_Status b) = BuildRunPhaseSucceeded | _ \<Rightarrow> False) tr"

text \<open>Each Release creation comes after a status update that says \<open>Succeeded\<close>.\<close>

fun releases_follow :: "bool \<Rightarrow> br_effect list \<Rightarrow> bool" where
  "releases_follow seen [] = True"
| "releases_follow seen (e # es) = (case e of
     ReleaseCreated rel \<Rightarrow> seen \<and> releases_follow seen es
   | _ \<Rightarrow> releases_follow (seen \<or> success_sent [e]) es)"

lemma releases_follow_append:
  "releases_follow seen (xs @ ys) \<longleftrightarrow> releases_follow seen xs \<and> releases_follow (seen \<or> success_sent xs) ys"
  by (induction xs arbitrary: seen) (auto simp: success_sent_def disj_assoc split: br_effect.splits)

lemma releases_follow_True: "releases_follow True es"
  by (induction es) (auto split: br_effect.splits)

lemma releases_follow_status: "list_all status_effect es \<Longrightarrow> releases_follow seen es"
  by (induction es arbitrary: seen) (auto split: br_effect.splits)

lemma follow_quiet:
  assumes "only {e. status_effect e} m" and "releases_follow False (trace s)"
  shows "wp m (\<lambda>r t. releases_follow False (trace t)) s"
proof (rule wp_mono)
  from assms(1) show "wp m (\<lambda>r t. grown {e. status_effect e} s t) s" by (simp add: wp_only)
next
  fix r t assume "grown {e. status_effect e} s t"
  then obtain new where "trace t = trace s @ new" "list_all status_effect new"
    by (auto simp: grown_def list_all_iff)
  with assms(2) show "releases_follow False (trace t)"
    by (simp add: releases_follow_append releases_follow_status)
qed

lemma follow_sent:
  assumes "only E m" and "releases_follow False (trace s)" and "success_sent (trace s)"
  shows "wp m (\<lambda>r t. releases_follow False (trace t)) s"
proof (rule wp_mono)
  from assms(1) show "wp m (\<lambda>r t. grown E s t) s" by (simp add: wp_only)
qed (use assms(2,3) in \<open>auto simp: grown_def releases_follow_append releases_follow_True\<close>)

lemma updateBuildRunStatus_sent:
  assumes "retries d" and "bst_Phase (br_Status b) = BuildRunPhaseSucceeded"
    and "releases_follow False (trace s)"
  shows "wp (updateBuildRunStatus d b)
    (\<lambda>r t. releases_follow False (trace t) \<and> (\<forall>b'. r = Inr b' \<longrightarrow> success_sent (trace t))) s"
proof (rule wp_conj)
  show "wp (updateBuildRunStatus d b) (\<lambda>r t. releases_follow False (trace t)) s"
    by (rule follow_quiet [OF only_updateBuildRunStatus [OF assms(1)] assms(3)])
  have phase: "bst_Phase (so_status buildrun_ops sent) = BuildRunPhaseSucceeded"
    if "so_set_conditions buildrun_ops [] (so_status buildrun_ops sent)
      = so_set_conditions buildrun_ops [] (so_status buildrun_ops b)" for sent
    using arg_cong [OF that, of bst_Phase] assms(2) by (simp add: buildrun_ops_def)
  show "wp (updateBuildRunStatus d b) (\<lambda>r t. \<forall>b'. r = Inr b' \<longrightarrow> success_sent (trace t)) s"
    unfolding updateBuildRunStatus_def wp_wrap
  proof (rule wp_mono [OF br_obj.update_sent])
    show "retry_spec (brd_Retry d)" using assms(1) by (simp add: retries_def)
  next
    fix r :: "BuildRun result" and t
    assume "grown UNIV s t \<and> (\<forall>o'. r = Inr o' \<longrightarrow> (\<exists>sent. StatusUpdate sent \<in> set (trace t)
      \<and> so_set_conditions buildrun_ops [] (so_status buildrun_ops sent)
          = so_set_conditions buildrun_ops [] (so_status buildrun_ops b)))"
    then have "r = Inr c \<Longrightarrow> \<exists>sent. StatusUpdate sent \<in> set (trace t)
        \<and> bst_Phase (so_status buildrun_ops sent) = BuildRunPhaseSucceeded" for c
      using phase by blast
    then have "r = Inr c \<Longrightarrow> success_sent (trace t)" for c
      by (auto simp: success_sent_def list_ex_iff buildrun_ops_def intro!: bexI)
    then show "\<forall>b'. (case r of Inl err \<Rightarrow> Inl (errorf_w ''update BuildRun status'' err) | Inr a \<Rightarrow> Inr a) = Inr b' \<longrightarrow>
        success_sent (trace t)"
      by (cases r) simp_all
  qed
qed

lemma wp_if_quiet:
  "only {e. status_effect e} m \<Longrightarrow> releases_follow False (trace s) \<Longrightarrow>
   wp (finish m) (\<lambda>r t. releases_follow False (trace t)) s"
  by (rule follow_quiet [OF only_finish])

lemma sync_follows:
  assumes "retries d" and "releases_follow False (trace s)"
  shows "wp (syncStatusFromRun d b ref status) (\<lambda>r t. releases_follow False (trace t)) s"
proof (cases "run_Phase status = RunPhaseSucceeded")
  case True
  let ?b = "setRunRefStatus b ref"
  define now where "now = fst (brd_Now d (ext s))"
  define u where "u = s\<lparr>ext := snd (brd_Now d (ext s))\<rparr>"
  have u: "releases_follow False (trace u)" using assms(2) by (simp add: u_def)
  show ?thesis
  proof (cases "MarkBuildRunSucceeded ?b now (releaseImage ?b)")
    case (Inl err)
    with True u show ?thesis
      by (simp add: syncStatusFromRun_def Let_def wp_bind wp_query now_def [symmetric] u_def [symmetric] wp_fail)
  next
    case (Inr b')
    then have b': "bst_Phase (br_Status b') = BuildRunPhaseSucceeded" by (rule succeeded_effect(2))
    note quiet = only_mono [OF only_notifyBuildRun [OF assms(1)] subset_UNIV]
      only_mono [OF only_ensureRelease subset_UNIV]
    have rest: "only UNIV (notifyBuildRun d c NotifyBuildRunSucceeded ''BuildRun succeeded.'' \<bind> ensureRelease d)" for c
      by (intro only_intros quiet)
    have upd: "wp (check (updateBuildRunStatus d b')
        (\<lambda>c. notifyBuildRun d c NotifyBuildRunSucceeded ''BuildRun succeeded.'' \<bind> ensureRelease d))
        (\<lambda>r t. releases_follow False (trace t)) v" if "releases_follow False (trace v)" for v
      unfolding wp_check
      by (rule wp_mono [OF updateBuildRunStatus_sent [OF assms(1) b' that]])
        (auto split: sum.split intro: follow_sent [OF rest])
    show ?thesis
      unfolding syncStatusFromRun_def Let_def wp_bind wp_query now_def [symmetric] u_def [symmetric] True
        RunPhase.case Inr sum.case
      by (rule wp_mono [OF follow_quiet [OF only_record_event u]]) (rule upd)
  qed
next
  case False
  have "only {e. status_effect e} (syncStatusFromRun d b ref status)"
    unfolding syncStatusFromRun_def Let_def
    using False by (cases "run_Phase status")
      (simp_all only: RunPhase.case RunPhase.distinct simp_thms, (intro only_intros assms(1))+)
  then show ?thesis by (rule follow_quiet [OF _ assms(2)])
qed

lemma follow_finish:
  "wp m (\<lambda>r t. releases_follow False (trace t)) s \<Longrightarrow> wp (finish m) (\<lambda>r t. releases_follow False (trace t)) s"
  unfolding finish_def wp_check by (erule wp_mono) (simp add: wp_ok split: sum.split)

lemma run_follows:
  assumes "retries d" and "releases_follow False (trace s)"
  shows "wp (reconcile_run d b project repository tmpl) (\<lambda>r t. releases_follow False (trace t)) s"
proof (cases "executorFor d b")
  case (Inl err)
  then show ?thesis
    by (simp add: reconcile_run_def wp_if_quiet [OF only_mark_handlers(3) [OF assms(1)] assms(2)])
next
  case (Inr p)
  obtain ex ty where p: "p = (ex, ty)" by (cases p)
  have step: "releases_follow False (trace (s\<lparr>ext := x, trace := trace s @ [RunEnsured req]\<rparr>))" for x req
    using assms(2) by (simp add: releases_follow_append)
  have queued: "only {e. status_effect e} (recordRunCreated d ty ref \<bind> (\<lambda>_. finish (markQueued d b ref)))" for ref
    unfolding recordRunCreated_def by (intro only_intros only_mark_handlers assms(1))
  have synced: "wp (query f \<bind> (\<lambda>x. case x of Inl err \<Rightarrow> finish (markExecutorError d b err)
        | Inr status \<Rightarrow> finish (syncStatusFromRun d b ref status))) (\<lambda>r t. releases_follow False (trace t)) u"
    if "releases_follow False (trace u)" for f ref u
    unfolding wp_bind wp_query wp_sum
    using that wp_if_quiet [OF only_mark_handlers(3) [OF assms(1)]] follow_finish [OF sync_follows [OF assms(1)]]
    by (simp split: sum.split)
  show ?thesis
    unfolding reconcile_run_def Inr p sum.case prod.case Let_def wp_bind [of "call _ _"] wp_call
    using step synced follow_quiet [OF queued] wp_if_quiet [OF only_mark_handlers(3) [OF assms(1)]]
    by (simp split: sum.split)
qed

lemma wp_quota:
  assumes "\<And>q u. trace u = trace s \<Longrightarrow> wp (f q) Q u" and "\<And>err u. trace u = trace s \<Longrightarrow> Q (Inl err) u"
  shows "wp (check (evaluateProjectQuota l b project) f) Q s"
  unfolding wp_check evaluateProjectQuota_def
  using assms by (simp add: wp_simps split: sum.split)

lemma admission_follows:
  assumes "retries d" and "releases_follow False (trace s)"
  shows "wp (reconcile_admission d b project repository tmpl) (\<lambda>r t. releases_follow False (trace t)) s"
proof -
  note quiet = wp_if_quiet [OF only_mark_handlers(4) [OF assms(1)]]
    wp_if_quiet [OF only_mark_handlers(7) [OF assms(1)]]
  have queue: "wp (check (markQuotaQueued d c active maximum) (\<lambda>_. ok res)) (\<lambda>r t. releases_follow False (trace t)) u"
    if "releases_follow False (trace u)" for c active maximum u and res :: ReconcileResult
    by (rule follow_quiet [OF _ that]) (intro only_intros only_mark_handlers assms(1))
  show ?thesis
    unfolding reconcile_admission_def Let_def wp_bind wp_query wp_if
    using assms(2) quiet queue run_follows [OF assms(1)]
    by (auto intro!: wp_quota)
qed



text \<open>The same environment after the build has succeeded and its Project has been deleted.\<close>

definition finished_buildrun :: BuildRun where
  "finished_buildrun = sample_buildrun\<lparr>br_Status := (br_Status sample_buildrun)\<lparr>bst_Phase := BuildRunPhaseSucceeded\<rparr>\<rparr>"

definition orphan_deps :: "BuildRun buildrun_deps" where
  "orphan_deps = sample_deps\<lparr>brd_GetProject := (\<lambda>k w. (Inl (GoError ''not found'' [NotFound]), w))\<rparr>"



section \<open>Release names\<close>

lemma replacer_dashes:
  "replacer [(''_'', ''-''), (''.'', ''-'')] s = map (\<lambda>c. if c = CHR ''_'' \<or> c = CHR ''.'' then CHR ''-'' else c) s"
  by (induction s) auto

definition label_char :: "char \<Rightarrow> bool" where
  "label_char c \<longleftrightarrow> \<not> is_upper c \<and> c \<noteq> CHR ''_'' \<and> c \<noteq> CHR ''.''"

lemma label_char_dash: "label_char (if lower c = CHR ''_'' \<or> lower c = CHR ''.'' then CHR ''-'' else lower c)"
proof -
  have "label_char (CHR ''-'')" by code_simp
  then show ?thesis by (simp add: label_char_def)
qed

lemma label_chars_dashes: "list_all label_char (replacer [(''_'', ''-''), (''.'', ''-'')] (ToLower s))"
  unfolding replacer_dashes ToLower_def by (induction s) (simp_all only: list.map list.pred_inject simp_thms label_char_dash)

lemma list_all_take: "list_all p xs \<Longrightarrow> list_all p (take n xs)"
  by (auto simp: list_all_iff dest: in_set_takeD)

text \<open>
  a release name is a label of at most 63 characters without upper-case letters, underscores
  and dots; but names are not unique, since the separator may occur in both parts.
\<close>

theorem releaseName_label:
  "length (releaseNameForBuildRun name environment) \<le> 63
   \<and> list_all label_char (releaseNameForBuildRun name environment)
   \<and> releaseNameForBuildRun ''a-b'' ''c'' = releaseNameForBuildRun ''a'' ''b-c''"
proof -
  have **: "releaseNameForBuildRun ''a-b'' ''c'' = releaseNameForBuildRun ''a'' ''b-c''" by code_simp
  have "list_all label_char (releaseNameForBuildRun name environment)"
    unfolding releaseNameForBuildRun_def Let_def
    by (simp only: list_all_take label_chars_dashes simp_thms split: if_split)
  moreover have "length (releaseNameForBuildRun name environment) \<le> 63"
    by (simp add: releaseNameForBuildRun_def Let_def)
  ultimately show ?thesis using ** by blast
qed

end
