(* ===== verification/Redact.thy ===== *)
theory Redact
  imports GoStrings
begin

text \<open>
  \<open>internal/redact/redact.go\<close>: the masking that error messages, audit events and log lines pass
  through. A \<open>Redactor\<close> is its list of values. \<open>FromEnv\<close> ranges over a Go map in an unspecified
  order, so the environment is an association list here and the theorems hold for every order.
\<close>

definition redact_mask :: string where
  "redact_mask = ''[REDACTED]''"

record Redactor =
  rd_values :: "string list"

definition New :: "string list \<Rightarrow> Redactor" where
  "New values = \<lparr>rd_values = filter (\<lambda>value. value \<noteq> '''' \<and> value \<noteq> redact_mask) values\<rparr>"

definition IsSecretKey :: "string \<Rightarrow> bool" where
  "IsSecretKey key =
     (let normalized = ToUpper (replacer [(''-'', ''_''), ('' '', ''_''), (''.'', ''_'')] key) in
      Contains normalized ''TOKEN'' \<or> Contains normalized ''PASSWORD'' \<or> Contains normalized ''SECRET''
      \<or> Contains normalized ''AUTHORIZATION'' \<or> Contains normalized ''PRIVATE_KEY''
      \<or> Contains normalized ''CLIENT_SECRET'')"

definition FromEnv :: "(string \<times> string) list \<Rightarrow> Redactor" where
  "FromEnv env = New (map snd (filter (\<lambda>(key, value). IsSecretKey key) env))"

definition quotes :: string where
  "quotes = [CHR 0x22, CHR 0x27]"

text \<open>The loop over the separators: the first one that the field contains splits it.\<close>

fun split_at_first :: "char list \<Rightarrow> string \<Rightarrow> string \<times> string \<times> bool" where
  "split_at_first [] field = ([], [], False)"
| "split_at_first (sep # seps) field =
     (case Cut field sep of (before, after, ok) \<Rightarrow>
        if ok then (Trim before quotes, Trim after quotes, True) else split_at_first seps field)"

definition splitKeyValue :: "string \<Rightarrow> string \<times> string \<times> bool" where
  "splitKeyValue field = split_at_first [CHR ''='', CHR '':''] field"

definition field_separator :: "char \<Rightarrow> bool" where
  "field_separator r = (r = CHR ''&'' \<or> r = CHR '' '' \<or> byte r = 10 \<or> byte r = 9)"

fun mask_fields :: "string list \<Rightarrow> string \<Rightarrow> string" where
  "mask_fields [] out = out"
| "mask_fields (field # fs) out =
     (case splitKeyValue field of (key, value, ok) \<Rightarrow>
        if \<not> ok \<or> \<not> IsSecretKey key \<or> value = '''' then mask_fields fs out
        else mask_fields fs (ReplaceAll out value redact_mask))"

definition MaskKeyValues :: "string \<Rightarrow> string" where
  "MaskKeyValues input = mask_fields (FieldsFunc field_separator input) input"

definition MaskString :: "string \<Rightarrow> string" where
  "MaskString input = MaskKeyValues input"

definition Mask :: "Redactor \<Rightarrow> string \<Rightarrow> string" where
  "Mask r input = foldl (\<lambda>out value. ReplaceAll out value redact_mask) (MaskKeyValues input) (rd_values r)"


section \<open>Masking removes every occurrence\<close>

text \<open>
  A value that contains a bracket, or is a part of the word \<open>REDACTED\<close>, can reappear in the mask
  itself; every other non-empty value is called maskable.
\<close>

definition maskable :: "string \<Rightarrow> bool" where
  "maskable v \<longleftrightarrow> v \<noteq> [] \<and> CHR ''['' \<notin> set v \<and> CHR '']'' \<notin> set v \<and> \<not> Contains ''REDACTED'' v"

lemma Contains_sublist: "Contains s v \<longleftrightarrow> sublist v s"
  by (induction s) (auto simp: sublist_Cons_right)

lemma sublist_separator:
  assumes "sublist v (a @ x # b)" and "x \<notin> set v"
  shows "sublist v a \<or> sublist v b"
proof -
  from assms(1) consider "sublist v a" | "sublist v (x # b)"
    | v1 v2 where "v = v1 @ v2" "suffix v1 a" "prefix v2 (x # b)"
    by (auto simp: sublist_append)
  then show ?thesis
  proof cases
    case 2
    with assms(2) show ?thesis by (cases v) (auto simp: sublist_Cons_right)
  next
    case 3
    with assms(2) have "v2 = []" by (cases v2) auto
    with 3 show ?thesis by (simp add: suffix_imp_sublist)
  qed simp
qed

lemma redact_mask_alt: "redact_mask @ t = [] @ CHR ''['' # (''REDACTED'' @ CHR '']'' # t)"
  by (simp add: redact_mask_def)

lemma prefix_replaced:
  "prefix p (replace_nonempty s w redact_mask) \<Longrightarrow> CHR ''['' \<notin> set p \<Longrightarrow> prefix p s"
proof (induction s w redact_mask arbitrary: p rule: replace_nonempty.induct)
  case (2 c s w)
  show ?case
  proof (cases "w \<noteq> [] \<and> prefix w (c # s)")
    case True
    with 2(3,4) show ?thesis by (cases p) (auto simp: redact_mask_def)
  next
    case False
    with 2 show ?thesis by (cases p) auto
  qed
qed simp

lemma replaced_free:
  assumes "maskable v" and "w = v \<or> \<not> sublist v s"
  shows "\<not> sublist v (replace_nonempty s w redact_mask)"
  using assms(2)
proof (induction s w redact_mask rule: replace_nonempty.induct)
  case (1 w)
  from assms(1) show ?case by (simp add: maskable_def)
next
  case (2 c s w)
  show ?case
  proof (cases "w \<noteq> [] \<and> prefix w (c # s)")
    case True
    let ?rest = "drop (length w) (c # s)"
    have "\<not> sublist v (c # s) \<Longrightarrow> \<not> sublist v ?rest"
      by (metis sublist_drop sublist_order.order.trans)
    with 2 True have rest: "\<not> sublist v (replace_nonempty ?rest w redact_mask)" by blast
    have "\<not> sublist v (redact_mask @ replace_nonempty ?rest w redact_mask)"
    proof
      assume "sublist v (redact_mask @ replace_nonempty ?rest w redact_mask)"
      then have "sublist v [] \<or> sublist v (''REDACTED'' @ CHR '']'' # replace_nonempty ?rest w redact_mask)"
        unfolding redact_mask_alt by (rule sublist_separator) (use assms(1) in \<open>simp add: maskable_def\<close>)
      with assms(1) have "sublist v (''REDACTED'' @ CHR '']'' # replace_nonempty ?rest w redact_mask)"
        by (simp add: maskable_def)
      then have "sublist v ''REDACTED'' \<or> sublist v (replace_nonempty ?rest w redact_mask)"
        by (rule sublist_separator) (use assms(1) in \<open>simp add: maskable_def\<close>)
      with rest assms(1) show False by (simp add: maskable_def Contains_sublist)
    qed
    with True show ?thesis by simp
  next
    case False
    from assms(1) have v: "CHR ''['' \<notin> set v" "v \<noteq> []" by (simp_all add: maskable_def)
    from False 2 have "\<not> sublist v (replace_nonempty s w redact_mask)"
      by (auto simp: sublist_Cons_right)
    moreover have "\<not> prefix v (replace_nonempty (c # s) w redact_mask)"
    proof
      assume "prefix v (replace_nonempty (c # s) w redact_mask)"
      then have "prefix v (c # s)" using v(1) by (rule prefix_replaced)
      with False v(2) 2(3) show False by (auto dest: prefix_imp_sublist)
    qed
    ultimately show ?thesis using False by (auto simp: sublist_Cons_right simp del: prefix_Cons)
  qed
qed

lemma ReplaceAll_free:
  "maskable v \<Longrightarrow> w \<noteq> [] \<Longrightarrow> w = v \<or> \<not> sublist v s \<Longrightarrow> \<not> sublist v (ReplaceAll s w redact_mask)"
  by (simp add: ReplaceAll_def replaced_free)

lemma foldl_free:
  assumes "maskable v" and "[] \<notin> set ws" and "v \<in> set ws \<or> \<not> sublist v s"
  shows "\<not> sublist v (foldl (\<lambda>out value. ReplaceAll out value redact_mask) s ws)"
  using assms(2,3)
proof (induction ws arbitrary: s)
  case (Cons w ws)
  show ?case
  proof (cases "v \<in> set ws")
    case True
    with Cons show ?thesis by simp
  next
    case False
    with Cons.prems assms(1) have "\<not> sublist v (ReplaceAll s w redact_mask)"
      by (intro ReplaceAll_free) auto
    with Cons show ?thesis by simp
  qed
qed simp

text \<open>The values that the key-value pairs of the input expose.\<close>

definition secret_values :: "string \<Rightarrow> string list" where
  "secret_values input =
     map (\<lambda>field. fst (snd (splitKeyValue field)))
       (filter (\<lambda>field. case splitKeyValue field of (key, value, ok) \<Rightarrow> ok \<and> IsSecretKey key \<and> value \<noteq> [])
          (FieldsFunc field_separator input))"

lemma mask_fields_foldl:
  "mask_fields fs out = foldl (\<lambda>out value. ReplaceAll out value redact_mask) out
     (map (\<lambda>field. fst (snd (splitKeyValue field)))
       (filter (\<lambda>field. case splitKeyValue field of (key, value, ok) \<Rightarrow> ok \<and> IsSecretKey key \<and> value \<noteq> []) fs))"
  by (induction fs arbitrary: out) (auto split: prod.split)

lemma Mask_foldl:
  "Mask r input = foldl (\<lambda>out value. ReplaceAll out value redact_mask) input (secret_values input @ rd_values r)"
  by (simp add: Mask_def MaskKeyValues_def mask_fields_foldl secret_values_def)

lemma secret_values_nonempty: "[] \<notin> set (secret_values input)"
  by (auto simp: secret_values_def case_prod_beta)

lemma maskable_not_mask: "maskable v \<Longrightarrow> v \<noteq> redact_mask"
  by (auto simp: maskable_def redact_mask_def)

lemma Mask_free:
  assumes "maskable v" and "v \<in> set values \<union> set (secret_values input)"
  shows "\<not> sublist v (Mask (New values) input)"
proof -
  have "v \<in> set (secret_values input @ rd_values (New values))"
    using assms(2) maskable_not_mask [OF assms(1)] assms(1) by (auto simp: New_def maskable_def)
  moreover have "[] \<notin> set (secret_values input @ rd_values (New values))"
    by (simp add: secret_values_nonempty New_def)
  ultimately show ?thesis
    by (simp only: Mask_foldl) (rule foldl_free [OF assms(1)], auto)
qed

text \<open>
  C22: a masked text contains no maskable value that the redactor was made with, nor any that a
  \<open>key=value\<close> or \<open>key:value\<close> pair of the text itself gives for a secret key; later replacements
  never bring an earlier value back.
\<close>

theorem Mask_removes:
  assumes "maskable v" and "v \<in> set values \<union> set (secret_values input)"
  shows "\<not> Contains (Mask (New values) input) v"
  using Mask_free [OF assms] by (simp add: Contains_sublist)

theorem Mask_removes_witness:
  "\<not> Contains (Mask (New [''s3cr3t'']) ''token=abc s3cr3t'') ''abc''
   \<and> \<not> Contains (Mask (New [''s3cr3t'']) ''token=abc s3cr3t'') ''s3cr3t''"
proof -
  have "maskable ''abc'' \<and> ''abc'' \<in> set (secret_values ''token=abc s3cr3t'')" by code_simp
  moreover have "maskable ''s3cr3t''" by code_simp
  ultimately show ?thesis
    using Mask_removes [of "''abc''" "[''s3cr3t'']" "''token=abc s3cr3t''"]
      Mask_removes [of "''s3cr3t''" "[''s3cr3t'']" "''token=abc s3cr3t''"] by simp
qed

lemma replace_absent: "\<not> sublist w s \<Longrightarrow> replace_nonempty s w new = s"
  by (induction s w new rule: replace_nonempty.induct)
    (auto simp: sublist_Cons_right dest: prefix_imp_sublist)

text \<open>
  masking touches nothing else: a text with no secret key-value pair in which none of the
  redactor's values occurs is returned unchanged.
\<close>

theorem Mask_unchanged:
  assumes "secret_values input = []" and "\<not> list_ex (\<lambda>v. v \<noteq> '''' \<and> Contains input v) values"
  shows "Mask (New values) input = input"
proof -
  have "\<not> list_ex (\<lambda>v. sublist v input) ws \<Longrightarrow> [] \<notin> set ws \<Longrightarrow>
      foldl (\<lambda>out value. ReplaceAll out value redact_mask) input ws = input" for ws
    by (induction ws) (auto simp: ReplaceAll_def replace_absent)
  moreover have "\<not> list_ex (\<lambda>v. sublist v input) (rd_values (New values))"
    using assms(2) by (auto simp: New_def list_ex_iff Contains_sublist)
  ultimately show ?thesis using assms(1) by (simp add: Mask_foldl New_def)
qed

theorem Mask_unchanged_witness:
  "Mask (New [''s3cr3t'']) ''branch=main ok'' = ''branch=main ok''"
proof (rule Mask_unchanged)
  show "secret_values ''branch=main ok'' = []" by code_simp
  show "\<not> list_ex (\<lambda>v. v \<noteq> '''' \<and> Contains ''branch=main ok'' v) [''s3cr3t'']" by code_simp
qed

end
