(* ===== verification/GoPath.thy ===== *)
theory GoPath
  imports GoStrings
begin

text \<open>
  Go's \<open>path/filepath\<close> on Unix, as far as the modelled code uses it: \<open>Clean\<close>, \<open>Join\<close>, \<open>IsAbs\<close> and
  \<open>Rel\<close>. \<open>Clean\<close> is the lexical processing that its documentation describes, on the list of path
  elements. The lemmas give the elements of a joined path, which is what the containment theorems
  of the GitOps theories need.
\<close>

definition slash :: char where "slash = CHR ''/''"

definition IsAbs :: "string \<Rightarrow> bool" where
  "IsAbs p = HasPrefix p ''/''"

text \<open>The non-empty elements of a path that are not the current directory.\<close>

definition elements :: "string \<Rightarrow> string list" where
  "elements p = filter (\<lambda>e. e \<noteq> '''' \<and> e \<noteq> ''.'') (Split p slash)"

text \<open>The stack of elements, innermost first: \<open>..\<close> removes the element before it.\<close>

fun push_element :: "bool \<Rightarrow> string list \<Rightarrow> string \<Rightarrow> string list" where
  "push_element rooted stack e =
     (if e \<noteq> ''..'' then e # stack
      else (case stack of
          [] \<Rightarrow> if rooted then [] else [''..'']
        | inner # rest \<Rightarrow> if inner = ''..'' then ''..'' # stack else rest))"

definition clean_elements :: "bool \<Rightarrow> string list \<Rightarrow> string list" where
  "clean_elements rooted es = rev (foldl (push_element rooted) [] es)"

definition from_elements :: "bool \<Rightarrow> string list \<Rightarrow> string" where
  "from_elements rooted es =
     (if rooted then ''/'' @ Join es ''/'' else if es = [] then ''.'' else Join es ''/'')"

definition Clean :: "string \<Rightarrow> string" where
  "Clean p = from_elements (IsAbs p) (clean_elements (IsAbs p) (elements p))"

definition FilepathJoin :: "string list \<Rightarrow> string" where
  "FilepathJoin parts =
     (let parts = filter (\<lambda>p. p \<noteq> '''') parts in if parts = [] then '''' else Clean (Join parts ''/''))"

definition filepath_Dir :: "string \<Rightarrow> string" where
  "filepath_Dir p = Clean (take (case LastIndexByte p CHR ''/'' of None \<Rightarrow> 0 | Some i \<Rightarrow> Suc i) p)"

definition filepath_Base :: "string \<Rightarrow> string" where
  "filepath_Base p =
     (if p = '''' then ''.'' else let q = TrimRight p ''/'' in
      let b = drop (case LastIndexByte q CHR ''/'' of None \<Rightarrow> 0 | Some i \<Rightarrow> Suc i) q in if b = '''' then ''/'' else b)"

fun strip_common :: "string list \<Rightarrow> string list \<Rightarrow> string list \<times> string list" where
  "strip_common (b # bs) (t # ts) = (if b = t then strip_common bs ts else (b # bs, t # ts))"
| "strip_common bs ts = (bs, ts)"

definition Rel :: "string \<Rightarrow> string \<Rightarrow> string result" where
  "Rel base targ =
     (let base = Clean base; targ = Clean targ in
      if targ = base then Inr ''.''
      else if IsAbs base \<noteq> IsAbs targ
      then Inl (errors_New (''Rel: can't make '' @ targ @ '' relative to '' @ base))
      else (case strip_common (elements base) (elements targ) of
          ([], ts) \<Rightarrow> Inr (from_elements False ts)
        | (b # bs, ts) \<Rightarrow>
            if b = ''..'' then Inl (errors_New (''Rel: can't make '' @ targ @ '' relative to '' @ base))
            else Inr (Join (replicate (length (b # bs)) ''..'' @ ts) ''/'')))"


section \<open>Splitting and joining\<close>

lemma Split_nonempty: "Split s c \<noteq> []"
  by (induction s) (auto split: list.split)

lemma Split_no_sep: "c \<notin> set s \<Longrightarrow> Split s c = [s]"
  by (induction s) auto

lemma Split_append_sep: "Split (a @ c # b) c = Split a c @ Split b c"
proof (induction a)
  case (Cons x a)
  then show ?case using Split_nonempty [of a c] by (auto split: list.split)
qed simp

lemma Split_elements_no_sep: "p \<in> set (Split s c) \<Longrightarrow> c \<notin> set p"
proof (induction s arbitrary: p)
  case (Cons x s)
  then show ?case by (cases "Split s c") (auto split: if_splits)
qed simp

lemma Split_Join:
  assumes "ps \<noteq> []" and "list_all (\<lambda>p. c \<notin> set p) ps"
  shows "Split (Join ps [c]) c = ps"
  using assms
proof (induction ps)
  case (Cons p ps)
  then show ?case
    by (cases ps) (simp_all add: Split_no_sep Split_append_sep)
qed simp

text \<open>A proper element of a path.\<close>

definition proper :: "string \<Rightarrow> bool" where
  "proper e \<longleftrightarrow> e \<noteq> '''' \<and> e \<noteq> ''.'' \<and> slash \<notin> set e"

lemma elements_proper: "list_all proper (elements p)"
  by (auto simp: elements_def proper_def list_all_iff dest: Split_elements_no_sep)

lemma elements_proper_id: "list_all proper es \<Longrightarrow> filter (\<lambda>e. e \<noteq> '''' \<and> e \<noteq> ''.'') es = es"
  by (induction es) (auto simp: proper_def)

lemma elements_Join: "list_all proper es \<Longrightarrow> elements (Join es ''/'') = es"
proof (cases "es = []")
  case True
  then show ?thesis by (simp add: elements_def)
next
  case False
  assume *: "list_all proper es"
  then have "list_all (\<lambda>p. slash \<notin> set p) es" by (auto simp: list_all_iff proper_def)
  with False have "Split (Join es [slash]) slash = es" by (rule Split_Join)
  with * show ?thesis by (simp add: elements_def slash_def elements_proper_id)
qed

lemma elements_append: "elements (a @ ''/'' @ b) = elements a @ elements b"
  by (simp add: elements_def slash_def Split_append_sep)

lemma elements_from: "list_all proper es \<Longrightarrow> elements (from_elements rooted es) = es"
  using elements_append [of "[]" "Join es ''/''"]
  by (auto simp: from_elements_def elements_Join) (simp_all add: elements_def slash_def)

lemma push_proper: "list_all proper stack \<Longrightarrow> proper e \<Longrightarrow> list_all proper (push_element rooted stack e)"
  by (auto simp: proper_def slash_def split: list.split)

lemma foldl_push_proper:
  "list_all proper stack \<Longrightarrow> list_all proper es \<Longrightarrow> list_all proper (foldl (push_element rooted) stack es)"
  by (induction es arbitrary: stack) (simp_all add: push_proper del: push_element.simps)

lemma clean_proper: "list_all proper es \<Longrightarrow> list_all proper (clean_elements rooted es)"
  using foldl_push_proper [of "[]" es rooted] by (simp add: clean_elements_def)

lemma elements_Clean: "elements (Clean p) = clean_elements (IsAbs p) (elements p)"
  unfolding Clean_def by (rule elements_from) (rule clean_proper, rule elements_proper)

text \<open>A path without \<open>..\<close> is left alone by cleaning.\<close>

lemma foldl_push_plain:
  "''..'' \<notin> set es \<Longrightarrow> foldl (push_element rooted) stack es = rev es @ stack"
  by (induction es arbitrary: stack) auto

lemma clean_plain: "''..'' \<notin> set es \<Longrightarrow> clean_elements rooted es = es"
  by (simp add: clean_elements_def foldl_push_plain)

text \<open>Cleaned elements: the \<open>..\<close> come first, and a rooted path has none.\<close>

lemma push_rooted: "''..'' \<notin> set stack \<Longrightarrow> ''..'' \<notin> set (push_element True stack e)"
  by (auto split: list.split)

lemma clean_rooted: "''..'' \<notin> set (clean_elements True es)"
proof -
  have "''..'' \<notin> set stack \<Longrightarrow> ''..'' \<notin> set (foldl (push_element True) stack es)" for stack
    by (induction es arbitrary: stack) (simp_all add: push_rooted del: push_element.simps)
  then show ?thesis by (simp add: clean_elements_def)
qed

definition dots_last :: "string list \<Rightarrow> bool" where
  "dots_last stack \<longleftrightarrow> (\<exists>n plain. stack = plain @ replicate n ''..'' \<and> ''..'' \<notin> set plain)"

lemma push_dots:
  assumes "dots_last stack"
  shows "dots_last (push_element False stack e)"
proof -
  from assms obtain n plain where s: "stack = plain @ replicate n ''..''" "''..'' \<notin> set plain"
    by (auto simp: dots_last_def)
  consider "e \<noteq> ''..''" | "e = ''..''" "plain = []" | x xs where "e = ''..''" "plain = x # xs"
    by (cases plain) auto
  then show ?thesis
  proof cases
    case 1
    with s have "push_element False stack e = (e # plain) @ replicate n ''..''" "''..'' \<notin> set (e # plain)"
      by auto
    then show ?thesis unfolding dots_last_def by blast
  next
    case 2
    with s have "push_element False stack e = [] @ replicate (Suc n) ''..''"
      by (cases n) auto
    then show ?thesis unfolding dots_last_def by (intro exI [of _ "Suc n"] exI [of _ "[]"]) simp
  next
    case 3
    with s have "push_element False stack e = xs @ replicate n ''..''" "''..'' \<notin> set xs" by auto
    then show ?thesis unfolding dots_last_def by blast
  qed
qed

lemma clean_relative:
  "\<exists>n plain. clean_elements False es = replicate n ''..'' @ plain \<and> ''..'' \<notin> set plain"
proof -
  have "dots_last stack \<Longrightarrow> dots_last (foldl (push_element False) stack es)" for stack
    by (induction es arbitrary: stack) (simp_all add: push_dots del: push_element.simps)
  moreover have "dots_last []" unfolding dots_last_def by (intro exI [of _ 0] exI [of _ "[]"]) simp
  ultimately have "dots_last (foldl (push_element False) [] es)" by blast
  then obtain n plain where "foldl (push_element False) [] es = plain @ replicate n ''..''" "''..'' \<notin> set plain"
    by (auto simp: dots_last_def)
  then show ?thesis
    by (intro exI [of _ n] exI [of _ "rev plain"]) (simp add: clean_elements_def)
qed

lemma foldl_dots:
  assumes "d = ''..''"
  shows "foldl (push_element False) (replicate k d) (replicate n d) = replicate (k + n) d"
proof (induction n arbitrary: k)
  case (Suc n)
  have "push_element False (replicate k d) d = replicate (Suc k) d" using assms by (cases k) simp_all
  then have "foldl (push_element False) (replicate k d) (replicate (Suc n) d)
      = foldl (push_element False) (replicate (Suc k) d) (replicate n d)"
    by (simp only: replicate_Suc foldl.simps)
  also have "\<dots> = replicate (Suc k + n) d" by (rule Suc)
  finally show ?case by (simp only: add_Suc_right add_Suc)
qed simp

lemma clean_idem: "clean_elements rooted (clean_elements rooted es) = clean_elements rooted es"
proof (cases rooted)
  case True
  then show ?thesis using clean_rooted clean_plain by simp
next
  case False
  obtain n plain where es: "clean_elements False es = replicate n ''..'' @ plain" "''..'' \<notin> set plain"
    using clean_relative by blast
  have "foldl (push_element False) [] (replicate n ''..'') = replicate n ''..''"
    using foldl_dots [OF refl, of 0 n] by (simp only: replicate_0 add_0)
  then have "clean_elements False (replicate n ''..'' @ plain) = replicate n ''..'' @ plain"
    unfolding clean_elements_def foldl_append by (simp only: foldl_push_plain [OF es(2)] rev_append rev_rev_ident rev_replicate)
  with es(1) False show ?thesis by (simp only:)
qed
text \<open>A cleaned relative path that does not begin with \<open>..\<close> has none at all.\<close>

definition escapes :: "string \<Rightarrow> bool" where
  "escapes cleaned \<longleftrightarrow> IsAbs cleaned \<or> cleaned = ''..'' \<or> HasPrefix cleaned ''../''"

lemma IsAbs_Clean: "IsAbs (Clean p) = IsAbs p"
proof (cases "IsAbs p")
  case True
  then show ?thesis by (simp add: Clean_def from_elements_def IsAbs_def HasPrefix_def)
next
  case False
  have "list_all proper (clean_elements False (elements p))" by (rule clean_proper) (rule elements_proper)
  then have "\<not> IsAbs (from_elements False (clean_elements False (elements p)))"
  proof (cases "clean_elements False (elements p)")
    case (Cons e es)
    assume "list_all proper (clean_elements False (elements p))"
    with Cons have "e \<noteq> []" "slash \<notin> set e" by (simp_all add: proper_def)
    then show ?thesis unfolding Cons
      by (cases e; cases es) (auto simp: from_elements_def IsAbs_def HasPrefix_def slash_def)
  qed (simp add: from_elements_def IsAbs_def HasPrefix_def)
  with False show ?thesis by (simp add: Clean_def)
qed

lemma not_escapes:
  assumes "\<not> escapes (Clean p)"
  shows "''..'' \<notin> set (elements (Clean p))" and "\<not> IsAbs p"
proof -
  from assms show na: "\<not> IsAbs p" by (simp add: escapes_def IsAbs_Clean)
  obtain n plain where es: "clean_elements False (elements p) = replicate n ''..'' @ plain" "''..'' \<notin> set plain"
    using clean_relative by blast
  have "n = 0"
  proof (rule ccontr)
    assume "n \<noteq> 0"
    then obtain k where "n = Suc k" by (cases n) auto
    with es na have "Clean p = Join (''..'' # replicate k ''..'' @ plain) ''/''"
      by (simp add: Clean_def from_elements_def)
    with assms show False by (cases "replicate k ''..'' @ plain") (auto simp: escapes_def HasPrefix_def)
  qed
  with es na show "''..'' \<notin> set (elements (Clean p))" by (simp add: elements_Clean)
qed

lemma strip_common_prefix: "strip_common bs (bs @ ts) = ([], ts)"
  by (induction bs) simp_all


section \<open>Paths below a directory\<close>

text \<open>\<open>below dir path\<close>: the path is the directory's, followed by plain elements.\<close>

definition below :: "string \<Rightarrow> string \<Rightarrow> bool" where
  "below dir path \<longleftrightarrow> (\<exists>es. elements path = elements dir @ es \<and> ''..'' \<notin> set es)"

text \<open>A directory in cleaned form, as \<open>filepath.Join\<close> returns it.\<close>

definition clean_dir :: "string \<Rightarrow> bool" where
  "clean_dir dir \<longleftrightarrow> dir \<noteq> '''' \<and> clean_elements (IsAbs dir) (elements dir) = elements dir"

lemma below_refl: "below dir dir"
  by (simp add: below_def)

lemma clean_append:
  assumes "clean_elements rooted ds = ds" and "''..'' \<notin> set es"
  shows "clean_elements rooted (ds @ es) = ds @ es"
proof -
  from assms(1) have "foldl (push_element rooted) [] ds = rev ds"
    by (simp add: clean_elements_def rev_swap)
  with assms(2) show ?thesis by (simp add: clean_elements_def foldl_push_plain)
qed

lemma from_elements_nonempty: "list_all proper es \<Longrightarrow> from_elements rooted es \<noteq> ''''"
  by (cases es rule: remdups_adj.cases) (auto simp: from_elements_def proper_def)

lemma Clean_nonempty: "Clean p \<noteq> ''''"
  unfolding Clean_def by (rule from_elements_nonempty) (rule clean_proper, rule elements_proper)

lemma Clean_id:
  assumes "clean_elements (IsAbs p) (elements p) = elements p"
  shows "elements (Clean p) = elements p" and "IsAbs (Clean p) = IsAbs p"
  using assms by (simp_all add: elements_Clean IsAbs_Clean)

lemma IsAbs_append: "a \<noteq> '''' \<Longrightarrow> IsAbs (a @ b) = IsAbs a"
  by (cases a) (simp_all add: IsAbs_def HasPrefix_def)

lemma Join_inside:
  assumes "clean_dir dir" and "\<not> escapes (Clean p)"
  shows "elements (FilepathJoin [dir, Clean p]) = elements dir @ elements (Clean p)"
    and "IsAbs (FilepathJoin [dir, Clean p]) = IsAbs dir"
    and "clean_elements (IsAbs dir) (elements (FilepathJoin [dir, Clean p])) = elements (FilepathJoin [dir, Clean p])"
proof -
  from assms(1) have d: "dir \<noteq> ''''" "clean_elements (IsAbs dir) (elements dir) = elements dir"
    by (simp_all add: clean_dir_def)
  have j: "FilepathJoin [dir, Clean p] = Clean (dir @ ''/'' @ Clean p)"
    using d(1) Clean_nonempty [of p] by (simp add: FilepathJoin_def)
  have a: "IsAbs (dir @ ''/'' @ Clean p) = IsAbs dir" by (rule IsAbs_append [OF d(1)])
  have c: "clean_elements (IsAbs dir) (elements dir @ elements (Clean p)) = elements dir @ elements (Clean p)"
    by (rule clean_append [OF d(2) not_escapes(1) [OF assms(2)]])
  show e: "elements (FilepathJoin [dir, Clean p]) = elements dir @ elements (Clean p)"
    unfolding j elements_Clean [of "dir @ ''/'' @ Clean p"] a elements_append by (rule c)
  show "IsAbs (FilepathJoin [dir, Clean p]) = IsAbs dir" by (simp only: j IsAbs_Clean a)
  show "clean_elements (IsAbs dir) (elements (FilepathJoin [dir, Clean p])) = elements (FilepathJoin [dir, Clean p])"
    unfolding e by (rule c)
qed

lemma from_plain:
  assumes "list_all proper es" and "''..'' \<notin> set es"
  shows "from_elements False es \<noteq> ''..''" and "\<not> HasPrefix (from_elements False es) ''../''"
    and "\<not> IsAbs (from_elements False es)"
proof -
  have c: "Clean (from_elements False es) = from_elements False es \<and> elements (from_elements False es) = es
      \<and> \<not> IsAbs (from_elements False es)"
  proof -
    have e: "elements (from_elements False es) = es" by (rule elements_from [OF assms(1)])
    have na: "\<not> IsAbs (from_elements False es)"
      using assms(1) by (cases es rule: remdups_adj.cases)
        (auto simp: from_elements_def IsAbs_def HasPrefix_def proper_def slash_def prefix_def
          Cons_eq_append_conv append_eq_Cons_conv)
    with e show ?thesis by (simp add: Clean_def clean_plain [OF assms(2)])
  qed
  show "\<not> IsAbs (from_elements False es)" using c by blast
  show "from_elements False es \<noteq> ''..''"
  proof
    assume "from_elements False es = ''..''"
    with c have "es = elements ''..''" by metis
    also have "\<dots> = [''..'']" by code_simp
    finally show False using assms(2) by simp
  qed
  show "\<not> HasPrefix (from_elements False es) ''../''"
  proof
    assume "HasPrefix (from_elements False es) ''../''"
    then obtain rest where "from_elements False es = ''..'' @ ''/'' @ rest"
      by (auto simp: HasPrefix_def prefix_def)
    with c have "es = elements ''..'' @ elements rest" by (metis elements_append)
    moreover have "elements ''..'' = [''..'']" by code_simp
    ultimately show False using assms(2) by simp
  qed
qed

lemma below_trans: "below a b \<Longrightarrow> below b c \<Longrightarrow> below a c"
  unfolding below_def by (metis Un_iff append.assoc set_append)

text \<open>What \<open>Rel\<close> tells of two absolute cleaned paths.\<close>

lemma strip_common_append: "strip_common bs ts = (bs', ts') \<Longrightarrow> \<exists>c. bs = c @ bs' \<and> ts = c @ ts'"
  by (induction bs ts rule: strip_common.induct) (auto split: if_splits)

lemma Rel_below:
  assumes "Rel base targ = Inr rel" and "rel \<noteq> ''..''" and "\<not> HasPrefix rel ''../''"
    and "clean_dir base" and "clean_dir targ" and "IsAbs targ"
  shows "below base targ"
proof -
  have c: "elements (Clean base) = elements base" "elements (Clean targ) = elements targ"
    using assms(4,5) Clean_id by (simp_all add: clean_dir_def)
  have plain: "''..'' \<notin> set (elements targ)"
    using clean_rooted [of "elements targ"] assms(5,6) by (simp add: clean_dir_def)
  show ?thesis
  proof (cases "Clean targ = Clean base")
    case True
    then have "elements targ = elements base" using c by metis
    then show ?thesis by (simp add: below_def)
  next
    case False
    obtain bs ts where s: "strip_common (elements base) (elements targ) = (bs, ts)" by (cases "strip_common (elements base) (elements targ)")
    obtain pre where pre: "elements base = pre @ bs" "elements targ = pre @ ts" using strip_common_append [OF s] by blast
    have "bs = []"
    proof (rule ccontr)
      assume "bs \<noteq> []"
      then obtain b bs' where b: "bs = b # bs'" by (cases bs) auto
      then have "rel = Join (replicate (length bs) ''..'' @ ts) ''/''"
        using assms(1) False c s by (auto simp: Rel_def Let_def split: if_splits)
      then have "rel = Join (''..'' # replicate (length bs') ''..'' @ ts) ''/''" using b by simp
      then show False
        using assms(2,3) by (cases "replicate (length bs') ''..'' @ ts") (auto simp: HasPrefix_def)
    qed
    then show ?thesis using pre plain by (auto simp: below_def)
  qed
qed

lemma Rel_elements:
  assumes "Rel base targ = Inr rel" and "below base targ" and "clean_dir base" and "clean_dir targ"
    and "IsAbs base" and "IsAbs targ"
  shows "\<exists>es. elements targ = elements base @ es \<and> ''..'' \<notin> set es \<and> list_all proper es \<and> rel = from_elements False es"
proof -
  from assms(2) obtain es where es: "elements targ = elements base @ es" "''..'' \<notin> set es" by (auto simp: below_def)
  have c: "elements (Clean base) = elements base" "elements (Clean targ) = elements base @ es"
    "IsAbs (Clean base)" "IsAbs (Clean targ)"
    using assms(3-6) es Clean_id by (simp_all add: clean_dir_def)
  have p: "list_all proper es" using elements_proper [of targ] es(1) by simp
  show ?thesis
  proof (cases "Clean targ = Clean base")
    case True
    then have "es = []" using c by (metis append_self_conv)
    then show ?thesis using assms(1) True es by (auto simp: Rel_def from_elements_def)
  next
    case False
    then have "rel = from_elements False es"
      using assms(1) c by (simp add: Rel_def Let_def strip_common_prefix)
    then show ?thesis using es p by blast
  qed
qed

lemma clean_dir_Clean: "clean_dir (Clean p)"
  by (simp add: clean_dir_def Clean_nonempty elements_Clean IsAbs_Clean clean_idem)

lemma Join_absolute: "IsAbs dir \<Longrightarrow> IsAbs (FilepathJoin [dir, p])"
  by (auto simp: FilepathJoin_def IsAbs_Clean IsAbs_append) (auto simp: IsAbs_def HasPrefix_def)

end
