(* ===== verification/Yaml.thy ===== *)
theory Yaml
  imports GoPath
begin

text \<open>
  The YAML trees that \<open>internal/gitops/provider.go\<close> edits. A \<open>yaml.Node\<close> is its kind, tag, value
  and content (style, comments and anchors are not touched by the code and left out); in-place
  updates through pointers return the new tree. The parser and the encoder of \<open>gopkg.in/yaml.v3\<close>
  are arguments of theory \<open>GitOpsProvider\<close>. The main lemmas: setting a field is read back, is
  idempotent, and leaves every unrelated path alone.
\<close>

datatype yaml_kind = DocumentNode | SequenceNode | MappingNode | ScalarNode | AliasNode

datatype yaml_node =
  Node (n_Kind: yaml_kind) (n_Tag: string) (n_Value: string) (n_Content: "yaml_node list")

definition str_tag :: string where "str_tag = ''!!str''"

definition str_node :: "string \<Rightarrow> yaml_node" where
  "str_node value = Node ScalarNode str_tag value []"

text \<open>A mapping node's content alternates keys and values; a key without a value is ignored.\<close>

fun lookup_pairs :: "yaml_node list \<Rightarrow> string \<Rightarrow> yaml_node option" where
  "lookup_pairs (k # v # rest) key = (if n_Value k = key then Some v else lookup_pairs rest key)"
| "lookup_pairs _ key = None"

fun update_pairs :: "yaml_node list \<Rightarrow> string \<Rightarrow> yaml_node \<Rightarrow> yaml_node list" where
  "update_pairs (k # v # rest) key v' = (if n_Value k = key then k # v' # rest else k # v # update_pairs rest key v')"
| "update_pairs xs key v' = xs"

fun delete_pairs :: "yaml_node list \<Rightarrow> string \<Rightarrow> yaml_node list" where
  "delete_pairs (k # v # rest) key = (if n_Value k = key then rest else k # v # delete_pairs rest key)"
| "delete_pairs xs key = xs"

definition yamlMapValue :: "yaml_node option \<Rightarrow> string \<Rightarrow> yaml_node option" where
  "yamlMapValue mapping key = (case mapping of
     None \<Rightarrow> None
   | Some m \<Rightarrow> if n_Kind m \<noteq> MappingNode then None else lookup_pairs (n_Content m) key)"

fun yamlNodeAt :: "yaml_node option \<Rightarrow> string list \<Rightarrow> yaml_node option" where
  "yamlNodeAt current [] = current"
| "yamlNodeAt current (key # keys) = (case yamlMapValue current key of
     None \<Rightarrow> None | Some next_node \<Rightarrow> yamlNodeAt (Some next_node) keys)"

definition nodeValue :: "yaml_node option \<Rightarrow> string" where
  "nodeValue node = (case node of None \<Rightarrow> '''' | Some n \<Rightarrow> n_Value n)"

definition set_content :: "yaml_node list \<Rightarrow> yaml_node \<Rightarrow> yaml_node" where
  "set_content content n = Node (n_Kind n) (n_Tag n) (n_Value n) content"

definition yamlFieldParts :: "string \<Rightarrow> string list result" where
  "yamlFieldParts field =
     (let field = TrimSpace field in
      if field = '''' then Inl (errors_New ''Helm values field path is required'')
      else let parts = Split field (CHR ''.'') in
        if list_ex (\<lambda>part. TrimSpace part = '''') parts
        then Inl (errors_New (''Helm values field path '' @ quote field @ '' contains an empty segment''))
        else Inr parts)"

text \<open>The walk of \<open>setYAMLField\<close> along the parts, creating missing mappings, and its leaf case.\<close>

fun set_parts :: "string \<Rightarrow> string \<Rightarrow> string list \<Rightarrow> yaml_node \<Rightarrow> (yaml_node \<times> bool) result" where
  "set_parts field value [] current = Inr (current, False)"
| "set_parts field value [leaf] current = (case yamlMapValue (Some current) leaf of
     Some existing \<Rightarrow>
       if n_Kind existing \<noteq> ScalarNode
       then Inl (errors_New (''Helm values field '' @ quote field @ '' is not a scalar''))
       else if n_Value existing = value \<and> n_Tag existing = str_tag then Inr (current, False)
       else Inr (set_content (update_pairs (n_Content current) leaf
                   (Node ScalarNode str_tag value (n_Content existing))) current, True)
   | None \<Rightarrow> Inr (set_content (n_Content current @ [str_node leaf, str_node value]) current, True))"
| "set_parts field value (part # parts) current = (case yamlMapValue (Some current) part of
     None \<Rightarrow> (case set_parts field value parts (Node MappingNode ''!!map'' '''' []) of
         Inl err \<Rightarrow> Inl err
       | Inr (next_node, changed) \<Rightarrow>
           Inr (set_content (n_Content current @ [str_node part, next_node]) current, changed))
   | Some next_node \<Rightarrow>
       if n_Kind next_node \<noteq> MappingNode
       then Inl (errors_New (''Helm values field '' @ quote field @ '' traverses non-map key '' @ quote part))
       else (case set_parts field value parts next_node of
         Inl err \<Rightarrow> Inl err
       | Inr (next_node', changed) \<Rightarrow>
           Inr (set_content (update_pairs (n_Content current) part next_node') current, changed)))"

definition setYAMLField :: "yaml_node \<Rightarrow> string \<Rightarrow> string \<Rightarrow> (yaml_node \<times> bool) result" where
  "setYAMLField root field value = (case yamlFieldParts field of
     Inl err \<Rightarrow> Inl err | Inr parts \<Rightarrow> set_parts field value parts root)"

fun delete_parts :: "string \<Rightarrow> string list \<Rightarrow> yaml_node \<Rightarrow> (yaml_node \<times> bool) result" where
  "delete_parts field [] current = Inr (current, False)"
| "delete_parts field [leaf] current =
     (if lookup_pairs (n_Content current) leaf \<noteq> None
      then Inr (set_content (delete_pairs (n_Content current) leaf) current, True) else Inr (current, False))"
| "delete_parts field (part # parts) current = (case yamlMapValue (Some current) part of
     None \<Rightarrow> Inr (current, False)
   | Some next_node \<Rightarrow>
       if n_Kind next_node \<noteq> MappingNode
       then Inl (errors_New (''Helm values field '' @ quote field @ '' traverses non-map key '' @ quote part))
       else (case delete_parts field parts next_node of
         Inl err \<Rightarrow> Inl err
       | Inr (next_node', changed) \<Rightarrow>
           Inr (set_content (update_pairs (n_Content current) part next_node') current, changed)))"

definition deleteYAMLField :: "yaml_node \<Rightarrow> string \<Rightarrow> (yaml_node \<times> bool) result" where
  "deleteYAMLField root field = (case yamlFieldParts field of
     Inl err \<Rightarrow> Inl err | Inr parts \<Rightarrow> delete_parts field parts root)"

definition setOrDeleteYAMLField :: "yaml_node \<Rightarrow> string \<Rightarrow> string \<Rightarrow> (yaml_node \<times> bool) result" where
  "setOrDeleteYAMLField root field value =
     (if value = '''' then deleteYAMLField root field else setYAMLField root field value)"


section \<open>Lookup after update\<close>

lemma set_content_sels [simp]:
  "n_Kind (set_content c n) = n_Kind n" "n_Content (set_content c n) = c"
  "n_Tag (set_content c n) = n_Tag n" "n_Value (set_content c n) = n_Value n"
  by (simp_all add: set_content_def)

lemma set_content_self [simp]: "set_content (n_Content n) n = n"
  by (cases n) (simp add: set_content_def)

lemma lookup_update:
  "lookup_pairs c key \<noteq> None \<Longrightarrow>
   lookup_pairs (update_pairs c key v) key' = (if key' = key then Some v else lookup_pairs c key')"
  by (induction c key v rule: update_pairs.induct) (auto split: if_splits)

lemma lookup_delete: "key' \<noteq> key \<Longrightarrow> lookup_pairs (delete_pairs c key) key' = lookup_pairs c key'"
  by (induction c key rule: delete_pairs.induct) auto

lemma update_same: "lookup_pairs c key = Some v \<Longrightarrow> update_pairs c key v = c"
  by (induction c key v rule: update_pairs.induct) (auto split: if_splits)

lemma lookup_append:
  "even (length c) \<Longrightarrow> lookup_pairs (c @ d) key = (case lookup_pairs c key of None \<Rightarrow> lookup_pairs d key | Some v \<Rightarrow> Some v)"
  by (induction c key rule: lookup_pairs.induct) auto

lemma length_update [simp]: "length (update_pairs c key v) = length c"
  by (induction c key v rule: update_pairs.induct) auto

text \<open>A tree as the parser builds it: the content of every mapping consists of pairs.\<close>

fun paired :: "yaml_node \<Rightarrow> bool" where
  "paired (Node k t v c) = ((k = MappingNode \<longrightarrow> even (length c)) \<and> list_all paired c)"

lemma paired_lookup: "list_all paired c \<Longrightarrow> lookup_pairs c key = Some v \<Longrightarrow> paired v"
  by (induction c key rule: lookup_pairs.induct) (auto split: if_splits)

lemma paired_update: "list_all paired c \<Longrightarrow> paired v \<Longrightarrow> list_all paired (update_pairs c key v)"
  by (induction c key v rule: update_pairs.induct) auto

lemma paired_content: "paired n \<Longrightarrow> list_all paired (n_Content n)"
  by (cases n) simp

lemma paired_even: "paired n \<Longrightarrow> n_Kind n = MappingNode \<Longrightarrow> even (length (n_Content n))"
  by (cases n) simp

lemma paired_set_content:
  "paired n \<Longrightarrow> list_all paired c \<Longrightarrow> (n_Kind n = MappingNode \<Longrightarrow> even (length c)) \<Longrightarrow> paired (set_content c n)"
  by (cases n) (simp add: set_content_def)

lemma paired_str [simp]: "paired (str_node v)"
  by (simp add: str_node_def)


section \<open>Setting a field\<close>

definition mapping :: "yaml_node \<Rightarrow> bool" where
  "mapping n \<longleftrightarrow> n_Kind n = MappingNode \<and> paired n"

definition string_scalar :: "string \<Rightarrow> yaml_node \<Rightarrow> bool" where
  "string_scalar v n \<longleftrightarrow> n_Kind n = ScalarNode \<and> n_Tag n = str_tag \<and> n_Value n = v"

lemma mapping_value: "mapping n \<Longrightarrow> yamlMapValue (Some n) key = lookup_pairs (n_Content n) key"
  by (simp add: mapping_def yamlMapValue_def)

lemma mapping_child: "mapping n \<Longrightarrow> lookup_pairs (n_Content n) key = Some v \<Longrightarrow> paired v"
  by (auto simp: mapping_def dest: paired_content paired_lookup)

lemma mapping_update:
  "mapping n \<Longrightarrow> paired v \<Longrightarrow> mapping (set_content (update_pairs (n_Content n) key v) n)"
  by (auto simp: mapping_def intro!: paired_set_content paired_update dest: paired_content paired_even)

lemma mapping_extend:
  "mapping n \<Longrightarrow> paired v \<Longrightarrow> mapping (set_content (n_Content n @ [str_node k, v]) n)"
  by (auto simp: mapping_def intro!: paired_set_content dest: paired_content paired_even)

lemma mapping_fresh [simp]: "mapping (Node MappingNode t v [])"
  by (simp add: mapping_def)

lemma lookup_extend:
  "mapping n \<Longrightarrow> lookup_pairs (n_Content n @ [str_node k, v]) key =
     (case lookup_pairs (n_Content n) key of Some x \<Rightarrow> Some x | None \<Rightarrow> if k = key then Some v else None)"
  by (simp add: mapping_def lookup_append paired_even str_node_def split: option.split)

lemma mapping_delete:
  assumes "mapping n"
  shows "mapping (set_content (delete_pairs (n_Content n) key) n)"
proof -
  have e: "even (length c) \<Longrightarrow> even (length (delete_pairs c key))" for c
    by (induction c key rule: delete_pairs.induct) auto
  have p: "list_all paired c \<Longrightarrow> list_all paired (delete_pairs c key)" for c
    by (induction c key rule: delete_pairs.induct) auto
  from assms show ?thesis
    by (auto simp: mapping_def intro!: paired_set_content e p dest: paired_content paired_even)
qed

lemma yamlNodeAt_mapping:
  "mapping n \<Longrightarrow> yamlNodeAt (Some n) (key # keys) =
     (case lookup_pairs (n_Content n) key of None \<Rightarrow> None | Some m \<Rightarrow> yamlNodeAt (Some m) keys)"
  by (simp add: mapping_value)

text \<open>What a successful \<open>set_parts\<close> leaves: a mapping, the value at the path, a fixed point.\<close>

definition holds_value :: "string \<Rightarrow> string \<Rightarrow> string list \<Rightarrow> yaml_node \<Rightarrow> bool" where
  "holds_value field value parts r \<longleftrightarrow> mapping r
     \<and> (\<exists>n. yamlNodeAt (Some r) parts = Some n \<and> string_scalar value n)
     \<and> set_parts field value parts r = Inr (r, False)"

lemma set_parts_holds:
  assumes "mapping r" and "parts \<noteq> []" and "set_parts field val parts r = Inr (r', ch)"
  shows "holds_value field val parts r'"
  using assms
proof (induction field val parts r arbitrary: r' ch rule: set_parts.induct)
  case (2 field val leaf current)
  note m = 2(1) and eq = 2(3)
  show ?case
  proof (cases "lookup_pairs (n_Content current) leaf")
    case None
    let ?c = "set_content (n_Content current @ [str_node leaf, str_node val]) current"
    from eq m None have r': "r' = ?c" by (simp add: mapping_value)
    have mc: "mapping ?c" by (rule mapping_extend [OF m]) simp
    have l: "lookup_pairs (n_Content ?c) leaf = Some (str_node val)"
      using m None by (simp add: lookup_extend)
    show ?thesis unfolding r' holds_value_def using mc l
      by (simp add: mapping_value string_scalar_def) (simp add: str_node_def)
  next
    case (Some existing)
    let ?v = "Node ScalarNode str_tag val (n_Content existing)"
    let ?c = "set_content (update_pairs (n_Content current) leaf ?v) current"
    from eq m Some have k: "n_Kind existing = ScalarNode" by (simp add: mapping_value split: if_splits)
    show ?thesis
    proof (cases "n_Value existing = val \<and> n_Tag existing = str_tag")
      case True
      with eq m Some k have "r' = current" by (simp add: mapping_value)
      with True m Some k show ?thesis by (simp add: holds_value_def mapping_value string_scalar_def)
    next
      case False
      with eq m Some k have r': "r' = ?c" by (auto simp: mapping_value)
      have "paired existing" using m Some by (rule mapping_child)
      then have "paired ?v" by (cases existing) simp
      then have mc: "mapping ?c" by (rule mapping_update [OF m])
      have l: "lookup_pairs (n_Content ?c) leaf = Some ?v" using Some by (simp add: lookup_update)
      show ?thesis unfolding r' holds_value_def using mc l by (simp add: mapping_value string_scalar_def)
    qed
  qed
next
  case (3 field val part p2 ps current)
  note m = 3(3) and eq = 3(5)
  show ?case
  proof (cases "lookup_pairs (n_Content current) part")
    case None
    with eq m obtain nx where s: "set_parts field val (p2 # ps) (Node MappingNode ''!!map'' '''' []) = Inr (nx, ch)"
      and r': "r' = set_content (n_Content current @ [str_node part, nx]) current"
      by (auto simp: mapping_value split: sum.splits prod.splits)
    from 3(1) [OF _ mapping_fresh _ s] m None have h: "holds_value field val (p2 # ps) nx"
      by (simp add: mapping_value)
    then have nx: "mapping nx" "n_Kind nx = MappingNode" by (simp_all add: holds_value_def mapping_def)
    have mc: "mapping r'" unfolding r' by (rule mapping_extend [OF m]) (use nx in \<open>simp add: mapping_def\<close>)
    have l: "lookup_pairs (n_Content r') part = Some nx" using m None by (simp add: r' lookup_extend)
    show ?thesis using h mc l nx update_same [OF l]
      by (simp add: holds_value_def mapping_value)
  next
    case (Some next_node)
    with eq m have k: "n_Kind next_node = MappingNode"
      by (simp add: mapping_value split: if_splits)
    with eq m Some obtain nx where s: "set_parts field val (p2 # ps) next_node = Inr (nx, ch)"
      and r': "r' = set_content (update_pairs (n_Content current) part nx) current"
      by (auto simp: mapping_value split: sum.splits)
    have mn: "mapping next_node" using mapping_child [OF m Some] k by (simp add: mapping_def)
    from 3(2) [OF _ _ mn _ s] m Some k have h: "holds_value field val (p2 # ps) nx"
      by (simp add: mapping_value)
    then have nx: "mapping nx" "n_Kind nx = MappingNode" by (simp_all add: holds_value_def mapping_def)
    have mc: "mapping r'" unfolding r' by (rule mapping_update [OF m]) (use nx in \<open>simp add: mapping_def\<close>)
    have l: "lookup_pairs (n_Content r') part = Some nx" using Some by (simp add: r' lookup_update)
    show ?thesis using h mc l nx update_same [OF l]
      by (simp add: holds_value_def mapping_value)
  qed
qed simp

text \<open>Paths that neither extend nor are extended by the written one.\<close>

definition unrelated :: "string list \<Rightarrow> string list \<Rightarrow> bool" where
  "unrelated p q \<longleftrightarrow> \<not> prefix p q \<and> \<not> prefix q p"

lemma unrelated_Cons: "unrelated (a # p) (b # q) \<longleftrightarrow> (if a = b then unrelated p q else True)"
  by (simp add: unrelated_def)

lemma unrelated_Nil [simp]: "\<not> unrelated [] q" "\<not> unrelated p []"
  by (simp_all add: unrelated_def)

lemma yamlNodeAt_fresh: "q \<noteq> [] \<Longrightarrow> yamlNodeAt (Some (Node MappingNode t v [])) q = None"
  by (cases q) (simp_all add: yamlMapValue_def)

lemma set_parts_frame:
  assumes "mapping r" and "set_parts field val parts r = Inr (r', ch)" and "unrelated parts q"
  shows "yamlNodeAt (Some r') q = yamlNodeAt (Some r) q"
  using assms
proof (induction field val parts r arbitrary: r' ch q rule: set_parts.induct)
  case (2 field val leaf current)
  from 2(3) obtain key q' where q: "q = key # q'" by (cases q) simp_all
  with 2(3) have ne: "key \<noteq> leaf" by (auto simp: unrelated_Cons split: if_splits)
  have h: "holds_value field val [leaf] r'" using set_parts_holds [OF 2(1) _ 2(2)] by simp
  then have "mapping r'" by (simp add: holds_value_def)
  moreover have "lookup_pairs (n_Content r') key = lookup_pairs (n_Content current) key"
    using 2(1,2) ne
    by (auto simp: mapping_value lookup_extend lookup_update split: option.splits if_splits)
  ultimately show ?case using 2(1) by (simp add: q mapping_value)
next
  case (3 field val part p2 ps current)
  note m = 3(3) and eq = 3(4)
  from 3(5) obtain key q' where q: "q = key # q'" by (cases q) simp_all
  have h: "holds_value field val (part # p2 # ps) r'" by (rule set_parts_holds [OF m _ eq]) simp
  then have mr: "mapping r'" by (simp add: holds_value_def)
  show ?case
  proof (cases "key = part")
    case False
    have "lookup_pairs (n_Content r') key = lookup_pairs (n_Content current) key"
      using m eq False
      by (auto simp: mapping_value lookup_extend lookup_update split: option.splits if_splits sum.splits prod.splits)
    with m mr show ?thesis by (simp add: q mapping_value)
  next
    case True
    with 3(5) q have un: "unrelated (p2 # ps) q'" by (simp add: unrelated_Cons)
    then have q': "q' \<noteq> []" by auto
    show ?thesis
    proof (cases "lookup_pairs (n_Content current) part")
      case None
      with eq m obtain nx where s: "set_parts field val (p2 # ps) (Node MappingNode ''!!map'' '''' []) = Inr (nx, ch)"
        and r': "r' = set_content (n_Content current @ [str_node part, nx]) current"
        by (auto simp: mapping_value split: sum.splits prod.splits)
      have "lookup_pairs (n_Content r') part = Some nx" using m None by (simp add: r' lookup_extend)
      moreover have "yamlNodeAt (Some nx) q' = None"
        using 3(1) [OF _ mapping_fresh s un] m None q' by (simp add: mapping_value yamlNodeAt_fresh)
      ultimately show ?thesis using m mr None True by (simp add: q mapping_value)
    next
      case (Some next_node)
      with eq m have k: "n_Kind next_node = MappingNode"
        by (simp add: mapping_value split: if_splits)
      with eq m Some obtain nx where s: "set_parts field val (p2 # ps) next_node = Inr (nx, ch)"
        and r': "r' = set_content (update_pairs (n_Content current) part nx) current"
        by (auto simp: mapping_value split: sum.splits)
      have mn: "mapping next_node" using mapping_child [OF m Some] k by (simp add: mapping_def)
      have "lookup_pairs (n_Content r') part = Some nx" using Some by (simp add: r' lookup_update)
      moreover have "yamlNodeAt (Some nx) q' = yamlNodeAt (Some next_node) q'"
        using 3(2) [OF _ _ mn s un] m Some k by (simp add: mapping_value)
      ultimately show ?thesis using m mr Some True by (simp add: q mapping_value)
    qed
  qed
qed simp

lemma delete_parts_frame:
  assumes "mapping r" and "delete_parts field parts r = Inr (r', ch)"
  shows "mapping r' \<and> (unrelated parts q \<longrightarrow> yamlNodeAt (Some r') q = yamlNodeAt (Some r) q)"
  using assms
proof (induction field parts r arbitrary: r' ch q rule: delete_parts.induct)
  case (2 field leaf current)
  then show ?case
    by (cases q) (auto simp: mapping_value mapping_delete unrelated_Cons lookup_delete split: if_splits)
next
  case (3 field part p2 ps current)
  note m = 3(2) and eq = 3(3)
  show ?case
  proof (cases "lookup_pairs (n_Content current) part")
    case None
    with eq m show ?thesis by (simp add: mapping_value)
  next
    case (Some next_node)
    with eq m have k: "n_Kind next_node = MappingNode"
      by (simp add: mapping_value split: if_splits)
    with eq m Some obtain nx where s: "delete_parts field (p2 # ps) next_node = Inr (nx, ch)"
      and r': "r' = set_content (update_pairs (n_Content current) part nx) current"
      by (auto simp: mapping_value split: sum.splits)
    have mn: "mapping next_node" using mapping_child [OF m Some] k by (simp add: mapping_def)
    have ih: "mapping nx \<and> (unrelated (p2 # ps) q' \<longrightarrow> yamlNodeAt (Some nx) q' = yamlNodeAt (Some next_node) q')" for q'
      using 3(1) [OF _ _ mn s] m Some k by (simp add: mapping_value)
    then have "paired nx" by (simp add: mapping_def)
    then have mr: "mapping r'" unfolding r' by (rule mapping_update [OF m])
    have l: "lookup_pairs (n_Content r') key = (if key = part then Some nx else lookup_pairs (n_Content current) key)" for key
      using Some by (simp add: r' lookup_update)
    show ?thesis using mr m l ih Some
      by (cases q) (auto simp: mapping_value unrelated_Cons split: if_splits)
  qed
qed simp


section \<open>Deleting a field\<close>

text \<open>Only the first pair of a key is deleted, so the field is gone where keys are unique.\<close>

fun pair_keys :: "yaml_node list \<Rightarrow> string list" where
  "pair_keys (k # v # rest) = n_Value k # pair_keys rest"
| "pair_keys _ = []"

fun unique :: "yaml_node \<Rightarrow> bool" where
  "unique (Node k t v c) = ((k = MappingNode \<longrightarrow> distinct (pair_keys c)) \<and> list_all unique c)"

lemma lookup_None: "lookup_pairs c key = None \<longleftrightarrow> key \<notin> set (pair_keys c)"
  by (induction c rule: pair_keys.induct) auto

lemma pair_keys_update [simp]: "pair_keys (update_pairs c key v) = pair_keys c"
  by (induction c key v rule: update_pairs.induct) auto

lemma pair_keys_append: "even (length c) \<Longrightarrow> pair_keys (c @ [str_node k, v]) = pair_keys c @ [k]"
  by (induction c rule: pair_keys.induct) (auto simp: str_node_def)

lemma lookup_deleted: "distinct (pair_keys c) \<Longrightarrow> lookup_pairs (delete_pairs c key) key = None"
  by (induction c key rule: delete_pairs.induct) (auto simp: lookup_None)

lemma unique_lookup: "list_all unique c \<Longrightarrow> lookup_pairs c key = Some v \<Longrightarrow> unique v"
  by (induction c key rule: lookup_pairs.induct) (auto split: if_splits)

lemma unique_update: "list_all unique c \<Longrightarrow> unique v \<Longrightarrow> list_all unique (update_pairs c key v)"
  by (induction c key v rule: update_pairs.induct) auto

lemma unique_content: "unique n \<Longrightarrow> list_all unique (n_Content n)"
  by (cases n) simp

lemma unique_keys: "mapping n \<Longrightarrow> unique n \<Longrightarrow> distinct (pair_keys (n_Content n))"
  by (cases n) (simp add: mapping_def)

lemma unique_child: "unique n \<Longrightarrow> lookup_pairs (n_Content n) key = Some v \<Longrightarrow> unique v"
  by (rule unique_lookup [OF unique_content])

lemma unique_set_content:
  "unique n \<Longrightarrow> list_all unique c \<Longrightarrow> distinct (pair_keys c) \<Longrightarrow> unique (set_content c n)"
  by (cases n) (simp add: set_content_def)

lemma unique_str [simp]: "unique (str_node v)"
  by (simp add: str_node_def)

lemma unique_updated:
  "mapping n \<Longrightarrow> unique n \<Longrightarrow> unique v \<Longrightarrow> unique (set_content (update_pairs (n_Content n) key v) n)"
  by (rule unique_set_content) (simp_all add: unique_update unique_content unique_keys)

lemma unique_extended:
  assumes "mapping n" "unique n" "unique v" "lookup_pairs (n_Content n) k = None"
  shows "unique (set_content (n_Content n @ [str_node k, v]) n)"
proof (rule unique_set_content)
  have "even (length (n_Content n))" using assms(1) by (simp add: mapping_def paired_even)
  with assms show "distinct (pair_keys (n_Content n @ [str_node k, v]))"
    by (simp add: pair_keys_append unique_keys lookup_None)
qed (use assms in \<open>simp_all add: unique_content\<close>)

lemma set_parts_unique:
  assumes "mapping r" and "unique r" and "set_parts field val parts r = Inr (r', ch)"
  shows "unique r'"
  using assms
proof (induction field val parts r arbitrary: r' ch rule: set_parts.induct)
  case (2 field val leaf current)
  have "lookup_pairs (n_Content current) leaf = Some existing \<Longrightarrow>
      unique (Node ScalarNode str_tag val (n_Content existing))" for existing
    using unique_content [OF unique_child [OF 2(2)]] by simp
  with 2 show ?case
    by (auto simp: mapping_value unique_extended unique_updated split: option.splits if_splits)
next
  case (3 field val part p2 ps current)
  note m = 3(3) and eq = 3(5)
  show ?case
  proof (cases "lookup_pairs (n_Content current) part")
    case None
    with eq m obtain nx where s: "set_parts field val (p2 # ps) (Node MappingNode ''!!map'' '''' []) = Inr (nx, ch)"
      and r': "r' = set_content (n_Content current @ [str_node part, nx]) current"
      by (auto simp: mapping_value split: sum.splits prod.splits)
    have "unique nx" using 3(1) [OF _ mapping_fresh _ s] m None by (simp add: mapping_value)
    then show ?thesis unfolding r' by (rule unique_extended [OF m 3(4) _ None])
  next
    case (Some next_node)
    with eq m have k: "n_Kind next_node = MappingNode"
      by (simp add: mapping_value split: if_splits)
    with eq m Some obtain nx where s: "set_parts field val (p2 # ps) next_node = Inr (nx, ch)"
      and r': "r' = set_content (update_pairs (n_Content current) part nx) current"
      by (auto simp: mapping_value split: sum.splits)
    have mn: "mapping next_node" using mapping_child [OF m Some] k by (simp add: mapping_def)
    have "unique nx" using 3(2) [OF _ _ mn _ s] unique_child [OF 3(4) Some] m Some k by (simp add: mapping_value)
    then show ?thesis unfolding r' by (rule unique_updated [OF m 3(4)])
  qed
qed simp

lemma delete_parts_gone:
  assumes "mapping r" and "unique r" and "parts \<noteq> []" and "delete_parts field parts r = Inr (r', ch)"
  shows "yamlNodeAt (Some r') parts = None"
  using assms
proof (induction field parts r arbitrary: r' ch rule: delete_parts.induct)
  case (2 field leaf current)
  have "lookup_pairs (delete_pairs (n_Content current) leaf) leaf = None"
    by (rule lookup_deleted [OF unique_keys [OF 2(1,2)]])
  with 2 show ?case
    by (auto simp: mapping_value mapping_delete split: if_splits option.splits)
next
  case (3 field part p2 ps current)
  note m = 3(2) and eq = 3(5)
  show ?case
  proof (cases "lookup_pairs (n_Content current) part")
    case None
    with eq m show ?thesis by (auto simp: mapping_value)
  next
    case (Some next_node)
    with eq m have k: "n_Kind next_node = MappingNode"
      by (simp add: mapping_value split: if_splits)
    with eq m Some obtain nx where s: "delete_parts field (p2 # ps) next_node = Inr (nx, ch)"
      and r': "r' = set_content (update_pairs (n_Content current) part nx) current"
      by (auto simp: mapping_value split: sum.splits)
    have mn: "mapping next_node" using mapping_child [OF m Some] k by (simp add: mapping_def)
    have gone: "yamlNodeAt (Some nx) (p2 # ps) = None"
      using 3(1) [OF _ _ mn unique_child [OF 3(3) Some] _ s] m Some k by (simp add: mapping_value)
    have "mapping nx" using delete_parts_frame [OF mn s] by blast
    then have "paired nx" by (simp add: mapping_def)
    then have mr: "mapping r'" unfolding r' by (rule mapping_update [OF m])
    have "lookup_pairs (n_Content r') part = Some nx" using Some by (simp add: r' lookup_update)
    with gone mr show ?thesis by (simp only: yamlNodeAt_mapping option.case)
  qed
qed simp


section \<open>Properties of the field operations\<close>

text \<open>
  a successful \<open>setYAMLField\<close> on a mapping makes the field a string scalar with the given
  value, changes no path that is unrelated to the field, and is idempotent: setting the same value
  again succeeds, reports no change and returns the same tree.
\<close>

theorem setYAMLField_correct:
  assumes "mapping root" and "setYAMLField root field val = Inr (root', changed)"
  shows "mapping root' \<and> setYAMLField root' field val = Inr (root', False)
    \<and> (\<exists>parts n. yamlFieldParts field = Inr parts \<and> yamlNodeAt (Some root') parts = Some n \<and> string_scalar val n
         \<and> (\<forall>q. unrelated parts q \<longrightarrow> yamlNodeAt (Some root') q = yamlNodeAt (Some root) q))"
proof -
  from assms(2) obtain parts where p: "yamlFieldParts field = Inr parts"
    and s: "set_parts field val parts root = Inr (root', changed)"
    by (auto simp: setYAMLField_def split: sum.splits)
  from p have "parts \<noteq> []"
    by (auto simp: yamlFieldParts_def Let_def Split_nonempty split: if_splits)
  with assms(1) s have "holds_value field val parts root'" by (blast intro: set_parts_holds)
  with p set_parts_frame [OF assms(1) s] show ?thesis
    by (auto simp: holds_value_def setYAMLField_def)
qed

text \<open>A values file with an image section.\<close>

definition sample_values :: yaml_node where
  "sample_values = Node MappingNode ''!!map'' ''''
     [str_node ''image'', Node MappingNode ''!!map'' '''' [str_node ''tag'', str_node ''v1''],
      str_node ''replicas'', Node ScalarNode ''!!int'' ''2'' []]"

theorem setYAMLField_correct_witness:
  "\<exists>root'. setYAMLField sample_values ''image.tag'' ''v2'' = Inr (root', True)
     \<and> setYAMLField root' ''image.tag'' ''v2'' = Inr (root', False)
     \<and> yamlNodeAt (Some root') [''replicas''] = yamlNodeAt (Some sample_values) [''replicas'']"
proof -
  have m: "mapping sample_values"
    by (simp add: mapping_def sample_values_def str_node_def)
  have p: "yamlFieldParts ''image.tag'' = Inr [''image'', ''tag'']" by code_simp
  obtain root' where r: "setYAMLField sample_values ''image.tag'' ''v2'' = Inr (root', True)"
    by (simp add: setYAMLField_def p sample_values_def yamlMapValue_def str_node_def)
  have "unrelated [''image'', ''tag''] [''replicas'']" by (simp add: unrelated_def)
  with setYAMLField_correct [OF m r] p r show ?thesis by auto
qed

end
