(* ===== verification/GitOpsProvider.thy ===== *)
theory GitOpsProvider
  imports Yaml ControllerKit
begin

text \<open>
  \<open>internal/gitops/provider.go\<close>: changing the image of a workload in a Git repository. The Git
  client interface, the file system and the YAML codec are arguments (records of functions); the
  path checks, the three update strategies, the Git client that runs the \<open>git\<close> binary and the
  order of the steps of \<open>UpdateImage\<close> are modelled.
\<close>

section \<open>Requests, errors, collaborators\<close>

record UpdateImageRequest =
  uir_RepositoryURL :: string
  uir_Branch :: string
  uir_BaseBranch :: string
  uir_Path :: string
  uir_Strategy :: GitOpsStrategy
  uir_ReleaseName :: string
  uir_Image :: ImageRef
  uir_ValuesFile :: string
  uir_ImageRepositoryField :: string
  uir_ImageTagField :: string
  uir_ImageDigestField :: string
  uir_KustomizationFile :: string
  uir_KustomizeImageName :: string
  uir_RawYAMLFiles :: "string list"
  uir_WorkloadKind :: string
  uir_WorkloadName :: string
  uir_ContainerName :: string

record UpdateImageResult =
  uires_Commit :: string

record helmValuesConfig =
  hv_ValuesFile :: string
  hv_RepositoryField :: string
  hv_TagField :: string
  hv_DigestField :: string

record kustomizeConfig =
  kc_KustomizationFile :: string
  kc_ImageName :: string

record rawYAMLConfig =
  rc_Files :: "string list"
  rc_WorkloadKind :: string
  rc_WorkloadName :: string
  rc_ContainerName :: string

fun operation_string :: "git_operation \<Rightarrow> string" where
  "operation_string OperationClone = ''clone''"
| "operation_string OperationParse = ''parse''"
| "operation_string OperationUpdate = ''update''"
| "operation_string OperationCommit = ''commit''"
| "operation_string OperationPush = ''push''"

text \<open>\<open>&OperationError{Operation: op, Err: err}\<close>: its \<open>Error()\<close> text, and \<open>Unwrap\<close> keeping the chain.\<close>

definition operation_error :: "git_operation \<Rightarrow> go_error \<Rightarrow> go_error" where
  "operation_error oper err = GoError
     ((if oper = OperationParse \<or> oper = OperationUpdate then ''gitops mutation'' else ''git'')
       @ '' '' @ operation_string oper @ '' failed: '' @ err_text err)
     (OperationError oper # err_tags err)"

datatype git_effect =
    GitCloned string string
  | GitCheckedOut string string
  | GitBranchCreated string string string
  | FileWritten string string
  | GitAddedAll string
  | GitCommitted string string
  | GitPushed string string
  | WorkdirRemoved string

type_synonym ('w, 'a) git_io = "('w, git_effect, 'a) io"

record 'w Git =
  git_Clone :: "string \<Rightarrow> string \<Rightarrow> 'w \<Rightarrow> unit result \<times> 'w"
  git_CheckoutBranch :: "string \<Rightarrow> string \<Rightarrow> 'w \<Rightarrow> unit result \<times> 'w"
  git_CreateBranch :: "string \<Rightarrow> string \<Rightarrow> string \<Rightarrow> 'w \<Rightarrow> unit result \<times> 'w"
  git_AddAll :: "string \<Rightarrow> 'w \<Rightarrow> unit result \<times> 'w"
  git_Commit :: "string \<Rightarrow> string \<Rightarrow> 'w \<Rightarrow> unit result \<times> 'w"
  git_Push :: "string \<Rightarrow> string \<Rightarrow> 'w \<Rightarrow> unit result \<times> 'w"
  git_Head :: "string \<Rightarrow> 'w \<Rightarrow> string result \<times> 'w"

text \<open>A value of a YAML document decoded into Go maps.\<close>

datatype yaml_value =
  YString string | YList "yaml_value list" | YMap "string \<Rightarrow> yaml_value option" | YOther string

type_synonym yaml_map = "string \<Rightarrow> yaml_value option"

record 'w gitops_deps =
  god_Git :: "'w Git option"
  god_Exec :: "string \<Rightarrow> string list \<Rightarrow> 'w \<Rightarrow> (string \<times> go_error option) \<times> 'w"
  god_MkdirTemp :: "'w \<Rightarrow> string result \<times> 'w"
  god_RemoveAll :: "string \<Rightarrow> 'w \<Rightarrow> unit \<times> 'w"
  god_ReadFile :: "string \<Rightarrow> 'w \<Rightarrow> string result \<times> 'w"
  god_WriteFile :: "string \<Rightarrow> string \<Rightarrow> 'w \<Rightarrow> unit result \<times> 'w"
  god_IsDir :: "string \<Rightarrow> 'w \<Rightarrow> bool result \<times> 'w"
  god_WalkFiles :: "string \<Rightarrow> 'w \<Rightarrow> string list result \<times> 'w"
  god_Unmarshal :: "string \<Rightarrow> yaml_node result"
  god_Decode :: "string \<Rightarrow> yaml_node list \<times> go_error option"
  god_Encode :: "yaml_node list \<Rightarrow> string result"
  god_UnmarshalMap :: "string \<Rightarrow> yaml_map result"
  god_MarshalMap :: "yaml_map \<Rightarrow> string result"


section \<open>The git binary\<close>

definition isNothingToCommit :: "go_error \<Rightarrow> bool" where
  "isNothingToCommit err \<longleftrightarrow> Contains (err_text err) ''nothing to commit''
     \<or> Contains (err_text err) ''no changes added to commit''"

text \<open>\<open>god_Exec dir args\<close> runs \<open>git\<close> in \<open>dir\<close> and returns its combined output and error.\<close>

definition runGit :: "'w gitops_deps \<Rightarrow> string \<Rightarrow> string \<Rightarrow> string list \<Rightarrow> 'w \<Rightarrow> unit result \<times> 'w" where
  "runGit d dir action args w = (case god_Exec d dir args w of
     ((output, None), w') \<Rightarrow> (Inr (), w')
   | ((output, Some err), w') \<Rightarrow> (Inl (errorf_w (action @ '': '' @ output) err), w'))"

definition exec_CreateBranch ::
  "'w gitops_deps \<Rightarrow> string \<Rightarrow> string \<Rightarrow> string \<Rightarrow> 'w \<Rightarrow> unit result \<times> 'w" where
  "exec_CreateBranch d repositoryDir baseBranch branch w =
     (if baseBranch \<noteq> ''''
      then (case runGit d repositoryDir ''checkout GitOps target branch'' [''checkout'', baseBranch] w of
          (Inl err, w') \<Rightarrow> (Inl err, w')
        | (Inr _, w') \<Rightarrow> runGit d repositoryDir ''create GitOps promotion branch'' [''checkout'', ''-B'', branch] w')
      else runGit d repositoryDir ''create GitOps promotion branch'' [''checkout'', ''-B'', branch] w)"

definition exec_Commit :: "'w gitops_deps \<Rightarrow> string \<Rightarrow> string \<Rightarrow> 'w \<Rightarrow> unit result \<times> 'w" where
  "exec_Commit d repositoryDir message w =
     (case runGit d repositoryDir ''commit GitOps changes''
         [''-c'', ''user.name=cloudivision'', ''-c'', ''user.email=cloudivision@cloudivision.io'',
          ''commit'', ''-m'', message] w of
       (Inl err, w') \<Rightarrow> if isNothingToCommit err then (Inr (), w') else (Inl err, w')
     | (Inr _, w') \<Rightarrow> (Inr (), w'))"

definition ExecGit :: "'w gitops_deps \<Rightarrow> 'w Git" where
  "ExecGit d = \<lparr>
     git_Clone = (\<lambda>url destination. runGit d '''' ''clone repository'' [''clone'', url, destination]),
     git_CheckoutBranch = (\<lambda>dir branch w. if branch = '''' then (Inr (), w)
        else runGit d dir ''checkout branch'' [''checkout'', branch] w),
     git_CreateBranch = exec_CreateBranch d,
     git_AddAll = (\<lambda>dir. runGit d dir ''stage GitOps changes'' [''add'', ''.'']),
     git_Commit = exec_Commit d,
     git_Push = (\<lambda>dir branch. runGit d dir ''push GitOps changes''
        (''push'' # (if branch \<noteq> '''' then [''origin'', branch] else []))),
     git_Head = (\<lambda>dir w. case god_Exec d dir [''rev-parse'', ''HEAD''] w of
        ((output, None), w') \<Rightarrow> (Inr (TrimSpace output), w')
      | ((output, Some err), w') \<Rightarrow> (Inl (errorf_w (''read GitOps HEAD: '' @ output) err), w'))\<rparr>"


section \<open>Paths\<close>

definition isYAML :: "string \<Rightarrow> bool" where
  "isYAML path \<longleftrightarrow> HasSuffix path ''.yaml'' \<or> HasSuffix path ''.yml''"

definition validateConfigFile :: "string \<Rightarrow> string \<Rightarrow> go_error option" where
  "validateConfigFile val field =
     (let cleaned = Clean (TrimSpace val) in
      if cleaned = ''.'' \<or> cleaned = '''' \<or> IsAbs cleaned \<or> cleaned = ''..'' \<or> HasPrefix cleaned ''../''
      then Some (errors_New (field @ '' '' @ quote val @ '' must be a relative file path within gitOps.path''))
      else None)"

definition safeRepoPath :: "string \<Rightarrow> string \<Rightarrow> string result" where
  "safeRepoPath repoDir targetPath =
     (let cleaned = Clean targetPath;
          escape = errors_New (''gitops target path '' @ quote targetPath @ '' escapes repository root'') in
      if IsAbs cleaned \<or> cleaned = ''..'' \<or> HasPrefix cleaned ''../'' then Inl escape
      else let path = FilepathJoin [repoDir, cleaned] in
        (case Rel repoDir path of
          Inl err \<Rightarrow> Inl (errorf_w ''resolve gitops target path'' err)
        | Inr rel \<Rightarrow>
            if rel = ''..'' \<or> HasPrefix rel ''../'' \<or> IsAbs rel then Inl escape else Inr path))"

definition helmValuesPath :: "string \<Rightarrow> string \<Rightarrow> string \<Rightarrow> string result" where
  "helmValuesPath repoDir targetPath valuesFile =
     (let valuesFile = (if valuesFile = '''' then ''values.yaml'' else valuesFile) in
      if targetPath \<noteq> '''' \<and> isYAML targetPath \<and> valuesFile = ''values.yaml''
      then safeRepoPath repoDir targetPath
      else (case validateConfigFile valuesFile ''valuesFile'' of
          Some err \<Rightarrow> Inl err
        | None \<Rightarrow> safeRepoPath repoDir (FilepathJoin [targetPath, valuesFile])))"

definition kustomizationPath :: "string \<Rightarrow> string \<Rightarrow> string \<Rightarrow> string result" where
  "kustomizationPath repoDir targetPath kustomizationFile =
     (let kustomizationFile = (if kustomizationFile = '''' then ''kustomization.yaml'' else kustomizationFile) in
      if targetPath \<noteq> '''' \<and> isYAML targetPath \<and> kustomizationFile = ''kustomization.yaml''
      then safeRepoPath repoDir targetPath
      else (case validateConfigFile kustomizationFile ''kustomizationFile'' of
          Some err \<Rightarrow> Inl err
        | None \<Rightarrow> safeRepoPath repoDir (FilepathJoin [targetPath, kustomizationFile])))"

fun raw_file_paths :: "string \<Rightarrow> string \<Rightarrow> string list \<Rightarrow> string list result" where
  "raw_file_paths repoDir targetPath [] = Inr []"
| "raw_file_paths repoDir targetPath (file # files) =
     (case validateConfigFile file ''rawYaml.files entry'' of
        Some err \<Rightarrow> Inl err
      | None \<Rightarrow> (case safeRepoPath repoDir (FilepathJoin [targetPath, file]) of
          Inl err \<Rightarrow> Inl err
        | Inr path \<Rightarrow> (case raw_file_paths repoDir targetPath files of
            Inl err \<Rightarrow> Inl err | Inr paths \<Rightarrow> Inr (path # paths))))"

definition rawYAMLPaths ::
  "'w gitops_deps \<Rightarrow> string \<Rightarrow> string \<Rightarrow> string list \<Rightarrow> ('w, string list result) git_io" where
  "rawYAMLPaths d repoDir targetPath files =
     (if files \<noteq> [] then State_Monad.return (raw_file_paths repoDir targetPath files)
      else case (if targetPath \<noteq> '''' then safeRepoPath repoDir targetPath else Inr repoDir) of
          Inl err \<Rightarrow> fail err
        | Inr path \<Rightarrow>
            check (wrap ''read raw YAML target'' (query (god_IsDir d path))) (\<lambda>isDir.
            if \<not> isDir then ok [path]
            else check (query (god_WalkFiles d path)) (\<lambda>candidates. ok (filter isYAML candidates))))"


section \<open>Image references\<close>

definition imageString :: "ImageRef \<Rightarrow> string" where
  "imageString img =
     (if img_Digest img \<noteq> '''' then img_Repository img @ ''@'' @ img_Digest img
      else if img_Tag img \<noteq> '''' then img_Repository img @ '':'' @ img_Tag img
      else img_Repository img)"

text \<open>\<open>strings.LastIndex\<close> gives -1 when the separator is absent.\<close>

definition last_index :: "string \<Rightarrow> char \<Rightarrow> int" where
  "last_index s c = (case LastIndexByte s c of None \<Rightarrow> -1 | Some i \<Rightarrow> int i)"

definition imageRepository :: "string \<Rightarrow> string" where
  "imageRepository val =
     (let val = (case IndexByte val (CHR ''@'') of None \<Rightarrow> val | Some i \<Rightarrow> take i val);
          lastSlash = last_index val (CHR ''/'');
          colon = last_index val (CHR '':'') in
      if colon > lastSlash then take (nat colon) val else val)"


section \<open>Helm values\<close>

text \<open>The three fields are set or deleted in turn; the first error ends the update.\<close>

definition update_helm_root :: "yaml_node \<Rightarrow> ImageRef \<Rightarrow> helmValuesConfig \<Rightarrow> (yaml_node \<times> bool) result" where
  "update_helm_root root img config =
     (let repositoryField = defaultString (hv_RepositoryField config) ''image.repository'';
          tagField = defaultString (hv_TagField config) ''image.tag'';
          digestField = defaultString (hv_DigestField config) ''image.digest'' in
      case setYAMLField root repositoryField (img_Repository img) of
        Inl err \<Rightarrow> Inl (operation_error OperationUpdate err)
      | Inr (root, c1) \<Rightarrow> (case setOrDeleteYAMLField root tagField (img_Tag img) of
          Inl err \<Rightarrow> Inl (operation_error OperationUpdate err)
        | Inr (root, c2) \<Rightarrow>
            (case (if img_Digest img \<noteq> '''' then setYAMLField root digestField (img_Digest img)
                   else deleteYAMLField root digestField) of
              Inl err \<Rightarrow> Inl (operation_error OperationUpdate err)
            | Inr (root, c3) \<Rightarrow> Inr (root, c1 \<or> c2 \<or> c3))))"

text \<open>The error of a step becomes an \<open>OperationError\<close> with the given text.\<close>

definition stage :: "git_operation \<Rightarrow> ('w, 'a result) git_io \<Rightarrow> ('w, 'a result) git_io" where
  "stage oper m = do {
     r \<leftarrow> m;
     State_Monad.return (case r of Inl err \<Rightarrow> Inl (operation_error oper err) | Inr a \<Rightarrow> Inr a)
   }"

definition write_file :: "'w gitops_deps \<Rightarrow> string \<Rightarrow> string \<Rightarrow> ('w, unit result) git_io" where
  "write_file d path data = call (FileWritten path data) (god_WriteFile d path data)"

definition updateHelmValuesConfigured ::
  "'w gitops_deps \<Rightarrow> string \<Rightarrow> ImageRef \<Rightarrow> helmValuesConfig \<Rightarrow> ('w, bool result) git_io" where
  "updateHelmValuesConfigured d path img config =
     check (stage OperationParse (wrap (''read Helm values '' @ path) (query (god_ReadFile d path)))) (\<lambda>data.
     case god_Unmarshal d data of
       Inl err \<Rightarrow> fail (operation_error OperationParse (errorf_w (''parse Helm values '' @ path) err))
     | Inr document \<Rightarrow> (case n_Content document of
         [root] \<Rightarrow>
           if n_Kind root \<noteq> MappingNode
           then fail (operation_error OperationParse
                 (errors_New (''parse Helm values '' @ path @ '': document root must be a mapping'')))
           else (case update_helm_root root img config of
               Inl err \<Rightarrow> fail err
             | Inr (root', changed) \<Rightarrow>
                 if \<not> changed then ok False
                 else (case god_Encode d [set_content [root'] document] of
                     Inl err \<Rightarrow> fail (operation_error OperationUpdate (errorf_w (''encode Helm values '' @ path) err))
                   | Inr out \<Rightarrow>
                       check (stage OperationUpdate (wrap (''write Helm values '' @ path) (write_file d path out)))
                         (\<lambda>_. ok True)))
       | _ \<Rightarrow> fail (operation_error OperationParse
             (errors_New (''parse Helm values '' @ path @ '': document root must be a mapping'')))))"


section \<open>Kustomizations\<close>

definition setMapString :: "yaml_map \<Rightarrow> string \<Rightarrow> string \<Rightarrow> yaml_map \<times> bool" where
  "setMapString values key val =
     (if values key = Some (YString val) then (values, False) else (values(key \<mapsto> YString val), True))"

definition deleteMapKey :: "yaml_map \<Rightarrow> string \<Rightarrow> yaml_map \<times> bool" where
  "deleteMapKey values key = (if values key = None then (values, False) else (values(key := None), True))"

definition value_string :: "yaml_value option \<Rightarrow> string" where
  "value_string v = (case v of Some (YString s) \<Rightarrow> s | _ \<Rightarrow> '''')"

definition update_item :: "string \<Rightarrow> ImageRef \<Rightarrow> yaml_map \<Rightarrow> yaml_map \<times> bool" where
  "update_item imageName img item =
     (let (item, c1) = setMapString item ''name'' imageName;
          (item, c2) = setMapString item ''newName'' (img_Repository img) in
      if img_Digest img \<noteq> ''''
      then let (item, c3) = setMapString item ''digest'' (img_Digest img);
               (item, c4) = deleteMapKey item ''newTag'' in (item, c1 \<or> c2 \<or> c3 \<or> c4)
      else let (item, c3) = deleteMapKey item ''digest'';
               (item, c4) = (if img_Tag img \<noteq> '''' then setMapString item ''newTag'' (img_Tag img)
                             else deleteMapKey item ''newTag'') in (item, c1 \<or> c2 \<or> c3 \<or> c4))"

text \<open>The loop over the images: the first entry of the name is updated. \<open>None\<close>: there is none.\<close>

fun update_images :: "string \<Rightarrow> ImageRef \<Rightarrow> yaml_value list \<Rightarrow> (yaml_value list \<times> bool) option" where
  "update_images imageName img [] = None"
| "update_images imageName img (entry # entries) =
     (case entry of
        YMap item \<Rightarrow>
          if value_string (item ''name'') = imageName
          then (case update_item imageName img item of (item, changed) \<Rightarrow> Some (YMap item # entries, changed))
          else map_option (\<lambda>(es, changed). (entry # es, changed)) (update_images imageName img entries)
      | _ \<Rightarrow> map_option (\<lambda>(es, changed). (entry # es, changed)) (update_images imageName img entries))"

definition new_item :: "string \<Rightarrow> ImageRef \<Rightarrow> yaml_map" where
  "new_item imageName img =
     (let item = [''name'' \<mapsto> YString imageName, ''newName'' \<mapsto> YString (img_Repository img)] in
      if img_Digest img \<noteq> '''' then item(''digest'' \<mapsto> YString (img_Digest img))
      else if img_Tag img \<noteq> '''' then item(''newTag'' \<mapsto> YString (img_Tag img)) else item)"

definition update_kustomization_map ::
  "string \<Rightarrow> yaml_map \<Rightarrow> ImageRef \<Rightarrow> string \<Rightarrow> (yaml_map \<times> bool) result" where
  "update_kustomization_map path kustomization img configuredImageName =
     (case kustomization ''images'' of
        Some (YString s) \<Rightarrow> Inl (operation_error OperationUpdate
          (errors_New (''Kustomize images field in '' @ path @ '' must be a list'')))
      | Some (YMap m) \<Rightarrow> Inl (operation_error OperationUpdate
          (errors_New (''Kustomize images field in '' @ path @ '' must be a list'')))
      | Some (YOther s) \<Rightarrow> Inl (operation_error OperationUpdate
          (errors_New (''Kustomize images field in '' @ path @ '' must be a list'')))
      | images \<Rightarrow>
          let images = (case images of Some (YList l) \<Rightarrow> l | _ \<Rightarrow> []);
              imageName = (if configuredImageName = '''' then img_Repository img else configuredImageName) in
          (case update_images imageName img images of
            Some (images, changed) \<Rightarrow>
              Inr (if changed then kustomization(''images'' \<mapsto> YList images) else kustomization, changed)
          | None \<Rightarrow>
              if configuredImageName \<noteq> ''''
              then Inl (operation_error OperationUpdate (errors_New (''Kustomize image '' @ quote configuredImageName
                     @ '' was not found in '' @ path)))
              else Inr (kustomization(''images'' \<mapsto> YList (images @ [YMap (new_item imageName img)])), True)))"

definition updateKustomizationConfigured ::
  "'w gitops_deps \<Rightarrow> string \<Rightarrow> ImageRef \<Rightarrow> string \<Rightarrow> ('w, bool result) git_io" where
  "updateKustomizationConfigured d path img configuredImageName =
     check (stage OperationParse (wrap (''read YAML '' @ path) (query (god_ReadFile d path)))) (\<lambda>data.
     case god_UnmarshalMap d data of
       Inl err \<Rightarrow> fail (operation_error OperationParse (errorf_w (''parse YAML '' @ path) err))
     | Inr kustomization \<Rightarrow> (case update_kustomization_map path kustomization img configuredImageName of
         Inl err \<Rightarrow> fail err
       | Inr (kustomization, changed) \<Rightarrow>
           if \<not> changed then ok False
           else (case god_MarshalMap d kustomization of
               Inl err \<Rightarrow> fail (operation_error OperationUpdate (errorf_w (''marshal YAML '' @ path) err))
             | Inr out \<Rightarrow>
                 check (stage OperationUpdate (wrap (''write YAML '' @ path) (write_file d path out)))
                   (\<lambda>_. ok True))))"


section \<open>Raw workloads\<close>

definition supportedWorkloadKind :: "string \<Rightarrow> bool" where
  "supportedWorkloadKind kind = (kind \<in> {''Deployment'', ''StatefulSet'', ''DaemonSet'', ''CronJob''})"

text \<open>A candidate is the container's name and its image node; the fields are visited in this order.\<close>

type_synonym rawContainer = "string \<times> yaml_node"

definition item_candidate :: "yaml_node \<Rightarrow> rawContainer list" where
  "item_candidate item =
     (if n_Kind item \<noteq> MappingNode then []
      else (case (yamlMapValue (Some item) ''name'', yamlMapValue (Some item) ''image'') of
          (Some name, Some img) \<Rightarrow> if n_Kind img = ScalarNode then [(n_Value name, img)] else []
        | _ \<Rightarrow> []))"

definition field_candidates :: "yaml_node \<Rightarrow> string \<Rightarrow> rawContainer list" where
  "field_candidates podSpec field = (case yamlMapValue (Some podSpec) field of
     None \<Rightarrow> []
   | Some sq \<Rightarrow> if n_Kind sq \<noteq> SequenceNode then [] else concat (map item_candidate (n_Content sq)))"

definition rawContainerCandidates :: "yaml_node \<Rightarrow> rawContainer list" where
  "rawContainerCandidates podSpec = field_candidates podSpec ''containers'' @ field_candidates podSpec ''initContainers''"

text \<open>Which candidates are selected, as a predicate on name and image value.\<close>

definition select_candidate :: "rawYAMLConfig \<Rightarrow> ImageRef \<Rightarrow> rawContainer list \<Rightarrow> rawContainer \<Rightarrow> bool" where
  "select_candidate config img candidates candidate =
     (if rc_ContainerName config \<noteq> '''' then fst candidate = rc_ContainerName config
      else if list_ex (\<lambda>c. imageRepository (n_Value (snd c)) = img_Repository img) candidates
      then imageRepository (n_Value (snd candidate)) = img_Repository img
      else length candidates = 1)"

text \<open>Writing \<open>candidate.Image.Value\<close> and \<open>.Tag\<close> through the pointer, in the item that holds it.\<close>

definition set_image :: "string \<Rightarrow> yaml_node \<Rightarrow> yaml_node" where
  "set_image desired img = (if n_Value img = desired then img
     else Node (n_Kind img) str_tag desired (n_Content img))"

definition update_container :: "(rawContainer \<Rightarrow> bool) \<Rightarrow> string \<Rightarrow> yaml_node \<Rightarrow> yaml_node" where
  "update_container selected desired item = (case item_candidate item of
     [candidate] \<Rightarrow> if selected candidate
       then set_content (update_pairs (n_Content item) ''image'' (set_image desired (snd candidate))) item
       else item
   | _ \<Rightarrow> item)"

definition update_field :: "(rawContainer \<Rightarrow> bool) \<Rightarrow> string \<Rightarrow> string \<Rightarrow> yaml_node \<Rightarrow> yaml_node" where
  "update_field selected desired field podSpec = (case yamlMapValue (Some podSpec) field of
     None \<Rightarrow> podSpec
   | Some sq \<Rightarrow> if n_Kind sq \<noteq> SequenceNode then podSpec
       else set_content (update_pairs (n_Content podSpec) field
              (set_content (map (update_container selected desired) (n_Content sq)) sq)) podSpec)"

definition update_pod_spec :: "(rawContainer \<Rightarrow> bool) \<Rightarrow> string \<Rightarrow> yaml_node \<Rightarrow> yaml_node" where
  "update_pod_spec selected desired podSpec =
     update_field selected desired ''initContainers'' (update_field selected desired ''containers'' podSpec)"

fun update_at :: "string list \<Rightarrow> (yaml_node \<Rightarrow> yaml_node) \<Rightarrow> yaml_node \<Rightarrow> yaml_node" where
  "update_at [] f current = f current"
| "update_at (key # keys) f current = (case yamlMapValue (Some current) key of
     None \<Rightarrow> current
   | Some next_node \<Rightarrow> set_content (update_pairs (n_Content current) key (update_at keys f next_node)) current)"

definition pod_path :: "string \<Rightarrow> string list" where
  "pod_path kind = (if kind = ''CronJob'' then [''spec'', ''jobTemplate'', ''spec'', ''template'', ''spec'']
     else [''spec'', ''template'', ''spec''])"

definition workload_matches :: "yaml_node \<Rightarrow> rawYAMLConfig \<Rightarrow> bool" where
  "workload_matches root config = (case yamlMapValue (Some root) ''kind'' of
     None \<Rightarrow> False
   | Some kindNode \<Rightarrow>
       supportedWorkloadKind (n_Value kindNode)
       \<and> (rc_WorkloadKind config = '''' \<or> n_Value kindNode = rc_WorkloadKind config)
       \<and> (rc_WorkloadName config = '''' \<or>
          (case yamlMapValue (yamlMapValue (Some root) ''metadata'') ''name'' of
             None \<Rightarrow> False | Some nameNode \<Rightarrow> n_Value nameNode = rc_WorkloadName config)))"

text \<open>The result is the new root, whether a container was selected, and whether one was changed.\<close>

definition updateRawWorkloadNode ::
  "yaml_node \<Rightarrow> ImageRef \<Rightarrow> rawYAMLConfig \<Rightarrow> (yaml_node \<times> bool \<times> bool) result" where
  "updateRawWorkloadNode root img config =
     (if \<not> workload_matches root config then Inr (root, False, False)
      else let kind = nodeValue (yamlMapValue (Some root) ''kind'');
               path = pod_path kind;
               missing = errors_New (kind @ '' '' @
                 quote (nodeValue (yamlMapValue (yamlMapValue (Some root) ''metadata'') ''name''))
                 @ '' has no pod template spec'') in
        (case yamlNodeAt (Some root) path of
          None \<Rightarrow> Inl missing
        | Some podSpec \<Rightarrow>
            if n_Kind podSpec \<noteq> MappingNode then Inl missing
            else let candidates = rawContainerCandidates podSpec;
                     selected = select_candidate config img candidates;
                     desired = imageString img in
              if \<not> list_ex selected candidates then Inr (root, False, False)
              else Inr (update_at path (update_pod_spec selected desired) root, True,
                     list_ex (\<lambda>c. selected c \<and> n_Value (snd c) \<noteq> desired) candidates)))"

text \<open>
  The documents of a file, decoded one after the other: an error of the decoder counts only once
  the documents before it have been updated.
\<close>

fun update_documents ::
  "string \<Rightarrow> ImageRef \<Rightarrow> rawYAMLConfig \<Rightarrow> yaml_node list \<Rightarrow> go_error option \<Rightarrow>
   (yaml_node list \<times> bool \<times> bool) result" where
  "update_documents path img config [] None = Inr ([], False, False)"
| "update_documents path img config [] (Some err) =
     Inl (operation_error OperationParse (errorf_w (''parse raw YAML '' @ path) err))"
| "update_documents path img config (document # documents) eof =
     (case n_Content document of
        [] \<Rightarrow> (case update_documents path img config documents eof of
            Inl err \<Rightarrow> Inl err | Inr (ds, m, c) \<Rightarrow> Inr (document # ds, m, c))
      | root # rest \<Rightarrow>
          if n_Kind root \<noteq> MappingNode
          then (case update_documents path img config documents eof of
            Inl err \<Rightarrow> Inl err | Inr (ds, m, c) \<Rightarrow> Inr (document # ds, m, c))
          else (case updateRawWorkloadNode root img config of
              Inl err \<Rightarrow> Inl (operation_error OperationUpdate (errorf_w (''update raw YAML '' @ path) err))
            | Inr (root', m1, c1) \<Rightarrow> (case update_documents path img config documents eof of
                Inl err \<Rightarrow> Inl err
              | Inr (ds, m, c) \<Rightarrow> Inr (set_content (root' # rest) document # ds, m1 \<or> m, c1 \<or> c))))"

definition updateRawYAMLFile ::
  "'w gitops_deps \<Rightarrow> string \<Rightarrow> ImageRef \<Rightarrow> rawYAMLConfig \<Rightarrow> ('w, (bool \<times> bool) result) git_io" where
  "updateRawYAMLFile d path img config =
     check (stage OperationParse (wrap (''read raw YAML '' @ path) (query (god_ReadFile d path)))) (\<lambda>data.
     case god_Decode d data of (documents, eof) \<Rightarrow>
       (case update_documents path img config documents eof of
         Inl err \<Rightarrow> fail err
       | Inr (documents, matched, changed) \<Rightarrow>
           if \<not> changed then ok (matched, False)
           else (case god_Encode d documents of
               Inl err \<Rightarrow> fail (operation_error OperationUpdate (errorf_w (''encode raw YAML '' @ path) err))
             | Inr out \<Rightarrow>
                 check (stage OperationUpdate (wrap (''write raw YAML '' @ path) (write_file d path out)))
                   (\<lambda>_. ok (matched, True)))))"

fun update_raw_files ::
  "'w gitops_deps \<Rightarrow> ImageRef \<Rightarrow> rawYAMLConfig \<Rightarrow> bool \<Rightarrow> bool \<Rightarrow> string list \<Rightarrow> ('w, (bool \<times> bool) result) git_io" where
  "update_raw_files d img config matched changed [] = ok (matched, changed)"
| "update_raw_files d img config matched changed (path # paths) =
     check (updateRawYAMLFile d path img config) (\<lambda>(fileMatched, fileChanged).
       update_raw_files d img config (matched \<or> fileMatched) (changed \<or> fileChanged) paths)"

definition updateRawYAMLConfigured ::
  "'w gitops_deps \<Rightarrow> string \<Rightarrow> string \<Rightarrow> ImageRef \<Rightarrow> rawYAMLConfig \<Rightarrow> ('w, bool result) git_io" where
  "updateRawYAMLConfigured d repoDir targetPath img config =
     check (stage OperationUpdate (rawYAMLPaths d repoDir targetPath (rc_Files config))) (\<lambda>paths.
     check (update_raw_files d img config False False paths) (\<lambda>(matched, changed).
     if \<not> matched
     then fail (operation_error OperationUpdate
            (errors_New (''no matching raw YAML workload/container found under '' @ quote targetPath)))
     else ok changed))"


section \<open>UpdateImage\<close>

definition updateImageFilesConfigured ::
  "'w gitops_deps \<Rightarrow> string \<Rightarrow> string \<Rightarrow> GitOpsStrategy \<Rightarrow> ImageRef \<Rightarrow> helmValuesConfig \<Rightarrow> kustomizeConfig \<Rightarrow>
   rawYAMLConfig \<Rightarrow> ('w, bool result) git_io" where
  "updateImageFilesConfigured d repoDir targetPath strategy img helmConfig kustomizeCfg rawConfig =
     (case strategy of
        GitOpsStrategyHelmValues \<Rightarrow> (case helmValuesPath repoDir targetPath (hv_ValuesFile helmConfig) of
            Inl err \<Rightarrow> fail (operation_error OperationUpdate err)
          | Inr path \<Rightarrow> updateHelmValuesConfigured d path img helmConfig)
      | GitOpsStrategyRawYAML \<Rightarrow> updateRawYAMLConfigured d repoDir targetPath img rawConfig
      | GitOpsStrategyOther s \<Rightarrow> fail (errors_New (''unsupported GitOps strategy '' @ quote s))
      | _ \<Rightarrow> (case kustomizationPath repoDir targetPath (kc_KustomizationFile kustomizeCfg) of
            Inl err \<Rightarrow> fail (operation_error OperationUpdate err)
          | Inr path \<Rightarrow> updateKustomizationConfigured d path img (kc_ImageName kustomizeCfg)))"

definition helm_config :: "UpdateImageRequest \<Rightarrow> helmValuesConfig" where
  "helm_config req = \<lparr>hv_ValuesFile = uir_ValuesFile req, hv_RepositoryField = uir_ImageRepositoryField req,
     hv_TagField = uir_ImageTagField req, hv_DigestField = uir_ImageDigestField req\<rparr>"

definition kustomize_config :: "UpdateImageRequest \<Rightarrow> kustomizeConfig" where
  "kustomize_config req = \<lparr>kc_KustomizationFile = uir_KustomizationFile req, kc_ImageName = uir_KustomizeImageName req\<rparr>"

definition raw_config :: "UpdateImageRequest \<Rightarrow> rawYAMLConfig" where
  "raw_config req = \<lparr>rc_Files = uir_RawYAMLFiles req, rc_WorkloadKind = uir_WorkloadKind req,
     rc_WorkloadName = uir_WorkloadName req, rc_ContainerName = uir_ContainerName req\<rparr>"

text \<open>An error that is an \<open>OperationError\<close> already passes, any other one becomes an update error.\<close>

definition as_operation :: "('w, 'a result) git_io \<Rightarrow> ('w, 'a result) git_io" where
  "as_operation m = do {
     r \<leftarrow> m;
     State_Monad.return (case r of
       Inl err \<Rightarrow> Inl (if first_operation (err_tags err) \<noteq> None then err else operation_error OperationUpdate err)
     | Inr a \<Rightarrow> Inr a)
   }"

text \<open>The part between the clone and the push, in the cloned repository.\<close>

definition publish_change :: "'w gitops_deps \<Rightarrow> 'w Git \<Rightarrow> string \<Rightarrow> UpdateImageRequest \<Rightarrow>
    ('w, UpdateImageResult result) git_io" where
  "publish_change d git repoDir req = (
     let message = ''cloudivision: release '' @ uir_ReleaseName req @ '' image '' @ imageString (uir_Image req) in
     check (stage OperationCommit (call (GitAddedAll repoDir) (git_AddAll git repoDir))) (\<lambda>_.
     check (stage OperationCommit (call (GitCommitted repoDir message) (git_Commit git repoDir message))) (\<lambda>_.
     check (stage OperationCommit (query (git_Head git repoDir))) (\<lambda>commit.
     check (stage OperationPush (call (GitPushed repoDir (uir_Branch req)) (git_Push git repoDir (uir_Branch req)))) (\<lambda>_.
     ok \<lparr>uires_Commit = commit\<rparr>)))))"

definition update_in_workdir :: "'w gitops_deps \<Rightarrow> UpdateImageRequest \<Rightarrow> string \<Rightarrow>
    ('w, UpdateImageResult result) git_io" where
  "update_in_workdir d req workdir = (
     let strategy = (if uir_Strategy req = GitOpsStrategyUnset then GitOpsStrategyKustomizeImage else uir_Strategy req);
         git = (case god_Git d of None \<Rightarrow> ExecGit d | Some g \<Rightarrow> g);
         repoDir = FilepathJoin [workdir, ''repo''] in
     check (stage OperationClone (call (GitCloned (uir_RepositoryURL req) repoDir)
         (git_Clone git (uir_RepositoryURL req) repoDir))) (\<lambda>_.
     check (stage OperationClone
         (if uir_BaseBranch req \<noteq> ''''
          then call (GitBranchCreated repoDir (uir_BaseBranch req) (uir_Branch req))
                 (git_CreateBranch git repoDir (uir_BaseBranch req) (uir_Branch req))
          else call (GitCheckedOut repoDir (uir_Branch req)) (git_CheckoutBranch git repoDir (uir_Branch req)))) (\<lambda>_.
     check (as_operation (updateImageFilesConfigured d repoDir (uir_Path req) strategy (uir_Image req)
         (helm_config req) (kustomize_config req) (raw_config req))) (\<lambda>changed.
     if \<not> changed
     then check (stage OperationCommit (query (git_Head git repoDir))) (\<lambda>commit. ok \<lparr>uires_Commit = commit\<rparr>)
     else publish_change d git repoDir req))))"

definition UpdateImage :: "'w gitops_deps \<Rightarrow> UpdateImageRequest \<Rightarrow> ('w, UpdateImageResult result) git_io" where
  "UpdateImage d req =
     (if uir_RepositoryURL req = '''' then fail (errors_New ''gitops repository URL is required'')
      else if img_Repository (uir_Image req) = '''' then fail (errors_New ''release image repository is required'')
      else check (wrap ''create GitOps workdir'' (query (god_MkdirTemp d))) (\<lambda>workdir. do {
        r \<leftarrow> update_in_workdir d req workdir;
        call (WorkdirRemoved workdir) (god_RemoveAll d workdir);
        State_Monad.return r
      }))"

end
