(* ===== verification/GitOpsStrategies.thy ===== *)
theory GitOpsStrategies
  imports GitOpsProvider
begin

text \<open>
  What the three update strategies of \<open>internal/gitops/provider.go\<close> do to a document: the
  Kustomize image entry, the three Helm fields, and the images of the selected containers of a
  workload, each with what is left untouched.
\<close>

section \<open>Kustomize\<close>

text \<open>What an image entry must say; its other keys are kept.\<close>

definition pinned :: "string \<Rightarrow> ImageRef \<Rightarrow> yaml_map \<Rightarrow> yaml_map" where
  "pinned imageName img old = old(''name'' \<mapsto> YString imageName, ''newName'' \<mapsto> YString (img_Repository img),
     ''digest'' := (if img_Digest img \<noteq> '''' then Some (YString (img_Digest img)) else None),
     ''newTag'' := (if img_Digest img \<noteq> '''' \<or> img_Tag img = '''' then None else Some (YString (img_Tag img))))"

lemma setMapString_update: "setMapString values key val = (values(key \<mapsto> YString val), values key \<noteq> Some (YString val))"
  by (auto simp: setMapString_def fun_upd_idem)

lemma deleteMapKey_update: "deleteMapKey values key = (values(key := None), values key \<noteq> None)"
  by (auto simp: deleteMapKey_def fun_upd_idem)

lemma updates_fix:
  assumes "distinct [a, b, c, d]"
  shows "f(a := u, b := v, c := w, d := x) = f \<longleftrightarrow> f a = u \<and> f b = v \<and> f c = w \<and> f d = x"
  using assms by (auto simp: fun_eq_iff)

lemma update_item_pinned: "update_item imageName img item = (pinned imageName img item, pinned imageName img item \<noteq> item)"
  unfolding pinned_def
  by (subst updates_fix) (simp_all add: update_item_def setMapString_update deleteMapKey_update, auto)

lemma new_item_pinned: "new_item imageName img = pinned imageName img Map.empty"
  by (auto simp: new_item_def pinned_def Let_def fun_eq_iff)

lemma pinned_idem [simp]: "pinned imageName img (pinned imageName img old) = pinned imageName img old"
  by (auto simp: pinned_def fun_eq_iff)

fun named :: "string \<Rightarrow> yaml_value \<Rightarrow> bool" where
  "named imageName (YMap item) = (value_string (item ''name'') = imageName)"
| "named imageName _ = False"

lemma named_pinned [simp]: "named imageName (YMap (pinned imageName img old))"
  by (simp add: pinned_def value_string_def)

lemma update_images_None: "update_images imageName img entries = None \<longleftrightarrow> \<not> list_ex (named imageName) entries"
  by (induction entries) (auto split: yaml_value.splits prod.splits)

lemma update_images_first:
  assumes "\<not> list_ex (named imageName) pre" and "named imageName (YMap old)"
  shows "update_images imageName img (pre @ YMap old # post) =
    Some (pre @ YMap (pinned imageName img old) # post, pinned imageName img old \<noteq> old)"
  using assms by (induction pre) (auto simp: update_item_pinned split: yaml_value.splits)

lemma first_named:
  "list_ex (named imageName) entries \<Longrightarrow>
   \<exists>pre old post. entries = pre @ YMap old # post \<and> \<not> list_ex (named imageName) pre \<and> named imageName (YMap old)"
proof (induction entries)
  case (Cons entry entries)
  show ?case
  proof (cases "named imageName entry")
    case True
    then obtain old where "entry = YMap old" by (cases entry) auto
    with True show ?thesis by (intro exI [of _ "[]"] exI [of _ old] exI [of _ entries]) simp
  next
    case False
    with Cons obtain pre old post where "entries = pre @ YMap old # post"
      "\<not> list_ex (named imageName) pre" "named imageName (YMap old)" by auto
    with False show ?thesis by (intro exI [of _ "entry # pre"] exI [of _ old] exI [of _ post]) simp
  qed
qed simp

text \<open>The list of image entries of a kustomization; no list at all counts as an empty one.\<close>

definition image_entries :: "yaml_map \<Rightarrow> yaml_value list" where
  "image_entries kustomization = (case kustomization ''images'' of Some (YList l) \<Rightarrow> l | _ \<Rightarrow> [])"

text \<open>
  a successful Kustomize update pins one entry, the first one of the image name, or a new one at
  the end when no name was configured and none exists: the entry names the repository and either
  the digest or the tag, and keeps its other keys. The other entries and all other keys of the
  file are unchanged, the file is reported changed exactly if it is, and a second run changes
  nothing.
\<close>

theorem update_kustomization_map_pins:
  assumes "update_kustomization_map path k img configured = Inr (k', changed)"
    and "name = (if configured = '''' then img_Repository img else configured)"
  shows "(\<exists>pre old post. image_entries k' = pre @ YMap (pinned name img old) # post
      \<and> \<not> list_ex (named name) pre
      \<and> (image_entries k = pre @ YMap old # post \<or>
          configured = '''' \<and> image_entries k = pre \<and> post = [] \<and> old = Map.empty))
    \<and> (\<forall>key. key \<noteq> ''images'' \<longrightarrow> k' key = k key)
    \<and> changed = (k' \<noteq> k)
    \<and> update_kustomization_map path k' img configured = Inr (k', False)"
proof -
  define entries where "entries = image_entries k"
  from assms(1) have shape: "k ''images'' = None \<and> entries = [] \<or> k ''images'' = Some (YList entries)"
    by (auto simp: update_kustomization_map_def entries_def image_entries_def split: option.splits yaml_value.splits)
  have step: "update_kustomization_map path m img configured = (case update_images name img l of
       Some (l', c) \<Rightarrow> Inr (if c then m(''images'' \<mapsto> YList l') else m, c)
     | None \<Rightarrow> if configured \<noteq> ''''
         then Inl (operation_error OperationUpdate (errors_New (''Kustomize image '' @ quote configured
                @ '' was not found in '' @ path)))
         else Inr (m(''images'' \<mapsto> YList (l @ [YMap (new_item name img)])), True))"
    if "m ''images'' = None \<and> l = [] \<or> m ''images'' = Some (YList l)" for m l
    using that unfolding update_kustomization_map_def assms(2) Let_def by (auto split: option.split)
  have rerun: "update_kustomization_map path m img configured = Inr (m, False)"
    if "m ''images'' = Some (YList (pre @ YMap (pinned name img old) # post))" "\<not> list_ex (named name) pre"
    for m pre old post
    using update_images_first [OF that(2) named_pinned [of name img old], of img post]       step [of m "pre @ YMap (pinned name img old) # post"] that(1) by simp
  show ?thesis
  proof (cases "list_ex (named name) entries")
    case True
    then obtain pre old post where e: "entries = pre @ YMap old # post"
      "\<not> list_ex (named name) pre" "named name (YMap old)"
      by (blast dest: first_named)
    with shape have k: "k ''images'' = Some (YList (pre @ YMap old # post))" by auto
    have k': "k' = k(''images'' \<mapsto> YList (pre @ YMap (pinned name img old) # post))"
      and c: "changed = (pinned name img old \<noteq> old)"
      using assms(1) k e by (auto simp: step update_images_first fun_upd_idem split: if_splits)
    have "k' = k \<longleftrightarrow> pinned name img old = old"
      unfolding k' by (subst fun_upd_idem_iff) (auto simp: k)
    with c have "changed = (k' \<noteq> k)" by simp
    moreover have "image_entries k' = pre @ YMap (pinned name img old) # post" "image_entries k = pre @ YMap old # post"
      using e entries_def by (simp_all add: k' image_entries_def)
    moreover have "update_kustomization_map path k' img configured = Inr (k', False)"
      by (rule rerun [OF _ e(2)]) (simp add: k')
    ultimately show ?thesis using e(2) k' by (intro conjI exI [of _ pre] exI [of _ old] exI [of _ post]) simp_all
  next
    case False
    then have none: "update_images name img entries = None" by (simp add: update_images_None)
    from step [of k entries] shape assms(1) none
    have c: "configured = ''''" "changed" and k': "k' = k(''images'' \<mapsto> YList (entries @ [YMap (pinned name img Map.empty)]))"
      by (auto simp: new_item_pinned split: if_splits)
    have "k' ''images'' \<noteq> k ''images''" using shape by (auto simp: k')
    then have "k' \<noteq> k" by auto
    moreover have "image_entries k' = entries @ [YMap (pinned name img Map.empty)]"
      by (simp add: k' image_entries_def)
    moreover have "update_kustomization_map path k' img configured = Inr (k', False)"
      by (rule rerun [of _ entries Map.empty "[]"]) (use False in \<open>simp_all add: k'\<close>)
    ultimately show ?thesis using c False k' entries_def
      by (intro conjI exI [of _ entries] exI [of _ Map.empty] exI [of _ "[]"]) simp_all
  qed
qed

definition sample_kustomization :: yaml_map where
  "sample_kustomization = [''images'' \<mapsto> YList [YMap [''name'' \<mapsto> YString ''app'', ''digest'' \<mapsto> YString ''sha256:1'']]]"

theorem update_kustomization_map_pins_witness:
  "\<exists>k'. update_kustomization_map ''k.yaml'' sample_kustomization (ImageRef_zero\<lparr>img_Repository := ''r/app'', img_Tag := ''2''\<rparr>) ''app''
        = Inr (k', True)
     \<and> update_kustomization_map ''k.yaml'' k' (ImageRef_zero\<lparr>img_Repository := ''r/app'', img_Tag := ''2''\<rparr>) ''app''
        = Inr (k', False)"
proof -
  let ?img = "ImageRef_zero\<lparr>img_Repository := ''r/app'', img_Tag := ''2''\<rparr>"
  have "\<exists>k'. update_kustomization_map ''k.yaml'' sample_kustomization ?img ''app'' = Inr (k', True)"
    by (simp add: update_kustomization_map_def sample_kustomization_def value_string_def update_item_def
        setMapString_def deleteMapKey_def ImageRef_zero_def Let_def)
  then show ?thesis
    using update_kustomization_map_pins [OF _ refl, of "''k.yaml''" sample_kustomization ?img "''app''" _ True] by blast
qed

section \<open>Helm values\<close>

lemma delete_pair_keys: "distinct (pair_keys c) \<Longrightarrow> distinct (pair_keys (delete_pairs c key)) \<and>
    set (pair_keys (delete_pairs c key)) \<subseteq> set (pair_keys c)"
  by (induction c key rule: delete_pairs.induct) auto

lemma delete_unique: "list_all unique c \<Longrightarrow> list_all unique (delete_pairs c key)"
  by (induction c key rule: delete_pairs.induct) auto

lemma delete_parts_unique:
  assumes "mapping r" and "unique r" and "delete_parts field parts r = Inr (r', ch)"
  shows "unique r'"
  using assms
proof (induction field parts r arbitrary: r' ch rule: delete_parts.induct)
  case (2 field leaf current)
  have "unique (set_content (delete_pairs (n_Content current) leaf) current)"
    using 2(1,2) by (intro unique_set_content) (simp_all add: delete_unique unique_content unique_keys delete_pair_keys)
  with 2 show ?case by (auto split: if_splits)
next
  case (3 field part p2 ps current)
  note m = 3(2) and eq = 3(4)
  show ?case
  proof (cases "lookup_pairs (n_Content current) part")
    case None
    with eq m 3(3) show ?thesis by (simp add: mapping_value)
  next
    case (Some next_node)
    with eq m have k: "n_Kind next_node = MappingNode"
      by (simp add: mapping_value split: if_splits)
    with eq m Some obtain nx where s: "delete_parts field (p2 # ps) next_node = Inr (nx, ch)"
      and r': "r' = set_content (update_pairs (n_Content current) part nx) current"
      by (auto simp: mapping_value split: sum.splits)
    have mn: "mapping next_node" using mapping_child [OF m Some] k by (simp add: mapping_def)
    have "unique nx" using 3(1) [OF _ _ mn unique_child [OF 3(3) Some] s] m Some k by (simp add: mapping_value)
    then show ?thesis unfolding r' by (rule unique_updated [OF m 3(3)])
  qed
qed simp

text \<open>What the field should be: a string scalar, or absent when the value is empty.\<close>

definition field_is :: "yaml_node \<Rightarrow> string list \<Rightarrow> string \<Rightarrow> bool" where
  "field_is root parts val \<longleftrightarrow> (if val = '''' then yamlNodeAt (Some root) parts = None
     else \<exists>n. yamlNodeAt (Some root) parts = Some n \<and> string_scalar val n)"

definition values_tree :: "yaml_node \<Rightarrow> bool" where
  "values_tree root \<longleftrightarrow> mapping root \<and> unique root"

lemma set_or_delete_field:
  assumes "values_tree r" and "yamlFieldParts field = Inr parts"
    and "setOrDeleteYAMLField r field val = Inr (r', c)"
  shows "values_tree r' \<and> field_is r' parts val
    \<and> (\<forall>q. unrelated parts q \<longrightarrow> yamlNodeAt (Some r') q = yamlNodeAt (Some r) q)"
proof -
  have ne: "parts \<noteq> []"
    using assms(2) by (auto simp: yamlFieldParts_def Let_def Split_nonempty split: if_splits)
  have m: "mapping r" "unique r" using assms(1) by (simp_all add: values_tree_def)
  show ?thesis
  proof (cases "val = ''''")
    case True
    with assms have d: "delete_parts field parts r = Inr (r', c)"
      by (simp add: setOrDeleteYAMLField_def deleteYAMLField_def)
    with True show ?thesis
      using delete_parts_frame [OF m(1) d] delete_parts_gone [OF m ne d] delete_parts_unique [OF m d]
      by (simp add: values_tree_def field_is_def)
  next
    case False
    with assms have s: "set_parts field val parts r = Inr (r', c)"
      by (simp add: setOrDeleteYAMLField_def setYAMLField_def)
    with False show ?thesis
      using set_parts_holds [OF m(1) ne s] set_parts_frame [OF m(1) s] set_parts_unique [OF m s]
      by (auto simp: values_tree_def field_is_def holds_value_def)
  qed
qed

lemma field_is_frame:
  "yamlNodeAt (Some r') parts = yamlNodeAt (Some r) parts \<Longrightarrow> field_is r parts val \<Longrightarrow> field_is r' parts val"
  by (simp add: field_is_def)

lemma unrelated_sym: "unrelated p q \<Longrightarrow> unrelated q p"
  by (auto simp: unrelated_def)

definition repository_field :: "helmValuesConfig \<Rightarrow> string" where
  "repository_field config = defaultString (hv_RepositoryField config) ''image.repository''"

definition tag_field :: "helmValuesConfig \<Rightarrow> string" where
  "tag_field config = defaultString (hv_TagField config) ''image.tag''"

definition digest_field :: "helmValuesConfig \<Rightarrow> string" where
  "digest_field config = defaultString (hv_DigestField config) ''image.digest''"

lemma helm_root_steps:
  assumes "img_Repository img \<noteq> ''''"
  shows "update_helm_root root img config =
    (case setOrDeleteYAMLField root (repository_field config) (img_Repository img) of
       Inl err \<Rightarrow> Inl (operation_error OperationUpdate err)
     | Inr (r1, c1) \<Rightarrow> (case setOrDeleteYAMLField r1 (tag_field config) (img_Tag img) of
         Inl err \<Rightarrow> Inl (operation_error OperationUpdate err)
       | Inr (r2, c2) \<Rightarrow> (case setOrDeleteYAMLField r2 (digest_field config) (img_Digest img) of
           Inl err \<Rightarrow> Inl (operation_error OperationUpdate err)
         | Inr (r3, c3) \<Rightarrow> Inr (r3, c1 \<or> c2 \<or> c3))))"
  using assms
  by (simp add: update_helm_root_def repository_field_def tag_field_def digest_field_def Let_def
      setOrDeleteYAMLField_def [of root] setOrDeleteYAMLField_def [of _ _ "img_Digest img"]
      split: sum.split prod.split)

text \<open>
  a successful Helm update leaves the three configured fields as the image has them: the
  repository, and tag and digest each as a string or, when the image has none, absent. This needs a
  values file without duplicate keys and fields none of which lies inside another. Every other
  path that is not above or below one of the fields is unchanged.
\<close>

theorem update_helm_root_correct:
  assumes "values_tree root" and "img_Repository img \<noteq> ''''"
    and "yamlFieldParts (repository_field config) = Inr p1"
    and "yamlFieldParts (tag_field config) = Inr p2" and "yamlFieldParts (digest_field config) = Inr p3"
    and "unrelated p1 p2" and "unrelated p1 p3" and "unrelated p2 p3"
    and "update_helm_root root img config = Inr (root', changed)"
  shows "values_tree root'
    \<and> field_is root' p1 (img_Repository img) \<and> field_is root' p2 (img_Tag img) \<and> field_is root' p3 (img_Digest img)
    \<and> (\<forall>q. unrelated p1 q \<and> unrelated p2 q \<and> unrelated p3 q \<longrightarrow> yamlNodeAt (Some root') q = yamlNodeAt (Some root) q)"
proof -
  from assms(9) obtain r1 c1 r2 c2 c3 where
      s1: "setOrDeleteYAMLField root (repository_field config) (img_Repository img) = Inr (r1, c1)"
    and s2: "setOrDeleteYAMLField r1 (tag_field config) (img_Tag img) = Inr (r2, c2)"
    and s3: "setOrDeleteYAMLField r2 (digest_field config) (img_Digest img) = Inr (root', c3)"
    unfolding helm_root_steps [OF assms(2)] by (simp split: sum.splits prod.splits)
  note f1 = set_or_delete_field [OF assms(1,3) s1]
  note f2 = set_or_delete_field [OF conjunct1 [OF f1] assms(4) s2]
  note f3 = set_or_delete_field [OF conjunct1 [OF f2] assms(5) s3]
  show ?thesis
    using f1 f2 f3 assms(6-8) [THEN unrelated_sym]
    by (auto intro: field_is_frame)
qed

theorem update_helm_root_correct_witness:
  "\<exists>root'. update_helm_root sample_values (ImageRef_zero\<lparr>img_Repository := ''r/app'', img_Tag := ''v2''\<rparr>)
        \<lparr>hv_ValuesFile = '''', hv_RepositoryField = '''', hv_TagField = '''', hv_DigestField = ''''\<rparr> = Inr (root', True)
     \<and> field_is root' [''image'', ''tag''] ''v2''
     \<and> yamlNodeAt (Some root') [''replicas''] = yamlNodeAt (Some sample_values) [''replicas'']"
proof -
  let ?img = "ImageRef_zero\<lparr>img_Repository := ''r/app'', img_Tag := ''v2''\<rparr>"
  let ?config = "\<lparr>hv_ValuesFile = '''', hv_RepositoryField = '''', hv_TagField = '''', hv_DigestField = ''''\<rparr>"
  have p: "yamlFieldParts ''image.repository'' = Inr [''image'', ''repository'']"
    "yamlFieldParts ''image.tag'' = Inr [''image'', ''tag'']"
    "yamlFieldParts ''image.digest'' = Inr [''image'', ''digest'']" by code_simp+
  have tree: "values_tree sample_values"
    by (simp add: values_tree_def mapping_def sample_values_def str_node_def)
  obtain root' where r: "update_helm_root sample_values ?img ?config = Inr (root', True)"
    by (simp add: update_helm_root_def Let_def defaultString_def setYAMLField_def setOrDeleteYAMLField_def
        deleteYAMLField_def p sample_values_def yamlMapValue_def str_node_def ImageRef_zero_def set_content_def)
  have "img_Repository ?img \<noteq> ''''" by simp
  from update_helm_root_correct [OF tree this _ _ _ _ _ _ r, of "[''image'', ''repository'']" "[''image'', ''tag'']"
      "[''image'', ''digest'']"] p
  have "field_is root' [''image'', ''tag''] ''v2''"
    and frame: "\<forall>q. unrelated [''image'', ''repository''] q \<and> unrelated [''image'', ''tag''] q
      \<and> unrelated [''image'', ''digest''] q \<longrightarrow> yamlNodeAt (Some root') q = yamlNodeAt (Some sample_values) q"
    by (simp_all add: repository_field_def tag_field_def digest_field_def defaultString_def unrelated_def)
  moreover have "yamlNodeAt (Some root') [''replicas''] = yamlNodeAt (Some sample_values) [''replicas'']"
    by (rule frame [rule_format]) (simp add: unrelated_def)
  ultimately show ?thesis using r by blast
qed

section \<open>Raw workloads\<close>

text \<open>What a candidate becomes: name kept, image value replaced if it was selected.\<close>

definition retarget :: "(rawContainer \<Rightarrow> bool) \<Rightarrow> string \<Rightarrow> rawContainer \<Rightarrow> rawContainer" where
  "retarget selected desired c = (if selected c then (fst c, set_image desired (snd c)) else c)"

lemma set_image_kind [simp]: "n_Kind (set_image desired img) = n_Kind img" and
  set_image_value [simp]: "n_Value (set_image desired img) = desired"
  by (simp_all add: set_image_def)

lemma lookup_updated:
  "lookup_pairs c key = Some x \<Longrightarrow>
   lookup_pairs (update_pairs c key v) key' = (if key' = key then Some v else lookup_pairs c key')"
  by (simp add: lookup_update)

lemma item_candidate_update:
  "item_candidate (update_container selected desired item) = map (retarget selected desired) (item_candidate item)"
  by (auto simp: update_container_def item_candidate_def yamlMapValue_def retarget_def lookup_updated
      split: option.split if_splits)

lemma map_value_content:
  "yamlMapValue (Some (set_content c n)) key = (if n_Kind n = MappingNode then lookup_pairs c key else None)"
  by (simp add: yamlMapValue_def)

lemma map_value_updated:
  assumes "yamlMapValue (Some n) key = Some x"
  shows "yamlMapValue (Some (set_content (update_pairs (n_Content n) key v) n)) key' =
    (if key' = key then Some v else yamlMapValue (Some n) key')"
  using assms by (auto simp: yamlMapValue_def lookup_updated split: if_splits)

lemma field_candidates_update:
  "field_candidates (update_field selected desired field podSpec) field' =
     (if field' = field then map (retarget selected desired) (field_candidates podSpec field)
      else field_candidates podSpec field')"
  by (auto simp: update_field_def field_candidates_def map_value_updated item_candidate_update map_concat
      comp_def split: option.split)

lemma pod_candidates_update:
  "rawContainerCandidates (update_pod_spec selected desired podSpec) =
     map (retarget selected desired) (rawContainerCandidates podSpec)"
  by (simp add: rawContainerCandidates_def update_pod_spec_def field_candidates_update)

lemma update_at_node:
  "yamlNodeAt (Some root) path = Some n \<Longrightarrow> yamlNodeAt (Some (update_at path f root)) path = Some (f n)"
  by (induction path f root rule: update_at.induct) (auto simp: map_value_updated split: option.splits)

lemma update_at_frame:
  "yamlNodeAt (Some root) path = Some n \<Longrightarrow> unrelated path q \<Longrightarrow>
   yamlNodeAt (Some (update_at path f root)) q = yamlNodeAt (Some root) q"
proof (induction path f root arbitrary: q rule: update_at.induct)
  case (2 key keys f current)
  then show ?case
    by (cases q) (auto simp: map_value_updated unrelated_Cons split: option.splits if_splits)
qed simp

lemma map_eq_self: "map f xs = xs \<longleftrightarrow> (\<forall>x\<in>set xs. f x = x)"
  by (induction xs) auto

text \<open>The name and image of every container of the workload at \<open>root\<close>, in the order they are visited.\<close>

definition workload_images :: "yaml_node \<Rightarrow> (string \<times> string) list" where
  "workload_images root = (case yamlNodeAt (Some root) (pod_path (nodeValue (yamlMapValue (Some root) ''kind''))) of
     None \<Rightarrow> [] | Some podSpec \<Rightarrow> map (\<lambda>c. (fst c, n_Value (snd c))) (rawContainerCandidates podSpec))"

text \<open>The selection rule, on name and image: the configured container, else the image's repository, else the only one.\<close>

definition selects :: "rawYAMLConfig \<Rightarrow> ImageRef \<Rightarrow> (string \<times> string) list \<Rightarrow> string \<times> string \<Rightarrow> bool" where
  "selects config img all c \<longleftrightarrow>
     (if rc_ContainerName config \<noteq> '''' then fst c = rc_ContainerName config
      else if \<exists>d\<in>set all. imageRepository (snd d) = img_Repository img
      then imageRepository (snd c) = img_Repository img
      else length all = 1)"

lemma select_selects:
  "select_candidate config img cs c = selects config img (map (\<lambda>c. (fst c, n_Value (snd c))) cs) (fst c, n_Value (snd c))"
  by (auto simp: select_candidate_def selects_def list_ex_iff)

text \<open>
  a successful update of a workload changes exactly the images of the selected containers: the
  list of container names is the same, a selected container gets the released image, every other
  one keeps its image, and every path that is not above or below the pod specification is
  unchanged. \<open>matched\<close> and \<open>changed\<close> tell whether a container was selected and whether one had
  another image; if not matched, the document is returned as it is.
\<close>

theorem updateRawWorkloadNode_images:
  assumes "updateRawWorkloadNode root img config = Inr (root', matched, changed)"
  shows "if \<not> matched then root' = root \<and> \<not> changed
    else workload_matches root config
      \<and> workload_images root' = map (\<lambda>c. if selects config img (workload_images root) c
            then (fst c, imageString img) else c) (workload_images root)
      \<and> (\<exists>c\<in>set (workload_images root). selects config img (workload_images root) c)
      \<and> changed = (workload_images root' \<noteq> workload_images root)
      \<and> (\<forall>q. unrelated (pod_path (nodeValue (yamlMapValue (Some root) ''kind''))) q \<longrightarrow>
            yamlNodeAt (Some root') q = yamlNodeAt (Some root) q)"
proof (cases matched)
  case False
  with assms show ?thesis
    by (auto simp: updateRawWorkloadNode_def Let_def split: if_splits option.splits)
next
  case True
  define path where "path = pod_path (nodeValue (yamlMapValue (Some root) ''kind''))"
  from assms True obtain podSpec where w: "workload_matches root config"
    and p: "yamlNodeAt (Some root) path = Some podSpec"
    and sel: "list_ex (select_candidate config img (rawContainerCandidates podSpec)) (rawContainerCandidates podSpec)"
    and root': "root' = update_at path (update_pod_spec
        (select_candidate config img (rawContainerCandidates podSpec)) (imageString img)) root"
    and ch: "changed = list_ex (\<lambda>c. select_candidate config img (rawContainerCandidates podSpec) c
        \<and> n_Value (snd c) \<noteq> imageString img) (rawContainerCandidates podSpec)"
    unfolding path_def
    by (auto simp: updateRawWorkloadNode_def Let_def split: if_splits option.splits)
  have frame: "yamlNodeAt (Some root') q = yamlNodeAt (Some root) q" if "unrelated path q" for q
    unfolding root' by (rule update_at_frame [OF p that])
  have un: "unrelated path [''kind'']"
    by (simp add: path_def pod_path_def unrelated_def)
  have k: "yamlMapValue (Some root') ''kind'' = yamlMapValue (Some root) ''kind''"
    using frame [OF un] by (simp split: option.splits)
  have imgs: "workload_images root = map (\<lambda>c. (fst c, n_Value (snd c))) (rawContainerCandidates podSpec)"
    using p by (simp add: workload_images_def path_def)
  have imgs': "workload_images root' = map (\<lambda>c. (fst c, n_Value (snd c))) (map (retarget
      (select_candidate config img (rawContainerCandidates podSpec)) (imageString img)) (rawContainerCandidates podSpec))"
  proof -
    have "yamlNodeAt (Some root') path = Some (update_pod_spec
        (select_candidate config img (rawContainerCandidates podSpec)) (imageString img) podSpec)"
      unfolding root' by (rule update_at_node [OF p])
    then show ?thesis by (simp add: workload_images_def k path_def [symmetric] pod_candidates_update)
  qed
  have new: "workload_images root' = map (\<lambda>c. if selects config img (workload_images root) c
      then (fst c, imageString img) else c) (workload_images root)"
    unfolding imgs imgs' by (simp add: select_selects retarget_def)
  have "changed = (workload_images root' \<noteq> workload_images root)"
    unfolding new ch map_eq_self unfolding imgs by (force simp: list_ex_iff select_selects)
  moreover have "\<exists>c\<in>set (workload_images root). selects config img (workload_images root) c"
    using sel unfolding imgs by (auto simp: list_ex_iff select_selects)
  ultimately show ?thesis using True w new frame by (simp add: path_def)
qed

text \<open>A deployment with two containers.\<close>

definition sample_container :: "string \<Rightarrow> string \<Rightarrow> yaml_node" where
  "sample_container name img = Node MappingNode ''!!map'' ''''
     [str_node ''name'', str_node name, str_node ''image'', str_node img]"

definition sample_pod :: yaml_node where
  "sample_pod = Node MappingNode ''!!map'' '''' [str_node ''containers'',
     Node SequenceNode ''!!seq'' '''' [sample_container ''app'' ''app:1'', sample_container ''proxy'' ''envoy:7'']]"

definition sample_deployment :: yaml_node where
  "sample_deployment = Node MappingNode ''!!map'' '''' [str_node ''kind'', str_node ''Deployment'',
     str_node ''spec'', Node MappingNode ''!!map'' '''' [str_node ''template'',
       Node MappingNode ''!!map'' '''' [str_node ''spec'', sample_pod]]]"

definition any_workload :: rawYAMLConfig where
  "any_workload = \<lparr>rc_Files = [], rc_WorkloadKind = '''', rc_WorkloadName = '''', rc_ContainerName = ''''\<rparr>"

theorem updateRawWorkloadNode_images_witness:
  "\<exists>root'. updateRawWorkloadNode sample_deployment (ImageRef_zero\<lparr>img_Repository := ''app'', img_Tag := ''2''\<rparr>) any_workload
        = Inr (root', True, True)
     \<and> workload_images sample_deployment = [(''app'', ''app:1''), (''proxy'', ''envoy:7'')]
     \<and> workload_images root' = [(''app'', ''app:2''), (''proxy'', ''envoy:7'')]"
proof -
  let ?img = "ImageRef_zero\<lparr>img_Repository := ''app'', img_Tag := ''2''\<rparr>"
  have r: "imageRepository ''app:1'' = ''app''" "imageRepository ''envoy:7'' = ''envoy''" by code_simp+
  have kind: "yamlMapValue (Some sample_deployment) ''kind'' = Some (str_node ''Deployment'')"
    by (simp add: sample_deployment_def yamlMapValue_def str_node_def)
  have pod: "yamlNodeAt (Some sample_deployment) [''spec'', ''template'', ''spec''] = Some sample_pod"
    by (simp add: sample_deployment_def yamlMapValue_def str_node_def)
  have cs: "rawContainerCandidates sample_pod = [(''app'', str_node ''app:1''), (''proxy'', str_node ''envoy:7'')]"
    by (simp add: rawContainerCandidates_def field_candidates_def item_candidate_def sample_pod_def
        sample_container_def yamlMapValue_def str_node_def)
  have pod_kind: "n_Kind sample_pod = MappingNode" by (simp add: sample_pod_def)
  have w: "workload_images sample_deployment = [(''app'', ''app:1''), (''proxy'', ''envoy:7'')]"
    by (simp add: workload_images_def kind nodeValue_def pod_path_def pod cs str_node_def del: yamlNodeAt.simps)
  obtain root' where u: "updateRawWorkloadNode sample_deployment ?img any_workload = Inr (root', True, True)"
    by (simp add: updateRawWorkloadNode_def workload_matches_def kind nodeValue_def pod_path_def pod cs
        str_node_def any_workload_def supportedWorkloadKind_def select_candidate_def r imageString_def
        ImageRef_zero_def Let_def pod_kind del: yamlNodeAt.simps)
  from updateRawWorkloadNode_images [OF u] u w show ?thesis
    by (simp add: selects_def any_workload_def r imageString_def ImageRef_zero_def)
qed


section \<open>Image references\<close>

lemma IndexByte_append:
  "IndexByte (s @ t) c = (if c \<in> set s then IndexByte s c else map_option (\<lambda>i. length s + i) (IndexByte t c))"
  by (induction s) (cases "IndexByte t c", auto simp: option.map_comp comp_def)

lemma IndexByte_None: "IndexByte s c = None \<longleftrightarrow> c \<notin> set s"
  by (induction s) auto

lemma IndexByte_less: "IndexByte s c = Some i \<Longrightarrow> i < length s"
  by (induction s arbitrary: i) (auto split: if_splits)

lemma last_index_append:
  "last_index (s @ t) c = (if c \<in> set t then int (length s) + last_index t c else last_index s c)"
proof (cases "c \<in> set t")
  case True
  then obtain i where i: "IndexByte (rev t) c = Some i"
    using IndexByte_None [of "rev t" c] by (cases "IndexByte (rev t) c") auto
  with IndexByte_less [OF i] True show ?thesis
    by (simp add: last_index_def LastIndexByte_def IndexByte_append)
next
  case False
  then have "IndexByte (rev t) c = None" by (simp add: IndexByte_None)
  with False show ?thesis
    by (auto simp: last_index_def LastIndexByte_def IndexByte_append option.map_comp comp_def split: option.split)
qed

lemma last_index_bound: "last_index s c < int (length s)"
  by (auto simp: last_index_def LastIndexByte_def split: option.split dest: IndexByte_less)

text \<open>A repository name without tag or digest; it may contain a registry with a port.\<close>

definition plain_repository :: "string \<Rightarrow> bool" where
  "plain_repository r \<longleftrightarrow> CHR ''@'' \<notin> set r \<and> last_index r (CHR '':'') \<le> last_index r (CHR ''/'')"

text \<open>
  the repository is read back from every image reference that \<open>imageString\<close> writes, so that a
  later release finds the container again: for a repository name without tag and digest - a port
  in its registry part is allowed - and a tag without \<open>@\<close>, \<open>:\<close> and \<open>/\<close>, whatever the digest.
\<close>

theorem imageRepository_imageString:
  assumes "plain_repository (img_Repository img)"
    and "\<forall>c\<in>set (img_Tag img). c \<noteq> CHR ''@'' \<and> c \<noteq> CHR '':'' \<and> c \<noteq> CHR ''/''"
  shows "imageRepository (imageString img) = img_Repository img"
proof -
  define r where "r = img_Repository img"
  have r: "CHR ''@'' \<notin> set r" "\<not> last_index r (CHR '':'') > last_index r (CHR ''/'')"
    using assms(1) by (simp_all add: r_def plain_repository_def)
  have plain: "imageRepository r = r"
    using r by (simp add: imageRepository_def Let_def IndexByte_None [THEN iffD2])
  have digest: "imageRepository (r @ ''@'' @ d) = r" for d
    using r by (simp add: imageRepository_def Let_def IndexByte_append)
  have tag: "imageRepository (r @ '':'' @ img_Tag img) = r"
  proof -
    have at: "IndexByte (r @ '':'' @ img_Tag img) (CHR ''@'') = None"
      using r assms(2) by (auto simp: IndexByte_None)
    have tail: "CHR ''/'' \<notin> set ('':'' @ img_Tag img)" "CHR '':'' \<notin> set (img_Tag img)" using assms(2) by auto
    have one: "last_index '':'' (CHR '':'') = 0" by code_simp
    have colon: "last_index (r @ '':'' @ img_Tag img) (CHR '':'') = int (length r)"
      using tail one by (simp only: last_index_append) simp
    have slash: "last_index (r @ '':'' @ img_Tag img) (CHR ''/'') = last_index r (CHR ''/'')"
      using tail by (simp only: last_index_append) simp
    show ?thesis
      unfolding imageRepository_def at Let_def option.case colon slash using last_index_bound [of r] by simp
  qed
  show ?thesis
    unfolding imageString_def r_def [symmetric] using plain digest tag by simp
qed

theorem imageRepository_imageString_witness:
  "imageRepository (imageString (ImageRef_zero\<lparr>img_Repository := ''localhost:5000/team/app'', img_Tag := ''v1.2''\<rparr>))
     = ''localhost:5000/team/app''"
proof -
  have "plain_repository ''localhost:5000/team/app''" by code_simp
  then show ?thesis
    using imageRepository_imageString [of "ImageRef_zero\<lparr>img_Repository := ''localhost:5000/team/app'', img_Tag := ''v1.2''\<rparr>"]
    by simp
qed

end
