(* ===== verification/GitOpsStatus.thy ===== *)
theory GitOpsStatus
  imports GitOpsProvider
begin

text \<open>
  The rest of \<open>internal/gitops\<close>: \<open>pull_request.go\<close> (providers of pull requests), \<open>status.go\<close>,
  \<open>argocd.go\<close> and \<open>flux.go\<close> (reading a deployment's status from the resources of Argo CD and
  Flux). The Kubernetes client and the authenticated pull request API are arguments; an
  unstructured object is a tree of decoded values.
\<close>

section \<open>Pull requests\<close>

record PullRequestRequest =
  prr_RepositoryURL :: string
  prr_ReleaseName :: string
  prr_HeadBranch :: string
  prr_TargetBranch :: string
  prr_Title :: string
  prr_Body :: string
  prr_Reviewers :: "string list"
  prr_Labels :: "string list"

record PullRequestStatusRequest =
  psr_RepositoryURL :: string
  psr_Reference :: string

record PullRequestResult =
  pres_Provider :: string
  pres_URL :: string
  pres_Reference :: string
  pres_HeadBranch :: string
  pres_TargetBranch :: string
  pres_MergeStatus :: string

text \<open>A \<open>*PullRequestResult\<close> may be nil beside a nil error.\<close>

record 'w PullRequestProvider =
  CreateOrUpdatePullRequest :: "PullRequestRequest \<Rightarrow> 'w \<Rightarrow> PullRequestResult option result \<times> 'w"
  ReadPullRequestStatus :: "PullRequestStatusRequest \<Rightarrow> 'w \<Rightarrow> PullRequestResult option result \<times> 'w"

record 'w PullRequestAPI =
  api_CreateOrUpdate :: "string \<Rightarrow> PullRequestRequest \<Rightarrow> 'w \<Rightarrow> PullRequestResult option result \<times> 'w"
  api_ReadStatus :: "string \<Rightarrow> PullRequestStatusRequest \<Rightarrow> 'w \<Rightarrow> PullRequestResult option result \<times> 'w"

text \<open>\<open>fmt.Errorf\<close> with \<open>%w\<close> inside the text keeps the tag of the wrapped error.\<close>

definition not_configured :: "string \<Rightarrow> string \<Rightarrow> go_error" where
  "not_configured prov client = GoError (prov @ '': pull request provider is not configured; configure an authenticated ''
     @ client @ '' API client'') [ErrPullRequestProviderNotConfigured]"

definition GitHubPullRequestProvider :: "'w PullRequestAPI option \<Rightarrow> 'w PullRequestProvider" where
  "GitHubPullRequestProvider api = (case api of
     None \<Rightarrow> \<lparr>CreateOrUpdatePullRequest = (\<lambda>req w. (Inl (not_configured ''github'' ''GitHub''), w)),
              ReadPullRequestStatus = (\<lambda>req w. (Inl (not_configured ''github'' ''GitHub''), w))\<rparr>
   | Some a \<Rightarrow> \<lparr>CreateOrUpdatePullRequest = api_CreateOrUpdate a ''github'',
              ReadPullRequestStatus = api_ReadStatus a ''github''\<rparr>)"

definition GitLabPullRequestProvider :: "'w PullRequestAPI option \<Rightarrow> 'w PullRequestProvider" where
  "GitLabPullRequestProvider api = (case api of
     None \<Rightarrow> \<lparr>CreateOrUpdatePullRequest = (\<lambda>req w. (Inl (not_configured ''gitlab'' ''GitLab''), w)),
              ReadPullRequestStatus = (\<lambda>req w. (Inl (not_configured ''gitlab'' ''GitLab''), w))\<rparr>
   | Some a \<Rightarrow> \<lparr>CreateOrUpdatePullRequest = api_CreateOrUpdate a ''gitlab'',
              ReadPullRequestStatus = api_ReadStatus a ''gitlab''\<rparr>)"

definition UnsupportedPullRequestProvider :: "string \<Rightarrow> 'w PullRequestProvider" where
  "UnsupportedPullRequestProvider repositoryURL =
     (let err = GoError (''repository '' @ quote repositoryURL
            @ '': pull request provider is unsupported; use GitHub or GitLab, or configure a custom provider'')
            [ErrPullRequestProviderUnsupported] in
      \<lparr>CreateOrUpdatePullRequest = (\<lambda>req w. (Inl err, w)), ReadPullRequestStatus = (\<lambda>req w. (Inl err, w))\<rparr>)"

definition PullRequestProviderForRepository :: "string \<Rightarrow> 'w PullRequestProvider" where
  "PullRequestProviderForRepository repositoryURL =
     (let lower = ToLower repositoryURL in
      if Contains lower ''github.com'' then GitHubPullRequestProvider None
      else if Contains lower ''gitlab.com'' then GitLabPullRequestProvider None
      else UnsupportedPullRequestProvider repositoryURL)"


section \<open>Deployment status\<close>

record DeploymentStatusRequest =
  dsr_Provider :: GitOpsProvider
  dsr_ApplicationName :: string
  dsr_Namespace :: string
  dsr_ResourceKind :: string

record DeploymentStatus =
  ds_SyncStatus :: string
  ds_HealthStatus :: string
  ds_OperationPhase :: string
  ds_ObservedRevision :: string
  ds_ObservedAt :: string

type_synonym 'w StatusReader = "DeploymentStatusRequest \<Rightarrow> 'w \<Rightarrow> DeploymentStatus result \<times> 'w"

record GroupVersionKind =
  gvk_Group :: string
  gvk_Version :: string
  gvk_Kind :: string

text \<open>\<open>client.Get\<close> of an unstructured object.\<close>

type_synonym 'w unstructured_client = "GroupVersionKind \<Rightarrow> NamespacedName \<Rightarrow> 'w \<Rightarrow> yaml_map result \<times> 'w"

text \<open>\<open>unstructured.NestedString\<close> and \<open>NestedSlice\<close> with their flag and error ignored, as every caller does.\<close>

fun nested_value :: "yaml_map \<Rightarrow> string list \<Rightarrow> yaml_value option" where
  "nested_value m [] = Some (YMap m)"
| "nested_value m [key] = m key"
| "nested_value m (key # keys) = (case m key of Some (YMap m') \<Rightarrow> nested_value m' keys | _ \<Rightarrow> None)"

definition NestedString :: "yaml_map \<Rightarrow> string list \<Rightarrow> string" where
  "NestedString m keys = value_string (nested_value m keys)"

definition NestedSlice :: "yaml_map \<Rightarrow> string list \<Rightarrow> yaml_value list" where
  "NestedSlice m keys = (case nested_value m keys of Some (YList l) \<Rightarrow> l | _ \<Rightarrow> [])"

definition get_error :: "string \<Rightarrow> go_error \<Rightarrow> go_error" where
  "get_error txt err =
     (if errors_Is err NoMatch then GoError ''gitops provider unavailable'' [ErrProviderUnavailable]
      else if errors_Is err NotFound then GoError ''gitops deployment resource missing'' [ErrDeploymentResourceMissing]
      else errorf_w txt err)"

definition status_unavailable :: go_error where
  "status_unavailable = GoError ''deployment status unavailable'' [ErrDeploymentStatusUnavailable]"

definition argo_status :: "yaml_map \<Rightarrow> DeploymentStatus" where
  "argo_status application = \<lparr>
     ds_SyncStatus = NestedString application [''status'', ''sync'', ''status''],
     ds_HealthStatus = NestedString application [''status'', ''health'', ''status''],
     ds_OperationPhase = NestedString application [''status'', ''operationState'', ''phase''],
     ds_ObservedRevision = NestedString application [''status'', ''sync'', ''revision''],
     ds_ObservedAt = NestedString application [''status'', ''reconciledAt'']\<rparr>"

definition ArgoCDStatusReader :: "'w unstructured_client option \<Rightarrow> 'w StatusReader" where
  "ArgoCDStatusReader client req w =
     (if dsr_Provider req \<noteq> GitOpsProviderArgoCD then (Inl status_unavailable, w)
      else case client of
        None \<Rightarrow> (Inl (errorf_w ''read Argo CD status'' (GoError ''gitops provider unavailable'' [ErrProviderUnavailable])), w)
      | Some get \<Rightarrow>
          if dsr_ApplicationName req = '''' \<or> dsr_Namespace req = ''''
          then (Inl (errors_New ''read Argo CD status: application name and namespace are required''), w)
          else (case get \<lparr>gvk_Group = ''argoproj.io'', gvk_Version = ''v1alpha1'', gvk_Kind = ''Application''\<rparr>
                       \<lparr>key_Namespace = dsr_Namespace req, key_Name = dsr_ApplicationName req\<rparr> w of
              (Inl err, w) \<Rightarrow> (Inl (get_error (''read Argo CD Application '' @ dsr_Namespace req @ ''/''
                    @ dsr_ApplicationName req) err), w)
            | (Inr application, w) \<Rightarrow> (Inr (argo_status application), w)))"

text \<open>The first condition of the type, and one of its string fields.\<close>

definition condition_field :: "yaml_map \<Rightarrow> string \<Rightarrow> string \<Rightarrow> string" where
  "condition_field resource conditionType field =
     (case find (\<lambda>item. case item of YMap c \<Rightarrow> c ''type'' = Some (YString conditionType) | _ \<Rightarrow> False)
            (NestedSlice resource [''status'', ''conditions'']) of
        Some (YMap c) \<Rightarrow> value_string (c field) | _ \<Rightarrow> '''')"

definition conditionStatus :: "yaml_map \<Rightarrow> string \<Rightarrow> string" where
  "conditionStatus resource conditionType = condition_field resource conditionType ''status''"

definition conditionTime :: "yaml_map \<Rightarrow> string \<Rightarrow> string" where
  "conditionTime resource conditionType = condition_field resource conditionType ''lastTransitionTime''"

definition flux_status :: "yaml_map \<Rightarrow> DeploymentStatus" where
  "flux_status resource =
     (let ready = conditionStatus resource ''Ready'';
          applied = NestedString resource [''status'', ''lastAppliedRevision''];
          revision = (if applied = '''' then NestedString resource [''status'', ''lastAttemptedRevision''] else applied);
          (syncStatus, healthStatus) =
            (if ready = ''True'' then (''Synced'', ''Healthy'')
             else if ready = ''False'' then (''OutOfSync'', ''Degraded'')
             else (''Unknown'', ''Unknown'')) in
      \<lparr>ds_SyncStatus = syncStatus, ds_HealthStatus = healthStatus, ds_OperationPhase = '''',
       ds_ObservedRevision = revision, ds_ObservedAt = conditionTime resource ''Ready''\<rparr>)"

definition flux_gvk :: "string \<Rightarrow> GroupVersionKind option" where
  "flux_gvk kind =
     (if ToLower kind = ''kustomization''
      then Some \<lparr>gvk_Group = ''kustomize.toolkit.fluxcd.io'', gvk_Version = ''v1'', gvk_Kind = ''Kustomization''\<rparr>
      else if ToLower kind = ''helmrelease''
      then Some \<lparr>gvk_Group = ''helm.toolkit.fluxcd.io'', gvk_Version = ''v2'', gvk_Kind = ''HelmRelease''\<rparr>
      else None)"

definition FluxStatusReader :: "'w unstructured_client option \<Rightarrow> 'w StatusReader" where
  "FluxStatusReader client req w = (case client of
     None \<Rightarrow> (Inl (errorf_w ''read Flux status'' (GoError ''gitops provider unavailable'' [ErrProviderUnavailable])), w)
   | Some get \<Rightarrow>
       let kind = (if dsr_ResourceKind req = '''' then ''Kustomization'' else dsr_ResourceKind req) in
       (case flux_gvk kind of
          None \<Rightarrow> (Inl (errors_New (''unsupported Flux resource kind '' @ quote kind)), w)
        | Some gvk \<Rightarrow>
            (case get gvk \<lparr>key_Namespace = dsr_Namespace req, key_Name = dsr_ApplicationName req\<rparr> w of
              (Inl err, w) \<Rightarrow> (Inl (get_error (''read Flux '' @ kind @ '' '' @ dsr_Namespace req @ ''/''
                    @ dsr_ApplicationName req) err), w)
            | (Inr resource, w) \<Rightarrow> (Inr (flux_status resource), w))))"

definition ProviderStatusReader :: "'w StatusReader \<Rightarrow> 'w StatusReader \<Rightarrow> 'w StatusReader" where
  "ProviderStatusReader argo flux req w = (case dsr_Provider req of
     GitOpsProviderArgoCD \<Rightarrow> argo req w
   | GitOpsProviderFlux \<Rightarrow> flux req w
   | _ \<Rightarrow> (Inl status_unavailable, w))"


section \<open>What the readers report\<close>

definition healthy :: "DeploymentStatus \<Rightarrow> bool" where
  "healthy status \<longleftrightarrow> ds_SyncStatus status = ''Synced'' \<and> ds_HealthStatus status = ''Healthy''"

lemma flux_healthy: "healthy (flux_status resource) \<longleftrightarrow> conditionStatus resource ''Ready'' = ''True''"
  by (simp add: flux_status_def healthy_def Let_def)

lemma argo_healthy: "healthy (argo_status application) \<longleftrightarrow>
    NestedString application [''status'', ''sync'', ''status''] = ''Synced''
  \<and> NestedString application [''status'', ''health'', ''status''] = ''Healthy''"
  by (simp add: argo_status_def healthy_def)

text \<open>
  the default status reader reports a deployment as synced and healthy only if the cluster
  answered with a resource that says so itself: the Argo CD application whose sync and health
  status do, or the Flux resource whose first \<open>Ready\<close> condition is \<open>True\<close>, read under the
  configured name and namespace. Every other provider is answered without a read.
\<close>

theorem status_reader_healthy:
  assumes "ProviderStatusReader (ArgoCDStatusReader (Some get)) (FluxStatusReader (Some get)) req w = (Inr status, w')"
    and "healthy status"
  shows "\<exists>gvk resource.
      get gvk \<lparr>key_Namespace = dsr_Namespace req, key_Name = dsr_ApplicationName req\<rparr> w = (Inr resource, w')
    \<and> (dsr_Provider req = GitOpsProviderArgoCD \<and> gvk_Kind gvk = ''Application''
         \<and> NestedString resource [''status'', ''sync'', ''status''] = ''Synced''
         \<and> NestedString resource [''status'', ''health'', ''status''] = ''Healthy''
     \<or> dsr_Provider req = GitOpsProviderFlux \<and> gvk_Kind gvk \<in> {''Kustomization'', ''HelmRelease''}
         \<and> conditionStatus resource ''Ready'' = ''True'')"
proof (cases "dsr_Provider req")
  case GitOpsProviderArgoCD
  with assms show ?thesis
    by (auto simp: ProviderStatusReader_def ArgoCDStatusReader_def argo_healthy
        split: if_splits prod.splits sum.splits intro!: exI conjI)
next
  case GitOpsProviderFlux
  with assms show ?thesis
    by (auto simp: ProviderStatusReader_def FluxStatusReader_def Let_def flux_gvk_def flux_healthy
        split: if_splits prod.splits sum.splits intro!: exI conjI)
qed (use assms in \<open>simp_all add: ProviderStatusReader_def\<close>)

definition sample_kustomization_resource :: yaml_map where
  "sample_kustomization_resource = [''status'' \<mapsto> YMap [''conditions'' \<mapsto>
     YList [YMap [''type'' \<mapsto> YString ''Ready'', ''status'' \<mapsto> YString ''True'']]]]"

theorem status_reader_healthy_witness:
  "healthy (flux_status sample_kustomization_resource)
     \<and> conditionStatus sample_kustomization_resource ''Ready'' = ''True''"
proof -
  let ?get = "(\<lambda>gvk key w. (Inr sample_kustomization_resource, w)) :: unit unstructured_client"
  let ?req = "\<lparr>dsr_Provider = GitOpsProviderFlux, dsr_ApplicationName = ''app'', dsr_Namespace = ''ns'',
     dsr_ResourceKind = ''''\<rparr>"
  have k: "flux_gvk ''Kustomization'' = Some \<lparr>gvk_Group = ''kustomize.toolkit.fluxcd.io'', gvk_Version = ''v1'',
      gvk_Kind = ''Kustomization''\<rparr>" by code_simp
  have "ProviderStatusReader (ArgoCDStatusReader (Some ?get)) (FluxStatusReader (Some ?get)) ?req ()
      = (Inr (flux_status sample_kustomization_resource), ())"
    by (simp add: ProviderStatusReader_def FluxStatusReader_def k)
  moreover have "healthy (flux_status sample_kustomization_resource)"
    by (simp add: flux_healthy conditionStatus_def condition_field_def NestedSlice_def
        sample_kustomization_resource_def value_string_def)
  ultimately show ?thesis
    using status_reader_healthy [of ?get ?req "()" "flux_status sample_kustomization_resource" "()"] by auto
qed

end
