(* ===== verification/ReleaseController.thy ===== *)
theory ReleaseController
  imports Policy GitOpsStatus
begin

text \<open>
  \<open>internal/controller/release_controller.go\<close>: one reconciliation of a Release, from the approval
  and policy gates through the change of the GitOps repository to the observation of the
  deployment. The collaborators are the fields of \<open>release_deps\<close>, each a function of a state \<open>'w\<close>
  that stands for the cluster and the outside world; a Go method that mutates its \<open>*Release\<close>
  argument takes and returns it. Metrics and log lines are not modelled.
\<close>

section \<open>Collaborators and effects\<close>

datatype rl_effect =
    ReleaseUpdate Release
  | ReleaseStatusUpdate Release
  | ImageUpdateRequested UpdateImageRequest
  | PullRequestRequested PullRequestRequest
  | ReleaseEvent EventType string string
  | ReleaseNotification NotificationRequest

text \<open>A field of an option type is an interface of the reconciler that may be nil.\<close>

record 'w release_deps =
  rld_GetRelease :: "NamespacedName \<Rightarrow> 'w \<Rightarrow> Release result \<times> 'w"
  rld_GetBuildRun :: "NamespacedName \<Rightarrow> 'w \<Rightarrow> BuildRun result \<times> 'w"
  rld_GetEnvironment :: "NamespacedName \<Rightarrow> 'w \<Rightarrow> Environment result \<times> 'w"
  rld_Update :: "Release \<Rightarrow> 'w \<Rightarrow> Release result \<times> 'w"
  rld_StatusUpdate :: "Release \<Rightarrow> 'w \<Rightarrow> Release result \<times> 'w"
  rld_Retry :: "('w, rl_effect, Release result) io \<Rightarrow> ('w, rl_effect, Release result) io"
  rld_RetryCheckpoint :: "('w, rl_effect, strmap result) io \<Rightarrow> ('w, rl_effect, strmap result) io"
  rld_Now :: "'w \<Rightarrow> gotime \<times> 'w"
  rld_Recorder :: "(EventType \<Rightarrow> string \<Rightarrow> string \<Rightarrow> 'w \<Rightarrow> unit \<times> 'w) option"
  rld_Notifier :: "(NotificationRequest \<Rightarrow> 'w \<Rightarrow> go_error option \<times> 'w) option"
  rld_PolicyEvaluator :: "(gotime \<Rightarrow> ReleasePolicyInput \<Rightarrow> Decision) option"
  rld_GitOpsProvider :: "(UpdateImageRequest \<Rightarrow> 'w \<Rightarrow> UpdateImageResult option result \<times> 'w) option"
  rld_GitOps :: "'w gitops_deps"
  rld_StatusReader :: "'w StatusReader option"
  rld_UnstructuredClient :: "'w unstructured_client"
  rld_PullRequestProvider :: "'w PullRequestProvider option"

type_synonym ('w, 'a) rl_io = "('w, rl_effect, 'a) io"

definition gitCommitCheckpointAnnotation :: string where
  "gitCommitCheckpointAnnotation = ''cloudivision.io/gitops-commit''"

definition externalStateRequeue :: duration where
  "externalStateRequeue = seconds 30"

definition defaultDeploymentTimeout :: duration where
  "defaultDeploymentTimeout = minutes 30"


section \<open>Pure helpers\<close>

fun releasePhaseTerminal :: "ReleasePhase \<Rightarrow> bool" where
  "releasePhaseTerminal phase = (phase \<in> {ReleasePhaseDeployed, ReleasePhaseRolledBack,
     ReleasePhaseFailedValidation, ReleasePhaseFailedApproval, ReleasePhaseFailedGitClone,
     ReleasePhaseFailedGitCommit, ReleasePhaseFailedGitPush, ReleasePhaseFailedProviderStatus,
     ReleasePhaseTimedOut})"

definition releaseRequiresApproval :: "Release \<Rightarrow> Environment option \<Rightarrow> bool" where
  "releaseRequiresApproval release environment \<longleftrightarrow>
     ra_Required (rls_Approval (rel_Spec release))
     \<or> (case environment of None \<Rightarrow> False | Some env \<Rightarrow> es_RequiresApproval (env_Spec env))"

definition releasePromotionMode :: "Release \<Rightarrow> PromotionMode" where
  "releasePromotionMode release =
     (if rls_PromotionMode (rel_Spec release) = PromotionModeUnset then PromotionModeDirectCommit
      else rls_PromotionMode (rel_Spec release))"

definition gitOpsBranches :: "Release \<Rightarrow> BuildRun \<Rightarrow> string \<times> string" where
  "gitOpsBranches release buildRun =
     (if releasePromotionMode release \<noteq> PromotionModePullRequest
      then (bg_Branch (brs_GitOps (br_Spec buildRun)), '''')
      else let target = prq_TargetBranch (rls_PullRequest (rel_Spec release));
               target = (if target = '''' then bg_Branch (brs_GitOps (br_Spec buildRun)) else target);
               target = (if target = '''' then ''main'' else target) in
        (''cloudivision/'' @ meta_Name (rel_Meta release), target))"

definition pullRequestStatus :: "PullRequestResult \<Rightarrow> PullRequestStatus" where
  "pullRequestStatus r = \<lparr>pst_Provider = pres_Provider r, pst_URL = pres_URL r, pst_Reference = pres_Reference r,
     pst_HeadBranch = pres_HeadBranch r, pst_TargetBranch = pres_TargetBranch r, pst_MergeStatus = pres_MergeStatus r\<rparr>"

definition renderPromotionTemplate :: "string \<Rightarrow> string \<Rightarrow> Release \<Rightarrow> string" where
  "renderPromotionTemplate tmpl fallback release =
     (let tmpl = (if tmpl = '''' then fallback else tmpl);
          img = rls_Image (rel_Spec release);
          image = img_Repository img @
            (if img_Digest img \<noteq> '''' then ''@'' @ img_Digest img
             else if img_Tag img \<noteq> '''' then '':'' @ img_Tag img else '''') in
      replacer [(''{{release.name}}'', meta_Name (rel_Meta release)), (''{{image}}'', image)] tmpl)"

definition approvalStatus :: "Release \<Rightarrow> ReleaseApprovalStatus" where
  "approvalStatus release = (let a = rls_Approval (rel_Spec release) in
     \<lparr>ras_ApprovedBy = ra_ApprovedBy a, ras_ApprovedAt = ra_ApprovedAt a,
      ras_RejectedBy = ra_RejectedBy a, ras_RejectedAt = ra_RejectedAt a\<rparr>)"

definition deploymentTimedOut :: "Release \<Rightarrow> gotime \<Rightarrow> bool" where
  "deploymentTimedOut release now = (case rlst_StartedAt (rel_Status release) of
     None \<Rightarrow> False
   | Some started \<Rightarrow>
       let timeout = rls_DeploymentTimeout (rel_Spec release);
           timeout = (if timeout \<le> 0 then defaultDeploymentTimeout else timeout) in
       \<not> now < started + timeout)"

definition gitFailure :: "go_error \<Rightarrow> ReleasePhase \<times> string" where
  "gitFailure err = (case first_operation (err_tags err) of
     Some OperationClone \<Rightarrow> (ReleasePhaseFailedGitClone, ''GitCloneFailed'')
   | Some OperationParse \<Rightarrow> (ReleasePhaseFailedGitCommit, ''GitOpsParseFailed'')
   | Some OperationUpdate \<Rightarrow> (ReleasePhaseFailedGitCommit, ''GitOpsUpdateFailed'')
   | Some OperationPush \<Rightarrow> (ReleasePhaseFailedGitPush, ''GitPushFailed'')
   | _ \<Rightarrow> (ReleasePhaseFailedGitCommit, ''GitCommitFailed''))"

definition hasConditionReason :: "Condition list \<Rightarrow> string \<Rightarrow> string \<Rightarrow> bool" where
  "hasConditionReason conditions conditionType reason \<longleftrightarrow>
     list_ex (\<lambda>c. c_Type c = conditionType \<and> c_Reason c = reason \<and> c_Status c = ConditionTrue) conditions"

definition conditionCurrent :: "Condition list \<Rightarrow> string \<Rightarrow> int \<Rightarrow> bool" where
  "conditionCurrent conditions conditionType generation \<longleftrightarrow>
     list_ex (\<lambda>c. c_Type c = conditionType \<and> c_Status c = ConditionTrue
       \<and> c_ObservedGeneration c = generation) conditions"

abbreviation rl_phase :: "Release \<Rightarrow> ReleasePhase" where
  "rl_phase release \<equiv> rlst_Phase (rel_Status release)"

abbreviation rl_generation :: "Release \<Rightarrow> int" where
  "rl_generation release \<equiv> meta_Generation (rel_Meta release)"

text \<open>\<open>domain.SetCondition\<close> on the release's conditions.\<close>

definition rl_condition :: "gotime \<Rightarrow> Condition \<Rightarrow> Release \<Rightarrow> Release" where
  "rl_condition now c release = release\<lparr>rel_Status := (rel_Status release)\<lparr>
     rlst_Conditions := SetCondition now (rlst_Conditions (rel_Status release)) c\<rparr>\<rparr>"


section \<open>Status writing\<close>

definition rl_event :: "'w release_deps \<Rightarrow> EventType \<Rightarrow> string \<Rightarrow> string \<Rightarrow> ('w, unit) rl_io" where
  "rl_event d eventType reason message = (case rld_Recorder d of
     None \<Rightarrow> State_Monad.return ()
   | Some event \<Rightarrow> call (ReleaseEvent eventType reason message) (event eventType reason message))"

definition updateReleaseStatus :: "'w release_deps \<Rightarrow> Release \<Rightarrow> ('w, Release result) rl_io" where
  "updateReleaseStatus d release =
     wrap ''update Release status''
       (UpdateStatusWithRetry (rld_Retry d) (rld_GetRelease d) (rld_StatusUpdate d) release_ops
          ReleaseStatusUpdate release)"

definition notifyRelease ::
  "'w release_deps \<Rightarrow> Release \<Rightarrow> NotificationEvent \<Rightarrow> string \<Rightarrow> ('w, unit) rl_io" where
  "notifyRelease d release event message = (case rld_Notifier d of
     None \<Rightarrow> State_Monad.return ()
   | Some notify \<Rightarrow> do {
       now \<leftarrow> query (rld_Now d);
       let req = \<lparr>nr_Event = event, nr_Project = rls_ProjectRef (rel_Spec release), nr_Repository = '''',
                  nr_Environment = rls_EnvironmentRef (rel_Spec release),
                  nr_Phase = ReleasePhase_string (rl_phase release),
                  nr_Namespace = meta_Namespace (rel_Meta release), nr_ResourceName = meta_Name (rel_Meta release),
                  nr_Message = message, nr_OccurredAt = now\<rparr>;
       r \<leftarrow> call (ReleaseNotification req) (notify req);
       case r of
         None \<Rightarrow> State_Monad.return ()
       | Some err \<Rightarrow> do {
           now \<leftarrow> query (rld_Now d);
           updateReleaseStatus d (rl_condition now (mk_condition ''NotificationDelivered'' ConditionFalse
               (rl_generation release) ''ProviderDeliveryFailed''
               ''Notification delivery failed; release reconciliation was not affected.'' now) release);
           State_Monad.return ()
         }
     })"

definition markAwaitingApproval :: "'w release_deps \<Rightarrow> Release \<Rightarrow> ('w, unit result) rl_io" where
  "markAwaitingApproval d release =
     (if rl_phase release = ReleasePhaseAwaitingApproval
         \<and> rlst_ObservedGeneration (rel_Status release) = rl_generation release
         \<and> conditionCurrent (rlst_Conditions (rel_Status release)) ''AwaitingApproval'' (rl_generation release)
      then ok ()
      else do {
        now \<leftarrow> query (rld_Now d);
        let release = release\<lparr>rel_Status := (rel_Status release)\<lparr>rlst_Phase := ReleasePhaseAwaitingApproval,
              rlst_ObservedGeneration := rl_generation release, rlst_Approval := approvalStatus release\<rparr>\<rparr>;
        let release = rl_condition now (mk_condition ''AwaitingApproval'' ConditionTrue (rl_generation release)
              ''ApprovalRequired'' ''Release requires approval before updating the GitOps repository.'' now) release;
        check (updateReleaseStatus d release) (\<lambda>release. do {
          notifyRelease d release NotifyReleaseAwaitingApproval ''Release is awaiting approval.'';
          ok ()
        })
      })"

definition markPolicyDenied :: "'w release_deps \<Rightarrow> Release \<Rightarrow> Decision \<Rightarrow> ('w, unit result) rl_io" where
  "markPolicyDenied d release dec = do {
     now \<leftarrow> query (rld_Now d);
     let release = release\<lparr>rel_Status := (rel_Status release)\<lparr>rlst_Phase := ReleasePhaseFailedValidation,
           rlst_ObservedGeneration := rl_generation release, rlst_CompletedAt := Some now,
           rlst_Failure := \<lparr>fail_Reason = dec_Reason dec, fail_Message = dec_Message dec\<rparr>\<rparr>\<rparr>;
     let release = rl_condition now (mk_condition ''PolicyDenied'' ConditionTrue (rl_generation release)
           (dec_Reason dec) (dec_Message dec) now) release;
     rl_event d EventTypeWarning ''PolicyDenied'' (dec_Message dec);
     check (updateReleaseStatus d release) (\<lambda>release. do {
       notifyRelease d release NotifyPolicyDenied (dec_Message dec);
       ok ()
     })
   }"

definition markPreparingGitOpsChange :: "'w release_deps \<Rightarrow> Release \<Rightarrow> ('w, Release result) rl_io" where
  "markPreparingGitOpsChange d release =
     (if rl_phase release = ReleasePhasePreparingGitOpsChange
         \<and> rlst_ObservedGeneration (rel_Status release) = rl_generation release
         \<and> conditionCurrent (rlst_Conditions (rel_Status release)) ''GitOpsPrepared'' (rl_generation release)
      then ok release
      else do {
        now \<leftarrow> query (rld_Now d);
        let release = release\<lparr>rel_Status := (rel_Status release)\<lparr>rlst_Phase := ReleasePhasePreparingGitOpsChange,
              rlst_ObservedGeneration := rl_generation release,
              rlst_StartedAt := (case rlst_StartedAt (rel_Status release) of None \<Rightarrow> Some now | Some t \<Rightarrow> Some t)\<rparr>\<rparr>;
        let release = rl_condition now (mk_condition ''GitOpsPrepared'' ConditionTrue (rl_generation release)
              ''ConfigurationValidated'' ''Release image, environment, and GitOps configuration are valid.'' now) release;
        updateReleaseStatus d release
      })"

definition markGitOpsChangeCommitted :: "'w release_deps \<Rightarrow> Release \<Rightarrow> ('w, Release result) rl_io" where
  "markGitOpsChangeCommitted d release = do {
     now \<leftarrow> query (rld_Now d);
     let release = release\<lparr>rel_Status := (rel_Status release)\<lparr>rlst_Phase := ReleasePhaseGitOpsChangeCommitted,
           rlst_ObservedGeneration := rl_generation release\<rparr>\<rparr>;
     let release = rl_condition now (mk_condition ''GitOpsChangeCommitted'' ConditionTrue (rl_generation release)
           ''GitCommitPushed'' ''GitOps change was committed and pushed.'' now) release;
     updateReleaseStatus d release
   }"

definition markWaitingForSync :: "'w release_deps \<Rightarrow> Release \<Rightarrow> ('w, Release result) rl_io" where
  "markWaitingForSync d release =
     (if rl_phase release = ReleasePhaseWaitingForSync then ok release
      else do {
        now \<leftarrow> query (rld_Now d);
        let release = release\<lparr>rel_Status := (rel_Status release)\<lparr>rlst_Phase := ReleasePhaseWaitingForSync,
              rlst_ObservedGeneration := rl_generation release\<rparr>\<rparr>;
        let release = rl_condition now (mk_condition ''DeploymentReady'' ConditionFalse (rl_generation release)
              ''WaitingForProviderSync'' ''GitOps change is waiting for provider sync and health confirmation.'' now) release;
        updateReleaseStatus d release
      })"

definition markDeployed :: "'w release_deps \<Rightarrow> Release \<Rightarrow> string \<Rightarrow> string \<Rightarrow> ('w, unit result) rl_io" where
  "markDeployed d release reason message = do {
     now \<leftarrow> query (rld_Now d);
     let release = release\<lparr>rel_Status := (rel_Status release)\<lparr>
           rlst_Phase := (if rls_RollbackOf (rel_Spec release) \<noteq> '''' then ReleasePhaseRolledBack else ReleasePhaseDeployed),
           rlst_CompletedAt := Some now, rlst_ObservedGeneration := rl_generation release\<rparr>\<rparr>;
     let release = rl_condition now (mk_condition ConditionReady ConditionTrue (rl_generation release)
           reason message now) release;
     check (updateReleaseStatus d release) (\<lambda>release. do {
       notifyRelease d release NotifyReleaseDeployed message;
       ok ()
     })
   }"

definition markFailed :: "'w release_deps \<Rightarrow> Release \<Rightarrow> ReleasePhase \<Rightarrow> string \<Rightarrow> string \<Rightarrow> ('w, unit result) rl_io" where
  "markFailed d release phase reason message =
     (if rl_phase release = phase
         \<and> rlst_ObservedGeneration (rel_Status release) = rl_generation release
         \<and> hasConditionReason (rlst_Conditions (rel_Status release)) ConditionFailed reason
      then ok ()
      else do {
        now \<leftarrow> query (rld_Now d);
        let release = release\<lparr>rel_Status := (rel_Status release)\<lparr>rlst_Phase := phase,
              rlst_ObservedGeneration := rl_generation release, rlst_CompletedAt := Some now,
              rlst_Failure := \<lparr>fail_Reason = reason, fail_Message = message\<rparr>\<rparr>\<rparr>;
        let release = rl_condition now (mk_condition ConditionFailed ConditionTrue (rl_generation release)
              reason message now) release;
        rl_event d EventTypeWarning reason message;
        check (updateReleaseStatus d release) (\<lambda>release. do {
          notifyRelease d release NotifyReleaseFailed message;
          ok ()
        })
      })"

section \<open>The steps of a reconciliation\<close>

definition rl_key :: "Release \<Rightarrow> string \<Rightarrow> NamespacedName" where
  "rl_key release name = \<lparr>key_Namespace = meta_Namespace (rel_Meta release), key_Name = name\<rparr>"

definition loadBuildRun :: "'w release_deps \<Rightarrow> Release \<Rightarrow> ('w, BuildRun result) rl_io" where
  "loadBuildRun d release =
     check (wrap (''load BuildRun '' @ quote (rls_BuildRunRef (rel_Spec release)))
              (query (rld_GetBuildRun d (rl_key release (rls_BuildRunRef (rel_Spec release)))))) (\<lambda>buildRun.
     if \<not> bg_Enabled (brs_GitOps (br_Spec buildRun)) then fail (errors_New ''BuildRun GitOps is not enabled'')
     else if bg_RepoURL (brs_GitOps (br_Spec buildRun)) = ''''
     then fail (errors_New ''BuildRun GitOps repository URL is required'')
     else ok buildRun)"

definition loadEnvironment :: "'w release_deps \<Rightarrow> Release \<Rightarrow> ('w, Environment result) rl_io" where
  "loadEnvironment d release =
     wrap (''load Environment '' @ quote (rls_EnvironmentRef (rel_Spec release)))
       (query (rld_GetEnvironment d (rl_key release (rls_EnvironmentRef (rel_Spec release)))))"

definition pullRequestProvider :: "'w release_deps \<Rightarrow> string \<Rightarrow> 'w PullRequestProvider" where
  "pullRequestProvider d repositoryURL = (case rld_PullRequestProvider d of
     Some p \<Rightarrow> p | None \<Rightarrow> PullRequestProviderForRepository repositoryURL)"

definition pull_request_for :: "Release \<Rightarrow> BuildRun \<Rightarrow> PullRequestRequest" where
  "pull_request_for release buildRun =
     (let (head, target) = gitOpsBranches release buildRun; pr = rls_PullRequest (rel_Spec release) in
      \<lparr>prr_RepositoryURL = bg_RepoURL (brs_GitOps (br_Spec buildRun)),
       prr_ReleaseName = meta_Name (rel_Meta release), prr_HeadBranch = head, prr_TargetBranch = target,
       prr_Title = renderPromotionTemplate (prq_TitleTemplate pr) ''cloudivision: promote {{release.name}}'' release,
       prr_Body = renderPromotionTemplate (prq_BodyTemplate pr)
         ''Promotes {{image}} for Release {{release.name}}.'' release,
       prr_Reviewers = prq_Reviewers pr, prr_Labels = prq_Labels pr\<rparr>)"

definition set_pull_request :: "PullRequestResult \<Rightarrow> Release \<Rightarrow> Release" where
  "set_pull_request r release = release\<lparr>rel_Status := (rel_Status release)\<lparr>rlst_PullRequest := pullRequestStatus r\<rparr>\<rparr>"

definition ensurePullRequest :: "'w release_deps \<Rightarrow> Release \<Rightarrow> BuildRun \<Rightarrow> ('w, Release result) rl_io" where
  "ensurePullRequest d release buildRun = (
     let prov = pullRequestProvider d (bg_RepoURL (brs_GitOps (br_Spec buildRun)));
         req = pull_request_for release buildRun in
     check (call (PullRequestRequested req) (CreateOrUpdatePullRequest prov req)) (\<lambda>result.
     case result of
       None \<Rightarrow> fail (errors_New ''pull request provider returned an empty reference'')
     | Some r \<Rightarrow>
         if pres_Reference r = '''' then fail (errors_New ''pull request provider returned an empty reference'')
         else updateReleaseStatus d (set_pull_request r release)))"

text \<open>The release and the flags \<open>ready\<close> and \<open>closed\<close>.\<close>

definition syncPullRequestStatus ::
  "'w release_deps \<Rightarrow> Release \<Rightarrow> BuildRun \<Rightarrow> ('w, (Release \<times> bool \<times> bool) result) rl_io" where
  "syncPullRequestStatus d release buildRun =
     check (if pst_Reference (rlst_PullRequest (rel_Status release)) = ''''
            then ensurePullRequest d release buildRun else ok release) (\<lambda>release.
     check (query (ReadPullRequestStatus (pullRequestProvider d (bg_RepoURL (brs_GitOps (br_Spec buildRun))))
              \<lparr>psr_RepositoryURL = bg_RepoURL (brs_GitOps (br_Spec buildRun)),
               psr_Reference = pst_Reference (rlst_PullRequest (rel_Status release))\<rparr>)) (\<lambda>result.
     case result of
       None \<Rightarrow> fail (errors_New ''pull request provider returned an empty status'')
     | Some r \<Rightarrow>
         check (updateReleaseStatus d (set_pull_request r release)) (\<lambda>release.
           ok (release, ToLower (pres_MergeStatus r) = ''merged'', ToLower (pres_MergeStatus r) = ''closed''))))"

definition persistGitCommitCheckpoint :: "'w release_deps \<Rightarrow> Release \<Rightarrow> string \<Rightarrow> ('w, Release result) rl_io" where
  "persistGitCommitCheckpoint d release commit = (
     let key = object_key (rel_Meta release) in
     check (rld_RetryCheckpoint d (
       check (query (rld_GetRelease d key)) (\<lambda>latest.
       let annotations = meta_Annotations (rel_Meta latest);
           existing = map_index annotations gitCommitCheckpointAnnotation in
       if existing \<noteq> ''''
       then (if existing \<noteq> commit
             then fail (errors_New (''Release '' @ key_String key @ '' GitOps commit checkpoint is '' @ quote existing
                    @ '', refusing to replace it with '' @ quote commit))
             else ok annotations)
       else (let annotations = annotations(gitCommitCheckpointAnnotation \<mapsto> commit);
                 latest = latest\<lparr>rel_Meta := (rel_Meta latest)\<lparr>meta_Annotations := annotations\<rparr>\<rparr> in
         check (wrap ''persist GitOps commit checkpoint'' (call (ReleaseUpdate latest) (rld_Update d latest))) (\<lambda>_.
         ok annotations))))) (\<lambda>annotations.
     ok (release\<lparr>rel_Meta := (rel_Meta release)\<lparr>meta_Annotations := annotations\<rparr>\<rparr>)))"

text \<open>\<open>return ctrl.Result{}, m\<close>\<close>

definition rl_finish :: "('w, 'a result) rl_io \<Rightarrow> ('w, ReconcileResult result) rl_io" where
  "rl_finish m = check m (\<lambda>a. ok Result_zero)"

definition after_external :: ReconcileResult where
  "after_external = \<lparr>Requeue = False, RequeueAfter = externalStateRequeue\<rparr>"

text \<open>
  The answer to a failed status read: the type, reason and message of the condition, the later
  test overriding the earlier one.
\<close>

definition provider_condition :: "go_error \<Rightarrow> string \<times> string \<times> string" where
  "provider_condition err =
     (if errors_Is err ErrDeploymentResourceMissing
      then (''DeploymentResourceMissing'', ''ResourceNotFound'', ''Configured GitOps deployment resource was not found.'')
      else if errors_Is err ErrProviderUnavailable
      then (''ProviderUnavailable'', ''ProviderCRDMissing'', ''GitOps provider CRD is not installed or discoverable.'')
      else (''ProviderStatusUnavailable'', ''ApplicationUnavailable'',
        ''GitOps provider status is not available; keeping release in WaitingForSync phase.''))"

definition status_reader :: "'w release_deps \<Rightarrow> 'w StatusReader" where
  "status_reader d = (case rld_StatusReader d of
     Some r \<Rightarrow> r
   | None \<Rightarrow> ProviderStatusReader (ArgoCDStatusReader (Some (rld_UnstructuredClient d)))
              (FluxStatusReader (Some (rld_UnstructuredClient d))))"

definition deployment_request :: "Environment \<Rightarrow> DeploymentStatusRequest" where
  "deployment_request environment = (let g = es_GitOps (env_Spec environment) in
     \<lparr>dsr_Provider = eg_Provider g, dsr_ApplicationName = eg_ApplicationName g,
      dsr_Namespace = eg_Namespace g, dsr_ResourceKind = eg_ResourceKind g\<rparr>)"

definition observed :: "Environment \<Rightarrow> DeploymentStatus \<Rightarrow> Release \<Rightarrow> Release" where
  "observed environment status release = release\<lparr>rel_Status := (rel_Status release)\<lparr>rlst_Deployment :=
     \<lparr>rd_Provider = GitOpsProvider_string (eg_Provider (es_GitOps (env_Spec environment))),
      rd_ApplicationName = eg_ApplicationName (es_GitOps (env_Spec environment)),
      rd_SyncStatus = ds_SyncStatus status, rd_HealthStatus = ds_HealthStatus status,
      rd_OperationPhase = ds_OperationPhase status, rd_ObservedRevision = ds_ObservedRevision status,
      rd_ObservedAt = ds_ObservedAt status\<rparr>\<rparr>\<rparr>"

definition keep_waiting :: "'w release_deps \<Rightarrow> Release \<Rightarrow> ('w, ReconcileResult result) rl_io" where
  "keep_waiting d release = check (updateReleaseStatus d release) (\<lambda>_. ok after_external)"

definition syncProviderStatus ::
  "'w release_deps \<Rightarrow> Release \<Rightarrow> Environment \<Rightarrow> ('w, ReconcileResult result) rl_io" where
  "syncProviderStatus d release environment = do {
     r \<leftarrow> query (status_reader d (deployment_request environment));
     case r of
       Inl err \<Rightarrow> (case provider_condition err of (conditionType, reason, message) \<Rightarrow>
           if errors_Is err ErrDeploymentStatusUnavailable
           then do {
             now \<leftarrow> query (rld_Now d);
             keep_waiting d (rl_condition now (mk_condition conditionType ConditionTrue
                 (rl_generation release) reason message 0) release)
           }
           else if errors_Is err ErrProviderUnavailable \<or> errors_Is err ErrDeploymentResourceMissing
           then do {
             now \<leftarrow> query (rld_Now d);
             keep_waiting d (rl_condition now (mk_condition conditionType ConditionTrue
                 (rl_generation release) reason message now) release)
           }
           else rl_finish (markFailed d release ReleasePhaseFailedProviderStatus ''ProviderStatusFailed'' (err_text err)))
     | Inr status \<Rightarrow> (
         let release = observed environment status release in
         if ds_SyncStatus status = ''Synced'' \<and> ds_HealthStatus status = ''Healthy''
         then rl_finish (markDeployed d release ''ApplicationHealthy'' ''GitOps application is synced and healthy.'')
         else if EqualFold (ds_HealthStatus status) ''Degraded''
         then (if ep_FailOnDegraded (es_Policy (env_Spec environment))
               then rl_finish (markFailed d release ReleasePhaseFailedProviderStatus ''DeploymentDegraded''
                      ''GitOps provider reports a degraded deployment.'')
               else do {
                 now \<leftarrow> query (rld_Now d);
                 keep_waiting d (rl_condition now (mk_condition ''DeploymentDegraded'' ConditionTrue
                     (rl_generation release) ''ProviderHealthDegraded''
                     ''GitOps provider reports a degraded deployment; policy allows continued observation.'' now) release)
               })
         else keep_waiting d release)
   }"


section \<open>Reconcile\<close>

text \<open>\<open>gitops.GitRepositoryProvider{}\<close>, which has no Git client of its own.\<close>

definition default_UpdateImage :: "'w gitops_deps \<Rightarrow> UpdateImageRequest \<Rightarrow> 'w \<Rightarrow> UpdateImageResult option result \<times> 'w" where
  "default_UpdateImage g req w = (case run_state (UpdateImage (g\<lparr>god_Git := None\<rparr>) req) (start w) of
     (r, s) \<Rightarrow> (map_sum (\<lambda>e. e) Some r, ext s))"

definition gitops_update :: "'w release_deps \<Rightarrow> UpdateImageRequest \<Rightarrow> 'w \<Rightarrow> UpdateImageResult option result \<times> 'w" where
  "gitops_update d = (case rld_GitOpsProvider d of Some f \<Rightarrow> f | None \<Rightarrow> default_UpdateImage (rld_GitOps d))"

definition update_request :: "Release \<Rightarrow> BuildRun \<Rightarrow> UpdateImageRequest" where
  "update_request release buildRun =
     (let g = brs_GitOps (br_Spec buildRun); (branch, baseBranch) = gitOpsBranches release buildRun in
      \<lparr>uir_RepositoryURL = bg_RepoURL g, uir_Branch = branch, uir_BaseBranch = baseBranch, uir_Path = bg_Path g,
       uir_Strategy = bg_Strategy g, uir_ReleaseName = meta_Name (rel_Meta release),
       uir_Image = rls_Image (rel_Spec release), uir_ValuesFile = bg_ValuesFile g,
       uir_ImageRepositoryField = bg_ImageRepositoryField g, uir_ImageTagField = bg_ImageTagField g,
       uir_ImageDigestField = bg_ImageDigestField g,
       uir_KustomizationFile = kz_KustomizationFile (bg_Kustomize g), uir_KustomizeImageName = kz_ImageName (bg_Kustomize g),
       uir_RawYAMLFiles = ry_Files (bg_RawYAML g), uir_WorkloadKind = ry_WorkloadKind (bg_RawYAML g),
       uir_WorkloadName = ry_WorkloadName (bg_RawYAML g), uir_ContainerName = ry_ContainerName (bg_RawYAML g)\<rparr>)"

text \<open>The commit and the mark that it was made, with a pull request where the mode asks for one.\<close>

definition commit_made :: "'w release_deps \<Rightarrow> Release \<Rightarrow> BuildRun \<Rightarrow> bool \<Rightarrow> ('w, ReconcileResult result) rl_io" where
  "commit_made d release buildRun open_request = (
     let committed = (\<lambda>release. check (markGitOpsChangeCommitted d release) (\<lambda>_. ok \<lparr>Requeue = True, RequeueAfter = 0\<rparr>)) in
     if open_request
     then do {
       r \<leftarrow> ensurePullRequest d release buildRun;
       case r of
         Inl err \<Rightarrow> rl_finish (markFailed d release ReleasePhaseFailedProviderStatus ''PullRequestCreateFailed'' (err_text err))
       | Inr release \<Rightarrow> committed release
     }
     else committed release)"

definition set_commit :: "string \<Rightarrow> Release \<Rightarrow> Release" where
  "set_commit commit release = release\<lparr>rel_Status := (rel_Status release)\<lparr>rlst_GitCommit := commit\<rparr>\<rparr>"

text \<open>No commit yet: change the GitOps repository.\<close>

definition reconcile_change :: "'w release_deps \<Rightarrow> Release \<Rightarrow> BuildRun \<Rightarrow> ('w, ReconcileResult result) rl_io" where
  "reconcile_change d release buildRun =
     check (markPreparingGitOpsChange d release) (\<lambda>release. do {
       let req = update_request release buildRun;
       r \<leftarrow> call (ImageUpdateRequested req) (gitops_update d req);
       case r of
         Inl err \<Rightarrow> (case gitFailure err of (phase, reason) \<Rightarrow>
             rl_finish (markFailed d release phase reason (err_text err)))
       | Inr result \<Rightarrow> (
           let commit = (case result of None \<Rightarrow> '''' | Some r \<Rightarrow> uires_Commit r) in
           if commit = ''''
           then rl_finish (markFailed d release ReleasePhaseFailedGitCommit ''EmptyGitCommit''
                  ''GitOps provider returned an empty commit.'')
           else check (persistGitCommitCheckpoint d release commit) (\<lambda>release.
             commit_made d (set_commit commit release) buildRun
               (releasePromotionMode release = PromotionModePullRequest)))
     })"

text \<open>The change is committed: follow the pull request and the deployment.\<close>

definition reconcile_observe ::
  "'w release_deps \<Rightarrow> Release \<Rightarrow> BuildRun \<Rightarrow> Environment \<Rightarrow> ('w, ReconcileResult result) rl_io" where
  "reconcile_observe d release buildRun environment = (
     let waiting = (\<lambda>release. check (markWaitingForSync d release) (\<lambda>release.
           if eg_Provider (es_GitOps (env_Spec environment)) = GitOpsProviderGeneric
           then rl_finish (markDeployed d release ''GitOpsCommitApplied''
                  ''Generic GitOps policy treats a committed change as deployed.'')
           else syncProviderStatus d release environment)) in
     if rl_phase release = ReleasePhasePreparingGitOpsChange \<or> rl_phase release = ReleasePhasePending
        \<or> rl_phase release = ReleasePhaseUnset
     then commit_made d release buildRun (releasePromotionMode release = PromotionModePullRequest
            \<and> pst_Reference (rlst_PullRequest (rel_Status release)) = '''')
     else if releasePromotionMode release = PromotionModePullRequest
     then do {
       r \<leftarrow> syncPullRequestStatus d release buildRun;
       case r of
         Inl err \<Rightarrow> rl_finish (markFailed d release ReleasePhaseFailedProviderStatus ''PullRequestStatusFailed'' (err_text err))
       | Inr (release, ready, closed) \<Rightarrow>
           if closed then rl_finish (markFailed d release ReleasePhaseFailedApproval ''PullRequestClosed''
                  ''Pull request was closed without being merged.'')
           else if \<not> ready then ok after_external
           else waiting release
     }
     else waiting release)"

definition recorded_commit :: "Release \<Rightarrow> string" where
  "recorded_commit release =
     (if rlst_GitCommit (rel_Status release) = ''''
      then map_index (meta_Annotations (rel_Meta release)) gitCommitCheckpointAnnotation
      else rlst_GitCommit (rel_Status release))"

definition release_evaluator :: "'w release_deps \<Rightarrow> gotime \<Rightarrow> ReleasePolicyInput \<Rightarrow> Decision" where
  "release_evaluator d = (case rld_PolicyEvaluator d of None \<Rightarrow> EvaluateRelease | Some f \<Rightarrow> f)"

text \<open>Approval, policy and deadline, then one of the two halves above.\<close>

definition reconcile_gates ::
  "'w release_deps \<Rightarrow> Release \<Rightarrow> BuildRun \<Rightarrow> Environment \<Rightarrow> ('w, ReconcileResult result) rl_io" where
  "reconcile_gates d release buildRun environment = do {
     now \<leftarrow> query (rld_Now d);
     let dec = release_evaluator d now \<lparr>ri_Release = Some release, ri_BuildRun = Some buildRun,
           ri_Environment = Some environment\<rparr>;
     let release = release\<lparr>rel_Status := (rel_Status release)\<lparr>rlst_Policy := ToStatus dec\<rparr>\<rparr>;
     if releaseRequiresApproval release (Some environment) \<and> ra_ApprovedBy (rls_Approval (rel_Spec release)) = ''''
     then rl_finish (markAwaitingApproval d release)
     else if \<not> dec_Allowed dec then rl_finish (markPolicyDenied d release dec)
     else do {
       let release = release\<lparr>rel_Status := (rel_Status release)\<lparr>rlst_Approval := approvalStatus release\<rparr>\<rparr>;
       now \<leftarrow> query (rld_Now d);
       if deploymentTimedOut release now
       then rl_finish (markFailed d release ReleasePhaseTimedOut ''DeploymentTimedOut''
              ''Release exceeded its configured deployment timeout.'')
       else if recorded_commit release = '''' then reconcile_change d release buildRun
       else reconcile_observe d (set_commit (recorded_commit release) release) buildRun environment
     }
   }"

definition reconcile_release :: "'w release_deps \<Rightarrow> NamespacedName \<Rightarrow> ('w, ReconcileResult result) rl_io" where
  "reconcile_release d req = do {
     r \<leftarrow> query (rld_GetRelease d req);
     case r of
       Inl err \<Rightarrow> if errors_Is err NotFound then ok Result_zero
                  else fail (errorf_w (''get Release '' @ key_String req) err)
     | Inr release \<Rightarrow>
         if releasePhaseTerminal (rl_phase release) then ok Result_zero
         else if ra_RejectedBy (rls_Approval (rel_Spec release)) \<noteq> ''''
         then rl_finish (markFailed d
                (release\<lparr>rel_Status := (rel_Status release)\<lparr>rlst_Approval := approvalStatus release\<rparr>\<rparr>)
                ReleasePhaseFailedApproval ''ReleaseRejected''
                (''Release was rejected by '' @ ra_RejectedBy (rls_Approval (rel_Spec release)) @ ''.''))
         else do {
           b \<leftarrow> loadBuildRun d release;
           case b of
             Inl err \<Rightarrow> rl_finish (markFailed d release ReleasePhaseFailedValidation ''BuildRunUnavailable'' (err_text err))
           | Inr buildRun \<Rightarrow> do {
               e \<leftarrow> loadEnvironment d release;
               case e of
                 Inl err \<Rightarrow> rl_finish (markFailed d release ReleasePhaseFailedValidation ''EnvironmentUnavailable'' (err_text err))
               | Inr environment \<Rightarrow> reconcile_gates d release buildRun environment
             }
         }
   }"

section \<open>Which calls a step makes\<close>

text \<open>Writes of the status, events, notifications: all that the \<open>mark...\<close> handlers do.\<close>

fun rl_quiet :: "rl_effect \<Rightarrow> bool" where
  "rl_quiet (ReleaseStatusUpdate r) = True"
| "rl_quiet (ReleaseEvent ty reason message) = True"
| "rl_quiet (ReleaseNotification req) = True"
| "rl_quiet e = False"

definition rl_retries :: "'w release_deps \<Rightarrow> bool" where
  "rl_retries d \<longleftrightarrow> retry_spec (rld_Retry d) \<and> retry_spec (rld_RetryCheckpoint d)"

lemma only_rl_event [only_intros]: "only {e. rl_quiet e} (rl_event d ty reason message)"
  unfolding rl_event_def by (auto intro!: only_intros)

lemma only_updateReleaseStatus [only_intros]: "rl_retries d \<Longrightarrow> only {e. rl_quiet e} (updateReleaseStatus d r)"
  unfolding updateReleaseStatus_def rl_retries_def by (auto intro!: only_intros)

lemma only_notifyRelease [only_intros]: "rl_retries d \<Longrightarrow> only {e. rl_quiet e} (notifyRelease d r event message)"
  unfolding notifyRelease_def Let_def by (intro only_intros) simp_all

lemmas rl_mark_defs =
  markAwaitingApproval_def markPolicyDenied_def markPreparingGitOpsChange_def markGitOpsChangeCommitted_def
  markWaitingForSync_def markDeployed_def markFailed_def

lemma only_rl_marks:
  assumes "rl_retries d"
  shows "only {e. rl_quiet e} (markAwaitingApproval d r)"
    and "only {e. rl_quiet e} (markPolicyDenied d r dec)"
    and "only {e. rl_quiet e} (markPreparingGitOpsChange d r)"
    and "only {e. rl_quiet e} (markGitOpsChangeCommitted d r)"
    and "only {e. rl_quiet e} (markWaitingForSync d r)"
    and "only {e. rl_quiet e} (markDeployed d r reason message)"
    and "only {e. rl_quiet e} (markFailed d r phase reason message)"
  unfolding rl_mark_defs Let_def by (intro only_intros assms)+

lemma only_rl_finish [only_intros]: "only E m \<Longrightarrow> only E (rl_finish m)"
  unfolding rl_finish_def by (intro only_intros)

lemma only_syncProviderStatus:
  assumes "rl_retries d"
  shows "only {e. rl_quiet e} (syncProviderStatus d r environment)"
  unfolding syncProviderStatus_def keep_waiting_def Let_def
  by (intro only_intros only_rl_marks assms)


section \<open>When the GitOps repository is changed\<close>

text \<open>The status operations keep metadata and spec of the object in memory.\<close>

definition same_spec :: "Release \<Rightarrow> Release \<Rightarrow> bool" where
  "same_spec r s \<longleftrightarrow> rel_Meta r = rel_Meta s \<and> rel_Spec r = rel_Spec s"

lemma same_spec_status [simp]: "same_spec (r\<lparr>rel_Status := st\<rparr>) s = same_spec r s"
  by (simp add: same_spec_def)

lemma same_spec_condition [simp]: "same_spec (rl_condition now c r) s = same_spec r s"
  by (simp add: rl_condition_def)

lemma same_spec_refl [simp]: "same_spec r r"
  by (simp add: same_spec_def)

lemma copyStatus_release: "copyStatus release_ops r s = r\<lparr>rel_Status := rel_Status (copyStatus release_ops r s)\<rparr>"
  by (simp add: copyStatus_def release_ops_def)

lemma updateReleaseStatus_spec:
  assumes "rl_retries d"
  shows "wp (updateReleaseStatus d r) (\<lambda>x t. \<forall>r'. x = Inr r' \<longrightarrow> same_spec r' r) s"
proof -
  have "wp (UpdateStatusWithRetry (rld_Retry d) (rld_GetRelease d) (rld_StatusUpdate d) release_ops ReleaseStatusUpdate r)
      (\<lambda>x t. True \<and> (\<forall>r'. x = Inr r' \<longrightarrow> same_spec r' r)) s"
    unfolding UpdateStatusWithRetry_def
  proof (rule wp_retry [of "rld_Retry d" "\<lambda>_. True"])
    show "retry_spec (rld_Retry d)" using assms by (simp add: rl_retries_def)
  next
    have "same_spec (copyStatus release_ops r u) r" for u by (subst copyStatus_release) simp
    then show "wp (update_attempt (rld_GetRelease d) (rld_StatusUpdate d) release_ops ReleaseStatusUpdate r)
        (\<lambda>x t. True \<and> (\<forall>r'. x = Inr r' \<longrightarrow> same_spec r' r)) s" for s
      by (simp add: update_attempt_def wp_simps Let_def split: sum.split)
  qed simp
  then show ?thesis
    unfolding updateReleaseStatus_def wp_wrap by (rule wp_mono) (auto split: sum.splits)
qed

lemma markPreparing_spec:
  assumes "rl_retries d"
  shows "wp (markPreparingGitOpsChange d r) (\<lambda>x t. \<forall>r'. x = Inr r' \<longrightarrow> same_spec r' r) s"
proof -
  have upd: "wp (updateReleaseStatus d r1) (\<lambda>x t. \<forall>r'. x = Inr r' \<longrightarrow> same_spec r' r) u" if "same_spec r1 r" for r1 u
  proof (rule wp_mono [OF updateReleaseStatus_spec [OF assms]])
    fix x :: "Release result" and t
    assume "\<forall>r'. x = Inr r' \<longrightarrow> same_spec r' r1"
    with that show "\<forall>r'. x = Inr r' \<longrightarrow> same_spec r' r" unfolding same_spec_def by metis
  qed
  show ?thesis
    unfolding markPreparingGitOpsChange_def Let_def wp_if wp_bind wp_query wp_ok
    by (rule if_split [THEN iffD2], intro conjI impI, simp, rule upd, simp)
qed

text \<open>\<open>check\<close> whose second part runs only on results of the first one.\<close>

lemma only_checkI:
  assumes "only E m" and "\<And>s. wp m (\<lambda>x t. \<forall>a. x = Inr a \<longrightarrow> P a) s" and "\<And>a. P a \<Longrightarrow> only E (f a)"
  shows "only E (check m f)"
  unfolding wp_only
proof
  fix s
  show "wp (check m f) (\<lambda>r t. grown E s t) s"
    unfolding wp_check
  proof (rule wp_strengthen [OF assms(1) assms(2)])
    fix x and t
    assume x: "\<forall>a. x = Inr a \<longrightarrow> P a" and g: "grown E s t"
    show "case x of Inl err \<Rightarrow> grown E s t | Inr a \<Rightarrow> wp (f a) (\<lambda>r t. grown E s t) t"
    proof (cases x)
      case (Inr a)
      with x assms(3) have "\<forall>s. wp (f a) (\<lambda>r t. grown E s t) s" unfolding wp_only by blast
      then have "wp (f a) (\<lambda>r u. grown E t u) t" by blast
      then have "wp (f a) (\<lambda>r u. grown E s u) t"
        by (rule wp_mono) (use grown_trans [OF g] in fastforce)
      with Inr show ?thesis by simp
    qed (use g in simp)
  qed
qed

text \<open>
  What holds when the reconciler asks for the change of the GitOps repository: the server has
  answered with a release that is neither finished nor rejected and that has no recorded commit; a
  required approval has been given; the policy evaluator allowed the release with its build and
  environment; the deadline has not passed; and the request is built from that release and build.
\<close>

definition change_ok :: "'w release_deps \<Rightarrow> NamespacedName \<Rightarrow> UpdateImageRequest \<Rightarrow> bool" where
  "change_ok d key req \<longleftrightarrow> (\<exists>w release buildRun environment now later.
     fst (rld_GetRelease d key w) = Inr release
   \<and> \<not> releasePhaseTerminal (rl_phase release)
   \<and> ra_RejectedBy (rls_Approval (rel_Spec release)) = ''''
   \<and> (releaseRequiresApproval release (Some environment) \<longrightarrow> ra_ApprovedBy (rls_Approval (rel_Spec release)) \<noteq> '''')
   \<and> dec_Allowed (release_evaluator d now \<lparr>ri_Release = Some release, ri_BuildRun = Some buildRun,
        ri_Environment = Some environment\<rparr>)
   \<and> \<not> deploymentTimedOut release later
   \<and> recorded_commit release = ''''
   \<and> req = update_request release buildRun)"

fun rl_guarded :: "'w release_deps \<Rightarrow> NamespacedName \<Rightarrow> rl_effect \<Rightarrow> bool" where
  "rl_guarded d key (ImageUpdateRequested req) = change_ok d key req"
| "rl_guarded d key e = True"

lemma quiet_guarded: "{e. rl_quiet e} \<subseteq> {e. rl_guarded d key e}"
proof
  show "e \<in> {e. rl_guarded d key e}" if "e \<in> {e. rl_quiet e}" for e using that by (cases e) simp_all
qed

lemma update_request_spec: "same_spec r s \<Longrightarrow> update_request r buildRun = update_request s buildRun"
  by (simp add: same_spec_def update_request_def gitOpsBranches_def releasePromotionMode_def Let_def)

lemma only_ensurePullRequest:
  assumes "rl_retries d"
  shows "only {e. rl_guarded d key e} (ensurePullRequest d r buildRun)"
  unfolding ensurePullRequest_def Let_def
  by (intro only_intros only_mono [OF only_updateReleaseStatus [OF assms] quiet_guarded]) simp_all

lemma only_commit_made:
  assumes "rl_retries d"
  shows "only {e. rl_guarded d key e} (commit_made d r buildRun open_request)"
  unfolding commit_made_def Let_def
  by (intro only_intros only_ensurePullRequest [OF assms] only_mono [OF only_rl_marks(4) [OF assms] quiet_guarded]
      only_mono [OF only_rl_marks(7) [OF assms] quiet_guarded])

lemma only_persist:
  assumes "rl_retries d"
  shows "only {e. rl_guarded d key e} (persistGitCommitCheckpoint d r commit)"
proof -
  have "retry_spec (rld_RetryCheckpoint d)" using assms by (simp add: rl_retries_def)
  note retried = only_retry [OF this]
  show ?thesis
    unfolding persistGitCommitCheckpoint_def Let_def by (intro only_intros retried) simp
qed

lemma only_reconcile_change:
  assumes "rl_retries d" and "change_ok d key (update_request r buildRun)"
  shows "only {e. rl_guarded d key e} (reconcile_change d r buildRun)"
proof -
  note failed = only_mono [OF only_rl_marks(7) [OF assms(1)] quiet_guarded]
  show ?thesis
    unfolding reconcile_change_def Let_def
  proof (rule only_checkI [where P = "\<lambda>r'. same_spec r' r"], goal_cases)
    case 1
    show ?case by (rule only_mono [OF only_rl_marks(3) [OF assms(1)] quiet_guarded])
  next
    case (2 s)
    show ?case by (rule markPreparing_spec [OF assms(1)])
  next
    case (3 r')
    then have "update_request r' buildRun = update_request r buildRun" by (rule update_request_spec)
    with assms(2) have "ImageUpdateRequested (update_request r' buildRun) \<in> {e. rl_guarded d key e}" by simp
    then show ?case by (intro only_intros failed only_persist only_commit_made assms(1))
  qed
qed

lemma only_reconcile_observe:
  assumes "rl_retries d"
  shows "only {e. rl_guarded d key e} (reconcile_observe d r buildRun environment)"
proof -
  note quiet = only_mono [OF only_rl_marks(5) [OF assms] quiet_guarded]
    only_mono [OF only_rl_marks(6) [OF assms] quiet_guarded] only_mono [OF only_rl_marks(7) [OF assms] quiet_guarded]
    only_mono [OF only_syncProviderStatus [OF assms] quiet_guarded]
    only_mono [OF only_updateReleaseStatus [OF assms] quiet_guarded]
  have sync: "only {e. rl_guarded d key e} (syncPullRequestStatus d r buildRun)" for r
    unfolding syncPullRequestStatus_def by (intro only_intros only_ensurePullRequest quiet assms)
  show ?thesis
    unfolding reconcile_observe_def Let_def
    by (intro only_intros quiet only_commit_made sync assms)
qed

text \<open>Recording a decision and the approval in the status changes nothing that the gates look at.\<close>

lemma gate_facts [simp]:
  "releaseRequiresApproval (r\<lparr>rel_Status := st\<rparr>) e = releaseRequiresApproval r e"
  "update_request (r\<lparr>rel_Status := st\<rparr>) b = update_request r b"
  "recorded_commit (r\<lparr>rel_Status := (rel_Status r)\<lparr>rlst_Policy := p\<rparr>\<rparr>) = recorded_commit r"
  "recorded_commit (r\<lparr>rel_Status := (rel_Status r)\<lparr>rlst_Policy := p, rlst_Approval := a\<rparr>\<rparr>) = recorded_commit r"
  "deploymentTimedOut (r\<lparr>rel_Status := (rel_Status r)\<lparr>rlst_Policy := p, rlst_Approval := a\<rparr>\<rparr>) now = deploymentTimedOut r now"
  by (simp_all add: releaseRequiresApproval_def update_request_def gitOpsBranches_def releasePromotionMode_def
      Let_def recorded_commit_def deploymentTimedOut_def split: option.split)

lemma only_reconcile_gates:
  assumes "rl_retries d" and "fst (rld_GetRelease d key w) = Inr release"
    and "\<not> releasePhaseTerminal (rl_phase release)" and "ra_RejectedBy (rls_Approval (rel_Spec release)) = ''''"
  shows "only {e. rl_guarded d key e} (reconcile_gates d release buildRun environment)"
proof -
  note quiet = only_mono [OF only_rl_marks(1) [OF assms(1)] quiet_guarded]
    only_mono [OF only_rl_marks(2) [OF assms(1)] quiet_guarded]
    only_mono [OF only_rl_marks(7) [OF assms(1)] quiet_guarded]
  have change: "only {e. rl_guarded d key e} (reconcile_change d
      (release\<lparr>rel_Status := (rel_Status release)\<lparr>rlst_Policy := p, rlst_Approval := a\<rparr>\<rparr>) buildRun)"
    if "releaseRequiresApproval release (Some environment) \<longrightarrow> ra_ApprovedBy (rls_Approval (rel_Spec release)) \<noteq> ''''"
      and "dec_Allowed (release_evaluator d now \<lparr>ri_Release = Some release, ri_BuildRun = Some buildRun,
        ri_Environment = Some environment\<rparr>)"
      and "\<not> deploymentTimedOut release later" and "recorded_commit release = ''''" for p a now later
  proof (rule only_reconcile_change [OF assms(1)])
    have "change_ok d key (update_request release buildRun)"
      unfolding change_ok_def using assms(2-4) that by blast
    then show "change_ok d key (update_request (release\<lparr>rel_Status :=
        (rel_Status release)\<lparr>rlst_Policy := p, rlst_Approval := a\<rparr>\<rparr>) buildRun)" by simp
  qed
  show ?thesis
    unfolding reconcile_gates_def Let_def
    by (intro only_intros quiet only_reconcile_observe [OF assms(1)])
      (auto intro!: change simp del: releasePhaseTerminal.simps)
qed

lemma only_reconcile_release:
  assumes "rl_retries d"
  shows "only {e. rl_guarded d key e} (reconcile_release d key)"
proof -
  note failed = only_mono [OF only_rl_marks(7) [OF assms] quiet_guarded]
  have loads: "only {e. rl_guarded d key e} (loadBuildRun d r)" "only {e. rl_guarded d key e} (loadEnvironment d r)" for r
    unfolding loadBuildRun_def loadEnvironment_def by (intro only_intros)+
  show ?thesis
    unfolding reconcile_release_def
    by (rule only_bind_query, intro only_intros failed loads) (auto intro: only_reconcile_gates [OF assms])
qed


end
