(* ===== verification/ReleaseProgress.thy ===== *)
theory ReleaseProgress
  imports ReleaseController
begin

text \<open>
  Progress of releases: with an API server that stores what it is sent, a GitOps provider that
  returns a commit and a healthy deployment, an approved and allowed release is deployed by two
  reconciliations. The cooperative world is the stored release itself.
\<close>

section \<open>A cooperative world\<close>

definition coop :: "gotime \<Rightarrow> string \<Rightarrow> BuildRun \<Rightarrow> Environment \<Rightarrow> Release release_deps" where
  "coop now commit buildRun environment = \<lparr>
     rld_GetRelease = (\<lambda>k w. (Inr w, w)),
     rld_GetBuildRun = (\<lambda>k w. (Inr buildRun, w)),
     rld_GetEnvironment = (\<lambda>k w. (Inr environment, w)),
     rld_Update = (\<lambda>r w. (Inr r, r)),
     rld_StatusUpdate = (\<lambda>r w. (Inr r, r)),
     rld_Retry = attempts 4, rld_RetryCheckpoint = attempts 4,
     rld_Now = (\<lambda>w. (now, w)), rld_Recorder = None, rld_Notifier = None, rld_PolicyEvaluator = None,
     rld_GitOpsProvider = Some (\<lambda>req w. (Inr (Some \<lparr>uires_Commit = commit\<rparr>), w)),
     rld_GitOps = \<lparr>god_Git = None, god_Exec = (\<lambda>dir args w. (('''', None), w)),
       god_MkdirTemp = (\<lambda>w. (Inr ''/tmp'', w)), god_RemoveAll = (\<lambda>p w. ((), w)),
       god_ReadFile = (\<lambda>p w. (Inr '''', w)), god_WriteFile = (\<lambda>p x w. (Inr (), w)),
       god_IsDir = (\<lambda>p w. (Inr False, w)), god_WalkFiles = (\<lambda>p w. (Inr [], w)),
       god_Unmarshal = (\<lambda>x. Inr (Node DocumentNode '''' '''' [])), god_Decode = (\<lambda>x. ([], None)),
       god_Encode = (\<lambda>x. Inr ''''), god_UnmarshalMap = (\<lambda>x. Inr Map.empty), god_MarshalMap = (\<lambda>x. Inr '''')\<rparr>,
     rld_StatusReader = Some (\<lambda>req w. (Inr \<lparr>ds_SyncStatus = ''Synced'', ds_HealthStatus = ''Healthy'',
       ds_OperationPhase = '''', ds_ObservedRevision = '''', ds_ObservedAt = ''''\<rparr>, w)),
     rld_UnstructuredClient = (\<lambda>gvk k w. (Inr Map.empty, w)),
     rld_PullRequestProvider = None\<rparr>"

lemma coop_sels [simp]:
  "rld_GetRelease (coop now commit b e) k w = (Inr w, w)" "rld_GetBuildRun (coop now commit b e) k w = (Inr b, w)"
  "rld_GetEnvironment (coop now commit b e) k w = (Inr e, w)" "rld_Update (coop now commit b e) r w = (Inr r, r)"
  "rld_StatusUpdate (coop now commit b e) r w = (Inr r, r)" "rld_Retry (coop now commit b e) = attempts 4"
  "rld_RetryCheckpoint (coop now commit b e) = attempts 4" "rld_Now (coop now commit b e) w = (now, w)"
  "rld_Recorder (coop now commit b e) = None" "rld_Notifier (coop now commit b e) = None"
  "rld_PolicyEvaluator (coop now commit b e) = None"
  "gitops_update (coop now commit b e) req w = (Inr (Some \<lparr>uires_Commit = commit\<rparr>), w)"
  "status_reader (coop now commit b e) sreq w = (Inr \<lparr>ds_SyncStatus = ''Synced'', ds_HealthStatus = ''Healthy'',
       ds_OperationPhase = '''', ds_ObservedRevision = '''', ds_ObservedAt = ''''\<rparr>, w)"
  by (simp_all add: coop_def gitops_update_def status_reader_def)

text \<open>An attempt that cannot fail is not repeated.\<close>

lemma wp_attempts_once: "wp m (\<lambda>r t. (\<exists>a. r = Inr a) \<and> Q r t) s \<Longrightarrow> wp (attempts n m) Q s"
proof (cases n)
  case (Suc k)
  assume "wp m (\<lambda>r t. (\<exists>a. r = Inr a) \<and> Q r t) s"
  then have "wp m (\<lambda>r t. wp (case r of Inl err \<Rightarrow> if errors_Is err Conflict then attempts k m
       else State_Monad.return (Inl err) | Inr a \<Rightarrow> State_Monad.return (Inr a)) Q t) s"
    by (rule wp_mono) (auto simp: wp_simps)
  then show ?thesis by (simp add: Suc wp_bind)
qed (auto elim: wp_mono)

text \<open>A status with other conditions.\<close>

definition upto_conditions :: "ReleaseStatus \<Rightarrow> ReleaseStatus \<Rightarrow> bool" where
  "upto_conditions s t \<longleftrightarrow> s\<lparr>rlst_Conditions := []\<rparr> = t\<lparr>rlst_Conditions := []\<rparr>"

lemma upto_refl [simp]: "upto_conditions s s"
  by (simp add: upto_conditions_def)

lemma upto_set [simp]: "upto_conditions (s\<lparr>rlst_Conditions := cs\<rparr>) t = upto_conditions s t"
  "upto_conditions s (t\<lparr>rlst_Conditions := cs\<rparr>) = upto_conditions s t"
  by (simp_all add: upto_conditions_def)

lemma upto_copy: "upto_conditions (rel_Status (copyStatus release_ops r u)) (rel_Status u)"
  by (simp add: copyStatus_def release_ops_def upto_conditions_def)

lemma upto_trans: "upto_conditions s t \<Longrightarrow> upto_conditions t u \<Longrightarrow> upto_conditions s u"
  by (simp add: upto_conditions_def)

lemma upto_fields:
  assumes "upto_conditions s t"
  shows "rlst_Phase s = rlst_Phase t" and "rlst_GitCommit s = rlst_GitCommit t"
    and "rlst_StartedAt s = rlst_StartedAt t"
  using assms [unfolded upto_conditions_def, THEN arg_cong, of rlst_Phase]
    assms [unfolded upto_conditions_def, THEN arg_cong, of rlst_GitCommit]
    assms [unfolded upto_conditions_def, THEN arg_cong, of rlst_StartedAt] by simp_all

text \<open>A status update stores the status: the release in memory and the stored one agree up to conditions.\<close>

definition stored :: "Release \<Rightarrow> Release result \<Rightarrow> Release \<Rightarrow> Release \<Rightarrow> bool" where
  "stored r x before after \<longleftrightarrow> (\<exists>r'. x = Inr r' \<and> same_spec r' r \<and> upto_conditions (rel_Status r') (rel_Status r)
     \<and> same_spec after before \<and> upto_conditions (rel_Status after) (rel_Status r))"

lemma coop_update: "wp (updateReleaseStatus (coop now commit b e) r) (\<lambda>x t. stored r x (ext s) (ext t)) s"
proof -
  have "wp (update_attempt (rld_GetRelease (coop now commit b e)) (rld_StatusUpdate (coop now commit b e)) release_ops
       ReleaseStatusUpdate r) (\<lambda>x t. (\<exists>a. x = Inr a) \<and> stored r x (ext s) (ext t)) s"
    using upto_trans [OF upto_copy upto_copy] upto_copy
    by (simp add: update_attempt_def wp_simps Let_def stored_def)
      (metis copyStatus_release same_spec_refl same_spec_status)
  then have "wp (UpdateStatusWithRetry (rld_Retry (coop now commit b e)) (rld_GetRelease (coop now commit b e))
       (rld_StatusUpdate (coop now commit b e)) release_ops ReleaseStatusUpdate r) (\<lambda>x t. stored r x (ext s) (ext t)) s"
    unfolding UpdateStatusWithRetry_def coop_sels(6) by (rule wp_attempts_once)
  then show ?thesis
    unfolding updateReleaseStatus_def wp_wrap by (rule wp_mono) (auto simp: stored_def)
qed

section \<open>The two reconciliations\<close>

text \<open>The metadata of a release, its annotations aside, and its specification.\<close>

definition same_release :: "Release \<Rightarrow> Release \<Rightarrow> bool" where
  "same_release r s \<longleftrightarrow> rel_Spec r = rel_Spec s
     \<and> (rel_Meta r)\<lparr>meta_Annotations := Map.empty\<rparr> = (rel_Meta s)\<lparr>meta_Annotations := Map.empty\<rparr>"

text \<open>A stored release that the gates let pass and that is to be deployed directly.\<close>

definition ready :: "gotime \<Rightarrow> BuildRun \<Rightarrow> Environment \<Rightarrow> Release \<Rightarrow> bool" where
  "ready now buildRun environment r \<longleftrightarrow>
     \<not> releasePhaseTerminal (rl_phase r)
   \<and> ra_RejectedBy (rls_Approval (rel_Spec r)) = ''''
   \<and> bg_Enabled (brs_GitOps (br_Spec buildRun)) \<and> bg_RepoURL (brs_GitOps (br_Spec buildRun)) \<noteq> ''''
   \<and> (releaseRequiresApproval r (Some environment) \<longrightarrow> ra_ApprovedBy (rls_Approval (rel_Spec r)) \<noteq> '''')
   \<and> dec_Allowed (EvaluateRelease now \<lparr>ri_Release = Some r, ri_BuildRun = Some buildRun, ri_Environment = Some environment\<rparr>)
   \<and> \<not> deploymentTimedOut r now
   \<and> releasePromotionMode r \<noteq> PromotionModePullRequest"

lemma EvaluateRelease_spec:
  "rel_Spec r = rel_Spec s \<Longrightarrow>
   EvaluateRelease now \<lparr>ri_Release = Some r, ri_BuildRun = Some b, ri_Environment = Some e\<rparr> =
   EvaluateRelease now \<lparr>ri_Release = Some s, ri_BuildRun = Some b, ri_Environment = Some e\<rparr>"
  by (simp add: EvaluateRelease_def)

text \<open>The gates of a ready release are passed.\<close>

lemma ready_gates:
  assumes "ready now b e r"
  shows "wp (reconcile_release (coop now commit b e) key) Q (s\<lparr>ext := r\<rparr>) \<longleftrightarrow>
    wp (if recorded_commit r = '''' then
          reconcile_change (coop now commit b e) (r\<lparr>rel_Status := (rel_Status r)\<lparr>
            rlst_Policy := ToStatus (EvaluateRelease now \<lparr>ri_Release = Some r, ri_BuildRun = Some b, ri_Environment = Some e\<rparr>),
            rlst_Approval := approvalStatus r\<rparr>\<rparr>) b
        else reconcile_observe (coop now commit b e) (set_commit (recorded_commit r) (r\<lparr>rel_Status := (rel_Status r)\<lparr>
            rlst_Policy := ToStatus (EvaluateRelease now \<lparr>ri_Release = Some r, ri_BuildRun = Some b, ri_Environment = Some e\<rparr>),
            rlst_Approval := approvalStatus r\<rparr>\<rparr>)) b e) Q (s\<lparr>ext := r\<rparr>)"
proof -
  have a: "approvalStatus (r\<lparr>rel_Status := st\<rparr>) = approvalStatus r" for st by (simp add: approvalStatus_def)
  from assms have t: "\<not> releasePhaseTerminal (rl_phase r)" by (simp add: ready_def)
  show ?thesis
    using assms t
    by (simp add: ready_def reconcile_release_def reconcile_gates_def loadBuildRun_def loadEnvironment_def
        release_evaluator_def Let_def wp_simps a del: releasePhaseTerminal.simps, blast)
qed

lemma ready_spec:
  assumes "ready now b e r" and "rel_Spec r' = rel_Spec r"
    and "\<not> releasePhaseTerminal (rl_phase r')" and "\<not> deploymentTimedOut r' now"
  shows "ready now b e r'"
  using assms EvaluateRelease_spec [OF assms(2), of now b e]
  by (auto simp: ready_def releaseRequiresApproval_def releasePromotionMode_def simp del: releasePhaseTerminal.simps
      split: if_splits)

lemma timed_out_cong:
  "rel_Spec r' = rel_Spec r \<Longrightarrow> rlst_StartedAt (rel_Status r') = rlst_StartedAt (rel_Status r) \<Longrightarrow>
   deploymentTimedOut r' now = deploymentTimedOut r now"
  by (simp add: deploymentTimedOut_def Let_def split: option.split)

lemma just_started: "rlst_StartedAt (rel_Status r) = Some now \<Longrightarrow> \<not> deploymentTimedOut r now"
  by (simp add: deploymentTimedOut_def Let_def defaultDeploymentTimeout_def minutes_def seconds_def)

text \<open>A release whose change is committed and that only waits for its deployment.\<close>

definition committed :: "gotime \<Rightarrow> BuildRun \<Rightarrow> Environment \<Rightarrow> Release \<Rightarrow> bool" where
  "committed now b e r \<longleftrightarrow> ready now b e r \<and> recorded_commit r \<noteq> '''' \<and> rl_phase r = ReleasePhaseGitOpsChangeCommitted"

lemma coop_commit_made:
  assumes "ready now b e w" and "rel_Spec r = rel_Spec w" and "rlst_GitCommit (rel_Status r) \<noteq> ''''"
    and "\<not> deploymentTimedOut r now"
  shows "wp (commit_made (coop now commit b e) r b False)
    (\<lambda>x t. x = Inr \<lparr>Requeue = True, RequeueAfter = 0\<rparr> \<and> committed now b e (ext t)) (s\<lparr>ext := w\<rparr>)"
  unfolding commit_made_def Let_def if_False wp_check markGitOpsChangeCommitted_def wp_bind wp_query coop_sels fst_conv
proof (rule wp_mono [OF coop_update], goal_cases)
  case (1 x t)
  then obtain r' where x: "x = Inr r'" and spec: "rel_Spec (ext t) = rel_Spec w"
    and st: "upto_conditions (rel_Status (ext t)) ((rel_Status r)\<lparr>rlst_Phase := ReleasePhaseGitOpsChangeCommitted,
           rlst_ObservedGeneration := rl_generation r\<rparr>)"
    by (auto simp: stored_def same_spec_def rl_condition_def)
  note f = upto_fields [OF st]
  have "\<not> deploymentTimedOut (ext t) now"
    using assms(4) timed_out_cong [of "ext t" r now] f(3) spec assms(2) by simp
  with assms(1) spec f(1) have "ready now b e (ext t)" by (intro ready_spec [OF assms(1)]) simp_all
  with f assms(3) show ?case by (simp add: x wp_simps committed_def recorded_commit_def)
qed

text \<open>The release in memory, while the stored one is \<open>w\<close>.\<close>

definition mirrors :: "gotime \<Rightarrow> Release \<Rightarrow> Release \<Rightarrow> bool" where
  "mirrors now r w \<longleftrightarrow> same_spec r w \<and> \<not> deploymentTimedOut r now"

lemma coop_preparing:
  assumes "ready now b e w" and "mirrors now r w"
  shows "wp (markPreparingGitOpsChange (coop now commit b e) r)
    (\<lambda>x t. \<exists>r'. x = Inr r' \<and> same_spec (ext t) w \<and> ready now b e (ext t) \<and> mirrors now r' (ext t)) (s\<lparr>ext := w\<rparr>)"
proof -
  have upd: "wp (updateReleaseStatus (coop now commit b e) r1)
      (\<lambda>x t. \<exists>r'. x = Inr r' \<and> same_spec (ext t) w \<and> ready now b e (ext t) \<and> mirrors now r' (ext t)) (s\<lparr>ext := w\<rparr>)"
    if r1: "same_spec r1 w" "rl_phase r1 = ReleasePhasePreparingGitOpsChange" "\<not> deploymentTimedOut r1 now" for r1
  proof (rule wp_mono [OF coop_update], goal_cases)
    case (1 x t)
    then obtain r' where x: "x = Inr r'" "same_spec r' r1" "upto_conditions (rel_Status r') (rel_Status r1)"
      and t: "same_spec (ext t) w" "upto_conditions (rel_Status (ext t)) (rel_Status r1)"
      by (auto simp: stored_def)
    have spec: "rel_Spec r1 = rel_Spec w" "rel_Spec (ext t) = rel_Spec w" "rel_Spec r' = rel_Spec w" "same_spec r' (ext t)"
      using r1(1) x(2) t(1) by (simp_all add: same_spec_def)
    have "\<not> deploymentTimedOut (ext t) now" "\<not> deploymentTimedOut r' now"
      using r1(3) timed_out_cong [of "ext t" r1 now] timed_out_cong [of r' r1 now] upto_fields(3) [OF t(2)]
        upto_fields(3) [OF x(3)] spec by simp_all
    moreover have "\<not> releasePhaseTerminal (rl_phase (ext t))"
      using upto_fields(1) [OF t(2)] r1(2) by simp
    ultimately show ?case using ready_spec [OF assms(1) spec(2)] x(1) t(1) spec(4) by (simp add: mirrors_def)
  qed
  have started: "\<not> deploymentTimedOut (rl_condition u c (r\<lparr>rel_Status := (rel_Status r)\<lparr>
      rlst_Phase := ReleasePhasePreparingGitOpsChange, rlst_ObservedGeneration := rl_generation r,
      rlst_StartedAt := (case rlst_StartedAt (rel_Status r) of None \<Rightarrow> Some now | Some t \<Rightarrow> Some t)\<rparr>\<rparr>)) now" for u c
  proof (cases "rlst_StartedAt (rel_Status r)")
    case None
    then show ?thesis by (intro just_started) (simp add: rl_condition_def)
  next
    case (Some st)
    with assms(2) show ?thesis
      by (subst timed_out_cong [where r = r]) (simp_all add: rl_condition_def mirrors_def)
  qed
  show ?thesis
    unfolding markPreparingGitOpsChange_def Let_def wp_if wp_bind wp_query wp_ok coop_sels fst_conv
  proof (rule if_split [THEN iffD2], intro conjI impI, goal_cases)
    case 1
    show ?case using assms by simp
  next
    case 2
    have w: "s\<lparr>ext := w, ext := snd (now, ext (s\<lparr>ext := w\<rparr>))\<rparr> = s\<lparr>ext := w\<rparr>" by simp
    show ?case unfolding w
      by (rule upd) (use assms(2) started in \<open>simp_all add: mirrors_def\<close>, simp add: rl_condition_def)
  qed
qed

text \<open>The first reconciliation of a release without a commit changes the repository and records the commit.\<close>

lemma coop_change:
  assumes "ready now b e w" and "mirrors now r w" and "commit \<noteq> ''''"
    and "map_index (meta_Annotations (rel_Meta w)) gitCommitCheckpointAnnotation = ''''"
  shows "wp (reconcile_change (coop now commit b e) r b)
    (\<lambda>x t. x = Inr \<lparr>Requeue = True, RequeueAfter = 0\<rparr> \<and> committed now b e (ext t)) (s\<lparr>ext := w\<rparr>)"
  unfolding reconcile_change_def Let_def
proof (rule wp_checkI [OF coop_preparing [OF assms(1,2)]], goal_cases)
  case (2 r1 t)
  then have t: "same_spec (ext t) w" "ready now b e (ext t)" "mirrors now r1 (ext t)" by auto
  have none: "map_index (meta_Annotations (rel_Meta (ext t))) gitCommitCheckpointAnnotation = ''''"
    using assms(4) t(1) by (simp add: same_spec_def)
  have mode: "releasePromotionMode r1 \<noteq> PromotionModePullRequest"
    using t(2,3) by (auto simp: ready_def mirrors_def same_spec_def releasePromotionMode_def
        simp del: releasePhaseTerminal.simps split: if_splits)
  have persist: "wp (persistGitCommitCheckpoint (coop now commit b e) r1 commit)
      (\<lambda>x u. \<exists>r2. x = Inr r2 \<and> rel_Spec r2 = rel_Spec r1 \<and> rel_Status r2 = rel_Status r1
         \<and> rel_Spec (ext u) = rel_Spec (ext t) \<and> rel_Status (ext u) = rel_Status (ext t)) v"
    if "ext v = ext t" for v
    unfolding persistGitCommitCheckpoint_def Let_def wp_check coop_sels(7)
    by (rule wp_attempts_once) (use none that in \<open>simp add: wp_simps\<close>)
  show ?case
    unfolding wp_bind wp_call coop_sels fst_conv sum.case option.case UpdateImageResult.select_convs
      if_not_P [OF assms(3)]
  proof (rule wp_checkI [OF persist], goal_cases)
    case (3 r2 u)
    then have r2: "rel_Spec r2 = rel_Spec r1" "rel_Status r2 = rel_Status r1"
      and u: "rel_Spec (ext u) = rel_Spec (ext t)" "rel_Status (ext u) = rel_Status (ext t)" by auto
    have "releasePromotionMode r2 = releasePromotionMode r1"
      by (simp add: releasePromotionMode_def r2)
    then have m: "(releasePromotionMode r2 = PromotionModePullRequest) = False" using mode by simp
    have "\<not> deploymentTimedOut (set_commit commit r2) now"
      using t(3) timed_out_cong [of "set_commit commit r2" r1 now] r2 by (simp add: mirrors_def set_commit_def)
    moreover have "\<not> deploymentTimedOut (ext u) now"
      using t(2) timed_out_cong [OF u(1)] u(2) by (simp add: ready_def)
    then have "ready now b e (ext u)"
      using t(2) u by (intro ready_spec [OF t(2) u(1)]) (simp_all add: ready_def)
    moreover have "rel_Spec (set_commit commit r2) = rel_Spec (ext u)"
      using r2 u t(3) by (simp add: set_commit_def mirrors_def same_spec_def)
    moreover have "rlst_GitCommit (rel_Status (set_commit commit r2)) \<noteq> ''''"
      using assms(3) by (simp add: set_commit_def)
    ultimately have "wp (commit_made (coop now commit b e) (set_commit commit r2) b False)
        (\<lambda>x t. x = Inr \<lparr>Requeue = True, RequeueAfter = 0\<rparr> \<and> committed now b e (ext t)) (u\<lparr>ext := ext u\<rparr>)"
      by (intro coop_commit_made)
    then show ?case by (simp add: m)
  qed auto
qed auto

definition deployed :: "Release \<Rightarrow> bool" where
  "deployed r \<longleftrightarrow> rlst_GitCommit (rel_Status r) \<noteq> '''' \<and>
     rl_phase r = (if rls_RollbackOf (rel_Spec r) \<noteq> '''' then ReleasePhaseRolledBack else ReleasePhaseDeployed)"

lemma coop_deployed:
  assumes "rel_Spec r = rel_Spec w" and "rlst_GitCommit (rel_Status r) \<noteq> ''''"
  shows "wp (rl_finish (markDeployed (coop now commit b e) r reason message)) (\<lambda>x t. deployed (ext t)) (s\<lparr>ext := w\<rparr>)"
  unfolding rl_finish_def markDeployed_def Let_def wp_check wp_bind wp_query coop_sels fst_conv
proof (rule wp_mono [OF coop_update], goal_cases)
  case (1 x t)
  then obtain r' where x: "x = Inr r'" and spec: "rel_Spec (ext t) = rel_Spec w"
    and st: "upto_conditions (rel_Status (ext t)) ((rel_Status r)\<lparr>
       rlst_Phase := (if rls_RollbackOf (rel_Spec r) \<noteq> '''' then ReleasePhaseRolledBack else ReleasePhaseDeployed),
       rlst_CompletedAt := Some now, rlst_ObservedGeneration := rl_generation r\<rparr>)"
    by (auto simp: stored_def same_spec_def rl_condition_def)
  note f = upto_fields [OF st]
  have "deployed (ext t)" using f(1,2) spec assms by (simp add: deployed_def)
  then show ?case by (simp add: x wp_simps notifyRelease_def)
qed

lemma coop_waiting:
  assumes "rel_Spec r = rel_Spec w" and "rlst_GitCommit (rel_Status r) \<noteq> ''''"
  shows "wp (markWaitingForSync (coop now commit b e) r)
    (\<lambda>x t. \<exists>r'. x = Inr r' \<and> rel_Spec r' = rel_Spec (ext t) \<and> rlst_GitCommit (rel_Status r') \<noteq> '''') (s\<lparr>ext := w\<rparr>)"
proof -
  have upd: "wp (updateReleaseStatus (coop now commit b e) r1)
      (\<lambda>x t. \<exists>r'. x = Inr r' \<and> rel_Spec r' = rel_Spec (ext t) \<and> rlst_GitCommit (rel_Status r') \<noteq> '''') (s\<lparr>ext := w\<rparr>)"
    if "rel_Spec r1 = rel_Spec w" "rlst_GitCommit (rel_Status r1) \<noteq> ''''" for r1
    by (rule wp_mono [OF coop_update]) (use that in \<open>auto simp: stored_def same_spec_def dest: upto_fields(2)\<close>)
  have w: "s\<lparr>ext := w, ext := w\<rparr> = s\<lparr>ext := w\<rparr>" by simp
  show ?thesis
    unfolding markWaitingForSync_def Let_def wp_if wp_bind wp_query wp_ok coop_sels fst_conv
    by (rule if_split [THEN iffD2], intro conjI impI, use assms in simp, simp, rule upd)
      (use assms in \<open>simp_all add: rl_condition_def\<close>)
qed

lemma coop_observe:
  assumes "ready now b e w" and "rel_Spec r = rel_Spec w" and "rlst_GitCommit (rel_Status r) \<noteq> ''''"
    and "\<not> deploymentTimedOut r now"
  shows "wp (reconcile_observe (coop now commit b e) r b e)
    (\<lambda>x t. if rl_phase r \<in> {ReleasePhasePreparingGitOpsChange, ReleasePhasePending, ReleasePhaseUnset}
       then committed now b e (ext t) else deployed (ext t)) (s\<lparr>ext := w\<rparr>)"
proof -
  have mode: "(releasePromotionMode r = PromotionModePullRequest) = False"
    using assms(1,2) by (auto simp: ready_def releasePromotionMode_def simp del: releasePhaseTerminal.simps
        split: if_splits)
  have sync: "wp (syncProviderStatus (coop now commit b e) r' e) (\<lambda>x t. deployed (ext t)) (u\<lparr>ext := ext u\<rparr>)"
    if "rel_Spec r' = rel_Spec (ext u)" "rlst_GitCommit (rel_Status r') \<noteq> ''''" for r' u
    unfolding syncProviderStatus_def Let_def wp_bind wp_query coop_sels fst_conv sum.case
    using coop_deployed [of "observed e \<lparr>ds_SyncStatus = ''Synced'', ds_HealthStatus = ''Healthy'',
       ds_OperationPhase = '''', ds_ObservedRevision = '''', ds_ObservedAt = ''''\<rparr> r'" "ext u" now commit b e _ _ u] that
    by (simp add: observed_def)
  have wait: "wp (check (markWaitingForSync (coop now commit b e) r) (\<lambda>release.
        if eg_Provider (es_GitOps (env_Spec e)) = GitOpsProviderGeneric
        then rl_finish (markDeployed (coop now commit b e) release ''GitOpsCommitApplied''
               ''Generic GitOps policy treats a committed change as deployed.'')
        else syncProviderStatus (coop now commit b e) release e)) (\<lambda>x t. deployed (ext t)) (s\<lparr>ext := w\<rparr>)"
  proof (rule wp_checkI [OF coop_waiting [OF assms(2,3)]], goal_cases)
    case (2 r' t)
    then have "rel_Spec r' = rel_Spec (ext t)" "rlst_GitCommit (rel_Status r') \<noteq> ''''" by auto
    with sync [of r' t] coop_deployed [of r' "ext t" now commit b e _ _ t] show ?case by (simp add: wp_if)
  qed auto
  show ?thesis
  proof (cases "rl_phase r \<in> {ReleasePhasePreparingGitOpsChange, ReleasePhasePending, ReleasePhaseUnset}")
    case True
    then show ?thesis
      unfolding reconcile_observe_def Let_def mode
      using wp_mono [OF coop_commit_made [OF assms, of commit s]] by simp
  next
    case False
    with wait show ?thesis unfolding reconcile_observe_def Let_def mode by simp
  qed
qed

lemma wp_ext: "wp m (\<lambda>a t. P (ext t)) (start w) = P (exec_ext m w)"
  by (simp add: wp_def exec_ext_def case_prod_beta)

lemma start_ext: "start w = (start w)\<lparr>ext := w\<rparr>"
  by (simp add: start_def)

text \<open>One reconciliation of a ready release: to the committed phase, or to the end.\<close>

lemma coop_step:
  assumes "ready now b e r" and "commit \<noteq> ''''"
  shows "if recorded_commit r = '''' \<or> rl_phase r \<in> {ReleasePhasePreparingGitOpsChange, ReleasePhasePending, ReleasePhaseUnset}
    then committed now b e (exec_ext (reconcile_release (coop now commit b e) key) r)
    else deployed (exec_ext (reconcile_release (coop now commit b e) key) r)"
proof -
  let ?p = "ToStatus (EvaluateRelease now \<lparr>ri_Release = Some r, ri_BuildRun = Some b, ri_Environment = Some e\<rparr>)"
  let ?r = "r\<lparr>rel_Status := (rel_Status r)\<lparr>rlst_Policy := ?p, rlst_Approval := approvalStatus r\<rparr>\<rparr>"
  note gates = ready_gates [OF assms(1), of commit key _ "start r", folded start_ext]
  have nt: "\<not> deploymentTimedOut r now" using assms(1) by (simp add: ready_def)
  show ?thesis
  proof (cases "recorded_commit r = ''''")
    case True
    then have none: "map_index (meta_Annotations (rel_Meta r)) gitCommitCheckpointAnnotation = ''''"
      by (simp add: recorded_commit_def split: if_splits)
    have "mirrors now ?r r" using nt by (simp add: mirrors_def)
    from coop_change [OF assms(1) this assms(2) none, of "start r", folded start_ext]
    have "wp (reconcile_release (coop now commit b e) key) (\<lambda>x t. committed now b e (ext t)) (start r)"
      unfolding gates using True by (simp add: wp_mono)
    with True show ?thesis by (simp add: wp_ext)
  next
    case False
    have "wp (reconcile_observe (coop now commit b e) (set_commit (recorded_commit r) ?r) b e)
      (\<lambda>x t. if rl_phase r \<in> {ReleasePhasePreparingGitOpsChange, ReleasePhasePending, ReleasePhaseUnset}
         then committed now b e (ext t) else deployed (ext t)) (start r)"
      using coop_observe [OF assms(1), of "set_commit (recorded_commit r) ?r" commit "start r", folded start_ext] False nt
        timed_out_cong [of "set_commit (recorded_commit r) ?r" r now]
      by (simp add: set_commit_def)
    then have "wp (reconcile_release (coop now commit b e) key)
      (\<lambda>x t. if rl_phase r \<in> {ReleasePhasePreparingGitOpsChange, ReleasePhasePending, ReleasePhaseUnset}
         then committed now b e (ext t) else deployed (ext t)) (start r)"
      unfolding gates using False by simp
    then show ?thesis
      unfolding wp_ext [of _ "\<lambda>w. if rl_phase r \<in> {ReleasePhasePreparingGitOpsChange, ReleasePhasePending, ReleasePhaseUnset}
         then committed now b e w else deployed w"] using False by simp
  qed
qed

lemma deployed_stays:
  assumes "deployed r"
  shows "exec_ext (reconcile_release (coop now commit b e) key) r = r"
  using assms by (auto simp: deployed_def exec_ext_def reconcile_release_def run_query start_def ok_def split: if_splits)

definition release_step :: "gotime \<Rightarrow> string \<Rightarrow> BuildRun \<Rightarrow> Environment \<Rightarrow> Release \<Rightarrow> Release" where
  "release_step now commit b e r =
     exec_ext (reconcile_release (coop now commit b e) (object_key (rel_Meta r))) r"

text \<open>
  C8: in a cooperative world every release that the gates let pass - in whatever unfinished phase it
  is, with or without a recorded commit, so also after a crash between push and status update -
  is deployed by at most two reconciliations, as \<open>RolledBack\<close> if it is a rollback, with its commit
  in the status; further reconciliations change nothing.
\<close>

theorem release_reaches_deployed:
  assumes "ready now buildRun environment r" and "commit \<noteq> ''''"
  shows "deployed (release_step now commit buildRun environment (release_step now commit buildRun environment r))
    \<and> release_step now commit buildRun environment
        (release_step now commit buildRun environment (release_step now commit buildRun environment r))
      = release_step now commit buildRun environment (release_step now commit buildRun environment r)"
proof -
  let ?step = "release_step now commit buildRun environment"
  have "deployed (?step (?step r))"
  proof (cases "deployed (?step r)")
    case True
    then show ?thesis unfolding release_step_def by (simp add: deployed_stays)
  next
    case False
    then have c: "committed now buildRun environment (?step r)"
      using coop_step [OF assms(1,2), of "object_key (rel_Meta r)"] unfolding release_step_def by (simp split: if_splits)
    then have "ready now buildRun environment (?step r)" by (simp add: committed_def)
    from coop_step [OF this assms(2)] c show ?thesis
      unfolding release_step_def committed_def by (simp split: if_splits)
  qed
  then show ?thesis by (simp add: release_step_def [of _ _ _ _ "?step (?step r)"] deployed_stays)
qed

text \<open>A development environment with a build, and a fresh release of it.\<close>

definition sample_promoted :: BuildRun where
  "sample_promoted = BuildRun_zero\<lparr>
     br_Spec := BuildRunSpec_zero\<lparr>brs_GitOps := BuildRunGitOpsSpec_zero\<lparr>bg_Enabled := True, bg_RepoURL := ''r''\<rparr>\<rparr>,
     br_Status := BuildRunStatus_zero\<lparr>bst_Phase := BuildRunPhaseSucceeded\<rparr>\<rparr>"

definition sample_environment :: Environment where
  "sample_environment = Environment_zero\<lparr>env_Spec := EnvironmentSpec_zero\<lparr>
     es_GitOps := EnvironmentGitOpsSpec_zero\<lparr>eg_Provider := GitOpsProviderFlux\<rparr>\<rparr>\<rparr>"

definition sample_release :: Release where
  "sample_release = Release_zero\<lparr>rel_Spec := ReleaseSpec_zero\<lparr>rls_Image := ImageRef_zero\<lparr>img_Tag := ''v1''\<rparr>\<rparr>\<rparr>"

lemma sample_allowed_release:
  "dec_Allowed (EvaluateRelease 7 \<lparr>ri_Release = Some sample_release, ri_BuildRun = Some sample_promoted,
     ri_Environment = Some sample_environment\<rparr>)"
  by (simp add: EvaluateRelease_def Let_def sample_release_def sample_promoted_def sample_environment_def
      Release_zero_def ReleaseSpec_zero_def BuildRun_zero_def BuildRunSpec_zero_def BuildRunStatus_zero_def
      Environment_zero_def EnvironmentSpec_zero_def EnvironmentGitOpsSpec_zero_def EnvironmentPolicySpec_zero_def)

lemma sample_ready: "ready 7 sample_promoted sample_environment sample_release"
  using sample_allowed_release
  by (simp add: ready_def sample_release_def sample_promoted_def sample_environment_def Release_zero_def
      ReleaseSpec_zero_def ReleaseStatus_zero_def ReleaseApprovalSpec_zero_def BuildRunGitOpsSpec_zero_def
      releaseRequiresApproval_def EnvironmentSpec_zero_def Environment_zero_def deploymentTimedOut_def
      releasePromotionMode_def)

theorem release_reaches_deployed_witness:
  "deployed (release_step 7 ''c1'' sample_promoted sample_environment
     (release_step 7 ''c1'' sample_promoted sample_environment sample_release))"
  using release_reaches_deployed [OF sample_ready, of "''c1''"] by simp


end
