(* ===== verification/GitOpsSafety.thy ===== *)
theory GitOpsSafety
  imports GitOpsProvider
begin

text \<open>
  What \<open>internal/gitops/provider.go\<close> guarantees: no file outside the clone is written, a push comes
  after a write and a commit, the work directory is always removed, every failure names its
  stage, and each of the three update strategies is correct and idempotent.
\<close>

section \<open>Paths stay inside the repository\<close>

text \<open>
  C10: \<open>safeRepoPath\<close> accepts exactly the target paths whose cleaned form neither is absolute nor
  begins with \<open>..\<close>, and the path it returns is the repository's followed by the elements of the
  cleaned target, none of which is \<open>..\<close>: the file lies inside the repository.
\<close>

theorem safeRepoPath_inside:
  assumes "clean_dir repoDir"
  shows "((\<exists>path. safeRepoPath repoDir p = Inr path) \<longleftrightarrow> \<not> escapes (Clean p))
    \<and> (\<forall>path. safeRepoPath repoDir p = Inr path \<longrightarrow>
         elements path = elements repoDir @ elements (Clean p) \<and> below repoDir path \<and> IsAbs path = IsAbs repoDir)"
proof (cases "escapes (Clean p)")
  case True
  then show ?thesis by (simp add: safeRepoPath_def Let_def escapes_def)
next
  case False
  let ?path = "FilepathJoin [repoDir, Clean p]"
  note j = Join_inside [OF assms False]
  have plain: "''..'' \<notin> set (elements (Clean p))" by (rule not_escapes(1) [OF False])
  have base: "elements (Clean repoDir) = elements repoDir" "IsAbs (Clean repoDir) = IsAbs repoDir"
    using assms Clean_id [of repoDir] by (simp_all add: clean_dir_def)
  have targ: "elements (Clean ?path) = elements repoDir @ elements (Clean p)" "IsAbs (Clean ?path) = IsAbs repoDir"
    using j Clean_id [of ?path] by simp_all
  have "\<exists>rel. Rel repoDir ?path = Inr rel \<and> (rel = ''.'' \<or> rel = from_elements False (elements (Clean p)))"
    unfolding Rel_def Let_def base targ strip_common_prefix by simp
  moreover have "''.'' \<noteq> ''..'' \<and> \<not> HasPrefix ''.'' ''../'' \<and> \<not> IsAbs ''.''" by code_simp
  ultimately have "safeRepoPath repoDir p = Inr ?path"
    using False from_plain [OF elements_proper plain]
    by (auto simp: safeRepoPath_def Let_def escapes_def)
  then show ?thesis using j plain False by (simp add: below_def)
qed

theorem safeRepoPath_inside_witness:
  "below ''/tmp/w/repo'' ''/tmp/w/repo/apps/web/values.yaml''
   \<and> \<not> (\<exists>path. safeRepoPath ''/tmp/w/repo'' ''apps/../../secrets.yaml'' = Inr path)"
proof -
  have c: "clean_dir ''/tmp/w/repo''" by code_simp
  have "safeRepoPath ''/tmp/w/repo'' ''apps/web/../web/values.yaml'' = Inr ''/tmp/w/repo/apps/web/values.yaml''"
    by code_simp
  with safeRepoPath_inside [OF c, of "''apps/web/../web/values.yaml''"]
  have "below ''/tmp/w/repo'' ''/tmp/w/repo/apps/web/values.yaml''" by blast
  moreover have "escapes (Clean ''apps/../../secrets.yaml'')" by code_simp
  ultimately show ?thesis using safeRepoPath_inside [OF c, of "''apps/../../secrets.yaml''"] by blast
qed


section \<open>What an update writes\<close>

lemma wp_stage [wp_simps]:
  "wp (stage oper m) Q s =
     wp m (\<lambda>r t. Q (case r of Inl err \<Rightarrow> Inl (operation_error oper err) | Inr a \<Rightarrow> Inr a) t) s"
  by (simp add: stage_def wp_def split: prod.split)

text \<open>The walk of a directory returns files under that directory.\<close>

definition walk_spec :: "'w gitops_deps \<Rightarrow> bool" where
  "walk_spec d \<longleftrightarrow> (\<forall>path w files. fst (god_WalkFiles d path w) = Inr files \<longrightarrow> list_all (below path) files)"

definition writes_in :: "string \<Rightarrow> git_effect \<Rightarrow> bool" where
  "writes_in dir e \<longleftrightarrow> (\<exists>path data. e = FileWritten path data \<and> below dir path)"

text \<open>
  The effects of an update of the files: writes inside the directory, and if the update succeeds
  then it reports a change exactly if there was a write.
\<close>

definition file_update ::
  "string \<Rightarrow> ('a \<Rightarrow> bool) \<Rightarrow> ('w, git_effect) sys \<Rightarrow> 'a result \<Rightarrow> ('w, git_effect) sys \<Rightarrow> bool" where
  "file_update dir changed s r t \<longleftrightarrow> (\<exists>new. trace t = trace s @ new \<and> list_all (writes_in dir) new
     \<and> (\<forall>a. r = Inr a \<longrightarrow> changed a = (new \<noteq> [])))"

lemma helm_writes:
  assumes "below dir path"
  shows "wp (updateHelmValuesConfigured d path img config) (file_update dir (\<lambda>c. c) s) s"
  unfolding updateHelmValuesConfigured_def write_file_def
  by (auto simp: wp_simps file_update_def writes_in_def assms split: sum.split list.split)

lemma kustomize_writes:
  assumes "below dir path"
  shows "wp (updateKustomizationConfigured d path img name) (file_update dir (\<lambda>c. c) s) s"
  unfolding updateKustomizationConfigured_def write_file_def
  by (auto simp: wp_simps file_update_def writes_in_def assms split: sum.split)

lemma raw_file_writes:
  assumes "below dir path"
  shows "wp (updateRawYAMLFile d path img config) (file_update dir snd s) s"
  unfolding updateRawYAMLFile_def write_file_def
  by (auto simp: wp_simps file_update_def writes_in_def assms split: sum.split prod.split)

lemma raw_files_write:
  assumes "list_all (below dir) paths"
  shows "wp (update_raw_files d img config matched changed paths)
    (\<lambda>r t. \<exists>new. trace t = trace s @ new \<and> list_all (writes_in dir) new
        \<and> (\<forall>a. r = Inr a \<longrightarrow> snd a = (changed \<or> new \<noteq> []))) s"
  using assms
proof (induction paths arbitrary: matched changed s)
  case Nil
  show ?case by (simp add: wp_simps)
next
  case (Cons path paths)
  have b: "below dir path" and bs: "list_all (below dir) paths" using Cons.prems by simp_all
  show ?case
    unfolding update_raw_files.simps wp_check
  proof (rule wp_mono [OF raw_file_writes [OF b]])
    fix r :: "(bool \<times> bool) result" and t
    assume "file_update dir snd s r t"
    then obtain n1 where n1: "trace t = trace s @ n1" "list_all (writes_in dir) n1"
      "\<And>a. r = Inr a \<Longrightarrow> snd a = (n1 \<noteq> [])"
      by (auto simp: file_update_def)
    show "case r of
        Inl err \<Rightarrow> \<exists>new. trace t = trace s @ new \<and> list_all (writes_in dir) new
          \<and> (\<forall>a. Inl err = Inr a \<longrightarrow> snd a = (changed \<or> new \<noteq> []))
      | Inr a \<Rightarrow> wp (case a of (fileMatched, fileChanged) \<Rightarrow>
            update_raw_files d img config (matched \<or> fileMatched) (changed \<or> fileChanged) paths)
          (\<lambda>r t. \<exists>new. trace t = trace s @ new \<and> list_all (writes_in dir) new
             \<and> (\<forall>a. r = Inr a \<longrightarrow> snd a = (changed \<or> new \<noteq> []))) t"
    proof (cases r)
      case (Inl err)
      with n1 show ?thesis by auto
    next
      case (Inr a)
      obtain fm fc where a: "a = (fm, fc)" by (cases a)
      with n1(3) [OF Inr] have fc: "fc = (n1 \<noteq> [])" by simp
      have "wp (update_raw_files d img config (matched \<or> fm) (changed \<or> fc) paths)
          (\<lambda>r t. \<exists>new. trace t = trace s @ new \<and> list_all (writes_in dir) new
             \<and> (\<forall>a. r = Inr a \<longrightarrow> snd a = (changed \<or> new \<noteq> []))) t"
      proof (rule wp_mono [OF Cons.IH [OF bs]], elim exE conjE)
        fix q :: "(bool \<times> bool) result" and u n2
        assume "trace u = trace t @ n2" "list_all (writes_in dir) n2"
          "\<forall>a. q = Inr a \<longrightarrow> snd a = ((changed \<or> fc) \<or> n2 \<noteq> [])"
        with n1 fc show "\<exists>new. trace u = trace s @ new \<and> list_all (writes_in dir) new
             \<and> (\<forall>a. q = Inr a \<longrightarrow> snd a = (changed \<or> new \<noteq> []))"
          by (intro exI [of _ "n1 @ n2"]) simp
      qed
      then show ?thesis by (simp add: Inr a)
    qed
  qed
qed

lemma safe_below: "clean_dir dir \<Longrightarrow> safeRepoPath dir p = Inr path \<Longrightarrow> below dir path"
  using safeRepoPath_inside by blast

lemma raw_file_paths_below:
  assumes "clean_dir dir"
  shows "raw_file_paths dir targetPath files = Inr paths \<Longrightarrow> list_all (below dir) paths"
  by (induction files arbitrary: paths) (auto split: option.splits sum.splits dest: safe_below [OF assms])

lemma rawYAMLPaths_below:
  assumes "clean_dir dir" and "walk_spec d"
  shows "wp (rawYAMLPaths d dir targetPath files)
    (\<lambda>r t. trace t = trace s \<and> (\<forall>paths. r = Inr paths \<longrightarrow> list_all (below dir) paths)) s"
proof (cases "files = []")
  case False
  with raw_file_paths_below [OF assms(1)] show ?thesis by (simp add: rawYAMLPaths_def wp_simps)
next
  case True
  have "wp (check (wrap ''read raw YAML target'' (query (god_IsDir d path))) (\<lambda>isDir.
            if \<not> isDir then ok [path]
            else check (query (god_WalkFiles d path)) (\<lambda>candidates. ok (filter isYAML candidates))))
      (\<lambda>r t. trace t = trace s \<and> (\<forall>paths. r = Inr paths \<longrightarrow> list_all (below dir) paths)) s"
    if "below dir path" for path
    using that assms(2)
    by (simp add: wp_simps walk_spec_def list_all_iff split: sum.split) (blast intro: below_trans)
  with True safe_below [OF assms(1)] show ?thesis
    by (auto simp: rawYAMLPaths_def wp_fail below_refl split: sum.split)
qed

lemma raw_writes:
  assumes "clean_dir dir" and "walk_spec d"
  shows "wp (updateRawYAMLConfigured d dir targetPath img config) (file_update dir (\<lambda>c. c) s) s"
  unfolding updateRawYAMLConfigured_def wp_check wp_stage
proof (rule wp_mono [OF rawYAMLPaths_below [OF assms]], goal_cases)
  case (1 r t)
  note r = 1
  show ?case
  proof (cases r)
    case (Inl err)
    with r show ?thesis by (simp add: file_update_def)
  next
    case (Inr paths)
    with r have p: "list_all (below dir) paths" and t: "trace t = trace s" by auto
    show ?thesis unfolding Inr sum.case
      by (rule wp_mono [OF raw_files_write [OF p]])
        (use t in \<open>auto simp: file_update_def wp_simps split: sum.split prod.split\<close>)
  qed
qed

lemma files_update:
  assumes "clean_dir dir" and "walk_spec d"
  shows "wp (updateImageFilesConfigured d dir targetPath strategy img hc kc rc) (file_update dir (\<lambda>c. c) s) s"
proof -
  have helm: "helmValuesPath dir targetPath f = Inr path \<Longrightarrow> below dir path" for f path
    by (auto simp: helmValuesPath_def Let_def split: if_splits option.splits dest: safe_below [OF assms(1)])
  have kust: "kustomizationPath dir targetPath f = Inr path \<Longrightarrow> below dir path" for f path
    by (auto simp: kustomizationPath_def Let_def split: if_splits option.splits dest: safe_below [OF assms(1)])
  show ?thesis
    unfolding updateImageFilesConfigured_def
    by (cases strategy; simp add: raw_writes [OF assms] split: sum.split)
      (auto simp: wp_fail file_update_def [of _ _ _ "Inl _"] intro: helm_writes kustomize_writes dest: helm kust)
qed


section \<open>The steps of UpdateImage\<close>

definition publish_steps :: "string \<Rightarrow> UpdateImageRequest \<Rightarrow> git_effect list" where
  "publish_steps dir req = [GitAddedAll dir,
     GitCommitted dir (''cloudivision: release '' @ uir_ReleaseName req @ '' image '' @ imageString (uir_Image req)),
     GitPushed dir (uir_Branch req)]"

lemma first_operation_error [simp]: "first_operation (err_tags (operation_error oper err)) = Some oper"
  by (simp add: operation_error_def)

lemma stage_call:
  "wp (stage oper (call eff act)) (\<lambda>r t. trace t = trace s @ [eff]
     \<and> (\<forall>e. r = Inl e \<longrightarrow> (\<exists>e'. e = operation_error oper e'))) s"
  by (auto simp: wp_simps split: sum.split)

lemma stage_query:
  "wp (stage oper (query q)) (\<lambda>r t. trace t = trace s
     \<and> (\<forall>e. r = Inl e \<longrightarrow> (\<exists>e'. e = operation_error oper e'))) s"
  by (auto simp: wp_simps split: sum.split)

lemma publish_trace:
  "wp (publish_change d git dir req)
    (\<lambda>r t. \<exists>new. trace t = trace s @ new \<and> prefix new (publish_steps dir req)
       \<and> (\<forall>x. r = Inr x \<longrightarrow> new = publish_steps dir req)
       \<and> (\<forall>e. r = Inl e \<longrightarrow> new \<noteq> [] \<and> first_operation (err_tags e) =
            Some (if new = publish_steps dir req then OperationPush else OperationCommit))) s"
proof -
  define message where "message = ''cloudivision: release '' @ uir_ReleaseName req @ '' image '' @ imageString (uir_Image req)"
  have steps: "publish_steps dir req = [GitAddedAll dir, GitCommitted dir message, GitPushed dir (uir_Branch req)]"
    by (simp add: publish_steps_def message_def)
  show ?thesis
    unfolding publish_change_def Let_def message_def [symmetric] steps
  proof (rule wp_checkI [OF stage_call], goal_cases)
    case (2 a t)
    then have t: "trace t = trace s @ [GitAddedAll dir]" by simp
    show ?case
    proof (rule wp_checkI [OF stage_call], goal_cases)
      case (2 a u)
      with t have u: "trace u = trace s @ [GitAddedAll dir, GitCommitted dir message]" by simp
      show ?case
      proof (rule wp_checkI [OF stage_query], goal_cases)
        case (2 a v)
        with u have v: "trace v = trace s @ [GitAddedAll dir, GitCommitted dir message]" by simp
        show ?case by (rule wp_checkI [OF stage_call]) (auto simp: v wp_simps)
      qed (auto simp: u)
    qed (auto simp: t)
  qed auto
qed

text \<open>
  The calls inside the work directory: clone, branch, writes, and the publication or a part of it,
  which needs a write. A result is returned exactly after the complete sequence; an error names a
  stage: the clone before the branch, push or commit once the publication has begun.
\<close>

definition workdir_trace :: "string \<Rightarrow> UpdateImageRequest \<Rightarrow> UpdateImageResult result \<Rightarrow> git_effect list \<Rightarrow> bool" where
  "workdir_trace dir req r tr \<longleftrightarrow> (\<exists>branch writes published.
     tr = GitCloned (uir_RepositoryURL req) dir # branch @ writes @ published
     \<and> prefix branch [if uir_BaseBranch req \<noteq> '''' then GitBranchCreated dir (uir_BaseBranch req) (uir_Branch req)
                      else GitCheckedOut dir (uir_Branch req)]
     \<and> list_all (writes_in dir) writes
     \<and> prefix published (if writes = [] then [] else publish_steps dir req)
     \<and> (\<forall>x. r = Inr x \<longrightarrow> published = (if writes = [] then [] else publish_steps dir req))
     \<and> (\<forall>e. r = Inl e \<longrightarrow> first_operation (err_tags e) \<noteq> None
          \<and> (branch = [] \<longrightarrow> first_operation (err_tags e) = Some OperationClone)
          \<and> (published \<noteq> [] \<longrightarrow> first_operation (err_tags e) =
               Some (if published = publish_steps dir req then OperationPush else OperationCommit))))"

lemma wp_as_operation [wp_simps]:
  "wp (as_operation m) Q s = wp m (\<lambda>r t. Q (case r of
       Inl err \<Rightarrow> Inl (if first_operation (err_tags err) \<noteq> None then err else operation_error OperationUpdate err)
     | Inr a \<Rightarrow> Inr a) t) s"
  by (simp add: as_operation_def wp_def split: prod.split)

lemma clean_dir_join: "clean_dir (FilepathJoin [workdir, ''repo''])"
proof -
  have c: "clean_dir (Clean p)" for p
    by (simp add: clean_dir_def Clean_nonempty elements_Clean IsAbs_Clean clean_idem)
  show ?thesis
    by (cases "workdir = ''''") (simp_all add: FilepathJoin_def c)
qed

lemma workdir_steps:
  assumes "walk_spec d" and "dir = FilepathJoin [workdir, ''repo'']"
  shows "wp (update_in_workdir d req workdir)
    (\<lambda>r t. \<exists>new. trace t = trace s @ new \<and> workdir_trace dir req r new) s"
proof -
  define git where "git = (case god_Git d of None \<Rightarrow> ExecGit d | Some g \<Rightarrow> g)"
  define br where "br = (if uir_BaseBranch req \<noteq> '''' then GitBranchCreated dir (uir_BaseBranch req) (uir_Branch req)
      else GitCheckedOut dir (uir_Branch req))"
  have dir: "clean_dir dir" unfolding assms(2) by (rule clean_dir_join)
  have none: "workdir_trace dir req (Inl (operation_error OperationClone e)) [GitCloned (uir_RepositoryURL req) dir]"
    "workdir_trace dir req (Inl (operation_error OperationClone e)) [GitCloned (uir_RepositoryURL req) dir, br]" for e
    unfolding workdir_trace_def br_def [symmetric]
    by (rule exI [of _ "[]"] exI [of _ "[br]"], rule exI [of _ "[]"], rule exI [of _ "[]"], simp)+
  have some: "workdir_trace dir req r (GitCloned (uir_RepositoryURL req) dir # br # writes @ published)"
    if "list_all (writes_in dir) writes" "prefix published (if writes = [] then [] else publish_steps dir req)"
      "\<And>x. r = Inr x \<Longrightarrow> published = (if writes = [] then [] else publish_steps dir req)"
      "\<And>e. r = Inl e \<Longrightarrow> first_operation (err_tags e) \<noteq> None \<and> (published \<noteq> [] \<longrightarrow>
          first_operation (err_tags e) = Some (if published = publish_steps dir req then OperationPush else OperationCommit))"
    for r writes published
    unfolding workdir_trace_def br_def [symmetric]
    by (rule exI [of _ "[br]"], rule exI [of _ writes], rule exI [of _ published]) (use that in auto)
  have tail: "wp (check (as_operation (updateImageFilesConfigured d dir (uir_Path req) strategy (uir_Image req)
         (helm_config req) (kustomize_config req) (raw_config req))) (\<lambda>changed.
       if \<not> changed
       then check (stage OperationCommit (query (git_Head git dir))) (\<lambda>commit. ok \<lparr>uires_Commit = commit\<rparr>)
       else publish_change d git dir req))
     (\<lambda>r t. \<exists>new. trace t = trace s @ new \<and> workdir_trace dir req r new) u"
    if u: "trace u = trace s @ [GitCloned (uir_RepositoryURL req) dir, br]" for strategy u
    unfolding wp_check wp_as_operation
  proof (rule wp_mono [OF files_update [OF dir assms(1)]], goal_cases)
    case (1 r t)
    then obtain writes where w: "trace t = trace u @ writes" "list_all (writes_in dir) writes"
      "\<And>c. r = Inr c \<Longrightarrow> c = (writes \<noteq> [])"
      by (auto simp: file_update_def)
    show ?case
    proof (cases r)
      case (Inl err)
      have "workdir_trace dir req (Inl (if first_operation (err_tags err) \<noteq> None then err
          else operation_error OperationUpdate err)) (GitCloned (uir_RepositoryURL req) dir # br # writes @ [])"
        by (rule some [OF w(2)]) auto
      with w u Inl show ?thesis by auto
    next
      case (Inr c)
      show ?thesis
      proof (cases c)
        case False
        with w(3) [OF Inr] have ws: "writes = []" by simp
        have "workdir_trace dir req (Inl (operation_error OperationCommit e)) [GitCloned (uir_RepositoryURL req) dir, br]"
          "workdir_trace dir req (Inr x) [GitCloned (uir_RepositoryURL req) dir, br]" for e x
          using some [OF w(2), of "[]" "Inl (operation_error OperationCommit e)"] some [OF w(2), of "[]" "Inr x"]
          by (simp_all add: ws)
        with w u ws Inr False show ?thesis
          by (simp add: wp_simps split: sum.split)
      next
        case True
        with w(3) [OF Inr] have ne: "writes \<noteq> []" by simp
        have "wp (publish_change d git dir req) (\<lambda>r t. \<exists>new. trace t = trace s @ new \<and> workdir_trace dir req r new) t"
        proof (rule wp_mono [OF publish_trace], elim exE conjE)
          fix q :: "UpdateImageResult result" and v published
          assume "trace v = trace t @ published" "prefix published (publish_steps dir req)"
            "\<forall>x. q = Inr x \<longrightarrow> published = publish_steps dir req"
            "\<forall>e. q = Inl e \<longrightarrow> published \<noteq> [] \<and> first_operation (err_tags e) =
              Some (if published = publish_steps dir req then OperationPush else OperationCommit)"
          with w u ne some [OF w(2), of published q]
          show "\<exists>new. trace v = trace s @ new \<and> workdir_trace dir req q new" by auto
        qed
        with Inr True show ?thesis by simp
      qed
    qed
  qed
  have branch: "wp (stage OperationClone (if uir_BaseBranch req \<noteq> ''''
          then call (GitBranchCreated dir (uir_BaseBranch req) (uir_Branch req))
                 (git_CreateBranch git dir (uir_BaseBranch req) (uir_Branch req))
          else call (GitCheckedOut dir (uir_Branch req)) (git_CheckoutBranch git dir (uir_Branch req))))
      (\<lambda>r t. trace t = trace u @ [br] \<and> (\<forall>e. r = Inl e \<longrightarrow> (\<exists>e'. e = operation_error OperationClone e'))) u" for u
    by (auto simp: br_def intro: stage_call)
  show ?thesis
    unfolding update_in_workdir_def Let_def git_def [symmetric] assms(2) [symmetric]
  proof (rule wp_checkI [OF stage_call], goal_cases)
    case (1 err t)
    then obtain e' where "trace t = trace s @ [GitCloned (uir_RepositoryURL req) dir]" "err = operation_error OperationClone e'"
      by auto
    then show ?case using none(1) [of e'] by auto
  next
    case (2 a t)
    then have t: "trace t = trace s @ [GitCloned (uir_RepositoryURL req) dir]" by blast
    show ?case
    proof (rule wp_checkI [OF branch [of t]], goal_cases)
      case (1 err u)
      then obtain e' where "trace u = trace t @ [br]" "err = operation_error OperationClone e'" by auto
      with t none(2) [of e'] show ?case by (intro exI [of _ "[GitCloned (uir_RepositoryURL req) dir, br]"]) simp
    next
      case (2 a u)
      with t show ?case by (intro tail) simp
    qed
  qed
qed

text \<open>
  C9: what \<open>UpdateImage\<close> does to the world, whatever Git, the file system and the YAML codec
  answer: nothing at all if the request is rejected or there is no work directory; otherwise it
  clones, switches to the branch, writes files that lie inside the clone, publishes by add, commit
  and push in this order - and only after a write - and finally removes the work directory. It
  returns a commit only if it was not interrupted: when there was nothing to write, or after the
  push; and an error after the clone began is an \<open>OperationError\<close> that names the stage.
\<close>

theorem UpdateImage_steps:
  assumes "walk_spec d"
  shows "exec_trace (UpdateImage d req) w = []
    \<or> (\<exists>workdir tr. exec_trace (UpdateImage d req) w = tr @ [WorkdirRemoved workdir]
         \<and> workdir_trace (FilepathJoin [workdir, ''repo'']) req (exec_result (UpdateImage d req) w) tr)"
proof -
  have "wp (UpdateImage d req) (\<lambda>r t. trace t = []
      \<or> (\<exists>workdir tr. trace t = tr @ [WorkdirRemoved workdir]
           \<and> workdir_trace (FilepathJoin [workdir, ''repo'']) req r tr)) (start w)"
  proof -
    have body: "wp (update_in_workdir d req workdir \<bind> (\<lambda>r.
          call (WorkdirRemoved workdir) (god_RemoveAll d workdir) \<bind> (\<lambda>_. State_Monad.return r)))
        (\<lambda>r t. trace t = [] \<or> (\<exists>workdir tr. trace t = tr @ [WorkdirRemoved workdir]
           \<and> workdir_trace (FilepathJoin [workdir, ''repo'']) req r tr)) s" if "trace s = []" for s workdir
      unfolding wp_bind [of "update_in_workdir _ _ _"]
      by (rule wp_mono [OF workdir_steps [OF assms refl]]) (use that in \<open>auto simp: wp_simps\<close>)
    show ?thesis
      unfolding UpdateImage_def
      by (auto simp: wp_if wp_fail wp_check wp_wrap wp_query start_def split: sum.split intro!: body)
  qed
  then show ?thesis
    unfolding wp_trace [of _ "\<lambda>r tr. tr = [] \<or> (\<exists>workdir tr'. tr = tr' @ [WorkdirRemoved workdir]
           \<and> workdir_trace (FilepathJoin [workdir, ''repo'']) req r tr')"] .
qed

definition sample_git :: "unit Git" where
  "sample_git = \<lparr>git_Clone = (\<lambda>url dir w. (Inr (), w)), git_CheckoutBranch = (\<lambda>dir b w. (Inr (), w)),
     git_CreateBranch = (\<lambda>dir base b w. (Inr (), w)), git_AddAll = (\<lambda>dir w. (Inr (), w)),
     git_Commit = (\<lambda>dir m w. (Inr (), w)), git_Push = (\<lambda>dir b w. (Inr (), w)),
     git_Head = (\<lambda>dir w. (Inr ''abc'', w))\<rparr>"

definition sample_gitops :: "unit gitops_deps" where
  "sample_gitops = \<lparr>god_Git = Some sample_git, god_Exec = (\<lambda>dir args w. (('''', None), w)),
     god_MkdirTemp = (\<lambda>w. (Inr ''/tmp/w'', w)), god_RemoveAll = (\<lambda>p w. ((), w)),
     god_ReadFile = (\<lambda>p w. (Inr '''', w)), god_WriteFile = (\<lambda>p data w. (Inr (), w)),
     god_IsDir = (\<lambda>p w. (Inr False, w)), god_WalkFiles = (\<lambda>p w. (Inr [], w)),
     god_Unmarshal = (\<lambda>data. Inr (Node DocumentNode '''' '''' [])), god_Decode = (\<lambda>data. ([], None)),
     god_Encode = (\<lambda>docs. Inr ''''), god_UnmarshalMap = (\<lambda>data. Inr (\<lambda>k. None)),
     god_MarshalMap = (\<lambda>m. Inr ''images'')\<rparr>"

definition sample_update :: UpdateImageRequest where
  "sample_update = \<lparr>uir_RepositoryURL = ''r'', uir_Branch = ''main'', uir_BaseBranch = '''', uir_Path = '''',
     uir_Strategy = GitOpsStrategyUnset, uir_ReleaseName = ''v1'',
     uir_Image = ImageRef_zero\<lparr>img_Repository := ''app'', img_Tag := ''1''\<rparr>, uir_ValuesFile = '''',
     uir_ImageRepositoryField = '''', uir_ImageTagField = '''', uir_ImageDigestField = '''',
     uir_KustomizationFile = '''', uir_KustomizeImageName = '''', uir_RawYAMLFiles = [],
     uir_WorkloadKind = '''', uir_WorkloadName = '''', uir_ContainerName = ''''\<rparr>"

lemma sample_paths:
  "FilepathJoin [''/tmp/w'', ''repo''] = ''/tmp/w/repo''"
  "kustomizationPath ''/tmp/w/repo'' '''' '''' = Inr ''/tmp/w/repo/kustomization.yaml''"
  by code_simp+

lemma sample_update_trace:
  "exec_trace (UpdateImage sample_gitops sample_update) () =
     [GitCloned ''r'' ''/tmp/w/repo'', GitCheckedOut ''/tmp/w/repo'' ''main'',
      FileWritten ''/tmp/w/repo/kustomization.yaml'' ''images'', GitAddedAll ''/tmp/w/repo'',
      GitCommitted ''/tmp/w/repo'' ''cloudivision: release v1 image app:1'', GitPushed ''/tmp/w/repo'' ''main'',
      WorkdirRemoved ''/tmp/w'']"
  by (simp add: exec_trace_def UpdateImage_def sample_update_def sample_gitops_def sample_git_def check_def
      wrap_def stage_def run_query run_call start_def update_in_workdir_def Let_def sample_paths as_operation_def
      updateImageFilesConfigured_def kustomize_config_def updateKustomizationConfigured_def
      update_kustomization_map_def ok_def write_file_def publish_change_def imageString_def ImageRef_zero_def)

theorem UpdateImage_steps_witness:
  "exec_trace (UpdateImage sample_gitops sample_update) () \<noteq> []
   \<and> (\<exists>workdir tr. exec_trace (UpdateImage sample_gitops sample_update) () = tr @ [WorkdirRemoved workdir]
         \<and> workdir_trace (FilepathJoin [workdir, ''repo'']) sample_update
             (exec_result (UpdateImage sample_gitops sample_update) ()) tr)"
proof -
  have "walk_spec sample_gitops" by (simp add: walk_spec_def sample_gitops_def)
  then show ?thesis
    using UpdateImage_steps [of sample_gitops sample_update "()"] by (simp add: sample_update_trace)
qed

end
