(* ===== verification/ReleaseSafety.thy ===== *)
theory ReleaseSafety
  imports ReleaseProgress GitOpsSafety
begin

text \<open>
  When a release is reported as deployed, and what a failed release tells about the repository:
  properties of the reconciler together with the status readers and the GitOps provider.
\<close>

section \<open>Deployed means observed\<close>

definition dep_phase :: "ReleasePhase \<Rightarrow> bool" where
  "dep_phase p \<longleftrightarrow> p = ReleasePhaseDeployed \<or> p = ReleasePhaseRolledBack"

fun undeployed :: "rl_effect \<Rightarrow> bool" where
  "undeployed (ReleaseStatusUpdate r) = (\<not> dep_phase (rl_phase r))"
| "undeployed e = True"

text \<open>The documented answer of a status update: the object as it was written.\<close>

definition rl_echo :: "'w release_deps \<Rightarrow> bool" where
  "rl_echo d \<longleftrightarrow> (\<forall>r w r'. fst (rld_StatusUpdate d r w) = Inr r' \<longrightarrow> rl_phase r' = rl_phase r)"

lemma copy_phase: "rl_phase (copyStatus release_ops dst src) = rl_phase src"
  by (simp add: copyStatus_def release_ops_def)

definition same_phase :: "Release \<Rightarrow> Release \<Rightarrow> bool" where
  "same_phase r s \<longleftrightarrow> rl_phase r = rl_phase s"

lemma update_phase:
  assumes "rl_retries d" and "rl_echo d"
  shows "wp (updateReleaseStatus d r) (\<lambda>x t. \<forall>r'. x = Inr r' \<longrightarrow> same_phase r' r) s"
proof -
  have rs: "retry_spec (rld_Retry d)" using assms(1) by (simp add: rl_retries_def)
  have echo: "same_phase (copyStatus release_ops r r') r"
    if "fst (rld_StatusUpdate d (copyStatus release_ops latest r) w) = Inr r'" for latest w r'
    using assms(2) that unfolding rl_echo_def same_phase_def copy_phase by (metis copy_phase)
  have "wp (UpdateStatusWithRetry (rld_Retry d) (rld_GetRelease d) (rld_StatusUpdate d) release_ops ReleaseStatusUpdate r)
      (\<lambda>x t. True \<and> (\<forall>r'. x = Inr r' \<longrightarrow> same_phase r' r)) s"
    unfolding UpdateStatusWithRetry_def
  proof (rule wp_retry [OF rs, of "\<lambda>_. True"])
    show "wp (update_attempt (rld_GetRelease d) (rld_StatusUpdate d) release_ops ReleaseStatusUpdate r)
        (\<lambda>x t. True \<and> (\<forall>r'. x = Inr r' \<longrightarrow> same_phase r' r)) s" for s
      by (auto simp: update_attempt_def wp_simps Let_def echo split: sum.split)
  qed simp
  then show ?thesis
    unfolding updateReleaseStatus_def wp_wrap by (rule wp_mono) (auto split: sum.splits)
qed

lemma only_undeployed_update:
  assumes "rl_retries d" and "\<not> dep_phase (rl_phase r)"
  shows "only {e. undeployed e} (updateReleaseStatus d r)"
  unfolding updateReleaseStatus_def UpdateStatusWithRetry_def
proof -
  have rs: "retry_spec (rld_Retry d)" using assms(1) by (simp add: rl_retries_def)
  have "only {e. undeployed e} (update_attempt (rld_GetRelease d) (rld_StatusUpdate d) release_ops ReleaseStatusUpdate r)"
    by (rule only_update_attempt) (simp add: copy_phase assms(2))
  then show "only {e. undeployed e} (wrap ''update Release status'' (rld_Retry d (update_attempt (rld_GetRelease d)
      (rld_StatusUpdate d) release_ops ReleaseStatusUpdate r)))"
    by (intro only_wrap only_retry [OF rs])
qed

lemma only_undeployed_then:
  assumes "rl_retries d" and "rl_echo d" and "\<not> dep_phase (rl_phase r)"
    and "\<And>r'. same_phase r' r \<Longrightarrow> only {e. undeployed e} (f r')"
  shows "only {e. undeployed e} (check (updateReleaseStatus d r) f)"
  by (rule only_checkI [OF only_undeployed_update [OF assms(1,3)] update_phase [OF assms(1,2)] assms(4)])

lemma only_undeployed_notify:
  assumes "rl_retries d" and "\<not> dep_phase (rl_phase r)"
  shows "only {e. undeployed e} (notifyRelease d r event message)"
  unfolding notifyRelease_def Let_def
  by (intro only_intros only_undeployed_update assms) (simp_all add: rl_condition_def assms(2))

lemma only_undeployed_event: "only {e. undeployed e} (rl_event d ty reason message)"
  unfolding rl_event_def by (intro only_intros) simp

lemma phase_condition [simp]: "rl_phase (rl_condition now c r) = rl_phase r"
  by (simp add: rl_condition_def)

lemma only_undeployed_marks:
  assumes "rl_retries d" and "rl_echo d"
  shows "only {e. undeployed e} (markAwaitingApproval d r)"
    and "only {e. undeployed e} (markPolicyDenied d r dec)"
    and "only {e. undeployed e} (markPreparingGitOpsChange d r)"
    and "only {e. undeployed e} (markGitOpsChangeCommitted d r)"
    and "only {e. undeployed e} (markWaitingForSync d r)"
    and "\<not> dep_phase phase \<Longrightarrow> only {e. undeployed e} (markFailed d r phase reason message)"
  unfolding rl_mark_defs Let_def
  by (intro only_intros only_undeployed_event only_undeployed_then only_undeployed_update only_undeployed_notify assms;
      simp add: dep_phase_def same_phase_def)+

lemma only_undeployed_pull_request:
  assumes "rl_retries d" and "rl_echo d" and "\<not> dep_phase (rl_phase r)"
  shows "only {e. undeployed e} (ensurePullRequest d r b)"
    and "\<And>s. wp (ensurePullRequest d r b) (\<lambda>x t. \<forall>r'. x = Inr r' \<longrightarrow> same_phase r' r) s"
proof -
  have nd: "\<not> dep_phase (rl_phase (set_pull_request pr r))" for pr
    using assms(3) by (simp add: set_pull_request_def)
  show "only {e. undeployed e} (ensurePullRequest d r b)"
    unfolding ensurePullRequest_def Let_def
    by (intro only_intros only_undeployed_update [OF assms(1)] nd) simp
  have upd: "wp (updateReleaseStatus d (set_pull_request pr r)) (\<lambda>x t. \<forall>r'. x = Inr r' \<longrightarrow> same_phase r' r) s" for pr s
    using update_phase [OF assms(1,2), of "set_pull_request pr r" s]
    by (simp add: same_phase_def set_pull_request_def)
  show "wp (ensurePullRequest d r b) (\<lambda>x t. \<forall>r'. x = Inr r' \<longrightarrow> same_phase r' r) s" for s
    unfolding ensurePullRequest_def Let_def wp_check wp_call
    by (simp add: wp_if wp_fail wp_option upd split: sum.split option.split)
qed

lemma same_phase_dep: "same_phase r' r \<Longrightarrow> \<not> dep_phase (rl_phase r) \<Longrightarrow> \<not> dep_phase (rl_phase r')"
  by (simp add: same_phase_def)

lemma only_undeployed_sync_request:
  assumes "rl_retries d" and "rl_echo d" and "\<not> dep_phase (rl_phase r)"
  shows "only {e. undeployed e} (syncPullRequestStatus d r b)"
  unfolding syncPullRequestStatus_def
proof (rule only_checkI [where P = "\<lambda>r'. same_phase r' r"])
  show "only {e. undeployed e} (if pst_Reference (rlst_PullRequest (rel_Status r)) = ''''
      then ensurePullRequest d r b else ok r)"
    by (intro only_intros only_undeployed_pull_request(1) assms)
  show "wp (if pst_Reference (rlst_PullRequest (rel_Status r)) = '''' then ensurePullRequest d r b else ok r)
      (\<lambda>x t. \<forall>a. x = Inr a \<longrightarrow> same_phase a r) s" for s
    using only_undeployed_pull_request(2) [OF assms] by (simp add: wp_ok same_phase_def)
next
  fix r' assume "same_phase r' r"
  then have "\<not> dep_phase (rl_phase (set_pull_request pr r'))" for pr
    using same_phase_dep [OF _ assms(3)] by (simp add: set_pull_request_def)
  then show "only {e. undeployed e} (check (query (ReadPullRequestStatus
      (pullRequestProvider d (bg_RepoURL (brs_GitOps (br_Spec b))))
        \<lparr>psr_RepositoryURL = bg_RepoURL (brs_GitOps (br_Spec b)),
         psr_Reference = pst_Reference (rlst_PullRequest (rel_Status r'))\<rparr>)) (\<lambda>result. case result of
       None \<Rightarrow> fail (errors_New ''pull request provider returned an empty status'')
     | Some p \<Rightarrow> check (updateReleaseStatus d (set_pull_request p r')) (\<lambda>release.
         ok (release, ToLower (pres_MergeStatus p) = ''merged'', ToLower (pres_MergeStatus p) = ''closed''))))"
    by (intro only_intros only_undeployed_update assms(1))
qed

abbreviation nd :: "Release \<Rightarrow> bool" where
  "nd r \<equiv> \<not> dep_phase (rl_phase r)"

text \<open>The handlers that return the release return it with a phase that is not deployed.\<close>

definition gives_nd :: "('w, Release result) rl_io \<Rightarrow> bool" where
  "gives_nd m \<longleftrightarrow> (\<forall>s. wp m (\<lambda>x t. \<forall>r. x = Inr r \<longrightarrow> nd r) s)"

lemma gives_nd_update:
  assumes "rl_retries d" and "rl_echo d" and "nd r"
  shows "gives_nd (updateReleaseStatus d r)"
  unfolding gives_nd_def
  by (intro allI, rule wp_mono [OF update_phase [OF assms(1,2)]]) (use same_phase_dep [OF _ assms(3)] in blast)

lemma gives_nd_intros:
  "nd r \<Longrightarrow> gives_nd (ok r)"
  "(c \<Longrightarrow> gives_nd m) \<Longrightarrow> (\<not> c \<Longrightarrow> gives_nd n) \<Longrightarrow> gives_nd (if c then m else n)"
  "(\<And>a. gives_nd (f a)) \<Longrightarrow> gives_nd (query q \<bind> f)"
  by (simp_all add: gives_nd_def wp_ok wp_bind wp_query)

lemma gives_nd_ok:
  assumes "\<And>a. nd (g a)"
  shows "gives_nd (check m (\<lambda>a. ok (g a)))"
proof -
  have "wp m (\<lambda>_ _. True) s" for s by (simp add: wp_def split: prod.split)
  then show ?thesis
    unfolding gives_nd_def wp_check by (intro allI) (rule wp_mono, auto simp: wp_ok assms split: sum.split)
qed

lemma gives_nd_marks:
  assumes "rl_retries d" and "rl_echo d"
  shows "gives_nd (markPreparingGitOpsChange d r)" and "gives_nd (markWaitingForSync d r)"
    and "nd r \<Longrightarrow> gives_nd (ensurePullRequest d r b)" and "nd r \<Longrightarrow> gives_nd (persistGitCommitCheckpoint d r commit)"
proof -
  show "gives_nd (markPreparingGitOpsChange d r)" "gives_nd (markWaitingForSync d r)"
    unfolding markPreparingGitOpsChange_def markWaitingForSync_def Let_def
    by (intro gives_nd_intros gives_nd_update assms; simp add: dep_phase_def)+
  show "nd r \<Longrightarrow> gives_nd (ensurePullRequest d r b)"
    unfolding gives_nd_def
    by (intro allI, rule wp_mono [OF only_undeployed_pull_request(2) [OF assms]], assumption) (use same_phase_dep in blast)
  show "nd r \<Longrightarrow> gives_nd (persistGitCommitCheckpoint d r commit)"
    unfolding persistGitCommitCheckpoint_def Let_def by (rule gives_nd_ok) simp
qed

lemma only_check_nd:
  assumes "only E m" and "gives_nd m" and "\<And>r. nd r \<Longrightarrow> only E (f r)"
  shows "only E (check m f)"
  using assms(2) by (intro only_checkI [OF assms(1) _ assms(3)]) (auto simp: gives_nd_def)

text \<open>What entitles the reconciler to call a release deployed.\<close>

definition observed_healthy :: "'w release_deps \<Rightarrow> bool" where
  "observed_healthy d \<longleftrightarrow> (\<exists>key w environment. fst (rld_GetEnvironment d key w) = Inr environment
     \<and> (eg_Provider (es_GitOps (env_Spec environment)) = GitOpsProviderGeneric
       \<or> (\<exists>w' status. fst (status_reader d (deployment_request environment) w') = Inr status \<and> healthy status)))"

lemma only_undeployed_provider:
  assumes "rl_retries d" and "rl_echo d" and "nd r"
    and "\<And>w status. fst (status_reader d (deployment_request environment) w) = Inr status \<Longrightarrow> \<not> healthy status"
  shows "only {e. undeployed e} (syncProviderStatus d r environment)"
proof -
  have keep: "only {e. undeployed e} (keep_waiting d r')" if "nd r'" for r'
    unfolding keep_waiting_def by (intro only_intros only_undeployed_update assms(1) that)
  have failed: "only {e. undeployed e} (rl_finish (markFailed d r' ReleasePhaseFailedProviderStatus reason message))"
    for r' reason message
    by (intro only_intros only_undeployed_marks(6) assms(1,2)) (simp add: dep_phase_def)
  have nd': "nd (observed environment status r)" for status using assms(3) by (simp add: observed_def)
  show ?thesis
    unfolding syncProviderStatus_def Let_def
  proof (rule only_bind_query, goal_cases)
    case (1 w)
    show ?case
    proof (cases "fst (status_reader d (deployment_request environment) w)")
      case (Inl err)
      then show ?thesis
        by (simp only: sum.case) (intro only_intros keep failed; simp add: assms(3))
    next
      case (Inr status)
      then have "\<not> (ds_SyncStatus status = ''Synced'' \<and> ds_HealthStatus status = ''Healthy'')"
        using assms(4) by (simp add: healthy_def)
      then show ?thesis unfolding Inr sum.case if_not_P
        by (intro only_intros keep failed; simp add: nd')
    qed
  qed
qed

lemma only_undeployed_commit_made:
  assumes "rl_retries d" and "rl_echo d" and "nd r"
  shows "only {e. undeployed e} (commit_made d r b open_request)"
proof -
  have committed: "only {e. undeployed e} (check (markGitOpsChangeCommitted d r') (\<lambda>_. ok res))" for r' and res :: ReconcileResult
    by (intro only_intros only_undeployed_marks(4) assms(1,2))
  have failed: "only {e. undeployed e} (rl_finish (markFailed d r ReleasePhaseFailedProviderStatus reason message))"
    for reason message
    by (intro only_intros only_undeployed_marks(6) assms(1,2)) (simp add: dep_phase_def)
  show ?thesis
    unfolding commit_made_def Let_def
    by (intro only_intros committed failed only_undeployed_pull_request(1) assms)
qed

lemma gitFailure_nd: "gitFailure err = (phase, reason) \<Longrightarrow> \<not> dep_phase phase"
  by (auto simp: gitFailure_def dep_phase_def split: option.splits git_operation.splits)

lemma only_undeployed_change:
  assumes "rl_retries d" and "rl_echo d"
  shows "only {e. undeployed e} (reconcile_change d r b)"
  unfolding reconcile_change_def Let_def
proof (rule only_check_nd [OF only_undeployed_marks(3) [OF assms] gives_nd_marks(1) [OF assms]], goal_cases)
  case (1 r')
  have empty: "only {e. undeployed e} (rl_finish (markFailed d r' ReleasePhaseFailedGitCommit reason message))"
    for reason message
    by (intro only_intros only_undeployed_marks(6) assms) (simp add: dep_phase_def)
  have failed: "only {e. undeployed e} (case gitFailure err of (phase, reason) \<Rightarrow> rl_finish (markFailed d r' phase reason message))"
    for err message
    by (intro only_intros only_undeployed_marks(6) assms) (rule gitFailure_nd)
  have rs: "retry_spec (rld_RetryCheckpoint d)" using assms(1) by (simp add: rl_retries_def)
  have persist: "only {e. undeployed e} (persistGitCommitCheckpoint d r' commit)" for commit
    unfolding persistGitCommitCheckpoint_def Let_def by (intro only_intros only_retry [OF rs]) simp
  have made: "only {e. undeployed e} (check (persistGitCommitCheckpoint d r' commit) (\<lambda>release.
        commit_made d (set_commit commit release) b (releasePromotionMode release = PromotionModePullRequest)))" for commit
    by (rule only_check_nd [OF persist gives_nd_marks(4) [OF assms 1]])
      (intro only_undeployed_commit_made assms, simp add: set_commit_def)
  show ?case by (intro only_intros empty failed made) simp
qed

lemma only_undeployed_observe:
  assumes "rl_retries d" and "rl_echo d" and "nd r"
    and "eg_Provider (es_GitOps (env_Spec environment)) \<noteq> GitOpsProviderGeneric"
    and "\<And>w status. fst (status_reader d (deployment_request environment) w) = Inr status \<Longrightarrow> \<not> healthy status"
  shows "only {e. undeployed e} (reconcile_observe d r b environment)"
proof -
  have waiting: "only {e. undeployed e} (check (markWaitingForSync d r') (\<lambda>release.
        if eg_Provider (es_GitOps (env_Spec environment)) = GitOpsProviderGeneric
        then rl_finish (markDeployed d release ''GitOpsCommitApplied''
               ''Generic GitOps policy treats a committed change as deployed.'')
        else syncProviderStatus d release environment))" for r'
    by (rule only_check_nd [OF only_undeployed_marks(5) [OF assms(1,2)] gives_nd_marks(2) [OF assms(1,2)]])
      (use assms(4) only_undeployed_provider [OF assms(1,2) _ assms(5)] in simp)
  have failed: "only {e. undeployed e} (rl_finish (markFailed d r' phase reason message))"
    if "\<not> dep_phase phase" for r' phase reason message
    by (intro only_intros only_undeployed_marks(6) assms(1,2) that)
  show ?thesis
    unfolding reconcile_observe_def Let_def
    by (intro only_intros only_undeployed_commit_made only_undeployed_sync_request waiting failed assms(1-3))
      (simp_all add: dep_phase_def)
qed

lemma only_undeployed_reconcile:
  assumes "rl_retries d" and "rl_echo d" and "\<not> observed_healthy d"
  shows "only {e. undeployed e} (reconcile_release d key)"
proof -
  have failed: "only {e. undeployed e} (rl_finish (markFailed d r' phase reason message))"
    if "\<not> dep_phase phase" for r' phase reason message
    by (intro only_intros only_undeployed_marks(6) assms(1,2) that)
  have loads: "only {e. undeployed e} (loadBuildRun d r)" for r
    unfolding loadBuildRun_def by (intro only_intros)
  have gates: "only {e. undeployed e} (reconcile_gates d r b environment)"
    if r: "nd r" and e: "fst (rld_GetEnvironment d k w) = Inr environment" for r b environment k w
  proof -
    have env: "eg_Provider (es_GitOps (env_Spec environment)) \<noteq> GitOpsProviderGeneric"
      "\<And>w status. fst (status_reader d (deployment_request environment) w) = Inr status \<Longrightarrow> \<not> healthy status"
      using assms(3) e unfolding observed_healthy_def by blast+
    show ?thesis
      unfolding reconcile_gates_def Let_def
      by (intro only_intros only_undeployed_marks failed only_undeployed_change only_undeployed_observe assms(1,2) env)
        (use r in \<open>simp_all add: dep_phase_def set_commit_def\<close>)
  qed
  have environment: "only {e. undeployed e} (loadEnvironment d r \<bind> (\<lambda>e. case e of
        Inl err \<Rightarrow> rl_finish (markFailed d r ReleasePhaseFailedValidation ''EnvironmentUnavailable'' (err_text err))
      | Inr environment \<Rightarrow> reconcile_gates d r b environment))" if "nd r" for r b
  proof -
    have "only {e. undeployed e} (query (rld_GetEnvironment d k) \<bind> (\<lambda>x. case (case x of Inl err \<Rightarrow> Inl (errorf_w label err)
          | Inr a \<Rightarrow> Inr a) of
        Inl err \<Rightarrow> rl_finish (markFailed d r ReleasePhaseFailedValidation ''EnvironmentUnavailable'' (err_text err))
      | Inr environment \<Rightarrow> reconcile_gates d r b environment))" for k label
      by (rule only_bind_query) (auto split: sum.split intro!: failed gates [OF that] simp: dep_phase_def)
    then show ?thesis
      unfolding loadEnvironment_def wrap_def bind_assoc bind_left_identity .
  qed
  show ?thesis
    unfolding reconcile_release_def
    by (intro only_intros failed loads environment) (auto simp: dep_phase_def)
qed

text \<open>
  C7: a release is reported \<open>Deployed\<close> (or \<open>RolledBack\<close>) only by virtue of an observation: its
  environment uses the generic provider, for which a commit is all there is, or the status reader
  has answered for the environment's deployment that it is synced and healthy.
\<close>

theorem deployed_only_if_healthy:
  assumes "rl_retries d" and "rl_echo d"
    and "ReleaseStatusUpdate r \<in> set (exec_trace (reconcile_release d key) w)"
    and "rl_phase r = ReleasePhaseDeployed \<or> rl_phase r = ReleasePhaseRolledBack"
  shows "observed_healthy d"
proof (rule ccontr)
  assume "\<not> observed_healthy d"
  from only_exec [OF only_undeployed_reconcile [OF assms(1,2) this], of key w] assms(3,4)
  show False by (auto simp: dep_phase_def)
qed

text \<open>The sample release, waiting for its deployment, is reported deployed in the cooperative world.\<close>

definition waiting_release :: Release where
  "waiting_release = sample_release\<lparr>rel_Status := ReleaseStatus_zero\<lparr>rlst_Phase := ReleasePhaseWaitingForSync,
     rlst_GitCommit := ''c1''\<rparr>\<rparr>"

theorem deployed_only_if_healthy_witness:
  "\<exists>r. ReleaseStatusUpdate r \<in> set (exec_trace (reconcile_release
     (coop 7 ''c1'' sample_promoted sample_environment) \<lparr>key_Namespace = ''ci'', key_Name = ''r1''\<rparr>) waiting_release)
   \<and> rl_phase r = ReleasePhaseDeployed \<and> observed_healthy (coop 7 ''c1'' sample_promoted sample_environment)"
proof -
  let ?key = "\<lparr>key_Namespace = ''ci'', key_Name = ''r1''\<rparr>"
  let ?d = "coop 7 ''c1'' sample_promoted sample_environment"
  let ?p = "ToStatus (EvaluateRelease 7 \<lparr>ri_Release = Some waiting_release, ri_BuildRun = Some sample_promoted,
      ri_Environment = Some sample_environment\<rparr>)"
  let ?asked = "\<lambda>t :: (Release, rl_effect) sys. \<exists>r. ReleaseStatusUpdate r \<in> set (trace t) \<and> rl_phase r = ReleasePhaseDeployed"
  have r: "rel_Spec waiting_release = rel_Spec sample_release" "rl_phase waiting_release = ReleasePhaseWaitingForSync"
    by (simp_all add: waiting_release_def)
  have "ready 7 sample_promoted sample_environment waiting_release"
    by (rule ready_spec [OF sample_ready]) (simp_all add: waiting_release_def deploymentTimedOut_def ReleaseStatus_zero_def)
  note gates = ready_gates [OF this, of "''c1''" ?key _ "start waiting_release", folded start_ext]
  have commit: "recorded_commit waiting_release = ''c1''"
    by (simp add: recorded_commit_def waiting_release_def)
  have spec: "rls_RollbackOf (rel_Spec sample_release) = ''''"
    "rls_PromotionMode (rel_Spec sample_release) = PromotionModeUnset"
    by (simp_all add: sample_release_def Release_zero_def ReleaseSpec_zero_def)
  have marked: "wp (rl_finish (markDeployed ?d r reason message)) (\<lambda>x. ?asked) s"
    if "rls_RollbackOf (rel_Spec r) = ''''" for r reason message s
    using that
    by (simp add: rl_finish_def markDeployed_def Let_def wp_simps updateReleaseStatus_def UpdateStatusWithRetry_def
        numeral_eq_Suc update_attempt_def notifyRelease_def copyStatus_def release_ops_def rl_condition_def)
      (rule exI, rule conjI, rule disjI1, rule refl, simp)
  have nogeneric: "(eg_Provider (es_GitOps (env_Spec sample_environment)) = GitOpsProviderGeneric) = False"
    by (simp add: sample_environment_def)
  have obs: "wp (reconcile_observe ?d r0 sample_promoted sample_environment) (\<lambda>x. ?asked) s"
    if r0: "rl_phase r0 = ReleasePhaseWaitingForSync" "rel_Spec r0 = rel_Spec sample_release" for r0 s
  proof -
    have mode: "(releasePromotionMode r0 = PromotionModePullRequest) = False"
      using r0 spec by (simp add: releasePromotionMode_def)
    have "wp (syncProviderStatus ?d r0 sample_environment) (\<lambda>x. ?asked) s"
      unfolding syncProviderStatus_def Let_def wp_bind wp_query coop_sels fst_conv sum.case
      by (simp add: marked observed_def r0 spec)
    then show ?thesis
      unfolding reconcile_observe_def Let_def mode nogeneric markWaitingForSync_def r0(1) wp_check
      by (simp add: wp_check wp_ok)
  qed
  have "wp (reconcile_observe ?d (set_commit (recorded_commit waiting_release) (waiting_release\<lparr>rel_Status :=
      (rel_Status waiting_release)\<lparr>rlst_Policy := ?p, rlst_Approval := approvalStatus waiting_release\<rparr>\<rparr>))
      sample_promoted sample_environment) (\<lambda>x. ?asked) (start waiting_release)"
    by (rule obs) (simp_all add: set_commit_def r)
  then have "wp (reconcile_release ?d ?key) (\<lambda>x. ?asked) (start waiting_release)"
    unfolding gates by (simp add: commit)
  then obtain r where r: "ReleaseStatusUpdate r \<in> set (exec_trace (reconcile_release ?d ?key) waiting_release)"
    "rl_phase r = ReleasePhaseDeployed"
    by (auto simp: wp_def exec_trace_def split: prod.splits)
  have "rl_retries ?d" "rl_echo ?d" by (simp_all add: rl_retries_def retry_spec_attempts rl_echo_def)
  from deployed_only_if_healthy [OF this r(1) disjI1 [OF r(2)]] r show ?thesis by (intro exI conjI)
qed

section \<open>What a failed change tells\<close>

fun is_push :: "git_effect \<Rightarrow> bool" where
  "is_push (GitPushed dir branch) = True"
| "is_push _ = False"

fun is_publication :: "git_effect \<Rightarrow> bool" where
  "is_publication (GitAddedAll dir) = True"
| "is_publication (GitCommitted dir message) = True"
| "is_publication (GitPushed dir branch) = True"
| "is_publication _ = False"

fun is_switch :: "git_effect \<Rightarrow> bool" where
  "is_switch (GitCheckedOut dir branch) = True"
| "is_switch (GitBranchCreated dir base branch) = True"
| "is_switch _ = False"

lemma writes_no_publication: "list_all (writes_in dir) ws \<Longrightarrow> e \<in> set ws \<Longrightarrow> \<not> is_publication e \<and> \<not> is_push e"
  by (cases e) (auto simp: list_all_iff writes_in_def dest!: bspec)

lemma prefix_three: "prefix p [a, b, c] \<longleftrightarrow> p = [] \<or> p = [a] \<or> p = [a, b] \<or> p = [a, b, c]"
  by (auto simp: prefix_Cons)

text \<open>
  C19: the phase of a release that failed on its GitOps change tells how far the change came, for
  the provider of \<open>internal/gitops\<close>: \<open>FailedGitClone\<close> if the branch was not reached,
  \<open>FailedGitPush\<close> if the push was tried, \<open>FailedGitCommit\<close> if the publication was begun but the push
  not reached.
\<close>

theorem git_failure_phase:
  assumes "walk_spec d" and "exec_result (UpdateImage d req) w = Inl err"
    and "exec_trace (UpdateImage d req) w \<noteq> []"
  shows "(list_ex is_push (exec_trace (UpdateImage d req) w) \<longrightarrow>
      gitFailure err = (ReleasePhaseFailedGitPush, ''GitPushFailed''))
    \<and> (list_ex is_publication (exec_trace (UpdateImage d req) w) \<and> \<not> list_ex is_push (exec_trace (UpdateImage d req) w) \<longrightarrow>
      gitFailure err = (ReleasePhaseFailedGitCommit, ''GitCommitFailed''))
    \<and> (\<not> list_ex is_switch (exec_trace (UpdateImage d req) w) \<longrightarrow>
      gitFailure err = (ReleasePhaseFailedGitClone, ''GitCloneFailed''))"
proof -
  from UpdateImage_steps [OF assms(1), of req w] assms(2,3) obtain workdir tr where
      tr: "exec_trace (UpdateImage d req) w = tr @ [WorkdirRemoved workdir]"
    and wt: "workdir_trace (FilepathJoin [workdir, ''repo'']) req (Inl err) tr"
    by auto
  define dir where "dir = FilepathJoin [workdir, ''repo'']"
  from wt obtain branch writes published where
      t: "tr = GitCloned (uir_RepositoryURL req) dir # branch @ writes @ published"
    and branch: "prefix branch [if uir_BaseBranch req \<noteq> '''' then GitBranchCreated dir (uir_BaseBranch req) (uir_Branch req)
                      else GitCheckedOut dir (uir_Branch req)]"
    and writes: "list_all (writes_in dir) writes"
    and published: "prefix published (if writes = [] then [] else publish_steps dir req)"
    and none: "branch = [] \<longrightarrow> first_operation (err_tags err) = Some OperationClone"
    and some: "published \<noteq> [] \<longrightarrow> first_operation (err_tags err) =
      Some (if published = publish_steps dir req then OperationPush else OperationCommit)"
    unfolding workdir_trace_def dir_def [symmetric] by auto
  have b: "\<not> list_ex is_publication branch" "\<not> list_ex is_push branch" "branch \<noteq> [] \<Longrightarrow> list_ex is_switch branch"
    using branch by (auto simp: prefix_Cons split: if_splits)
  have ws: "\<not> list_ex is_publication writes" "\<not> list_ex is_push writes"
    using writes_no_publication [OF writes] by (auto simp: list_ex_iff)
  have p: "published = [] \<or> list_ex is_publication published" "list_ex is_push published \<longleftrightarrow> published = publish_steps dir req"
    using published by (auto simp: publish_steps_def prefix_three split: if_splits)
  have push: "list_ex is_push (exec_trace (UpdateImage d req) w) \<longleftrightarrow> published = publish_steps dir req"
    and pub: "list_ex is_publication (exec_trace (UpdateImage d req) w) \<longleftrightarrow> published \<noteq> []"
    using b ws p by (auto simp: tr t)
  have switch: "\<not> list_ex is_switch (exec_trace (UpdateImage d req) w) \<Longrightarrow> branch = []"
    using b(3) by (auto simp: tr t)
  have full: "publish_steps dir req \<noteq> []" by (simp add: publish_steps_def)
  show ?thesis
    unfolding push pub using switch none some full by (auto simp: gitFailure_def)
qed

text \<open>The sample change of a repository whose remote rejects the push.\<close>

definition rejecting_gitops :: "unit gitops_deps" where
  "rejecting_gitops = sample_gitops\<lparr>god_Git := Some (sample_git\<lparr>git_Push :=
     (\<lambda>dir b w. (Inl (errors_New ''rejected''), w))\<rparr>)\<rparr>"

theorem git_failure_phase_witness:
  "\<exists>err. exec_result (UpdateImage rejecting_gitops sample_update) () = Inl err
     \<and> gitFailure err = (ReleasePhaseFailedGitPush, ''GitPushFailed'')"
proof -
  have w: "walk_spec rejecting_gitops" by (simp add: walk_spec_def rejecting_gitops_def sample_gitops_def)
  have run: "exec_result (UpdateImage rejecting_gitops sample_update) () = Inl (operation_error OperationPush (errors_New ''rejected''))
     \<and> exec_trace (UpdateImage rejecting_gitops sample_update) () =
     [GitCloned ''r'' ''/tmp/w/repo'', GitCheckedOut ''/tmp/w/repo'' ''main'',
      FileWritten ''/tmp/w/repo/kustomization.yaml'' ''images'', GitAddedAll ''/tmp/w/repo'',
      GitCommitted ''/tmp/w/repo'' ''cloudivision: release v1 image app:1'', GitPushed ''/tmp/w/repo'' ''main'',
      WorkdirRemoved ''/tmp/w'']"
    by (simp add: exec_result_def exec_trace_def UpdateImage_def sample_update_def rejecting_gitops_def sample_gitops_def
        sample_git_def check_def wrap_def stage_def run_query run_call start_def update_in_workdir_def Let_def sample_paths
        as_operation_def updateImageFilesConfigured_def kustomize_config_def updateKustomizationConfigured_def
        update_kustomization_map_def ok_def write_file_def publish_change_def imageString_def ImageRef_zero_def)
  from git_failure_phase [OF w conjunct1 [OF run]] run show ?thesis by simp
qed

end
