(* ===== verification/Auth.thy ===== *)
theory Auth
  imports ControllerKit
begin

text \<open>
  Authorization: the roles and permissions of \<open>internal/auth/model.go\<close> and \<open>policy.go\<close>, the group
  mapping of \<open>groups.go\<close>, the organization directory of \<open>organizations.go\<close>, and the middleware
  \<open>auth\<close> of \<open>internal/api/server.go\<close> that puts them in front of every handler. The authenticator and
  the directory that the server is configured with are arguments of the middleware.
\<close>

section \<open>Roles and principals\<close>

datatype Role =
  RoleAdmin | RoleOrgAdmin | RoleProjectAdmin | RoleDeveloper | RoleViewer | RoleAuditor | RoleOther string

text \<open>\<open>Role(s)\<close>, the conversion of a configured string.\<close>

definition to_Role :: "string \<Rightarrow> Role" where
  "to_Role s =
     (if s = ''admin'' then RoleAdmin else if s = ''org-admin'' then RoleOrgAdmin
      else if s = ''project-admin'' then RoleProjectAdmin else if s = ''developer'' then RoleDeveloper
      else if s = ''viewer'' then RoleViewer else if s = ''auditor'' then RoleAuditor else RoleOther s)"

record Principal =
  pc_Subject :: string
  pc_Email :: string
  pc_Groups :: "string list"
  pc_DisplayName :: string
  pc_Roles :: "Role list"
  pc_DevMode :: bool

definition Principal_zero :: Principal where
  "Principal_zero = \<lparr>pc_Subject = '''', pc_Email = '''', pc_Groups = [], pc_DisplayName = '''',
     pc_Roles = [], pc_DevMode = False\<rparr>"

text \<open>What \<open>ActorFromContext\<close> reads: the principal that the middleware stored, if any.\<close>

definition ActorFromContext :: "Principal option \<Rightarrow> string \<Rightarrow> string" where
  "ActorFromContext prin fallback =
     (case prin of
        None \<Rightarrow> fallback
      | Some p \<Rightarrow> if pc_Subject p = '''' then fallback
                  else if pc_Email p \<noteq> '''' then pc_Email p else pc_Subject p)"

definition DisabledAuthenticator :: Principal where
  "DisabledAuthenticator = Principal_zero\<lparr>pc_Subject := ''dev-user'', pc_Email := ''dev-user@localhost'',
     pc_DisplayName := ''Development User'', pc_Roles := [RoleAdmin], pc_DevMode := True\<rparr>"


section \<open>Permissions\<close>

datatype Permission =
  PermissionRead | PermissionTriggerBuild | PermissionManageProjects | PermissionApproveRelease
| PermissionAuditExport | PermissionAdmin

fun Permission_string :: "Permission \<Rightarrow> string" where
  "Permission_string PermissionRead = ''read''"
| "Permission_string PermissionTriggerBuild = ''trigger-build''"
| "Permission_string PermissionManageProjects = ''manage-projects''"
| "Permission_string PermissionApproveRelease = ''approve-release''"
| "Permission_string PermissionAuditExport = ''audit-export''"
| "Permission_string PermissionAdmin = ''admin''"

text \<open>The permission a request needs, and whether it is protected at all.\<close>

definition RequiredPermission :: "string \<Rightarrow> string \<Rightarrow> Permission \<times> bool" where
  "RequiredPermission verb path =
     (if path = ''/healthz'' \<or> path = ''/readyz'' then (PermissionRead, False)
      else if HasPrefix path ''/api/v1/webhooks/'' then (PermissionTriggerBuild, False)
      else if verb = ''GET'' \<and> (path = ''/api/v1/audit/events/export'' \<or> HasPrefix path ''/api/v1/reports/'')
      then (PermissionAuditExport, True)
      else if verb = ''GET'' then (PermissionRead, True)
      else if verb = ''POST'' \<and> (path = ''/api/v1/build-runs'' \<or> HasPrefix path ''/api/v1/build-runs/'' \<and>
          (HasSuffix path ''/cancel'' \<or> HasSuffix path ''/retry'' \<or> HasSuffix path ''/rerun''))
      then (PermissionTriggerBuild, True)
      else if verb = ''POST'' \<and> HasPrefix path ''/api/v1/releases/'' \<and>
          (HasSuffix path ''/approve'' \<or> HasSuffix path ''/reject'')
      then (PermissionApproveRelease, True)
      else if verb = ''POST'' \<and> (path = ''/api/v1/projects''
          \<or> HasPrefix path ''/api/v1/projects/'' \<and> HasSuffix path ''/cache/purge''
          \<or> path = ''/api/v1/repositories'' \<or> path = ''/api/v1/pipeline-templates'')
      then (PermissionManageProjects, True)
      else (PermissionAdmin, True))"

text \<open>One turn of the loop over the roles.\<close>

definition role_allows :: "Role \<Rightarrow> Permission \<Rightarrow> bool" where
  "role_allows role permission =
     (if role = RoleAdmin \<or> role = RoleOrgAdmin then True
      else case permission of
        PermissionRead \<Rightarrow>
          role = RoleViewer \<or> role = RoleDeveloper \<or> role = RoleProjectAdmin \<or> role = RoleAuditor
      | PermissionTriggerBuild \<Rightarrow> role = RoleDeveloper \<or> role = RoleProjectAdmin
      | PermissionApproveRelease \<Rightarrow> role = RoleDeveloper \<or> role = RoleProjectAdmin
      | PermissionManageProjects \<Rightarrow> role = RoleProjectAdmin
      | PermissionAuditExport \<Rightarrow> role = RoleAuditor \<or> role = RoleProjectAdmin
      | PermissionAdmin \<Rightarrow> False)"

fun roles_allow :: "Role list \<Rightarrow> Permission \<Rightarrow> bool" where
  "roles_allow [] permission = False"
| "roles_allow (role # roles) permission = (role_allows role permission \<or> roles_allow roles permission)"

definition Allowed :: "Principal option \<Rightarrow> Permission \<Rightarrow> bool" where
  "Allowed prin permission =
     (case prin of None \<Rightarrow> False | Some p \<Rightarrow> roles_allow (pc_Roles p) permission)"

lemma roles_allow_iff: "roles_allow roles permission \<longleftrightarrow> (\<exists>r\<in>set roles. role_allows r permission)"
  by (induction roles) auto

lemma Allowed_iff:
  "Allowed prin permission \<longleftrightarrow> (\<exists>p. prin = Some p \<and> (\<exists>r\<in>set (pc_Roles p). role_allows r permission))"
  by (auto simp: Allowed_def roles_allow_iff split: option.splits)

text \<open>The access matrix by role.\<close>

fun permissions_of :: "Role \<Rightarrow> Permission set" where
  "permissions_of RoleAdmin = UNIV"
| "permissions_of RoleOrgAdmin = UNIV"
| "permissions_of RoleProjectAdmin = UNIV - {PermissionAdmin}"
| "permissions_of RoleDeveloper = {PermissionRead, PermissionTriggerBuild, PermissionApproveRelease}"
| "permissions_of RoleViewer = {PermissionRead}"
| "permissions_of RoleAuditor = {PermissionRead, PermissionAuditExport}"
| "permissions_of (RoleOther s) = {}"

lemma role_allows_matrix: "role_allows r permission \<longleftrightarrow> permission \<in> permissions_of r"
  by (cases r; cases permission) (simp_all add: role_allows_def)


section \<open>Group mappings\<close>

record GroupMapping =
  gm_Group :: string
  gm_Role :: string
  gm_Scope :: string
  gm_Project :: string

text \<open>
  The loop over the mappings, with the roles taken so far. Roles are compared as the configured
  strings.
\<close>

fun mapped_roles :: "string list \<Rightarrow> string list \<Rightarrow> GroupMapping list \<Rightarrow> string list" where
  "mapped_roles groups roles [] = roles"
| "mapped_roles groups roles (m # ms) =
     (if gm_Group m = '''' \<or> gm_Group m \<notin> set groups \<or> gm_Role m = '''' \<or> gm_Role m \<in> set roles
      then mapped_roles groups roles ms
      else mapped_roles groups (roles @ [gm_Role m]) ms)"

definition RolesForGroups :: "string list \<Rightarrow> GroupMapping list \<Rightarrow> Role list" where
  "RolesForGroups groups mappings =
     (let roles = mapped_roles groups [] mappings in
      if roles = [] then [RoleViewer] else map to_Role roles)"

definition mapping_applies :: "string list \<Rightarrow> GroupMapping \<Rightarrow> bool" where
  "mapping_applies groups m \<longleftrightarrow> gm_Group m \<noteq> '''' \<and> gm_Group m \<in> set groups \<and> gm_Role m \<noteq> ''''"

lemma set_mapped_roles:
  "set (mapped_roles groups roles ms) = set roles \<union> gm_Role ` {m \<in> set ms. mapping_applies groups m}"
  by (induction groups roles ms rule: mapped_roles.induct) (auto simp: mapping_applies_def)

lemma distinct_mapped_roles: "distinct roles \<Longrightarrow> distinct (mapped_roles groups roles ms)"
  by (induction groups roles ms rule: mapped_roles.induct) auto

text \<open>A user has the roles mapped to the groups of the token, and is a viewer without any.\<close>

lemma set_RolesForGroups:
  "set (RolesForGroups groups ms) =
     (let applying = {m \<in> set ms. mapping_applies groups m} in
      if applying = {} then {RoleViewer} else (\<lambda>m. to_Role (gm_Role m)) ` applying)"
proof -
  define a where "a = {m \<in> set ms. mapping_applies groups m}"
  define rs where "rs = mapped_roles groups [] ms"
  have roles: "set rs = gm_Role ` a" by (simp add: set_mapped_roles rs_def a_def)
  then have empty: "rs = [] \<longleftrightarrow> a = {}" by (cases rs) auto
  have "RolesForGroups groups ms = (if rs = [] then [RoleViewer] else map to_Role rs)"
    by (simp add: RolesForGroups_def Let_def rs_def)
  then have "set (RolesForGroups groups ms) = (if a = {} then {RoleViewer} else (\<lambda>m. to_Role (gm_Role m)) ` a)"
    using roles empty by (simp add: image_image)
  then show ?thesis unfolding Let_def a_def .
qed


section \<open>The organization directory\<close>

record Membership =
  mb_OrganizationID :: string
  mb_UserSubject :: string
  mb_TeamID :: string
  mb_Role :: Role

record ProjectAccess =
  pac_OrganizationID :: string
  pac_Project :: string
  pac_TeamID :: string
  pac_Role :: Role

record Organization =
  org_ID :: string
  org_Name :: string

record Team =
  team_ID :: string
  team_OrganizationID :: string
  team_Name :: string

record MemoryDirectory =
  dir_Organizations :: "Organization list"
  dir_Teams :: "Team list"
  dir_Memberships :: "Membership list"
  dir_ProjectAccess :: "ProjectAccess list"

definition NewDevelopmentDirectory :: MemoryDirectory where
  "NewDevelopmentDirectory =
     \<lparr>dir_Organizations = [\<lparr>org_ID = ''default'', org_Name = ''Default organization''\<rparr>],
      dir_Teams = [\<lparr>team_ID = ''platform'', team_OrganizationID = ''default'', team_Name = ''Platform''\<rparr>],
      dir_Memberships =
        [\<lparr>mb_OrganizationID = ''default'', mb_UserSubject = ''dev-user'', mb_TeamID = '''', mb_Role = RoleOrgAdmin\<rparr>,
         \<lparr>mb_OrganizationID = ''default'', mb_UserSubject = ''dev-user'', mb_TeamID = ''platform'', mb_Role = RoleDeveloper\<rparr>],
      dir_ProjectAccess = []\<rparr>"

definition ListOrganizations :: "MemoryDirectory \<Rightarrow> string \<Rightarrow> Organization list" where
  "ListOrganizations d subject =
     (let allowed = map mb_OrganizationID (filter (\<lambda>m. mb_UserSubject m = subject) (dir_Memberships d)) in
      filter (\<lambda>org. org_ID org \<in> set allowed) (dir_Organizations d))"

definition ListTeams :: "MemoryDirectory \<Rightarrow> string \<Rightarrow> Team list" where
  "ListTeams d organization = filter (\<lambda>v. team_OrganizationID v = organization) (dir_Teams d)"

definition ListMemberships :: "MemoryDirectory \<Rightarrow> string \<Rightarrow> Membership list" where
  "ListMemberships d organization =
     filter (\<lambda>v. mb_OrganizationID v = organization) (dir_Memberships d)"

definition ListProjectAccess :: "MemoryDirectory \<Rightarrow> string \<Rightarrow> ProjectAccess list" where
  "ListProjectAccess d organization =
     filter (\<lambda>v. pac_OrganizationID v = organization) (dir_ProjectAccess d)"

text \<open>
  The loop over the memberships of \<open>MemoryDirectory.Allowed\<close>: \<open>None\<close> when a membership of the
  organization itself grants the permission (the code returns), otherwise the teams of the user.
\<close>

fun membership_scan :: "string \<Rightarrow> string \<Rightarrow> Permission \<Rightarrow> string list \<Rightarrow> Membership list \<Rightarrow> string list option" where
  "membership_scan organization subject permission teams [] = Some teams"
| "membership_scan organization subject permission teams (m # ms) =
     (if mb_OrganizationID m \<noteq> organization \<or> mb_UserSubject m \<noteq> subject
      then membership_scan organization subject permission teams ms
      else if mb_TeamID m \<noteq> ''''
      then membership_scan organization subject permission (mb_TeamID m # teams) ms
      else if Allowed (Some (Principal_zero\<lparr>pc_Roles := [mb_Role m]\<rparr>)) permission then None
      else membership_scan organization subject permission teams ms)"

definition directory_Allowed ::
  "MemoryDirectory \<Rightarrow> Principal option \<Rightarrow> string \<Rightarrow> string \<Rightarrow> Permission \<Rightarrow> bool" where
  "directory_Allowed d prin organization project permission =
     (case prin of
        None \<Rightarrow> False
      | Some p \<Rightarrow>
          if Allowed prin PermissionAdmin then True
          else (case membership_scan organization (pc_Subject p) permission [] (dir_Memberships d) of
              None \<Rightarrow> True
            | Some teams \<Rightarrow>
                if project = '''' then False
                else list_ex (\<lambda>a. pac_OrganizationID a = organization \<and> pac_Project a = project
                       \<and> pac_TeamID a \<in> set teams
                       \<and> Allowed (Some (Principal_zero\<lparr>pc_Roles := [pac_Role a]\<rparr>)) permission)
                     (dir_ProjectAccess d)))"

text \<open>What the directory is meant to grant.\<close>

definition member_grant :: "MemoryDirectory \<Rightarrow> string \<Rightarrow> string \<Rightarrow> Permission \<Rightarrow> bool" where
  "member_grant d subject organization permission \<longleftrightarrow>
     (\<exists>m\<in>set (dir_Memberships d). mb_OrganizationID m = organization \<and> mb_UserSubject m = subject
        \<and> mb_TeamID m = '''' \<and> permission \<in> permissions_of (mb_Role m))"

definition team_grant :: "MemoryDirectory \<Rightarrow> string \<Rightarrow> string \<Rightarrow> string \<Rightarrow> Permission \<Rightarrow> bool" where
  "team_grant d subject organization project permission \<longleftrightarrow>
     (\<exists>m\<in>set (dir_Memberships d). \<exists>a\<in>set (dir_ProjectAccess d).
        mb_OrganizationID m = organization \<and> mb_UserSubject m = subject \<and> mb_TeamID m \<noteq> ''''
        \<and> pac_OrganizationID a = organization \<and> pac_Project a = project \<and> pac_TeamID a = mb_TeamID m
        \<and> permission \<in> permissions_of (pac_Role a))"

lemma Allowed_single: "Allowed (Some (Principal_zero\<lparr>pc_Roles := [r]\<rparr>)) permission \<longleftrightarrow> permission \<in> permissions_of r"
  by (simp add: Allowed_def role_allows_matrix)

lemma membership_scan_None:
  "membership_scan org subj perm teams ms = None \<longleftrightarrow>
     (\<exists>m\<in>set ms. mb_OrganizationID m = org \<and> mb_UserSubject m = subj \<and> mb_TeamID m = ''''
        \<and> perm \<in> permissions_of (mb_Role m))"
  by (induction org subj perm teams ms rule: membership_scan.induct) (auto simp: Allowed_single)

lemma membership_scan_Some:
  "membership_scan org subj perm teams ms = Some ts \<Longrightarrow>
   set ts = set teams \<union> mb_TeamID ` {m \<in> set ms. mb_OrganizationID m = org \<and> mb_UserSubject m = subj \<and> mb_TeamID m \<noteq> ''''}"
  by (induction org subj perm teams ms rule: membership_scan.induct) (auto split: if_splits)

text \<open>
  The organization directory grants a permission exactly to administrators, to users with a
  membership of the organization itself whose role has the permission, and, when the request names
  a project, to members of a team with access to that project of that organization in a role that
  has it. A team membership alone grants nothing, and nothing is granted across organizations.
\<close>

theorem directory_Allowed_iff:
  "directory_Allowed d (Some p) organization project permission \<longleftrightarrow>
     RoleAdmin \<in> set (pc_Roles p) \<or> RoleOrgAdmin \<in> set (pc_Roles p)
     \<or> member_grant d (pc_Subject p) organization permission
     \<or> project \<noteq> '''' \<and> team_grant d (pc_Subject p) organization project permission"
proof -
  have admin: "Allowed (Some p) PermissionAdmin \<longleftrightarrow> RoleAdmin \<in> set (pc_Roles p) \<or> RoleOrgAdmin \<in> set (pc_Roles p)"
    by (auto simp: Allowed_iff role_allows_def)
  show ?thesis
  proof (cases "membership_scan organization (pc_Subject p) permission [] (dir_Memberships d)")
    case None
    then have "member_grant d (pc_Subject p) organization permission"
      by (simp add: member_grant_def membership_scan_None)
    then show ?thesis using None by (simp add: directory_Allowed_def)
  next
    case (Some teams)
    then have "\<not> member_grant d (pc_Subject p) organization permission"
      unfolding member_grant_def by (metis membership_scan_None option.distinct(1))
    then show ?thesis
      using Some membership_scan_Some [OF Some]
      by (auto simp: directory_Allowed_def admin team_grant_def list_ex_iff Allowed_single)
  qed
qed


section \<open>The middleware\<close>

record 'w auth_config =
  ac_Authenticator :: "('w \<Rightarrow> Principal result \<times> 'w) option"
  ac_AuthMode :: string
  ac_Organizations :: "(Principal \<Rightarrow> string \<Rightarrow> string \<Rightarrow> Permission \<Rightarrow> 'w \<Rightarrow> bool result \<times> 'w) option"

record auth_request =
  arq_Method :: string
  arq_Path :: string
  arq_Organization :: string
  arq_Project :: string

datatype auth_effect = Authenticated | DirectoryAsked string string Permission

text \<open>The status and code that \<open>Server.writeError\<close> gives to an error of the client or a directory.\<close>

definition error_response :: "go_error \<Rightarrow> int \<times> string" where
  "error_response err =
     (if errors_Is err NotFound then (404, ''not_found'')
      else if errors_Is err AlreadyExists then (409, ''already_exists'')
      else (500, ''internal_error''))"

text \<open>The outcome: an error response, or the call of the next handler with its context.\<close>

datatype auth_outcome =
    Refused (refused_status: int) (refused_code: string)
  | Passed "Principal option" string

type_synonym 'w auth_io = "('w, auth_effect, auth_outcome) io"

definition webhook_principal :: Principal where
  "webhook_principal = Principal_zero\<lparr>pc_Subject := ''webhook'', pc_DisplayName := ''Webhook'',
     pc_Roles := [RoleDeveloper]\<rparr>"

definition auth_authorize :: "'w auth_config \<Rightarrow> auth_request \<Rightarrow> Permission \<Rightarrow> Principal \<Rightarrow> 'w auth_io" where
  "auth_authorize s r permission prin =
     (if \<not> Allowed (Some prin) permission then State_Monad.return (Refused 403 ''forbidden'')
      else
        let organization = TrimSpace (arq_Organization r);
            organization = (if organization = '''' \<and> pc_DevMode prin then ''default'' else organization) in
        if organization \<noteq> '''' \<and> ac_Organizations s \<noteq> None \<and> \<not> pc_DevMode prin
        then do {
          answer \<leftarrow> call (DirectoryAsked organization (TrimSpace (arq_Project r)) permission)
            (the (ac_Organizations s) prin organization (TrimSpace (arq_Project r)) permission);
          State_Monad.return (case answer of
              Inl err \<Rightarrow> (case error_response err of (status, code) \<Rightarrow> Refused status code)
            | Inr allowed \<Rightarrow>
                if allowed then Passed (Some prin) organization else Refused 403 ''forbidden'')
        }
        else State_Monad.return (Passed (Some prin) organization))"

definition auth_middleware :: "'w auth_config \<Rightarrow> auth_request \<Rightarrow> 'w auth_io" where
  "auth_middleware s r =
     (if arq_Method r = ''OPTIONS'' then State_Monad.return (Passed None '''')
      else case RequiredPermission (arq_Method r) (arq_Path r) of (permission, protected) \<Rightarrow>
        if \<not> protected
        then State_Monad.return
          (if HasPrefix (arq_Path r) ''/api/v1/webhooks/'' then Passed (Some webhook_principal) ''''
           else Passed None '''')
        else
          let mode = ToLower (ac_AuthMode s);
              mode = (if mode = '''' then ''disabled'' else mode) in
          case ac_Authenticator s of
            None \<Rightarrow>
              if mode = ''disabled'' then auth_authorize s r permission DisabledAuthenticator
              else State_Monad.return (Refused 501 ''auth_not_configured'')
          | Some authenticate \<Rightarrow> do {
              answer \<leftarrow> call Authenticated authenticate;
              case answer of
                Inl err \<Rightarrow> State_Monad.return (Refused 401 ''unauthorized'')
              | Inr prin \<Rightarrow> auth_authorize s r permission prin
            })"

text \<open>\<open>requireOrganizationRead\<close>: the refusal, or \<open>None\<close> when the handler may go on.\<close>

definition requireOrganizationRead :: "'w auth_config \<Rightarrow> Principal \<Rightarrow> string \<Rightarrow> 'w \<Rightarrow> (int \<times> string) option \<times> 'w" where
  "requireOrganizationRead s prin organization w =
     (case ac_Organizations s of
        None \<Rightarrow> (Some (503, ''organizations_unavailable''), w)
      | Some ask \<Rightarrow>
          (case ask prin organization '''' PermissionRead w of
             (Inl err, w') \<Rightarrow> (Some (error_response err), w')
           | (Inr allowed, w') \<Rightarrow> (if allowed then None else Some (403, ''forbidden''), w')))"


text \<open>No request that can change state is protected by less than a permission of developers.\<close>

lemma mutating_permission:
  assumes "RequiredPermission verb path = (permission, True)" and "verb \<noteq> ''GET''"
  shows "permission \<notin> {PermissionRead, PermissionAuditExport}"
  using assms by (auto simp: RequiredPermission_def split: if_splits)

text \<open>Where a passed request comes from: who was authenticated, and what the directory answered.\<close>

definition vouched :: "'w auth_config \<Rightarrow> 'w \<Rightarrow> Principal \<Rightarrow> bool" where
  "vouched s w p =
     (case ac_Authenticator s of
        None \<Rightarrow> p = DisabledAuthenticator \<and> ToLower (ac_AuthMode s) \<in> {'''', ''disabled''}
      | Some authenticate \<Rightarrow> fst (authenticate w) = Inr p)"

definition admitted :: "'w auth_config \<Rightarrow> auth_request \<Rightarrow> Permission \<Rightarrow> Principal \<Rightarrow> string \<Rightarrow> bool" where
  "admitted s r permission p organization =
     (if pc_DevMode p \<or> organization = '''' then True
      else case ac_Organizations s of
        None \<Rightarrow> True
      | Some ask \<Rightarrow> \<exists>w. fst (ask p organization (TrimSpace (arq_Project r)) permission w) = Inr True)"

lemma authorize_passes:
  "wp (auth_authorize s r permission p)
     (\<lambda>outcome t. case outcome of Refused status code \<Rightarrow> True
        | Passed who organization \<Rightarrow> who = Some p \<and> (\<exists>role\<in>set (pc_Roles p). permission \<in> permissions_of role)
            \<and> admitted s r permission p organization) u"
  unfolding auth_authorize_def
  by (auto simp: wp_simps Let_def Allowed_iff role_allows_matrix admitted_def
      split: if_splits sum.splits option.splits prod.splits)

text \<open>
  C15: A protected request reaches its handler only as an authenticated principal (or as the
  development user, when no authenticator is configured and the mode is disabled) one of whose roles
  has the required permission; if it names an organization and a directory is configured, the
  directory has admitted it, the development mode aside. A role that only reads (viewer, auditor)
  never passes a request that can change state.
\<close>

theorem auth_passes_authorized_only:
  assumes "exec_result (auth_middleware s r) w = Passed who organization"
    and "RequiredPermission (arq_Method r) (arq_Path r) = (permission, True)"
    and "arq_Method r \<noteq> ''OPTIONS''"
  shows "\<exists>p role. who = Some p \<and> vouched s w p \<and> role \<in> set (pc_Roles p) \<and> permission \<in> permissions_of role
    \<and> admitted s r permission p organization
    \<and> (arq_Method r = ''GET'' \<or> role \<notin> {RoleViewer, RoleAuditor})"
proof -
  let ?Q = "\<lambda>p outcome (t :: ('a, auth_effect) sys). case outcome of Refused status code \<Rightarrow> True
    | Passed who organization \<Rightarrow> who = Some p \<and> (\<exists>role\<in>set (pc_Roles p). permission \<in> permissions_of role)
        \<and> admitted s r permission p organization"
  have "\<exists>p. vouched s w p \<and> who = Some p \<and> (\<exists>role\<in>set (pc_Roles p). permission \<in> permissions_of role)
        \<and> admitted s r permission p organization"
  proof (cases "ac_Authenticator s")
    case None
    then have mode: "ToLower (ac_AuthMode s) \<in> {'''', ''disabled''}"
      and run: "exec_result (auth_authorize s r permission DisabledAuthenticator) w = Passed who organization"
      using assms by (auto simp: auth_middleware_def Let_def exec_result_def split: if_splits)
    have "wp (auth_authorize s r permission DisabledAuthenticator) (?Q DisabledAuthenticator) (start w)"
      by (rule authorize_passes)
    then have "?Q DisabledAuthenticator (Passed who organization) undefined"
      using run by (simp add: wp_def exec_result_def split: prod.splits)
    then show ?thesis using None mode by (auto simp: vouched_def)
  next
    case (Some authenticate)
    have "wp (auth_middleware s r) (\<lambda>outcome t. \<forall>who organization. outcome = Passed who organization \<longrightarrow>
        (\<exists>p. fst (authenticate w) = Inr p \<and> ?Q p outcome t)) (start w)"
    proof (cases "fst (authenticate w)")
      case (Inl err)
      then show ?thesis
        using Some assms(2,3) by (simp add: auth_middleware_def Let_def wp_simps start_def)
    next
      case (Inr p)
      have "wp (auth_authorize s r permission p) (\<lambda>outcome t. \<forall>who organization. outcome = Passed who organization \<longrightarrow>
          (\<exists>p'. Inr p = (Inr p' :: Principal result) \<and> ?Q p' outcome t)) t" for t
        by (rule wp_mono [OF authorize_passes]) auto
      then show ?thesis
        using Some assms(2,3) Inr by (simp add: auth_middleware_def Let_def wp_simps start_def)
    qed
    then have "\<exists>p. fst (authenticate w) = Inr p \<and> ?Q p (Passed who organization) undefined"
      using assms(1) by (auto simp: wp_def exec_result_def split: prod.splits)
    then show ?thesis using Some by (auto simp: vouched_def)
  qed
  then obtain p role where p: "vouched s w p" "who = Some p" "role \<in> set (pc_Roles p)"
    "permission \<in> permissions_of role" "admitted s r permission p organization" by blast
  moreover have "arq_Method r = ''GET'' \<or> role \<notin> {RoleViewer, RoleAuditor}"
    using mutating_permission [OF assms(2)] p(4) by auto
  ultimately show ?thesis by blast
qed

definition sample_auth :: "unit auth_config" where
  "sample_auth = \<lparr>ac_Authenticator = Some (\<lambda>w. (Inr (Principal_zero\<lparr>pc_Subject := ''dana'',
       pc_Roles := [RoleViewer, RoleDeveloper]\<rparr>), w)), ac_AuthMode = ''oidc'',
     ac_Organizations = Some (\<lambda>p org project permission w. (Inr (org = ''default''), w))\<rparr>"

definition sample_auth_request :: auth_request where
  "sample_auth_request = \<lparr>arq_Method = ''POST'', arq_Path = ''/api/v1/build-runs'',
     arq_Organization = '' default'', arq_Project = ''''\<rparr>"

theorem auth_passes_authorized_only_witness:
  "\<exists>p role. exec_result (auth_middleware sample_auth sample_auth_request) () = Passed (Some p) ''default''
     \<and> role \<in> set (pc_Roles p) \<and> PermissionTriggerBuild \<in> permissions_of role
     \<and> role \<notin> {RoleViewer, RoleAuditor}"
proof -
  let ?p = "Principal_zero\<lparr>pc_Subject := ''dana'', pc_Roles := [RoleViewer, RoleDeveloper]\<rparr>"
  have run: "exec_result (auth_middleware sample_auth sample_auth_request) () = Passed (Some ?p) ''default''"
    by code_simp
  have "RequiredPermission (arq_Method sample_auth_request) (arq_Path sample_auth_request) = (PermissionTriggerBuild, True)"
    and verb: "arq_Method sample_auth_request \<noteq> ''OPTIONS''" "arq_Method sample_auth_request \<noteq> ''GET''"
    by code_simp+
  from auth_passes_authorized_only [OF run this(1) verb(1)] verb(2) run show ?thesis by blast
qed

end
