(* ===== verification/Base64.thy ===== *)
theory Base64
  imports GoStrings
begin

text \<open>
  \<open>base64.RawURLEncoding\<close> of Go's standard library, in which page tokens and signed tokens are
  written: the URL alphabet without padding. The decoder skips line ends and, not being strict,
  ignores trailing bits, as Go's does.
\<close>

definition b64_char :: "nat \<Rightarrow> char" where
  "b64_char n =
     (if n < 26 then char_of (65 + n) else if n < 52 then char_of (71 + n)
      else if n < 62 then char_of (n - 4) else if n = 62 then CHR ''-'' else CHR ''_'')"

definition b64_value :: "char \<Rightarrow> nat option" where
  "b64_value c =
     (if is_upper c then Some (byte c - 65) else if is_lower c then Some (byte c - 71)
      else if is_digit c then Some (byte c + 4) else if c = CHR ''-'' then Some 62
      else if c = CHR ''_'' then Some 63 else None)"

fun b64_sextets :: "nat list \<Rightarrow> nat list" where
  "b64_sextets [] = []"
| "b64_sextets [a] = [a div 4, a mod 4 * 16]"
| "b64_sextets [a, b] = [a div 4, a mod 4 * 16 + b div 16, b mod 16 * 4]"
| "b64_sextets (a # b # c # s) =
     a div 4 # (a mod 4 * 16 + b div 16) # (b mod 16 * 4 + c div 64) # (c mod 64) # b64_sextets s"

fun b64_bytes :: "nat list \<Rightarrow> nat list option" where
  "b64_bytes [] = Some []"
| "b64_bytes [x] = None"
| "b64_bytes [x, y] = Some [4 * x + y div 16]"
| "b64_bytes [x, y, z] = Some [4 * x + y div 16, 16 * (y mod 16) + z div 4]"
| "b64_bytes (x # y # z # w # s) =
     map_option (\<lambda>bs. (4 * x + y div 16) # (16 * (y mod 16) + z div 4) # (64 * (z mod 4) + w) # bs) (b64_bytes s)"

definition RawURL_EncodeToString :: "string \<Rightarrow> string" where
  "RawURL_EncodeToString s = map b64_char (b64_sextets (map byte s))"

fun b64_values :: "string \<Rightarrow> nat list option" where
  "b64_values [] = Some []"
| "b64_values (c # s) =
     (if c = CHR 0x0A \<or> c = CHR 0x0D then b64_values s
      else case b64_value c of None \<Rightarrow> None | Some v \<Rightarrow> map_option ((#) v) (b64_values s))"

definition RawURL_DecodeString :: "string \<Rightarrow> string option" where
  "RawURL_DecodeString s =
     (case b64_values s of
        None \<Rightarrow> None
      | Some vs \<Rightarrow> map_option (map char_of) (b64_bytes vs))"


section \<open>Decoding inverts encoding\<close>

lemma byte_b64_char: "n < 64 \<Longrightarrow> byte (b64_char n) =
   (if n < 26 then 65 + n else if n < 52 then 71 + n else if n < 62 then n - 4 else if n = 62 then 45 else 95)"
  by (auto simp: b64_char_def byte_char_of) (simp_all add: byte_def)

lemma b64_value_char:
  assumes "n < 64"
  shows "b64_value (b64_char n) = Some n" and "b64_char n \<noteq> CHR 0x0A" and "b64_char n \<noteq> CHR 0x0D"
proof -
  have b: "byte (CHR 0x0A) = 10" "byte (CHR 0x0D) = 13" "byte (CHR ''-'') = 45" "byte (CHR ''_'') = 95"
    by (simp_all add: byte_def)
  have dash: "b64_char n = CHR ''-'' \<longleftrightarrow> n = 62" "b64_char n = CHR ''_'' \<longleftrightarrow> n = 63"
    unfolding byte_inject [symmetric] b byte_b64_char [OF assms] using assms by auto
  show "b64_value (b64_char n) = Some n"
    unfolding b64_value_def dash is_upper_def is_lower_def is_digit_def byte_b64_char [OF assms]
    using assms by auto
  show "b64_char n \<noteq> CHR 0x0A" "b64_char n \<noteq> CHR 0x0D"
    using byte_b64_char [OF assms] b by (auto simp flip: byte_inject split: if_splits)
qed

lemma b64_values_chars: "\<forall>n\<in>set ns. n < 64 \<Longrightarrow> b64_values (map b64_char ns) = Some ns"
  by (induction ns) (auto simp: b64_value_char)

lemma b64_sextets_small: "\<forall>b\<in>set bs. b < 256 \<Longrightarrow> \<forall>n\<in>set (b64_sextets bs). n < 64"
  by (induction bs rule: b64_sextets.induct) auto

lemma b64_bytes_sextets: "\<forall>b\<in>set bs. b < 256 \<Longrightarrow> b64_bytes (b64_sextets bs) = Some bs"
  by (induction bs rule: b64_sextets.induct) auto

lemma RawURL_Decode_Encode: "RawURL_DecodeString (RawURL_EncodeToString s) = Some s"
proof -
  have small: "\<forall>b\<in>set (map byte s). b < 256" by (simp add: byte_bound)
  have "map char_of (map byte s) = s"
    by (induction s) (simp_all add: byte_def)
  then show ?thesis
    by (simp add: RawURL_DecodeString_def RawURL_EncodeToString_def b64_values_chars [OF b64_sextets_small [OF small]]
        b64_bytes_sextets [OF small])
qed

lemma RawURL_EncodeToString_empty: "RawURL_EncodeToString s = [] \<longleftrightarrow> s = []"
proof -
  have "b64_sextets bs = [] \<longleftrightarrow> bs = []" for bs
    by (cases bs rule: b64_sextets.cases) simp_all
  then show ?thesis by (simp add: RawURL_EncodeToString_def)
qed

end
