(* ===== verification/Oidc.thy ===== *)
theory Oidc
  imports Auth Base64
begin

text \<open>
  \<open>internal/auth/oidc.go\<close>: bearer tokens. A token is accepted after its signature has been verified
  with a key of the provider's key set and its claims have been checked. The JSON decoder, RSA and
  the fetch of the key set are arguments; the cache of keys is the state that the functions pass.
\<close>

record jwtHeader =
  jh_Alg :: string
  jh_KID :: string

record jwtClaims =
  cl_Issuer :: string
  cl_Subject :: string
  cl_Audience :: "string list"
  cl_ExpiresAt :: int
  cl_NotBefore :: int
  cl_Email :: string
  cl_Name :: string
  cl_Groups :: "string list"

record jwk =
  jk_KTY :: string
  jk_KID :: string
  jk_N :: string
  jk_E :: string

type_synonym 'k key_cache = "(string \<rightharpoonup> 'k) option"

text \<open>
  \<open>oi_FetchJWKS\<close> is the HTTP request of \<open>fetchJWKS\<close> with the decoding of its body; \<open>oi_RSAKey\<close> makes
  a public key of modulus and exponent; \<open>oi_VerifySignature key signed signature\<close> is
  \<open>rsa.VerifyPKCS1v15\<close> on the SHA-256 digest; \<open>oi_Now\<close> is the clock in Unix seconds.
\<close>

record ('w, 'k) OIDCConfig =
  oi_IssuerURL :: string
  oi_ClientID :: string
  oi_Audience :: string
  oi_Groups :: "GroupMapping list"
  oi_Now :: "'w \<Rightarrow> int \<times> 'w"
  oi_FetchJWKS :: "'w \<Rightarrow> jwk list result \<times> 'w"
  oi_RSAKey :: "string \<Rightarrow> string \<Rightarrow> 'k"
  oi_VerifySignature :: "'k \<Rightarrow> string \<Rightarrow> string \<Rightarrow> go_error option"
  oi_DecodeHeader :: "string \<Rightarrow> jwtHeader result"
  oi_DecodeClaims :: "string \<Rightarrow> jwtClaims result"

datatype oidc_effect = KeysFetched

definition ErrMissingBearerToken :: go_error where
  "ErrMissingBearerToken = errors_New ''missing bearer token''"

definition ErrInvalidToken :: go_error where
  "ErrInvalidToken = errors_New ''invalid token''"

text \<open>\<open>fmt.Errorf ("%w: text", ErrInvalidToken)\<close>.\<close>

definition invalid_token :: "string \<Rightarrow> go_error" where
  "invalid_token txt = GoError (''invalid token: '' @ txt) []"

definition decodeJWTPart :: "(string \<Rightarrow> 'a result) \<Rightarrow> string \<Rightarrow> 'a result" where
  "decodeJWTPart json part =
     (case RawURL_DecodeString part of
        None \<Rightarrow> Inl (errors_New ''illegal base64 data'')
      | Some data \<Rightarrow> json data)"

definition HasAudience :: "jwtClaims \<Rightarrow> string \<Rightarrow> bool" where
  "HasAudience c expected = list_ex (\<lambda>item. item = expected) (cl_Audience c)"

definition claims_DisplayName :: "jwtClaims \<Rightarrow> string" where
  "claims_DisplayName c =
     (if cl_Name c \<noteq> '''' then cl_Name c else if cl_Email c \<noteq> '''' then cl_Email c else cl_Subject c)"

text \<open>The loop over the fetched keys; a later key of the same identifier replaces an earlier one.\<close>

fun jwks_keys :: "(string \<Rightarrow> string \<Rightarrow> 'k) \<Rightarrow> (string \<rightharpoonup> 'k) \<Rightarrow> jwk list \<Rightarrow> (string \<rightharpoonup> 'k) result" where
  "jwks_keys mk keys [] = Inr keys"
| "jwks_keys mk keys (item # items) =
     (if jk_KID item = '''' \<or> jk_KTY item \<noteq> ''RSA'' then jwks_keys mk keys items
      else case RawURL_DecodeString (jk_N item) of
        None \<Rightarrow> Inl (errors_New ''decode jwk modulus: illegal base64 data'')
      | Some n \<Rightarrow>
          (case RawURL_DecodeString (jk_E item) of
             None \<Rightarrow> Inl (errors_New ''decode jwk exponent: illegal base64 data'')
           | Some e \<Rightarrow> jwks_keys mk (keys(jk_KID item \<mapsto> mk n e)) items))"

definition fetchJWKS :: "('w, 'k) OIDCConfig \<Rightarrow> ('w, oidc_effect, (string \<rightharpoonup> 'k) result) io" where
  "fetchJWKS c = do {
     answer \<leftarrow> call KeysFetched (oi_FetchJWKS c);
     State_Monad.return (case answer of Inl err \<Rightarrow> Inl err | Inr items \<Rightarrow> jwks_keys (oi_RSAKey c) Map.empty items)
   }"

definition oidc_key ::
  "('w, 'k) OIDCConfig \<Rightarrow> 'k key_cache \<Rightarrow> string \<Rightarrow> ('w, oidc_effect, 'k result \<times> 'k key_cache) io" where
  "oidc_key c cache kid =
     (case Option.bind cache (\<lambda>keys. keys kid) of
        Some key \<Rightarrow> State_Monad.return (Inr key, cache)
      | None \<Rightarrow> do {
          fetched \<leftarrow> fetchJWKS c;
          State_Monad.return (case fetched of
              Inl err \<Rightarrow> (Inl err, cache)
            | Inr keys \<Rightarrow>
                (case keys kid of
                   None \<Rightarrow> (Inl (invalid_token (''jwks key '' @ quote kid @ '' not found'')), cache)
                 | Some key \<Rightarrow> (Inr key, Some keys)))
        })"

definition validateClaims :: "('w, 'k) OIDCConfig \<Rightarrow> int \<Rightarrow> jwtClaims \<Rightarrow> go_error option" where
  "validateClaims c now claims =
     (if cl_Issuer claims \<noteq> oi_IssuerURL c then Some (invalid_token ''issuer mismatch'')
      else if cl_Subject claims = '''' then Some (invalid_token ''subject is required'')
      else if cl_ExpiresAt claims = 0 \<or> cl_ExpiresAt claims \<le> now then Some (invalid_token ''token is expired'')
      else if cl_NotBefore claims \<noteq> 0 \<and> cl_NotBefore claims > now
      then Some (invalid_token ''token is not valid yet'')
      else
        let aud = (if oi_Audience c = '''' then oi_ClientID c else oi_Audience c) in
        if \<not> HasAudience claims aud then Some (invalid_token ''audience mismatch'') else None)"

definition claims_principal :: "('w, 'k) OIDCConfig \<Rightarrow> jwtClaims \<Rightarrow> Principal" where
  "claims_principal c claims = \<lparr>pc_Subject = cl_Subject claims, pc_Email = cl_Email claims,
     pc_Groups = cl_Groups claims, pc_DisplayName = claims_DisplayName claims,
     pc_Roles = RolesForGroups (cl_Groups claims) (oi_Groups c), pc_DevMode = False\<rparr>"

definition ValidateToken ::
  "('w, 'k) OIDCConfig \<Rightarrow> 'k key_cache \<Rightarrow> string \<Rightarrow> ('w, oidc_effect, Principal result \<times> 'k key_cache) io" where
  "ValidateToken c cache token =
     (case Split token (CHR ''.'') of
        [part0, part1, part2] \<Rightarrow>
          (case decodeJWTPart (oi_DecodeHeader c) part0 of
             Inl err \<Rightarrow> State_Monad.return (Inl (invalid_token (''decode header: '' @ err_text err)), cache)
           | Inr hdr \<Rightarrow>
               if jh_Alg hdr \<noteq> ''RS256'' \<or> jh_KID hdr = ''''
               then State_Monad.return (Inl (invalid_token ''only RS256 tokens with kid are supported''), cache)
               else do {
                 found \<leftarrow> oidc_key c cache (jh_KID hdr);
                 case found of
                   (Inl err, cache') \<Rightarrow> State_Monad.return (Inl err, cache')
                 | (Inr key, cache') \<Rightarrow>
                     (case RawURL_DecodeString part2 of
                        None \<Rightarrow> State_Monad.return
                          (Inl (invalid_token ''decode signature: illegal base64 data''), cache')
                      | Some signature \<Rightarrow>
                          (case oi_VerifySignature c key (part0 @ ''.'' @ part1) signature of
                             Some err \<Rightarrow> State_Monad.return
                               (Inl (invalid_token (''verify signature: '' @ err_text err)), cache')
                           | None \<Rightarrow>
                               (case decodeJWTPart (oi_DecodeClaims c) part1 of
                                  Inl err \<Rightarrow> State_Monad.return
                                    (Inl (invalid_token (''decode claims: '' @ err_text err)), cache')
                                | Inr claims \<Rightarrow> do {
                                    now \<leftarrow> query (oi_Now c);
                                    State_Monad.return (case validateClaims c now claims of
                                        Some err \<Rightarrow> (Inl err, cache')
                                      | None \<Rightarrow> (Inr (claims_principal c claims), cache'))
                                  })))
               })
      | _ \<Rightarrow> State_Monad.return (Inl ErrInvalidToken, cache))"

definition oidc_Authenticate ::
  "('w, 'k) OIDCConfig \<Rightarrow> 'k key_cache \<Rightarrow> string \<Rightarrow> ('w, oidc_effect, Principal result \<times> 'k key_cache) io" where
  "oidc_Authenticate c cache authorization =
     (if \<not> HasPrefix authorization ''Bearer ''
      then State_Monad.return (Inl ErrMissingBearerToken, cache)
      else ValidateToken c cache (TrimSpace (TrimPrefix authorization ''Bearer '')))"

text \<open>\<open>NewOIDCAuthenticator\<close>: the checks of the configuration and the default of the key set's address.\<close>

definition NewOIDCAuthenticator :: "string \<Rightarrow> string \<Rightarrow> string \<Rightarrow> string result" where
  "NewOIDCAuthenticator issuer client_id jwks_url =
     (if TrimSpace issuer = ''''
      then Inl (errors_New ''CLOU_DIVISION_OIDC_ISSUER_URL is required when auth mode is oidc'')
      else if TrimSpace client_id = ''''
      then Inl (errors_New ''CLOU_DIVISION_OIDC_CLIENT_ID is required when auth mode is oidc'')
      else Inr (if jwks_url = '''' then TrimRight issuer ''/'' @ ''/.well-known/jwks.json'' else jwks_url))"


section \<open>What an accepted token proves\<close>

text \<open>A key that the provider published, in some answer, as an RSA key with this identifier.\<close>

definition published :: "('w, 'k) OIDCConfig \<Rightarrow> string \<Rightarrow> 'k \<Rightarrow> bool" where
  "published c kid key \<longleftrightarrow>
     (\<exists>w items item n e. fst (oi_FetchJWKS c w) = Inr items \<and> item \<in> set items \<and> jk_KTY item = ''RSA''
        \<and> jk_KID item = kid \<and> kid \<noteq> '''' \<and> RawURL_DecodeString (jk_N item) = Some n
        \<and> RawURL_DecodeString (jk_E item) = Some e \<and> key = oi_RSAKey c n e)"

definition published_cache :: "('w, 'k) OIDCConfig \<Rightarrow> 'k key_cache \<Rightarrow> bool" where
  "published_cache c cache \<longleftrightarrow>
     (\<forall>keys kid key. cache = Some keys \<longrightarrow> keys kid = Some key \<longrightarrow> published c kid key)"

definition current_claims :: "('w, 'k) OIDCConfig \<Rightarrow> int \<Rightarrow> jwtClaims \<Rightarrow> bool" where
  "current_claims c now claims \<longleftrightarrow>
     cl_Issuer claims = oi_IssuerURL c \<and> cl_Subject claims \<noteq> '''' \<and> now < cl_ExpiresAt claims
     \<and> (cl_NotBefore claims = 0 \<or> cl_NotBefore claims \<le> now)
     \<and> (if oi_Audience c = '''' then oi_ClientID c else oi_Audience c) \<in> set (cl_Audience claims)"

definition proves :: "('w, 'k) OIDCConfig \<Rightarrow> string \<Rightarrow> Principal \<Rightarrow> bool" where
  "proves c token p \<longleftrightarrow>
     (\<exists>part0 part1 part2 hdr_data hdr key signature claims_data claims w.
        token = part0 @ ''.'' @ part1 @ ''.'' @ part2
        \<and> RawURL_DecodeString part0 = Some hdr_data \<and> oi_DecodeHeader c hdr_data = Inr hdr
        \<and> jh_Alg hdr = ''RS256'' \<and> published c (jh_KID hdr) key
        \<and> RawURL_DecodeString part2 = Some signature
        \<and> oi_VerifySignature c key (part0 @ ''.'' @ part1) signature = None
        \<and> RawURL_DecodeString part1 = Some claims_data \<and> oi_DecodeClaims c claims_data = Inr claims
        \<and> current_claims c (fst (oi_Now c w)) claims \<and> p = claims_principal c claims)"

lemma jwks_keys_published:
  assumes "jwks_keys mk keys items = Inr found" and "found kid = Some key"
  shows "keys kid = Some key \<or> (\<exists>item\<in>set items. \<exists>n e. jk_KTY item = ''RSA'' \<and> jk_KID item = kid \<and> kid \<noteq> ''''
     \<and> RawURL_DecodeString (jk_N item) = Some n \<and> RawURL_DecodeString (jk_E item) = Some e \<and> key = mk n e)"
  using assms
proof (induction mk keys items rule: jwks_keys.induct)
  case (2 mk keys item items)
  show ?case
  proof (cases "jk_KID item = '''' \<or> jk_KTY item \<noteq> ''RSA''")
    case True
    then show ?thesis using 2 by auto
  next
    case False
    with "2.prems" obtain n e where "RawURL_DecodeString (jk_N item) = Some n"
      "RawURL_DecodeString (jk_E item) = Some e" "jwks_keys mk (keys(jk_KID item \<mapsto> mk n e)) items = Inr found"
      by (auto split: option.splits)
    then show ?thesis using "2.IH"(2) [OF False] False "2.prems"(2) by (fastforce split: if_splits)
  qed
qed simp

lemma wp_fetchJWKS:
  "wp (fetchJWKS c) (\<lambda>r t. \<forall>keys kid key. r = Inr keys \<longrightarrow> keys kid = Some key \<longrightarrow> published c kid key) s"
proof -
  have "published c kid key"
    if "fst (oi_FetchJWKS c w) = Inr items" "jwks_keys (oi_RSAKey c) Map.empty items = Inr keys" "keys kid = Some key"
    for items keys kid key w
    using jwks_keys_published [OF that(2,3)] that(1) unfolding published_def by fastforce
  then show ?thesis
    by (auto simp: fetchJWKS_def wp_simps split: sum.split)
qed

lemma wp_oidc_key:
  assumes "published_cache c cache"
  shows "wp (oidc_key c cache kid) (\<lambda>(r, cache') t. published_cache c cache' \<and> (\<forall>key. r = Inr key \<longrightarrow> published c kid key)) s"
proof (cases "Option.bind cache (\<lambda>keys. keys kid)")
  case (Some key)
  then have "published c kid key" using assms by (auto simp: published_cache_def split: bind_splits)
  then show ?thesis using Some assms by (simp add: oidc_key_def wp_simps)
next
  case None
  show ?thesis
    unfolding oidc_key_def None option.case wp_bind
    by (rule wp_mono [OF wp_fetchJWKS])
       (use assms in \<open>auto simp: wp_simps published_cache_def split: sum.split option.split\<close>)
qed

lemma Split_three:
  assumes "Split s c = [p0, p1, p2]"
  shows "s = p0 @ [c] @ p1 @ [c] @ p2"
proof -
  have "Join (Split s c) [c] = s" for s
    by (induction s) (auto split: list.split elim: Join.elims)
  from this [of s] assms show ?thesis by simp
qed

lemma validateClaims_iff: "validateClaims c now claims = None \<longleftrightarrow> current_claims c now claims \<and> cl_ExpiresAt claims \<noteq> 0"
  by (auto simp: validateClaims_def current_claims_def HasAudience_def list_ex_iff Let_def)

text \<open>
  C24: The authenticator accepts only a bearer token whose header names RS256 and a key that the
  identity provider published, whose signature over header and claims verifies with that key, and
  whose claims, at the time of the check, name the configured issuer and audience and a subject and
  are neither expired nor early; the principal is the one of the claims, with the roles mapped to
  its groups. The cache of keys holds published keys only, before and after.
\<close>

theorem oidc_accepts_proven_tokens:
  assumes "published_cache c cache"
  shows "wp (oidc_Authenticate c cache authorization)
    (\<lambda>(r, cache') t. published_cache c cache' \<and> (\<forall>p. r = Inr p \<longrightarrow>
        (\<exists>token. authorization = ''Bearer '' @ token \<and> proves c (TrimSpace token) p))) s"
proof (cases "HasPrefix authorization ''Bearer ''")
  case False
  then show ?thesis using assms by (simp add: oidc_Authenticate_def wp_simps)
next
  case True
  then obtain raw where raw: "authorization = ''Bearer '' @ raw" by (auto simp: HasPrefix_def prefix_def)
  let ?token = "TrimSpace raw"
  let ?Q = "\<lambda>(r :: Principal result, cache') (t :: ('a, oidc_effect) sys).
    published_cache c cache' \<and> (\<forall>p. r = Inr p \<longrightarrow> proves c ?token p)"
  have fail: "wp (State_Monad.return (Inl err, cache')) ?Q s" if "published_cache c cache'" for err cache' s
    using that by (simp add: wp_simps)
  have "wp (ValidateToken c cache ?token) ?Q s"
  proof (cases "\<exists>part0 part1 part2. Split ?token (CHR ''.'') = [part0, part1, part2]")
    case False
    then have "ValidateToken c cache ?token = State_Monad.return (Inl ErrInvalidToken, cache)"
      by (auto simp: ValidateToken_def split: list.split)
    then show ?thesis using fail [OF assms] by simp
  next
    case three: True
    then obtain part0 part1 part2 where parts: "Split ?token (CHR ''.'') = [part0, part1, part2]" by blast
    show ?thesis
    proof (cases "decodeJWTPart (oi_DecodeHeader c) part0")
      case (Inl err)
      then show ?thesis using fail [OF assms] parts by (simp add: ValidateToken_def)
    next
      case (Inr hdr)
      then obtain hdr_data where hdr: "RawURL_DecodeString part0 = Some hdr_data" "oi_DecodeHeader c hdr_data = Inr hdr"
        by (auto simp: decodeJWTPart_def split: option.splits)
      have accept: "proves c ?token (claims_principal c claims)"
        if "jh_Alg hdr = ''RS256''" "published c (jh_KID hdr) key" "RawURL_DecodeString part2 = Some signature"
          "oi_VerifySignature c key (part0 @ ''.'' @ part1) signature = None"
          "decodeJWTPart (oi_DecodeClaims c) part1 = Inr claims" "validateClaims c (fst (oi_Now c w)) claims = None"
        for key signature claims w
      proof -
        note given = that
        from given(5) obtain claims_data where cd: "RawURL_DecodeString part1 = Some claims_data"
          "oi_DecodeClaims c claims_data = Inr claims" by (auto simp: decodeJWTPart_def split: option.splits)
        show ?thesis
          unfolding proves_def
          by (rule exI [of _ part0], rule exI [of _ part1], rule exI [of _ part2], rule exI [of _ hdr_data],
              rule exI [of _ hdr], rule exI [of _ key], rule exI [of _ signature], rule exI [of _ claims_data],
              rule exI [of _ claims], rule exI [of _ w])
             (use given cd hdr Split_three [OF parts] in \<open>simp add: validateClaims_iff\<close>)
      qed
      show ?thesis
      proof (cases "jh_Alg hdr \<noteq> ''RS256'' \<or> jh_KID hdr = ''''")
        case True
        then show ?thesis using fail [OF assms] parts Inr by (simp add: ValidateToken_def)
      next
        case False
        show ?thesis
          unfolding ValidateToken_def parts list.case Inr sum.case if_not_P [OF False] wp_bind
        proof (rule wp_mono [OF wp_oidc_key [OF assms]], goal_cases)
          case (1 found t)
          obtain r cache' where found: "found = (r, cache')" by (cases found)
          with 1 have cache': "published_cache c cache'" and key: "\<And>key. r = Inr key \<Longrightarrow> published c (jh_KID hdr) key"
            by simp_all
          show ?case
          proof (cases r)
            case (Inl err)
            then show ?thesis using fail [OF cache'] found by simp
          next
            case r: (Inr key)
            show ?thesis
            proof (cases "RawURL_DecodeString part2")
              case None
              then show ?thesis using fail [OF cache'] found r by simp
            next
              case sig: (Some signature)
              show ?thesis
              proof (cases "oi_VerifySignature c key (part0 @ ''.'' @ part1) signature")
                case (Some err)
                then show ?thesis using fail [OF cache'] found r sig by simp
              next
                case ver: None
                show ?thesis
                proof (cases "decodeJWTPart (oi_DecodeClaims c) part1")
                  case (Inl err)
                  then show ?thesis using fail [OF cache'] found r sig ver by simp
                next
                  case cl: (Inr claims)
                  have "proves c ?token (claims_principal c claims)"
                    if "validateClaims c (fst (oi_Now c (ext t))) claims = None"
                    using accept [OF _ key [OF r] sig ver cl that] False by simp
                  then show ?thesis
                    using found r sig ver cl cache' by (simp add: wp_simps split: option.split)
                qed
              qed
            qed
          qed
        qed
      qed
    qed
  qed
  then have "wp (oidc_Authenticate c cache authorization) ?Q s"
    using True by (simp add: oidc_Authenticate_def raw TrimPrefix_def HasPrefix_def)
  then show ?thesis by (rule wp_mono) (use raw in auto)
qed

definition sample_oidc :: "(int, string) OIDCConfig" where
  "sample_oidc = \<lparr>oi_IssuerURL = ''https://id'', oi_ClientID = ''ci'', oi_Audience = '''',
     oi_Groups = [\<lparr>gm_Group = ''dev'', gm_Role = ''developer'', gm_Scope = ''global'', gm_Project = ''''\<rparr>],
     oi_Now = (\<lambda>w. (w, w)),
     oi_FetchJWKS = (\<lambda>w. (Inr [\<lparr>jk_KTY = ''RSA'', jk_KID = ''k1'', jk_N = RawURL_EncodeToString ''n'',
       jk_E = RawURL_EncodeToString ''e''\<rparr>], w)),
     oi_RSAKey = (\<lambda>n e. n @ e),
     oi_VerifySignature = (\<lambda>key signed sig. if sig = key then None else Some (errors_New ''bad'')),
     oi_DecodeHeader = (\<lambda>data. Inr \<lparr>jh_Alg = ''RS256'', jh_KID = data\<rparr>),
     oi_DecodeClaims = (\<lambda>data. Inr \<lparr>cl_Issuer = ''https://id'', cl_Subject = data, cl_Audience = [''ci''],
       cl_ExpiresAt = 100, cl_NotBefore = 0, cl_Email = '''', cl_Name = '''', cl_Groups = [''dev'']\<rparr>)\<rparr>"

definition sample_token :: string where
  "sample_token = RawURL_EncodeToString ''k1'' @ ''.'' @ RawURL_EncodeToString ''dana'' @ ''.'' @ RawURL_EncodeToString ''ne''"

theorem oidc_accepts_proven_tokens_witness:
  "\<exists>p. fst (exec_result (oidc_Authenticate sample_oidc None (''Bearer '' @ sample_token)) 7) = Inr p
     \<and> pc_Roles p = [RoleDeveloper]
     \<and> (\<exists>token. ''Bearer '' @ sample_token = ''Bearer '' @ token \<and> proves sample_oidc (TrimSpace token) p)"
proof -
  let ?run = "exec_result (oidc_Authenticate sample_oidc None (''Bearer '' @ sample_token)) 7"
  have roles: "(case fst ?run of Inl err \<Rightarrow> False | Inr p \<Rightarrow> pc_Roles p = [RoleDeveloper])"
    by code_simp
  then obtain p where p: "fst ?run = Inr p" "pc_Roles p = [RoleDeveloper]" by (auto split: sum.splits)
  have cache: "published_cache sample_oidc None" by (simp add: published_cache_def)
  from oidc_accepts_proven_tokens [OF cache, of "''Bearer '' @ sample_token" "start 7"]
  have "case ?run of (r, cache') \<Rightarrow> \<forall>p. r = Inr p \<longrightarrow>
      (\<exists>token. ''Bearer '' @ sample_token = ''Bearer '' @ token \<and> proves sample_oidc (TrimSpace token) p)"
    by (auto simp: wp_def exec_result_def split: prod.splits)
  with p show ?thesis by (auto split: prod.splits)
qed

end
