(* ===== verification/Pagination.thy ===== *)
theory Pagination
  imports ApiTypes Base64 "HOL-Library.Product_Lexorder" "HOL-Library.Multiset"
begin

text \<open>
  \<open>internal/api/pagination.go\<close>: the options of a listing request, the selection and the order of the
  listed objects, and the pages with their continuation tokens. The JSON decoder of tokens and
  \<open>time.Parse\<close> are arguments; the text of a token is modelled exactly.
\<close>

section \<open>Requests\<close>

text \<open>The values of a query, in order; \<open>Get\<close> gives the first one of a name.\<close>

type_synonym query_values = "(string \<times> string) list"

definition query_Get :: "query_values \<Rightarrow> string \<Rightarrow> string" where
  "query_Get q name = (case map_of q name of Some v \<Rightarrow> v | None \<Rightarrow> '''')"

definition query_Has :: "query_values \<Rightarrow> string \<Rightarrow> bool" where
  "query_Has q name = (map_of q name \<noteq> None)"

definition digits_value :: "string \<Rightarrow> int" where
  "digits_value s = foldl (\<lambda>n c. 10 * n + (int (byte c) - 48)) 0 s"

text \<open>\<open>strconv.Atoi\<close>: an optional sign and decimal digits, in the range of a 64-bit \<open>int\<close>.\<close>

definition Atoi :: "string \<Rightarrow> int option" where
  "Atoi s =
     (let body = (if s \<noteq> [] \<and> (hd s = CHR ''-'' \<or> hd s = CHR ''+'') then tl s else s);
          n = (if s \<noteq> [] \<and> hd s = CHR ''-'' then - digits_value body else digits_value body) in
      if body = [] \<or> \<not> list_all is_digit body \<or> n < - (2 ^ 63) \<or> n \<ge> 2 ^ 63 then None else Some n)"

definition boundedInt :: "string \<Rightarrow> int \<Rightarrow> int \<Rightarrow> int \<Rightarrow> int result" where
  "boundedInt val fallback minimum maximum =
     (if val = '''' then Inr fallback
      else case Atoi val of
        None \<Rightarrow> Inl (errors_New (''must be an integer from '' @ Itoa minimum @ '' to '' @ Itoa maximum))
      | Some parsed \<Rightarrow>
          if parsed < minimum \<or> parsed > maximum
          then Inl (errors_New (''must be an integer from '' @ Itoa minimum @ '' to '' @ Itoa maximum))
          else Inr parsed)"

record pageOptions =
  po_limit :: int
  po_offset :: int
  po_sort :: string
  po_order :: string
  po_from :: "gotime option"
  po_to :: "gotime option"

record pageToken =
  tok_Version :: int
  tok_Offset :: int

definition pageToken_json :: "pageToken \<Rightarrow> string" where
  "pageToken_json t =
     [CHR ''{'', CHR 0x22, CHR ''v'', CHR 0x22, CHR '':''] @ Itoa (tok_Version t)
     @ [CHR '','', CHR 0x22, CHR ''o'', CHR 0x22, CHR '':''] @ Itoa (tok_Offset t) @ [CHR ''}'']"

text \<open>The library calls of the parser: \<open>json.Unmarshal\<close> into a token, and \<open>time.Parse (time.RFC3339, _)\<close>.\<close>

record page_codec =
  pgc_Unmarshal :: "string \<Rightarrow> pageToken option"
  pgc_ParseTime :: "string \<Rightarrow> gotime option"

definition optionalTime :: "page_codec \<Rightarrow> string \<Rightarrow> gotime option result" where
  "optionalTime codec val =
     (if val = '''' then Inr None
      else case pgc_ParseTime codec val of
        None \<Rightarrow> Inl (errors_New ''must be RFC3339'')
      | Some t \<Rightarrow> Inr (Some t))"

definition invalid_page_token :: go_error where
  "invalid_page_token = errors_New ''pageToken: invalid token''"

definition page_offset :: "page_codec \<Rightarrow> query_values \<Rightarrow> string \<Rightarrow> int result" where
  "page_offset codec q token =
     (if token \<noteq> ''''
      then (case RawURL_DecodeString token of
          None \<Rightarrow> Inl invalid_page_token
        | Some data \<Rightarrow>
            (case pgc_Unmarshal codec data of
               None \<Rightarrow> Inl invalid_page_token
             | Some t \<Rightarrow>
                 if tok_Version t \<noteq> 1 \<or> tok_Offset t < 0 then Inl invalid_page_token else Inr (tok_Offset t)))
      else if query_Has q ''offset''
      then (case boundedInt (query_Get q ''offset'') 0 0 1000000000 of
          Inl err \<Rightarrow> Inl (errorf_w ''offset'' err) | Inr n \<Rightarrow> Inr n)
      else Inr 0)"

definition page_range :: "page_codec \<Rightarrow> query_values \<Rightarrow> (gotime option \<times> gotime option) result" where
  "page_range codec q =
     (case optionalTime codec (firstNonEmpty [query_Get q ''from'', query_Get q ''createdAfter'']) of
        Inl err \<Rightarrow> Inl (errorf_w ''from'' err)
      | Inr from_time \<Rightarrow>
          (case optionalTime codec (firstNonEmpty [query_Get q ''to'', query_Get q ''createdBefore'']) of
             Inl err \<Rightarrow> Inl (errorf_w ''to'' err)
           | Inr to_time \<Rightarrow>
               (case (from_time, to_time) of
                  (Some f, Some t) \<Rightarrow>
                    if f > t then Inl (errors_New ''from must not be after to'') else Inr (from_time, to_time)
                | _ \<Rightarrow> Inr (from_time, to_time))))"

definition parsePageOptions :: "page_codec \<Rightarrow> query_values \<Rightarrow> string list \<Rightarrow> pageOptions result" where
  "parsePageOptions codec q allowedSorts =
     (case boundedInt (query_Get q ''limit'') 50 1 200 of
        Inl err \<Rightarrow> Inl (errorf_w ''limit'' err)
      | Inr limit \<Rightarrow>
          (let token = query_Get q ''pageToken''; alternate = query_Get q ''continue'' in
           if alternate \<noteq> '''' \<and> token \<noteq> '''' \<and> token \<noteq> alternate
           then Inl (errors_New ''continue and pageToken must match when both are supplied'')
           else
             (case page_offset codec q (if alternate \<noteq> '''' then alternate else token) of
                Inl err \<Rightarrow> Inl err
              | Inr offset \<Rightarrow>
                  (let sortField = TrimSpace (query_Get q ''sort'');
                       sortField = (if sortField = '''' then ''createdAt'' else sortField);
                       order = ToLower (TrimSpace (query_Get q ''order''));
                       order = (if order = '''' then ''desc'' else order) in
                   if sortField \<notin> set allowedSorts
                   then Inl (errors_New (''sort: unsupported field '' @ quote sortField))
                   else if order \<noteq> ''asc'' \<and> order \<noteq> ''desc''
                   then Inl (errors_New ''order: must be asc or desc'')
                   else
                     (case page_range codec q of
                        Inl err \<Rightarrow> Inl err
                      | Inr (from_time, to_time) \<Rightarrow>
                          Inr \<lparr>po_limit = limit, po_offset = offset, po_sort = sortField, po_order = order,
                               po_from = from_time, po_to = to_time\<rparr>)))))"


section \<open>Pages\<close>

definition page_token :: "int \<Rightarrow> string" where
  "page_token offset = RawURL_EncodeToString (pageToken_json \<lparr>tok_Version = 1, tok_Offset = offset\<rparr>)"

text \<open>\<open>items[offset:end]\<close> with the token of the next page, empty on the last one.\<close>

definition paginate :: "'a list \<Rightarrow> pageOptions \<Rightarrow> 'a list \<times> string" where
  "paginate items options =
     (if po_offset options \<ge> int (length items) then ([], '''')
      else
        let last = po_offset options + po_limit options;
            last = (if last > int (length items) then int (length items) else last) in
        (take (nat last - nat (po_offset options)) (drop (nat (po_offset options)) items),
         if last < int (length items) then page_token last else ''''))"


section \<open>Selection and order\<close>

definition strings_Compare :: "string \<Rightarrow> string \<Rightarrow> int" where
  "strings_Compare a b = (if a = b then 0 else if a < b then -1 else 1)"

definition time_Compare :: "gotime \<Rightarrow> gotime \<Rightarrow> int" where
  "time_Compare a b = (if a < b then -1 else if a > b then 1 else 0)"

definition withinRange :: "gotime \<Rightarrow> gotime option \<Rightarrow> gotime option \<Rightarrow> bool" where
  "withinRange val from_time to_time =
     ((case from_time of None \<Rightarrow> True | Some f \<Rightarrow> \<not> val < f) \<and> (case to_time of None \<Rightarrow> True | Some t \<Rightarrow> \<not> val > t))"

definition qualified_name :: "ObjectMeta \<Rightarrow> string" where
  "qualified_name m = meta_Namespace m @ ''/'' @ meta_Name m"

text \<open>\<open>sort.SliceStable\<close> with the comparison \<open>lt\<close>: the order is stable insertion.\<close>

fun insert_stable :: "('a \<Rightarrow> 'a \<Rightarrow> bool) \<Rightarrow> 'a \<Rightarrow> 'a list \<Rightarrow> 'a list" where
  "insert_stable lt x [] = [x]"
| "insert_stable lt x (y # ys) = (if lt y x then y # insert_stable lt x ys else x # y # ys)"

definition SliceStable :: "('a \<Rightarrow> 'a \<Rightarrow> bool) \<Rightarrow> 'a list \<Rightarrow> 'a list" where
  "SliceStable lt xs = foldr (insert_stable lt) xs []"

definition compareBuildRuns :: "BuildRun \<Rightarrow> BuildRun \<Rightarrow> string \<Rightarrow> int" where
  "compareBuildRuns left right field =
     (let names = strings_Compare (qualified_name (br_Meta left)) (qualified_name (br_Meta right));
          phases = strings_Compare (BuildRunPhase_string (bst_Phase (br_Status left)))
                     (BuildRunPhase_string (bst_Phase (br_Status right)));
          times = time_Compare (meta_CreationTimestamp (br_Meta left)) (meta_CreationTimestamp (br_Meta right)) in
      if field = ''name'' then names
      else if field = ''phase'' then (if phases \<noteq> 0 then phases else names)
      else (if times \<noteq> 0 then times else names))"

definition buildrun_selected :: "query_values \<Rightarrow> pageOptions \<Rightarrow> BuildRun \<Rightarrow> bool" where
  "buildrun_selected q options item =
     (let phase = query_Get q ''phase''; project = query_Get q ''project''; repository = query_Get q ''repository'' in
      \<not> (phase \<noteq> '''' \<and> \<not> EqualFold (BuildRunPhase_string (bst_Phase (br_Status item))) phase)
      \<and> \<not> (project \<noteq> '''' \<and> brs_ProjectRef (br_Spec item) \<noteq> project)
      \<and> \<not> (repository \<noteq> '''' \<and> brs_RepositoryRef (br_Spec item) \<noteq> repository)
      \<and> withinRange (meta_CreationTimestamp (br_Meta item)) (po_from options) (po_to options))"

definition filterSortBuildRuns :: "query_values \<Rightarrow> BuildRun list \<Rightarrow> pageOptions \<Rightarrow> BuildRun list" where
  "filterSortBuildRuns q source options =
     SliceStable (\<lambda>a b. let comparison = compareBuildRuns a b (po_sort options) in
         if po_order options = ''desc'' then comparison > 0 else comparison < 0)
       (filter (buildrun_selected q options) source)"

definition compareReleases :: "Release \<Rightarrow> Release \<Rightarrow> string \<Rightarrow> int" where
  "compareReleases left right field =
     (let names = strings_Compare (qualified_name (rel_Meta left)) (qualified_name (rel_Meta right));
          comparison = (if field = ''name'' then names
            else if field = ''phase''
            then strings_Compare (ReleasePhase_string (rlst_Phase (rel_Status left)))
                   (ReleasePhase_string (rlst_Phase (rel_Status right)))
            else time_Compare (meta_CreationTimestamp (rel_Meta left)) (meta_CreationTimestamp (rel_Meta right))) in
      if comparison = 0 then names else comparison)"

definition release_selected :: "query_values \<Rightarrow> pageOptions \<Rightarrow> Release \<Rightarrow> bool" where
  "release_selected q options item =
     (let phase = query_Get q ''phase''; project = query_Get q ''project''; repository = query_Get q ''repository'' in
      \<not> (phase \<noteq> '''' \<and> \<not> EqualFold (ReleasePhase_string (rlst_Phase (rel_Status item))) phase)
      \<and> \<not> (project \<noteq> '''' \<and> rls_ProjectRef (rel_Spec item) \<noteq> project)
      \<and> \<not> (repository \<noteq> '''' \<and> img_Repository (rls_Image (rel_Spec item)) \<noteq> repository)
      \<and> withinRange (meta_CreationTimestamp (rel_Meta item)) (po_from options) (po_to options))"

definition filterSortReleases :: "query_values \<Rightarrow> Release list \<Rightarrow> pageOptions \<Rightarrow> Release list" where
  "filterSortReleases q source options =
     SliceStable (\<lambda>a b. let comparison = compareReleases a b (po_sort options) in
         po_order options = ''desc'' \<and> comparison > 0 \<or> po_order options = ''asc'' \<and> comparison < 0)
       (filter (release_selected q options) source)"


section \<open>Listing build runs\<close>

definition buildrun_sorts :: "string list" where
  "buildrun_sorts = [''createdAt'', ''name'', ''phase'']"

record 'a page_response =
  pr_Items :: "'a list"
  pr_NextPageToken :: string
  pr_TotalCount :: int
  pr_Limit :: int

text \<open>The \<open>GET\<close> branch of \<open>Server.buildRuns\<close>, for the objects that the client has listed.\<close>

definition list_build_runs :: "page_codec \<Rightarrow> query_values \<Rightarrow> BuildRun list \<Rightarrow> BuildRun page_response result" where
  "list_build_runs codec q listed =
     (case parsePageOptions codec q buildrun_sorts of
        Inl err \<Rightarrow> Inl err
      | Inr options \<Rightarrow>
          (let filtered = filterSortBuildRuns q listed options in
           case paginate filtered options of (page, next_token) \<Rightarrow>
             Inr \<lparr>pr_Items = page, pr_NextPageToken = next_token, pr_TotalCount = int (length filtered),
                  pr_Limit = po_limit options\<rparr>))"

text \<open>\<open>Server.releases\<close> pages the releases in the same way.\<close>

definition list_releases :: "page_codec \<Rightarrow> query_values \<Rightarrow> Release list \<Rightarrow> Release page_response result" where
  "list_releases codec q listed =
     (case parsePageOptions codec q buildrun_sorts of
        Inl err \<Rightarrow> Inl err
      | Inr options \<Rightarrow>
          (let filtered = filterSortReleases q listed options in
           case paginate filtered options of (page, next_token) \<Rightarrow>
             Inr \<lparr>pr_Items = page, pr_NextPageToken = next_token, pr_TotalCount = int (length filtered),
                  pr_Limit = po_limit options\<rparr>))"


section \<open>Following the tokens\<close>

text \<open>A client that asks for the next page repeats its query with the token it was given.\<close>

definition with_token :: "query_values \<Rightarrow> string \<Rightarrow> query_values" where
  "with_token q token = (''pageToken'', token) # filter (\<lambda>(k, v). k \<notin> {''pageToken'', ''continue'', ''offset''}) q"

text \<open>
  It stops at the page without a token; \<open>listing i\<close> is what the API server lists, in whatever
  order, when the \<open>i\<close>-th request comes. \<open>None\<close>: a request failed or the fuel ran out.
\<close>

fun follow_pages :: "page_codec \<Rightarrow> nat \<Rightarrow> query_values \<Rightarrow> (nat \<Rightarrow> BuildRun list) \<Rightarrow> nat \<Rightarrow> BuildRun list option" where
  "follow_pages codec 0 q listing i = None"
| "follow_pages codec (Suc n) q listing i =
     (case list_build_runs codec q (listing i) of
        Inl err \<Rightarrow> None
      | Inr r \<Rightarrow>
          if pr_NextPageToken r = '''' then Some (pr_Items r)
          else map_option ((@) (pr_Items r)) (follow_pages codec n (with_token q (pr_NextPageToken r)) listing (Suc i)))"

text \<open>\<open>json.Unmarshal\<close> reads back the tokens that \<open>json.Marshal\<close> wrote.\<close>

definition reads_tokens :: "page_codec \<Rightarrow> bool" where
  "reads_tokens codec \<longleftrightarrow> (\<forall>t. pgc_Unmarshal codec (pageToken_json t) = Some t)"

lemma mset_insert_stable: "mset (insert_stable lt x ys) = add_mset x (mset ys)"
  by (induction lt x ys rule: insert_stable.induct) auto

lemma mset_SliceStable: "mset (SliceStable lt xs) = mset xs"
  by (induction xs) (auto simp: SliceStable_def mset_insert_stable)

lemma set_SliceStable: "set (SliceStable lt xs) = set xs"
  by (metis mset_SliceStable set_mset_mset)

definition strict_order_on :: "'a set \<Rightarrow> ('a \<Rightarrow> 'a \<Rightarrow> bool) \<Rightarrow> bool" where
  "strict_order_on A lt \<longleftrightarrow>
     (\<forall>a b. lt a b \<longrightarrow> \<not> lt b a) \<and> (\<forall>a b c. lt a b \<longrightarrow> lt b c \<longrightarrow> lt a c)
     \<and> (\<forall>a\<in>A. \<forall>b\<in>A. a \<noteq> b \<longrightarrow> lt a b \<or> lt b a)"

lemma strict_order_subset: "strict_order_on A lt \<Longrightarrow> B \<subseteq> A \<Longrightarrow> strict_order_on B lt"
  unfolding strict_order_on_def by blast

lemma strict_order_total: "strict_order_on A lt \<Longrightarrow> a \<in> A \<Longrightarrow> b \<in> A \<Longrightarrow> a \<noteq> b \<Longrightarrow> lt a b \<or> lt b a"
  unfolding strict_order_on_def by blast

lemma strict_order_trans: "strict_order_on A lt \<Longrightarrow> lt a b \<Longrightarrow> lt b c \<Longrightarrow> lt a c"
  unfolding strict_order_on_def by blast

lemma sorted_insert_stable:
  "strict_order_on (insert x (set ys)) lt \<Longrightarrow> sorted_wrt lt ys \<Longrightarrow> x \<notin> set ys \<Longrightarrow> sorted_wrt lt (insert_stable lt x ys)"
proof (induction lt x ys rule: insert_stable.induct)
  case (2 lt x y ys)
  have set: "set (insert_stable lt x ys) = insert x (set ys)"
    by (metis mset_insert_stable set_mset_add_mset_insert set_mset_mset)
  show ?case
  proof (cases "lt y x")
    case True
    have "strict_order_on (insert x (set ys)) lt"
      by (rule strict_order_subset [OF "2.prems"(1)]) auto
    then have "sorted_wrt lt (insert_stable lt x ys)" using "2.IH" [OF True] "2.prems"(2,3) by simp
    then show ?thesis using True "2.prems"(2) by (simp add: set)
  next
    case False
    have "lt x y"
      using strict_order_total [OF "2.prems"(1), of x y] False "2.prems"(3) by auto
    moreover have "lt x z" if "z \<in> set ys" for z
      using strict_order_trans [OF "2.prems"(1) \<open>lt x y\<close>] that "2.prems"(2) by simp
    ultimately show ?thesis using False "2.prems"(2) by simp
  qed
qed simp

lemma sorted_SliceStable:
  "strict_order_on (set xs) lt \<Longrightarrow> distinct xs \<Longrightarrow> sorted_wrt lt (SliceStable lt xs)"
proof (induction xs)
  case (Cons x xs)
  have "strict_order_on (set xs) lt" by (rule strict_order_subset [OF Cons.prems(1)]) auto
  then have s: "sorted_wrt lt (SliceStable lt xs)" using Cons.IH Cons.prems(2) by simp
  have "SliceStable lt (x # xs) = insert_stable lt x (SliceStable lt xs)" by (simp add: SliceStable_def)
  moreover have "sorted_wrt lt (insert_stable lt x (SliceStable lt xs))"
    by (rule sorted_insert_stable) (use Cons.prems s in \<open>simp_all add: set_SliceStable\<close>)
  ultimately show ?case by simp
qed (simp add: SliceStable_def)

lemma sorted_wrt_unique:
  assumes "\<And>a b. lt a b \<Longrightarrow> \<not> lt b a"
  shows "sorted_wrt lt xs \<Longrightarrow> sorted_wrt lt ys \<Longrightarrow> set xs = set ys \<Longrightarrow> xs = ys"
proof (induction xs arbitrary: ys)
  case (Cons x xs)
  then obtain y ys' where ys: "ys = y # ys'" by (cases ys) auto
  have "x = y"
  proof (rule ccontr)
    assume "x \<noteq> y"
    then have "x \<in> set ys'" "y \<in> set xs" using Cons.prems(3) ys by auto
    then have "lt y x" "lt x y" using Cons.prems(1,2) ys by auto
    then show False using assms by blast
  qed
  moreover have "x \<notin> set xs" "y \<notin> set ys'"
    using Cons.prems(1,2) ys assms by auto
  ultimately have "set xs = set ys'" using Cons.prems(3) ys by (simp add: insert_ident)
  then show ?case using Cons.IH [of ys'] Cons.prems(1,2) ys \<open>x = y\<close> by simp
qed simp

lemma SliceStable_unique:
  assumes "mset xs = mset ys" and "strict_order_on (set xs) lt" and "distinct xs"
  shows "SliceStable lt xs = SliceStable lt ys"
proof (rule sorted_wrt_unique)
  have s: "set ys = set xs" and d: "distinct ys"
    using mset_eq_setD [OF assms(1)] mset_eq_imp_distinct_iff [OF assms(1)] assms(3) by simp_all
  show "sorted_wrt lt (SliceStable lt xs)" "sorted_wrt lt (SliceStable lt ys)"
    using assms(2,3) s d by (simp_all add: sorted_SliceStable)
  show "set (SliceStable lt xs) = set (SliceStable lt ys)" by (simp add: set_SliceStable s)
  show "\<not> lt b a" if "lt a b" for a b using assms(2) that unfolding strict_order_on_def by blast
qed

text \<open>The order of the listing is the lexicographic order of a key that ends in the name.\<close>

definition buildrun_key :: "string \<Rightarrow> BuildRun \<Rightarrow> string \<times> int \<times> string" where
  "buildrun_key field b =
     (if field = ''phase'' then BuildRunPhase_string (bst_Phase (br_Status b)) else '''',
      if field = ''name'' \<or> field = ''phase'' then 0 else meta_CreationTimestamp (br_Meta b),
      qualified_name (br_Meta b))"

lemma compareBuildRuns_key:
  "compareBuildRuns a b field < 0 \<longleftrightarrow> buildrun_key field a < buildrun_key field b"
  "compareBuildRuns a b field > 0 \<longleftrightarrow> buildrun_key field b < buildrun_key field a"
  by (auto simp: compareBuildRuns_def Let_def buildrun_key_def strings_Compare_def time_Compare_def less_prod_def)

lemma buildrun_order:
  assumes "inj_on (\<lambda>b. qualified_name (br_Meta b)) A"
  shows "strict_order_on A (\<lambda>a b. let comparison = compareBuildRuns a b field in
    if desc then comparison > 0 else comparison < 0)"
proof -
  have "a = b" if "a \<in> A" "b \<in> A" "buildrun_key field a = buildrun_key field b" for a b
    using that assms by (auto simp: buildrun_key_def inj_on_def)
  then show ?thesis
    unfolding strict_order_on_def Let_def compareBuildRuns_key
    by (auto intro: less_trans) (metis linorder_neqE)+
qed

lemma filterSortBuildRuns_listing:
  assumes "mset xs = mset ys" and "distinct (map (\<lambda>b. qualified_name (br_Meta b)) xs)"
  shows "filterSortBuildRuns q xs options = filterSortBuildRuns q ys options"
  unfolding filterSortBuildRuns_def
proof (rule SliceStable_unique)
  show "mset (filter (buildrun_selected q options) xs) = mset (filter (buildrun_selected q options) ys)"
    using assms(1) by simp
  show "distinct (filter (buildrun_selected q options) xs)"
    using assms(2) by (simp add: distinct_map)
  have "inj_on (\<lambda>b. qualified_name (br_Meta b)) (set xs)" using assms(2) by (simp add: distinct_map)
  then have "inj_on (\<lambda>b. qualified_name (br_Meta b)) (set (filter (buildrun_selected q options) xs))"
    by (rule inj_on_subset) auto
  then show "strict_order_on (set (filter (buildrun_selected q options) xs))
     (\<lambda>a b. let comparison = compareBuildRuns a b (po_sort options) in
        if po_order options = ''desc'' then comparison > 0 else comparison < 0)"
    by (rule buildrun_order)
qed


definition same_query :: "query_values \<Rightarrow> query_values \<Rightarrow> bool" where
  "same_query q q' \<longleftrightarrow> (\<forall>name. name \<notin> {''pageToken'', ''continue'', ''offset''} \<longrightarrow> query_Get q name = query_Get q' name)"

lemma map_of_filter_key: "P k \<Longrightarrow> map_of (filter (\<lambda>(k, v). P k) q) k = map_of q k"
  by (induction q) auto

lemma map_of_filter_none: "\<not> P k \<Longrightarrow> map_of (filter (\<lambda>(k, v). P k) q) k = None"
  by (induction q) auto

lemma query_with_token:
  "query_Get (with_token q token) name =
     (if name = ''pageToken'' then token
      else if name \<in> {''continue'', ''offset''} then '''' else query_Get q name)"
proof -
  let ?P = "\<lambda>k. k \<notin> {''pageToken'', ''continue'', ''offset''}"
  show ?thesis
    using map_of_filter_key [of ?P name q] map_of_filter_none [of ?P name q]
    by (cases "?P name") (auto simp: query_Get_def with_token_def)
qed

lemma same_with_token: "same_query q q' \<Longrightarrow> same_query (with_token q token) q'"
  by (simp add: same_query_def query_with_token)

lemma page_token_nonempty: "page_token n \<noteq> ''''"
  by (simp add: page_token_def RawURL_EncodeToString_empty pageToken_json_def)

lemma page_offset_token: "reads_tokens codec \<Longrightarrow> 0 \<le> n \<Longrightarrow> page_offset codec q (page_token n) = Inr n"
  by (simp add: page_offset_def page_token_nonempty page_token_def RawURL_Decode_Encode reads_tokens_def
      page_token_nonempty [unfolded page_token_def])

lemma parse_with_token:
  assumes "parsePageOptions codec q sorts = Inr options" and "reads_tokens codec" and "0 \<le> n"
  shows "parsePageOptions codec (with_token q (page_token n)) sorts = Inr (options\<lparr>po_offset := n\<rparr>)"
proof -
  let ?q = "with_token q (page_token n)"
  have "query_Get ?q ''from'' = query_Get q ''from''" "query_Get ?q ''createdAfter'' = query_Get q ''createdAfter''"
    "query_Get ?q ''to'' = query_Get q ''to''" "query_Get ?q ''createdBefore'' = query_Get q ''createdBefore''"
    by (simp_all add: query_with_token)
  then have range: "page_range codec ?q = page_range codec q" by (simp only: page_range_def)
  show ?thesis
    using assms
    by (auto simp: parsePageOptions_def query_with_token range page_offset_token Let_def
        split: sum.splits if_splits prod.splits)
qed

lemma parse_limit:
  assumes "parsePageOptions codec q sorts = Inr options"
  shows "1 \<le> po_limit options" and "po_limit options \<le> 200"
proof -
  have "1 \<le> n \<and> n \<le> 200" if "boundedInt s 50 1 200 = Inr n" for s n
    using that by (auto simp: boundedInt_def split: if_splits option.splits)
  then show "1 \<le> po_limit options" "po_limit options \<le> 200"
    using assms by (auto simp: parsePageOptions_def Let_def split: sum.splits if_splits prod.splits)
qed

lemma same_query_selected:
  assumes "same_query q q'"
  shows "filterSortBuildRuns q xs (options\<lparr>po_offset := n\<rparr>) = filterSortBuildRuns q' xs options"
proof -
  have "buildrun_selected q (options\<lparr>po_offset := n\<rparr>) = buildrun_selected q' options"
    using assms by (intro ext) (simp add: buildrun_selected_def same_query_def)
  then show ?thesis by (simp add: filterSortBuildRuns_def)
qed

lemma paginate_page:
  assumes "0 \<le> n" and "n < int (length items)" and "1 \<le> po_limit options" and "po_offset options = n"
  defines "m \<equiv> min (n + po_limit options) (int (length items))"
  shows "paginate items options =
    (take (nat m - nat n) (drop (nat n) items), if m < int (length items) then page_token m else '''')"
  using assms by (auto simp: paginate_def Let_def min_def)

lemma follow_pages_from:
  assumes "reads_tokens codec" and listing: "\<And>i. mset (listing i) = mset runs"
    and names: "distinct (map (\<lambda>b. qualified_name (br_Meta b)) runs)"
    and limit: "1 \<le> po_limit options"
  shows "parsePageOptions codec q' buildrun_sorts = Inr (options\<lparr>po_offset := int n\<rparr>) \<Longrightarrow> same_query q' q \<Longrightarrow>
    length (filterSortBuildRuns q runs options) < n + fuel \<Longrightarrow> 0 < fuel \<Longrightarrow>
    follow_pages codec fuel q' listing i = Some (drop n (filterSortBuildRuns q runs options))"
proof (induction fuel arbitrary: n q' i)
  case 0
  then show ?case by simp
next
  case (Suc fuel)
  let ?o = "options\<lparr>po_offset := int n\<rparr>" and ?F = "filterSortBuildRuns q runs options"
  have d: "distinct (map (\<lambda>b. qualified_name (br_Meta b)) (listing i))"
    using names mset_eq_imp_distinct_iff [of "map (\<lambda>b. qualified_name (br_Meta b)) (listing i)"
        "map (\<lambda>b. qualified_name (br_Meta b)) runs"] listing [of i] by simp
  have F: "filterSortBuildRuns q' (listing i) ?o = ?F"
    using filterSortBuildRuns_listing [OF listing [of i] d] same_query_selected [OF Suc.prems(2)] by simp
  show ?case
  proof (cases "n < length ?F")
    case False
    then show ?thesis using Suc.prems(1) F by (simp add: list_build_runs_def Let_def paginate_def)
  next
    case True
    define m where "m = min (int n + po_limit options) (int (length ?F))"
    have m: "int n < m" "m \<le> int (length ?F)" using True limit by (auto simp: m_def)
    have page: "paginate ?F ?o = (take (nat m - n) (drop n ?F), if m < int (length ?F) then page_token m else '''')"
      using paginate_page [of "int n" ?F ?o] True limit by (simp add: m_def)
    show ?thesis
    proof (cases "m < int (length ?F)")
      case last: False
      then show ?thesis using Suc.prems(1) F page m by (simp add: list_build_runs_def Let_def)
    next
      case more: True
      let ?q = "with_token q' (page_token m)"
      have "parsePageOptions codec ?q buildrun_sorts = Inr (options\<lparr>po_offset := int (nat m)\<rparr>)"
        using parse_with_token [OF Suc.prems(1) assms(1), of m] m by simp
      then have next_pages: "follow_pages codec fuel ?q listing (Suc i) = Some (drop (nat m) ?F)"
        by (rule Suc.IH) (use Suc.prems m more in \<open>auto intro: same_with_token\<close>)
      have "drop n ?F = take (nat m - n) (drop n ?F) @ drop (nat m) ?F"
        using m by (metis (no_types, lifting) append_take_drop_id drop_drop le_add_diff_inverse2 nat_int
            order.strict_implies_order zless_nat_eq_int_zless)
      then show ?thesis
        using Suc.prems(1) F page more next_pages page_token_nonempty by (simp add: list_build_runs_def Let_def)
    qed
  qed
qed

text \<open>
  C26: A client that starts a listing of build runs at offset 0 and follows the continuation tokens
  reaches the end, within one request more than there are build runs, and the pages it was given,
  put together, are the whole listing: every selected build run exactly once, in the requested order,
  even though the API server may list the objects in another order at each request.
\<close>

theorem pages_enumerate_listing:
  assumes "reads_tokens codec" and "\<And>i. mset (listing i) = mset runs"
    and "distinct (map (\<lambda>b. qualified_name (br_Meta b)) runs)"
    and "parsePageOptions codec q buildrun_sorts = Inr options" and "po_offset options = 0"
  shows "\<exists>listed. follow_pages codec (Suc (length runs)) q listing 0 = Some listed
    \<and> listed = filterSortBuildRuns q runs options
    \<and> mset listed = mset (filter (buildrun_selected q options) runs)
    \<and> sorted_wrt (\<lambda>a b. if po_order options = ''desc'' then compareBuildRuns a b (po_sort options) > 0
        else compareBuildRuns a b (po_sort options) < 0) listed"
proof -
  let ?F = "filterSortBuildRuns q runs options"
  have m: "mset ?F = mset (filter (buildrun_selected q options) runs)"
    by (simp add: filterSortBuildRuns_def mset_SliceStable)
  then have "length ?F \<le> length runs" by (metis length_filter_le mset_eq_length)
  then have "follow_pages codec (Suc (length runs)) q listing 0 = Some (drop 0 ?F)"
    by (intro follow_pages_from) (use assms parse_limit in \<open>auto simp: same_query_def\<close>)
  moreover have "sorted_wrt (\<lambda>a b. let comparison = compareBuildRuns a b (po_sort options) in
      if po_order options = ''desc'' then comparison > 0 else comparison < 0) ?F"
    unfolding filterSortBuildRuns_def
  proof (rule sorted_SliceStable [OF buildrun_order])
    show "inj_on (\<lambda>b. qualified_name (br_Meta b)) (set (filter (buildrun_selected q options) runs))"
      by (rule inj_on_subset [of _ "set runs"]) (use assms(3) in \<open>auto simp: distinct_map\<close>)
    show "distinct (filter (buildrun_selected q options) runs)" using assms(3) by (simp add: distinct_map)
  qed
  ultimately show ?thesis using m by (simp add: Let_def)
qed

text \<open>A decoder of token texts, which reads back what \<open>json.Marshal\<close> writes.\<close>

lemma digits_value_snoc: "digits_value (s @ [c]) = 10 * digits_value s + (int (byte c) - 48)"
  by (simp add: digits_value_def)

lemma digits_value_digits: "digits_value (digits n) = int n"
proof (induction n rule: digits.induct)
  case (1 n)
  show ?case
  proof (cases "n < 10")
    case True
    then show ?thesis by (simp add: digits.simps [of n] digits_value_def byte_char_of)
  next
    case False
    have "digits n = digits (n div 10) @ [char_of (48 + n mod 10)]" using False by (simp add: digits.simps [of n])
    then have "digits_value (digits n) = 10 * int (n div 10) + int (n mod 10)"
      using 1 [OF False] by (simp add: digits_value_snoc byte_char_of)
    moreover have "int n = 10 * int (n div 10) + int (n mod 10)" by presburger
    ultimately show ?thesis by (rule trans [OF _ sym])
  qed
qed

lemma digits_set: "c \<in> set (digits n) \<Longrightarrow> is_digit c"
proof (induction n rule: digits.induct)
  case (1 n)
  then show ?case
    by (cases "n < 10") (auto simp: digits.simps [of n] is_digit_def byte_char_of)
qed

lemma digits_not_minus: "c \<in> set (digits n) \<Longrightarrow> c \<noteq> CHR ''-''" "c \<in> set (digits n) \<Longrightarrow> c \<noteq> CHR '',''"
  using digits_set [of c n] by (auto simp: is_digit_def byte_def)

lemma digits_nonempty: "digits n \<noteq> []"
  by (simp add: digits.simps [of n])

definition json_int :: "string \<Rightarrow> int" where
  "json_int s = (if s \<noteq> [] \<and> hd s = CHR ''-'' then - digits_value (tl s) else digits_value s)"

lemma json_int_Itoa: "json_int (Itoa n) = n"
proof -
  have "hd (digits (nat n)) \<noteq> CHR ''-''" using digits_nonempty digits_not_minus(1) hd_in_set by metis
  then show ?thesis by (simp add: json_int_def Itoa_def digits_value_digits digits_nonempty)
qed

definition read_token :: "string \<Rightarrow> pageToken option" where
  "read_token s =
     (case Cut (drop 5 s) (CHR '','') of (v, rest, found) \<Rightarrow>
        if found then Some \<lparr>tok_Version = json_int v, tok_Offset = json_int (butlast (drop 4 rest))\<rparr> else None)"

lemma read_token_json: "read_token (pageToken_json t) = Some t"
proof -
  have "CHR '','' \<notin> set (Itoa (tok_Version t))"
    using digits_not_minus(2) by (auto simp: Itoa_def)
  from Cut_at [OF this] show ?thesis
    by (simp add: read_token_def pageToken_json_def json_int_Itoa eval_nat_numeral)
qed

definition sample_page_codec :: page_codec where
  "sample_page_codec = \<lparr>pgc_Unmarshal = read_token, pgc_ParseTime = (\<lambda>s. None)\<rparr>"

definition sample_listed_run :: "string \<Rightarrow> gotime \<Rightarrow> BuildRun" where
  "sample_listed_run name t = BuildRun_zero\<lparr>br_Meta := ObjectMeta_zero\<lparr>meta_Name := name, meta_CreationTimestamp := t\<rparr>\<rparr>"

definition sample_listing :: "nat \<Rightarrow> BuildRun list" where
  "sample_listing i =
     (if i = 0 then [sample_listed_run ''a'' 1, sample_listed_run ''b'' 2]
      else [sample_listed_run ''b'' 2, sample_listed_run ''a'' 1])"

theorem pages_enumerate_listing_witness:
  "follow_pages sample_page_codec 3 [(''limit'', ''1'')] sample_listing 0
     = Some [sample_listed_run ''b'' 2, sample_listed_run ''a'' 1]"
proof -
  let ?o = "\<lparr>po_limit = 1, po_offset = 0, po_sort = ''createdAt'', po_order = ''desc'', po_from = None, po_to = None\<rparr>"
  have codec: "reads_tokens sample_page_codec"
    by (simp add: reads_tokens_def sample_page_codec_def read_token_json)
  have listing: "mset (sample_listing i) = mset (sample_listing 0)" for i by (simp add: sample_listing_def)
  have names: "distinct (map (\<lambda>b. qualified_name (br_Meta b)) (sample_listing 0))" by code_simp
  have parse: "parsePageOptions sample_page_codec [(''limit'', ''1'')] buildrun_sorts = Inr ?o" by code_simp
  have "length (sample_listing 0) = 2" by (simp add: sample_listing_def)
  moreover have "filterSortBuildRuns [(''limit'', ''1'')] (sample_listing 0) ?o = [sample_listed_run ''b'' 2, sample_listed_run ''a'' 1]"
    by (simp add: filterSortBuildRuns_def sample_listing_def buildrun_selected_def query_Get_def withinRange_def
        SliceStable_def compareBuildRuns_def time_Compare_def Let_def sample_listed_run_def)
  ultimately show ?thesis
    using pages_enumerate_listing [where listing = sample_listing, OF codec listing names parse]
    by (simp only: numeral_3_eq_3 numeral_2_eq_2 pageOptions.select_convs) blast
qed

end
