(* ===== verification/Conversion.thy ===== *)
theory Conversion
  imports ApiTypes
begin

text \<open>
  The conversions between the API versions: the root types of \<open>api/v1beta1/types.go\<close> (its value types
  are aliases of those of v1alpha1), \<open>internal/conversion/v1beta1.go\<close> and \<open>plan.go\<close>. \<open>copyJSON\<close>
  encodes a value and decodes it into the other version's type, which is the same type: each of its
  instances is an argument. The conversions are lossless where the codec is, except for the webhook
  section of a repository.
\<close>

section \<open>The beta types\<close>

record BetaProjectSpec =
  bprs_OrganizationRef :: string
  bprs_DisplayName :: string
  bprs_Description :: string
  bprs_OwnerTeam :: string
  bprs_WorkloadNamespace :: string
  bprs_DefaultRegistry :: string
  bprs_DefaultBranch :: string
  bprs_ServiceAccountName :: string
  bprs_Isolation :: ProjectIsolation
  bprs_Registry :: "ProjectRegistrySpec option"
  bprs_ImageTagPolicy :: "ProjectImageTagPolicySpec option"
  bprs_Quotas :: "ProjectQuotaSpec option"
  bprs_Notifications :: "ProjectNotificationSpec option"

record BetaRepositorySpec =
  bres_ProjectRef :: string
  bres_Provider :: RepositoryProvider
  bres_URL :: string
  bres_DefaultBranch :: string
  bres_CredentialSecretRef :: "SecretKeyRef option"
  bres_Webhook :: "RepositoryWebhook option"
  bres_PipelineTemplateRef :: string

record PipelineExecutionSpec =
  pes_Params :: "ParamSpec list"
  pes_Steps :: "PipelineStep list"
  pes_Cache :: PipelineCacheSpec

record BetaPipelineTemplateSpec =
  bpts_ProjectRef :: string
  bpts_Description :: string
  bpts_Execution :: PipelineExecutionSpec
  bpts_ImageBuild :: PipelineBuildSpec
  bpts_Resources :: PipelineResourceSpec
  bpts_SecurityPolicy :: PipelineSecuritySpec
  bpts_SupplyChain :: PipelineSupplyChainSpec

record SourceRevision =
  src_Requested :: string
  src_Resolved :: string
  src_Branch :: string

record ParameterValue =
  pval_String :: string

record BetaBuildRunSpec =
  bbrs_ProjectRef :: string
  bbrs_RepositoryRef :: string
  bbrs_PipelineTemplateRef :: string
  bbrs_Source :: SourceRevision
  bbrs_TriggeredBy :: TriggeredBy
  bbrs_ArtifactOutput :: ImageRef
  bbrs_Parameters :: "string \<rightharpoonup> ParameterValue"
  bbrs_Executor :: ExecutorType
  bbrs_Promotion :: BuildRunGitOpsSpec

record BetaEnvironmentSpec =
  bes_ProjectRef :: string
  bes_DisplayName :: string
  bes_TargetNamespace :: string
  bes_Type :: EnvironmentType
  bes_RequiresApproval :: bool
  bes_Provider :: EnvironmentGitOpsSpec
  bes_Policy :: EnvironmentPolicySpec

record ApprovalPolicy =
  ap_Required :: bool

record LegacyApprovalDecision =
  lad_ApprovedBy :: string
  lad_ApprovedAt :: "gotime option"
  lad_RejectedBy :: string
  lad_RejectedAt :: "gotime option"
  lad_Comment :: string

record BetaReleaseSpec =
  brls_ProjectRef :: string
  brls_EnvironmentRef :: string
  brls_BuildRunRef :: string
  brls_Artifact :: ImageRef
  brls_ApprovalPolicy :: ApprovalPolicy
  brls_LegacyApprovalDecision :: "LegacyApprovalDecision option"
  brls_Strategy :: ReleaseStrategy
  brls_PromotionMode :: PromotionMode
  brls_PullRequest :: PullRequestSpec
  brls_DeploymentTimeout :: duration
  brls_PromotedFrom :: string
  brls_RollbackOf :: string
  brls_RollbackTo :: string

record BetaProject =
  bproj_Meta :: ObjectMeta
  bproj_Spec :: BetaProjectSpec
  bproj_Status :: ProjectStatus

record BetaRepository =
  brepo_Meta :: ObjectMeta
  brepo_Spec :: BetaRepositorySpec
  brepo_Status :: RepositoryStatus

record BetaPipelineTemplate =
  bpt_Meta :: ObjectMeta
  bpt_Spec :: BetaPipelineTemplateSpec
  bpt_Status :: PipelineTemplateStatus

record BetaBuildRun =
  bbr_Meta :: ObjectMeta
  bbr_Spec :: BetaBuildRunSpec
  bbr_Status :: BuildRunStatus

record BetaEnvironment =
  benv_Meta :: ObjectMeta
  benv_Spec :: BetaEnvironmentSpec
  benv_Status :: EnvironmentStatus

record BetaRelease =
  brel_Meta :: ObjectMeta
  brel_Spec :: BetaReleaseSpec
  brel_Status :: ReleaseStatus


section \<open>The conversions\<close>

text \<open>The instances of \<open>copyJSON\<close>.\<close>

record json_codec =
  copy_Registry :: "ProjectRegistrySpec option \<Rightarrow> (ProjectRegistrySpec option) result"
  copy_ImageTagPolicy :: "ProjectImageTagPolicySpec option \<Rightarrow> (ProjectImageTagPolicySpec option) result"
  copy_Quotas :: "ProjectQuotaSpec option \<Rightarrow> (ProjectQuotaSpec option) result"
  copy_Notifications :: "ProjectNotificationSpec option \<Rightarrow> (ProjectNotificationSpec option) result"
  copy_ProjectStatus :: "ProjectStatus \<Rightarrow> ProjectStatus result"
  copy_Webhook :: "RepositoryWebhook \<Rightarrow> RepositoryWebhook result"
  copy_RepositoryStatus :: "RepositoryStatus \<Rightarrow> RepositoryStatus result"
  copy_Params :: "ParamSpec list \<Rightarrow> (ParamSpec list) result"
  copy_Steps :: "PipelineStep list \<Rightarrow> (PipelineStep list) result"
  copy_Cache :: "PipelineCacheSpec \<Rightarrow> PipelineCacheSpec result"
  copy_Build :: "PipelineBuildSpec \<Rightarrow> PipelineBuildSpec result"
  copy_Resources :: "PipelineResourceSpec \<Rightarrow> PipelineResourceSpec result"
  copy_Security :: "PipelineSecuritySpec \<Rightarrow> PipelineSecuritySpec result"
  copy_SupplyChain :: "PipelineSupplyChainSpec \<Rightarrow> PipelineSupplyChainSpec result"
  copy_TemplateStatus :: "PipelineTemplateStatus \<Rightarrow> PipelineTemplateStatus result"
  copy_BuildRunStatus :: "BuildRunStatus \<Rightarrow> BuildRunStatus result"
  copy_EnvironmentStatus :: "EnvironmentStatus \<Rightarrow> EnvironmentStatus result"
  copy_ReleaseStatus :: "ReleaseStatus \<Rightarrow> ReleaseStatus result"

text \<open>\<open>if out, err = m; err != nil { return nil, err }\<close>.\<close>

fun rbind :: "'a result \<Rightarrow> ('a \<Rightarrow> 'b result) \<Rightarrow> 'b result" where
  "rbind (Inl err) f = Inl err"
| "rbind (Inr a) f = f a"

definition ProjectToV1Beta1 :: "json_codec \<Rightarrow> Project \<Rightarrow> BetaProject result" where
  "ProjectToV1Beta1 c p =
     (let s = proj_Spec p in
      rbind (copy_Registry c (prs_Registry s)) (\<lambda>registry.
      rbind (copy_ImageTagPolicy c (prs_ImageTagPolicy s)) (\<lambda>tagPolicy.
      rbind (copy_Quotas c (prs_Quotas s)) (\<lambda>quotas.
      rbind (copy_Notifications c (prs_Notifications s)) (\<lambda>notifications.
      rbind (copy_ProjectStatus c (proj_Status p)) (\<lambda>status.
        Inr \<lparr>bproj_Meta = proj_Meta p,
          bproj_Spec = \<lparr>bprs_OrganizationRef = prs_OrganizationRef s, bprs_DisplayName = prs_DisplayName s,
            bprs_Description = prs_Description s, bprs_OwnerTeam = prs_OwnerTeam s,
            bprs_WorkloadNamespace = prs_Namespace s, bprs_DefaultRegistry = prs_DefaultRegistry s,
            bprs_DefaultBranch = prs_DefaultBranch s, bprs_ServiceAccountName = prs_ServiceAccountName s,
            bprs_Isolation = prs_Isolation s, bprs_Registry = registry, bprs_ImageTagPolicy = tagPolicy,
            bprs_Quotas = quotas, bprs_Notifications = notifications\<rparr>,
          bproj_Status = status\<rparr>))))))"

definition ProjectToV1Alpha1 :: "json_codec \<Rightarrow> BetaProject \<Rightarrow> Project result" where
  "ProjectToV1Alpha1 c p =
     (let s = bproj_Spec p in
      rbind (copy_Registry c (bprs_Registry s)) (\<lambda>registry.
      rbind (copy_ImageTagPolicy c (bprs_ImageTagPolicy s)) (\<lambda>tagPolicy.
      rbind (copy_Quotas c (bprs_Quotas s)) (\<lambda>quotas.
      rbind (copy_Notifications c (bprs_Notifications s)) (\<lambda>notifications.
      rbind (copy_ProjectStatus c (bproj_Status p)) (\<lambda>status.
        Inr \<lparr>proj_Meta = bproj_Meta p,
          proj_Spec = \<lparr>prs_OrganizationRef = bprs_OrganizationRef s, prs_DisplayName = bprs_DisplayName s,
            prs_Description = bprs_Description s, prs_OwnerTeam = bprs_OwnerTeam s,
            prs_Namespace = bprs_WorkloadNamespace s, prs_DefaultRegistry = bprs_DefaultRegistry s,
            prs_DefaultBranch = bprs_DefaultBranch s, prs_ServiceAccountName = bprs_ServiceAccountName s,
            prs_Isolation = bprs_Isolation s, prs_Registry = registry, prs_ImageTagPolicy = tagPolicy,
            prs_Quotas = quotas, prs_Notifications = notifications\<rparr>,
          proj_Status = status\<rparr>))))))"

definition RepositoryToV1Beta1 :: "json_codec \<Rightarrow> Repository \<Rightarrow> BetaRepository result" where
  "RepositoryToV1Beta1 c r =
     (let s = repo_Spec r; cred = rs_CredentialSecretRef s; hook = rs_Webhook s in
      rbind (if wh_Enabled hook \<or> rskr_Name (wh_SecretRef hook) \<noteq> '''' \<or> wh_Events hook \<noteq> []
             then rbind (copy_Webhook c hook) (\<lambda>v. Inr (Some v)) else Inr None) (\<lambda>webhook.
      rbind (copy_RepositoryStatus c (repo_Status r)) (\<lambda>status.
        Inr \<lparr>brepo_Meta = repo_Meta r,
          brepo_Spec = \<lparr>bres_ProjectRef = rs_ProjectRef s, bres_Provider = rs_Provider s, bres_URL = rs_URL s,
            bres_DefaultBranch = rs_DefaultBranch s,
            bres_CredentialSecretRef = (if skr_Name cred \<noteq> '''' \<or> skr_Key cred \<noteq> '''' then Some cred else None),
            bres_Webhook = webhook, bres_PipelineTemplateRef = rs_PipelineTemplateRef s\<rparr>,
          brepo_Status = status\<rparr>)))"

definition RepositoryToV1Alpha1 :: "json_codec \<Rightarrow> BetaRepository \<Rightarrow> Repository result" where
  "RepositoryToV1Alpha1 c r =
     (let s = brepo_Spec r in
      rbind (case bres_Webhook s of Some hook \<Rightarrow> copy_Webhook c hook | None \<Rightarrow> Inr RepositoryWebhook_zero) (\<lambda>webhook.
      rbind (copy_RepositoryStatus c (brepo_Status r)) (\<lambda>status.
        Inr \<lparr>repo_Meta = brepo_Meta r,
          repo_Spec = \<lparr>rs_ProjectRef = bres_ProjectRef s, rs_Provider = bres_Provider s, rs_URL = bres_URL s,
            rs_DefaultBranch = bres_DefaultBranch s,
            rs_CredentialSecretRef = (case bres_CredentialSecretRef s of Some v \<Rightarrow> v | None \<Rightarrow> SecretKeyRef_zero),
            rs_Webhook = webhook, rs_PipelineTemplateRef = bres_PipelineTemplateRef s\<rparr>,
          repo_Status = status\<rparr>)))"

definition PipelineTemplateToV1Beta1 :: "json_codec \<Rightarrow> PipelineTemplate \<Rightarrow> BetaPipelineTemplate result" where
  "PipelineTemplateToV1Beta1 c t =
     (let s = pt_Spec t in
      rbind (copy_Params c (pts_Params s)) (\<lambda>params.
      rbind (copy_Steps c (pts_Steps s)) (\<lambda>steps.
      rbind (copy_Cache c (pts_Cache s)) (\<lambda>cache.
      rbind (copy_Build c (pts_Build s)) (\<lambda>build.
      rbind (copy_Resources c (pts_Resources s)) (\<lambda>resources.
      rbind (copy_Security c (pts_Security s)) (\<lambda>security.
      rbind (copy_SupplyChain c (pts_SupplyChain s)) (\<lambda>supply.
      rbind (copy_TemplateStatus c (pt_Status t)) (\<lambda>status.
        Inr \<lparr>bpt_Meta = pt_Meta t,
          bpt_Spec = \<lparr>bpts_ProjectRef = pts_ProjectRef s, bpts_Description = pts_Description s,
            bpts_Execution = \<lparr>pes_Params = params, pes_Steps = steps, pes_Cache = cache\<rparr>,
            bpts_ImageBuild = build, bpts_Resources = resources, bpts_SecurityPolicy = security,
            bpts_SupplyChain = supply\<rparr>,
          bpt_Status = status\<rparr>)))))))))"

definition PipelineTemplateToV1Alpha1 :: "json_codec \<Rightarrow> BetaPipelineTemplate \<Rightarrow> PipelineTemplate result" where
  "PipelineTemplateToV1Alpha1 c t =
     (let s = bpt_Spec t; x = bpts_Execution s in
      rbind (copy_Params c (pes_Params x)) (\<lambda>params.
      rbind (copy_Steps c (pes_Steps x)) (\<lambda>steps.
      rbind (copy_Cache c (pes_Cache x)) (\<lambda>cache.
      rbind (copy_Build c (bpts_ImageBuild s)) (\<lambda>build.
      rbind (copy_Resources c (bpts_Resources s)) (\<lambda>resources.
      rbind (copy_Security c (bpts_SecurityPolicy s)) (\<lambda>security.
      rbind (copy_SupplyChain c (bpts_SupplyChain s)) (\<lambda>supply.
      rbind (copy_TemplateStatus c (bpt_Status t)) (\<lambda>status.
        Inr \<lparr>pt_Meta = bpt_Meta t,
          pt_Spec = \<lparr>pts_ProjectRef = bpts_ProjectRef s, pts_Description = bpts_Description s,
            pts_Params = params, pts_Steps = steps, pts_Build = build, pts_Cache = cache,
            pts_Resources = resources, pts_Security = security, pts_SupplyChain = supply\<rparr>,
          pt_Status = status\<rparr>)))))))))"

definition BuildRunToV1Beta1 :: "json_codec \<Rightarrow> BuildRun \<Rightarrow> BetaBuildRun result" where
  "BuildRunToV1Beta1 c b =
     (let s = br_Spec b in
      rbind (copy_BuildRunStatus c (br_Status b)) (\<lambda>status.
        Inr \<lparr>bbr_Meta = br_Meta b,
          bbr_Spec = \<lparr>bbrs_ProjectRef = brs_ProjectRef s, bbrs_RepositoryRef = brs_RepositoryRef s,
            bbrs_PipelineTemplateRef = brs_PipelineTemplateRef s,
            bbrs_Source = \<lparr>src_Requested = brs_Revision s, src_Resolved = brs_CommitSHA s, src_Branch = brs_Branch s\<rparr>,
            bbrs_TriggeredBy = brs_TriggeredBy s, bbrs_ArtifactOutput = brs_Image s,
            bbrs_Parameters = map_option (\<lambda>v. \<lparr>pval_String = v\<rparr>) \<circ> brs_Params s,
            bbrs_Executor = brs_Executor s, bbrs_Promotion = brs_GitOps s\<rparr>,
          bbr_Status = status\<rparr>))"

definition BuildRunToV1Alpha1 :: "json_codec \<Rightarrow> BetaBuildRun \<Rightarrow> BuildRun result" where
  "BuildRunToV1Alpha1 c b =
     (let s = bbr_Spec b in
      rbind (copy_BuildRunStatus c (bbr_Status b)) (\<lambda>status.
        Inr \<lparr>br_Meta = bbr_Meta b,
          br_Spec = \<lparr>brs_ProjectRef = bbrs_ProjectRef s, brs_RepositoryRef = bbrs_RepositoryRef s,
            brs_PipelineTemplateRef = bbrs_PipelineTemplateRef s,
            brs_Revision = src_Requested (bbrs_Source s), brs_Branch = src_Branch (bbrs_Source s),
            brs_CommitSHA = src_Resolved (bbrs_Source s),
            brs_TriggeredBy = bbrs_TriggeredBy s, brs_Image = bbrs_ArtifactOutput s,
            brs_Params = map_option pval_String \<circ> bbrs_Parameters s,
            brs_Executor = bbrs_Executor s, brs_GitOps = bbrs_Promotion s\<rparr>,
          br_Status = status\<rparr>))"

definition EnvironmentToV1Beta1 :: "json_codec \<Rightarrow> Environment \<Rightarrow> BetaEnvironment result" where
  "EnvironmentToV1Beta1 c e =
     (let s = env_Spec e in
      rbind (copy_EnvironmentStatus c (env_Status e)) (\<lambda>status.
        Inr \<lparr>benv_Meta = env_Meta e,
          benv_Spec = \<lparr>bes_ProjectRef = es_ProjectRef s, bes_DisplayName = es_DisplayName s,
            bes_TargetNamespace = es_Namespace s, bes_Type = es_Type s, bes_RequiresApproval = es_RequiresApproval s,
            bes_Provider = es_GitOps s, bes_Policy = es_Policy s\<rparr>,
          benv_Status = status\<rparr>))"

definition EnvironmentToV1Alpha1 :: "json_codec \<Rightarrow> BetaEnvironment \<Rightarrow> Environment result" where
  "EnvironmentToV1Alpha1 c e =
     (let s = benv_Spec e in
      rbind (copy_EnvironmentStatus c (benv_Status e)) (\<lambda>status.
        Inr \<lparr>env_Meta = benv_Meta e,
          env_Spec = \<lparr>es_ProjectRef = bes_ProjectRef s, es_DisplayName = bes_DisplayName s,
            es_Namespace = bes_TargetNamespace s, es_Type = bes_Type s, es_RequiresApproval = bes_RequiresApproval s,
            es_GitOps = bes_Provider s, es_Policy = bes_Policy s\<rparr>,
          env_Status = status\<rparr>))"

definition ReleaseToV1Beta1 :: "json_codec \<Rightarrow> Release \<Rightarrow> BetaRelease result" where
  "ReleaseToV1Beta1 c r =
     (let s = rel_Spec r; a = rls_Approval s in
      rbind (copy_ReleaseStatus c (rel_Status r)) (\<lambda>status.
        Inr \<lparr>brel_Meta = rel_Meta r,
          brel_Spec = \<lparr>brls_ProjectRef = rls_ProjectRef s, brls_EnvironmentRef = rls_EnvironmentRef s,
            brls_BuildRunRef = rls_BuildRunRef s, brls_Artifact = rls_Image s,
            brls_ApprovalPolicy = \<lparr>ap_Required = ra_Required a\<rparr>,
            brls_LegacyApprovalDecision =
              (if ra_ApprovedBy a \<noteq> '''' \<or> ra_ApprovedAt a \<noteq> None \<or> ra_RejectedBy a \<noteq> ''''
                  \<or> ra_RejectedAt a \<noteq> None \<or> ra_Comment a \<noteq> ''''
               then Some \<lparr>lad_ApprovedBy = ra_ApprovedBy a, lad_ApprovedAt = ra_ApprovedAt a,
                 lad_RejectedBy = ra_RejectedBy a, lad_RejectedAt = ra_RejectedAt a, lad_Comment = ra_Comment a\<rparr>
               else None),
            brls_Strategy = rls_Strategy s, brls_PromotionMode = rls_PromotionMode s,
            brls_PullRequest = rls_PullRequest s, brls_DeploymentTimeout = rls_DeploymentTimeout s,
            brls_PromotedFrom = rls_PromotedFrom s, brls_RollbackOf = rls_RollbackOf s,
            brls_RollbackTo = rls_RollbackTo s\<rparr>,
          brel_Status = status\<rparr>))"

definition ReleaseToV1Alpha1 :: "json_codec \<Rightarrow> BetaRelease \<Rightarrow> Release result" where
  "ReleaseToV1Alpha1 c r =
     (let s = brel_Spec r;
          approval = ReleaseApprovalSpec_zero\<lparr>ra_Required := ap_Required (brls_ApprovalPolicy s)\<rparr> in
      rbind (copy_ReleaseStatus c (brel_Status r)) (\<lambda>status.
        Inr \<lparr>rel_Meta = brel_Meta r,
          rel_Spec = \<lparr>rls_ProjectRef = brls_ProjectRef s, rls_EnvironmentRef = brls_EnvironmentRef s,
            rls_BuildRunRef = brls_BuildRunRef s, rls_Image = brls_Artifact s,
            rls_Approval = (case brls_LegacyApprovalDecision s of
                None \<Rightarrow> approval
              | Some v \<Rightarrow> approval\<lparr>ra_ApprovedBy := lad_ApprovedBy v, ra_ApprovedAt := lad_ApprovedAt v,
                  ra_RejectedBy := lad_RejectedBy v, ra_RejectedAt := lad_RejectedAt v, ra_Comment := lad_Comment v\<rparr>),
            rls_Strategy = brls_Strategy s, rls_PromotionMode = brls_PromotionMode s,
            rls_PullRequest = brls_PullRequest s, rls_DeploymentTimeout = brls_DeploymentTimeout s,
            rls_PromotedFrom = brls_PromotedFrom s, rls_RollbackOf = brls_RollbackOf s,
            rls_RollbackTo = brls_RollbackTo s\<rparr>,
          rel_Status = status\<rparr>))"


section \<open>The conversion plan\<close>

datatype Version = VersionV1Alpha1 | VersionV1Beta1 | VersionOther string

record Plan =
  plan_Hub :: Version
  plan_Served :: "Version list"
  plan_Storage :: Version

definition CurrentPlan :: Plan where
  "CurrentPlan = \<lparr>plan_Hub = VersionV1Alpha1, plan_Served = [VersionV1Alpha1], plan_Storage = VersionV1Alpha1\<rparr>"

definition Supports :: "Plan \<Rightarrow> Version \<Rightarrow> bool" where
  "Supports p version = list_ex (\<lambda>served. served = version) (plan_Served p)"

lemma plan_serves_stored: "Supports CurrentPlan (plan_Storage CurrentPlan) \<and> Supports CurrentPlan (plan_Hub CurrentPlan)"
  by (simp add: Supports_def CurrentPlan_def)


section \<open>Round trips\<close>

text \<open>
  The codec reads back the parts of the object that the conversion copies. This holds of objects as
  the API server stores them; JSON drops, for example, the fractions of a second of a time.
\<close>

definition wire_Project :: "json_codec \<Rightarrow> Project \<Rightarrow> bool" where
  "wire_Project c p \<longleftrightarrow> copy_Registry c (prs_Registry (proj_Spec p)) = Inr (prs_Registry (proj_Spec p))
     \<and> copy_ImageTagPolicy c (prs_ImageTagPolicy (proj_Spec p)) = Inr (prs_ImageTagPolicy (proj_Spec p))
     \<and> copy_Quotas c (prs_Quotas (proj_Spec p)) = Inr (prs_Quotas (proj_Spec p))
     \<and> copy_Notifications c (prs_Notifications (proj_Spec p)) = Inr (prs_Notifications (proj_Spec p))
     \<and> copy_ProjectStatus c (proj_Status p) = Inr (proj_Status p)"

definition wire_PipelineTemplate :: "json_codec \<Rightarrow> PipelineTemplate \<Rightarrow> bool" where
  "wire_PipelineTemplate c t \<longleftrightarrow> copy_Params c (pts_Params (pt_Spec t)) = Inr (pts_Params (pt_Spec t))
     \<and> copy_Steps c (pts_Steps (pt_Spec t)) = Inr (pts_Steps (pt_Spec t))
     \<and> copy_Cache c (pts_Cache (pt_Spec t)) = Inr (pts_Cache (pt_Spec t))
     \<and> copy_Build c (pts_Build (pt_Spec t)) = Inr (pts_Build (pt_Spec t))
     \<and> copy_Resources c (pts_Resources (pt_Spec t)) = Inr (pts_Resources (pt_Spec t))
     \<and> copy_Security c (pts_Security (pt_Spec t)) = Inr (pts_Security (pt_Spec t))
     \<and> copy_SupplyChain c (pts_SupplyChain (pt_Spec t)) = Inr (pts_SupplyChain (pt_Spec t))
     \<and> copy_TemplateStatus c (pt_Status t) = Inr (pt_Status t)"

definition wire_Repository :: "json_codec \<Rightarrow> Repository \<Rightarrow> bool" where
  "wire_Repository c r \<longleftrightarrow> copy_Webhook c (rs_Webhook (repo_Spec r)) = Inr (rs_Webhook (repo_Spec r))
     \<and> copy_RepositoryStatus c (repo_Status r) = Inr (repo_Status r)"

lemmas conversion_defs =
  ProjectToV1Beta1_def ProjectToV1Alpha1_def RepositoryToV1Beta1_def RepositoryToV1Alpha1_def
  PipelineTemplateToV1Beta1_def PipelineTemplateToV1Alpha1_def BuildRunToV1Beta1_def BuildRunToV1Alpha1_def
  EnvironmentToV1Beta1_def EnvironmentToV1Alpha1_def ReleaseToV1Beta1_def ReleaseToV1Alpha1_def Let_def

lemma params_roundtrip: "map_option pval_String \<circ> (map_option (\<lambda>v. \<lparr>pval_String = v\<rparr>) \<circ> m) = m"
  by (rule ext) (simp add: option.map_comp o_def option.map_ident)

text \<open>
  C27: Converting a project, pipeline template, build run, environment or release to v1beta1 and back
  succeeds and gives the object that was converted, approval decisions included, wherever the codec
  reads back the copied parts of it.
\<close>

theorem conversions_roundtrip:
  "(wire_Project c p \<longrightarrow> rbind (ProjectToV1Beta1 c p) (ProjectToV1Alpha1 c) = Inr p)
   \<and> (wire_PipelineTemplate c t \<longrightarrow> rbind (PipelineTemplateToV1Beta1 c t) (PipelineTemplateToV1Alpha1 c) = Inr t)
   \<and> (copy_BuildRunStatus c (br_Status b) = Inr (br_Status b) \<longrightarrow>
        rbind (BuildRunToV1Beta1 c b) (BuildRunToV1Alpha1 c) = Inr b)
   \<and> (copy_EnvironmentStatus c (env_Status e) = Inr (env_Status e) \<longrightarrow>
        rbind (EnvironmentToV1Beta1 c e) (EnvironmentToV1Alpha1 c) = Inr e)
   \<and> (copy_ReleaseStatus c (rel_Status r) = Inr (rel_Status r) \<longrightarrow>
        rbind (ReleaseToV1Beta1 c r) (ReleaseToV1Alpha1 c) = Inr r)"
proof (intro conjI impI, goal_cases)
  case 1
  then show ?case by (cases p) (simp add: conversion_defs wire_Project_def)
next
  case 2
  then show ?case by (cases t) (simp add: conversion_defs wire_PipelineTemplate_def)
next
  case 3
  then show ?case by (cases b) (simp add: conversion_defs params_roundtrip)
next
  case 4
  then show ?case by (cases e) (simp add: conversion_defs)
next
  case 5
  then show ?case by (cases r) (simp add: conversion_defs ReleaseApprovalSpec_zero_def)
qed

text \<open>A codec that reads back everything.\<close>

definition exact_codec :: json_codec where
  "exact_codec = \<lparr>copy_Registry = Inr, copy_ImageTagPolicy = Inr, copy_Quotas = Inr, copy_Notifications = Inr, copy_ProjectStatus = Inr, copy_Webhook = Inr, copy_RepositoryStatus = Inr, copy_Params = Inr, copy_Steps = Inr, copy_Cache = Inr, copy_Build = Inr, copy_Resources = Inr, copy_Security = Inr, copy_SupplyChain = Inr, copy_TemplateStatus = Inr, copy_BuildRunStatus = Inr, copy_EnvironmentStatus = Inr, copy_ReleaseStatus = Inr\<rparr>"

theorem conversions_roundtrip_witness:
  "rbind (ReleaseToV1Beta1 exact_codec Release_zero) (ReleaseToV1Alpha1 exact_codec) = Inr Release_zero
   \<and> rbind (ProjectToV1Beta1 exact_codec Project_zero) (ProjectToV1Alpha1 exact_codec) = Inr Project_zero"
  using conversions_roundtrip [of exact_codec Project_zero PipelineTemplate_zero BuildRun_zero Environment_zero Release_zero]
  by (simp add: wire_Project_def exact_codec_def)

text \<open>
  The conversion of a repository to v1beta1 and back loses its webhook section exactly when the
  webhook is disabled, names no secret and lists no events but is not empty otherwise: the section is
  then left out of the beta object, and with it the key of the secret, the branch and tag filters and
  the settings for pull requests. In every other case the repository comes back unchanged.
\<close>

theorem repository_roundtrip_iff:
  assumes "wire_Repository c r"
  defines "hook \<equiv> rs_Webhook (repo_Spec r)"
  shows "rbind (RepositoryToV1Beta1 c r) (RepositoryToV1Alpha1 c) = Inr r \<longleftrightarrow>
     wh_Enabled hook \<or> rskr_Name (wh_SecretRef hook) \<noteq> '''' \<or> wh_Events hook \<noteq> [] \<or> hook = RepositoryWebhook_zero"
proof -
  have cred: "SecretKeyRef_zero = k" if "skr_Name k = ''''" "skr_Key k = ''''" for k
    using that by (cases k) (simp add: SecretKeyRef_zero_def)
  obtain m s st where r: "r = \<lparr>repo_Meta = m, repo_Spec = s, repo_Status = st\<rparr>" by (cases r)
  obtain p q u d k h t where s: "s = \<lparr>rs_ProjectRef = p, rs_Provider = q, rs_URL = u, rs_DefaultBranch = d,
      rs_CredentialSecretRef = k, rs_Webhook = h, rs_PipelineTemplateRef = t\<rparr>" by (cases s)
  have wire: "copy_Webhook c h = Inr h" "copy_RepositoryStatus c st = Inr st"
    using assms(1) by (simp_all add: wire_Repository_def r s)
  show ?thesis
  proof (cases "wh_Enabled h \<or> rskr_Name (wh_SecretRef h) \<noteq> '''' \<or> wh_Events h \<noteq> []")
    case True
    then show ?thesis unfolding hook_def by (auto simp: conversion_defs r s wire dest: cred)
  next
    case False
    then show ?thesis unfolding hook_def by (auto simp: conversion_defs r s wire dest: cred)
  qed
qed

definition sample_filtered_repository :: Repository where
  "sample_filtered_repository = Repository_zero\<lparr>repo_Spec := RepositorySpec_zero\<lparr>rs_Webhook :=
     RepositoryWebhook_zero\<lparr>wh_BranchFilters := \<lparr>rf_Include = [''main''], rf_Exclude = []\<rparr>\<rparr>\<rparr>\<rparr>"

theorem repository_roundtrip_iff_witness:
  "rbind (RepositoryToV1Beta1 exact_codec sample_filtered_repository) (RepositoryToV1Alpha1 exact_codec)
     \<noteq> Inr sample_filtered_repository"
proof -
  have "wire_Repository exact_codec sample_filtered_repository" by (simp add: wire_Repository_def exact_codec_def)
  from repository_roundtrip_iff [OF this] show ?thesis
    by (simp add: sample_filtered_repository_def zero_defs)
qed

end
