(* ===== verification/GoGlob.thy ===== *)
theory GoGlob
  imports GoStrings
begin

text \<open>
  Go's \<open>path.Match\<close>, which decides the branch and tag filters of repositories, as the standard
  library implements it: the pattern is cut into chunks at its stars, each chunk is matched at the
  leftmost position the star before it can reach, and no choice is ever taken back. A reference
  semantics that takes all choices into account is given beside it; the two agree, except that
  the implementation can miss a match when a character class admits the separator.
\<close>

section \<open>The implementation\<close>

definition backslash :: char where "backslash = CHR 0x5C"

definition ErrBadPattern :: go_error where
  "ErrBadPattern = errors_New ''syntax error in pattern''"

text \<open>
  \<open>scanChunk\<close>: the loop over the pattern. The flag tells whether the scan is inside a class; the
  result is the length of the chunk.
\<close>

fun chunk_length :: "bool \<Rightarrow> string \<Rightarrow> nat" where
  "chunk_length inrange [] = 0"
| "chunk_length inrange (c # p) =
     (if c = backslash then (case p of [] \<Rightarrow> 1 | d # q \<Rightarrow> 2 + chunk_length inrange q)
      else if c = CHR ''['' then Suc (chunk_length True p)
      else if c = CHR '']'' then Suc (chunk_length False p)
      else if c = CHR ''*'' \<and> \<not> inrange then 0
      else Suc (chunk_length inrange p))"

definition scanChunk :: "string \<Rightarrow> bool \<times> string \<times> string" where
  "scanChunk pattern =
     (let rest = dropWhile (\<lambda>c. c = CHR ''*'') pattern; n = chunk_length False rest in
      (rest \<noteq> pattern, take n rest, drop n rest))"

text \<open>\<open>getEsc\<close>: a character of a class, possibly escaped, and what follows it.\<close>

definition getEsc :: "string \<Rightarrow> (char \<times> string) option" where
  "getEsc chunk =
     (if chunk = [] \<or> hd chunk = CHR ''-'' \<or> hd chunk = CHR '']'' then None
      else
        let chunk = (if hd chunk = backslash then tl chunk else chunk) in
        if chunk = [] \<or> tl chunk = [] then None else Some (hd chunk, tl chunk))"

lemma getEsc_shorter: "getEsc chunk = Some (c, rest) \<Longrightarrow> length rest < length chunk"
  by (auto simp: getEsc_def Let_def split: if_splits)

text \<open>
  The loop over the ranges of a class: the ranges seen so far are kept (in the code, whether one
  of them contains the character, \<open>match\<close>); the class ends at the first \<open>]\<close> that is not its first
  character.
\<close>

function class_ranges :: "string \<Rightarrow> (char \<times> char) list \<Rightarrow> ((char \<times> char) list \<times> string) option" where
  "class_ranges chunk ranges =
     (if chunk \<noteq> [] \<and> hd chunk = CHR '']'' \<and> ranges \<noteq> [] then Some (ranges, tl chunk)
      else (case getEsc chunk of
          None \<Rightarrow> None
        | Some (lo, rest) \<Rightarrow>
            if hd rest = CHR ''-''
            then (case getEsc (tl rest) of
                None \<Rightarrow> None
              | Some (hi, rest') \<Rightarrow> class_ranges rest' (ranges @ [(lo, hi)]))
            else class_ranges rest (ranges @ [(lo, lo)])))"
  by pat_completeness auto
termination
proof (relation "measure (\<lambda>(chunk, ranges). length chunk)", goal_cases)
  case (2 chunk ranges p lo rest q hi rest')
  then have "length rest < length chunk" "length rest' < length (tl rest)"
    by (auto dest: getEsc_shorter)
  then show ?case by simp
next
  case (3 chunk ranges p lo rest)
  then show ?case by (auto dest: getEsc_shorter)
qed simp

declare class_ranges.simps [simp del]

lemma class_ranges_shorter: "class_ranges chunk ranges = Some (rs, rest) \<Longrightarrow> length rest < length chunk"
proof (induction chunk ranges rule: class_ranges.induct)
  case (1 chunk ranges)
  show ?case
  proof (cases "chunk \<noteq> [] \<and> hd chunk = CHR '']'' \<and> ranges \<noteq> []")
    case True
    then have "class_ranges chunk ranges = Some (ranges, tl chunk)"
      by (simp add: class_ranges.simps [of chunk])
    with 1(3) True show ?thesis by (cases chunk) auto
  next
    case False
    with 1(3) obtain lo r where g: "getEsc chunk = Some (lo, r)"
      by (auto simp: class_ranges.simps [of chunk] split: option.splits)
    note short = getEsc_shorter [OF g]
    show ?thesis
    proof (cases "hd r = CHR ''-''")
      case True
      with False g 1(3) obtain hi r' where h: "getEsc (tl r) = Some (hi, r')"
        by (auto simp: class_ranges.simps [of chunk] split: option.splits)
      from False g h True 1(3) have "class_ranges r' (ranges @ [(lo, hi)]) = Some (rs, rest)"
        by (auto simp: class_ranges.simps [of chunk])
      from 1(1) [OF False g refl True h refl this] getEsc_shorter [OF h] short show ?thesis by simp
    next
      case no: False
      with False g 1(3) have "class_ranges r (ranges @ [(lo, lo)]) = Some (rs, rest)"
        by (auto simp: class_ranges.simps [of chunk])
      from 1(2) [OF False g refl no this] short show ?thesis by simp
    qed
  qed
qed

definition in_ranges :: "(char \<times> char) list \<Rightarrow> char \<Rightarrow> bool" where
  "in_ranges ranges c = list_ex (\<lambda>(lo, hi). byte lo \<le> byte c \<and> byte c \<le> byte hi) ranges"

text \<open>The optional \<open>^\<close> after the opening bracket.\<close>

definition negation :: "string \<Rightarrow> bool \<times> string" where
  "negation chunk = (if chunk \<noteq> [] \<and> hd chunk = CHR ''^'' then (True, tl chunk) else (False, chunk))"

lemma class_shorter:
  "negation chunk = (negated, chunk1) \<Longrightarrow> class_ranges chunk1 ranges = Some (rs, rest) \<Longrightarrow>
   length rest < Suc (length chunk)"
  by (cases chunk) (auto simp: negation_def dest!: class_ranges_shorter split: if_splits)

text \<open>
  \<open>matchChunk\<close>: \<open>Inl\<close> is \<open>ErrBadPattern\<close>, \<open>Inr None\<close> a failure, \<open>Inr (Some rest)\<close> a match and what it
  leaves. After a failure the loop goes on only to check the syntax. An absent character reads
  as the code's zero rune.
\<close>

function match_loop :: "bool \<Rightarrow> string \<Rightarrow> string \<Rightarrow> string option result" where
  "match_loop failed [] s = Inr (if failed then None else Some s)"
| "match_loop failed (c # chunk) s =
     (let failed = (failed \<or> s = []) in
      if c = CHR ''[''
      then
        (let r = (if failed then CHR 0x00 else hd s); s' = (if failed then s else tl s) in
         case negation chunk of (negated, chunk1) \<Rightarrow>
           (case class_ranges chunk1 [] of
              None \<Rightarrow> Inl ErrBadPattern
            | Some (ranges, rest) \<Rightarrow> match_loop (failed \<or> in_ranges ranges r = negated) rest s'))
      else if c = CHR ''?''
      then match_loop (failed \<or> hd s = CHR ''/'') chunk (if failed then s else tl s)
      else if c = backslash
      then (case chunk of
              [] \<Rightarrow> Inl ErrBadPattern
            | d # chunk' \<Rightarrow> match_loop (failed \<or> d \<noteq> hd s) chunk' (if failed then s else tl s))
      else match_loop (failed \<or> c \<noteq> hd s) chunk (if failed then s else tl s))"
  by pat_completeness auto
termination
  by (relation "measure (\<lambda>(failed, chunk, s). length chunk)") (auto dest: class_shorter [OF sym])

definition matchChunk :: "string \<Rightarrow> string \<Rightarrow> string option result" where
  "matchChunk chunk s = match_loop False chunk s"

text \<open>
  The loop behind a star: the chunk is tried after one more skipped character each time, and a
  separator cannot be skipped. The last chunk must reach the end of the name.
\<close>

fun skip_match :: "bool \<Rightarrow> string \<Rightarrow> string \<Rightarrow> string option result" where
  "skip_match last_chunk chunk [] = Inr None"
| "skip_match last_chunk chunk (c # name) =
     (if c = CHR ''/'' then Inr None
      else (case matchChunk chunk name of
          Inl err \<Rightarrow> Inl err
        | Inr None \<Rightarrow> skip_match last_chunk chunk name
        | Inr (Some t) \<Rightarrow>
            if last_chunk \<and> t \<noteq> [] then skip_match last_chunk chunk name else Inr (Some t)))"

lemma chunk_progress:
  assumes "scanChunk pattern = (star, chunk, rest)" and "pattern \<noteq> []"
  shows "length rest < length pattern"
proof -
  let ?r = "dropWhile (\<lambda>c. c = CHR ''*'') pattern"
  have r: "rest = drop (chunk_length False ?r) ?r"
    using assms(1) by (simp add: scanChunk_def Let_def)
  show ?thesis
  proof (cases "hd pattern = CHR ''*''")
    case True
    with assms(2) obtain q where p: "pattern = CHR ''*'' # q" by (cases pattern) auto
    have "length ?r \<le> length q" unfolding p by (simp add: length_dropWhile_le)
    then show ?thesis using r p by simp
  next
    case False
    with assms(2) obtain c q where p: "pattern = c # q" "c \<noteq> CHR ''*''" by (cases pattern) auto
    have "0 < chunk_length False pattern"
      using p by (auto split: list.split)
    then show ?thesis using r p by simp
  qed
qed

text \<open>The syntax check of the rest of the pattern before reporting a failure.\<close>

function check_rest :: "string \<Rightarrow> bool result" where
  "check_rest pattern =
     (if pattern = [] then Inr False
      else (case scanChunk pattern of (star, chunk, rest) \<Rightarrow>
        (case matchChunk chunk [] of Inl err \<Rightarrow> Inl err | Inr r \<Rightarrow> check_rest rest)))"
  by pat_completeness auto
termination
  by (relation "measure length") (auto dest: chunk_progress [OF sym])

definition accept_first :: "string \<Rightarrow> string option \<Rightarrow> string option" where
  "accept_first rest first =
     (case first of Some t \<Rightarrow> if t = [] \<or> rest \<noteq> [] then Some t else None | None \<Rightarrow> None)"

function path_Match :: "string \<Rightarrow> string \<Rightarrow> bool result" where
  "path_Match pattern name =
     (if pattern = [] then Inr (name = [])
      else (case scanChunk pattern of (star, chunk, rest) \<Rightarrow>
        if star \<and> chunk = [] then Inr (CHR ''/'' \<notin> set name)
        else (case matchChunk chunk name of
            Inl err \<Rightarrow> Inl err
          | Inr first \<Rightarrow>
              (case accept_first rest first of
                 Some t \<Rightarrow> path_Match rest t
               | None \<Rightarrow>
                   (case (if star then skip_match (rest = []) chunk name else Inr None) of
                      Inl err \<Rightarrow> Inl err
                    | Inr (Some t) \<Rightarrow> path_Match rest t
                    | Inr None \<Rightarrow> check_rest rest)))))"
  by pat_completeness auto
termination
  by (relation "measure (\<lambda>(pattern, name). length pattern)") (auto dest: chunk_progress [OF sym])

declare check_rest.simps [simp del] path_Match.simps [simp del]


section \<open>The reference semantics\<close>

datatype glob_op = Lit char | AnyChar | CharClass bool "(char \<times> char) list"

fun admits :: "glob_op \<Rightarrow> char \<Rightarrow> bool" where
  "admits (Lit d) c = (d = c)"
| "admits AnyChar c = (c \<noteq> CHR ''/'')"
| "admits (CharClass negated ranges) c = (in_ranges ranges c \<noteq> negated)"

text \<open>The operators of a chunk; \<open>None\<close> when its syntax is wrong.\<close>

function chunk_ops :: "string \<Rightarrow> glob_op list option" where
  "chunk_ops [] = Some []"
| "chunk_ops (c # chunk) =
     (if c = CHR ''[''
      then (case negation chunk of (negated, chunk1) \<Rightarrow>
          (case class_ranges chunk1 [] of
             None \<Rightarrow> None
           | Some (ranges, rest) \<Rightarrow> map_option ((#) (CharClass negated ranges)) (chunk_ops rest)))
      else if c = CHR ''?'' then map_option ((#) AnyChar) (chunk_ops chunk)
      else if c = backslash
      then (case chunk of [] \<Rightarrow> None | d # chunk' \<Rightarrow> map_option ((#) (Lit d)) (chunk_ops chunk'))
      else map_option ((#) (Lit c)) (chunk_ops chunk))"
  by pat_completeness auto
termination
  by (relation "measure length") (auto dest: class_shorter [OF sym])

text \<open>A pattern is a list of segments: whether a star comes first, and the operators of a chunk.\<close>

type_synonym segment = "bool \<times> glob_op list"

function pattern_segments :: "string \<Rightarrow> segment list option" where
  "pattern_segments pattern =
     (if pattern = [] then Some []
      else (case scanChunk pattern of (star, chunk, rest) \<Rightarrow>
        (case chunk_ops chunk of
           None \<Rightarrow> None
         | Some ops \<Rightarrow> map_option ((#) (star, ops)) (pattern_segments rest))))"
  by pat_completeness auto
termination
  by (relation "measure length") (auto dest: chunk_progress [OF sym])

declare pattern_segments.simps [simp del]

text \<open>A star stands for any text without a separator, wherever the rest can still match.\<close>

fun segments_match :: "segment list \<Rightarrow> string \<Rightarrow> bool" where
  "segments_match [] s = (s = [])"
| "segments_match ((star, ops) # segs) s =
     (\<exists>u v t. s = u @ v @ t \<and> (u = [] \<or> star) \<and> CHR ''/'' \<notin> set u \<and> list_all2 admits ops v
        \<and> segments_match segs t)"

definition glob_matches :: "string \<Rightarrow> string \<Rightarrow> bool" where
  "glob_matches pattern s =
     (case pattern_segments pattern of None \<Rightarrow> False | Some segs \<Rightarrow> segments_match segs s)"

text \<open>No character class of the pattern admits the separator.\<close>

fun strict_op :: "glob_op \<Rightarrow> bool" where
  "strict_op (CharClass negated ranges) = (\<not> admits (CharClass negated ranges) (CHR ''/''))"
| "strict_op oper = True"

definition strict_classes :: "string \<Rightarrow> bool" where
  "strict_classes pattern =
     (case pattern_segments pattern of
        None \<Rightarrow> True | Some segs \<Rightarrow> list_all (\<lambda>(star, ops). list_all strict_op ops) segs)"


section \<open>The implementation meets the reference\<close>

definition ops_prefix :: "glob_op list \<Rightarrow> string \<Rightarrow> string option" where
  "ops_prefix ops s =
     (if length ops \<le> length s \<and> list_all2 admits ops (take (length ops) s)
      then Some (drop (length ops) s) else None)"

lemma ops_prefix_Nil [simp]: "ops_prefix [] s = Some s"
  by (simp add: ops_prefix_def)

lemma ops_prefix_Cons:
  "ops_prefix (oper # ops) s =
     (case s of [] \<Rightarrow> None | c # s' \<Rightarrow> if admits oper c then ops_prefix ops s' else None)"
  by (simp add: ops_prefix_def split: list.split)

lemma ops_prefix_Some: "ops_prefix ops s = Some t \<longleftrightarrow> (\<exists>v. s = v @ t \<and> list_all2 admits ops v)"
proof
  assume "ops_prefix ops s = Some t"
  then show "\<exists>v. s = v @ t \<and> list_all2 admits ops v"
    by (intro exI [of _ "take (length ops) s"]) (auto simp: ops_prefix_def split: if_splits)
qed (auto simp: ops_prefix_def list_all2_lengthD)

lemma match_loop_ops:
  "match_loop failed chunk s =
     (case chunk_ops chunk of
        None \<Rightarrow> Inl ErrBadPattern
      | Some ops \<Rightarrow> Inr (if failed then None else ops_prefix ops s))"
proof (induction failed chunk s rule: match_loop.induct)
  case (2 failed c chunk s)
  consider "c = CHR ''[''" | "c = CHR ''?''" | "c = backslash" | "c \<noteq> CHR ''[''" "c \<noteq> CHR ''?''" "c \<noteq> backslash"
    by blast
  then show ?case
  proof cases
    case 1
    obtain negated chunk1 where n: "negation chunk = (negated, chunk1)" by fastforce
    show ?thesis
    proof (cases "class_ranges chunk1 []")
      case None
      then show ?thesis using 1 n by (simp add: Let_def)
    next
      case (Some p)
      obtain ranges rest where p: "p = (ranges, rest)" by (cases p)
      show ?thesis using 1 n Some p "2.IH"(1) [OF refl 1 refl refl n [symmetric] Some]
        by (cases s; cases failed) (auto simp: Let_def ops_prefix_Cons split: option.splits)
    qed
  next
    case 2
    then show ?thesis using "2.IH"(2) [OF refl]
      by (cases s; cases failed) (auto simp: Let_def ops_prefix_Cons split: option.splits)
  next
    case 3
    then have c: "c \<noteq> CHR ''[''" "c \<noteq> CHR ''?''" by (simp_all add: backslash_def)
    show ?thesis
    proof (cases chunk)
      case Nil
      then show ?thesis using 3 c by (simp add: Let_def)
    next
      case (Cons d chunk')
      then show ?thesis using 3 c 2(3) [OF refl c 3 Cons]
        by (cases s; cases failed) (auto simp: Let_def ops_prefix_Cons split: option.splits)
    qed
  next
    case 4
    then show ?thesis using 2(4) [OF refl 4]
      by (cases s; cases failed) (auto simp: Let_def ops_prefix_Cons split: option.splits)
  qed
qed simp

lemma matchChunk_ops:
  "matchChunk chunk s =
     (case chunk_ops chunk of None \<Rightarrow> Inl ErrBadPattern | Some ops \<Rightarrow> Inr (ops_prefix ops s))"
  by (simp add: matchChunk_def match_loop_ops split: option.split)

text \<open>Where a skipping match can end.\<close>

definition skips_to :: "bool \<Rightarrow> glob_op list \<Rightarrow> string \<Rightarrow> string \<Rightarrow> string \<Rightarrow> string \<Rightarrow> bool" where
  "skips_to last_chunk ops name u v t \<longleftrightarrow>
     name = u @ v @ t \<and> u \<noteq> [] \<and> CHR ''/'' \<notin> set u \<and> list_all2 admits ops v \<and> (last_chunk \<longrightarrow> t = [])"

lemma skips_to_Cons:
  "skips_to l ops (c # name) u v t \<longleftrightarrow> c \<noteq> CHR ''/'' \<and>
     (u = [c] \<and> ops_prefix ops name = Some t \<and> name = v @ t \<and> list_all2 admits ops v \<and> (l \<longrightarrow> t = [])
      \<or> (\<exists>u'. u = c # u' \<and> skips_to l ops name u' v t))"
  by (cases u) (auto simp: skips_to_def ops_prefix_Some)

lemma skip_match_spec:
  assumes "chunk_ops chunk = Some ops"
  shows "(case skip_match l chunk name of
     Inl err \<Rightarrow> False
   | Inr None \<Rightarrow> \<forall>u v t. \<not> skips_to l ops name u v t
   | Inr (Some t) \<Rightarrow> \<exists>u v. skips_to l ops name u v t
       \<and> (\<forall>u' v' t'. skips_to l ops name u' v' t' \<longrightarrow> length u \<le> length u'))"
proof (induction name)
  case Nil
  then show ?case by (simp add: skips_to_def)
next
  case (Cons c name)
  consider "c = CHR ''/''" | t where "c \<noteq> CHR ''/''" "ops_prefix ops name = Some t" "l \<longrightarrow> t = []"
    | "c \<noteq> CHR ''/''" "\<forall>t. ops_prefix ops name = Some t \<longrightarrow> l \<and> t \<noteq> []"
    by blast
  then show ?case
  proof cases
    case 1
    then show ?thesis by (simp add: skips_to_Cons)
  next
    case 2
    then obtain v where v: "name = v @ t" "list_all2 admits ops v" by (auto simp: ops_prefix_Some)
    have "skips_to l ops (c # name) [c] v t" using 2 v by (simp add: skips_to_def)
    moreover have "length [c] \<le> length u'" if "skips_to l ops (c # name) u' v' t'" for u' v' t'
      using that by (cases u') (auto simp: skips_to_def)
    moreover have "skip_match l chunk (c # name) = Inr (Some t)"
      using 2 assms by (auto simp: matchChunk_ops)
    ultimately show ?thesis by auto
  next
    case 3
    have same: "skip_match l chunk (c # name) = skip_match l chunk name"
      using 3 assms by (auto simp: matchChunk_ops split: option.split)
    have step: "skips_to l ops (c # name) u v t \<longleftrightarrow> (\<exists>u'. u = c # u' \<and> skips_to l ops name u' v t)" for u v t
      using 3 by (auto simp: skips_to_Cons)
    show ?thesis
    proof (cases "skip_match l chunk name")
      case (Inl err)
      then show ?thesis using Cons.IH by simp
    next
      case (Inr r)
      show ?thesis
      proof (cases r)
        case None
        then show ?thesis using Cons.IH Inr unfolding same step by simp
      next
        case (Some t)
        have "\<exists>u v. skips_to l ops name u v t
           \<and> (\<forall>u' v' t'. skips_to l ops name u' v' t' \<longrightarrow> length u \<le> length u')"
          using Cons.IH unfolding Inr Some by simp
        then obtain u v where uv: "skips_to l ops name u v t"
          "\<And>u' v' t'. skips_to l ops name u' v' t' \<Longrightarrow> length u \<le> length u'" by blast
        then have "skips_to l ops (c # name) (c # u) v t" unfolding step by blast
        moreover have "length (c # u) \<le> length u'" if "skips_to l ops (c # name) u' v' t'" for u' v' t'
          using that uv(2) unfolding step by auto
        ultimately show ?thesis using Inr Some unfolding same by auto
      qed
    qed
  qed
qed

lemma skip_match_first:
  assumes "chunk_ops chunk = Some ops" and "skips_to l ops name u0 v0 t0"
  shows "\<exists>t u v. skip_match l chunk name = Inr (Some t) \<and> skips_to l ops name u v t \<and> length u \<le> length u0"
proof (cases "skip_match l chunk name")
  case (Inl err)
  then show ?thesis using skip_match_spec [OF assms(1), of l name] by simp
next
  case (Inr r)
  show ?thesis
  proof (cases r)
    case None
    then show ?thesis using skip_match_spec [OF assms(1), of l name] Inr assms(2) by simp
  next
    case (Some t)
    have "\<exists>u v. skips_to l ops name u v t \<and> (\<forall>u' v' t'. skips_to l ops name u' v' t' \<longrightarrow> length u \<le> length u')"
      using skip_match_spec [OF assms(1), of l name] unfolding Inr Some by simp
    then show ?thesis using Inr Some assms(2) by blast
  qed
qed

text \<open>
  The exchange that justifies taking the leftmost position: if operators whose classes do not
  admit the separator match at two positions with no separator between them, then the text that
  the earlier match leaves to the next star has none either.
\<close>

lemma strict_admits_slash: "strict_op oper \<Longrightarrow> admits oper (CHR ''/'') \<Longrightarrow> oper = Lit (CHR ''/'')"
  by (cases oper) auto

lemma leftmost_exchange:
  assumes name: "v @ t = u @ v0 @ t0" and slash: "CHR ''/'' \<notin> set u"
    and ops: "list_all2 admits ops v" "list_all2 admits ops v0" "list_all strict_op ops"
  shows "\<exists>w. t = w @ t0 \<and> CHR ''/'' \<notin> set w"
proof (cases "u = []")
  case True
  have "length v = length v0"
    by (rule trans [OF sym [OF list_all2_lengthD [OF ops(1)]] list_all2_lengthD [OF ops(2)]])
  then have "t = t0" using name True by simp
  then show ?thesis by (intro exI [of _ "[]"]) simp
next
  case False
  have len: "length v = length ops" "length v0 = length ops" 
    using list_all2_lengthD [OF ops(1)] list_all2_lengthD [OF ops(2)] by simp_all
  have no_slash: "\<not> admits (ops ! j) (CHR ''/'')" if "j < length ops" for j
    using that
  proof (induction j rule: less_induct)
    case (less j)
    show ?case
    proof
      assume a: "admits (ops ! j) (CHR ''/'')"
      have "ops ! j = Lit (CHR ''/'')"
        using strict_admits_slash a ops(3) less.prems by (simp add: list_all_length)
      then have "(v @ t) ! j = CHR ''/''"
        using ops(1) less.prems len by (auto simp: list_all2_conv_all_nth nth_append)
      then have at: "(u @ v0 @ t0) ! j = CHR ''/''" by (simp add: name)
      then have "\<not> j < length u" using slash by (metis nth_append nth_mem)
      moreover have "j - length u < length ops" using less.prems by simp
      ultimately have "v0 ! (j - length u) = CHR ''/''" using at len by (simp add: nth_append)
      moreover have "admits (ops ! (j - length u)) (v0 ! (j - length u))"
        using ops(2) less.prems len by (simp add: list_all2_conv_all_nth)
      moreover have "j - length u < j" using False \<open>\<not> j < length u\<close> by (cases u) auto
      ultimately show False using less.IH [of "j - length u"] less.prems by simp
    qed
  qed
  have v0: "CHR ''/'' \<notin> set v0"
  proof
    assume "CHR ''/'' \<in> set v0"
    then obtain j where "j < length v0" "v0 ! j = CHR ''/''" by (auto simp: in_set_conv_nth)
    with ops(2) no_slash [of j] len show False by (auto simp: list_all2_conv_all_nth)
  qed
  have "u @ v0 = v @ drop (length v) (u @ v0)" and t: "t = drop (length v) (u @ v0) @ t0"
  proof -
    have l: "length v \<le> length (u @ v0)" using len by simp
    have "v = take (length v) (u @ v0 @ t0)" using name by (metis append_eq_conv_conj)
    also have "\<dots> = take (length v) (u @ v0)" using l by simp
    finally show "u @ v0 = v @ drop (length v) (u @ v0)" by (metis append_take_drop_id)
    have "t = drop (length v) (u @ v0 @ t0)" using name by (metis append_eq_conv_conj)
    then show "t = drop (length v) (u @ v0) @ t0" using l by simp
  qed
  moreover have "CHR ''/'' \<notin> set (drop (length v) (u @ v0))"
    using slash v0 set_drop_subset [of "length v" "u @ v0"] by auto
  ultimately show ?thesis by blast
qed

text \<open>The rest of a pattern after a chunk is empty or starts with a star.\<close>

lemma chunk_length_stop:
  "drop (chunk_length inrange p) p = [] \<or> hd (drop (chunk_length inrange p) p) = CHR ''*''"
proof (induction inrange p rule: chunk_length.induct)
  case (2 inrange c p)
  consider (e) "c = backslash" | (l) "c \<noteq> backslash" "c = CHR ''[''"
    | (r) "c \<noteq> backslash" "c = CHR '']''" | (s) "c \<noteq> backslash" "c = CHR ''*''" "\<not> inrange"
    | (x) "c \<noteq> backslash" "c \<noteq> CHR ''[''" "c \<noteq> CHR '']''" "\<not> (c = CHR ''*'' \<and> \<not> inrange)"
    by blast
  then show ?case
  proof cases
    case e
    then show ?thesis using "2.IH"(1) by (cases p) simp_all
  next
    case l
    then show ?thesis using "2.IH"(2) by simp
  next
    case r
    then show ?thesis using "2.IH"(3) by simp
  next
    case s
    then show ?thesis by simp
  next
    case x
    have "chunk_length inrange (c # p) = Suc (chunk_length inrange p)"
      unfolding chunk_length.simps using x by (simp only: if_False) 
    then show ?thesis using "2.IH"(4) [OF x] by simp
  qed
qed simp

lemma scanChunk_rest:
  assumes "scanChunk pattern = (star, chunk, rest)"
  shows "rest = [] \<or> hd rest = CHR ''*''"
  using assms chunk_length_stop [of False "dropWhile (\<lambda>c. c = CHR ''*'') pattern"]
  by (auto simp: scanChunk_def Let_def)

lemma star_segment:
  assumes "hd p = CHR ''*''" and "p \<noteq> []" and "pattern_segments p = Some ((star, ops) # segs)"
  shows "star"
proof -
  from assms(2) obtain c q where p: "p = c # q" by (cases p) auto
  have "length (dropWhile (\<lambda>c. c = CHR ''*'') p) < length p"
    using assms(1) p by (simp add: less_Suc_eq_le length_dropWhile_le)
  then have "dropWhile (\<lambda>c. c = CHR ''*'') p \<noteq> p" by auto
  then obtain chunk rest where "scanChunk p = (True, chunk, rest)"
    by (simp add: scanChunk_def Let_def)
  then show ?thesis
    using assms(2,3) by (auto simp: pattern_segments.simps [of p] split: option.splits)
qed

lemma empty_chunk:
  assumes "scanChunk pattern = (star, [], rest)" and "pattern \<noteq> []"
  shows "rest = []"
proof -
  let ?r = "dropWhile (\<lambda>c. c = CHR ''*'') pattern"
  have r: "take (chunk_length False ?r) ?r = []" "rest = drop (chunk_length False ?r) ?r"
    using assms(1) by (simp_all add: scanChunk_def Let_def)
  show ?thesis
  proof (rule ccontr)
    assume "rest \<noteq> []"
    with r obtain c q where c: "?r = c # q" by (cases ?r) auto
    then have "c \<noteq> CHR ''*''" by (metis (mono_tags, lifting) hd_dropWhile list.discI list.sel(1))
    then have "0 < chunk_length False ?r" unfolding c by (auto split: list.split)
    with r(1) c show False by simp
  qed
qed

lemma pattern_segments_Nil [simp]: "pattern_segments [] = Some []"
  by (simp add: pattern_segments.simps)

lemma pattern_segments_step:
  assumes "pattern \<noteq> []" and "scanChunk pattern = (star, chunk, rest)" and "pattern_segments pattern = Some segs"
  obtains ops segs' where "chunk_ops chunk = Some ops" "pattern_segments rest = Some segs'"
    "segs = (star, ops) # segs'"
  using assms by (auto simp: pattern_segments.simps [of pattern] split: option.splits)

lemma check_rest_False: "check_rest pattern \<noteq> Inr True"
proof (induction pattern rule: check_rest.induct)
  case (1 pattern)
  then show ?case
    by (auto simp: check_rest.simps [of pattern] split: prod.split sum.split)
qed

text \<open>Whatever the implementation accepts, the reference accepts.\<close>

lemma path_Match_sound:
  "path_Match pattern name = Inr True \<Longrightarrow> \<exists>segs. pattern_segments pattern = Some segs \<and> segments_match segs name"
proof (induction pattern name rule: path_Match.induct)
  case (1 pattern name)
  show ?case
  proof (cases "pattern = []")
    case True
    then show ?thesis using 1(3) by (simp add: path_Match.simps)
  next
    case False
    obtain star chunk rest where sc: "scanChunk pattern = (star, chunk, rest)" by (cases "scanChunk pattern")
    show ?thesis
    proof (cases "star \<and> chunk = []")
      case True
      then have "rest = []" using sc False empty_chunk by blast
      moreover have "CHR ''/'' \<notin> set name"
        using 1(3) False True sc by (simp add: path_Match.simps [of pattern])
      ultimately show ?thesis using True sc False by (simp add: pattern_segments.simps [of pattern])
    next
      case no: False
      obtain ops where ops: "chunk_ops chunk = Some ops"
        using 1(3) False no sc by (auto simp: path_Match.simps [of pattern] matchChunk_ops split: option.splits)
      then have mc: "matchChunk chunk name = Inr (ops_prefix ops name)" by (simp add: matchChunk_ops)
      have finish: ?thesis
        if "path_Match rest t = Inr True \<Longrightarrow> \<exists>segs. pattern_segments rest = Some segs \<and> segments_match segs t"
          and "path_Match rest t = Inr True" and "name = u @ v @ t" and "u = [] \<or> star"
          and "CHR ''/'' \<notin> set u" and "list_all2 admits ops v" for u v t
      proof -
        note hyps = that
        obtain segs where segs: "pattern_segments rest = Some segs" "segments_match segs t"
          using hyps(1) [OF hyps(2)] by blast
        then have "pattern_segments pattern = Some ((star, ops) # segs)"
          using ops sc False by (simp add: pattern_segments.simps [of pattern])
        moreover have "segments_match ((star, ops) # segs) name"
          unfolding segments_match.simps using hyps segs by blast
        ultimately show ?thesis by blast
      qed
      show ?thesis
      proof (cases "accept_first rest (ops_prefix ops name)")
        case (Some t)
        then have "ops_prefix ops name = Some t" by (auto simp: accept_first_def split: option.splits if_splits)
        then obtain v where "name = v @ t" "list_all2 admits ops v" by (auto simp: ops_prefix_Some)
        moreover have "path_Match rest t = Inr True"
          using 1(3) False no sc mc Some by (simp add: path_Match.simps [of pattern])
        ultimately show ?thesis
          using finish [of t "[]" v] 1(2) [OF False sc [symmetric] refl no mc Some] by simp
      next
        case None
        then obtain t where star and t: "skip_match (rest = []) chunk name = Inr (Some t)" "path_Match rest t = Inr True"
          using 1(3) False no sc mc check_rest_False [of rest]
          by (auto simp: path_Match.simps [of pattern] split: sum.splits option.splits if_splits)
        then obtain u v where "skips_to (rest = []) ops name u v t"
          using skip_match_spec [OF ops, of "rest = []" name] by auto
        then show ?thesis
          using finish [of t u v] 1(1) [OF False sc [symmetric] refl no mc None _ refl] t \<open>star\<close>
          by (auto simp: skips_to_def)
      qed
    qed
  qed
qed

text \<open>Without classes that admit the separator, the choice of leftmost positions loses nothing.\<close>

lemma segments_match_star_prefix:
  assumes "segments_match ((True, ops) # segs) s" and "CHR ''/'' \<notin> set w"
  shows "segments_match ((True, ops) # segs) (w @ s)"
proof -
  from assms(1) obtain u v t where "s = u @ v @ t" "CHR ''/'' \<notin> set u" "list_all2 admits ops v"
    "segments_match segs t" by auto
  with assms(2) have "w @ s = (w @ u) @ v @ t \<and> ((w @ u) = [] \<or> True) \<and> CHR ''/'' \<notin> set (w @ u)
    \<and> list_all2 admits ops v \<and> segments_match segs t" by simp
  then show ?thesis unfolding segments_match.simps by blast
qed

lemma path_Match_complete:
  "pattern_segments pattern = Some segs \<Longrightarrow> list_all (\<lambda>(star, ops). list_all strict_op ops) segs \<Longrightarrow>
   segments_match segs name \<Longrightarrow> path_Match pattern name = Inr True"
proof (induction pattern name arbitrary: segs rule: path_Match.induct)
  case (1 pattern name)
  show ?case
  proof (cases "pattern = []")
    case True
    then show ?thesis using 1(3,5) by (simp add: path_Match.simps)
  next
    case False
    obtain star chunk rest where sc: "scanChunk pattern = (star, chunk, rest)" by (cases "scanChunk pattern")
    obtain ops segs' where ops: "chunk_ops chunk = Some ops" and rest: "pattern_segments rest = Some segs'"
      and segs: "segs = (star, ops) # segs'"
      by (rule pattern_segments_step [OF False sc 1(3)])
    have strict: "list_all strict_op ops" "list_all (\<lambda>(star, ops). list_all strict_op ops) segs'"
      using 1(4) segs by simp_all
    from 1(5) segs obtain u0 v0 t0 where name: "name = u0 @ v0 @ t0" "u0 = [] \<or> star" "CHR ''/'' \<notin> set u0"
      "list_all2 admits ops v0" "segments_match segs' t0" by auto
    have mc: "matchChunk chunk name = Inr (ops_prefix ops name)" by (simp add: matchChunk_ops ops)
    have last_end: "t0 = []" if "rest = []" using that rest name(5) by simp
    have later: "segments_match segs' t"
      if "v @ t = u @ v0 @ t0" "CHR ''/'' \<notin> set u" "list_all2 admits ops v" "rest = [] \<Longrightarrow> t = []" for u v t
    proof (cases "rest = []")
      case True
      then show ?thesis using that(4) rest by simp
    next
      case more: False
      have st: "hd rest = CHR ''*''" using scanChunk_rest [OF sc] more by blast
      obtain star' ops' segs'' where s': "segs' = (star', ops') # segs''"
        using rest more by (cases segs') (auto simp: pattern_segments.simps [of rest] split: prod.splits option.splits)
      then have "star'" using star_segment [OF st more] rest by blast
      have "\<exists>w. t = w @ t0 \<and> CHR ''/'' \<notin> set w"
        by (rule leftmost_exchange [OF that(1,2,3) name(4) strict(1)])
      then obtain w where "t = w @ t0" "CHR ''/'' \<notin> set w" by blast
      then show ?thesis
        using segments_match_star_prefix [of ops' segs'' t0 w] name(5) s' \<open>star'\<close> by simp
    qed
    show ?thesis
    proof (cases "star \<and> chunk = []")
      case True
      then have "rest = []" using sc False empty_chunk by blast
      moreover have "ops = []" using True ops by simp
      ultimately have "CHR ''/'' \<notin> set name" using name rest by simp
      then show ?thesis using False True sc by (simp add: path_Match.simps [of pattern])
    next
      case no: False
      show ?thesis
      proof (cases "accept_first rest (ops_prefix ops name)")
        case (Some t)
        then have t: "ops_prefix ops name = Some t" "rest = [] \<Longrightarrow> t = []"
          by (auto simp: accept_first_def split: option.splits if_splits)
        then obtain v where v: "name = v @ t" "list_all2 admits ops v" by (auto simp: ops_prefix_Some)
        have "segments_match segs' t" using later [of v t u0] v name t(2) by simp
        from 1(2) [OF False sc [symmetric] refl no mc Some rest strict(2) this]
        show ?thesis using False no sc mc Some by (auto simp: path_Match.simps [of pattern])
      next
        case None
        have "u0 \<noteq> []"
        proof
          assume "u0 = []"
          then have "ops_prefix ops name = Some t0" using name by (auto simp: ops_prefix_Some)
          then show False using None last_end by (auto simp: accept_first_def split: if_splits)
        qed
        then have star and first: "skips_to (rest = []) ops name u0 v0 t0"
          using name last_end by (auto simp: skips_to_def)
        obtain t u v where sk: "skip_match (rest = []) chunk name = Inr (Some t)"
          and at: "skips_to (rest = []) ops name u v t" "length u \<le> length u0"
          using skip_match_first [OF ops first] by blast
        have "v @ t = drop (length u) u0 @ v0 @ t0"
        proof -
          have "u @ v @ t = u0 @ v0 @ t0" using at(1) first by (simp add: skips_to_def)
          then have "drop (length u) (u0 @ v0 @ t0) = v @ t" by (metis append_eq_conv_conj)
          then show ?thesis using at(2) by simp
        qed
        moreover have "CHR ''/'' \<notin> set (drop (length u) u0)"
          using name(3) set_drop_subset [of "length u" u0] by auto
        ultimately have "segments_match segs' t"
          using later [of v t "drop (length u) u0"] at(1) by (simp add: skips_to_def)
        from 1(1) [OF False sc [symmetric] refl no mc None _ refl rest strict(2) this] sk \<open>star\<close>
        show ?thesis using False no sc mc None by (auto simp: path_Match.simps [of pattern])
      qed
    qed
  qed
qed

lemma path_Match_glob_matches: "path_Match pattern s = Inr True \<Longrightarrow> glob_matches pattern s"
  by (auto simp: glob_matches_def dest: path_Match_sound)

lemma path_Match_iff:
  "strict_classes pattern \<Longrightarrow> path_Match pattern s = Inr True \<longleftrightarrow> glob_matches pattern s"
  by (auto simp: glob_matches_def strict_classes_def dest: path_Match_sound intro: path_Match_complete
      split: option.splits)

text \<open>The restriction is needed: the class \<open>[/a]\<close> is matched too early.\<close>

lemma path_Match_misses: "path_Match ''*[/a]*b'' ''a/b'' = Inr False"
  by code_simp

end
