(* ===== verification/Webhook.thy ===== *)
theory Webhook
  imports ApiTypes GoGlob
begin

text \<open>
  Webhook deliveries: \<open>internal/webhook/verify.go\<close> (authentication of a delivery), \<open>payload.go\<close>
  (from the provider's payload to an event) and \<open>filter.go\<close> (which events the repository builds).
  The keyed hash and the JSON decoder are arguments; hexadecimal text and the patterns of the
  filters are modelled exactly.
\<close>

section \<open>Headers and hexadecimal text\<close>

text \<open>An \<open>http.Header\<close> is its list of fields; \<open>Get\<close> gives the first value of a name, whatever its case.\<close>

type_synonym Header = "(string \<times> string) list"

definition header_Get :: "Header \<Rightarrow> string \<Rightarrow> string" where
  "header_Get headers name =
     (case find (\<lambda>(k, v). EqualFold k name) headers of Some (k, v) \<Rightarrow> v | None \<Rightarrow> '''')"

definition hex_value :: "char \<Rightarrow> nat option" where
  "hex_value c =
     (if is_digit c then Some (byte c - 48)
      else if 97 \<le> byte c \<and> byte c \<le> 102 then Some (byte c - 87)
      else if 65 \<le> byte c \<and> byte c \<le> 70 then Some (byte c - 55)
      else None)"

fun hex_DecodeString :: "string \<Rightarrow> string option" where
  "hex_DecodeString [] = Some []"
| "hex_DecodeString [c] = None"
| "hex_DecodeString (c # d # s) =
     (case (hex_value c, hex_value d, hex_DecodeString s) of
        (Some a, Some b, Some bs) \<Rightarrow> Some (char_of (16 * a + b) # bs)
      | _ \<Rightarrow> None)"

definition hex_byte :: "char \<Rightarrow> string" where
  "hex_byte c = [hex_digit (byte c div 16), hex_digit (byte c mod 16)]"

definition hex_EncodeToString :: "string \<Rightarrow> string" where
  "hex_EncodeToString s = concat (map hex_byte s)"

text \<open>Decoding inverts encoding, and a text decodes to what its lower-case spelling encodes.\<close>

lemma byte_hex_digit: "n < 16 \<Longrightarrow> byte (hex_digit n) = (if n < 10 then 48 + n else 87 + n)"
  unfolding hex_digit_def by (simp add: byte_char_of)

lemma hex_value_digit: "hex_value c = Some n \<longleftrightarrow> n < 16 \<and> lower c = hex_digit n"
proof
  assume "hex_value c = Some n"
  then show "n < 16 \<and> lower c = hex_digit n"
    by (auto simp: hex_value_def is_digit_def is_upper_def byte_hex_digit byte_lower
        simp flip: byte_inject split: if_splits)
next
  assume a: "n < 16 \<and> lower c = hex_digit n"
  then have "byte (lower c) = (if n < 10 then 48 + n else 87 + n)" by (simp add: byte_hex_digit)
  moreover have "n < 16" using a ..
  ultimately show "hex_value c = Some n"
    by (auto simp: hex_value_def is_digit_def is_upper_def byte_lower split: if_splits)
qed

lemma lower_hex_byte: "ToLower [c, d] = hex_byte b \<longleftrightarrow>
  hex_value c = Some (byte b div 16) \<and> hex_value d = Some (byte b mod 16)"
  using byte_bound [of b] by (auto simp: ToLower_def hex_byte_def hex_value_digit)

lemma hex_pair_bound: "x < 16 \<Longrightarrow> y < 16 \<Longrightarrow> 16 * x + y < (256::nat)"
  by simp

lemma hex_pair_iff: "y < 16 \<Longrightarrow> 16 * x + y = n \<longleftrightarrow> x = n div 16 \<and> y = n mod (16::nat)"
  by (auto simp: mult.commute [of _ 16] div_add1_eq)

lemma hex_Decode_Cons:
  "hex_DecodeString (c # d # s) = Some (b # bs') \<longleftrightarrow>
      hex_value c = Some (byte b div 16) \<and> hex_value d = Some (byte b mod 16) \<and> hex_DecodeString s = Some bs'"
proof (cases "hex_value c = None \<or> hex_value d = None \<or> hex_DecodeString s = None")
  case True
  then show ?thesis by (cases "hex_value c"; cases "hex_value d") auto
next
  case False
  then obtain x y r where v: "hex_value c = Some x" "hex_value d = Some y" "hex_DecodeString s = Some r"
    by auto
  then have xy: "x < 16" "y < 16" by (simp_all add: hex_value_digit)
  have char: "char_of (16 * x + y) = b \<longleftrightarrow> x = byte b div 16 \<and> y = byte b mod 16"
  proof -
    have "char_of (16 * x + y) = b \<longleftrightarrow> 16 * x + y = byte b"
      using xy by (metis byte_char_of byte_inject hex_pair_bound)
    also have "\<dots> \<longleftrightarrow> x = byte b div 16 \<and> y = byte b mod 16" by (rule hex_pair_iff [OF xy(2)])
    finally show ?thesis .
  qed
  then show ?thesis by (simp add: v char)
qed
lemma hex_Encode_Cons: "hex_EncodeToString (b # bs) = hex_byte b @ hex_EncodeToString bs"
  by (simp add: hex_EncodeToString_def)

lemma hex_Encode_Nil: "hex_EncodeToString [] = []"
  by (simp add: hex_EncodeToString_def)

lemma ToLower_Cons: "ToLower (c # s) = lower c # ToLower s"
  by (simp add: ToLower_def)

lemma hex_Decode_iff: "hex_DecodeString s = Some bs \<longleftrightarrow> ToLower s = hex_EncodeToString bs"
proof (induction s arbitrary: bs rule: hex_DecodeString.induct)
  case 1
  then show ?case by (cases bs) (simp_all add: ToLower_def hex_Encode_Nil hex_Encode_Cons hex_byte_def)
next
  case (2 c)
  then show ?case by (cases bs) (simp_all add: ToLower_def hex_Encode_Nil hex_Encode_Cons hex_byte_def)
next
  case (3 c d s)
  show ?case
  proof (cases bs)
    case Nil
    have "hex_DecodeString (c # d # s) \<noteq> Some []" by (simp split: option.split)
    then show ?thesis unfolding Nil by (simp only: ToLower_Cons hex_Encode_Nil list.distinct)
  next
    case (Cons b bs')
    have "hex_DecodeString (c # d # s) = Some bs \<longleftrightarrow>
      ToLower [c, d] = hex_byte b \<and> ToLower s = hex_EncodeToString bs'"
      unfolding Cons hex_Decode_Cons lower_hex_byte 3 conj_assoc ..
    also have "\<dots> \<longleftrightarrow> ToLower (c # d # s) = hex_EncodeToString bs"
      unfolding Cons hex_Encode_Cons ToLower_Cons hex_byte_def append_Cons append_Nil ToLower_def list.map by blast
    finally show ?thesis .
  qed
qed

lemma ToLower_hex: "ToLower (hex_EncodeToString bs) = hex_EncodeToString bs"
proof -
  have "lower (hex_digit n) = hex_digit n" if "n < 16" for n
    using that by (intro lower_id) (auto simp: is_upper_def byte_hex_digit)
  moreover have "byte b div 16 < 16" "byte b mod 16 < 16" for b using byte_bound [of b] by auto
  ultimately have "map lower (hex_byte b) = hex_byte b" for b by (simp add: hex_byte_def)
  then show ?thesis by (induction bs) (auto simp: ToLower_def hex_EncodeToString_def)
qed


section \<open>Verification\<close>

datatype Provider =
  ProviderGitHub | ProviderGitLab | ProviderGitea | ProviderGeneric | ProviderOther string

fun Provider_string :: "Provider \<Rightarrow> string" where
  "Provider_string ProviderGitHub = ''github''"
| "Provider_string ProviderGitLab = ''gitlab''"
| "Provider_string ProviderGitea = ''gitea''"
| "Provider_string ProviderGeneric = ''generic''"
| "Provider_string (ProviderOther s) = s"

text \<open>\<open>hmac.New (sha256.New, secret)\<close> applied to a body: an argument of the definitions.\<close>

type_synonym hmac = "string \<Rightarrow> string \<Rightarrow> string"

definition hmac_Equal :: "string \<Rightarrow> string \<Rightarrow> bool" where
  "hmac_Equal a b = (a = b)"

definition verifyHMACHeader :: "hmac \<Rightarrow> string \<Rightarrow> string \<Rightarrow> string \<Rightarrow> string \<Rightarrow> go_error option" where
  "verifyHMACHeader mac header pre body secret =
     (if header = '''' then Some (errors_New ''missing webhook signature'')
      else case hex_DecodeString (TrimPrefix header pre) of
        None \<Rightarrow> Some (errors_New ''invalid webhook signature encoding'')
      | Some actual \<Rightarrow>
          if \<not> hmac_Equal actual (mac secret body)
          then Some (errors_New ''invalid webhook signature'') else None)"

definition Verify :: "hmac \<Rightarrow> Provider \<Rightarrow> Header \<Rightarrow> string \<Rightarrow> string \<Rightarrow> go_error option" where
  "Verify mac provider headers body secret =
     (if secret = '''' then Some (errors_New ''webhook secret is empty'')
      else case provider of
        ProviderGitHub \<Rightarrow>
          verifyHMACHeader mac (header_Get headers ''X-Hub-Signature-256'') ''sha256='' body secret
      | ProviderGitLab \<Rightarrow>
          if \<not> hmac_Equal (header_Get headers ''X-Gitlab-Token'') secret
          then Some (errors_New ''invalid GitLab webhook token'') else None
      | ProviderGitea \<Rightarrow>
          let signature = header_Get headers ''X-Gitea-Signature'' in
          if signature \<noteq> '''' then verifyHMACHeader mac signature '''' body secret
          else if \<not> hmac_Equal (header_Get headers ''X-Gitea-Token'') secret
          then Some (errors_New ''invalid Gitea webhook token'') else None
      | ProviderGeneric \<Rightarrow>
          let bearer = TrimPrefix (header_Get headers ''Authorization'') ''Bearer '';
              token = header_Get headers ''X-Cloudivision-Token'' in
          if \<not> hmac_Equal bearer secret \<and> \<not> hmac_Equal token secret
          then Some (errors_New ''invalid generic webhook token'') else None
      | ProviderOther p \<Rightarrow> Some (errors_New (''unsupported webhook provider '' @ quote p)))"

definition signHex :: "hmac \<Rightarrow> string \<Rightarrow> string \<Rightarrow> string" where
  "signHex mac body secret = hex_EncodeToString (mac secret body)"

definition SignGitHub :: "hmac \<Rightarrow> string \<Rightarrow> string \<Rightarrow> string" where
  "SignGitHub mac body secret = ''sha256='' @ signHex mac body secret"

text \<open>
  What a provider's sender must present: the shared secret itself, or the hexadecimal spelling of
  the keyed hash of the body, in either case of letters. GitHub's prefix may be missing.
\<close>

fun authentic :: "hmac \<Rightarrow> Provider \<Rightarrow> Header \<Rightarrow> string \<Rightarrow> string \<Rightarrow> bool" where
  "authentic mac ProviderGitHub headers body secret =
     (let sig = header_Get headers ''X-Hub-Signature-256'' in
      sig \<noteq> '''' \<and> (ToLower sig = signHex mac body secret \<and> \<not> HasPrefix sig ''sha256=''
        \<or> (\<exists>hex. sig = ''sha256='' @ hex \<and> ToLower hex = signHex mac body secret)))"
| "authentic mac ProviderGitLab headers body secret = (header_Get headers ''X-Gitlab-Token'' = secret)"
| "authentic mac ProviderGitea headers body secret =
     (let sig = header_Get headers ''X-Gitea-Signature'' in
      if sig = '''' then header_Get headers ''X-Gitea-Token'' = secret
      else ToLower sig = signHex mac body secret)"
| "authentic mac ProviderGeneric headers body secret =
     (header_Get headers ''X-Cloudivision-Token'' = secret
      \<or> header_Get headers ''Authorization'' = ''Bearer '' @ secret
      \<or> header_Get headers ''Authorization'' = secret \<and> \<not> HasPrefix secret ''Bearer '')"
| "authentic mac (ProviderOther p) headers body secret = False"

lemma TrimPrefix_eq:
  "TrimPrefix s p = t \<longleftrightarrow> s = p @ t \<or> s = t \<and> \<not> HasPrefix t p"
  by (auto simp: TrimPrefix_def HasPrefix_def prefix_def)

lemma verifyHMACHeader_iff:
  "verifyHMACHeader mac header pre body secret = None \<longleftrightarrow>
     header \<noteq> '''' \<and> ToLower (TrimPrefix header pre) = signHex mac body secret"
  by (auto simp: verifyHMACHeader_def hmac_Equal_def signHex_def simp flip: hex_Decode_iff
      split: option.splits)

text \<open>
  A delivery is accepted exactly when the repository has a secret and the sender proves that it
  knows it: by the hexadecimal keyed hash of this very body (GitHub, and Gitea when it signs), or
  by the secret itself (GitLab, Gitea without signature, the generic provider). In particular no
  delivery is accepted for an unknown provider or an empty secret.
\<close>

theorem Verify_iff:
  "Verify mac provider headers body secret = None \<longleftrightarrow>
     secret \<noteq> '''' \<and> authentic mac provider headers body secret"
proof (cases provider)
  case ProviderGitHub
  have "ToLower (TrimPrefix sig ''sha256='') = h \<longleftrightarrow>
      ToLower sig = h \<and> \<not> HasPrefix sig ''sha256='' \<or> (\<exists>hex. sig = ''sha256='' @ hex \<and> ToLower hex = h)" for sig h
    using TrimPrefix_eq [of sig "''sha256=''" "TrimPrefix sig ''sha256=''"]
    by (auto simp: TrimPrefix_def HasPrefix_def prefix_def)
  then show ?thesis
    unfolding ProviderGitHub by (simp add: Verify_def verifyHMACHeader_iff Let_def)
next
  case ProviderGeneric
  then show ?thesis by (auto simp: Verify_def Let_def hmac_Equal_def TrimPrefix_eq)
qed (auto simp: Verify_def Let_def hmac_Equal_def verifyHMACHeader_iff TrimPrefix_def HasPrefix_def)

text \<open>What \<open>SignGitHub\<close> makes is accepted.\<close>

lemma SignGitHub_verifies:
  "secret \<noteq> '''' \<Longrightarrow> header_Get headers ''X-Hub-Signature-256'' = SignGitHub mac body secret \<Longrightarrow>
   Verify mac ProviderGitHub headers body secret = None"
  by (simp add: Verify_def verifyHMACHeader_iff SignGitHub_def TrimPrefix_def HasPrefix_def signHex_def ToLower_hex)


section \<open>Payloads\<close>

datatype WebhookEventType = EventPush | EventPullRequest | EventPing | EventUnknown | EventOther string

definition to_EventType :: "string \<Rightarrow> WebhookEventType" where
  "to_EventType s =
     (if s = ''push'' then EventPush else if s = ''pull_request'' then EventPullRequest
      else if s = ''ping'' then EventPing else if s = ''unknown'' then EventUnknown else EventOther s)"

fun EventType_string :: "WebhookEventType \<Rightarrow> string" where
  "EventType_string EventPush = ''push''"
| "EventType_string EventPullRequest = ''pull_request''"
| "EventType_string EventPing = ''ping''"
| "EventType_string EventUnknown = ''unknown''"
| "EventType_string (EventOther s) = s"

record Event =
  ev_RepositoryURL :: string
  ev_Branch :: string
  ev_BaseBranch :: string
  ev_CommitSHA :: string
  ev_Actor :: string
  ev_EventID :: string
  ev_Type :: WebhookEventType
  ev_Action :: string
  ev_IsTag :: bool
  ev_IsFork :: bool
  ev_TrustedActor :: bool
  ev_Timestamp :: gotime
  ev_IsPush :: bool
  ev_IsPullRequest :: bool
  ev_IsPing :: bool

definition Event_zero :: Event where
  "Event_zero = \<lparr>ev_RepositoryURL = '''', ev_Branch = '''', ev_BaseBranch = '''', ev_CommitSHA = '''',
     ev_Actor = '''', ev_EventID = '''', ev_Type = EventOther '''', ev_Action = '''', ev_IsTag = False,
     ev_IsFork = False, ev_TrustedActor = False, ev_Timestamp = 0, ev_IsPush = False,
     ev_IsPullRequest = False, ev_IsPing = False\<rparr>"

text \<open>The anonymous structs into which the payloads are decoded, nested fields joined by \<open>_\<close>.\<close>

record GitHubPayload =
  gh_Ref :: string
  gh_After :: string
  gh_Action :: string
  gh_PullRequest_UpdatedAt :: gotime
  gh_PullRequest_Head_Ref :: string
  gh_PullRequest_Head_SHA :: string
  gh_PullRequest_Head_Repo_FullName :: string
  gh_PullRequest_Base_Ref :: string
  gh_Repository_CloneURL :: string
  gh_Repository_HTMLURL :: string
  gh_Repository_FullName :: string
  gh_Repository_PushedAt :: int
  gh_Sender_Login :: string

record GitLabPayload =
  gl_ObjectKind :: string
  gl_Ref :: string
  gl_CheckoutSHA :: string
  gl_After :: string
  gl_UserName :: string
  gl_UserUsername :: string
  gl_Project_GitHTTPURL :: string
  gl_Project_WebURL :: string

record GiteaPayload =
  gt_Ref :: string
  gt_After :: string
  gt_Repository_CloneURL :: string
  gt_Repository_HTMLURL :: string
  gt_Sender_Login :: string

record GenericPayload =
  gp_RepositoryURL :: string
  gp_Branch :: string
  gp_CommitSHA :: string
  gp_Actor :: string
  gp_EventID :: string
  gp_EventType :: string
  gp_Tag :: string

text \<open>\<open>json.Unmarshal\<close> into each of them: arguments of the definitions.\<close>

record payload_decoders =
  decode_GitHub :: "string \<Rightarrow> GitHubPayload result"
  decode_GitLab :: "string \<Rightarrow> GitLabPayload result"
  decode_Gitea :: "string \<Rightarrow> GiteaPayload result"
  decode_Generic :: "string \<Rightarrow> GenericPayload result"

text \<open>\<open>time.Unix (s, 0)\<close>: the Unix epoch is 62135596800 seconds after Go's zero time.\<close>

definition time_Unix :: "int \<Rightarrow> gotime" where
  "time_Unix s = seconds (62135596800 + s)"

definition eventTypeForPush :: "bool \<Rightarrow> WebhookEventType" where
  "eventTypeForPush isPush = (if isPush then EventPush else EventUnknown)"

definition refName :: "string \<Rightarrow> string" where
  "refName ref = TrimPrefix (TrimPrefix ref ''refs/heads/'') ''refs/tags/''"

definition DeliveryID :: "Provider \<Rightarrow> Header \<Rightarrow> string" where
  "DeliveryID provider headers =
     (case provider of
        ProviderGitHub \<Rightarrow> header_Get headers ''X-GitHub-Delivery''
      | ProviderGitLab \<Rightarrow>
          firstNonEmpty [header_Get headers ''X-Gitlab-Event-UUID'', header_Get headers ''X-Gitlab-Event'']
      | ProviderGitea \<Rightarrow>
          firstNonEmpty [header_Get headers ''X-Gitea-Delivery'', header_Get headers ''X-Gitea-Event'']
      | ProviderGeneric \<Rightarrow> header_Get headers ''X-Cloudivision-Event-ID''
      | ProviderOther p \<Rightarrow> '''')"

definition parseGitHub :: "payload_decoders \<Rightarrow> Header \<Rightarrow> string \<Rightarrow> Event result" where
  "parseGitHub dec headers body =
     (let name = header_Get headers ''X-GitHub-Event'';
          eventType = (if name = '''' then EventUnknown else to_EventType name) in
      case decode_GitHub dec body of
        Inl err \<Rightarrow> Inl (errorf_w ''parse GitHub payload'' err)
      | Inr payload \<Rightarrow>
          (let isTag = HasPrefix (gh_Ref payload) ''refs/tags/'';
               pr = (eventType = EventPullRequest);
               pushed = (if gh_Repository_PushedAt payload > 0
                         then time_Unix (gh_Repository_PushedAt payload) else 0);
               head_repo = gh_PullRequest_Head_Repo_FullName payload;
               isFork = (pr \<and> head_repo \<noteq> '''' \<and> gh_Repository_FullName payload \<noteq> ''''
                         \<and> \<not> EqualFold head_repo (gh_Repository_FullName payload)) in
           Inr (Event_zero\<lparr>
             ev_RepositoryURL := firstNonEmpty [gh_Repository_CloneURL payload, gh_Repository_HTMLURL payload],
             ev_Branch := (if pr then gh_PullRequest_Head_Ref payload else refName (gh_Ref payload)),
             ev_BaseBranch := (if pr then gh_PullRequest_Base_Ref payload else ''''),
             ev_CommitSHA := (if pr then gh_PullRequest_Head_SHA payload else gh_After payload),
             ev_Actor := gh_Sender_Login payload,
             ev_EventID := header_Get headers ''X-GitHub-Delivery'',
             ev_Type := eventType,
             ev_Action := gh_Action payload,
             ev_IsTag := isTag,
             ev_IsFork := isFork,
             ev_Timestamp := (if pr then gh_PullRequest_UpdatedAt payload else pushed),
             ev_IsPush := (eventType = EventPush),
             ev_IsPullRequest := pr,
             ev_IsPing := (eventType = EventPing)\<rparr>)))"

definition parseGitLab :: "payload_decoders \<Rightarrow> Header \<Rightarrow> string \<Rightarrow> Event result" where
  "parseGitLab dec headers body =
     (case decode_GitLab dec body of
        Inl err \<Rightarrow> Inl (errorf_w ''parse GitLab payload'' err)
      | Inr payload \<Rightarrow>
          (let isPush = (gl_ObjectKind payload = ''push'') in
           Inr (Event_zero\<lparr>
             ev_RepositoryURL := firstNonEmpty [gl_Project_GitHTTPURL payload, gl_Project_WebURL payload],
             ev_Branch := refName (gl_Ref payload),
             ev_IsTag := HasPrefix (gl_Ref payload) ''refs/tags/'',
             ev_CommitSHA := firstNonEmpty [gl_CheckoutSHA payload, gl_After payload],
             ev_Actor := firstNonEmpty [gl_UserUsername payload, gl_UserName payload],
             ev_EventID := firstNonEmpty
               [header_Get headers ''X-Gitlab-Event-UUID'', header_Get headers ''X-Gitlab-Event''],
             ev_Type := eventTypeForPush isPush,
             ev_IsPush := isPush\<rparr>)))"

definition parseGitea :: "payload_decoders \<Rightarrow> Header \<Rightarrow> string \<Rightarrow> Event result" where
  "parseGitea dec headers body =
     (case decode_Gitea dec body of
        Inl err \<Rightarrow> Inl (errorf_w ''parse Gitea payload'' err)
      | Inr payload \<Rightarrow>
          (let isPush = (header_Get headers ''X-Gitea-Event'' = ''push'') in
           Inr (Event_zero\<lparr>
             ev_RepositoryURL := firstNonEmpty [gt_Repository_CloneURL payload, gt_Repository_HTMLURL payload],
             ev_Branch := refName (gt_Ref payload),
             ev_IsTag := HasPrefix (gt_Ref payload) ''refs/tags/'',
             ev_CommitSHA := gt_After payload,
             ev_Actor := gt_Sender_Login payload,
             ev_EventID := firstNonEmpty
               [header_Get headers ''X-Gitea-Delivery'', header_Get headers ''X-Gitea-Event''],
             ev_Type := eventTypeForPush isPush,
             ev_IsPush := isPush\<rparr>)))"

definition parseGeneric :: "payload_decoders \<Rightarrow> Header \<Rightarrow> string \<Rightarrow> Event result" where
  "parseGeneric dec headers body =
     (case decode_Generic dec body of
        Inl err \<Rightarrow> Inl (errorf_w ''parse generic payload'' err)
      | Inr payload \<Rightarrow>
          (let isTag = (gp_EventType payload = ''tag'' \<or> gp_Tag payload \<noteq> '''');
               isPush = (gp_EventType payload = '''' \<or> gp_EventType payload = ''push'' \<or> isTag) in
           Inr (Event_zero\<lparr>
             ev_RepositoryURL := gp_RepositoryURL payload,
             ev_Branch := (if isTag then firstNonEmpty [gp_Tag payload, gp_Branch payload] else gp_Branch payload),
             ev_IsTag := isTag,
             ev_CommitSHA := gp_CommitSHA payload,
             ev_Actor := gp_Actor payload,
             ev_EventID := firstNonEmpty
               [gp_EventID payload, header_Get headers ''X-Cloudivision-Event-ID''],
             ev_Type := eventTypeForPush isPush,
             ev_IsPush := isPush\<rparr>)))"

definition webhook_Parse :: "payload_decoders \<Rightarrow> Provider \<Rightarrow> Header \<Rightarrow> string \<Rightarrow> Event result" where
  "webhook_Parse dec provider headers body =
     (case provider of
        ProviderGitHub \<Rightarrow> parseGitHub dec headers body
      | ProviderGitLab \<Rightarrow> parseGitLab dec headers body
      | ProviderGitea \<Rightarrow> parseGitea dec headers body
      | ProviderGeneric \<Rightarrow> parseGeneric dec headers body
      | ProviderOther p \<Rightarrow> Inl (errors_New (''unsupported webhook provider '' @ quote p)))"

lemmas webhook_parsers = webhook_Parse_def parseGitHub_def parseGitLab_def parseGitea_def parseGeneric_def

text \<open>No parser vouches for the actor, and only GitHub deliveries become pull requests.\<close>

lemma parsed_untrusted: "webhook_Parse dec provider headers body = Inr ev \<Longrightarrow> \<not> ev_TrustedActor ev"
  by (auto simp: webhook_parsers Event_zero_def Let_def split: Provider.splits sum.splits)

lemma parsed_pull_request:
  "webhook_Parse dec provider headers body = Inr ev \<Longrightarrow> ev_IsPullRequest ev \<Longrightarrow> provider = ProviderGitHub"
  by (auto simp: webhook_parsers Event_zero_def Let_def split: Provider.splits sum.splits)


section \<open>Filters\<close>

definition pattern_accepts :: "string \<Rightarrow> string \<Rightarrow> bool" where
  "pattern_accepts val pattern =
     (let pattern = TrimSpace pattern in
      pattern = val \<or> path_Match pattern val = Inr True)"

fun matchesAny :: "string \<Rightarrow> string list \<Rightarrow> bool" where
  "matchesAny val [] = False"
| "matchesAny val (pattern # patterns) = (pattern_accepts val pattern \<or> matchesAny val patterns)"

definition matchesRef :: "string \<Rightarrow> RepositoryRefFilters \<Rightarrow> string list \<Rightarrow> bool" where
  "matchesRef val filters fallbackInclude =
     (if matchesAny val (rf_Exclude filters) then False
      else
        let include = (if rf_Include filters = [] then fallbackInclude else rf_Include filters) in
        include \<noteq> [] \<and> matchesAny val include)"

definition default_pull_request_events :: "string list" where
  "default_pull_request_events = [''opened'', ''reopened'', ''synchronize'']"

definition Filter :: "Repository \<Rightarrow> Event \<Rightarrow> bool \<times> string \<times> string" where
  "Filter repository event =
     (let config = rs_Webhook (repo_Spec repository);
          default_branch = [rs_DefaultBranch (repo_Spec repository)] in
      if ev_IsPing event then (True, ''ping'', '''')
      else if \<not> ev_IsPush event \<and> \<not> ev_IsPullRequest event
      then (False, ''event_ignored'', ''Webhook event is not configured to create a BuildRun.'')
      else if ev_IsPullRequest event
      then
        (let pr = wh_PullRequest config;
             events = (if prf_Events pr = [] then default_pull_request_events else prf_Events pr) in
         if \<not> prf_Enabled pr
         then (False, ''pull_request_disabled'', ''Pull request builds are disabled for this repository.'')
         else if \<not> matchesAny (ev_Action event) events
         then (False, ''pull_request_action_ignored'', ''Pull request action is not configured to create a BuildRun.'')
         else if ev_IsFork event \<and> \<not> prf_BuildForks pr
         then (False, ''fork_pull_request_blocked'', ''Pull request builds from forks are disabled for this repository.'')
         else if prf_RequireTrustedActor pr \<and> \<not> ev_TrustedActor event
         then (False, ''untrusted_actor'', ''Pull request actor could not be verified as trusted.'')
         else if \<not> matchesRef (ev_BaseBranch event) (wh_BranchFilters config) default_branch
         then (False, ''branch_ignored'', ''Pull request base branch does not match repository branch filters.'')
         else (True, ''pull_request_matched'', ''''))
      else if ev_IsTag event
      then
        (if rf_Include (wh_TagFilters config) = []
         then (False, ''tag_disabled'', ''Tag builds are disabled until tagFilters.include is configured.'')
         else if \<not> matchesRef (ev_Branch event) (wh_TagFilters config) []
         then (False, ''tag_ignored'', ''Tag does not match repository tag filters.'')
         else (True, ''tag_matched'', ''''))
      else if \<not> matchesRef (ev_Branch event) (wh_BranchFilters config) default_branch
      then (False, ''branch_ignored'', ''Push branch does not match repository branch filters.'')
      else (True, ''branch_matched'', ''''))"

text \<open>
  What the filters are documented to select, by the reference semantics of patterns: some included
  pattern selects the name and no excluded one does.
\<close>

definition selects :: "string \<Rightarrow> string \<Rightarrow> bool" where
  "selects pattern name \<longleftrightarrow> TrimSpace pattern = name \<or> glob_matches (TrimSpace pattern) name"

definition selected :: "string list \<Rightarrow> string list \<Rightarrow> string \<Rightarrow> bool" where
  "selected include exclude name \<longleftrightarrow>
     (\<exists>p\<in>set include. selects p name) \<and> \<not> (\<exists>p\<in>set exclude. selects p name)"

definition or_default :: "'a list \<Rightarrow> 'a list \<Rightarrow> 'a list" where
  "or_default xs fallback = (if xs = [] then fallback else xs)"

definition selected_branch :: "Repository \<Rightarrow> string \<Rightarrow> bool" where
  "selected_branch repository name =
     (let filters = wh_BranchFilters (rs_Webhook (repo_Spec repository)) in
      selected (or_default (rf_Include filters) [rs_DefaultBranch (repo_Spec repository)]) (rf_Exclude filters) name)"

definition selected_tag :: "Repository \<Rightarrow> string \<Rightarrow> bool" where
  "selected_tag repository name =
     (let filters = wh_TagFilters (rs_Webhook (repo_Spec repository)) in
      selected (rf_Include filters) (rf_Exclude filters) name)"

definition wanted_pull_request :: "Repository \<Rightarrow> Event \<Rightarrow> bool" where
  "wanted_pull_request repository event =
     (let pr = wh_PullRequest (rs_Webhook (repo_Spec repository)) in
      prf_Enabled pr \<and> selected (or_default (prf_Events pr) default_pull_request_events) [] (ev_Action event)
      \<and> (prf_BuildForks pr \<or> \<not> ev_IsFork event) \<and> (ev_TrustedActor event \<or> \<not> prf_RequireTrustedActor pr)
      \<and> selected_branch repository (ev_BaseBranch event))"

definition filter_patterns :: "Repository \<Rightarrow> string list" where
  "filter_patterns repository =
     (let config = rs_Webhook (repo_Spec repository) in
      rs_DefaultBranch (repo_Spec repository) # rf_Include (wh_BranchFilters config)
      @ rf_Exclude (wh_BranchFilters config) @ rf_Include (wh_TagFilters config)
      @ rf_Exclude (wh_TagFilters config) @ prf_Events (wh_PullRequest config))"

definition strict_filters :: "Repository \<Rightarrow> bool" where
  "strict_filters repository = list_all (\<lambda>p. strict_classes (TrimSpace p)) (filter_patterns repository)"

lemma matchesAny_iff: "matchesAny val patterns \<longleftrightarrow> (\<exists>p\<in>set patterns. pattern_accepts val p)"
  by (induction patterns) auto

lemma pattern_accepts_iff: "strict_classes (TrimSpace p) \<Longrightarrow> pattern_accepts val p = selects p val"
  by (auto simp: pattern_accepts_def Let_def selects_def path_Match_iff)

lemma matchesAny_selected:
  assumes "list_all (\<lambda>p. strict_classes (TrimSpace p)) patterns"
  shows "matchesAny val patterns \<longleftrightarrow> (\<exists>p\<in>set patterns. selects p val)"
  using assms by (auto simp: matchesAny_iff list_all_iff pattern_accepts_iff)

lemma matchesRef_selected:
  assumes "list_all (\<lambda>p. strict_classes (TrimSpace p)) (rf_Exclude filters @ or_default (rf_Include filters) fallback)"
  shows "matchesRef val filters fallback = selected (or_default (rf_Include filters) fallback) (rf_Exclude filters) val"
  using assms
  by (auto simp: matchesRef_def Let_def selected_def or_default_def matchesAny_selected split: if_splits)

text \<open>
  C25: The filter accepts an event exactly when it is a ping, or a pull request the repository wants
  (enabled, its action selected, no blocked fork, no unverified actor where one is required, its
  base branch selected), or a push to a selected tag or branch; selection is by the reference
  semantics of patterns, where an excluded pattern wins, an empty include list means the default
  branch, and no include list means no tags. The patterns must not use character classes that
  admit the separator.
\<close>

theorem Filter_accepts_iff:
  assumes "strict_filters repository"
  shows "fst (Filter repository event) \<longleftrightarrow>
    ev_IsPing event
    \<or> ev_IsPullRequest event \<and> wanted_pull_request repository event
    \<or> \<not> ev_IsPullRequest event \<and> ev_IsPush event \<and>
        (if ev_IsTag event then selected_tag repository (ev_Branch event)
         else selected_branch repository (ev_Branch event))"
proof -
  let ?c = "rs_Webhook (repo_Spec repository)"
  have events: "matchesAny (ev_Action event)
      (if prf_Events (wh_PullRequest ?c) = [] then default_pull_request_events else prf_Events (wh_PullRequest ?c))
    = selected (or_default (prf_Events (wh_PullRequest ?c)) default_pull_request_events) [] (ev_Action event)"
  proof -
    have d: "list_all (\<lambda>p. strict_classes (TrimSpace p)) default_pull_request_events"
      by code_simp
    show ?thesis
      using assms d by (simp add: matchesAny_selected selected_def or_default_def strict_filters_def filter_patterns_def Let_def)
  qed
  have branch: "matchesRef v (wh_BranchFilters ?c) [rs_DefaultBranch (repo_Spec repository)] = selected_branch repository v" for v
    using assms by (simp add: matchesRef_selected selected_branch_def strict_filters_def filter_patterns_def or_default_def Let_def)
  have tag: "matchesRef v (wh_TagFilters ?c) [] = selected_tag repository v" for v
  proof -
    have "or_default (rf_Include (wh_TagFilters ?c)) [] = rf_Include (wh_TagFilters ?c)" by (simp add: or_default_def)
    then show ?thesis
      using assms matchesRef_selected [of "wh_TagFilters ?c" "[]" v]
      by (simp add: selected_tag_def strict_filters_def filter_patterns_def Let_def)
  qed
  have none: "\<not> selected [] xs v" for xs v by (simp add: selected_def)
  show ?thesis
    unfolding Filter_def Let_def events branch tag wanted_pull_request_def
    by (auto simp: selected_tag_def none Let_def)
qed

definition sample_repository :: Repository where
  "sample_repository = Repository_zero\<lparr>repo_Spec := RepositorySpec_zero\<lparr>rs_DefaultBranch := ''main'',
     rs_Webhook := RepositoryWebhook_zero\<lparr>wh_BranchFilters :=
       \<lparr>rf_Include = [''release/[0-9]*''], rf_Exclude = [''release/0*'']\<rparr>\<rparr>\<rparr>\<rparr>"

theorem Filter_accepts_iff_witness:
  "strict_filters sample_repository
   \<and> selected_branch sample_repository ''release/1.4''
   \<and> \<not> selected_branch sample_repository ''release/0.9''"
proof -
  have s: "strict_filters sample_repository" by code_simp
  have "fst (Filter sample_repository (Event_zero\<lparr>ev_IsPush := True, ev_Branch := ''release/1.4''\<rparr>))"
    and "\<not> fst (Filter sample_repository (Event_zero\<lparr>ev_IsPush := True, ev_Branch := ''release/0.9''\<rparr>))"
    by code_simp+
  then show ?thesis
    using s Filter_accepts_iff [OF s, of "Event_zero\<lparr>ev_IsPush := True, ev_Branch := ''release/1.4''\<rparr>"]
      Filter_accepts_iff [OF s, of "Event_zero\<lparr>ev_IsPush := True, ev_Branch := ''release/0.9''\<rparr>"]
    by (simp add: Event_zero_def)
qed

end
