(* ===== verification/Secrets.thy ===== *)
theory Secrets
  imports ControllerKit
begin

text \<open>
  \<open>internal/provider/secrets/providers.go\<close>: resolving the keys of a Kubernetes Secret. The read of the
  Secret's data is an argument. The other two providers resolve nothing.
\<close>

record SecretRef =
  sr_Namespace :: string
  sr_Name :: string
  sr_Keys :: "string list"
  sr_OptionalKeys :: "string list"
  sr_AllowAll :: bool

record ResolvedSecret =
  rsv_Namespace :: string
  rsv_Name :: string
  rsv_Keys :: "string list"
  rsv_Values :: strmap

record 'w KubernetesProvider =
  kp_GetSecret :: "(NamespacedName \<Rightarrow> 'w \<Rightarrow> (string \<times> string) list result \<times> 'w) option"
  kp_AllowedNamespaces :: "string list"
  kp_AllowAllKeys :: bool

definition ErrSecretMissing :: go_error where
  "ErrSecretMissing = GoError ''secret is missing'' [Sentinel ''secrets.ErrSecretMissing'']"
definition ErrSecretKeyMissing :: go_error where
  "ErrSecretKeyMissing = GoError ''secret key is missing'' [Sentinel ''secrets.ErrSecretKeyMissing'']"
definition ErrNamespaceForbidden :: go_error where
  "ErrNamespaceForbidden = GoError ''secret namespace is forbidden'' [Sentinel ''secrets.ErrNamespaceForbidden'']"
definition ErrExplicitKeysRequired :: go_error where
  "ErrExplicitKeysRequired = GoError ''explicit secret keys are required'' [Sentinel ''secrets.ErrExplicitKeysRequired'']"
definition ErrUnsupported :: go_error where
  "ErrUnsupported = GoError ''secret provider is unsupported'' [Sentinel ''secrets.ErrUnsupported'']"

text \<open>The loop over the required keys, with the values taken so far.\<close>

fun required_values :: "(string \<times> string) list \<Rightarrow> strmap \<Rightarrow> string list \<Rightarrow> strmap result" where
  "required_values data vals [] = Inr vals"
| "required_values data vals (key # keys) =
     (case map_of data key of
        None \<Rightarrow> Inl (errorf_w (''key '' @ quote key) ErrSecretKeyMissing)
      | Some v \<Rightarrow> required_values data (vals(key \<mapsto> v)) keys)"

text \<open>The loop over the optional keys, with the keys and values taken so far.\<close>

fun optional_values :: "(string \<times> string) list \<Rightarrow> string list \<Rightarrow> strmap \<Rightarrow> string list \<Rightarrow> string list \<times> strmap" where
  "optional_values data keys vals [] = (keys, vals)"
| "optional_values data keys vals (key # rest) =
     (case map_of data key of
        None \<Rightarrow> optional_values data keys vals rest
      | Some v \<Rightarrow> optional_values data (keys @ [key]) (vals(key \<mapsto> v)) rest)"

definition select_keys :: "'w KubernetesProvider \<Rightarrow> SecretRef \<Rightarrow> (string \<times> string) list \<Rightarrow> ResolvedSecret result" where
  "select_keys p ref data =
     (let keys = (if sr_Keys ref = [] \<and> sr_AllowAll ref \<and> kp_AllowAllKeys p
                  then sort (map fst data) else sr_Keys ref) in
      case required_values data Map.empty keys of
        Inl err \<Rightarrow> Inl err
      | Inr vals \<Rightarrow>
          (case optional_values data keys vals (sr_OptionalKeys ref) of (keys, vals) \<Rightarrow>
             Inr \<lparr>rsv_Namespace = sr_Namespace ref, rsv_Name = sr_Name ref, rsv_Keys = keys, rsv_Values = vals\<rparr>))"

definition Resolve :: "'w KubernetesProvider \<Rightarrow> SecretRef \<Rightarrow> ('w, 'e, ResolvedSecret result) io" where
  "Resolve p ref =
     (case kp_GetSecret p of
        None \<Rightarrow> fail (errorf_w ''resolve Kubernetes Secret'' ErrUnsupported)
      | Some get \<Rightarrow>
          if sr_Namespace ref = '''' \<or> sr_Namespace ref \<notin> set (kp_AllowedNamespaces p) then fail ErrNamespaceForbidden
          else if sr_Name ref = '''' then fail (errorf_w ''secret name is required'' ErrSecretMissing)
          else if sr_Keys ref = [] \<and> sr_OptionalKeys ref = [] \<and> \<not> (sr_AllowAll ref \<and> kp_AllowAllKeys p)
          then fail ErrExplicitKeysRequired
          else do {
            answer \<leftarrow> query (get \<lparr>key_Namespace = sr_Namespace ref, key_Name = sr_Name ref\<rparr>);
            State_Monad.return (case answer of
                Inl err \<Rightarrow>
                  if errors_Is err NotFound then Inl ErrSecretMissing
                  else Inl (errorf_w ''resolve Kubernetes Secret metadata'' err)
              | Inr data \<Rightarrow> select_keys p ref data)
          })"

definition ExternalSecrets_Resolve :: "SecretRef \<Rightarrow> ResolvedSecret result" where
  "ExternalSecrets_Resolve ref = Inl ErrUnsupported"

definition Vault_Resolve :: "SecretRef \<Rightarrow> ResolvedSecret result" where
  "Vault_Resolve ref = Inl ErrUnsupported"


section \<open>Least privilege\<close>

lemma required_values_spec:
  "required_values data vs keys = Inr vals \<Longrightarrow> distinct (map fst data) \<Longrightarrow>
   (\<forall>k. vals k = (if k \<in> set keys then map_of data k else vs k)) \<and> (\<forall>k\<in>set keys. map_of data k \<noteq> None)"
  by (induction data vs keys rule: required_values.induct) (auto split: option.splits)

lemma optional_values_spec:
  "optional_values data ks vs keys = (ks', vals) \<Longrightarrow>
   vals = (\<lambda>k. if k \<in> set keys \<and> map_of data k \<noteq> None then map_of data k else vs k)
   \<and> set ks' = set ks \<union> {k \<in> set keys. map_of data k \<noteq> None}"
proof (induction data ks vs keys arbitrary: ks' vals rule: optional_values.induct)
  case (2 data keys vals key rest)
  then show ?case by (cases "map_of data key") (fastforce split: if_splits)+
qed auto

text \<open>
  C28: A resolved secret lies in a namespace the provider is allowed to read, and holds nothing but
  the keys that were asked for, each with its value in the Secret; every required key is there. All
  keys are given out only when the request and the provider both allow it.
\<close>

theorem Resolve_least_privilege:
  "wp (Resolve p ref) (\<lambda>r t. \<forall>resolved. r = Inr resolved \<longrightarrow>
     (\<exists>get w data. kp_GetSecret p = Some get
        \<and> fst (get \<lparr>key_Namespace = sr_Namespace ref, key_Name = sr_Name ref\<rparr> w) = Inr data
        \<and> sr_Namespace ref \<in> set (kp_AllowedNamespaces p)
        \<and> (distinct (map fst data) \<longrightarrow>
             (\<forall>k v. rsv_Values resolved k = Some v \<longrightarrow> map_of data k = Some v
                \<and> (k \<in> set (sr_Keys ref) \<union> set (sr_OptionalKeys ref) \<or> sr_AllowAll ref \<and> kp_AllowAllKeys p))
             \<and> (\<forall>k\<in>set (sr_Keys ref). rsv_Values resolved k \<noteq> None)))) s"
proof -
  have select: "(\<forall>k v. rsv_Values resolved k = Some v \<longrightarrow> map_of data k = Some v
        \<and> (k \<in> set (sr_Keys ref) \<union> set (sr_OptionalKeys ref) \<or> sr_AllowAll ref \<and> kp_AllowAllKeys p))
      \<and> (\<forall>k\<in>set (sr_Keys ref). rsv_Values resolved k \<noteq> None)"
    if sel: "select_keys p ref data = Inr resolved" and d: "distinct (map fst data)" for data resolved
  proof -
    let ?keys = "if sr_Keys ref = [] \<and> sr_AllowAll ref \<and> kp_AllowAllKeys p then sort (map fst data) else sr_Keys ref"
    obtain vs where vs: "required_values data Map.empty ?keys = Inr vs"
      using sel by (auto simp: select_keys_def Let_def split: sum.splits)
    obtain ks vals where o: "optional_values data ?keys vs (sr_OptionalKeys ref) = (ks, vals)" by fastforce
    have r: "rsv_Values resolved = vals"
      using sel vs o by (auto simp: select_keys_def Let_def)
    note required = required_values_spec [OF vs d] and optional = optional_values_spec [OF o]
    show ?thesis
      unfolding r using required optional by (auto split: if_splits)
  qed
  show ?thesis
  proof (cases "kp_GetSecret p")
    case None
    then show ?thesis by (simp add: Resolve_def wp_simps)
  next
    case (Some get)
    then show ?thesis
      using select by (auto simp: Resolve_def wp_simps split: sum.splits) blast+
  qed
qed


text \<open>A registry Secret with two keys, of which one is asked for.\<close>

definition sample_secrets :: "unit KubernetesProvider" where
  "sample_secrets = \<lparr>kp_GetSecret = Some (\<lambda>k w. (Inr [(''password'', ''p''), (''token'', ''t'')], w)),
     kp_AllowedNamespaces = [''ci''], kp_AllowAllKeys = False\<rparr>"

definition sample_secret_ref :: SecretRef where
  "sample_secret_ref = \<lparr>sr_Namespace = ''ci'', sr_Name = ''registry'', sr_Keys = [''token''], sr_OptionalKeys = [''username''],
     sr_AllowAll = False\<rparr>"

theorem Resolve_least_privilege_witness:
  "\<exists>resolved. exec_result (Resolve sample_secrets sample_secret_ref :: (unit, unit, ResolvedSecret result) io) () = Inr resolved
     \<and> rsv_Values resolved ''token'' \<noteq> None \<and> rsv_Values resolved ''password'' = None"
proof -
  let ?m = "Resolve sample_secrets sample_secret_ref :: (unit, unit, ResolvedSecret result) io"
  have "\<not> (\<exists>e. exec_result ?m () = Inl e)" by (simp add: exec_result_def Resolve_def sample_secrets_def
      sample_secret_ref_def run_query select_keys_def)
  then obtain resolved where r: "exec_result ?m () = Inr resolved" by (cases "exec_result ?m ()") auto
  have "\<exists>get w data. kp_GetSecret sample_secrets = Some get
      \<and> fst (get \<lparr>key_Namespace = sr_Namespace sample_secret_ref, key_Name = sr_Name sample_secret_ref\<rparr> w) = Inr data
      \<and> sr_Namespace sample_secret_ref \<in> set (kp_AllowedNamespaces sample_secrets)
      \<and> (distinct (map fst data) \<longrightarrow>
           (\<forall>k v. rsv_Values resolved k = Some v \<longrightarrow> map_of data k = Some v
              \<and> (k \<in> set (sr_Keys sample_secret_ref) \<union> set (sr_OptionalKeys sample_secret_ref)
                 \<or> sr_AllowAll sample_secret_ref \<and> kp_AllowAllKeys sample_secrets))
           \<and> (\<forall>k\<in>set (sr_Keys sample_secret_ref). rsv_Values resolved k \<noteq> None))"
    using Resolve_least_privilege [of sample_secrets sample_secret_ref "start () :: (unit, unit) sys"] r
    unfolding wp_result by blast
  then have "rsv_Values resolved ''token'' \<noteq> None" "\<And>v. rsv_Values resolved ''password'' \<noteq> Some v"
    by (auto simp: sample_secrets_def sample_secret_ref_def)
  then show ?thesis using r by fast
qed

end
