(* ===== verification/GoFormat.thy ===== *)
theory GoFormat
  imports GoStrings
begin

text \<open>
  \<open>strconv.FormatInt (n, 36)\<close> and \<open>Time.UnixNano\<close>, from which the API server makes unique suffixes.
\<close>

definition base36_digit :: "nat \<Rightarrow> char" where
  "base36_digit d = (if d < 10 then char_of (48 + d) else char_of (87 + d))"

fun base36 :: "nat \<Rightarrow> string" where
  "base36 n = (if n < 36 then [base36_digit n] else base36 (n div 36) @ [base36_digit (n mod 36)])"

declare base36.simps [simp del]

definition FormatInt36 :: "int \<Rightarrow> string" where
  "FormatInt36 n = (if n < 0 then ''-'' @ base36 (nat (- n)) else base36 (nat n))"

text \<open>Nanoseconds since the Unix epoch, for instants in the range of 64 bits.\<close>

definition UnixNano :: "gotime \<Rightarrow> int" where
  "UnixNano t = t - seconds 62135596800"

lemma byte_base36_digit: "d < 36 \<Longrightarrow> byte (base36_digit d) = (if d < 10 then 48 + d else 87 + d)"
  unfolding base36_digit_def by (simp add: byte_char_of)

lemma base36_digit_inject:
  assumes "d < 36" "e < 36"
  shows "base36_digit d = base36_digit e \<longleftrightarrow> d = e"
proof
  assume "base36_digit d = base36_digit e"
  then have "byte (base36_digit d) = byte (base36_digit e)" by simp
  then show "d = e" unfolding byte_base36_digit [OF assms(1)] byte_base36_digit [OF assms(2)]
    using assms by (simp split: if_splits)
qed simp

text \<open>The digits are lower-case letters and digits, as object names need them.\<close>

lemma base36_chars: "c \<in> set (base36 n) \<Longrightarrow> is_lower c \<or> is_digit c"
proof (induction n rule: base36.induct)
  case (1 n)
  have digit: "is_lower (base36_digit d) \<or> is_digit (base36_digit d)" if "d < 36" for d
    using that by (simp add: is_lower_def is_digit_def byte_base36_digit)
  show ?case
  proof (cases "n < 36")
    case True
    then show ?thesis using 1(2) digit [of n] by (simp add: base36.simps [of n])
  next
    case False
    then have "c \<in> set (base36 (n div 36)) \<or> c = base36_digit (n mod 36)"
      using 1(2) by (auto simp: base36.simps [of n])
    then show ?thesis using 1(1) [OF False] digit [of "n mod 36"] by auto
  qed
qed

lemma base36_nonempty: "base36 n \<noteq> []"
  by (subst base36.simps) simp

lemma base36_inject: "base36 m = base36 n \<longleftrightarrow> m = n"
proof (induction m arbitrary: n rule: base36.induct)
  case (1 m)
  have small: "length (base36 k) = 1 \<longleftrightarrow> k < 36" for k
    using base36_nonempty [of "k div 36"] by (simp add: base36.simps [of k])
  show ?case
  proof (cases "m < 36 \<or> n < 36")
    case True
    have "m < 36 \<and> n < 36" if "base36 m = base36 n" using small [of m] small [of n] that True by auto
    then show ?thesis
      using base36_digit_inject [of m n] by (auto simp: base36.simps [of m] base36.simps [of n])
  next
    case False
    then have "base36 m = base36 n \<longleftrightarrow> m div 36 = n div 36 \<and> m mod 36 = n mod 36"
      using 1 base36_digit_inject [of "m mod 36" "n mod 36"] by (simp add: base36.simps [of m] base36.simps [of n])
    then show ?thesis by (metis div_mult_mod_eq)
  qed
qed

lemma base36_length: "n < 36 ^ k \<Longrightarrow> k > 0 \<Longrightarrow> length (base36 n) \<le> k"
proof (induction n arbitrary: k rule: base36.induct)
  case (1 n)
  show ?case
  proof (cases "n < 36")
    case True
    then show ?thesis using 1(3) by (simp add: base36.simps [of n])
  next
    case False
    then obtain j where k: "k = Suc j" "j > 0" using 1(2,3) by (cases k; cases "k - 1") auto
    with 1(2) have "n div 36 < 36 ^ j" by (simp add: less_mult_imp_div_less mult.commute)
    with 1(1) False k have "length (base36 (n div 36)) \<le> j" by blast
    then show ?thesis using False k by (simp add: base36.simps [of n])
  qed
qed

lemma FormatInt36_inject: "m \<ge> 0 \<Longrightarrow> n \<ge> 0 \<Longrightarrow> FormatInt36 m = FormatInt36 n \<longleftrightarrow> m = n"
  by (auto simp: FormatInt36_def base36_inject)

text \<open>Every instant of 64 bits after the epoch has a suffix of at most 13 characters.\<close>

lemma FormatInt36_length: "0 \<le> n \<Longrightarrow> n < 2 ^ 63 \<Longrightarrow> length (FormatInt36 n) \<le> 13"
  using base36_length [of "nat n" 13] by (simp add: FormatInt36_def nat_less_iff)

end
