(* ===== verification/ApiServer.thy ===== *)
theory ApiServer
  imports ControllerKit Policy Redact Tagging Auth Webhook Secrets GoFormat
begin

text \<open>
  What the handlers of \<open>internal/api/server.go\<close> share: the server's collaborators, the responses and
  their errors, the audit trail, and the helpers that validate requests. A handler is a computation
  in the effect monad that returns the response; the HTTP transport (routing, decoding of bodies,
  encoding of responses) and the metrics are not modelled. A response carries the object itself
  where the code sends its DTO.
\<close>

section \<open>Collaborators and effects\<close>

record AuditEvent =
  ae_Type :: string
  ae_Actor :: string
  ae_Organization :: string
  ae_Project :: string
  ae_Repository :: string
  ae_BuildRun :: string
  ae_Release :: string
  ae_Message :: string
  ae_Metadata :: "(string \<times> string) list"
  ae_EventID :: string

definition AuditEvent_zero :: AuditEvent where
  "AuditEvent_zero = \<lparr>ae_Type = '''', ae_Actor = '''', ae_Organization = '''', ae_Project = '''',
     ae_Repository = '''', ae_BuildRun = '''', ae_Release = '''', ae_Message = '''', ae_Metadata = [],
     ae_EventID = ''''\<rparr>"

record WebhookEvent =
  we_Provider :: string
  we_Repository :: string
  we_EventID :: string
  we_Project :: string
  we_BuildRun :: string

datatype api_effect =
    ApiBuildRunCreated BuildRun
  | ApiBuildRunStatus BuildRun
  | ApiReleaseCreated Release
  | ApiReleaseUpdated Release
  | ApiReleaseStatus Release
  | ApiTemplateCreated PipelineTemplate
  | ApiTemplateUpdated PipelineTemplate
  | ApiProjectCreated Project
  | ApiRepositoryCreated Repository
  | ApiJobDeleted NamespacedName
  | ApiWebhookRecorded WebhookEvent
  | ApiAudited AuditEvent
  | ApiNotified NotificationRequest

record 'w webhook_index =
  wi_Find :: "string \<Rightarrow> string \<Rightarrow> string \<Rightarrow> 'w \<Rightarrow> WebhookEvent option result \<times> 'w"
  wi_Record :: "WebhookEvent \<Rightarrow> 'w \<Rightarrow> go_error option \<times> 'w"

record policy_evaluator =
  pe_EvaluateBuildRun :: "gotime \<Rightarrow> BuildRunPolicyInput \<Rightarrow> Decision"
  pe_EvaluatePipelineTemplate :: "gotime \<Rightarrow> PipelineTemplatePolicyInput \<Rightarrow> Decision"

record 'w server =
  sv_GetProject :: "NamespacedName \<Rightarrow> 'w \<Rightarrow> Project result \<times> 'w"
  sv_GetRepository :: "NamespacedName \<Rightarrow> 'w \<Rightarrow> Repository result \<times> 'w"
  sv_GetPipelineTemplate :: "NamespacedName \<Rightarrow> 'w \<Rightarrow> PipelineTemplate result \<times> 'w"
  sv_GetBuildRun :: "NamespacedName \<Rightarrow> 'w \<Rightarrow> BuildRun result \<times> 'w"
  sv_GetEnvironment :: "NamespacedName \<Rightarrow> 'w \<Rightarrow> Environment result \<times> 'w"
  sv_GetRelease :: "NamespacedName \<Rightarrow> 'w \<Rightarrow> Release result \<times> 'w"
  sv_GetSecret :: "NamespacedName \<Rightarrow> 'w \<Rightarrow> (string \<times> string) list result \<times> 'w"
  sv_ListBuildRuns :: "string \<Rightarrow> 'w \<Rightarrow> BuildRun list result \<times> 'w"
  sv_ListJobs :: "string \<Rightarrow> string \<Rightarrow> 'w \<Rightarrow> NamespacedName list result \<times> 'w"
  sv_CreateBuildRun :: "BuildRun \<Rightarrow> 'w \<Rightarrow> BuildRun result \<times> 'w"
  sv_CreateRelease :: "Release \<Rightarrow> 'w \<Rightarrow> Release result \<times> 'w"
  sv_CreateProject :: "Project \<Rightarrow> 'w \<Rightarrow> Project result \<times> 'w"
  sv_CreateRepository :: "Repository \<Rightarrow> 'w \<Rightarrow> Repository result \<times> 'w"
  sv_CreatePipelineTemplate :: "PipelineTemplate \<Rightarrow> 'w \<Rightarrow> PipelineTemplate result \<times> 'w"
  sv_UpdatePipelineTemplate :: "PipelineTemplate \<Rightarrow> 'w \<Rightarrow> PipelineTemplate result \<times> 'w"
  sv_UpdateRelease :: "Release \<Rightarrow> 'w \<Rightarrow> Release result \<times> 'w"
  sv_UpdateReleaseStatus :: "Release \<Rightarrow> 'w \<Rightarrow> Release result \<times> 'w"
  sv_UpdateBuildRunStatus :: "BuildRun \<Rightarrow> 'w \<Rightarrow> BuildRun result \<times> 'w"
  sv_DeleteJob :: "NamespacedName \<Rightarrow> 'w \<Rightarrow> go_error option \<times> 'w"
  sv_Retry :: "('w, api_effect, Release result) io \<Rightarrow> ('w, api_effect, Release result) io"
  sv_Now :: "'w \<Rightarrow> gotime \<times> 'w"
  sv_PolicyEvaluator :: "policy_evaluator option"
  sv_WebhookIndex :: "'w webhook_index option"
  sv_Audit :: "AuditEvent \<Rightarrow> 'w \<Rightarrow> go_error option \<times> 'w"
  sv_Notifier :: "(NotificationRequest \<Rightarrow> 'w \<Rightarrow> go_error option \<times> 'w) option"
  sv_DefaultNamespace :: string
  sv_HMAC :: hmac
  sv_SHA256 :: "string \<Rightarrow> string"
  sv_Decoders :: payload_decoders
  sv_ParseTemplate :: "string \<Rightarrow> (TagTemplateData \<Rightarrow> string result) result"

type_synonym ('w, 'a) api_io = "('w, api_effect, 'a) io"

text \<open>What the middleware puts into the context of a request.\<close>

record api_context =
  cx_Principal :: "Principal option"
  cx_Organization :: string


section \<open>Responses\<close>

datatype 'b api_response =
    ErrorResponse int string string
  | Reply int 'b

definition api_error :: "int \<Rightarrow> string \<Rightarrow> string \<Rightarrow> 'b api_response" where
  "api_error status code message = ErrorResponse status code (MaskString message)"

definition badRequest :: "string \<Rightarrow> 'b api_response" where
  "badRequest message = api_error 400 ''bad_request'' message"

definition unauthorized :: "string \<Rightarrow> 'b api_response" where
  "unauthorized message = api_error 401 ''unauthorized'' message"

definition forbidden :: "string \<Rightarrow> 'b api_response" where
  "forbidden message = api_error 403 ''forbidden'' message"

definition conflict :: "string \<Rightarrow> 'b api_response" where
  "conflict message = api_error 409 ''conflict'' message"

definition policyDenied :: "Decision \<Rightarrow> 'b api_response" where
  "policyDenied dec = api_error 403 ''policy_denied'' (dec_Message dec)"

text \<open>\<open>Server.writeError\<close> for an error that is no \<open>apiError\<close>.\<close>

definition writeError :: "go_error \<Rightarrow> 'b api_response" where
  "writeError err = (case error_response err of (status, code) \<Rightarrow> api_error status code (err_text err))"

text \<open>\<open>if err := m; err != nil { s.writeError (w, err); return }\<close>.\<close>

definition or_error ::
  "('w, 'a result) api_io \<Rightarrow> ('a \<Rightarrow> ('w, 'b api_response) api_io) \<Rightarrow> ('w, 'b api_response) api_io" where
  "or_error m f = do {
     r \<leftarrow> m;
     case r of Inl err \<Rightarrow> State_Monad.return (writeError err) | Inr a \<Rightarrow> f a
   }"

lemma only_or_error [only_intros]: "only E m \<Longrightarrow> (\<And>a. only E (f a)) \<Longrightarrow> only E (or_error m f)"
  unfolding or_error_def by (auto intro!: only_intros)

lemma only_or_error_query:
  assumes "\<And>w a. fst (g w) = Inr a \<Longrightarrow> only E (f a)"
  shows "only E (or_error (query g) f)"
  unfolding or_error_def
  by (rule only_bind_query) (auto intro!: only_intros assms split: sum.split)

lemma wp_or_error [wp_simps]:
  "wp (or_error m f) Q s = wp m (\<lambda>r t. case r of Inl err \<Rightarrow> Q (writeError err) t | Inr a \<Rightarrow> wp (f a) Q t) s"
  by (auto simp: or_error_def wp_def split: prod.split sum.split)


section \<open>Shared helpers\<close>

definition validateName :: "string \<Rightarrow> go_error option" where
  "validateName name = (if TrimSpace name = '''' then Some (errors_New ''name is required'') else None)"

definition server_namespace :: "'w server \<Rightarrow> string \<Rightarrow> string" where
  "server_namespace s input =
     (if input \<noteq> '''' then input
      else if sv_DefaultNamespace s \<noteq> '''' then sv_DefaultNamespace s else ''default'')"

text \<open>Later entries win over the base.\<close>

definition mergeStringMap :: "strmap \<Rightarrow> strmap \<Rightarrow> strmap" where
  "mergeStringMap base extra = base ++ extra"

definition evaluator :: "'w server \<Rightarrow> policy_evaluator" where
  "evaluator s = (case sv_PolicyEvaluator s of
     Some e \<Rightarrow> e
   | None \<Rightarrow> \<lparr>pe_EvaluateBuildRun = EvaluateBuildRun, pe_EvaluatePipelineTemplate = EvaluatePipelineTemplate\<rparr>)"

text \<open>A failure of the recorder is only logged and counted.\<close>

definition recordAudit :: "'w server \<Rightarrow> api_context \<Rightarrow> AuditEvent \<Rightarrow> ('w, unit) api_io" where
  "recordAudit s ctx event =
     (let event = (if ae_Organization event = '''' then event\<lparr>ae_Organization := cx_Organization ctx\<rparr> else event) in
      do { call (ApiAudited event) (sv_Audit s event); State_Monad.return () })"

definition objectMeta :: "string \<Rightarrow> string \<Rightarrow> ObjectMeta" where
  "objectMeta name namespace = ObjectMeta_zero\<lparr>meta_Name := name, meta_Namespace := namespace\<rparr>"

text \<open>The loop of \<open>dnsLabel\<close>: the text built so far and whether it ends in a dash.\<close>

fun dns_loop :: "string \<Rightarrow> bool \<Rightarrow> string \<Rightarrow> string" where
  "dns_loop built lastDash [] = built"
| "dns_loop built lastDash (c # s) =
     (if is_lower c \<or> is_digit c then dns_loop (built @ [c]) False s
      else if \<not> lastDash \<and> built \<noteq> '''' then dns_loop (built @ ''-'') True s
      else dns_loop built lastDash s)"

definition dnsLabel :: "string \<Rightarrow> string" where
  "dnsLabel val = Trim (dns_loop '''' False (ToLower val)) ''-''"

definition shortSHA :: "string \<Rightarrow> string" where
  "shortSHA val = take 12 val"

text \<open>The audit and notification effects are the ones that no guard concerns.\<close>

definition quiet_effects :: "api_effect set" where
  "quiet_effects = {e. case e of ApiAudited _ \<Rightarrow> True | ApiNotified _ \<Rightarrow> True | ApiWebhookRecorded _ \<Rightarrow> True | _ \<Rightarrow> False}"

lemma only_recordAudit: "only quiet_effects (recordAudit s ctx event)"
  unfolding recordAudit_def Let_def
  by (rule only_bind [OF only_call]) (auto intro: only_intros simp: quiet_effects_def)


section \<open>An empty server\<close>

text \<open>A server for examples: nothing is found, and every write is refused.\<close>

definition no_answer :: "'a \<Rightarrow> 'w \<Rightarrow> 'b result \<times> 'w" where
  "no_answer k w = (Inl (GoError ''not found'' [NotFound]), w)"

definition empty_server :: "'w server" where
  "empty_server = \<lparr>
     sv_GetProject = no_answer, sv_GetRepository = no_answer, sv_GetPipelineTemplate = no_answer,
     sv_GetBuildRun = no_answer, sv_GetEnvironment = no_answer, sv_GetRelease = no_answer,
     sv_GetSecret = no_answer, sv_ListBuildRuns = (\<lambda>ns w. (Inr [], w)), sv_ListJobs = (\<lambda>ns b w. (Inr [], w)),
     sv_CreateBuildRun = no_answer, sv_CreateRelease = no_answer, sv_CreateProject = no_answer,
     sv_CreateRepository = no_answer, sv_CreatePipelineTemplate = no_answer, sv_UpdatePipelineTemplate = no_answer,
     sv_UpdateRelease = no_answer, sv_UpdateReleaseStatus = no_answer, sv_UpdateBuildRunStatus = no_answer,
     sv_DeleteJob = (\<lambda>k w. (None, w)), sv_Retry = attempts 4, sv_Now = (\<lambda>w. (1, w)),
     sv_PolicyEvaluator = None, sv_WebhookIndex = None, sv_Audit = (\<lambda>e w. (None, w)), sv_Notifier = None,
     sv_DefaultNamespace = ''ci'', sv_HMAC = (\<lambda>k m. k @ m), sv_SHA256 = (\<lambda>m. m),
     sv_Decoders = \<lparr>decode_GitHub = (\<lambda>b. Inl (errors_New ''bad'')), decode_GitLab = (\<lambda>b. Inl (errors_New ''bad'')),
       decode_Gitea = (\<lambda>b. Inl (errors_New ''bad'')), decode_Generic = (\<lambda>b. Inl (errors_New ''bad''))\<rparr>,
     sv_ParseTemplate = (\<lambda>t. Inr (\<lambda>d. Inr (ttd_CommitSHA d)))\<rparr>"

end
