(* ===== verification/ApiWebhook.thy ===== *)
theory ApiWebhook
  imports ApiServer
begin

text \<open>
  The webhook endpoint of \<open>internal/api/server.go\<close>: \<open>webhook\<close> with \<open>webhookSecret\<close>,
  \<open>existingBuildRunForEvent\<close>, \<open>recordWebhookEvent\<close>, \<open>recordWebhookAudit\<close> and \<open>buildRunFromWebhook\<close>.
  The request body is given as read; one above 1 MiB is what \<open>http.MaxBytesReader\<close> refuses.
\<close>

record webhook_request =
  wr_RepositoryName :: string
  wr_Namespace :: string
  wr_Headers :: Header
  wr_Body :: string

record WebhookResponse =
  whr_Repository :: string
  whr_EventID :: string
  whr_Event :: string
  whr_Result :: string
  whr_Message :: string
  whr_BuildRun :: "BuildRun option"
  whr_Created :: bool

fun provider_of :: "Provider \<Rightarrow> RepositoryProvider" where
  "provider_of ProviderGitHub = RepositoryProviderGitHub"
| "provider_of ProviderGitLab = RepositoryProviderGitLab"
| "provider_of ProviderGitea = RepositoryProviderGitea"
| "provider_of ProviderGeneric = RepositoryProviderGeneric"
| "provider_of (ProviderOther p) = RepositoryProviderOther p"

definition webhook_message :: "string \<Rightarrow> string" where
  "webhook_message eventType =
     (if eventType = ''WebhookAccepted'' then ''Webhook delivery accepted.''
      else if eventType = ''WebhookRejected'' then ''Webhook delivery rejected.''
      else if eventType = ''WebhookDuplicate'' then ''Duplicate webhook delivery ignored.''
      else if eventType = ''BuildRunCreatedFromWebhook'' then ''BuildRun created from webhook.''
      else '''')"

definition recordWebhookAudit ::
  "'w server \<Rightarrow> api_context \<Rightarrow> string \<Rightarrow> Provider \<Rightarrow> Repository \<Rightarrow> string \<Rightarrow> string \<Rightarrow> string \<Rightarrow> string \<Rightarrow> string
   \<Rightarrow> ('w, unit) api_io" where
  "recordWebhookAudit s ctx eventType provider repository eventID webhookEvent reason actor buildRun = do {
     recordAudit s ctx (AuditEvent_zero\<lparr>ae_Type := eventType, ae_Actor := actor,
       ae_Project := rs_ProjectRef (repo_Spec repository), ae_Repository := meta_Name (repo_Meta repository),
       ae_BuildRun := buildRun, ae_EventID := eventID, ae_Message := webhook_message eventType,
       ae_Metadata := [(''provider'', Provider_string provider), (''event'', webhookEvent), (''reason'', reason),
         (''deliveryID'', eventID)]\<rparr>);
     if eventType = ''WebhookRejected'' then
       (case sv_Notifier s of
          None \<Rightarrow> State_Monad.return ()
        | Some notify \<Rightarrow> do {
            now \<leftarrow> query (sv_Now s);
            let n = \<lparr>nr_Event = NotifyWebhookRejected, nr_Project = rs_ProjectRef (repo_Spec repository),
              nr_Repository = meta_Name (repo_Meta repository), nr_Environment = '''', nr_Phase = '''',
              nr_Namespace = meta_Namespace (repo_Meta repository), nr_ResourceName = meta_Name (repo_Meta repository),
              nr_Message = ''Webhook delivery rejected.'', nr_OccurredAt = now\<rparr>;
            call (ApiNotified n) (notify n);
            State_Monad.return ()
          })
     else State_Monad.return ()
   }"

definition webhookSecret :: "'w server \<Rightarrow> Repository \<Rightarrow> ('w, string result) api_io" where
  "webhookSecret s repository =
     (let ref = wh_SecretRef (rs_Webhook (repo_Spec repository)); ns = meta_Namespace (repo_Meta repository) in
      if rskr_Name ref = '''' \<or> rskr_Key ref = ''''
      then fail (errors_New ''webhook secretRef.name and secretRef.key are required'')
      else do {
        r \<leftarrow> Resolve \<lparr>kp_GetSecret = Some (sv_GetSecret s), kp_AllowedNamespaces = [ns], kp_AllowAllKeys = False\<rparr>
          \<lparr>sr_Namespace = ns, sr_Name = rskr_Name ref, sr_Keys = [rskr_Key ref], sr_OptionalKeys = [], sr_AllowAll = False\<rparr>;
        State_Monad.return (case r of
            Inl err \<Rightarrow> Inl (errorf_w ''load webhook secret'' err)
          | Inr resolved \<Rightarrow>
              (let val = map_index (rsv_Values resolved) (rskr_Key ref) in
               if val = '''' then Inl (errors_New (''webhook secret key '' @ quote (rskr_Key ref) @ '' is empty or missing''))
               else Inr val))
      })"

text \<open>The result: whether the event is known, and its build run (the zero object when it is gone).\<close>

definition list_event :: "'w server \<Rightarrow> string \<Rightarrow> string \<Rightarrow> string \<Rightarrow> ('w, (BuildRun \<times> bool) result) api_io" where
  "list_event s namespace repositoryName eventID =
     check (query (sv_ListBuildRuns s namespace)) (\<lambda>items.
       ok (case find (\<lambda>item. brs_RepositoryRef (br_Spec item) = repositoryName
                  \<and> trig_EventID (brs_TriggeredBy (br_Spec item)) = eventID) items of
           Some item \<Rightarrow> (item, True)
         | None \<Rightarrow> (BuildRun_zero, False)))"

definition existingBuildRunForEvent ::
  "'w server \<Rightarrow> Provider \<Rightarrow> string \<Rightarrow> string \<Rightarrow> string \<Rightarrow> ('w, (BuildRun \<times> bool) result) api_io" where
  "existingBuildRunForEvent s provider namespace repositoryName eventID =
     (case sv_WebhookIndex s of
        None \<Rightarrow> list_event s namespace repositoryName eventID
      | Some index \<Rightarrow>
          check (query (wi_Find index (Provider_string provider) repositoryName eventID)) (\<lambda>indexed.
            case indexed of
              None \<Rightarrow> list_event s namespace repositoryName eventID
            | Some known \<Rightarrow>
                if we_BuildRun known = '''' then ok (BuildRun_zero, True)
                else do {
                  r \<leftarrow> query (sv_GetBuildRun s \<lparr>key_Namespace = namespace, key_Name = we_BuildRun known\<rparr>);
                  State_Monad.return (case r of
                      Inl err \<Rightarrow> if errors_Is err NotFound then Inr (BuildRun_zero, True) else Inl err
                    | Inr buildRun \<Rightarrow> Inr (buildRun, True))
                }))"

definition recordWebhookEvent ::
  "'w server \<Rightarrow> Provider \<Rightarrow> Repository \<Rightarrow> string \<Rightarrow> Event \<Rightarrow> ('w, unit result) api_io" where
  "recordWebhookEvent s provider repository buildRunName event =
     (case sv_WebhookIndex s of
        None \<Rightarrow> ok ()
      | Some index \<Rightarrow>
          (let e = \<lparr>we_Provider = Provider_string provider, we_Repository = meta_Name (repo_Meta repository),
             we_EventID = ev_EventID event, we_Project = rs_ProjectRef (repo_Spec repository), we_BuildRun = buildRunName\<rparr> in
           do {
             r \<leftarrow> call (ApiWebhookRecorded e) (wi_Record index e);
             State_Monad.return (case r of Some err \<Rightarrow> Inl err | None \<Rightarrow> Inr ())
           }))"

definition buildRunNameForWebhook :: "(string \<Rightarrow> string) \<Rightarrow> string \<Rightarrow> string \<Rightarrow> string" where
  "buildRunNameForWebhook sha256 repositoryName eventID =
     (let base = dnsLabel repositoryName;
          base = (if base = '''' then ''repository'' else base);
          name = base @ ''-'' @ hex_EncodeToString (take 6 (sha256 eventID)) in
      if length name > 63 then take 63 name else name)"

definition buildRunFromWebhook ::
  "'w server \<Rightarrow> gotime \<Rightarrow> string \<Rightarrow> Repository \<Rightarrow> Project \<Rightarrow> PipelineTemplate \<Rightarrow> Event \<Rightarrow> BuildRun result" where
  "buildRunFromWebhook s now namespace repository project template event =
     (let configured = bld_Image (pts_Build (pt_Spec template));
          imageRepository = (if configured = ''''
            then TrimRight (prs_DefaultRegistry (proj_Spec project)) ''/'' @ ''/'' @ meta_Name (repo_Meta repository)
            else configured);
          name = buildRunNameForWebhook (sv_SHA256 s) (meta_Name (repo_Meta repository)) (ev_EventID event);
          tagTemplate = (case prs_ImageTagPolicy (proj_Spec project) of
              Some p \<Rightarrow> itp_DefaultTagTemplate p | None \<Rightarrow> '''') in
      case fst (ResolveImageTag (sv_ParseTemplate s) (\<lambda>f. f) '''' tagTemplate
            \<lparr>tgi_Branch = ev_Branch event, tgi_CommitSHA = ev_CommitSHA event, tgi_Revision = ev_CommitSHA event,
             tgi_BuildRunName = name, tgi_Timestamp = now\<rparr>) of
        Inl err \<Rightarrow> Inl err
      | Inr tag \<Rightarrow> Inr (BuildRun_zero\<lparr>br_Meta := objectMeta name namespace,
          br_Spec := BuildRunSpec_zero\<lparr>brs_ProjectRef := rs_ProjectRef (repo_Spec repository),
            brs_RepositoryRef := meta_Name (repo_Meta repository),
            brs_PipelineTemplateRef := rs_PipelineTemplateRef (repo_Spec repository),
            brs_Revision := ev_CommitSHA event, brs_Branch := ev_Branch event, brs_CommitSHA := ev_CommitSHA event,
            brs_TriggeredBy := \<lparr>trig_Type = TriggerTypeWebhook, trig_Actor = ev_Actor event, trig_EventID = ev_EventID event\<rparr>,
            brs_Image := ImageRef_zero\<lparr>img_Repository := imageRepository, img_Tag := tag\<rparr>,
            brs_Executor := ExecutorTypeJob\<rparr>\<rparr>))"

definition webhook_reply ::
  "Repository \<Rightarrow> Event \<Rightarrow> string \<Rightarrow> string \<Rightarrow> BuildRun option \<Rightarrow> bool \<Rightarrow> WebhookResponse" where
  "webhook_reply repository event res message buildRun created =
     \<lparr>whr_Repository = meta_Name (repo_Meta repository), whr_EventID = ev_EventID event,
      whr_Event = EventType_string (ev_Type event), whr_Result = res, whr_Message = message,
      whr_BuildRun = buildRun, whr_Created = created\<rparr>"

definition optionalBuildRunDTO :: "BuildRun \<Rightarrow> BuildRun option" where
  "optionalBuildRunDTO buildRun = (if meta_Name (br_Meta buildRun) = '''' then None else Some buildRun)"


section \<open>The handler\<close>

text \<open>Creation of the build run, after the filters: the end of the handler.\<close>

definition webhook_create ::
  "'w server \<Rightarrow> api_context \<Rightarrow> Provider \<Rightarrow> string \<Rightarrow> Repository \<Rightarrow> Event \<Rightarrow> ('w, WebhookResponse api_response) api_io" where
  "webhook_create s ctx provider namespace repository event =
     (let audit = (\<lambda>kind reason buildRun. recordWebhookAudit s ctx kind provider repository (ev_EventID event)
            (EventType_string (ev_Type event)) reason (ev_Actor event) buildRun) in
      if ev_CommitSHA event = ''''
      then do {
        audit ''WebhookRejected'' ''missing_commit_sha'' '''';
        State_Monad.return (badRequest ''webhook commit SHA is required'')
      }
      else
        or_error (query (sv_GetProject s \<lparr>key_Namespace = namespace, key_Name = rs_ProjectRef (repo_Spec repository)\<rparr>)) (\<lambda>project.
        or_error (query (sv_GetPipelineTemplate s
            \<lparr>key_Namespace = namespace, key_Name = rs_PipelineTemplateRef (repo_Spec repository)\<rparr>)) (\<lambda>template. do {
          now \<leftarrow> query (sv_Now s);
          case buildRunFromWebhook s now namespace repository project template event of
            Inl err \<Rightarrow> State_Monad.return (badRequest (err_text err))
          | Inr buildRun \<Rightarrow> do {
              now \<leftarrow> query (sv_Now s);
              let dec = pe_EvaluateBuildRun (evaluator s) now \<lparr>bi_BuildRun = Some buildRun, bi_Project = Some project,
                bi_Repository = Some repository, bi_PipelineTemplate = Some template, bi_EnforceAuthorization = True,
                bi_TriggerAuthorized = True, bi_SecretUseAuthorized = True\<rparr>;
              if \<not> dec_Allowed dec
              then do {
                audit ''WebhookRejected'' ''policy_denied'' '''';
                State_Monad.return (policyDenied dec)
              }
              else do {
                created \<leftarrow> call (ApiBuildRunCreated buildRun) (sv_CreateBuildRun s buildRun);
                case created of
                  Inl err \<Rightarrow>
                    if errors_Is err AlreadyExists
                    then do {
                      existing \<leftarrow> query (sv_GetBuildRun s (object_key (br_Meta buildRun)));
                      case existing of
                        Inr existing \<Rightarrow> do {
                          audit ''WebhookDuplicate'' ''build_run_already_exists'' (meta_Name (br_Meta existing));
                          State_Monad.return (Reply 200 (webhook_reply repository event ''duplicate''
                            ''Webhook delivery was already processed.'' (Some existing) False))
                        }
                      | Inl _ \<Rightarrow> State_Monad.return (writeError err)
                    }
                    else State_Monad.return (writeError err)
                | Inr buildRun \<Rightarrow>
                    or_error (recordWebhookEvent s provider repository (meta_Name (br_Meta buildRun)) event) (\<lambda>_. do {
                      audit ''WebhookAccepted'' ''build_run_created'' (meta_Name (br_Meta buildRun));
                      audit ''BuildRunCreatedFromWebhook'' ''build_run_created'' (meta_Name (br_Meta buildRun));
                      State_Monad.return (Reply 201 (webhook_reply repository event ''created''
                        ''BuildRun created from webhook.'' (Some buildRun) True))
                    })
              }
            }
        })))"

text \<open>Deduplication, pings and filters for an authenticated event.\<close>

definition webhook_dispatch ::
  "'w server \<Rightarrow> api_context \<Rightarrow> Provider \<Rightarrow> string \<Rightarrow> Repository \<Rightarrow> Event \<Rightarrow> ('w, WebhookResponse api_response) api_io" where
  "webhook_dispatch s ctx provider namespace repository event =
     (let audit = (\<lambda>kind reason buildRun. recordWebhookAudit s ctx kind provider repository (ev_EventID event)
            (EventType_string (ev_Type event)) reason (ev_Actor event) buildRun) in
      or_error (existingBuildRunForEvent s provider namespace (meta_Name (repo_Meta repository)) (ev_EventID event))
        (\<lambda>(existing, known).
          if known
          then do {
            audit ''WebhookDuplicate'' ''delivery_id_already_processed'' (meta_Name (br_Meta existing));
            State_Monad.return (Reply 200 (webhook_reply repository event ''duplicate''
              ''Webhook delivery was already processed.'' (optionalBuildRunDTO existing) False))
          }
          else if ev_IsPing event
          then or_error (recordWebhookEvent s provider repository '''' event) (\<lambda>_. do {
            audit ''WebhookAccepted'' ''ping'' '''';
            State_Monad.return (Reply 200 (webhook_reply repository event ''accepted'' ''GitHub ping accepted.'' None False))
          })
          else (case Filter repository event of (matched, filterReason, filterMessage) \<Rightarrow>
            if \<not> matched
            then or_error (recordWebhookEvent s provider repository '''' event) (\<lambda>_. do {
              audit ''WebhookAccepted'' filterReason '''';
              State_Monad.return (Reply 200 (webhook_reply repository event ''ignored'' filterMessage None False))
            })
            else webhook_create s ctx provider namespace repository event)))"

definition hours :: "int \<Rightarrow> duration" where
  "hours n = minutes (60 * n)"

text \<open>\<open>event.Timestamp.Before (now - 24h) || event.Timestamp.After (now + 5m)\<close>.\<close>

definition outside_replay_window :: "gotime \<Rightarrow> Event \<Rightarrow> bool" where
  "outside_replay_window now event =
     (ev_Timestamp event < now - hours 24 \<or> ev_Timestamp event > now + minutes 5)"

text \<open>Authentication and parsing, and the checks of the event.\<close>

definition webhook_authenticate ::
  "'w server \<Rightarrow> api_context \<Rightarrow> Provider \<Rightarrow> webhook_request \<Rightarrow> string \<Rightarrow> Repository \<Rightarrow> ('w, WebhookResponse api_response) api_io" where
  "webhook_authenticate s ctx provider r namespace repository =
     (let deliveryID = DeliveryID provider (wr_Headers r);
          reject = (\<lambda>eventID webhookEvent reason actor. recordWebhookAudit s ctx ''WebhookRejected'' provider repository
            eventID webhookEvent reason actor '''') in
      if length (wr_Body r) > 2 ^ 20
      then do {
        reject deliveryID '''' ''body_too_large'' '''';
        State_Monad.return (api_error 413 ''payload_too_large'' ''webhook payload exceeds the 1 MiB limit'')
      }
      else do {
        secret \<leftarrow> webhookSecret s repository;
        case secret of
          Inl err \<Rightarrow> do {
            reject deliveryID '''' ''secret_unavailable'' '''';
            State_Monad.return (forbidden (err_text err))
          }
        | Inr secret \<Rightarrow>
            (case Verify (sv_HMAC s) provider (wr_Headers r) (wr_Body r) secret of
               Some err \<Rightarrow> do {
                 reject deliveryID '''' ''signature_verification_failed'' '''';
                 State_Monad.return (unauthorized ''webhook signature verification failed'')
               }
             | None \<Rightarrow>
                 (case webhook_Parse (sv_Decoders s) provider (wr_Headers r) (wr_Body r) of
                    Inl err \<Rightarrow> do {
                      reject deliveryID '''' ''malformed_payload'' '''';
                      State_Monad.return (badRequest ''malformed webhook payload'')
                    }
                  | Inr event \<Rightarrow>
                      if ev_EventID event = ''''
                      then do {
                        reject '''' (EventType_string (ev_Type event)) ''missing_delivery_id'' (ev_Actor event);
                        State_Monad.return (badRequest ''webhook event ID is required'')
                      }
                      else if length (ev_EventID event) > 255
                      then do {
                        reject '''' (EventType_string (ev_Type event)) ''invalid_delivery_id'' (ev_Actor event);
                        State_Monad.return (badRequest ''webhook event ID exceeds 255 characters'')
                      }
                      else if provider = ProviderGitHub \<and> \<not> IsZero (ev_Timestamp event)
                      then do {
                        now \<leftarrow> query (sv_Now s);
                        if outside_replay_window now event
                        then do {
                          reject (ev_EventID event) (EventType_string (ev_Type event))
                            ''event_timestamp_outside_replay_window'' (ev_Actor event);
                          State_Monad.return (unauthorized ''webhook event timestamp is outside the replay window'')
                        }
                        else webhook_dispatch s ctx provider namespace repository event
                      }
                      else webhook_dispatch s ctx provider namespace repository event))
      })"

definition webhook_handler ::
  "'w server \<Rightarrow> api_context \<Rightarrow> Provider \<Rightarrow> webhook_request \<Rightarrow> ('w, WebhookResponse api_response) api_io" where
  "webhook_handler s ctx provider r =
     (case validateName (wr_RepositoryName r) of
        Some err \<Rightarrow> State_Monad.return (badRequest (err_text err))
      | None \<Rightarrow>
          (let namespace = server_namespace s (wr_Namespace r) in
           or_error (query (sv_GetRepository s \<lparr>key_Namespace = namespace, key_Name = wr_RepositoryName r\<rparr>)) (\<lambda>repository.
             if \<not> wh_Enabled (rs_Webhook (repo_Spec repository))
             then do {
               recordWebhookAudit s ctx ''WebhookRejected'' provider repository (DeliveryID provider (wr_Headers r)) ''''
                 ''webhook_disabled'' '''' '''';
               State_Monad.return (forbidden ''webhook is not enabled for repository'')
             }
             else if rs_Provider (repo_Spec repository) \<noteq> provider_of provider \<and> provider \<noteq> ProviderGeneric
             then do {
               recordWebhookAudit s ctx ''WebhookRejected'' provider repository (DeliveryID provider (wr_Headers r)) ''''
                 ''provider_mismatch'' '''' '''';
               State_Monad.return (badRequest ''webhook provider does not match repository provider'')
             }
             else webhook_authenticate s ctx provider r namespace repository)))"


section \<open>Only verified deliveries create builds\<close>

lemmas quiet_call = only_mono [OF only_recordAudit]

lemma only_recordWebhookAudit:
  assumes "quiet_effects \<subseteq> E"
  shows "only E (recordWebhookAudit s ctx kind provider repository i e reason actor b)"
proof -
  have n: "ApiNotified x \<in> E" for x using assms by (auto simp: quiet_effects_def)
  show ?thesis
    unfolding recordWebhookAudit_def Let_def by (intro only_intros quiet_call [OF assms] n)
qed

lemma only_recordWebhookEvent:
  assumes "quiet_effects \<subseteq> E"
  shows "only E (recordWebhookEvent s provider repository b event)"
proof -
  have n: "ApiWebhookRecorded x \<in> E" for x using assms by (auto simp: quiet_effects_def)
  show ?thesis unfolding recordWebhookEvent_def Let_def by (intro only_intros n)
qed

lemma only_existingBuildRun: "only E (existingBuildRunForEvent s provider namespace repositoryName i)"
  unfolding existingBuildRunForEvent_def list_event_def by (intro only_intros)

text \<open>The build a parsed event leads to, with the policy decision on it.\<close>

definition build_from_event :: "'w server \<Rightarrow> string \<Rightarrow> Repository \<Rightarrow> Event \<Rightarrow> BuildRun \<Rightarrow> bool" where
  "build_from_event s namespace repository event b \<longleftrightarrow>
     ev_CommitSHA event \<noteq> '''' \<and>
     (\<exists>w1 w2 w3 w4 project template.
        fst (sv_GetProject s \<lparr>key_Namespace = namespace, key_Name = rs_ProjectRef (repo_Spec repository)\<rparr> w1) = Inr project
      \<and> fst (sv_GetPipelineTemplate s
          \<lparr>key_Namespace = namespace, key_Name = rs_PipelineTemplateRef (repo_Spec repository)\<rparr> w2) = Inr template
      \<and> buildRunFromWebhook s (fst (sv_Now s w3)) namespace repository project template event = Inr b
      \<and> dec_Allowed (pe_EvaluateBuildRun (evaluator s) (fst (sv_Now s w4)) \<lparr>bi_BuildRun = Some b,
          bi_Project = Some project, bi_Repository = Some repository, bi_PipelineTemplate = Some template,
          bi_EnforceAuthorization = True, bi_TriggerAuthorized = True, bi_SecretUseAuthorized = True\<rparr>))"

lemma only_webhook_create:
  assumes "quiet_effects \<subseteq> E"
    and "\<And>b. build_from_event s namespace repository event b \<Longrightarrow> ApiBuildRunCreated b \<in> E"
  shows "only E (webhook_create s ctx provider namespace repository event)"
proof -
  note quiet = only_recordWebhookAudit [OF assms(1)] only_recordWebhookEvent [OF assms(1)]
  show ?thesis
    unfolding webhook_create_def Let_def
    by (intro only_or_error_query only_bind_query only_intros quiet assms(2))
      (unfold build_from_event_def, blast)
qed

lemma only_webhook_dispatch:
  assumes "quiet_effects \<subseteq> E"
    and "\<And>b. \<not> ev_IsPing event \<Longrightarrow> fst (Filter repository event) \<Longrightarrow>
      build_from_event s namespace repository event b \<Longrightarrow> ApiBuildRunCreated b \<in> E"
  shows "only E (webhook_dispatch s ctx provider namespace repository event)"
proof -
  note quiet = only_recordWebhookAudit [OF assms(1)] only_recordWebhookEvent [OF assms(1)] only_existingBuildRun
  have create: "only E (webhook_create s ctx provider namespace repository event)"
    if "\<not> ev_IsPing event" and "Filter repository event = (matched, r)" and "\<not> \<not> matched"
    for matched r
    by (rule only_webhook_create [OF assms(1)]) (use assms(2) that in simp)
  show ?thesis
    unfolding webhook_dispatch_def Let_def
    by (intro only_or_error only_prod only_intros quiet) (rule create, assumption+)
qed

text \<open>The secret is the selected key of the Secret that the repository names, in its own namespace.\<close>

definition webhook_secret_of :: "'w server \<Rightarrow> Repository \<Rightarrow> string \<Rightarrow> bool" where
  "webhook_secret_of s repository secret \<longleftrightarrow>
     (let ref = wh_SecretRef (rs_Webhook (repo_Spec repository)) in
      \<exists>w data. fst (sv_GetSecret s \<lparr>key_Namespace = meta_Namespace (repo_Meta repository), key_Name = rskr_Name ref\<rparr> w)
          = Inr data
        \<and> map_of data (rskr_Key ref) = Some secret)"

lemma select_one_key:
  "select_keys p \<lparr>sr_Namespace = ns, sr_Name = n, sr_Keys = [k], sr_OptionalKeys = [], sr_AllowAll = a\<rparr> data = Inr resolved
   \<longleftrightarrow> (\<exists>v. map_of data k = Some v
        \<and> resolved = \<lparr>rsv_Namespace = ns, rsv_Name = n, rsv_Keys = [k], rsv_Values = [k \<mapsto> v]\<rparr>)"
  by (auto simp: select_keys_def split: option.splits)

lemma webhookSecret_resolved:
  "wp (webhookSecret s repository) (\<lambda>r t. \<forall>secret. r = Inr secret \<longrightarrow> webhook_secret_of s repository secret) t"
  by (auto simp: webhookSecret_def Resolve_def Let_def wp_simps webhook_secret_of_def select_one_key map_index_def
      split: sum.splits) metis

lemma only_webhookSecret: "only E (webhookSecret s repository)"
  unfolding webhookSecret_def Resolve_def Let_def by (intro only_intros)


text \<open>Everything the handler has established about an event before it acts on it.\<close>

definition verified_event :: "'w server \<Rightarrow> Provider \<Rightarrow> webhook_request \<Rightarrow> Repository \<Rightarrow> Event \<Rightarrow> bool" where
  "verified_event s provider r repository event \<longleftrightarrow>
     length (wr_Body r) \<le> 2 ^ 20
     \<and> (\<exists>secret. webhook_secret_of s repository secret \<and> secret \<noteq> ''''
          \<and> authentic (sv_HMAC s) provider (wr_Headers r) (wr_Body r) secret)
     \<and> webhook_Parse (sv_Decoders s) provider (wr_Headers r) (wr_Body r) = Inr event
     \<and> ev_EventID event \<noteq> '''' \<and> length (ev_EventID event) \<le> 255
     \<and> (provider = ProviderGitHub \<and> \<not> IsZero (ev_Timestamp event) \<longrightarrow>
          (\<exists>w. \<not> outside_replay_window (fst (sv_Now s w)) event))"

lemma only_webhook_authenticate:
  assumes q: "quiet_effects \<subseteq> E"
    and b: "\<And>event b. verified_event s provider r repository event \<Longrightarrow> \<not> ev_IsPing event \<Longrightarrow>
      fst (Filter repository event) \<Longrightarrow> build_from_event s namespace repository event b \<Longrightarrow> ApiBuildRunCreated b \<in> E"
  shows "only E (webhook_authenticate s ctx provider r namespace repository)"
proof -
  note quiet = only_recordWebhookAudit [OF q]
  have dispatch: "only E (webhook_dispatch s ctx provider namespace repository event)"
    if "verified_event s provider r repository event" for event
    by (rule only_webhook_dispatch [OF q b [OF that]])
  have event: "only E (webhook_dispatch s ctx provider namespace repository event)"
    if "webhook_secret_of s repository secret" "\<not> length (wr_Body r) > 2 ^ 20"
      "Verify (sv_HMAC s) provider (wr_Headers r) (wr_Body r) secret = None"
      "webhook_Parse (sv_Decoders s) provider (wr_Headers r) (wr_Body r) = Inr event"
      "ev_EventID event \<noteq> ''''" "\<not> length (ev_EventID event) > 255"
      "provider = ProviderGitHub \<and> \<not> IsZero (ev_Timestamp event) \<longrightarrow>
         (\<exists>w. \<not> outside_replay_window (fst (sv_Now s w)) event)"
    for secret event
    by (rule dispatch) (use that in \<open>auto simp: verified_event_def Verify_iff not_less\<close>)
  have rest: "only E (case r' of
      Inl err \<Rightarrow> f err
    | Inr secret \<Rightarrow> g secret)"
    if "\<And>err. only E (f err)" "\<And>secret. webhook_secret_of s repository secret \<Longrightarrow> only E (g secret)"
      "\<forall>secret. r' = Inr secret \<longrightarrow> webhook_secret_of s repository secret" for r' f g
    using that by (cases r') auto
  show ?thesis
    unfolding webhook_authenticate_def Let_def
    apply (rule only_if)
     apply (intro only_intros quiet)
    apply (rule only_bind_wp [OF only_webhookSecret webhookSecret_resolved])
    apply (rule rest)
      apply (intro only_intros quiet)
     apply (intro only_bind_query only_intros quiet)
      apply (rule event; (assumption | blast))
     apply (rule event; (assumption | blast))
    apply assumption
    done
qed


text \<open>
  C14: The webhook endpoint creates a build run only for a delivery that is proven to come from the
  repository's forge. Whatever the API server, the webhook index, the audit store and the notifier
  answer, a build run is created only when the named repository, as read, has its webhook enabled
  and belongs to the provider of the endpoint; when the body is at most 1 MiB and authenticated with
  the secret that this repository references in its own namespace; when the event carries an ID of at most 255
  bytes, is recent (GitHub) and is no ping; when the repository's filters accept it; and when the
  build run, derived from that event, the project and the template, is allowed by the policy.
\<close>

theorem webhook_creates_verified_builds_only:
  assumes "ApiBuildRunCreated b \<in> set (exec_trace (webhook_handler s ctx provider r) w)"
  shows "\<exists>w' repository event.
    fst (sv_GetRepository s \<lparr>key_Namespace = server_namespace s (wr_Namespace r), key_Name = wr_RepositoryName r\<rparr> w')
      = Inr repository
    \<and> wh_Enabled (rs_Webhook (repo_Spec repository))
    \<and> (rs_Provider (repo_Spec repository) = provider_of provider \<or> provider = ProviderGeneric)
    \<and> verified_event s provider r repository event
    \<and> \<not> ev_IsPing event \<and> fst (Filter repository event)
    \<and> build_from_event s (server_namespace s (wr_Namespace r)) repository event b"
    (is "?justified b")
proof -
  let ?E = "quiet_effects \<union> {ApiBuildRunCreated b | b. ?justified b}"
  have q: "quiet_effects \<subseteq> ?E" by simp
  have auth: "only ?E (webhook_authenticate s ctx provider r (server_namespace s (wr_Namespace r)) repository)"
    if "fst (sv_GetRepository s \<lparr>key_Namespace = server_namespace s (wr_Namespace r), key_Name = wr_RepositoryName r\<rparr> w')
        = Inr repository" "\<not> \<not> wh_Enabled (rs_Webhook (repo_Spec repository))"
      "\<not> (rs_Provider (repo_Spec repository) \<noteq> provider_of provider \<and> provider \<noteq> ProviderGeneric)" for w' repository
    by (rule only_webhook_authenticate [OF q]) (use that in blast)
  have "only ?E (webhook_handler s ctx provider r)"
    unfolding webhook_handler_def Let_def
    by (intro only_or_error_query only_intros only_recordWebhookAudit q) (rule auth; assumption)
  then have "ApiBuildRunCreated b \<in> ?E" using assms by (rule only_exec [THEN subsetD])
  moreover have "ApiBuildRunCreated b \<notin> quiet_effects" by (simp add: quiet_effects_def)
  ultimately show ?thesis by blast
qed


section \<open>Names of build runs\<close>

lemma hex_Encode_inject: "hex_EncodeToString xs = hex_EncodeToString ys \<longleftrightarrow> xs = ys"
  using hex_Decode_iff [of "hex_EncodeToString xs" xs] hex_Decode_iff [of "hex_EncodeToString xs" ys]
  by (auto simp: ToLower_hex)

lemma hex_Encode_length: "length (hex_EncodeToString bs) = 2 * length bs"
  by (induction bs) (auto simp: hex_Encode_Nil hex_Encode_Cons hex_byte_def)

text \<open>
  C29: The build run of a delivery is named after the repository and the hash of the event ID, in at
  most 63 characters. For a repository label of at most 50 characters two deliveries share a name
  exactly when the first six bytes of their hashes agree. From 63 characters on the hash is cut off:
  all deliveries of the repository get the same name, and every delivery after the first is answered
  as a duplicate.
\<close>

theorem webhook_name_identifies_event:
  "let name = buildRunNameForWebhook sha256 repository in
     length (name e1) \<le> 63
     \<and> (length (dnsLabel repository) \<le> 50 \<longrightarrow> (name e1 = name e2 \<longleftrightarrow> take 6 (sha256 e1) = take 6 (sha256 e2)))
     \<and> (length (dnsLabel repository) \<ge> 63 \<longrightarrow> name e1 = name e2)"
  unfolding Let_def
proof (intro conjI impI)
  let ?name = "buildRunNameForWebhook sha256 repository"
  show "length (?name e1) \<le> 63" by (auto simp: buildRunNameForWebhook_def Let_def)
next
  assume l: "length (dnsLabel repository) \<le> 50"
  let ?base = "if dnsLabel repository = '''' then ''repository'' else dnsLabel repository"
  have "length ?base \<le> 50" using l by simp
  moreover have "length (hex_EncodeToString (take 6 (sha256 e))) \<le> 12" for e
    using hex_Encode_length [of "take 6 (sha256 e)"] by simp
  ultimately have "length ?base + 1 + length (hex_EncodeToString (take 6 (sha256 e))) \<le> 63" for e
    using add_mono [of "length ?base + 1" 51] by fastforce
  then have "length (?base @ ''-'' @ hex_EncodeToString (take 6 (sha256 e))) \<le> 63" for e
    by (simp del: if_split)
  then have n: "buildRunNameForWebhook sha256 repository e = ?base @ ''-'' @ hex_EncodeToString (take 6 (sha256 e))" for e
    unfolding buildRunNameForWebhook_def Let_def by (metis not_less)
  show "buildRunNameForWebhook sha256 repository e1 = buildRunNameForWebhook sha256 repository e2
      \<longleftrightarrow> take 6 (sha256 e1) = take 6 (sha256 e2)"
    unfolding n by (simp add: hex_Encode_inject)
next
  assume l: "length (dnsLabel repository) \<ge> 63"
  then have "buildRunNameForWebhook sha256 repository e = take 63 (dnsLabel repository)" for e
    by (auto simp: buildRunNameForWebhook_def Let_def)
  then show "buildRunNameForWebhook sha256 repository e1 = buildRunNameForWebhook sha256 repository e2" by simp
qed

theorem webhook_name_identifies_event_witness:
  "buildRunNameForWebhook (\<lambda>m. m) ''Shop/Cart'' ''e1'' \<noteq> buildRunNameForWebhook (\<lambda>m. m) ''Shop/Cart'' ''e2''
   \<and> buildRunNameForWebhook (\<lambda>m. m) (replicate 70 CHR ''a'') ''e1''
     = buildRunNameForWebhook (\<lambda>m. m) (replicate 70 CHR ''a'') ''e2''"
proof -
  have "length (dnsLabel ''Shop/Cart'') \<le> 50" "length (dnsLabel (replicate 70 CHR ''a'')) \<ge> 63" by code_simp+
  then show ?thesis
    using webhook_name_identifies_event [of "\<lambda>m. m" "''Shop/Cart''" "''e1''" "''e2''"]
      webhook_name_identifies_event [of "\<lambda>m. m" "replicate 70 CHR ''a''" "''e1''" "''e2''"]
    by (simp only: Let_def) simp
qed



section \<open>A delivery\<close>

text \<open>A repository with an enabled webhook, a server that holds it, and an authenticated push to \<open>main\<close>.\<close>

definition hooked_repository :: Repository where
  "hooked_repository = Repository_zero\<lparr>repo_Meta := objectMeta ''cart'' ''ci'',
     repo_Spec := RepositorySpec_zero\<lparr>rs_ProjectRef := ''shop'', rs_Provider := RepositoryProviderGitLab,
       rs_DefaultBranch := ''main'', rs_Webhook := RepositoryWebhook_zero\<lparr>wh_Enabled := True,
         wh_SecretRef := \<lparr>rskr_Name = ''hook'', rskr_Key = ''token''\<rparr>\<rparr>\<rparr>\<rparr>"

definition hooked_server :: "unit server" where
  "hooked_server = empty_server\<lparr>
     sv_GetProject := (\<lambda>k w. (Inr (Project_zero\<lparr>proj_Meta := objectMeta ''shop'' ''ci''\<rparr>), w)),
     sv_GetRepository := (\<lambda>k w. (Inr hooked_repository, w)),
     sv_GetPipelineTemplate := (\<lambda>k w. (Inr PipelineTemplate_zero, w)),
     sv_GetSecret := (\<lambda>k w. (Inr [(''token'', ''s3cr3t'')], w)),
     sv_CreateBuildRun := (\<lambda>b w. (Inr b, w)),
     sv_Decoders := \<lparr>decode_GitHub = (\<lambda>b. Inl (errors_New ''bad'')),
       decode_GitLab = (\<lambda>b. Inr \<lparr>gl_ObjectKind = ''push'', gl_Ref = ''refs/heads/main'', gl_CheckoutSHA = ''abc123'',
         gl_After = '''', gl_UserName = ''ann'', gl_UserUsername = '''', gl_Project_GitHTTPURL = '''',
         gl_Project_WebURL = ''''\<rparr>),
       decode_Gitea = (\<lambda>b. Inl (errors_New ''bad'')), decode_Generic = (\<lambda>b. Inl (errors_New ''bad''))\<rparr>\<rparr>"

definition hooked_request :: webhook_request where
  "hooked_request = \<lparr>wr_RepositoryName = ''cart'', wr_Namespace = '''',
     wr_Headers = [(''X-Gitlab-Token'', ''s3cr3t''), (''X-Gitlab-Event-Uuid'', ''e1'')], wr_Body = ''{}''\<rparr>"

fun creates_build :: "api_effect \<Rightarrow> bool" where
  "creates_build (ApiBuildRunCreated b) = True"
| "creates_build _ = False"

definition hooked_project :: Project where
  "hooked_project = Project_zero\<lparr>proj_Meta := objectMeta ''shop'' ''ci''\<rparr>"

definition hooked_event :: Event where
  "hooked_event = Event_zero\<lparr>ev_Branch := ''main'', ev_CommitSHA := ''abc123'', ev_Actor := ''ann'',
     ev_EventID := ''e1'', ev_Type := EventPush, ev_IsPush := True\<rparr>"

lemma hooked_build_allowed:
  "case buildRunFromWebhook hooked_server 1 ''ci'' hooked_repository hooked_project PipelineTemplate_zero hooked_event of
     Inl e \<Rightarrow> False
   | Inr b \<Rightarrow> dec_Allowed (EvaluateBuildRun 1 \<lparr>bi_BuildRun = Some b, bi_Project = Some hooked_project,
       bi_Repository = Some hooked_repository, bi_PipelineTemplate = Some PipelineTemplate_zero,
       bi_EnforceAuthorization = True, bi_TriggerAuthorized = True, bi_SecretUseAuthorized = True\<rparr>)"
  by code_simp

lemma hooked_create:
  "wp (webhook_create hooked_server c ProviderGitLab ''ci'' hooked_repository hooked_event)
     (\<lambda>r t. list_ex creates_build (trace t)) s"
proof -
  obtain b where b: "buildRunFromWebhook hooked_server 1 ''ci'' hooked_repository hooked_project PipelineTemplate_zero
      hooked_event = Inr b"
    "dec_Allowed (EvaluateBuildRun 1 \<lparr>bi_BuildRun = Some b, bi_Project = Some hooked_project,
       bi_Repository = Some hooked_repository, bi_PipelineTemplate = Some PipelineTemplate_zero,
       bi_EnforceAuthorization = True, bi_TriggerAuthorized = True, bi_SecretUseAuthorized = True\<rparr>)"
    using hooked_build_allowed by (auto split: sum.splits)
  have ops: "sv_GetProject hooked_server k w = (Inr hooked_project, w)"
    "sv_GetPipelineTemplate hooked_server k w = (Inr PipelineTemplate_zero, w)"
    "sv_Now hooked_server w = (1, w)" "sv_CreateBuildRun hooked_server b w = (Inr b, w)"
    "evaluator hooked_server = \<lparr>pe_EvaluateBuildRun = EvaluateBuildRun,
       pe_EvaluatePipelineTemplate = EvaluatePipelineTemplate\<rparr>"
    "sv_WebhookIndex hooked_server = None" "sv_Notifier hooked_server = None"
    for k w b by (simp_all add: hooked_server_def empty_server_def hooked_project_def evaluator_def)
  have "ev_CommitSHA hooked_event \<noteq> ''''" by code_simp
  then show ?thesis using b
    by (simp add: webhook_create_def Let_def wp_simps ops recordWebhookAudit_def recordAudit_def recordWebhookEvent_def)
qed

lemma hooked_facts:
  "webhook_Parse (sv_Decoders hooked_server) ProviderGitLab (wr_Headers hooked_request) (wr_Body hooked_request)
     = Inr hooked_event"
  "Verify (sv_HMAC hooked_server) ProviderGitLab (wr_Headers hooked_request) (wr_Body hooked_request) ''s3cr3t'' = None"
  "fst (Filter hooked_repository hooked_event)"
  "\<not> ev_IsPing hooked_event" "ev_EventID hooked_event = ''e1''"
  "validateName (wr_RepositoryName hooked_request) = None"
  "server_namespace hooked_server (wr_Namespace hooked_request) = ''ci''"
  "length (wr_Body hooked_request) = 2"
  "wh_Enabled (rs_Webhook (repo_Spec hooked_repository))"
  "rs_Provider (repo_Spec hooked_repository) = provider_of ProviderGitLab"
  "wh_SecretRef (rs_Webhook (repo_Spec hooked_repository)) = \<lparr>rskr_Name = ''hook'', rskr_Key = ''token''\<rparr>"
  "meta_Namespace (repo_Meta hooked_repository) = ''ci''"
  by code_simp+

lemma hooked_delivery_creates:
  "wp (webhook_handler hooked_server c ProviderGitLab hooked_request) (\<lambda>r t. list_ex creates_build (trace t)) s"
proof -
  have ops: "sv_GetRepository hooked_server k w = (Inr hooked_repository, w)"
    "sv_GetSecret hooked_server k w = (Inr [(''token'', ''s3cr3t'')], w)"
    "sv_ListBuildRuns hooked_server n w = (Inr [], w)"
    "sv_WebhookIndex hooked_server = None" for k w n by (simp_all add: hooked_server_def empty_server_def)
  have unit_ext: "t\<lparr>ext := ()\<rparr> = t" for t :: "(unit, api_effect) sys" by (cases t) simp
  have secret: "wp (webhookSecret hooked_server hooked_repository) Q s = Q (Inr ''s3cr3t'') s" for Q s
    by (simp add: webhookSecret_def Resolve_def Let_def wp_simps ops hooked_facts select_one_key
        select_keys_def map_index_def unit_ext)
  obtain fr fm where f: "Filter hooked_repository hooked_event = (True, fr, fm)"
    using hooked_facts(3) by (cases "Filter hooked_repository hooked_event") auto
  show ?thesis
    using hooked_create
    by (simp add: webhook_handler_def webhook_authenticate_def webhook_dispatch_def Let_def wp_simps ops hooked_facts
        secret existingBuildRunForEvent_def list_event_def f wp_check)
qed

theorem webhook_creates_verified_builds_only_witness:
  "\<exists>b. verified_event hooked_server ProviderGitLab hooked_request hooked_repository hooked_event
    \<and> build_from_event hooked_server ''ci'' hooked_repository hooked_event b"
proof -
  let ?m = "webhook_handler hooked_server \<lparr>cx_Principal = None, cx_Organization = ''''\<rparr> ProviderGitLab hooked_request"
  have "list_ex creates_build (exec_trace ?m ())"
    using hooked_delivery_creates [of "\<lparr>cx_Principal = None, cx_Organization = ''''\<rparr>" "start ()"]
    by (simp only: wp_trace [of _ "\<lambda>r t. list_ex creates_build t"])
  then obtain e where e: "e \<in> set (exec_trace ?m ())" "creates_build e" unfolding list_ex_iff by blast
  from e(2) obtain b where "e = ApiBuildRunCreated b" by (cases e) simp_all
  with e(1) have "ApiBuildRunCreated b \<in> set (exec_trace ?m ())" by simp
  from webhook_creates_verified_builds_only [OF this]
  obtain w' repository event where r:
      "fst (sv_GetRepository hooked_server \<lparr>key_Namespace = server_namespace hooked_server (wr_Namespace hooked_request),
         key_Name = wr_RepositoryName hooked_request\<rparr> w') = Inr repository"
    and v: "verified_event hooked_server ProviderGitLab hooked_request repository event"
    and b: "build_from_event hooked_server (server_namespace hooked_server (wr_Namespace hooked_request)) repository event b"
    by blast
  have "repository = hooked_repository" using r by (simp add: hooked_server_def)
  moreover have "event = hooked_event" using v by (simp add: verified_event_def hooked_facts)
  ultimately show ?thesis using v b by (auto simp: hooked_facts)
qed

end
