(* ===== verification/ApiBuilds.thy ===== *)
theory ApiBuilds
  imports ApiServer BuildRunController
begin

text \<open>
  Build runs through the API: the \<open>POST\<close> branch of \<open>buildRuns\<close> in \<open>internal/api/server.go\<close>, and
  cancelling, retrying and rerunning a build in \<open>internal/api/build_actions.go\<close>. The path values of a
  request are given as the key of the object.
\<close>

section \<open>Creation\<close>

record BuildRunRequest =
  brq_Name :: string
  brq_Namespace :: string
  brq_Spec :: BuildRunSpec

definition validateBuildRunRequest :: "BuildRunRequest \<Rightarrow> go_error option" where
  "validateBuildRunRequest req =
     (let spec = brq_Spec req in
      case validateName (brq_Name req) of
        Some err \<Rightarrow> Some err
      | None \<Rightarrow>
          if brs_ProjectRef spec = '''' \<or> brs_RepositoryRef spec = '''' \<or> brs_PipelineTemplateRef spec = ''''
          then Some (errors_New ''projectRef, repositoryRef and pipelineTemplateRef are required'')
          else if brs_Revision spec = '''' \<and> brs_Branch spec = ''''
          then Some (errors_New ''revision or branch is required'')
          else if trig_Type (brs_TriggeredBy spec) = TriggerTypeUnset
          then Some (errors_New ''triggeredBy.type is required'')
          else if img_Repository (brs_Image spec) = ''''
          then Some (errors_New ''image.repository is required'')
          else None)"

definition create_build_run ::
  "'w server \<Rightarrow> api_context \<Rightarrow> BuildRunRequest \<Rightarrow> ('w, BuildRun api_response) api_io" where
  "create_build_run s ctx req =
     (case validateBuildRunRequest req of
        Some err \<Rightarrow> State_Monad.return (badRequest (err_text err))
      | None \<Rightarrow> do {
          let obj = BuildRun_zero\<lparr>br_Meta := objectMeta (brq_Name req) (server_namespace s (brq_Namespace req)),
            br_Spec := brq_Spec req\<rparr>;
          now \<leftarrow> query (sv_Now s);
          let dec = pe_EvaluateBuildRun (evaluator s) now \<lparr>bi_BuildRun = Some obj, bi_Project = None,
            bi_Repository = None, bi_PipelineTemplate = None, bi_EnforceAuthorization = True,
            bi_TriggerAuthorized = True, bi_SecretUseAuthorized = True\<rparr>;
          if \<not> dec_Allowed dec then State_Monad.return (policyDenied dec)
          else or_error (call (ApiBuildRunCreated obj) (sv_CreateBuildRun s obj)) (\<lambda>obj. do {
            recordAudit s ctx (AuditEvent_zero\<lparr>ae_Type := ''BuildRunCreated'',
              ae_Actor := ActorFromContext (cx_Principal ctx) (trig_Actor (brs_TriggeredBy (br_Spec obj))),
              ae_Project := brs_ProjectRef (br_Spec obj), ae_BuildRun := meta_Name (br_Meta obj),
              ae_Message := ''Created BuildRun through API.''\<rparr>);
            State_Monad.return (Reply 201 obj)
          })
        })"


section \<open>Cancellation\<close>

definition delete_job :: "'w server \<Rightarrow> NamespacedName \<Rightarrow> ('w, unit result) api_io" where
  "delete_job s key = do {
     r \<leftarrow> call (ApiJobDeleted key) (sv_DeleteJob s key);
     case r of
       Some err \<Rightarrow> if errors_Is err NotFound then ok ()
                   else fail (errorf_w (''delete runner Job '' @ quote (key_Name key)) err)
     | None \<Rightarrow> ok ()
   }"

fun delete_jobs :: "'w server \<Rightarrow> NamespacedName list \<Rightarrow> ('w, unit result) api_io" where
  "delete_jobs s [] = ok ()"
| "delete_jobs s (key # keys) = check (delete_job s key) (\<lambda>_. delete_jobs s keys)"

definition deleteBuildRunJobs :: "'w server \<Rightarrow> BuildRun \<Rightarrow> ('w, unit result) api_io" where
  "deleteBuildRunJobs s buildRun =
     (let job = oref_Name (bst_JobRef (br_Status buildRun)); ns = meta_Namespace (br_Meta buildRun) in
      if job \<noteq> '''' then delete_job s \<lparr>key_Namespace = ns, key_Name = job\<rparr>
      else check (wrap ''list runner Jobs'' (query (sv_ListJobs s ns (meta_Name (br_Meta buildRun))))) (delete_jobs s))"

definition cancellable :: "BuildRunPhase \<Rightarrow> bool" where
  "cancellable phase \<longleftrightarrow> phase \<in> {BuildRunPhaseUnset, BuildRunPhasePending, BuildRunPhaseQueued, BuildRunPhaseRunning}"

definition cancelled_run :: "gotime \<Rightarrow> BuildRun \<Rightarrow> BuildRun" where
  "cancelled_run now buildRun =
     (let st = br_Status buildRun in
      buildRun\<lparr>br_Status := st\<lparr>bst_Phase := BuildRunPhaseCancelled, bst_CompletedAt := Some now,
        bst_Conditions := metaSetStatusCondition (bst_Conditions st)
          (mk_condition ''Cancelled'' ConditionTrue 0 ''CancelledByUser'' ''BuildRun was cancelled through the API.'' now)\<rparr>\<rparr>)"

text \<open>The end of \<open>cancelBuildRun\<close>, once the Jobs are deleted.\<close>

definition record_cancelled :: "'w server \<Rightarrow> api_context \<Rightarrow> BuildRun \<Rightarrow> ('w, BuildRun api_response) api_io" where
  "record_cancelled s ctx buildRun = do {
     now \<leftarrow> query (sv_Now s);
     let buildRun = cancelled_run now buildRun;
     or_error (wrap ''update cancelled BuildRun status''
         (call (ApiBuildRunStatus buildRun) (sv_UpdateBuildRunStatus s buildRun))) (\<lambda>buildRun. do {
       recordAudit s ctx (AuditEvent_zero\<lparr>ae_Type := ''BuildRunCancelled'',
         ae_Actor := ActorFromContext (cx_Principal ctx) '''', ae_Project := brs_ProjectRef (br_Spec buildRun),
         ae_BuildRun := meta_Name (br_Meta buildRun),
         ae_Message := ''BuildRun cancelled and runner Job stopped.''\<rparr>);
       State_Monad.return (Reply 200 buildRun)
     })
   }"

definition cancelBuildRun :: "'w server \<Rightarrow> api_context \<Rightarrow> NamespacedName \<Rightarrow> ('w, BuildRun api_response) api_io" where
  "cancelBuildRun s ctx key =
     or_error (query (sv_GetBuildRun s key)) (\<lambda>buildRun.
       let phase = bst_Phase (br_Status buildRun) in
       if phase = BuildRunPhaseCancelled then State_Monad.return (Reply 200 buildRun)
       else if \<not> cancellable phase
       then State_Monad.return (conflict ''only Pending, Queued, or Running BuildRuns can be cancelled'')
       else or_error (deleteBuildRunJobs s buildRun) (\<lambda>_. record_cancelled s ctx buildRun))"


section \<open>Retry and rerun\<close>

datatype clone_action = RetryAction | RerunAction

fun clone_string :: "clone_action \<Rightarrow> string" where
  "clone_string RetryAction = ''retry''"
| "clone_string RerunAction = ''rerun''"

fun clone_annotation :: "clone_action \<Rightarrow> string" where
  "clone_annotation RetryAction = ''cloudivision.io/retry-of''"
| "clone_annotation RerunAction = ''cloudivision.io/rerun-of''"

fun clone_allowed :: "clone_action \<Rightarrow> BuildRunPhase \<Rightarrow> bool" where
  "clone_allowed RetryAction phase \<longleftrightarrow> phase \<in> {BuildRunPhaseFailed, BuildRunPhaseCancelled}"
| "clone_allowed RerunAction phase \<longleftrightarrow>
     phase \<in> {BuildRunPhaseSucceeded, BuildRunPhaseFailed, BuildRunPhaseCancelled}"

definition clone_name :: "string \<Rightarrow> clone_action \<Rightarrow> string \<Rightarrow> string" where
  "clone_name source action sfx =
     (let name = TrimSuffix (source @ ''-'' @ clone_string action @ ''-'' @ sfx) ''-'' in
      if length name > 63 then TrimSuffix (take 63 name) ''-'' else name)"

definition clone_of :: "api_context \<Rightarrow> gotime \<Rightarrow> clone_action \<Rightarrow> BuildRun \<Rightarrow> BuildRun" where
  "clone_of ctx now action source =
     BuildRun_zero\<lparr>br_Meta := ObjectMeta_zero\<lparr>
         meta_Name := clone_name (meta_Name (br_Meta source)) action (FormatInt36 (UnixNano now)),
         meta_Namespace := meta_Namespace (br_Meta source),
         meta_Annotations := [clone_annotation action \<mapsto> meta_Name (br_Meta source)]\<rparr>,
       br_Spec := (br_Spec source)\<lparr>brs_TriggeredBy := \<lparr>trig_Type = TriggerTypeManual,
         trig_Actor = ActorFromContext (cx_Principal ctx) (clone_string action), trig_EventID = ''''\<rparr>\<rparr>\<rparr>"

definition cloneBuildRun ::
  "'w server \<Rightarrow> api_context \<Rightarrow> NamespacedName \<Rightarrow> clone_action \<Rightarrow> ('w, BuildRun api_response) api_io" where
  "cloneBuildRun s ctx key action =
     or_error (query (sv_GetBuildRun s key)) (\<lambda>source.
       if \<not> clone_allowed action (bst_Phase (br_Status source))
       then State_Monad.return (conflict (if action = RetryAction
              then ''retry is allowed only for Failed or Cancelled BuildRuns''
              else ''rerun is allowed only for terminal BuildRuns''))
       else do {
         now \<leftarrow> query (sv_Now s);
         let clone = clone_of ctx now action source;
         or_error (call (ApiBuildRunCreated clone) (sv_CreateBuildRun s clone)) (\<lambda>clone. do {
           recordAudit s ctx (AuditEvent_zero\<lparr>
             ae_Type := (if action = RetryAction then ''BuildRunRetryCreated'' else ''BuildRunRerunCreated''),
             ae_Actor := ActorFromContext (cx_Principal ctx) '''', ae_Project := brs_ProjectRef (br_Spec clone),
             ae_BuildRun := meta_Name (br_Meta clone),
             ae_Message := ''Created '' @ clone_string action @ '' of BuildRun '' @ meta_Name (br_Meta source) @ ''.'',
             ae_Metadata := [(''sourceBuildRun'', meta_Name (br_Meta source))]\<rparr>);
           State_Monad.return (Reply 201 clone)
         })
       })"


section \<open>A cancelled build has no runner\<close>

text \<open>A deletion that the API server answered with success, or with the absence of the Job.\<close>

definition stopped :: "'w server \<Rightarrow> NamespacedName \<Rightarrow> bool" where
  "stopped s key \<longleftrightarrow> (\<exists>w. case fst (sv_DeleteJob s key w) of None \<Rightarrow> True | Some err \<Rightarrow> errors_Is err NotFound)"

text \<open>The Jobs of a build: the one its status names, or all that carry its label.\<close>

definition jobs_of :: "'w server \<Rightarrow> BuildRun \<Rightarrow> NamespacedName list \<Rightarrow> bool" where
  "jobs_of s b keys \<longleftrightarrow>
     (let ns = meta_Namespace (br_Meta b); job = oref_Name (bst_JobRef (br_Status b)) in
      if job \<noteq> '''' then keys = [\<lparr>key_Namespace = ns, key_Name = job\<rparr>]
      else (\<exists>w. fst (sv_ListJobs s ns (meta_Name (br_Meta b)) w) = Inr keys))"

text \<open>From \<open>u\<close> to \<open>t\<close> Jobs were deleted; when the result is no error, they were stopped and satisfy \<open>K\<close>.\<close>

definition deleted_jobs ::
  "'w server \<Rightarrow> (NamespacedName list \<Rightarrow> bool) \<Rightarrow> ('w, api_effect) sys \<Rightarrow> unit result \<Rightarrow> ('w, api_effect) sys \<Rightarrow> bool" where
  "deleted_jobs s K u r t \<longleftrightarrow> (\<exists>keys. trace t = trace u @ map ApiJobDeleted keys
     \<and> (r = Inr () \<longrightarrow> K keys \<and> list_all (stopped s) keys))"

lemma wp_delete_job: "wp (delete_job s key) (deleted_jobs s (\<lambda>keys. keys = [key]) u) u"
proof -
  let ?r = "fst (sv_DeleteJob s key (ext u))"
  have "stopped s key" if "?r = None \<or> (\<exists>err. ?r = Some err \<and> errors_Is err NotFound)"
    using that by (auto simp: stopped_def intro!: exI [of _ "ext u"])
  moreover have "trace u @ [ApiJobDeleted key] = trace u @ map ApiJobDeleted [key]" by simp
  ultimately show ?thesis
    by (auto simp: delete_job_def wp_simps deleted_jobs_def split: option.split intro!: exI [of _ "[key]"])
qed

lemma wp_delete_jobs: "wp (delete_jobs s keys) (deleted_jobs s (\<lambda>done. done = keys) u) u"
proof (induction keys arbitrary: u)
  case Nil
  show ?case by (simp add: wp_simps deleted_jobs_def)
next
  case (Cons key keys)
  have rest: "wp (delete_jobs s keys) (deleted_jobs s (\<lambda>done. done = key # keys) u) t"
    if "trace t = trace u @ [ApiJobDeleted key]" "stopped s key" for t
  proof (rule wp_mono [OF Cons.IH [of t]])
    fix r t' assume "deleted_jobs s (\<lambda>done. done = keys) t r t'"
    then obtain ds where "trace t' = trace t @ map ApiJobDeleted ds"
      "r = Inr () \<longrightarrow> ds = keys \<and> list_all (stopped s) ds" unfolding deleted_jobs_def by blast
    then show "deleted_jobs s (\<lambda>done. done = key # keys) u r t'"
      using that unfolding deleted_jobs_def by (intro exI [of _ "key # ds"]) auto
  qed
  show ?case
    unfolding delete_jobs.simps wp_check
  proof (rule wp_mono [OF wp_delete_job])
    fix r t assume a: "deleted_jobs s (\<lambda>keys. keys = [key]) u r t"
    show "case r of Inl err \<Rightarrow> deleted_jobs s (\<lambda>done. done = key # keys) u (Inl err) t
        | Inr x \<Rightarrow> wp (delete_jobs s keys) (deleted_jobs s (\<lambda>done. done = key # keys) u) t"
      using a rest by (cases r) (auto simp: deleted_jobs_def)
  qed
qed

lemma wp_deleteBuildRunJobs: "wp (deleteBuildRunJobs s b) (deleted_jobs s (jobs_of s b) u) u"
proof (cases "oref_Name (bst_JobRef (br_Status b)) = ''''")
  case False
  then show ?thesis
    unfolding deleteBuildRunJobs_def Let_def
    by (simp, intro wp_mono [OF wp_delete_job]) (auto simp: deleted_jobs_def jobs_of_def)
next
  case True
  let ?list = "sv_ListJobs s (meta_Namespace (br_Meta b)) (meta_Name (br_Meta b))"
  show ?thesis
  proof (cases "fst (?list (ext u))")
    case (Inl err)
    then show ?thesis
      using True by (simp add: deleteBuildRunJobs_def wp_simps wp_check wp_wrap deleted_jobs_def)
  next
    case (Inr keys)
    let ?u = "u\<lparr>ext := snd (?list (ext u))\<rparr>"
    have jobs: "jobs_of s b keys" using True Inr by (auto simp: jobs_of_def)
    have "wp (delete_jobs s keys) (deleted_jobs s (jobs_of s b) u) ?u"
      by (rule wp_mono [OF wp_delete_jobs [of s keys ?u]]) (use jobs in \<open>auto simp: deleted_jobs_def\<close>)
    then show ?thesis
      using True Inr by (simp add: deleteBuildRunJobs_def wp_simps wp_check wp_wrap)
  qed
qed

lemma unique_split:
  assumes "xs @ x # ys = us @ v # vs" and "P x" and "list_all (\<lambda>y. \<not> P y) us" and "list_all (\<lambda>y. \<not> P y) vs"
  shows "xs = us \<and> x = v"
  using assms
proof (induction us arbitrary: xs)
  case Nil
  then show ?case by (cases xs) (auto simp: list_all_iff)
next
  case (Cons u us)
  then show ?case by (cases xs) auto
qed

lemma wp_recordAudit:
  "(\<And>t'. \<exists>e. trace t' = trace t @ [ApiAudited e] \<Longrightarrow> Q () t') \<Longrightarrow> wp (recordAudit s ctx event) Q t"
  by (simp add: recordAudit_def Let_def wp_simps)

fun is_status :: "api_effect \<Rightarrow> bool" where
  "is_status (ApiBuildRunStatus b) = True"
| "is_status _ = False"

text \<open>What a trace of \<open>cancelBuildRun\<close> looks like.\<close>

definition cancel_shape :: "'w server \<Rightarrow> NamespacedName \<Rightarrow> api_effect list \<Rightarrow> bool" where
  "cancel_shape s key tr \<longleftrightarrow> list_all (\<lambda>e. \<not> is_status e) tr \<or>
     (\<exists>w1 w2 old keys rest. fst (sv_GetBuildRun s key w1) = Inr old \<and> cancellable (bst_Phase (br_Status old))
        \<and> jobs_of s old keys \<and> list_all (stopped s) keys
        \<and> tr = map ApiJobDeleted keys @ ApiBuildRunStatus (cancelled_run (fst (sv_Now s w2)) old) # rest
        \<and> list_all (\<lambda>e. \<not> is_status e) rest)"

lemma deletes_no_status: "list_all (\<lambda>e. \<not> is_status e) (map ApiJobDeleted keys)"
  by (induction keys) auto

lemma wp_record_cancelled:
  assumes "fst (sv_GetBuildRun s key w1) = Inr old" "cancellable (bst_Phase (br_Status old))"
    and "jobs_of s old keys" "list_all (stopped s) keys" and t: "trace t = map ApiJobDeleted keys"
  shows "wp (record_cancelled s ctx old) (\<lambda>r t. cancel_shape s key (trace t)) t"
proof -
  have shape: "cancel_shape s key (map ApiJobDeleted keys @ ApiBuildRunStatus (cancelled_run (fst (sv_Now s (ext t))) old) # rest)"
    if "list_all (\<lambda>e. \<not> is_status e) rest" for rest
    using assms(1-4) that unfolding cancel_shape_def by blast
  show ?thesis
    by (auto simp: record_cancelled_def wp_simps wp_wrap Let_def recordAudit_def t shape split: sum.split)
qed

lemma wp_cancelBuildRun: "wp (cancelBuildRun s ctx key) (\<lambda>r t. cancel_shape s key (trace t)) (start w)"
proof (cases "fst (sv_GetBuildRun s key w)")
  case (Inl err)
  then show ?thesis by (simp add: cancelBuildRun_def wp_simps start_def cancel_shape_def)
next
  case (Inr old)
  let ?t = "start w\<lparr>ext := snd (sv_GetBuildRun s key w)\<rparr>"
  have "wp (or_error (deleteBuildRunJobs s old) (\<lambda>_. record_cancelled s ctx old)) (\<lambda>r t. cancel_shape s key (trace t)) ?t"
    if c: "cancellable (bst_Phase (br_Status old))"
    unfolding wp_or_error
  proof (rule wp_mono [OF wp_deleteBuildRunJobs [of s old ?t]])
    fix r t assume "deleted_jobs s (jobs_of s old) ?t r t"
    then obtain keys where k: "trace t = map ApiJobDeleted keys" "r = Inr () \<longrightarrow> jobs_of s old keys \<and> list_all (stopped s) keys"
      by (auto simp: deleted_jobs_def start_def)
    then show "case r of Inl err \<Rightarrow> cancel_shape s key (trace t)
        | Inr a \<Rightarrow> wp (record_cancelled s ctx old) (\<lambda>r t. cancel_shape s key (trace t)) t"
      using wp_record_cancelled [OF Inr c _ _ k(1)] by (cases r) (auto simp: cancel_shape_def deletes_no_status)
  qed
  then show ?thesis
    using Inr by (simp add: cancelBuildRun_def wp_simps start_def Let_def cancel_shape_def)
qed

text \<open>
  C30: Cancelling reports a build as \<open>Cancelled\<close> only after its runner is gone: the status of a
  build is written only for a build that was read as pending, queued or running, with nothing but
  the phase, the completion time and the condition changed, and only after every one of its Jobs -
  the one its status names, or all that carry its label - was deleted and the API server answered
  each deletion with success or with the absence of the Job.
\<close>

theorem cancel_stops_jobs_first:
  assumes "exec_trace (cancelBuildRun s ctx key) w = before @ ApiBuildRunStatus b # after"
  shows "\<exists>w1 w2 old keys. fst (sv_GetBuildRun s key w1) = Inr old \<and> cancellable (bst_Phase (br_Status old))
    \<and> b = cancelled_run (fst (sv_Now s w2)) old
    \<and> jobs_of s old keys \<and> before = map ApiJobDeleted keys \<and> list_all (stopped s) keys"
proof -
  have "cancel_shape s key (exec_trace (cancelBuildRun s ctx key) w)"
    using wp_cancelBuildRun [of s ctx key w] by (simp only: wp_trace [of _ "\<lambda>r t. cancel_shape s key t"])
  then obtain w1 w2 old keys rest where j: "fst (sv_GetBuildRun s key w1) = Inr old"
      "cancellable (bst_Phase (br_Status old))" "jobs_of s old keys" "list_all (stopped s) keys"
    and eq: "before @ ApiBuildRunStatus b # after
      = map ApiJobDeleted keys @ ApiBuildRunStatus (cancelled_run (fst (sv_Now s w2)) old) # rest"
    and rest: "list_all (\<lambda>e. \<not> is_status e) rest"
    unfolding cancel_shape_def assms by auto
  from unique_split [OF eq, of is_status] rest
  have "before = map ApiJobDeleted keys" "b = cancelled_run (fst (sv_Now s w2)) old"
    by (auto simp: deletes_no_status)
  with j show ?thesis by blast
qed



text \<open>A running build whose Job is named in its status.\<close>

definition cancel_server :: "unit server" where
  "cancel_server = empty_server\<lparr>
     sv_GetBuildRun := (\<lambda>k w. (Inr (BuildRun_zero\<lparr>br_Status := BuildRunStatus_zero\<lparr>bst_Phase := BuildRunPhaseRunning,
       bst_JobRef := \<lparr>oref_Name = ''job'', oref_Namespace = ''''\<rparr>\<rparr>\<rparr>), w)),
     sv_UpdateBuildRunStatus := (\<lambda>b w. (Inr b, w))\<rparr>"

theorem cancel_stops_jobs_first_witness:
  "\<exists>b after. exec_trace (cancelBuildRun cancel_server \<lparr>cx_Principal = None, cx_Organization = ''''\<rparr> \<lparr>key_Namespace = ''ci'', key_Name = ''build''\<rparr>) ()
      = [ApiJobDeleted \<lparr>key_Namespace = '''', key_Name = ''job''\<rparr>, ApiBuildRunStatus b] @ after
     \<and> bst_Phase (br_Status b) = BuildRunPhaseCancelled"

proof -
  let ?m = "cancelBuildRun cancel_server \<lparr>cx_Principal = None, cx_Organization = ''''\<rparr> \<lparr>key_Namespace = ''ci'', key_Name = ''build''\<rparr>"
  obtain b after where tr: "exec_trace ?m ()
      = [ApiJobDeleted \<lparr>key_Namespace = '''', key_Name = ''job''\<rparr>] @ ApiBuildRunStatus b # after"
    by (simp add: exec_trace_def cancelBuildRun_def or_error_def run_query cancel_server_def empty_server_def
        cancellable_def deleteBuildRunJobs_def delete_job_def run_call record_cancelled_def wrap_def recordAudit_def
        BuildRun_zero_def BuildRunStatus_zero_def ObjectMeta_zero_def start_def Let_def ok_def)
  from cancel_stops_jobs_first [OF tr] show ?thesis
    using tr by (auto simp: cancelled_run_def Let_def)
qed


section \<open>A cancellation can be lost\<close>

lemma attempts_Inr: "fst (run_state m s) = Inr a \<Longrightarrow> run_state (attempts n m) s = run_state m s"
  by (cases n) (auto split: prod.split)

text \<open>A status update sends the caller's phase, whatever phase the server has meanwhile.\<close>

lemma update_over_latest:
  assumes "retries d" and "\<And>w. brd_GetBuildRun d (object_key (br_Meta b)) w = (Inr latest, w)"
    and "\<And>x w. brd_StatusUpdate d x w = (Inr x, w)"
  shows "run_state (updateBuildRunStatus d b) s =
    (Inr (copyStatus buildrun_ops b (copyStatus buildrun_ops latest b)),
     s\<lparr>trace := trace s @ [StatusUpdate (copyStatus buildrun_ops latest b)]\<rparr>)"
proof -
  let ?m = "update_attempt (brd_GetBuildRun d) (brd_StatusUpdate d) buildrun_ops StatusUpdate b"
  have m: "run_state ?m s = (Inr (copyStatus buildrun_ops b (copyStatus buildrun_ops latest b)),
     s\<lparr>trace := trace s @ [StatusUpdate (copyStatus buildrun_ops latest b)]\<rparr>)"
    using assms(2,3) by (simp add: update_attempt_def run_query run_call buildrun_ops_def Let_def)
  obtain n where n: "brd_Retry d ?m = attempts n ?m"
    using assms(1) by (auto simp: retries_def retry_spec_def)
  show ?thesis
    unfolding updateBuildRunStatus_def UpdateStatusWithRetry_def wrap_def n
    using attempts_Inr [of ?m s _ n] m by simp
qed

text \<open>
  C31: A cancellation through the API can be undone by a reconciliation that read the build before it.
  If the API server holds the build as cancelled when the reconciler records that its run is
  running, the update is merged into that very object and accepted: the build is \<open>Running\<close> again,
  although no transition leads out of \<open>Cancelled\<close>, and the next reconciliation does not treat it as
  finished.
\<close>

theorem cancellation_overwritten:
  assumes "retries d"
    and running: "bst_Phase (br_Status b) = BuildRunPhaseRunning" "run_Phase st = RunPhaseRunning"
    and cancelled: "\<And>w. brd_GetBuildRun d (object_key (br_Meta b)) w = (Inr (cancelled_run now b), w)"
    and accepts: "\<And>x w. brd_StatusUpdate d x w = (Inr x, w)"
  shows "\<exists>sent. StatusUpdate sent \<in> set (exec_trace (syncStatusFromRun d b ref st) w)
    \<and> br_Meta sent = br_Meta b \<and> br_Spec sent = br_Spec b
    \<and> bst_Phase (br_Status sent) = BuildRunPhaseRunning
    \<and> \<not> isTerminalBuildRunPhase (bst_Phase (br_Status sent))
    \<and> ValidateBuildRunPhaseTransition BuildRunPhaseCancelled BuildRunPhaseRunning \<noteq> None"
proof -
  let ?b = "setRunRefStatus b ref"
  have same: "bst_Phase (br_Status ?b) = BuildRunPhaseRunning" "br_Meta ?b = br_Meta b" "br_Spec ?b = br_Spec b"
    using running(1) by (simp_all add: setRunRefStatus_def Let_def)
  let ?now = "fst (brd_Now d w)"
  obtain b' where b': "MarkBuildRunStarted ?b ?now = Inr b'"
    using same(1) by (simp add: MarkBuildRunStarted_def ValidateBuildRunPhaseTransition_def Let_def)
  then have started: "bst_Phase (br_Status b') = BuildRunPhaseRunning" "br_Meta b' = br_Meta b" "br_Spec b' = br_Spec b"
    using same by (auto simp: MarkBuildRunStarted_def ValidateBuildRunPhaseTransition_def Let_def)
  let ?sent = "copyStatus buildrun_ops (cancelled_run now b) b'"
  have upd: "run_state (updateBuildRunStatus d b') s = (Inr (copyStatus buildrun_ops b' ?sent),
     s\<lparr>trace := trace s @ [StatusUpdate ?sent]\<rparr>)" for s
    by (rule update_over_latest [OF assms(1) _ accepts]) (use cancelled started(2) in simp)
  have sent: "br_Meta ?sent = br_Meta b" "br_Spec ?sent = br_Spec b" "bst_Phase (br_Status ?sent) = BuildRunPhaseRunning"
    using started by (simp_all add: copyStatus_def buildrun_ops_def cancelled_run_def Let_def)
  have "StatusUpdate ?sent \<in> set (exec_trace (syncStatusFromRun d b ref st) w)"
    using running(2) same(1) b' upd
    by (simp add: syncStatusFromRun_def exec_trace_def run_query Let_def check_def ok_def start_def)
  then show ?thesis
    using sent by (intro exI [of _ ?sent]) (simp add: ValidateBuildRunPhaseTransition_def)
qed

text \<open>A running build that was cancelled meanwhile, in an API server that accepts every status.\<close>

definition cancelled_deps :: "unit buildrun_deps" where
  "cancelled_deps = \<lparr>
     brd_GetBuildRun = (\<lambda>k w. (Inr (cancelled_run 5 (BuildRun_zero\<lparr>br_Status :=
       BuildRunStatus_zero\<lparr>bst_Phase := BuildRunPhaseRunning\<rparr>\<rparr>)), w)),
     brd_GetProject = (\<lambda>k w. (Inr Project_zero, w)),
     brd_GetRepository = (\<lambda>k w. (Inr Repository_zero, w)),
     brd_GetPipelineTemplate = (\<lambda>k w. (Inr PipelineTemplate_zero, w)),
     brd_GetRelease = (\<lambda>k w. (Inl (GoError ''not found'' [NotFound]), w)),
     brd_ListBuildRuns = (\<lambda>ns w. (Inr [], w)),
     brd_Update = (\<lambda>b w. (Inr b, w)), brd_StatusUpdate = (\<lambda>b w. (Inr b, w)),
     brd_CreateRelease = (\<lambda>r w. (Inr r, w)), brd_SetControllerReference = (\<lambda>b r. Inr r),
     brd_Retry = attempts 4, brd_RetryFinalizer = attempts 4, brd_Now = (\<lambda>w. (7, w)),
     brd_Recorder = None, brd_Notifier = None, brd_PolicyEvaluator = None, brd_Executors = Map.empty,
     brd_JobExecutor = sample_executor, brd_TektonExecutor = sample_executor, brd_EnableTekton = '''',
     brd_QuotaRequeueAfter = 0, brd_ParseTemplate = (\<lambda>t. Inr (\<lambda>data. Inr t)),
     brd_ParseQuantity = (\<lambda>q. None)\<rparr>"

theorem cancellation_overwritten_witness:
  "\<exists>sent. StatusUpdate sent \<in> set (exec_trace (syncStatusFromRun cancelled_deps
       (BuildRun_zero\<lparr>br_Status := BuildRunStatus_zero\<lparr>bst_Phase := BuildRunPhaseRunning\<rparr>\<rparr>)
       \<lparr>ref_Kind = ''Job'', ref_Name = ''job'', ref_Namespace = ''''\<rparr>
       \<lparr>run_Phase = RunPhaseRunning, run_Failure = \<lparr>rfl_Reason = '''', rfl_Message = ''''\<rparr>\<rparr>) ())
     \<and> bst_Phase (br_Status sent) = BuildRunPhaseRunning"
proof -
  let ?b = "BuildRun_zero\<lparr>br_Status := BuildRunStatus_zero\<lparr>bst_Phase := BuildRunPhaseRunning\<rparr>\<rparr>"
  have "retries cancelled_deps" by (simp add: retries_def cancelled_deps_def retry_spec_attempts)
  moreover have "brd_GetBuildRun cancelled_deps (object_key (br_Meta ?b)) w = (Inr (cancelled_run 5 ?b), w)"
    "brd_StatusUpdate cancelled_deps x w = (Inr x, w)" for w x by (simp_all add: cancelled_deps_def)
  ultimately show ?thesis
    using cancellation_overwritten [of cancelled_deps ?b "\<lparr>run_Phase = RunPhaseRunning, run_Failure = \<lparr>rfl_Reason = '''', rfl_Message = ''''\<rparr>\<rparr>" 5]
    by simp blast
qed


section \<open>Names of retried builds\<close>

lemma TrimSuffix_id: "\<not> HasSuffix s p \<Longrightarrow> TrimSuffix s p = s"
  by (simp add: TrimSuffix_def)

text \<open>A name with room for the time stamp keeps it whole.\<close>

lemma clone_name_full:
  assumes "length source \<le> 43" and t: "UnixNano t \<in> {0..<2 ^ 63}"
  shows "clone_name source action (FormatInt36 (UnixNano t)) =
      source @ ''-'' @ clone_string action @ ''-'' @ FormatInt36 (UnixNano t)"
proof -
  let ?n = "source @ ''-'' @ clone_string action @ ''-'' @ FormatInt36 (UnixNano t)"
  have act: "length (clone_string action) \<le> 5" by (cases action) simp_all
  have ne: "FormatInt36 (UnixNano t) \<noteq> []" using t by (simp add: FormatInt36_def base36_nonempty)
  have "last (FormatInt36 (UnixNano t)) \<in> set (base36 (nat (UnixNano t)))"
    using t by (simp add: FormatInt36_def base36_nonempty)
  moreover have "\<not> (is_lower (CHR ''-'') \<or> is_digit (CHR ''-''))" by code_simp
  ultimately have l: "last (FormatInt36 (UnixNano t)) \<noteq> CHR ''-''" using base36_chars by metis
  have "last ?n = last (FormatInt36 (UnixNano t))" using ne by simp
  then have "?n \<noteq> zs @ ''-''" for zs using l by (metis last_snoc)
  then have "\<not> HasSuffix ?n ''-''" unfolding HasSuffix_def suffix_def by blast
  moreover have "length ?n \<le> 63" using assms act FormatInt36_length [of "UnixNano t"] by simp
  ultimately show ?thesis unfolding clone_name_def by (simp add: TrimSuffix_id)
qed

text \<open>
  A retried or rerun build gets a name of at most 63 characters. While the name of the source
  leaves room for the action and the time stamp, two clones share a name exactly when they were
  made at the same instant. But the name is cut from its end: a build whose own name has 63
  characters (as those of webhook deliveries have for repository labels of 50 characters) is
  cloned under its own name, so that the creation always meets an existing object.
\<close>

theorem clone_name_unique:
  "let name = (\<lambda>t. clone_name source action (FormatInt36 (UnixNano t))) in
     length (name t1) \<le> 63
     \<and> (length source \<le> 43 \<and> UnixNano t1 \<in> {0..<2 ^ 63} \<and> UnixNano t2 \<in> {0..<2 ^ 63}
        \<longrightarrow> (name t1 = name t2 \<longleftrightarrow> t1 = t2))
     \<and> (length source = 63 \<and> \<not> HasSuffix source ''-'' \<longrightarrow> name t1 = source)"
  unfolding Let_def
proof (intro conjI impI)
  have "length (TrimSuffix s p) \<le> length s" for s p :: string by (simp add: TrimSuffix_def)
  from this [of "take 63 x" "''-''" for x]
  have trimmed: "length (TrimSuffix (take 63 x) ''-'') \<le> 63" for x :: string
    by (metis le_trans length_take min.cobounded2)
  show "length (clone_name source action (FormatInt36 (UnixNano t1))) \<le> 63"
    using trimmed unfolding clone_name_def Let_def by (simp add: not_less)
next
  assume a: "length source \<le> 43 \<and> UnixNano t1 \<in> {0..<2 ^ 63} \<and> UnixNano t2 \<in> {0..<2 ^ 63}"
  then have "length source \<le> 43" by simp
  note full = clone_name_full [OF this]
  show "clone_name source action (FormatInt36 (UnixNano t1)) = clone_name source action (FormatInt36 (UnixNano t2))
      \<longleftrightarrow> t1 = t2"
    using a full [of t1] full [of t2] FormatInt36_inject [of "UnixNano t1" "UnixNano t2"] by (auto simp: UnixNano_def)
next
  assume a: "length source = 63 \<and> \<not> HasSuffix source ''-''"
  let ?n = "TrimSuffix (source @ ''-'' @ clone_string action @ ''-'' @ FormatInt36 (UnixNano t1)) ''-''"
  have act: "clone_string action \<noteq> []" by (cases action) simp_all
  have "take 63 ?n = source" "length ?n > 63"
    using a act by (auto simp: TrimSuffix_def)
  then show "clone_name source action (FormatInt36 (UnixNano t1)) = source"
    using a unfolding clone_name_def Let_def by (simp add: TrimSuffix_id)
qed

theorem clone_name_unique_witness:
  "clone_name ''build-1'' RetryAction (FormatInt36 (UnixNano (seconds 62135596801)))
     \<noteq> clone_name ''build-1'' RetryAction (FormatInt36 (UnixNano (seconds 62135596802)))
   \<and> clone_name (replicate 63 CHR ''a'') RetryAction (FormatInt36 (UnixNano 0)) = replicate 63 CHR ''a''"
proof -
  have "UnixNano (seconds 62135596801) \<in> {0..<2 ^ 63}" "UnixNano (seconds 62135596802) \<in> {0..<2 ^ 63}"
    "seconds 62135596801 \<noteq> seconds 62135596802" "length ''build-1'' \<le> 43"
    by (simp_all add: UnixNano_def seconds_def)
  moreover have "length (replicate 63 CHR ''a'') = 63 \<and> \<not> HasSuffix (replicate 63 CHR ''a'') ''-''" by code_simp
  ultimately show ?thesis
    using clone_name_unique [of "''build-1''" RetryAction "seconds 62135596801" "seconds 62135596802"]
      clone_name_unique [of "replicate 63 CHR ''a''" RetryAction 0 0]
    by (simp only: Let_def) blast
qed

end
