(* ===== verification/ApiReleases.thy ===== *)
theory ApiReleases
  imports ApiServer
begin

text \<open>
  Releases through the API: approval and rejection in \<open>internal/api/server.go\<close>, promotion and rollback
  in \<open>internal/api/release_actions.go\<close>. The path values of a request are given as the key of the
  release.
\<close>

record ReleaseApprovalRequest =
  raq_Actor :: string
  raq_Comment :: string

record ReleasePromoteRequest =
  rpq_TargetEnvironmentRef :: string
  rpq_Actor :: string

record ReleaseRollbackRequest =
  rrq_TargetReleaseRef :: string
  rrq_Actor :: string
  rrq_Reason :: string

section \<open>Approval and rejection\<close>

definition releasePromotionStarted :: "ReleasePhase \<Rightarrow> bool" where
  "releasePromotionStarted phase \<longleftrightarrow> phase \<in> {ReleasePhasePreparingGitOpsChange,
     ReleasePhaseGitOpsChangeCommitted, ReleasePhaseWaitingForSync, ReleasePhaseDeployed, ReleasePhaseRolledBack}"

definition releasePhaseFailed :: "ReleasePhase \<Rightarrow> bool" where
  "releasePhaseFailed phase \<longleftrightarrow> phase \<in> {ReleasePhaseFailedValidation, ReleasePhaseFailedApproval,
     ReleasePhaseFailedGitClone, ReleasePhaseFailedGitCommit, ReleasePhaseFailedGitPush,
     ReleasePhaseFailedProviderStatus, ReleasePhaseTimedOut}"

definition api_releaseRequiresApproval :: "'w server \<Rightarrow> Release \<Rightarrow> ('w, bool result) api_io" where
  "api_releaseRequiresApproval s release =
     (if ra_Required (rls_Approval (rel_Spec release)) then ok True
      else if rls_EnvironmentRef (rel_Spec release) = '''' then ok False
      else do {
        r \<leftarrow> query (sv_GetEnvironment s \<lparr>key_Namespace = meta_Namespace (rel_Meta release),
               key_Name = rls_EnvironmentRef (rel_Spec release)\<rparr>);
        State_Monad.return (case r of
            Inl err \<Rightarrow> if errors_Is err NotFound then Inr False else Inl err
          | Inr environment \<Rightarrow> Inr (es_RequiresApproval (env_Spec environment)))
      })"

definition releaseApprovalActionInput ::
  "'w server \<Rightarrow> api_context \<Rightarrow> NamespacedName \<Rightarrow> ReleaseApprovalRequest
   \<Rightarrow> (Release \<Rightarrow> ReleaseApprovalRequest \<Rightarrow> ('w, Release api_response) api_io) \<Rightarrow> ('w, Release api_response) api_io" where
  "releaseApprovalActionInput s ctx key req f =
     (let named = TrimSpace (raq_Actor req);
          actor = (if named = '''' then ActorFromContext (cx_Principal ctx) '''' else named) in
      if actor = ''''
      then State_Monad.return (badRequest ''actor is required when no authenticated principal is available'')
      else or_error (query (sv_GetRelease s key)) (\<lambda>release. f release (req\<lparr>raq_Actor := actor\<rparr>)))"

text \<open>The checks that \<open>approveRelease\<close> and \<open>rejectRelease\<close> share, with the message for a release that failed.\<close>

definition awaiting_decision ::
  "'w server \<Rightarrow> string \<Rightarrow> Release \<Rightarrow> ('w, Release api_response) api_io \<Rightarrow> ('w, Release api_response) api_io" where
  "awaiting_decision s message release f =
     (let phase = rlst_Phase (rel_Status release) in
      if releasePromotionStarted phase
      then State_Monad.return (conflict ''release is already deploying or deployed'')
      else if ra_RejectedBy (rls_Approval (rel_Spec release)) \<noteq> '''' \<or> releasePhaseFailed phase
      then State_Monad.return (conflict message)
      else or_error (api_releaseRequiresApproval s release) (\<lambda>required.
        if \<not> required then State_Monad.return (badRequest ''release does not require approval'') else f))"

definition decision_annotations :: "string \<Rightarrow> string \<Rightarrow> string \<Rightarrow> strmap" where
  "decision_annotations action actor comment =
     [''cloudivision.io/approval-action'' \<mapsto> action, ''cloudivision.io/approval-actor'' \<mapsto> actor,
      ''cloudivision.io/approval-comment'' \<mapsto> comment]"

definition decided :: "(ReleaseApprovalSpec \<Rightarrow> ReleaseApprovalSpec) \<Rightarrow> strmap \<Rightarrow> Release \<Rightarrow> Release" where
  "decided f annotations release =
     release\<lparr>rel_Meta := (rel_Meta release)\<lparr>meta_Annotations :=
         mergeStringMap (meta_Annotations (rel_Meta release)) annotations\<rparr>,
       rel_Spec := (rel_Spec release)\<lparr>rls_Approval := f (rls_Approval (rel_Spec release))\<rparr>\<rparr>"

definition approved :: "gotime \<Rightarrow> string \<Rightarrow> string \<Rightarrow> Release \<Rightarrow> Release" where
  "approved now actor comment =
     decided (\<lambda>a. a\<lparr>ra_Required := True, ra_ApprovedBy := actor, ra_ApprovedAt := Some now, ra_RejectedBy := '''',
         ra_RejectedAt := None, ra_Comment := comment\<rparr>)
       (decision_annotations ''approved'' actor comment)"

definition rejected :: "gotime \<Rightarrow> string \<Rightarrow> string \<Rightarrow> Release \<Rightarrow> Release" where
  "rejected now actor comment =
     decided (\<lambda>a. a\<lparr>ra_Required := True, ra_RejectedBy := actor, ra_RejectedAt := Some now, ra_Comment := comment\<rparr>)
       (decision_annotations ''rejected'' actor comment)"

definition audit_decision :: "'w server \<Rightarrow> api_context \<Rightarrow> string \<Rightarrow> string \<Rightarrow> string \<Rightarrow> string \<Rightarrow> Release \<Rightarrow> ('w, unit) api_io" where
  "audit_decision s ctx ty message actor comment release =
     recordAudit s ctx (AuditEvent_zero\<lparr>ae_Type := ty, ae_Actor := actor,
       ae_Project := rls_ProjectRef (rel_Spec release), ae_BuildRun := rls_BuildRunRef (rel_Spec release),
       ae_Release := meta_Name (rel_Meta release), ae_Message := message,
       ae_Metadata := [(''comment'', comment), (''namespace'', meta_Namespace (rel_Meta release))]\<rparr>)"

definition approveRelease ::
  "'w server \<Rightarrow> api_context \<Rightarrow> NamespacedName \<Rightarrow> ReleaseApprovalRequest \<Rightarrow> ('w, Release api_response) api_io" where
  "approveRelease s ctx key req =
     releaseApprovalActionInput s ctx key req (\<lambda>release req.
     awaiting_decision s ''rejected or failed release cannot be approved'' release (do {
       now \<leftarrow> query (sv_Now s);
       let actor = ActorFromContext (cx_Principal ctx) (raq_Actor req);
       let release = approved now actor (raq_Comment req) release;
       or_error (call (ApiReleaseUpdated release) (sv_UpdateRelease s release)) (\<lambda>release. do {
         audit_decision s ctx ''ReleaseApproved'' ''Release approved.'' actor (raq_Comment req) release;
         State_Monad.return (Reply 200 release)
       })
     }))"

text \<open>The status of a rejected release.\<close>

definition rejected_status :: "gotime \<Rightarrow> string \<Rightarrow> Release \<Rightarrow> Release" where
  "rejected_status now actor release =
     (let st = rel_Status release; message = ''Release was rejected by '' @ actor @ ''.'';
          gen = meta_Generation (rel_Meta release) in
      release\<lparr>rel_Status := st\<lparr>rlst_Phase := ReleasePhaseFailedApproval, rlst_ObservedGeneration := gen,
        rlst_CompletedAt := Some now,
        rlst_Approval := ReleaseApprovalStatus_zero\<lparr>ras_RejectedBy := actor, ras_RejectedAt := Some now\<rparr>,
        rlst_Failure := \<lparr>fail_Reason = ''ReleaseRejected'', fail_Message = message\<rparr>,
        rlst_Conditions := SetCondition now (rlst_Conditions st)
          (mk_condition ConditionFailed ConditionTrue gen ''ReleaseRejected'' message now)\<rparr>\<rparr>)"

definition rejectRelease ::
  "'w server \<Rightarrow> api_context \<Rightarrow> NamespacedName \<Rightarrow> ReleaseApprovalRequest \<Rightarrow> ('w, Release api_response) api_io" where
  "rejectRelease s ctx key req =
     releaseApprovalActionInput s ctx key req (\<lambda>release req.
     awaiting_decision s ''release is already rejected or failed'' release (do {
       now \<leftarrow> query (sv_Now s);
       let actor = ActorFromContext (cx_Principal ctx) (raq_Actor req);
       let release = rejected now actor (raq_Comment req) release;
       or_error (call (ApiReleaseUpdated release) (sv_UpdateRelease s release)) (\<lambda>release.
         or_error (UpdateStatusWithRetry (sv_Retry s) (sv_GetRelease s) (sv_UpdateReleaseStatus s) release_ops
             ApiReleaseStatus (rejected_status now actor release)) (\<lambda>release. do {
           audit_decision s ctx ''ReleaseRejected'' ''Release rejected.'' actor (raq_Comment req) release;
           State_Monad.return (Reply 200 release)
         }))
     }))"


section \<open>Promotion and rollback\<close>

definition resolvedReleaseImage :: "'w server \<Rightarrow> Release \<Rightarrow> ('w, (ImageRef \<times> string) result) api_io" where
  "resolvedReleaseImage s release =
     (let img = rls_Image (rel_Spec release); ref = rls_BuildRunRef (rel_Spec release) in
      if img_Digest img \<noteq> '''' then ok (img, ref)
      else do {
        r \<leftarrow> query (sv_GetBuildRun s \<lparr>key_Namespace = meta_Namespace (rel_Meta release), key_Name = ref\<rparr>);
        State_Monad.return (case r of
            Inl err \<Rightarrow> if img_Repository img \<noteq> '''' then Inr (img, ref)
                       else Inl (errorf_w ''resolve release BuildRun image'' err)
          | Inr buildRun \<Rightarrow> Inr (case bst_Image (br_Status buildRun) of
                Some built \<Rightarrow> if img_Digest built \<noteq> '''' then (built, ref) else (img, ref)
              | None \<Rightarrow> (img, ref)))
      })"

definition newReleaseAction :: "Release \<Rightarrow> string \<Rightarrow> string \<Rightarrow> ImageRef \<Rightarrow> Release" where
  "newReleaseAction source environment buildRun img =
     Release_zero\<lparr>rel_Meta := ObjectMeta_zero\<lparr>meta_Namespace := meta_Namespace (rel_Meta source),
         meta_Labels := [''cicd.cloudivision.io/project'' \<mapsto> rls_ProjectRef (rel_Spec source)]\<rparr>,
       rel_Spec := ReleaseSpec_zero\<lparr>rls_ProjectRef := rls_ProjectRef (rel_Spec source),
         rls_EnvironmentRef := environment, rls_BuildRunRef := buildRun, rls_Image := img,
         rls_Strategy := ReleaseStrategyGitOps, rls_PromotionMode := rls_PromotionMode (rel_Spec source),
         rls_PullRequest := rls_PullRequest (rel_Spec source),
         rls_DeploymentTimeout := rls_DeploymentTimeout (rel_Spec source)\<rparr>\<rparr>"

definition releaseActionName :: "gotime \<Rightarrow> string \<Rightarrow> string \<Rightarrow> string \<Rightarrow> string" where
  "releaseActionName now source action target =
     (let sfx = FormatInt36 (UnixNano now);
          pre = Trim (ToLower (source @ ''-'' @ action @ ''-'' @ target)) ''-'';
          room = 63 - length sfx - 1;
          pre = (if length pre > room then TrimRight (take room pre) ''-'' else pre) in
      pre @ ''-'' @ sfx)"

definition approval_required :: "Environment \<Rightarrow> bool" where
  "approval_required environment \<longleftrightarrow>
     es_RequiresApproval (env_Spec environment) \<or> es_Type (env_Spec environment) = EnvironmentTypeProduction"

definition promoted_release :: "gotime \<Rightarrow> Release \<Rightarrow> Environment \<Rightarrow> ImageRef \<Rightarrow> string \<Rightarrow> Release" where
  "promoted_release now source target img buildRunRef =
     (let name = meta_Name (env_Meta target); created = newReleaseAction source name buildRunRef img in
      created\<lparr>rel_Meta := (rel_Meta created)\<lparr>meta_Name :=
          releaseActionName now (meta_Name (rel_Meta source)) ''promote'' name\<rparr>,
        rel_Spec := (rel_Spec created)\<lparr>rls_PromotedFrom := meta_Name (rel_Meta source),
          rls_Approval := (rls_Approval (rel_Spec created))\<lparr>ra_Required := approval_required target\<rparr>\<rparr>\<rparr>)"

definition audit_action ::
  "'w server \<Rightarrow> api_context \<Rightarrow> string \<Rightarrow> string \<Rightarrow> string \<Rightarrow> (string \<times> string) list \<Rightarrow> Release \<Rightarrow> ('w, unit) api_io" where
  "audit_action s ctx ty message actor metadata created =
     recordAudit s ctx (AuditEvent_zero\<lparr>ae_Type := ty, ae_Actor := ActorFromContext (cx_Principal ctx) actor,
       ae_Project := rls_ProjectRef (rel_Spec created), ae_BuildRun := rls_BuildRunRef (rel_Spec created),
       ae_Release := meta_Name (rel_Meta created), ae_Message := message, ae_Metadata := metadata\<rparr>)"

definition promoteRelease ::
  "'w server \<Rightarrow> api_context \<Rightarrow> NamespacedName \<Rightarrow> ReleasePromoteRequest \<Rightarrow> ('w, Release api_response) api_io" where
  "promoteRelease s ctx key req =
     (if TrimSpace (rpq_TargetEnvironmentRef req) = ''''
      then State_Monad.return (badRequest ''targetEnvironmentRef is required'')
      else or_error (query (sv_GetRelease s key)) (\<lambda>source.
        let ns = meta_Namespace (rel_Meta source) in
        if rlst_Phase (rel_Status source) \<noteq> ReleasePhaseDeployed
        then State_Monad.return (conflict ''only a deployed release can be promoted'')
        else or_error (query (sv_GetEnvironment s \<lparr>key_Namespace = ns, key_Name = rpq_TargetEnvironmentRef req\<rparr>)) (\<lambda>target.
          if es_ProjectRef (env_Spec target) \<noteq> rls_ProjectRef (rel_Spec source)
          then State_Monad.return (badRequest ''target environment does not belong to the release project'')
          else or_error (resolvedReleaseImage s source) (\<lambda>(img, buildRunRef). do {
            now \<leftarrow> query (sv_Now s);
            let created = promoted_release now source target img buildRunRef;
            or_error (call (ApiReleaseCreated created) (sv_CreateRelease s created)) (\<lambda>created. do {
              audit_action s ctx ''ReleasePromoted'' ''Release promotion created.'' (rpq_Actor req)
                [(''sourceRelease'', meta_Name (rel_Meta source)), (''targetEnvironment'', meta_Name (env_Meta target)),
                 (''namespace'', ns)] created;
              State_Monad.return (Reply 201 created)
            })
          }))))"

text \<open>The policy of the environment, for the image that is rolled back to.\<close>

definition rollback_policy :: "'w server \<Rightarrow> Environment \<Rightarrow> string \<Rightarrow> ImageRef \<Rightarrow> string
   \<Rightarrow> ('w, Release api_response) api_io \<Rightarrow> ('w, Release api_response) api_io" where
  "rollback_policy s environment ns img buildRunRef f =
     (let policy = es_Policy (env_Spec environment) in
      if ep_RequireImageDigest policy \<and> img_Digest img = ''''
      then State_Monad.return (conflict ''rollback blocked by policy: target image has no digest'')
      else if ep_RequireSignedImages policy
      then or_error (query (sv_GetBuildRun s \<lparr>key_Namespace = ns, key_Name = buildRunRef\<rparr>)) (\<lambda>buildRun.
        if scs_SignatureRef (bst_SupplyChain (br_Status buildRun)) = ''''
        then State_Monad.return (conflict ''rollback blocked by policy: target image is not signed'')
        else f)
      else f)"

definition rollback_release ::
  "gotime \<Rightarrow> string \<Rightarrow> Release \<Rightarrow> Release \<Rightarrow> Environment \<Rightarrow> ImageRef \<Rightarrow> string \<Rightarrow> Release" where
  "rollback_release now reason source target environment img buildRunRef =
     (let created = newReleaseAction source (rls_EnvironmentRef (rel_Spec source)) buildRunRef img in
      created\<lparr>rel_Meta := (rel_Meta created)\<lparr>
          meta_Name := releaseActionName now (meta_Name (rel_Meta source)) ''rollback'' (meta_Name (rel_Meta target)),
          meta_Annotations := mergeStringMap (meta_Annotations (rel_Meta created))
            [''cloudivision.io/rollback-reason'' \<mapsto> reason]\<rparr>,
        rel_Spec := (rel_Spec created)\<lparr>rls_RollbackOf := meta_Name (rel_Meta source),
          rls_RollbackTo := meta_Name (rel_Meta target),
          rls_Approval := (rls_Approval (rel_Spec created))\<lparr>ra_Required := approval_required environment\<rparr>\<rparr>\<rparr>)"

definition rollbackRelease ::
  "'w server \<Rightarrow> api_context \<Rightarrow> NamespacedName \<Rightarrow> ReleaseRollbackRequest \<Rightarrow> ('w, Release api_response) api_io" where
  "rollbackRelease s ctx key req =
     (if TrimSpace (rrq_TargetReleaseRef req) = ''''
      then State_Monad.return (badRequest ''targetReleaseRef is required'')
      else or_error (query (sv_GetRelease s key)) (\<lambda>source.
        let ns = meta_Namespace (rel_Meta source) in
        or_error (query (sv_GetRelease s \<lparr>key_Namespace = ns, key_Name = rrq_TargetReleaseRef req\<rparr>)) (\<lambda>target.
          if rlst_Phase (rel_Status target) \<noteq> ReleasePhaseDeployed
          then State_Monad.return (conflict ''rollback target must be a previously deployed release'')
          else if rls_ProjectRef (rel_Spec target) \<noteq> rls_ProjectRef (rel_Spec source)
          then State_Monad.return (badRequest ''rollback target does not belong to the release project'')
          else or_error (query (sv_GetEnvironment s \<lparr>key_Namespace = ns,
              key_Name = rls_EnvironmentRef (rel_Spec source)\<rparr>)) (\<lambda>environment.
            or_error (resolvedReleaseImage s target) (\<lambda>(img, buildRunRef).
              rollback_policy s environment ns img buildRunRef (do {
                now \<leftarrow> query (sv_Now s);
                let created = rollback_release now (rrq_Reason req) source target environment img buildRunRef;
                or_error (call (ApiReleaseCreated created) (sv_CreateRelease s created)) (\<lambda>created. do {
                  audit_action s ctx ''ReleaseRollbackCreated'' ''Release rollback created.'' (rrq_Actor req)
                    [(''rollbackOf'', meta_Name (rel_Meta source)), (''rollbackTo'', meta_Name (rel_Meta target)),
                     (''reason'', rrq_Reason req), (''namespace'', ns)] created;
                  State_Monad.return (Reply 201 created)
                })
              }))))))"


section \<open>New releases are made from deployed ones\<close>

text \<open>The image that a release stands for: its own, or the one with a digest that its build recorded.\<close>

definition image_of_release :: "'w server \<Rightarrow> Release \<Rightarrow> ImageRef \<Rightarrow> bool" where
  "image_of_release s release img \<longleftrightarrow>
     img = rls_Image (rel_Spec release)
     \<or> img_Digest (rls_Image (rel_Spec release)) = '''' \<and> img_Digest img \<noteq> ''''
       \<and> (\<exists>w b. fst (sv_GetBuildRun s \<lparr>key_Namespace = meta_Namespace (rel_Meta release),
            key_Name = rls_BuildRunRef (rel_Spec release)\<rparr> w) = Inr b \<and> bst_Image (br_Status b) = Some img)"

lemma wp_resolvedReleaseImage:
  "wp (resolvedReleaseImage s release) (\<lambda>r t. \<forall>img ref. r = Inr (img, ref) \<longrightarrow>
     image_of_release s release img \<and> ref = rls_BuildRunRef (rel_Spec release)) t"
  by (auto simp: resolvedReleaseImage_def wp_simps Let_def image_of_release_def split: sum.splits option.splits if_splits)

lemma only_resolvedReleaseImage: "only E (resolvedReleaseImage s release)"
  unfolding resolvedReleaseImage_def Let_def by (intro only_intros)

lemma only_resolved:
  assumes "\<And>img. image_of_release s release img \<Longrightarrow> only E (f (img, rls_BuildRunRef (rel_Spec release)))"
  shows "only E (or_error (resolvedReleaseImage s release) f)"
  unfolding or_error_def
proof (rule only_bind_wp [OF only_resolvedReleaseImage wp_resolvedReleaseImage])
  fix r :: "(ImageRef \<times> string) result"
  assume "\<forall>img ref. r = Inr (img, ref) \<longrightarrow> image_of_release s release img \<and> ref = rls_BuildRunRef (rel_Spec release)"
  then show "only E (case r of Inl err \<Rightarrow> State_Monad.return (writeError err) | Inr a \<Rightarrow> f a)"
    using assms by (cases r) (auto intro: only_intros)
qed

lemma only_audits: "quiet_effects \<subseteq> E \<Longrightarrow> only E (audit_action s ctx ty message actor metadata created)"
  "quiet_effects \<subseteq> E \<Longrightarrow> only E (audit_decision s ctx ty message actor comment created)"
  unfolding audit_action_def audit_decision_def by (blast intro: only_mono [OF only_recordAudit])+

definition deployed_source :: "'w server \<Rightarrow> NamespacedName \<Rightarrow> Release \<Rightarrow> bool" where
  "deployed_source s key release \<longleftrightarrow>
     (\<exists>w. fst (sv_GetRelease s key w) = Inr release) \<and> rlst_Phase (rel_Status release) = ReleasePhaseDeployed"

definition promotion_ok :: "'w server \<Rightarrow> NamespacedName \<Rightarrow> ReleasePromoteRequest \<Rightarrow> Release \<Rightarrow> bool" where
  "promotion_ok s key req created \<longleftrightarrow> (\<exists>source target img w1 w2.
     deployed_source s key source
     \<and> fst (sv_GetEnvironment s \<lparr>key_Namespace = meta_Namespace (rel_Meta source),
          key_Name = rpq_TargetEnvironmentRef req\<rparr> w1) = Inr target
     \<and> es_ProjectRef (env_Spec target) = rls_ProjectRef (rel_Spec source)
     \<and> image_of_release s source img
     \<and> created = promoted_release (fst (sv_Now s w2)) source target img (rls_BuildRunRef (rel_Spec source)))"

definition rollback_ok :: "'w server \<Rightarrow> NamespacedName \<Rightarrow> ReleaseRollbackRequest \<Rightarrow> Release \<Rightarrow> bool" where
  "rollback_ok s key req created \<longleftrightarrow> (\<exists>source target environment img w1 w2 w3.
     fst (sv_GetRelease s key w1) = Inr source
     \<and> deployed_source s \<lparr>key_Namespace = meta_Namespace (rel_Meta source), key_Name = rrq_TargetReleaseRef req\<rparr> target
     \<and> rls_ProjectRef (rel_Spec target) = rls_ProjectRef (rel_Spec source)
     \<and> fst (sv_GetEnvironment s \<lparr>key_Namespace = meta_Namespace (rel_Meta source),
          key_Name = rls_EnvironmentRef (rel_Spec source)\<rparr> w2) = Inr environment
     \<and> image_of_release s target img
     \<and> (ep_RequireImageDigest (es_Policy (env_Spec environment)) \<longrightarrow> img_Digest img \<noteq> '''')
     \<and> (ep_RequireSignedImages (es_Policy (env_Spec environment)) \<longrightarrow>
          (\<exists>w b. fst (sv_GetBuildRun s \<lparr>key_Namespace = meta_Namespace (rel_Meta source),
              key_Name = rls_BuildRunRef (rel_Spec target)\<rparr> w) = Inr b
            \<and> scs_SignatureRef (bst_SupplyChain (br_Status b)) \<noteq> ''''))
     \<and> created = rollback_release (fst (sv_Now s w3)) (rrq_Reason req) source target environment img
          (rls_BuildRunRef (rel_Spec target)))"

lemma only_promoteRelease:
  assumes "quiet_effects \<subseteq> E" and "\<And>created. promotion_ok s key req created \<Longrightarrow> ApiReleaseCreated created \<in> E"
  shows "only E (promoteRelease s ctx key req)"
  unfolding promoteRelease_def Let_def
  by (intro only_or_error_query only_resolved only_bind_query only_intros only_audits assms)
    (auto simp: promotion_ok_def deployed_source_def)

lemma only_rollback_policy:
  assumes "(ep_RequireImageDigest (es_Policy (env_Spec environment)) \<longrightarrow> img_Digest img \<noteq> '''') \<Longrightarrow>
      (ep_RequireSignedImages (es_Policy (env_Spec environment)) \<longrightarrow>
          (\<exists>w b. fst (sv_GetBuildRun s \<lparr>key_Namespace = ns, key_Name = ref\<rparr> w) = Inr b
            \<and> scs_SignatureRef (bst_SupplyChain (br_Status b)) \<noteq> '''')) \<Longrightarrow> only E f"
  shows "only E (rollback_policy s environment ns img ref f)"
  unfolding rollback_policy_def Let_def
  by (intro only_or_error_query only_intros assms) auto

lemma only_rollbackRelease:
  assumes "quiet_effects \<subseteq> E" and "\<And>created. rollback_ok s key req created \<Longrightarrow> ApiReleaseCreated created \<in> E"
  shows "only E (rollbackRelease s ctx key req)"
  unfolding rollbackRelease_def Let_def
  by (intro only_or_error_query only_resolved only_rollback_policy only_bind_query only_intros only_audits assms)
    (unfold rollback_ok_def deployed_source_def, blast)

text \<open>
  C32: Promotion and rollback create a release only from a release that was read as deployed, in the
  same project and namespace. The new release stands for the image of that release (or the one with
  a digest that its build recorded) and for its build; it is not approved, and its approval is
  required exactly when the environment requires it or is a production environment. A promotion
  goes to the environment of the request, a rollback to that of the release it rolls back, whose
  policy on digests and signatures the image meets.
\<close>

theorem release_actions_from_deployed:
  "set (exec_trace (promoteRelease s ctx key promote) w)
     \<subseteq> quiet_effects \<union> {ApiReleaseCreated created | created. promotion_ok s key promote created}
   \<and> set (exec_trace (rollbackRelease s ctx key rollback) w)
     \<subseteq> quiet_effects \<union> {ApiReleaseCreated created | created. rollback_ok s key rollback created}
   \<and> rls_Approval (rel_Spec (promoted_release now source target img ref))
       = ReleaseApprovalSpec_zero\<lparr>ra_Required := approval_required target\<rparr>
   \<and> rls_Approval (rel_Spec (rollback_release now reason source previous target img ref))
       = ReleaseApprovalSpec_zero\<lparr>ra_Required := approval_required target\<rparr>"
proof (intro conjI)
  show "set (exec_trace (promoteRelease s ctx key promote) w)
     \<subseteq> quiet_effects \<union> {ApiReleaseCreated created | created. promotion_ok s key promote created}"
    by (rule only_exec [OF only_promoteRelease]) auto
  show "set (exec_trace (rollbackRelease s ctx key rollback) w)
     \<subseteq> quiet_effects \<union> {ApiReleaseCreated created | created. rollback_ok s key rollback created}"
    by (rule only_exec [OF only_rollbackRelease]) auto
qed (simp_all add: promoted_release_def rollback_release_def newReleaseAction_def Release_zero_def ReleaseSpec_zero_def Let_def)


section \<open>Who decides on a release, and when\<close>

text \<open>The authenticated principal decides; only without one the actor that the request names.\<close>

definition deciding_actor :: "api_context \<Rightarrow> ReleaseApprovalRequest \<Rightarrow> string" where
  "deciding_actor ctx req =
     (case cx_Principal ctx of
        Some p \<Rightarrow> if pc_Subject p = '''' then TrimSpace (raq_Actor req)
                  else if pc_Email p \<noteq> '''' then pc_Email p else pc_Subject p
      | None \<Rightarrow> TrimSpace (raq_Actor req))"

definition decision_pending :: "'w server \<Rightarrow> NamespacedName \<Rightarrow> Release \<Rightarrow> bool" where
  "decision_pending s key release \<longleftrightarrow>
     (\<exists>w. fst (sv_GetRelease s key w) = Inr release)
     \<and> rlst_Phase (rel_Status release) \<in> {ReleasePhaseUnset, ReleasePhasePending, ReleasePhaseAwaitingApproval}
     \<and> ra_RejectedBy (rls_Approval (rel_Spec release)) = ''''
     \<and> (ra_Required (rls_Approval (rel_Spec release))
        \<or> (\<exists>w environment. fst (sv_GetEnvironment s \<lparr>key_Namespace = meta_Namespace (rel_Meta release),
              key_Name = rls_EnvironmentRef (rel_Spec release)\<rparr> w) = Inr environment
            \<and> es_RequiresApproval (env_Spec environment)))"

lemma undecided_phase:
  "\<not> releasePromotionStarted p \<Longrightarrow> \<not> releasePhaseFailed p \<Longrightarrow>
   p \<in> {ReleasePhaseUnset, ReleasePhasePending, ReleasePhaseAwaitingApproval}"
  by (cases p) (simp_all add: releasePromotionStarted_def releasePhaseFailed_def)

lemma wp_requires:
  "wp (api_releaseRequiresApproval s release) (\<lambda>r t. r = Inr True \<longrightarrow>
     ra_Required (rls_Approval (rel_Spec release))
     \<or> (\<exists>w environment. fst (sv_GetEnvironment s \<lparr>key_Namespace = meta_Namespace (rel_Meta release),
          key_Name = rls_EnvironmentRef (rel_Spec release)\<rparr> w) = Inr environment
        \<and> es_RequiresApproval (env_Spec environment))) t"
  by (auto simp: api_releaseRequiresApproval_def wp_simps split: sum.splits if_splits)

lemma only_requires: "only E (api_releaseRequiresApproval s release)"
  unfolding api_releaseRequiresApproval_def by (intro only_intros)

lemma only_awaiting_decision:
  assumes "fst (sv_GetRelease s key w) = Inr release" and "decision_pending s key release \<Longrightarrow> only E f"
  shows "only E (awaiting_decision s message release f)"
proof -
  have "only E (or_error (api_releaseRequiresApproval s release) (\<lambda>required.
      if \<not> required then State_Monad.return (badRequest ''release does not require approval'') else f))"
    if "\<not> releasePromotionStarted (rlst_Phase (rel_Status release))"
      "\<not> (ra_RejectedBy (rls_Approval (rel_Spec release)) \<noteq> '''' \<or> releasePhaseFailed (rlst_Phase (rel_Status release)))"
    unfolding or_error_def
  proof (rule only_bind_wp [OF only_requires wp_requires], goal_cases)
    case (1 r)
    then have "r = Inr True \<Longrightarrow> decision_pending s key release"
      using assms(1) that undecided_phase [of "rlst_Phase (rel_Status release)"]
      unfolding decision_pending_def by blast
    then show ?case using assms(2) by (auto intro!: only_intros split: sum.split)
  qed
  then show ?thesis unfolding awaiting_decision_def Let_def by (auto intro: only_return)
qed

lemma acting_actor:
  "ActorFromContext (cx_Principal ctx)
     (let named = TrimSpace (raq_Actor req) in if named = '''' then ActorFromContext (cx_Principal ctx) '''' else named)
   = deciding_actor ctx req"
  by (auto simp: ActorFromContext_def deciding_actor_def Let_def split: option.split)

lemma only_approval_input:
  assumes "\<And>release actor w. fst (sv_GetRelease s key w) = Inr release \<Longrightarrow>
      ActorFromContext (cx_Principal ctx) actor = deciding_actor ctx req \<Longrightarrow> deciding_actor ctx req \<noteq> '''' \<Longrightarrow>
      only E (f release (req\<lparr>raq_Actor := actor\<rparr>))"
  shows "only E (releaseApprovalActionInput s ctx key req f)"
proof -
  define actor where
    "actor = (let named = TrimSpace (raq_Actor req) in
       if named = '''' then ActorFromContext (cx_Principal ctx) '''' else named)"
  have a: "ActorFromContext (cx_Principal ctx) actor = deciding_actor ctx req"
    unfolding actor_def by (rule acting_actor)
  have ne: "deciding_actor ctx req \<noteq> ''''" if "actor \<noteq> ''''"
    using that unfolding a [symmetric] by (auto simp: ActorFromContext_def split: option.split)
  show ?thesis
    unfolding releaseApprovalActionInput_def
    using assms [OF _ a ne]
    by (auto simp: actor_def [symmetric] Let_def actor_def [unfolded Let_def, symmetric] intro!: only_intros only_or_error_query)
qed

text \<open>
  C33: A decision on a release is recorded only while it is open, by a known actor: the release, as
  read, has not started, is neither rejected nor failed, and approval is required by it or its
  environment; the recorded actor is the authenticated principal whenever there is one, and never
  empty. Nothing else of the release's specification changes. A rejection also writes
  \<open>FailedApproval\<close> as the phase, and an approval writes no status at all.
\<close>

theorem decisions_recorded_while_open:
  assumes "retry_spec (sv_Retry s)"
  shows "set (exec_trace (approveRelease s ctx key req) w) \<subseteq> quiet_effects \<union>
      {ApiReleaseUpdated (approved now (deciding_actor ctx req) (raq_Comment req) old) | now old.
         decision_pending s key old \<and> deciding_actor ctx req \<noteq> ''''}
    \<and> set (exec_trace (rejectRelease s ctx key req) w) \<subseteq> quiet_effects \<union>
      {ApiReleaseUpdated (rejected now (deciding_actor ctx req) (raq_Comment req) old) | now old.
         decision_pending s key old \<and> deciding_actor ctx req \<noteq> ''''} \<union>
      {ApiReleaseStatus rel | rel. rlst_Phase (rel_Status rel) = ReleasePhaseFailedApproval}"
proof
  let ?A = "quiet_effects \<union> {ApiReleaseUpdated (approved now (deciding_actor ctx req) (raq_Comment req) old) | now old.
         decision_pending s key old \<and> deciding_actor ctx req \<noteq> ''''}"
  show "set (exec_trace (approveRelease s ctx key req) w) \<subseteq> ?A"
    unfolding approveRelease_def Let_def
    by (rule only_exec, intro only_approval_input, rule only_awaiting_decision, assumption,
      intro only_intros only_audits) auto
next
  let ?R = "quiet_effects \<union> {ApiReleaseUpdated (rejected now (deciding_actor ctx req) (raq_Comment req) old) | now old.
         decision_pending s key old \<and> deciding_actor ctx req \<noteq> ''''} \<union>
      {ApiReleaseStatus rel | rel. rlst_Phase (rel_Status rel) = ReleasePhaseFailedApproval}"
  have status: "only ?R (UpdateStatusWithRetry (sv_Retry s) (sv_GetRelease s) (sv_UpdateReleaseStatus s) release_ops
      ApiReleaseStatus (rejected_status now actor release))" for now actor release
    unfolding UpdateStatusWithRetry_def
    by (rule only_retry [OF assms], rule only_update_attempt)
      (simp add: copyStatus_def release_ops_def rejected_status_def Let_def)
  show "set (exec_trace (rejectRelease s ctx key req) w) \<subseteq> ?R"
    unfolding rejectRelease_def Let_def
    by (rule only_exec, intro only_approval_input, rule only_awaiting_decision, assumption,
      intro only_intros only_audits status) auto
qed

text \<open>A release that requires approval, approved by an unauthenticated caller who names herself.\<close>

definition approve_server :: "unit server" where
  "approve_server = empty_server\<lparr>
     sv_GetRelease := (\<lambda>k w. (Inr (Release_zero\<lparr>rel_Spec := ReleaseSpec_zero\<lparr>rls_Approval :=
       ReleaseApprovalSpec_zero\<lparr>ra_Required := True\<rparr>\<rparr>\<rparr>), w)),
     sv_UpdateRelease := (\<lambda>r w. (Inr r, w))\<rparr>"

theorem decisions_recorded_while_open_witness:
  "\<exists>now old. decision_pending approve_server \<lparr>key_Namespace = ''ci'', key_Name = ''rel''\<rparr> old
     \<and> ApiReleaseUpdated (approved now ''ann'' ''ok'' old)
       \<in> set (exec_trace (approveRelease approve_server \<lparr>cx_Principal = None, cx_Organization = ''''\<rparr>
           \<lparr>key_Namespace = ''ci'', key_Name = ''rel''\<rparr> \<lparr>raq_Actor = '' ann '', raq_Comment = ''ok''\<rparr>) ())"
proof -
  let ?ctx = "\<lparr>cx_Principal = None, cx_Organization = ''''\<rparr>" and ?key = "\<lparr>key_Namespace = ''ci'', key_Name = ''rel''\<rparr>"
  let ?req = "\<lparr>raq_Actor = '' ann '', raq_Comment = ''ok''\<rparr>"
  have trim: "TrimSpace '' ann '' = ''ann''" by code_simp
  have retry: "retry_spec (sv_Retry approve_server)"
    by (simp add: approve_server_def empty_server_def retry_spec_attempts)
  have "\<exists>rel. ApiReleaseUpdated rel \<in> set (exec_trace (approveRelease approve_server ?ctx ?key ?req) ())"
    by (simp add: exec_trace_def approveRelease_def releaseApprovalActionInput_def or_error_def run_query trim
        approve_server_def empty_server_def awaiting_decision_def api_releaseRequiresApproval_def ok_def
        Release_zero_def ReleaseSpec_zero_def ReleaseStatus_zero_def ReleaseApprovalSpec_zero_def
        releasePromotionStarted_def releasePhaseFailed_def run_call audit_decision_def recordAudit_def Let_def start_def)
  then obtain rel where rel: "ApiReleaseUpdated rel \<in> set (exec_trace (approveRelease approve_server ?ctx ?key ?req) ())" ..
  moreover have "ApiReleaseUpdated rel \<notin> quiet_effects" by (simp add: quiet_effects_def)
  moreover have "deciding_actor ?ctx ?req = ''ann''" by (simp add: deciding_actor_def trim)
  ultimately obtain now old where "decision_pending approve_server ?key old" "rel = approved now ''ann'' ''ok'' old"
    using decisions_recorded_while_open [OF retry, of ?ctx ?key ?req "()"] by auto
  with rel show ?thesis by blast
qed

end
