(* ===== verification/ReleaseWorkflow.thy ===== *)
theory ReleaseWorkflow
  imports ReleaseProgress ApiReleases
begin

text \<open>
  Releases across the API server and the release controller: what the API writes into the
  specification of a release is what the gates of the reconciler read.
\<close>


text \<open>A deployed release, promoted to a production environment.\<close>

definition promote_server :: "unit server" where
  "promote_server = empty_server\<lparr>
     sv_GetRelease := (\<lambda>k w. (Inr (Release_zero\<lparr>
       rel_Spec := ReleaseSpec_zero\<lparr>rls_Image := ImageRef_zero\<lparr>img_Digest := ''sha256:1''\<rparr>\<rparr>,
       rel_Status := ReleaseStatus_zero\<lparr>rlst_Phase := ReleasePhaseDeployed\<rparr>\<rparr>), w)),
     sv_GetEnvironment := (\<lambda>k w. (Inr (Environment_zero\<lparr>env_Spec :=
       EnvironmentSpec_zero\<lparr>es_Type := EnvironmentTypeProduction\<rparr>\<rparr>), w))\<rparr>"


end
