(* ===== verification/Executors.thy ===== *)
theory Executors
  imports ControllerKit
begin

text \<open>
  What the executors of \<open>internal/executor\<close> share: the contract between the BuildRun controller and an
  executor (\<open>internal/executor/executor.go\<close>), and the names of runs.
\<close>

section \<open>The contract\<close>

text \<open>
  An executor turns a build run into one run object whose name is a function of the build run's name,
  in the build run's namespace, and creates no other object.
\<close>

locale run_executor =
  fixes kind :: string
    and run_name :: "string \<Rightarrow> string"
    and ensure :: "EnsureRunRequest \<Rightarrow> ('w, 'e, RunRef result) io"
    and created :: "'e \<Rightarrow> NamespacedName option"
  assumes ensure_ref: "wp (ensure req) (\<lambda>r t. \<forall>ref. r = Inr ref \<longrightarrow>
      ref = \<lparr>ref_Kind = kind, ref_Name = run_name (meta_Name (br_Meta (req_BuildRun req))),
             ref_Namespace = meta_Namespace (br_Meta (req_BuildRun req))\<rparr>) s"
    and ensure_only: "only {e. created e = Some \<lparr>key_Namespace = meta_Namespace (br_Meta (req_BuildRun req)),
      key_Name = run_name (meta_Name (br_Meta (req_BuildRun req)))\<rparr>} (ensure req)"
begin

text \<open>The reference does not depend on the world, the attempt or the rest of the request.\<close>

lemma ref_stable:
  assumes "exec_result (ensure req) w = Inr ref" and "exec_result (ensure req') w' = Inr ref'"
    and "object_key (br_Meta (req_BuildRun req)) = object_key (br_Meta (req_BuildRun req'))"
  shows "ref = ref'"
  using ensure_ref [of req "start w"] ensure_ref [of req' "start w'"] assms
  unfolding wp_result by (auto simp: object_key_def)

text \<open>Builds whose runs are created under one key have names that \<open>run_name\<close> maps to one name.\<close>

lemma created_key:
  assumes "e \<in> set (exec_trace (ensure req) w)"
  shows "created e = Some \<lparr>key_Namespace = meta_Namespace (br_Meta (req_BuildRun req)),
    key_Name = run_name (meta_Name (br_Meta (req_BuildRun req)))\<rparr>"
  using only_exec [OF ensure_only] assms by blast

lemma disjoint_runs:
  assumes "e \<in> set (exec_trace (ensure req) w)" and "e \<in> set (exec_trace (ensure req') w')"
  shows "run_name (meta_Name (br_Meta (req_BuildRun req))) = run_name (meta_Name (br_Meta (req_BuildRun req')))"
    and "meta_Namespace (br_Meta (req_BuildRun req)) = meta_Namespace (br_Meta (req_BuildRun req'))"
  using created_key [OF assms(1)] created_key [OF assms(2)] by simp_all

end


section \<open>Names of runs\<close>

text \<open>\<open>name[:63]\<close>, when it is longer: a Kubernetes name that is also a label value.\<close>

definition label_prefix :: "string \<Rightarrow> string" where
  "label_prefix name = (if length name \<le> 63 then name else take 63 name)"

lemma label_prefix_length: "length (label_prefix name) \<le> 63"
  by (simp add: label_prefix_def)

lemma label_prefix_inj:
  "length (a @ suf) \<le> 63 \<Longrightarrow> length (b @ suf) \<le> 63 \<Longrightarrow> label_prefix (a @ suf) = label_prefix (b @ suf) \<longleftrightarrow> a = b"
  by (simp add: label_prefix_def)

lemma last_label_prefix:
  "63 \<le> length name \<Longrightarrow> last (label_prefix name) = name ! 62"
  by (subst last_conv_nth) (auto simp: label_prefix_def min_def)

end
