(* ===== verification/Registry.thy ===== *)
theory Registry
  imports ControllerKit Tagging GoPath Redact
begin

text \<open>
  Container registries: \<open>internal/provider/registry\<close>, with \<open>types.go\<close>, \<open>credentials.go\<close>, \<open>provider.go\<close>
  and \<open>image.go\<close>. JSON, padded base64, URL parsing and the HTTP client are arguments.
\<close>

section \<open>Types\<close>

definition ErrCredentialsMissing :: go_error where
  "ErrCredentialsMissing = GoError ''registry credentials are missing'' [Sentinel ''registry.ErrCredentialsMissing'']"
definition ErrCredentialsInvalid :: go_error where
  "ErrCredentialsInvalid = GoError ''registry credentials are invalid'' [Sentinel ''registry.ErrCredentialsInvalid'']"
definition ErrUnsupportedProvider :: go_error where
  "ErrUnsupportedProvider = GoError ''registry provider is not implemented'' [Sentinel ''registry.ErrUnsupportedProvider'']"
definition ErrImageInvalid :: go_error where
  "ErrImageInvalid = GoError ''registry image reference is invalid'' [Sentinel ''registry.ErrImageInvalid'']"

record Credential =
  cred_Username :: string
  cred_Password :: string
  cred_Token :: string
  cred_DockerConfigJSON :: string

definition Credential_zero :: Credential where
  "Credential_zero = \<lparr>cred_Username = '''', cred_Password = '''', cred_Token = '''', cred_DockerConfigJSON = ''''\<rparr>"

definition Credential_Empty :: "Credential \<Rightarrow> bool" where
  "Credential_Empty c \<longleftrightarrow> cred_Username c = '''' \<and> cred_Password c = '''' \<and> cred_Token c = ''''
     \<and> cred_DockerConfigJSON c = ''''"

record LoginRequest =
  lgq_Registry :: string
  lgq_Credential :: Credential

record LoginResult =
  lgr_Registry :: string
  lgr_DockerConfigJSON :: string

record ImageRequest =
  imq_Registry :: string
  imq_ImagePrefix :: string
  imq_Repository :: string
  imq_Tag :: string
  imq_Digest :: string
  imq_Credential :: Credential

text \<open>\<open>ImageRef\<close> has the shape of the resource type of that name; \<open>String\<close> prints it.\<close>

definition ImageRef_String :: "ImageRef \<Rightarrow> string" where
  "ImageRef_String r =
     (if img_Digest r \<noteq> '''' then img_Repository r @ ''@'' @ img_Digest r
      else if img_Tag r \<noteq> '''' then img_Repository r @ '':'' @ img_Tag r
      else img_Repository r)"

text \<open>A manifest request: the URL and the \<open>Authorization\<close> header.\<close>

record manifest_request =
  mr_URL :: string
  mr_Authorization :: "string option"

record 'w registry_codec =
  rc_AuthNames :: "string \<Rightarrow> string list result"
  rc_Auths :: "string \<Rightarrow> (string \<times> string) list result"
  rc_EncodeAuths :: "string \<Rightarrow> string \<Rightarrow> string \<Rightarrow> string \<Rightarrow> string result"
  rc_Base64 :: "string \<Rightarrow> string"
  rc_IsBase64 :: "string \<Rightarrow> bool"
  rc_URLHost :: "string \<Rightarrow> string option"
  rc_Do :: "manifest_request \<Rightarrow> 'w \<Rightarrow> (int \<times> string) result \<times> 'w"

record Adapter =
  ad_ProviderName :: string
  ad_DefaultRegistry :: string
  ad_Implemented :: bool

definition Generic :: Adapter where
  "Generic = \<lparr>ad_ProviderName = ''generic'', ad_DefaultRegistry = '''', ad_Implemented = True\<rparr>"
definition GHCR :: Adapter where
  "GHCR = \<lparr>ad_ProviderName = ''ghcr'', ad_DefaultRegistry = ''ghcr.io'', ad_Implemented = True\<rparr>"
definition GitLab :: Adapter where
  "GitLab = \<lparr>ad_ProviderName = ''gitlab'', ad_DefaultRegistry = ''registry.gitlab.com'', ad_Implemented = True\<rparr>"
definition Harbor :: Adapter where
  "Harbor = \<lparr>ad_ProviderName = ''harbor'', ad_DefaultRegistry = '''', ad_Implemented = True\<rparr>"
definition unimplemented :: "string \<Rightarrow> Adapter" where
  "unimplemented name = \<lparr>ad_ProviderName = name, ad_DefaultRegistry = '''', ad_Implemented = False\<rparr>"

definition New_registry :: "string \<Rightarrow> Adapter result" where
  "New_registry name =
     (let n = ToLower (TrimSpace name) in
      if n = ''generic'' then Inr Generic
      else if n = ''ghcr'' then Inr GHCR
      else if n = ''gitlab'' then Inr GitLab
      else if n = ''harbor'' then Inr Harbor
      else if n = ''ecr'' \<or> n = ''gcr'' \<or> n = ''acr'' then Inr (unimplemented n)
      else Inl (errorf_w (''registry provider '' @ quote name) ErrUnsupportedProvider))"


section \<open>Credentials\<close>

definition DockerConfigJSONKey :: string where "DockerConfigJSONKey = ''.dockerconfigjson''"
definition DockerConfigKey :: string where "DockerConfigKey = ''config.json''"
definition UsernameKey :: string where "UsernameKey = ''username''"
definition PasswordKey :: string where "PasswordKey = ''password''"
definition TokenKey :: string where "TokenKey = ''token''"

definition dockerConfigJSON :: "'w registry_codec \<Rightarrow> string \<Rightarrow> Credential \<Rightarrow> string result" where
  "dockerConfigJSON cx registry c =
     (if cred_DockerConfigJSON c \<noteq> '''' then
        (case rc_AuthNames cx (cred_DockerConfigJSON c) of
           Inl err \<Rightarrow> Inl (errorf_w (''parse dockerconfigjson: '' @ err_text err) ErrCredentialsInvalid)
         | Inr names \<Rightarrow>
             if names = [] then Inl (errorf_w ''dockerconfigjson contains no auths'' ErrCredentialsInvalid)
             else Inr (cred_DockerConfigJSON c))
      else
        (let secret = (if cred_Token c \<noteq> '''' then cred_Token c else cred_Password c) in
         if secret = '''' then Inl (errorf_w ''password or token is required'' ErrCredentialsInvalid)
         else (let username = (if cred_Username c = '''' then ''oauth2'' else cred_Username c) in
           case rc_EncodeAuths cx registry (rc_Base64 cx (username @ '':'' @ secret)) username secret of
             Inl err \<Rightarrow> Inl (errorf_w ''encode docker config'' err)
           | Inr data \<Rightarrow> Inr data)))"

definition ParseCredential :: "'w registry_codec \<Rightarrow> strmap \<Rightarrow> Credential result" where
  "ParseCredential cx data =
     (let c = \<lparr>cred_Username = TrimSpace (map_index data UsernameKey),
            cred_Password = TrimSpace (map_index data PasswordKey), cred_Token = TrimSpace (map_index data TokenKey),
            cred_DockerConfigJSON = (if map_index data DockerConfigJSONKey \<noteq> '''' then map_index data DockerConfigJSONKey
              else map_index data DockerConfigKey)\<rparr> in
      if Credential_Empty c then Inl ErrCredentialsMissing
      else if cred_DockerConfigJSON c \<noteq> '''' then
        (case dockerConfigJSON cx ''validation.invalid'' c of Inl err \<Rightarrow> Inl err | Inr _ \<Rightarrow> Inr c)
      else if cred_Password c \<noteq> '''' \<and> cred_Username c = ''''
      then Inl (errorf_w ''username is required with password'' ErrCredentialsInvalid)
      else if cred_Password c = '''' \<and> cred_Token c = ''''
      then Inl (errorf_w ''password or token is required'' ErrCredentialsInvalid)
      else Inr c)"

definition Login :: "'w registry_codec \<Rightarrow> Adapter \<Rightarrow> LoginRequest \<Rightarrow> LoginResult result" where
  "Login cx p req =
     (if \<not> ad_Implemented p
      then Inl (errorf_w (''registry provider '' @ quote (ad_ProviderName p)) ErrUnsupportedProvider)
      else
        (let registry = TrimSpace (lgq_Registry req);
             registry = (if registry = '''' then ad_DefaultRegistry p else registry);
             registry = TrimSuffix (TrimPrefix (TrimPrefix registry ''https://'') ''http://'') ''/'' in
         if registry = '''' then Inl (errorf_w ''registry host is required'' ErrImageInvalid)
         else if Credential_Empty (lgq_Credential req) then Inl ErrCredentialsMissing
         else (case dockerConfigJSON cx registry (lgq_Credential req) of
             Inl err \<Rightarrow> Inl err
           | Inr config \<Rightarrow> Inr \<lparr>lgr_Registry = registry, lgr_DockerConfigJSON = config\<rparr>)))"

text \<open>The values that logs must not show; the decoded configuration is an argument.\<close>

definition credential_values ::
  "'w registry_codec \<Rightarrow> (string \<Rightarrow> (string \<times> string \<times> string \<times> string option) list) \<Rightarrow> Credential \<Rightarrow> string list" where
  "credential_values cx config c =
     (let secret = (if cred_Token c \<noteq> '''' then cred_Token c else cred_Password c);
          username = (if cred_Username c = '''' then ''oauth2'' else cred_Username c) in
      [cred_Username c, cred_Password c, cred_Token c]
      @ (if secret \<noteq> '''' then [username @ '':'' @ secret, rc_Base64 cx (username @ '':'' @ secret)] else [])
      @ (if cred_DockerConfigJSON c \<noteq> '''' then
           cred_DockerConfigJSON c # concat (map (\<lambda>(auth, user, password, decoded).
             [auth, user, password] @ (case decoded of None \<Rightarrow> [] | Some d \<Rightarrow> [d])) (config (cred_DockerConfigJSON c)))
         else []))"

definition credential_Redactor ::
  "'w registry_codec \<Rightarrow> (string \<Rightarrow> (string \<times> string \<times> string \<times> string option) list) \<Rightarrow> Credential \<Rightarrow> Redactor" where
  "credential_Redactor cx config c = New (credential_values cx config c)"


section \<open>Images\<close>

definition valid_digest :: "string \<Rightarrow> bool" where
  "valid_digest s \<longleftrightarrow> HasPrefix s ''sha256:'' \<and> length s = 71 \<and> list_all is_hex (drop 7 s)"

definition hasRegistryHost :: "string \<Rightarrow> bool" where
  "hasRegistryHost repository =
     (case Cut repository CHR ''/'' of (first, _, found) \<Rightarrow>
        found \<and> (Contains first ''.'' \<or> Contains first '':'' \<or> first = ''localhost''))"

definition RegistryHost :: "string \<Rightarrow> string result" where
  "RegistryHost repository =
     (case Cut repository CHR ''/'' of (first, _, found) \<Rightarrow>
        if \<not> found \<or> \<not> hasRegistryHost repository
        then Inl (errorf_w (''repository '' @ quote repository @ '' has no registry host'') ErrImageInvalid)
        else Inr first)"

text \<open>The characters \<open> \t\r\n\<close>.\<close>

definition blanks :: string where
  "blanks = [CHR '' '', CHR 0x09, CHR 0x0D, CHR 0x0A]"

definition ResolveImage :: "Adapter \<Rightarrow> ImageRequest \<Rightarrow> ImageRef result" where
  "ResolveImage p req =
     (if \<not> ad_Implemented p then Inl (errorf_w ''registry provider is unavailable'' ErrUnsupportedProvider)
      else
        (let repository = Trim (TrimSpace (imq_Repository req)) ''/''; pre = Trim (TrimSpace (imq_ImagePrefix req)) ''/'' in
         if repository = '''' then Inl (errorf_w ''repository is required'' ErrImageInvalid)
         else if ContainsAny repository (blanks @ ''@'') \<or> repository = ''.'' \<or> repository = ''..''
             \<or> Contains repository ''/../''
         then Inl (errorf_w (''repository '' @ quote repository @ '' is invalid'') ErrImageInvalid)
         else
           (let repository = (if pre \<noteq> '''' \<and> \<not> hasRegistryHost repository \<and> repository \<noteq> pre
                  \<and> \<not> HasPrefix repository (pre @ ''/'') then pre @ ''/'' @ repository else repository);
                repository = (if \<not> hasRegistryHost repository \<and> ad_DefaultRegistry p \<noteq> ''''
                  then ad_DefaultRegistry p @ ''/'' @ repository else repository);
                digest = ToLower (TrimSpace (imq_Digest req)); tag = TrimSpace (imq_Tag req) in
            if digest \<noteq> '''' \<and> \<not> valid_digest digest
            then Inl (errorf_w (''digest '' @ quote (imq_Digest req) @ '' is invalid'') ErrImageInvalid)
            else if ContainsAny tag (''@/'' @ blanks)
            then Inl (errorf_w (''tag '' @ quote tag @ '' is invalid'') ErrImageInvalid)
            else Inr \<lparr>img_Repository = repository, img_Tag = tag, img_Digest = digest\<rparr>)))"

definition registryEndpoint :: "'w registry_codec \<Rightarrow> string \<Rightarrow> string \<Rightarrow> (string \<times> string) result" where
  "registryEndpoint cx configured repository =
     (case Cut repository CHR ''/'' of (first, rest, found) \<Rightarrow>
        if \<not> found \<or> \<not> hasRegistryHost repository
        then Inl (errorf_w (''repository '' @ quote repository @ '' has no registry host'') ErrImageInvalid)
        else
          (let endpoint = TrimSpace configured;
               endpoint = (if endpoint = '''' then ''https://'' @ first
                 else if \<not> HasPrefix endpoint ''http://'' \<and> \<not> HasPrefix endpoint ''https://''
                 then ''https://'' @ endpoint else endpoint) in
           case rc_URLHost cx endpoint of
             None \<Rightarrow> Inl (errorf_w (''registry endpoint '' @ quote configured @ '' is invalid'') ErrImageInvalid)
           | Some host \<Rightarrow>
               if host = ''''
               then Inl (errorf_w (''registry endpoint '' @ quote configured @ '' is invalid'') ErrImageInvalid)
               else Inr (TrimSuffix endpoint ''/'', rest)))"

text \<open>The entry of a Docker configuration for the registry, under the first of its names that has one.\<close>

fun find_auth :: "(string \<times> string) list \<Rightarrow> string list \<Rightarrow> string option" where
  "find_auth auths [] = None"
| "find_auth auths (k # ks) =
     (case map_of auths k of None \<Rightarrow> find_auth auths ks
      | Some auth \<Rightarrow> if auth = '''' then find_auth auths ks else Some auth)"

definition applyCredential :: "'w registry_codec \<Rightarrow> Credential \<Rightarrow> string \<Rightarrow> string option" where
  "applyCredential cx c registryURL =
     (if cred_Token c \<noteq> '''' \<and> cred_Username c = '''' then Some (''Bearer '' @ cred_Token c)
      else if cred_Username c \<noteq> '''' then
        (let secret = (if cred_Token c \<noteq> '''' then cred_Token c else cred_Password c) in
         Some (''Basic '' @ rc_Base64 cx (cred_Username c @ '':'' @ secret)))
      else if cred_DockerConfigJSON c = '''' then None
      else (case rc_Auths cx (cred_DockerConfigJSON c) of
          Inl _ \<Rightarrow> None
        | Inr auths \<Rightarrow>
            (let host = (case rc_URLHost cx registryURL of None \<Rightarrow> '''' | Some h \<Rightarrow> h) in
             case find_auth auths [host, registryURL, TrimPrefix registryURL ''https://'', TrimPrefix registryURL ''http://''] of
               None \<Rightarrow> None
             | Some auth \<Rightarrow> if rc_IsBase64 cx auth then Some (''Basic '' @ auth) else None)))"

text \<open>\<open>url.PathEscape\<close>.\<close>

definition path_unreserved :: "char \<Rightarrow> bool" where
  "path_unreserved c \<longleftrightarrow> is_letter c \<or> is_digit c \<or> c \<in> set ''-_.~$&+:=@''"

definition PathEscape :: "string \<Rightarrow> string" where
  "PathEscape s = concat (map (\<lambda>c. if path_unreserved c then [c]
     else ''%'' @ map upper [hex_digit (byte c div 16), hex_digit (byte c mod 16)]) s)"

definition ReadDigest :: "'w registry_codec \<Rightarrow> Adapter \<Rightarrow> ImageRequest \<Rightarrow> ('w, 'e, string result) io" where
  "ReadDigest cx p req =
     (case ResolveImage p req of
        Inl err \<Rightarrow> fail err
      | Inr img \<Rightarrow>
          if img_Digest img \<noteq> '''' then ok (img_Digest img)
          else if img_Tag img = '''' then fail (errorf_w ''tag or digest is required'' ErrImageInvalid)
          else (case registryEndpoint cx (imq_Registry req) (img_Repository img) of
              Inl err \<Rightarrow> fail err
            | Inr (registryURL, repositoryPath) \<Rightarrow>
                (let manifestURL = TrimSuffix registryURL ''/'' @ ''/v2/'' @ repositoryPath @ ''/manifests/''
                       @ PathEscape (img_Tag img) in
                 if rc_URLHost cx manifestURL = None
                 then fail (errors_New ''create registry manifest request'')
                 else do {
                   r \<leftarrow> query (rc_Do cx \<lparr>mr_URL = manifestURL,
                          mr_Authorization = applyCredential cx (imq_Credential req) registryURL\<rparr>);
                   State_Monad.return (case r of
                       Inl err \<Rightarrow> Inl (errorf_w ''read registry manifest digest'' err)
                     | Inr (status, header) \<Rightarrow>
                         if status < 200 \<or> status \<ge> 300
                         then Inl (errors_New (''registry manifest request returned HTTP '' @ Itoa status))
                         else (let digest = ToLower (TrimSpace header) in
                           if \<not> valid_digest digest
                           then Inl (errorf_w ''registry returned an invalid Docker-Content-Digest header'' ErrImageInvalid)
                           else Inr digest))
                 })))"


section \<open>The registry of a resolved image\<close>

text \<open>The host that the first component of a path names, as \<open>hasRegistryHost\<close> recognises it.\<close>

definition named_host :: "string \<Rightarrow> string option" where
  "named_host path =
     (case Cut path CHR ''/'' of (first, _, _) \<Rightarrow>
        if Contains first ''.'' \<or> Contains first '':'' \<or> first = ''localhost'' then Some first else None)"

definition trimmed_path :: "string \<Rightarrow> string" where
  "trimmed_path s = Trim (TrimSpace s) ''/''"

definition resolved_host :: "Adapter \<Rightarrow> ImageRequest \<Rightarrow> string option" where
  "resolved_host p req =
     (let repository = trimmed_path (imq_Repository req); pre = trimmed_path (imq_ImagePrefix req) in
      if hasRegistryHost repository then named_host repository
      else if pre \<noteq> '''' \<and> repository \<noteq> pre \<and> named_host pre \<noteq> None then named_host pre
      else if ad_DefaultRegistry p \<noteq> '''' then Some (ad_DefaultRegistry p)
      else None)"

lemma Cut_append_slash:
  "Cut (s @ CHR ''/'' # t) CHR ''/'' = (let (first, rest, found) = Cut s CHR ''/'' in
     if found then (first, rest @ CHR ''/'' # t, True) else (s, t, True))"
  by (induction s) (auto simp: Let_def split: prod.splits)

lemma Cut_not_found: "Cut s c = (first, rest, False) \<Longrightarrow> first = s"
  by (induction s arbitrary: first) (auto split: prod.splits if_splits)

lemma hasRegistryHost_named: "hasRegistryHost s \<longleftrightarrow> snd (snd (Cut s CHR ''/'')) \<and> named_host s \<noteq> None"
  by (auto simp: hasRegistryHost_def named_host_def split: prod.splits)

lemma RegistryHost_named:
  "RegistryHost s = Inr h \<longleftrightarrow> hasRegistryHost s \<and> named_host s = Some h"
  by (auto simp: RegistryHost_def hasRegistryHost_def named_host_def split: prod.splits)

lemma host_below: "named_host (pre @ CHR ''/'' # s) = named_host pre"
  "hasRegistryHost (pre @ CHR ''/'' # s) \<longleftrightarrow> named_host pre \<noteq> None"
proof -
  obtain first rest found where c: "Cut pre CHR ''/'' = (first, rest, found)" by (cases "Cut pre CHR ''/''") auto
  have "\<not> found \<Longrightarrow> first = pre" using Cut_not_found [of pre _ first rest] c by simp
  then show n: "named_host (pre @ CHR ''/'' # s) = named_host pre"
    using c by (cases found) (auto simp: named_host_def Cut_append_slash Let_def)
  show "hasRegistryHost (pre @ CHR ''/'' # s) \<longleftrightarrow> named_host pre \<noteq> None"
    unfolding hasRegistryHost_named n by (simp add: Cut_append_slash c Let_def)
qed

lemma default_registry_named:
  assumes "New_registry name = Inr p" and "ad_DefaultRegistry p \<noteq> ''''"
  shows "named_host (ad_DefaultRegistry p) = Some (ad_DefaultRegistry p)"
proof -
  have "p = GHCR \<or> p = GitLab"
    using assms by (auto simp: New_registry_def Let_def Generic_def Harbor_def unimplemented_def split: if_splits)
  moreover have "named_host ''ghcr.io'' = Some ''ghcr.io''"
      "named_host ''registry.gitlab.com'' = Some ''registry.gitlab.com''" by code_simp+
  ultimately show ?thesis by (auto simp: GHCR_def GitLab_def)
qed

text \<open>
  the registry of a resolved image is the first of these that there is: the host that the
  requested repository itself names, the host of the configured image prefix, the default registry of
  the provider. In particular a repository with a host of its own overrides the configured prefix.
  The digest of a resolved image is a lower-case SHA-256 digest, and its tag has no digest separator.
\<close>

theorem ResolveImage_registry:
  assumes "New_registry name = Inr p" and "ResolveImage p req = Inr r"
  shows "(\<forall>h. RegistryHost (img_Repository r) = Inr h \<longleftrightarrow> resolved_host p req = Some h)
    \<and> HasSuffix (img_Repository r) (trimmed_path (imq_Repository req))
    \<and> (img_Digest r = '''' \<or> valid_digest (img_Digest r)) \<and> CHR ''@'' \<notin> set (img_Tag r)"
proof -
  let ?repo = "trimmed_path (imq_Repository req)" and ?pre = "trimmed_path (imq_ImagePrefix req)"
  let ?step1 = "if ?pre \<noteq> '''' \<and> \<not> hasRegistryHost ?repo \<and> ?repo \<noteq> ?pre \<and> \<not> HasPrefix ?repo (?pre @ ''/'')
    then ?pre @ ''/'' @ ?repo else ?repo"
  let ?step2 = "if \<not> hasRegistryHost ?step1 \<and> ad_DefaultRegistry p \<noteq> '''' then ad_DefaultRegistry p @ ''/'' @ ?step1 else ?step1"
  have r: "img_Repository r = ?step2" and d: "img_Digest r = '''' \<or> valid_digest (img_Digest r)"
    and t: "\<not> ContainsAny (img_Tag r) (''@/'' @ blanks)"
    using assms(2) by (auto simp: ResolveImage_def Let_def trimmed_path_def split: if_splits)
  have under: "named_host ?repo = named_host ?pre" if "HasPrefix ?repo (?pre @ ''/'')"
    using that host_below(1) [of ?pre] by (auto simp: HasPrefix_def prefix_def)
  have slash: "hasRegistryHost ?repo \<longleftrightarrow> named_host ?pre \<noteq> None" if "HasPrefix ?repo (?pre @ ''/'')"
    using that host_below(2) [of ?pre] by (auto simp: HasPrefix_def prefix_def)
  have "RegistryHost ?step2 = Inr h \<longleftrightarrow> resolved_host p req = Some h" for h
    using under slash default_registry_named [OF assms(1)]
    by (auto simp: RegistryHost_named resolved_host_def Let_def host_below)
  moreover have "HasSuffix ?step2 ?repo" by (auto simp: HasSuffix_def suffix_def)
  moreover have "CHR ''@'' \<notin> set (img_Tag r)" using t by (auto simp: ContainsAny_def list_ex_iff)
  ultimately show ?thesis using r d by simp
qed

theorem ResolveImage_registry_witness:
  "\<exists>r. ResolveImage GHCR \<lparr>imq_Registry = '''', imq_ImagePrefix = ''ghcr.io/acme'', imq_Repository = ''evil.io/app'', imq_Tag = ''v1'',
       imq_Digest = '''', imq_Credential = Credential_zero\<rparr> = Inr r
     \<and> RegistryHost (img_Repository r) = Inr ''evil.io''"
proof -
  let ?req = "\<lparr>imq_Registry = '''', imq_ImagePrefix = ''ghcr.io/acme'', imq_Repository = ''evil.io/app'', imq_Tag = ''v1'',
     imq_Digest = '''', imq_Credential = Credential_zero\<rparr>"
  have "ResolveImage GHCR ?req = Inr \<lparr>img_Repository = ''evil.io/app'', img_Tag = ''v1'', img_Digest = ''''\<rparr>"
    by code_simp
  moreover have "resolved_host GHCR ?req = Some ''evil.io''" by code_simp
  moreover have "New_registry ''ghcr'' = Inr GHCR" by code_simp
  ultimately show ?thesis using ResolveImage_registry [of "''ghcr''" GHCR ?req] by blast
qed

text \<open>A digest that \<open>ReadDigest\<close> returns is well formed, whatever the registry answers.\<close>

lemma ReadDigest_valid:
  "wp (ReadDigest cx p req) (\<lambda>r t. \<forall>d. r = Inr d \<longrightarrow> valid_digest d) s"
proof (cases "ResolveImage p req")
  case (Inr img)
  have "img_Digest img = '''' \<or> valid_digest (img_Digest img)"
    using Inr by (auto simp: ResolveImage_def Let_def split: if_splits)
  then show ?thesis
    by (auto simp: ReadDigest_def Inr wp_simps Let_def split: sum.splits prod.splits)
qed (simp add: ReadDigest_def wp_simps)

end
