(* ===== verification/JobExecutor.thy ===== *)
theory JobExecutor
  imports Executors Registry Secrets
begin

text \<open>
  \<open>internal/executor/job/executor.go\<close>: build runs as Kubernetes Jobs. The Kubernetes client, the
  controller's environment, \<open>resource.ParseQuantity\<close> and \<open>controllerutil.SetControllerReference\<close> are
  fields of \<open>job_deps\<close>; the last one adds the owner reference that its field gives, or fails. The pod
  types have the fields that the executor sets.
\<close>

section \<open>Pods and Jobs\<close>

record KeyToPath =
  ktp_Key :: string
  ktp_Path :: string
  ktp_Mode :: int

datatype VolumeSource =
    SecretVolume (sv_SecretName: string) (sv_Items: "KeyToPath list") (sv_DefaultMode: "int option")
  | PersistentVolumeClaim string

record Volume =
  vol_Name :: string
  vol_Source :: VolumeSource

record VolumeMount =
  vm_Name :: string
  vm_MountPath :: string
  vm_ReadOnly :: bool

record ResourceRequirements =
  rr_Requests :: "string \<rightharpoonup> int"
  rr_Limits :: "string \<rightharpoonup> int"

record SecurityContext =
  scx_RunAsNonRoot :: bool
  scx_AllowPrivilegeEscalation :: bool
  scx_Privileged :: bool
  scx_Drop :: "string list"

record Container =
  con_Name :: string
  con_Image :: string
  con_Env :: "EnvVar list"
  con_Resources :: ResourceRequirements
  con_VolumeMounts :: "VolumeMount list"
  con_SecurityContext :: SecurityContext

record PodSpec =
  pod_RestartPolicy :: string
  pod_ServiceAccountName :: string
  pod_AutomountServiceAccountToken :: bool
  pod_RunAsNonRoot :: bool
  pod_SeccompProfile :: string
  pod_Volumes :: "Volume list"
  pod_Containers :: "Container list"

record JobSpec =
  js_BackoffLimit :: "int option"
  js_TTLSecondsAfterFinished :: int
  js_ActiveDeadlineSeconds :: int
  js_PodLabels :: strmap
  js_Pod :: PodSpec

record JobStatus =
  jst_Active :: int
  jst_Succeeded :: int
  jst_Failed :: int

record Job =
  job_Meta :: ObjectMeta
  job_Owner :: "string option"
  job_Spec :: JobSpec
  job_Status :: JobStatus

datatype job_effect = JobCreated Job | JobDeleted NamespacedName

record 'w job_deps =
  jx_GetJob :: "NamespacedName \<Rightarrow> 'w \<Rightarrow> Job result \<times> 'w"
  jx_CreateJob :: "Job \<Rightarrow> 'w \<Rightarrow> go_error option \<times> 'w"
  jx_DeleteJob :: "Job \<Rightarrow> 'w \<Rightarrow> go_error option \<times> 'w"
  jx_GetSecret :: "NamespacedName \<Rightarrow> 'w \<Rightarrow> (string \<times> string) list result \<times> 'w"
  jx_Secrets :: "(SecretRef \<Rightarrow> 'w \<Rightarrow> ResolvedSecret result \<times> 'w) option"
  jx_SetControllerReference :: "BuildRun \<Rightarrow> Job \<Rightarrow> string result"
  jx_Getenv :: "string \<Rightarrow> string"
  jx_ParseQuantity :: "string \<Rightarrow> int option"
  jx_codec :: "'w registry_codec"

type_synonym ('w, 'a) job_io = "('w, job_effect, 'a) io"


section \<open>Constants\<close>

definition DefaultRunnerImage :: string where "DefaultRunnerImage = ''cloudivision/runner:dev''"
definition defaultTTLSecondsAfterFinished :: int where "defaultTTLSecondsAfterFinished = 3600"
definition defaultBackoffLimit :: int where "defaultBackoffLimit = 0"
definition defaultActiveDeadlineSeconds :: int where "defaultActiveDeadlineSeconds = 3600"
definition defaultRunnerServiceAccount :: string where "defaultRunnerServiceAccount = ''cloudivision-runner''"
definition defaultCPURequest :: string where "defaultCPURequest = ''100m''"
definition defaultCPULimit :: string where "defaultCPULimit = ''1000m''"
definition defaultMemoryRequest :: string where "defaultMemoryRequest = ''128Mi''"
definition defaultMemoryLimit :: string where "defaultMemoryLimit = ''1Gi''"
definition registryCredentialsVolume :: string where "registryCredentialsVolume = ''registry-credentials''"
definition RegistryCredentialsDir :: string where
  "RegistryCredentialsDir = ''/var/run/secrets/cloudivision-registry''"

definition errRegistryCredentialsMissing :: go_error where
  "errRegistryCredentialsMissing = GoError ''registry credentials are missing'' [ErrRegistryCredentialsMissing]"
definition errRegistryCredentialsInvalid :: go_error where
  "errRegistryCredentialsInvalid = GoError ''registry credentials are invalid'' [ErrRegistryCredentialsInvalid]"


section \<open>The Job of a build run\<close>

definition job_NameForBuildRun :: "string \<Rightarrow> string" where
  "job_NameForBuildRun buildRunName = label_prefix (ToLower buildRunName @ ''-runner'')"

definition runnerImage :: "'w job_deps \<Rightarrow> string" where
  "runnerImage d = (if jx_Getenv d ''CLOU_DIVISION_RUNNER_IMAGE'' \<noteq> '''' then jx_Getenv d ''CLOU_DIVISION_RUNNER_IMAGE''
     else DefaultRunnerImage)"

definition serviceAccountName :: "Project \<Rightarrow> string" where
  "serviceAccountName project =
     (if prs_ServiceAccountName (proj_Spec project) \<noteq> '''' then prs_ServiceAccountName (proj_Spec project)
      else defaultRunnerServiceAccount)"

definition registryCredentialRequired :: "Project \<Rightarrow> PipelineTemplate \<Rightarrow> bool" where
  "registryCredentialRequired project template \<longleftrightarrow>
     (case prs_Registry (proj_Spec project) of None \<Rightarrow> False
      | Some registry \<Rightarrow> reg_Provider registry \<noteq> RegistryProviderUnset)
     \<and> bld_Enabled (pts_Build (pt_Spec template)) \<and> bld_Push (pts_Build (pt_Spec template))"

definition credential_ref :: "Project \<Rightarrow> SecretKeyRef option" where
  "credential_ref project = (case prs_Registry (proj_Spec project) of None \<Rightarrow> None
     | Some registry \<Rightarrow> reg_CredentialSecretRef registry)"

definition env_var :: "string \<Rightarrow> string \<Rightarrow> EnvVar" where
  "env_var name val = \<lparr>ev_Name = name, ev_Value = val, ev_SecretKeyRef = None\<rparr>"

text \<open>\<open>if v := os.Getenv(key); v != "" { append name=v }\<close>.\<close>

definition env_from :: "'w job_deps \<Rightarrow> string \<Rightarrow> string \<Rightarrow> EnvVar list" where
  "env_from d key name = (if jx_Getenv d key \<noteq> '''' then [env_var name (jx_Getenv d key)] else [])"

definition registry_env :: "Project \<Rightarrow> EnvVar list" where
  "registry_env project = (case prs_Registry (proj_Spec project) of
     None \<Rightarrow> []
   | Some registry \<Rightarrow>
       if reg_Provider registry = RegistryProviderUnset then []
       else [env_var ''REGISTRY_PROVIDER'' (RegistryProviderType_string (reg_Provider registry)),
             env_var ''REGISTRY_IMAGE_PREFIX'' (if reg_ImagePrefix registry = '''' then prs_DefaultRegistry (proj_Spec project)
               else reg_ImagePrefix registry)]
         @ (case reg_CredentialSecretRef registry of None \<Rightarrow> []
            | Some ref \<Rightarrow> if skr_Name ref \<noteq> '''' then [env_var ''REGISTRY_CREDENTIALS_DIR'' RegistryCredentialsDir] else []))"

definition quota_env :: "Project \<Rightarrow> EnvVar list" where
  "quota_env project = (case prs_Quotas (proj_Spec project) of
     None \<Rightarrow> []
   | Some quotas \<Rightarrow>
       (if quo_MaxArtifactsSize quotas \<noteq> '''' then [env_var ''PROJECT_MAX_ARTIFACTS_SIZE'' (quo_MaxArtifactsSize quotas)] else [])
       @ (if quo_MaxLogSize quotas \<noteq> '''' then [env_var ''PROJECT_MAX_LOG_SIZE'' (quo_MaxLogSize quotas)] else []))"

definition cache_env :: "'w job_deps \<Rightarrow> PipelineTemplate \<Rightarrow> EnvVar list" where
  "cache_env d template =
     (if \<not> dc_Enabled (pts_Cache (pt_Spec template)) then []
      else (case dc_Mode (pts_Cache (pt_Spec template)) of
          DependencyCacheModePVC \<Rightarrow>
            if jx_Getenv d ''CLOU_DIVISION_CACHE_PVC'' \<noteq> '''' then [env_var ''CACHE_BACKEND'' ''pvc''] else []
        | DependencyCacheModeObjectStorage \<Rightarrow> [env_var ''CACHE_BACKEND'' ''object-storage'']
        | _ \<Rightarrow> []))"

definition runnerEnv ::
  "'w job_deps \<Rightarrow> BuildRun \<Rightarrow> Project \<Rightarrow> Repository \<Rightarrow> PipelineTemplate \<Rightarrow> EnvVar list" where
  "runnerEnv d buildRun project repository template =
     (let spec = br_Spec buildRun in
      [env_var ''BUILD_RUN_NAME'' (meta_Name (br_Meta buildRun)),
       env_var ''BUILD_RUN_NAMESPACE'' (meta_Namespace (br_Meta buildRun)),
       env_var ''PROJECT_NAME'' (meta_Name (proj_Meta project)),
       env_var ''REPOSITORY_URL'' (rs_URL (repo_Spec repository)),
       env_var ''REVISION'' (brs_Revision spec),
       env_var ''BRANCH'' (brs_Branch spec),
       env_var ''PIPELINE_TEMPLATE_NAME'' (brs_PipelineTemplateRef spec),
       env_var ''IMAGE_REPOSITORY'' (img_Repository (brs_Image spec)),
       env_var ''IMAGE_TAG'' (img_Tag (brs_Image spec)),
       env_var ''GITOPS_ENABLED'' (FormatBool (bg_Enabled (brs_GitOps spec)))]
      @ registry_env project @ quota_env project
      @ env_from d ''CLOU_DIVISION_LOG_BACKEND'' ''LOG_BACKEND'' @ env_from d ''CLOU_DIVISION_LOG_ROOT'' ''LOG_ROOT''
      @ env_from d ''CLOU_DIVISION_ARTIFACT_BACKEND'' ''ARTIFACT_BACKEND''
      @ env_from d ''CLOU_DIVISION_ARTIFACT_ROOT'' ''ARTIFACT_ROOT''
      @ cache_env d template
      @ env_from d ''CLOU_DIVISION_CACHE_ROOT'' ''CACHE_ROOT'' @ env_from d ''CLOU_DIVISION_CACHE_MAX_SIZE'' ''CACHE_MAX_SIZE'')"

definition addQuantity :: "'w job_deps \<Rightarrow> (string \<rightharpoonup> int) \<Rightarrow> string \<Rightarrow> string \<Rightarrow> (string \<rightharpoonup> int)" where
  "addQuantity d list name val =
     (if val = '''' then list
      else (case jx_ParseQuantity d val of None \<Rightarrow> list | Some quantity \<Rightarrow> list(name \<mapsto> quantity)))"

definition resourceRequirements :: "'w job_deps \<Rightarrow> PipelineResourceSpec \<Rightarrow> ResourceRequirements" where
  "resourceRequirements d resources =
     \<lparr>rr_Requests = addQuantity d (addQuantity d Map.empty ''cpu'' (defaultString (res_CPURequest resources) defaultCPURequest))
        ''memory'' (defaultString (res_MemoryRequest resources) defaultMemoryRequest),
      rr_Limits = addQuantity d (addQuantity d Map.empty ''cpu'' (defaultString (res_CPULimit resources) defaultCPULimit))
        ''memory'' (defaultString (res_MemoryLimit resources) defaultMemoryLimit)\<rparr>"

text \<open>A volume with the mount that the runner container gets for it; \<open>0o400\<close> is 256.\<close>

definition volume :: "string \<Rightarrow> VolumeSource \<Rightarrow> string \<Rightarrow> bool \<Rightarrow> (Volume \<times> VolumeMount)" where
  "volume name source path readonly = (\<lparr>vol_Name = name, vol_Source = source\<rparr>,
     \<lparr>vm_Name = name, vm_MountPath = path, vm_ReadOnly = readonly\<rparr>)"

definition signing_volume :: "PipelineTemplate \<Rightarrow> (Volume \<times> VolumeMount) list" where
  "signing_volume template = (case sc_SigningKeySecretRef (pts_SupplyChain (pt_Spec template)) of
     None \<Rightarrow> []
   | Some ref \<Rightarrow> [volume ''cosign-key'' (SecretVolume (rskr_Name ref)
         [\<lparr>ktp_Key = rskr_Key ref, ktp_Path = ''key'', ktp_Mode = 256\<rparr>] None) ''/var/run/secrets/cloudivision-signing'' True])"

definition registry_items :: "SecretKeyRef \<Rightarrow> string list \<Rightarrow> KeyToPath list" where
  "registry_items ref registryKeys =
     (if skr_Key ref \<noteq> '''' then [\<lparr>ktp_Key = skr_Key ref, ktp_Path = DockerConfigJSONKey, ktp_Mode = 256\<rparr>]
      else map (\<lambda>key. \<lparr>ktp_Key = key, ktp_Path = key, ktp_Mode = 256\<rparr>) registryKeys)"

definition registry_volume :: "Project \<Rightarrow> PipelineTemplate \<Rightarrow> string list \<Rightarrow> (Volume \<times> VolumeMount) list" where
  "registry_volume project template registryKeys =
     (if \<not> registryCredentialRequired project template then []
      else (case credential_ref project of
          None \<Rightarrow> []
        | Some ref \<Rightarrow> [volume registryCredentialsVolume (SecretVolume (skr_Name ref) (registry_items ref registryKeys) (Some 256))
             RegistryCredentialsDir True]))"

definition claim_volume :: "'w job_deps \<Rightarrow> bool \<Rightarrow> string \<Rightarrow> string \<Rightarrow> string \<Rightarrow> string \<Rightarrow> (Volume \<times> VolumeMount) list" where
  "claim_volume d enabled name claim root fallback =
     (if enabled \<and> jx_Getenv d claim \<noteq> ''''
      then [volume name (PersistentVolumeClaim (jx_Getenv d claim)) (defaultString (jx_Getenv d root) fallback) False]
      else [])"

definition job_volumes :: "'w job_deps \<Rightarrow> Project \<Rightarrow> PipelineTemplate \<Rightarrow> string list \<Rightarrow> (Volume \<times> VolumeMount) list" where
  "job_volumes d project template registryKeys =
     signing_volume template @ registry_volume project template registryKeys
     @ claim_volume d (jx_Getenv d ''CLOU_DIVISION_LOG_BACKEND'' = ''local'') ''stored-logs''
         ''CLOU_DIVISION_LOG_PVC'' ''CLOU_DIVISION_LOG_ROOT'' ''/var/lib/cloudivision/logs''
     @ claim_volume d (jx_Getenv d ''CLOU_DIVISION_ARTIFACT_BACKEND'' = ''local'') ''stored-artifacts''
         ''CLOU_DIVISION_ARTIFACT_PVC'' ''CLOU_DIVISION_ARTIFACT_ROOT'' ''/var/lib/cloudivision/artifacts''
     @ claim_volume d (dc_Enabled (pts_Cache (pt_Spec template)) \<and> dc_Mode (pts_Cache (pt_Spec template)) = DependencyCacheModePVC)
         ''dependency-cache'' ''CLOU_DIVISION_CACHE_PVC'' ''CLOU_DIVISION_CACHE_ROOT'' ''/var/lib/cloudivision/cache''"

definition job_labels :: "BuildRun \<Rightarrow> Project \<Rightarrow> strmap" where
  "job_labels buildRun project = [''app.kubernetes.io/name'' \<mapsto> ''cloudivision'', ''app.kubernetes.io/component'' \<mapsto> ''runner'',
     ''cloudivision.io/buildrun'' \<mapsto> meta_Name (br_Meta buildRun), ''cloudivision.io/project'' \<mapsto> meta_Name (proj_Meta project)]"

definition runner_pod ::
  "'w job_deps \<Rightarrow> BuildRun \<Rightarrow> Project \<Rightarrow> Repository \<Rightarrow> PipelineTemplate \<Rightarrow> string list \<Rightarrow> PodSpec" where
  "runner_pod d buildRun project repository template registryKeys =
     (let volumes = job_volumes d project template registryKeys in
      \<lparr>pod_RestartPolicy = ''Never'', pod_ServiceAccountName = serviceAccountName project,
       pod_AutomountServiceAccountToken = True, pod_RunAsNonRoot = True, pod_SeccompProfile = ''RuntimeDefault'',
       pod_Volumes = map fst volumes,
       pod_Containers = [\<lparr>con_Name = ''runner'', con_Image = runnerImage d,
         con_Env = runnerEnv d buildRun project repository template,
         con_Resources = resourceRequirements d (pts_Resources (pt_Spec template)),
         con_VolumeMounts = map snd volumes,
         con_SecurityContext = \<lparr>scx_RunAsNonRoot = True, scx_AllowPrivilegeEscalation = False, scx_Privileged = False,
           scx_Drop = [''ALL'']\<rparr>\<rparr>]\<rparr>)"

definition buildJobWithRegistryKeys ::
  "'w job_deps \<Rightarrow> BuildRun \<Rightarrow> Project \<Rightarrow> Repository \<Rightarrow> PipelineTemplate \<Rightarrow> string list \<Rightarrow> Job" where
  "buildJobWithRegistryKeys d buildRun project repository template registryKeys =
     (let timeout = res_TimeoutSeconds (pts_Resources (pt_Spec template)) in
      \<lparr>job_Meta = ObjectMeta_zero\<lparr>meta_Name := job_NameForBuildRun (meta_Name (br_Meta buildRun)),
         meta_Namespace := meta_Namespace (br_Meta buildRun), meta_Labels := job_labels buildRun project\<rparr>,
       job_Owner = None,
       job_Spec = \<lparr>js_BackoffLimit = Some defaultBackoffLimit, js_TTLSecondsAfterFinished = defaultTTLSecondsAfterFinished,
         js_ActiveDeadlineSeconds = (if timeout > 0 then timeout else defaultActiveDeadlineSeconds),
         js_PodLabels = job_labels buildRun project,
         js_Pod = runner_pod d buildRun project repository template registryKeys\<rparr>,
       job_Status = \<lparr>jst_Active = 0, jst_Succeeded = 0, jst_Failed = 0\<rparr>\<rparr>)"

definition buildJob :: "'w job_deps \<Rightarrow> BuildRun \<Rightarrow> Project \<Rightarrow> Repository \<Rightarrow> PipelineTemplate \<Rightarrow> Job" where
  "buildJob d buildRun project repository template = buildJobWithRegistryKeys d buildRun project repository template []"


section \<open>Operations\<close>

text \<open>A request always carries its four objects, so that only the names are left to check.\<close>

definition job_validateRequest :: "EnsureRunRequest \<Rightarrow> go_error option" where
  "job_validateRequest req =
     (if meta_Name (br_Meta (req_BuildRun req)) = '''' \<or> meta_Namespace (br_Meta (req_BuildRun req)) = ''''
      then Some (errors_New ''BuildRun name and namespace are required'') else None)"

definition allowPrivilegedBuilds :: "'w job_deps \<Rightarrow> bool" where
  "allowPrivilegedBuilds d = EqualFold (jx_Getenv d ''CLOU_DIVISION_ALLOW_PRIVILEGED_BUILDS'') ''true''"

definition resolve_secret :: "'w job_deps \<Rightarrow> string \<Rightarrow> SecretRef \<Rightarrow> ('w, ResolvedSecret result) job_io" where
  "resolve_secret d ns ref = (case jx_Secrets d of
     Some resolver \<Rightarrow> query (resolver ref)
   | None \<Rightarrow> Resolve \<lparr>kp_GetSecret = Some (jx_GetSecret d), kp_AllowedNamespaces = [ns], kp_AllowAllKeys = False\<rparr> ref)"

definition credential_keys :: "string list" where
  "credential_keys = [DockerConfigJSONKey, DockerConfigKey, UsernameKey, PasswordKey, TokenKey]"

definition registry_secret_ref :: "string \<Rightarrow> SecretKeyRef \<Rightarrow> SecretRef" where
  "registry_secret_ref ns ref =
     \<lparr>sr_Namespace = ns, sr_Name = skr_Name ref,
      sr_Keys = (if skr_Key ref \<noteq> '''' then [skr_Key ref] else []),
      sr_OptionalKeys = (if skr_Key ref \<noteq> '''' then [] else credential_keys),
      sr_AllowAll = False\<rparr>"

definition registry_data :: "SecretKeyRef \<Rightarrow> ResolvedSecret \<Rightarrow> strmap" where
  "registry_data ref resolved = (if skr_Key ref \<noteq> ''''
     then [DockerConfigJSONKey \<mapsto> map_index (rsv_Values resolved) (skr_Key ref)] else rsv_Values resolved)"

definition check_resolved :: "'w job_deps \<Rightarrow> string \<Rightarrow> SecretKeyRef \<Rightarrow> ResolvedSecret result \<Rightarrow> string list result" where
  "check_resolved d ns ref resolved = (case resolved of
     Inl err \<Rightarrow>
       if errors_Is err (Sentinel ''secrets.ErrSecretMissing'')
       then Inl (errorf_w (''registry credential Secret '' @ quote (skr_Name ref) @ '' was not found in namespace '' @ quote ns)
              errRegistryCredentialsMissing)
       else Inl (errorf_w (''resolve registry credential Secret '' @ quote (skr_Name ref)) errRegistryCredentialsInvalid)
   | Inr resolved \<Rightarrow>
       (case ParseCredential (jx_codec d) (registry_data ref resolved) of
          Inl err \<Rightarrow> Inl (GoError (''registry credential Secret '' @ quote (skr_Name ref) @ '' has no supported credential data: ''
              @ err_text errRegistryCredentialsInvalid @ '': '' @ err_text err) (err_tags errRegistryCredentialsInvalid @ err_tags err))
        | Inr _ \<Rightarrow> Inr (rsv_Keys resolved)))"

definition validateRegistryCredentials :: "'w job_deps \<Rightarrow> EnsureRunRequest \<Rightarrow> ('w, string list result) job_io" where
  "validateRegistryCredentials d req =
     (let project = req_Project req; ns = meta_Namespace (br_Meta (req_BuildRun req)) in
      if \<not> registryCredentialRequired project (req_Template req) then ok []
      else (case credential_ref project of
          None \<Rightarrow> fail (errorf_w (''Project '' @ quote (meta_Name (proj_Meta project))
              @ '' registry credentialSecretRef is required for image push'') errRegistryCredentialsMissing)
        | Some ref \<Rightarrow>
            if skr_Name ref = ''''
            then fail (errorf_w (''Project '' @ quote (meta_Name (proj_Meta project))
              @ '' registry credentialSecretRef is required for image push'') errRegistryCredentialsMissing)
            else do {
              resolved \<leftarrow> resolve_secret d ns (registry_secret_ref ns ref);
              State_Monad.return (check_resolved d ns ref resolved)
            }))"

definition job_ref :: "NamespacedName \<Rightarrow> RunRef" where
  "job_ref key = \<lparr>ref_Kind = ''Job'', ref_Name = key_Name key, ref_Namespace = key_Namespace key\<rparr>"

definition create_job :: "'w job_deps \<Rightarrow> EnsureRunRequest \<Rightarrow> NamespacedName \<Rightarrow> string list \<Rightarrow> ('w, RunRef result) job_io" where
  "create_job d req key registryKeys =
     (let job = buildJobWithRegistryKeys d (req_BuildRun req) (req_Project req) (req_Repository req) (req_Template req)
            registryKeys in
      case jx_SetControllerReference d (req_BuildRun req) job of
        Inl err \<Rightarrow> fail (errorf_w ''set Job owner reference'' err)
      | Inr owner \<Rightarrow>
          let job = job\<lparr>job_Owner := Some owner\<rparr> in do {
          r \<leftarrow> call (JobCreated job) (jx_CreateJob d job);
          State_Monad.return (case r of
              None \<Rightarrow> Inr (job_ref key)
            | Some err \<Rightarrow> if errors_Is err AlreadyExists then Inr (job_ref key)
                          else Inl (errorf_w (''create Job '' @ key_String key) err))
        })"

definition job_EnsureRun :: "'w job_deps \<Rightarrow> EnsureRunRequest \<Rightarrow> ('w, RunRef result) job_io" where
  "job_EnsureRun d req =
     (case job_validateRequest req of
        Some err \<Rightarrow> fail err
      | None \<Rightarrow>
          if sec_AllowPrivileged (pts_Security (pt_Spec (req_Template req))) \<and> \<not> allowPrivilegedBuilds d
          then fail (errors_New (''PipelineTemplate '' @ quote (meta_Name (pt_Meta (req_Template req)))
             @ '' requests privileged build execution; set CLOU_DIVISION_ALLOW_PRIVILEGED_BUILDS=true to allow this unsupported mode''))
          else check (validateRegistryCredentials d req) (\<lambda>registryKeys.
            let key = \<lparr>key_Namespace = meta_Namespace (br_Meta (req_BuildRun req)),
                  key_Name = job_NameForBuildRun (meta_Name (br_Meta (req_BuildRun req)))\<rparr> in do {
              existing \<leftarrow> query (jx_GetJob d key);
              case existing of
                Inr _ \<Rightarrow> ok (job_ref key)
              | Inl err \<Rightarrow> if \<not> errors_Is err NotFound then fail (errorf_w (''get Job '' @ key_String key) err)
                           else create_job d req key registryKeys
            }))"

definition jobFailed :: "Job \<Rightarrow> bool" where
  "jobFailed job = (jst_Failed (job_Status job) \<noteq> 0
     \<and> jst_Failed (job_Status job) > (case js_BackoffLimit (job_Spec job) of None \<Rightarrow> defaultBackoffLimit | Some limit \<Rightarrow> limit))"

definition run_status :: "RunPhase \<Rightarrow> RunStatus" where
  "run_status phase = \<lparr>run_Phase = phase, run_Failure = \<lparr>rfl_Reason = '''', rfl_Message = ''''\<rparr>\<rparr>"

definition job_ReadRunStatus :: "'w job_deps \<Rightarrow> RunRef \<Rightarrow> ('w, RunStatus result) job_io" where
  "job_ReadRunStatus d ref =
     (let key = \<lparr>key_Namespace = ref_Namespace ref, key_Name = ref_Name ref\<rparr> in
      check (wrap (''get Job '' @ key_String key) (query (jx_GetJob d key))) (\<lambda>job. ok
        (if jst_Succeeded (job_Status job) > 0 then run_status RunPhaseSucceeded
         else if jobFailed job then \<lparr>run_Phase = RunPhaseFailed,
           run_Failure = \<lparr>rfl_Reason = ''JobFailed'', rfl_Message = ''Runner Job failed''\<rparr>\<rparr>
         else if jst_Active (job_Status job) > 0 then run_status RunPhaseRunning
         else run_status RunPhasePending)))"

definition job_CancelRun :: "'w job_deps \<Rightarrow> RunRef \<Rightarrow> ('w, unit result) job_io" where
  "job_CancelRun d ref =
     (let key = \<lparr>key_Namespace = ref_Namespace ref, key_Name = ref_Name ref\<rparr> in do {
        existing \<leftarrow> query (jx_GetJob d key);
        case existing of
          Inl err \<Rightarrow> if errors_Is err NotFound then ok ()
                     else fail (errorf_w (''get Job '' @ key_String key @ '' for cancellation'') err)
        | Inr job \<Rightarrow> do {
            r \<leftarrow> call (JobDeleted key) (jx_DeleteJob d job);
            State_Monad.return (case r of
                None \<Rightarrow> Inr ()
              | Some err \<Rightarrow> if errors_Is err NotFound then Inr () else Inl (errorf_w (''delete Job '' @ key_String key) err))
          }
      })"


section \<open>What a runner pod may do\<close>

definition secret_volumes :: "PodSpec \<Rightarrow> (string \<times> string list) set" where
  "secret_volumes pod = {(name, map ktp_Key items) |name items mode.
     SecretVolume name items mode \<in> vol_Source ` set (pod_Volumes pod)}"

definition hardened_container :: "Container \<Rightarrow> bool" where
  "hardened_container c \<longleftrightarrow> (let x = con_SecurityContext c in scx_RunAsNonRoot x \<and> \<not> scx_AllowPrivilegeEscalation x
     \<and> \<not> scx_Privileged x \<and> scx_Drop x = [''ALL''])"

definition hardened_job :: "JobSpec \<Rightarrow> bool" where
  "hardened_job spec \<longleftrightarrow> (let pod = js_Pod spec in
     pod_Containers pod \<noteq> [] \<and> list_all hardened_container (pod_Containers pod) \<and> pod_RunAsNonRoot pod
     \<and> pod_SeccompProfile pod = ''RuntimeDefault'' \<and> pod_RestartPolicy pod = ''Never'' \<and> js_BackoffLimit spec = Some 0
     \<and> js_ActiveDeadlineSeconds spec > 0)"

text \<open>The keys of Secrets that the build of a template for a project may read.\<close>

definition allowed_secrets :: "Project \<Rightarrow> PipelineTemplate \<Rightarrow> (string \<times> string list) set" where
  "allowed_secrets project template =
     {(rskr_Name ref, [rskr_Key ref]) |ref. sc_SigningKeySecretRef (pts_SupplyChain (pt_Spec template)) = Some ref}
     \<union> {(skr_Name ref, keys) |ref keys. registryCredentialRequired project template \<and> credential_ref project = Some ref
          \<and> keys \<noteq> [] \<and> set keys \<subseteq> (if skr_Key ref \<noteq> '''' then {skr_Key ref}
             else set credential_keys)}"

text \<open>A credential that was found gives keys to mount: the volume never falls back to the whole Secret.\<close>

definition mountable :: "Project \<Rightarrow> PipelineTemplate \<Rightarrow> string list \<Rightarrow> bool" where
  "mountable project template keys \<longleftrightarrow> registryCredentialRequired project template \<longrightarrow>
     (\<exists>ref. credential_ref project = Some ref \<and> (skr_Key ref \<noteq> '''' \<or> keys \<noteq> []
        \<and> set keys \<subseteq> set credential_keys))"

lemma ParseCredential_empty: "ParseCredential cx Map.empty = Inl Registry.ErrCredentialsMissing"
  by (simp add: ParseCredential_def Credential_Empty_def TrimSpace_def TrimFunc_def TrimLeftFunc_def TrimRightFunc_def)

lemma optional_keys_found:
  assumes "select_keys p ref data = Inr resolved" and "sr_Keys ref = []" and "\<not> sr_AllowAll ref"
  shows "set (rsv_Keys resolved) \<subseteq> set (sr_OptionalKeys ref)"
    and "rsv_Keys resolved = [] \<Longrightarrow> rsv_Values resolved = Map.empty"
proof -
  obtain ks vals where o: "optional_values data [] Map.empty (sr_OptionalKeys ref) = (ks, vals)" by fastforce
  have r: "rsv_Keys resolved = ks" "rsv_Values resolved = vals"
    using assms o by (auto simp: select_keys_def Let_def)
  note spec = optional_values_spec [OF o]
  show "set (rsv_Keys resolved) \<subseteq> set (sr_OptionalKeys ref)" using spec r by auto
  assume "rsv_Keys resolved = []"
  then have "\<And>k. k \<in> set (sr_OptionalKeys ref) \<Longrightarrow> map_of data k = None" using spec r by auto
  then show "rsv_Values resolved = Map.empty" using spec r by auto
qed

lemma check_resolved_mountable:
  assumes "check_resolved d ns ref (select_keys p (registry_secret_ref ns ref) data) = Inr keys" and "skr_Key ref = ''''"
  shows "keys \<noteq> [] \<and> set keys \<subseteq> set credential_keys"
proof -
  obtain resolved where s: "select_keys p (registry_secret_ref ns ref) data = Inr resolved"
    and c: "ParseCredential (jx_codec d) (rsv_Values resolved) \<noteq> Inl Registry.ErrCredentialsMissing"
    and k: "keys = rsv_Keys resolved"
    using assms by (auto simp: check_resolved_def registry_data_def split: sum.splits if_splits)
  show ?thesis
    using optional_keys_found [OF s] c assms(2) unfolding k
    by (auto simp: registry_secret_ref_def ParseCredential_empty)
qed

lemma validated_mountable:
  assumes "jx_Secrets d = None"
  shows "wp (validateRegistryCredentials d req)
    (\<lambda>r t. \<forall>keys. r = Inr keys \<longrightarrow> mountable (req_Project req) (req_Template req) keys) s"
proof (cases "credential_ref (req_Project req)")
  case None
  then show ?thesis by (simp add: validateRegistryCredentials_def Let_def wp_simps mountable_def)
next
  case (Some ref)
  have refused: "check_resolved d ns ref (Inl err) \<noteq> Inr keys" for ns err keys
    by (simp add: check_resolved_def)
  show ?thesis
    using assms
    by (auto dest: check_resolved_mountable simp: validateRegistryCredentials_def Let_def wp_simps mountable_def resolve_secret_def Resolve_def
        refused Some split: sum.splits)
qed



definition run_key :: "EnsureRunRequest \<Rightarrow> NamespacedName" where
  "run_key req = \<lparr>key_Namespace = meta_Namespace (br_Meta (req_BuildRun req)),
     key_Name = job_NameForBuildRun (meta_Name (br_Meta (req_BuildRun req)))\<rparr>"

lemma only_Resolve: "only E (Resolve p ref)"
  unfolding Resolve_def by (intro only_intros)

lemma only_validate: "only E (validateRegistryCredentials d req)"
  unfolding validateRegistryCredentials_def resolve_secret_def by (intro only_Resolve only_intros)

lemma built_hardened: "hardened_job (job_Spec (buildJobWithRegistryKeys d b project repository template keys))"
  by (simp add: buildJobWithRegistryKeys_def hardened_job_def runner_pod_def hardened_container_def Let_def
      defaultBackoffLimit_def defaultActiveDeadlineSeconds_def)

lemma built_secrets:
  assumes "mountable project template keys"
  shows "secret_volumes (js_Pod (job_Spec (buildJobWithRegistryKeys d b project repository template keys)))
    \<subseteq> allowed_secrets project template"
proof
  fix x assume "x \<in> secret_volumes (js_Pod (job_Spec (buildJobWithRegistryKeys d b project repository template keys)))"
  then obtain name items mode where x: "x = (name, map ktp_Key items)"
    and v: "SecretVolume name items mode \<in> vol_Source ` fst ` set (job_volumes d project template keys)"
    unfolding secret_volumes_def buildJobWithRegistryKeys_def runner_pod_def Let_def
    by (simp add: image_image) blast
  from v consider (signing) "SecretVolume name items mode \<in> vol_Source ` fst ` set (signing_volume template)"
    | (registry) "SecretVolume name items mode \<in> vol_Source ` fst ` set (registry_volume project template keys)"
    by (auto simp: job_volumes_def claim_volume_def volume_def split: if_splits)
  then show "x \<in> allowed_secrets project template"
  proof cases
    case signing
    then show ?thesis using x
      by (auto simp: signing_volume_def volume_def allowed_secrets_def split: option.splits)
  next
    case registry
    then obtain ref where r: "registryCredentialRequired project template" "credential_ref project = Some ref"
      and n: "name = skr_Name ref" "items = registry_items ref keys"
      by (auto simp: registry_volume_def volume_def split: option.splits if_splits)
    show ?thesis
      using assms r unfolding x n
      by (auto simp: allowed_secrets_def registry_items_def mountable_def comp_def)
  qed
qed

lemma built_key: "object_key (job_Meta (buildJobWithRegistryKeys d (req_BuildRun req) project repository template keys))
    = run_key req"
  by (simp add: buildJobWithRegistryKeys_def object_key_def run_key_def Let_def)

lemma only_create_job:
  assumes "mountable (req_Project req) (req_Template req) keys"
  shows "only {JobCreated job |job. object_key (job_Meta job) = run_key req \<and> hardened_job (job_Spec job)
      \<and> secret_volumes (js_Pod (job_Spec job)) \<subseteq> allowed_secrets (req_Project req) (req_Template req)} (create_job d req key keys)"
  unfolding create_job_def Let_def
  by (intro only_intros) (simp add: built_key built_hardened built_secrets [OF assms] del: subset_iff)

text \<open>
  C12: whatever the cluster answers and whatever template a build names, the only object that ensuring
  its run creates is the Job of that build, and the Job's pod is confined: every container runs as
  non-root, unprivileged, without privilege escalation and with all capabilities dropped, under the
  default seccomp profile, for a bounded time and without retries; the Secrets it mounts are the
  signing key of the template and, only for a pushing build, named keys of the project's registry
  credential - never a whole Secret. With the built-in secret provider.
\<close>

theorem EnsureRun_creates_hardened_jobs:
  assumes "jx_Secrets d = None"
  shows "only {JobCreated job |job. object_key (job_Meta job) = run_key req \<and> hardened_job (job_Spec job)
      \<and> secret_volumes (js_Pod (job_Spec job)) \<subseteq> allowed_secrets (req_Project req) (req_Template req)} (job_EnsureRun d req)"
proof -
  note validated = only_check_wp [OF only_validate validated_mountable [OF assms]]
  show ?thesis
    unfolding job_EnsureRun_def
    by (intro validated only_create_job only_intros)
qed

section \<open>The contract of an executor\<close>

definition job_created :: "job_effect \<Rightarrow> NamespacedName option" where
  "job_created e = (case e of JobCreated job \<Rightarrow> Some (object_key (job_Meta job)) | JobDeleted key \<Rightarrow> None)"

lemma EnsureRun_ref:
  "wp (job_EnsureRun d req) (\<lambda>r t. \<forall>ref. r = Inr ref \<longrightarrow> ref = \<lparr>ref_Kind = ''Job'',
     ref_Name = job_NameForBuildRun (meta_Name (br_Meta (req_BuildRun req))),
     ref_Namespace = meta_Namespace (br_Meta (req_BuildRun req))\<rparr>) s"
proof -
  let ?key = "\<lparr>key_Namespace = meta_Namespace (br_Meta (req_BuildRun req)),
    key_Name = job_NameForBuildRun (meta_Name (br_Meta (req_BuildRun req)))\<rparr>"
  have "wp (create_job d req ?key keys) (\<lambda>r t. \<forall>ref. r = Inr ref \<longrightarrow> ref = job_ref ?key) u" for keys u
    by (auto simp: create_job_def Let_def wp_simps split: sum.split option.split)
  then show ?thesis
    by (auto simp: job_EnsureRun_def wp_simps Let_def job_ref_def split: option.split sum.split intro!: wp_any)
qed



lemma EnsureRun_creates_run_only: "only {e. job_created e = Some (run_key req)} (job_EnsureRun d req)"
proof -
  have "only {e. job_created e = Some (run_key req)} (create_job d req key keys)" for key keys
    unfolding create_job_def Let_def by (intro only_intros) (simp add: job_created_def built_key)
  then show ?thesis
    unfolding job_EnsureRun_def by (intro only_validate only_intros)
qed

interpretation job_executor: run_executor "''Job''" job_NameForBuildRun "job_EnsureRun d" job_created
  for d :: "'w job_deps"
  by unfold_locales (rule EnsureRun_ref, rule EnsureRun_creates_run_only [unfolded run_key_def])


section \<open>Names of Jobs\<close>

text \<open>
  the name of a build's Job has at most 63 characters. Builds with names of at most 56 characters
  have the same Job only if their names agree in lower case; builds whose names agree in
  the first 63 characters share one Job, and the Job of a build whose name has exactly 62 characters
  ends in a hyphen, which is not a Kubernetes name.
\<close>

theorem job_name_identifies_build:
  "length (job_NameForBuildRun a) \<le> 63
   \<and> (length a \<le> 56 \<and> length b \<le> 56 \<longrightarrow> (job_NameForBuildRun a = job_NameForBuildRun b \<longleftrightarrow> ToLower a = ToLower b))
   \<and> (63 \<le> length a \<and> 63 \<le> length b \<longrightarrow>
       (job_NameForBuildRun a = job_NameForBuildRun b \<longleftrightarrow> take 63 (ToLower a) = take 63 (ToLower b)))
   \<and> (length a = 62 \<longrightarrow> last (job_NameForBuildRun a) = CHR ''-'')"
proof -
  have "last (label_prefix (ToLower a @ ''-runner'')) = CHR ''-''" if "length a = 62"
    by (subst last_label_prefix) (use that in \<open>auto simp: ToLower_def nth_append\<close>)
  then show ?thesis
    using label_prefix_inj [of "ToLower a" "''-runner''" "ToLower b"]
    by (auto simp: job_NameForBuildRun_def label_prefix_length label_prefix_def ToLower_def)
qed

theorem job_name_identifies_build_witness:
  "job_NameForBuildRun ''nightly-1'' \<noteq> job_NameForBuildRun ''nightly-2''
   \<and> last (job_NameForBuildRun (replicate 62 CHR ''n'')) = CHR ''-''
   \<and> job_NameForBuildRun (replicate 63 CHR ''n'' @ ''1'') = job_NameForBuildRun (replicate 63 CHR ''n'' @ ''2'')"
proof -
  have "ToLower ''nightly-1'' \<noteq> ToLower ''nightly-2''" by code_simp
  then have "job_NameForBuildRun ''nightly-1'' \<noteq> job_NameForBuildRun ''nightly-2''"
    using job_name_identifies_build [of "''nightly-1''" "''nightly-2''"] by simp
  moreover have "last (job_NameForBuildRun (replicate 62 CHR ''n'')) = CHR ''-''"
    using job_name_identifies_build [of "replicate 62 CHR ''n''" "[]"] by simp
  moreover have "job_NameForBuildRun (replicate 63 CHR ''n'' @ ''1'') = job_NameForBuildRun (replicate 63 CHR ''n'' @ ''2'')"
    using job_name_identifies_build [of "replicate 63 CHR ''n'' @ ''1''" "replicate 63 CHR ''n'' @ ''2''"]
    by (simp add: ToLower_def)
  ultimately show ?thesis by simp
qed

text \<open>Two builds with short names never create each other's Job.\<close>

lemma short_builds_have_own_jobs:
  assumes "e \<in> set (exec_trace (job_EnsureRun d req) w)" and "e \<in> set (exec_trace (job_EnsureRun d req') w')"
    and "length (meta_Name (br_Meta (req_BuildRun req))) \<le> 56" and "length (meta_Name (br_Meta (req_BuildRun req'))) \<le> 56"
  shows "ToLower (meta_Name (br_Meta (req_BuildRun req))) = ToLower (meta_Name (br_Meta (req_BuildRun req')))"
  using job_executor.disjoint_runs(1) [OF assms(1,2)] assms(3,4)
    label_prefix_inj [of "ToLower (meta_Name (br_Meta (req_BuildRun req)))" "''-runner''"
      "ToLower (meta_Name (br_Meta (req_BuildRun req')))"]
  by (simp add: job_NameForBuildRun_def ToLower_def)


section \<open>A pushing build\<close>

definition sample_codec :: "unit registry_codec" where
  "sample_codec = \<lparr>rc_AuthNames = (\<lambda>s. Inr [s]), rc_Auths = (\<lambda>s. Inr []), rc_EncodeAuths = (\<lambda>r a u p. Inr a),
     rc_Base64 = (\<lambda>s. s), rc_IsBase64 = (\<lambda>s. True), rc_URLHost = (\<lambda>s. Some s), rc_Do = (\<lambda>q w. (Inr (200, ''''), w))\<rparr>"

definition empty_job_cluster :: "unit job_deps" where
  "empty_job_cluster =
     \<lparr>jx_GetJob = (\<lambda>k w. (Inl (GoError ''not found'' [NotFound]), w)), jx_CreateJob = (\<lambda>j w. (None, w)),
      jx_DeleteJob = (\<lambda>j w. (None, w)),
      jx_GetSecret = (\<lambda>k w. (Inr [(''token'', ''t''), (''other'', ''o'')], w)), jx_Secrets = None,
      jx_SetControllerReference = (\<lambda>b j. Inr (meta_Name (br_Meta b))), jx_Getenv = (\<lambda>k. ''''),
      jx_ParseQuantity = (\<lambda>s. None), jx_codec = sample_codec\<rparr>"

definition pushing_request :: EnsureRunRequest where
  "pushing_request =
     \<lparr>req_BuildRun = BuildRun_zero\<lparr>br_Meta := ObjectMeta_zero\<lparr>meta_Name := ''b'', meta_Namespace := ''ci''\<rparr>\<rparr>,
      req_Project = Project_zero\<lparr>proj_Spec := ProjectSpec_zero\<lparr>prs_Registry := Some (ProjectRegistrySpec_zero
        \<lparr>reg_Provider := RegistryProviderGHCR, reg_CredentialSecretRef := Some \<lparr>skr_Name = ''registry'', skr_Key = ''''\<rparr>\<rparr>)\<rparr>\<rparr>,
      req_Repository = Repository_zero,
      req_Template = PipelineTemplate_zero\<lparr>pt_Spec := PipelineTemplateSpec_zero\<lparr>
        pts_Build := PipelineBuildSpec_zero\<lparr>bld_Enabled := True, bld_Push := True\<rparr>\<rparr>\<rparr>\<rparr>"

definition pushing_job :: Job where
  "pushing_job = (buildJobWithRegistryKeys empty_job_cluster (req_BuildRun pushing_request) (req_Project pushing_request)
     (req_Repository pushing_request) (req_Template pushing_request) [''token''])\<lparr>job_Owner := Some ''b''\<rparr>"

lemma pushing_validated:
  "run_state (validateRegistryCredentials empty_job_cluster pushing_request) s = (Inr [''token''], s)"
proof -
  let ?ref = "\<lparr>skr_Name = ''registry'', skr_Key = ''''\<rparr>"
  have r: "registryCredentialRequired (req_Project pushing_request) (req_Template pushing_request)" by code_simp
  have c: "credential_ref (req_Project pushing_request) = Some ?ref" by code_simp
  have n: "meta_Namespace (br_Meta (req_BuildRun pushing_request)) = ''ci''" by code_simp
  have sel: "check_resolved empty_job_cluster ''ci'' ?ref (select_keys
      \<lparr>kp_GetSecret = Some (jx_GetSecret empty_job_cluster), kp_AllowedNamespaces = [''ci''], kp_AllowAllKeys = False\<rparr>
      (registry_secret_ref ''ci'' ?ref) [(''token'', ''t''), (''other'', ''o'')]) = Inr [''token'']" by code_simp
  have ref: "sr_Namespace (registry_secret_ref ''ci'' ?ref) = ''ci''" "sr_Name (registry_secret_ref ''ci'' ?ref) = ''registry''"
    "sr_OptionalKeys (registry_secret_ref ''ci'' ?ref) \<noteq> []" "jx_Secrets empty_job_cluster = None" by code_simp+
  have get: "jx_GetSecret empty_job_cluster k w = (Inr [(''token'', ''t''), (''other'', ''o'')], w)" for k w
    by (simp add: empty_job_cluster_def)
  show ?thesis
    using sel ref by (cases s) (simp add: validateRegistryCredentials_def r c n Let_def resolve_secret_def Resolve_def run_query get)
qed

theorem EnsureRun_creates_hardened_jobs_witness:
  "exec_trace (job_EnsureRun empty_job_cluster pushing_request) () = [JobCreated pushing_job]
   \<and> hardened_job (job_Spec pushing_job)
   \<and> secret_volumes (js_Pod (job_Spec pushing_job)) \<subseteq> allowed_secrets (req_Project pushing_request) (req_Template pushing_request)"
proof -
  have start: "job_validateRequest pushing_request = None" "\<not> sec_AllowPrivileged (pts_Security (pt_Spec (req_Template pushing_request)))"
    "jx_SetControllerReference empty_job_cluster (req_BuildRun pushing_request) job = Inr ''b''" for job
    by (simp_all add: job_validateRequest_def pushing_request_def BuildRun_zero_def PipelineTemplate_zero_def
        PipelineTemplateSpec_zero_def PipelineSecuritySpec_zero_def empty_job_cluster_def)
  have ops: "jx_GetJob empty_job_cluster k w = (Inl (GoError ''not found'' [NotFound]), w)"
    "jx_CreateJob empty_job_cluster j w = (None, w)" for k j w
    by (simp_all add: empty_job_cluster_def)
  have trace: "exec_trace (job_EnsureRun empty_job_cluster pushing_request) () = [JobCreated pushing_job]"
    unfolding exec_trace_def job_EnsureRun_def create_job_def check_def
    by (simp add: start ops pushing_validated run_query run_call Let_def Prelude.start_def pushing_job_def)
  moreover have "jx_Secrets empty_job_cluster = None" by (simp add: empty_job_cluster_def)
  note only_exec [OF EnsureRun_creates_hardened_jobs [OF this], of pushing_request "()"]
  ultimately show ?thesis by (auto simp del: subset_iff)
qed

end
