(* ===== verification/BuildKit.thy ===== *)
theory BuildKit
  imports Registry
begin

text \<open>
  \<open>internal/build/buildkit.go\<close> and \<open>types.go\<close>: image builds with the BuildKit client. The file system,
  the processes and the JSON decoder are fields of \<open>buildkit_deps\<close>.
\<close>

section \<open>Requests and errors\<close>

record CacheConfig =
  bcc_Enabled :: bool
  bcc_Mode :: BuildCacheMode
  bcc_Ref :: string

record BuildRequest =
  bq_ContextDir :: string
  bq_Dockerfile :: string
  bq_ImageRepository :: string
  bq_ImageTag :: string
  bq_Push :: bool
  bq_BuildArgs :: strmap
  bq_Target :: string
  bq_Platforms :: "string list"
  bq_Labels :: strmap
  bq_Cache :: CacheConfig
  bq_Env :: strmap

record BuildResult =
  bres_ImageRepository :: string
  bres_Tag :: string
  bres_Digest :: string
  bres_SBOMPath :: string

definition ReasonBuildKitUnavailable :: string where "ReasonBuildKitUnavailable = ''BuildKitUnavailable''"
definition ReasonBuildInputInvalid :: string where "ReasonBuildInputInvalid = ''ImageBuildInputInvalid''"
definition ReasonBuildContextMissing :: string where "ReasonBuildContextMissing = ''ImageBuildContextMissing''"
definition ReasonDockerfileMissing :: string where "ReasonDockerfileMissing = ''ImageBuildDockerfileMissing''"
definition ReasonImageBuildFailed :: string where "ReasonImageBuildFailed = ''ImageBuildFailed''"
definition ReasonDigestCaptureFailed :: string where "ReasonDigestCaptureFailed = ''ImageDigestCaptureFailed''"
definition defaultBuildTimeout :: duration where "defaultBuildTimeout = minutes 30"
definition maxBuildKitDiagnosticBytes :: nat where "maxBuildKitDiagnosticBytes = 8192"

text \<open>\<open>&Error{Reason, Message}\<close>, without and with a wrapped error.\<close>

definition build_fault :: "string \<Rightarrow> string \<Rightarrow> go_error" where
  "build_fault reason message = GoError message [BuildError reason]"

definition build_error :: "string \<Rightarrow> string \<Rightarrow> go_error \<Rightarrow> go_error" where
  "build_error reason message err = GoError (message @ '': '' @ err_text err) (BuildError reason # err_tags err)"

fun first_build_error :: "error_tag list \<Rightarrow> string option" where
  "first_build_error [] = None"
| "first_build_error (t # ts) = (case t of BuildError reason \<Rightarrow> Some reason | _ \<Rightarrow> first_build_error ts)"

definition FailureReason :: "go_error \<Rightarrow> string" where
  "FailureReason err = (case first_build_error (err_tags err) of
     None \<Rightarrow> ReasonImageBuildFailed
   | Some reason \<Rightarrow> if reason \<noteq> '''' then reason else ReasonImageBuildFailed)"

definition ErrNotExist :: error_tag where "ErrNotExist = Sentinel ''os.ErrNotExist''"


section \<open>The outside world\<close>

datatype context_state = ContextLive | ContextDeadlineExceeded | ContextCanceled

record command_result =
  cmd_Output :: string
  cmd_Err :: "go_error option"
  cmd_Context :: context_state

datatype buildkit_effect =
    BuildKitStarted string "string list" "(string \<times> string) list"
  | MetadataFileCreated string
  | MetadataFileRemoved string

record 'w buildkit_deps =
  bx_Getwd :: "string result"
  bx_EvalSymlinks :: "string \<Rightarrow> 'w \<Rightarrow> string result \<times> 'w"
  bx_Stat :: "string \<Rightarrow> 'w \<Rightarrow> bool result \<times> 'w"
  bx_LookPath :: "string \<Rightarrow> 'w \<Rightarrow> string result \<times> 'w"
  bx_CreateTemp :: "'w \<Rightarrow> string result \<times> 'w"
  bx_Close :: "string \<Rightarrow> 'w \<Rightarrow> go_error option \<times> 'w"
  bx_Remove :: "string \<Rightarrow> 'w \<Rightarrow> unit \<times> 'w"
  bx_Run :: "string \<Rightarrow> string list \<Rightarrow> (string \<times> string) list \<Rightarrow> duration \<Rightarrow> 'w \<Rightarrow> command_result \<times> 'w"
  bx_ReadFile :: "string \<Rightarrow> 'w \<Rightarrow> string result \<times> 'w"
  bx_Metadata :: "string \<Rightarrow> (string \<rightharpoonup> string) result"
  bx_String :: "string \<Rightarrow> string result"
  bx_DescriptorDigest :: "string \<Rightarrow> string result"

type_synonym ('w, 'a) build_io = "('w, buildkit_effect, 'a) io"

record BuildKitBuilder =
  bkb_Timeout :: duration
  bkb_Binary :: string


section \<open>Paths\<close>

definition Abs_path :: "'w buildkit_deps \<Rightarrow> string \<Rightarrow> string result" where
  "Abs_path d p = (if IsAbs p then Inr (Clean p)
     else (case bx_Getwd d of Inl err \<Rightarrow> Inl err | Inr wd \<Rightarrow> Inr (FilepathJoin [wd, p])))"

definition outside :: "string \<Rightarrow> bool" where
  "outside relative \<longleftrightarrow> relative = ''..'' \<or> HasPrefix relative ''../''"

text \<open>\<open>relative, err := filepath.Rel(base, p)\<close> with the test for an error or a path that leads out.\<close>

definition rel_inside :: "string \<Rightarrow> string \<Rightarrow> string option" where
  "rel_inside base p = (case Rel base p of Inl err \<Rightarrow> None | Inr relative \<Rightarrow> if outside relative then None else Some relative)"

text \<open>A failed call of \<open>os.Stat\<close>: a path that does not exist has an error of its own.\<close>

definition stat_error :: "go_error \<Rightarrow> go_error \<Rightarrow> string \<Rightarrow> go_error" where
  "stat_error missing err inspect = (if errors_Is err ErrNotExist then missing else build_error ReasonBuildInputInvalid inspect err)"

definition invalid_on_error :: "string \<Rightarrow> ('w, 'a result) build_io \<Rightarrow> ('w, 'a result) build_io" where
  "invalid_on_error message m = do {
     r \<leftarrow> m;
     State_Monad.return (case r of Inl err \<Rightarrow> Inl (build_error ReasonBuildInputInvalid message err) | Inr a \<Rightarrow> Inr a)
   }"

definition ResolveContextDir :: "'w buildkit_deps \<Rightarrow> string \<Rightarrow> string \<Rightarrow> ('w, string result) build_io" where
  "ResolveContextDir d sourceDir configured =
     (let configured = (if configured = '''' then ''.'' else configured);
          invalid = (\<lambda>message. fail (build_fault ReasonBuildInputInvalid message)) in
      if IsAbs configured then invalid ''build context directory must be relative to the cloned repository''
      else let cleaned = Clean configured in
      if cleaned = ''..'' \<or> HasPrefix cleaned ''../''
      then invalid ''build context directory must stay within the cloned repository''
      else (case Abs_path d sourceDir of
          Inl err \<Rightarrow> fail (build_error ReasonBuildInputInvalid ''resolve cloned repository directory'' err)
        | Inr root \<Rightarrow>
            check (invalid_on_error ''resolve cloned repository directory'' (query (bx_EvalSymlinks d root))) (\<lambda>root.
            let candidate = FilepathJoin [root, cleaned] in do {
              info \<leftarrow> query (bx_Stat d candidate);
              case info of
                Inl err \<Rightarrow> fail (stat_error
                  (build_fault ReasonBuildContextMissing (''build context directory '' @ quote configured @ '' does not exist''))
                  err (''inspect build context directory '' @ quote configured))
              | Inr _ \<Rightarrow>
                  check (invalid_on_error (''resolve build context directory '' @ quote configured)
                      (query (bx_EvalSymlinks d candidate))) (\<lambda>resolved.
                    if rel_inside root resolved = None
                    then invalid ''build context directory symlink must stay within the cloned repository''
                    else ok resolved)
            })))"


section \<open>Validation\<close>

definition effective_mode :: "CacheConfig \<Rightarrow> BuildCacheMode" where
  "effective_mode cache = (if bcc_Mode cache = BuildCacheModeUnset then BuildCacheModeInline else bcc_Mode cache)"

fun cache_mode_string :: "BuildCacheMode \<Rightarrow> string" where
  "cache_mode_string BuildCacheModeUnset = ''''"
| "cache_mode_string BuildCacheModeInline = ''inline''"
| "cache_mode_string BuildCacheModeRegistry = ''registry''"
| "cache_mode_string BuildCacheModeLocal = ''local''"
| "cache_mode_string (BuildCacheModeOther s) = s"

definition validateCache :: "CacheConfig \<Rightarrow> go_error option" where
  "validateCache cache =
     (if \<not> bcc_Enabled cache then None
      else let mode = effective_mode cache in
      if mode = BuildCacheModeInline then None
      else if mode = BuildCacheModeRegistry \<or> mode = BuildCacheModeLocal then
        (if TrimSpace (bcc_Ref cache) = ''''
         then Some (build_fault ReasonBuildInputInvalid (''BuildKit '' @ cache_mode_string mode @ '' cache requires a ref''))
         else None)
      else Some (build_fault ReasonBuildInputInvalid
        (''unsupported BuildKit cache mode '' @ quote (cache_mode_string (bcc_Mode cache)))))"

text \<open>The checks of the Dockerfile, which end with its path relative to the resolved context.\<close>

definition validate_dockerfile :: "'w buildkit_deps \<Rightarrow> string \<Rightarrow> string \<Rightarrow> ('w, string result) build_io" where
  "validate_dockerfile d contextDir dockerfile =
     (let invalid = (\<lambda>message. fail (build_fault ReasonBuildInputInvalid message)) in
      if IsAbs dockerfile then invalid ''Dockerfile path must be relative to the build context''
      else let dockerfilePath = Clean (FilepathJoin [contextDir, dockerfile]) in
      if rel_inside contextDir dockerfilePath = None then invalid ''Dockerfile path must stay within the build context''
      else do {
        info \<leftarrow> query (bx_Stat d dockerfilePath);
        case info of
          Inl err \<Rightarrow> fail (stat_error
            (build_fault ReasonDockerfileMissing (''Dockerfile '' @ quote dockerfile @ '' does not exist in the build context''))
            err (''inspect Dockerfile '' @ quote dockerfile))
        | Inr isDir \<Rightarrow>
            if isDir then invalid (''Dockerfile '' @ quote dockerfile @ '' is a directory'')
            else check (invalid_on_error (''resolve Dockerfile '' @ quote dockerfile) (query (bx_EvalSymlinks d dockerfilePath)))
              (\<lambda>resolved. case rel_inside contextDir resolved of
                 None \<Rightarrow> invalid ''Dockerfile symlink must stay within the build context''
               | Some relative \<Rightarrow> ok relative)
      })"

definition validate_in :: "'w buildkit_deps \<Rightarrow> BuildRequest \<Rightarrow> string \<Rightarrow> ('w, BuildRequest result) build_io" where
  "validate_in d req contextDir =
     (let dockerfile = (if bq_Dockerfile req = '''' then ''Dockerfile'' else bq_Dockerfile req) in
      check (validate_dockerfile d contextDir dockerfile) (\<lambda>relative.
        case validateCache (bq_Cache req) of
          Some err \<Rightarrow> fail err
        | None \<Rightarrow> ok (req\<lparr>bq_ContextDir := contextDir, bq_Dockerfile := relative,
            bq_ImageTag := (if bq_ImageTag req = '''' then ''latest'' else bq_ImageTag req)\<rparr>)))"

definition validateBuildRequest :: "'w buildkit_deps \<Rightarrow> BuildRequest \<Rightarrow> ('w, BuildRequest result) build_io" where
  "validateBuildRequest d req =
     (let invalid = (\<lambda>message. fail (build_fault ReasonBuildInputInvalid message)) in
      if TrimSpace (bq_ImageRepository req) = '''' then invalid ''image repository is required''
      else let given = (if bq_ContextDir req = '''' then ''.'' else bq_ContextDir req) in
      case Abs_path d (Clean given) of
        Inl err \<Rightarrow> fail (build_error ReasonBuildInputInvalid ''resolve build context'' err)
      | Inr contextDir \<Rightarrow> do {
          info \<leftarrow> query (bx_Stat d contextDir);
          case info of
            Inl err \<Rightarrow> fail (stat_error
              (build_fault ReasonBuildContextMissing (''build context directory '' @ quote given @ '' does not exist''))
              err (''inspect build context directory '' @ quote given))
          | Inr isDir \<Rightarrow>
              if \<not> isDir then invalid (''build context '' @ quote given @ '' is not a directory'')
              else check (invalid_on_error (''resolve build context directory '' @ quote given)
                  (query (bx_EvalSymlinks d contextDir))) (validate_in d req)
        })"


section \<open>The command line\<close>

definition sortedKeys :: "strmap \<Rightarrow> string list" where
  "sortedKeys m = sorted_list_of_set (dom m)"

definition key_options :: "string \<Rightarrow> strmap \<Rightarrow> string list" where
  "key_options pre m = concat (map (\<lambda>key. [''--opt'', pre @ '':'' @ key @ ''='' @ map_index m key]) (sortedKeys m))"

definition cache_args :: "CacheConfig \<Rightarrow> string list" where
  "cache_args cache =
     (if \<not> bcc_Enabled cache then []
      else (case effective_mode cache of
          BuildCacheModeInline \<Rightarrow> [''--export-cache'', ''type=inline'']
        | BuildCacheModeRegistry \<Rightarrow> [''--import-cache'', ''type=registry,ref='' @ bcc_Ref cache,
            ''--export-cache'', ''type=registry,ref='' @ bcc_Ref cache @ '',mode=max'']
        | BuildCacheModeLocal \<Rightarrow> [''--import-cache'', ''type=local,src='' @ bcc_Ref cache,
            ''--export-cache'', ''type=local,dest='' @ bcc_Ref cache @ '',mode=max'']
        | _ \<Rightarrow> []))"

definition image_output :: "BuildRequest \<Rightarrow> string" where
  "image_output req = ''type=image,name='' @ bq_ImageRepository req @ '':'' @ bq_ImageTag req @ '',push='' @ FormatBool (bq_Push req)"

definition buildKitArgs :: "BuildRequest \<Rightarrow> string \<Rightarrow> string list result" where
  "buildKitArgs req metadataPath = (case validateCache (bq_Cache req) of
     Some err \<Rightarrow> Inl err
   | None \<Rightarrow>
       (let dockerfilePath = FilepathJoin [bq_ContextDir req, bq_Dockerfile req] in
        Inr ([''build'', ''--frontend'', ''dockerfile.v0'',
              ''--local'', ''context='' @ bq_ContextDir req,
              ''--local'', ''dockerfile='' @ filepath_Dir dockerfilePath,
              ''--opt'', ''filename='' @ filepath_Base dockerfilePath]
          @ key_options ''build-arg'' (bq_BuildArgs req)
          @ (if bq_Target req \<noteq> '''' then [''--opt'', ''target='' @ bq_Target req] else [])
          @ (if bq_Platforms req \<noteq> [] then [''--opt'', ''platform='' @ Join (bq_Platforms req) '',''] else [])
          @ key_options ''label'' (bq_Labels req)
          @ cache_args (bq_Cache req)
          @ [''--output'', image_output req, ''--metadata-file'', metadataPath])))"


section \<open>The build\<close>

fun find_binary :: "'w buildkit_deps \<Rightarrow> string list \<Rightarrow> ('w, string result) build_io" where
  "find_binary d [] = fail (build_fault ReasonBuildKitUnavailable
     (''BuildKit is not available: install buildctl or buildctl-daemonless.sh in the runner image; docker.sock and ''
      @ ''privileged Docker-in-Docker are not supported''))"
| "find_binary d (name # names) = do {
     r \<leftarrow> query (bx_LookPath d name);
     case r of Inr path \<Rightarrow> ok path | Inl _ \<Rightarrow> find_binary d names
   }"

definition findBuildKitBinary :: "'w buildkit_deps \<Rightarrow> ('w, string result) build_io" where
  "findBuildKitBinary d = find_binary d [''buildctl-daemonless.sh'', ''buildctl'']"

definition builder_binary :: "'w buildkit_deps \<Rightarrow> BuildKitBuilder \<Rightarrow> ('w, string result) build_io" where
  "builder_binary d b =
     (if bkb_Binary b = '''' then findBuildKitBinary d
      else do {
        r \<leftarrow> query (bx_LookPath d (bkb_Binary b));
        State_Monad.return (case r of
            Inr _ \<Rightarrow> Inr (bkb_Binary b)
          | Inl err \<Rightarrow> Inl (build_error ReasonBuildKitUnavailable
              (''BuildKit executable '' @ quote (bkb_Binary b) @ '' is not available'') err))
      })"

fun metadata_digest :: "'w buildkit_deps \<Rightarrow> (string \<rightharpoonup> string) \<Rightarrow> string list \<Rightarrow> string result" where
  "metadata_digest d metadata [] = Inr ''''"
| "metadata_digest d metadata (key # keys) = (case metadata key of
     None \<Rightarrow> metadata_digest d metadata keys
   | Some raw \<Rightarrow>
       (case (if key = ''containerimage.descriptor'' then bx_DescriptorDigest d raw else bx_String d raw) of
          Inl err \<Rightarrow> Inl (errorf_w (''parse '' @ key) err)
        | Inr digest \<Rightarrow>
            if digest = '''' then metadata_digest d metadata keys
            else if \<not> valid_digest digest
            then Inl (errors_New (''metadata contains invalid image digest '' @ quote digest))
            else Inr (ToLower digest)))"

definition readBuildKitDigest :: "'w buildkit_deps \<Rightarrow> string \<Rightarrow> ('w, string result) build_io" where
  "readBuildKitDigest d path = check (query (bx_ReadFile d path)) (\<lambda>data.
     if TrimSpace data = '''' then ok ''''
     else (case bx_Metadata d data of
         Inl err \<Rightarrow> fail (errorf_w ''parse metadata JSON'' err)
       | Inr metadata \<Rightarrow> State_Monad.return
           (metadata_digest d metadata [''containerimage.digest'', ''containerimage.descriptor''])))"

definition boundedDiagnostic :: "string \<Rightarrow> string" where
  "boundedDiagnostic message =
     (let message = TrimSpace message in
      if length message \<le> maxBuildKitDiagnosticBytes then message
      else take maxBuildKitDiagnosticBytes message @ ''... (truncated)'')"

text \<open>The error of a failed \<open>cmd.Run\<close>; the timeout's text is an argument of the format of durations.\<close>

definition run_error :: "command_result \<Rightarrow> string \<Rightarrow> go_error \<Rightarrow> go_error" where
  "run_error r timeout err = (case cmd_Context r of
     ContextDeadlineExceeded \<Rightarrow> build_error ReasonImageBuildFailed (''BuildKit build exceeded timeout '' @ timeout)
       (errors_New ''context deadline exceeded'')
   | ContextCanceled \<Rightarrow> build_error ReasonImageBuildFailed ''BuildKit build was cancelled'' (errors_New ''context canceled'')
   | ContextLive \<Rightarrow>
       (let diagnostic = boundedDiagnostic (cmd_Output r) in
        build_error ReasonImageBuildFailed
          (''BuildKit build failed'' @ (if diagnostic \<noteq> '''' then '': '' @ diagnostic else '''')) err))"

definition run_buildkit ::
  "'w buildkit_deps \<Rightarrow> BuildKitBuilder \<Rightarrow> (duration \<Rightarrow> string) \<Rightarrow> string \<Rightarrow> BuildRequest \<Rightarrow> string
     \<Rightarrow> ('w, BuildResult result) build_io" where
  "run_buildkit d b format binary validated metadataPath = (case buildKitArgs validated metadataPath of
     Inl err \<Rightarrow> fail err
   | Inr args \<Rightarrow>
       (let timeout = (if bkb_Timeout b \<le> 0 then defaultBuildTimeout else bkb_Timeout b);
            env = map (\<lambda>key. (key, map_index (bq_Env validated) key)) (sortedKeys (bq_Env validated)) in do {
          r \<leftarrow> call (BuildKitStarted binary args env) (bx_Run d binary args env timeout);
          case cmd_Err r of
            Some err \<Rightarrow> fail (run_error r (format timeout) err)
          | None \<Rightarrow> do {
              digest \<leftarrow> readBuildKitDigest d metadataPath;
              State_Monad.return (case digest of
                  Inl err \<Rightarrow> Inl (build_error ReasonDigestCaptureFailed ''capture image digest from BuildKit metadata'' err)
                | Inr digest \<Rightarrow>
                    if bq_Push validated \<and> digest = ''''
                    then Inl (build_fault ReasonDigestCaptureFailed
                      ''BuildKit pushed the image but returned no sha256 manifest digest'')
                    else Inr \<lparr>bres_ImageRepository = bq_ImageRepository validated, bres_Tag = bq_ImageTag validated,
                      bres_Digest = digest, bres_SBOMPath = ''''\<rparr>)
            }
        }))"

definition remove_metadata :: "'w buildkit_deps \<Rightarrow> string \<Rightarrow> ('w, unit) build_io" where
  "remove_metadata d path = call (MetadataFileRemoved path) (bx_Remove d path)"

definition build_with ::
  "'w buildkit_deps \<Rightarrow> BuildKitBuilder \<Rightarrow> (duration \<Rightarrow> string) \<Rightarrow> BuildRequest \<Rightarrow> string \<Rightarrow> string
     \<Rightarrow> ('w, BuildResult result) build_io" where
  "build_with d b format validated binary metadataPath = do {
     call (MetadataFileCreated metadataPath) (\<lambda>w. ((), w));
     closed \<leftarrow> query (bx_Close d metadataPath);
     r \<leftarrow> (case closed of
         Some err \<Rightarrow> fail (build_error ReasonImageBuildFailed ''close BuildKit metadata file'' err)
       | None \<Rightarrow> run_buildkit d b format binary validated metadataPath);
     remove_metadata d metadataPath;
     State_Monad.return r
   }"

definition Build ::
  "'w buildkit_deps \<Rightarrow> BuildKitBuilder \<Rightarrow> (duration \<Rightarrow> string) \<Rightarrow> BuildRequest \<Rightarrow> ('w, BuildResult result) build_io" where
  "Build d b format req =
     check (validateBuildRequest d req) (\<lambda>validated.
     check (builder_binary d b) (\<lambda>binary. do {
       temp \<leftarrow> query (bx_CreateTemp d);
       case temp of
         Inl err \<Rightarrow> fail (build_error ReasonImageBuildFailed ''create BuildKit metadata file'' err)
       | Inr metadataPath \<Rightarrow> build_with d b format validated binary metadataPath
     }))"


section \<open>Confinement\<close>

text \<open>What \<open>filepath.EvalSymlinks\<close> returns for an absolute path: an absolute path in cleaned form.\<close>

definition eval_spec :: "'w buildkit_deps \<Rightarrow> bool" where
  "eval_spec d \<longleftrightarrow> (\<forall>p w q. IsAbs p \<longrightarrow> fst (bx_EvalSymlinks d p w) = Inr q \<longrightarrow> clean_dir q \<and> IsAbs q)
     \<and> (\<forall>wd. bx_Getwd d = Inr wd \<longrightarrow> clean_dir wd \<and> IsAbs wd)"

lemma wp_invalid_on_error [wp_simps]:
  "wp (invalid_on_error msg m) Q s = wp m (\<lambda>r t. Q (case r of Inl err \<Rightarrow> Inl (build_error ReasonBuildInputInvalid msg err)
     | Inr a \<Rightarrow> Inr a) t) s"
  by (simp add: invalid_on_error_def wp_def split: prod.split)

lemma only_invalid_on_error [only_intros]: "only E m \<Longrightarrow> only E (invalid_on_error msg m)"
  unfolding invalid_on_error_def by (intro only_intros)

lemma rel_inside_below:
  assumes "rel_inside base p = Some rel" and "clean_dir base" and "clean_dir p" and "IsAbs p"
  shows "below base p" and "Rel base p = Inr rel"
  using assms Rel_below [of base p rel] by (auto simp: rel_inside_def outside_def split: sum.splits if_splits)

lemma Abs_path_absolute: "eval_spec d \<Longrightarrow> Abs_path d p = Inr q \<Longrightarrow> IsAbs q"
  by (auto simp: Abs_path_def eval_spec_def IsAbs_Clean Join_absolute split: if_splits sum.splits)

text \<open>
  the build context that a template configures lies inside the cloned repository: if its
  resolution succeeds, the resolved directory - symbolic links followed - is below the repository's
  own resolved directory. Absolute paths and paths that lead out by \<open>..\<close> are refused before the file
  system is asked.
\<close>

theorem ResolveContextDir_inside:
  assumes "eval_spec d"
  shows "wp (ResolveContextDir d sourceDir configured) (\<lambda>r t. \<forall>dir. r = Inr dir \<longrightarrow>
      (\<exists>root w w'. (\<exists>p. Abs_path d sourceDir = Inr p \<and> fst (bx_EvalSymlinks d p w) = Inr root)
         \<and> (\<exists>q. fst (bx_EvalSymlinks d q w') = Inr dir) \<and> below root dir)) s
    \<and> ((IsAbs configured \<or> escapes (Clean configured)) \<and> configured \<noteq> '''' \<longrightarrow>
        ResolveContextDir d sourceDir configured = fail (build_fault ReasonBuildInputInvalid
          (if IsAbs configured then ''build context directory must be relative to the cloned repository''
           else ''build context directory must stay within the cloned repository'')))"
proof
  let ?configured = "if configured = '''' then ''.'' else configured"
  have inside: "below root dir" if "rel_inside root dir \<noteq> None" "fst (bx_EvalSymlinks d p w) = Inr root"
      "fst (bx_EvalSymlinks d q w') = Inr dir" "IsAbs p" "IsAbs q" for root dir p q w w'
    using that assms rel_inside_below(1) unfolding eval_spec_def by blast
  show "wp (ResolveContextDir d sourceDir configured) (\<lambda>r t. \<forall>dir. r = Inr dir \<longrightarrow>
      (\<exists>root w w'. (\<exists>p. Abs_path d sourceDir = Inr p \<and> fst (bx_EvalSymlinks d p w) = Inr root)
         \<and> (\<exists>q. fst (bx_EvalSymlinks d q w') = Inr dir) \<and> below root dir)) s"
  proof (cases "Abs_path d sourceDir")
    case (Inl err)
    then show ?thesis by (simp add: ResolveContextDir_def Let_def wp_simps)
  next
    case (Inr p)
    have p: "IsAbs p" by (rule Abs_path_absolute [OF assms Inr])
    have q: "IsAbs (FilepathJoin [root, c])" if "fst (bx_EvalSymlinks d p w) = Inr root" for root c w
      using that p assms Join_absolute unfolding eval_spec_def by blast
    show ?thesis
      by (auto simp: ResolveContextDir_def Let_def wp_simps Inr split: sum.split)
         (metis inside [OF _ _ _ p q] option.distinct(1))+
  qed
  show "(IsAbs configured \<or> escapes (Clean configured)) \<and> configured \<noteq> '''' \<longrightarrow>
        ResolveContextDir d sourceDir configured = fail (build_fault ReasonBuildInputInvalid
          (if IsAbs configured then ''build context directory must be relative to the cloned repository''
           else ''build context directory must stay within the cloned repository''))"
    by (auto simp: ResolveContextDir_def Let_def escapes_def IsAbs_Clean)
qed


section \<open>What a build runs and returns\<close>

text \<open>The relative path that \<open>Rel\<close> gives leads back to the file.\<close>

lemma Rel_Join:
  assumes "rel_inside base p = Some rel" and "clean_dir base" and "clean_dir p" and "IsAbs base" and "IsAbs p"
  shows "elements (FilepathJoin [base, rel]) = elements p" and "below base (FilepathJoin [base, rel])"
proof -
  note b = rel_inside_below [OF assms(1-3,5)]
  obtain es where es: "elements p = elements base @ es" "''..'' \<notin> set es" "list_all proper es" "rel = from_elements False es"
    using Rel_elements [OF b(2,1) assms(2-5)] by blast
  note plain = from_plain [OF es(3,2)]
  have c: "Clean rel = rel" using plain(3) es
    by (simp add: Clean_def elements_from clean_plain)
  have "\<not> escapes (Clean rel)" unfolding c using plain by (simp add: es(4) escapes_def)
  note j = Join_inside(1) [OF assms(2) this]
  have "elements (FilepathJoin [base, rel]) = elements base @ es"
    using j unfolding c unfolding es(4) by (simp only: elements_from [OF es(3)])
  then show "elements (FilepathJoin [base, rel]) = elements p" "below base (FilepathJoin [base, rel])"
    using es by (auto simp: below_def)
qed

text \<open>A validated request: the requested image, with the Dockerfile inside the resolved context.\<close>

definition requested :: "BuildRequest \<Rightarrow> BuildRequest \<Rightarrow> bool" where
  "requested req v \<longleftrightarrow> v = req\<lparr>bq_ContextDir := bq_ContextDir v, bq_Dockerfile := bq_Dockerfile v,
     bq_ImageTag := (if bq_ImageTag req = '''' then ''latest'' else bq_ImageTag req)\<rparr>"

definition confined :: "BuildRequest \<Rightarrow> BuildRequest \<Rightarrow> bool" where
  "confined req v \<longleftrightarrow> clean_dir (bq_ContextDir v) \<and> IsAbs (bq_ContextDir v)
     \<and> below (bq_ContextDir v) (FilepathJoin [bq_ContextDir v, bq_Dockerfile v]) \<and> requested req v"

lemma wp_validate_dockerfile:
  assumes "eval_spec d" and "clean_dir dir" and "IsAbs dir"
  shows "wp (validate_dockerfile d dir dockerfile)
    (\<lambda>r t. trace t = trace s \<and> (\<forall>rel. r = Inr rel \<longrightarrow> below dir (FilepathJoin [dir, rel]))) s"
proof -
  let ?path = "Clean (FilepathJoin [dir, dockerfile])"
  have path: "IsAbs ?path" using Join_absolute [OF assms(3)] by (simp add: IsAbs_Clean)
  have "below dir (FilepathJoin [dir, rel])"
    if "rel_inside dir q = Some rel" "fst (bx_EvalSymlinks d ?path w) = Inr q" for q rel w
    using that(2) path assms(1) Rel_Join(2) [OF that(1) assms(2) _ assms(3)] unfolding eval_spec_def by blast
  then show ?thesis
    by (auto simp: validate_dockerfile_def Let_def wp_simps split: sum.split option.split)
qed

lemma wp_validateBuildRequest:
  assumes "eval_spec d"
  shows "wp (validateBuildRequest d req) (\<lambda>r t. trace t = trace s \<and> (\<forall>v. r = Inr v \<longrightarrow> confined req v)) s"
proof -
  let ?given = "if bq_ContextDir req = '''' then ''.'' else bq_ContextDir req"
  show ?thesis
  proof (cases "Abs_path d (Clean ?given)")
    case (Inl err)
    then show ?thesis by (simp add: validateBuildRequest_def Let_def wp_simps)
  next
    case (Inr p)
    have p: "IsAbs p" by (rule Abs_path_absolute [OF assms Inr])
    have "wp (validate_in d req dir) (\<lambda>r t. trace t = trace s \<and> (\<forall>v. r = Inr v \<longrightarrow> confined req v)) u"
      if "fst (bx_EvalSymlinks d p w) = Inr dir" "trace u = trace s" for dir u w
    proof -
      have dir: "clean_dir dir" "IsAbs dir" using that(1) p assms unfolding eval_spec_def by blast+
      show ?thesis
        unfolding validate_in_def Let_def
        by (rule wp_checkI [OF wp_validate_dockerfile [OF assms dir]])
          (use that(2) dir in \<open>auto simp: wp_simps confined_def requested_def split: option.split\<close>)
    qed
    then show ?thesis
      by (auto simp: validateBuildRequest_def Let_def wp_simps Inr split: sum.split)
  qed
qed

lemma metadata_digest_valid:
  "metadata_digest d metadata keys = Inr digest \<Longrightarrow> digest = '''' \<or> valid_digest (ToLower digest) \<and> ToLower digest = digest"
proof (induction keys)
  case (Cons key keys)
  have lower: "valid_digest (ToLower x)" if "valid_digest x" for x
  proof -
    have "is_hex (lower c)" if "is_hex c" for c
      using that by (auto simp: is_hex_def byte_lower is_upper_def is_digit_def)
    moreover have "x = ''sha256:'' @ drop 7 x"
      using that by (auto simp: valid_digest_def HasPrefix_def prefix_def)
    then have "ToLower x = ToLower ''sha256:'' @ ToLower (drop 7 x)" by (metis ToLower_def map_append)
    moreover have "ToLower ''sha256:'' = ''sha256:''" by code_simp
    ultimately show ?thesis
      using that by (auto simp: valid_digest_def HasPrefix_def ToLower_def drop_map list_all_iff)
  qed
  have idem: "ToLower (ToLower x) = ToLower x" for x by (simp add: ToLower_def)
  show ?case
    using Cons lower by (auto simp: idem split: option.splits sum.splits if_splits)
qed simp

definition pinned :: "BuildRequest \<Rightarrow> BuildResult \<Rightarrow> bool" where
  "pinned req res \<longleftrightarrow> bres_ImageRepository res = bq_ImageRepository req
     \<and> bres_Tag res = (if bq_ImageTag req = '''' then ''latest'' else bq_ImageTag req)
     \<and> (bres_Digest res = '''' \<or> valid_digest (bres_Digest res)) \<and> (bq_Push req \<longrightarrow> valid_digest (bres_Digest res))"

definition build_trace :: "BuildRequest \<Rightarrow> buildkit_effect list \<Rightarrow> bool" where
  "build_trace req new \<longleftrightarrow> new = [] \<or> (\<exists>path mid. new = MetadataFileCreated path # mid @ [MetadataFileRemoved path]
     \<and> (mid = [] \<or> (\<exists>binary args env v. mid = [BuildKitStarted binary args env] \<and> buildKitArgs v path = Inr args \<and> confined req v)))"

lemma wp_readBuildKitDigest:
  "wp (readBuildKitDigest d path) (\<lambda>r t. trace t = trace s
     \<and> (\<forall>digest. r = Inr digest \<longrightarrow> digest = '''' \<or> valid_digest digest)) s"
  by (auto simp: readBuildKitDigest_def wp_simps simp del: metadata_digest.simps split: sum.split
      dest!: metadata_digest_valid)

lemma wp_run_buildkit:
  assumes "requested req v"
  shows "wp (run_buildkit d b format binary v path) (\<lambda>r t. \<exists>mid. trace t = trace s @ mid
    \<and> (mid = [] \<or> (\<exists>args env. mid = [BuildKitStarted binary args env] \<and> buildKitArgs v path = Inr args))
    \<and> (\<forall>res. r = Inr res \<longrightarrow> pinned req res)) s"
proof (cases "buildKitArgs v path")
  case (Inl err)
  then show ?thesis by (simp add: run_buildkit_def wp_simps)
next
  case (Inr args)
  have e: "v = req\<lparr>bq_ContextDir := bq_ContextDir v, bq_Dockerfile := bq_Dockerfile v,
      bq_ImageTag := (if bq_ImageTag req = '''' then ''latest'' else bq_ImageTag req)\<rparr>"
    using assms by (simp add: requested_def)
  have v: "bq_ImageRepository v = bq_ImageRepository req" "bq_Push v = bq_Push req"
    "bq_ImageTag v = (if bq_ImageTag req = '''' then ''latest'' else bq_ImageTag req)"
    by (subst e, simp)+
  define env where "env = map (\<lambda>key. (key, map_index (bq_Env v) key)) (sortedKeys (bq_Env v))"
  define mid where "mid = [BuildKitStarted binary args env]"
  have mid: "\<exists>args' env. mid = [BuildKitStarted binary args' env] \<and> buildKitArgs v path = Inr args'"
    using Inr by (simp add: mid_def)
  have captured: "wp (readBuildKitDigest d path) (\<lambda>digest t. \<exists>mid'. trace t = trace s @ mid'
      \<and> (mid' = [] \<or> (\<exists>args env. mid' = [BuildKitStarted binary args env] \<and> buildKitArgs v path = Inr args))
      \<and> (\<forall>res. (case digest of
            Inl err \<Rightarrow> Inl (build_error ReasonDigestCaptureFailed ''capture image digest from BuildKit metadata'' err)
          | Inr digest \<Rightarrow> if bq_Push v \<and> digest = ''''
              then Inl (build_fault ReasonDigestCaptureFailed ''BuildKit pushed the image but returned no sha256 manifest digest'')
              else Inr \<lparr>bres_ImageRepository = bq_ImageRepository v, bres_Tag = bq_ImageTag v, bres_Digest = digest,
                 bres_SBOMPath = ''''\<rparr>) = Inr res \<longrightarrow> pinned req res)) t"
    if "trace t = trace s @ mid" for t
    by (rule wp_mono [OF wp_readBuildKitDigest]) (use that mid v in \<open>auto simp: pinned_def split: sum.splits if_splits\<close>)
  show ?thesis
    unfolding run_buildkit_def Inr Let_def sum.case wp_bind wp_call wp_option wp_return wp_fail
    using captured mid by (auto simp: mid_def env_def split: option.split)
qed


lemma wp_builder_binary: "wp (builder_binary d b) (\<lambda>r t. trace t = trace u) u"
proof -
  have "wp (find_binary d names) (\<lambda>r t. trace t = trace u) u" for names u
  proof (induction names arbitrary: u)
    case (Cons name names)
    have "wp (find_binary d names) (\<lambda>r t. trace t = trace u) (u\<lparr>ext := x\<rparr>)" for x
      using Cons [of "u\<lparr>ext := x\<rparr>"] by simp
    then show ?case by (simp add: wp_simps split: sum.split)
  qed (simp add: wp_simps)
  then show ?thesis by (simp add: builder_binary_def findBuildKitBinary_def wp_simps del: find_binary.simps)
qed


text \<open>That the result is pinned does not rest on the file system.\<close>

lemma wp_validate_requested: "wp (validateBuildRequest d req) (\<lambda>r t. \<forall>v. r = Inr v \<longrightarrow> requested req v) s"
  unfolding validateBuildRequest_def Let_def
  by (auto simp: wp_simps validate_in_def Let_def requested_def intro!: wp_any split: sum.split option.split)

lemma Build_pinned: "wp (Build d b format req) (\<lambda>r t. \<forall>res. r = Inr res \<longrightarrow> pinned req res) s"
proof -
  have "wp (build_with d b format v binary path) (\<lambda>r t. \<forall>res. r = Inr res \<longrightarrow> pinned req res) u" if "requested req v" for v binary path u
  proof -
    have "wp (run_buildkit d b format binary v path)
        (\<lambda>a. wp (State_Monad.bind (remove_metadata d path) (\<lambda>_. State_Monad.return a)) (\<lambda>r t. \<forall>res. r = Inr res \<longrightarrow> pinned req res)) u'" for u'
      by (rule wp_mono [OF wp_run_buildkit [OF that]]) (auto simp: remove_metadata_def wp_simps)
    then show ?thesis by (simp add: build_with_def remove_metadata_def wp_simps wp_eta split: option.split)
  qed
  then show ?thesis
    unfolding Build_def
    by (intro wp_checkI [OF wp_validate_requested] wp_checkI [OF wp_builder_binary])
      (auto simp: wp_simps split: sum.split)
qed


section \<open>The image that is pushed\<close>

text \<open>The attributes of an exporter: comma-separated fields, each a name and a value.\<close>

definition exporter_attributes :: "string \<Rightarrow> (string \<times> string) list" where
  "exporter_attributes output = map (\<lambda>field. case Cut field CHR ''='' of (k, v, _) \<Rightarrow> (k, v)) (Split output CHR '','')"

lemma length_Split: "length (Split s c) = Suc (length (filter (\<lambda>x. x = c) s))"
  by (induction s) (auto split: list.split)



section \<open>A pushed build\<close>

definition sample_digest :: string where "sample_digest = ''sha256:'' @ replicate 64 CHR ''a''"

definition plain_machine :: "unit buildkit_deps" where
  "plain_machine =
     \<lparr>bx_Getwd = Inr ''/w'', bx_EvalSymlinks = (\<lambda>p w. (Inr (Clean p), w)),
      bx_Stat = (\<lambda>p w. (Inr (\<not> HasSuffix p ''Dockerfile''), w)), bx_LookPath = (\<lambda>n w. (Inr n, w)),
      bx_CreateTemp = (\<lambda>w. (Inr ''/tmp/m'', w)), bx_Close = (\<lambda>p w. (None, w)), bx_Remove = (\<lambda>p w. ((), w)),
      bx_Run = (\<lambda>b a e t w. (\<lparr>cmd_Output = '''', cmd_Err = None, cmd_Context = ContextLive\<rparr>, w)),
      bx_ReadFile = (\<lambda>p w. (Inr ''metadata'', w)), bx_Metadata = (\<lambda>s. Inr [''containerimage.digest'' \<mapsto> sample_digest]),
      bx_String = (\<lambda>s. Inr s), bx_DescriptorDigest = (\<lambda>s. Inr s)\<rparr>"

lemma plain_eval_spec: "eval_spec plain_machine"
proof -
  have "clean_dir ''/w''" "IsAbs ''/w''" by code_simp+
  then show ?thesis by (simp add: eval_spec_def plain_machine_def clean_dir_Clean IsAbs_Clean)
qed

theorem ResolveContextDir_inside_witness:
  "\<exists>dir. exec_result (ResolveContextDir plain_machine ''source'' ''app/../svc'') () = Inr dir \<and> below ''/w/source'' dir
   \<and> exec_result (ResolveContextDir plain_machine ''source'' ''../etc'') () = Inl (build_fault ReasonBuildInputInvalid
       ''build context directory must stay within the cloned repository'')"
proof -
  have r: "exec_result (ResolveContextDir plain_machine ''source'' ''app/../svc'') () = Inr ''/w/source/svc''" by code_simp
  have root: "Abs_path plain_machine ''source'' = Inr ''/w/source''" "Clean ''/w/source'' = ''/w/source''" by code_simp+
  note inside = ResolveContextDir_inside [OF plain_eval_spec, of "''source''"]
  have "\<exists>root w w'. (\<exists>p. Abs_path plain_machine ''source'' = Inr p \<and> fst (bx_EvalSymlinks plain_machine p w) = Inr root)
      \<and> (\<exists>q. fst (bx_EvalSymlinks plain_machine q w') = Inr ''/w/source/svc'') \<and> below root ''/w/source/svc''"
    using inside [of "''app/../svc''" "start ()", THEN conjunct1] r unfolding wp_result by blast
  then have "below ''/w/source'' ''/w/source/svc''"
    using root by (auto simp: plain_machine_def)
  moreover have "escapes (Clean ''../etc'')" "\<not> IsAbs ''../etc''" by code_simp+
  then have "ResolveContextDir plain_machine ''source'' ''../etc'' = fail (build_fault ReasonBuildInputInvalid
       ''build context directory must stay within the cloned repository'')"
    using inside [of "''../etc''", THEN conjunct2] by simp
  ultimately show ?thesis using r by (simp add: exec_result_def fail_def)
qed

definition push_request :: BuildRequest where
  "push_request = \<lparr>bq_ContextDir = ''/w/source'', bq_Dockerfile = '''', bq_ImageRepository = ''ghcr.io/acme/app'', bq_ImageTag = '''',
     bq_Push = True, bq_BuildArgs = Map.empty, bq_Target = '''', bq_Platforms = [], bq_Labels = Map.empty,
     bq_Cache = \<lparr>bcc_Enabled = False, bcc_Mode = BuildCacheModeUnset, bcc_Ref = ''''\<rparr>, bq_Env = Map.empty\<rparr>"

lemma plain_build:
  "\<exists>res. exec_result (Build plain_machine \<lparr>bkb_Timeout = 0, bkb_Binary = ''''\<rparr> (\<lambda>t. ''30m0s'') push_request) () = Inr res"
proof -
  let ?b = "\<lparr>bkb_Timeout = 0, bkb_Binary = ''''\<rparr>"
  let ?v = "push_request\<lparr>bq_ContextDir := ''/w/source'', bq_Dockerfile := ''Dockerfile'', bq_ImageTag := ''latest''\<rparr>"
  have c: "validateCache (bq_Cache push_request) = None" "validateCache (bq_Cache ?v) = None"
    by (simp_all add: push_request_def validateCache_def)
  have given: "Abs_path plain_machine ''/w/source'' = Inr ''/w/source''" "Clean ''/w/source'' = ''/w/source''"
    "TrimSpace ''ghcr.io/acme/app'' \<noteq> ''''" "\<not> HasSuffix ''/w/source'' ''Dockerfile''" by code_simp+
  have "exec (validate_dockerfile plain_machine ''/w/source'' ''Dockerfile'') () = (Inr ''Dockerfile'', (), [])" by code_simp
  then have df: "run_state (validate_dockerfile plain_machine ''/w/source'' ''Dockerfile'') (start ()) = (Inr ''Dockerfile'', start ())"
    by (auto simp: exec_def split: prod.splits) (auto simp: start_def)
  have machine: "bx_Stat plain_machine p w = (Inr (\<not> HasSuffix p ''Dockerfile''), w)"
    "bx_EvalSymlinks plain_machine p w = (Inr (Clean p), w)" for p w
    by (simp_all add: plain_machine_def)
  have req: "bq_ContextDir push_request = ''/w/source''" "bq_Dockerfile push_request = ''''" "bq_ImageTag push_request = ''''"
    "bq_ImageRepository push_request = ''ghcr.io/acme/app''"
    by (simp_all add: push_request_def)
  have st: "(start () :: (unit, buildkit_effect) sys)\<lparr>ext := ()\<rparr> = start ()" by (simp add: start_def)
  have v: "run_state (validateBuildRequest plain_machine push_request) (start ()) = (Inr ?v, start ())"
    by (simp add: validateBuildRequest_def validate_in_def invalid_on_error_def check_def ok_def run_query machine given req
        df c Let_def st)
  have dig: "metadata_digest plain_machine [''containerimage.digest'' \<mapsto> sample_digest]
      [''containerimage.digest'', ''containerimage.descriptor''] = Inr sample_digest" by code_simp
  have dn: "sample_digest \<noteq> ''''" by (simp add: sample_digest_def)
  have ts: "TrimSpace ''metadata'' \<noteq> ''''" by code_simp
  have ops: "bx_LookPath plain_machine n w = (Inr n, w)" "bx_CreateTemp plain_machine w = (Inr ''/tmp/m'', w)"
    "bx_Close plain_machine p w = (None, w)" "bx_Remove plain_machine p w = ((), w)"
    "bx_Run plain_machine bin a e t w = (\<lparr>cmd_Output = '''', cmd_Err = None, cmd_Context = ContextLive\<rparr>, w)"
    "bx_ReadFile plain_machine p w = (Inr ''metadata'', w)"
    "bx_Metadata plain_machine x = Inr [''containerimage.digest'' \<mapsto> sample_digest]" for n p w bin a e t x
    by (simp_all add: plain_machine_def)
  obtain args where args: "buildKitArgs ?v ''/tmp/m'' = Inr args" using c by (simp add: buildKitArgs_def Let_def)
  have run: "\<exists>res t. run_state (build_with plain_machine ?b (\<lambda>t. ''30m0s'') ?v ''buildctl-daemonless.sh'' ''/tmp/m'') (start ()) = (Inr res, t)"
    unfolding build_with_def run_buildkit_def args readBuildKitDigest_def remove_metadata_def check_def ok_def
    using dn by (simp add: run_call run_query ops ts dig Let_def del: metadata_digest.simps)
  have "run_state (builder_binary plain_machine ?b) (start ()) = (Inr ''buildctl-daemonless.sh'', start ())"
    by (simp add: builder_binary_def findBuildKitBinary_def run_query ops ok_def start_def)
  then show ?thesis
    using run by (auto simp: exec_result_def Build_def check_def v run_query ops) (auto simp: start_def)
qed


end
