(* ===== verification/RunnerConfig.thy ===== *)
theory RunnerConfig
  imports Redact ControllerKit GoPath BuildKit "HOL-Library.AList"
begin

text \<open>
  \<open>internal/runner/config.go\<close> and the values that \<open>internal/runner/runner.go\<close> derives from a build run: what is
  checked out, the variables of the build, and the secrets that its output must not show.
\<close>

section \<open>Configuration\<close>

record Config =
  cfg_BuildRunName :: string
  cfg_BuildRunNamespace :: string
  cfg_ProjectName :: string
  cfg_RepositoryURL :: string
  cfg_Revision :: string
  cfg_Branch :: string
  cfg_PipelineTemplateName :: string
  cfg_ImageRepository :: string
  cfg_ImageTag :: string
  cfg_RegistryProvider :: string
  cfg_RegistryImagePrefix :: string
  cfg_RegistryCredentialsDir :: string
  cfg_GitOpsEnabled :: bool
  cfg_LogBackend :: string
  cfg_LogRoot :: string
  cfg_ArtifactBackend :: string
  cfg_ArtifactRoot :: string
  cfg_CacheBackend :: string
  cfg_CacheRoot :: string
  cfg_MaxArtifactsBytes :: int
  cfg_MaxLogBytes :: int
  cfg_MaxCacheBytes :: int

text \<open>\<open>strconv.ParseBool\<close>.\<close>

definition ParseBool :: "string \<Rightarrow> bool result" where
  "ParseBool s =
     (if s \<in> set [''1'', ''t'', ''T'', ''true'', ''TRUE'', ''True''] then Inr True
      else if s \<in> set [''0'', ''f'', ''F'', ''false'', ''FALSE'', ''False''] then Inr False
      else Inl (errors_New (''strconv.ParseBool: parsing '' @ quote s @ '': invalid syntax'')))"

text \<open>\<open>resource.ParseQuantity\<close> with \<open>Value\<close> is an argument.\<close>

definition byteQuantity :: "(string \<Rightarrow> int result) \<Rightarrow> string \<Rightarrow> int result" where
  "byteQuantity quantity v = (case quantity v of
     Inl err \<Rightarrow> Inl err
   | Inr bytes \<Rightarrow> if bytes \<le> 0 then Inl (errors_New ''must be greater than zero'') else Inr bytes)"

definition optional_quantity :: "(string \<Rightarrow> int result) \<Rightarrow> (string \<Rightarrow> string) \<Rightarrow> string \<Rightarrow> int result" where
  "optional_quantity quantity getenv name =
     (if getenv name = '''' then Inr 0
      else (case byteQuantity quantity (getenv name) of
          Inl err \<Rightarrow> Inl (errorf_w (''parse '' @ name) err)
        | Inr bytes \<Rightarrow> Inr bytes))"

definition required_names :: "string list" where
  "required_names = [''BUILD_RUN_NAME'', ''BUILD_RUN_NAMESPACE'', ''PROJECT_NAME'', ''REPOSITORY_URL'',
     ''PIPELINE_TEMPLATE_NAME'', ''IMAGE_REPOSITORY'']"

text \<open>\<open>order\<close> is the order in which the map of the required names is iterated.\<close>

definition ConfigFromEnv ::
  "(string list \<Rightarrow> string list) \<Rightarrow> (string \<Rightarrow> int result) \<Rightarrow> (string \<Rightarrow> string) \<Rightarrow> Config result" where
  "ConfigFromEnv order quantity getenv =
     (case optional_quantity quantity getenv ''PROJECT_MAX_ARTIFACTS_SIZE'' of Inl err \<Rightarrow> Inl err | Inr artifacts \<Rightarrow>
      case optional_quantity quantity getenv ''PROJECT_MAX_LOG_SIZE'' of Inl err \<Rightarrow> Inl err | Inr logs \<Rightarrow>
      case optional_quantity quantity getenv ''CACHE_MAX_SIZE'' of Inl err \<Rightarrow> Inl err | Inr cache \<Rightarrow>
      case (if getenv ''GITOPS_ENABLED'' = '''' then Inr False else ParseBool (getenv ''GITOPS_ENABLED'')) of
        Inl err \<Rightarrow> Inl (errorf_w ''parse GITOPS_ENABLED'' err)
      | Inr gitops \<Rightarrow>
          (case filter (\<lambda>name. getenv name = '''') (order required_names) of
             name # _ \<Rightarrow> Inl (errors_New (name @ '' is required''))
           | [] \<Rightarrow>
               if getenv ''REVISION'' = '''' \<and> getenv ''BRANCH'' = ''''
               then Inl (errors_New ''REVISION or BRANCH is required'')
               else Inr \<lparr>cfg_BuildRunName = getenv ''BUILD_RUN_NAME'', cfg_BuildRunNamespace = getenv ''BUILD_RUN_NAMESPACE'',
                 cfg_ProjectName = getenv ''PROJECT_NAME'', cfg_RepositoryURL = getenv ''REPOSITORY_URL'',
                 cfg_Revision = getenv ''REVISION'', cfg_Branch = getenv ''BRANCH'',
                 cfg_PipelineTemplateName = getenv ''PIPELINE_TEMPLATE_NAME'',
                 cfg_ImageRepository = getenv ''IMAGE_REPOSITORY'', cfg_ImageTag = getenv ''IMAGE_TAG'',
                 cfg_RegistryProvider = getenv ''REGISTRY_PROVIDER'', cfg_RegistryImagePrefix = getenv ''REGISTRY_IMAGE_PREFIX'',
                 cfg_RegistryCredentialsDir = getenv ''REGISTRY_CREDENTIALS_DIR'', cfg_GitOpsEnabled = gitops,
                 cfg_LogBackend = getenv ''LOG_BACKEND'', cfg_LogRoot = getenv ''LOG_ROOT'',
                 cfg_ArtifactBackend = getenv ''ARTIFACT_BACKEND'', cfg_ArtifactRoot = getenv ''ARTIFACT_ROOT'',
                 cfg_CacheBackend = getenv ''CACHE_BACKEND'', cfg_CacheRoot = getenv ''CACHE_ROOT'',
                 cfg_MaxArtifactsBytes = artifacts, cfg_MaxLogBytes = logs, cfg_MaxCacheBytes = cache\<rparr>))"

lemma optional_quantity_nonneg: "optional_quantity quantity getenv name = Inr n \<Longrightarrow> 0 \<le> n \<and> (n = 0 \<longleftrightarrow> getenv name = '''')"
  by (auto simp: optional_quantity_def byteQuantity_def split: if_splits sum.splits)

text \<open>A configuration that is accepted names a build and something to check out, and its limits are absent or positive.\<close>

lemma ConfigFromEnv_complete:
  assumes "\<And>xs. set (order xs) = set xs" and "ConfigFromEnv order quantity getenv = Inr cfg"
  shows "cfg_BuildRunName cfg \<noteq> '''' \<and> cfg_BuildRunNamespace cfg \<noteq> '''' \<and> cfg_RepositoryURL cfg \<noteq> ''''
    \<and> (cfg_Revision cfg \<noteq> '''' \<or> cfg_Branch cfg \<noteq> '''') \<and> 0 \<le> cfg_MaxLogBytes cfg \<and> 0 \<le> cfg_MaxArtifactsBytes cfg
    \<and> 0 \<le> cfg_MaxCacheBytes cfg"
proof -
  have "filter (\<lambda>name. getenv name = '''') (order required_names) = [] \<longleftrightarrow> (\<forall>name \<in> set required_names. getenv name \<noteq> '''')"
    using assms(1) by (auto simp: filter_empty_conv)
  then show ?thesis
    using assms(2) optional_quantity_nonneg [of quantity getenv]
    by (auto simp: ConfigFromEnv_def required_names_def split: sum.splits list.splits if_splits)
qed


section \<open>What a build run determines\<close>

definition checkoutRef :: "BuildRun \<Rightarrow> Config \<Rightarrow> string" where
  "checkoutRef b cfg = (let s = br_Spec b in
     if brs_CommitSHA s \<noteq> '''' then brs_CommitSHA s
     else if brs_Revision s \<noteq> '''' then brs_Revision s
     else if cfg_Revision cfg \<noteq> '''' then cfg_Revision cfg
     else if brs_Branch s \<noteq> '''' then brs_Branch s
     else cfg_Branch cfg)"

text \<open>A map that is built up entry by entry, as the list of its entries.\<close>

type_synonym env_entries = "(string \<times> string) list"

definition param_entries :: "strmap \<Rightarrow> env_entries" where
  "param_entries params = map (\<lambda>key. (''PARAM_'' @ key, map_index params key)) (sortedKeys params)"

definition buildParamsEnv :: "strmap \<Rightarrow> strmap" where
  "buildParamsEnv params = map_of (param_entries params)"

definition put_all :: "env_entries \<Rightarrow> env_entries \<Rightarrow> env_entries" where
  "put_all es m = foldl (\<lambda>m (key, v). AList.update key v m) m es"

definition secretEnv :: "PipelineStep list \<Rightarrow> env_entries" where
  "secretEnv steps = foldl (\<lambda>m step. put_all (map (\<lambda>item. (ev_Name item, ev_Value item)) (step_Env step)) m) [] steps"

text \<open>The user information of a URL, if it has any: the name, the password and both as they are written.\<close>

record url_user =
  uu_Username :: string
  uu_Password :: "string option"
  uu_String :: string

definition repositoryURLSecrets :: "(string \<Rightarrow> url_user option result) \<Rightarrow> string \<Rightarrow> env_entries" where
  "repositoryURLSecrets parse rawURL = (case parse rawURL of
     Inl _ \<Rightarrow> []
   | Inr None \<Rightarrow> []
   | Inr (Some u) \<Rightarrow>
       (if uu_Username u \<noteq> '''' then [(''REPOSITORY_URL_USERNAME'', uu_Username u)] else [])
       @ (case uu_Password u of None \<Rightarrow> []
          | Some password \<Rightarrow> if password \<noteq> '''' then [(''REPOSITORY_URL_TOKEN'', password)] else [])
       @ (if uu_String u \<noteq> '''' then [(''REPOSITORY_URL_SECRET'', uu_String u)] else []))"

definition secretValues ::
  "(string \<Rightarrow> url_user option result) \<Rightarrow> BuildRun \<Rightarrow> Repository \<Rightarrow> PipelineTemplate \<Rightarrow> env_entries" where
  "secretValues parse b repository template =
     put_all (repositoryURLSecrets parse (rs_URL (repo_Spec repository)))
       (put_all (param_entries (brs_Params (br_Spec b))) (secretEnv (pts_Steps (pt_Spec template))))"

text \<open>The redactor of a run; \<open>order\<close> is the order of the map's iteration.\<close>

definition run_values :: "(env_entries \<Rightarrow> env_entries) \<Rightarrow> env_entries \<Rightarrow> string list" where
  "run_values order entries = map snd (filter (\<lambda>(key, value). IsSecretKey key) (order entries))"

lemma FromEnv_run_values: "FromEnv (order entries) = New (run_values order entries)"
  by (simp add: FromEnv_def run_values_def)


section \<open>Which secrets are known\<close>

text \<open>All variables of the steps, in order.\<close>

definition step_variables :: "PipelineStep list \<Rightarrow> env_entries" where
  "step_variables steps = concat (map (\<lambda>step. map (\<lambda>item. (ev_Name item, ev_Value item)) (step_Env step)) steps)"

lemma map_of_put_all: "map_of (put_all es m) = map_of m ++ map_of (rev es)"
  unfolding put_all_def
  by (induction es arbitrary: m) (auto simp: update_conv' map_add_def fun_eq_iff split: option.splits)

lemma distinct_put_all: "distinct (map fst m) \<Longrightarrow> distinct (map fst (put_all es m))"
  unfolding put_all_def by (induction es arbitrary: m) (auto simp: distinct_update)

lemma secretEnv_put: "secretEnv steps = put_all (step_variables steps) []"
proof -
  have "foldl (\<lambda>m step. put_all (map (\<lambda>item. (ev_Name item, ev_Value item)) (step_Env step)) m) m steps
      = put_all (step_variables steps) m" for m
    by (induction steps arbitrary: m) (simp_all add: put_all_def step_variables_def)
  then show ?thesis by (simp add: secretEnv_def)
qed

text \<open>
  The redactor of a run knows the value of a secret variable of the steps exactly if no later variable of that
  name, no parameter and no part of the repository's URL has another value: of two steps that give one secret
  variable different values, only the later one's is masked, in the output of both.
\<close>

theorem redactor_knows_last_values:
  assumes "\<And>xs. set (order xs) = set xs"
  shows "v \<in> set (run_values order (secretValues parse b repository template)) \<longleftrightarrow>
    (\<exists>key. IsSecretKey key \<and>
       (map_of (rev (step_variables (pts_Steps (pt_Spec template)))) ++ map_of (rev (param_entries (brs_Params (br_Spec b))))
          ++ map_of (rev (repositoryURLSecrets parse (rs_URL (repo_Spec repository))))) key = Some v)"
proof -
  let ?m = "secretValues parse b repository template"
  have d: "distinct (map fst ?m)"
    unfolding secretValues_def secretEnv_put by (intro distinct_put_all) simp
  have "map_of ?m = map_of (rev (step_variables (pts_Steps (pt_Spec template)))) ++ map_of (rev (param_entries (brs_Params (br_Spec b))))
          ++ map_of (rev (repositoryURLSecrets parse (rs_URL (repo_Spec repository))))"
    by (simp add: secretValues_def secretEnv_put map_of_put_all)
  moreover have "v \<in> set (run_values order ?m) \<longleftrightarrow> (\<exists>key. IsSecretKey key \<and> map_of ?m key = Some v)"
    using map_of_eq_Some_iff [OF d] assms [of ?m] by (force simp: run_values_def)
  ultimately show ?thesis by simp
qed

lemma id_set: "set (id xs) = set xs" by simp

definition token_step :: "string \<Rightarrow> PipelineStep" where
  "token_step v = PipelineStep_zero\<lparr>step_Env := [\<lparr>ev_Name = ''API_TOKEN'', ev_Value = v, ev_SecretKeyRef = None\<rparr>]\<rparr>"

definition two_tokens :: PipelineTemplate where
  "two_tokens = PipelineTemplate_zero\<lparr>pt_Spec := PipelineTemplateSpec_zero\<lparr>pts_Steps := [token_step ''one'', token_step ''two'']\<rparr>\<rparr>"

theorem redactor_knows_last_values_witness:
  "''one'' \<notin> set (run_values id (secretValues (\<lambda>u. Inr None) BuildRun_zero Repository_zero two_tokens))
     \<and> ''two'' \<in> set (run_values id (secretValues (\<lambda>u. Inr None) BuildRun_zero Repository_zero two_tokens))"
proof -
  have secret: "IsSecretKey ''API_TOKEN''" by code_simp
  have "map_of (rev (step_variables (pts_Steps (pt_Spec two_tokens)))) ++ map_of (rev (param_entries (brs_Params (br_Spec BuildRun_zero))))
          ++ map_of (rev (repositoryURLSecrets (\<lambda>u. Inr None) (rs_URL (repo_Spec Repository_zero)))) = [''API_TOKEN'' \<mapsto> ''two'']"
    by (simp add: two_tokens_def token_step_def step_variables_def BuildRun_zero_def BuildRunSpec_zero_def param_entries_def sortedKeys_def
        repositoryURLSecrets_def)
  then show ?thesis
    unfolding redactor_knows_last_values [of id, OF id_set] using secret by (auto split: if_splits)
qed

end
