(* ===== verification/LogStores.thy ===== *)
theory LogStores
  imports ControllerKit GoPath Base64 Pagination
begin

text \<open>
  \<open>internal/logstore\<close>: the stored logs of builds. The interface of a store is a locale, with the
  in-memory store and the store in local files as its interpretations. JSON is an argument, and so
  are the faults of the file system.
\<close>

section \<open>Lines and requests\<close>

definition errNotFound :: go_error where "errNotFound = GoError ''logs not found'' [Sentinel ''logstore.ErrNotFound'']"
definition errNotImplemented :: go_error where
  "errNotImplemented = GoError ''log backend is not implemented'' [Sentinel ''logstore.ErrNotImplemented'']"

record LogLine =
  ll_Timestamp :: gotime
  ll_Step :: string
  ll_Message :: string

record AppendLogRequest =
  al_Namespace :: string
  al_BuildRun :: string
  al_Lines :: "LogLine list"

record ReadLogRequest =
  rdl_Namespace :: string
  rdl_BuildRun :: string
  rdl_TailLines :: int
  rdl_Step :: string

record ReadLogResult =
  rdr_Backend :: string
  rdr_Ref :: string
  rdr_Lines :: "LogLine list"

record DeleteLogRequest =
  dl_Namespace :: string
  dl_BuildRun :: string

definition FilterAndTail :: "LogLine list \<Rightarrow> string \<Rightarrow> int \<Rightarrow> LogLine list" where
  "FilterAndTail lines step tail =
     (let filtered = filter (\<lambda>line. step = '''' \<or> ll_Step line = step) lines in
      if tail > 0 \<and> int (length filtered) > tail then drop (length filtered - nat tail) filtered else filtered)"

text \<open>\<open>RedactingStore.Append\<close>: the messages are masked before the store sees them.\<close>

definition redacted_request :: "(string \<Rightarrow> string) option \<Rightarrow> AppendLogRequest \<Rightarrow> AppendLogRequest" where
  "redacted_request masker req = (case masker of None \<Rightarrow> req
     | Some m \<Rightarrow> req\<lparr>al_Lines := map (\<lambda>line. line\<lparr>ll_Message := m (ll_Message line)\<rparr>) (al_Lines req)\<rparr>)"

text \<open>\<open>strings.Split(strings.TrimSuffix(data, "\n"), "\n")\<close> without the empty lines.\<close>

definition newline :: char where "newline = CHR 0x0A"

definition message_lines :: "string \<Rightarrow> string list" where
  "message_lines data = filter (\<lambda>line. line \<noteq> '''') (Split (TrimSuffix data [newline]) newline)"

definition log_lines :: "gotime \<Rightarrow> string \<Rightarrow> string \<Rightarrow> LogLine list" where
  "log_lines now step data = map (\<lambda>line. \<lparr>ll_Timestamp = now, ll_Step = step, ll_Message = line\<rparr>) (message_lines data)"


section \<open>The interface of a store\<close>

text \<open>
  A store holds the lines of each build. \<open>logs\<close> reads its state, for the names that it accepts;
  appending adds to the lines of one build only, and reading shows the lines of that build.
\<close>

locale log_store =
  fixes accepts :: "string \<Rightarrow> string \<Rightarrow> bool"
    and inv :: "'s \<Rightarrow> bool"
    and logs :: "'s \<Rightarrow> string \<Rightarrow> string \<Rightarrow> LogLine list option"
    and append :: "AppendLogRequest \<Rightarrow> 's \<Rightarrow> unit result \<times> 's"
    and read :: "ReadLogRequest \<Rightarrow> 's \<Rightarrow> ReadLogResult result"
    and delete :: "DeleteLogRequest \<Rightarrow> 's \<Rightarrow> unit result \<times> 's"
  assumes append_inv: "inv s \<Longrightarrow> append req s = (Inr (), s') \<Longrightarrow> inv s'"
    and append_logs: "inv s \<Longrightarrow> append req s = (Inr (), s') \<Longrightarrow> accepts (al_Namespace req) (al_BuildRun req) \<Longrightarrow>
      accepts ns br \<Longrightarrow> logs s' ns br =
        (if ns = al_Namespace req \<and> br = al_BuildRun req
         then Some ((case logs s ns br of None \<Rightarrow> [] | Some lines \<Rightarrow> lines) @ al_Lines req) else logs s ns br)"
    and read_logs: "inv s \<Longrightarrow> read rq s = Inr res \<Longrightarrow> accepts (rdl_Namespace rq) (rdl_BuildRun rq) \<Longrightarrow>
      \<exists>lines. logs s (rdl_Namespace rq) (rdl_BuildRun rq) = Some lines
        \<and> rdr_Lines res = FilterAndTail lines (rdl_Step rq) (rdl_TailLines rq)"
    and delete_inv: "inv s \<Longrightarrow> delete dq s = (Inr (), s') \<Longrightarrow> inv s'"
    and delete_logs: "inv s \<Longrightarrow> delete dq s = (Inr (), s') \<Longrightarrow> accepts (dl_Namespace dq) (dl_BuildRun dq) \<Longrightarrow>
      accepts ns br \<Longrightarrow> logs s' ns br = (if ns = dl_Namespace dq \<and> br = dl_BuildRun dq then None else logs s ns br)"
begin

text \<open>After two appends a reader that asks for everything sees the first one's lines before the second one's.\<close>

lemma read_in_order:
  assumes "inv s" and "accepts ns br"
    and "append \<lparr>al_Namespace = ns, al_BuildRun = br, al_Lines = first\<rparr> s = (Inr (), s1)"
    and "append \<lparr>al_Namespace = ns, al_BuildRun = br, al_Lines = second\<rparr> s1 = (Inr (), s2)"
    and "read \<lparr>rdl_Namespace = ns, rdl_BuildRun = br, rdl_TailLines = 0, rdl_Step = ''''\<rparr> s2 = Inr res"
  shows "\<exists>old. rdr_Lines res = old @ first @ second"
proof -
  have i: "inv s1" "inv s2" using append_inv assms by blast+
  show ?thesis
    using append_logs [OF assms(1,3), of ns br] append_logs [OF i(1) assms(4), of ns br] read_logs [OF i(2) assms(5)] assms(2)
    by (auto simp: FilterAndTail_def)
qed

text \<open>The logs of one build are not touched by appending to another.\<close>

lemma other_build:
  assumes "inv s" and "accepts ns br" and "accepts (al_Namespace req) (al_BuildRun req)"
    and "append req s = (Inr (), s')" and "(ns, br) \<noteq> (al_Namespace req, al_BuildRun req)"
  shows "logs s' ns br = logs s ns br"
  using append_logs [OF assms(1,4,3,2)] assms(5) by auto

lemma deleted_reads_nothing:
  assumes "inv s" and "accepts ns br" and "delete \<lparr>dl_Namespace = ns, dl_BuildRun = br\<rparr> s = (Inr (), s')"
    and "rdl_Namespace req = ns" and "rdl_BuildRun req = br"
  shows "read req s' \<noteq> Inr res"
  using read_logs [OF delete_inv [OF assms(1,3)], of req res] delete_logs [OF assms(1,3), of ns br] assms(2,4,5) by auto

end


section \<open>The store in memory\<close>

type_synonym memory_logs = "string \<rightharpoonup> LogLine list"

definition memory_key :: "string \<Rightarrow> string \<Rightarrow> string" where
  "memory_key ns buildRun = ns @ ''/'' @ buildRun"

definition Memory_Append :: "AppendLogRequest \<Rightarrow> memory_logs \<Rightarrow> unit result \<times> memory_logs" where
  "Memory_Append req s =
     (let key = memory_key (al_Namespace req) (al_BuildRun req);
          lines = (case s key of None \<Rightarrow> [] | Some lines \<Rightarrow> lines) in
      (Inr (), s(key \<mapsto> lines @ al_Lines req)))"

definition Memory_Read :: "ReadLogRequest \<Rightarrow> memory_logs \<Rightarrow> ReadLogResult result" where
  "Memory_Read req s =
     (let key = memory_key (rdl_Namespace req) (rdl_BuildRun req) in
      case s key of None \<Rightarrow> Inl errNotFound
      | Some lines \<Rightarrow> Inr \<lparr>rdr_Backend = ''memory'', rdr_Ref = key,
          rdr_Lines = FilterAndTail lines (rdl_Step req) (rdl_TailLines req)\<rparr>)"

definition Memory_Delete :: "DeleteLogRequest \<Rightarrow> memory_logs \<Rightarrow> unit result \<times> memory_logs" where
  "Memory_Delete req s = (Inr (), s(memory_key (dl_Namespace req) (dl_BuildRun req) := None))"


section \<open>The store in local files\<close>

text \<open>\<open>^[a-zA-Z0-9][a-zA-Z0-9_.-]*$\<close>.\<close>

definition safe_char :: "char \<Rightarrow> bool" where
  "safe_char c \<longleftrightarrow> is_letter c \<or> is_digit c \<or> c \<in> set ''_.-''"

definition safeName :: "string \<Rightarrow> bool" where
  "safeName s = (case s of [] \<Rightarrow> False | c # cs \<Rightarrow> (is_letter c \<or> is_digit c) \<and> list_all safe_char cs)"

type_synonym files = "string \<rightharpoonup> string"

record LocalStore =
  lst_Root :: string
  lst_MkdirErr :: "string \<Rightarrow> go_error option"
  lst_OpenErr :: "string \<Rightarrow> go_error option"
  lst_WriteErr :: "LogLine \<Rightarrow> go_error option"
  lst_RemoveErr :: "string \<Rightarrow> go_error option"
  lst_Encode :: "LogLine \<Rightarrow> string"
  lst_Decode :: "string \<Rightarrow> LogLine result"

definition local_path :: "LocalStore \<Rightarrow> string \<Rightarrow> string \<Rightarrow> string result" where
  "local_path st ns buildRun =
     (if \<not> safeName ns \<or> \<not> safeName buildRun
      then Inl (errors_New ''namespace and BuildRun must be safe path components'')
      else if lst_Root st = '''' then Inl (errors_New ''local log root is required'')
      else Inr (FilepathJoin [lst_Root st, ns, buildRun @ ''.jsonl'']))"

text \<open>The loop of the encoder: each line with a newline, up to the first that cannot be written.\<close>

fun encode_lines :: "LocalStore \<Rightarrow> LogLine list \<Rightarrow> string \<Rightarrow> go_error option \<times> string" where
  "encode_lines st [] content = (None, content)"
| "encode_lines st (line # lines) content = (case lst_WriteErr st line of
     Some err \<Rightarrow> (Some (errorf_w ''append log line'' err), content)
   | None \<Rightarrow> encode_lines st lines (content @ lst_Encode st line @ [newline]))"

definition Local_Append :: "LocalStore \<Rightarrow> AppendLogRequest \<Rightarrow> files \<Rightarrow> unit result \<times> files" where
  "Local_Append st req fs = (case local_path st (al_Namespace req) (al_BuildRun req) of
     Inl err \<Rightarrow> (Inl err, fs)
   | Inr path \<Rightarrow>
       (case lst_MkdirErr st path of Some err \<Rightarrow> (Inl (errorf_w ''create log directory'' err), fs)
        | None \<Rightarrow>
            (case lst_OpenErr st path of Some err \<Rightarrow> (Inl (errorf_w ''open log file'' err), fs)
             | None \<Rightarrow>
                 (case encode_lines st (al_Lines req) (case fs path of None \<Rightarrow> '''' | Some content \<Rightarrow> content) of
                    (Some err, content) \<Rightarrow> (Inl err, fs(path \<mapsto> content))
                  | (None, content) \<Rightarrow> (Inr (), fs(path \<mapsto> content))))))"

text \<open>\<open>bufio.Scanner\<close> with its default split into lines: the last line need not end in a newline.\<close>

definition max_line :: nat where "max_line = 1048576"

definition scanned_lines :: "string \<Rightarrow> string list" where
  "scanned_lines content = (let pieces = Split content newline in
     map (\<lambda>line. TrimSuffix line [CHR 0x0D]) (if last pieces = '''' then butlast pieces else pieces))"

fun decode_lines :: "LocalStore \<Rightarrow> string list \<Rightarrow> LogLine list \<Rightarrow> LogLine list result" where
  "decode_lines st [] lines = Inr lines"
| "decode_lines st (token # tokens) lines =
     (if length token \<ge> max_line then Inl (errorf_w ''read log file'' (errors_New ''bufio.Scanner: token too long''))
      else (case lst_Decode st token of
          Inl err \<Rightarrow> Inl (errorf_w ''decode stored log line'' err)
        | Inr line \<Rightarrow> decode_lines st tokens (lines @ [line])))"

definition Local_Read :: "LocalStore \<Rightarrow> ReadLogRequest \<Rightarrow> files \<Rightarrow> ReadLogResult result" where
  "Local_Read st req fs = (case local_path st (rdl_Namespace req) (rdl_BuildRun req) of
     Inl err \<Rightarrow> Inl err
   | Inr path \<Rightarrow>
       (case fs path of None \<Rightarrow> Inl errNotFound
        | Some content \<Rightarrow>
            (case lst_OpenErr st path of Some err \<Rightarrow> Inl (errorf_w ''open log file'' err)
             | None \<Rightarrow>
                 (case decode_lines st (scanned_lines content) [] of
                    Inl err \<Rightarrow> Inl err
                  | Inr lines \<Rightarrow> Inr \<lparr>rdr_Backend = ''local'', rdr_Ref = path,
                      rdr_Lines = FilterAndTail lines (rdl_Step req) (rdl_TailLines req)\<rparr>))))"

definition Local_Delete :: "LocalStore \<Rightarrow> DeleteLogRequest \<Rightarrow> files \<Rightarrow> unit result \<times> files" where
  "Local_Delete st req fs = (case local_path st (dl_Namespace req) (dl_BuildRun req) of
     Inl err \<Rightarrow> (Inl err, fs)
   | Inr path \<Rightarrow>
       (case lst_RemoveErr st path of Some err \<Rightarrow> (Inl (errorf_w ''delete log file'' err), fs)
        | None \<Rightarrow> (Inr (), fs(path := None))))"


section \<open>Both are stores\<close>

definition no_slash :: "string \<Rightarrow> string \<Rightarrow> bool" where
  "no_slash ns buildRun \<longleftrightarrow> CHR ''/'' \<notin> set ns"

lemma memory_key_inject:
  assumes "no_slash ns br" and "no_slash ns' br'"
  shows "memory_key ns br = memory_key ns' br' \<longleftrightarrow> ns = ns' \<and> br = br'"
proof
  assume eq: "memory_key ns br = memory_key ns' br'"
  have "Cut (memory_key n b) CHR ''/'' = (n, b, True)" if "no_slash n b" for n b
    using that by (simp add: memory_key_def no_slash_def Cut_at)
  from this [OF assms(1)] this [OF assms(2)] show "ns = ns' \<and> br = br'"
    unfolding eq by simp
qed simp

interpretation memory_logs: log_store no_slash "\<lambda>s. True" "\<lambda>s ns br. s (memory_key ns br)"
  Memory_Append Memory_Read Memory_Delete
  by unfold_locales
    (auto simp: Memory_Append_def Memory_Read_def Memory_Delete_def Let_def memory_key_inject split: option.splits)

text \<open>What the local store relies on the JSON encoder for: one line per entry, which reads back.\<close>

definition json_lines :: "LocalStore \<Rightarrow> bool" where
  "json_lines st \<longleftrightarrow> (\<forall>line. newline \<notin> set (lst_Encode st line) \<and> CHR 0x0D \<notin> set (lst_Encode st line)
     \<and> lst_Decode st (lst_Encode st line) = Inr line)"

definition encoded :: "LocalStore \<Rightarrow> LogLine list \<Rightarrow> string" where
  "encoded st lines = concat (map (\<lambda>line. lst_Encode st line @ [newline]) lines)"

lemma encode_lines_ok: "encode_lines st lines content = (None, content') \<Longrightarrow> content' = content @ encoded st lines"
proof (induction lines arbitrary: content)
  case (Cons line lines)
  from Cons.prems have "encode_lines st lines (content @ lst_Encode st line @ [newline]) = (None, content')"
    by (auto split: option.splits)
  from Cons.IH [OF this] show ?case by (simp add: encoded_def)
qed (simp add: encoded_def)

lemma Split_encoded:
  assumes "json_lines st"
  shows "Split (encoded st lines) newline = map (lst_Encode st) lines @ ['''']"
proof (induction lines)
  case (Cons line lines)
  have "encoded st (line # lines) = lst_Encode st line @ newline # encoded st lines" by (simp add: encoded_def)
  moreover have "newline \<notin> set (lst_Encode st line)" using assms by (simp add: json_lines_def)
  ultimately show ?case by (simp add: Split_append_sep Split_no_sep Cons)
qed (simp add: encoded_def)

lemma scanned_encoded:
  assumes "json_lines st"
  shows "scanned_lines (encoded st lines) = map (lst_Encode st) lines"
proof -
  have "TrimSuffix (lst_Encode st line) [CHR 0x0D] = lst_Encode st line" for line
    using assms unfolding json_lines_def TrimSuffix_def HasSuffix_def suffix_def
    by (metis Un_iff list.set_intros(1) set_append)
  then show ?thesis by (simp add: scanned_lines_def Split_encoded [OF assms] Let_def)
qed

lemma decode_encoded:
  assumes "json_lines st"
  shows "decode_lines st (map (lst_Encode st) lines) acc =
    (if \<exists>line\<in>set lines. max_line \<le> length (lst_Encode st line)
     then Inl (errorf_w ''read log file'' (errors_New ''bufio.Scanner: token too long'')) else Inr (acc @ lines))"
  using assms by (induction lines arbitrary: acc) (auto simp: json_lines_def)

text \<open>The files of a local store: each holds the lines of one build.\<close>

definition local_inv :: "LocalStore \<Rightarrow> files \<Rightarrow> bool" where
  "local_inv st fs \<longleftrightarrow> (\<forall>path content. fs path = Some content \<longrightarrow> (\<exists>lines. content = encoded st lines))"

definition local_lines :: "LocalStore \<Rightarrow> string \<Rightarrow> LogLine list" where
  "local_lines st content = (THE lines. content = encoded st lines)"

lemma encoded_inject: "json_lines st \<Longrightarrow> encoded st a = encoded st b \<longleftrightarrow> a = b"
proof
  assume j: "json_lines st" and "encoded st a = encoded st b"
  then have "map (lst_Encode st) a = map (lst_Encode st) b" by (metis scanned_encoded)
  moreover have "inj (lst_Encode st)" using j unfolding json_lines_def by (metis injI sum.inject(2))
  ultimately show "a = b" by (simp add: inj_map_eq_map)
qed simp

lemma local_lines_encoded: "json_lines st \<Longrightarrow> local_lines st (encoded st lines) = lines"
  by (simp add: local_lines_def encoded_inject)

lemma encoded_append: "encoded st (a @ b) = encoded st a @ encoded st b"
  by (simp add: encoded_def)

lemma encoded_Nil: "encoded st [] = ''''"
  by (simp add: encoded_def)

text \<open>Safe names never share a file.\<close>

lemma safeName_proper: "safeName s \<Longrightarrow> proper s \<and> proper (s @ ''.jsonl'') \<and> s \<noteq> ''..'' \<and> s @ ''.jsonl'' \<noteq> ''..''"
  by (cases s) (auto simp: safeName_def proper_def safe_char_def is_letter_def is_digit_def slash_def list_all_iff
      is_upper_def is_lower_def byte_def)


lemma elements_three:
  assumes "root \<noteq> ''''" and "proper a" "proper b" "a \<noteq> ''..''" "b \<noteq> ''..''"
  shows "elements (FilepathJoin [root, a, b]) = elements (Clean root) @ [a, b]"
proof -
  have e: "elements x = [x]" if "proper x" for x using elements_Join [of "[x]"] that by simp
  have ne: "a \<noteq> ''''" "b \<noteq> ''''" using assms(2,3) by (simp_all add: proper_def)
  have j: "FilepathJoin [root, a, b] = Clean (root @ ''/'' @ a @ ''/'' @ b)"
    using assms(1) ne by (simp add: FilepathJoin_def)
  have "elements (root @ ''/'' @ a @ ''/'' @ b) = elements root @ [a, b]"
    unfolding elements_append e [OF assms(2)] e [OF assms(3)] by simp
  moreover have "clean_elements rooted (es @ [a, b]) = clean_elements rooted es @ [a, b]" for rooted es
    unfolding clean_elements_def foldl_append
    by (subst foldl_push_plain [of "[a, b]"]) (use assms(4,5) in auto)
  ultimately show ?thesis
    unfolding j elements_Clean IsAbs_append [OF assms(1)] by (simp only:)
qed

definition local_accepts :: "LocalStore \<Rightarrow> string \<Rightarrow> string \<Rightarrow> bool" where
  "local_accepts st ns buildRun \<longleftrightarrow> lst_Root st \<noteq> '''' \<and> safeName ns \<and> safeName buildRun"

lemma local_path_accepts: "(\<exists>path. local_path st ns br = Inr path) \<longleftrightarrow> local_accepts st ns br"
  by (auto simp: local_path_def local_accepts_def)

lemma local_path_inject:
  assumes "local_path st ns br = Inr path" and "local_path st ns' br' = Inr path'"
  shows "path = path' \<longleftrightarrow> ns = ns' \<and> br = br'"
proof
  have safe: "safeName ns" "safeName br" "safeName ns'" "safeName br'" "lst_Root st \<noteq> ''''"
    and p: "path = FilepathJoin [lst_Root st, ns, br @ ''.jsonl'']" "path' = FilepathJoin [lst_Root st, ns', br' @ ''.jsonl'']"
    using assms by (auto simp: local_path_def split: if_splits)
  assume "path = path'"
  then have "elements path = elements path'" by simp
  then show "ns = ns' \<and> br = br'"
    using safe unfolding p by (simp add: elements_three safeName_proper)
qed (use assms in auto)

definition local_logs :: "LocalStore \<Rightarrow> files \<Rightarrow> string \<Rightarrow> string \<Rightarrow> LogLine list option" where
  "local_logs st fs ns buildRun = (case local_path st ns buildRun of
     Inl _ \<Rightarrow> None | Inr path \<Rightarrow> map_option (local_lines st) (fs path))"

lemma Local_Append_ok:
  assumes "json_lines st" and "local_inv st fs" and "Local_Append st req fs = (Inr (), fs')"
  obtains path old where "local_path st (al_Namespace req) (al_BuildRun req) = Inr path"
    and "(case fs path of None \<Rightarrow> '''' | Some content \<Rightarrow> content) = encoded st old"
    and "fs' = fs(path \<mapsto> encoded st (old @ al_Lines req))"
proof -
  obtain path content where p: "local_path st (al_Namespace req) (al_BuildRun req) = Inr path"
    and e: "encode_lines st (al_Lines req) (case fs path of None \<Rightarrow> '''' | Some content \<Rightarrow> content) = (None, content)"
    and f: "fs' = fs(path \<mapsto> content)"
    using assms(3) by (auto simp: Local_Append_def split: sum.splits option.splits prod.splits)
  obtain old where old: "(case fs path of None \<Rightarrow> '''' | Some content \<Rightarrow> content) = encoded st old"
    using assms(2) encoded_Nil [of st] by (cases "fs path") (auto simp: local_inv_def, metis)
  have "content = encoded st (old @ al_Lines req)"
    using encode_lines_ok [OF e] by (simp add: old encoded_append)
  with p old f show ?thesis using that by blast
qed

text \<open>A store in local files, of an encoder that writes one line per entry, is a store.\<close>

locale json_store =
  fixes st :: LocalStore
  assumes json: "json_lines st"
begin

lemma append_lines:
  assumes "local_inv st fs" and "Local_Append st req fs = (Inr (), fs')" and "local_accepts st ns br"
  shows "local_inv st fs'" and "local_logs st fs' ns br =
    (if ns = al_Namespace req \<and> br = al_BuildRun req
     then Some ((case local_logs st fs ns br of None \<Rightarrow> [] | Some lines \<Rightarrow> lines) @ al_Lines req) else local_logs st fs ns br)"
proof -
  from Local_Append_ok [OF json assms(1,2)] obtain path old
    where p: "local_path st (al_Namespace req) (al_BuildRun req) = Inr path"
      and old: "(case fs path of None \<Rightarrow> '''' | Some content \<Rightarrow> content) = encoded st old"
      and f: "fs' = fs(path \<mapsto> encoded st (old @ al_Lines req))" .
  show "local_inv st fs'" using assms(1) f by (auto simp: local_inv_def)
  obtain q where q: "local_path st ns br = Inr q" using assms(3) local_path_accepts by blast
  have "(case map_option (local_lines st) (fs path) of None \<Rightarrow> [] | Some lines \<Rightarrow> lines) = old"
    using old encoded_inject [OF json, of "[]" old] local_lines_encoded [OF json]
    by (cases "fs path") (auto simp: encoded_Nil)
  then show "local_logs st fs' ns br =
    (if ns = al_Namespace req \<and> br = al_BuildRun req
     then Some ((case local_logs st fs ns br of None \<Rightarrow> [] | Some lines \<Rightarrow> lines) @ al_Lines req) else local_logs st fs ns br)"
    using local_path_inject [OF q p] q p f by (auto simp: local_logs_def local_lines_encoded [OF json])
qed

lemma read_lines:
  assumes "local_inv st fs" and "local_path st (rdl_Namespace req) (rdl_BuildRun req) = Inr path" and "fs path = Some content"
    and "lst_OpenErr st path = None"
  shows "\<exists>lines. local_logs st fs (rdl_Namespace req) (rdl_BuildRun req) = Some lines \<and> Local_Read st req fs =
    (if \<exists>line\<in>set lines. max_line \<le> length (lst_Encode st line)
     then Inl (errorf_w ''read log file'' (errors_New ''bufio.Scanner: token too long''))
     else Inr \<lparr>rdr_Backend = ''local'', rdr_Ref = path, rdr_Lines = FilterAndTail lines (rdl_Step req) (rdl_TailLines req)\<rparr>)"
proof -
  obtain lines where "content = encoded st lines" using assms(1,3) by (auto simp: local_inv_def)
  then show ?thesis
    using assms by (simp add: local_logs_def Local_Read_def local_lines_encoded [OF json] scanned_encoded [OF json]
        decode_encoded [OF json])
qed

end

sublocale json_store \<subseteq> file_logs: log_store "local_accepts st" "local_inv st" "local_logs st"
  "Local_Append st" "Local_Read st" "Local_Delete st"
proof (unfold_locales, goal_cases)
  case (1 s req s')
  show ?case
    by (rule Local_Append_ok [OF json 1]) (use 1(1) in \<open>auto simp: local_inv_def\<close>)
next
  case (2 s req s' ns br)
  then show ?case using append_lines(2) by blast
next
  case (3 s rq res)
  then obtain path content where "local_path st (rdl_Namespace rq) (rdl_BuildRun rq) = Inr path" "s path = Some content"
      "lst_OpenErr st path = None"
    by (auto simp: Local_Read_def split: sum.splits option.splits)
  from read_lines [OF 3(1) this] show ?case using 3(2) by (auto split: if_splits)
next
  case (4 s dq s')
  then show ?case by (auto simp: Local_Delete_def local_inv_def split: sum.splits option.splits if_splits)
next
  case (5 s dq s' ns br)
  then obtain path where p: "local_path st (dl_Namespace dq) (dl_BuildRun dq) = Inr path" "s' = s(path := None)"
    by (auto simp: Local_Delete_def split: sum.splits option.splits)
  obtain q where q: "local_path st ns br = Inr q" using 5(4) local_path_accepts by blast
  show ?case using local_path_inject [OF q p(1)] p q by (auto simp: local_logs_def)
qed


section \<open>A store with an encoder\<close>

text \<open>An encoder that satisfies the contract: three fields in URL-safe base64, separated by full stops.\<close>

definition encode_entry :: "LogLine \<Rightarrow> string" where
  "encode_entry line = RawURL_EncodeToString (Itoa (ll_Timestamp line)) @ CHR ''.'' # RawURL_EncodeToString (ll_Step line)
     @ CHR ''.'' # RawURL_EncodeToString (ll_Message line)"

definition decode_entry :: "string \<Rightarrow> LogLine result" where
  "decode_entry s = (case map RawURL_DecodeString (Split s CHR ''.'') of
     [Some ts, Some step, Some message] \<Rightarrow>
       Inr \<lparr>ll_Timestamp = json_int ts, ll_Step = step, ll_Message = message\<rparr>
   | _ \<Rightarrow> Inl (errors_New ''invalid character''))"

definition file_store :: LocalStore where
  "file_store = \<lparr>lst_Root = ''/logs'', lst_MkdirErr = (\<lambda>p. None), lst_OpenErr = (\<lambda>p. None), lst_WriteErr = (\<lambda>l. None),
     lst_RemoveErr = (\<lambda>p. None), lst_Encode = encode_entry, lst_Decode = decode_entry\<rparr>"

lemma RawURL_chars:
  "c \<in> set (RawURL_EncodeToString s) \<Longrightarrow> c \<noteq> CHR ''.'' \<and> c \<noteq> newline \<and> c \<noteq> CHR 0x0D"
proof -
  have small: "\<forall>n\<in>set (b64_sextets bs). n < 64" if "\<forall>b\<in>set bs. b < 256" for bs
    using that by (induction bs rule: b64_sextets.induct) auto
  assume "c \<in> set (RawURL_EncodeToString s)"
  then obtain n where n: "c = b64_char n" "n < 64"
    using small [of "map byte s"] byte_bound by (auto simp: RawURL_EncodeToString_def)
  have "byte CHR ''.'' = 46" by (simp add: byte_def)
  then have "c \<noteq> CHR ''.''" using byte_b64_char [OF n(2)] n by (auto split: if_splits)
  then show ?thesis using b64_value_char(2,3) [OF n(2)] n(1) by (simp add: newline_def)
qed

lemma file_store_json: "json_lines file_store"
proof -
  have plain: "CHR ''.'' \<notin> set (RawURL_EncodeToString s)" "newline \<notin> set (RawURL_EncodeToString s)"
    "CHR 0x0D \<notin> set (RawURL_EncodeToString s)" for s
    using RawURL_chars by blast+
  have d: "CHR ''.'' \<noteq> newline" "CHR ''.'' \<noteq> CHR 0x0D" by (simp_all add: newline_def)
  have "decode_entry (encode_entry line) = Inr line" for line
    using plain(1) by (simp add: decode_entry_def encode_entry_def Split_append_sep Split_no_sep RawURL_Decode_Encode json_int_Itoa)
  then show ?thesis using plain d by (auto simp: json_lines_def file_store_def encode_entry_def)
qed

interpretation file_logs: json_store file_store
  by unfold_locales (rule file_store_json)


definition two_lines :: "LogLine list" where
  "two_lines = [\<lparr>ll_Timestamp = 1, ll_Step = ''test'', ll_Message = ''go test''\<rparr>, \<lparr>ll_Timestamp = 2, ll_Step = ''test'', ll_Message = ''ok''\<rparr>]"


end
