(* ===== verification/Steps.thy ===== *)
theory Steps
  imports Redact LogStores
begin

text \<open>
  \<open>internal/executor/steps/runner.go\<close>, with the writer of \<open>internal/runner/artifacts.go\<close> that bounds its output and the
  observer of \<open>internal/runner/runner.go\<close> that stores it. Processes, the standard output, the clock and the log store
  are fields of \<open>step_deps\<close>; the slog output and the exit code, which is only logged, are left out.
\<close>

section \<open>Effects\<close>

record step_process =
  sp_Output :: string
  sp_Err :: "go_error option"

datatype step_effect =
    StepStarted "string list" string "string list" "duration option"
  | StepPrinted string
  | LogAppended AppendLogRequest

record 'w step_deps =
  sx_Environ :: "string list"
  sx_Run :: "string list \<Rightarrow> string \<Rightarrow> string list \<Rightarrow> duration option \<Rightarrow> 'w \<Rightarrow> step_process \<times> 'w"
  sx_Stdout :: "string \<Rightarrow> 'w \<Rightarrow> go_error option \<times> 'w"
  sx_Append :: "AppendLogRequest \<Rightarrow> 'w \<Rightarrow> unit result \<times> 'w"
  sx_Now :: "'w \<Rightarrow> gotime \<times> 'w"

type_synonym ('w, 'a) step_io = "('w, step_effect, 'a) io"

text \<open>The variables that the closures of a run share: \<open>boundedWriter.Remaining\<close> and \<open>storedBytes\<close>.\<close>

record log_state =
  Remaining :: int
  storedBytes :: int

record 'w steps_Runner =
  str_Output :: "string \<Rightarrow> log_state \<Rightarrow> ('w, go_error option \<times> log_state) step_io"
  str_Observe :: "(string \<Rightarrow> string \<Rightarrow> log_state \<Rightarrow> ('w, go_error option \<times> log_state) step_io) option"


section \<open>Writers\<close>

definition stdout_Write :: "'w step_deps \<Rightarrow> string \<Rightarrow> log_state \<Rightarrow> ('w, go_error option \<times> log_state) step_io" where
  "stdout_Write d data ls = do {
     err \<leftarrow> call (StepPrinted data) (sx_Stdout d data);
     State_Monad.return (err, ls)
   }"

definition boundedWriter_Write ::
  "(string \<Rightarrow> log_state \<Rightarrow> ('w, go_error option \<times> log_state) step_io)
     \<Rightarrow> string \<Rightarrow> log_state \<Rightarrow> ('w, go_error option \<times> log_state) step_io" where
  "boundedWriter_Write writer data ls =
     (if Remaining ls \<le> 0 then State_Monad.return (None, ls)
      else let data = (if int (length data) > Remaining ls then take (nat (Remaining ls)) data else data) in
        if data = '''' then State_Monad.return (None, ls)
        else do {
          (err, ls) \<leftarrow> writer data ls;
          State_Monad.return (case err of
              Some err \<Rightarrow> (Some err, ls)
            | None \<Rightarrow> (None, ls\<lparr>Remaining := Remaining ls - int (length data)\<rparr>))
        })"

fun stamp_lines :: "'w step_deps \<Rightarrow> string \<Rightarrow> string list \<Rightarrow> ('w, LogLine list) step_io" where
  "stamp_lines d step [] = State_Monad.return []"
| "stamp_lines d step (message # messages) = do {
     now \<leftarrow> query (sx_Now d);
     lines \<leftarrow> stamp_lines d step messages;
     State_Monad.return (\<lparr>ll_Timestamp = now, ll_Step = step, ll_Message = message\<rparr> # lines)
   }"

text \<open>\<open>storedLogs.Append\<close> on the redacting store.\<close>

definition append_redacted ::
  "'w step_deps \<Rightarrow> Redactor \<Rightarrow> string \<Rightarrow> string \<Rightarrow> LogLine list \<Rightarrow> ('w, unit result) step_io" where
  "append_redacted d redactor ns buildRun lines =
     (let req = redacted_request (Some (Mask redactor)) \<lparr>al_Namespace = ns, al_BuildRun = buildRun, al_Lines = lines\<rparr> in
      call (LogAppended req) (sx_Append d req))"

definition observe_output ::
  "'w step_deps \<Rightarrow> Redactor \<Rightarrow> string \<Rightarrow> string \<Rightarrow> int \<Rightarrow> string \<Rightarrow> string \<Rightarrow> log_state
     \<Rightarrow> ('w, go_error option \<times> log_state) step_io" where
  "observe_output d redactor ns buildRun maxLogBytes step data ls =
     (let ls = ls\<lparr>storedBytes := storedBytes ls + int (length data)\<rparr> in
      if maxLogBytes > 0 \<and> storedBytes ls > maxLogBytes
      then State_Monad.return (Some (errors_New (''project maxLogSize of '' @ Itoa maxLogBytes @ '' bytes exceeded'')), ls)
      else do {
        lines \<leftarrow> stamp_lines d step (message_lines data);
        r \<leftarrow> append_redacted d redactor ns buildRun lines;
        State_Monad.return (case r of Inl err \<Rightarrow> Some err | Inr _ \<Rightarrow> None, ls)
      })"


section \<open>Steps\<close>

definition workingDir :: "string \<Rightarrow> string \<Rightarrow> string" where
  "workingDir sourceDir stepWorkingDir =
     (if stepWorkingDir = '''' then sourceDir
      else if IsAbs stepWorkingDir then stepWorkingDir
      else FilepathJoin [sourceDir, stepWorkingDir])"

definition step_environment :: "'w step_deps \<Rightarrow> PipelineStep \<Rightarrow> string list" where
  "step_environment d step =
     sx_Environ d @ map (\<lambda>env. ev_Name env @ ''='' @ ev_Value env) (filter (\<lambda>env. ev_Value env \<noteq> '''') (step_Env step))"

definition observe_step ::
  "'w steps_Runner \<Rightarrow> PipelineStep \<Rightarrow> string \<Rightarrow> log_state \<Rightarrow> ('w, go_error option \<times> log_state) step_io" where
  "observe_step r step redacted ls = (case str_Observe r of
     None \<Rightarrow> State_Monad.return (None, ls)
   | Some observe \<Rightarrow>
       if redacted = '''' then State_Monad.return (None, ls)
       else do {
         (err, ls) \<leftarrow> observe (step_Name step) redacted ls;
         State_Monad.return
           (map_option (errorf_w (''persist logs for step '' @ quote (step_Name step))) err, ls)
       })"

definition step_error :: "PipelineStep \<Rightarrow> string \<Rightarrow> go_error \<Rightarrow> go_error" where
  "step_error step redacted err = errorf_w (''step '' @ quote (step_Name step) @ '' failed: '' @ redacted) err"

definition step_finished ::
  "'w steps_Runner \<Rightarrow> PipelineStep \<Rightarrow> string \<Rightarrow> go_error option \<Rightarrow> log_state \<Rightarrow> ('w, go_error option \<times> log_state) step_io" where
  "step_finished r step redacted err ls = do {
     (_, ls) \<leftarrow> (if redacted \<noteq> '''' then str_Output r redacted ls else State_Monad.return (None, ls));
     (observeErr, ls) \<leftarrow> observe_step r step redacted ls;
     State_Monad.return (case observeErr of
         Some err \<Rightarrow> (Some err, ls)
       | None \<Rightarrow> (map_option (step_error step redacted) err, ls))
   }"

definition runStep ::
  "'w step_deps \<Rightarrow> 'w steps_Runner \<Rightarrow> string \<Rightarrow> PipelineStep \<Rightarrow> Redactor \<Rightarrow> log_state
     \<Rightarrow> ('w, go_error option \<times> log_state) step_io" where
  "runStep d r sourceDir step redactor ls =
     (if step_Name step = '''' then State_Monad.return (Some (errors_New ''pipeline step name is required''), ls)
      else if step_Command step = []
      then State_Monad.return (Some (errors_New (''step '' @ quote (step_Name step) @ '' command is required'')), ls)
      else
        let argv = step_Command step @ step_Args step;
            dir = workingDir sourceDir (step_WorkingDir step);
            env = step_environment d step;
            timeout = (if step_TimeoutSeconds step > 0 then Some (seconds (step_TimeoutSeconds step)) else None) in do {
        p \<leftarrow> call (StepStarted argv dir env timeout) (sx_Run d argv dir env timeout);
        step_finished r step (Mask redactor (sp_Output p)) (sp_Err p) ls
      })"

fun Run_steps ::
  "'w step_deps \<Rightarrow> 'w steps_Runner \<Rightarrow> string \<Rightarrow> PipelineStep list \<Rightarrow> Redactor \<Rightarrow> log_state
     \<Rightarrow> ('w, go_error option \<times> log_state) step_io" where
  "Run_steps d r sourceDir [] redactor ls = State_Monad.return (None, ls)"
| "Run_steps d r sourceDir (step # steps) redactor ls = do {
     (err, ls) \<leftarrow> runStep d r sourceDir step redactor ls;
     case err of
       None \<Rightarrow> Run_steps d r sourceDir steps redactor ls
     | Some err \<Rightarrow>
         if step_ContinueOnError step then Run_steps d r sourceDir steps redactor ls
         else State_Monad.return (Some err, ls)
   }"


section \<open>Secrets do not show\<close>

text \<open>Nothing that the effect prints or stores contains \<open>v\<close>.\<close>

fun hides :: "string \<Rightarrow> step_effect \<Rightarrow> bool" where
  "hides v (StepStarted _ _ _ _) = True"
| "hides v (StepPrinted data) \<longleftrightarrow> \<not> sublist v data"
| "hides v (LogAppended req) \<longleftrightarrow> (\<forall>line \<in> set (al_Lines req). \<not> sublist v (ll_Message line))"

definition hides_all :: "string \<Rightarrow> step_effect set" where
  "hides_all v = {e. hides v e}"

lemma only_append_redacted:
  assumes "maskable v" and "v \<in> set values"
  shows "only (hides_all v) (append_redacted d (New values) ns buildRun lines)"
  using assms by (auto simp: append_redacted_def redacted_request_def hides_all_def Let_def Mask_free intro!: only_intros)

lemma only_stamp_lines [only_intros]: "only E (stamp_lines d step messages)"
  by (induction messages) (auto intro!: only_intros)

lemma only_observe_output:
  assumes "maskable v" and "v \<in> set values"
  shows "only (hides_all v) (observe_output d (New values) ns buildRun maxLogBytes step data ls)"
  using only_append_redacted [OF assms] by (auto simp: observe_output_def Let_def intro!: only_intros)

text \<open>A runner that does not show \<open>v\<close> when it is given data without \<open>v\<close>.\<close>

definition discreet :: "string \<Rightarrow> 'w steps_Runner \<Rightarrow> bool" where
  "discreet v r \<longleftrightarrow> (\<forall>data ls. \<not> sublist v data \<longrightarrow> only (hides_all v) (str_Output r data ls))
     \<and> (\<forall>observe step data ls. str_Observe r = Some observe \<longrightarrow> only (hides_all v) (observe step data ls))"

lemma only_stdout_Write: "\<not> sublist v data \<Longrightarrow> only (hides_all v) (stdout_Write d data ls)"
  by (auto simp: stdout_Write_def hides_all_def intro!: only_intros)

lemma only_boundedWriter:
  assumes "\<And>data ls. \<not> sublist v data \<Longrightarrow> only E (writer data ls)" and "\<not> sublist v data"
  shows "only E (boundedWriter_Write writer data ls)"
proof -
  have "\<not> sublist v (take n data)" for n
    using assms(2) sublist_take sublist_order.order.trans by blast
  with assms show ?thesis by (auto simp: boundedWriter_Write_def Let_def intro!: only_intros)
qed

lemma only_runStep:
  assumes "discreet v r" and "maskable v" and "v \<in> set values"
  shows "only (hides_all v) (runStep d r sourceDir step (New values) ls)"
proof -
  have "only (hides_all v) (step_finished r step (Mask (New values) data) err ls)" for data err ls
    using assms by (auto simp: step_finished_def observe_step_def discreet_def Mask_free
        intro!: only_intros split: option.split)
  then show ?thesis by (auto simp: runStep_def Let_def hides_all_def intro!: only_intros)
qed

lemma only_Run_steps:
  assumes "discreet v r" and "maskable v" and "v \<in> set values"
  shows "only (hides_all v) (Run_steps d r sourceDir steps (New values) ls)"
  by (induction steps arbitrary: ls) (auto intro!: only_intros only_runStep [OF assms] split: option.split)


section \<open>The bound of the output\<close>

fun printed :: "step_effect \<Rightarrow> int" where
  "printed (StepPrinted data) = int (length data)"
| "printed e = 0"

definition printed_bytes :: "step_effect list \<Rightarrow> int" where
  "printed_bytes es = sum_list (map printed es)"

text \<open>What was printed was taken from the remaining bytes.\<close>

definition accounted :: "log_state \<Rightarrow> ('w, step_effect) sys \<Rightarrow> log_state \<Rightarrow> ('w, step_effect) sys \<Rightarrow> bool" where
  "accounted ls s ls' t \<longleftrightarrow> (\<exists>new. trace t = trace s @ new \<and> 0 \<le> Remaining ls'
     \<and> printed_bytes new + Remaining ls' = Remaining ls)"

lemma accounted_refl: "0 \<le> Remaining ls \<Longrightarrow> Remaining ls' = Remaining ls \<Longrightarrow> trace t = trace s \<Longrightarrow> accounted ls s ls' t"
  by (simp add: accounted_def printed_bytes_def)

lemma accounted_trans: "accounted ls s ls' t \<Longrightarrow> accounted ls' t ls'' u \<Longrightarrow> accounted ls s ls'' u"
  by (fastforce simp: accounted_def printed_bytes_def)

text \<open>The standard output takes what is written to it.\<close>

definition writes_out :: "'w step_deps \<Rightarrow> bool" where
  "writes_out d \<longleftrightarrow> (\<forall>data w. fst (sx_Stdout d data w) = None)"

definition bounded_runner :: "'w step_deps \<Rightarrow> 'w steps_Runner \<Rightarrow> bool" where
  "bounded_runner d r \<longleftrightarrow> str_Output r = boundedWriter_Write (stdout_Write d)
     \<and> (\<forall>observe step data ls s. str_Observe r = Some observe \<longrightarrow> 0 \<le> Remaining ls \<longrightarrow>
          wp (observe step data ls) (\<lambda>r t. accounted ls s (snd r) t) s)"

lemma boundedWriter_accounted:
  assumes "writes_out d" and "0 \<le> Remaining ls"
  shows "wp (boundedWriter_Write (stdout_Write d) data ls) (\<lambda>r t. accounted ls s (snd r) t) s"
  using assms
  by (auto simp: boundedWriter_Write_def stdout_Write_def Let_def wp_simps writes_out_def accounted_def printed_bytes_def)

lemma stamp_lines_silent: "wp (stamp_lines d step messages) (\<lambda>lines t. trace t = trace s) s"
proof (induction messages arbitrary: s)
  case (Cons message messages)
  show ?case
    by (simp add: wp_simps) (rule wp_mono [OF Cons.IH], simp add: wp_eta)
qed (simp add: wp_simps)

lemma observe_accounted:
  assumes "0 \<le> Remaining ls"
  shows "wp (observe_output d redactor ns buildRun maxLogBytes step data ls) (\<lambda>r t. accounted ls s (snd r) t) s"
proof -
  have "wp (stamp_lines d step messages) (\<lambda>lines. wp (append_redacted d redactor ns buildRun lines \<bind>
      (\<lambda>r. State_Monad.return (f r, ls\<lparr>storedBytes := n\<rparr>))) (\<lambda>r t. accounted ls s (snd r) t)) s" for messages n and f :: "unit result \<Rightarrow> go_error option"
    by (rule wp_mono [OF stamp_lines_silent [where s = s]])
      (use assms in \<open>simp add: append_redacted_def Let_def wp_eta accounted_def printed_bytes_def\<close>)
  then show ?thesis
    unfolding observe_output_def Let_def wp_if wp_return wp_bind [of "stamp_lines _ _ _"]
    using assms by (simp only:) (simp add: accounted_refl)
qed

lemma step_finished_accounted:
  assumes "writes_out d" and "bounded_runner d r" and "0 \<le> Remaining ls"
  shows "wp (step_finished r step redacted err ls) (\<lambda>r t. accounted ls s (snd r) t) s"
proof -
  have observe: "wp (observe_step r step redacted ls') (\<lambda>r t. accounted ls s (snd r) t) t" if "accounted ls s ls' t" for ls' t
  proof (cases "str_Observe r")
    case (Some observe)
    have "0 \<le> Remaining ls'" using that by (auto simp: accounted_def)
    with assms(2) Some have "wp (observe (step_Name step) redacted ls') (\<lambda>r u. accounted ls' t (snd r) u) t"
      by (auto simp: bounded_runner_def)
    then have "wp (observe (step_Name step) redacted ls') (\<lambda>r u. accounted ls s (snd r) u) t"
      by (rule wp_mono) (rule accounted_trans [OF that])
    with that Some show ?thesis by (simp add: observe_step_def wp_simps wp_eta case_prod_beta)
  qed (simp add: observe_step_def wp_simps that)
  have after: "wp (observe_step r step redacted ls') (\<lambda>a. wp (case a of (observeErr, ls) \<Rightarrow> State_Monad.return (case observeErr of
         Some err \<Rightarrow> (Some err, ls) | None \<Rightarrow> (map_option (step_error step redacted) err, ls)))
       (\<lambda>r t. accounted ls s (snd r) t)) t" if "accounted ls s ls' t" for ls' t
    by (rule wp_mono [OF observe [OF that]]) (simp add: wp_simps case_prod_beta split: option.split)
  have "wp (if redacted \<noteq> [] then str_Output r redacted ls else State_Monad.return (None, ls))
      (\<lambda>r t. accounted ls s (snd r) t) s"
    using boundedWriter_accounted [OF assms(1,3)] assms(2,3) by (simp add: bounded_runner_def wp_simps accounted_refl)
  then show ?thesis
    unfolding step_finished_def wp_bind
    by (rule wp_mono) (simp add: case_prod_beta wp_bind after [unfolded case_prod_beta])
qed

lemma runStep_accounted:
  assumes "writes_out d" and "bounded_runner d r" and "0 \<le> Remaining ls"
  shows "wp (runStep d r sourceDir step redactor ls) (\<lambda>r t. accounted ls s (snd r) t) s"
proof -
  have "wp (step_finished r step (Mask redactor data) err ls) (\<lambda>r t. accounted ls s (snd r) t) u"
    if u: "trace u = trace s @ [StepStarted argv dir env timeout]" for data err argv dir env timeout u
    by (rule wp_mono [OF step_finished_accounted [OF assms, where s = u]])
      (auto simp: accounted_def u printed_bytes_def)
  with assms(3) show ?thesis by (auto simp: runStep_def Let_def wp_simps accounted_refl)
qed

text \<open>The steps of a run print at most the bytes that remain.\<close>

lemma Run_steps_accounted:
  assumes "writes_out d" and "bounded_runner d r"
  shows "0 \<le> Remaining ls \<Longrightarrow> wp (Run_steps d r sourceDir steps redactor ls) (\<lambda>r t. accounted ls s (snd r) t) s"
proof (induction steps arbitrary: ls s)
  case (Cons step steps)
  show ?case
    unfolding Run_steps.simps wp_bind
  proof (rule wp_mono [OF runStep_accounted [OF assms Cons.prems]])
    fix a :: "go_error option \<times> log_state" and t
    assume a: "accounted ls s (snd a) t"
    then have "wp (Run_steps d r sourceDir steps redactor (snd a)) (\<lambda>r u. accounted (snd a) t (snd r) u) t"
      by (intro Cons.IH) (auto simp: accounted_def)
    then have "wp (Run_steps d r sourceDir steps redactor (snd a)) (\<lambda>r u. accounted ls s (snd r) u) t"
      by (rule wp_mono) (rule accounted_trans [OF a])
    with a show "wp (case a of (err, ls) \<Rightarrow> (case err of None \<Rightarrow> Run_steps d r sourceDir steps redactor ls
         | Some err \<Rightarrow> if step_ContinueOnError step then Run_steps d r sourceDir steps redactor ls
             else State_Monad.return (Some err, ls))) (\<lambda>r t. accounted ls s (snd r) t) t"
      by (auto simp: case_prod_beta wp_simps split: option.split)
  qed
qed (simp add: wp_simps accounted_refl)

end
