(* ===== verification/SupplyChain.thy ===== *)
theory SupplyChain
  imports ControllerKit GoPath
begin

text \<open>
  \<open>internal/supplychain\<close>: the requests and results of the hooks that run after an image build, their no-op
  implementations in \<open>hooks.go\<close> and the adapters of Syft, Grype, Cosign and the provenance file in \<open>adapters.go\<close>.
  The processes, the file system, the hash and JSON are fields of \<open>tool_deps\<close>.
\<close>

section \<open>Requests and results\<close>

record ImageContext =
  ic_BuildRunName :: string
  ic_Namespace :: string
  ic_ProjectName :: string
  ic_SourceDir :: string
  ic_RepositoryURL :: string
  ic_CommitSHA :: string
  ic_PipelineTemplate :: string
  ic_StartedAt :: "gotime option"
  ic_CompletedAt :: "gotime option"
  ic_Image :: ImageRef

record SBOMResult =
  sbr_Path :: string
  sbr_Digest :: string

record ScanRequest =
  scq_Context :: ImageContext
  scq_SBOMPath :: string

record ScanResult =
  scr_ResultsRef :: string
  scr_Critical :: int
  scr_High :: int
  scr_Medium :: int
  scr_Low :: int

record SignResult =
  sgr_SignatureRef :: string

record ProvenanceRequest =
  pvq_Context :: ImageContext
  pvq_SBOMPath :: string
  pvq_SBOMDigest :: string
  pvq_SignatureRef :: string
  pvq_ScannerResultsRef :: string

record ProvenanceResult =
  pvr_Ref :: string

text \<open>\<open>provenanceDocument\<close>.\<close>

record provenanceDocument =
  pvd_BuildRun :: string
  pvd_Namespace :: string
  pvd_RepositoryURL :: string
  pvd_CommitSHA :: string
  pvd_PipelineTemplate :: string
  pvd_Image :: string
  pvd_ImageDigest :: string
  pvd_StartedAt :: "gotime option"
  pvd_CompletedAt :: "gotime option"
  pvd_SBOMPath :: string
  pvd_SBOMDigest :: string
  pvd_SignatureRef :: string
  pvd_ScannerResultsRef :: string

datatype tool_effect =
    ToolStarted string "string list"
  | DocumentWritten string provenanceDocument

record 'w tool_deps =
  tx_LookPath :: "string \<Rightarrow> 'w \<Rightarrow> string result \<times> 'w"
  tx_MkdirAll :: "string \<Rightarrow> 'w \<Rightarrow> unit result \<times> 'w"
  tx_Run :: "string \<Rightarrow> string list \<Rightarrow> 'w \<Rightarrow> unit result \<times> 'w"
  tx_ReadFile :: "string \<Rightarrow> 'w \<Rightarrow> string result \<times> 'w"
  tx_WriteFile :: "string \<Rightarrow> string \<Rightarrow> 'w \<Rightarrow> unit result \<times> 'w"
  tx_Sum256 :: "string \<Rightarrow> string"
  tx_Severities :: "string \<Rightarrow> string list result"
  tx_Encode :: "provenanceDocument \<Rightarrow> string result"

type_synonym ('w, 'a) tool_io = "('w, tool_effect, 'a) io"

text \<open>The interfaces; a missing result is \<open>None\<close>.\<close>

datatype SBOMGenerator = NoopSBOMGenerator | SyftSBOMGenerator string
datatype VulnerabilityScanner = NoopScanner | GrypeScanner string

record CosignSigner =
  cos_Binary :: string
  cos_Keyless :: bool
  cos_KeyPath :: string

datatype ImageSigner = NoopSigner | CosignSigner CosignSigner
datatype ProvenanceWriter = NoopProvenanceWriter | JSONProvenanceWriter


section \<open>Helpers\<close>

definition requiredBinary :: "'w tool_deps \<Rightarrow> string \<Rightarrow> string \<Rightarrow> ('w, string result) tool_io" where
  "requiredBinary d configured fallback =
     wrap (fallback @ '' binary is unavailable'')
       (query (tx_LookPath d (if configured = '''' then fallback else configured)))"

definition runCommand :: "'w tool_deps \<Rightarrow> string \<Rightarrow> string list \<Rightarrow> ('w, unit result) tool_io" where
  "runCommand d binary args = call (ToolStarted binary args) (tx_Run d binary args)"

definition artifactPath :: "'w tool_deps \<Rightarrow> string \<Rightarrow> string \<Rightarrow> ('w, string result) tool_io" where
  "artifactPath d sourceDir name =
     (if sourceDir = '''' then fail (errors_New ''source directory is required for supply-chain artifacts'')
      else let dir = FilepathJoin [sourceDir, ''.cloudivision''] in
        check (wrap ''create supply-chain artifact directory'' (query (tx_MkdirAll d dir)))
          (\<lambda>_. ok (FilepathJoin [dir, name])))"

definition fileSHA256 :: "'w tool_deps \<Rightarrow> string \<Rightarrow> ('w, string result) tool_io" where
  "fileSHA256 d path = check (query (tx_ReadFile d path)) (\<lambda>data. ok (''sha256:'' @ tx_Sum256 d data))"

definition imageReference :: "ImageRef \<Rightarrow> string" where
  "imageReference img =
     (if img_Digest img \<noteq> '''' then img_Repository img @ ''@'' @ img_Digest img
      else if img_Tag img \<noteq> '''' then img_Repository img @ '':'' @ img_Tag img
      else img_Repository img)"

definition ScanResult_zero :: ScanResult where
  "ScanResult_zero = \<lparr>scr_ResultsRef = '''', scr_Critical = 0, scr_High = 0, scr_Medium = 0, scr_Low = 0\<rparr>"

definition count_severity :: "ScanResult \<Rightarrow> string \<Rightarrow> ScanResult" where
  "count_severity scan severity = (let severity = ToLower severity in
     if severity = ''critical'' then scan\<lparr>scr_Critical := scr_Critical scan + 1\<rparr>
     else if severity = ''high'' then scan\<lparr>scr_High := scr_High scan + 1\<rparr>
     else if severity = ''medium'' then scan\<lparr>scr_Medium := scr_Medium scan + 1\<rparr>
     else if severity = ''low'' \<or> severity = ''negligible'' then scan\<lparr>scr_Low := scr_Low scan + 1\<rparr>
     else scan)"

definition readGrypeSummary :: "'w tool_deps \<Rightarrow> string \<Rightarrow> ('w, ScanResult result) tool_io" where
  "readGrypeSummary d path =
     check (wrap ''read grype results'' (query (tx_ReadFile d path))) (\<lambda>data. State_Monad.return
       (case tx_Severities d data of
          Inl err \<Rightarrow> Inl (errorf_w ''parse grype results'' err)
        | Inr severities \<Rightarrow> Inr (foldl count_severity ScanResult_zero severities)))"


section \<open>Adapters\<close>

definition Syft_GenerateSBOM :: "'w tool_deps \<Rightarrow> string \<Rightarrow> ImageContext \<Rightarrow> ('w, SBOMResult option result) tool_io" where
  "Syft_GenerateSBOM d binary req =
     check (wrap ''SBOM generation required'' (requiredBinary d binary ''syft'')) (\<lambda>binary.
     check (artifactPath d (ic_SourceDir req) ''sbom.spdx.json'') (\<lambda>path.
     check (wrap ''run syft'' (runCommand d binary [imageReference (ic_Image req), ''-o'', ''spdx-json='' @ path])) (\<lambda>_.
     check (wrap ''digest SBOM'' (fileSHA256 d path)) (\<lambda>digest.
       ok (Some \<lparr>sbr_Path = path, sbr_Digest = digest\<rparr>)))))"

definition GenerateSBOM :: "'w tool_deps \<Rightarrow> SBOMGenerator \<Rightarrow> ImageContext \<Rightarrow> ('w, SBOMResult option result) tool_io" where
  "GenerateSBOM d g req = (case g of
     NoopSBOMGenerator \<Rightarrow> ok (Some \<lparr>sbr_Path = '''', sbr_Digest = ''''\<rparr>)
   | SyftSBOMGenerator binary \<Rightarrow> Syft_GenerateSBOM d binary req)"

definition Grype_ScanImage :: "'w tool_deps \<Rightarrow> string \<Rightarrow> ScanRequest \<Rightarrow> ('w, ScanResult option result) tool_io" where
  "Grype_ScanImage d binary req =
     check (wrap ''image scan required'' (requiredBinary d binary ''grype'')) (\<lambda>binary.
     check (artifactPath d (ic_SourceDir (scq_Context req)) ''grype-results.json'') (\<lambda>path.
     check (wrap ''run grype''
         (runCommand d binary [imageReference (ic_Image (scq_Context req)), ''-o'', ''json'', ''--file'', path])) (\<lambda>_.
     check (readGrypeSummary d path) (\<lambda>scan. ok (Some (scan\<lparr>scr_ResultsRef := path\<rparr>))))))"

definition ScanImage :: "'w tool_deps \<Rightarrow> VulnerabilityScanner \<Rightarrow> ScanRequest \<Rightarrow> ('w, ScanResult option result) tool_io" where
  "ScanImage d g req = (case g of
     NoopScanner \<Rightarrow> ok (Some ScanResult_zero)
   | GrypeScanner binary \<Rightarrow> Grype_ScanImage d binary req)"

text \<open>How Cosign signs: the name of the mode and the arguments that choose it.\<close>

definition cosign_mode :: "CosignSigner \<Rightarrow> (string \<times> string list) result" where
  "cosign_mode a =
     (if cos_Keyless a \<and> cos_KeyPath a \<noteq> ''''
      then Inl (errors_New ''cosign keyless and key-based modes are mutually exclusive'')
      else if cos_Keyless a then Inr (''keyless'', [])
      else if cos_KeyPath a \<noteq> '''' then Inr (''key'', [''--key'', cos_KeyPath a])
      else Inl (errors_New ''cosign signing requires explicit keyless mode or a mounted key Secret''))"

definition Cosign_SignImage :: "'w tool_deps \<Rightarrow> CosignSigner \<Rightarrow> ImageContext \<Rightarrow> ('w, SignResult option result) tool_io" where
  "Cosign_SignImage d a req =
     check (wrap ''image signing required'' (requiredBinary d (cos_Binary a) ''cosign'')) (\<lambda>binary.
       case cosign_mode a of
         Inl err \<Rightarrow> fail err
       | Inr (mode, args) \<Rightarrow>
           (let img = imageReference (ic_Image req) in
            check (wrap (''run cosign in '' @ mode @ '' mode'')
                (runCommand d binary ([''sign'', ''--yes''] @ args @ [img]))) (\<lambda>_.
              ok (Some \<lparr>sgr_SignatureRef = ''cosign://'' @ img\<rparr>))))"

definition SignImage :: "'w tool_deps \<Rightarrow> ImageSigner \<Rightarrow> ImageContext \<Rightarrow> ('w, SignResult option result) tool_io" where
  "SignImage d g req = (case g of
     NoopSigner \<Rightarrow> ok (Some \<lparr>sgr_SignatureRef = ''''\<rparr>)
   | CosignSigner a \<Rightarrow> Cosign_SignImage d a req)"

definition provenance_of :: "ProvenanceRequest \<Rightarrow> provenanceDocument" where
  "provenance_of req = (let c = pvq_Context req in
     \<lparr>pvd_BuildRun = ic_BuildRunName c, pvd_Namespace = ic_Namespace c, pvd_RepositoryURL = ic_RepositoryURL c,
      pvd_CommitSHA = ic_CommitSHA c, pvd_PipelineTemplate = ic_PipelineTemplate c,
      pvd_Image = imageReference (ic_Image c), pvd_ImageDigest = img_Digest (ic_Image c),
      pvd_StartedAt = ic_StartedAt c, pvd_CompletedAt = ic_CompletedAt c,
      pvd_SBOMPath = pvq_SBOMPath req, pvd_SBOMDigest = pvq_SBOMDigest req,
      pvd_SignatureRef = pvq_SignatureRef req, pvd_ScannerResultsRef = pvq_ScannerResultsRef req\<rparr>)"

definition JSON_WriteProvenance :: "'w tool_deps \<Rightarrow> ProvenanceRequest \<Rightarrow> ('w, ProvenanceResult option result) tool_io" where
  "JSON_WriteProvenance d req =
     check (artifactPath d (ic_SourceDir (pvq_Context req)) ''provenance.json'') (\<lambda>path.
       case tx_Encode d (provenance_of req) of
         Inl err \<Rightarrow> fail (errorf_w ''encode provenance'' err)
       | Inr data \<Rightarrow>
           check (wrap ''write provenance'' (call (DocumentWritten path (provenance_of req))
               (tx_WriteFile d path (data @ [CHR 0x0A])))) (\<lambda>_.
             ok (Some \<lparr>pvr_Ref = path\<rparr>)))"

definition WriteProvenance :: "'w tool_deps \<Rightarrow> ProvenanceWriter \<Rightarrow> ProvenanceRequest \<Rightarrow> ('w, ProvenanceResult option result) tool_io" where
  "WriteProvenance d g req = (case g of
     NoopProvenanceWriter \<Rightarrow> ok (Some \<lparr>pvr_Ref = ''''\<rparr>)
   | JSONProvenanceWriter \<Rightarrow> JSON_WriteProvenance d req)"


section \<open>What the tools are run on\<close>

text \<open>Every tool is told the image of the request, by its digest if it has one.\<close>

definition on_image :: "ImageRef \<Rightarrow> tool_effect set" where
  "on_image img = {e. case e of
     ToolStarted binary args \<Rightarrow> imageReference img \<in> set args
   | DocumentWritten path doc \<Rightarrow> pvd_Image doc = imageReference img \<and> pvd_ImageDigest doc = img_Digest img}"

lemma only_runCommand [only_intros]: "imageReference img \<in> set args \<Longrightarrow> only (on_image img) (runCommand d binary args)"
  by (auto simp: runCommand_def on_image_def intro!: only_intros)

lemma only_helpers [only_intros]:
  "only E (requiredBinary d configured fallback)" "only E (artifactPath d dir name)" "only E (fileSHA256 d path)"
  "only E (readGrypeSummary d path)"
  by (auto simp: requiredBinary_def artifactPath_def fileSHA256_def readGrypeSummary_def Let_def intro!: only_intros)

lemma tools_on_image:
  "only (on_image (ic_Image req)) (GenerateSBOM d sbom req)"
  "only (on_image (ic_Image (scq_Context scan))) (ScanImage d scanner scan)"
  "only (on_image (ic_Image req)) (SignImage d signer req)"
  "only (on_image (ic_Image (pvq_Context prov))) (WriteProvenance d writer prov)"
proof -
  show "only (on_image (ic_Image req)) (GenerateSBOM d sbom req)"
    by (cases sbom) (auto simp: GenerateSBOM_def Syft_GenerateSBOM_def intro!: only_intros)
  show "only (on_image (ic_Image (scq_Context scan))) (ScanImage d scanner scan)"
    by (cases scanner) (auto simp: ScanImage_def Grype_ScanImage_def intro!: only_intros)
  show "only (on_image (ic_Image req)) (SignImage d signer req)"
    by (cases signer) (auto simp: SignImage_def Cosign_SignImage_def Let_def intro!: only_intros split: sum.split prod.split)
  show "only (on_image (ic_Image (pvq_Context prov))) (WriteProvenance d writer prov)"
    by (cases writer) (auto simp: WriteProvenance_def JSON_WriteProvenance_def on_image_def provenance_of_def Let_def
        intro!: only_intros split: sum.split)
qed

text \<open>The scan's counts add up to the findings of a known severity.\<close>

definition counted_severities :: "string list" where
  "counted_severities = [''critical'', ''high'', ''medium'', ''low'', ''negligible'']"

definition scan_total :: "ScanResult \<Rightarrow> int" where
  "scan_total scan = scr_Critical scan + scr_High scan + scr_Medium scan + scr_Low scan"

lemma count_severity_total:
  "scan_total (count_severity scan severity) = scan_total scan + (if ToLower severity \<in> set counted_severities then 1 else 0)"
  by (simp add: count_severity_def scan_total_def counted_severities_def Let_def)

lemma scan_total_foldl:
  "scan_total (foldl count_severity scan severities)
   = scan_total scan + int (length (filter (\<lambda>s. ToLower s \<in> set counted_severities) severities))"
  by (induction severities arbitrary: scan) (simp_all add: count_severity_total)

end
