(* ===== verification/Artifacts.thy ===== *)
theory Artifacts
  imports LogStores "HOL-Library.AList"
begin

text \<open>
  The artifacts of builds: collecting them after the steps, in \<open>internal/runner/artifacts.go\<close>, and
  the stores of \<open>internal/artifacts\<close>. The file system, the hash, the table of media types and the
  JSON encoder are arguments.
\<close>

section \<open>Stores\<close>

definition errArtifactNotFound :: go_error where
  "errArtifactNotFound = GoError ''artifact not found'' [Sentinel ''artifacts.ErrNotFound'']"
definition ErrDisabled :: go_error where
  "ErrDisabled = GoError ''artifact storage is disabled'' [Sentinel ''artifacts.ErrDisabled'']"

record ArtifactRef =
  arf_Namespace :: string
  arf_BuildRun :: string
  arf_Name :: string
  arf_Path :: string
  arf_Type :: string
  arf_Size :: int
  arf_Digest :: string
  arf_Ref :: string
  arf_CreatedAt :: gotime

record Artifact =
  afc_Ref :: ArtifactRef
  afc_Data :: string

record PutArtifactRequest =
  put_Namespace :: string
  put_BuildRun :: string
  put_Name :: string
  put_Path :: string
  put_Type :: string
  put_Digest :: string
  put_Data :: string
  put_RetentionDays :: int

definition ref_of :: "PutArtifactRequest \<Rightarrow> string \<Rightarrow> gotime \<Rightarrow> ArtifactRef" where
  "ref_of req ref now = \<lparr>arf_Namespace = put_Namespace req, arf_BuildRun = put_BuildRun req, arf_Name = put_Name req,
     arf_Path = put_Path req, arf_Type = put_Type req, arf_Size = int (length (put_Data req)), arf_Digest = put_Digest req,
     arf_Ref = ref, arf_CreatedAt = now\<rparr>"

type_synonym memory_artifacts = "(string \<times> Artifact) list"

definition MemoryArtifacts_Put :: "gotime \<Rightarrow> PutArtifactRequest \<Rightarrow> memory_artifacts \<Rightarrow> ArtifactRef result \<times> memory_artifacts" where
  "MemoryArtifacts_Put now req s =
     (let ref = ref_of req (''memory://'' @ put_Namespace req @ ''/'' @ put_BuildRun req @ ''/'' @ put_Name req) now in
      (Inr ref, AList.update (arf_Ref ref) \<lparr>afc_Ref = ref, afc_Data = put_Data req\<rparr> s))"

definition MemoryArtifacts_Get :: "ArtifactRef \<Rightarrow> memory_artifacts \<Rightarrow> Artifact result" where
  "MemoryArtifacts_Get ref s = (case map_of s (arf_Ref ref) of None \<Rightarrow> Inl errArtifactNotFound | Some item \<Rightarrow> Inr item)"

definition MemoryArtifacts_List :: "string \<Rightarrow> string \<Rightarrow> memory_artifacts \<Rightarrow> ArtifactRef list" where
  "MemoryArtifacts_List ns buildRun s =
     filter (\<lambda>ref. arf_Namespace ref = ns \<and> arf_BuildRun ref = buildRun) (map (\<lambda>(k, item). afc_Ref item) s)"

definition MemoryArtifacts_Delete :: "ArtifactRef \<Rightarrow> memory_artifacts \<Rightarrow> memory_artifacts" where
  "MemoryArtifacts_Delete ref s = AList.delete (arf_Ref ref) s"

record LocalArtifacts =
  lar_Root :: string
  lar_MkdirErr :: "string \<Rightarrow> go_error option"
  lar_WriteErr :: "string \<Rightarrow> go_error option"
  lar_ReadErr :: "string \<Rightarrow> go_error option"
  lar_RemoveErr :: "string \<Rightarrow> go_error option"
  lar_Marshal :: "ArtifactRef \<Rightarrow> string result"

definition artifact_paths :: "LocalArtifacts \<Rightarrow> string \<Rightarrow> string \<Rightarrow> string \<Rightarrow> (string \<times> string) result" where
  "artifact_paths st ns buildRun name =
     (if \<not> safeName ns \<or> \<not> safeName buildRun \<or> \<not> safeName name
      then Inl (errors_New ''namespace, BuildRun, and artifact name must be safe path components'')
      else if lar_Root st = '''' then Inl (errors_New ''local artifact root is required'')
      else let base = FilepathJoin [lar_Root st, ns, buildRun] in
        Inr (FilepathJoin [base, name], FilepathJoin [base, name @ ''.metadata.json'']))"

definition LocalArtifacts_Put ::
  "LocalArtifacts \<Rightarrow> gotime \<Rightarrow> PutArtifactRequest \<Rightarrow> files \<Rightarrow> ArtifactRef result \<times> files" where
  "LocalArtifacts_Put st now req fs = (case artifact_paths st (put_Namespace req) (put_BuildRun req) (put_Name req) of
     Inl err \<Rightarrow> (Inl err, fs)
   | Inr (path, metadataPath) \<Rightarrow>
       (case lar_MkdirErr st path of Some err \<Rightarrow> (Inl (errorf_w ''create artifact directory'' err), fs)
        | None \<Rightarrow> (case lar_WriteErr st path of Some err \<Rightarrow> (Inl (errorf_w ''write artifact'' err), fs)
            | None \<Rightarrow>
                (let fs = fs(path \<mapsto> put_Data req); ref = ref_of req path now in
                 case lar_Marshal st ref of Inl err \<Rightarrow> (Inl err, fs)
                 | Inr metadata \<Rightarrow>
                     (case lar_WriteErr st metadataPath of
                        Some err \<Rightarrow> (Inl (errorf_w ''write artifact metadata'' err), fs)
                      | None \<Rightarrow> (Inr ref, fs(metadataPath \<mapsto> metadata)))))))"

definition LocalArtifacts_Get :: "LocalArtifacts \<Rightarrow> ArtifactRef \<Rightarrow> files \<Rightarrow> Artifact result" where
  "LocalArtifacts_Get st ref fs = (case artifact_paths st (arf_Namespace ref) (arf_BuildRun ref) (arf_Name ref) of
     Inl err \<Rightarrow> Inl err
   | Inr (path, _) \<Rightarrow>
       (case fs path of None \<Rightarrow> Inl errArtifactNotFound
        | Some data \<Rightarrow> (case lar_ReadErr st path of Some err \<Rightarrow> Inl (errorf_w ''read artifact'' err)
            | None \<Rightarrow> Inr \<lparr>afc_Ref = ref, afc_Data = data\<rparr>)))"

fun remove_files :: "LocalArtifacts \<Rightarrow> string list \<Rightarrow> files \<Rightarrow> unit result \<times> files" where
  "remove_files st [] fs = (Inr (), fs)"
| "remove_files st (p # ps) fs = (if fs p = None then remove_files st ps fs
     else (case lar_RemoveErr st p of Some err \<Rightarrow> (Inl err, fs) | None \<Rightarrow> remove_files st ps (fs(p := None))))"

definition LocalArtifacts_Delete :: "LocalArtifacts \<Rightarrow> ArtifactRef \<Rightarrow> files \<Rightarrow> unit result \<times> files" where
  "LocalArtifacts_Delete st ref fs = (case artifact_paths st (arf_Namespace ref) (arf_BuildRun ref) (arf_Name ref) of
     Inl err \<Rightarrow> (Inl err, fs)
   | Inr (path, metadataPath) \<Rightarrow> remove_files st [path, metadataPath] fs)"


section \<open>Collecting\<close>

datatype file_kind = RegularFile | Directory | OtherFile

datatype artifact_effect = ArtifactPut PutArtifactRequest

record 'w artifact_deps =
  ax_EvalSymlinks :: "string \<Rightarrow> 'w \<Rightarrow> string result \<times> 'w"
  ax_Glob :: "string \<Rightarrow> 'w \<Rightarrow> string list result \<times> 'w"
  ax_Stat :: "string \<Rightarrow> 'w \<Rightarrow> file_kind result \<times> 'w"
  ax_Walk :: "string \<Rightarrow> 'w \<Rightarrow> ((string \<times> bool) list \<times> go_error option) \<times> 'w"
  ax_ReadFile :: "string \<Rightarrow> 'w \<Rightarrow> string result \<times> 'w"
  ax_Put :: "PutArtifactRequest \<Rightarrow> 'w \<Rightarrow> ArtifactRef result \<times> 'w"
  ax_Sum256 :: "string \<Rightarrow> string"
  ax_TypeByExtension :: "string \<Rightarrow> string"

type_synonym ('w, 'a) artifact_io = "('w, artifact_effect, 'a) io"

definition maxArtifactBytes :: int where "maxArtifactBytes = 104857600"

definition protected_component :: "string \<Rightarrow> bool" where
  "protected_component component \<longleftrightarrow> component = ''.git'' \<or> component = ''.env'' \<or> Contains component ''secret''
     \<or> Contains component ''password'' \<or> Contains component ''private-key'' \<or> Contains component ''credentials''"

definition path_components :: "string \<Rightarrow> string list" where
  "path_components p = FieldsFunc (\<lambda>c. c = CHR ''/'' \<or> c = CHR 0x5C) (ToLower p)"

definition validateArtifactPattern :: "string \<Rightarrow> go_error option" where
  "validateArtifactPattern pattern =
     (if pattern = '''' \<or> IsAbs pattern then Some (errors_New ''must be a non-empty relative path'')
      else let clean = Clean pattern in
      if clean = ''..'' \<or> HasPrefix clean ''../'' then Some (errors_New ''must remain inside the source workspace'')
      else if list_ex protected_component (path_components clean)
      then Some (errors_New ''matches a protected secret-like path component'')
      else None)"

text \<open>\<open>relative, _ := filepath.Rel(root, p)\<close>: on an error the path is empty, which no check accepts.\<close>

definition relative_to :: "string \<Rightarrow> string \<Rightarrow> string" where
  "relative_to root p = (case Rel root p of Inl _ \<Rightarrow> '''' | Inr relative \<Rightarrow> relative)"

definition protected_error :: "string \<Rightarrow> go_error \<Rightarrow> go_error" where
  "protected_error relative err = errorf_w (''artifact file '' @ quote relative @ '' is protected'') err"

text \<open>The regular files of a walk, up to the first that is protected.\<close>

fun walked_files :: "string \<Rightarrow> (string \<times> bool) list \<Rightarrow> go_error option \<Rightarrow> string list \<Rightarrow> string list result" where
  "walked_files root [] walkErr files = (case walkErr of None \<Rightarrow> Inr files | Some err \<Rightarrow> Inl err)"
| "walked_files root ((p, regular) # entries) walkErr files =
     (if \<not> regular then walked_files root entries walkErr files
      else (case validateArtifactPattern (relative_to root p) of
          Some err \<Rightarrow> Inl (protected_error (relative_to root p) err)
        | None \<Rightarrow> walked_files root entries walkErr (files @ [p])))"

definition expand_resolved :: "'w artifact_deps \<Rightarrow> string \<Rightarrow> string list \<Rightarrow> string \<Rightarrow> ('w, string list result) artifact_io" where
  "expand_resolved d root files resolved = do {
     info \<leftarrow> query (ax_Stat d resolved);
     case info of
       Inl err \<Rightarrow> fail err
     | Inr RegularFile \<Rightarrow>
         (case validateArtifactPattern (relative_to root resolved) of
            Some err \<Rightarrow> fail (protected_error (relative_to root resolved) err)
          | None \<Rightarrow> ok (files @ [resolved]))
     | Inr Directory \<Rightarrow> do {
         w \<leftarrow> query (ax_Walk d resolved);
         State_Monad.return (walked_files root (fst w) (snd w) files)
       }
     | Inr OtherFile \<Rightarrow> ok files
   }"

fun expand_matches :: "'w artifact_deps \<Rightarrow> string \<Rightarrow> string list \<Rightarrow> string list \<Rightarrow> ('w, string list result) artifact_io" where
  "expand_matches d root [] files = ok files"
| "expand_matches d root (match # matches) files =
     check (wrap (''resolve artifact path '' @ quote match) (query (ax_EvalSymlinks d match))) (\<lambda>resolved.
       if resolved \<noteq> root \<and> \<not> HasPrefix resolved (root @ ''/'')
       then fail (errors_New (''artifact path '' @ quote match @ '' escapes the source workspace''))
       else check (expand_resolved d root files resolved) (expand_matches d root matches))"

definition expandArtifactFiles :: "'w artifact_deps \<Rightarrow> string \<Rightarrow> string list \<Rightarrow> ('w, string list result) artifact_io" where
  "expandArtifactFiles d root matches = check (expand_matches d root matches []) (\<lambda>files. ok (sort files))"

text \<open>\<open>[^a-zA-Z0-9_.-]+\<close> replaced by \<open>-\<close>.\<close>

fun sanitize_runs :: "bool \<Rightarrow> string \<Rightarrow> string" where
  "sanitize_runs inrun [] = []"
| "sanitize_runs inrun (c # s) =
     (if safe_char c then c # sanitize_runs False s
      else if inrun then sanitize_runs True s else CHR ''-'' # sanitize_runs True s)"

definition artifact_base_name :: "string \<Rightarrow> string" where
  "artifact_base_name val =
     (let name = Trim (sanitize_runs False val) ''-'' in if name = '''' then ''artifact'' else name)"

definition uniqueArtifactName :: "string \<Rightarrow> (string \<Rightarrow> int) \<Rightarrow> string \<times> (string \<Rightarrow> int)" where
  "uniqueArtifactName val used =
     (let name = artifact_base_name val; used = used(name := used name + 1) in
      (if used name > 1 then name @ ''-'' @ Itoa (used name) else name, used))"

text \<open>The accumulators of the nested loops.\<close>

record collect_state =
  cs_Statuses :: "BuildRunArtifactStatus list"
  cs_UsedNames :: "string \<Rightarrow> int"
  cs_TotalBytes :: int

definition filepath_Ext :: "string \<Rightarrow> string" where
  "filepath_Ext p = (let q = drop (case LastIndexByte p CHR ''/'' of None \<Rightarrow> 0 | Some i \<Rightarrow> Suc i) p in
     case LastIndexByte q CHR ''.'' of None \<Rightarrow> '''' | Some i \<Rightarrow> drop i q)"

definition file_name :: "string \<Rightarrow> string" where
  "file_name p = drop (case LastIndexByte p CHR ''/'' of None \<Rightarrow> 0 | Some i \<Rightarrow> Suc i) p"

definition artifact_status :: "ArtifactRef \<Rightarrow> BuildRunArtifactStatus" where
  "artifact_status ref = \<lparr>art_Name = arf_Name ref, art_Path = arf_Path ref, art_Type = arf_Type ref, art_Size = arf_Size ref,
     art_Digest = arf_Digest ref, art_Ref = arf_Ref ref, art_CreatedAt = Some (arf_CreatedAt ref)\<rparr>"

definition put_request :: "'w artifact_deps \<Rightarrow> BuildRun \<Rightarrow> string \<Rightarrow> string \<Rightarrow> string \<Rightarrow> string \<Rightarrow> int \<Rightarrow> PutArtifactRequest" where
  "put_request d buildRun root file name data retention =
     (let mediaType = ax_TypeByExtension d (filepath_Ext file) in
      \<lparr>put_Namespace = meta_Namespace (br_Meta buildRun), put_BuildRun = meta_Name (br_Meta buildRun), put_Name = name,
       put_Path = relative_to root file,
       put_Type = (if mediaType = '''' then ''application/octet-stream'' else mediaType),
       put_Digest = ''sha256:'' @ ax_Sum256 d data, put_Data = data, put_RetentionDays = retention\<rparr>)"

definition upload_file ::
  "'w artifact_deps \<Rightarrow> PutArtifactRequest \<Rightarrow> (string \<Rightarrow> int) \<Rightarrow> int \<Rightarrow> collect_state
     \<Rightarrow> ('w, collect_state result) artifact_io" where
  "upload_file d req used bytes cs =
     check (wrap (''upload artifact '' @ quote (put_Path req)) (call (ArtifactPut req) (ax_Put d req))) (\<lambda>ref.
       ok \<lparr>cs_Statuses = cs_Statuses cs @ [artifact_status ref], cs_UsedNames = used, cs_TotalBytes = bytes\<rparr>)"

definition collect_file ::
  "'w artifact_deps \<Rightarrow> BuildRun \<Rightarrow> string \<Rightarrow> int \<Rightarrow> PipelineStep \<Rightarrow> PipelineArtifactSpec \<Rightarrow> string \<Rightarrow> collect_state
     \<Rightarrow> ('w, collect_state result) artifact_io" where
  "collect_file d buildRun root maxTotalBytes step spec file cs =
     check (wrap (''read artifact '' @ quote file) (query (ax_ReadFile d file))) (\<lambda>data.
       let size = int (length data); total = cs_TotalBytes cs + size in
       if size > maxArtifactBytes
       then fail (errors_New (''artifact '' @ quote file @ '' exceeds the '' @ Itoa maxArtifactBytes @ '' byte limit''))
       else if maxTotalBytes > 0 \<and> total > maxTotalBytes
       then fail (errors_New (''project maxArtifactsSize of '' @ Itoa maxTotalBytes @ '' bytes exceeded''))
       else case uniqueArtifactName (step_Name step @ ''-'' @ file_name file) (cs_UsedNames cs) of (name, used) \<Rightarrow>
         upload_file d (put_request d buildRun root file name data (pa_RetentionDays spec)) used total cs)"

fun collect_files ::
  "'w artifact_deps \<Rightarrow> BuildRun \<Rightarrow> string \<Rightarrow> int \<Rightarrow> PipelineStep \<Rightarrow> PipelineArtifactSpec \<Rightarrow> string list \<Rightarrow> collect_state
     \<Rightarrow> ('w, collect_state result) artifact_io" where
  "collect_files d buildRun root maxTotalBytes step spec [] cs = ok cs"
| "collect_files d buildRun root maxTotalBytes step spec (file # files) cs =
     check (collect_file d buildRun root maxTotalBytes step spec file cs)
       (collect_files d buildRun root maxTotalBytes step spec files)"

definition collect_pattern ::
  "'w artifact_deps \<Rightarrow> BuildRun \<Rightarrow> string \<Rightarrow> int \<Rightarrow> PipelineStep \<Rightarrow> PipelineArtifactSpec \<Rightarrow> string \<Rightarrow> collect_state
     \<Rightarrow> ('w, collect_state result) artifact_io" where
  "collect_pattern d buildRun root maxTotalBytes step spec pattern cs = (case validateArtifactPattern pattern of
     Some err \<Rightarrow> fail (errorf_w (''step '' @ quote (step_Name step) @ '' artifact path '' @ quote pattern) err)
   | None \<Rightarrow>
       check (wrap (''step '' @ quote (step_Name step) @ '' artifact glob '' @ quote pattern)
           (query (ax_Glob d (FilepathJoin [root, pattern])))) (\<lambda>matches.
       check (expandArtifactFiles d root matches) (\<lambda>files.
         if files = [] \<and> \<not> pa_Optional spec
         then fail (errors_New (''required artifact path '' @ quote pattern @ '' did not match a regular file''))
         else collect_files d buildRun root maxTotalBytes step spec files cs)))"

fun collect_patterns ::
  "'w artifact_deps \<Rightarrow> BuildRun \<Rightarrow> string \<Rightarrow> int \<Rightarrow> PipelineStep \<Rightarrow> PipelineArtifactSpec \<Rightarrow> string list \<Rightarrow> collect_state
     \<Rightarrow> ('w, collect_state result) artifact_io" where
  "collect_patterns d buildRun root maxTotalBytes step spec [] cs = ok cs"
| "collect_patterns d buildRun root maxTotalBytes step spec (pattern # patterns) cs =
     check (collect_pattern d buildRun root maxTotalBytes step spec pattern cs)
       (collect_patterns d buildRun root maxTotalBytes step spec patterns)"

fun collect_steps ::
  "'w artifact_deps \<Rightarrow> BuildRun \<Rightarrow> string \<Rightarrow> int \<Rightarrow> PipelineStep list \<Rightarrow> collect_state \<Rightarrow> ('w, collect_state result) artifact_io" where
  "collect_steps d buildRun root maxTotalBytes [] cs = ok cs"
| "collect_steps d buildRun root maxTotalBytes (step # steps) cs = (case step_Artifacts step of
     None \<Rightarrow> collect_steps d buildRun root maxTotalBytes steps cs
   | Some spec \<Rightarrow> check (collect_patterns d buildRun root maxTotalBytes step spec (pa_Paths spec) cs)
       (collect_steps d buildRun root maxTotalBytes steps))"

definition collectArtifacts ::
  "'w artifact_deps \<Rightarrow> BuildRun \<Rightarrow> PipelineTemplate \<Rightarrow> string \<Rightarrow> int \<Rightarrow> ('w, BuildRunArtifactStatus list result) artifact_io" where
  "collectArtifacts d buildRun template sourceDir maxTotalBytes =
     check (wrap ''resolve source workspace'' (query (ax_EvalSymlinks d sourceDir))) (\<lambda>root.
     check (collect_steps d buildRun root maxTotalBytes (pts_Steps (pt_Spec template))
         \<lparr>cs_Statuses = [], cs_UsedNames = (\<lambda>_. 0), cs_TotalBytes = 0\<rparr>) (\<lambda>cs. ok (cs_Statuses cs)))"


section \<open>What is uploaded\<close>

fun put_bytes :: "artifact_effect \<Rightarrow> int" where
  "put_bytes (ArtifactPut req) = int (length (put_Data req))"

definition uploaded_bytes :: "artifact_effect list \<Rightarrow> int" where
  "uploaded_bytes es = sum_list (map put_bytes es)"

text \<open>An upload of the build: an unprotected file inside the workspace, of a bounded size, with the digest of its bytes.\<close>

fun proper_put :: "'w artifact_deps \<Rightarrow> BuildRun \<Rightarrow> artifact_effect \<Rightarrow> bool" where
  "proper_put d buildRun (ArtifactPut req) \<longleftrightarrow>
     put_Namespace req = meta_Namespace (br_Meta buildRun) \<and> put_BuildRun req = meta_Name (br_Meta buildRun)
     \<and> validateArtifactPattern (put_Path req) = None
     \<and> int (length (put_Data req)) \<le> maxArtifactBytes
     \<and> put_Digest req = ''sha256:'' @ ax_Sum256 d (put_Data req)"

definition within :: "int \<Rightarrow> int \<Rightarrow> bool" where
  "within maxTotalBytes n \<longleftrightarrow> maxTotalBytes > 0 \<longrightarrow> n \<le> maxTotalBytes"

text \<open>Between \<open>s\<close> and \<open>t\<close> only proper uploads were made, within the total, and the accumulators count them.\<close>

definition collected ::
  "'w artifact_deps \<Rightarrow> BuildRun \<Rightarrow> int \<Rightarrow> collect_state \<Rightarrow> ('w, artifact_effect) sys
     \<Rightarrow> collect_state result \<Rightarrow> ('w, artifact_effect) sys \<Rightarrow> bool" where
  "collected d buildRun maxTotalBytes cs s r t \<longleftrightarrow> (\<exists>new. trace t = trace s @ new
     \<and> list_all (proper_put d buildRun) new \<and> within maxTotalBytes (cs_TotalBytes cs + uploaded_bytes new)
     \<and> (\<forall>cs'. r = Inr cs' \<longrightarrow> cs_TotalBytes cs' = cs_TotalBytes cs + uploaded_bytes new
          \<and> length (cs_Statuses cs') = length (cs_Statuses cs) + length new))"

lemma collected_refl:
  assumes "within maxTotalBytes (cs_TotalBytes cs)" and "trace t = trace s" and "\<forall>cs'. r = Inr cs' \<longrightarrow> cs' = cs"
  shows "collected d buildRun maxTotalBytes cs s r t"
  using assms by (auto simp: collected_def uploaded_bytes_def intro: exI [of _ "[]"])

lemma collected_within: "collected d buildRun maxTotalBytes cs s (Inr cs') t \<Longrightarrow> within maxTotalBytes (cs_TotalBytes cs')"
  by (auto simp: collected_def)

lemma collected_trans:
  assumes "collected d buildRun maxTotalBytes cs s (Inr cs') t" and "collected d buildRun maxTotalBytes cs' t r u"
  shows "collected d buildRun maxTotalBytes cs s r u"
proof -
  obtain a b where "trace t = trace s @ a" "trace u = trace t @ b"
    "list_all (proper_put d buildRun) a" "list_all (proper_put d buildRun) b"
    "cs_TotalBytes cs' = cs_TotalBytes cs + uploaded_bytes a"
    "length (cs_Statuses cs') = length (cs_Statuses cs) + length a"
    "within maxTotalBytes (cs_TotalBytes cs' + uploaded_bytes b)"
    "\<forall>cs''. r = Inr cs'' \<longrightarrow> cs_TotalBytes cs'' = cs_TotalBytes cs' + uploaded_bytes b
       \<and> length (cs_Statuses cs'') = length (cs_Statuses cs') + length b"
    using assms unfolding collected_def by blast
  then show ?thesis
    unfolding collected_def by (intro exI [of _ "a @ b"]) (auto simp: uploaded_bytes_def add.assoc)
qed

lemma collected_next:
  assumes "wp m (collected d buildRun maxTotalBytes cs s) s"
    and "\<And>cs' t. within maxTotalBytes (cs_TotalBytes cs') \<Longrightarrow> wp (f cs') (collected d buildRun maxTotalBytes cs' t) t"
  shows "wp (check m f) (collected d buildRun maxTotalBytes cs s) s"
proof (rule wp_checkI [OF assms(1)])
  fix err t
  assume "collected d buildRun maxTotalBytes cs s (Inl err) t"
  then show "collected d buildRun maxTotalBytes cs s (Inl err) t" by (auto simp: collected_def)
next
  fix cs' t
  assume c: "collected d buildRun maxTotalBytes cs s (Inr cs') t"
  show "wp (f cs') (collected d buildRun maxTotalBytes cs s) t"
    by (rule wp_mono [OF assms(2) [OF collected_within [OF c]]]) (rule collected_trans [OF c])
qed

subsection \<open>The files of a pattern\<close>

definition open_file :: "string \<Rightarrow> string \<Rightarrow> bool" where
  "open_file root file \<longleftrightarrow> validateArtifactPattern (relative_to root file) = None"

lemma walked_files_open:
  "walked_files root entries walkErr files = Inr files' \<Longrightarrow> list_all (open_file root) files \<Longrightarrow> list_all (open_file root) files'"
  by (induction root entries walkErr files rule: walked_files.induct)
    (auto simp: open_file_def split: if_splits option.splits)

lemma expand_resolved_open:
  assumes "list_all (open_file root) files"
  shows "wp (expand_resolved d root files resolved)
    (\<lambda>r t. trace t = trace s \<and> (\<forall>files'. r = Inr files' \<longrightarrow> list_all (open_file root) files')) s"
  using assms
  by (auto simp: expand_resolved_def wp_simps walked_files_open open_file_def split: sum.split file_kind.split option.split)

lemma expand_matches_open:
  "list_all (open_file root) files \<Longrightarrow> wp (expand_matches d root matches files)
    (\<lambda>r t. trace t = trace s \<and> (\<forall>files'. r = Inr files' \<longrightarrow> list_all (open_file root) files')) s"
proof (induction matches arbitrary: files s)
  case (Cons match matches)
  have "wp (check (expand_resolved d root files resolved) (expand_matches d root matches))
     (\<lambda>r t. trace t = trace s \<and> (\<forall>files'. r = Inr files' \<longrightarrow> list_all (open_file root) files')) u"
    if u: "trace u = trace s" for resolved and u :: "('a, artifact_effect) sys"
  proof (rule wp_checkI [OF expand_resolved_open [OF Cons.prems]], goal_cases)
    case (2 files' t)
    then show ?case by (intro wp_mono [OF Cons.IH [of files' t]]) (auto simp: u)
  qed (auto simp: u)
  then show ?case by (auto simp: wp_simps split: sum.split)
qed (simp add: wp_simps)

lemma expandArtifactFiles_open:
  "wp (expandArtifactFiles d root matches)
    (\<lambda>r t. trace t = trace s \<and> (\<forall>files'. r = Inr files' \<longrightarrow> list_all (open_file root) files')) s"
  unfolding expandArtifactFiles_def
  by (rule wp_checkI [OF expand_matches_open]) (auto simp: wp_simps list_all_iff)


subsection \<open>The loops\<close>

lemma upload_file_collected:
  assumes "proper_put d buildRun (ArtifactPut req)" and "bytes = cs_TotalBytes cs + int (length (put_Data req))"
    and "within maxTotalBytes bytes"
  shows "wp (upload_file d req used bytes cs) (collected d buildRun maxTotalBytes cs s) s"
proof -
  have "uploaded_bytes [ArtifactPut req] = int (length (put_Data req))" by (simp add: uploaded_bytes_def)
  with assms show ?thesis
    unfolding upload_file_def wp_check wp_wrap wp_call collected_def
    by (cases "fst (ax_Put d req (ext s))") (auto simp: wp_simps intro!: exI [of _ "[ArtifactPut req]"])
qed

lemma collect_file_collected:
  assumes "open_file root file" and "within maxTotalBytes (cs_TotalBytes cs)"
  shows "wp (collect_file d buildRun root maxTotalBytes step spec file cs) (collected d buildRun maxTotalBytes cs s) s"
proof (cases "fst (ax_ReadFile d file (ext s))")
  case (Inl err)
  with assms(2) show ?thesis by (simp add: collect_file_def wp_simps collected_refl)
next
  case (Inr data)
  have upload: "wp (upload_file d (put_request d buildRun root file name data retention) used (cs_TotalBytes cs + int (length data)) cs)
       (collected d buildRun maxTotalBytes cs s) u"
    if "trace u = trace s" "int (length data) \<le> maxArtifactBytes" "within maxTotalBytes (cs_TotalBytes cs + int (length data))"
    for name retention used and u :: "('a, artifact_effect) sys"
    by (rule wp_mono [OF upload_file_collected [where s = u]])
      (use assms(1) that in \<open>auto simp: put_request_def Let_def open_file_def collected_def\<close>)
  show ?thesis
    unfolding collect_file_def wp_check wp_wrap wp_query Inr sum.case Let_def
    using assms(2) by (auto simp: wp_fail within_def collected_refl intro!: upload split: prod.split)
qed

lemma collect_files_collected:
  "list_all (open_file root) files \<Longrightarrow> within maxTotalBytes (cs_TotalBytes cs) \<Longrightarrow>
   wp (collect_files d buildRun root maxTotalBytes step spec files cs) (collected d buildRun maxTotalBytes cs s) s"
  by (induction files arbitrary: cs s) (auto simp: wp_ok collected_refl intro!: collected_next collect_file_collected)

lemma collect_pattern_collected:
  assumes "within maxTotalBytes (cs_TotalBytes cs)"
  shows "wp (collect_pattern d buildRun root maxTotalBytes step spec pattern cs) (collected d buildRun maxTotalBytes cs s) s"
proof -
  have files: "wp (check (expandArtifactFiles d root matches) (\<lambda>files.
         if files = [] \<and> \<not> pa_Optional spec
         then fail (errors_New (''required artifact path '' @ quote pattern @ '' did not match a regular file''))
         else collect_files d buildRun root maxTotalBytes step spec files cs)) (collected d buildRun maxTotalBytes cs s) u"
    if u: "trace u = trace s" for matches and u :: "('a, artifact_effect) sys"
  proof (rule wp_checkI [OF expandArtifactFiles_open], goal_cases)
    case (2 files t)
    then have "wp (collect_files d buildRun root maxTotalBytes step spec files cs) (collected d buildRun maxTotalBytes cs s) t"
      by (intro wp_mono [OF collect_files_collected [OF _ assms, of root files d buildRun step spec t]]) (auto simp: collected_def u)
    with 2 u assms show ?case by (auto simp: wp_simps collected_refl)
  qed (auto simp: u assms collected_refl)
  then show ?thesis using assms by (auto simp: collect_pattern_def wp_simps collected_refl split: option.split sum.split)
qed

lemma collect_patterns_collected:
  "within maxTotalBytes (cs_TotalBytes cs) \<Longrightarrow>
   wp (collect_patterns d buildRun root maxTotalBytes step spec patterns cs) (collected d buildRun maxTotalBytes cs s) s"
  by (induction patterns arbitrary: cs s) (auto simp: wp_ok collected_refl intro!: collected_next collect_pattern_collected)

lemma collect_steps_collected:
  "within maxTotalBytes (cs_TotalBytes cs) \<Longrightarrow>
   wp (collect_steps d buildRun root maxTotalBytes stages cs) (collected d buildRun maxTotalBytes cs s) s"
  by (induction stages arbitrary: cs s)
    (auto simp: wp_ok collected_refl intro!: collected_next collect_patterns_collected split: option.split)


text \<open>
  Two files of a step may get one name: after \<open>n\<close> and a second \<open>n\<close>, called \<open>n-2\<close>, a file whose own name is \<open>n-2\<close> keeps
  it, and its upload replaces the second file's.
\<close>

lemma uniqueArtifactName_collides:
  "fst (uniqueArtifactName ''test-log'' (\<lambda>_. 0)) = ''test-log''
   \<and> (let used = snd (uniqueArtifactName ''test-log'' (\<lambda>_. 0)) in
      fst (uniqueArtifactName ''test-log'' used) = ''test-log-2''
      \<and> fst (uniqueArtifactName ''test-log-2'' (snd (uniqueArtifactName ''test-log'' used))) = ''test-log-2'')"
  by code_simp

end
