(* ===== verification/DepCache.thy ===== *)
theory DepCache
  imports ControllerKit GoPath "HOL-Library.Word"
begin

unbundle bit_operations_syntax

text \<open>
  \<open>internal/cache/cache.go\<close>: the dependency caches of builds, kept in directories named by the hashes of the project,
  the repository and the key. The file system, the hash, the clock and JSON are fields of \<open>cache_deps\<close>.
\<close>

section \<open>Requests\<close>

definition ErrCacheUnsupported :: go_error where
  "ErrCacheUnsupported = GoError ''dependency cache backend is not implemented'' [Sentinel ''cache.ErrUnsupported'']"

record CacheRequest =
  cr_Project :: string
  cr_Repository :: string
  cr_Key :: string
  cr_Paths :: "string list"
  cr_Workspace :: string
  cr_TTL :: duration
  cr_MaxBytes :: int

record PurgeRequest =
  pr_Project :: string
  pr_Repository :: string

type_synonym file_mode = "32 word"

datatype file_info = SymbolicLink | DirInfo | FileInfo file_mode

text \<open>
  \<open>FileCopied source destination mode copied\<close> carries the running total of \<open>Save\<close>, after the file was counted.
\<close>

datatype cache_effect =
    DirMade string
  | FileCopied string string file_mode int
  | ManifestWritten string gotime
  | TreeRemoved string
  | EntryPublished string string

record 'w cache_deps =
  cx_hash :: "string \<Rightarrow> string"
  cx_sum8 :: "string \<Rightarrow> string"
  cx_NotExist :: "go_error \<Rightarrow> bool"
  cx_ReadFile :: "string \<Rightarrow> 'w \<Rightarrow> string result \<times> 'w"
  cx_Decode :: "string \<Rightarrow> gotime result"
  cx_Now :: "'w \<Rightarrow> gotime \<times> 'w"
  cx_CtxErr :: "'w \<Rightarrow> go_error option \<times> 'w"
  cx_Lstat :: "string \<Rightarrow> 'w \<Rightarrow> file_info result \<times> 'w"
  cx_StatSize :: "string \<Rightarrow> 'w \<Rightarrow> int result \<times> 'w"
  cx_Walk :: "string \<Rightarrow> 'w \<Rightarrow> ((string \<times> file_info result) list \<times> go_error option) \<times> 'w"
  cx_MkdirAll :: "string \<Rightarrow> 'w \<Rightarrow> unit result \<times> 'w"
  cx_MkdirTemp :: "string \<Rightarrow> 'w \<Rightarrow> string result \<times> 'w"
  cx_CopyFile :: "string \<Rightarrow> string \<Rightarrow> file_mode \<Rightarrow> 'w \<Rightarrow> unit result \<times> 'w"
  cx_WriteManifest :: "string \<Rightarrow> gotime \<Rightarrow> 'w \<Rightarrow> unit result \<times> 'w"
  cx_RemoveAll :: "string \<Rightarrow> 'w \<Rightarrow> unit result \<times> 'w"
  cx_Rename :: "string \<Rightarrow> string \<Rightarrow> 'w \<Rightarrow> unit result \<times> 'w"

type_synonym ('w, 'a) cache_io = "('w, cache_effect, 'a) io"


section \<open>Scopes\<close>

definition cache_key :: "string \<Rightarrow> string" where
  "cache_key key = (if TrimSpace key = '''' then ''default'' else key)"

definition ScopeKey :: "'w cache_deps \<Rightarrow> string \<Rightarrow> string \<Rightarrow> string \<Rightarrow> string result" where
  "ScopeKey d project repository key =
     (if TrimSpace project = '''' \<or> TrimSpace repository = ''''
      then Inl (errors_New ''project and repository are required'')
      else Inr (FilepathJoin [cx_hash d project, cx_hash d repository, cx_hash d (cache_key key)]))"

definition RegistryRef :: "'w cache_deps \<Rightarrow> string \<Rightarrow> string \<Rightarrow> string \<Rightarrow> string \<Rightarrow> string result" where
  "RegistryRef d imageRepository project repository key =
     (if TrimSpace imageRepository = '''' then Inl (errors_New ''image repository is required'')
      else (case ScopeKey d project repository key of
          Inl err \<Rightarrow> Inl err
        | Inr scope \<Rightarrow> Inr (TrimSuffix imageRepository '':'' @ '':cache-'' @ cx_sum8 d scope)))"

definition cache_entry :: "'w cache_deps \<Rightarrow> string \<Rightarrow> string \<Rightarrow> string \<Rightarrow> string \<Rightarrow> string result" where
  "cache_entry d root project repository key =
     (if TrimSpace root = '''' then Inl (errors_New ''cache root is required'')
      else (case ScopeKey d project repository key of
          Inl err \<Rightarrow> Inl err
        | Inr scope \<Rightarrow> Inr (FilepathJoin [root, scope])))"

definition safeRelative :: "string \<Rightarrow> string result" where
  "safeRelative path =
     (let clean = Clean (TrimSpace path) in
      if clean = ''.'' \<or> clean = '''' \<or> IsAbs clean \<or> clean = ''..'' \<or> HasPrefix clean ''../''
      then Inl (errors_New (''cache path '' @ quote path @ '' must be a non-empty relative workspace path''))
      else Inr clean)"


section \<open>Copying\<close>

text \<open>The observer of \<open>Save\<close>: the limit and the bytes so far. \<open>Restore\<close> has none.\<close>

definition observe_size :: "int \<Rightarrow> int \<Rightarrow> int \<Rightarrow> int result" where
  "observe_size maxBytes copied bytes =
     (if maxBytes > 0 \<and> copied + bytes > maxBytes
      then Inl (errors_New (''cache exceeds configured maximum of '' @ Itoa maxBytes @ '' bytes''))
      else Inr (copied + bytes))"

definition copy_counted :: "'w cache_deps \<Rightarrow> string \<Rightarrow> string \<Rightarrow> file_mode \<Rightarrow> int \<Rightarrow> ('w, int result) cache_io" where
  "copy_counted d source destination mode copied =
     check (call (DirMade (filepath_Dir destination)) (cx_MkdirAll d (filepath_Dir destination))) (\<lambda>_.
     check (call (FileCopied source destination (mode AND 0x1C0) copied) (cx_CopyFile d source destination (mode AND 0x1C0))) (\<lambda>_.
       ok copied))"

definition copyFile ::
  "'w cache_deps \<Rightarrow> string \<Rightarrow> string \<Rightarrow> file_mode \<Rightarrow> int option \<Rightarrow> int \<Rightarrow> ('w, int result) cache_io" where
  "copyFile d source destination mode observe copied = (case observe of
     None \<Rightarrow> copy_counted d source destination mode copied
   | Some maxBytes \<Rightarrow> check (query (cx_StatSize d source)) (\<lambda>bytes.
       case observe_size maxBytes copied bytes of
         Inl err \<Rightarrow> fail err
       | Inr copied \<Rightarrow> copy_counted d source destination mode copied))"

fun copy_walked ::
  "'w cache_deps \<Rightarrow> string \<Rightarrow> string \<Rightarrow> int option \<Rightarrow> (string \<times> file_info result) list \<Rightarrow> go_error option \<Rightarrow> int
     \<Rightarrow> ('w, int result) cache_io" where
  "copy_walked d source destination observe [] walkErr copied =
     (case walkErr of None \<Rightarrow> ok copied | Some err \<Rightarrow> fail err)"
| "copy_walked d source destination observe ((path, info) # entries) walkErr copied =
     (if info = Inr SymbolicLink then fail (errors_New (''symbolic links are not cached: '' @ path))
      else (case Rel source path of
          Inl err \<Rightarrow> fail err
        | Inr relative \<Rightarrow>
            check
              (case info of
                 Inl err \<Rightarrow> fail err
               | Inr DirInfo \<Rightarrow> check (call (DirMade (FilepathJoin [destination, relative]))
                     (cx_MkdirAll d (FilepathJoin [destination, relative]))) (\<lambda>_. ok copied)
               | Inr (FileInfo mode) \<Rightarrow> copyFile d path (FilepathJoin [destination, relative]) mode observe copied
               | Inr SymbolicLink \<Rightarrow> ok copied)
              (copy_walked d source destination observe entries walkErr)))"

definition copyTree :: "'w cache_deps \<Rightarrow> string \<Rightarrow> string \<Rightarrow> int option \<Rightarrow> int \<Rightarrow> ('w, int result) cache_io" where
  "copyTree d source destination observe copied = check (query (cx_Lstat d source)) (\<lambda>info.
     case info of
       SymbolicLink \<Rightarrow> fail (errors_New ''symbolic links are not cached'')
     | FileInfo mode \<Rightarrow> copyFile d source destination mode observe copied
     | DirInfo \<Rightarrow> do {
         w \<leftarrow> query (cx_Walk d source);
         copy_walked d source destination observe (fst w) (snd w) copied
       })"

text \<open>The loop over the paths, from below one directory to below another.\<close>

fun copy_paths ::
  "'w cache_deps \<Rightarrow> (string \<Rightarrow> string) \<Rightarrow> (string \<Rightarrow> string) \<Rightarrow> string \<Rightarrow> string \<Rightarrow> int option \<Rightarrow> string list \<Rightarrow> int
     \<Rightarrow> ('w, int result) cache_io" where
  "copy_paths d src dst inspect oper observe [] copied = ok copied"
| "copy_paths d src dst inspect oper observe (path # paths) copied = do {
     ctxErr \<leftarrow> query (cx_CtxErr d);
     case ctxErr of
       Some err \<Rightarrow> fail err
     | None \<Rightarrow> (case safeRelative path of
         Inl err \<Rightarrow> fail err
       | Inr clean \<Rightarrow> do {
           info \<leftarrow> query (cx_Lstat d (src clean));
           case info of
             Inl err \<Rightarrow>
               if cx_NotExist d err then copy_paths d src dst inspect oper observe paths copied
               else fail (errorf_w (inspect @ quote path) err)
           | Inr _ \<Rightarrow> check (wrap (oper @ quote path) (copyTree d (src clean) (dst clean) observe copied))
               (copy_paths d src dst inspect oper observe paths)
         })
   }"


section \<open>The store\<close>

definition restore_entry :: "'w cache_deps \<Rightarrow> string \<Rightarrow> CacheRequest \<Rightarrow> ('w, bool result) cache_io" where
  "restore_entry d entry req =
     check (copy_paths d (\<lambda>clean. FilepathJoin [entry, ''data'', clean]) (\<lambda>clean. FilepathJoin [cr_Workspace req, clean])
         ''inspect cached path '' ''restore cached path '' None (cr_Paths req) 0) (\<lambda>_. ok True)"

definition expired :: "CacheRequest \<Rightarrow> gotime \<Rightarrow> gotime \<Rightarrow> bool" where
  "expired req savedAt now \<longleftrightarrow> cr_TTL req > 0 \<and> now > savedAt + cr_TTL req"

definition Restore :: "'w cache_deps \<Rightarrow> string \<Rightarrow> CacheRequest \<Rightarrow> ('w, bool result) cache_io" where
  "Restore d root req = (case cache_entry d root (cr_Project req) (cr_Repository req) (cr_Key req) of
     Inl err \<Rightarrow> fail err
   | Inr entry \<Rightarrow> do {
       metadata \<leftarrow> query (cx_ReadFile d (FilepathJoin [entry, ''manifest.json'']));
       case metadata of
         Inl err \<Rightarrow> if cx_NotExist d err then ok False else fail (errorf_w ''read cache manifest'' err)
       | Inr metadata \<Rightarrow> (case cx_Decode d metadata of
           Inl err \<Rightarrow> fail (errorf_w ''decode cache manifest'' err)
         | Inr savedAt \<Rightarrow> do {
             now \<leftarrow> query (cx_Now d);
             if expired req savedAt now
             then check (wrap ''remove expired cache'' (call (TreeRemoved entry) (cx_RemoveAll d entry))) (\<lambda>_. ok False)
             else restore_entry d entry req
           })
     })"

definition publish_entry :: "'w cache_deps \<Rightarrow> string \<Rightarrow> string \<Rightarrow> ('w, unit result) cache_io" where
  "publish_entry d temporary entry = do {
     now \<leftarrow> query (cx_Now d);
     let manifest = FilepathJoin [temporary, ''manifest.json''] in
     check (wrap ''write cache manifest'' (call (ManifestWritten manifest now) (cx_WriteManifest d manifest now))) (\<lambda>_.
     check (wrap ''replace cache entry'' (call (TreeRemoved entry) (cx_RemoveAll d entry))) (\<lambda>_.
     wrap ''publish cache entry'' (call (EntryPublished temporary entry) (cx_Rename d temporary entry))))
   }"

definition save_staged :: "'w cache_deps \<Rightarrow> CacheRequest \<Rightarrow> string \<Rightarrow> string \<Rightarrow> ('w, unit result) cache_io" where
  "save_staged d req temporary entry =
     check (copy_paths d (\<lambda>clean. FilepathJoin [cr_Workspace req, clean]) (\<lambda>clean. FilepathJoin [temporary, ''data'', clean])
         ''inspect cache path '' ''save cache path '' (Some (cr_MaxBytes req)) (cr_Paths req) 0)
       (\<lambda>_. publish_entry d temporary entry)"

definition Save :: "'w cache_deps \<Rightarrow> string \<Rightarrow> CacheRequest \<Rightarrow> ('w, unit result) cache_io" where
  "Save d root req = (case cache_entry d root (cr_Project req) (cr_Repository req) (cr_Key req) of
     Inl err \<Rightarrow> fail err
   | Inr entry \<Rightarrow>
       check (wrap ''create cache scope'' (call (DirMade (filepath_Dir entry)) (cx_MkdirAll d (filepath_Dir entry)))) (\<lambda>_.
       check (wrap ''create cache staging directory'' (query (cx_MkdirTemp d (filepath_Dir entry)))) (\<lambda>temporary. do {
         r \<leftarrow> save_staged d req temporary entry;
         call (TreeRemoved temporary) (cx_RemoveAll d temporary);
         State_Monad.return r
       })))"

definition purge_target :: "'w cache_deps \<Rightarrow> string \<Rightarrow> PurgeRequest \<Rightarrow> string" where
  "purge_target d root req =
     (let target = FilepathJoin [root, cx_hash d (pr_Project req)] in
      if pr_Repository req \<noteq> '''' then FilepathJoin [target, cx_hash d (pr_Repository req)] else target)"

definition Purge :: "'w cache_deps \<Rightarrow> string \<Rightarrow> PurgeRequest \<Rightarrow> ('w, unit result) cache_io" where
  "Purge d root req =
     (if TrimSpace (pr_Project req) = '''' then fail (errors_New ''project is required'')
      else let target = purge_target d root req in
        wrap ''purge dependency cache'' (call (TreeRemoved target) (cx_RemoveAll d target)))"


section \<open>Confinement\<close>

text \<open>A walk lists cleaned absolute paths below its root.\<close>

definition cache_walk_spec :: "'w cache_deps \<Rightarrow> bool" where
  "cache_walk_spec d \<longleftrightarrow> (\<forall>root w. \<forall>(path, info) \<in> set (fst (fst (cx_Walk d root w))).
     clean_dir path \<and> IsAbs path \<and> below root path)"

text \<open>What copying from below \<open>a\<close> to below \<open>b\<close> may do, with at most \<open>limit\<close> bytes if there is a limit.\<close>

definition within_limit :: "int option \<Rightarrow> int \<Rightarrow> bool" where
  "within_limit limit n \<longleftrightarrow> (case limit of None \<Rightarrow> True | Some m \<Rightarrow> m > 0 \<longrightarrow> n \<le> m)"

fun copies :: "string \<Rightarrow> string \<Rightarrow> int option \<Rightarrow> cache_effect \<Rightarrow> bool" where
  "copies a b limit (DirMade path) = True"
| "copies a b limit (FileCopied source destination mode copied) \<longleftrightarrow>
     below a source \<and> below b destination \<and> within_limit limit copied \<and> mode AND 0x1C0 = mode"
| "copies a b limit e = False"

lemma Rel_plain:
  assumes "Rel source path = Inr relative" and "below source path" and "clean_dir source" and "clean_dir path"
    and "IsAbs source" and "IsAbs path"
  shows "Clean relative = relative" and "\<not> escapes (Clean relative)"
proof -
  obtain es where es: "''..'' \<notin> set es" "list_all proper es" "relative = from_elements False es"
    using Rel_elements [OF assms] by blast
  note plain = from_plain [OF es(2,1)]
  show c: "Clean relative = relative" using plain(3) es by (simp add: Clean_def elements_from clean_plain)
  show "\<not> escapes (Clean relative)" unfolding c using plain by (simp add: es(3) escapes_def)
qed

lemma below_Join:
  assumes "clean_dir dir" and "Clean p = p" and "\<not> escapes (Clean p)"
  shows "below dir (FilepathJoin [dir, p])"
  using Join_inside(1) [OF assms(1,3)] not_escapes(1) [OF assms(3)] assms(2) by (auto simp: below_def)

lemma copy_counted_copies:
  assumes "below a source" and "below b destination" and "within_limit limit copied"
  shows "only {e. copies a b limit e} (copy_counted d source destination mode copied)"
  using assms by (auto simp: copy_counted_def and.assoc intro!: only_intros)

lemma copyFile_copies:
  assumes "below a source" and "below b destination" and "within_limit observe copied"
  shows "only {e. copies a b observe e} (copyFile d source destination mode observe copied)"
    and "wp (copyFile d source destination mode observe copied) (\<lambda>r t. \<forall>copied'. r = Inr copied' \<longrightarrow> within_limit observe copied') s"
proof -
  show "only {e. copies a b observe e} (copyFile d source destination mode observe copied)"
    using assms by (auto simp: copyFile_def observe_size_def within_limit_def intro!: only_intros copy_counted_copies split: if_splits)
  show "wp (copyFile d source destination mode observe copied) (\<lambda>r t. \<forall>copied'. r = Inr copied' \<longrightarrow> within_limit observe copied') s"
    using assms by (auto simp: copyFile_def copy_counted_def observe_size_def within_limit_def wp_simps split: option.split sum.split)
qed


text \<open>A copy from below \<open>a\<close> to below \<open>b\<close> within the limit, whatever the outside answers.\<close>

definition bounded_copy :: "string \<Rightarrow> string \<Rightarrow> int option \<Rightarrow> ('w, int result) cache_io \<Rightarrow> bool" where
  "bounded_copy a b observe m \<longleftrightarrow> only {e. copies a b observe e} m
     \<and> (\<forall>s. wp m (\<lambda>r t. \<forall>copied. r = Inr copied \<longrightarrow> within_limit observe copied) s)"

lemma bounded_copy_fail: "bounded_copy a b observe (fail err)"
  by (simp add: bounded_copy_def only_fail wp_fail)

lemma bounded_copy_ok: "within_limit observe copied \<Longrightarrow> bounded_copy a b observe (ok copied)"
  by (simp add: bounded_copy_def only_ok wp_ok)

lemma bounded_copy_check:
  assumes "bounded_copy a b observe m" and "\<And>copied. within_limit observe copied \<Longrightarrow> bounded_copy a b observe (f copied)"
  shows "bounded_copy a b observe (check m f)"
proof -
  have m: "only {e. copies a b observe e} m" "\<And>s. wp m (\<lambda>r t. \<forall>copied. r = Inr copied \<longrightarrow> within_limit observe copied) s"
    using assms(1) by (auto simp: bounded_copy_def)
  have "only {e. copies a b observe e} (check m f)"
    using assms(2) by (intro only_check_wp [OF m]) (auto simp: bounded_copy_def)
  moreover have "wp (check m f) (\<lambda>r t. \<forall>copied. r = Inr copied \<longrightarrow> within_limit observe copied) s" for s
    using assms(2) by (intro wp_checkI [OF m(2)]) (auto simp: bounded_copy_def)
  ultimately show ?thesis by (simp add: bounded_copy_def)
qed

lemma bounded_copy_query:
  assumes "\<And>w. bounded_copy a b observe (f (fst (g w)))"
  shows "bounded_copy a b observe (State_Monad.bind (query g) f)"
  using assms by (auto simp: bounded_copy_def wp_simps intro!: only_bind_query)

lemma bounded_copy_wrap: "bounded_copy a b observe m \<Longrightarrow> bounded_copy a b observe (wrap txt m)"
  unfolding bounded_copy_def wp_wrap
  by (intro conjI allI only_wrap, blast, rule wp_mono, blast) (auto split: sum.splits)

lemma bounded_check_query:
  assumes "\<And>w a'. fst (g w) = Inr a' \<Longrightarrow> bounded_copy a b observe (f a')"
  shows "bounded_copy a b observe (check (query g) f)"
  unfolding check_def using assms
  by (intro bounded_copy_query) (auto simp: fail_def [symmetric] bounded_copy_fail split: sum.split)

lemma bounded_copyFile:
  assumes "below a source" and "below b destination" and "within_limit observe copied"
  shows "bounded_copy a b observe (copyFile d source destination mode observe copied)"
  unfolding bounded_copy_def by (intro conjI allI copyFile_copies [OF assms])

lemma bounded_mkdir:
  assumes "within_limit observe copied"
  shows "bounded_copy a b observe (check (call (DirMade path) g) (\<lambda>_. ok copied))"
  using assms by (auto simp: bounded_copy_def wp_simps intro!: only_intros split: sum.split)

lemma bounded_copy_walked:
  assumes "clean_dir source" "IsAbs source" "clean_dir destination" "below a source" "below b destination"
  shows "\<forall>(path, info) \<in> set entries. clean_dir path \<and> IsAbs path \<and> below source path \<Longrightarrow> within_limit observe copied \<Longrightarrow>
    bounded_copy a b observe (copy_walked d source destination observe entries walkErr copied)"
proof (induction entries arbitrary: copied)
  case Nil
  then show ?case by (auto simp: bounded_copy_fail bounded_copy_ok split: option.split)
next
  case (Cons entry entries)
  obtain path info where entry: "entry = (path, info)" by (cases entry)
  with Cons.prems have p: "clean_dir path" "IsAbs path" "below source path" by auto
  have rest: "bounded_copy a b observe (copy_walked d source destination observe entries walkErr copied')"
    if "within_limit observe copied'" for copied'
    using Cons.IH Cons.prems(1) that by simp
  have "bounded_copy a b observe (copyFile d path (FilepathJoin [destination, relative]) mode observe copied)"
    if "Rel source path = Inr relative" for relative mode
    using Rel_plain [OF that p(3) assms(1) p(1) assms(2) p(2)] below_Join [OF assms(3)] assms(4,5) p(3) Cons.prems(2)
    by (intro bounded_copyFile) (blast intro: below_trans)+
  then show ?case unfolding entry using Cons.prems(2) rest
    by (auto intro!: bounded_copy_check bounded_copy_fail bounded_copy_ok bounded_mkdir
        split: sum.split file_info.split)
qed

lemma bounded_copyTree:
  assumes "cache_walk_spec d" "clean_dir source" "IsAbs source" "clean_dir destination" "below a source" "below b destination"
    and "within_limit observe copied"
  shows "bounded_copy a b observe (copyTree d source destination observe copied)"
proof -
  have walk: "\<forall>(path, info) \<in> set (fst (fst (cx_Walk d source w))). clean_dir path \<and> IsAbs path \<and> below source path" for w
    using assms(1) by (simp add: cache_walk_spec_def)
  show ?thesis
    unfolding copyTree_def
    by (rule bounded_check_query)
      (auto intro!: bounded_copy_query bounded_copy_walked [OF assms(2-6) walk assms(7)] bounded_copyFile [OF assms(5-7)]
        bounded_copy_fail split: file_info.split)
qed

lemma bounded_copy_paths:
  assumes "cache_walk_spec d"
    and "\<And>path clean. safeRelative path = Inr clean \<Longrightarrow>
       clean_dir (src clean) \<and> IsAbs (src clean) \<and> clean_dir (dst clean) \<and> below a (src clean) \<and> below b (dst clean)"
  shows "within_limit observe copied \<Longrightarrow> bounded_copy a b observe (copy_paths d src dst inspect oper observe paths copied)"
proof (induction paths arbitrary: copied)
  case (Cons path paths)
  have "bounded_copy a b observe (copyTree d (src clean) (dst clean) observe copied)" if "safeRelative path = Inr clean" for clean
    using assms(2) [OF that] Cons.prems by (intro bounded_copyTree [OF assms(1)]) auto
  with Cons show ?case
    by (auto intro!: bounded_copy_query bounded_copy_check bounded_copy_wrap bounded_copy_fail split: option.split sum.split)
qed (simp add: bounded_copy_ok)

lemma Clean_Clean: "Clean (Clean p) = Clean p"
  using IsAbs_Clean [of p] elements_Clean [of p] by (simp add: Clean_def [of "Clean p"] clean_idem) (simp add: Clean_def)

lemma safeRelative_inside:
  assumes "safeRelative path = Inr clean"
  shows "Clean clean = clean" and "\<not> escapes (Clean clean)"
proof -
  from assms have c: "clean = Clean (TrimSpace path)" "\<not> escapes clean"
    by (auto simp: safeRelative_def Let_def escapes_def split: if_splits)
  show "Clean clean = clean" unfolding c(1) by (rule Clean_Clean)
  with c(2) show "\<not> escapes (Clean clean)" by simp
qed

lemma Join_data:
  assumes "clean_dir dir" and "Clean p = p" and "\<not> escapes (Clean p)"
  shows "below dir (FilepathJoin [dir, ''data'', p])" and "clean_dir (FilepathJoin [dir, ''data'', p])"
    and "IsAbs (FilepathJoin [dir, ''data'', p]) = IsAbs dir"
proof -
  have d: "dir \<noteq> ''''" "clean_elements (IsAbs dir) (elements dir) = elements dir"
    using assms(1) by (simp_all add: clean_dir_def)
  have p: "p \<noteq> ''''" "''..'' \<notin> set (elements p)"
    using Clean_nonempty [of p] not_escapes(1) [OF assms(3)] by (simp_all add: assms(2))
  have j: "FilepathJoin [dir, ''data'', p] = Clean (dir @ ''/'' @ (''data'' @ ''/'' @ p))"
    using d(1) p(1) by (simp add: FilepathJoin_def)
  have e: "elements (dir @ ''/'' @ (''data'' @ ''/'' @ p)) = elements dir @ ([''data''] @ elements p)"
    unfolding elements_append by (simp add: elements_def slash_def)
  have "elements (FilepathJoin [dir, ''data'', p]) = elements dir @ ([''data''] @ elements p)"
    unfolding j elements_Clean IsAbs_append [OF d(1)] e by (rule clean_append [OF d(2)]) (use p(2) in simp)
  then show "below dir (FilepathJoin [dir, ''data'', p])" using p(2) by (auto simp: below_def)
  show "clean_dir (FilepathJoin [dir, ''data'', p])" unfolding j by (rule clean_dir_Clean)
  show "IsAbs (FilepathJoin [dir, ''data'', p]) = IsAbs dir" unfolding j IsAbs_Clean by (rule IsAbs_append [OF d(1)])
qed



section \<open>Saving\<close>

text \<open>
  The effects of a save into the entry \<open>entry\<close>: the scope's directory, copies into the staging directory, and, if
  they were all made, the entry's replacement; the staging directory goes at last.
\<close>

definition save_trace :: "CacheRequest \<Rightarrow> string \<Rightarrow> unit result \<Rightarrow> cache_effect list \<Rightarrow> bool" where
  "save_trace req entry r new \<longleftrightarrow>
     (r \<noteq> Inr () \<and> (new = [] \<or> new = [DirMade (filepath_Dir entry)]))
     \<or> (\<exists>temporary copied published. new = DirMade (filepath_Dir entry) # copied @ published @ [TreeRemoved temporary]
          \<and> list_all (copies (cr_Workspace req) temporary (Some (cr_MaxBytes req))) copied
          \<and> (\<exists>now. prefix published
               [ManifestWritten (FilepathJoin [temporary, ''manifest.json'']) now, TreeRemoved entry, EntryPublished temporary entry])
          \<and> (r = Inr () \<longrightarrow> EntryPublished temporary entry \<in> set published))"

lemma wp_publish_entry:
  "wp (publish_entry d temporary entry) (\<lambda>r t. \<exists>published now. trace t = trace s @ published
      \<and> prefix published [ManifestWritten (FilepathJoin [temporary, ''manifest.json'']) now, TreeRemoved entry,
          EntryPublished temporary entry]
      \<and> (r = Inr () \<longrightarrow> EntryPublished temporary entry \<in> set published)) s"
  by (auto simp: publish_entry_def Let_def wp_simps prefix_Cons split: sum.split)

definition temp_spec :: "'w cache_deps \<Rightarrow> bool" where
  "temp_spec d \<longleftrightarrow> (\<forall>dir w temporary. fst (cx_MkdirTemp d dir w) = Inr temporary \<longrightarrow> clean_dir temporary)"

lemma clean_dir_Join: "a \<noteq> '''' \<Longrightarrow> clean_dir (FilepathJoin [a, p])"
  by (auto simp: FilepathJoin_def clean_dir_Clean)

lemma copies_below:
  assumes "clean_dir a" "IsAbs a" "clean_dir b" and "safeRelative path = Inr clean"
  shows "below a (FilepathJoin [a, clean])" "clean_dir (FilepathJoin [a, clean])" "IsAbs (FilepathJoin [a, clean])"
    and "below b (FilepathJoin [b, ''data'', clean])" "clean_dir (FilepathJoin [b, ''data'', clean])"
proof -
  note c = safeRelative_inside [OF assms(4)]
  show "below a (FilepathJoin [a, clean])" by (rule below_Join [OF assms(1) c])
  show "clean_dir (FilepathJoin [a, clean])" using assms(1) by (intro clean_dir_Join) (simp add: clean_dir_def)
  show "IsAbs (FilepathJoin [a, clean])" by (rule Join_absolute [OF assms(2)])
  show "below b (FilepathJoin [b, ''data'', clean])" "clean_dir (FilepathJoin [b, ''data'', clean])"
    by (rule Join_data [OF assms(3) c])+
qed

lemma wp_save_staged:
  assumes "cache_walk_spec d" and "clean_dir (cr_Workspace req)" "IsAbs (cr_Workspace req)" "clean_dir temporary"
  shows "wp (save_staged d req temporary entry) (\<lambda>r t. \<exists>copied published. trace t = trace s @ copied @ published
      \<and> list_all (copies (cr_Workspace req) temporary (Some (cr_MaxBytes req))) copied
      \<and> (\<exists>now. prefix published [ManifestWritten (FilepathJoin [temporary, ''manifest.json'']) now, TreeRemoved entry,
           EntryPublished temporary entry])
      \<and> (r = Inr () \<longrightarrow> EntryPublished temporary entry \<in> set published)) s"
proof -
  let ?E = "{e. copies (cr_Workspace req) temporary (Some (cr_MaxBytes req)) e}"
  let ?copy = "copy_paths d (\<lambda>clean. FilepathJoin [cr_Workspace req, clean]) (\<lambda>clean. FilepathJoin [temporary, ''data'', clean])
         ''inspect cache path '' ''save cache path '' (Some (cr_MaxBytes req)) (cr_Paths req) 0"
  have "bounded_copy (cr_Workspace req) temporary (Some (cr_MaxBytes req)) ?copy"
    using copies_below [OF assms(2-4)] by (intro bounded_copy_paths [OF assms(1)]) (auto simp: within_limit_def)
  then have copy: "wp ?copy (\<lambda>r t. grown ?E s t) s" by (auto simp: bounded_copy_def wp_only)
  show ?thesis
    unfolding save_staged_def
  proof (rule wp_checkI [OF copy], goal_cases)
    case (1 err t)
    then obtain new where "trace t = trace s @ new" "set new \<subseteq> ?E" by (auto simp: grown_def)
    then show ?case by (intro exI [of _ new] exI [of _ "[]"]) (auto simp: list_all_iff)
  next
    case (2 n t)
    then obtain new where new: "trace t = trace s @ new" "set new \<subseteq> ?E" by (auto simp: grown_def)
    show ?case
    proof (rule wp_mono [OF wp_publish_entry [where s = t]], elim exE conjE)
      fix r u published now
      assume "trace u = trace t @ published"
        "prefix published [ManifestWritten (FilepathJoin [temporary, ''manifest.json'']) now, TreeRemoved entry,
          EntryPublished temporary entry]" "r = Inr () \<longrightarrow> EntryPublished temporary entry \<in> set published"
      with new show "\<exists>copied published. trace u = trace s @ copied @ published
        \<and> list_all (copies (cr_Workspace req) temporary (Some (cr_MaxBytes req))) copied
        \<and> (\<exists>now. prefix published [ManifestWritten (FilepathJoin [temporary, ''manifest.json'']) now, TreeRemoved entry,
             EntryPublished temporary entry])
        \<and> (r = Inr () \<longrightarrow> EntryPublished temporary entry \<in> set published)"
        by (intro exI [of _ new] exI [of _ published]) (auto simp: list_all_iff)
    qed
  qed
qed



section \<open>Restoring and purging\<close>

definition restore_trace :: "CacheRequest \<Rightarrow> string \<Rightarrow> bool result \<Rightarrow> cache_effect list \<Rightarrow> bool" where
  "restore_trace req entry r new \<longleftrightarrow>
     (r \<noteq> Inr True \<and> new = [TreeRemoved entry]) \<or> list_all (copies entry (cr_Workspace req) None) new"

text \<open>
  Restoring a cache copies only from below the entry of this project, repository and key to below the workspace;
  if it removes anything, that is this entry, when it has expired, and then nothing was restored.
\<close>

theorem Restore_is_confined:
  assumes "cache_walk_spec d" and "clean_dir (cr_Workspace req)" and "clean_dir root" and "IsAbs root"
    and "cache_entry d root (cr_Project req) (cr_Repository req) (cr_Key req) = Inr entry"
  shows "restore_trace req entry (exec_result (Restore d root req) w) (exec_trace (Restore d root req) w)"
proof -
  have entry: "clean_dir entry" "IsAbs entry"
    using assms(3-5) by (auto simp: cache_entry_def clean_dir_def [of root] intro!: clean_dir_Join Join_absolute split: if_splits sum.splits)
  have copy: "wp (restore_entry d entry req) (\<lambda>r t. restore_trace req entry r (trace t)) s" if "trace s = []" for s
  proof -
    let ?copy = "copy_paths d (\<lambda>clean. FilepathJoin [entry, ''data'', clean]) (\<lambda>clean. FilepathJoin [cr_Workspace req, clean])
         ''inspect cached path '' ''restore cached path '' None (cr_Paths req) 0"
    have "bounded_copy entry (cr_Workspace req) None ?copy"
      using copies_below(4,5) [OF entry(1,2,1)] Join_data(3) [OF entry(1) safeRelative_inside] entry(2)
        below_Join [OF assms(2) safeRelative_inside] assms(2)
      by (intro bounded_copy_paths [OF assms(1)]) (auto simp: within_limit_def clean_dir_def [of "cr_Workspace req"] intro!: clean_dir_Join)
    then have "only {e. copies entry (cr_Workspace req) None e} (restore_entry d entry req)"
      by (auto simp: restore_entry_def bounded_copy_def intro!: only_check only_ok)
    then show ?thesis
      using that by (auto simp: wp_only grown_def restore_trace_def list_all_iff elim!: wp_mono dest!: spec [of _ s])
  qed
  have "wp (Restore d root req) (\<lambda>r t. restore_trace req entry r (trace t)) (start w)"
    unfolding Restore_def assms(5) sum.case
    by (auto simp: wp_simps start_def copy split: sum.split) (auto simp: restore_trace_def)
  then show ?thesis by (simp only: wp_trace)
qed

text \<open>What a hash is for the names of directories: a single path element.\<close>

definition hash_spec :: "'w cache_deps \<Rightarrow> bool" where
  "hash_spec d \<longleftrightarrow> (\<forall>s. proper (cx_hash d s) \<and> cx_hash d s \<noteq> ''..'')"

lemma Join_plain:
  assumes "root \<noteq> ''''" and "p \<noteq> ''''" and "''..'' \<notin> set (elements p)"
  shows "elements (FilepathJoin [root, p]) = elements (Clean root) @ elements p"
proof -
  have "clean_elements rooted (es @ ps) = clean_elements rooted es @ ps" if "''..'' \<notin> set ps" for rooted es ps
    unfolding clean_elements_def foldl_append by (subst foldl_push_plain [OF that]) simp
  with assms show ?thesis by (simp add: FilepathJoin_def elements_Clean IsAbs_append elements_append [simplified])
qed

lemma hashed_elements:
  assumes "hash_spec d" and "root \<noteq> ''''"
  shows "elements (FilepathJoin [root, FilepathJoin [cx_hash d a, cx_hash d b, cx_hash d c]])
      = elements (Clean root) @ [cx_hash d a, cx_hash d b, cx_hash d c]"
    and "elements (FilepathJoin [root, cx_hash d a]) = elements (Clean root) @ [cx_hash d a]"
    and "elements (FilepathJoin [FilepathJoin [root, cx_hash d a], cx_hash d b]) = elements (Clean root) @ [cx_hash d a, cx_hash d b]"
proof -
  have h: "proper (cx_hash d x)" "cx_hash d x \<noteq> ''..''" "cx_hash d x \<noteq> ''''" for x
    using assms(1) by (auto simp: hash_spec_def proper_def)
  have e: "elements (cx_hash d x) = [cx_hash d x]" for x
    using elements_Join [of "[cx_hash d x]"] h(1) by simp
  have three: "elements (FilepathJoin [cx_hash d a, cx_hash d b, cx_hash d c]) = [cx_hash d a, cx_hash d b, cx_hash d c]"
  proof -
    have "FilepathJoin [cx_hash d a, cx_hash d b, cx_hash d c] = Clean (cx_hash d a @ ''/'' @ cx_hash d b @ ''/'' @ cx_hash d c)"
      using h(3) by (simp add: FilepathJoin_def)
    moreover have "''..'' \<notin> set ([cx_hash d a] @ [cx_hash d b] @ [cx_hash d c])" using h(2) by (metis Un_iff empty_iff empty_set list.simps(15) set_append insert_iff)
    ultimately show ?thesis by (simp only: elements_Clean elements_append e) (simp add: clean_plain)
  qed
  have ne: "FilepathJoin [cx_hash d a, cx_hash d b, cx_hash d c] \<noteq> ''''" using three by (auto simp: elements_def)
  show "elements (FilepathJoin [root, FilepathJoin [cx_hash d a, cx_hash d b, cx_hash d c]])
      = elements (Clean root) @ [cx_hash d a, cx_hash d b, cx_hash d c]"
    using Join_plain [OF assms(2) ne] h(2) [symmetric] by (simp add: three)
  show one: "elements (FilepathJoin [root, cx_hash d a]) = elements (Clean root) @ [cx_hash d a]"
    using Join_plain [OF assms(2) h(3)] h(2) [of a] by (simp add: e)
  have r: "FilepathJoin [root, cx_hash d a] \<noteq> ''''" "Clean (FilepathJoin [root, cx_hash d a]) = FilepathJoin [root, cx_hash d a]"
    using assms(2) h(3) [of a] by (simp_all add: FilepathJoin_def Clean_nonempty Clean_Clean)
  show "elements (FilepathJoin [FilepathJoin [root, cx_hash d a], cx_hash d b]) = elements (Clean root) @ [cx_hash d a, cx_hash d b]"
    using Join_plain [OF r(1) h(3), of b] h(2) [of b] by (simp add: e r(2) one)
qed

text \<open>
  Purging the caches of a project, or of one of its repositories, removes one directory; the entry of any project,
  repository and key lies below it exactly if the hashes of the project and, where one is named, of the
  repository are the ones to be purged. With hashes that do not collide no other project's cache is
  touched, and no key of the repository is left out.
\<close>

theorem Purge_removes_exactly_the_scope:
  assumes "hash_spec d" and "cache_entry d root project repository key = Inr entry" and "TrimSpace (pr_Project req) \<noteq> ''''"
  shows "exec_trace (Purge d root req) w = [TreeRemoved (purge_target d root req)]
    \<and> (below (purge_target d root req) entry \<longleftrightarrow>
         cx_hash d project = cx_hash d (pr_Project req)
         \<and> (pr_Repository req = '''' \<or> cx_hash d repository = cx_hash d (pr_Repository req)))"
proof -
  from assms(2) have root: "root \<noteq> ''''"
    and entry: "entry = FilepathJoin [root, FilepathJoin [cx_hash d project, cx_hash d repository, cx_hash d (cache_key key)]]"
    by (auto simp: cache_entry_def ScopeKey_def TrimSpace_def TrimFunc_def TrimLeftFunc_def TrimRightFunc_def split: if_splits)
  have "below (purge_target d root req) entry \<longleftrightarrow> cx_hash d project = cx_hash d (pr_Project req)
         \<and> (pr_Repository req = '''' \<or> cx_hash d repository = cx_hash d (pr_Repository req))"
    using assms(1) unfolding entry purge_target_def Let_def below_def
    by (auto simp: hashed_elements [OF assms(1) root] hash_spec_def)
  with assms(3) show ?thesis
    by (simp add: Purge_def Let_def exec_trace_def wrap_def run_call start_def)
qed


section \<open>A machine with one cached file\<close>

definition plain_cache :: "unit cache_deps" where
  "plain_cache = \<lparr>cx_hash = (\<lambda>s. if s = ''shop'' then ''a1'' else ''b2''), cx_sum8 = (\<lambda>s. ''c3''), cx_NotExist = (\<lambda>err. False),
     cx_ReadFile = (\<lambda>p w. (Inr ''{}'', w)), cx_Decode = (\<lambda>s. Inr 5), cx_Now = (\<lambda>w. (7, w)), cx_CtxErr = (\<lambda>w. (None, w)),
     cx_Lstat = (\<lambda>p w. (Inr (FileInfo 0x1A4), w)), cx_StatSize = (\<lambda>p w. (Inr 3, w)), cx_Walk = (\<lambda>p w. (([], None), w)),
     cx_MkdirAll = (\<lambda>p w. (Inr (), w)), cx_MkdirTemp = (\<lambda>p w. (Inr ''/cache/tmp'', w)), cx_CopyFile = (\<lambda>a b m w. (Inr (), w)),
     cx_WriteManifest = (\<lambda>p t w. (Inr (), w)), cx_RemoveAll = (\<lambda>p w. (Inr (), w)), cx_Rename = (\<lambda>a b w. (Inr (), w))\<rparr>"

definition sample_cache_request :: CacheRequest where
  "sample_cache_request = \<lparr>cr_Project = ''shop'', cr_Repository = ''web'', cr_Key = '''', cr_Paths = [''deps/lib.a''],
     cr_Workspace = ''/workspace/source'', cr_TTL = 0, cr_MaxBytes = 10\<rparr>"

lemma plain_cache_specs: "cache_walk_spec plain_cache" "temp_spec plain_cache" "hash_spec plain_cache"
proof -
  show "cache_walk_spec plain_cache" by (simp add: cache_walk_spec_def plain_cache_def)
  have "clean_dir ''/cache/tmp''" by code_simp
  then show "temp_spec plain_cache" by (simp add: temp_spec_def plain_cache_def)
  show "hash_spec plain_cache" by (auto simp: hash_spec_def plain_cache_def proper_def slash_def)
qed

lemma sample_cache_dirs:
  "clean_dir (cr_Workspace sample_cache_request)" "IsAbs (cr_Workspace sample_cache_request)"
  "clean_dir ''/cache''" "IsAbs ''/cache''"
  "cache_entry plain_cache ''/cache'' (cr_Project sample_cache_request) (cr_Repository sample_cache_request)
     (cr_Key sample_cache_request) = Inr ''/cache/a1/b2/b2''"
  by code_simp+

lemma plain_cache_ops:
  "cx_Lstat plain_cache p w = (Inr (FileInfo 0x1A4), w)" "cx_CtxErr plain_cache w = (None, w)" "cx_Now plain_cache w = (7, w)"
  "cx_StatSize plain_cache p w = (Inr 3, w)" "cx_MkdirAll plain_cache p w = (Inr (), w)"
  "cx_MkdirTemp plain_cache p w = (Inr ''/cache/tmp'', w)" "cx_CopyFile plain_cache p q m w = (Inr (), w)"
  "cx_WriteManifest plain_cache p n w = (Inr (), w)" "cx_RemoveAll plain_cache p w = (Inr (), w)"
  "cx_Rename plain_cache p q w = (Inr (), w)" "cx_ReadFile plain_cache p w = (Inr ''{}'', w)"
  "cx_Decode plain_cache data = Inr 5" "cx_NotExist plain_cache err = False"
  by (simp_all add: plain_cache_def)

lemma sample_cache_fields:
  "cr_Paths sample_cache_request = [''deps/lib.a'']" "cr_TTL sample_cache_request = 0" "cr_MaxBytes sample_cache_request = 10"
  by (simp_all add: sample_cache_request_def)

lemma sample_cache_runs:
  "exec_result (Save plain_cache ''/cache'' sample_cache_request) () = Inr ()"
  "exec_result (Restore plain_cache ''/cache'' sample_cache_request) () = Inr True"
proof -
  have path: "safeRelative ''deps/lib.a'' = Inr ''deps/lib.a''" by code_simp
  have "wp (Save plain_cache ''/cache'' sample_cache_request) (\<lambda>r t. r = Inr ()) (start ())"
    by (simp add: Save_def sample_cache_dirs(5) wp_simps plain_cache_ops sample_cache_fields save_staged_def publish_entry_def
        path copyTree_def copyFile_def copy_counted_def observe_size_def Let_def)
  then show "exec_result (Save plain_cache ''/cache'' sample_cache_request) () = Inr ()" by (simp add: wp_result)
  have "wp (Restore plain_cache ''/cache'' sample_cache_request) (\<lambda>r t. r = Inr True) (start ())"
    by (simp add: Restore_def sample_cache_dirs(5) wp_simps plain_cache_ops sample_cache_fields restore_entry_def expired_def
        path copyTree_def copyFile_def copy_counted_def Let_def)
  then show "exec_result (Restore plain_cache ''/cache'' sample_cache_request) () = Inr True" by (simp add: wp_result)
qed


theorem Restore_is_confined_witness:
  "restore_trace sample_cache_request ''/cache/a1/b2/b2''
     (exec_result (Restore plain_cache ''/cache'' sample_cache_request) ())
     (exec_trace (Restore plain_cache ''/cache'' sample_cache_request) ())
   \<and> exec_result (Restore plain_cache ''/cache'' sample_cache_request) () = Inr True"
  by (rule conjI, rule Restore_is_confined [OF plain_cache_specs(1) sample_cache_dirs(1,3,4,5)], rule sample_cache_runs)

theorem Purge_removes_exactly_the_scope_witness:
  "exec_trace (Purge plain_cache ''/cache'' \<lparr>pr_Project = ''shop'', pr_Repository = ''''\<rparr>) () = [TreeRemoved ''/cache/a1'']
   \<and> below ''/cache/a1'' ''/cache/a1/b2/b2''
   \<and> exec_trace (Purge plain_cache ''/cache'' \<lparr>pr_Project = ''other'', pr_Repository = ''''\<rparr>) () = [TreeRemoved ''/cache/b2'']
   \<and> \<not> below ''/cache/b2'' ''/cache/a1/b2/b2''"
proof -
  have t: "purge_target plain_cache ''/cache'' \<lparr>pr_Project = ''shop'', pr_Repository = ''''\<rparr> = ''/cache/a1''"
    "purge_target plain_cache ''/cache'' \<lparr>pr_Project = ''other'', pr_Repository = ''''\<rparr> = ''/cache/b2''"
    by code_simp+
  have h: "cx_hash plain_cache (cr_Project sample_cache_request) = ''a1''"
    "cx_hash plain_cache (pr_Project \<lparr>pr_Project = ''shop'', pr_Repository = ''''\<rparr>) = ''a1''"
    "cx_hash plain_cache (pr_Project \<lparr>pr_Project = ''other'', pr_Repository = ''''\<rparr>) = ''b2''"
    by code_simp+
  have blank: "TrimSpace (pr_Project \<lparr>pr_Project = ''shop'', pr_Repository = ''''\<rparr>) \<noteq> ''''"
    "TrimSpace (pr_Project \<lparr>pr_Project = ''other'', pr_Repository = ''''\<rparr>) \<noteq> ''''"
    by code_simp+
  show ?thesis
    using Purge_removes_exactly_the_scope [OF plain_cache_specs(3) sample_cache_dirs(5) blank(1), of "()"]
      Purge_removes_exactly_the_scope [OF plain_cache_specs(3) sample_cache_dirs(5) blank(2), of "()"]
    unfolding t h by (simp only: PurgeRequest.select_convs simp_thms char.inject list.inject)
qed

end
