(* ===== verification/RunnerHooks.thy ===== *)
theory RunnerHooks
  imports RunnerConfig Steps SupplyChain Artifacts DepCache
begin

text \<open>
  \<open>internal/runner/runner.go\<close>: the outside of a run, how it reports, and the supply-chain hooks after an image build.
  The Kubernetes client, Git, the file system, the image builder and the stores are fields of \<open>runner_deps\<close>; the
  components of the repository that the runner calls keep their own effects, relabelled.
\<close>

section \<open>The outside of a run\<close>

text \<open>The status updates are told apart by what they report: progress, a failure, or the run's success.\<close>

datatype hook = HookSBOM | HookScan | HookSign | HookProvenance

datatype runner_effect =
    ProgressUpdate BuildRun
  | FailureUpdate BuildRun
  | SuccessUpdate BuildRun
  | SourceRemoved string
  | WorkspaceMade string
  | Cloned string string
  | CheckedOut string string
  | CacheRestored CacheRequest
  | CacheSaved CacheRequest
  | StepEffect step_effect
  | ArtifactEffect artifact_effect
  | ContextResolved buildkit_effect
  | DockerConfigRemoved string
  | DockerConfigWritten string string
  | ImageBuilt BuildRequest
  | HookEffect hook tool_effect

record 'w cache_store =
  cst_Restore :: "CacheRequest \<Rightarrow> 'w \<Rightarrow> bool result \<times> 'w"
  cst_Save :: "CacheRequest \<Rightarrow> 'w \<Rightarrow> unit result \<times> 'w"

record 'w runner_deps =
  rn_GetBuildRun :: "NamespacedName \<Rightarrow> 'w \<Rightarrow> BuildRun result \<times> 'w"
  rn_GetRepository :: "NamespacedName \<Rightarrow> 'w \<Rightarrow> Repository result \<times> 'w"
  rn_GetTemplate :: "NamespacedName \<Rightarrow> 'w \<Rightarrow> PipelineTemplate result \<times> 'w"
  rn_StatusUpdate :: "BuildRun \<Rightarrow> 'w \<Rightarrow> BuildRun result \<times> 'w"
  rn_Retry :: "('w, runner_effect, BuildRun result) io \<Rightarrow> ('w, runner_effect, BuildRun result) io"
  rn_Now :: "'w \<Rightarrow> gotime \<times> 'w"
  rn_RemoveAll :: "string \<Rightarrow> 'w \<Rightarrow> unit result \<times> 'w"
  rn_MkdirAll :: "string \<Rightarrow> 'w \<Rightarrow> unit result \<times> 'w"
  rn_ReadFile :: "string \<Rightarrow> 'w \<Rightarrow> string result \<times> 'w"
  rn_WriteFile :: "string \<Rightarrow> string \<Rightarrow> 'w \<Rightarrow> unit result \<times> 'w"
  rn_Clone :: "string \<Rightarrow> string \<Rightarrow> 'w \<Rightarrow> unit result \<times> 'w"
  rn_Checkout :: "string \<Rightarrow> string \<Rightarrow> 'w \<Rightarrow> unit result \<times> 'w"
  rn_Workspace :: string
  rn_MapOrder :: "env_entries \<Rightarrow> env_entries"
  rn_ParseURL :: "string \<Rightarrow> url_user option result"
  rn_Steps :: "'w step_deps"
  rn_LogStore :: bool
  rn_Artifacts :: "'w artifact_deps option"
  rn_Cache :: "'w cache_store option"
  rn_CacheNames :: "'w cache_deps"
  rn_BuildContext :: "'w buildkit_deps"
  rn_Build :: "BuildRequest \<Rightarrow> 'w \<Rightarrow> BuildResult result \<times> 'w"
  rn_Registry :: "'w registry_codec"
  rn_DockerConfig :: "string \<Rightarrow> (string \<times> string \<times> string \<times> string option) list"
  rn_Tools :: "'w tool_deps"
  rn_SBOM :: SBOMGenerator
  rn_Scanner :: VulnerabilityScanner
  rn_Signer :: ImageSigner
  rn_Provenance :: ProvenanceWriter

type_synonym ('w, 'a) run_io = "('w, runner_effect, 'a) io"


section \<open>Reporting\<close>

definition runner_updateStatus :: "'w runner_deps \<Rightarrow> (BuildRun \<Rightarrow> runner_effect) \<Rightarrow> BuildRun \<Rightarrow> ('w, BuildRun result) run_io" where
  "runner_updateStatus d eff b =
     wrap ''update BuildRun status''
       (UpdateStatusWithRetry (rn_Retry d) (rn_GetBuildRun d) (rn_StatusUpdate d) buildrun_ops eff b)"

definition runner_setCondition ::
  "'w runner_deps \<Rightarrow> string \<Rightarrow> ConditionStatus \<Rightarrow> string \<Rightarrow> string \<Rightarrow> BuildRun \<Rightarrow> ('w, BuildRun) run_io" where
  "runner_setCondition d ty st reason message b = do {
     now \<leftarrow> query (rn_Now d);
     State_Monad.return (b\<lparr>br_Status := (br_Status b)\<lparr>bst_Conditions :=
       SetCondition now (bst_Conditions (br_Status b)) (mk_condition ty st (br_generation b) reason message now)\<rparr>\<rparr>)
   }"

text \<open>\<open>Runner.fail\<close>; a run whose phase does not allow the failure is not written.\<close>

definition runner_fail :: "'w runner_deps \<Rightarrow> BuildRun \<Rightarrow> string \<Rightarrow> string \<Rightarrow> ('w, 'a result) run_io" where
  "runner_fail d b reason message = do {
     now \<leftarrow> query (rn_Now d);
     case MarkBuildRunFailed b now reason message of
       Inl _ \<Rightarrow> fail (errors_New (reason @ '': '' @ message))
     | Inr b \<Rightarrow> check (runner_updateStatus d FailureUpdate b) (\<lambda>_. fail (errors_New (reason @ '': '' @ message)))
   }"

text \<open>\<open>if err != nil { return r.fail(ctx, buildRun, reason, text(err)) }\<close>.\<close>

definition or_fail ::
  "'w runner_deps \<Rightarrow> BuildRun \<Rightarrow> (go_error \<Rightarrow> string) \<Rightarrow> (go_error \<Rightarrow> string) \<Rightarrow> ('w, 'a result) run_io
     \<Rightarrow> ('a \<Rightarrow> ('w, 'b result) run_io) \<Rightarrow> ('w, 'b result) run_io" where
  "or_fail d b reason message m f = do {
     r \<leftarrow> m;
     case r of Inl err \<Rightarrow> runner_fail d b (reason err) (message err) | Inr a \<Rightarrow> f a
   }"

text \<open>The same, with a condition set before.\<close>

definition or_fail_condition ::
  "'w runner_deps \<Rightarrow> BuildRun \<Rightarrow> string \<Rightarrow> string \<Rightarrow> (go_error \<Rightarrow> string) \<Rightarrow> (go_error \<Rightarrow> string) \<Rightarrow> ('w, 'a result) run_io
     \<Rightarrow> ('a \<Rightarrow> ('w, 'b result) run_io) \<Rightarrow> ('w, 'b result) run_io" where
  "or_fail_condition d b ty note reason message m f = do {
     r \<leftarrow> m;
     case r of
       Inl err \<Rightarrow> do {
         b \<leftarrow> runner_setCondition d ty ConditionFalse (reason err) note b;
         runner_fail d b (reason err) (message err)
       }
     | Inr a \<Rightarrow> f a
   }"


section \<open>Supply-chain hooks\<close>

definition configureSupplyChainAdapters :: "PipelineSupplyChainSpec \<Rightarrow> 'w runner_deps \<Rightarrow> 'w runner_deps" where
  "configureSupplyChainAdapters spec d =
     (let d = (if sc_SBOMAdapter spec = ''syft'' then d\<lparr>rn_SBOM := SyftSBOMGenerator ''''\<rparr> else d);
          d = (if sc_ScannerAdapter spec = ''grype'' then d\<lparr>rn_Scanner := GrypeScanner ''''\<rparr> else d);
          keyPath = (if sc_SigningKeySecretRef spec \<noteq> None then ''/var/run/secrets/cloudivision-signing/key'' else '''');
          d = (if sc_SignerAdapter spec = ''cosign''
            then d\<lparr>rn_Signer := CosignSigner \<lparr>cos_Binary = '''', cos_Keyless = sc_CosignKeyless spec, cos_KeyPath = keyPath\<rparr>\<rparr>
            else d) in
      if sc_ProvenanceAdapter spec = ''json'' then d\<lparr>rn_Provenance := JSONProvenanceWriter\<rparr> else d)"

definition image_of :: "BuildResult \<Rightarrow> ImageRef" where
  "image_of res = \<lparr>img_Repository = bres_ImageRepository res, img_Tag = bres_Tag res, img_Digest = bres_Digest res\<rparr>"

definition hook_context :: "BuildRun \<Rightarrow> Repository \<Rightarrow> string \<Rightarrow> BuildResult \<Rightarrow> gotime \<Rightarrow> ImageContext" where
  "hook_context b repository sourceDir res now =
     \<lparr>ic_BuildRunName = meta_Name (br_Meta b), ic_Namespace = meta_Namespace (br_Meta b),
      ic_ProjectName = brs_ProjectRef (br_Spec b), ic_SourceDir = sourceDir, ic_RepositoryURL = rs_URL (repo_Spec repository),
      ic_CommitSHA = (if brs_CommitSHA (br_Spec b) = '''' then brs_Revision (br_Spec b) else brs_CommitSHA (br_Spec b)),
      ic_PipelineTemplate = brs_PipelineTemplateRef (br_Spec b), ic_StartedAt = bst_StartedAt (br_Status b),
      ic_CompletedAt = Some now, ic_Image = image_of res\<rparr>"

text \<open>
  A hook: on an error the condition holds its text and the hook's error is returned with the build run; otherwise the
  status takes the result and the condition says whether there was one.
\<close>

type_synonym hook_state = "BuildRun \<times> BuildRunSupplyChainStatus"

definition hook_error :: "string \<Rightarrow> string \<Rightarrow> go_error \<Rightarrow> go_error" where
  "hook_error reason doing err = GoError (doing @ '': '' @ err_text err) (HookError reason # err_tags err)"

definition run_hook ::
  "'w runner_deps \<Rightarrow> hook \<Rightarrow> string \<Rightarrow> (string \<times> string) \<Rightarrow> (string \<times> string) \<Rightarrow> string \<Rightarrow> ('w, 'a option result) tool_io
     \<Rightarrow> ('a option \<Rightarrow> BuildRunSupplyChainStatus \<Rightarrow> BuildRunSupplyChainStatus) \<Rightarrow> (BuildRunSupplyChainStatus \<Rightarrow> bool)
     \<Rightarrow> hook_state \<Rightarrow> ('w, BuildRun \<times> (go_error + BuildRunSupplyChainStatus)) run_io" where
  "run_hook d h ty failed succeeded noop m record_result present bs = (case bs of (b, status) \<Rightarrow> do {
     r \<leftarrow> relabel (HookEffect h) m;
     case r of
       Inl err \<Rightarrow> do {
         b \<leftarrow> runner_setCondition d ty ConditionFalse (fst failed) (err_text err) b;
         State_Monad.return (b, Inl (hook_error (fst failed) (snd failed) err))
       }
     | Inr res \<Rightarrow>
         let status = record_result res status in do {
           b \<leftarrow> (if present status then runner_setCondition d ty ConditionTrue (fst succeeded) (snd succeeded) b
                 else runner_setCondition d ty ConditionFalse ''NoopAdapter'' noop b);
           State_Monad.return (b\<lparr>br_Status := (br_Status b)\<lparr>bst_SupplyChain := status\<rparr>\<rparr>, Inr status)
         }
   })"

text \<open>A hook that is only run if its switch is on, after hooks that succeeded.\<close>

definition and_hook ::
  "bool \<Rightarrow> (hook_state \<Rightarrow> ('w, BuildRun \<times> (go_error + BuildRunSupplyChainStatus)) run_io)
     \<Rightarrow> BuildRun \<times> (go_error + BuildRunSupplyChainStatus) \<Rightarrow> ('w, BuildRun \<times> (go_error + BuildRunSupplyChainStatus)) run_io" where
  "and_hook enabled hook st = (case snd st of
     Inl err \<Rightarrow> State_Monad.return st
   | Inr status \<Rightarrow> if enabled then hook (fst st, status) else State_Monad.return st)"

definition sbom_hook where
  "sbom_hook d context =
     run_hook d HookSBOM ''SBOMGenerated'' (''SBOMGenerationFailed'', ''generate SBOM'')
       (''SBOMGenerated'', ''SBOM was generated and its digest recorded.'') ''SBOM adapter returned no artifact.''
       (GenerateSBOM (rn_Tools d) (rn_SBOM d) context)
       (\<lambda>sbom status. case sbom of None \<Rightarrow> status
          | Some sbom \<Rightarrow> status\<lparr>scs_SBOMPath := (if sbr_Path sbom \<noteq> '''' then sbr_Path sbom else scs_SBOMPath status),
              scs_SBOMDigest := (if sbr_Digest sbom \<noteq> '''' then sbr_Digest sbom else scs_SBOMDigest status)\<rparr>)
       (\<lambda>status. scs_SBOMPath status \<noteq> '''' \<or> scs_SBOMDigest status \<noteq> '''')"

definition scan_hook where
  "scan_hook d context bs =
     run_hook d HookScan ''ImageScanned'' (''ImageScanFailed'', ''scan image'')
       (''ImageScanned'', ''Vulnerability scan results and severity summary were recorded.'') ''Scanner adapter returned no results.''
       (ScanImage (rn_Tools d) (rn_Scanner d) \<lparr>scq_Context = context, scq_SBOMPath = scs_SBOMPath (snd bs)\<rparr>)
       (\<lambda>scan status. case scan of None \<Rightarrow> status
          | Some scan \<Rightarrow> status\<lparr>scs_ScannerResultsRef := scr_ResultsRef scan, scs_CriticalVulnerabilities := scr_Critical scan,
              scs_HighVulnerabilities := scr_High scan, scs_MediumVulnerabilities := scr_Medium scan,
              scs_LowVulnerabilities := scr_Low scan\<rparr>)
       (\<lambda>status. scs_ScannerResultsRef status \<noteq> '''') bs"

definition sign_hook where
  "sign_hook d context =
     run_hook d HookSign ''ImageSigned'' (''ImageSigningFailed'', ''sign image'')
       (''ImageSigned'', ''Image signature reference was recorded.'') ''Signer adapter returned no signature.''
       (SignImage (rn_Tools d) (rn_Signer d) context)
       (\<lambda>signature status. case signature of None \<Rightarrow> status
          | Some signature \<Rightarrow> if sgr_SignatureRef signature \<noteq> '''' then status\<lparr>scs_SignatureRef := sgr_SignatureRef signature\<rparr> else status)
       (\<lambda>status. scs_SignatureRef status \<noteq> '''')"

definition provenance_hook where
  "provenance_hook d context bs =
     run_hook d HookProvenance ''ProvenanceWritten'' (''ProvenanceWriteFailed'', ''write provenance'')
       (''ProvenanceWritten'', ''Build provenance reference was recorded.'') ''Provenance adapter returned no artifact.''
       (WriteProvenance (rn_Tools d) (rn_Provenance d)
          \<lparr>pvq_Context = context, pvq_SBOMPath = scs_SBOMPath (snd bs), pvq_SBOMDigest = scs_SBOMDigest (snd bs),
           pvq_SignatureRef = scs_SignatureRef (snd bs), pvq_ScannerResultsRef = scs_ScannerResultsRef (snd bs)\<rparr>)
       (\<lambda>provenance status. case provenance of None \<Rightarrow> status
          | Some provenance \<Rightarrow> if pvr_Ref provenance \<noteq> '''' then status\<lparr>scs_ProvenanceRef := pvr_Ref provenance\<rparr> else status)
       (\<lambda>status. scs_ProvenanceRef status \<noteq> '''') bs"

definition has_metadata :: "BuildRunSupplyChainStatus \<Rightarrow> bool" where
  "has_metadata status \<longleftrightarrow> scs_SBOMPath status \<noteq> '''' \<or> scs_SBOMDigest status \<noteq> '''' \<or> scs_SignatureRef status \<noteq> ''''
     \<or> scs_ScannerResultsRef status \<noteq> '''' \<or> scs_ProvenanceRef status \<noteq> ''''"

definition runSupplyChainHooks ::
  "'w runner_deps \<Rightarrow> BuildRun \<Rightarrow> Repository \<Rightarrow> PipelineTemplate \<Rightarrow> string \<Rightarrow> BuildResult
     \<Rightarrow> ('w, BuildRun \<times> go_error option) run_io" where
  "runSupplyChainHooks d b repository template sourceDir res = do {
     now \<leftarrow> query (rn_Now d);
     let context = hook_context b repository sourceDir res now; spec = pts_SupplyChain (pt_Spec template);
       status = bst_SupplyChain (br_Status b);
       status = (if bres_SBOMPath res \<noteq> '''' then status\<lparr>scs_SBOMPath := bres_SBOMPath res\<rparr> else status) in do {
       st \<leftarrow> and_hook (sc_GenerateSBOM spec) (sbom_hook d context) (b, Inr status);
       st \<leftarrow> and_hook (sc_ScanImage spec) (scan_hook d context) st;
       st \<leftarrow> and_hook (sc_SignImage spec) (sign_hook d context) st;
       st \<leftarrow> and_hook (sc_GenerateSBOM spec \<or> sc_ScanImage spec \<or> sc_SignImage spec \<or> bres_Digest res \<noteq> '''')
         (provenance_hook d context) st;
       case snd st of
         Inl err \<Rightarrow> State_Monad.return (fst st, Some err)
       | Inr status \<Rightarrow> do {
           let b = (fst st)\<lparr>br_Status := (br_Status (fst st))\<lparr>bst_SupplyChain := status\<rparr>\<rparr>;
           b \<leftarrow> (if has_metadata status
             then runner_setCondition d ''SupplyChainReady'' ConditionTrue ''SupplyChainMetadataRecorded''
               ''Supply-chain metadata has been recorded.'' b
             else State_Monad.return b);
           State_Monad.return (b, None)
         }
     }
   }"

fun first_hook_error :: "error_tag list \<Rightarrow> string option" where
  "first_hook_error [] = None"
| "first_hook_error (t # ts) = (case t of HookError reason \<Rightarrow> Some reason | _ \<Rightarrow> first_hook_error ts)"

definition hook_reason :: "go_error \<Rightarrow> string" where
  "hook_reason err = (case first_hook_error (err_tags err) of None \<Rightarrow> ''SupplyChainFailed'' | Some reason \<Rightarrow> reason)"

end
