(* ===== verification/Runner.thy ===== *)
theory Runner
  imports RunnerHooks
begin

text \<open>
  \<open>Runner.Run\<close> of \<open>internal/runner/runner.go\<close>: a build from the cloning of its repository to the last status update. Each
  stage returns the error with which the run ends, after having reported it.
\<close>

section \<open>Stages\<close>

definition masked :: "Redactor \<Rightarrow> go_error \<Rightarrow> string" where
  "masked redactor err = Mask redactor (err_text err)"

definition run_log :: "'w runner_deps \<Rightarrow> Redactor \<Rightarrow> BuildRun \<Rightarrow> string \<Rightarrow> ('w, unit result) run_io" where
  "run_log d redactor b message = relabel StepEffect (do {
     now \<leftarrow> query (sx_Now (rn_Steps d));
     append_redacted (rn_Steps d) redactor (meta_Namespace (br_Meta b)) (meta_Name (br_Meta b))
       [\<lparr>ll_Timestamp = now, ll_Step = '''', ll_Message = message\<rparr>]
   })"

definition prepare_logs :: "'w runner_deps \<Rightarrow> Config \<Rightarrow> Redactor \<Rightarrow> BuildRun \<Rightarrow> ('w, BuildRun result) run_io" where
  "prepare_logs d cfg redactor b =
     (if \<not> rn_LogStore d then ok b
      else let b = b\<lparr>br_Status := (br_Status b)\<lparr>bst_Log := (bst_Log (br_Status b))\<lparr>
              blog_Backend := (if cfg_LogBackend cfg = '''' then ''configured'' else cfg_LogBackend cfg),
              blog_Ref := meta_Namespace (br_Meta b) @ ''/'' @ meta_Name (br_Meta b)\<rparr>\<rparr>\<rparr> in
        or_fail d b (\<lambda>_. ''LogStoreWriteFailed'') (masked redactor) (run_log d redactor b ''Build runner started.'') (\<lambda>_. ok b))"

definition start_run :: "'w runner_deps \<Rightarrow> BuildRun \<Rightarrow> ('w, BuildRun result) run_io" where
  "start_run d b = do {
     now \<leftarrow> query (rn_Now d);
     case MarkBuildRunStarted b now of
       Inl err \<Rightarrow> fail (errorf_w ''mark BuildRun started'' err)
     | Inr b \<Rightarrow> runner_updateStatus d ProgressUpdate b
   }"

definition clone_source ::
  "'w runner_deps \<Rightarrow> Config \<Rightarrow> Redactor \<Rightarrow> BuildRun \<Rightarrow> Repository \<Rightarrow> string \<Rightarrow> ('w, unit result) run_io" where
  "clone_source d cfg redactor b repository sourceDir =
     or_fail d b (\<lambda>_. ''WorkspaceCleanupFailed'') err_text (call (SourceRemoved sourceDir) (rn_RemoveAll d sourceDir)) (\<lambda>_.
     or_fail d b (\<lambda>_. ''WorkspaceCreateFailed'') err_text (call (WorkspaceMade (rn_Workspace d)) (rn_MkdirAll d (rn_Workspace d))) (\<lambda>_.
     or_fail d b (\<lambda>_. ''RepositoryCloneFailed'') (masked redactor)
       (call (Cloned (rs_URL (repo_Spec repository)) sourceDir) (rn_Clone d (rs_URL (repo_Spec repository)) sourceDir)) (\<lambda>_.
     or_fail d b (\<lambda>_. ''RepositoryCheckoutFailed'') (masked redactor)
       (call (CheckedOut sourceDir (checkoutRef b cfg)) (rn_Checkout d sourceDir (checkoutRef b cfg))) ok)))"

subsection \<open>The dependency cache\<close>

definition cache_request :: "Config \<Rightarrow> BuildRun \<Rightarrow> PipelineTemplate \<Rightarrow> string \<Rightarrow> CacheRequest" where
  "cache_request cfg b template sourceDir = (let c = pts_Cache (pt_Spec template) in
     \<lparr>cr_Project = brs_ProjectRef (br_Spec b), cr_Repository = brs_RepositoryRef (br_Spec b), cr_Key = dc_Key c,
      cr_Paths = dc_Paths c, cr_Workspace = sourceDir, cr_TTL = seconds (dc_TTLSeconds c), cr_MaxBytes = cfg_MaxCacheBytes cfg\<rparr>)"

fun restore_keys ::
  "'w runner_deps \<Rightarrow> Redactor \<Rightarrow> BuildRun \<Rightarrow> 'w cache_store \<Rightarrow> CacheRequest \<Rightarrow> string list \<Rightarrow> ('w, bool result) run_io" where
  "restore_keys d redactor b store req [] = ok False"
| "restore_keys d redactor b store req (key # keys) =
     or_fail d b (\<lambda>_. ''CacheRestoreFailed'') (masked redactor)
       (call (CacheRestored (req\<lparr>cr_Key := key\<rparr>)) (cst_Restore store (req\<lparr>cr_Key := key\<rparr>))) (\<lambda>restored.
       if restored then ok True else restore_keys d redactor b store req keys)"

fun dependency_mode_string :: "DependencyCacheMode \<Rightarrow> string" where
  "dependency_mode_string DependencyCacheModeUnset = ''''"
| "dependency_mode_string DependencyCacheModePVC = ''pvc''"
| "dependency_mode_string DependencyCacheModeRegistry = ''registry''"
| "dependency_mode_string DependencyCacheModeObjectStorage = ''objectStorage''"
| "dependency_mode_string (DependencyCacheModeOther mode) = mode"

definition stored_mode :: "DependencyCacheMode \<Rightarrow> bool" where
  "stored_mode mode \<longleftrightarrow> mode = DependencyCacheModePVC \<or> mode = DependencyCacheModeObjectStorage"

definition restore_stored ::
  "'w runner_deps \<Rightarrow> Config \<Rightarrow> Redactor \<Rightarrow> BuildRun \<Rightarrow> PipelineTemplate \<Rightarrow> string \<Rightarrow> ('w, BuildRun result) run_io" where
  "restore_stored d cfg redactor b template sourceDir = (case rn_Cache d of
     None \<Rightarrow> runner_fail d b ''CacheUnavailable'' ''Pipeline dependency cache is enabled but no cache backend is configured.''
   | Some store \<Rightarrow>
       check (restore_keys d redactor b store (cache_request cfg b template sourceDir)
           (dc_Key (pts_Cache (pt_Spec template)) # dc_RestoreKeys (pts_Cache (pt_Spec template)))) (\<lambda>hit. do {
         b \<leftarrow> (if hit
           then runner_setCondition d ''CacheRestored'' ConditionTrue ''CacheHit''
             ''A project- and repository-scoped dependency cache was restored.'' b
           else runner_setCondition d ''CacheRestored'' ConditionFalse ''CacheMiss''
             ''No matching dependency cache entry was found.'' b);
         ok b
       }))"

definition registry_cached :: "string \<Rightarrow> PipelineTemplate \<Rightarrow> PipelineTemplate" where
  "registry_cached ref template = template\<lparr>pt_Spec := (pt_Spec template)\<lparr>pts_Build := (pts_Build (pt_Spec template))\<lparr>
     bld_Cache := \<lparr>bc_Enabled = True, bc_Mode = BuildCacheModeRegistry, bc_Ref = ref\<rparr>\<rparr>\<rparr>\<rparr>"

definition restore_cache ::
  "'w runner_deps \<Rightarrow> Config \<Rightarrow> Redactor \<Rightarrow> BuildRun \<Rightarrow> PipelineTemplate \<Rightarrow> string
     \<Rightarrow> ('w, (BuildRun \<times> PipelineTemplate) result) run_io" where
  "restore_cache d cfg redactor b template sourceDir = (let c = pts_Cache (pt_Spec template) in
     if \<not> dc_Enabled c then ok (b, template)
     else if stored_mode (dc_Mode c) then check (restore_stored d cfg redactor b template sourceDir) (\<lambda>b. ok (b, template))
     else if dc_Mode c = DependencyCacheModeRegistry then
       (case RegistryRef (rn_CacheNames d) (img_Repository (brs_Image (br_Spec b))) (brs_ProjectRef (br_Spec b))
            (brs_RepositoryRef (br_Spec b)) (dc_Key c) of
          Inl err \<Rightarrow> runner_fail d b ''CacheConfigurationInvalid'' (err_text err)
        | Inr ref \<Rightarrow> do {
            b \<leftarrow> runner_setCondition d ''CacheRestored'' ConditionTrue ''RegistryCacheConfigured''
              ''A scoped BuildKit registry cache was configured.'' b;
            ok (b, registry_cached ref template)
          })
     else runner_fail d b ''CacheConfigurationInvalid''
       (''unsupported dependency cache mode '' @ quote (dependency_mode_string (dc_Mode c))))"

definition save_cache ::
  "'w runner_deps \<Rightarrow> Config \<Rightarrow> Redactor \<Rightarrow> BuildRun \<Rightarrow> PipelineTemplate \<Rightarrow> string \<Rightarrow> ('w, BuildRun result) run_io" where
  "save_cache d cfg redactor b template sourceDir = (let c = pts_Cache (pt_Spec template) in
     case (if dc_Enabled c \<and> stored_mode (dc_Mode c) then rn_Cache d else None) of
       None \<Rightarrow> ok b
     | Some store \<Rightarrow>
         or_fail d b (\<lambda>_. ''CacheSaveFailed'') (masked redactor)
           (call (CacheSaved (cache_request cfg b template sourceDir)) (cst_Save store (cache_request cfg b template sourceDir))) (\<lambda>_. do {
           b \<leftarrow> runner_setCondition d ''CacheSaved'' ConditionTrue ''CacheSaved''
             ''Dependency cache saved after successful pipeline execution.'' b;
           runner_updateStatus d ProgressUpdate b
         }))"

subsection \<open>Steps and artifacts\<close>

definition run_runner :: "'w runner_deps \<Rightarrow> Config \<Rightarrow> Redactor \<Rightarrow> BuildRun \<Rightarrow> 'w steps_Runner" where
  "run_runner d cfg redactor b =
     \<lparr>str_Output = (if cfg_MaxLogBytes cfg > 0 then boundedWriter_Write (stdout_Write (rn_Steps d)) else stdout_Write (rn_Steps d)),
      str_Observe = (if rn_LogStore d
        then Some (observe_output (rn_Steps d) redactor (meta_Namespace (br_Meta b)) (meta_Name (br_Meta b)) (cfg_MaxLogBytes cfg))
        else None)\<rparr>"

definition run_steps_stage ::
  "'w runner_deps \<Rightarrow> Config \<Rightarrow> Redactor \<Rightarrow> BuildRun \<Rightarrow> PipelineTemplate \<Rightarrow> string \<Rightarrow> ('w, BuildRun result) run_io" where
  "run_steps_stage d cfg redactor b template sourceDir = do {
     (err, _) \<leftarrow> relabel StepEffect (Run_steps (rn_Steps d) (run_runner d cfg redactor b) sourceDir (pts_Steps (pt_Spec template)) redactor
       \<lparr>Remaining = cfg_MaxLogBytes cfg, storedBytes = 0\<rparr>);
     case err of
       Some err \<Rightarrow> runner_fail d b ''StepFailed'' (masked redactor err)
     | None \<Rightarrow> do {
         b \<leftarrow> runner_setCondition d ''StepsCompleted'' ConditionTrue ''StepsCompleted'' ''Pipeline steps completed.'' b;
         ok b
       }
   }"

definition collect_stage ::
  "'w runner_deps \<Rightarrow> Config \<Rightarrow> Redactor \<Rightarrow> BuildRun \<Rightarrow> PipelineTemplate \<Rightarrow> string \<Rightarrow> ('w, BuildRun result) run_io" where
  "collect_stage d cfg redactor b template sourceDir = (case rn_Artifacts d of
     None \<Rightarrow> ok b
   | Some ax \<Rightarrow>
       or_fail d b (\<lambda>_. ''ArtifactCollectionFailed'') (masked redactor)
         (relabel ArtifactEffect (collectArtifacts ax b template sourceDir (cfg_MaxArtifactsBytes cfg)))
         (\<lambda>statuses. ok (b\<lparr>br_Status := (br_Status b)\<lparr>bst_Artifacts := statuses\<rparr>\<rparr>)))"

subsection \<open>The image\<close>

definition registryCredentialFailureReason :: "go_error \<Rightarrow> string" where
  "registryCredentialFailureReason err =
     (if list_ex (errors_Is err) (err_tags ErrCredentialsMissing) then ''RegistryCredentialsMissing''
      else if list_ex (errors_Is err) (err_tags ErrUnsupportedProvider) then ''RegistryProviderUnsupported''
      else ''RegistryCredentialsInvalid'')"

fun read_credential_keys :: "'w runner_deps \<Rightarrow> string \<Rightarrow> string list \<Rightarrow> strmap \<Rightarrow> ('w, strmap result) run_io" where
  "read_credential_keys d dir [] data = ok data"
| "read_credential_keys d dir (key # keys) data = do {
     r \<leftarrow> query (rn_ReadFile d (FilepathJoin [dir, key]));
     case r of
       Inl err \<Rightarrow>
         if errors_Is err ErrNotExist then read_credential_keys d dir keys data
         else fail (errorf_w (''read registry credential key '' @ quote key) err)
     | Inr v \<Rightarrow> read_credential_keys d dir keys (data(key \<mapsto> v))
   }"

definition LoadCredentialDir :: "'w runner_deps \<Rightarrow> string \<Rightarrow> ('w, Credential result) run_io" where
  "LoadCredentialDir d dir =
     check (read_credential_keys d dir [DockerConfigJSONKey, DockerConfigKey, UsernameKey, PasswordKey, TokenKey] Map.empty)
       (\<lambda>data. State_Monad.return (ParseCredential (rn_Registry d) data))"

definition WriteDockerConfig :: "'w runner_deps \<Rightarrow> string \<Rightarrow> LoginResult \<Rightarrow> ('w, string result) run_io" where
  "WriteDockerConfig d dir res =
     (if lgr_DockerConfigJSON res = '''' then fail (errorf_w ''login returned no docker config'' ErrCredentialsInvalid)
      else check (wrap ''create Docker config directory'' (query (rn_MkdirAll d dir))) (\<lambda>_.
        let path = FilepathJoin [dir, DockerConfigKey] in
        check (wrap ''write Docker config'' (call (DockerConfigWritten (lgr_Registry res) (lgr_DockerConfigJSON res))
            (rn_WriteFile d path (lgr_DockerConfigJSON res)))) (\<lambda>_. ok path)))"

record registry_setup =
  rgs_Repository :: string
  rgs_Tag :: string
  rgs_Env :: strmap
  rgs_Redactor :: Redactor
  rgs_DockerDir :: "string option"

definition registry_login ::
  "'w runner_deps \<Rightarrow> Config \<Rightarrow> Redactor \<Rightarrow> BuildRun \<Rightarrow> Adapter \<Rightarrow> ImageRef \<Rightarrow> strmap \<Rightarrow> ('w, registry_setup result) run_io" where
  "registry_login d cfg redactor b provider resolved env =
     or_fail_condition d b ''ImageBuilt'' ''Registry credentials could not be loaded.'' registryCredentialFailureReason (masked redactor)
       (LoadCredentialDir d (cfg_RegistryCredentialsDir cfg)) (\<lambda>credential.
     let registryRedactor = credential_Redactor (rn_Registry d) (rn_DockerConfig d) credential in
     or_fail_condition d b ''ImageBuilt'' ''Configured registry image has no registry host.'' (\<lambda>_. ''RegistryImageInvalid'') (masked redactor)
       (State_Monad.return (RegistryHost (img_Repository resolved))) (\<lambda>host.
     or_fail_condition d b ''ImageBuilt'' ''Registry login configuration failed.'' registryCredentialFailureReason
       (\<lambda>err. Mask redactor (masked registryRedactor err))
       (State_Monad.return (Login (rn_Registry d) provider \<lparr>lgq_Registry = host, lgq_Credential = credential\<rparr>)) (\<lambda>login.
     let dir = FilepathJoin [rn_Workspace d, ''.docker''] in
     or_fail d b (\<lambda>_. ''RegistryCredentialsInvalid'') (masked redactor) (call (DockerConfigRemoved dir) (rn_RemoveAll d dir)) (\<lambda>_.
     or_fail d b (\<lambda>_. ''RegistryCredentialsInvalid'') (\<lambda>err. Mask redactor (masked registryRedactor err)) (WriteDockerConfig d dir login) (\<lambda>_.
       ok \<lparr>rgs_Repository = img_Repository resolved, rgs_Tag = img_Tag resolved, rgs_Env = env(''DOCKER_CONFIG'' \<mapsto> dir),
           rgs_Redactor = registryRedactor, rgs_DockerDir = Some dir\<rparr>)))))"

definition resolve_registry ::
  "'w runner_deps \<Rightarrow> Config \<Rightarrow> Redactor \<Rightarrow> BuildRun \<Rightarrow> PipelineTemplate \<Rightarrow> ('w, registry_setup result) run_io" where
  "resolve_registry d cfg redactor b template =
     (let img = brs_Image (br_Spec b); env = buildParamsEnv (brs_Params (br_Spec b)) in
      if cfg_RegistryProvider cfg = ''''
      then ok \<lparr>rgs_Repository = img_Repository img, rgs_Tag = img_Tag img, rgs_Env = env, rgs_Redactor = New [], rgs_DockerDir = None\<rparr>
      else
        or_fail_condition d b ''ImageBuilt'' ''Configured registry provider is unsupported.'' (\<lambda>_. ''RegistryProviderUnsupported'') (masked redactor)
          (State_Monad.return (New_registry (cfg_RegistryProvider cfg))) (\<lambda>provider.
        or_fail_condition d b ''ImageBuilt'' ''Configured registry image is invalid.'' (\<lambda>_. ''RegistryImageInvalid'') (masked redactor)
          (State_Monad.return (ResolveImage provider \<lparr>imq_Registry = '''', imq_ImagePrefix = cfg_RegistryImagePrefix cfg,
             imq_Repository = img_Repository img, imq_Tag = img_Tag img, imq_Digest = '''', imq_Credential = Credential_zero\<rparr>)) (\<lambda>resolved.
        if bld_Push (pts_Build (pt_Spec template)) then registry_login d cfg redactor b provider resolved env
        else ok \<lparr>rgs_Repository = img_Repository resolved, rgs_Tag = img_Tag resolved, rgs_Env = env, rgs_Redactor = New [],
               rgs_DockerDir = None\<rparr>)))"

definition build_request :: "string \<Rightarrow> PipelineTemplate \<Rightarrow> registry_setup \<Rightarrow> BuildRequest" where
  "build_request contextDir template setup = (let bld = pts_Build (pt_Spec template) in
     \<lparr>bq_ContextDir = contextDir, bq_Dockerfile = bld_Dockerfile bld, bq_ImageRepository = rgs_Repository setup,
      bq_ImageTag = rgs_Tag setup, bq_Push = bld_Push bld, bq_BuildArgs = bld_BuildArgs bld, bq_Target = bld_Target bld,
      bq_Platforms = bld_Platforms bld, bq_Labels = bld_Labels bld,
      bq_Cache = \<lparr>bcc_Enabled = bc_Enabled (bld_Cache bld), bcc_Mode = bc_Mode (bld_Cache bld), bcc_Ref = bc_Ref (bld_Cache bld)\<rparr>,
      bq_Env = rgs_Env setup\<rparr>)"

definition build_failed ::
  "'w runner_deps \<Rightarrow> Redactor \<Rightarrow> Redactor \<Rightarrow> BuildRun \<Rightarrow> go_error \<Rightarrow> ('w, 'a result) run_io" where
  "build_failed d redactor registryRedactor b err = (let reason = FailureReason err in do {
     b \<leftarrow> runner_setCondition d ''ImageBuilt'' ConditionFalse reason ''Image build did not complete.'' b;
     b \<leftarrow> (if reason = ReasonDigestCaptureFailed
       then runner_setCondition d ''ImageDigestCaptured'' ConditionFalse reason ''BuildKit did not return a valid image digest.'' b
       else State_Monad.return b);
     runner_fail d b reason (Mask redactor (masked registryRedactor err))
   })"

definition image_built :: "'w runner_deps \<Rightarrow> BuildRun \<Rightarrow> bool \<Rightarrow> BuildResult \<Rightarrow> ('w, BuildRun result) run_io" where
  "image_built d b pushed res = do {
     let b = b\<lparr>br_Status := (br_Status b)\<lparr>bst_Image := Some (image_of res)\<rparr>\<rparr>;
     b \<leftarrow> runner_setCondition d ''ImageBuilt'' ConditionTrue ''ImageBuilt'' ''Image build completed.'' b;
     b \<leftarrow> (if pushed then runner_setCondition d ''ImagePushed'' ConditionTrue ''ImagePushed'' ''Image push completed.'' b
       else runner_setCondition d ''ImagePushed'' ConditionFalse ''PushDisabled'' ''Image push was disabled for this pipeline.'' b);
     b \<leftarrow> (if bres_Digest res \<noteq> ''''
       then runner_setCondition d ''ImageDigestCaptured'' ConditionTrue ''ImageDigestCaptured'' ''Image digest was captured from BuildKit metadata.'' b
       else runner_setCondition d ''ImageDigestCaptured'' ConditionFalse ''ImageDigestUnavailable'' ''BuildKit did not return an image digest.'' b);
     runner_updateStatus d ProgressUpdate b
   }"

definition hooks_stage ::
  "'w runner_deps \<Rightarrow> Redactor \<Rightarrow> BuildRun \<Rightarrow> Repository \<Rightarrow> PipelineTemplate \<Rightarrow> string \<Rightarrow> BuildResult \<Rightarrow> ('w, BuildRun result) run_io" where
  "hooks_stage d redactor b repository template sourceDir res = do {
     (b, err) \<leftarrow> runSupplyChainHooks d b repository template sourceDir res;
     case err of
       Some err \<Rightarrow> runner_fail d b (hook_reason err) (masked redactor err)
     | None \<Rightarrow> runner_updateStatus d ProgressUpdate b
   }"

definition build_image ::
  "'w runner_deps \<Rightarrow> Redactor \<Rightarrow> BuildRun \<Rightarrow> PipelineTemplate \<Rightarrow> string \<Rightarrow> registry_setup
     \<Rightarrow> ('w, (BuildRun \<times> BuildResult) result) run_io" where
  "build_image d redactor b template contextDir setup = (let req = build_request contextDir template setup in do {
     r \<leftarrow> call (ImageBuilt req) (rn_Build d req);
     case r of
       Inl err \<Rightarrow> build_failed d redactor (rgs_Redactor setup) b err
     | Inr res \<Rightarrow> check (image_built d b (bld_Push (pts_Build (pt_Spec template))) res) (\<lambda>b. ok (b, res))
   })"

definition prepare_build ::
  "'w runner_deps \<Rightarrow> Config \<Rightarrow> Redactor \<Rightarrow> BuildRun \<Rightarrow> PipelineTemplate \<Rightarrow> string
     \<Rightarrow> ('w, (BuildRun \<times> string \<times> registry_setup) result) run_io" where
  "prepare_build d cfg redactor b template sourceDir = do {
     b \<leftarrow> runner_setCondition d ''ImageBuildStarted'' ConditionTrue ''ImageBuildStarted'' ''Image build started.'' b;
     check (runner_updateStatus d ProgressUpdate b) (\<lambda>b.
     or_fail_condition d b ''ImageBuilt'' ''Image build context is invalid.'' FailureReason (masked redactor)
       (relabel ContextResolved (ResolveContextDir (rn_BuildContext d) sourceDir (bld_ContextDir (pts_Build (pt_Spec template)))))
       (\<lambda>contextDir. check (resolve_registry d cfg redactor b template) (\<lambda>setup. ok (b, contextDir, setup))))
   }"


section \<open>The run\<close>

definition complete_run ::
  "'w runner_deps \<Rightarrow> Config \<Rightarrow> Redactor \<Rightarrow> BuildRun \<Rightarrow> PipelineTemplate \<Rightarrow> string \<Rightarrow> ImageRef \<Rightarrow> ('w, unit result) run_io" where
  "complete_run d cfg redactor b template sourceDir img =
     check (save_cache d cfg redactor b template sourceDir) (\<lambda>b.
     check (if rn_LogStore d
         then or_fail d b (\<lambda>_. ''LogStoreWriteFailed'') (masked redactor) (run_log d redactor b ''Build runner completed successfully.'') ok
         else ok ()) (\<lambda>_. do {
       completed \<leftarrow> query (rn_Now d);
       case MarkBuildRunSucceeded b completed img of
         Inl err \<Rightarrow> fail (errorf_w ''mark BuildRun succeeded'' err)
       | Inr b \<Rightarrow> check (runner_updateStatus d SuccessUpdate b) (\<lambda>_. ok ())
     }))"

definition build_and_complete ::
  "'w runner_deps \<Rightarrow> Config \<Rightarrow> Redactor \<Rightarrow> BuildRun \<Rightarrow> Repository \<Rightarrow> PipelineTemplate \<Rightarrow> string \<Rightarrow> string \<Rightarrow> registry_setup
     \<Rightarrow> ('w, unit result) run_io" where
  "build_and_complete d cfg redactor b repository template sourceDir contextDir setup = do {
     r \<leftarrow> check (build_image d redactor b template contextDir setup) (\<lambda>(b, res).
          check (hooks_stage d redactor b repository template sourceDir res) (\<lambda>b.
            complete_run d cfg redactor b template sourceDir (image_of res)));
     case rgs_DockerDir setup of
       None \<Rightarrow> State_Monad.return r
     | Some dir \<Rightarrow> do {
         call (DockerConfigRemoved dir) (rn_RemoveAll d dir);
         State_Monad.return r
       }
   }"

definition run_pipeline ::
  "'w runner_deps \<Rightarrow> Config \<Rightarrow> Redactor \<Rightarrow> BuildRun \<Rightarrow> Repository \<Rightarrow> PipelineTemplate \<Rightarrow> ('w, unit result) run_io" where
  "run_pipeline d cfg redactor b repository template =
     (let sourceDir = FilepathJoin [rn_Workspace d, ''source''] in
      check (prepare_logs d cfg redactor b) (\<lambda>b.
      check (start_run d b) (\<lambda>b.
      check (clone_source d cfg redactor b repository sourceDir) (\<lambda>_.
      check (restore_cache d cfg redactor b template sourceDir) (\<lambda>(b, template). do {
        b \<leftarrow> runner_setCondition d ''RepositoryCloned'' ConditionTrue ''RepositoryCloned'' ''Repository cloned and checked out.'' b;
        check (runner_updateStatus d ProgressUpdate b) (\<lambda>b.
        check (run_steps_stage d cfg redactor b template sourceDir) (\<lambda>b.
        check (collect_stage d cfg redactor b template sourceDir) (\<lambda>b.
        check (runner_updateStatus d ProgressUpdate b) (\<lambda>b.
          if \<not> bld_Enabled (pts_Build (pt_Spec template))
          then complete_run d cfg redactor b template sourceDir (brs_Image (br_Spec b))
          else check (prepare_build d cfg redactor b template sourceDir) (\<lambda>(b, contextDir, setup).
            build_and_complete d cfg redactor b repository template sourceDir contextDir setup)))))
      })))))"

definition Run :: "'w runner_deps \<Rightarrow> Config \<Rightarrow> ('w, unit result) run_io" where
  "Run d cfg =
     (let ns = cfg_BuildRunNamespace cfg in
      check (wrap (''load BuildRun '' @ ns @ ''/'' @ cfg_BuildRunName cfg)
        (query (rn_GetBuildRun d \<lparr>key_Namespace = ns, key_Name = cfg_BuildRunName cfg\<rparr>))) (\<lambda>b.
      or_fail d b (\<lambda>_. ''RepositoryLoadFailed'')
        (\<lambda>err. ''load Repository '' @ quote (brs_RepositoryRef (br_Spec b)) @ '': '' @ err_text err)
        (query (rn_GetRepository d \<lparr>key_Namespace = ns, key_Name = brs_RepositoryRef (br_Spec b)\<rparr>)) (\<lambda>repository.
      or_fail d b (\<lambda>_. ''PipelineTemplateLoadFailed'')
        (\<lambda>err. ''load PipelineTemplate '' @ quote (brs_PipelineTemplateRef (br_Spec b)) @ '': '' @ err_text err)
        (query (rn_GetTemplate d \<lparr>key_Namespace = ns, key_Name = brs_PipelineTemplateRef (br_Spec b)\<rparr>)) (\<lambda>template.
        let d = configureSupplyChainAdapters (pts_SupplyChain (pt_Spec template)) d;
            redactor = FromEnv (rn_MapOrder d (secretValues (rn_ParseURL d) b repository template)) in
        run_pipeline d cfg redactor b repository template))))"

end
