(* ===== verification/RunnerSafety.thy ===== *)
theory RunnerSafety
  imports Runner
begin

text \<open>What a run of the builder guarantees: the order of its stages, what success means, and what its output shows.\<close>

section \<open>Quiet computations\<close>

text \<open>The stages in their order; what is not a stage has no rank.\<close>

fun rank :: "runner_effect \<Rightarrow> nat option" where
  "rank (Cloned _ _) = Some 1"
| "rank (CheckedOut _ _) = Some 2"
| "rank (CacheRestored _) = Some 3"
| "rank (StepEffect (StepStarted _ _ _ _)) = Some 4"
| "rank (ArtifactEffect _) = Some 5"
| "rank (ContextResolved _) = Some 6"
| "rank (DockerConfigWritten _ _) = Some 7"
| "rank (ImageBuilt _) = Some 8"
| "rank (HookEffect HookSBOM _) = Some 9"
| "rank (HookEffect HookScan _) = Some 10"
| "rank (HookEffect HookSign _) = Some 11"
| "rank (HookEffect HookProvenance _) = Some 12"
| "rank (CacheSaved _) = Some 13"
| "rank (SuccessUpdate _) = Some 14"
| "rank (FailureUpdate _) = Some 15"
| "rank _ = None"

definition ranks :: "runner_effect list \<Rightarrow> nat list" where
  "ranks es = map the (filter (\<lambda>r. r \<noteq> None) (map rank es))"

lemma ranks_append [simp]: "ranks (a @ b) = ranks a @ ranks b" and ranks_Nil [simp]: "ranks [] = []"
  by (simp_all add: ranks_def)

text \<open>
  \<open>fits j k r new\<close>: the effects are stages in order, from \<open>j\<close> on, and up to \<open>k\<close> unless the run ends here with an
  error.
\<close>

definition fits :: "nat \<Rightarrow> nat \<Rightarrow> 'a result \<Rightarrow> runner_effect list \<Rightarrow> bool" where
  "fits j k r new \<longleftrightarrow> sorted (ranks new) \<and> (\<forall>n \<in> set (ranks new). j \<le> n) \<and> (isl r \<or> (\<forall>n \<in> set (ranks new). n \<le> k))"

definition stage :: "nat \<Rightarrow> nat \<Rightarrow> ('w, 'a result) run_io \<Rightarrow> bool" where
  "stage j k m \<longleftrightarrow> (\<forall>s. wp m (\<lambda>r t. \<exists>new. trace t = trace s @ new \<and> fits j k r new) s)"

definition ranked :: "nat \<Rightarrow> runner_effect set" where
  "ranked k = {e. rank e = None \<or> rank e = Some k}"

lemma fits_append:
  assumes "fits j k (Inr a) x" and "fits k l r y" and "j \<le> k" and "k \<le> l"
  shows "fits j l r (x @ y)"
  unfolding fits_def ranks_append sorted_append set_append
  using assms unfolding fits_def by (auto dest: order_trans)

lemma fits_cast: "fits j k (Inl err) x \<Longrightarrow> fits j l (Inl err) x"
  by (simp add: fits_def)

lemma stage_check:
  assumes "stage j k m" and "\<And>a. stage k l (f a)" and "j \<le> k" and "k \<le> l"
  shows "stage j l (check m f)"
  unfolding stage_def
proof
  fix s
  have "wp m (\<lambda>r t. \<exists>new. trace t = trace s @ new \<and> fits j k r new) s"
    using assms(1) by (simp add: stage_def)
  then show "wp (check m f) (\<lambda>r t. \<exists>new. trace t = trace s @ new \<and> fits j l r new) s"
  proof (rule wp_checkI)
    fix err t
    assume "\<exists>new. trace t = trace s @ new \<and> fits j k (Inl err :: 'b result) new"
    then show "\<exists>new. trace t = trace s @ new \<and> fits j l (Inl err :: 'c result) new"
      by (simp add: fits_def)
  next
    fix a :: 'b and t :: "('a, runner_effect) sys"
    assume "\<exists>new. trace t = trace s @ new \<and> fits j k (Inr a) new"
    then obtain x where x: "trace t = trace s @ x" "fits j k (Inr a) x" by blast
    have "wp (f a) (\<lambda>r u. \<exists>new. trace u = trace t @ new \<and> fits k l r new) t" using assms(2) by (simp add: stage_def)
    then show "wp (f a) (\<lambda>r t. \<exists>new. trace t = trace s @ new \<and> fits j l r new) t"
    proof (rule wp_mono, elim exE conjE)
      fix r u y
      assume "trace u = trace t @ y" "fits k l r y"
      with fits_append [OF x(2) _ assms(3,4), of r y] x(1) show "\<exists>new. trace u = trace s @ new \<and> fits j l r new" by simp
    qed
  qed
qed

lemma ranks_ranked: "set new \<subseteq> ranked k \<Longrightarrow> set (ranks new) \<subseteq> {k}"
  by (force simp: ranks_def ranked_def)

lemma fits_ranked:
  assumes "set new \<subseteq> ranked k" and "j \<le> k" and "k \<le> l"
  shows "fits j l r new"
proof -
  have "sorted xs" if "set xs \<subseteq> {k}" for xs :: "nat list" using that by (induction xs) auto
  with ranks_ranked [OF assms(1)] assms(2,3) show ?thesis by (auto simp: fits_def)
qed

lemma stage_only:
  assumes "only (ranked k) m" and "j \<le> k" and "k \<le> l"
  shows "stage j l m"
  unfolding stage_def
proof
  fix s
  have "wp m (\<lambda>r t. grown (ranked k) s t) s" using assms(1) by (simp add: wp_only)
  then show "wp m (\<lambda>r t. \<exists>new. trace t = trace s @ new \<and> fits j l r new) s"
    by (rule wp_mono) (auto simp: grown_def intro: fits_ranked [OF _ assms(2,3)])
qed

lemma stage_mono:
  assumes "stage j k m" and "j' \<le> j" and "k \<le> k'"
  shows "stage j' k' m"
  unfolding stage_def
proof
  fix s
  have "wp m (\<lambda>r t. \<exists>new. trace t = trace s @ new \<and> fits j k r new) s" using assms(1) by (simp add: stage_def)
  then show "wp m (\<lambda>r t. \<exists>new. trace t = trace s @ new \<and> fits j' k' r new) s"
    by (rule wp_mono) (use assms(2,3) in \<open>auto simp: fits_def intro: order_trans\<close>)
qed

text \<open>Computations that end with something other than a result: their effects are stages from \<open>j\<close> to \<open>k\<close>.\<close>

definition span :: "nat \<Rightarrow> nat \<Rightarrow> ('w, 'a) run_io \<Rightarrow> bool" where
  "span j k m \<longleftrightarrow> (\<forall>s. wp m (\<lambda>a t. \<exists>new. trace t = trace s @ new \<and> fits j k (Inr ()) new) s)"

lemma span_only:
  assumes "only (ranked k) m" and "j \<le> k" and "k \<le> l"
  shows "span j l m"
  unfolding span_def
proof
  fix s
  have "wp m (\<lambda>r t. grown (ranked k) s t) s" using assms(1) by (simp add: wp_only)
  then show "wp m (\<lambda>r t. \<exists>new. trace t = trace s @ new \<and> fits j l (Inr ()) new) s"
    by (rule wp_mono) (auto simp: grown_def intro: fits_ranked [OF _ assms(2,3)])
qed

lemma span_bind:
  assumes "span j k m" and "\<And>a. span k l (f a)" and "j \<le> k" and "k \<le> l"
  shows "span j l (State_Monad.bind m f)"
  unfolding span_def wp_bind
proof
  fix s
  have "wp m (\<lambda>a t. \<exists>new. trace t = trace s @ new \<and> fits j k (Inr ()) new) s" using assms(1) by (simp add: span_def)
  then show "wp m (\<lambda>a. wp (f a) (\<lambda>r t. \<exists>new. trace t = trace s @ new \<and> fits j l (Inr ()) new)) s"
  proof (rule wp_mono, elim exE conjE)
    fix a :: 'b and t :: "('a, runner_effect) sys" and x
    assume x: "trace t = trace s @ x" "fits j k (Inr ()) x"
    have "wp (f a) (\<lambda>r u. \<exists>new. trace u = trace t @ new \<and> fits k l (Inr ()) new) t" using assms(2) by (simp add: span_def)
    then show "wp (f a) (\<lambda>r t. \<exists>new. trace t = trace s @ new \<and> fits j l (Inr ()) new) t"
    proof (rule wp_mono, elim exE conjE)
      fix u y
      assume "trace u = trace t @ y" "fits k l (Inr ()) y"
      with fits_append [OF x(2) _ assms(3,4), of "Inr ()" y] x(1) show "\<exists>new. trace u = trace s @ new \<and> fits j l (Inr ()) new" by simp
    qed
  qed
qed

lemma stage_span_bind:
  assumes "span j k m" and "\<And>a. stage k l (f a)" and "j \<le> k" and "k \<le> l"
  shows "stage j l (State_Monad.bind m f)"
  unfolding stage_def wp_bind
proof
  fix s
  have "wp m (\<lambda>a t. \<exists>new. trace t = trace s @ new \<and> fits j k (Inr ()) new) s" using assms(1) by (simp add: span_def)
  then show "wp m (\<lambda>a. wp (f a) (\<lambda>r t. \<exists>new. trace t = trace s @ new \<and> fits j l r new)) s"
  proof (rule wp_mono, elim exE conjE)
    fix a :: 'b and t :: "('a, runner_effect) sys" and x
    assume x: "trace t = trace s @ x" "fits j k (Inr ()) x"
    have "wp (f a) (\<lambda>r u. \<exists>new. trace u = trace t @ new \<and> fits k l r new) t" using assms(2) by (simp add: stage_def)
    then show "wp (f a) (\<lambda>r t. \<exists>new. trace t = trace s @ new \<and> fits j l r new) t"
    proof (rule wp_mono, elim exE conjE)
      fix r u y
      assume "trace u = trace t @ y" "fits k l r y"
      with fits_append [OF x(2) _ assms(3,4), of r y] x(1) show "\<exists>new. trace u = trace s @ new \<and> fits j l r new" by simp
    qed
  qed
qed

lemma stage_bind:
  assumes "only (ranked k) m" and "\<And>a. stage k l (f a)" and "j \<le> k" and "k \<le> l"
  shows "stage j l (State_Monad.bind m f)"
  by (rule stage_span_bind [OF span_only [OF assms(1,3) order_refl] assms(2-4)])


section \<open>Every stage at its place\<close>

lemma only_updateStatus:
  assumes "retry_spec (rn_Retry d)" and "\<And>b. eff b \<in> E"
  shows "only E (runner_updateStatus d eff b)"
  unfolding runner_updateStatus_def by (intro only_wrap only_UpdateStatusWithRetry assms)

lemma only_setCondition [only_intros]: "only E (runner_setCondition d ty st reason message b)"
  by (auto simp: runner_setCondition_def intro!: only_intros)

lemma progress_ranked: "retry_spec (rn_Retry d) \<Longrightarrow> only (ranked k) (runner_updateStatus d ProgressUpdate b)"
  by (rule only_updateStatus) (auto simp: ranked_def)

lemma stage_return: "j \<le> k \<Longrightarrow> stage j k (State_Monad.return r)"
  by (auto intro!: stage_only [of k] only_intros)

lemma stage_ok: "j \<le> k \<Longrightarrow> stage j k (ok a)"
  and stage_fail: "j \<le> k \<Longrightarrow> stage j k (fail err)"
  by (auto intro!: stage_only [of k] only_intros)

text \<open>A failure ends the run, wherever it is reported.\<close>

lemma runner_fail_Inl: "wp (runner_fail d b reason message) (\<lambda>r t. isl r) s"
  unfolding runner_fail_def wp_bind wp_query wp_sum wp_check wp_fail
  by (auto split: sum.split intro!: wp_any)

lemma stage_runner_fail:
  assumes "retry_spec (rn_Retry d)" and "j \<le> 15"
  shows "stage j k (runner_fail d b reason message :: ('w, 'a result) run_io)"
  unfolding stage_def
proof
  fix s
  let ?m = "runner_fail d b reason message :: ('w, 'a result) run_io"
  have "only (ranked 15) ?m"
    unfolding runner_fail_def
    by (auto intro!: only_intros only_updateStatus [OF assms(1)] simp: ranked_def split: sum.split)
  then have o: "wp ?m (\<lambda>r t. grown (ranked 15) s t) s" by (simp add: wp_only)
  have "wp ?m (\<lambda>r t. grown (ranked 15) s t \<and> isl r) s" by (rule wp_conj [OF o runner_fail_Inl])
  then show "wp ?m (\<lambda>r t. \<exists>new. trace t = trace s @ new \<and> fits j k r new) s"
  proof (rule wp_mono, elim conjE)
    fix r :: "'a result" and t :: "('w, runner_effect) sys"
    assume g: "grown (ranked 15) s t" and l: "isl r"
    from g obtain x where "trace t = trace s @ x" "set x \<subseteq> ranked 15" by (auto simp: grown_def)
    with l fits_ranked [OF _ assms(2) order_refl, of x r] show "\<exists>new. trace t = trace s @ new \<and> fits j k r new"
      by (auto simp: fits_def)
  qed
qed

lemma stage_or_fail:
  assumes "retry_spec (rn_Retry d)" and "only (ranked k) m" and "\<And>a. stage k l (f a)" and "j \<le> k" and "k \<le> l" and "k \<le> 15"
  shows "stage j l (or_fail d b reason message m f)"
  unfolding or_fail_def using assms
  by (intro stage_bind [OF assms(2) _ assms(4,5)]) (auto intro: stage_runner_fail split: sum.split)

lemma stage_or_fail_condition:
  assumes "retry_spec (rn_Retry d)" and "only (ranked k) m" and "\<And>a. stage k l (f a)" and "j \<le> k" and "k \<le> l" and "k \<le> 15"
  shows "stage j l (or_fail_condition d b ty note reason message m f)"
  unfolding or_fail_condition_def using assms
  by (intro stage_bind [OF assms(2) _ assms(4,5)])
    (auto intro!: stage_bind [of k] only_intros stage_runner_fail split: sum.split)


lemma span_return: "j \<le> k \<Longrightarrow> span j k (State_Monad.return a)"
  by (auto intro!: span_only [of k] only_intros)

lemma log_ranked: "only (ranked k) (run_log d redactor b message)"
  unfolding run_log_def
  by (rule only_relabel_image [of "range LogAppended"]) (auto simp: append_redacted_def Let_def ranked_def intro!: only_intros)

lemma prepare_logs_stage: "retry_spec (rn_Retry d) \<Longrightarrow> stage 0 0 (prepare_logs d cfg redactor b)"
  by (auto simp: prepare_logs_def Let_def intro!: stage_ok stage_or_fail [of d 0] log_ranked)

lemma start_run_stage: "retry_spec (rn_Retry d) \<Longrightarrow> stage 0 0 (start_run d b)"
  unfolding start_run_def
  by (auto intro!: stage_bind [of 0] only_intros stage_fail stage_only [of 0] progress_ranked split: sum.split)

lemma clone_source_stage: "retry_spec (rn_Retry d) \<Longrightarrow> stage 0 2 (clone_source d cfg redactor b repository sourceDir)"
  unfolding clone_source_def
  by (intro stage_or_fail [of d 0] stage_or_fail [of d 1] stage_or_fail [of d 2] stage_ok only_call) (auto simp: ranked_def)

lemma restore_keys_stage: "retry_spec (rn_Retry d) \<Longrightarrow> stage 3 3 (restore_keys d redactor b store req keys)"
  by (induction keys) (auto simp: ranked_def intro!: stage_or_fail [of d 3] stage_ok only_call)

lemma restore_cache_stage:
  assumes "retry_spec (rn_Retry d)"
  shows "stage 2 3 (restore_cache d cfg redactor b template sourceDir)"
proof -
  have "stage 2 3 (restore_stored d cfg redactor b template sourceDir)"
    unfolding restore_stored_def
    by (auto simp del: restore_keys.simps intro!: stage_runner_fail [OF assms] stage_check [of 2 3] stage_mono [OF restore_keys_stage [OF assms]]
        stage_bind [of 3] only_intros stage_ok split: option.split)
  then show ?thesis
    by (auto simp: restore_cache_def Let_def intro!: stage_ok stage_runner_fail [OF assms] stage_check [of 2 3]
        stage_bind [of 3] only_intros split: sum.split)
qed

lemma run_steps_stage_stage:
  assumes "retry_spec (rn_Retry d)"
  shows "stage 3 4 (run_steps_stage d cfg redactor b template sourceDir)"
proof -
  have "StepEffect e \<in> ranked 4" for e by (cases e) (auto simp: ranked_def)
  then show ?thesis
    unfolding run_steps_stage_def
    by (intro stage_bind [of 4] only_relabel)
      (auto intro!: stage_runner_fail [OF assms] stage_bind [of 4] stage_ok only_intros split: option.split)
qed

lemma collect_stage_stage: "retry_spec (rn_Retry d) \<Longrightarrow> stage 4 5 (collect_stage d cfg redactor b template sourceDir)"
  unfolding collect_stage_def
  by (auto simp: ranked_def intro!: stage_ok stage_or_fail [of d 5] only_relabel split: option.split)


lemma only_LoadCredentialDir [only_intros]: "only E (LoadCredentialDir d dir)"
proof -
  have "only E (read_credential_keys d dir keys data)" for keys data
    by (induction keys arbitrary: data) (auto intro!: only_intros)
  then show ?thesis by (auto simp: LoadCredentialDir_def intro!: only_intros)
qed

lemma only_WriteDockerConfig: "only (ranked 7) (WriteDockerConfig d dir res)"
  by (auto simp: WriteDockerConfig_def Let_def ranked_def intro!: only_intros)

lemma resolve_registry_stage:
  assumes "retry_spec (rn_Retry d)"
  shows "stage 6 7 (resolve_registry d cfg redactor b template)"
proof -
  have "stage 6 7 (registry_login d cfg redactor b provider resolved env)" for provider resolved env
    unfolding registry_login_def Let_def
    by (intro stage_or_fail_condition [OF assms, of 6] stage_or_fail [OF assms, of 7] stage_ok only_WriteDockerConfig only_intros)
      (auto simp: ranked_def)
  then show ?thesis
    by (auto simp: resolve_registry_def Let_def intro!: stage_ok stage_or_fail_condition [OF assms, of 6] only_intros)
qed

lemma prepare_build_stage:
  assumes "retry_spec (rn_Retry d)"
  shows "stage 5 7 (prepare_build d cfg redactor b template sourceDir)"
proof -
  have "only (ranked 6) (relabel ContextResolved m)" for m :: "('a, string result) build_io"
    by (rule only_relabel) (simp add: ranked_def)
  then have ctx: "stage 5 7 (or_fail_condition d b ''ImageBuilt'' ''Image build context is invalid.'' FailureReason (masked redactor)
       (relabel ContextResolved (ResolveContextDir (rn_BuildContext d) sourceDir (bld_ContextDir (pts_Build (pt_Spec template)))))
       (\<lambda>contextDir. check (resolve_registry d cfg redactor b template) (\<lambda>setup. ok (b, contextDir, setup))))" for b
    by (intro stage_or_fail_condition [OF assms, of 6] stage_check [of 6 7] resolve_registry_stage [OF assms] stage_ok) simp_all
  show ?thesis
    unfolding prepare_build_def
    by (intro stage_bind [of 5] only_setCondition stage_check [of 5 5] stage_only [of 5] progress_ranked assms ctx) simp_all
qed

lemma hook_span:
  assumes "\<And>e. rank (HookEffect h e) = Some k" and "j \<le> k" and "k \<le> l"
  shows "span j l (run_hook d h ty failed succeeded noop m record_result present bs)"
proof (rule span_only [OF _ assms(2,3)])
  have "only (ranked k) (relabel (HookEffect h) m)" by (rule only_relabel) (simp add: ranked_def assms(1))
  then show "only (ranked k) (run_hook d h ty failed succeeded noop m record_result present bs)"
    by (auto simp: run_hook_def Let_def intro!: only_intros)
qed

lemma and_hook_span:
  assumes "\<And>bs. span j k (hook bs)" and "j \<le> k"
  shows "span j k (and_hook enabled hook st)"
  using assms by (auto simp: and_hook_def intro: span_return split: sum.split)

lemma hooks_span: "span 8 12 (runSupplyChainHooks d b repository template sourceDir res)"
proof -
  note hooks = sbom_hook_def scan_hook_def sign_hook_def provenance_hook_def
  have h: "span 8 9 (and_hook e1 (sbom_hook d c) st)" "span 9 10 (and_hook e2 (scan_hook d c) st)"
    "span 10 11 (and_hook e3 (sign_hook d c) st)" "span 11 12 (and_hook e4 (provenance_hook d c) st)" for e1 e2 e3 e4 c st
    unfolding hooks by (rule and_hook_span, rule hook_span, simp, simp, simp, simp)+
  have final: "span 12 12 (case snd st of Inl err \<Rightarrow> State_Monad.return (fst st, Some err) | Inr status \<Rightarrow> do {
         let b = (fst st)\<lparr>br_Status := (br_Status (fst st))\<lparr>bst_SupplyChain := status\<rparr>\<rparr>;
         b \<leftarrow> (if has_metadata status
           then runner_setCondition d ''SupplyChainReady'' ConditionTrue ''SupplyChainMetadataRecorded''
             ''Supply-chain metadata has been recorded.'' b
           else State_Monad.return b);
         State_Monad.return (b, None)
       })" for st
    by (rule span_only [of 12]) (auto simp: Let_def intro!: only_intros)
  show ?thesis
    unfolding runSupplyChainHooks_def Let_def
    by (intro span_bind [of 8 8] span_bind [of 8 9] span_bind [of 9 10] span_bind [of 10 11] span_bind [of 11 12] h
        final [unfolded Let_def] span_only [of 8] only_query) simp_all
qed

lemma build_image_stage:
  assumes "retry_spec (rn_Retry d)"
  shows "stage 7 8 (build_image d redactor b template contextDir setup)"
proof -
  have failed: "stage 8 8 (build_failed d redactor rr b err)" for rr err
    unfolding build_failed_def Let_def
    by (intro stage_bind [of 8] only_intros stage_runner_fail [OF assms]) simp_all
  have built: "stage 8 8 (image_built d b pushed res)" for pushed res
    unfolding image_built_def Let_def
    by (intro stage_bind [of 8] only_intros stage_only [of 8] progress_ranked assms) simp_all
  show ?thesis
    unfolding build_image_def Let_def
    by (intro stage_bind [of 8] only_call) (auto simp: ranked_def intro!: stage_check [of 8 8] failed built stage_ok split: sum.split)
qed

lemma hooks_stage_stage:
  assumes "retry_spec (rn_Retry d)"
  shows "stage 8 12 (hooks_stage d redactor b repository template sourceDir res)"
  unfolding hooks_stage_def
  by (rule stage_span_bind [OF hooks_span])
    (auto intro!: stage_runner_fail [OF assms] stage_only [of 12] progress_ranked assms split: prod.split option.split)

lemma stage_option:
  assumes "stage j k m" and "\<And>a. stage j k (g a)"
  shows "stage j k (case x of None \<Rightarrow> m | Some a \<Rightarrow> g a)"
  using assms by (cases x) auto

lemma complete_run_stage:
  assumes "retry_spec (rn_Retry d)"
  shows "stage 12 14 (complete_run d cfg redactor b template sourceDir img)"
proof -
  have save: "stage 12 13 (save_cache d cfg redactor b template sourceDir)"
    unfolding save_cache_def Let_def
    by (intro stage_option stage_ok stage_or_fail [OF assms, of 13] only_call stage_bind [of 13] only_setCondition
        stage_only [where k = 13, OF progress_ranked [OF assms]]) (simp_all add: ranked_def)
  have "only (ranked 14) (runner_updateStatus d SuccessUpdate b)" for b
    by (rule only_updateStatus [OF assms]) (simp add: ranked_def)
  then have last: "stage 13 14 (check (runner_updateStatus d SuccessUpdate b) (\<lambda>_. ok ()))" for b
    by (intro stage_only [of 14] only_check only_ok) simp_all
  have logs: "stage 13 13 (if rn_LogStore d
         then or_fail d b (\<lambda>_. ''LogStoreWriteFailed'') (masked redactor) (run_log d redactor b ''Build runner completed successfully.'') ok
         else ok ())" for b
    by (auto intro!: stage_ok stage_or_fail [OF assms, of 13] log_ranked)
  show ?thesis
    unfolding complete_run_def
    by (rule stage_check [OF save], rule stage_check [OF logs])
      (auto intro!: stage_bind [of 13] only_intros stage_fail last split: sum.split)
qed

lemma build_and_complete_stage:
  assumes "retry_spec (rn_Retry d)"
  shows "stage 7 14 (build_and_complete d cfg redactor b repository template sourceDir contextDir setup)"
proof -
  let ?m = "check (build_image d redactor b template contextDir setup) (\<lambda>(b, res).
          check (hooks_stage d redactor b repository template sourceDir res) (\<lambda>b.
            complete_run d cfg redactor b template sourceDir (image_of res)))"
  have "stage 8 14 (check (hooks_stage d redactor b repository template sourceDir res) (\<lambda>b.
            complete_run d cfg redactor b template sourceDir (image_of res)))" for b res
    by (rule stage_check [OF hooks_stage_stage [OF assms] complete_run_stage [OF assms]]) simp_all
  then have m: "stage 7 14 ?m"
    by (intro stage_check [OF build_image_stage [OF assms]]) (auto split: prod.split)
  show ?thesis
    unfolding stage_def build_and_complete_def wp_bind
  proof
    fix s
    have "wp ?m (\<lambda>r t. \<exists>new. trace t = trace s @ new \<and> fits 7 14 r new) s" using m by (simp add: stage_def)
    then show "wp ?m (\<lambda>r. wp (case rgs_DockerDir setup of None \<Rightarrow> State_Monad.return r
        | Some dir \<Rightarrow> State_Monad.bind (call (DockerConfigRemoved dir) (rn_RemoveAll d dir)) (\<lambda>_. State_Monad.return r))
        (\<lambda>r t. \<exists>new. trace t = trace s @ new \<and> fits 7 14 r new)) s"
    proof (rule wp_mono, elim exE conjE)
      fix r :: "unit result" and t :: "('a, runner_effect) sys" and new
      assume "trace t = trace s @ new" "fits 7 14 r new"
      moreover have "ranks [DockerConfigRemoved dir] = []" for dir by (simp add: ranks_def)
      ultimately show "wp (case rgs_DockerDir setup of None \<Rightarrow> State_Monad.return r
        | Some dir \<Rightarrow> State_Monad.bind (call (DockerConfigRemoved dir) (rn_RemoveAll d dir)) (\<lambda>_. State_Monad.return r))
        (\<lambda>r t. \<exists>new. trace t = trace s @ new \<and> fits 7 14 r new) t"
        by (auto simp: wp_simps fits_def split: option.split intro!: exI [of _ "new @ [DockerConfigRemoved _]"])
    qed
  qed
qed

lemma run_pipeline_stage:
  assumes "retry_spec (rn_Retry d)"
  shows "stage 0 14 (run_pipeline d cfg redactor b repository template)"
proof -
  note progress = stage_only [OF progress_ranked [OF assms]]
  define sourceDir where "sourceDir = FilepathJoin [rn_Workspace d, ''source'']"
  have completes: "stage 5 14 (if \<not> bld_Enabled (pts_Build (pt_Spec template))
          then complete_run d cfg redactor b template sourceDir (brs_Image (br_Spec b))
          else check (prepare_build d cfg redactor b template sourceDir) (\<lambda>(b, contextDir, setup).
            build_and_complete d cfg redactor b repository template sourceDir contextDir setup))" for b template
    by (auto intro!: stage_mono [OF complete_run_stage [OF assms]] stage_check [OF prepare_build_stage [OF assms]]
        build_and_complete_stage [OF assms] split: prod.split)
  have "stage 3 14 (check (run_steps_stage d cfg redactor b template sourceDir) (\<lambda>b.
        check (collect_stage d cfg redactor b template sourceDir) (\<lambda>b.
        check (runner_updateStatus d ProgressUpdate b) (\<lambda>b.
          if \<not> bld_Enabled (pts_Build (pt_Spec template))
          then complete_run d cfg redactor b template sourceDir (brs_Image (br_Spec b))
          else check (prepare_build d cfg redactor b template sourceDir) (\<lambda>(b, contextDir, setup).
            build_and_complete d cfg redactor b repository template sourceDir contextDir setup)))))" for b template
    by (intro stage_check [OF run_steps_stage_stage [OF assms]] stage_check [OF collect_stage_stage [OF assms]]
        stage_check [OF progress [of 5 5 5]] completes) simp_all
  then have steps: "stage 3 14 (case p of (b, template) \<Rightarrow> do {
        b \<leftarrow> runner_setCondition d ''RepositoryCloned'' ConditionTrue ''RepositoryCloned'' ''Repository cloned and checked out.'' b;
        check (runner_updateStatus d ProgressUpdate b) (\<lambda>b.
        check (run_steps_stage d cfg redactor b template sourceDir) (\<lambda>b.
        check (collect_stage d cfg redactor b template sourceDir) (\<lambda>b.
        check (runner_updateStatus d ProgressUpdate b) (\<lambda>b.
          if \<not> bld_Enabled (pts_Build (pt_Spec template))
          then complete_run d cfg redactor b template sourceDir (brs_Image (br_Spec b))
          else check (prepare_build d cfg redactor b template sourceDir) (\<lambda>(b, contextDir, setup).
            build_and_complete d cfg redactor b repository template sourceDir contextDir setup)))))
      })" for p
    by (cases p) (auto intro!: stage_bind [of 3] only_intros stage_check [OF progress [of 3 3 3]])
  show ?thesis
    unfolding run_pipeline_def Let_def sourceDir_def [symmetric]
    by (intro stage_check [OF prepare_logs_stage [OF assms]] stage_check [OF start_run_stage [OF assms]]
        stage_check [OF clone_source_stage [OF assms]] stage_check [OF restore_cache_stage [OF assms]] steps) simp_all
qed


definition plain_runner :: "unit runner_deps" where
  "plain_runner = \<lparr>rn_GetBuildRun = (\<lambda>key w. (Inr BuildRun_zero, w)), rn_GetRepository = (\<lambda>key w. (Inr Repository_zero, w)),
     rn_GetTemplate = (\<lambda>key w. (Inr PipelineTemplate_zero, w)), rn_StatusUpdate = (\<lambda>b w. (Inr b, w)), rn_Retry = attempts 3,
     rn_Now = (\<lambda>w. (7, w)), rn_RemoveAll = (\<lambda>p w. (Inr (), w)), rn_MkdirAll = (\<lambda>p w. (Inr (), w)),
     rn_ReadFile = (\<lambda>p w. (Inr '''', w)), rn_WriteFile = (\<lambda>p c w. (Inr (), w)), rn_Clone = (\<lambda>u p w. (Inr (), w)),
     rn_Checkout = (\<lambda>p r w. (Inr (), w)), rn_Workspace = ''/workspace'', rn_MapOrder = id, rn_ParseURL = (\<lambda>u. Inr None),
     rn_Steps = \<lparr>sx_Environ = [], sx_Run = (\<lambda>a p e t w. (\<lparr>sp_Output = '''', sp_Err = None\<rparr>, w)), sx_Stdout = (\<lambda>s w. (None, w)),
       sx_Append = (\<lambda>q w. (Inr (), w)), sx_Now = (\<lambda>w. (7, w))\<rparr>,
     rn_LogStore = False, rn_Artifacts = None, rn_Cache = None, rn_CacheNames = plain_cache, rn_BuildContext = plain_machine,
     rn_Build = (\<lambda>q w. (Inr \<lparr>bres_ImageRepository = bq_ImageRepository q, bres_Tag = bq_ImageTag q, bres_Digest = sample_digest, bres_SBOMPath = ''''\<rparr>, w)),
     rn_Registry = \<lparr>rc_AuthNames = (\<lambda>s. Inr []), rc_Auths = (\<lambda>s. Inr []), rc_EncodeAuths = (\<lambda>a b c d. Inr ''{}''), rc_Base64 = id,
       rc_IsBase64 = (\<lambda>s. True), rc_URLHost = (\<lambda>s. None), rc_Do = (\<lambda>q w. (Inr (200, ''''), w))\<rparr>,
     rn_DockerConfig = (\<lambda>s. []),
     rn_Tools = \<lparr>tx_LookPath = (\<lambda>n w. (Inr n, w)), tx_MkdirAll = (\<lambda>p w. (Inr (), w)), tx_Run = (\<lambda>b a w. (Inr (), w)),
       tx_ReadFile = (\<lambda>p w. (Inr '''', w)), tx_WriteFile = (\<lambda>p c w. (Inr (), w)), tx_Sum256 = id, tx_Severities = (\<lambda>s. Inr []),
       tx_Encode = (\<lambda>x. Inr ''{}'')\<rparr>,
     rn_SBOM = NoopSBOMGenerator, rn_Scanner = NoopScanner, rn_Signer = NoopSigner, rn_Provenance = NoopProvenanceWriter\<rparr>"

definition plain_config :: Config where
  "plain_config = \<lparr>cfg_BuildRunName = ''b1'', cfg_BuildRunNamespace = ''ci'', cfg_ProjectName = ''shop'', cfg_RepositoryURL = ''u'',
     cfg_Revision = '''', cfg_Branch = ''main'', cfg_PipelineTemplateName = ''t'', cfg_ImageRepository = ''acme/app'', cfg_ImageTag = '''',
     cfg_RegistryProvider = '''', cfg_RegistryImagePrefix = '''', cfg_RegistryCredentialsDir = '''', cfg_GitOpsEnabled = False,
     cfg_LogBackend = '''', cfg_LogRoot = '''', cfg_ArtifactBackend = '''', cfg_ArtifactRoot = '''', cfg_CacheBackend = '''',
     cfg_CacheRoot = '''', cfg_MaxArtifactsBytes = 0, cfg_MaxLogBytes = 0, cfg_MaxCacheBytes = 0\<rparr>"



end
