(* ===== verification/RunnerSuccess.thy ===== *)
theory RunnerSuccess
  imports RunnerSafety
begin

text \<open>
  What a successful run of the builder has done: which repository and revision it built, that its steps succeeded, and
  which image it reported.
\<close>

section \<open>Computations that succeed\<close>

text \<open>If \<open>m\<close> succeeds, its result and the effects so far satisfy \<open>Q\<close>.\<close>

definition success :: "('w, 'e, 'a result) io \<Rightarrow> ('a \<Rightarrow> 'e set \<Rightarrow> bool) \<Rightarrow> bool" where
  "success m Q \<longleftrightarrow> only UNIV m \<and> (\<forall>s. wp m (\<lambda>r t. \<forall>a. r = Inr a \<longrightarrow> Q a (set (trace t))) s)"

lemma success_only: "success m Q \<Longrightarrow> only UNIV m"
  by (simp add: success_def)

lemma success_any: "only UNIV m \<Longrightarrow> (\<And>a S. Q a S) \<Longrightarrow> success m Q"
  by (auto simp: success_def intro: wp_any)

lemma success_mono: "success m Q \<Longrightarrow> (\<And>a S. Q a S \<Longrightarrow> R a S) \<Longrightarrow> success m R"
  unfolding success_def by (elim conjE, intro conjI allI) (assumption, erule allE, erule wp_mono, blast)

lemma success_ok: "(\<And>S. Q a S) \<Longrightarrow> success (ok a) Q"
  by (simp add: success_def only_ok wp_simps ok_def only_return)

lemma success_fail: "success (fail err) Q"
  by (simp add: success_def fail_def wp_simps only_return)

lemma success_return: "(\<And>a S. r = Inr a \<Longrightarrow> Q a S) \<Longrightarrow> success (State_Monad.return r) Q"
  by (simp add: success_def wp_simps only_return)

lemma success_call: "success (call e g) (\<lambda>a S. e \<in> S \<and> (\<exists>w. fst (g w) = Inr a))"
  by (auto simp: success_def wp_simps intro: only_call)

lemma success_query: "success (query g) (\<lambda>a S. \<exists>w. fst (g w) = Inr a)"
  by (auto simp: success_def wp_simps intro: only_query)

lemma success_wrap: "success m Q \<Longrightarrow> success (wrap txt m) Q"
  unfolding success_def wp_wrap
  by (elim conjE, intro conjI allI only_wrap) (assumption, erule allE, erule wp_mono, auto split: sum.splits)

lemma grown_set: "grown UNIV s t \<Longrightarrow> set (trace s) \<subseteq> set (trace t)"
  by (auto simp: grown_def)

text \<open>What holds of the effects made before is handed on.\<close>

lemma success_bind:
  fixes m :: "('w, 'e, 'a) io" and f :: "'a \<Rightarrow> ('w, 'e, 'b result) io"
  assumes "only UNIV m" and "\<And>s. wp m (\<lambda>r t. Q r (set (trace t))) s"
    and "\<And>r S. Q r S \<Longrightarrow> success (f r) (\<lambda>c T. S \<subseteq> T \<longrightarrow> R c T)"
  shows "success (State_Monad.bind m f) R"
  unfolding success_def wp_bind
proof (intro conjI allI)
  have "wp m (\<lambda>r t. \<exists>S. Q r S) s" for s by (rule wp_mono [OF assms(2)]) blast
  then show "only UNIV (State_Monad.bind m f)"
    by (rule only_bind_wp [OF assms(1)]) (use assms(3) in \<open>auto dest: success_only\<close>)
  fix s
  show "wp m (\<lambda>r. wp (f r) (\<lambda>r t. \<forall>c. r = Inr c \<longrightarrow> R c (set (trace t)))) s"
  proof (rule wp_mono [OF assms(2)])
    fix r :: 'a and t :: "('w, 'e) sys"
    assume "Q r (set (trace t))"
    then have "success (f r) (\<lambda>c T. set (trace t) \<subseteq> T \<longrightarrow> R c T)" by (rule assms(3))
    then have f: "wp (f r) (\<lambda>q u. \<forall>c. q = Inr c \<longrightarrow> set (trace t) \<subseteq> set (trace u) \<longrightarrow> R c (set (trace u))) t"
      and g: "wp (f r) (\<lambda>q u. grown UNIV t u) t"
      by (simp_all add: success_def wp_only)
    show "wp (f r) (\<lambda>r t. \<forall>c. r = Inr c \<longrightarrow> R c (set (trace t))) t"
      by (rule wp_mono [OF wp_conj [OF f g]]) (auto dest: grown_set)
  qed
qed

lemma success_after: "success m Q \<Longrightarrow> success m (\<lambda>c T. S \<subseteq> T \<longrightarrow> Q c T)"
  by (erule success_mono) simp

lemma success_bind_query:
  assumes "\<And>r. success (f r) R"
  shows "success (State_Monad.bind (query g) f) R"
  by (rule success_bind [where Q = "\<lambda>r S. True"]) (use assms in \<open>auto intro: only_query wp_any success_after\<close>)

lemma success_sum:
  assumes "success m Q" and "\<And>a S. Q a S \<Longrightarrow> success (f a) (\<lambda>c T. S \<subseteq> T \<longrightarrow> R c T)" and "\<And>err. success (g err) R"
  shows "success (State_Monad.bind m (\<lambda>r. case r of Inl err \<Rightarrow> g err | Inr a \<Rightarrow> f a)) R"
proof (rule success_bind [where Q = "\<lambda>r S. \<forall>a. r = Inr a \<longrightarrow> Q a S"])
  show "only UNIV m" by (rule success_only [OF assms(1)])
  show "wp m (\<lambda>r t. \<forall>a. r = Inr a \<longrightarrow> Q a (set (trace t))) s" for s using assms(1) by (simp add: success_def)
  show "success (case r of Inl err \<Rightarrow> g err | Inr a \<Rightarrow> f a) (\<lambda>c T. S \<subseteq> T \<longrightarrow> R c T)" if "\<forall>a. r = Inr a \<longrightarrow> Q a S" for r S
    using that assms(2) success_after [OF assms(3)] by (auto split: sum.split)
qed

lemma success_check:
  assumes "success m Q" and "\<And>a S. Q a S \<Longrightarrow> success (f a) (\<lambda>c T. S \<subseteq> T \<longrightarrow> R c T)"
  shows "success (check m f) R"
  unfolding check_def by (rule success_sum [OF assms]) (auto intro: success_return)

lemma span_only_UNIV: "span j k m \<Longrightarrow> only UNIV m"
  unfolding span_def wp_only by (elim all_forward) (erule wp_mono, auto simp: grown_def)

lemma stage_only_UNIV: "stage j k m \<Longrightarrow> only UNIV m"
  unfolding stage_def wp_only by (elim all_forward) (erule wp_mono, auto simp: grown_def)

lemma success_runner_fail: "retry_spec (rn_Retry d) \<Longrightarrow> success (runner_fail d b reason message) Q"
  unfolding success_def
  by (intro conjI allI stage_only_UNIV [OF stage_runner_fail [of d 0]] wp_mono [OF runner_fail_Inl]) auto

lemma success_or_fail:
  assumes "retry_spec (rn_Retry d)" and "success m Q" and "\<And>a S. Q a S \<Longrightarrow> success (f a) (\<lambda>c T. S \<subseteq> T \<longrightarrow> R c T)"
  shows "success (or_fail d b reason message m f) R"
  unfolding or_fail_def by (rule success_sum [OF assms(2,3) success_runner_fail [OF assms(1)]])


section \<open>The stages\<close>

definition same_run :: "BuildRun \<Rightarrow> BuildRun \<Rightarrow> bool" where
  "same_run b b' \<longleftrightarrow> br_Meta b' = br_Meta b \<and> br_Spec b' = br_Spec b"

lemma same_run_refl [simp]: "same_run b b"
  and same_run_trans: "same_run a b \<Longrightarrow> same_run b c \<Longrightarrow> same_run a c"
  by (auto simp: same_run_def)

lemma same_run_status [simp]: "same_run a (b\<lparr>br_Status := st\<rparr>) = same_run a b"
  by (simp add: same_run_def)

lemma success_update_attempt:
  "success (update_attempt get update buildrun_ops eff b)
     (\<lambda>b' S. same_run b b' \<and> (\<exists>sent. eff sent \<in> S
        \<and> (br_Status sent)\<lparr>bst_Conditions := []\<rparr> = (br_Status b)\<lparr>bst_Conditions := []\<rparr>))"
proof -
  have o: "only UNIV (update_attempt get update buildrun_ops eff b)" by (rule only_update_attempt) simp
  have "wp (update_attempt get update buildrun_ops eff b) (\<lambda>r t. \<forall>b'. r = Inr b' \<longrightarrow> same_run b b' \<and>
      (\<exists>sent. eff sent \<in> set (trace t) \<and> (br_Status sent)\<lparr>bst_Conditions := []\<rparr> = (br_Status b)\<lparr>bst_Conditions := []\<rparr>)) s" for s
    unfolding update_attempt_def
    by (auto simp: Let_def wp_simps same_run_def copyStatus_def buildrun_ops_def split: sum.split)
  with o show ?thesis by (simp add: success_def)
qed

lemma success_update:
  assumes "retry_spec (rn_Retry d)"
  shows "success (runner_updateStatus d eff b)
     (\<lambda>b' S. same_run b b' \<and> (\<exists>sent. eff sent \<in> S
        \<and> (br_Status sent)\<lparr>bst_Conditions := []\<rparr> = (br_Status b)\<lparr>bst_Conditions := []\<rparr>))"
  unfolding runner_updateStatus_def UpdateStatusWithRetry_def
proof (rule success_wrap)
  let ?m = "update_attempt (rn_GetBuildRun d) (rn_StatusUpdate d) buildrun_ops eff b"
  let ?Q = "\<lambda>b' S. same_run b b' \<and> (\<exists>sent. eff sent \<in> S
        \<and> (br_Status sent)\<lparr>bst_Conditions := []\<rparr> = (br_Status b)\<lparr>bst_Conditions := []\<rparr>)"
  have m: "wp ?m (\<lambda>r t. True \<and> (\<forall>a. r = Inr a \<longrightarrow> ?Q a (set (trace t)))) s" for s
    using success_update_attempt [of "rn_GetBuildRun d" "rn_StatusUpdate d" eff b] by (simp add: success_def)
  have "only UNIV (rn_Retry d ?m)" by (intro only_retry [OF assms] only_update_attempt) simp
  moreover have "wp (rn_Retry d ?m) (\<lambda>r t. True \<and> (\<forall>a. r = Inr a \<longrightarrow> ?Q a (set (trace t)))) s" for s
    by (rule wp_retry [OF assms m TrueI])
  ultimately show "success (rn_Retry d ?m) ?Q" by (simp add: success_def)
qed

lemma success_updated:
  assumes "retry_spec (rn_Retry d)" and "same_run a b"
  shows "success (runner_updateStatus d eff b) (\<lambda>b' S. same_run a b')"
  by (rule success_mono [OF success_update [OF assms(1)]]) (use assms(2) in \<open>auto intro: same_run_trans\<close>)

text \<open>Setting a condition changes nothing else.\<close>

definition noted :: "BuildRun \<Rightarrow> BuildRun \<Rightarrow> bool" where
  "noted b b' \<longleftrightarrow> (\<exists>cs. b' = b\<lparr>br_Status := (br_Status b)\<lparr>bst_Conditions := cs\<rparr>\<rparr>)"

lemma noted_same: "noted b b' \<Longrightarrow> same_run a b \<Longrightarrow> same_run a b'"
  by (auto simp: noted_def)

lemma wp_setCondition: "wp (runner_setCondition d ty st reason message b) (\<lambda>b' t. noted b b') s"
  by (auto simp: runner_setCondition_def wp_simps noted_def)

lemma success_noted:
  assumes "\<And>b'. noted b b' \<Longrightarrow> success (f b') R"
  shows "success (State_Monad.bind (runner_setCondition d ty st reason message b) f) R"
  by (rule success_bind [OF only_setCondition wp_setCondition]) (rule success_after, rule assms)

lemma success_run_log: "success (run_log d redactor b message) (\<lambda>a S. True)"
  by (rule success_any [OF only_mono [OF log_ranked]]) simp_all

lemma success_prepare_logs:
  assumes "retry_spec (rn_Retry d)"
  shows "success (prepare_logs d cfg redactor b) (\<lambda>b' S. same_run b b')"
proof -
  show ?thesis
    unfolding prepare_logs_def Let_def
    by (auto intro!: success_ok success_or_fail [OF assms success_run_log])
qed

lemma success_start_run:
  assumes "retry_spec (rn_Retry d)"
  shows "success (start_run d b) (\<lambda>b' S. same_run b b')"
  unfolding start_run_def
proof (rule success_bind_query)
  show "success (case MarkBuildRunStarted b now of Inl err \<Rightarrow> fail (errorf_w ''mark BuildRun started'' err)
     | Inr b \<Rightarrow> runner_updateStatus d ProgressUpdate b) (\<lambda>b' S. same_run b b')" for now
  proof (cases "MarkBuildRunStarted b now")
    case (Inr b')
    then have "same_run b b'" by (auto simp: MarkBuildRunStarted_def Let_def same_run_def split: option.splits)
    with Inr show ?thesis by (simp add: success_updated [OF assms])
  qed (simp add: success_fail)
qed

lemma success_clone_source:
  assumes "retry_spec (rn_Retry d)"
  shows "success (clone_source d cfg redactor b repository sourceDir) (\<lambda>_ S.
    Cloned (rs_URL (repo_Spec repository)) sourceDir \<in> S \<and> CheckedOut sourceDir (checkoutRef b cfg) \<in> S)"
  unfolding clone_source_def
  by (rule success_or_fail [OF assms success_call])+ (auto intro!: success_ok)

lemma success_restore_keys:
  assumes "retry_spec (rn_Retry d)"
  shows "success (restore_keys d redactor b store req keys) (\<lambda>hit S. True)"
  by (induction keys) (auto intro!: success_ok success_or_fail [OF assms success_call] intro: success_after)

definition cached_as :: "PipelineTemplate \<Rightarrow> PipelineTemplate \<Rightarrow> bool" where
  "cached_as template t \<longleftrightarrow> t = template \<or> (\<exists>ref. t = registry_cached ref template)"

lemma bind_if: "State_Monad.bind (if c then m else n) f = (if c then State_Monad.bind m f else State_Monad.bind n f)"
  by simp

lemma success_if: "(c \<Longrightarrow> success m Q) \<Longrightarrow> (\<not> c \<Longrightarrow> success n Q) \<Longrightarrow> success (if c then m else n) Q"
  by simp

lemma success_restore_stored:
  assumes "retry_spec (rn_Retry d)"
  shows "success (restore_stored d cfg redactor b template sourceDir) (\<lambda>b' S. same_run b b')"
proof (cases "rn_Cache d")
  case (Some store)
  then show ?thesis
    unfolding restore_stored_def bind_if
    by (auto simp del: restore_keys.simps intro!: success_check [OF success_restore_keys [OF assms]] success_if success_noted success_ok
        dest: noted_same [OF _ same_run_refl])
qed (simp add: restore_stored_def success_runner_fail [OF assms])

lemma success_restore_cache:
  assumes "retry_spec (rn_Retry d)"
  shows "success (restore_cache d cfg redactor b template sourceDir) (\<lambda>r S. same_run b (fst r) \<and> cached_as template (snd r))"
  unfolding restore_cache_def Let_def
  by (auto simp: cached_as_def intro!: success_ok success_runner_fail [OF assms] success_check [OF success_restore_stored [OF assms]]
      success_noted dest: noted_same [OF _ same_run_refl] split: sum.split)

section \<open>Steps that ran\<close>

text \<open>The process of a step was started in its directory with its environment, and ended without an error.\<close>

definition ran :: "'w step_deps \<Rightarrow> string \<Rightarrow> step_effect set \<Rightarrow> PipelineStep \<Rightarrow> bool" where
  "ran d sourceDir S step \<longleftrightarrow> (\<exists>timeout w.
     StepStarted (step_Command step @ step_Args step) (workingDir sourceDir (step_WorkingDir step)) (step_environment d step) timeout \<in> S
     \<and> sp_Err (fst (sx_Run d (step_Command step @ step_Args step) (workingDir sourceDir (step_WorkingDir step))
          (step_environment d step) timeout w)) = None)"

lemma ran_mono: "ran d dir S step \<Longrightarrow> S \<subseteq> T \<Longrightarrow> ran d dir T step"
  by (auto simp: ran_def)

definition traced :: "'w steps_Runner \<Rightarrow> bool" where
  "traced r \<longleftrightarrow> (\<forall>data ls. only UNIV (str_Output r data ls))
     \<and> (\<forall>observe name data ls. str_Observe r = Some observe \<longrightarrow> only UNIV (observe name data ls))"

lemma only_step_finished: "traced r \<Longrightarrow> only UNIV (step_finished r step redacted err ls)"
  by (auto simp: step_finished_def observe_step_def traced_def intro!: only_intros split: option.split)

lemma step_finished_error: "wp (step_finished r step redacted (Some err) ls) (\<lambda>a t. fst a \<noteq> None) s"
  unfolding step_finished_def case_prod_beta wp_bind
  by (rule wp_any, rule wp_any) (simp add: wp_return split: option.split)

lemma wp_runStep:
  assumes "traced r"
  shows "wp (runStep d r dir step redactor ls) (\<lambda>a t. fst a = None \<longrightarrow> ran d dir (set (trace t)) step) s"
proof -
  have "wp (step_finished r step m err ls) (\<lambda>a u. fst a = None \<longrightarrow> e \<in> set (trace u) \<and> err = None) t"
    if "e \<in> set (trace t)" for m err t e
  proof (cases err)
    case None
    have "wp (step_finished r step m err ls) (\<lambda>a u. grown UNIV t u) t"
      using only_step_finished [OF assms] by (simp add: wp_only)
    then show ?thesis by (rule wp_mono) (use None that in \<open>auto dest: grown_set\<close>)
  next
    case (Some e)
    with step_finished_error [of r step m e ls] show ?thesis by (auto elim: wp_mono)
  qed
  then have fin: "wp (step_finished r step m err ls) (\<lambda>a u. fst a = None \<longrightarrow> P (set (trace u))) t"
    if "e \<in> set (trace t)" and "\<And>S. e \<in> S \<Longrightarrow> err = None \<Longrightarrow> P S" for m err t e P
    by (rule wp_mono [OF _ impI]) (use that in auto)
  show ?thesis
    unfolding runStep_def Let_def
    by (auto simp: wp_simps ran_def intro!: fin [of "StepStarted _ _ _ _"])
qed


lemma only_runStep_UNIV: "traced r \<Longrightarrow> only UNIV (runStep d r dir step redactor ls)"
  unfolding runStep_def Let_def by (auto intro!: only_intros only_step_finished)

lemma wp_Run_steps:
  fixes r :: "'w steps_Runner"
  assumes "traced r"
  shows "wp (Run_steps d r dir steps redactor ls) (\<lambda>a t. grown UNIV s t \<and>
    (fst a = None \<longrightarrow> (\<forall>step \<in> set steps. step_ContinueOnError step \<or> ran d dir (set (trace t)) step))) s"
proof (induction steps arbitrary: ls s)
  case Nil
  then show ?case by (simp add: wp_return grown_refl)
next
  case (Cons step steps)
  have o: "wp (runStep d r dir step redactor ls) (\<lambda>a t. grown UNIV s t) s" 
    using only_runStep_UNIV [OF assms] by (simp add: wp_only)
  show ?case
    unfolding Run_steps.simps wp_bind
  proof (rule wp_mono [OF wp_conj [OF o wp_runStep [OF assms]]], elim conjE)
    fix a :: "go_error option \<times> log_state" and t :: "('w, step_effect) sys"
    assume g: "grown UNIV s t" and a: "fst a = None \<longrightarrow> ran d dir (set (trace t)) step"
    have rest: "wp (Run_steps d r dir steps redactor (snd a)) (\<lambda>b u. grown UNIV s u \<and>
      (fst b = None \<longrightarrow> (\<forall>step \<in> set (step # steps). step_ContinueOnError step \<or> ran d dir (set (trace u)) step))) t"
      if "fst a = None \<or> step_ContinueOnError step"
    proof (rule wp_mono [OF Cons.IH [of "snd a" t]], elim conjE, intro conjI impI)
      fix b u
      assume gu: "grown UNIV t u"
      show "grown UNIV s u" using grown_trans [OF g gu] by simp
      assume b: "fst b = None \<longrightarrow> (\<forall>step \<in> set steps. step_ContinueOnError step \<or> ran d dir (set (trace u)) step)" "fst b = None"
      then show "\<forall>step \<in> set (step # steps). step_ContinueOnError step \<or> ran d dir (set (trace u)) step"
        using a that ran_mono [OF _ grown_set [OF gu], of d dir step] by auto
    qed
    then show "wp (case a of (err, ls) \<Rightarrow> (case err of None \<Rightarrow> Run_steps d r dir steps redactor ls
        | Some err \<Rightarrow> if step_ContinueOnError step then Run_steps d r dir steps redactor ls
             else State_Monad.return (Some err, ls))) (\<lambda>a t. grown UNIV s t \<and>
      (fst a = None \<longrightarrow> (\<forall>step \<in> set (step # steps). step_ContinueOnError step \<or> ran d dir (set (trace t)) step))) t"
      using g by (auto simp: case_prod_beta wp_return split: option.split)
  qed
qed


lemma only_stdout: "only UNIV (stdout_Write d data ls)" and only_bounded: "only UNIV (boundedWriter_Write (stdout_Write d) data ls)"
  by (auto simp: stdout_Write_def boundedWriter_Write_def Let_def intro!: only_intros split: option.split)

lemma only_observed: "only UNIV (observe_output d redactor ns name maxBytes step data ls)"
  by (auto simp: observe_output_def append_redacted_def Let_def intro!: only_intros)

lemma traced_run_runner: "traced (run_runner d cfg redactor b)"
  by (auto simp: traced_def run_runner_def only_stdout only_bounded only_observed)

text \<open>Every step of the pipeline ran, but those that may fail.\<close>

definition steps_ran :: "'w runner_deps \<Rightarrow> string \<Rightarrow> PipelineTemplate \<Rightarrow> runner_effect set \<Rightarrow> bool" where
  "steps_ran d dir template S \<longleftrightarrow> (\<forall>step \<in> set (pts_Steps (pt_Spec template)).
     step_ContinueOnError step \<or> ran (rn_Steps d) dir {e. StepEffect e \<in> S} step)"

lemma steps_ran_mono: "steps_ran d dir template S \<Longrightarrow> S \<subseteq> T \<Longrightarrow> steps_ran d dir template T"
  unfolding steps_ran_def by (blast intro: ran_mono [of _ _ "{e. StepEffect e \<in> S}"])

lemma success_run_steps_stage:
  fixes d :: "'w runner_deps"
  assumes "retry_spec (rn_Retry d)"
  shows "success (run_steps_stage d cfg redactor b template dir) (\<lambda>b' S. same_run b b' \<and> steps_ran d dir template S)"
  unfolding run_steps_stage_def
proof (rule success_bind [where Q = "\<lambda>a S. fst a = None \<longrightarrow> steps_ran d dir template S"])
  let ?m = "Run_steps (rn_Steps d) (run_runner d cfg redactor b) dir (pts_Steps (pt_Spec template)) redactor
       \<lparr>Remaining = cfg_MaxLogBytes cfg, storedBytes = 0\<rparr>"
  show "only UNIV (relabel StepEffect ?m)" by (rule only_relabel) simp
  show "wp (relabel StepEffect ?m) (\<lambda>a t. fst a = None \<longrightarrow> steps_ran d dir template (set (trace t))) s" for s
    unfolding wp_relabel
  proof (rule wp_mono [OF wp_Run_steps [OF traced_run_runner]], elim conjE, intro impI)
    fix a :: "go_error option \<times> log_state" and t :: "('w, step_effect) sys"
    assume "fst a = None \<longrightarrow> (\<forall>step \<in> set (pts_Steps (pt_Spec template)). step_ContinueOnError step
        \<or> ran (rn_Steps d) dir (set (trace t)) step)" and "fst a = None"
    then show "steps_ran d dir template (set (trace (s\<lparr>ext := ext t, trace := trace s @ map StepEffect (trace t)\<rparr>)))"
      unfolding steps_ran_def by (intro ballI) (drule (1) mp, drule (1) bspec, erule disj_forward, assumption, erule ran_mono, auto)
  qed
next
  fix a :: "go_error option \<times> log_state" and S
  assume "fst a = None \<longrightarrow> steps_ran d dir template S"
  then show "success (case a of (err, x) \<Rightarrow> (case err of
       Some err \<Rightarrow> runner_fail d b ''StepFailed'' (masked redactor err)
     | None \<Rightarrow> do {
         b \<leftarrow> runner_setCondition d ''StepsCompleted'' ConditionTrue ''StepsCompleted'' ''Pipeline steps completed.'' b;
         ok b
       })) (\<lambda>c T. S \<subseteq> T \<longrightarrow> same_run b c \<and> steps_ran d dir template T)"
    using noted_same [OF _ same_run_refl] steps_ran_mono [of d dir template S]
    by (cases a; cases "fst a") (auto intro!: success_runner_fail [OF assms] success_noted success_ok)
qed

lemma success_collect_stage:
  assumes "retry_spec (rn_Retry d)"
  shows "success (collect_stage d cfg redactor b template dir) (\<lambda>b' S. same_run b b')"
proof -
  have "success (relabel ArtifactEffect m) (\<lambda>a S. True)" for m :: "('a, 'c result) artifact_io"
    by (rule success_any, rule only_relabel) simp_all
  then show ?thesis
    by (auto simp: collect_stage_def intro!: success_ok success_or_fail [OF assms] split: option.split)
qed


section \<open>The image\<close>

lemma success_or_fail_condition:
  assumes "retry_spec (rn_Retry d)" and "success m Q" and "\<And>a S. Q a S \<Longrightarrow> success (f a) (\<lambda>c T. S \<subseteq> T \<longrightarrow> R c T)"
  shows "success (or_fail_condition d b ty note reason message m f) R"
  unfolding or_fail_condition_def
  by (rule success_sum [OF assms(2,3)]) (assumption, rule success_noted, rule success_runner_fail [OF assms(1)])

lemma success_prepare_build:
  assumes "retry_spec (rn_Retry d)"
  shows "success (prepare_build d cfg redactor b template dir) (\<lambda>r S. same_run b (fst r))"
proof -
  have ctx: "success (relabel ContextResolved m) (\<lambda>a S. True)" for m :: "('a, 'c result) build_io"
    by (rule success_any, rule only_relabel) simp_all
  have reg: "success (resolve_registry d cfg redactor b template) (\<lambda>a S. True)" for b
    by (rule success_any [OF stage_only_UNIV [OF resolve_registry_stage [OF assms]]]) simp
  show ?thesis
    unfolding prepare_build_def
    by (rule success_noted, rule success_check [OF success_updated [OF assms noted_same [OF _ same_run_refl]]], assumption,
        rule success_or_fail_condition [OF assms ctx], rule success_check [OF reg]) (auto intro: success_ok)
qed

lemma success_image_built:
  assumes "retry_spec (rn_Retry d)"
  shows "success (image_built d b pushed res) (\<lambda>b' S. same_run b b')"
proof -
  show ?thesis
    unfolding image_built_def Let_def bind_if
    by (intro success_noted success_if success_updated [OF assms]) (auto simp: noted_def)
qed

definition built :: "'w runner_deps \<Rightarrow> BuildRequest \<Rightarrow> BuildResult \<Rightarrow> runner_effect set \<Rightarrow> bool" where
  "built d req res S \<longleftrightarrow> ImageBuilt req \<in> S \<and> (\<exists>w. fst (rn_Build d req w) = Inr res)"

lemma success_build_image:
  assumes "retry_spec (rn_Retry d)"
  shows "success (build_image d redactor b template contextDir setup)
    (\<lambda>r S. same_run b (fst r) \<and> built d (build_request contextDir template setup) (snd r) S)"
proof -
  have failed: "success (build_failed d redactor rr b err) Q" for rr err and Q :: "'b \<Rightarrow> runner_effect set \<Rightarrow> bool"
    unfolding build_failed_def Let_def bind_if
    by (intro success_noted success_if) (simp_all add: success_runner_fail [OF assms])
  show ?thesis
    unfolding build_image_def Let_def
    by (rule success_sum [OF success_call _ failed], rule success_check [OF success_image_built [OF assms]])
      (auto simp: built_def intro!: success_ok)
qed

lemma wp_run_hook:
  "wp (run_hook d h ty failed succeeded noop m record_result present bs) (\<lambda>r t. same_run (fst bs) (fst r)) s"
  by (auto simp: run_hook_def Let_def case_prod_beta wp_simps wp_relabel runner_setCondition_def intro!: wp_any split: sum.split)


lemma wp_and_hook:
  assumes "\<And>bs s. wp (hook bs) (\<lambda>r t. same_run (fst bs) (fst r)) s"
  shows "wp (and_hook enabled hook st) (\<lambda>r t. same_run (fst st) (fst r)) s"
  using assms [of "(fst st, _)"] by (auto simp: and_hook_def wp_simps split: sum.split)

lemma wp_hooks: "wp (runSupplyChainHooks d b repository template dir res) (\<lambda>r t. same_run b (fst r)) s"
proof -
  note hooks = sbom_hook_def scan_hook_def sign_hook_def provenance_hook_def
  have h: "wp (and_hook e (sbom_hook d c) st) (\<lambda>r t. same_run (fst st) (fst r)) s"
    "wp (and_hook e (scan_hook d c) st) (\<lambda>r t. same_run (fst st) (fst r)) s"
    "wp (and_hook e (sign_hook d c) st) (\<lambda>r t. same_run (fst st) (fst r)) s"
    "wp (and_hook e (provenance_hook d c) st) (\<lambda>r t. same_run (fst st) (fst r)) s" for e c st s
    unfolding hooks by (rule wp_and_hook, rule wp_run_hook)+
  have chain: "wp m Q s" if "wp m (\<lambda>r t. same_run (fst st) (fst r)) s" "same_run b (fst st)"
    and "\<And>r t. same_run b (fst r) \<Longrightarrow> Q r t" for m :: "('a, BuildRun \<times> 'c) run_io" and st :: "BuildRun \<times> 'd" and Q s
    by (rule wp_mono [OF that(1)]) (use that(2,3) in \<open>auto intro: same_run_trans\<close>)
  show ?thesis
    unfolding runSupplyChainHooks_def Let_def wp_bind wp_query
    by (rule chain [OF h(1)], simp, rule chain [OF h(2)], assumption, rule chain [OF h(3)], assumption, rule chain [OF h(4)], assumption)
      (auto simp: wp_simps runner_setCondition_def split: sum.split)
qed

lemma success_hooks_stage:
  assumes "retry_spec (rn_Retry d)"
  shows "success (hooks_stage d redactor b repository template dir res) (\<lambda>b' S. same_run b b')"
  unfolding hooks_stage_def
proof (rule success_bind [where Q = "\<lambda>r S. same_run b (fst r)", OF _ wp_hooks])
  show "only UNIV (runSupplyChainHooks d b repository template dir res)" by (rule span_only_UNIV [OF hooks_span])
  show "success (case r of (b, err) \<Rightarrow> (case err of Some err \<Rightarrow> runner_fail d b (hook_reason err) (masked redactor err)
      | None \<Rightarrow> runner_updateStatus d ProgressUpdate b)) (\<lambda>c T. S \<subseteq> T \<longrightarrow> same_run b c)" if "same_run b (fst r)" for r S
    using that success_updated [OF assms that] success_runner_fail [OF assms]
    by (auto simp: case_prod_beta intro: success_after split: option.split)
qed

lemma success_save_cache:
  assumes "retry_spec (rn_Retry d)"
  shows "success (save_cache d cfg redactor b template dir) (\<lambda>b' S. same_run b b')"
  unfolding save_cache_def Let_def
  by (auto intro!: success_ok success_or_fail [OF assms success_call] success_noted success_after [OF success_updated [OF assms]]
      dest: noted_same [OF _ same_run_refl] split: option.split)

text \<open>The report of success.\<close>

definition reported :: "ImageRef \<Rightarrow> runner_effect set \<Rightarrow> bool" where
  "reported img S \<longleftrightarrow> (\<exists>sent. SuccessUpdate sent \<in> S \<and> bst_Phase (br_Status sent) = BuildRunPhaseSucceeded
     \<and> bst_Image (br_Status sent) = Some img)"

lemma success_complete_run:
  assumes "retry_spec (rn_Retry d)"
  shows "success (complete_run d cfg redactor b template dir img) (\<lambda>_ S. reported img S)"
proof -
  have log: "success (if rn_LogStore d
         then or_fail d b (\<lambda>_. ''LogStoreWriteFailed'') (masked redactor) (run_log d redactor b ''Build runner completed successfully.'') ok
         else ok ()) (\<lambda>_ S. True)" for b
    by (auto intro!: success_ok success_or_fail [OF assms success_run_log])
  have "reported img S" if sent: "SuccessUpdate sent \<in> S"
      "(br_Status sent)\<lparr>bst_Conditions := []\<rparr> = (br_Status b')\<lparr>bst_Conditions := []\<rparr>"
    and "MarkBuildRunSucceeded b completed img = Inr b'" for b b' completed sent S
  proof -
    have "bst_Phase (br_Status b') = BuildRunPhaseSucceeded \<and> bst_Image (br_Status b') = Some img"
      using that(3) by (auto simp: MarkBuildRunSucceeded_def Let_def split: option.splits)
    moreover have "bst_Phase (br_Status sent) = bst_Phase (br_Status b')" "bst_Image (br_Status sent) = bst_Image (br_Status b')"
      using arg_cong [OF sent(2), of bst_Phase] arg_cong [OF sent(2), of bst_Image] by simp_all
    ultimately show ?thesis using sent(1) by (auto simp: reported_def)
  qed
  then show ?thesis
    unfolding complete_run_def
    by (intro success_check [OF success_save_cache [OF assms]] success_check [OF log] success_bind_query)
      (auto intro!: success_fail success_check [OF success_update [OF assms]] success_ok split: sum.split)
qed


section \<open>The run\<close>

lemma reported_mono: "reported img S \<Longrightarrow> S \<subseteq> T \<Longrightarrow> reported img T"
  by (auto simp: reported_def)

lemma built_mono: "built d req res S \<Longrightarrow> S \<subseteq> T \<Longrightarrow> built d req res T"
  by (auto simp: built_def)

lemma success_build_and_complete:
  fixes d :: "'w runner_deps"
  assumes "retry_spec (rn_Retry d)"
  shows "success (build_and_complete d cfg redactor b repository template dir contextDir setup)
    (\<lambda>_ S. \<exists>res. built d (build_request contextDir template setup) res S \<and> reported (image_of res) S)"
    (is "success _ (\<lambda>_. ?Q)")
proof -
  let ?m = "check (build_image d redactor b template contextDir setup) (\<lambda>(b, res).
          check (hooks_stage d redactor b repository template dir res) (\<lambda>b.
            complete_run d cfg redactor b template dir (image_of res)))"
  have m: "success ?m (\<lambda>_. ?Q)"
  proof (rule success_check [OF success_build_image [OF assms]])
    fix a :: "BuildRun \<times> BuildResult" and S
    assume S: "same_run b (fst a) \<and> built d (build_request contextDir template setup) (snd a) S"
    show "success (case a of (b, res) \<Rightarrow> check (hooks_stage d redactor b repository template dir res) (\<lambda>b.
            complete_run d cfg redactor b template dir (image_of res))) (\<lambda>_ T. S \<subseteq> T \<longrightarrow> ?Q T)"
      unfolding case_prod_beta
    proof (rule success_check [OF success_hooks_stage [OF assms]])
      show "success (complete_run d cfg redactor b' template dir (image_of (snd a))) (\<lambda>c U. S' \<subseteq> U \<longrightarrow> S \<subseteq> U \<longrightarrow> ?Q U)" for b' S'
        by (rule success_mono [OF success_complete_run [OF assms]]) (use S built_mono in blast)
    qed
  qed
  show ?thesis
    unfolding build_and_complete_def
  proof (rule success_bind [where Q = "\<lambda>r S. \<forall>a. r = Inr a \<longrightarrow> ?Q S"])
    show "only UNIV ?m" by (rule success_only [OF m])
    show "wp ?m (\<lambda>r t. \<forall>a. r = Inr a \<longrightarrow> ?Q (set (trace t))) s" for s using m by (simp add: success_def)
    fix r :: "unit result" and S
    assume "\<forall>a. r = Inr a \<longrightarrow> ?Q S"
    then have last: "success (State_Monad.return r) (\<lambda>_ T. S \<subseteq> T \<longrightarrow> ?Q T)"
      by (intro success_return impI) (use built_mono reported_mono in blast)
    show "success (case rgs_DockerDir setup of None \<Rightarrow> State_Monad.return r
      | Some dir \<Rightarrow> State_Monad.bind (call (DockerConfigRemoved dir) (rn_RemoveAll d dir)) (\<lambda>_. State_Monad.return r))
        (\<lambda>_ T. S \<subseteq> T \<longrightarrow> ?Q T)"
    proof (cases "rgs_DockerDir setup")
      case (Some dir)
      then show ?thesis
        by simp (rule success_bind [where Q = "\<lambda>_ _. True"], auto intro: only_call wp_any success_after [OF last])
    qed (simp add: last)
  qed
qed

text \<open>
  What a run for \<open>b\<close> of \<open>repository\<close> with \<open>template\<close> has done: cloned the repository, checked out the revision of the
  run, run the steps, built the image where the template says so, and reported that image.
\<close>

definition accomplished ::
  "'w runner_deps \<Rightarrow> Config \<Rightarrow> BuildRun \<Rightarrow> Repository \<Rightarrow> PipelineTemplate \<Rightarrow> runner_effect set \<Rightarrow> bool" where
  "accomplished d cfg b repository template S \<longleftrightarrow>
     (let dir = FilepathJoin [rn_Workspace d, ''source''] in
      Cloned (rs_URL (repo_Spec repository)) dir \<in> S \<and> CheckedOut dir (checkoutRef b cfg) \<in> S \<and> steps_ran d dir template S
      \<and> (if bld_Enabled (pts_Build (pt_Spec template))
         then \<exists>req res. built d req res S \<and> bq_Push req = bld_Push (pts_Build (pt_Spec template))
           \<and> bq_Dockerfile req = bld_Dockerfile (pts_Build (pt_Spec template)) \<and> reported (image_of res) S
         else reported (brs_Image (br_Spec b)) S))"

lemma success_completion:
  assumes "retry_spec (rn_Retry d)" and "same_run a b" and "cached_as t0 template"
  shows "success (if \<not> bld_Enabled (pts_Build (pt_Spec template))
          then complete_run d cfg redactor b template dir (brs_Image (br_Spec b))
          else check (prepare_build d cfg redactor b template dir) (\<lambda>(b, contextDir, setup).
            build_and_complete d cfg redactor b repository template dir contextDir setup))
    (\<lambda>_ S. if bld_Enabled (pts_Build (pt_Spec t0))
         then \<exists>req res. built d req res S \<and> bq_Push req = bld_Push (pts_Build (pt_Spec t0))
           \<and> bq_Dockerfile req = bld_Dockerfile (pts_Build (pt_Spec t0)) \<and> reported (image_of res) S
         else reported (brs_Image (br_Spec a)) S)"
proof -
  have t: "bld_Enabled (pts_Build (pt_Spec template)) = bld_Enabled (pts_Build (pt_Spec t0))"
    "bld_Push (pts_Build (pt_Spec template)) = bld_Push (pts_Build (pt_Spec t0))"
    "bld_Dockerfile (pts_Build (pt_Spec template)) = bld_Dockerfile (pts_Build (pt_Spec t0))"
    using assms(3) by (auto simp: cached_as_def registry_cached_def)
  show ?thesis
  proof (rule success_if)
    assume "\<not> bld_Enabled (pts_Build (pt_Spec template))"
    with assms(2) t show "success (complete_run d cfg redactor b template dir (brs_Image (br_Spec b)))
      (\<lambda>_ S. if bld_Enabled (pts_Build (pt_Spec t0))
         then \<exists>req res. built d req res S \<and> bq_Push req = bld_Push (pts_Build (pt_Spec t0))
           \<and> bq_Dockerfile req = bld_Dockerfile (pts_Build (pt_Spec t0)) \<and> reported (image_of res) S
         else reported (brs_Image (br_Spec a)) S)"
      by (intro success_mono [OF success_complete_run [OF assms(1)]]) (simp add: same_run_def)
  next
    have req: "bq_Push (build_request contextDir template rs) = bld_Push (pts_Build (pt_Spec t0))
       \<and> bq_Dockerfile (build_request contextDir template rs) = bld_Dockerfile (pts_Build (pt_Spec t0))" for contextDir rs
      by (simp add: build_request_def Let_def t)
    assume "\<not> \<not> bld_Enabled (pts_Build (pt_Spec template))"
    with t req show "success (check (prepare_build d cfg redactor b template dir) (\<lambda>(b, contextDir, setup).
            build_and_complete d cfg redactor b repository template dir contextDir setup))
      (\<lambda>_ S. if bld_Enabled (pts_Build (pt_Spec t0))
         then \<exists>req res. built d req res S \<and> bq_Push req = bld_Push (pts_Build (pt_Spec t0))
           \<and> bq_Dockerfile req = bld_Dockerfile (pts_Build (pt_Spec t0)) \<and> reported (image_of res) S
         else reported (brs_Image (br_Spec a)) S)"
      unfolding case_prod_beta
      by (intro success_check [OF success_prepare_build [OF assms(1)]] success_mono [OF success_build_and_complete [OF assms(1)]]) auto
  qed
qed


lemma success_run_pipeline:
  assumes "retry_spec (rn_Retry d)"
  shows "success (run_pipeline d cfg redactor b repository template) (\<lambda>_ S. accomplished d cfg b repository template S)"
proof -
  define dir where "dir = FilepathJoin [rn_Workspace d, ''source'']"
  let ?done = "\<lambda>S. if bld_Enabled (pts_Build (pt_Spec template))
         then \<exists>req res. built d req res S \<and> bq_Push req = bld_Push (pts_Build (pt_Spec template))
           \<and> bq_Dockerfile req = bld_Dockerfile (pts_Build (pt_Spec template)) \<and> reported (image_of res) S
         else reported (brs_Image (br_Spec b)) S"
  have completes: "success (check (run_steps_stage d cfg redactor c t dir) (\<lambda>b.
        check (collect_stage d cfg redactor b t dir) (\<lambda>b.
        check (runner_updateStatus d ProgressUpdate b) (\<lambda>b.
          if \<not> bld_Enabled (pts_Build (pt_Spec t))
          then complete_run d cfg redactor b t dir (brs_Image (br_Spec b))
          else check (prepare_build d cfg redactor b t dir) (\<lambda>(b, contextDir, rs).
            build_and_complete d cfg redactor b repository t dir contextDir rs)))))
      (\<lambda>_ S. steps_ran d dir template S \<and> ?done S)" if c: "same_run b c" and t: "cached_as template t" for c t
  proof (rule success_check [OF success_run_steps_stage [OF assms]], elim conjE)
    fix b1 S
    assume 1: "same_run c b1" "steps_ran d dir t S"
    from 1(2) t have ran: "steps_ran d dir template S" by (auto simp: steps_ran_def cached_as_def registry_cached_def)
    show "success (check (collect_stage d cfg redactor b1 t dir) (\<lambda>b.
        check (runner_updateStatus d ProgressUpdate b) (\<lambda>b.
          if \<not> bld_Enabled (pts_Build (pt_Spec t))
          then complete_run d cfg redactor b t dir (brs_Image (br_Spec b))
          else check (prepare_build d cfg redactor b t dir) (\<lambda>(b, contextDir, rs).
            build_and_complete d cfg redactor b repository t dir contextDir rs))))
      (\<lambda>_ T. S \<subseteq> T \<longrightarrow> steps_ran d dir template T \<and> ?done T)"
    proof (rule success_check [OF success_collect_stage [OF assms]], rule success_check [OF success_updated [OF assms same_run_refl]])
      fix b2 b3 S2 S3
      assume "same_run b1 b2" "same_run b2 b3"
      then have "same_run b b3" using c 1(1) by (blast intro: same_run_trans)
      from success_completion [OF assms this t]
      show "success (if \<not> bld_Enabled (pts_Build (pt_Spec t))
          then complete_run d cfg redactor b3 t dir (brs_Image (br_Spec b3))
          else check (prepare_build d cfg redactor b3 t dir) (\<lambda>(b, contextDir, rs).
            build_and_complete d cfg redactor b repository t dir contextDir rs))
        (\<lambda>_ T. S3 \<subseteq> T \<longrightarrow> S2 \<subseteq> T \<longrightarrow> S \<subseteq> T \<longrightarrow> steps_ran d dir template T \<and> ?done T)"
        by (rule success_mono) (use steps_ran_mono [OF ran] in simp)
    qed
  qed
  show ?thesis
    unfolding run_pipeline_def Let_def dir_def [symmetric]
  proof (rule success_check [OF success_prepare_logs [OF assms]], rule success_check [OF success_start_run [OF assms]],
      rule success_check [OF success_clone_source [OF assms]], elim conjE, rule success_check [OF success_restore_cache [OF assms]])
    fix b1 b2 S1 S2 S3 r S4 and u :: unit
    assume same: "same_run b b1" "same_run b1 b2" "same_run b2 (fst r) \<and> cached_as template (snd r)"
      and cloned: "Cloned (rs_URL (repo_Spec repository)) dir \<in> S3" "CheckedOut dir (checkoutRef b2 cfg) \<in> S3"
    have ref: "checkoutRef b2 cfg = checkoutRef b cfg" using same by (simp add: same_run_def checkoutRef_def)
    show "success (case r of (b, template) \<Rightarrow> do {
        b \<leftarrow> runner_setCondition d ''RepositoryCloned'' ConditionTrue ''RepositoryCloned'' ''Repository cloned and checked out.'' b;
        check (runner_updateStatus d ProgressUpdate b) (\<lambda>b.
        check (run_steps_stage d cfg redactor b template dir) (\<lambda>b.
        check (collect_stage d cfg redactor b template dir) (\<lambda>b.
        check (runner_updateStatus d ProgressUpdate b) (\<lambda>b.
          if \<not> bld_Enabled (pts_Build (pt_Spec template))
          then complete_run d cfg redactor b template dir (brs_Image (br_Spec b))
          else check (prepare_build d cfg redactor b template dir) (\<lambda>(b, contextDir, rs).
            build_and_complete d cfg redactor b repository template dir contextDir rs)))))
      }) (\<lambda>_ T. S4 \<subseteq> T \<longrightarrow> S3 \<subseteq> T \<longrightarrow> S2 \<subseteq> T \<longrightarrow> S1 \<subseteq> T \<longrightarrow> accomplished d cfg b repository template T)"
      unfolding case_prod_beta
    proof (rule success_noted, rule success_check [OF success_updated [OF assms same_run_refl]])
      fix b4 b5 S5
      assume "noted (fst r) b4" "same_run b4 b5"
      with same have "same_run b b5" by (meson noted_same same_run_trans)
      moreover have "cached_as template (snd r)" using same(3) by simp
      ultimately have rest: "success (check (run_steps_stage d cfg redactor b5 (snd r) dir) (\<lambda>b.
        check (collect_stage d cfg redactor b (snd r) dir) (\<lambda>b.
        check (runner_updateStatus d ProgressUpdate b) (\<lambda>b.
          if \<not> bld_Enabled (pts_Build (pt_Spec (snd r)))
          then complete_run d cfg redactor b (snd r) dir (brs_Image (br_Spec b))
          else check (prepare_build d cfg redactor b (snd r) dir) (\<lambda>(b, contextDir, rs).
            build_and_complete d cfg redactor b repository (snd r) dir contextDir rs)))))
        (\<lambda>_ S. steps_ran d dir template S \<and> ?done S)"
        by (rule completes)
      show "success (check (run_steps_stage d cfg redactor b5 (snd r) dir) (\<lambda>b.
        check (collect_stage d cfg redactor b (snd r) dir) (\<lambda>b.
        check (runner_updateStatus d ProgressUpdate b) (\<lambda>b.
          if \<not> bld_Enabled (pts_Build (pt_Spec (snd r)))
          then complete_run d cfg redactor b (snd r) dir (brs_Image (br_Spec b))
          else check (prepare_build d cfg redactor b (snd r) dir) (\<lambda>p.
            build_and_complete d cfg redactor (fst p) repository (snd r) dir (fst (snd p)) (snd (snd p)))))))
        (\<lambda>_ T. S5 \<subseteq> T \<longrightarrow> S4 \<subseteq> T \<longrightarrow> S3 \<subseteq> T \<longrightarrow> S2 \<subseteq> T \<longrightarrow> S1 \<subseteq> T \<longrightarrow> accomplished d cfg b repository template T)"
        by (rule success_mono [OF rest [unfolded case_prod_beta]]) (use cloned ref in \<open>auto simp: accomplished_def Let_def dir_def [symmetric]\<close>)
    qed
  qed
qed


text \<open>Objects that were loaded, and what depends on them.\<close>

lemma success_run_answer:
  assumes "\<And>w a. fst (g w) = Inr a \<Longrightarrow> success (f a) R"
  shows "success (check (wrap txt (query g)) f) R"
  by (rule success_check [OF success_wrap [OF success_query]]) (use assms in \<open>auto intro: success_after\<close>)

definition loaded :: "'w runner_deps \<Rightarrow> Config \<Rightarrow> BuildRun \<Rightarrow> Repository \<Rightarrow> PipelineTemplate \<Rightarrow> bool" where
  "loaded d cfg b repository template \<longleftrightarrow> (\<exists>u. fst (rn_GetBuildRun d \<lparr>key_Namespace = cfg_BuildRunNamespace cfg, key_Name = cfg_BuildRunName cfg\<rparr> u) = Inr b)
     \<and> (\<exists>u. fst (rn_GetRepository d \<lparr>key_Namespace = cfg_BuildRunNamespace cfg, key_Name = brs_RepositoryRef (br_Spec b)\<rparr> u) = Inr repository)
     \<and> (\<exists>u. fst (rn_GetTemplate d \<lparr>key_Namespace = cfg_BuildRunNamespace cfg, key_Name = brs_PipelineTemplateRef (br_Spec b)\<rparr> u) = Inr template)"

lemma success_Run:
  assumes "retry_spec (rn_Retry d)"
  shows "success (Run d cfg) (\<lambda>_ S. \<exists>b repository template. loaded d cfg b repository template \<and> accomplished d cfg b repository template S)"
proof -
  let ?P = "\<lambda>S. \<exists>b repository template. loaded d cfg b repository template \<and> accomplished d cfg b repository template S"
  have adapters: "rn_Retry (configureSupplyChainAdapters spec d) = rn_Retry d"
    "accomplished (configureSupplyChainAdapters spec d) = accomplished d" for spec
    by (auto simp: configureSupplyChainAdapters_def Let_def accomplished_def steps_ran_def built_def fun_eq_iff)
  have "success (Run d cfg) (\<lambda>_ S. ?P S)"
    unfolding Run_def Let_def
  proof (rule success_run_answer)
    fix u b
    assume b: "fst (rn_GetBuildRun d \<lparr>key_Namespace = cfg_BuildRunNamespace cfg, key_Name = cfg_BuildRunName cfg\<rparr> u) = Inr b"
    show "success (or_fail d b (\<lambda>_. ''RepositoryLoadFailed'')
        (\<lambda>err. ''load Repository '' @ quote (brs_RepositoryRef (br_Spec b)) @ '': '' @ err_text err)
        (query (rn_GetRepository d \<lparr>key_Namespace = cfg_BuildRunNamespace cfg, key_Name = brs_RepositoryRef (br_Spec b)\<rparr>)) (\<lambda>repository.
      or_fail d b (\<lambda>_. ''PipelineTemplateLoadFailed'')
        (\<lambda>err. ''load PipelineTemplate '' @ quote (brs_PipelineTemplateRef (br_Spec b)) @ '': '' @ err_text err)
        (query (rn_GetTemplate d \<lparr>key_Namespace = cfg_BuildRunNamespace cfg, key_Name = brs_PipelineTemplateRef (br_Spec b)\<rparr>)) (\<lambda>template.
        run_pipeline (configureSupplyChainAdapters (pts_SupplyChain (pt_Spec template)) d) cfg
          (FromEnv (rn_MapOrder (configureSupplyChainAdapters (pts_SupplyChain (pt_Spec template)) d)
             (secretValues (rn_ParseURL (configureSupplyChainAdapters (pts_SupplyChain (pt_Spec template)) d)) b repository template)))
          b repository template))) (\<lambda>_ S. ?P S)"
    proof (rule success_or_fail [OF assms success_query], rule success_or_fail [OF assms success_query], elim exE)
      fix repository S template T u1 u2
      assume "fst (rn_GetRepository d \<lparr>key_Namespace = cfg_BuildRunNamespace cfg, key_Name = brs_RepositoryRef (br_Spec b)\<rparr> u1) = Inr repository"
        and "fst (rn_GetTemplate d \<lparr>key_Namespace = cfg_BuildRunNamespace cfg, key_Name = brs_PipelineTemplateRef (br_Spec b)\<rparr> u2) = Inr template"
      with b have "accomplished d cfg b repository template U \<Longrightarrow> ?P U" for U unfolding loaded_def by blast
      then show "success (run_pipeline (configureSupplyChainAdapters (pts_SupplyChain (pt_Spec template)) d) cfg
          (FromEnv (rn_MapOrder (configureSupplyChainAdapters (pts_SupplyChain (pt_Spec template)) d)
             (secretValues (rn_ParseURL (configureSupplyChainAdapters (pts_SupplyChain (pt_Spec template)) d)) b repository template)))
          b repository template) (\<lambda>_ U. T \<subseteq> U \<longrightarrow> S \<subseteq> U \<longrightarrow> ?P U)"
        by (intro success_mono [OF success_run_pipeline]) (simp_all only: adapters assms simp_thms)
    qed
  qed
  then show ?thesis .
qed

lemma Run_accomplished:
  assumes "retry_spec (rn_Retry d)" and "exec_result (Run d cfg) w = Inr r"
  shows "\<exists>b repository template. loaded d cfg b repository template
    \<and> accomplished d cfg b repository template (set (exec_trace (Run d cfg) w))"
proof -
  let ?P = "\<lambda>S. \<exists>b repository template. loaded d cfg b repository template \<and> accomplished d cfg b repository template S"
  have "wp (Run d cfg) (\<lambda>r t. \<forall>a. r = Inr a \<longrightarrow> ?P (set (trace t))) (start w)"
    using success_Run [OF assms(1), of cfg] by (simp add: success_def)
  then show ?thesis unfolding wp_trace [where P = "\<lambda>r es. \<forall>a. r = Inr a \<longrightarrow> ?P (set es)"] using assms(2) by blast
qed


section \<open>The builder\<close>

text \<open>What the runner relies on an image builder for: the image it returns is the requested one, by digest if it was pushed.\<close>

locale image_builder =
  fixes build :: "BuildRequest \<Rightarrow> 'w \<Rightarrow> BuildResult result \<times> 'w"
  assumes build_pinned: "fst (build req w) = Inr res \<Longrightarrow> pinned req res"
begin

lemma reported_pinned:
  assumes "rn_Build d = build" and "accomplished d cfg b repository template S"
    and "bld_Enabled (pts_Build (pt_Spec template))" and "bld_Push (pts_Build (pt_Spec template))"
  shows "\<exists>img req. reported img S \<and> ImageBuilt req \<in> S \<and> img_Repository img = bq_ImageRepository req \<and> valid_digest (img_Digest img)"
proof -
  from assms(2-4) obtain req res where res: "built d req res S" "bq_Push req" "reported (image_of res) S"
    by (auto simp: accomplished_def Let_def)
  then have "pinned req res" using build_pinned assms(1) by (auto simp: built_def)
  with res show ?thesis by (intro exI [of _ "image_of res"] exI [of _ req]) (auto simp: pinned_def built_def image_of_def)
qed

end

text \<open>BuildKit as the builder of the runner.\<close>

definition buildkit_builder ::
  "'w buildkit_deps \<Rightarrow> BuildKitBuilder \<Rightarrow> (duration \<Rightarrow> string) \<Rightarrow> BuildRequest \<Rightarrow> 'w \<Rightarrow> BuildResult result \<times> 'w" where
  "buildkit_builder d b format req w = (exec_result (Build d b format req) w, exec_ext (Build d b format req) w)"

lemma buildkit_builder_pinned: "fst (buildkit_builder bd bk format req w) = Inr res \<Longrightarrow> pinned req res"
  using Build_pinned [of bd bk format req "start w"]
  unfolding wp_result [where P = "\<lambda>r. \<forall>res. r = Inr res \<longrightarrow> pinned req res"] by (simp add: buildkit_builder_def)

interpretation buildkit: image_builder "buildkit_builder bd bk format"
  for bd :: "'w buildkit_deps" and bk format
  by unfold_locales (rule buildkit_builder_pinned)

text \<open>
  C5: Composition of runner and image builder: when the runner builds with BuildKit and its template pushes the image, a run
  that ends without an error has reported an image with a well-formed SHA-256 digest, in the repository that the build was
  asked for.
\<close>

theorem pushed_images_are_pinned:
  assumes "retry_spec (rn_Retry d)" and "rn_Build d = buildkit_builder bd bk format"
    and "\<And>key u template. fst (rn_GetTemplate d key u) = Inr template
           \<Longrightarrow> bld_Enabled (pts_Build (pt_Spec template)) \<and> bld_Push (pts_Build (pt_Spec template))"
  shows "case exec_result (Run d cfg) w of Inl _ \<Rightarrow> True
    | Inr _ \<Rightarrow> \<exists>img req. reported img (set (exec_trace (Run d cfg) w)) \<and> ImageBuilt req \<in> set (exec_trace (Run d cfg) w)
        \<and> img_Repository img = bq_ImageRepository req \<and> valid_digest (img_Digest img)"
proof (cases "exec_result (Run d cfg) w")
  case (Inr r)
  from Run_accomplished [OF assms(1) Inr] obtain b repository template u where
    "fst (rn_GetTemplate d \<lparr>key_Namespace = cfg_BuildRunNamespace cfg, key_Name = brs_PipelineTemplateRef (br_Spec b)\<rparr> u) = Inr template"
    and acc: "accomplished d cfg b repository template (set (exec_trace (Run d cfg) w))" by (auto simp: loaded_def)
  with assms(3) have "bld_Enabled (pts_Build (pt_Spec template)) \<and> bld_Push (pts_Build (pt_Spec template))" by blast
  with buildkit.reported_pinned [OF assms(2) acc] Inr show ?thesis by simp
qed simp

end
