(* ===== verification/RunnerProgress.thy ===== *)
theory RunnerProgress
  imports RunnerSuccess
begin

text \<open>A run of the builder succeeds when everything that it depends on does.\<close>

section \<open>Computations that always succeed\<close>

definition always :: "('w, 'e, 'a result) io \<Rightarrow> ('a \<Rightarrow> bool) \<Rightarrow> bool" where
  "always m Q \<longleftrightarrow> (\<forall>s. wp m (\<lambda>r t. \<exists>a. r = Inr a \<and> Q a) s)"

lemma always_ok: "Q a \<Longrightarrow> always (ok a) Q"
  by (simp add: always_def ok_def wp_return)

lemma always_return: "r = Inr a \<Longrightarrow> Q a \<Longrightarrow> always (State_Monad.return r) Q"
  by (simp add: always_def wp_return)

lemma always_call: "(\<And>w. \<exists>a. fst (g w) = Inr a \<and> Q a) \<Longrightarrow> always (call e g) Q"
  and always_query: "(\<And>w. \<exists>a. fst (g w) = Inr a \<and> Q a) \<Longrightarrow> always (query g) Q"
  by (simp_all add: always_def wp_call wp_query)

lemma always_wrap: "always m Q \<Longrightarrow> always (wrap txt m) Q"
  unfolding always_def wp_wrap by (elim all_forward) (erule wp_mono, auto)

lemma always_sum:
  assumes "always m Q" and "\<And>a. Q a \<Longrightarrow> always (f a) R"
  shows "always (State_Monad.bind m (\<lambda>r. case r of Inl err \<Rightarrow> g err | Inr a \<Rightarrow> f a)) R"
  unfolding always_def wp_bind
proof
  fix s
  have "wp m (\<lambda>r t. \<exists>a. r = Inr a \<and> Q a) s" using assms(1) by (simp add: always_def)
  then show "wp m (\<lambda>r. wp (case r of Inl err \<Rightarrow> g err | Inr a \<Rightarrow> f a) (\<lambda>r t. \<exists>a. r = Inr a \<and> R a)) s"
    by (rule wp_mono) (use assms(2) in \<open>auto simp: always_def\<close>)
qed

lemma always_check: "always m Q \<Longrightarrow> (\<And>a. Q a \<Longrightarrow> always (f a) R) \<Longrightarrow> always (check m f) R"
  unfolding check_def by (rule always_sum)

lemma always_or_fail: "always m Q \<Longrightarrow> (\<And>a. Q a \<Longrightarrow> always (f a) R) \<Longrightarrow> always (or_fail d b reason message m f) R"
  unfolding or_fail_def by (rule always_sum)

lemma always_or_fail_condition:
  "always m Q \<Longrightarrow> (\<And>a. Q a \<Longrightarrow> always (f a) R) \<Longrightarrow> always (or_fail_condition d b ty note reason message m f) R"
  unfolding or_fail_condition_def by (rule always_sum)

lemma always_bind:
  assumes "\<And>s. wp m (\<lambda>a t. Q a) s" and "\<And>a. Q a \<Longrightarrow> always (f a) R"
  shows "always (State_Monad.bind m f) R"
  unfolding always_def wp_bind
proof
  fix s
  show "wp m (\<lambda>a. wp (f a) (\<lambda>r t. \<exists>a. r = Inr a \<and> R a)) s"
    by (rule wp_mono [OF assms(1)]) (use assms(2) in \<open>simp add: always_def\<close>)
qed

lemma always_bind_query: "(\<And>a. always (f a) R) \<Longrightarrow> always (State_Monad.bind (query g) f) R"
  by (rule always_bind [where Q = "\<lambda>a. True"]) (simp_all add: wp_query)

lemma always_noted: "(\<And>b'. noted b b' \<Longrightarrow> always (f b') R) \<Longrightarrow> always (State_Monad.bind (runner_setCondition d ty st reason message b) f) R"
  by (rule always_bind [OF wp_setCondition])

lemma always_mono: "always m Q \<Longrightarrow> (\<And>a. Q a \<Longrightarrow> R a) \<Longrightarrow> always m R"
  unfolding always_def by (elim all_forward) (erule wp_mono, auto)


section \<open>A world that cooperates\<close>

definition startable :: "BuildRun \<Rightarrow> bool" where
  "startable b \<longleftrightarrow> ValidateBuildRunPhaseTransition (bst_Phase (br_Status b)) BuildRunPhaseRunning = None"

lemma always_if: "(c \<Longrightarrow> always m Q) \<Longrightarrow> (\<not> c \<Longrightarrow> always n Q) \<Longrightarrow> always (if c then m else n) Q"
  by simp

text \<open>A template without caches and hooks, whose steps can be started.\<close>

definition plain_template :: "PipelineTemplate \<Rightarrow> bool" where
  "plain_template t \<longleftrightarrow> (let s = pt_Spec t; sc = pts_SupplyChain s in
     \<not> dc_Enabled (pts_Cache s) \<and> \<not> sc_GenerateSBOM sc \<and> \<not> sc_ScanImage sc \<and> \<not> sc_SignImage sc \<and> sc_ProvenanceAdapter sc \<noteq> ''json''
     \<and> (\<forall>step \<in> set (pts_Steps s). step_Name step \<noteq> '''' \<and> step_Command step \<noteq> []))"

definition succeeds :: "('w \<Rightarrow> 'a result \<times> 'w) \<Rightarrow> bool" where
  "succeeds g \<longleftrightarrow> (\<forall>w. \<exists>a. fst (g w) = Inr a)"

text \<open>Its build context, if it builds an image, can be found in the clone, and the image that the run asks for is built from it.\<close>

definition plain_setup :: "BuildRun \<Rightarrow> registry_setup" where
  "plain_setup b = (let img = brs_Image (br_Spec b) in
     \<lparr>rgs_Repository = img_Repository img, rgs_Tag = img_Tag img, rgs_Env = buildParamsEnv (brs_Params (br_Spec b)),
      rgs_Redactor = New [], rgs_DockerDir = None\<rparr>)"

definition image_builds :: "'w runner_deps \<Rightarrow> BuildRun \<Rightarrow> PipelineTemplate \<Rightarrow> bool" where
  "image_builds d b t \<longleftrightarrow> (bld_Enabled (pts_Build (pt_Spec t)) \<longrightarrow>
     always (ResolveContextDir (rn_BuildContext d) (FilepathJoin [rn_Workspace d, ''source'']) (bld_ContextDir (pts_Build (pt_Spec t))))
       (\<lambda>c. succeeds (rn_Build d (build_request c t (plain_setup b)))))"

text \<open>
  The cluster answers, keeps the statuses that it is sent, and the run may be started; Git, the file system, the processes of the steps and the
  builder succeed; there is no log store, no artifact store and no registry provider.
\<close>

definition cooperates :: "'w runner_deps \<Rightarrow> Config \<Rightarrow> bool" where
  "cooperates d cfg \<longleftrightarrow> retry_spec (rn_Retry d)
     \<and> (\<forall>key w. \<exists>b. fst (rn_GetBuildRun d key w) = Inr b \<and> startable b)
     \<and> (\<forall>b w. \<exists>b'. fst (rn_StatusUpdate d b w) = Inr b' \<and> br_Status b' = br_Status b)
     \<and> (\<forall>key. succeeds (rn_GetRepository d key))
     \<and> (\<forall>key w key' u b. fst (rn_GetBuildRun d key' u) = Inr b \<longrightarrow>
          (\<exists>t. fst (rn_GetTemplate d key w) = Inr t \<and> plain_template t \<and> image_builds d b t))
     \<and> (\<forall>p. succeeds (rn_RemoveAll d p)) \<and> (\<forall>p. succeeds (rn_MkdirAll d p))
     \<and> (\<forall>u p. succeeds (rn_Clone d u p)) \<and> (\<forall>p r. succeeds (rn_Checkout d p r))
     \<and> (\<forall>argv dir env timeout w. sp_Err (fst (sx_Run (rn_Steps d) argv dir env timeout w)) = None)
     \<and> \<not> rn_LogStore d \<and> rn_Artifacts d = None \<and> rn_Provenance d = NoopProvenanceWriter
     \<and> cfg_RegistryProvider cfg = ''''"

text \<open>The run \<open>a\<close>, being executed.\<close>

definition running :: "BuildRun \<Rightarrow> BuildRun \<Rightarrow> bool" where
  "running a b \<longleftrightarrow> same_run a b \<and> bst_Phase (br_Status b) = BuildRunPhaseRunning"

lemma running_noted: "noted b b' \<Longrightarrow> running a b \<Longrightarrow> running a b'"
  by (auto simp: noted_def running_def)

lemma always_attempts: "always m Q \<Longrightarrow> always (attempts n m) Q"
proof (induction n)
  case (Suc n)
  then show ?case unfolding attempts.simps by (intro always_sum [OF Suc.prems] always_return) auto
qed simp

lemma always_update:
  assumes "cooperates d cfg"
  shows "always (runner_updateStatus d eff b) (\<lambda>b'. same_run b b' \<and> bst_Phase (br_Status b') = bst_Phase (br_Status b))"
proof -
  let ?m = "update_attempt (rn_GetBuildRun d) (rn_StatusUpdate d) buildrun_ops eff b"
  have get: "\<exists>latest. fst (rn_GetBuildRun d key w) = Inr latest" for key w using assms unfolding cooperates_def by meson
  have upd: "\<exists>x. fst (rn_StatusUpdate d c w) = Inr x \<and> br_Status x = br_Status c" for c w using assms unfolding cooperates_def by meson
  have "always ?m (\<lambda>b'. same_run b b' \<and> bst_Phase (br_Status b') = bst_Phase (br_Status b))"
    unfolding update_attempt_def Let_def
  proof (intro always_sum [OF always_query [where Q = "\<lambda>_. True"]])
    show "\<exists>a. fst (rn_GetBuildRun d (object_key (so_meta buildrun_ops b)) w) = Inr a \<and> True" for w using get by simp
    show "always (State_Monad.bind (call (eff (copyStatus buildrun_ops latest b)) (rn_StatusUpdate d (copyStatus buildrun_ops latest b)))
        (\<lambda>u. case u of Inl err \<Rightarrow> State_Monad.return (Inl err) | Inr returned \<Rightarrow> State_Monad.return (Inr (copyStatus buildrun_ops b returned))))
        (\<lambda>b'. same_run b b' \<and> bst_Phase (br_Status b') = bst_Phase (br_Status b))" for latest
      by (rule always_sum [OF always_call [OF upd]]) (rule always_return, rule refl, simp add: same_run_def copyStatus_def buildrun_ops_def)
  qed
  then show ?thesis
    using assms unfolding runner_updateStatus_def UpdateStatusWithRetry_def
    by (intro always_wrap) (auto simp: cooperates_def elim!: retry_specE [where m = ?m] intro: always_attempts)
qed

lemma always_running:
  assumes "cooperates d cfg" and "running orig b"
  shows "always (runner_updateStatus d eff b) (running orig)"
  by (rule always_mono [OF always_update [OF assms(1)]]) (use assms(2) same_run_trans in \<open>auto simp: running_def\<close>)

lemma always_prepare_logs: "cooperates d cfg \<Longrightarrow> always (prepare_logs d cfg redactor b) (\<lambda>b'. b' = b)"
  by (simp add: prepare_logs_def cooperates_def always_ok)

lemma always_start_run:
  assumes "cooperates d cfg" and "startable b"
  shows "always (start_run d b) (running b)"
  unfolding start_run_def
proof (rule always_bind_query)
  fix now
  obtain b' where "MarkBuildRunStarted b now = Inr b'" "running b b'"
    using assms(2) by (auto simp: MarkBuildRunStarted_def startable_def running_def same_run_def Let_def)
  then show "always (case MarkBuildRunStarted b now of Inl err \<Rightarrow> fail (errorf_w ''mark BuildRun started'' err)
     | Inr b' \<Rightarrow> runner_updateStatus d ProgressUpdate b') (running b)"
    by (simp add: always_running [OF assms(1)])
qed

lemma succeeds_call: "succeeds g \<Longrightarrow> always (call e g) (\<lambda>_. True)"
  by (rule always_call) (simp add: succeeds_def)

lemma always_clone_source:
  assumes "cooperates d cfg"
  shows "always (clone_source d cfg redactor b repository dir) (\<lambda>_. True)"
  unfolding clone_source_def
  by (intro always_or_fail [OF succeeds_call] always_ok) (use assms in \<open>simp_all add: cooperates_def\<close>)

lemma always_restore_cache:
  assumes "plain_template template"
  shows "always (restore_cache d cfg redactor b template dir) (\<lambda>r. r = (b, template))"
  using assms by (simp add: restore_cache_def plain_template_def Let_def always_ok)

lemma always_collect: "cooperates d cfg \<Longrightarrow> always (collect_stage d cfg redactor b template dir) (\<lambda>b'. b' = b)"
  by (simp add: collect_stage_def cooperates_def always_ok)

lemma wp_runStep_ok:
  assumes "step_Name step \<noteq> ''''" and "step_Command step \<noteq> []" and "str_Observe r = None"
    and "\<And>argv dir env timeout w. sp_Err (fst (sx_Run d argv dir env timeout w)) = None"
  shows "wp (runStep d r dir step redactor ls) (\<lambda>a t. fst a = None) s"
proof -
  have "wp (step_finished r step m None ls) (\<lambda>a t. fst a = None) t" for m t
    unfolding step_finished_def case_prod_beta wp_bind
    by (rule wp_any, rule wp_mono [where P = "\<lambda>a t. fst a = None"]) (simp_all add: observe_step_def assms(3) wp_return)
  then show ?thesis using assms by (simp add: runStep_def Let_def wp_simps)
qed

lemma wp_Run_steps_ok:
  assumes "\<forall>step \<in> set steps. step_Name step \<noteq> '''' \<and> step_Command step \<noteq> []" and "str_Observe r = None"
    and "\<And>argv dir env timeout w. sp_Err (fst (sx_Run d argv dir env timeout w)) = None"
  shows "wp (Run_steps d r dir steps redactor ls) (\<lambda>a t. fst a = None) s"
  using assms(1)
proof (induction steps arbitrary: ls s)
  case (Cons step steps)
  show ?case
    unfolding Run_steps.simps wp_bind
    by (rule wp_mono [OF wp_runStep_ok [OF _ _ assms(2,3)]]) (use Cons in \<open>auto simp: case_prod_beta\<close>)
qed (simp add: wp_return)

lemma always_run_steps:
  assumes "cooperates d cfg" and "plain_template template" and "running orig b"
  shows "always (run_steps_stage d cfg redactor b template dir) (running orig)"
  unfolding run_steps_stage_def
proof (rule always_bind [where Q = "\<lambda>a. fst a = None"])
  have "str_Observe (run_runner d cfg redactor b) = None" using assms(1) by (simp add: run_runner_def cooperates_def)
  then show "wp (relabel StepEffect (Run_steps (rn_Steps d) (run_runner d cfg redactor b) dir (pts_Steps (pt_Spec template)) redactor
       \<lparr>Remaining = cfg_MaxLogBytes cfg, storedBytes = 0\<rparr>)) (\<lambda>a t. fst a = None) s" for s
    unfolding wp_relabel
    by (intro wp_Run_steps_ok) (use assms(1,2) in \<open>auto simp: cooperates_def plain_template_def Let_def\<close>)
  show "always (case a of (err, x) \<Rightarrow> (case err of
       Some err \<Rightarrow> runner_fail d b ''StepFailed'' (masked redactor err)
     | None \<Rightarrow> do {
         b \<leftarrow> runner_setCondition d ''StepsCompleted'' ConditionTrue ''StepsCompleted'' ''Pipeline steps completed.'' b;
         ok b
       })) (running orig)" if "fst a = None" for a :: "go_error option \<times> log_state"
    using that running_noted [OF _ assms(3)] by (cases a) (auto intro!: always_noted always_ok)
qed


section \<open>The build\<close>

lemma always_setup:
  assumes "cooperates d cfg" and "running orig b" and "image_builds d orig template" and "bld_Enabled (pts_Build (pt_Spec template))"
    and "dir = FilepathJoin [rn_Workspace d, ''source'']"
  shows "always (prepare_build d cfg redactor b template dir) (\<lambda>(b', c, rs). running orig b'
    \<and> rs = plain_setup orig \<and> succeeds (rn_Build d (build_request c template rs)))"
proof -
  have ctx: "always (relabel ContextResolved (ResolveContextDir (rn_BuildContext d) dir (bld_ContextDir (pts_Build (pt_Spec template)))))
      (\<lambda>c. succeeds (rn_Build d (build_request c template (plain_setup orig))))"
    unfolding always_def wp_relabel using assms(3-5) by (auto simp: image_builds_def always_def elim!: wp_mono)
  have reg: "always (resolve_registry d cfg redactor b template) (\<lambda>rs. rs = plain_setup orig)" if "running orig b" for b
    using assms(1) that by (simp add: resolve_registry_def Let_def cooperates_def always_ok plain_setup_def running_def same_run_def)
  show ?thesis
    unfolding prepare_build_def
    by (rule always_noted, rule always_check [OF always_running [OF assms(1) running_noted [OF _ assms(2)]]], assumption,
        rule always_or_fail_condition [OF ctx], rule always_check [OF reg]) (auto intro: always_ok)
qed

lemma always_image_built:
  assumes "cooperates d cfg" and "running orig b"
  shows "always (image_built d b pushed res) (running orig)"
  unfolding image_built_def Let_def bind_if
  by (intro always_noted always_if always_running [OF assms(1)]) (use assms(2) in \<open>auto simp: noted_def running_def\<close>)

lemma always_build_image:
  assumes "cooperates d cfg" and "running orig b" and "succeeds (rn_Build d (build_request c template rs))"
  shows "always (build_image d redactor b template c rs) (\<lambda>r. running orig (fst r))"
  unfolding build_image_def Let_def
  by (intro always_sum [OF succeeds_call [OF assms(3)]] always_check [OF always_image_built [OF assms(1,2)]] always_ok) simp_all

lemma hooks_off:
  assumes "plain_template template" and "rn_Provenance d = NoopProvenanceWriter" and "running orig b"
  shows "wp (runSupplyChainHooks d b repository template dir res) (\<lambda>r t. running orig (fst r) \<and> snd r = None) s"
proof -
  have off: "sc_GenerateSBOM (pts_SupplyChain (pt_Spec template)) = False" "sc_ScanImage (pts_SupplyChain (pt_Spec template)) = False"
    "sc_SignImage (pts_SupplyChain (pt_Spec template)) = False" using assms(1) by (simp_all add: plain_template_def Let_def)
  have p: "wp (and_hook e (provenance_hook d c) (b, Inr status)) (\<lambda>st t. running orig (fst st) \<and> (\<exists>x. snd st = Inr x)) t" for e c status t
    using assms(2,3)
    by (auto simp: and_hook_def provenance_hook_def run_hook_def WriteProvenance_def wp_simps wp_relabel Let_def runner_setCondition_def running_def)
  have skip: "and_hook False hook st = State_Monad.return st" for hook :: "hook_state \<Rightarrow> ('a, BuildRun \<times> (go_error + BuildRunSupplyChainStatus)) run_io" and st
    by (auto simp: and_hook_def split: sum.split)
  have last: "wp (case snd st of Inl err \<Rightarrow> State_Monad.return (fst st, Some err) | Inr status \<Rightarrow> do {
         b \<leftarrow> (if has_metadata status
           then runner_setCondition d ''SupplyChainReady'' ConditionTrue ''SupplyChainMetadataRecorded''
             ''Supply-chain metadata has been recorded.'' ((fst st)\<lparr>br_Status := (br_Status (fst st))\<lparr>bst_SupplyChain := status\<rparr>\<rparr>)
           else State_Monad.return ((fst st)\<lparr>br_Status := (br_Status (fst st))\<lparr>bst_SupplyChain := status\<rparr>\<rparr>));
         State_Monad.return (b, None)
       }) (\<lambda>r t. running orig (fst r) \<and> snd r = None) t"
    if "running orig (fst st) \<and> (\<exists>x. snd st = Inr x)" for st :: "BuildRun \<times> (go_error + BuildRunSupplyChainStatus)" and t
    using that by (auto simp: wp_simps runner_setCondition_def running_def)
  show ?thesis
    unfolding runSupplyChainHooks_def Let_def off simp_thms skip wp_bind wp_query wp_return
    by (rule wp_mono [OF p]) (rule last [unfolded wp_bind])
qed

lemma always_hooks:
  assumes "cooperates d cfg" and "plain_template template" and "running orig b"
  shows "always (hooks_stage d redactor b repository template dir res) (running orig)"
  unfolding hooks_stage_def
proof (rule always_bind [where Q = "\<lambda>r. running orig (fst r) \<and> snd r = None"])
  show "wp (runSupplyChainHooks d b repository template dir res) (\<lambda>r t. running orig (fst r) \<and> snd r = None) s" for s
    by (rule hooks_off [OF assms(2) _ assms(3)]) (use assms(1) in \<open>simp add: cooperates_def\<close>)
qed (auto simp: case_prod_beta intro: always_running [OF assms(1)])

lemma always_complete:
  assumes "cooperates d cfg" and "plain_template template" and "running orig b"
  shows "always (complete_run d cfg redactor b template dir img) (\<lambda>_. True)"
proof -
  have save: "always (save_cache d cfg redactor b template dir) (\<lambda>b'. b' = b)"
    using assms(2) by (simp add: save_cache_def plain_template_def Let_def always_ok)
  have mark: "\<exists>b'. MarkBuildRunSucceeded b now img = Inr b'" for now
    using assms(3) by (auto simp: MarkBuildRunSucceeded_def running_def ValidateBuildRunPhaseTransition_def Let_def)
  have last: "always (case MarkBuildRunSucceeded b now img of
         Inl err \<Rightarrow> fail (errorf_w ''mark BuildRun succeeded'' err)
       | Inr b \<Rightarrow> check (runner_updateStatus d SuccessUpdate b) (\<lambda>_. ok ())) (\<lambda>_. True)" for now
    using mark [of now] by (auto intro!: always_check [OF always_update [OF assms(1)]] always_ok)
  have log: "always (if rn_LogStore d
         then or_fail d b (\<lambda>_. ''LogStoreWriteFailed'') (masked redactor) (run_log d redactor b ''Build runner completed successfully.'') ok
         else ok ()) (\<lambda>_. True)" for b
    using assms(1) by (simp add: cooperates_def always_ok)
  show ?thesis
    unfolding complete_run_def
    by (rule always_check [OF save], rule always_check [OF log], rule always_bind_query) (use last in simp)
qed

lemma always_build_and_complete:
  assumes "cooperates d cfg" and "plain_template template" and "running orig b" and "rs = plain_setup orig"
    and "succeeds (rn_Build d (build_request c template rs))"
  shows "always (build_and_complete d cfg redactor b repository template dir c rs) (\<lambda>_. True)"
proof -
  let ?m = "check (build_image d redactor b template c rs) (\<lambda>(b, res).
          check (hooks_stage d redactor b repository template dir res) (\<lambda>b.
            complete_run d cfg redactor b template dir (image_of res)))"
  have "always ?m (\<lambda>_. True)"
    unfolding case_prod_beta
    by (rule always_check [OF always_build_image [OF assms(1,3,5)]], rule always_check [OF always_hooks [OF assms(1,2)]], assumption,
        rule always_complete [OF assms(1,2)])
  then show ?thesis
    unfolding build_and_complete_def always_def wp_bind
    by (elim all_forward) (erule wp_mono, auto simp: assms(4) plain_setup_def Let_def wp_return)
qed

lemma always_run_pipeline:
  assumes "cooperates d cfg" and "plain_template template" and "startable b" and "image_builds d b template"
  shows "always (run_pipeline d cfg redactor b repository template) (\<lambda>_. True)"
proof -
  define dir where "dir = FilepathJoin [rn_Workspace d, ''source'']"
  have completes: "always (if \<not> bld_Enabled (pts_Build (pt_Spec template))
          then complete_run d cfg redactor c template dir (brs_Image (br_Spec c))
          else check (prepare_build d cfg redactor c template dir) (\<lambda>(b, contextDir, rs).
            build_and_complete d cfg redactor b repository template dir contextDir rs)) (\<lambda>_. True)" if "running b c" for c
    using that assms(1,2,4)
    by (auto simp: case_prod_beta dir_def intro!: always_complete always_check [OF always_setup] always_build_and_complete)
  show ?thesis
    unfolding run_pipeline_def Let_def dir_def [symmetric]
  proof (rule always_check [OF always_prepare_logs [OF assms(1)]], rule always_check [OF always_start_run [OF assms(1)]], simp add: assms(3),
      rule always_check [OF always_clone_source [OF assms(1)]], rule always_check [OF always_restore_cache [OF assms(2)]])
    fix b1 b2 r u
    assume "b1 = b" and "running b1 b2" and r: "r = (b2, template)"
    then have "running b b2" by simp
    show "always (case r of (b, template) \<Rightarrow> do {
        b \<leftarrow> runner_setCondition d ''RepositoryCloned'' ConditionTrue ''RepositoryCloned'' ''Repository cloned and checked out.'' b;
        check (runner_updateStatus d ProgressUpdate b) (\<lambda>b.
        check (run_steps_stage d cfg redactor b template dir) (\<lambda>b.
        check (collect_stage d cfg redactor b template dir) (\<lambda>b.
        check (runner_updateStatus d ProgressUpdate b) (\<lambda>b.
          if \<not> bld_Enabled (pts_Build (pt_Spec template))
          then complete_run d cfg redactor b template dir (brs_Image (br_Spec b))
          else check (prepare_build d cfg redactor b template dir) (\<lambda>(b, contextDir, rs).
            build_and_complete d cfg redactor b repository template dir contextDir rs)))))
      }) (\<lambda>_. True)"
      unfolding r prod.case
      by (rule always_noted, rule always_check [OF always_running [OF assms(1) running_noted [OF _ \<open>running b b2\<close>]]], assumption,
          rule always_check [OF always_run_steps [OF assms(1,2)]], assumption, rule always_check [OF always_collect [OF assms(1)]],
          rule always_check [OF always_running [OF assms(1)]], simp, rule completes)
  qed
qed

lemma Run_always:
  assumes "cooperates d cfg"
  shows "always (Run d cfg) (\<lambda>_. True)"
proof -
  let ?d = "\<lambda>template. configureSupplyChainAdapters (pts_SupplyChain (pt_Spec template)) d"
  have fields: "rn_Retry (?d t) = rn_Retry d" "rn_GetBuildRun (?d t) = rn_GetBuildRun d" "rn_StatusUpdate (?d t) = rn_StatusUpdate d"
    "rn_GetRepository (?d t) = rn_GetRepository d" "rn_GetTemplate (?d t) = rn_GetTemplate d" "rn_RemoveAll (?d t) = rn_RemoveAll d"
    "rn_MkdirAll (?d t) = rn_MkdirAll d" "rn_Clone (?d t) = rn_Clone d" "rn_Checkout (?d t) = rn_Checkout d" "rn_Steps (?d t) = rn_Steps d"
    "rn_LogStore (?d t) = rn_LogStore d" "rn_Artifacts (?d t) = rn_Artifacts d" "rn_Build (?d t) = rn_Build d"
    "rn_BuildContext (?d t) = rn_BuildContext d" "rn_Workspace (?d t) = rn_Workspace d" for t
    by (simp_all add: configureSupplyChainAdapters_def Let_def)
  have builds: "image_builds (?d t) = image_builds d" for t
    by (simp add: image_builds_def fields fun_eq_iff)
  have "rn_Provenance (?d t) = rn_Provenance d" if "plain_template t" for t
    using that by (simp add: configureSupplyChainAdapters_def Let_def plain_template_def)
  then have "cooperates (?d t) cfg" if "plain_template t" for t
    using assms that unfolding cooperates_def fields builds by simp
  note pipeline = always_run_pipeline [OF this, unfolded builds]
  have get: "\<exists>b. fst (rn_GetBuildRun d key w) = Inr b \<and> (startable b \<and> (\<exists>key w. fst (rn_GetBuildRun d key w) = Inr b))"
    and repo: "\<exists>r. fst (rn_GetRepository d key w) = Inr r \<and> True" for key w
    using assms unfolding cooperates_def succeeds_def by meson+
  have tmpl: "\<exists>t. fst (rn_GetTemplate d key w) = Inr t \<and> plain_template t \<and> image_builds d b t"
    if "\<exists>key w. fst (rn_GetBuildRun d key w) = Inr b" for key w b
    using assms that unfolding cooperates_def by blast
  show ?thesis
    unfolding Run_def Let_def
    by (rule always_check [OF always_wrap [OF always_query [OF get]]], elim conjE, rule always_or_fail [OF always_query [OF repo]],
        rule always_or_fail [OF always_query [OF tmpl]], assumption, elim conjE, rule pipeline)
qed

lemma always_result: "always m Q \<Longrightarrow> \<exists>a. exec_result m w = Inr a \<and> Q a"
  unfolding always_def by (drule spec [of _ "start w"]) (simp add: wp_result)

text \<open>
  C6: In a world that cooperates - a cluster that answers and keeps statuses, Git, file system, processes and builder that succeed, a build run that
  may still be started and a template without caches and hooks - every run of the builder ends without an error, and so does what it reports:
  it has cloned, checked out, run every step, built the image if asked to, and reported success.
\<close>

theorem runner_succeeds:
  assumes "cooperates d cfg"
  shows "exec_result (Run d cfg) w = Inr () \<and> (\<exists>b repository template. loaded d cfg b repository template
    \<and> accomplished d cfg b repository template (set (exec_trace (Run d cfg) w)))"
proof -
  have r: "exec_result (Run d cfg) w = Inr ()" using always_result [OF Run_always [OF assms], of w] by simp
  with Run_accomplished [OF _ r] assms show ?thesis by (simp add: cooperates_def)
qed


section \<open>A run that builds and pushes\<close>

definition sample_run :: BuildRun where
  "sample_run = BuildRun_zero\<lparr>br_Spec := BuildRunSpec_zero\<lparr>brs_Branch := ''main'',
     brs_Image := ImageRef_zero\<lparr>img_Repository := ''ghcr.io/acme/app''\<rparr>\<rparr>\<rparr>"

definition sample_template :: PipelineTemplate where
  "sample_template = PipelineTemplate_zero\<lparr>pt_Spec := PipelineTemplateSpec_zero\<lparr>
     pts_Steps := [PipelineStep_zero\<lparr>step_Name := ''test'', step_Command := [''make'', ''test'']\<rparr>],
     pts_Build := PipelineBuildSpec_zero\<lparr>bld_Enabled := True, bld_Push := True\<rparr>\<rparr>\<rparr>"

definition sample_runner :: "unit runner_deps" where
  "sample_runner = plain_runner\<lparr>rn_GetBuildRun := \<lambda>key w. (Inr sample_run, w), rn_GetTemplate := \<lambda>key w. (Inr sample_template, w),
     rn_Workspace := ''/w'', rn_Build := buildkit_builder plain_machine \<lparr>bkb_Timeout = 0, bkb_Binary = ''''\<rparr> (\<lambda>t. ''30m0s'')\<rparr>"

lemma sample_request: "build_request ''/w/source'' sample_template (plain_setup sample_run) = push_request"
proof -
  have "buildParamsEnv Map.empty = Map.empty" by (simp add: buildParamsEnv_def param_entries_def sortedKeys_def)
  then show ?thesis
    by (simp add: build_request_def push_request_def Let_def sample_template_def sample_run_def plain_setup_def
        PipelineTemplate_zero_def PipelineTemplateSpec_zero_def PipelineBuildSpec_zero_def PipelineBuildCacheSpec_zero_def
        BuildRun_zero_def BuildRunSpec_zero_def ImageRef_zero_def)
qed

lemma sample_builds: "image_builds sample_runner sample_run sample_template"
proof -
  have facts: "\<not> IsAbs ''.''" "Clean ''.'' = ''.''" "\<not> HasPrefix ''.'' ''../''" "Abs_path plain_machine ''/w/source'' = Inr ''/w/source''"
    "Clean ''/w/source'' = ''/w/source''" "FilepathJoin [''/w/source'', ''.''] = ''/w/source''" "\<not> HasSuffix ''/w/source'' ''Dockerfile''"
    "rel_inside ''/w/source'' ''/w/source'' = Some ''.''" "FilepathJoin [''/w'', ''source''] = ''/w/source''" by code_simp+
  have machine: "bx_Stat plain_machine p w = (Inr (\<not> HasSuffix p ''Dockerfile''), w)"
    "bx_EvalSymlinks plain_machine p w = (Inr (Clean p), w)" for p w
    by (simp_all add: plain_machine_def)
  have ctx: "always (ResolveContextDir plain_machine ''/w/source'' '''') (\<lambda>c. c = ''/w/source'')"
    by (simp add: always_def ResolveContextDir_def facts machine invalid_on_error_def check_def wp_simps ok_def Let_def)
  have "succeeds (buildkit_builder plain_machine \<lparr>bkb_Timeout = 0, bkb_Binary = ''''\<rparr> (\<lambda>t. ''30m0s'') push_request)"
    using plain_build by (simp add: succeeds_def buildkit_builder_def)
  then have "always (ResolveContextDir plain_machine ''/w/source'' '''') (\<lambda>c. succeeds (rn_Build sample_runner
      (build_request c sample_template (plain_setup sample_run))))"
    by (intro always_mono [OF ctx]) (simp add: sample_request, simp add: sample_runner_def)
  moreover have "rn_BuildContext sample_runner = plain_machine" "rn_Workspace sample_runner = ''/w''"
    "bld_ContextDir (pts_Build (pt_Spec sample_template)) = ''''"
    by (simp_all add: sample_runner_def plain_runner_def sample_template_def PipelineBuildSpec_zero_def)
  ultimately show ?thesis by (simp add: image_builds_def facts)
qed

lemma sample_cooperates: "cooperates sample_runner plain_config"
proof -
  have "startable sample_run"
    by (simp add: startable_def sample_run_def BuildRun_zero_def BuildRunStatus_zero_def ValidateBuildRunPhaseTransition_def)
  moreover have "plain_template sample_template"
    by (simp add: plain_template_def sample_template_def PipelineTemplateSpec_zero_def PipelineCacheSpec_zero_def
        PipelineSupplyChainSpec_zero_def PipelineStep_zero_def Let_def)
  ultimately show ?thesis
    using sample_builds
    by (simp add: cooperates_def succeeds_def, simp add: sample_runner_def plain_runner_def plain_config_def retry_spec_attempts)
qed

theorem runner_succeeds_witness:
  "exec_result (Run sample_runner plain_config) () = Inr () \<and> (\<exists>b repository template. loaded sample_runner plain_config b repository template
    \<and> accomplished sample_runner plain_config b repository template (set (exec_trace (Run sample_runner plain_config) ())))"
  by (rule runner_succeeds [OF sample_cooperates])

lemma sample_retry: "retry_spec (rn_Retry sample_runner)"
  using sample_cooperates by (simp add: cooperates_def)

lemma sample_result: "exec_result (Run sample_runner plain_config) () = Inr ()"
  using always_result [OF Run_always [OF sample_cooperates], of "()"] by simp


theorem pushed_images_are_pinned_witness:
  "\<exists>img req. reported img (set (exec_trace (Run sample_runner plain_config) ())) \<and> ImageBuilt req \<in> set (exec_trace (Run sample_runner plain_config) ())
     \<and> img_Repository img = bq_ImageRepository req \<and> valid_digest (img_Digest img)"
proof -
  have b: "rn_Build sample_runner = buildkit_builder plain_machine \<lparr>bkb_Timeout = 0, bkb_Binary = ''''\<rparr> (\<lambda>t. ''30m0s'')"
    and t: "\<And>key u template. fst (rn_GetTemplate sample_runner key u) = Inr template
      \<Longrightarrow> bld_Enabled (pts_Build (pt_Spec template)) \<and> bld_Push (pts_Build (pt_Spec template))"
    by (auto simp: sample_runner_def sample_template_def)
  from pushed_images_are_pinned [OF sample_retry b t, where cfg = plain_config and w = "()"] show ?thesis by (simp add: sample_result)
qed

end
