(* ===== verification/Admission.thy ===== *)
theory Admission
  imports ControllerKit
begin

text \<open>
  \<open>internal/admission/webhooks.go\<close>: what the mutating webhook fills in and what the validating webhook refuses, for the six
  kinds that \<open>register.go\<close> registers. The client that reads environments is an argument.
\<close>

section \<open>Objects and defaults\<close>

datatype admission_object =
    AdmitProject Project
  | AdmitRepository Repository
  | AdmitPipelineTemplate PipelineTemplate
  | AdmitBuildRun BuildRun
  | AdmitEnvironment Environment
  | AdmitRelease Release
  | AdmitOther string

definition AllowPrivilegedAnnotation :: string where
  "AllowPrivilegedAnnotation = ''cicd.cloudivision.io/allow-privileged''"

definition default_string :: "string \<Rightarrow> string \<Rightarrow> string" where
  "default_string fallback v = (if v = '''' then fallback else v)"

definition default_build :: "PipelineBuildSpec \<Rightarrow> PipelineBuildSpec" where
  "default_build bld =
     (if bld_Enabled bld
      then bld\<lparr>bld_ContextDir := default_string ''.'' (bld_ContextDir bld),
             bld_Dockerfile := default_string ''Dockerfile'' (bld_Dockerfile bld),
             bld_Builder := (if bld_Builder bld = BuildBuilderOther '''' then BuildBuilderBuildKit else bld_Builder bld)\<rparr>
      else bld)"

definition default_security :: "PipelineSecuritySpec \<Rightarrow> PipelineSecuritySpec" where
  "default_security sec = (if sec_AllowPrivileged sec then sec else sec\<lparr>sec_RunAsNonRoot := True\<rparr>)"

fun Default :: "admission_object \<Rightarrow> admission_object result" where
  "Default (AdmitProject p) = Inr (AdmitProject (p\<lparr>proj_Spec := (proj_Spec p)\<lparr>
     prs_DefaultBranch := default_string ''main'' (prs_DefaultBranch (proj_Spec p))\<rparr>\<rparr>))"
| "Default (AdmitRepository r) = Inr (AdmitRepository (r\<lparr>repo_Spec := (repo_Spec r)\<lparr>
     rs_DefaultBranch := default_string ''main'' (rs_DefaultBranch (repo_Spec r))\<rparr>\<rparr>))"
| "Default (AdmitPipelineTemplate t) = Inr (AdmitPipelineTemplate (t\<lparr>pt_Spec := (pt_Spec t)\<lparr>
     pts_Build := default_build (pts_Build (pt_Spec t)), pts_Security := default_security (pts_Security (pt_Spec t))\<rparr>\<rparr>))"
| "Default (AdmitBuildRun b) = Inr (AdmitBuildRun (b\<lparr>br_Spec := (br_Spec b)\<lparr>
     brs_Executor := (if brs_Executor (br_Spec b) = ExecutorTypeUnset then ExecutorTypeJob else brs_Executor (br_Spec b))\<rparr>\<rparr>))"
| "Default (AdmitEnvironment e) = Inr (AdmitEnvironment (e\<lparr>env_Spec := (env_Spec e)\<lparr>
     es_RequiresApproval := (es_Type (env_Spec e) = EnvironmentTypeProduction \<or> es_RequiresApproval (env_Spec e))\<rparr>\<rparr>))"
| "Default (AdmitRelease r) = Inr (AdmitRelease (r\<lparr>rel_Spec := (rel_Spec r)\<lparr>
     rls_Strategy := (if rls_Strategy (rel_Spec r) = ReleaseStrategyUnset then ReleaseStrategyGitOps else rls_Strategy (rel_Spec r)),
     rls_PromotionMode := (if rls_PromotionMode (rel_Spec r) = PromotionModeUnset then PromotionModeDirectCommit
       else rls_PromotionMode (rel_Spec r))\<rparr>\<rparr>))"
| "Default (AdmitOther t) = Inl (errors_New (''unsupported admission type '' @ t))"


section \<open>Validation\<close>

type_synonym 'w environment_reader = "NamespacedName \<Rightarrow> 'w \<Rightarrow> Environment result \<times> 'w"

definition validate_template :: "PipelineTemplate \<Rightarrow> unit result" where
  "validate_template t =
     (if sec_AllowPrivileged (pts_Security (pt_Spec t))
         \<and> map_index (meta_Annotations (pt_Meta t)) AllowPrivilegedAnnotation \<noteq> ''true''
      then Inl (errors_New (''spec.security.allowPrivileged requires annotation '' @ AllowPrivilegedAnnotation @ ''=true''))
      else if pts_Steps (pt_Spec t) = [] \<and> \<not> bld_Enabled (pts_Build (pt_Spec t))
      then Inl (errors_New ''spec must contain at least one step or an enabled image build'')
      else Inr ())"

definition validate_gitops :: "BuildRunGitOpsSpec \<Rightarrow> unit result" where
  "validate_gitops g =
     (if \<not> bg_Enabled g then Inr ()
      else if bg_Strategy g = GitOpsStrategyUnset
      then Inl (errors_New ''spec.gitOps.strategy is required when GitOps is enabled'')
      else if bg_EnvironmentRef g = ''''
      then Inl (errors_New ''spec.gitOps.environmentRef is required when GitOps is enabled'')
      else if bg_RepoURL g = '''' then Inl (errors_New ''spec.gitOps.repoURL is required when GitOps is enabled'')
      else Inr ())"

definition validate_release :: "'w environment_reader option \<Rightarrow> Release \<Rightarrow> ('w, 'e, unit result) io" where
  "validate_release reader r =
     (if rls_EnvironmentRef (rel_Spec r) = '''' then fail (errors_New ''spec.environmentRef is required'')
      else case reader of
        None \<Rightarrow> ok ()
      | Some get \<Rightarrow>
          check (wrap (''read release environment '' @ quote (rls_EnvironmentRef (rel_Spec r)))
              (query (get \<lparr>key_Namespace = meta_Namespace (rel_Meta r), key_Name = rls_EnvironmentRef (rel_Spec r)\<rparr>))) (\<lambda>env.
            if es_Type (env_Spec env) = EnvironmentTypeProduction \<and> ep_RequireImageDigest (es_Policy (env_Spec env))
               \<and> img_Digest (rls_Image (rel_Spec r)) = ''''
            then fail (errors_New ''spec.image.digest is required by production environment policy'')
            else ok ()))"

fun validate :: "'w environment_reader option \<Rightarrow> admission_object \<Rightarrow> ('w, 'e, unit result) io" where
  "validate reader (AdmitProject p) =
     (if TrimSpace (prs_Namespace (proj_Spec p)) = '''' then fail (errors_New ''spec.namespace is required'') else ok ())"
| "validate reader (AdmitRepository r) = (let hook = rs_Webhook (repo_Spec r) in
     if wh_Enabled hook \<and> (rskr_Name (wh_SecretRef hook) = '''' \<or> rskr_Key (wh_SecretRef hook) = '''')
     then fail (errors_New ''spec.webhook.secretRef.name and key are required when webhook is enabled'') else ok ())"
| "validate reader (AdmitPipelineTemplate t) = State_Monad.return (validate_template t)"
| "validate reader (AdmitBuildRun b) = State_Monad.return (validate_gitops (brs_GitOps (br_Spec b)))"
| "validate reader (AdmitEnvironment e) =
     (if es_Type (env_Spec e) = EnvironmentTypeProduction \<and> \<not> es_RequiresApproval (env_Spec e)
      then fail (errors_New ''production environments must require approval'') else ok ())"
| "validate reader (AdmitRelease r) = validate_release reader r"
| "validate reader (AdmitOther t) = fail (errors_New (''unsupported admission type '' @ t))"

definition ValidateCreate :: "'w environment_reader option \<Rightarrow> admission_object \<Rightarrow> ('w, 'e, unit result) io" where
  "ValidateCreate reader obj = validate reader obj"

definition ValidateUpdate :: "'w environment_reader option \<Rightarrow> admission_object \<Rightarrow> admission_object \<Rightarrow> ('w, 'e, unit result) io" where
  "ValidateUpdate reader old obj = validate reader obj"

definition ValidateDelete :: "'w environment_reader option \<Rightarrow> admission_object \<Rightarrow> ('w, 'e, unit result) io" where
  "ValidateDelete reader obj = ok ()"


section \<open>The type of admitted objects\<close>

fun admission_kind :: "admission_object \<Rightarrow> string" where
  "admission_kind (AdmitProject p) = ''Project''"
| "admission_kind (AdmitRepository r) = ''Repository''"
| "admission_kind (AdmitPipelineTemplate t) = ''PipelineTemplate''"
| "admission_kind (AdmitBuildRun b) = ''BuildRun''"
| "admission_kind (AdmitEnvironment e) = ''Environment''"
| "admission_kind (AdmitRelease r) = ''Release''"
| "admission_kind (AdmitOther t) = t"

text \<open>What the mutating webhook establishes.\<close>

fun defaulted :: "admission_object \<Rightarrow> bool" where
  "defaulted (AdmitProject p) \<longleftrightarrow> prs_DefaultBranch (proj_Spec p) \<noteq> ''''"
| "defaulted (AdmitRepository r) \<longleftrightarrow> rs_DefaultBranch (repo_Spec r) \<noteq> ''''"
| "defaulted (AdmitPipelineTemplate t) \<longleftrightarrow>
     (bld_Enabled (pts_Build (pt_Spec t)) \<longrightarrow> bld_ContextDir (pts_Build (pt_Spec t)) \<noteq> ''''
        \<and> bld_Dockerfile (pts_Build (pt_Spec t)) \<noteq> '''' \<and> bld_Builder (pts_Build (pt_Spec t)) \<noteq> BuildBuilderOther '''')
     \<and> (sec_AllowPrivileged (pts_Security (pt_Spec t)) \<or> sec_RunAsNonRoot (pts_Security (pt_Spec t)))"
| "defaulted (AdmitBuildRun b) \<longleftrightarrow> brs_Executor (br_Spec b) \<noteq> ExecutorTypeUnset"
| "defaulted (AdmitEnvironment e) \<longleftrightarrow> (es_Type (env_Spec e) = EnvironmentTypeProduction \<longrightarrow> es_RequiresApproval (env_Spec e))"
| "defaulted (AdmitRelease r) \<longleftrightarrow> rls_Strategy (rel_Spec r) \<noteq> ReleaseStrategyUnset \<and> rls_PromotionMode (rel_Spec r) \<noteq> PromotionModeUnset"
| "defaulted (AdmitOther t) \<longleftrightarrow> False"

text \<open>What the validating webhook asks for; \<open>env\<close> is what the reader, if there is one, returns for the environment.\<close>

definition release_valid :: "Environment result option \<Rightarrow> Release \<Rightarrow> bool" where
  "release_valid env r \<longleftrightarrow> rls_EnvironmentRef (rel_Spec r) \<noteq> '''' \<and> (case env of None \<Rightarrow> True | Some (Inl err) \<Rightarrow> False
     | Some (Inr e) \<Rightarrow> es_Type (env_Spec e) \<noteq> EnvironmentTypeProduction \<or> \<not> ep_RequireImageDigest (es_Policy (env_Spec e))
         \<or> img_Digest (rls_Image (rel_Spec r)) \<noteq> '''')"

fun valid_object :: "Environment result option \<Rightarrow> admission_object \<Rightarrow> bool" where
  "valid_object env (AdmitProject p) \<longleftrightarrow> TrimSpace (prs_Namespace (proj_Spec p)) \<noteq> ''''"
| "valid_object env (AdmitRepository r) \<longleftrightarrow> (let hook = rs_Webhook (repo_Spec r) in
     wh_Enabled hook \<longrightarrow> rskr_Name (wh_SecretRef hook) \<noteq> '''' \<and> rskr_Key (wh_SecretRef hook) \<noteq> '''')"
| "valid_object env (AdmitPipelineTemplate t) \<longleftrightarrow>
     (sec_AllowPrivileged (pts_Security (pt_Spec t)) \<longrightarrow> meta_Annotations (pt_Meta t) AllowPrivilegedAnnotation = Some ''true'')
     \<and> (pts_Steps (pt_Spec t) \<noteq> [] \<or> bld_Enabled (pts_Build (pt_Spec t)))"
| "valid_object env (AdmitBuildRun b) \<longleftrightarrow> (let g = brs_GitOps (br_Spec b) in
     bg_Enabled g \<longrightarrow> bg_Strategy g \<noteq> GitOpsStrategyUnset \<and> bg_EnvironmentRef g \<noteq> '''' \<and> bg_RepoURL g \<noteq> '''')"
| "valid_object env (AdmitEnvironment e) \<longleftrightarrow> (es_Type (env_Spec e) = EnvironmentTypeProduction \<longrightarrow> es_RequiresApproval (env_Spec e))"
| "valid_object env (AdmitRelease r) \<longleftrightarrow> release_valid env r"
| "valid_object env (AdmitOther t) \<longleftrightarrow> False"

definition environment_answer :: "'w environment_reader option \<Rightarrow> admission_object \<Rightarrow> 'w \<Rightarrow> Environment result option" where
  "environment_answer reader obj w = (case (reader, obj) of
     (Some get, AdmitRelease r) \<Rightarrow>
       Some (fst (get \<lparr>key_Namespace = meta_Namespace (rel_Meta r), key_Name = rls_EnvironmentRef (rel_Spec r)\<rparr> w))
   | _ \<Rightarrow> None)"

lemma default_string_idem [simp]: "default_string d (default_string d v) = default_string d v"
  and default_string_set: "d \<noteq> '''' \<Longrightarrow> default_string d v \<noteq> ''''"
  by (simp_all add: default_string_def)

lemma default_build_idem [simp]: "default_build (default_build bld) = default_build bld"
  and default_security_idem [simp]: "default_security (default_security sec) = default_security sec"
  by (simp_all add: default_build_def default_security_def)

lemma validate_exact:
  "wp (validate reader obj) (\<lambda>r t. r = Inr () \<longleftrightarrow> valid_object (environment_answer reader obj (ext s)) obj) s"
proof (cases obj)
  case (AdmitRelease r)
  then show ?thesis
    by (auto simp: validate_release_def environment_answer_def release_valid_def wp_simps split: option.split sum.split)
next
  case (AdmitPipelineTemplate t)
  then show ?thesis
    by (auto simp: validate_template_def wp_simps map_index_def split: option.splits)
qed (auto simp: validate_gitops_def wp_simps Let_def)


text \<open>What an update lets through is valid as well; deleting is always let through.\<close>

lemma ValidateUpdate_exact:
  "wp (ValidateUpdate reader old obj) (\<lambda>r t. r = Inr () \<longleftrightarrow> valid_object (environment_answer reader obj (ext s)) obj) s"
  and ValidateDelete_ok: "wp (ValidateDelete reader obj) (\<lambda>r t. r = Inr ()) s"
  by (simp_all only: ValidateUpdate_def validate_exact) (simp add: ValidateDelete_def ok_def wp_return)

end
