(* ===== verification/ProjectController.thy ===== *)
theory ProjectController
  imports ReleaseController
begin

text \<open>
  \<open>internal/controller/project_controller.go\<close>: the namespace of a project and what isolates it. The Kubernetes client and
  \<open>controllerutil.CreateOrUpdate\<close> are arguments.
\<close>

section \<open>Resources\<close>

record Namespace =
  ns_Meta :: ObjectMeta

record ServiceAccount =
  sa_Meta :: ObjectMeta

record PolicyRule =
  pr_APIGroups :: "string list"
  pr_Resources :: "string list"
  pr_Verbs :: "string list"

record rbac_Role =
  role_Meta :: ObjectMeta
  role_Rules :: "PolicyRule list"

record Subject =
  sub_Kind :: string
  sub_Name :: string
  sub_Namespace :: string

record RoleRef =
  rr_APIGroup :: string
  rr_Kind :: string
  rr_Name :: string

record RoleBinding =
  rb_Meta :: ObjectMeta
  rb_Subjects :: "Subject list"
  rb_RoleRef :: RoleRef

datatype PolicyType = PolicyTypeIngress | PolicyTypeEgress

text \<open>The labels of the pods it selects, the directions it restricts, and the rules that let traffic through (by their text).\<close>

record NetworkPolicySpec =
  nps_PodSelector :: strmap
  nps_PolicyTypes :: "PolicyType list"
  nps_Ingress :: "string list"
  nps_Egress :: "string list"

record NetworkPolicy =
  np_Meta :: ObjectMeta
  np_Spec :: NetworkPolicySpec

datatype project_effect =
    NamespaceWritten Namespace
  | ServiceAccountWritten ServiceAccount
  | RoleWritten rbac_Role
  | RoleBindingWritten RoleBinding
  | NetworkPolicyWritten NetworkPolicy
  | ProjectStatusUpdate Project

type_synonym ('w, 'a) pj_io = "('w, project_effect, 'a) io"

type_synonym ('w, 'o) create_or_update = "'o \<Rightarrow> ('o \<Rightarrow> 'o) \<Rightarrow> ('w, unit result) pj_io"

record 'w project_deps =
  pjd_GetProject :: "NamespacedName \<Rightarrow> 'w \<Rightarrow> Project result \<times> 'w"
  pjd_StatusUpdate :: "Project \<Rightarrow> 'w \<Rightarrow> Project result \<times> 'w"
  pjd_Retry :: "('w, Project result) pj_io \<Rightarrow> ('w, Project result) pj_io"
  pjd_Now :: "'w \<Rightarrow> gotime \<times> 'w"
  pjd_Namespace :: "('w, Namespace) create_or_update"
  pjd_ServiceAccount :: "('w, ServiceAccount) create_or_update"
  pjd_Role :: "('w, rbac_Role) create_or_update"
  pjd_RoleBinding :: "('w, RoleBinding) create_or_update"
  pjd_NetworkPolicy :: "('w, NetworkPolicy) create_or_update"
  pjd_APIServiceAccountName :: string
  pjd_APIServiceAccountNamespace :: string
  pjd_APIProjectRoleName :: string


section \<open>Names, labels and rules\<close>

definition projectRunnerServiceAccount :: string where "projectRunnerServiceAccount = ''cloudivision-runner''"
definition runnerRoleName :: string where "runnerRoleName = ''cloudivision-runner''"
definition apiProjectRoleName :: string where "apiProjectRoleName = ''cloudivision-api-access''"
definition defaultDenyNetworkPolicy :: string where "defaultDenyNetworkPolicy = ''cloudivision-default-deny''"
definition egressAllowListPolicy :: string where "egressAllowListPolicy = ''cloudivision-egress-allow-list''"
definition projectDriftRequeue :: duration where "projectDriftRequeue = seconds 300"

definition runnerServiceAccountName :: "Project \<Rightarrow> string" where
  "runnerServiceAccountName project =
     (if prs_ServiceAccountName (proj_Spec project) \<noteq> '''' then prs_ServiceAccountName (proj_Spec project)
      else projectRunnerServiceAccount)"

definition runnerPolicyRules :: "PolicyRule list" where
  "runnerPolicyRules =
     [\<lparr>pr_APIGroups = [''cicd.cloudivision.io''], pr_Resources = [''buildruns''],
        pr_Verbs = [''get'', ''list'', ''watch'', ''update'', ''patch'']\<rparr>,
      \<lparr>pr_APIGroups = [''cicd.cloudivision.io''], pr_Resources = [''buildruns/status''],
        pr_Verbs = [''get'', ''update'', ''patch'']\<rparr>,
      \<lparr>pr_APIGroups = [''cicd.cloudivision.io''], pr_Resources = [''repositories'', ''pipelinetemplates''],
        pr_Verbs = [''get'']\<rparr>,
      \<lparr>pr_APIGroups = [''''], pr_Resources = [''events''], pr_Verbs = [''create'', ''update'', ''patch'']\<rparr>]"

definition managedLabels :: "Project \<Rightarrow> strmap" where
  "managedLabels project =
     [''app.kubernetes.io/managed-by'' \<mapsto> ''cloudivision'', ''cloudivision.io/project'' \<mapsto> meta_Name (proj_Meta project)]"

definition mergeLabels :: "strmap \<Rightarrow> strmap \<Rightarrow> strmap" where
  "mergeLabels existing desired = existing ++ desired"

definition labelled :: "Project \<Rightarrow> ObjectMeta \<Rightarrow> ObjectMeta" where
  "labelled project m = m\<lparr>meta_Labels := mergeLabels (meta_Labels m) (managedLabels project)\<rparr>"

definition named :: "string \<Rightarrow> string \<Rightarrow> ObjectMeta" where
  "named ns name = ObjectMeta_zero\<lparr>meta_Namespace := ns, meta_Name := name\<rparr>"

fun pod_security_string :: "PodSecurityLevel \<Rightarrow> string" where
  "pod_security_string PodSecurityLevelUnset = ''''"
| "pod_security_string PodSecurityLevelBaseline = ''baseline''"
| "pod_security_string PodSecurityLevelRestricted = ''restricted''"


section \<open>Ensuring the resources\<close>

definition namespace_labels :: "Project \<Rightarrow> strmap \<Rightarrow> strmap" where
  "namespace_labels project labels =
     (let labels = labels(''app.kubernetes.io/managed-by'' \<mapsto> ''cloudivision'', ''cloudivision.io/project'' \<mapsto> meta_Name (proj_Meta project));
          level = iso_PodSecurityLevel (prs_Isolation (proj_Spec project)) in
      if level = PodSecurityLevelUnset then labels
      else labels(''pod-security.kubernetes.io/enforce'' \<mapsto> pod_security_string level,
                  ''pod-security.kubernetes.io/audit'' \<mapsto> pod_security_string level,
                  ''pod-security.kubernetes.io/warn'' \<mapsto> pod_security_string level))"

definition ensureNamespace :: "'w project_deps \<Rightarrow> Project \<Rightarrow> ('w, unit result) pj_io" where
  "ensureNamespace d project = (let name = prs_Namespace (proj_Spec project) in
     wrap (''ensure Namespace '' @ name)
       (pjd_Namespace d \<lparr>ns_Meta = named '''' name\<rparr>
          (\<lambda>n. n\<lparr>ns_Meta := (ns_Meta n)\<lparr>meta_Labels := namespace_labels project (meta_Labels (ns_Meta n))\<rparr>\<rparr>)))"

definition ensureRunnerRBAC :: "'w project_deps \<Rightarrow> Project \<Rightarrow> ('w, unit result) pj_io" where
  "ensureRunnerRBAC d project = (let ns = prs_Namespace (proj_Spec project); account = runnerServiceAccountName project in
     check (wrap (''ensure runner ServiceAccount '' @ ns @ ''/'' @ account)
       (pjd_ServiceAccount d \<lparr>sa_Meta = named ns account\<rparr> (\<lambda>a. a\<lparr>sa_Meta := labelled project (sa_Meta a)\<rparr>))) (\<lambda>_.
     check (wrap (''ensure runner Role '' @ ns @ ''/'' @ runnerRoleName)
       (pjd_Role d \<lparr>role_Meta = named ns runnerRoleName, role_Rules = []\<rparr>
          (\<lambda>r. r\<lparr>role_Meta := labelled project (role_Meta r), role_Rules := runnerPolicyRules\<rparr>))) (\<lambda>_.
     wrap (''ensure runner RoleBinding '' @ ns @ ''/'' @ runnerRoleName)
       (pjd_RoleBinding d \<lparr>rb_Meta = named ns runnerRoleName, rb_Subjects = [],
            rb_RoleRef = \<lparr>rr_APIGroup = '''', rr_Kind = '''', rr_Name = ''''\<rparr>\<rparr>
          (\<lambda>b. b\<lparr>rb_Meta := labelled project (rb_Meta b),
             rb_Subjects := [\<lparr>sub_Kind = ''ServiceAccount'', sub_Name = account, sub_Namespace = ns\<rparr>],
             rb_RoleRef := \<lparr>rr_APIGroup = ''rbac.authorization.k8s.io'', rr_Kind = ''Role'', rr_Name = runnerRoleName\<rparr>\<rparr>)))))"

definition ensureAPIRBAC :: "'w project_deps \<Rightarrow> Project \<Rightarrow> ('w, unit result) pj_io" where
  "ensureAPIRBAC d project = (let ns = prs_Namespace (proj_Spec project) in
     if pjd_APIServiceAccountName d = '''' \<or> pjd_APIServiceAccountNamespace d = '''' \<or> pjd_APIProjectRoleName d = '''' then ok ()
     else wrap (''ensure API RoleBinding '' @ ns @ ''/'' @ apiProjectRoleName)
       (pjd_RoleBinding d \<lparr>rb_Meta = named ns apiProjectRoleName, rb_Subjects = [],
            rb_RoleRef = \<lparr>rr_APIGroup = '''', rr_Kind = '''', rr_Name = ''''\<rparr>\<rparr>
          (\<lambda>b. b\<lparr>rb_Meta := labelled project (rb_Meta b),
             rb_Subjects := [\<lparr>sub_Kind = ''ServiceAccount'', sub_Name = pjd_APIServiceAccountName d,
               sub_Namespace = pjd_APIServiceAccountNamespace d\<rparr>],
             rb_RoleRef := \<lparr>rr_APIGroup = ''rbac.authorization.k8s.io'', rr_Kind = ''ClusterRole'',
               rr_Name = pjd_APIProjectRoleName d\<rparr>\<rparr>)))"

definition denying :: "PolicyType list \<Rightarrow> NetworkPolicySpec" where
  "denying types = \<lparr>nps_PodSelector = Map.empty, nps_PolicyTypes = types, nps_Ingress = [], nps_Egress = []\<rparr>"

definition extension_note :: string where
  "extension_note = ''Project.spec currently has no CIDR/DNS allow-list fields; extend ProjectIsolation before opening egress.''"

definition ensureNetworkPolicy :: "'w project_deps \<Rightarrow> Project \<Rightarrow> ('w, unit result) pj_io" where
  "ensureNetworkPolicy d project = (let ns = prs_Namespace (proj_Spec project) in
     case iso_NetworkPolicyMode (prs_Isolation (proj_Spec project)) of
       NetworkPolicyModeDefaultDeny \<Rightarrow>
         wrap (''ensure default deny NetworkPolicy '' @ ns @ ''/'' @ defaultDenyNetworkPolicy)
           (pjd_NetworkPolicy d \<lparr>np_Meta = named ns defaultDenyNetworkPolicy, np_Spec = denying []\<rparr>
              (\<lambda>p. p\<lparr>np_Meta := labelled project (np_Meta p), np_Spec := denying [PolicyTypeIngress, PolicyTypeEgress]\<rparr>))
     | NetworkPolicyModeEgressAllowList \<Rightarrow>
         wrap (''ensure egress allow-list NetworkPolicy skeleton '' @ ns @ ''/'' @ egressAllowListPolicy)
           (pjd_NetworkPolicy d \<lparr>np_Meta = named ns egressAllowListPolicy, np_Spec = denying []\<rparr>
              (\<lambda>p. p\<lparr>np_Meta := (labelled project (np_Meta p))\<lparr>meta_Annotations :=
                   (meta_Annotations (np_Meta p))(''cloudivision.io/egress-allow-list-extension'' \<mapsto> extension_note)\<rparr>,
                 np_Spec := denying [PolicyTypeEgress]\<rparr>))
     | _ \<Rightarrow> ok ())"


section \<open>Reporting\<close>

definition project_note :: "gotime \<Rightarrow> Project \<Rightarrow> Condition \<Rightarrow> Condition list" where
  "project_note now project c = SetCondition now (prst_Conditions (proj_Status project)) c"

definition ready_project :: "gotime \<Rightarrow> Project \<Rightarrow> Project" where
  "ready_project now project = (let gen = meta_Generation (proj_Meta project) in
     project\<lparr>proj_Status := (proj_Status project)\<lparr>prst_Phase := ProjectPhaseReady, prst_NamespaceReady := True,
       prst_ObservedGeneration := gen,
       prst_Conditions := project_note now project
         (mk_condition ConditionReady ConditionTrue gen ''ProjectReady'' ''Project isolation resources are ready.'' 0)\<rparr>\<rparr>)"

definition failed_project :: "gotime \<Rightarrow> go_error \<Rightarrow> Project \<Rightarrow> Project" where
  "failed_project now err project = (let gen = meta_Generation (proj_Meta project) in
     project\<lparr>proj_Status := (proj_Status project)\<lparr>prst_Phase := ProjectPhaseError, prst_ObservedGeneration := gen,
       prst_Conditions := project_note now project
         (mk_condition ConditionFailed ConditionTrue gen ''ReconcileFailed'' (err_text err) 0)\<rparr>\<rparr>)"

definition project_status_write :: "'w project_deps \<Rightarrow> Project \<Rightarrow> ('w, Project result) pj_io" where
  "project_status_write d project =
     UpdateStatusWithRetry (pjd_Retry d) (pjd_GetProject d) (pjd_StatusUpdate d) project_ops ProjectStatusUpdate project"

definition markProjectReady :: "'w project_deps \<Rightarrow> Project \<Rightarrow> ('w, unit result) pj_io" where
  "markProjectReady d project = (let st = proj_Status project; gen = meta_Generation (proj_Meta project) in
     if prst_Phase st = ProjectPhaseReady \<and> prst_NamespaceReady st \<and> prst_ObservedGeneration st = gen
        \<and> conditionCurrent (prst_Conditions st) ConditionReady gen
     then ok ()
     else do {
       now \<leftarrow> query (pjd_Now d);
       check (wrap ''update Project status'' (project_status_write d (ready_project now project))) (\<lambda>_. ok ())
     })"

definition markProjectError :: "'w project_deps \<Rightarrow> Project \<Rightarrow> go_error \<Rightarrow> ('w, 'a result) pj_io" where
  "markProjectError d project err = do {
     now \<leftarrow> query (pjd_Now d);
     r \<leftarrow> project_status_write d (failed_project now err project);
     case r of
       Inl updateErr \<Rightarrow> fail (errorf_w (''update Project error status after '' @ err_text err) updateErr)
     | Inr _ \<Rightarrow> fail err
   }"

definition or_project_error ::
  "'w project_deps \<Rightarrow> Project \<Rightarrow> ('w, unit result) pj_io \<Rightarrow> ('w, 'a result) pj_io \<Rightarrow> ('w, 'a result) pj_io" where
  "or_project_error d project m k = do {
     r \<leftarrow> m;
     case r of Inl err \<Rightarrow> markProjectError d project err | Inr _ \<Rightarrow> k
   }"

definition reconcile_project :: "'w project_deps \<Rightarrow> NamespacedName \<Rightarrow> ('w, ReconcileResult result) pj_io" where
  "reconcile_project d req = do {
     r \<leftarrow> query (pjd_GetProject d req);
     case r of
       Inl err \<Rightarrow> if errors_Is err NotFound then ok Result_zero else fail (errorf_w (''get Project '' @ key_String req) err)
     | Inr project \<Rightarrow>
         or_project_error d project
           (if iso_CreateNamespace (prs_Isolation (proj_Spec project)) then ensureNamespace d project else ok ())
         (or_project_error d project (ensureRunnerRBAC d project)
         (or_project_error d project (ensureAPIRBAC d project)
         (or_project_error d project (ensureNetworkPolicy d project)
         (check (markProjectReady d project) (\<lambda>_. ok (Result_zero\<lparr>RequeueAfter := projectDriftRequeue\<rparr>))))))
   }"


section \<open>What isolates a project\<close>

text \<open>
  The documented behaviour of \<open>controllerutil.CreateOrUpdate\<close>: whatever it writes is the object of the given kind, namespace and name,
  the one it was given or the one in the cluster, changed by the given function.
\<close>

definition writes_changed :: "('o \<Rightarrow> project_effect) \<Rightarrow> ('o \<Rightarrow> ObjectMeta) \<Rightarrow> ('w, 'o) create_or_update \<Rightarrow> bool" where
  "writes_changed written meta cou \<longleftrightarrow> (\<forall>obj f. only {written (f o') |o'. object_key (meta o') = object_key (meta obj)} (cou obj f))"

definition project_client_spec :: "'w project_deps \<Rightarrow> bool" where
  "project_client_spec d \<longleftrightarrow> retry_spec (pjd_Retry d)
     \<and> writes_changed NamespaceWritten ns_Meta (pjd_Namespace d)
     \<and> writes_changed ServiceAccountWritten sa_Meta (pjd_ServiceAccount d)
     \<and> writes_changed RoleWritten role_Meta (pjd_Role d)
     \<and> writes_changed RoleBindingWritten rb_Meta (pjd_RoleBinding d)
     \<and> writes_changed NetworkPolicyWritten np_Meta (pjd_NetworkPolicy d)"

text \<open>What the controller may write for a project.\<close>

fun isolating :: "'w project_deps \<Rightarrow> Project \<Rightarrow> project_effect \<Rightarrow> bool" where
  "isolating d p (NamespaceWritten n) \<longleftrightarrow> iso_CreateNamespace (prs_Isolation (proj_Spec p))
     \<and> meta_Name (ns_Meta n) = prs_Namespace (proj_Spec p)
     \<and> (iso_PodSecurityLevel (prs_Isolation (proj_Spec p)) \<noteq> PodSecurityLevelUnset \<longrightarrow>
          meta_Labels (ns_Meta n) ''pod-security.kubernetes.io/enforce''
            = Some (pod_security_string (iso_PodSecurityLevel (prs_Isolation (proj_Spec p)))))"
| "isolating d p (ServiceAccountWritten a) \<longleftrightarrow>
     object_key (sa_Meta a) = \<lparr>key_Namespace = prs_Namespace (proj_Spec p), key_Name = runnerServiceAccountName p\<rparr>"
| "isolating d p (RoleWritten r) \<longleftrightarrow>
     object_key (role_Meta r) = \<lparr>key_Namespace = prs_Namespace (proj_Spec p), key_Name = runnerRoleName\<rparr>
     \<and> role_Rules r = runnerPolicyRules"
| "isolating d p (RoleBindingWritten b) \<longleftrightarrow> meta_Namespace (rb_Meta b) = prs_Namespace (proj_Spec p)
     \<and> (meta_Name (rb_Meta b) = runnerRoleName
          \<and> map (\<lambda>x. (sub_Namespace x, sub_Name x)) (rb_Subjects b) = [(prs_Namespace (proj_Spec p), runnerServiceAccountName p)]
          \<and> rr_Kind (rb_RoleRef b) = ''Role'' \<and> rr_Name (rb_RoleRef b) = runnerRoleName
        \<or> meta_Name (rb_Meta b) = apiProjectRoleName
          \<and> map (\<lambda>x. (sub_Namespace x, sub_Name x)) (rb_Subjects b) = [(pjd_APIServiceAccountNamespace d, pjd_APIServiceAccountName d)]
          \<and> pjd_APIServiceAccountName d \<noteq> ''''
          \<and> rr_Kind (rb_RoleRef b) = ''ClusterRole'' \<and> rr_Name (rb_RoleRef b) = pjd_APIProjectRoleName d)"
| "isolating d p (NetworkPolicyWritten n) \<longleftrightarrow> meta_Namespace (np_Meta n) = prs_Namespace (proj_Spec p)
     \<and> nps_PodSelector (np_Spec n) = Map.empty \<and> nps_Ingress (np_Spec n) = [] \<and> nps_Egress (np_Spec n) = []
     \<and> PolicyTypeEgress \<in> set (nps_PolicyTypes (np_Spec n))
     \<and> (iso_NetworkPolicyMode (prs_Isolation (proj_Spec p)) = NetworkPolicyModeDefaultDeny \<longrightarrow>
          PolicyTypeIngress \<in> set (nps_PolicyTypes (np_Spec n)))"
| "isolating d p (ProjectStatusUpdate sent) \<longleftrightarrow> True"

lemma object_key_eq: "object_key m = object_key n \<longleftrightarrow> meta_Namespace m = meta_Namespace n \<and> meta_Name m = meta_Name n"
  by (auto simp: object_key_def)

lemma named_fields [simp]: "meta_Namespace (named ns name) = ns" "meta_Name (named ns name) = name"
  "object_key (labelled project m) = object_key m" "meta_Namespace (labelled project m) = meta_Namespace m"
  "meta_Name (labelled project m) = meta_Name m"
  by (simp_all add: named_def labelled_def object_key_def)

lemma only_written:
  assumes "writes_changed written meta cou" and "\<And>o'. object_key (meta o') = object_key (meta obj) \<Longrightarrow> written (f o') \<in> E"
  shows "only E (wrap txt (cou obj f))"
  using assms by (intro only_wrap) (auto simp: writes_changed_def intro: only_mono)

lemma ensureNamespace_isolates:
  assumes "project_client_spec d" and "iso_CreateNamespace (prs_Isolation (proj_Spec p))"
  shows "only (Collect (isolating d p)) (ensureNamespace d p)"
proof -
  have "writes_changed NamespaceWritten ns_Meta (pjd_Namespace d)" using assms(1) by (simp add: project_client_spec_def)
  then show ?thesis unfolding ensureNamespace_def Let_def
    by (rule only_written) (use assms(2) in \<open>auto simp: object_key_eq namespace_labels_def Let_def\<close>)
qed

lemma ensureRunnerRBAC_isolates:
  assumes "project_client_spec d"
  shows "only (Collect (isolating d p)) (ensureRunnerRBAC d p)"
proof -
  have w: "writes_changed ServiceAccountWritten sa_Meta (pjd_ServiceAccount d)" "writes_changed RoleWritten role_Meta (pjd_Role d)"
    "writes_changed RoleBindingWritten rb_Meta (pjd_RoleBinding d)" using assms by (simp_all add: project_client_spec_def)
  show ?thesis unfolding ensureRunnerRBAC_def Let_def
    by (intro only_check only_written [OF w(1)] only_written [OF w(2)] only_written [OF w(3)])
      (auto simp: object_key_eq object_key_def)
qed

lemma ensureAPIRBAC_isolates:
  assumes "project_client_spec d"
  shows "only (Collect (isolating d p)) (ensureAPIRBAC d p)"
proof -
  have w: "writes_changed RoleBindingWritten rb_Meta (pjd_RoleBinding d)" using assms by (simp add: project_client_spec_def)
  show ?thesis unfolding ensureAPIRBAC_def Let_def
    by (intro only_if only_ok only_written [OF w]) (auto simp: object_key_eq)
qed

lemma ensureNetworkPolicy_isolates:
  assumes "project_client_spec d"
  shows "only (Collect (isolating d p)) (ensureNetworkPolicy d p)"
proof -
  have w: "writes_changed NetworkPolicyWritten np_Meta (pjd_NetworkPolicy d)" using assms by (simp add: project_client_spec_def)
  show ?thesis
    by (cases "iso_NetworkPolicyMode (prs_Isolation (proj_Spec p))")
      (auto simp: ensureNetworkPolicy_def Let_def denying_def object_key_eq intro!: only_ok only_written [OF w])
qed

lemma only_project_status: "project_client_spec d \<Longrightarrow> only (Collect (isolating d p)) (project_status_write d q)"
  unfolding project_status_write_def by (rule only_UpdateStatusWithRetry) (simp_all add: project_client_spec_def)

lemma only_markProjectError: "project_client_spec d \<Longrightarrow> only (Collect (isolating d p)) (markProjectError d q err)"
  unfolding markProjectError_def by (intro only_bind only_query only_project_status only_sum only_fail)

lemma only_or_project_error:
  "project_client_spec d \<Longrightarrow> only (Collect (isolating d p)) m \<Longrightarrow> only (Collect (isolating d p)) k
    \<Longrightarrow> only (Collect (isolating d p)) (or_project_error d q m k)"
  unfolding or_project_error_def by (intro only_bind only_sum only_markProjectError)

lemma only_markProjectReady: "project_client_spec d \<Longrightarrow> only (Collect (isolating d p)) (markProjectReady d q)"
  unfolding markProjectReady_def Let_def by (intro only_if only_ok only_bind only_query only_check only_wrap only_project_status)

text \<open>What the runner's role grants.\<close>

definition runner_may :: "string \<Rightarrow> string \<Rightarrow> string \<Rightarrow> bool" where
  "runner_may api resource verb \<longleftrightarrow> (\<exists>rule \<in> set runnerPolicyRules.
     api \<in> set (pr_APIGroups rule) \<and> resource \<in> set (pr_Resources rule) \<and> verb \<in> set (pr_Verbs rule))"

lemma runner_may_iff: "runner_may api resource verb \<longleftrightarrow>
     api = ''cicd.cloudivision.io'' \<and> (resource = ''buildruns'' \<and> verb \<in> {''get'', ''list'', ''watch'', ''update'', ''patch''}
        \<or> resource = ''buildruns/status'' \<and> verb \<in> {''get'', ''update'', ''patch''}
        \<or> resource \<in> {''repositories'', ''pipelinetemplates''} \<and> verb = ''get'')
     \<or> api = '''' \<and> resource = ''events'' \<and> verb \<in> {''create'', ''update'', ''patch''}"
  by (auto simp: runner_may_def runnerPolicyRules_def)

text \<open>
  C39: Reconciling a project writes nothing but what isolates this project: its namespace, only if it asks for one and then with
  the pod security level it names; in that namespace, the runner's service account, a role with the fixed rules, a binding of this
  role to this account alone, the binding for the API where it is configured, and a network policy for all pods without
  any exception; and the project's status. The rules let the runner read and report its build runs, read repositories and
  templates and write events: no secrets, no pods, nothing to be deleted.
\<close>

theorem reconcile_project_isolates:
  assumes "project_client_spec d"
  shows "only {e. \<exists>u p. fst (pjd_GetProject d req u) = Inr p \<and> isolating d p e} (reconcile_project d req)
    \<and> (runner_may api resource verb \<longleftrightarrow>
         api = ''cicd.cloudivision.io'' \<and> (resource = ''buildruns'' \<and> verb \<in> {''get'', ''list'', ''watch'', ''update'', ''patch''}
            \<or> resource = ''buildruns/status'' \<and> verb \<in> {''get'', ''update'', ''patch''}
            \<or> resource \<in> {''repositories'', ''pipelinetemplates''} \<and> verb = ''get'')
         \<or> api = '''' \<and> resource = ''events'' \<and> verb \<in> {''create'', ''update'', ''patch''})"
proof
  have run: "only (Collect (isolating d p)) (or_project_error d p
           (if iso_CreateNamespace (prs_Isolation (proj_Spec p)) then ensureNamespace d p else ok ())
         (or_project_error d p (ensureRunnerRBAC d p)
         (or_project_error d p (ensureAPIRBAC d p)
         (or_project_error d p (ensureNetworkPolicy d p)
         (check (markProjectReady d p) (\<lambda>_. ok (Result_zero\<lparr>RequeueAfter := projectDriftRequeue\<rparr>)))))))" for p
    by (intro only_or_project_error only_if only_ok only_check only_markProjectReady assms
        ensureNamespace_isolates ensureRunnerRBAC_isolates ensureAPIRBAC_isolates ensureNetworkPolicy_isolates)
  show "only {e. \<exists>u p. fst (pjd_GetProject d req u) = Inr p \<and> isolating d p e} (reconcile_project d req)"
    unfolding reconcile_project_def
  proof (rule only_bind_query, goal_cases)
    case (1 u)
    show ?case
    proof (cases "fst (pjd_GetProject d req u)")
      case (Inr p)
      then have "Collect (isolating d p) \<subseteq> {e. \<exists>u p. fst (pjd_GetProject d req u) = Inr p \<and> isolating d p e}" by blast
      with Inr show ?thesis using only_mono [OF run] by simp
    qed (auto intro!: only_intros)
  qed
qed (rule runner_may_iff)

definition writes_new :: "('o \<Rightarrow> project_effect) \<Rightarrow> (unit, 'o) create_or_update" where
  "writes_new written obj f = call (written (f obj)) (\<lambda>w. (Inr (), w))"

lemma writes_changed_new: "writes_changed written meta (writes_new written)"
  by (auto simp: writes_changed_def writes_new_def intro!: only_call)

definition sample_project :: Project where
  "sample_project = Project_zero\<lparr>proj_Spec := (proj_Spec Project_zero)\<lparr>prs_Namespace := ''shop'',
     prs_Isolation := (prs_Isolation (proj_Spec Project_zero))\<lparr>iso_NetworkPolicyMode := NetworkPolicyModeDefaultDeny\<rparr>\<rparr>\<rparr>"

definition sample_project_deps :: "unit project_deps" where
  "sample_project_deps = \<lparr>pjd_GetProject = (\<lambda>key w. (Inr sample_project, w)), pjd_StatusUpdate = (\<lambda>p w. (Inr p, w)),
     pjd_Retry = attempts 5, pjd_Now = (\<lambda>w. (7, w)), pjd_Namespace = writes_new NamespaceWritten,
     pjd_ServiceAccount = writes_new ServiceAccountWritten, pjd_Role = writes_new RoleWritten,
     pjd_RoleBinding = writes_new RoleBindingWritten, pjd_NetworkPolicy = writes_new NetworkPolicyWritten,
     pjd_APIServiceAccountName = ''api'', pjd_APIServiceAccountNamespace = ''system'', pjd_APIProjectRoleName = ''api-project''\<rparr>"

theorem reconcile_project_isolates_witness:
  "only {e. isolating sample_project_deps sample_project e} (reconcile_project sample_project_deps \<lparr>key_Namespace = [], key_Name = ''shop''\<rparr>)
   \<and> \<not> runner_may [] ''secrets'' ''get''"
proof -
  have spec: "project_client_spec sample_project_deps"
    by (simp add: project_client_spec_def sample_project_deps_def writes_changed_new retry_spec_attempts)
  have get: "fst (pjd_GetProject sample_project_deps key u) = Inr sample_project" for key u
    by (simp add: sample_project_deps_def)
  note r = reconcile_project_isolates [OF spec, of "\<lparr>key_Namespace = [], key_Name = ''shop''\<rparr>" "[]" "''secrets''" "''get''"]
  show ?thesis using r by (simp add: get)
qed

text \<open>
  Ready and failed are never told apart by the conditions: each mark leaves the other condition as it is.
\<close>

lemma project_marks_leave_condition:
  "cond_of (prst_Conditions (proj_Status (failed_project now err p))) ConditionReady = cond_of (prst_Conditions (proj_Status p)) ConditionReady"
  "cond_of (prst_Conditions (proj_Status (ready_project now p))) ConditionFailed = cond_of (prst_Conditions (proj_Status p)) ConditionFailed"
  by (simp_all add: failed_project_def ready_project_def project_note_def Let_def cond_of_SetCondition condition_types)

end
