(* ===== verification/TektonExecutor.thy ===== *)
theory TektonExecutor
  imports Executors GitOpsStatus
begin

text \<open>
  \<open>internal/executor/tekton/executor.go\<close>: the executor that turns a build run into a Tekton PipelineRun. The Kubernetes client is
  an argument; an unstructured object is a tree of decoded values, and what \<open>SetControllerReference\<close> adds is its text.
\<close>

section \<open>The PipelineRun\<close>

datatype tekton_effect = PipelineRunCreated yaml_map | PipelineRunUpdated yaml_map

record 'w tekton_deps =
  tk_GetRun :: "NamespacedName \<Rightarrow> 'w \<Rightarrow> yaml_map result \<times> 'w"
  tk_Create :: "yaml_map \<Rightarrow> 'w \<Rightarrow> go_error option \<times> 'w"
  tk_Update :: "yaml_map \<Rightarrow> 'w \<Rightarrow> go_error option \<times> 'w"
  tk_SetControllerReference :: "BuildRun \<Rightarrow> yaml_map \<Rightarrow> string result"

type_synonym ('w, 'a) tekton_io = "('w, tekton_effect, 'a) io"

definition dashed :: "string \<Rightarrow> string" where
  "dashed s = map (\<lambda>c. if c = CHR ''_'' \<or> c = CHR ''.'' then CHR ''-'' else c) s"

definition tekton_NameForBuildRun :: "string \<Rightarrow> string" where
  "tekton_NameForBuildRun buildRunName = label_prefix (dashed (ToLower buildRunName @ ''-pipelinerun''))"

definition sanitizeName :: "string \<Rightarrow> string" where
  "sanitizeName v = label_prefix (Trim (dashed (ToLower v)) ''-'')"

fun builderImage :: "BuildBuilder \<Rightarrow> string" where
  "builderImage BuildBuilderBuildah = ''quay.io/buildah/stable:latest''"
| "builderImage BuildBuilderBuildKit = ''moby/buildkit:rootless''"
| "builderImage _ = ''busybox:1.36''"

definition name_value :: "string \<Rightarrow> string \<Rightarrow> yaml_value" where
  "name_value name v = YMap [''name'' \<mapsto> YString name, ''value'' \<mapsto> YString v]"

definition string_param :: "string \<Rightarrow> yaml_value" where
  "string_param name = YMap [''name'' \<mapsto> YString name, ''type'' \<mapsto> YString ''string'']"

definition pipelineRun :: yaml_map where
  "pipelineRun = [''apiVersion'' \<mapsto> YString ''tekton.dev/v1'', ''kind'' \<mapsto> YString ''PipelineRun'']"

definition set_unless :: "bool \<Rightarrow> string \<Rightarrow> yaml_value \<Rightarrow> yaml_map \<Rightarrow> yaml_map" where
  "set_unless absent key v m = (if absent then m else m(key \<mapsto> v))"

definition tektonStep :: "PipelineStep \<Rightarrow> yaml_map" where
  "tektonStep step =
     set_unless (step_Env step = []) ''env'' (YList (map (\<lambda>item. name_value (ev_Name item) (ev_Value item)) (step_Env step)))
      (set_unless (step_WorkingDir step = '''') ''workingDir'' (YString (step_WorkingDir step))
        (set_unless (step_Args step = []) ''args'' (YList (map YString (step_Args step)))
          (set_unless (step_Command step = []) ''command'' (YList (map YString (step_Command step)))
            [''name'' \<mapsto> YString (sanitizeName (step_Name step)), ''image'' \<mapsto> YString (step_Image step)])))"

definition run_after :: "string \<Rightarrow> yaml_map \<Rightarrow> yaml_map" where
  "run_after previous task = set_unless (previous = '''') ''runAfter'' (YList [YString previous]) task"

definition task_name :: "nat \<Rightarrow> PipelineStep \<Rightarrow> string" where
  "task_name i step = (let name = sanitizeName (step_Name step) in
     if name = '''' then ''step-'' @ Itoa (int i + 1) else name)"

definition task_spec :: "PipelineStep \<Rightarrow> yaml_value" where
  "task_spec step = YMap [''steps'' \<mapsto> YList [YMap (tektonStep step)]]"

fun step_tasks :: "string \<Rightarrow> nat \<Rightarrow> PipelineStep list \<Rightarrow> yaml_map list \<times> string" where
  "step_tasks previous i [] = ([], previous)"
| "step_tasks previous i (step # steps) =
     (let name = task_name i step;
          task = run_after previous [''name'' \<mapsto> YString name, ''taskSpec'' \<mapsto> task_spec step] in
      case step_tasks name (Suc i) steps of (tasks, last_name) \<Rightarrow> (task # tasks, last_name))"

definition build_script :: string where
  "build_script = ''#!/bin/sh'' @ [CHR 0x0A] @ ''set -eu'' @ [CHR 0x0A]
     @ ''echo '' @ [CHR 0x22] @ ''Tekton image build adapter placeholder for ${IMAGE_REPOSITORY}:${IMAGE_TAG}'' @ [CHR 0x22, CHR 0x0A]"

definition build_task :: "PipelineBuildSpec \<Rightarrow> yaml_map" where
  "build_task bld =
     [''name'' \<mapsto> YString ''build-image'',
      ''taskSpec'' \<mapsto> YMap [
        ''params'' \<mapsto> YList [string_param ''image-repository'', string_param ''image-tag''],
        ''steps'' \<mapsto> YList [YMap [
          ''name'' \<mapsto> YString ''build'', ''image'' \<mapsto> YString (builderImage (bld_Builder bld)),
          ''env'' \<mapsto> YList [name_value ''IMAGE_REPOSITORY'' ''$(params.image-repository)'', name_value ''IMAGE_TAG'' ''$(params.image-tag)'',
            name_value ''CONTEXT_DIR'' (defaultString (bld_ContextDir bld) ''.''),
            name_value ''DOCKERFILE'' (defaultString (bld_Dockerfile bld) ''Dockerfile'')],
          ''script'' \<mapsto> YString build_script]]],
      ''params'' \<mapsto> YList [name_value ''image-repository'' ''$(params.image-repository)'', name_value ''image-tag'' ''$(params.image-tag)'']]"

definition tektonTasks :: "PipelineTemplate \<Rightarrow> yaml_map list" where
  "tektonTasks template = (case step_tasks '''' 0 (pts_Steps (pt_Spec template)) of (tasks, previous) \<Rightarrow>
     tasks @ (if bld_Enabled (pts_Build (pt_Spec template)) then [run_after previous (build_task (pts_Build (pt_Spec template)))] else []))"

definition run_metadata :: "BuildRun \<Rightarrow> Project \<Rightarrow> yaml_map" where
  "run_metadata b project =
     [''name'' \<mapsto> YString (tekton_NameForBuildRun (meta_Name (br_Meta b))), ''namespace'' \<mapsto> YString (meta_Namespace (br_Meta b)),
      ''labels'' \<mapsto> YMap [''app.kubernetes.io/name'' \<mapsto> YString ''cloudivision'', ''app.kubernetes.io/component'' \<mapsto> YString ''tekton-runner'',
        ''cloudivision.io/buildrun'' \<mapsto> YString (meta_Name (br_Meta b)), ''cloudivision.io/project'' \<mapsto> YString (meta_Name (proj_Meta project))]]"

definition buildPipelineRun :: "BuildRun \<Rightarrow> Project \<Rightarrow> Repository \<Rightarrow> PipelineTemplate \<Rightarrow> yaml_map" where
  "buildPipelineRun b project repository template = (let s = br_Spec b in
     pipelineRun(''metadata'' \<mapsto> YMap (run_metadata b project),
       ''spec'' \<mapsto> YMap [
         ''params'' \<mapsto> YList [name_value ''repository-url'' (rs_URL (repo_Spec repository)), name_value ''revision'' (brs_Revision s),
           name_value ''branch'' (brs_Branch s), name_value ''image-repository'' (img_Repository (brs_Image s)),
           name_value ''image-tag'' (img_Tag (brs_Image s))],
         ''pipelineSpec'' \<mapsto> YMap [
           ''params'' \<mapsto> YList (map string_param [''repository-url'', ''revision'', ''branch'', ''image-repository'', ''image-tag'']),
           ''tasks'' \<mapsto> YList (map YMap (tektonTasks template))]]))"


section \<open>Operations\<close>

definition tekton_unavailable :: "go_error \<Rightarrow> go_error" where
  "tekton_unavailable err = GoError (''tekton PipelineRun CRD is not available: '' @ err_text err) [ErrTektonUnavailable]"

definition tekton_validateRequest :: "EnsureRunRequest \<Rightarrow> go_error option" where
  "tekton_validateRequest req =
     (if meta_Name (br_Meta (req_BuildRun req)) = '''' \<or> meta_Namespace (br_Meta (req_BuildRun req)) = ''''
      then Some (errors_New ''BuildRun name and namespace are required'') else None)"

definition tekton_ref :: "NamespacedName \<Rightarrow> RunRef" where
  "tekton_ref key = \<lparr>ref_Kind = ''PipelineRun'', ref_Name = key_Name key, ref_Namespace = key_Namespace key\<rparr>"

definition owned_run :: "yaml_map \<Rightarrow> string \<Rightarrow> yaml_map" where
  "owned_run run owner = (case run ''metadata'' of
     Some (YMap m) \<Rightarrow> run(''metadata'' \<mapsto> YMap (m(''ownerReferences'' \<mapsto> YList [YOther owner]))) | _ \<Rightarrow> run)"

definition tekton_create :: "'w tekton_deps \<Rightarrow> EnsureRunRequest \<Rightarrow> NamespacedName \<Rightarrow> ('w, RunRef result) tekton_io" where
  "tekton_create d req key =
     (let run = buildPipelineRun (req_BuildRun req) (req_Project req) (req_Repository req) (req_Template req) in
      case tk_SetControllerReference d (req_BuildRun req) run of
        Inl err \<Rightarrow> fail (errorf_w ''set PipelineRun owner reference'' err)
      | Inr owner \<Rightarrow> do {
          r \<leftarrow> call (PipelineRunCreated (owned_run run owner)) (tk_Create d (owned_run run owner));
          State_Monad.return (case r of
              None \<Rightarrow> Inr (tekton_ref key)
            | Some err \<Rightarrow>
                if errors_Is err AlreadyExists then Inr (tekton_ref key)
                else if errors_Is err NoMatch \<or> errors_Is err NotFound then Inl (tekton_unavailable err)
                else Inl (errorf_w (''create Tekton PipelineRun '' @ key_String key) err))
        })"

definition tekton_EnsureRun :: "'w tekton_deps \<Rightarrow> EnsureRunRequest \<Rightarrow> ('w, RunRef result) tekton_io" where
  "tekton_EnsureRun d req = (case tekton_validateRequest req of
     Some err \<Rightarrow> fail err
   | None \<Rightarrow>
       let key = \<lparr>key_Namespace = meta_Namespace (br_Meta (req_BuildRun req)),
             key_Name = tekton_NameForBuildRun (meta_Name (br_Meta (req_BuildRun req)))\<rparr> in do {
         existing \<leftarrow> query (tk_GetRun d key);
         case existing of
           Inr _ \<Rightarrow> ok (tekton_ref key)
         | Inl err \<Rightarrow>
             if \<not> errors_Is err NotFound
             then fail (if errors_Is err NoMatch then tekton_unavailable err
               else errorf_w (''get Tekton PipelineRun '' @ key_String key) err)
             else tekton_create d req key
       })"

fun run_phase :: "yaml_value list \<Rightarrow> RunStatus" where
  "run_phase [] = \<lparr>run_Phase = RunPhaseRunning, run_Failure = \<lparr>rfl_Reason = '''', rfl_Message = ''''\<rparr>\<rparr>"
| "run_phase (raw # conditions) = (case raw of
     YMap c \<Rightarrow>
       if c ''type'' \<noteq> Some (YString ''Succeeded'') then run_phase conditions
       else if c ''status'' = Some (YString ''True'')
       then \<lparr>run_Phase = RunPhaseSucceeded, run_Failure = \<lparr>rfl_Reason = '''', rfl_Message = ''''\<rparr>\<rparr>
       else if c ''status'' = Some (YString ''False'')
       then \<lparr>run_Phase = RunPhaseFailed, run_Failure = \<lparr>rfl_Reason = defaultString (value_string (c ''reason'')) ''PipelineRunFailed'',
               rfl_Message = defaultString (value_string (c ''message'')) ''Tekton PipelineRun failed''\<rparr>\<rparr>
       else run_phase conditions
   | _ \<Rightarrow> run_phase conditions)"

definition tekton_ReadRunStatus :: "'w tekton_deps \<Rightarrow> RunRef \<Rightarrow> ('w, RunStatus result) tekton_io" where
  "tekton_ReadRunStatus d ref = (let key = \<lparr>key_Namespace = ref_Namespace ref, key_Name = ref_Name ref\<rparr> in do {
     r \<leftarrow> query (tk_GetRun d key);
     case r of
       Inl err \<Rightarrow> fail (if errors_Is err NoMatch then tekton_unavailable err
         else errorf_w (''get Tekton PipelineRun '' @ key_String key) err)
     | Inr run \<Rightarrow> ok (run_phase (NestedSlice run [''status'', ''conditions'']))
   })"

text \<open>
  A run without a specification makes the code panic, since it writes into the nil map that \<open>NestedMap\<close> returns; here it is an error.
\<close>

definition cancelled_pipeline :: "yaml_map \<Rightarrow> yaml_map \<Rightarrow> yaml_map" where
  "cancelled_pipeline run spec =
     (let meta = (case run ''metadata'' of Some (YMap m) \<Rightarrow> m | _ \<Rightarrow> Map.empty);
          annotations = (case meta ''annotations'' of Some (YMap a) \<Rightarrow> a | _ \<Rightarrow> Map.empty) in
      run(''metadata'' \<mapsto> YMap (meta(''annotations'' \<mapsto> YMap (annotations(''tekton.dev/cancelled'' \<mapsto> YString ''true'')))),
          ''spec'' \<mapsto> YMap (spec(''status'' \<mapsto> YString ''PipelineRunCancelled''))))"

definition tekton_CancelRun :: "'w tekton_deps \<Rightarrow> RunRef \<Rightarrow> ('w, unit result) tekton_io" where
  "tekton_CancelRun d ref = (let key = \<lparr>key_Namespace = ref_Namespace ref, key_Name = ref_Name ref\<rparr> in do {
     r \<leftarrow> query (tk_GetRun d key);
     case r of
       Inl err \<Rightarrow> if errors_Is err NotFound \<or> errors_Is err NoMatch then ok ()
                  else fail (errorf_w (''get Tekton PipelineRun '' @ key_String key @ '' for cancellation'') err)
     | Inr run \<Rightarrow> (case run ''spec'' of
         Some (YMap spec) \<Rightarrow> do {
           u \<leftarrow> call (PipelineRunUpdated (cancelled_pipeline run spec)) (tk_Update d (cancelled_pipeline run spec));
           State_Monad.return (case u of None \<Rightarrow> Inr () | Some err \<Rightarrow> Inl (errorf_w (''cancel Tekton PipelineRun '' @ key_String key) err))
         }
       | _ \<Rightarrow> fail (errors_New ''assignment to entry in nil map''))
   })"


section \<open>The contract of an executor\<close>

definition run_key_of :: "yaml_map \<Rightarrow> NamespacedName" where
  "run_key_of run = \<lparr>key_Namespace = NestedString run [''metadata'', ''namespace''], key_Name = NestedString run [''metadata'', ''name'']\<rparr>"

definition pipeline_run_created :: "tekton_effect \<Rightarrow> NamespacedName option" where
  "pipeline_run_created e = (case e of PipelineRunCreated run \<Rightarrow> Some (run_key_of run) | PipelineRunUpdated run \<Rightarrow> None)"

lemma owned_run_key: "run_key_of (owned_run (buildPipelineRun b project repository template) owner)
    = \<lparr>key_Namespace = meta_Namespace (br_Meta b), key_Name = tekton_NameForBuildRun (meta_Name (br_Meta b))\<rparr>"
  by (simp add: run_key_of_def owned_run_def buildPipelineRun_def run_metadata_def NestedString_def value_string_def Let_def)

interpretation tekton_executor: run_executor "''PipelineRun''" tekton_NameForBuildRun "tekton_EnsureRun d" pipeline_run_created
  for d :: "'w tekton_deps"
proof unfold_locales
  show "wp (tekton_EnsureRun d req) (\<lambda>r t. \<forall>ref. r = Inr ref \<longrightarrow> ref = \<lparr>ref_Kind = ''PipelineRun'',
      ref_Name = tekton_NameForBuildRun (meta_Name (br_Meta (req_BuildRun req))),
      ref_Namespace = meta_Namespace (br_Meta (req_BuildRun req))\<rparr>) s" for d :: "'w tekton_deps" and req s
    by (auto simp: tekton_EnsureRun_def tekton_create_def tekton_ref_def Let_def wp_simps split: option.split sum.split)
  show "only {e. pipeline_run_created e = Some \<lparr>key_Namespace = meta_Namespace (br_Meta (req_BuildRun req)),
      key_Name = tekton_NameForBuildRun (meta_Name (br_Meta (req_BuildRun req)))\<rparr>} (tekton_EnsureRun d req)" for d :: "'w tekton_deps" and req
    unfolding tekton_EnsureRun_def tekton_create_def Let_def
    by (intro only_intros) (simp add: pipeline_run_created_def owned_run_key)
qed

section \<open>The order of the tasks\<close>

definition named_task :: "yaml_map \<Rightarrow> string" where
  "named_task task = value_string (task ''name'')"

definition task_names :: "PipelineTemplate \<Rightarrow> string list" where
  "task_names template =
     map (\<lambda>(i, step). task_name i step) (enumerate 0 (pts_Steps (pt_Spec template)))
     @ (if bld_Enabled (pts_Build (pt_Spec template)) then [''build-image''] else [])"

text \<open>Each task of the list but the first waits for the one before.\<close>

fun chained :: "string \<Rightarrow> yaml_map list \<Rightarrow> bool" where
  "chained previous [] \<longleftrightarrow> True"
| "chained previous (task # tasks) \<longleftrightarrow>
     task ''runAfter'' = (if previous = '''' then None else Some (YList [YString previous])) \<and> chained (named_task task) tasks"

lemma run_after_fields [simp]:
  "run_after previous task ''name'' = task ''name''" "run_after previous task ''taskSpec'' = task ''taskSpec''"
  "task ''runAfter'' = None \<Longrightarrow> run_after previous task ''runAfter'' = (if previous = '''' then None else Some (YList [YString previous]))"
  by (simp_all add: run_after_def set_unless_def)

lemma build_task_fields [simp]: "build_task bld ''name'' = Some (YString ''build-image'')" "build_task bld ''runAfter'' = None"
  by (simp_all add: build_task_def)

lemma chained_append: "chained previous (a @ b) \<longleftrightarrow> chained previous a \<and> chained (if a = [] then previous else named_task (last a)) b"
  by (induction a arbitrary: previous) auto

lemma step_tasks_spec:
  "step_tasks previous i steps = (tasks, last_name) \<Longrightarrow> chained previous tasks
     \<and> map named_task tasks = map (\<lambda>(i, step). task_name i step) (enumerate i steps)
     \<and> map (\<lambda>task. task ''taskSpec'') tasks = map (\<lambda>step. Some (task_spec step)) steps
     \<and> last_name = (if tasks = [] then previous else named_task (last tasks))"
proof (induction steps arbitrary: previous i tasks last_name)
  case (Cons step steps)
  obtain ts l where ts: "step_tasks (task_name i step) (Suc i) steps = (ts, l)" by fastforce
  let ?task = "run_after previous [''name'' \<mapsto> YString (task_name i step), ''taskSpec'' \<mapsto> task_spec step]"
  have t: "tasks = ?task # ts" "last_name = l" using Cons.prems ts by (simp_all add: Let_def)
  have "named_task ?task = task_name i step" by (simp add: named_task_def value_string_def)
  then show ?case using Cons.IH [OF ts] by (simp add: t)
qed simp

lemma task_name_set: "task_name i step \<noteq> ''''"
  by (simp add: task_name_def Let_def)

text \<open>What a step keeps of its template.\<close>

definition step_core :: "PipelineStep \<Rightarrow> string \<times> string \<times> string list \<times> string list \<times> string \<times> (string \<times> string) list" where
  "step_core step = (sanitizeName (step_Name step), step_Image step, step_Command step, step_Args step, step_WorkingDir step,
     map (\<lambda>item. (ev_Name item, ev_Value item)) (step_Env step))"

lemma YString_inj: "map YString a = map YString b \<longleftrightarrow> a = b"
  by (rule inj_map_eq_map) (simp add: inj_def)

lemma name_value_inj: "map (\<lambda>item. name_value (f item) (g item)) xs = map (\<lambda>item. name_value (f item) (g item)) ys
    \<longleftrightarrow> map (\<lambda>item. (f item, g item)) xs = map (\<lambda>item. (f item, g item)) ys"
proof -
  have "name_value a b = name_value c d \<longleftrightarrow> a = c \<and> b = d" for a b c d
    by (auto simp: name_value_def dest: fun_cong [where x = "''name''"] fun_cong [where x = "''value''"])
  then show ?thesis by (induction xs arbitrary: ys) (auto simp: Cons_eq_map_conv)
qed

lemma tektonStep_fields:
  "tektonStep step ''name'' = Some (YString (sanitizeName (step_Name step)))"
  "tektonStep step ''image'' = Some (YString (step_Image step))"
  "tektonStep step ''command'' = (if step_Command step = [] then None else Some (YList (map YString (step_Command step))))"
  "tektonStep step ''args'' = (if step_Args step = [] then None else Some (YList (map YString (step_Args step))))"
  "tektonStep step ''workingDir'' = (if step_WorkingDir step = '''' then None else Some (YString (step_WorkingDir step)))"
  "tektonStep step ''env'' = (if step_Env step = [] then None
     else Some (YList (map (\<lambda>item. name_value (ev_Name item) (ev_Value item)) (step_Env step))))"
  by (simp_all add: tektonStep_def set_unless_def)

lemma tektonStep_eq_iff: "tektonStep a = tektonStep b \<longleftrightarrow> step_core a = step_core b"
proof
  assume "tektonStep a = tektonStep b"
  then have e: "tektonStep a k = tektonStep b k" for k by simp
  show "step_core a = step_core b"
    using e [of "''name''"] e [of "''image''"] e [of "''command''"] e [of "''args''"] e [of "''workingDir''"] e [of "''env''"]
    unfolding tektonStep_fields
    by (auto simp: step_core_def YString_inj name_value_inj split: if_splits)
next
  assume c: "step_core a = step_core b"
  then have env: "map (\<lambda>item. name_value (ev_Name item) (ev_Value item)) (step_Env a) = map (\<lambda>item. name_value (ev_Name item) (ev_Value item)) (step_Env b)"
    "step_Env a = [] \<longleftrightarrow> step_Env b = []"
    unfolding name_value_inj by (auto simp: step_core_def)
  with c show "tektonStep a = tektonStep b" by (simp add: tektonStep_def step_core_def)
qed


text \<open>Two steps whose names differ only in what Tekton does not allow, or a step that is called like the build task, give two tasks of one name.\<close>

lemma tekton_names_collide:
  "task_name i (PipelineStep_zero\<lparr>step_Name := ''unit_test''\<rparr>) = task_name j (PipelineStep_zero\<lparr>step_Name := ''unit.test''\<rparr>)"
  "task_name i (PipelineStep_zero\<lparr>step_Name := ''Build_Image''\<rparr>) = ''build-image''"
proof -
  have "sanitizeName ''unit_test'' = ''unit-test''" "sanitizeName ''unit.test'' = ''unit-test''" "sanitizeName ''Build_Image'' = ''build-image''"
    by code_simp+
  then show "task_name i (PipelineStep_zero\<lparr>step_Name := ''unit_test''\<rparr>) = task_name j (PipelineStep_zero\<lparr>step_Name := ''unit.test''\<rparr>)"
    "task_name i (PipelineStep_zero\<lparr>step_Name := ''Build_Image''\<rparr>) = ''build-image''"
    by (simp_all add: task_name_def Let_def)
qed

end
