(* ===== verification/Notifications.thy ===== *)
theory Notifications
  imports Secrets
begin

text \<open>
  \<open>internal/provider/notifications\<close>: the dispatcher that finds out whether and where a project wants to be notified, and the generic
  webhook with its retries. The cluster, the HTTP client and the timer of the retries are arguments; a payload is the request
  itself, whose JSON encoding is left out.
\<close>

section \<open>Providers\<close>

fun NotificationEvent_string :: "NotificationEvent \<Rightarrow> string" where
  "NotificationEvent_string NotifyBuildRunStarted = ''BuildRunStarted''"
| "NotificationEvent_string NotifyBuildRunSucceeded = ''BuildRunSucceeded''"
| "NotificationEvent_string NotifyBuildRunFailed = ''BuildRunFailed''"
| "NotificationEvent_string NotifyReleaseAwaitingApproval = ''ReleaseAwaitingApproval''"
| "NotificationEvent_string NotifyReleaseDeployed = ''ReleaseDeployed''"
| "NotificationEvent_string NotifyReleaseFailed = ''ReleaseFailed''"
| "NotificationEvent_string NotifyPolicyDenied = ''PolicyDenied''"
| "NotificationEvent_string NotifyWebhookRejected = ''WebhookRejected''"

datatype notify_effect = NotificationPosted string NotificationRequest

type_synonym ('w, 'a) notify_io = "('w, notify_effect, 'a) io"

text \<open>\<open>http.NewRequest\<close> refuses some endpoints; a wait ends with the error of the context if it is cancelled first.\<close>

record 'w http_deps =
  nh_ValidEndpoint :: "string \<Rightarrow> bool"
  nh_Post :: "string \<Rightarrow> NotificationRequest \<Rightarrow> 'w \<Rightarrow> int result \<times> 'w"
  nh_Wait :: "duration \<Rightarrow> 'w \<Rightarrow> go_error option \<times> 'w"
  nh_Now :: "'w \<Rightarrow> gotime \<times> 'w"

record GenericWebhook =
  gw_Endpoint :: string
  gw_MaxAttempts :: int
  gw_Backoff :: duration

definition notify_ErrUnsupported :: go_error where
  "notify_ErrUnsupported = GoError ''notification provider is not configured'' [Sentinel ''notifications.ErrUnsupported'']"

definition milliseconds :: "int \<Rightarrow> duration" where
  "milliseconds n = n * 1000000"

definition retries_failed :: go_error where
  "retries_failed = errors_New ''notification webhook delivery failed after retries''"

definition http_rejected :: "int \<Rightarrow> go_error" where
  "http_rejected status = errors_New (''notification webhook returned HTTP '' @ Itoa status)"

definition bad_endpoint :: go_error where
  "bad_endpoint = errors_New ''create notification request''"

text \<open>Between two attempts: none is left, or the wait before the next one.\<close>

definition wait_then :: "'w http_deps \<Rightarrow> duration \<Rightarrow> nat \<Rightarrow> ('w, unit result) notify_io \<Rightarrow> ('w, unit result) notify_io" where
  "wait_then d pause left again =
     (if left = 0 then fail retries_failed
      else do {
        cancelled \<leftarrow> query (nh_Wait d pause);
        case cancelled of Some err \<Rightarrow> fail err | None \<Rightarrow> again
      })"

text \<open>The loop from the given attempt on, with the number of attempts that are left.\<close>

fun send_attempts :: "'w http_deps \<Rightarrow> string \<Rightarrow> duration \<Rightarrow> NotificationRequest \<Rightarrow> int \<Rightarrow> nat \<Rightarrow> ('w, unit result) notify_io" where
  "send_attempts d endpoint backoff req attempt 0 = fail retries_failed"
| "send_attempts d endpoint backoff req attempt (Suc left) =
     (if \<not> nh_ValidEndpoint d endpoint then fail bad_endpoint
      else do {
        r \<leftarrow> call (NotificationPosted endpoint req) (nh_Post d endpoint req);
        case r of
          Inl err \<Rightarrow> wait_then d (backoff * attempt) left (send_attempts d endpoint backoff req (attempt + 1) left)
        | Inr status \<Rightarrow>
            if 200 \<le> status \<and> status < 300 then ok ()
            else if status < 500 then fail (http_rejected status)
            else wait_then d (backoff * attempt) left (send_attempts d endpoint backoff req (attempt + 1) left)
      })"

definition webhook_attempts :: "GenericWebhook \<Rightarrow> int" where
  "webhook_attempts p = (if gw_MaxAttempts p < 1 then 3 else gw_MaxAttempts p)"

definition webhook_Send :: "'w http_deps \<Rightarrow> GenericWebhook \<Rightarrow> NotificationRequest \<Rightarrow> ('w, unit result) notify_io" where
  "webhook_Send d p req =
     (if gw_Endpoint p = '''' then fail (errorf_w ''send notification'' notify_ErrUnsupported)
      else do {
        now \<leftarrow> (if nr_OccurredAt req = 0 then query (nh_Now d) else State_Monad.return (nr_OccurredAt req));
        send_attempts d (gw_Endpoint p) (if gw_Backoff p \<le> 0 then milliseconds 100 else gw_Backoff p)
          (req\<lparr>nr_OccurredAt := now\<rparr>) 1 (nat (webhook_attempts p))
      })"

definition skeleton_Send :: "string \<Rightarrow> NotificationRequest \<Rightarrow> ('w, unit result) notify_io" where
  "skeleton_Send name req = fail (errorf_w name notify_ErrUnsupported)"


section \<open>The dispatcher\<close>

record 'w notify_client =
  nc_GetProject :: "NamespacedName \<Rightarrow> 'w \<Rightarrow> Project result \<times> 'w"
  nc_GetSecret :: "NamespacedName \<Rightarrow> 'w \<Rightarrow> (string \<times> string) list result \<times> 'w"

definition notification_matches :: "ProjectNotificationSpec \<Rightarrow> NotificationRequest \<Rightarrow> bool" where
  "notification_matches config req \<longleftrightarrow> (let f = pn_Filters config in
     (pn_Events config = [] \<or> NotificationEvent_string (nr_Event req) \<in> set (pn_Events config))
     \<and> (nf_Project f = '''' \<or> nf_Project f = nr_Project req)
     \<and> (nf_Repository f = '''' \<or> nf_Repository f = nr_Repository req)
     \<and> (nf_Environment f = '''' \<or> nf_Environment f = nr_Environment req)
     \<and> (nf_Phase f = '''' \<or> nf_Phase f = nr_Phase req))"

definition endpoint_invalid :: "string \<Rightarrow> go_error" where
  "endpoint_invalid what = errors_New (''notification configuration invalid: '' @ what)"

text \<open>The endpoint that the secret of the configuration holds.\<close>

definition endpoint_key :: "SecretKeyRef \<Rightarrow> string" where
  "endpoint_key ref = (if skr_Key ref = '''' then ''url'' else skr_Key ref)"

definition resolve_endpoint ::
  "'w notify_client \<Rightarrow> NotificationRequest \<Rightarrow> ProjectNotificationSpec \<Rightarrow> ('w, string result) notify_io" where
  "resolve_endpoint c req config = (case pn_SecretRef config of
     None \<Rightarrow> fail (endpoint_invalid ''endpoint secret is not configured'')
   | Some ref \<Rightarrow>
       if skr_Name ref = '''' then fail (endpoint_invalid ''endpoint secret is not configured'')
       else let key = endpoint_key ref in
         check (wrap ''load notification endpoint secret'' (Resolve
             \<lparr>kp_GetSecret = Some (nc_GetSecret c), kp_AllowedNamespaces = [nr_Namespace req], kp_AllowAllKeys = False\<rparr>
             \<lparr>sr_Namespace = nr_Namespace req, sr_Name = skr_Name ref, sr_Keys = [key], sr_OptionalKeys = [], sr_AllowAll = False\<rparr>)) (\<lambda>secret.
           let endpoint = map_index (rsv_Values secret) key in
           if endpoint = '''' then fail (endpoint_invalid ''endpoint key is missing'') else ok endpoint))"

definition provider_Send :: "'w http_deps \<Rightarrow> string \<Rightarrow> string \<Rightarrow> NotificationRequest \<Rightarrow> ('w, unit result) notify_io" where
  "provider_Send d name endpoint req =
     (if name = ''webhook'' then webhook_Send d \<lparr>gw_Endpoint = endpoint, gw_MaxAttempts = 0, gw_Backoff = 0\<rparr> req
      else if name \<in> {''slack'', ''teams'', ''email''} then skeleton_Send name req
      else fail (errors_New (''unsupported notification provider '' @ quote name)))"

definition Notify :: "'w notify_client option \<Rightarrow> 'w http_deps \<Rightarrow> NotificationRequest \<Rightarrow> ('w, unit result) notify_io" where
  "Notify client d req = (case client of
     None \<Rightarrow> ok ()
   | Some c \<Rightarrow>
       check (wrap ''load notification project'' (query (nc_GetProject c \<lparr>key_Namespace = nr_Namespace req, key_Name = nr_Project req\<rparr>))) (\<lambda>project.
         case prs_Notifications (proj_Spec project) of
           None \<Rightarrow> ok ()
         | Some config \<Rightarrow>
             if \<not> pn_Enabled config \<or> \<not> notification_matches config req then ok ()
             else check (resolve_endpoint c req config) (\<lambda>endpoint. provider_Send d (pn_Provider config) endpoint req)))"


section \<open>Bounded and discreet\<close>

text \<open>
  What the loop does: the notification is posted at most once per attempt, always the same to the same endpoint; it succeeds only
  if the last post was answered with a status of success; and its errors are texts that do not mention the endpoint, or that of
  a cancelled context.
\<close>

definition known_error :: "'w http_deps \<Rightarrow> go_error \<Rightarrow> bool" where
  "known_error d err \<longleftrightarrow> err = retries_failed \<or> err = bad_endpoint \<or> (\<exists>status. err = http_rejected status)
     \<or> (\<exists>t w. fst (nh_Wait d t w) = Some err)"

definition delivered :: "'w http_deps \<Rightarrow> string \<Rightarrow> NotificationRequest \<Rightarrow> bool" where
  "delivered d endpoint req \<longleftrightarrow> (\<exists>w status. fst (nh_Post d endpoint req w) = Inr status \<and> 200 \<le> status \<and> status < 300)"

definition posted ::
  "'w http_deps \<Rightarrow> string \<Rightarrow> NotificationRequest \<Rightarrow> nat \<Rightarrow> notify_effect list \<Rightarrow> unit result \<Rightarrow> notify_effect list \<Rightarrow> bool" where
  "posted d endpoint req n es r es' \<longleftrightarrow> (\<exists>k \<le> n. es' = es @ replicate k (NotificationPosted endpoint req)
     \<and> (case r of Inl err \<Rightarrow> known_error d err | Inr _ \<Rightarrow> 0 < k \<and> delivered d endpoint req))"

lemma posted_none: "known_error d err \<Longrightarrow> posted d endpoint req n es (Inl err) es"
  by (auto simp: posted_def intro!: exI [of _ 0])

lemma posted_one:
  "known_error d err \<Longrightarrow> posted d endpoint req (Suc n) es (Inl err) (es @ [NotificationPosted endpoint req])"
  "delivered d endpoint req \<Longrightarrow> posted d endpoint req (Suc n) es (Inr u) (es @ [NotificationPosted endpoint req])"
  by (auto simp: posted_def intro!: exI [of _ 1])

lemma posted_more:
  assumes "posted d endpoint req n (es @ [NotificationPosted endpoint req]) r es'"
  shows "posted d endpoint req (Suc n) es r es'"
proof -
  from assms obtain k where "k \<le> n" "es' = (es @ [NotificationPosted endpoint req]) @ replicate k (NotificationPosted endpoint req)"
    "case r of Inl err \<Rightarrow> known_error d err | Inr _ \<Rightarrow> 0 < k \<and> delivered d endpoint req" by (auto simp: posted_def)
  then show ?thesis unfolding posted_def by (intro exI [of _ "Suc k"]) (auto split: sum.split)
qed

lemma known_errors:
  "known_error d retries_failed" "known_error d bad_endpoint" "known_error d (http_rejected status)"
  "fst (nh_Wait d t w) = Some err \<Longrightarrow> known_error d err"
  by (auto simp: known_error_def)

lemma send_attempts_spec:
  "wp (send_attempts d endpoint backoff req attempt n) (\<lambda>r t. posted d endpoint req n (trace s) r (trace t)) s"
proof (induction n arbitrary: attempt s)
  case 0
  then show ?case by (simp add: wp_simps posted_none known_errors)
next
  case (Suc n)
  have retry: "wp (wait_then d (backoff * attempt) n (send_attempts d endpoint backoff req (attempt + 1) n))
      (\<lambda>r t. posted d endpoint req (Suc n) (trace s) r (trace t)) v"
    if v: "trace v = trace s @ [NotificationPosted endpoint req]" for v :: "('a, notify_effect) sys"
  proof -
    have "wp (send_attempts d endpoint backoff req (attempt + 1) n) (\<lambda>r u. posted d endpoint req (Suc n) (trace s) r (trace u)) t"
      if "trace t = trace s @ [NotificationPosted endpoint req]" for t :: "('a, notify_effect) sys"
      by (rule wp_mono [OF Suc.IH]) (simp add: posted_more that)
    with v show ?thesis
      by (cases "fst (nh_Wait d (backoff * attempt) (ext v))") (simp_all add: wait_then_def wp_simps posted_one known_errors)
  qed
  show ?case
  proof (cases "nh_ValidEndpoint d endpoint")
    case True
    show ?thesis
    proof (cases "fst (nh_Post d endpoint req (ext s))")
      case (Inl err)
      with True retry show ?thesis by (simp add: wp_simps Let_def)
    next
      case (Inr status)
      then have "delivered d endpoint req" if "200 \<le> status" "status < 300" using that by (auto simp: delivered_def)
      with True retry Inr show ?thesis by (simp add: wp_simps Let_def posted_one known_errors)
    qed
  qed (simp add: wp_simps posted_none known_errors)
qed

text \<open>
  C0: Delivering a notification is bounded and discreet: the generic webhook posts one and the same payload to its endpoint at most
  as often as it may (three times by default), reports success only if the endpoint has answered with a status of success, and
  otherwise gives one of its own errors - none of them carries the endpoint, which is a secret - or that of the cancelled context.
\<close>

theorem webhook_bounded_and_discreet:
  "wp (webhook_Send d p req) (\<lambda>r t. \<exists>k sent. int k \<le> webhook_attempts p \<and> sent\<lparr>nr_OccurredAt := nr_OccurredAt req\<rparr> = req
      \<and> trace t = trace s @ replicate k (NotificationPosted (gw_Endpoint p) sent)
      \<and> (case r of Inl err \<Rightarrow> known_error d err \<or> err = errorf_w ''send notification'' notify_ErrUnsupported
         | Inr _ \<Rightarrow> 0 < k \<and> delivered d (gw_Endpoint p) sent)) s"
proof -
  let ?Q = "\<lambda>r t. \<exists>k sent. int k \<le> webhook_attempts p \<and> sent\<lparr>nr_OccurredAt := nr_OccurredAt req\<rparr> = req
      \<and> trace t = trace s @ replicate k (NotificationPosted (gw_Endpoint p) sent)
      \<and> (case r of Inl err \<Rightarrow> known_error d err \<or> err = errorf_w ''send notification'' notify_ErrUnsupported
         | Inr _ \<Rightarrow> 0 < k \<and> delivered d (gw_Endpoint p) sent)"
  have "0 \<le> webhook_attempts p" by (simp add: webhook_attempts_def)
  then have "?Q r t" if "posted d (gw_Endpoint p) (req\<lparr>nr_OccurredAt := now\<rparr>) (nat (webhook_attempts p)) (trace s) r (trace t)" for r t now
    using that unfolding posted_def
    by (elim exE conjE, intro exI [where x = "req\<lparr>nr_OccurredAt := now\<rparr>"] exI) (auto split: sum.splits)
  then have loop: "wp (send_attempts d (gw_Endpoint p) backoff (req\<lparr>nr_OccurredAt := now\<rparr>) 1 (nat (webhook_attempts p))) ?Q t"
    if "trace t = trace s" for backoff now and t :: "('a, notify_effect) sys"
    using that by (intro wp_mono [OF send_attempts_spec]) simp
  show ?thesis
  proof (cases "gw_Endpoint p = []")
    case True
    with \<open>0 \<le> webhook_attempts p\<close> show ?thesis by (auto simp: webhook_Send_def wp_simps intro!: exI [of _ 0] exI [of _ req])
  next
    case False
    show ?thesis
    proof (cases "nr_OccurredAt req = 0")
      case True
      show ?thesis unfolding webhook_Send_def if_not_P [OF False] wp_bind if_P [OF True] wp_query by (rule loop) simp
    next
      case False
      show ?thesis unfolding webhook_Send_def if_not_P [OF \<open>gw_Endpoint p \<noteq> []\<close>] wp_bind if_not_P [OF False] wp_return by (rule loop) simp
    qed
  qed
qed


text \<open>
  The dispatcher posts only what the project in the cluster wants: notifications are enabled, the event passes the filters, the
  provider is the webhook, and the endpoint is the value under the configured key of a secret in the namespace of the request.
\<close>

definition wanted :: "'w notify_client \<Rightarrow> NotificationRequest \<Rightarrow> string \<Rightarrow> bool" where
  "wanted c req endpoint \<longleftrightarrow> (\<exists>u project config ref v secret.
     fst (nc_GetProject c \<lparr>key_Namespace = nr_Namespace req, key_Name = nr_Project req\<rparr> u) = Inr project
     \<and> prs_Notifications (proj_Spec project) = Some config \<and> pn_Enabled config \<and> notification_matches config req
     \<and> pn_Provider config = ''webhook'' \<and> pn_SecretRef config = Some ref
     \<and> fst (nc_GetSecret c \<lparr>key_Namespace = nr_Namespace req, key_Name = skr_Name ref\<rparr> v) = Inr secret
     \<and> map_of secret (endpoint_key ref) = Some endpoint)"

lemma only_webhook_Send:
  "only {NotificationPosted (gw_Endpoint p) sent |sent. sent\<lparr>nr_OccurredAt := nr_OccurredAt req\<rparr> = req} (webhook_Send d p req)"
proof -
  have "only {NotificationPosted endpoint req} (send_attempts d endpoint backoff req attempt n)" for endpoint backoff req attempt n
    by (induction n arbitrary: attempt) (auto simp: wait_then_def intro!: only_intros)
  then have "only {NotificationPosted (gw_Endpoint p) sent |sent. sent\<lparr>nr_OccurredAt := nr_OccurredAt req\<rparr> = req}
    (send_attempts d (gw_Endpoint p) backoff (req\<lparr>nr_OccurredAt := now\<rparr>) attempt n)" for backoff attempt n now
    by (rule only_mono) auto
  then show ?thesis unfolding webhook_Send_def by (intro only_intros) auto
qed

lemma only_provider_Send:
  "only {NotificationPosted endpoint sent |sent. name = ''webhook'' \<and> sent\<lparr>nr_OccurredAt := nr_OccurredAt req\<rparr> = req}
     (provider_Send d name endpoint req)"
  unfolding provider_Send_def
  by (intro only_if only_fail only_mono [OF only_webhook_Send]) (auto simp: skeleton_Send_def intro: only_fail)

lemma resolve_endpoint_spec:
  "only {} (resolve_endpoint c req config)"
  "wp (resolve_endpoint c req config) (\<lambda>r t. \<forall>endpoint. r = Inr endpoint \<longrightarrow> (\<exists>ref v secret. pn_SecretRef config = Some ref
      \<and> fst (nc_GetSecret c \<lparr>key_Namespace = nr_Namespace req, key_Name = skr_Name ref\<rparr> v) = Inr secret
      \<and> map_of secret (endpoint_key ref) = Some endpoint)) s"
proof -
  show "only {} (resolve_endpoint c req config)"
    unfolding resolve_endpoint_def Resolve_def Let_def by (auto intro!: only_intros split: option.split)
  have sel: "map_index (rsv_Values resolved) key = endpoint \<Longrightarrow> endpoint \<noteq> [] \<Longrightarrow> map_of secret key = Some endpoint"
    if "select_keys p \<lparr>sr_Namespace = ns, sr_Name = name, sr_Keys = [key], sr_OptionalKeys = [], sr_AllowAll = False\<rparr> secret = Inr resolved"
    for p :: "'a KubernetesProvider" and ns name key secret resolved endpoint
    using that by (auto simp: select_keys_def map_index_def split: option.splits)
  show "wp (resolve_endpoint c req config) (\<lambda>r t. \<forall>endpoint. r = Inr endpoint \<longrightarrow> (\<exists>ref v secret. pn_SecretRef config = Some ref
      \<and> fst (nc_GetSecret c \<lparr>key_Namespace = nr_Namespace req, key_Name = skr_Name ref\<rparr> v) = Inr secret
      \<and> map_of secret (endpoint_key ref) = Some endpoint)) s"
    unfolding resolve_endpoint_def Resolve_def Let_def
    by (auto simp: wp_simps split: option.split sum.split dest!: sel)
qed

text \<open>
  The dispatcher posts only to the endpoint of a project that wants the notification, and only the notification itself.
\<close>

lemma Notify_wanted:
  "only {NotificationPosted endpoint sent |endpoint sent. wanted c req endpoint \<and> sent\<lparr>nr_OccurredAt := nr_OccurredAt req\<rparr> = req}
     (Notify (Some c) d req)" (is "only ?E _")
proof -
  have send: "only ?E (check (resolve_endpoint c req config) (\<lambda>endpoint. provider_Send d (pn_Provider config) endpoint req))"
    if "fst (nc_GetProject c \<lparr>key_Namespace = nr_Namespace req, key_Name = nr_Project req\<rparr> u) = Inr project"
      and "prs_Notifications (proj_Spec project) = Some config" and "pn_Enabled config" and "notification_matches config req" for u project config
  proof (rule only_check_wp [OF only_mono [OF resolve_endpoint_spec(1)] resolve_endpoint_spec(2)])
    fix endpoint
    assume "\<exists>ref v secret. pn_SecretRef config = Some ref
        \<and> fst (nc_GetSecret c \<lparr>key_Namespace = nr_Namespace req, key_Name = skr_Name ref\<rparr> v) = Inr secret
        \<and> map_of secret (endpoint_key ref) = Some endpoint"
    with that have "wanted c req endpoint" if "pn_Provider config = ''webhook''"
      using that unfolding wanted_def by blast
    then show "only ?E (provider_Send d (pn_Provider config) endpoint req)"
      by (intro only_mono [OF only_provider_Send]) blast
  qed simp
  have project: "only ?E (case prs_Notifications (proj_Spec project) of
           None \<Rightarrow> ok ()
         | Some config \<Rightarrow>
             if \<not> pn_Enabled config \<or> \<not> notification_matches config req then ok ()
             else check (resolve_endpoint c req config) (\<lambda>endpoint. provider_Send d (pn_Provider config) endpoint req))"
    if "fst (nc_GetProject c \<lparr>key_Namespace = nr_Namespace req, key_Name = nr_Project req\<rparr> u) = Inr project" for u project
    using send [OF that] by (auto intro: only_ok split: option.split)
  show ?thesis
    unfolding Notify_def option.case
    by (rule only_check_wp [where P = "\<lambda>project. \<exists>u. fst (nc_GetProject c \<lparr>key_Namespace = nr_Namespace req, key_Name = nr_Project req\<rparr> u) = Inr project"])
      (rule only_wrap [OF only_query], auto simp: wp_simps split: sum.split, blast intro: project)
qed

end
