(* ===== verification/ClusterTargets.thy ===== *)
theory ClusterTargets
  imports ControllerKit
begin

text \<open>
  \<open>internal/controller/clustertarget_controller.go\<close> and \<open>internal/cluster/checker.go\<close>: the health check of a cluster and the status
  that reports it. The Kubernetes clients, the parser of kubeconfigs and the discovery client are arguments, and so are the types
  of what they give: a parsed kubeconfig, a REST configuration and a discovery client.
\<close>

section \<open>The checker\<close>

record ('w, 'k, 'c, 'd) cluster_checker =
  ck_Reader :: "(NamespacedName \<Rightarrow> 'w \<Rightarrow> strmap result \<times> 'w) option"
  ck_LocalConfig :: "'c option"
  ck_Load :: "string \<Rightarrow> 'k result"
  ck_ClientConfig :: "'k \<Rightarrow> string option \<Rightarrow> 'c result"
  ck_Discovery :: "'c \<Rightarrow> 'w \<Rightarrow> 'd result \<times> 'w"
  ck_ServerVersion :: "'d \<Rightarrow> 'w \<Rightarrow> string result \<times> 'w"

definition secret_text :: "ClusterTarget \<Rightarrow> SecretKeyRef \<Rightarrow> string" where
  "secret_text target ref = ''kubeconfig Secret '' @ meta_Namespace (ct_Meta target) @ ''/'' @ skr_Name ref"

definition kubeconfig_key :: "SecretKeyRef \<Rightarrow> string" where
  "kubeconfig_key ref = (if skr_Key ref = '''' then ''kubeconfig'' else skr_Key ref)"

definition checker_config :: "('w, 'k, 'c, 'd) cluster_checker \<Rightarrow> ClusterTarget \<Rightarrow> ('w, 'e, 'c result) io" where
  "checker_config d target = (case cts_KubeconfigSecretRef (ct_Spec target) of
     None \<Rightarrow> (case ck_LocalConfig d of
         None \<Rightarrow> fail (errors_New ''local cluster REST config is unavailable'')
       | Some config \<Rightarrow> ok config)
   | Some ref \<Rightarrow> (case ck_Reader d of
         None \<Rightarrow> fail (errors_New ''Secret reader is unavailable'')
       | Some get \<Rightarrow>
           check (wrap (''read '' @ secret_text target ref)
               (query (get \<lparr>key_Namespace = meta_Namespace (ct_Meta target), key_Name = skr_Name ref\<rparr>))) (\<lambda>data.
             case data (kubeconfig_key ref) of
               None \<Rightarrow> fail (errors_New (secret_text target ref @ '' does not contain key '' @ quote (kubeconfig_key ref)))
             | Some text \<Rightarrow>
                 check (wrap (''parse '' @ secret_text target ref) (State_Monad.return (ck_Load d text))) (\<lambda>config.
                   wrap ''select kubeconfig context'' (State_Monad.return (ck_ClientConfig d config
                     (if cts_Context (ct_Spec target) = '''' then None else Some (cts_Context (ct_Spec target)))))))))"

definition Check :: "('w, 'k, 'c, 'd) cluster_checker \<Rightarrow> ClusterTarget \<Rightarrow> ('w, 'e, string result) io" where
  "Check d target =
     check (checker_config d target) (\<lambda>config.
     check (wrap ''create discovery client'' (query (ck_Discovery d config))) (\<lambda>discovery.
       wrap ''query Kubernetes version'' (query (ck_ServerVersion d discovery))))"


section \<open>The controller\<close>

datatype target_effect = TargetStatusUpdate ClusterTarget

record 'w target_deps =
  tgd_Get :: "NamespacedName \<Rightarrow> 'w \<Rightarrow> ClusterTarget result \<times> 'w"
  tgd_StatusUpdate :: "ClusterTarget \<Rightarrow> 'w \<Rightarrow> ClusterTarget result \<times> 'w"
  tgd_Check :: "ClusterTarget \<Rightarrow> ('w, target_effect, string result) io"
  tgd_Now :: "'w \<Rightarrow> gotime \<times> 'w"

definition clusterTargetRequeue :: duration where
  "clusterTargetRequeue = seconds 120"

definition checked_target :: "gotime \<Rightarrow> ClusterTarget \<Rightarrow> string result \<Rightarrow> ClusterTarget" where
  "checked_target now target outcome = (let gen = meta_Generation (ct_Meta target); st = ct_Status target in
     target\<lparr>ct_Status := st\<lparr>ctst_ObservedGeneration := gen,
       ctst_Version := (case outcome of Inl _ \<Rightarrow> '''' | Inr version \<Rightarrow> version),
       ctst_Reachable := \<not> isl outcome,
       ctst_Phase := (if isl outcome then ClusterTargetPhaseUnreachable else ClusterTargetPhaseReady),
       ctst_Conditions := metaSetStatusCondition (ctst_Conditions st) (case outcome of
           Inl err \<Rightarrow> mk_condition ''Reachable'' ConditionFalse gen ''HealthCheckFailed'' (err_text err) now
         | Inr _ \<Rightarrow> mk_condition ''Reachable'' ConditionTrue gen ''HealthCheckSucceeded'' ''Kubernetes API is reachable'' now)\<rparr>\<rparr>)"

definition reconcile_target :: "'w target_deps \<Rightarrow> NamespacedName \<Rightarrow> ('w, target_effect, ReconcileResult result) io" where
  "reconcile_target d req = do {
     r \<leftarrow> query (tgd_Get d req);
     case r of
       Inl err \<Rightarrow> if errors_Is err NotFound then ok Result_zero else fail (errorf_w (''get ClusterTarget '' @ key_String req) err)
     | Inr target \<Rightarrow> do {
         outcome \<leftarrow> tgd_Check d target;
         now \<leftarrow> query (tgd_Now d);
         let target = checked_target now target outcome;
         check (wrap (''update ClusterTarget '' @ key_String req @ '' status'') (call (TargetStatusUpdate target) (tgd_StatusUpdate d target))) (\<lambda>_.
           ok (Result_zero\<lparr>RequeueAfter := clusterTargetRequeue\<rparr>))
       }
   }"


section \<open>What the status tells\<close>

text \<open>
  The kubeconfig of a target comes from a secret in the target's own namespace, and nothing is asked of another cluster than the one
  that it, or the local configuration, names.
\<close>

definition target_config :: "('w, 'k, 'c, 'd) cluster_checker \<Rightarrow> ClusterTarget \<Rightarrow> 'c \<Rightarrow> bool" where
  "target_config d target config \<longleftrightarrow> (case cts_KubeconfigSecretRef (ct_Spec target) of
     None \<Rightarrow> ck_LocalConfig d = Some config
   | Some ref \<Rightarrow> (\<exists>get w data text k context. ck_Reader d = Some get
       \<and> fst (get \<lparr>key_Namespace = meta_Namespace (ct_Meta target), key_Name = skr_Name ref\<rparr> w) = Inr data
       \<and> data (kubeconfig_key ref) = Some text \<and> ck_Load d text = Inr k \<and> ck_ClientConfig d k context = Inr config
       \<and> (cts_Context (ct_Spec target) \<noteq> '''' \<longrightarrow> context = Some (cts_Context (ct_Spec target)))))"

lemma checker_config_own:
  "wp (checker_config d target) (\<lambda>r t. trace t = trace s \<and> (\<forall>config. r = Inr config \<longrightarrow> target_config d target config)) s"
proof (cases "cts_KubeconfigSecretRef (ct_Spec target)")
  case None
  then show ?thesis by (cases "ck_LocalConfig d") (simp_all add: checker_config_def target_config_def wp_simps)
next
  case (Some ref)
  then show ?thesis
    by (cases "ck_Reader d") (auto simp: checker_config_def target_config_def wp_simps split: option.split sum.split, blast+)
qed

definition answers :: "('w, 'k, 'c, 'd) cluster_checker \<Rightarrow> ClusterTarget \<Rightarrow> string \<Rightarrow> bool" where
  "answers d target version \<longleftrightarrow> (\<exists>config discovery u v. target_config d target config
     \<and> fst (ck_Discovery d config u) = Inr discovery \<and> fst (ck_ServerVersion d discovery v) = Inr version)"

lemma Check_answers:
  "wp (Check d target) (\<lambda>r t. trace t = trace s \<and> (\<forall>version. r = Inr version \<longrightarrow> answers d target version)) s"
  unfolding Check_def wp_check
  by (rule wp_mono [OF checker_config_own]) (auto simp: wp_simps answers_def split: sum.split)

text \<open>What a checker promises: it changes nothing, and a version is one that the cluster has answered with.\<close>

locale cluster_check =
  fixes check_target :: "ClusterTarget \<Rightarrow> ('w, target_effect, string result) io"
    and answered :: "ClusterTarget \<Rightarrow> string \<Rightarrow> bool"
  assumes check_answered: "wp (check_target target) (\<lambda>r t. trace t = trace s \<and> (\<forall>version. r = Inr version \<longrightarrow> answered target version)) s"
begin

lemma reconcile_truthful:
  assumes "tgd_Check d = check_target"
  shows "wp (reconcile_target d req) (\<lambda>r t. case fst (tgd_Get d req (ext s)) of
     Inl err \<Rightarrow> trace t = trace s
   | Inr target \<Rightarrow> \<exists>now outcome. trace t = trace s @ [TargetStatusUpdate (checked_target now target outcome)]
       \<and> (\<forall>version. outcome = Inr version \<longrightarrow> answered target version)
       \<and> (\<forall>result. r = Inr result \<longrightarrow> RequeueAfter result = clusterTargetRequeue)) s"
proof (cases "fst (tgd_Get d req (ext s))")
  case (Inl err)
  then show ?thesis by (simp add: reconcile_target_def wp_simps)
next
  case (Inr target)
  have "wp (tgd_Check d target) (\<lambda>r t. trace t = trace s \<and> (\<forall>version. r = Inr version \<longrightarrow> answered target version)) (s\<lparr>ext := snd (tgd_Get d req (ext s))\<rparr>)"
    using check_answered [of target "s\<lparr>ext := snd (tgd_Get d req (ext s))\<rparr>"] assms by simp
  then have "wp (tgd_Check d target) (\<lambda>outcome t. wp (do {
         now \<leftarrow> query (tgd_Now d);
         let target = checked_target now target outcome;
         check (wrap (''update ClusterTarget '' @ key_String req @ '' status'') (call (TargetStatusUpdate target) (tgd_StatusUpdate d target))) (\<lambda>_.
           ok (Result_zero\<lparr>RequeueAfter := clusterTargetRequeue\<rparr>))
       }) (\<lambda>r t. \<exists>now outcome. trace t = trace s @ [TargetStatusUpdate (checked_target now target outcome)]
       \<and> (\<forall>version. outcome = Inr version \<longrightarrow> answered target version)
       \<and> (\<forall>result. r = Inr result \<longrightarrow> RequeueAfter result = clusterTargetRequeue)) t) (s\<lparr>ext := snd (tgd_Get d req (ext s))\<rparr>)"
    by (rule wp_mono) (auto simp: wp_simps Let_def split: sum.split)
  with Inr show ?thesis unfolding reconcile_target_def by (subst wp_bind) (simp only: wp_query Inr sum.case wp_bind [of "tgd_Check d target"])
qed

end

interpretation kubernetes_check: cluster_check "Check d" "answers d"
  for d :: "('w, 'k, 'c, 'd) cluster_checker"
  by unfold_locales (rule Check_answers)

text \<open>
  Composition of controller and checker: reconciling a ClusterTarget that is there sends exactly one status, made from the outcome
  of its check; it reports a version only if the cluster that the target's configuration names has answered with it, and
  the next check comes after two minutes.
\<close>

lemma target_status_truthful:
  fixes d :: "'w target_deps" and c :: "('w, 'k, 'c, 'd) cluster_checker"
  assumes "tgd_Check d = Check c"
  shows "wp (reconcile_target d req) (\<lambda>r t. case fst (tgd_Get d req (ext s)) of
     Inl err \<Rightarrow> trace t = trace s
   | Inr target \<Rightarrow> \<exists>now outcome. trace t = trace s @ [TargetStatusUpdate (checked_target now target outcome)]
       \<and> (\<forall>version. outcome = Inr version \<longrightarrow> answers c target version)
       \<and> (\<forall>result. r = Inr result \<longrightarrow> RequeueAfter result = clusterTargetRequeue)) s"
  by (rule kubernetes_check.reconcile_truthful [OF assms])

text \<open>The status is consistent: reachable, phase, version and condition agree.\<close>

lemma checked_target_consistent:
  "let st = ct_Status (checked_target now target outcome) in
     (ctst_Reachable st \<longleftrightarrow> \<not> isl outcome) \<and> (ctst_Phase st = ClusterTargetPhaseReady \<longleftrightarrow> \<not> isl outcome)
     \<and> map_option c_Status (cond_of (ctst_Conditions st) ''Reachable'') = Some (if isl outcome then ConditionFalse else ConditionTrue)
     \<and> (isl outcome \<longrightarrow> ctst_Version st = '''')"
proof -
  have set: "map_option c_Status (cond_of (metaSetStatusCondition cs c) ty) = Some (c_Status c)" if "c_Type c = ty" for cs c ty
    using that by (induction cs) (auto simp: cond_of_def Let_def)
  have mk: "c_Type (mk_condition ty st gen reason message t) = ty" "c_Status (mk_condition ty st gen reason message t) = st"
    for ty st gen reason message t by (simp_all add: mk_condition_def)
  show ?thesis by (cases outcome) (simp_all only: checked_target_def Let_def, simp_all add: set mk del: map_option_eq_Some)
qed

end
