(* ===== verification/ApiResources.thy ===== *)
theory ApiResources
  imports ApiServer Pagination LogStores Artifacts DepCache
begin

text \<open>
  The handlers of the API for projects, repositories, pipeline templates and the other resources: \<open>internal/api/server.go\<close>,
  \<open>dto.go\<close>, \<open>catalog.go\<close>, \<open>artifacts.go\<close> and \<open>internal/catalog\<close>. A handler gets the decoded body, the query and the path values of
  its request. The stores, the reader of pod logs, the organization directory and the format of times are arguments.
\<close>

section \<open>The server\<close>

datatype resource_effect = Api api_effect | CachePurged PurgeRequest

type_synonym ('w, 'a) resource_io = "('w, resource_effect, 'a) io"

record 'w organization_directory =
  od_ListOrganizations :: "string \<Rightarrow> 'w \<Rightarrow> Organization list result \<times> 'w"
  od_ListTeams :: "string \<Rightarrow> 'w \<Rightarrow> Team list result \<times> 'w"
  od_ListMemberships :: "string \<Rightarrow> 'w \<Rightarrow> Membership list result \<times> 'w"
  od_ListProjectAccess :: "string \<Rightarrow> 'w \<Rightarrow> ProjectAccess list result \<times> 'w"
  od_Allowed :: "Principal option \<Rightarrow> string \<Rightarrow> string \<Rightarrow> Permission \<Rightarrow> 'w \<Rightarrow> bool result \<times> 'w"

text \<open>A listing is asked for one namespace, or for all (\<open>None\<close>).\<close>

record 'w resource_server =
  rsv_Server :: "'w server"
  rsv_ListProjects :: "string option \<Rightarrow> 'w \<Rightarrow> Project list result \<times> 'w"
  rsv_ListRepositories :: "string option \<Rightarrow> 'w \<Rightarrow> Repository list result \<times> 'w"
  rsv_ListPipelineTemplates :: "string option \<Rightarrow> 'w \<Rightarrow> PipelineTemplate list result \<times> 'w"
  rsv_ListEnvironments :: "string option \<Rightarrow> 'w \<Rightarrow> Environment list result \<times> 'w"
  rsv_ListClusterTargets :: "string option \<Rightarrow> 'w \<Rightarrow> ClusterTarget list result \<times> 'w"
  rsv_ListPods :: "string \<Rightarrow> string \<Rightarrow> 'w \<Rightarrow> string list result \<times> 'w"
  rsv_LogReader :: "(string \<Rightarrow> string \<Rightarrow> int option \<Rightarrow> 'w \<Rightarrow> string result \<times> 'w) option"
  rsv_LogStore :: "(ReadLogRequest \<Rightarrow> 'w \<Rightarrow> ReadLogResult result \<times> 'w) option"
  rsv_ArtifactStore :: "(ArtifactRef \<Rightarrow> 'w \<Rightarrow> Artifact result \<times> 'w) option"
  rsv_CacheStore :: "(PurgeRequest \<Rightarrow> 'w \<Rightarrow> unit result \<times> 'w) option"
  rsv_Organizations :: "'w organization_directory option"
  rsv_FormatTime :: "gotime \<Rightarrow> string"
  rsv_CORSOrigins :: "string list"

definition or_reply ::
  "('w, 'a result) resource_io \<Rightarrow> ('a \<Rightarrow> ('w, 'b api_response) resource_io) \<Rightarrow> ('w, 'b api_response) resource_io" where
  "or_reply m f = do {
     r \<leftarrow> m;
     case r of Inl err \<Rightarrow> State_Monad.return (writeError err) | Inr a \<Rightarrow> f a
   }"

lemma only_or_reply [only_intros]: "only E m \<Longrightarrow> (\<And>a. only E (f a)) \<Longrightarrow> only E (or_reply m f)"
  unfolding or_reply_def by (auto intro!: only_intros)

lemma only_or_reply_query:
  assumes "\<And>w a. fst (g w) = Inr a \<Longrightarrow> only E (f a)"
  shows "only E (or_reply (query g) f)"
  unfolding or_reply_def by (rule only_bind_query) (auto intro!: only_intros assms split: sum.split)

lemma wp_or_reply [wp_simps]:
  "wp (or_reply m f) Q s = wp m (\<lambda>r t. case r of Inl err \<Rightarrow> Q (writeError err) t | Inr a \<Rightarrow> wp (f a) Q t) s"
  by (auto simp: or_reply_def wp_def split: prod.split sum.split)

definition reply :: "'b api_response \<Rightarrow> ('w, 'b api_response) resource_io" where
  "reply r = State_Monad.return r"

lemma only_reply [only_intros]: "only E (reply r)" and wp_reply [wp_simps]: "wp (reply r) Q s = Q r s"
  by (simp_all add: reply_def only_return wp_return)

definition notFound :: "string \<Rightarrow> 'b api_response" where
  "notFound message = api_error 404 ''not_found'' message"

definition internalError :: "string \<Rightarrow> 'b api_response" where
  "internalError message = api_error 500 ''internal_error'' message"

definition audited :: "'w resource_server \<Rightarrow> api_context \<Rightarrow> AuditEvent \<Rightarrow> ('w, unit) resource_io" where
  "audited s ctx event = relabel Api (recordAudit (rsv_Server s) ctx event)"

definition namespace_of :: "'w resource_server \<Rightarrow> query_values \<Rightarrow> string" where
  "namespace_of s q = server_namespace (rsv_Server s) (query_Get q ''namespace'')"


section \<open>What is sent\<close>

record ProjectResponse =
  prj_Name :: string
  prj_Namespace :: string
  prj_Spec :: ProjectSpec
  prj_Status :: ProjectStatus

record RepositoryResponse =
  rpr_Name :: string
  rpr_Namespace :: string
  rpr_Spec :: RepositorySpec
  rpr_Status :: RepositoryStatus

record PipelineTemplateResponse =
  ptr_Name :: string
  ptr_Namespace :: string
  ptr_Spec :: PipelineTemplateSpec
  ptr_Status :: PipelineTemplateStatus

record EnvironmentResponse =
  evr_Name :: string
  evr_Namespace :: string
  evr_Spec :: EnvironmentSpec
  evr_Status :: EnvironmentStatus

record ClusterTargetResponse =
  ctr_Name :: string
  ctr_Namespace :: string
  ctr_Spec :: ClusterTargetSpec
  ctr_Status :: ClusterTargetStatus

record BuildRunResponse =
  bru_Name :: string
  bru_Namespace :: string
  bru_Annotations :: strmap
  bru_Spec :: BuildRunSpec
  bru_Status :: BuildRunStatus

record PrincipalResponse =
  pcr_Subject :: string
  pcr_Email :: string
  pcr_Groups :: "string list"
  pcr_DisplayName :: string
  pcr_Roles :: "Role list"
  pcr_DevMode :: bool

definition projectDTO :: "Project \<Rightarrow> ProjectResponse" where
  "projectDTO p = \<lparr>prj_Name = meta_Name (proj_Meta p), prj_Namespace = meta_Namespace (proj_Meta p),
     prj_Spec = proj_Spec p, prj_Status = proj_Status p\<rparr>"

definition repositoryDTO :: "Repository \<Rightarrow> RepositoryResponse" where
  "repositoryDTO r = \<lparr>rpr_Name = meta_Name (repo_Meta r), rpr_Namespace = meta_Namespace (repo_Meta r),
     rpr_Spec = repo_Spec r, rpr_Status = repo_Status r\<rparr>"

definition pipelineTemplateDTO :: "PipelineTemplate \<Rightarrow> PipelineTemplateResponse" where
  "pipelineTemplateDTO t = \<lparr>ptr_Name = meta_Name (pt_Meta t), ptr_Namespace = meta_Namespace (pt_Meta t),
     ptr_Spec = pt_Spec t, ptr_Status = pt_Status t\<rparr>"

definition environmentDTO :: "Environment \<Rightarrow> EnvironmentResponse" where
  "environmentDTO e = \<lparr>evr_Name = meta_Name (env_Meta e), evr_Namespace = meta_Namespace (env_Meta e),
     evr_Spec = env_Spec e, evr_Status = env_Status e\<rparr>"

definition clusterTargetDTO :: "ClusterTarget \<Rightarrow> ClusterTargetResponse" where
  "clusterTargetDTO t = \<lparr>ctr_Name = meta_Name (ct_Meta t), ctr_Namespace = meta_Namespace (ct_Meta t),
     ctr_Spec = ct_Spec t, ctr_Status = ct_Status t\<rparr>"

definition buildRunDTO :: "BuildRun \<Rightarrow> BuildRunResponse" where
  "buildRunDTO b = \<lparr>bru_Name = meta_Name (br_Meta b), bru_Namespace = meta_Namespace (br_Meta b),
     bru_Annotations = meta_Annotations (br_Meta b), bru_Spec = br_Spec b, bru_Status = br_Status b\<rparr>"

definition principalDTO :: "Principal option \<Rightarrow> PrincipalResponse" where
  "principalDTO prin = (case prin of
     None \<Rightarrow> \<lparr>pcr_Subject = '''', pcr_Email = '''', pcr_Groups = [], pcr_DisplayName = '''', pcr_Roles = [], pcr_DevMode = False\<rparr>
   | Some p \<Rightarrow> \<lparr>pcr_Subject = pc_Subject p, pcr_Email = pc_Email p, pcr_Groups = pc_Groups p,
       pcr_DisplayName = pc_DisplayName p, pcr_Roles = pc_Roles p, pcr_DevMode = pc_DevMode p\<rparr>)"


section \<open>Reading\<close>

definition health :: "('w, string api_response) resource_io" where
  "health = reply (Reply 200 ''ok'')"

definition currentUser :: "api_context \<Rightarrow> ('w, PrincipalResponse api_response) resource_io" where
  "currentUser ctx = reply (Reply 200 (principalDTO (cx_Principal ctx)))"

text \<open>\<open>Server.list\<close>: which namespace a listing is asked for.\<close>

definition list_scope :: "'w resource_server \<Rightarrow> query_values \<Rightarrow> string option" where
  "list_scope s q = (if query_Get q ''allNamespaces'' = ''true'' then None else Some (namespace_of s q))"

definition listed :: "('w \<Rightarrow> 'o list result \<times> 'w) \<Rightarrow> ('o \<Rightarrow> 'b) \<Rightarrow> ('w, 'b list api_response) resource_io" where
  "listed get dto = or_reply (query get) (\<lambda>items. reply (Reply 200 (map dto items)))"

definition get_projects :: "'w resource_server \<Rightarrow> query_values \<Rightarrow> ('w, ProjectResponse list api_response) resource_io" where
  "get_projects s q = listed (rsv_ListProjects s (list_scope s q)) projectDTO"

definition get_repositories :: "'w resource_server \<Rightarrow> query_values \<Rightarrow> ('w, RepositoryResponse list api_response) resource_io" where
  "get_repositories s q = listed (rsv_ListRepositories s (list_scope s q)) repositoryDTO"

definition get_pipelineTemplates ::
  "'w resource_server \<Rightarrow> query_values \<Rightarrow> ('w, PipelineTemplateResponse list api_response) resource_io" where
  "get_pipelineTemplates s q = listed (rsv_ListPipelineTemplates s (list_scope s q)) pipelineTemplateDTO"

definition environments :: "'w resource_server \<Rightarrow> query_values \<Rightarrow> ('w, EnvironmentResponse list api_response) resource_io" where
  "environments s q = listed (rsv_ListEnvironments s (list_scope s q)) environmentDTO"

text \<open>The local cluster is always there.\<close>

definition local_cluster :: "string \<Rightarrow> ClusterTargetResponse" where
  "local_cluster ns = \<lparr>ctr_Name = ''local'', ctr_Namespace = ns,
     ctr_Spec = ClusterTargetSpec_zero\<lparr>cts_DisplayName := ''Local cluster'', cts_Type := ClusterTargetTypeBoth\<rparr>,
     ctr_Status = ClusterTargetStatus_zero\<lparr>ctst_Phase := ClusterTargetPhaseReady, ctst_Reachable := True\<rparr>\<rparr>"

definition clusterTargets :: "'w resource_server \<Rightarrow> query_values \<Rightarrow> ('w, ClusterTargetResponse list api_response) resource_io" where
  "clusterTargets s q = or_reply (query (rsv_ListClusterTargets s (list_scope s q))) (\<lambda>items.
     reply (Reply 200 (local_cluster (namespace_of s q) # map clusterTargetDTO items)))"

definition get_project :: "'w resource_server \<Rightarrow> query_values \<Rightarrow> string \<Rightarrow> ('w, ProjectResponse api_response) resource_io" where
  "get_project s q name =
     or_reply (query (sv_GetProject (rsv_Server s) \<lparr>key_Namespace = namespace_of s q, key_Name = name\<rparr>))
       (\<lambda>p. reply (Reply 200 (projectDTO p)))"

definition get_buildRun :: "'w resource_server \<Rightarrow> NamespacedName \<Rightarrow> ('w, BuildRunResponse api_response) resource_io" where
  "get_buildRun s key = or_reply (query (sv_GetBuildRun (rsv_Server s) key)) (\<lambda>b. reply (Reply 200 (buildRunDTO b)))"


section \<open>Organizations\<close>

definition organizations :: "'w resource_server \<Rightarrow> api_context \<Rightarrow> ('w, Organization list api_response) resource_io" where
  "organizations s ctx = (case rsv_Organizations s of
     None \<Rightarrow> reply (Reply 200 [])
   | Some dir \<Rightarrow> listed (od_ListOrganizations dir (case cx_Principal ctx of None \<Rightarrow> '''' | Some p \<Rightarrow> pc_Subject p)) id)"

text \<open>\<open>requireOrganizationRead\<close> and what follows it when it is passed.\<close>

definition requireOrganizationRead ::
  "'w resource_server \<Rightarrow> api_context \<Rightarrow> string \<Rightarrow> ('w organization_directory \<Rightarrow> ('w, 'b api_response) resource_io)
    \<Rightarrow> ('w, 'b api_response) resource_io" where
  "requireOrganizationRead s ctx organization k = (case rsv_Organizations s of
     None \<Rightarrow> reply (api_error 503 ''organizations_unavailable'' ''organization directory is not configured'')
   | Some dir \<Rightarrow>
       or_reply (query (od_Allowed dir (cx_Principal ctx) organization '''' PermissionRead)) (\<lambda>allowed.
         if \<not> allowed then reply (api_error 403 ''forbidden'' ''organization access denied'') else k dir))"

definition organizationTeams :: "'w resource_server \<Rightarrow> api_context \<Rightarrow> string \<Rightarrow> ('w, Team list api_response) resource_io" where
  "organizationTeams s ctx organization = requireOrganizationRead s ctx organization (\<lambda>dir. listed (od_ListTeams dir organization) id)"

definition organizationMembers :: "'w resource_server \<Rightarrow> api_context \<Rightarrow> string \<Rightarrow> ('w, Membership list api_response) resource_io" where
  "organizationMembers s ctx organization =
     requireOrganizationRead s ctx organization (\<lambda>dir. listed (od_ListMemberships dir organization) id)"

definition organizationProjectAccess ::
  "'w resource_server \<Rightarrow> api_context \<Rightarrow> string \<Rightarrow> ('w, ProjectAccess list api_response) resource_io" where
  "organizationProjectAccess s ctx organization =
     requireOrganizationRead s ctx organization (\<lambda>dir. listed (od_ListProjectAccess dir organization) id)"


section \<open>Creating projects and repositories\<close>

record ProjectRequest =
  prq_Name :: string
  prq_Namespace :: string
  prq_Spec :: ProjectSpec

record RepositoryRequest =
  rrq_Name :: string
  rrq_Namespace :: string
  rrq_Spec :: RepositorySpec

record PipelineTemplateRequest =
  trq_Name :: string
  trq_Namespace :: string
  trq_Spec :: PipelineTemplateSpec

text \<open>\<open>if err := check; err != nil { s.writeError (w, badRequest (err.Error ())); return }\<close>.\<close>

definition or_bad_request :: "go_error option \<Rightarrow> ('w, 'b api_response) resource_io \<Rightarrow> ('w, 'b api_response) resource_io" where
  "or_bad_request err k = (case err of Some err \<Rightarrow> reply (badRequest (err_text err)) | None \<Rightarrow> k)"

lemma only_or_bad_request: "(err = None \<Longrightarrow> only E k) \<Longrightarrow> only E (or_bad_request err k)"
  by (auto simp: or_bad_request_def intro: only_reply split: option.split)

lemma wp_or_bad_request [wp_simps]:
  "wp (or_bad_request err k) Q s = (case err of Some err \<Rightarrow> Q (badRequest (err_text err)) s | None \<Rightarrow> wp k Q s)"
  by (simp add: or_bad_request_def wp_simps split: option.split)

definition create_project :: "'w resource_server \<Rightarrow> ProjectRequest \<Rightarrow> ('w, ProjectResponse api_response) resource_io" where
  "create_project s req = (let spec = prq_Spec req in
     or_bad_request (validateName (prq_Name req))
      (if prs_DisplayName spec = '''' \<or> prs_OwnerTeam spec = '''' \<or> prs_Namespace spec = '''' \<or> prs_DefaultRegistry spec = ''''
       then reply (badRequest ''displayName, ownerTeam, namespace and defaultRegistry are required'')
       else let obj = Project_zero\<lparr>proj_Meta := objectMeta (prq_Name req) (server_namespace (rsv_Server s) (prq_Namespace req)),
              proj_Spec := spec\<rparr> in
         or_reply (call (Api (ApiProjectCreated obj)) (sv_CreateProject (rsv_Server s) obj)) (\<lambda>obj. reply (Reply 201 (projectDTO obj)))))"

definition create_repository :: "'w resource_server \<Rightarrow> RepositoryRequest \<Rightarrow> ('w, RepositoryResponse api_response) resource_io" where
  "create_repository s req = (let spec = rrq_Spec req in
     or_bad_request (validateName (rrq_Name req))
      (if rs_ProjectRef spec = '''' \<or> rs_URL spec = '''' \<or> rs_PipelineTemplateRef spec = ''''
       then reply (badRequest ''projectRef, url and pipelineTemplateRef are required'')
       else let obj = Repository_zero\<lparr>repo_Meta := objectMeta (rrq_Name req) (server_namespace (rsv_Server s) (rrq_Namespace req)),
              repo_Spec := spec\<rparr> in
         or_reply (call (Api (ApiRepositoryCreated obj)) (sv_CreateRepository (rsv_Server s) obj)) (\<lambda>obj.
           reply (Reply 201 (repositoryDTO obj)))))"


section \<open>Pipeline templates\<close>

text \<open>The loop over the steps: the index of the next one and the names so far.\<close>

fun step_errors :: "int \<Rightarrow> string list \<Rightarrow> PipelineStep list \<Rightarrow> go_error option" where
  "step_errors index names [] = None"
| "step_errors index names (step # steps) =
     (if TrimSpace (step_Name step) = '''' then Some (errors_New (''steps['' @ Itoa index @ ''].name is required''))
      else if TrimSpace (step_Image step) = '''' then Some (errors_New (''steps['' @ Itoa index @ ''].image is required''))
      else if step_Command step = [] then Some (errors_New (''steps['' @ Itoa index @ ''].command is required''))
      else if step_Name step \<in> set names then Some (errors_New (''duplicate step name '' @ quote (step_Name step)))
      else step_errors (index + 1) (step_Name step # names) steps)"

definition no_builder :: "PipelineTemplateSpec \<Rightarrow> bool" where
  "no_builder spec \<longleftrightarrow> bld_Enabled (pts_Build spec) \<and> bld_Builder (pts_Build spec) = BuildBuilderOther ''''"

definition validatePipelineTemplateSpec :: "PipelineTemplateSpec \<Rightarrow> go_error option" where
  "validatePipelineTemplateSpec spec =
     (if pts_Steps spec = [] \<and> \<not> bld_Enabled (pts_Build spec)
      then Some (errors_New ''at least one step or an enabled build is required'')
      else case step_errors 0 [] (pts_Steps spec) of
        Some err \<Rightarrow> Some err
      | None \<Rightarrow> if no_builder spec then Some (errors_New ''build.builder is required when build.enabled is true'') else None)"

text \<open>What \<open>POST\<close> checks of the builder and the cache.\<close>

definition template_cache_error :: "PipelineTemplateSpec \<Rightarrow> go_error option" where
  "template_cache_error spec = (let cache = pts_Cache spec in
     if no_builder spec then Some (errors_New ''build.builder is required when build.enabled is true'')
     else if \<not> dc_Enabled cache then None
     else if dc_Mode cache = DependencyCacheModeUnset then Some (errors_New ''cache.mode is required when cache.enabled is true'')
     else if dc_Mode cache = DependencyCacheModePVC \<and> dc_Paths cache = []
     then Some (errors_New ''cache.paths is required for pvc cache mode'')
     else if dc_Mode cache = DependencyCacheModeRegistry
       \<and> (\<not> bld_Enabled (pts_Build spec) \<or> bld_Builder (pts_Build spec) \<noteq> BuildBuilderBuildKit)
     then Some (errors_New ''registry cache mode requires an enabled BuildKit image build'')
     else None)"

definition template_decision :: "'w resource_server \<Rightarrow> gotime \<Rightarrow> PipelineTemplate \<Rightarrow> Decision" where
  "template_decision s now obj = pe_EvaluatePipelineTemplate (evaluator (rsv_Server s)) now
     \<lparr>ti_PipelineTemplate = Some obj, ti_EnforceAuthorization = True, ti_SecretUseAuthorized = True\<rparr>"

definition create_pipelineTemplate ::
  "'w resource_server \<Rightarrow> PipelineTemplateRequest \<Rightarrow> ('w, PipelineTemplateResponse api_response) resource_io" where
  "create_pipelineTemplate s req = (let spec = trq_Spec req in
     or_bad_request (validateName (trq_Name req)) (or_bad_request (validatePipelineTemplateSpec spec)
      (or_bad_request (template_cache_error spec) (do {
         let obj = PipelineTemplate_zero\<lparr>pt_Meta := objectMeta (trq_Name req) (server_namespace (rsv_Server s) (trq_Namespace req)),
           pt_Spec := spec\<rparr>;
         now \<leftarrow> query (sv_Now (rsv_Server s));
         let dec = template_decision s now obj;
         if \<not> dec_Allowed dec then reply (policyDenied dec)
         else or_reply (call (Api (ApiTemplateCreated obj)) (sv_CreatePipelineTemplate (rsv_Server s) obj)) (\<lambda>obj.
           reply (Reply 201 (pipelineTemplateDTO obj)))
       }))))"

definition updatePipelineTemplate ::
  "'w resource_server \<Rightarrow> NamespacedName \<Rightarrow> PipelineTemplateRequest \<Rightarrow> ('w, PipelineTemplateResponse api_response) resource_io" where
  "updatePipelineTemplate s key req =
     or_bad_request (validatePipelineTemplateSpec (trq_Spec req))
      (or_reply (query (sv_GetPipelineTemplate (rsv_Server s) key)) (\<lambda>obj.
         let obj = obj\<lparr>pt_Spec := trq_Spec req\<rparr> in
         or_reply (call (Api (ApiTemplateUpdated obj)) (sv_UpdatePipelineTemplate (rsv_Server s) obj)) (\<lambda>obj.
           reply (Reply 200 (pipelineTemplateDTO obj)))))"


section \<open>The catalog\<close>

record CatalogTemplate =
  cat_Name :: string
  cat_Version :: string
  cat_Description :: string
  cat_Parameters :: "ParamSpec list"
  cat_Spec :: PipelineTemplateSpec

definition catalog_Version :: string where
  "catalog_Version = ''1.0.0''"

definition commonParameters :: "ParamSpec list" where
  "commonParameters = [ParamSpec_zero\<lparr>par_Name := ''image'', par_Description := ''Target OCI image repository'', par_Required := True\<rparr>]"

definition safeSecurity :: PipelineSecuritySpec where
  "safeSecurity = PipelineSecuritySpec_zero\<lparr>sec_RunAsNonRoot := True\<rparr>"

definition catalog_build :: PipelineBuildSpec where
  "catalog_build = PipelineBuildSpec_zero\<lparr>bld_Enabled := True, bld_Builder := BuildBuilderBuildKit, bld_ContextDir := ''.'',
     bld_Dockerfile := ''Dockerfile'', bld_Push := True\<rparr>"

definition stack :: "string \<Rightarrow> string \<Rightarrow> string \<Rightarrow> string list \<Rightarrow> CatalogTemplate" where
  "stack name description img command = \<lparr>cat_Name = name, cat_Version = catalog_Version, cat_Description = description,
     cat_Parameters = commonParameters, cat_Spec = PipelineTemplateSpec_zero\<lparr>pts_Description := description,
       pts_Steps := [PipelineStep_zero\<lparr>step_Name := ''test'', step_Image := img, step_Command := command\<rparr>],
       pts_Build := catalog_build, pts_Security := safeSecurity\<rparr>\<rparr>"

definition buildOnly :: "string \<Rightarrow> string \<Rightarrow> CatalogTemplate" where
  "buildOnly name description = \<lparr>cat_Name = name, cat_Version = catalog_Version, cat_Description = description,
     cat_Parameters = commonParameters, cat_Spec = PipelineTemplateSpec_zero\<lparr>pts_Description := description,
       pts_Build := catalog_build, pts_Security := safeSecurity\<rparr>\<rparr>"

definition validateOnly :: "string \<Rightarrow> string \<Rightarrow> string \<Rightarrow> string list \<Rightarrow> CatalogTemplate" where
  "validateOnly name description img command = \<lparr>cat_Name = name, cat_Version = catalog_Version, cat_Description = description,
     cat_Parameters = [], cat_Spec = PipelineTemplateSpec_zero\<lparr>pts_Description := description,
       pts_Steps := [PipelineStep_zero\<lparr>step_Name := ''validate'', step_Image := img, step_Command := command\<rparr>],
       pts_Build := PipelineBuildSpec_zero\<lparr>bld_Builder := BuildBuilderNone\<rparr>, pts_Security := safeSecurity\<rparr>\<rparr>"

definition catalog_definitions :: "CatalogTemplate list" where
  "catalog_definitions =
     [stack ''go'' ''Go test and rootless image build'' ''golang:1.26'' [''go'', ''test'', ''./...''],
      stack ''node-npm'' ''Node.js npm CI'' ''node:24-alpine'' [''sh'', ''-c'', ''npm ci && npm test''],
      stack ''node-pnpm'' ''Node.js pnpm CI'' ''node:24-alpine''
        [''sh'', ''-c'', ''corepack enable && pnpm install --frozen-lockfile && pnpm test''],
      stack ''angular'' ''Angular test and production build'' ''node:24-alpine''
        [''sh'', ''-c'', ''npm ci && npm test -- --watch=false && npm run build''],
      stack ''react'' ''React test and production build'' ''node:24-alpine''
        [''sh'', ''-c'', ''npm ci && npm test -- --watch=false && npm run build''],
      stack ''python'' ''Python tests'' ''python:3.14-slim'' [''sh'', ''-c'', ''pip install -r requirements.txt && pytest''],
      stack ''java-maven'' ''Java Maven verify'' ''maven:3.9-eclipse-temurin-21'' [''mvn'', ''-B'', ''verify''],
      stack ''java-gradle'' ''Java Gradle check'' ''gradle:9-jdk21'' [''gradle'', ''check''],
      buildOnly ''dockerfile'' ''Build and push an existing Dockerfile'',
      validateOnly ''helm-chart'' ''Validate a Helm chart'' ''alpine/helm:3.18.4'' [''helm'', ''lint'', ''.''],
      validateOnly ''kubernetes-manifests'' ''Validate Kubernetes YAML'' ''ghcr.io/yannh/kubeconform:v0.7.0''
        [''-summary'', ''-strict'', ''manifests'']]"

definition PipelineTemplates :: "CatalogTemplate list" where
  "PipelineTemplates = sort_key (\<lambda>t. map byte (cat_Name t)) catalog_definitions"

definition FindPipelineTemplate :: "string \<Rightarrow> CatalogTemplate option" where
  "FindPipelineTemplate name = find (\<lambda>t. cat_Name t = name) PipelineTemplates"

definition catalogPipelineTemplates :: "('w, CatalogTemplate list api_response) resource_io" where
  "catalogPipelineTemplates = reply (Reply 200 PipelineTemplates)"

record CatalogInstallRequest =
  ciq_Name :: string
  ciq_Namespace :: string
  ciq_ProjectRef :: string

definition installed_template :: "'w resource_server \<Rightarrow> CatalogTemplate \<Rightarrow> string \<Rightarrow> CatalogInstallRequest \<Rightarrow> PipelineTemplate" where
  "installed_template s item name req = PipelineTemplate_zero\<lparr>
     pt_Meta := (objectMeta name (server_namespace (rsv_Server s) (ciq_Namespace req)))\<lparr>
       meta_Labels := [''cicd.cloudivision.io/catalog-template'' \<mapsto> cat_Name item],
       meta_Annotations := [''cicd.cloudivision.io/catalog-version'' \<mapsto> cat_Version item]\<rparr>,
     pt_Spec := (cat_Spec item)\<lparr>pts_ProjectRef := ciq_ProjectRef req\<rparr>\<rparr>"

definition installCatalogPipelineTemplate ::
  "'w resource_server \<Rightarrow> string \<Rightarrow> CatalogInstallRequest \<Rightarrow> ('w, PipelineTemplateResponse api_response) resource_io" where
  "installCatalogPipelineTemplate s item req = (case FindPipelineTemplate item of
     None \<Rightarrow> reply (api_error 404 ''catalog_template_not_found'' ''catalog pipeline template was not found'')
   | Some template \<Rightarrow>
       let name = (if ciq_Name req = '''' then cat_Name template else ciq_Name req) in
       or_bad_request (validateName name)
        (let obj = installed_template s template name req in
         or_reply (call (Api (ApiTemplateCreated obj)) (sv_CreatePipelineTemplate (rsv_Server s) obj)) (\<lambda>obj.
           reply (Reply 201 (pipelineTemplateDTO obj)))))"


section \<open>The dependency cache\<close>

record CachePurgeResponse =
  cpr_Project :: string
  cpr_Repository :: string
  cpr_Purged :: bool

definition purge_scope :: "'w resource_server \<Rightarrow> Project \<Rightarrow> string \<Rightarrow> (PurgeRequest \<Rightarrow> ('w, CachePurgeResponse api_response) resource_io)
    \<Rightarrow> ('w, CachePurgeResponse api_response) resource_io" where
  "purge_scope s project repository k = (let scope = \<lparr>pr_Project = meta_Name (proj_Meta project), pr_Repository = repository\<rparr> in
     if repository = '''' then k scope
     else or_reply (query (sv_GetRepository (rsv_Server s) \<lparr>key_Namespace = meta_Namespace (proj_Meta project), key_Name = repository\<rparr>))
       (\<lambda>r. if rs_ProjectRef (repo_Spec r) \<noteq> meta_Name (proj_Meta project)
            then reply (badRequest ''repository does not belong to project'') else k scope))"

definition purgeProjectCache ::
  "'w resource_server \<Rightarrow> api_context \<Rightarrow> query_values \<Rightarrow> string \<Rightarrow> ('w, CachePurgeResponse api_response) resource_io" where
  "purgeProjectCache s ctx q name =
     or_reply (query (sv_GetProject (rsv_Server s) \<lparr>key_Namespace = namespace_of s q, key_Name = name\<rparr>)) (\<lambda>project.
       case rsv_CacheStore s of
         None \<Rightarrow> reply (api_error 503 ''cache_unavailable'' ''dependency cache backend is not configured'')
       | Some purge \<Rightarrow>
           purge_scope s project (TrimSpace (query_Get q ''repository'')) (\<lambda>scope.
             or_reply (wrap ''purge project dependency cache'' (call (CachePurged scope) (purge scope))) (\<lambda>_. do {
               audited s ctx (AuditEvent_zero\<lparr>ae_Type := ''ProjectCachePurged'', ae_Actor := ActorFromContext (cx_Principal ctx) '''',
                 ae_Project := pr_Project scope, ae_Repository := pr_Repository scope, ae_Message := ''Purged dependency cache.''\<rparr>);
               reply (Reply 200 \<lparr>cpr_Project = pr_Project scope, cpr_Repository = pr_Repository scope, cpr_Purged = True\<rparr>)
             })))"


section \<open>Logs and artifacts\<close>

record LogsResponse =
  lgr_Namespace :: string
  lgr_BuildRun :: string
  lgr_Backend :: string
  lgr_Ref :: string
  lgr_PodName :: string
  lgr_Lines :: "string list"

definition parseTailLines :: "string \<Rightarrow> int option result" where
  "parseTailLines val =
     (if val = '''' then Inr None
      else case Atoi val of
        None \<Rightarrow> Inl (errors_New ''tailLines must be a non-negative integer'')
      | Some n \<Rightarrow> if n < 0 then Inl (errors_New ''tailLines must be a non-negative integer'') else Inr (Some n))"

definition splitLogLines :: "string \<Rightarrow> string list" where
  "splitLogLines logs = (let trimmed = TrimRight logs [newline] in if trimmed = '''' then [] else Split trimmed newline)"

definition shown_line :: "(gotime \<Rightarrow> string) \<Rightarrow> LogLine \<Rightarrow> string" where
  "shown_line format line =
     (if ll_Timestamp line \<noteq> 0 then format (ll_Timestamp line) @ '' '' else '''')
     @ (if ll_Step line \<noteq> '''' then ''[step:'' @ ll_Step line @ ''] '' else '''')
     @ ll_Message line"

definition stored_logs :: "'w resource_server \<Rightarrow> (ReadLogRequest \<Rightarrow> 'w \<Rightarrow> ReadLogResult result \<times> 'w) \<Rightarrow> NamespacedName
    \<Rightarrow> int option \<Rightarrow> string \<Rightarrow> ('w, LogsResponse api_response) resource_io" where
  "stored_logs s read key tail step = do {
     r \<leftarrow> query (read \<lparr>rdl_Namespace = key_Namespace key, rdl_BuildRun = key_Name key,
       rdl_TailLines = (case tail of None \<Rightarrow> 0 | Some n \<Rightarrow> n), rdl_Step = step\<rparr>);
     case r of
       Inl err \<Rightarrow> reply (if errors_Is err (Sentinel ''logstore.ErrNotFound'') then notFound ''stored logs not found''
                         else writeError (errorf_w ''read stored logs'' err))
     | Inr found \<Rightarrow> reply (Reply 200 \<lparr>lgr_Namespace = key_Namespace key, lgr_BuildRun = key_Name key,
         lgr_Backend = rdr_Backend found, lgr_Ref = rdr_Ref found, lgr_PodName = '''',
         lgr_Lines = map (shown_line (rsv_FormatTime s)) (rdr_Lines found)\<rparr>)
   }"

definition pod_logs :: "'w resource_server \<Rightarrow> NamespacedName \<Rightarrow> int option \<Rightarrow> ('w, LogsResponse api_response) resource_io" where
  "pod_logs s key tail =
     or_reply (query (rsv_ListPods s (key_Namespace key) (key_Name key))) (\<lambda>pods. case pods of
       [] \<Rightarrow> reply (notFound ''runner pod not found'')
     | pod # _ \<Rightarrow> (case rsv_LogReader s of
         None \<Rightarrow> reply (internalError ''pod log reader is not configured'')
       | Some read \<Rightarrow> or_reply (query (read (key_Namespace key) pod tail)) (\<lambda>data.
           reply (Reply 200 \<lparr>lgr_Namespace = key_Namespace key, lgr_BuildRun = key_Name key, lgr_Backend = '''', lgr_Ref = '''',
             lgr_PodName = pod, lgr_Lines = splitLogLines data\<rparr>))))"

definition buildRunLogs :: "'w resource_server \<Rightarrow> query_values \<Rightarrow> NamespacedName \<Rightarrow> ('w, LogsResponse api_response) resource_io" where
  "buildRunLogs s q key = (case parseTailLines (query_Get q ''tailLines'') of
     Inl err \<Rightarrow> reply (badRequest (err_text err))
   | Inr tail \<Rightarrow> (case rsv_LogStore s of
       Some read \<Rightarrow> stored_logs s read key tail (query_Get q ''step'')
     | None \<Rightarrow> pod_logs s key tail))"

definition buildRunArtifacts :: "'w resource_server \<Rightarrow> NamespacedName \<Rightarrow> ('w, BuildRunArtifactStatus list api_response) resource_io" where
  "buildRunArtifacts s key = or_reply (query (sv_GetBuildRun (rsv_Server s) key)) (\<lambda>b. reply (Reply 200 (bst_Artifacts (br_Status b))))"

text \<open>What an artifact is sent with: its type, its length, and the name for the file.\<close>

record ArtifactResponse =
  arp_ContentType :: string
  arp_ContentLength :: string
  arp_ContentDisposition :: string
  arp_Data :: string

definition double_quote :: char where "double_quote = CHR 0x22"

definition content_disposition :: "string \<Rightarrow> string" where
  "content_disposition name =
     ''attachment; filename='' @ [double_quote] @ filter (\<lambda>c. c \<noteq> double_quote) name @ [double_quote]"

definition artifact_ref :: "BuildRun \<Rightarrow> BuildRunArtifactStatus \<Rightarrow> ArtifactRef" where
  "artifact_ref b st = \<lparr>arf_Namespace = meta_Namespace (br_Meta b), arf_BuildRun = meta_Name (br_Meta b), arf_Name = art_Name st,
     arf_Path = art_Path st, arf_Type = art_Type st, arf_Size = art_Size st, arf_Digest = art_Digest st, arf_Ref = art_Ref st,
     arf_CreatedAt = 0\<rparr>"

definition buildRunArtifact ::
  "'w resource_server \<Rightarrow> NamespacedName \<Rightarrow> string \<Rightarrow> ('w, ArtifactResponse api_response) resource_io" where
  "buildRunArtifact s key name = (case rsv_ArtifactStore s of
     None \<Rightarrow> reply (notFound ''artifact storage is disabled'')
   | Some get \<Rightarrow> or_reply (query (sv_GetBuildRun (rsv_Server s) key)) (\<lambda>b.
       case find (\<lambda>st. art_Name st = name) (bst_Artifacts (br_Status b)) of
         None \<Rightarrow> reply (notFound ''artifact not found'')
       | Some st \<Rightarrow> do {
           r \<leftarrow> query (get (artifact_ref b st));
           case r of
             Inl err \<Rightarrow> reply (if errors_Is err (Sentinel ''artifacts.ErrNotFound'') \<or> errors_Is err (Sentinel ''artifacts.ErrDisabled'')
               then notFound ''artifact content not found'' else writeError (errorf_w ''read artifact'' err))
           | Inr artifact \<Rightarrow> reply (Reply 200 \<lparr>
               arp_ContentType = (if art_Type st = '''' then ''application/octet-stream'' else art_Type st),
               arp_ContentLength = Itoa (int (length (afc_Data artifact))),
               arp_ContentDisposition = content_disposition (art_Name st), arp_Data = afc_Data artifact\<rparr>)
         }))"


section \<open>Other origins\<close>

definition originAllowed :: "string list \<Rightarrow> string \<Rightarrow> bool" where
  "originAllowed origins origin \<longleftrightarrow> list_ex (\<lambda>allowed. allowed = ''*'' \<or> allowed = origin) origins"

definition cors_headers :: "'w resource_server \<Rightarrow> string \<Rightarrow> (string \<times> string) list" where
  "cors_headers s origin =
     (if origin \<noteq> '''' \<and> originAllowed (rsv_CORSOrigins s) origin
      then [(''Access-Control-Allow-Origin'', origin), (''Vary'', ''Origin''), (''Access-Control-Allow-Methods'', ''GET,POST,OPTIONS''),
        (''Access-Control-Allow-Headers'', ''Content-Type,Authorization,X-Cloudivision-Organization,X-Cloudivision-Project''),
        (''Access-Control-Expose-Headers'', ''X-Request-ID'')]
      else [])"

text \<open>The middleware: the headers it sets, and the answer to a preflight request or the next handler.\<close>

definition cors :: "'w resource_server \<Rightarrow> string \<Rightarrow> string \<Rightarrow> 'a \<Rightarrow> (string \<times> string) list \<times> (int + 'a)" where
  "cors s method origin next = (cors_headers s origin, if method = ''OPTIONS'' then Inl 204 else Inr next)"

section \<open>Valid templates\<close>

lemma step_errors_None:
  "step_errors i names steps = None \<longleftrightarrow>
     (\<forall>step \<in> set steps. TrimSpace (step_Name step) \<noteq> '''' \<and> TrimSpace (step_Image step) \<noteq> '''' \<and> step_Command step \<noteq> [])
     \<and> distinct (map step_Name steps) \<and> set (map step_Name steps) \<inter> set names = {}"
  by (induction i names steps rule: step_errors.induct) auto

definition valid_template_spec :: "PipelineTemplateSpec \<Rightarrow> bool" where
  "valid_template_spec spec \<longleftrightarrow> (pts_Steps spec \<noteq> [] \<or> bld_Enabled (pts_Build spec))
     \<and> (\<forall>step \<in> set (pts_Steps spec). TrimSpace (step_Name step) \<noteq> '''' \<and> TrimSpace (step_Image step) \<noteq> '''' \<and> step_Command step \<noteq> [])
     \<and> distinct (map step_Name (pts_Steps spec)) \<and> \<not> no_builder spec"

lemma validatePipelineTemplateSpec_None: "validatePipelineTemplateSpec spec = None \<longleftrightarrow> valid_template_spec spec"
  using step_errors_None [of 0 "[]" "pts_Steps spec"]
  by (cases "step_errors 0 [] (pts_Steps spec)") (auto simp: validatePipelineTemplateSpec_def valid_template_spec_def)

text \<open>What a template that is created with \<open>POST\<close> has passed.\<close>

definition accepted_template :: "'w resource_server \<Rightarrow> PipelineTemplate \<Rightarrow> bool" where
  "accepted_template s t \<longleftrightarrow> valid_template_spec (pt_Spec t) \<and> template_cache_error (pt_Spec t) = None
     \<and> (\<exists>now. dec_Allowed (template_decision s now t))"

lemma create_pipelineTemplate_accepted:
  "only {Api (ApiTemplateCreated t) |t. accepted_template s t} (create_pipelineTemplate s req)"
  unfolding create_pipelineTemplate_def Let_def
  by (intro only_or_bad_request only_bind_query)
    (auto simp: accepted_template_def validatePipelineTemplateSpec_None intro!: only_intros)

lemma update_pipelineTemplate_trace:
  "wp (updatePipelineTemplate s key req) (\<lambda>r t. trace t = trace st @
     (case validatePipelineTemplateSpec (trq_Spec req) of Some _ \<Rightarrow> [] | None \<Rightarrow>
       (case fst (sv_GetPipelineTemplate (rsv_Server s) key (ext st)) of Inl _ \<Rightarrow> []
        | Inr obj \<Rightarrow> [Api (ApiTemplateUpdated (obj\<lparr>pt_Spec := trq_Spec req\<rparr>))]))) st"
  by (auto simp: updatePipelineTemplate_def Let_def wp_simps split: option.split sum.split)

text \<open>A template that the default policy forbids and \<open>POST\<close> refuses.\<close>

definition privileged_spec :: PipelineTemplateSpec where
  "privileged_spec = PipelineTemplateSpec_zero\<lparr>
     pts_Steps := [PipelineStep_zero\<lparr>step_Name := ''test'', step_Image := ''golang'', step_Command := [''go'']\<rparr>],
     pts_Security := PipelineSecuritySpec_zero\<lparr>sec_AllowPrivileged := True\<rparr>\<rparr>"

lemma privileged_spec_refused:
  assumes "sv_PolicyEvaluator (rsv_Server s) = None" and "pt_Spec t = privileged_spec"
  shows "\<not> dec_Allowed (template_decision s now t)"
proof -
  have d: "\<not> dec_Allowed (decision now (v # vs))" for v vs by (simp add: decision_def)
  have "sec_AllowPrivileged (pts_Security privileged_spec)" by (simp add: privileged_spec_def)
  then show ?thesis
    using assms d by (simp add: template_decision_def evaluator_def EvaluatePipelineTemplate_def Let_def)
qed

lemma privileged_spec_valid: "valid_template_spec privileged_spec"
proof -
  have "TrimSpace ''test'' \<noteq> ''''" "TrimSpace ''golang'' \<noteq> ''''" by code_simp+
  then show ?thesis by (simp add: valid_template_spec_def privileged_spec_def no_builder_def zero_defs)
qed

text \<open>
  C0: Pipeline templates are created with \<open>POST\<close> only if they are valid, their cache settings are consistent and the policy
  evaluator allows them. Replacing the specification of one with \<open>PUT\<close> checks neither the cache settings nor the policy: every
  specification that passes the common validation is written over that of the template with this name, also one that allows
  privileged runners, which the default policy forbids.
\<close>

theorem template_update_skips_policy:
  "only {Api (ApiTemplateCreated t) |t. accepted_template s t} (create_pipelineTemplate s req)
   \<and> wp (updatePipelineTemplate s key req) (\<lambda>r t. trace t = trace st @
       (if valid_template_spec (trq_Spec req)
        then (case fst (sv_GetPipelineTemplate (rsv_Server s) key (ext st)) of Inl _ \<Rightarrow> []
          | Inr obj \<Rightarrow> [Api (ApiTemplateUpdated (obj\<lparr>pt_Spec := trq_Spec req\<rparr>))]) else [])) st
   \<and> valid_template_spec privileged_spec \<and> \<not> accepted_template (s\<lparr>rsv_Server := empty_server\<rparr>) (PipelineTemplate_zero\<lparr>pt_Spec := privileged_spec\<rparr>)"
proof (intro conjI)
  show "wp (updatePipelineTemplate s key req) (\<lambda>r t. trace t = trace st @
       (if valid_template_spec (trq_Spec req)
        then (case fst (sv_GetPipelineTemplate (rsv_Server s) key (ext st)) of Inl _ \<Rightarrow> []
          | Inr obj \<Rightarrow> [Api (ApiTemplateUpdated (obj\<lparr>pt_Spec := trq_Spec req\<rparr>))]) else [])) st"
    by (rule wp_mono [OF update_pipelineTemplate_trace]) (simp add: validatePipelineTemplateSpec_None [symmetric] split: option.split)
  show "\<not> accepted_template (s\<lparr>rsv_Server := empty_server\<rparr>) (PipelineTemplate_zero\<lparr>pt_Spec := privileged_spec\<rparr>)"
    using privileged_spec_refused [of "s\<lparr>rsv_Server := empty_server\<rparr>" "PipelineTemplate_zero\<lparr>pt_Spec := privileged_spec\<rparr>"]
    by (simp add: accepted_template_def empty_server_def)
qed (rule create_pipelineTemplate_accepted privileged_spec_valid)+


section \<open>The catalog\<close>

lemma set_PipelineTemplates: "set PipelineTemplates = set catalog_definitions"
  by (simp add: PipelineTemplates_def)

lemma catalog_valid: "\<forall>t \<in> set catalog_definitions. valid_template_spec (cat_Spec t) \<and> sec_RunAsNonRoot (pts_Security (cat_Spec t))
    \<and> template_cache_error (cat_Spec t) = None"
proof -
  have "TrimSpace ''test'' \<noteq> ''''" "TrimSpace ''validate'' \<noteq> ''''" "TrimSpace ''golang:1.26'' \<noteq> ''''" "TrimSpace ''node:24-alpine'' \<noteq> ''''"
    "TrimSpace ''python:3.14-slim'' \<noteq> ''''" "TrimSpace ''maven:3.9-eclipse-temurin-21'' \<noteq> ''''" "TrimSpace ''gradle:9-jdk21'' \<noteq> ''''"
    "TrimSpace ''alpine/helm:3.18.4'' \<noteq> ''''" "TrimSpace ''ghcr.io/yannh/kubeconform:v0.7.0'' \<noteq> ''''" by code_simp+
  then show ?thesis
    by (simp add: catalog_definitions_def stack_def buildOnly_def validateOnly_def valid_template_spec_def template_cache_error_def
        no_builder_def catalog_build_def safeSecurity_def zero_defs)
qed

lemma catalog_names: "distinct (map cat_Name catalog_definitions)"
  by (simp add: catalog_definitions_def stack_def buildOnly_def validateOnly_def)

lemma distinct_PipelineTemplates: "distinct (map cat_Name PipelineTemplates)"
proof -
  have "mset (map cat_Name PipelineTemplates) = mset (map cat_Name catalog_definitions)" by (simp add: PipelineTemplates_def)
  then show ?thesis using catalog_names mset_eq_imp_distinct_iff by blast
qed

text \<open>Every template of the catalog is found by its name, is valid, and does not run as root.\<close>

lemma find_distinct:
  assumes "distinct (map f xs)" and "x \<in> set xs"
  shows "find (\<lambda>y. f y = f x) xs = Some x"
  using assms by (induction xs) auto

lemma catalog_found:
  "FindPipelineTemplate name = Some t \<longleftrightarrow> t \<in> set catalog_definitions \<and> cat_Name t = name"
proof
  assume "FindPipelineTemplate name = Some t"
  then show "t \<in> set catalog_definitions \<and> cat_Name t = name"
    by (auto simp: FindPipelineTemplate_def find_Some_iff set_PipelineTemplates [symmetric])
next
  assume "t \<in> set catalog_definitions \<and> cat_Name t = name"
  then show "FindPipelineTemplate name = Some t"
    using find_distinct [OF distinct_PipelineTemplates, of t] by (auto simp: FindPipelineTemplate_def set_PipelineTemplates)
qed

lemma install_valid:
  "only {Api (ApiTemplateCreated t) |t. valid_template_spec (pt_Spec t) \<and> sec_RunAsNonRoot (pts_Security (pt_Spec t))}
     (installCatalogPipelineTemplate s item req)"
proof (cases "FindPipelineTemplate item")
  case (Some t)
  then have t: "valid_template_spec (cat_Spec t)" "sec_RunAsNonRoot (pts_Security (cat_Spec t))"
    using catalog_valid by (auto simp: catalog_found)
  have ref: "valid_template_spec (spec\<lparr>pts_ProjectRef := p\<rparr>) = valid_template_spec spec" for spec p
    by (simp add: valid_template_spec_def no_builder_def)
  show ?thesis
    unfolding installCatalogPipelineTemplate_def Some option.case Let_def
    by (intro only_or_bad_request) (auto simp: installed_template_def ref t intro!: only_intros)
qed (simp add: installCatalogPipelineTemplate_def only_reply)


section \<open>Caches, organizations and artifacts\<close>

lemma only_audited: "only (range Api) (audited s ctx event)"
  unfolding audited_def by (rule only_relabel) simp

text \<open>The scopes that belong to a project.\<close>

definition project_scope :: "'w resource_server \<Rightarrow> NamespacedName \<Rightarrow> PurgeRequest \<Rightarrow> bool" where
  "project_scope s key scope \<longleftrightarrow> (\<exists>u project. fst (sv_GetProject (rsv_Server s) key u) = Inr project
      \<and> pr_Project scope = meta_Name (proj_Meta project)
      \<and> (pr_Repository scope \<noteq> '''' \<longrightarrow> (\<exists>v r. fst (sv_GetRepository (rsv_Server s)
            \<lparr>key_Namespace = meta_Namespace (proj_Meta project), key_Name = pr_Repository scope\<rparr> v) = Inr r
          \<and> rs_ProjectRef (repo_Spec r) = meta_Name (proj_Meta project))))"

lemma only_purge_scope:
  assumes "fst (sv_GetProject (rsv_Server s) key u) = Inr project"
    and "\<And>scope. project_scope s key scope \<Longrightarrow> only E (k scope)"
  shows "only E (purge_scope s project repository k)"
proof (cases "repository = ''''")
  case True
  from assms(1) have "project_scope s key \<lparr>pr_Project = meta_Name (proj_Meta project), pr_Repository = ''''\<rparr>"
    by (auto simp: project_scope_def)
  with True assms(2) show ?thesis by (simp add: purge_scope_def Let_def)
next
  case False
  show ?thesis
    unfolding purge_scope_def Let_def if_not_P [OF False]
  proof (rule only_or_reply_query)
    fix v r
    assume "fst (sv_GetRepository (rsv_Server s) \<lparr>key_Namespace = meta_Namespace (proj_Meta project), key_Name = repository\<rparr> v) = Inr r"
    with assms(1) have "project_scope s key \<lparr>pr_Project = meta_Name (proj_Meta project), pr_Repository = repository\<rparr>"
      if "rs_ProjectRef (repo_Spec r) = meta_Name (proj_Meta project)"
      using that by (auto simp: project_scope_def)
    then show "only E (if rs_ProjectRef (repo_Spec r) \<noteq> meta_Name (proj_Meta project)
        then reply (badRequest ''repository does not belong to project'')
        else k \<lparr>pr_Project = meta_Name (proj_Meta project), pr_Repository = repository\<rparr>)"
      using assms(2) by (simp add: only_reply)
  qed
qed

text \<open>
  The cache endpoint purges only what belongs to the project that the request names and the cluster has: the whole project, or
  one repository that refers to this project.
\<close>

lemma purge_stays_in_project:
  "only (range Api \<union> {CachePurged scope |scope. project_scope s \<lparr>key_Namespace = namespace_of s q, key_Name = name\<rparr> scope})
     (purgeProjectCache s ctx q name)"
  unfolding purgeProjectCache_def
proof (rule only_or_reply_query)
  fix u project
  assume get: "fst (sv_GetProject (rsv_Server s) \<lparr>key_Namespace = namespace_of s q, key_Name = name\<rparr> u) = Inr project"
  show "only (range Api \<union> {CachePurged scope |scope. project_scope s \<lparr>key_Namespace = namespace_of s q, key_Name = name\<rparr> scope})
    (case rsv_CacheStore s of
         None \<Rightarrow> reply (api_error 503 ''cache_unavailable'' ''dependency cache backend is not configured'')
       | Some purge \<Rightarrow>
           purge_scope s project (TrimSpace (query_Get q ''repository'')) (\<lambda>scope.
             or_reply (wrap ''purge project dependency cache'' (call (CachePurged scope) (purge scope))) (\<lambda>_. do {
               audited s ctx (AuditEvent_zero\<lparr>ae_Type := ''ProjectCachePurged'', ae_Actor := ActorFromContext (cx_Principal ctx) '''',
                 ae_Project := pr_Project scope, ae_Repository := pr_Repository scope, ae_Message := ''Purged dependency cache.''\<rparr>);
               reply (Reply 200 \<lparr>cpr_Project = pr_Project scope, cpr_Repository = pr_Repository scope, cpr_Purged = True\<rparr>)
             })))"
    by (cases "rsv_CacheStore s")
      (auto intro!: only_reply only_purge_scope [OF get] only_or_reply only_wrap only_call only_bind only_mono [OF only_audited])
qed

text \<open>The data of an organization is sent only to those who may read it.\<close>

lemma organization_data_needs_permission:
  assumes "\<And>dir. rsv_Organizations s = Some dir \<Longrightarrow> fst (od_Allowed dir (cx_Principal ctx) organization '''' PermissionRead (ext st)) \<noteq> Inr True"
  shows "wp (requireOrganizationRead s ctx organization k) (\<lambda>r t. (\<exists>status code message. r = ErrorResponse status code message) \<and> trace t = trace st) st"
  using assms
  by (auto simp: requireOrganizationRead_def wp_simps api_error_def writeError_def split: option.split sum.split prod.split)

text \<open>The name of an artifact cannot end the quoted name of the file.\<close>

lemma content_disposition_quotes: "filter (\<lambda>c. c = double_quote) (content_disposition name) = [double_quote, double_quote]"
  by (simp add: content_disposition_def double_quote_def filter_empty_conv)

lemma parseTailLines_bounds: "parseTailLines v = Inr (Some n) \<Longrightarrow> 0 \<le> n \<and> n < 2 ^ 63"
  by (auto simp: parseTailLines_def Atoi_def Let_def split: if_splits option.splits)

text \<open>
  A browser that asks whether it may \<open>PUT\<close> is not told so, whatever its origin: the update of a template cannot be used from
  another origin.
\<close>

lemma cors_never_allows_PUT: "map_of (cors_headers s origin) ''Access-Control-Allow-Methods'' \<in> {None, Some ''GET,POST,OPTIONS''}"
  by (simp add: cors_headers_def)

lemma cors_closed: "\<not> originAllowed (rsv_CORSOrigins s) origin \<Longrightarrow> cors_headers s origin = []"
  by (simp add: cors_headers_def)

end
