(* ===== verification/Plugins.thy ===== *)
theory Plugins
  imports ApiResources "HOL-Library.List_Lexorder" "HOL-Library.Multiset"
begin

text \<open>
  The two registries: of providers (\<open>internal/provider/registry.go\<close>) and of plugins (\<open>internal/plugin/registry.go\<close>). A Go map is the
  list of its entries, in any order; the locks, which make each operation atomic, are left out. \<open>json.Valid\<close> is an argument.
\<close>

section \<open>Maps of entries\<close>

type_synonym 'p entries = "(string \<times> 'p) list"

definition sorted_entries :: "'p entries \<Rightarrow> 'p list" where
  "sorted_entries r = map snd (sort_key (\<lambda>e. map byte (fst e)) r)"

text \<open>
  What both registries promise: an entry is stored under its own key and found under it, a key that is taken is refused, and what is
  not admissible is never stored.
\<close>

locale keyed_registry =
  fixes key :: "'p \<Rightarrow> string"
    and admissible :: "'p \<Rightarrow> bool"
    and register :: "'p entries \<Rightarrow> 'p \<Rightarrow> 'p entries result"
  assumes register_new: "admissible p \<Longrightarrow> map_of r (key p) = None \<Longrightarrow> register r p = Inr (r @ [(key p, p)])"
    and register_refused: "\<not> (admissible p \<and> map_of r (key p) = None) \<Longrightarrow> isl (register r p)"
begin

text \<open>Registering one after the other; what is refused is left out.\<close>

definition register_one :: "'p entries \<Rightarrow> 'p \<Rightarrow> 'p entries" where
  "register_one r p = (case register r p of Inl _ \<Rightarrow> r | Inr r' \<Rightarrow> r')"

definition register_all :: "'p entries \<Rightarrow> 'p list \<Rightarrow> 'p entries" where
  "register_all = foldl register_one"

definition consistent :: "'p entries \<Rightarrow> bool" where
  "consistent r \<longleftrightarrow> distinct (map fst r) \<and> (\<forall>(k, p) \<in> set r. k = key p \<and> admissible p)"

lemma register_one_cases:
  "register_one r p = (if admissible p \<and> map_of r (key p) = None then r @ [(key p, p)] else r)"
  using register_new [of p r] register_refused [of p r] by (auto simp: register_one_def isl_def)

lemma register_all_consistent: "consistent r \<Longrightarrow> consistent (register_all r ps)"
proof (induction ps arbitrary: r)
  case (Cons p ps)
  have "consistent (register_one r p)"
    using Cons.prems by (auto simp: register_one_cases consistent_def map_of_eq_None_iff)
  then show ?case using Cons.IH by (simp add: register_all_def)
qed (simp add: register_all_def)

text \<open>The first admissible one of each key is kept.\<close>

lemma register_all_lookup:
  "map_of (register_all r ps) k = (case map_of r k of Some p \<Rightarrow> Some p | None \<Rightarrow> find (\<lambda>p. admissible p \<and> key p = k) ps)"
proof (induction ps arbitrary: r)
  case (Cons p ps)
  have "map_of (register_all r (p # ps)) k = map_of (register_all (register_one r p) ps) k"
    by (simp add: register_all_def)
  also have "\<dots> = (case map_of (register_one r p) k of Some p \<Rightarrow> Some p | None \<Rightarrow> find (\<lambda>p. admissible p \<and> key p = k) ps)"
    by (rule Cons.IH)
  also have "\<dots> = (case map_of r k of Some p \<Rightarrow> Some p | None \<Rightarrow> find (\<lambda>p. admissible p \<and> key p = k) (p # ps))"
    by (auto simp: register_one_cases split: option.split)
  finally show ?case .
qed (simp add: register_all_def split: option.split)

lemma listing_sorted:
  assumes "consistent r"
  shows "sorted_wrt (\<lambda>p q. map byte (key p) < map byte (key q)) (sorted_entries r)"
    and "set (sorted_entries r) = {p. map_of r (key p) = Some p}"
proof -
  have d: "distinct (map fst r)" and k: "\<And>k p. (k, p) \<in> set r \<Longrightarrow> k = key p" using assms by (auto simp: consistent_def)
  have "inj (map byte)" by (simp add: byte_def inj_def inj_map_eq_map)
  then have "inj_on (map byte \<circ> fst) (set r)" using d by (intro comp_inj_on) (auto simp: distinct_map intro: inj_on_subset)
  then have "distinct (map (\<lambda>e. map byte (fst e)) r)" using d by (simp add: distinct_map comp_def)
  then have "sorted_wrt (<) (map (\<lambda>e. map byte (fst e)) (sort_key (\<lambda>e. map byte (fst e)) r))"
    by (simp add: strict_sorted_iff distinct_map)
  then have "sorted_wrt (\<lambda>e f. map byte (fst e) < map byte (fst f)) (sort_key (\<lambda>e. map byte (fst e)) r)"
    by (simp add: sorted_wrt_map)
  then have "sorted_wrt (\<lambda>e f. map byte (key (snd e)) < map byte (key (snd f))) (sort_key (\<lambda>e. map byte (fst e)) r)"
    by (rule sorted_wrt_mono_rel [rotated]) (use k in auto)
  then show "sorted_wrt (\<lambda>p q. map byte (key p) < map byte (key q)) (sorted_entries r)"
    by (simp add: sorted_entries_def sorted_wrt_map)
  have "p \<in> set (sorted_entries r) \<longleftrightarrow> (key p, p) \<in> set r" for p
    using k by (force simp: sorted_entries_def)
  then show "set (sorted_entries r) = {p. map_of r (key p) = Some p}" using d by auto
qed

end


section \<open>Providers\<close>

record Capability =
  cap_Name :: string
  cap_Description :: string

record ProviderHealth =
  ph_Healthy :: bool
  ph_Message :: string
  ph_CheckedAt :: gotime

record 'w provider =
  pv_Name :: string
  pv_Type :: string
  pv_Capabilities :: "Capability list"
  pv_HealthCheck :: "'w \<Rightarrow> ProviderHealth \<times> 'w"

record Summary =
  sum_Name :: string
  sum_Type :: string
  sum_Capabilities :: "Capability list"

record ProviderHealthResult =
  phr_Summary :: Summary
  phr_Health :: ProviderHealth

definition ErrInvalidProvider :: go_error where
  "ErrInvalidProvider = GoError ''invalid provider'' [Sentinel ''provider.ErrInvalidProvider'']"

definition ErrDuplicateProvider :: go_error where
  "ErrDuplicateProvider = GoError ''provider already registered'' [Sentinel ''provider.ErrDuplicateProvider'']"

definition ErrProviderNotFound :: go_error where
  "ErrProviderNotFound = GoError ''provider not found'' [Sentinel ''provider.ErrProviderNotFound'']"

definition providerKey :: "string \<Rightarrow> string \<Rightarrow> string" where
  "providerKey providerType name = providerType @ ''/'' @ name"

definition provider_Register :: "'w provider entries \<Rightarrow> 'w provider \<Rightarrow> 'w provider entries result" where
  "provider_Register r p =
     (if pv_Type p = '''' \<or> pv_Name p = '''' then Inl ErrInvalidProvider
      else let key = providerKey (pv_Type p) (pv_Name p) in
        if map_of r key \<noteq> None then Inl (errorf_w key ErrDuplicateProvider) else Inr (r @ [(key, p)]))"

text \<open>\<open>Get\<close> of a registry that may be nil.\<close>

definition provider_Get :: "'w provider entries option \<Rightarrow> string \<Rightarrow> string \<Rightarrow> 'w provider result" where
  "provider_Get registry providerType name = (case registry of
     None \<Rightarrow> Inl (errorf_w (providerKey providerType name) ErrProviderNotFound)
   | Some r \<Rightarrow> (case map_of r (providerKey providerType name) of
       None \<Rightarrow> Inl (errorf_w (''provider type='' @ quote providerType @ '' name='' @ quote name) ErrProviderNotFound)
     | Some p \<Rightarrow> Inr p))"

definition provider_List :: "'w provider entries option \<Rightarrow> 'w provider list" where
  "provider_List registry = (case registry of None \<Rightarrow> [] | Some r \<Rightarrow> sorted_entries r)"

definition summary_of :: "'w provider \<Rightarrow> Summary" where
  "summary_of p = \<lparr>sum_Name = pv_Name p, sum_Type = pv_Type p, sum_Capabilities = pv_Capabilities p\<rparr>"

definition Summaries :: "'w provider entries option \<Rightarrow> Summary list" where
  "Summaries registry = map summary_of (provider_List registry)"

text \<open>A health check, with the time of the answer if the provider gives none.\<close>

definition checked_health :: "('w \<Rightarrow> gotime \<times> 'w) \<Rightarrow> ('w \<Rightarrow> ProviderHealth \<times> 'w) \<Rightarrow> ('w, 'e, ProviderHealth) io" where
  "checked_health now probe = do {
     health \<leftarrow> query probe;
     if ph_CheckedAt health = 0 then do {
       t \<leftarrow> query now;
       State_Monad.return (health\<lparr>ph_CheckedAt := t\<rparr>)
     } else State_Monad.return health
   }"

text \<open>
  \<open>HealthCheckAll\<close> starts one goroutine for each provider, which writes the result at its own index. The schedule is
  the order in which they run; the code waits for all of them.
\<close>

fun run_checks :: "('w \<Rightarrow> gotime \<times> 'w) \<Rightarrow> 'w provider list \<Rightarrow> nat list \<Rightarrow> ProviderHealthResult option list
    \<Rightarrow> ('w, 'e, ProviderHealthResult option list) io" where
  "run_checks now providers [] results = State_Monad.return results"
| "run_checks now providers (i # schedule) results = do {
     health \<leftarrow> checked_health now (pv_HealthCheck (providers ! i));
     run_checks now providers schedule (results[i := Some \<lparr>phr_Summary = summary_of (providers ! i), phr_Health = health\<rparr>])
   }"

definition HealthCheckAll :: "('w \<Rightarrow> gotime \<times> 'w) \<Rightarrow> nat list \<Rightarrow> 'w provider entries option
    \<Rightarrow> ('w, 'e, ProviderHealthResult option list) io" where
  "HealthCheckAll now schedule registry = (let providers = provider_List registry in
     run_checks now providers schedule (replicate (length providers) None))"


section \<open>Plugins\<close>

definition plugin_types :: "string list" where
  "plugin_types = [''git'', ''registry'', ''build'', ''gitops'', ''notification'', ''policy'', ''supply-chain'']"

definition supported :: "string \<Rightarrow> bool" where
  "supported v \<longleftrightarrow> v \<in> set plugin_types"

record Metadata =
  pm_Name :: string
  pm_Type :: string
  pm_Version :: string
  pm_Capabilities :: "Capability list"
  pm_ConfigSchema :: string
  pm_Configured :: bool
  pm_ConfigurationStatus :: string
  pm_DocsURL :: string

record 'w plugin =
  pl_Metadata :: Metadata
  pl_HealthCheck :: "'w \<Rightarrow> ProviderHealth \<times> 'w"

record PluginHealthResult =
  plr_Metadata :: Metadata
  plr_Health :: ProviderHealth

definition plugin_ErrInvalid :: go_error where
  "plugin_ErrInvalid = GoError ''invalid plugin'' [Sentinel ''plugin.ErrInvalid'']"

definition plugin_ErrDuplicate :: go_error where
  "plugin_ErrDuplicate = GoError ''plugin already registered'' [Sentinel ''plugin.ErrDuplicate'']"

definition plugin_ErrNotFound :: go_error where
  "plugin_ErrNotFound = GoError ''plugin not found'' [Sentinel ''plugin.ErrNotFound'']"

definition plugin_ErrUnsupportedType :: go_error where
  "plugin_ErrUnsupportedType = GoError ''unsupported plugin type'' [Sentinel ''plugin.ErrUnsupportedType'']"

definition empty_schema :: string where
  "empty_schema = [CHR ''{'', CHR 0x22] @ ''type'' @ [CHR 0x22, CHR '':'', CHR 0x22] @ ''object'' @ [CHR 0x22, CHR '','', CHR 0x22]
     @ ''additionalProperties'' @ [CHR 0x22, CHR '':''] @ ''false}''"

definition FromProvider :: "'w provider \<Rightarrow> 'w plugin" where
  "FromProvider v = (let disabled = (pv_Type v = ''build'' \<and> pv_Name v = ''remote-agent'') in
     \<lparr>pl_Metadata = \<lparr>pm_Name = pv_Name v,
        pm_Type = (if pv_Type v = ''notifications'' then ''notification'' else pv_Type v), pm_Version = ''builtin'',
        pm_Capabilities = pv_Capabilities v, pm_ConfigSchema = empty_schema, pm_Configured = \<not> disabled,
        pm_ConfigurationStatus = (if disabled then ''experimental and disabled'' else ''built in''), pm_DocsURL = ''/plugins/''\<rparr>,
      pl_HealthCheck = pv_HealthCheck v\<rparr>)"

definition plugin_key :: "'w plugin \<Rightarrow> string" where
  "plugin_key p = providerKey (pm_Type (pl_Metadata p)) (pm_Name (pl_Metadata p))"

definition plugin_Register :: "(string \<Rightarrow> bool) \<Rightarrow> 'w plugin entries \<Rightarrow> 'w plugin \<Rightarrow> 'w plugin entries result" where
  "plugin_Register valid_json r p = (let info = pl_Metadata p; key = plugin_key p in
     if pm_Name info = '''' \<or> pm_Version info = '''' then Inl (errorf_w key plugin_ErrInvalid)
     else if \<not> supported (pm_Type info) then Inl (errorf_w key plugin_ErrUnsupportedType)
     else if pm_ConfigSchema info = '''' \<or> \<not> valid_json (pm_ConfigSchema info)
     then Inl (errorf_w (key @ '' config schema'') plugin_ErrInvalid)
     else if map_of r key \<noteq> None then Inl (errorf_w key plugin_ErrDuplicate)
     else Inr (r @ [(key, p)]))"

definition plugin_Get :: "'w plugin entries option \<Rightarrow> string \<Rightarrow> string \<Rightarrow> 'w plugin result" where
  "plugin_Get registry pluginType name = (case registry of
     None \<Rightarrow> Inl plugin_ErrNotFound
   | Some r \<Rightarrow> (case map_of r (providerKey pluginType name) of
       None \<Rightarrow> Inl (errorf_w (providerKey pluginType name) plugin_ErrNotFound)
     | Some p \<Rightarrow> Inr p))"

definition plugin_List :: "'w plugin entries option \<Rightarrow> Metadata list" where
  "plugin_List registry = (case registry of None \<Rightarrow> [] | Some r \<Rightarrow> map pl_Metadata (sorted_entries r))"

text \<open>The plugin of a listed entry is found, since the registry only grows.\<close>

fun plugin_checks :: "('w \<Rightarrow> gotime \<times> 'w) \<Rightarrow> 'w plugin entries option \<Rightarrow> Metadata list \<Rightarrow> ('w, 'e, PluginHealthResult list result) io" where
  "plugin_checks now registry [] = ok []"
| "plugin_checks now registry (info # infos) = (case plugin_Get registry (pm_Type info) (pm_Name info) of
     Inl _ \<Rightarrow> fail (errors_New ''invalid memory address or nil pointer dereference'')
   | Inr p \<Rightarrow> do {
       health \<leftarrow> checked_health now (pl_HealthCheck p);
       check (plugin_checks now registry infos) (\<lambda>rest. ok (\<lparr>plr_Metadata = info, plr_Health = health\<rparr> # rest))
     })"

definition plugin_Health :: "('w \<Rightarrow> gotime \<times> 'w) \<Rightarrow> 'w plugin entries option \<Rightarrow> ('w, 'e, PluginHealthResult list result) io" where
  "plugin_Health now registry = plugin_checks now registry (plugin_List registry)"


section \<open>Both are registries\<close>

definition provider_admissible :: "'w provider \<Rightarrow> bool" where
  "provider_admissible p \<longleftrightarrow> pv_Type p \<noteq> '''' \<and> pv_Name p \<noteq> ''''"

definition plugin_admissible :: "(string \<Rightarrow> bool) \<Rightarrow> 'w plugin \<Rightarrow> bool" where
  "plugin_admissible valid_json p \<longleftrightarrow> (let info = pl_Metadata p in pm_Name info \<noteq> '''' \<and> pm_Version info \<noteq> '''' \<and> supported (pm_Type info)
     \<and> pm_ConfigSchema info \<noteq> '''' \<and> valid_json (pm_ConfigSchema info))"

interpretation providers: keyed_registry "\<lambda>p. providerKey (pv_Type p) (pv_Name p)" provider_admissible provider_Register
  by unfold_locales (auto simp: provider_Register_def provider_admissible_def Let_def)

interpretation plugins: keyed_registry plugin_key "plugin_admissible valid_json" "plugin_Register valid_json"
  for valid_json :: "string \<Rightarrow> bool"
  by unfold_locales (auto simp: plugin_Register_def plugin_admissible_def Let_def)

text \<open>The keys of plugins tell them apart, since no supported type contains a slash.\<close>

lemma append_sep_inj: "x \<notin> set a \<Longrightarrow> x \<notin> set a' \<Longrightarrow> a @ x # b = a' @ x # b' \<Longrightarrow> a = a' \<and> b = b'"
proof (induction a arbitrary: a')
  case Nil
  then show ?case by (cases a') auto
next
  case (Cons c a)
  then show ?case by (cases a') auto
qed

lemma plugin_types_no_slash: "list_all (\<lambda>t. CHR ''/'' \<notin> set t) plugin_types"
  by code_simp

lemma supported_no_slash: "supported t \<Longrightarrow> CHR ''/'' \<notin> set t"
  using plugin_types_no_slash unfolding supported_def list_all_iff by (rule bspec)

lemma plugin_key_inj:
  assumes "plugin_admissible v p" and "plugin_admissible v' q" and "plugin_key p = plugin_key q"
  shows "pm_Type (pl_Metadata p) = pm_Type (pl_Metadata q) \<and> pm_Name (pl_Metadata p) = pm_Name (pl_Metadata q)"
proof -
  let ?p = "pl_Metadata p" and ?q = "pl_Metadata q"
  have "supported (pm_Type ?p)" and "supported (pm_Type ?q)"
    using assms(1,2) by (simp_all add: plugin_admissible_def Let_def)
  then have "CHR ''/'' \<notin> set (pm_Type ?p)" and "CHR ''/'' \<notin> set (pm_Type ?q)"
    by (simp_all only: supported_no_slash not_False_eq_True)
  moreover have "pm_Type ?p @ CHR ''/'' # pm_Name ?p = pm_Type ?q @ CHR ''/'' # pm_Name ?q"
    using assms(3) unfolding plugin_key_def providerKey_def append_Cons append_Nil .
  ultimately show ?thesis by (rule append_sep_inj)
qed

text \<open>The keys of providers do not: a type may contain a slash.\<close>

lemma providerKey_collision: "providerKey ''a'' ''b/c'' = providerKey ''a/b'' ''c''"
  by (simp add: providerKey_def)

text \<open>
  C0: The plugin registry after any sequence of registrations into an empty one: it lists the admissible plugins - with a name, a version,
  a supported type and a JSON schema - each under its type and name in the order of their keys, the first one of each type and name,
  and \<open>Get\<close> gives exactly that one.
\<close>

theorem plugin_registry_first_wins:
  "let r = foldl (\<lambda>r p. case plugin_Register valid_json r p of Inl _ \<Rightarrow> r | Inr r' \<Rightarrow> r') [] ps in
     plugin_Get (Some r) type name = (case find (\<lambda>p. plugin_admissible valid_json p \<and> plugin_key p = providerKey type name) ps of
         None \<Rightarrow> Inl (errorf_w (providerKey type name) plugin_ErrNotFound) | Some p \<Rightarrow> Inr p)
     \<and> sorted_wrt (\<lambda>p q. map byte (plugin_key p) < map byte (plugin_key q)) (sorted_entries r)
     \<and> plugin_List (Some r) = map pl_Metadata (sorted_entries r)
     \<and> set (sorted_entries r) = {p. find (\<lambda>q. plugin_admissible valid_json q \<and> plugin_key q = plugin_key p) ps = Some p}"
proof -
  let ?r = "plugins.register_all valid_json [] ps"
  have r: "foldl (\<lambda>r p. case plugin_Register valid_json r p of Inl _ \<Rightarrow> r | Inr r' \<Rightarrow> r') [] ps = ?r"
    unfolding plugins.register_all_def plugins.register_one_def ..
  have c: "plugins.consistent valid_json ?r"
    by (rule plugins.register_all_consistent) (simp add: plugins.consistent_def)
  have look: "map_of ?r k = find (\<lambda>p. plugin_admissible valid_json p \<and> plugin_key p = k) ps" for k
    by (simp add: plugins.register_all_lookup)
  show ?thesis
    unfolding r Let_def
  proof (intro conjI)
    show "plugin_Get (Some ?r) type name = (case find (\<lambda>p. plugin_admissible valid_json p \<and> plugin_key p = providerKey type name) ps of
         None \<Rightarrow> Inl (errorf_w (providerKey type name) plugin_ErrNotFound) | Some p \<Rightarrow> Inr p)"
      by (simp add: plugin_Get_def look)
    show "plugin_List (Some ?r) = map pl_Metadata (sorted_entries ?r)"
      by (simp add: plugin_List_def)
    show "set (sorted_entries ?r) = {p. find (\<lambda>q. plugin_admissible valid_json q \<and> plugin_key q = plugin_key p) ps = Some p}"
      unfolding plugins.listing_sorted(2) [OF c] look ..
  qed (rule plugins.listing_sorted(1) [OF c])
qed

text \<open>
  The health of all providers: whatever the order in which the checks run, each provider has its own result at its own place.
\<close>

lemma run_checks_spec:
  fixes s :: "('w, 'e) sys"
  shows "set schedule \<subseteq> {..<length results} \<Longrightarrow> length results = length providers \<Longrightarrow>
   wp (run_checks now providers schedule results) (\<lambda>r t. length r = length providers
     \<and> (\<forall>i < length providers. if i \<in> set schedule then map_option phr_Summary (r ! i) = Some (summary_of (providers ! i))
          else r ! i = results ! i)) s"
proof (induction schedule arbitrary: results s)
  case (Cons i schedule)
  have step: "wp (run_checks now providers schedule (results[i := Some \<lparr>phr_Summary = summary_of (providers ! i), phr_Health = health\<rparr>]))
    (\<lambda>r t. length r = length providers \<and> (\<forall>j < length providers. if j \<in> set (i # schedule)
       then map_option phr_Summary (r ! j) = Some (summary_of (providers ! j)) else r ! j = results ! j)) t"
    for health and t :: "('w, 'e) sys"
  proof (rule wp_mono [OF Cons.IH])
    show "set schedule \<subseteq> {..<length (results[i := Some \<lparr>phr_Summary = summary_of (providers ! i), phr_Health = health\<rparr>])}"
      and "length (results[i := Some \<lparr>phr_Summary = summary_of (providers ! i), phr_Health = health\<rparr>]) = length providers"
      using Cons.prems by simp_all
    fix r and u :: "('w, 'e) sys"
    assume "length r = length providers \<and> (\<forall>j < length providers. if j \<in> set schedule
       then map_option phr_Summary (r ! j) = Some (summary_of (providers ! j))
       else r ! j = results[i := Some \<lparr>phr_Summary = summary_of (providers ! i), phr_Health = health\<rparr>] ! j)"
    then show "length r = length providers \<and> (\<forall>j < length providers. if j \<in> set (i # schedule)
       then map_option phr_Summary (r ! j) = Some (summary_of (providers ! j)) else r ! j = results ! j)"
    proof (elim conjE, intro conjI allI impI)
      fix j
      assume j: "j < length providers" and all: "\<forall>j < length providers. if j \<in> set schedule
        then map_option phr_Summary (r ! j) = Some (summary_of (providers ! j))
        else r ! j = results[i := Some \<lparr>phr_Summary = summary_of (providers ! i), phr_Health = health\<rparr>] ! j"
      have at: "if j \<in> set schedule then map_option phr_Summary (r ! j) = Some (summary_of (providers ! j))
        else r ! j = results[i := Some \<lparr>phr_Summary = summary_of (providers ! i), phr_Health = health\<rparr>] ! j"
        using all j by blast
      have l: "j < length results" using j Cons.prems by simp
      consider "j \<in> set schedule" | "j \<notin> set schedule" "j = i" | "j \<notin> set schedule" "j \<noteq> i" by blast
      then show "if j \<in> set (i # schedule) then map_option phr_Summary (r ! j) = Some (summary_of (providers ! j))
        else r ! j = results ! j"
        by cases (use at l in simp_all)
    qed simp
  qed
  show ?case
    unfolding run_checks.simps wp_bind checked_health_def
    by (simp only: wp_simps step split: if_split) (simp add: step del: map_option_eq_Some list.set)
qed (simp add: wp_simps)

lemma HealthCheckAll_complete:
  assumes "set schedule = {..<length (provider_List registry)}"
  shows "wp (HealthCheckAll now schedule registry) (\<lambda>r t. map (map_option phr_Summary) r = map Some (Summaries registry)) s"
  unfolding HealthCheckAll_def Let_def
  by (rule wp_mono [OF run_checks_spec]) (use assms in \<open>auto simp: Summaries_def intro!: nth_equalityI\<close>)

text \<open>A registry that was filled by registrations has every plugin that it lists: no health check of a missing one is asked for.\<close>

lemma plugin_checks_complete:
  fixes t :: "('w, 'e) sys"
  shows "list_all (\<lambda>info. \<exists>p. plugin_Get registry (pm_Type info) (pm_Name info) = Inr p) infos \<Longrightarrow>
    wp (plugin_checks now registry infos) (\<lambda>res u. \<exists>out. res = Inr out \<and> map plr_Metadata out = infos) t"
proof (induction infos arbitrary: t)
  case (Cons info infos)
  then obtain p where p: "plugin_Get registry (pm_Type info) (pm_Name info) = Inr p" by auto
  have rest: "wp (plugin_checks now registry infos) (\<lambda>res u. \<exists>out. res = Inr out \<and> map plr_Metadata out = infos) u"
    for u :: "('w, 'e) sys" using Cons by simp
  have step: "wp (check (plugin_checks now registry infos) (\<lambda>rest. ok (\<lparr>plr_Metadata = info, plr_Health = health\<rparr> # rest)))
      (\<lambda>res u. \<exists>out. res = Inr out \<and> map plr_Metadata out = info # infos) u" for health and u :: "('w, 'e) sys"
    by (rule wp_checkI [OF rest]) (auto simp: wp_simps)
  show ?case
    by (simp only: plugin_checks.simps p sum.case wp_bind wp_any [OF step])
qed (simp add: wp_simps)

lemma plugin_Health_complete:
  assumes "plugins.consistent valid_json r"
  shows "wp (plugin_Health now (Some r)) (\<lambda>res u. \<exists>out. res = Inr out \<and> map plr_Metadata out = plugin_List (Some r)) t"
  unfolding plugin_Health_def
proof (rule plugin_checks_complete)
  have "\<exists>q. plugin_Get (Some r) (pm_Type (pl_Metadata p)) (pm_Name (pl_Metadata p)) = Inr q" if "p \<in> set (sorted_entries r)" for p
    using that plugins.listing_sorted(2) [OF assms] by (simp add: plugin_Get_def plugin_key_def)
  then show "list_all (\<lambda>info. \<exists>p. plugin_Get (Some r) (pm_Type info) (pm_Name info) = Inr p) (plugin_List (Some r))"
    by (simp add: plugin_List_def list_all_iff)
qed


section \<open>The handlers\<close>

definition get_providers :: "'w provider entries option \<Rightarrow> ('w, Summary list api_response) resource_io" where
  "get_providers registry = reply (Reply 200 (Summaries registry))"

definition providerHealth :: "('w \<Rightarrow> gotime \<times> 'w) \<Rightarrow> nat list \<Rightarrow> 'w provider entries option
    \<Rightarrow> ('w, ProviderHealthResult option list api_response) resource_io" where
  "providerHealth now schedule registry = do {
     results \<leftarrow> HealthCheckAll now schedule registry;
     reply (Reply 200 results)
   }"

definition get_plugins :: "'w plugin entries option \<Rightarrow> ('w, Metadata list api_response) resource_io" where
  "get_plugins registry = reply (Reply 200 (plugin_List registry))"

text \<open>A panic of the handler is the error of \<open>plugin_Health\<close>.\<close>

definition pluginHealth :: "('w \<Rightarrow> gotime \<times> 'w) \<Rightarrow> 'w plugin entries option
    \<Rightarrow> ('w, PluginHealthResult list api_response result) resource_io" where
  "pluginHealth now registry = check (plugin_Health now registry) (\<lambda>results. ok (Reply 200 results))"

definition get_plugin :: "'w plugin entries option \<Rightarrow> string \<Rightarrow> string \<Rightarrow> ('w, Metadata api_response) resource_io" where
  "get_plugin registry type name = (case registry of
     None \<Rightarrow> reply (notFound ''plugin not found'')
   | Some r \<Rightarrow> (case plugin_Get (Some r) type name of
       Inl err \<Rightarrow> reply (notFound (err_text err))
     | Inr p \<Rightarrow> reply (Reply 200 (pl_Metadata p))))"

end
