(* ===== verification/Reports.thy ===== *)
theory Reports
  imports ApiResources ApiReleases "HOL-Library.AList" "HOL-Library.Multiset"
begin

text \<open>
  The audit trail as the API shows it, and the reports: \<open>internal/api/reports.go\<close> and \<open>auditEvents\<close> of \<open>internal/api/server.go\<close>.
  The store of events, the JSON codec, the operations of floating-point numbers and the format of times are arguments; the
  writer of \<open>encoding/csv\<close> is modelled. A Go map of counters is the list of its entries.
\<close>

section \<open>Comma-separated values\<close>

definition csv_special :: "char \<Rightarrow> bool" where
  "csv_special c \<longleftrightarrow> c = CHR '','' \<or> c = CHR 0x22 \<or> c = CHR 0x0D \<or> c = CHR 0x0A"

definition fieldNeedsQuotes :: "string \<Rightarrow> bool" where
  "fieldNeedsQuotes f \<longleftrightarrow> f \<noteq> [] \<and> (f = [CHR 0x5C, CHR ''.''] \<or> list_ex csv_special f \<or> is_space (hd f))"

definition csv_escape :: "char \<Rightarrow> string" where
  "csv_escape c = (if c = CHR 0x22 then [CHR 0x22, CHR 0x22] else [c])"

definition csv_field :: "string \<Rightarrow> string" where
  "csv_field f = (if fieldNeedsQuotes f then CHR 0x22 # concat (map csv_escape f) @ [CHR 0x22] else f)"

fun csv_record :: "string list \<Rightarrow> string" where
  "csv_record [] = [CHR 0x0A]"
| "csv_record [f] = csv_field f @ [CHR 0x0A]"
| "csv_record (f # fs) = csv_field f @ CHR '','' # csv_record fs"

definition WriteAll :: "string list list \<Rightarrow> string" where
  "WriteAll records = concat (map csv_record records)"

text \<open>A reader of such text: where it is in a field, the field and the record read so far.\<close>

datatype csv_mode = FieldStart | Plain | Quoted | QuoteSeen

fun csv_read :: "csv_mode \<Rightarrow> string \<Rightarrow> string list \<Rightarrow> string \<Rightarrow> string list list" where
  "csv_read m f r [] = []"
| "csv_read m f r (c # s) =
     (if m = Quoted then (if c = CHR 0x22 then csv_read QuoteSeen f r s else csv_read Quoted (f @ [c]) r s)
      else if c = CHR 0x0A then (r @ [f]) # csv_read FieldStart [] [] s
      else if c = CHR '','' then csv_read FieldStart [] (r @ [f]) s
      else if c = CHR 0x22 \<and> m = FieldStart then csv_read Quoted f r s
      else if c = CHR 0x22 \<and> m = QuoteSeen then csv_read Quoted (f @ [c]) r s
      else csv_read Plain (f @ [c]) r s)"

definition read_csv :: "string \<Rightarrow> string list list" where
  "read_csv s = csv_read FieldStart [] [] s"

text \<open>After a field comes a comma or the end of the record.\<close>

definition field_end :: "char \<Rightarrow> string \<Rightarrow> string list \<Rightarrow> string \<Rightarrow> string list list" where
  "field_end c f r s = (if c = CHR 0x0A then (r @ [f]) # csv_read FieldStart [] [] s else csv_read FieldStart [] (r @ [f]) s)"

lemma csv_read_plain:
  "\<not> list_ex csv_special f \<Longrightarrow> c = CHR 0x0A \<or> c = CHR '','' \<Longrightarrow> m = FieldStart \<or> m = Plain \<Longrightarrow>
    csv_read m g r (f @ c # s) = field_end c (g @ f) r s"
proof (induction f arbitrary: g m)
  case (Cons x f)
  then have "csv_read m g r ((x # f) @ c # s) = csv_read Plain (g @ [x]) r (f @ c # s)"
    by (auto simp: csv_special_def)
  with Cons show ?case by simp
qed (auto simp: field_end_def)

lemma csv_read_quoted:
  "c = CHR 0x0A \<or> c = CHR '','' \<Longrightarrow>
    csv_read Quoted g r (concat (map csv_escape f) @ CHR 0x22 # c # s) = field_end c (g @ f) r s"
proof (induction f arbitrary: g)
  case (Cons x f)
  have "csv_read Quoted g r (csv_escape x @ t) = csv_read Quoted (g @ [x]) r t" for t
    by (simp add: csv_escape_def)
  with Cons show ?case by simp
qed (auto simp: field_end_def)

lemma csv_read_field:
  assumes "c = CHR 0x0A \<or> c = CHR '',''"
  shows "csv_read FieldStart [] r (csv_field f @ c # s) = field_end c f r s"
proof (cases "fieldNeedsQuotes f")
  case True
  then show ?thesis using csv_read_quoted [OF assms, of "[]" r f s] by (simp add: csv_field_def)
next
  case False
  then have "\<not> list_ex csv_special f" by (cases f) (auto simp: fieldNeedsQuotes_def)
  from csv_read_plain [OF this assms, of FieldStart "[]" r s] False show ?thesis by (simp add: csv_field_def)
qed

lemma csv_read_record: "csv_read FieldStart [] r (csv_record (f # fs) @ s) = (r @ f # fs) # csv_read FieldStart [] [] s"
proof (induction fs arbitrary: f r)
  case Nil
  show ?case by (simp add: csv_read_field field_end_def)
next
  case (Cons g fs)
  have "csv_read FieldStart [] r (csv_record (f # g # fs) @ s)
    = field_end (CHR '','') f r (csv_record (g # fs) @ s)"
    by (simp add: csv_read_field)
  also have "\<dots> = csv_read FieldStart [] (r @ [f]) (csv_record (g # fs) @ s)" by (simp add: field_end_def)
  finally show ?case by (simp add: Cons.IH)
qed

lemma read_csv_WriteAll: "[] \<notin> set records \<Longrightarrow> read_csv (WriteAll records) = records"
proof (induction records)
  case (Cons rec records)
  then obtain f fs where "rec = f # fs" by (cases rec) auto
  with Cons show ?case by (simp add: read_csv_def WriteAll_def csv_read_record)
qed (simp add: read_csv_def WriteAll_def)


section \<open>JSON values\<close>

datatype 'n json =
    JNull
  | JBool bool
  | JNumber 'n
  | JString string
  | JArray "'n json list"
  | JObject "(string \<times> 'n json) list"

text \<open>\<open>json.Unmarshal\<close> into \<open>any\<close>, and \<open>json.Marshal\<close>.\<close>

record 'n json_codec =
  jc_Unmarshal :: "string \<Rightarrow> 'n json option"
  jc_Marshal :: "'n json \<Rightarrow> string"

fun sanitizeJSON :: "'n json \<Rightarrow> 'n json" where
  "sanitizeJSON (JObject members) =
     JObject (map (\<lambda>(key, item). (key, if IsSecretKey key then JString redact_mask else sanitizeJSON item)) members)"
| "sanitizeJSON (JArray items) = JArray (map sanitizeJSON items)"
| "sanitizeJSON current = current"

definition redacted_metadata :: string where
  "redacted_metadata = [CHR ''{'', CHR 0x22] @ ''redacted'' @ [CHR 0x22, CHR '':''] @ ''true}''"

definition safeMetadata :: "'n json_codec \<Rightarrow> string \<Rightarrow> string" where
  "safeMetadata js raw =
     (if raw = '''' then '''' else case jc_Unmarshal js raw of
        None \<Rightarrow> redacted_metadata
      | Some current \<Rightarrow> jc_Marshal js (sanitizeJSON current))"

text \<open>The members of all objects within a value.\<close>

fun members_within :: "'n json \<Rightarrow> (string \<times> 'n json) list" where
  "members_within (JObject members) = members @ concat (map (\<lambda>(key, item). members_within item) members)"
| "members_within (JArray items) = concat (map members_within items)"
| "members_within current = []"

definition disclosed :: "'n json \<Rightarrow> (string \<times> 'n json) list" where
  "disclosed j = filter (\<lambda>(key, item). IsSecretKey key \<and> item \<noteq> JString redact_mask) (members_within j)"

lemma sanitized_discloses_nothing: "disclosed (sanitizeJSON j) = []"
proof (induction j rule: sanitizeJSON.induct)
  case (1 members)
  then show ?case by (fastforce simp: disclosed_def filter_empty_conv split: if_splits)
next
  case (2 items)
  then show ?case by (fastforce simp: disclosed_def filter_empty_conv)
qed (simp_all add: disclosed_def)


section \<open>The audit trail\<close>

record audit_record =
  lev_ID :: string
  lev_Type :: string
  lev_Actor :: string
  lev_Organization :: string
  lev_Project :: string
  lev_Repository :: string
  lev_BuildRun :: string
  lev_Release :: string
  lev_Message :: string
  lev_Metadata :: string
  lev_CreatedAt :: gotime
  lev_EventID :: string

record EventFilter =
  ef_Organization :: string
  ef_Project :: string
  ef_Repository :: string
  ef_BuildRun :: string
  ef_Release :: string
  ef_Type :: string
  ef_Actor :: string
  ef_From :: "gotime option"
  ef_To :: "gotime option"

text \<open>
  The lister is the server's \<open>AuditEvents\<close> or, without it, its recorder if that lists events too.
\<close>

record 'w report_server =
  rps_Resources :: "'w resource_server"
  rps_ListBuildRuns :: "string option \<Rightarrow> 'w \<Rightarrow> BuildRun list result \<times> 'w"
  rps_ListReleases :: "string option \<Rightarrow> 'w \<Rightarrow> Release list result \<times> 'w"
  rps_Lister :: "(EventFilter \<Rightarrow> 'w \<Rightarrow> audit_record list result \<times> 'w) option"
  rps_Codec :: page_codec
  rps_FormatNano :: "gotime \<Rightarrow> string"

datatype 'a export = AsJSON 'a | AsCSV string string

definition auditFilterFromRequest :: "page_codec \<Rightarrow> query_values \<Rightarrow> EventFilter result" where
  "auditFilterFromRequest codec q =
     (case optionalTime codec (query_Get q ''from'') of
        Inl err \<Rightarrow> Inl (errorf_w ''from'' err)
      | Inr from_time \<Rightarrow>
          (case optionalTime codec (query_Get q ''to'') of
             Inl err \<Rightarrow> Inl (errorf_w ''to'' err)
           | Inr to_time \<Rightarrow>
               if (case (from_time, to_time) of (Some f, Some t) \<Rightarrow> f > t | _ \<Rightarrow> False)
               then Inl (errors_New ''from must not be after to'')
               else Inr \<lparr>ef_Organization = query_Get q ''organization'', ef_Project = query_Get q ''project'',
                 ef_Repository = query_Get q ''repository'', ef_BuildRun = query_Get q ''buildRun'',
                 ef_Release = query_Get q ''release'', ef_Type = firstNonEmpty [query_Get q ''eventType'', query_Get q ''type''],
                 ef_Actor = query_Get q ''actor'', ef_From = from_time, ef_To = to_time\<rparr>))"

definition wanted :: "string \<Rightarrow> string \<Rightarrow> bool" where
  "wanted asked val \<longleftrightarrow> asked = '''' \<or> val = asked"

definition matchesAuditFilter :: "EventFilter \<Rightarrow> audit_record \<Rightarrow> bool" where
  "matchesAuditFilter f e \<longleftrightarrow>
     wanted (ef_Organization f) (lev_Organization e) \<and> wanted (ef_Project f) (lev_Project e)
     \<and> wanted (ef_Repository f) (lev_Repository e) \<and> wanted (ef_BuildRun f) (lev_BuildRun e)
     \<and> wanted (ef_Release f) (lev_Release e) \<and> wanted (ef_Actor f) (lev_Actor e) \<and> wanted (ef_Type f) (lev_Type e)
     \<and> withinRange (lev_CreatedAt e) (ef_From f) (ef_To f)"

definition selected_events :: "EventFilter \<Rightarrow> audit_record list \<Rightarrow> audit_record list" where
  "selected_events f events = SliceStable (\<lambda>a b. lev_CreatedAt a > lev_CreatedAt b) (filter (matchesAuditFilter f) events)"

definition loadAuditEvents :: "'w report_server \<Rightarrow> EventFilter \<Rightarrow> ('w, 'e, audit_record list result) io" where
  "loadAuditEvents s f = (case rps_Lister s of
     None \<Rightarrow> ok []
   | Some lister \<Rightarrow> check (query (lister f)) (\<lambda>events. ok (selected_events f events)))"

definition safeAuditEvent :: "'n json_codec \<Rightarrow> audit_record \<Rightarrow> audit_record" where
  "safeAuditEvent js e = e\<lparr>lev_Message := MaskString (lev_Message e), lev_Metadata := safeMetadata js (lev_Metadata e)\<rparr>"

definition exportFormat :: "query_values \<Rightarrow> string" where
  "exportFormat q = (if EqualFold (query_Get q ''format'') ''csv'' then ''csv'' else ''json'')"

definition audit_columns :: "string list" where
  "audit_columns = [''id'', ''type'', ''actor'', ''organization'', ''project'', ''repository'', ''buildRun'', ''release'',
     ''eventId'', ''message'', ''metadata'', ''createdAt'']"

definition audit_row :: "'w report_server \<Rightarrow> audit_record \<Rightarrow> string list" where
  "audit_row s e = [lev_ID e, lev_Type e, lev_Actor e, lev_Organization e, lev_Project e, lev_Repository e, lev_BuildRun e,
     lev_Release e, lev_EventID e, lev_Message e, lev_Metadata e, rps_FormatNano s (lev_CreatedAt e)]"

definition writeCSV :: "string \<Rightarrow> string list list \<Rightarrow> 'a export" where
  "writeCSV name records = AsCSV name (WriteAll records)"

definition auditExport ::
  "'w report_server \<Rightarrow> 'n json_codec \<Rightarrow> query_values \<Rightarrow> ('w, audit_record list export api_response) resource_io" where
  "auditExport s js q = (case auditFilterFromRequest (rps_Codec s) q of
     Inl err \<Rightarrow> reply (badRequest (err_text err))
   | Inr f \<Rightarrow> or_reply (loadAuditEvents s f) (\<lambda>events.
       let safe = map (safeAuditEvent js) events in
       reply (Reply 200 (if exportFormat q = ''csv'' then writeCSV ''audit-events.csv'' (audit_columns # map (audit_row s) safe)
         else AsJSON safe))))"

text \<open>\<open>Server.auditEvents\<close>, the pages of the trail.\<close>

definition compareAuditEvents :: "audit_record \<Rightarrow> audit_record \<Rightarrow> string \<Rightarrow> int" where
  "compareAuditEvents left right field =
     (let comparison = (if field = ''type'' then strings_Compare (lev_Type left) (lev_Type right)
            else time_Compare (lev_CreatedAt left) (lev_CreatedAt right)) in
      if comparison = 0 then strings_Compare (lev_ID left) (lev_ID right) else comparison)"

definition filterSortAuditEvents :: "audit_record list \<Rightarrow> pageOptions \<Rightarrow> audit_record list" where
  "filterSortAuditEvents source options =
     SliceStable (\<lambda>a b. let comparison = compareAuditEvents a b (po_sort options) in
         po_order options = ''desc'' \<and> comparison > 0 \<or> po_order options = ''asc'' \<and> comparison < 0)
       (filter (\<lambda>e. withinRange (lev_CreatedAt e) (po_from options) (po_to options)) source)"

definition page_filter :: "query_values \<Rightarrow> pageOptions \<Rightarrow> EventFilter" where
  "page_filter q options = \<lparr>ef_Organization = query_Get q ''organization'', ef_Project = query_Get q ''project'',
     ef_Repository = query_Get q ''repository'', ef_BuildRun = query_Get q ''buildRun'', ef_Release = query_Get q ''release'',
     ef_Type = query_Get q ''type'', ef_Actor = query_Get q ''actor'', ef_From = po_from options, ef_To = po_to options\<rparr>"

definition auditEvents :: "'w report_server \<Rightarrow> query_values \<Rightarrow> ('w, audit_record page_response api_response) resource_io" where
  "auditEvents s q = (case parsePageOptions (rps_Codec s) q [''createdAt'', ''type''] of
     Inl err \<Rightarrow> reply (badRequest (err_text err))
   | Inr options \<Rightarrow> (case rps_Lister s of
       None \<Rightarrow> reply (Reply 200 \<lparr>pr_Items = [], pr_NextPageToken = '''', pr_TotalCount = 0, pr_Limit = po_limit options\<rparr>)
     | Some lister \<Rightarrow> or_reply (query (lister (page_filter q options))) (\<lambda>events.
         let filtered = filterSortAuditEvents events options in
         case paginate filtered options of (page, next_token) \<Rightarrow>
           reply (Reply 200 \<lparr>pr_Items = page, pr_NextPageToken = next_token, pr_TotalCount = int (length filtered),
             pr_Limit = po_limit options\<rparr>))))"

lemma sorted_insert_by_key:
  fixes k :: "'a \<Rightarrow> 'b :: linorder"
  shows "sorted_wrt (\<lambda>a b. k a \<ge> k b) ys \<Longrightarrow> sorted_wrt (\<lambda>a b. k a \<ge> k b) (insert_stable (\<lambda>a b. k a > k b) x ys)"
proof (induction ys)
  case (Cons y ys)
  have "set (insert_stable (\<lambda>a b. k a > k b) x ys) = insert x (set ys)"
    by (metis mset_insert_stable set_mset_add_mset_insert set_mset_mset)
  with Cons show ?case by (auto simp: not_less intro: order_trans)
qed simp

lemma sorted_by_key:
  fixes k :: "'a \<Rightarrow> 'b :: linorder"
  shows "sorted_wrt (\<lambda>a b. k a \<ge> k b) (SliceStable (\<lambda>a b. k a > k b) xs)"
  by (induction xs) (simp_all add: SliceStable_def sorted_insert_by_key)

lemma filter_insert_by_key:
  fixes k :: "'a \<Rightarrow> 'b :: linorder"
  assumes "sorted_wrt (\<lambda>a b. k a \<ge> k b) ys"
  shows "filter (\<lambda>e. k e = t) (insert_stable (\<lambda>a b. k a > k b) x ys) = filter (\<lambda>e. k e = t) (x # ys)"
  using assms
proof (induction ys)
  case (Cons y ys)
  then show ?case by (cases "k y > k x") auto
qed simp

lemma SliceStable_stable:
  fixes k :: "'a \<Rightarrow> 'b :: linorder"
  shows "filter (\<lambda>e. k e = t) (SliceStable (\<lambda>a b. k a > k b) xs) = filter (\<lambda>e. k e = t) xs"
proof (induction xs)
  case (Cons x xs)
  then show ?case
    using filter_insert_by_key [OF sorted_by_key, of k t x xs] by (simp add: SliceStable_def)
qed (simp add: SliceStable_def)

lemma wp_loadAuditEvents [wp_simps]:
  "wp (loadAuditEvents s f) Q t = (case rps_Lister s of
     None \<Rightarrow> Q (Inr []) t
   | Some lister \<Rightarrow> (case lister f (ext t) of
       (Inl err, w) \<Rightarrow> Q (Inl err) (t\<lparr>ext := w\<rparr>)
     | (Inr events, w) \<Rightarrow> Q (Inr (selected_events f events)) (t\<lparr>ext := w\<rparr>)))"
  by (auto simp: loadAuditEvents_def wp_simps split: option.split prod.split sum.split)

text \<open>
  C0: The audit export. A malformed range is a bad request and a failing store is an error. Otherwise, what is exported are the events
  that the filter of the request selects, all of them and only them, the newest first and those of the same time in the
  store's order; as CSV the text has, for a reader of CSV and whatever the fields contain, the heading and one record of twelve fields for
  each event; messages are masked, and no object within the metadata has a member with a secret key and an unmasked value. Nothing is written.
\<close>

theorem audit_export_exact:
  "wp (auditExport s js q) (\<lambda>resp u. trace u = trace t \<and> (case auditFilterFromRequest (rps_Codec s) q of
     Inl err \<Rightarrow> resp = badRequest (err_text err)
   | Inr f \<Rightarrow> (case (case rps_Lister s of None \<Rightarrow> Inr [] | Some lister \<Rightarrow> fst (lister f (ext t))) of
       Inl err \<Rightarrow> resp = writeError err
     | Inr events \<Rightarrow> (\<exists>chosen. mset chosen = filter_mset (matchesAuditFilter f) (mset events)
         \<and> sorted_wrt (\<lambda>a b. lev_CreatedAt a \<ge> lev_CreatedAt b) chosen
         \<and> (\<forall>at. filter (\<lambda>e. lev_CreatedAt e = at) chosen = filter (\<lambda>e. matchesAuditFilter f e \<and> lev_CreatedAt e = at) events)
         \<and> (if exportFormat q = ''csv''
            then \<exists>body. resp = Reply 200 (AsCSV ''audit-events.csv'' body)
              \<and> read_csv body = audit_columns # map (\<lambda>e. audit_row s (safeAuditEvent js e)) chosen
            else resp = Reply 200 (AsJSON (map (safeAuditEvent js) chosen)))))))
     t \<and> disclosed (sanitizeJSON metadata) = []"
proof -
  have chosen: "mset (selected_events f events) = filter_mset (matchesAuditFilter f) (mset events)"
    "sorted_wrt (\<lambda>a b. lev_CreatedAt a \<ge> lev_CreatedAt b) (selected_events f events)"
    "filter (\<lambda>e. lev_CreatedAt e = at) (selected_events f events)
      = filter (\<lambda>e. matchesAuditFilter f e \<and> lev_CreatedAt e = at) events" for f events at
    unfolding selected_events_def by (simp_all add: mset_SliceStable sorted_by_key SliceStable_stable conj_commute)
  have csv: "read_csv (WriteAll (audit_columns # map (\<lambda>e. audit_row s (safeAuditEvent js e)) es))
    = audit_columns # map (\<lambda>e. audit_row s (safeAuditEvent js e)) es" for es
    by (rule read_csv_WriteAll) (auto simp: audit_columns_def audit_row_def)
  have ex: "P (selected_events f events) \<Longrightarrow> \<exists>chosen. mset chosen = filter_mset (matchesAuditFilter f) (mset events)
         \<and> sorted_wrt (\<lambda>a b. lev_CreatedAt a \<ge> lev_CreatedAt b) chosen
         \<and> (\<forall>at. filter (\<lambda>e. lev_CreatedAt e = at) chosen = filter (\<lambda>e. matchesAuditFilter f e \<and> lev_CreatedAt e = at) events)
         \<and> P chosen" for P f events
    using chosen by blast
  have none: "selected_events f [] = []" for f by (simp add: selected_events_def SliceStable_def)
  show ?thesis
    by (auto simp: auditExport_def wp_simps writeCSV_def csv csv [of "[]", simplified] comp_def Let_def sanitized_discloses_nothing none
        split: sum.split option.split prod.split intro!: ex)
qed


section \<open>Reports\<close>

text \<open>The operations of \<open>float64\<close>.\<close>

record 'f float_ops =
  fl_of_int :: "int \<Rightarrow> 'f"
  fl_add :: "'f \<Rightarrow> 'f \<Rightarrow> 'f"
  fl_div :: "'f \<Rightarrow> 'f \<Rightarrow> 'f"
  fl_Format :: "'f \<Rightarrow> int \<Rightarrow> string"

type_synonym counters = "(string \<times> int) list"

definition count_of :: "counters \<Rightarrow> string \<Rightarrow> int" where
  "count_of m k = (case map_of m k of None \<Rightarrow> 0 | Some n \<Rightarrow> n)"

definition increment :: "string \<Rightarrow> counters \<Rightarrow> counters" where
  "increment k m = AList.update k (count_of m k + 1) m"

definition sortedKeys :: "counters \<Rightarrow> string list" where
  "sortedKeys m = sort (map fst m)"

record 'f BuildReport =
  bre_Total :: int
  bre_Succeeded :: int
  bre_Failed :: int
  bre_SuccessRate :: 'f
  bre_FailureRate :: 'f
  bre_AverageDurationSeconds :: 'f
  bre_FailedByReason :: counters

record ReleaseReport =
  rre_Total :: int
  rre_ByEnvironment :: counters
  rre_Approvals :: int
  rre_Rejections :: int
  rre_Rollbacks :: int
  rre_DeploymentFailures :: int

record SecurityReport =
  sre_PolicyDenials :: int
  sre_UnsignedReleasesBlocked :: int
  sre_WebhookRejections :: int
  sre_CriticalVulnerabilityBlocks :: int

definition reportRange :: "page_codec \<Rightarrow> query_values \<Rightarrow> (gotime option \<times> gotime option) result" where
  "reportRange codec q = (case auditFilterFromRequest codec q of Inl err \<Rightarrow> Inl err | Inr f \<Rightarrow> Inr (ef_From f, ef_To f))"

definition build_scope :: "'w resource_server \<Rightarrow> query_values \<Rightarrow> string option" where
  "build_scope s q = (if query_Get q ''allNamespaces'' = ''true'' \<and> query_Get q ''namespace'' = '''' then None else Some (namespace_of s q))"

text \<open>The projects of an organization, or \<open>None\<close> if the request names none.\<close>

definition belongs :: "string \<Rightarrow> Project \<Rightarrow> bool" where
  "belongs organization p \<longleftrightarrow> defaultString (prs_OrganizationRef (proj_Spec p)) ''default'' = organization"

definition organizationProjects :: "'w report_server \<Rightarrow> query_values \<Rightarrow> ('w, 'e, string list option result) io" where
  "organizationProjects s q = (let organization = query_Get q ''organization''; rs = rps_Resources s in
     if organization = '''' then ok None
     else check (query (rsv_ListProjects rs (list_scope rs q))) (\<lambda>projects.
       ok (Some (map (\<lambda>p. qualified_name (proj_Meta p)) (filter (belongs organization) projects)))))"

definition in_projects :: "string list option \<Rightarrow> string \<Rightarrow> string \<Rightarrow> bool" where
  "in_projects projects namespace project \<longleftrightarrow> (case projects of None \<Rightarrow> True | Some ps \<Rightarrow> namespace @ ''/'' @ project \<in> set ps)"

definition matchesBuildReport :: "query_values \<Rightarrow> gotime option \<times> gotime option \<Rightarrow> string list option \<Rightarrow> BuildRun \<Rightarrow> bool" where
  "matchesBuildReport q period projects item \<longleftrightarrow> (let spec = br_Spec item; meta = br_Meta item in
     wanted (query_Get q ''project'') (brs_ProjectRef spec) \<and> wanted (query_Get q ''repository'') (brs_RepositoryRef spec)
     \<and> wanted (query_Get q ''buildRun'') (meta_Name meta) \<and> in_projects projects (meta_Namespace meta) (brs_ProjectRef spec)
     \<and> withinRange (meta_CreationTimestamp meta) (fst period) (snd period))"

definition matchesReleaseReport :: "query_values \<Rightarrow> gotime option \<times> gotime option \<Rightarrow> string list option \<Rightarrow> Release \<Rightarrow> bool" where
  "matchesReleaseReport q period projects item \<longleftrightarrow> (let spec = rel_Spec item; meta = rel_Meta item in
     wanted (query_Get q ''project'') (rls_ProjectRef spec) \<and> wanted (query_Get q ''repository'') (img_Repository (rls_Image spec))
     \<and> wanted (query_Get q ''release'') (meta_Name meta) \<and> in_projects projects (meta_Namespace meta) (rls_ProjectRef spec)
     \<and> withinRange (meta_CreationTimestamp meta) (fst period) (snd period))"

text \<open>\<open>t.Sub (u)\<close>, at most the longest duration, and \<open>Duration.Seconds\<close> of one that is not negative.\<close>

definition time_Sub :: "gotime \<Rightarrow> gotime \<Rightarrow> duration" where
  "time_Sub t u = max (- (2 ^ 63)) (min (t - u) (2 ^ 63 - 1))"

definition duration_Seconds :: "'f float_ops \<Rightarrow> duration \<Rightarrow> 'f" where
  "duration_Seconds fl d = fl_add fl (fl_of_int fl (d div 1000000000))
     (fl_div fl (fl_of_int fl (d mod 1000000000)) (fl_of_int fl 1000000000))"

record 'f build_tally =
  bta_Total :: int
  bta_Succeeded :: int
  bta_Failed :: int
  bta_FailedByReason :: counters
  bta_durationTotal :: 'f
  bta_durationCount :: int

definition failure_reason :: "BuildRun \<Rightarrow> string" where
  "failure_reason b = defaultString (fail_Reason (bst_Failure (br_Status b))) ''Unknown''"

definition run_duration :: "BuildRun \<Rightarrow> duration option" where
  "run_duration b = (case (bst_StartedAt (br_Status b), bst_CompletedAt (br_Status b)) of
     (Some started, Some completed) \<Rightarrow> if completed < started then None else Some (time_Sub completed started)
   | _ \<Rightarrow> None)"

definition tally_build :: "'f float_ops \<Rightarrow> 'f build_tally \<Rightarrow> BuildRun \<Rightarrow> 'f build_tally" where
  "tally_build fl r b =
     (let r = r\<lparr>bta_Total := bta_Total r + 1\<rparr>; phase = bst_Phase (br_Status b);
          r = (if phase = BuildRunPhaseSucceeded then r\<lparr>bta_Succeeded := bta_Succeeded r + 1\<rparr>
            else if phase = BuildRunPhaseFailed
            then r\<lparr>bta_Failed := bta_Failed r + 1, bta_FailedByReason := increment (failure_reason b) (bta_FailedByReason r)\<rparr>
            else r) in
      case run_duration b of
        None \<Rightarrow> r
      | Some d \<Rightarrow> r\<lparr>bta_durationTotal := fl_add fl (bta_durationTotal r) (duration_Seconds fl d),
          bta_durationCount := bta_durationCount r + 1\<rparr>)"

definition build_report_of :: "'f float_ops \<Rightarrow> BuildRun list \<Rightarrow> 'f BuildReport" where
  "build_report_of fl builds =
     (let zero = fl_of_int fl 0;
          r = foldl (tally_build fl) \<lparr>bta_Total = 0, bta_Succeeded = 0, bta_Failed = 0, bta_FailedByReason = [],
            bta_durationTotal = zero, bta_durationCount = 0\<rparr> builds;
          rate = (\<lambda>n. if bta_Total r > 0 then fl_div fl (fl_of_int fl n) (fl_of_int fl (bta_Total r)) else zero) in
      \<lparr>bre_Total = bta_Total r, bre_Succeeded = bta_Succeeded r, bre_Failed = bta_Failed r,
       bre_SuccessRate = rate (bta_Succeeded r), bre_FailureRate = rate (bta_Failed r),
       bre_AverageDurationSeconds = (if bta_durationCount r > 0
         then fl_div fl (bta_durationTotal r) (fl_of_int fl (bta_durationCount r)) else zero),
       bre_FailedByReason = bta_FailedByReason r\<rparr>)"

definition counter_rows :: "string \<Rightarrow> counters \<Rightarrow> string list list" where
  "counter_rows label m = map (\<lambda>key. [label @ key, Itoa (count_of m key)]) (sortedKeys m)"

definition build_report_rows :: "'f float_ops \<Rightarrow> 'f BuildReport \<Rightarrow> string list list" where
  "build_report_rows fl r =
     [[''metric'', ''value''], [''total'', Itoa (bre_Total r)], [''succeeded'', Itoa (bre_Succeeded r)],
      [''failed'', Itoa (bre_Failed r)], [''successRate'', fl_Format fl (bre_SuccessRate r) 6],
      [''failureRate'', fl_Format fl (bre_FailureRate r) 6],
      [''averageDurationSeconds'', fl_Format fl (bre_AverageDurationSeconds r) 3]]
     @ counter_rows ''failedByReason.'' (bre_FailedByReason r)"

definition buildReport ::
  "'w report_server \<Rightarrow> 'f float_ops \<Rightarrow> query_values \<Rightarrow> ('w, 'f BuildReport export api_response) resource_io" where
  "buildReport s fl q = (case reportRange (rps_Codec s) q of
     Inl err \<Rightarrow> reply (badRequest (err_text err))
   | Inr period \<Rightarrow>
       or_reply (query (rps_ListBuildRuns s (build_scope (rps_Resources s) q))) (\<lambda>items.
       or_reply (organizationProjects s q) (\<lambda>orgProjects.
         let report = build_report_of fl (filter (matchesBuildReport q period orgProjects) items) in
         reply (Reply 200 (if exportFormat q = ''csv'' then writeCSV ''build-report.csv'' (build_report_rows fl report)
           else AsJSON report)))))"

definition tally_release :: "ReleaseReport \<Rightarrow> Release \<Rightarrow> ReleaseReport" where
  "tally_release r rel =
     (let spec = rel_Spec rel; phase = rlst_Phase (rel_Status rel);
          r = r\<lparr>rre_Total := rre_Total r + 1, rre_ByEnvironment := increment (rls_EnvironmentRef spec) (rre_ByEnvironment r)\<rparr>;
          r = (if rls_RollbackOf spec \<noteq> '''' \<or> phase = ReleasePhaseRolledBack then r\<lparr>rre_Rollbacks := rre_Rollbacks r + 1\<rparr> else r) in
      if releasePhaseFailed phase then r\<lparr>rre_DeploymentFailures := rre_DeploymentFailures r + 1\<rparr> else r)"

definition tally_decision :: "ReleaseReport \<Rightarrow> audit_record \<Rightarrow> ReleaseReport" where
  "tally_decision r e =
     (if lev_Type e = ''ReleaseApproved'' then r\<lparr>rre_Approvals := rre_Approvals r + 1\<rparr>
      else if lev_Type e = ''ReleaseRejected'' then r\<lparr>rre_Rejections := rre_Rejections r + 1\<rparr> else r)"

definition release_report_of :: "Release list \<Rightarrow> audit_record list \<Rightarrow> ReleaseReport" where
  "release_report_of releases events = foldl tally_decision (foldl tally_release
     \<lparr>rre_Total = 0, rre_ByEnvironment = [], rre_Approvals = 0, rre_Rejections = 0, rre_Rollbacks = 0, rre_DeploymentFailures = 0\<rparr>
     releases) events"

definition release_report_rows :: "ReleaseReport \<Rightarrow> string list list" where
  "release_report_rows r =
     [[''metric'', ''value''], [''total'', Itoa (rre_Total r)], [''approvals'', Itoa (rre_Approvals r)],
      [''rejections'', Itoa (rre_Rejections r)], [''rollbacks'', Itoa (rre_Rollbacks r)],
      [''deploymentFailures'', Itoa (rre_DeploymentFailures r)]]
     @ counter_rows ''byEnvironment.'' (rre_ByEnvironment r)"

text \<open>A failure of the audit store is ignored here.\<close>

definition releaseReport :: "'w report_server \<Rightarrow> query_values \<Rightarrow> ('w, ReleaseReport export api_response) resource_io" where
  "releaseReport s q = (case auditFilterFromRequest (rps_Codec s) q of
     Inl err \<Rightarrow> reply (badRequest (err_text err))
   | Inr f \<Rightarrow>
       or_reply (query (rps_ListReleases s (list_scope (rps_Resources s) q))) (\<lambda>items.
       or_reply (organizationProjects s q) (\<lambda>orgProjects. do {
         loaded \<leftarrow> loadAuditEvents s f;
         let events = (case loaded of Inl err \<Rightarrow> [] | Inr events \<Rightarrow> events);
         let report = release_report_of (filter (matchesReleaseReport q (ef_From f, ef_To f) orgProjects) items) events;
         reply (Reply 200 (if exportFormat q = ''csv'' then writeCSV ''release-report.csv'' (release_report_rows report)
           else AsJSON report))
       })))"

definition tally_security :: "SecurityReport \<Rightarrow> audit_record \<Rightarrow> SecurityReport" where
  "tally_security r e =
     (let kind = ToLower (lev_Type e @ '' '' @ lev_Message e @ '' '' @ lev_Metadata e);
          r = (if Contains kind ''policydenied'' \<or> Contains kind ''policy_denied''
            then r\<lparr>sre_PolicyDenials := sre_PolicyDenials r + 1\<rparr> else r);
          r = (if lev_Type e = ''WebhookRejected'' then r\<lparr>sre_WebhookRejections := sre_WebhookRejections r + 1\<rparr> else r);
          r = (if Contains kind ''unsigned'' \<and> Contains kind ''block''
            then r\<lparr>sre_UnsignedReleasesBlocked := sre_UnsignedReleasesBlocked r + 1\<rparr> else r) in
      if Contains kind ''critical'' \<and> Contains kind ''vulnerab'' \<and> Contains kind ''block''
      then r\<lparr>sre_CriticalVulnerabilityBlocks := sre_CriticalVulnerabilityBlocks r + 1\<rparr> else r)"

definition security_report_rows :: "SecurityReport \<Rightarrow> string list list" where
  "security_report_rows r =
     [[''metric'', ''value''], [''policyDenials'', Itoa (sre_PolicyDenials r)],
      [''unsignedReleasesBlocked'', Itoa (sre_UnsignedReleasesBlocked r)],
      [''webhookRejections'', Itoa (sre_WebhookRejections r)],
      [''criticalVulnerabilityBlocks'', Itoa (sre_CriticalVulnerabilityBlocks r)]]"

definition securityReport :: "'w report_server \<Rightarrow> query_values \<Rightarrow> ('w, SecurityReport export api_response) resource_io" where
  "securityReport s q = (case auditFilterFromRequest (rps_Codec s) q of
     Inl err \<Rightarrow> reply (badRequest (err_text err))
   | Inr f \<Rightarrow> or_reply (loadAuditEvents s f) (\<lambda>events.
       let report = foldl tally_security \<lparr>sre_PolicyDenials = 0, sre_UnsignedReleasesBlocked = 0, sre_WebhookRejections = 0,
             sre_CriticalVulnerabilityBlocks = 0\<rparr> events in
       reply (Reply 200 (if exportFormat q = ''csv'' then writeCSV ''security-report.csv'' (security_report_rows report)
         else AsJSON report))))"

text \<open>Counting by increments.\<close>

lemma count_of_increment: "count_of (increment k m) k' = count_of m k' + (if k' = k then 1 else 0)"
  by (simp add: count_of_def increment_def update_conv')

lemma distinct_increment: "distinct (map fst m) \<Longrightarrow> distinct (map fst (increment k m))"
  by (simp add: increment_def distinct_update)

definition count_where :: "('a \<Rightarrow> bool) \<Rightarrow> 'a list \<Rightarrow> int" where
  "count_where P xs = int (length (filter P xs))"

lemma count_where_snoc: "count_where P (xs @ [x]) = count_where P xs + (if P x then 1 else 0)"
  by (simp add: count_where_def)

lemma sum_increment: "sum_list (map snd (increment k m)) = sum_list (map snd m) + 1"
  by (induction m) (auto simp: increment_def count_of_def)

lemma tally_builds:
  "let r = foldl (tally_build fl) \<lparr>bta_Total = 0, bta_Succeeded = 0, bta_Failed = 0, bta_FailedByReason = [],
       bta_durationTotal = z, bta_durationCount = 0\<rparr> builds in
     bta_Total r = int (length builds)
     \<and> bta_Succeeded r = count_where (\<lambda>b. bst_Phase (br_Status b) = BuildRunPhaseSucceeded) builds
     \<and> bta_Failed r = count_where (\<lambda>b. bst_Phase (br_Status b) = BuildRunPhaseFailed) builds
     \<and> bta_durationCount r = count_where (\<lambda>b. run_duration b \<noteq> None) builds
     \<and> distinct (map fst (bta_FailedByReason r)) \<and> sum_list (map snd (bta_FailedByReason r)) = bta_Failed r
     \<and> (\<forall>k. count_of (bta_FailedByReason r) k
          = count_where (\<lambda>b. bst_Phase (br_Status b) = BuildRunPhaseFailed \<and> failure_reason b = k) builds)"
proof (induction builds rule: rev_induct)
  case Nil
  show ?case by (simp add: count_where_def count_of_def)
next
  case (snoc b builds)
  then show ?case
    by (auto simp: Let_def tally_build_def count_where_snoc count_of_increment distinct_increment sum_increment split: option.split)
qed

text \<open>
  C0: The build report is the one a reader would count by hand: the builds, those that succeeded and those that failed, and for
  each reason the failed builds that give it, a failure without a reason counting as \<open>Unknown\<close>. The reasons account for every
  failure, each is listed once, and no build is both a success and a failure.
\<close>

theorem build_report_counts:
  "let r = build_report_of fl builds in
     bre_Total r = int (length builds)
     \<and> bre_Succeeded r = count_where (\<lambda>b. bst_Phase (br_Status b) = BuildRunPhaseSucceeded) builds
     \<and> bre_Failed r = count_where (\<lambda>b. bst_Phase (br_Status b) = BuildRunPhaseFailed) builds
     \<and> (\<forall>k. count_of (bre_FailedByReason r) k
          = count_where (\<lambda>b. bst_Phase (br_Status b) = BuildRunPhaseFailed \<and> failure_reason b = k) builds)
     \<and> distinct (map fst (bre_FailedByReason r)) \<and> sum_list (map snd (bre_FailedByReason r)) = bre_Failed r
     \<and> bre_Succeeded r + bre_Failed r \<le> bre_Total r"
proof -
  have "count_where (\<lambda>b. bst_Phase (br_Status b) = BuildRunPhaseSucceeded) builds
    + count_where (\<lambda>b. bst_Phase (br_Status b) = BuildRunPhaseFailed) builds \<le> int (length builds)"
    by (induction builds rule: rev_induct) (auto simp: count_where_snoc count_where_def)
  then show ?thesis using tally_builds [of fl "fl_of_int fl 0" builds] by (simp add: build_report_of_def Let_def)
qed

lemma tally_decisions:
  "rre_Total (foldl tally_decision r events) = rre_Total r
   \<and> rre_Approvals (foldl tally_decision r events) = rre_Approvals r + count_where (\<lambda>e. lev_Type e = ''ReleaseApproved'') events
   \<and> rre_Rejections (foldl tally_decision r events) = rre_Rejections r + count_where (\<lambda>e. lev_Type e = ''ReleaseRejected'') events"
  by (induction events rule: rev_induct) (auto simp: tally_decision_def count_where_snoc count_where_def)

end
