(* ===== verification/Cli.thy ===== *)
theory Cli
  imports Pagination ControllerKit GoPath GoFormat
begin

text \<open>
  The command line client, \<open>internal/cli\<close>: the global options and the configuration (\<open>config.go\<close>), the client of the API
  (\<open>client.go\<close>), and of \<open>app.go\<close> the commands on build runs and releases and \<open>doctor\<close>. The file system, the network, the clock,
  \<open>kubectl\<close>, the decoders of JSON and YAML and the parsers of numbers and durations are arguments; \<open>net/url\<close> and \<open>flag\<close> are modelled.
  A loop takes fuel, its result is \<open>None\<close> when that is used up. Tables and JSON are printed as the value they show.
\<close>

section \<open>Configuration\<close>

record cli_Config =
  cfg_APIURL :: string
  cfg_Token :: string
  cfg_Namespace :: string

record globalOptions =
  gopt_APIURL :: string
  gopt_Token :: string
  gopt_Namespace :: string
  gopt_Output :: string
  gopt_ConfigPath :: string

definition globalOptions_zero :: globalOptions where
  "globalOptions_zero = \<lparr>gopt_APIURL = '''', gopt_Token = '''', gopt_Namespace = '''', gopt_Output = '''', gopt_ConfigPath = ''''\<rparr>"

fun cli_first :: "string list \<Rightarrow> string" where
  "cli_first [] = ''''"
| "cli_first (v # vs) = (if TrimSpace v \<noteq> '''' then v else cli_first vs)"

text \<open>The field that an option sets.\<close>

definition global_target :: "string \<Rightarrow> (string \<Rightarrow> globalOptions \<Rightarrow> globalOptions) option" where
  "global_target name =
     (if name = ''--api-url'' then Some (\<lambda>v o'. o'\<lparr>gopt_APIURL := v\<rparr>)
      else if name = ''--token'' then Some (\<lambda>v o'. o'\<lparr>gopt_Token := v\<rparr>)
      else if name = ''--namespace'' \<or> name = ''-n'' then Some (\<lambda>v o'. o'\<lparr>gopt_Namespace := v\<rparr>)
      else if name = ''--output'' \<or> name = ''-o'' then Some (\<lambda>v o'. o'\<lparr>gopt_Output := v\<rparr>)
      else if name = ''--config'' then Some (\<lambda>v o'. o'\<lparr>gopt_ConfigPath := v\<rparr>)
      else None)"

fun extract_loop :: "globalOptions \<Rightarrow> string list \<Rightarrow> string list \<Rightarrow> (globalOptions \<times> string list) result" where
  "extract_loop options remaining [] = Inr (options, remaining)"
| "extract_loop options remaining (arg # args) =
     (case Cut arg (CHR ''='') of (name, val, hasValue) \<Rightarrow>
        (case global_target name of
           None \<Rightarrow> extract_loop options (remaining @ [arg]) args
         | Some put \<Rightarrow>
             if hasValue then extract_loop (put val options) remaining args
             else (case args of
                 [] \<Rightarrow> Inl (errors_New (name @ '' requires a value''))
               | val # args \<Rightarrow> extract_loop (put val options) remaining args)))"

definition extractGlobals :: "string list \<Rightarrow> (globalOptions \<times> string list) result" where
  "extractGlobals args = (case extract_loop globalOptions_zero [] args of
     Inl err \<Rightarrow> Inl err
   | Inr (options, remaining) \<Rightarrow>
       let options = (if gopt_Output options = '''' then options\<lparr>gopt_Output := ''table''\<rparr> else options) in
       if gopt_Output options \<noteq> ''table'' \<and> gopt_Output options \<noteq> ''json'' then Inl (errors_New ''output must be table or json'')
       else Inr (options, remaining))"


section \<open>The surroundings\<close>

record http_request =
  hrq_Method :: string
  hrq_URL :: string
  hrq_Headers :: "(string \<times> string) list"
  hrq_Body :: "string option"

record http_reply =
  hrp_StatusCode :: int
  hrp_Status :: string
  hrp_Body :: string

record cli_resource =
  cres_Name :: string
  cres_Namespace :: string
  cres_Phase :: string

record cli_buildRun =
  cbr_Name :: string
  cbr_Namespace :: string
  cbr_Spec :: BuildRunSpec
  cbr_Status :: BuildRunStatus

record cli_release =
  crl_Name :: string
  crl_Namespace :: string
  crl_Spec :: ReleaseSpec
  crl_Status :: ReleaseStatus

record doctorCheck =
  dch_Name :: string
  dch_Status :: string
  dch_Message :: string

record provider_answer =
  pra_Name :: string
  pra_Type :: string
  pra_Healthy :: bool

text \<open>What is printed as JSON or as a table.\<close>

datatype shown =
    ShownBuild cli_buildRun
  | ShownBuilds "cli_buildRun page_response"
  | ShownRelease cli_release
  | ShownReleases "cli_release page_response"
  | ShownResource cli_resource
  | ShownResources "cli_resource list"
  | ShownChecks "doctorCheck list"
  | ShownTable "string list" "string list list"
  | ShownVersion string string string
  | ShownCompletion string

datatype cli_effect =
    Requested http_request
  | Slept duration
  | Out string
  | Err string
  | Show shown
  | Ran "string list"
  | MadeDir string int
  | Wrote string string int

type_synonym ('w, 'a) cli_io = "('w, cli_effect, 'a) io"

text \<open>The body of a request, before it is encoded as JSON.\<close>

datatype cli_body =
    BodyString string
  | BodyBool bool
  | BodyObject "(string \<times> cli_body) list"
  | BodySpec BuildRunSpec

record 'w cli_env =
  ce_Getenv :: "string \<Rightarrow> string"
  ce_ReadFile :: "string \<Rightarrow> 'w \<Rightarrow> string option result \<times> 'w"
  ce_HomeDir :: "'w \<Rightarrow> string result \<times> 'w"
  ce_MkdirAll :: "string \<Rightarrow> int \<Rightarrow> 'w \<Rightarrow> go_error option \<times> 'w"
  ce_WriteFile :: "string \<Rightarrow> string \<Rightarrow> int \<Rightarrow> 'w \<Rightarrow> go_error option \<times> 'w"
  ce_EncodeConfig :: "cli_Config \<Rightarrow> string result"
  ce_Version :: "string \<times> string \<times> string"
  ce_DecodeConfig :: "string \<Rightarrow> cli_Config result"
  ce_ValidRequest :: "string \<Rightarrow> string \<Rightarrow> go_error option"
  ce_Exchange :: "http_request \<Rightarrow> 'w \<Rightarrow> http_reply result \<times> 'w"
  ce_Now :: "'w \<Rightarrow> gotime \<times> 'w"
  ce_Sleep :: "duration \<Rightarrow> 'w \<Rightarrow> 'w"
  ce_Kubectl :: "string list \<Rightarrow> 'w \<Rightarrow> (string \<times> go_error option) \<times> 'w"
  ce_ApiError :: "string \<Rightarrow> string \<times> string"
  ce_BuildRun :: "string \<Rightarrow> cli_buildRun result"
  ce_BuildRuns :: "string \<Rightarrow> cli_buildRun page_response result"
  ce_Release :: "string \<Rightarrow> cli_release result"
  ce_Releases :: "string \<Rightarrow> cli_release page_response result"
  ce_Lines :: "string \<Rightarrow> string list result"
  ce_Object :: "string \<Rightarrow> unit result"
  ce_Providers :: "string \<Rightarrow> provider_answer list result"
  ce_Resources :: "string \<Rightarrow> cli_resource list result"
  ce_Encode :: "cli_body \<Rightarrow> string"
  ce_ParseInt :: "string \<Rightarrow> int option"
  ce_Resource :: "string \<Rightarrow> cli_resource result"
  ce_ParseBool :: "string \<Rightarrow> bool option"
  ce_ParseDuration :: "string \<Rightarrow> duration option"

definition loadConfig :: "'w cli_env \<Rightarrow> string \<Rightarrow> ('w, cli_Config result) cli_io" where
  "loadConfig env path = do {
     r \<leftarrow> query (ce_ReadFile env path);
     case r of
       Inl err \<Rightarrow> fail (errorf_w ''read CLI config'' err)
     | Inr None \<Rightarrow> ok \<lparr>cfg_APIURL = '''', cfg_Token = '''', cfg_Namespace = ''''\<rparr>
     | Inr (Some data) \<Rightarrow> (case ce_DecodeConfig env data of
           Inl err \<Rightarrow> fail (errorf_w ''parse CLI config'' err)
         | Inr config \<Rightarrow> ok config)
   }"

text \<open>\<open>os.MkdirAll\<close> with mode 0700 and \<open>os.WriteFile\<close> with mode 0600.\<close>

definition saveConfig :: "'w cli_env \<Rightarrow> string \<Rightarrow> cli_Config \<Rightarrow> ('w, unit result) cli_io" where
  "saveConfig env path config = (case ce_EncodeConfig env config of
     Inl err \<Rightarrow> fail (errorf_w ''encode CLI config'' err)
   | Inr data \<Rightarrow> do {
       made \<leftarrow> call (MadeDir (filepath_Dir path) 448) (ce_MkdirAll env (filepath_Dir path) 448);
       case made of
         Some err \<Rightarrow> fail (errorf_w ''create CLI config directory'' err)
       | None \<Rightarrow> do {
           written \<leftarrow> call (Wrote path data 384) (ce_WriteFile env path data 384);
           case written of Some err \<Rightarrow> fail (errorf_w ''write CLI config'' err) | None \<Rightarrow> ok ()
         }
     })"

definition resolveConfig :: "'w cli_env \<Rightarrow> globalOptions \<Rightarrow> string \<Rightarrow> ('w, (cli_Config \<times> string) result) cli_io" where
  "resolveConfig env options home =
     (let path = (if gopt_ConfigPath options = '''' then FilepathJoin [home, ''.cloudivision'', ''config.yaml''] else gopt_ConfigPath options) in
      check (loadConfig env path) (\<lambda>config. ok (\<lparr>
        cfg_APIURL = cli_first [gopt_APIURL options, ce_Getenv env ''CLOU_DIVISION_API_URL'', cfg_APIURL config, ''http://localhost:8080''],
        cfg_Token = cli_first [gopt_Token options, ce_Getenv env ''CLOU_DIVISION_TOKEN'', cfg_Token config],
        cfg_Namespace = cli_first [gopt_Namespace options, ce_Getenv env ''CLOU_DIVISION_NAMESPACE'', cfg_Namespace config, ''default'']\<rparr>,
        path)))"


section \<open>Addresses\<close>

definition upper_hex :: "nat \<Rightarrow> char" where
  "upper_hex n = (if n < 10 then char_of (48 + n) else char_of (55 + n))"

definition percent :: "char \<Rightarrow> string" where
  "percent c = [CHR ''%'', upper_hex (byte c div 16), upper_hex (byte c mod 16)]"

definition unreserved :: "char \<Rightarrow> bool" where
  "unreserved c \<longleftrightarrow> is_letter c \<or> is_digit c \<or> c \<in> set ''-_.~''"

definition PathEscape :: "string \<Rightarrow> string" where
  "PathEscape s = concat (map (\<lambda>c. if unreserved c \<or> c \<in> set ''$&+:=@'' then [c] else percent c) s)"

definition QueryEscape :: "string \<Rightarrow> string" where
  "QueryEscape s = concat (map (\<lambda>c. if unreserved c then [c] else if c = CHR '' '' then ''+'' else percent c) s)"

text \<open>\<open>url.Values.Encode\<close> of values with one entry for each key.\<close>

definition url_Encode :: "(string \<times> string) list \<Rightarrow> string" where
  "url_Encode vals = Join (map (\<lambda>(k, v). QueryEscape k @ ''='' @ QueryEscape v) (sort_key fst vals)) ''&''"

definition url_query :: "string \<Rightarrow> (string \<times> string) list \<Rightarrow> string" where
  "url_query path vals = (if vals = [] then path else path @ ''?'' @ url_Encode vals)"


section \<open>The client\<close>

definition client_do :: "'w cli_env \<Rightarrow> cli_Config \<Rightarrow> string \<Rightarrow> string \<Rightarrow> string option \<Rightarrow> (string \<Rightarrow> 'a result) \<Rightarrow> ('w, 'a result) cli_io" where
  "client_do env config method path body decode =
     (let url = TrimRight (cfg_APIURL config) ''/'' @ path;
          request = \<lparr>hrq_Method = method, hrq_URL = url, hrq_Headers = [(''Accept'', ''application/json'')]
            @ (if body = None then [] else [(''Content-Type'', ''application/json'')])
            @ (if cfg_Token config = '''' then [] else [(''Authorization'', ''Bearer '' @ cfg_Token config)]), hrq_Body = body\<rparr> in
      case ce_ValidRequest env method url of
        Some err \<Rightarrow> fail err
      | None \<Rightarrow> do {
          r \<leftarrow> call (Requested request) (ce_Exchange env request);
          case r of
            Inl err \<Rightarrow> fail (errorf_w ''API request failed'' err)
          | Inr response \<Rightarrow>
              if hrp_StatusCode response < 200 \<or> hrp_StatusCode response \<ge> 300
              then (case ce_ApiError env (take 1048576 (hrp_Body response)) of (code, message) \<Rightarrow>
                fail (errors_New (cli_first [code, ''http_error''] @ '': ''
                  @ (if message = '''' then hrp_Status response else message))))
              else (case decode (take 8388608 (hrp_Body response)) of
                  Inl err \<Rightarrow> fail (errorf_w ''decode API response'' err)
                | Inr a \<Rightarrow> ok a)
        })"

definition say :: "cli_effect \<Rightarrow> ('w, unit) cli_io" where
  "say e = call e (\<lambda>w. ((), w))"

definition cli_fail :: "go_error \<Rightarrow> ('w, int) cli_io" where
  "cli_fail err = do { say (Err (''error: '' @ err_text err)); State_Monad.return 1 }"

text \<open>\<open>if err := m; err != nil { return a.fail (err) }\<close>.\<close>

definition or_exit :: "('w, 'a result) cli_io \<Rightarrow> ('a \<Rightarrow> ('w, int) cli_io) \<Rightarrow> ('w, int) cli_io" where
  "or_exit m f = do { r \<leftarrow> m; case r of Inl err \<Rightarrow> cli_fail err | Inr a \<Rightarrow> f a }"

definition exit_with :: "int \<Rightarrow> ('w, int) cli_io" where
  "exit_with code = State_Monad.return code"

definition printValue :: "shown \<Rightarrow> string \<Rightarrow> string \<Rightarrow> ('w, int) cli_io" where
  "printValue val human output = do {
     say (if output = ''json'' then Show val else Out (TrimSuffix human [CHR 0x0A]));
     State_Monad.return 0
   }"

definition resource_path :: "string \<Rightarrow> cli_Config \<Rightarrow> string \<Rightarrow> string" where
  "resource_path kind config name = ''/api/v1/'' @ kind @ ''/'' @ PathEscape (cfg_Namespace config) @ ''/'' @ PathEscape name"

definition get_build :: "'w cli_env \<Rightarrow> cli_Config \<Rightarrow> string \<Rightarrow> ('w, cli_buildRun result) cli_io" where
  "get_build env config name = client_do env config ''GET'' (resource_path ''build-runs'' config name) None (ce_BuildRun env)"


section \<open>Flags\<close>

datatype flag_kind = StringFlag | IntFlag | BoolFlag | DurationFlag | ParamFlag

type_synonym flag_values = "(string \<times> string) list"

definition param_ok :: "string \<Rightarrow> bool" where
  "param_ok v \<longleftrightarrow> (case Cut v (CHR ''='') of (key, val, found) \<Rightarrow> found \<and> key \<noteq> '''')"

fun flag_ok :: "'w cli_env \<Rightarrow> flag_kind \<Rightarrow> string \<Rightarrow> bool" where
  "flag_ok env StringFlag v = True"
| "flag_ok env IntFlag v = (ce_ParseInt env v \<noteq> None)"
| "flag_ok env BoolFlag v = (ce_ParseBool env v \<noteq> None)"
| "flag_ok env DurationFlag v = (ce_ParseDuration env v \<noteq> None)"
| "flag_ok env ParamFlag v = param_ok v"

text \<open>
  \<open>FlagSet.Parse\<close>: the values in the order of the arguments and the arguments that are left, or an error, which the package
  reports itself.
\<close>

fun parse_flags :: "'w cli_env \<Rightarrow> (string \<times> flag_kind) list \<Rightarrow> flag_values \<Rightarrow> string list \<Rightarrow> (flag_values \<times> string list) option" where
  "parse_flags env flags vals [] = Some (vals, [])"
| "parse_flags env flags vals (s # args) =
     (if length s < 2 \<or> hd s \<noteq> CHR ''-'' then Some (vals, s # args)
      else if s = ''--'' then Some (vals, args)
      else (case Cut (if s ! 1 = CHR ''-'' then drop 2 s else drop 1 s) (CHR ''='') of (name, val, hasValue) \<Rightarrow>
        (if name = '''' \<or> hd name = CHR ''-'' then None
         else (case map_of flags name of
             None \<Rightarrow> None
           | Some kind \<Rightarrow>
               if kind = BoolFlag \<or> hasValue
               then (let val = (if hasValue then val else ''true'') in
                 if flag_ok env kind val then parse_flags env flags (vals @ [(name, val)]) args else None)
               else (case args of
                   [] \<Rightarrow> None
                 | val # args \<Rightarrow> if flag_ok env kind val then parse_flags env flags (vals @ [(name, val)]) args else None)))))"

definition flag_string :: "flag_values \<Rightarrow> string \<Rightarrow> string \<Rightarrow> string" where
  "flag_string vals name fallback = (case map_of (rev vals) name of None \<Rightarrow> fallback | Some v \<Rightarrow> v)"

definition flag_of :: "(string \<Rightarrow> 'a option) \<Rightarrow> flag_values \<Rightarrow> string \<Rightarrow> 'a \<Rightarrow> 'a" where
  "flag_of parse vals name fallback = (case map_of (rev vals) name of
     None \<Rightarrow> fallback
   | Some v \<Rightarrow> (case parse v of None \<Rightarrow> fallback | Some a \<Rightarrow> a))"

definition params_of :: "flag_values \<Rightarrow> strmap" where
  "params_of vals = map_of (rev (map (\<lambda>(name, v). case Cut v (CHR ''='') of (key, val, found) \<Rightarrow> (key, val))
     (filter (\<lambda>(name, v). name = ''param'') vals)))"

text \<open>The arguments of a command on one object: its name and flags.\<close>

datatype named_args = BadFlags | NoName | Named string flag_values

definition leading_name :: "string list \<Rightarrow> string \<times> string list" where
  "leading_name args = (if args \<noteq> [] \<and> \<not> HasPrefix (hd args) ''-'' then (hd args, tl args) else ('''', args))"

definition name_and_flags :: "'w cli_env \<Rightarrow> (string \<times> flag_kind) list \<Rightarrow> string list \<Rightarrow> named_args" where
  "name_and_flags env flags args = (case leading_name args of (name, args) \<Rightarrow>
     (case parse_flags env flags [] args of
        None \<Rightarrow> BadFlags
      | Some (vals, rest) \<Rightarrow>
          let name = (if name = '''' \<and> length rest = 1 then hd rest else name) in
          if name = '''' \<or> length rest > 0 then NoName else Named name vals))"

definition with_name :: "'w cli_env \<Rightarrow> (string \<times> flag_kind) list \<Rightarrow> string \<Rightarrow> string list \<Rightarrow>
    (string \<Rightarrow> flag_values \<Rightarrow> ('w, int option) cli_io) \<Rightarrow> ('w, int option) cli_io" where
  "with_name env flags usage args k = (case name_and_flags env flags args of
     BadFlags \<Rightarrow> State_Monad.return (Some 2)
   | NoName \<Rightarrow> do { code \<leftarrow> cli_fail (errors_New usage); State_Monad.return (Some code) }
   | Named name vals \<Rightarrow> k name vals)"

definition with_flags :: "'w cli_env \<Rightarrow> (string \<times> flag_kind) list \<Rightarrow> string list \<Rightarrow>
    (flag_values \<Rightarrow> ('w, int option) cli_io) \<Rightarrow> ('w, int option) cli_io" where
  "with_flags env flags args k = (case parse_flags env flags [] args of
     None \<Rightarrow> State_Monad.return (Some 2)
   | Some (vals, rest) \<Rightarrow> k vals)"


section \<open>Watching and following\<close>

definition final_phases :: "BuildRunPhase set" where
  "final_phases = {BuildRunPhaseSucceeded, BuildRunPhaseFailed, BuildRunPhaseCancelled}"

text \<open>A command that always ends, among those with fuel.\<close>

definition finished :: "('w, int) cli_io \<Rightarrow> ('w, int option) cli_io" where
  "finished m = do { code \<leftarrow> m; State_Monad.return (Some code) }"

definition print_if :: "bool \<Rightarrow> cli_effect \<Rightarrow> ('w, unit) cli_io" where
  "print_if b e = (if b then say e else State_Monad.return ())"

definition cli_sleep :: "'w cli_env \<Rightarrow> duration \<Rightarrow> ('w, unit) cli_io" where
  "cli_sleep env d = call (Slept d) (\<lambda>w. ((), ce_Sleep env d w))"

text \<open>A turn of the loop of \<open>watchBuild\<close>: the exit code, or the phase that was shown last.\<close>

definition watch_turn :: "'w cli_env \<Rightarrow> cli_Config \<Rightarrow> string \<Rightarrow> string \<Rightarrow> string \<Rightarrow> ('w, int + string) cli_io" where
  "watch_turn env config name output lastPhase = do {
     r \<leftarrow> get_build env config name;
     case r of
       Inl err \<Rightarrow> do { code \<leftarrow> cli_fail err; State_Monad.return (Inl code) }
     | Inr item \<Rightarrow> (let phase = bst_Phase (cbr_Status item); txt = BuildRunPhase_string phase;
           changed = (txt \<noteq> lastPhase \<and> output \<noteq> ''json'') in do {
         print_if changed (Out (name @ [CHR 0x09] @ cli_first [txt, ''Pending'']));
         if phase \<in> final_phases then do {
           print_if (output = ''json'') (Show (ShownBuild item));
           State_Monad.return (Inl (if phase = BuildRunPhaseSucceeded then 0 else 1))
         } else State_Monad.return (Inr (if changed then txt else lastPhase))
       })
   }"

fun watch_loop :: "nat \<Rightarrow> 'w cli_env \<Rightarrow> cli_Config \<Rightarrow> gotime \<Rightarrow> string \<Rightarrow> duration \<Rightarrow> string \<Rightarrow> string \<Rightarrow> ('w, int option) cli_io" where
  "watch_loop 0 env config deadline name interval output lastPhase = State_Monad.return None"
| "watch_loop (Suc n) env config deadline name interval output lastPhase = do {
     now \<leftarrow> query (ce_Now env);
     if now > deadline then do {
       say (Err (''timed out waiting for BuildRun '' @ name));
       State_Monad.return (Some 1)
     } else do {
       turn \<leftarrow> watch_turn env config name output lastPhase;
       case turn of
         Inl code \<Rightarrow> State_Monad.return (Some code)
       | Inr lastPhase \<Rightarrow> do {
           cli_sleep env interval;
           watch_loop n env config deadline name interval output lastPhase
         }
     }
   }"

definition watchBuild :: "nat \<Rightarrow> 'w cli_env \<Rightarrow> cli_Config \<Rightarrow> string \<Rightarrow> duration \<Rightarrow> duration \<Rightarrow> string \<Rightarrow> ('w, int option) cli_io" where
  "watchBuild fuel env config name timeout interval output = do {
     now \<leftarrow> query (ce_Now env);
     watch_loop fuel env config (now + timeout) name interval output ''''
   }"

text \<open>The lines of a response that are printed when so many were there before.\<close>

definition unseen_lines :: "nat \<Rightarrow> string list \<Rightarrow> string list" where
  "unseen_lines printed lines = drop (if printed > length lines then 0 else printed) lines"

fun say_lines :: "string list \<Rightarrow> ('w, unit) cli_io" where
  "say_lines [] = State_Monad.return ()"
| "say_lines (line # lines) = do { say (Out line); say_lines lines }"

definition logs_path :: "cli_Config \<Rightarrow> string \<Rightarrow> int \<Rightarrow> string" where
  "logs_path config name tail = url_query (resource_path ''build-runs'' config name @ ''/logs'') [(''tailLines'', Itoa tail)]"

fun logs_loop :: "nat \<Rightarrow> 'w cli_env \<Rightarrow> cli_Config \<Rightarrow> string \<Rightarrow> int \<Rightarrow> bool \<Rightarrow> duration \<Rightarrow> nat \<Rightarrow> ('w, int option) cli_io" where
  "logs_loop 0 env config name tail follow interval printed = State_Monad.return None"
| "logs_loop (Suc n) env config name tail follow interval printed = do {
     r \<leftarrow> client_do env config ''GET'' (logs_path config name tail) None (ce_Lines env);
     case r of
       Inl err \<Rightarrow> finished (cli_fail err)
     | Inr lines \<Rightarrow> do {
         say_lines (unseen_lines printed lines);
         if \<not> follow then State_Monad.return (Some 0)
         else do {
           r \<leftarrow> get_build env config name;
           case r of
             Inl err \<Rightarrow> finished (cli_fail err)
           | Inr item \<Rightarrow>
               if bst_Phase (cbr_Status item) \<in> final_phases then State_Monad.return (Some 0)
               else do {
                 cli_sleep env interval;
                 logs_loop n env config name tail follow interval (length lines)
               }
         }
       }
   }"


section \<open>Commands\<close>

definition usage_error :: "string \<Rightarrow> ('w, int option) cli_io" where
  "usage_error message = finished (cli_fail (errors_New message))"

definition request_then :: "('w, 'a result) cli_io \<Rightarrow> ('a \<Rightarrow> ('w, int option) cli_io) \<Rightarrow> ('w, int option) cli_io" where
  "request_then m f = do { r \<leftarrow> m; case r of Inl err \<Rightarrow> finished (cli_fail err) | Inr a \<Rightarrow> f a }"

definition printResources :: "cli_resource list \<Rightarrow> string \<Rightarrow> ('w, int option) cli_io" where
  "printResources items output = finished (do {
     say (Show (if output = ''json'' then ShownResources items
       else ShownTable [''NAMESPACE'', ''NAME'', ''PHASE''] (map (\<lambda>r. [cres_Namespace r, cres_Name r, cres_Phase r]) items)));
     exit_with 0
   })"

definition list_resources :: "'w cli_env \<Rightarrow> cli_Config \<Rightarrow> string \<Rightarrow> string \<Rightarrow> ('w, int option) cli_io" where
  "list_resources env config kind output =
     request_then (client_do env config ''GET'' (url_query (''/api/v1/'' @ kind) [(''namespace'', cfg_Namespace config)]) None (ce_Resources env))
       (\<lambda>items. printResources items output)"

definition create_resource :: "'w cli_env \<Rightarrow> cli_Config \<Rightarrow> string \<Rightarrow> string \<Rightarrow> string \<Rightarrow> (string \<times> cli_body) list \<Rightarrow> ('w, int option) cli_io" where
  "create_resource env config kind output name spec =
     request_then (client_do env config ''POST'' (''/api/v1/'' @ kind)
         (Some (ce_Encode env (BodyObject [(''name'', BodyString name), (''namespace'', BodyString (cfg_Namespace config)),
            (''spec'', BodyObject spec)]))) (ce_Resource env))
       (\<lambda>created. finished (printValue (ShownResource created) (cres_Name created) output))"

definition cli_project :: "'w cli_env \<Rightarrow> cli_Config \<Rightarrow> string \<Rightarrow> string list \<Rightarrow> ('w, int option) cli_io" where
  "cli_project env config output args = (case args of
     [] \<Rightarrow> usage_error ''project requires list or create''
   | command # args \<Rightarrow>
       if command = ''list'' then list_resources env config ''projects'' output
       else if command = ''create''
       then with_flags env (map (\<lambda>n. (n, StringFlag)) [''name'', ''display-name'', ''owner-team'', ''project-namespace'', ''default-registry'']) args
         (\<lambda>vals. let val = (\<lambda>n. flag_string vals n '''') in
            if val ''name'' = '''' \<or> val ''display-name'' = '''' \<or> val ''owner-team'' = '''' \<or> val ''default-registry'' = ''''
            then usage_error ''--name, --display-name, --owner-team and --default-registry are required''
            else create_resource env config ''projects'' output (val ''name'')
              [(''displayName'', BodyString (val ''display-name'')), (''ownerTeam'', BodyString (val ''owner-team'')),
               (''namespace'', BodyString (flag_string vals ''project-namespace'' (cfg_Namespace config))),
               (''defaultRegistry'', BodyString (val ''default-registry'')), (''defaultBranch'', BodyString ''main''),
               (''isolation'', BodyObject [(''createNamespace'', BodyBool False), (''podSecurityLevel'', BodyString ''restricted''),
                  (''networkPolicyMode'', BodyString ''disabled'')])])
       else usage_error (''unknown project command '' @ quote command))"

definition cli_repo :: "'w cli_env \<Rightarrow> cli_Config \<Rightarrow> string \<Rightarrow> string list \<Rightarrow> ('w, int option) cli_io" where
  "cli_repo env config output args = (case args of
     [] \<Rightarrow> usage_error ''repo requires list or add''
   | command # args \<Rightarrow>
       if command = ''list'' then list_resources env config ''repositories'' output
       else if command \<noteq> ''add'' then usage_error (''unknown repo command '' @ quote command)
       else with_flags env (map (\<lambda>n. (n, StringFlag)) [''name'', ''project'', ''provider'', ''url'', ''default-branch'', ''pipeline-template'']) args
         (\<lambda>vals. let val = (\<lambda>n. flag_string vals n '''') in
            if val ''name'' = '''' \<or> val ''project'' = '''' \<or> val ''url'' = '''' \<or> val ''pipeline-template'' = ''''
            then usage_error ''--name, --project, --url and --pipeline-template are required''
            else create_resource env config ''repositories'' output (val ''name'')
              [(''projectRef'', BodyString (val ''project'')), (''provider'', BodyString (flag_string vals ''provider'' ''generic'')),
               (''url'', BodyString (val ''url'')), (''defaultBranch'', BodyString (flag_string vals ''default-branch'' ''main'')),
               (''pipelineTemplateRef'', BodyString (val ''pipeline-template''))]))"

definition cli_pipeline :: "'w cli_env \<Rightarrow> cli_Config \<Rightarrow> string \<Rightarrow> string list \<Rightarrow> ('w, int option) cli_io" where
  "cli_pipeline env config output args =
     (if args \<noteq> [''list''] then usage_error ''pipeline supports list'' else list_resources env config ''pipeline-templates'' output)"

definition trigger_flags :: "(string \<times> flag_kind) list" where
  "trigger_flags = map (\<lambda>n. (n, StringFlag)) [''name'', ''project'', ''repository'', ''pipeline-template'', ''revision'', ''branch'', ''image'']
     @ [(''watch'', BoolFlag), (''timeout'', DurationFlag), (''param'', ParamFlag)]"

definition trigger_spec :: "flag_values \<Rightarrow> BuildRunSpec" where
  "trigger_spec vals = BuildRunSpec_zero\<lparr>brs_ProjectRef := flag_string vals ''project'' '''',
     brs_RepositoryRef := flag_string vals ''repository'' '''', brs_PipelineTemplateRef := flag_string vals ''pipeline-template'' '''',
     brs_Revision := flag_string vals ''revision'' ''main'', brs_Branch := flag_string vals ''branch'' '''',
     brs_TriggeredBy := TriggeredBy_zero\<lparr>trig_Type := TriggerTypeManual, trig_Actor := ''cloudivision-cli''\<rparr>,
     brs_Image := ImageRef_zero\<lparr>img_Repository := flag_string vals ''image'' ''example.invalid/cloudivision-cli'', img_Tag := ''manual''\<rparr>,
     brs_Params := params_of vals, brs_Executor := ExecutorTypeJob\<rparr>"

definition cli_trigger :: "nat \<Rightarrow> 'w cli_env \<Rightarrow> cli_Config \<Rightarrow> string \<Rightarrow> string list \<Rightarrow> ('w, int option) cli_io" where
  "cli_trigger fuel env config output args = with_flags env trigger_flags args (\<lambda>vals. let spec = trigger_spec vals in
     if brs_ProjectRef spec = '''' \<or> brs_RepositoryRef spec = '''' \<or> brs_PipelineTemplateRef spec = ''''
     then usage_error ''--project, --repository and --pipeline-template are required''
     else do {
       name \<leftarrow> (if flag_string vals ''name'' '''' = '''' then do {
           now \<leftarrow> query (ce_Now env);
           State_Monad.return (''cli-'' @ FormatInt36 (UnixNano now))
         } else State_Monad.return (flag_string vals ''name'' ''''));
       request_then (client_do env config ''POST'' ''/api/v1/build-runs'' (Some (ce_Encode env (BodyObject [(''name'', BodyString name),
           (''namespace'', BodyString (cfg_Namespace config)), (''spec'', BodySpec spec)]))) (ce_BuildRun env)) (\<lambda>created. do {
         say (if output = ''json'' then Show (ShownBuild created) else Out (cbr_Name created));
         if flag_of (ce_ParseBool env) vals ''watch'' False
         then watchBuild fuel env config (cbr_Name created) (flag_of (ce_ParseDuration env) vals ''timeout'' (minutes 30)) (seconds 1) output
         else State_Monad.return (Some 0)
       })
     })"

text \<open>The query of a listing, with the filters that are set.\<close>

definition listing_values :: "'w cli_env \<Rightarrow> cli_Config \<Rightarrow> flag_values \<Rightarrow> string list \<Rightarrow> (string \<times> string) list" where
  "listing_values env config vals filters =
     [(''namespace'', cfg_Namespace config), (''limit'', Itoa (flag_of (ce_ParseInt env) vals ''limit'' 50))]
     @ (if flag_string vals ''page-token'' '''' = '''' then [] else [(''pageToken'', flag_string vals ''page-token'' '''')])
     @ concat (map (\<lambda>n. if flag_string vals n '''' = '''' then [] else [(n, flag_string vals n '''')]) filters)"

definition next_token_line :: "'a page_response \<Rightarrow> string \<Rightarrow> ('w, unit) cli_io" where
  "next_token_line response output =
     print_if (output \<noteq> ''json'' \<and> pr_NextPageToken response \<noteq> '''') (Out (''NEXT_PAGE_TOKEN'' @ [CHR 0x09] @ pr_NextPageToken response))"

definition list_builds :: "'w cli_env \<Rightarrow> cli_Config \<Rightarrow> string \<Rightarrow> string list \<Rightarrow> ('w, int option) cli_io" where
  "list_builds env config output args =
     with_flags env [(''phase'', StringFlag), (''project'', StringFlag), (''repository'', StringFlag), (''limit'', IntFlag), (''page-token'', StringFlag)] args
      (\<lambda>vals. request_then (client_do env config ''GET''
          (url_query ''/api/v1/build-runs'' (listing_values env config vals [''phase'', ''project'', ''repository''])) None (ce_BuildRuns env))
        (\<lambda>response. do {
          say (Show (if output = ''json'' then ShownBuilds response
            else ShownTable [''NAMESPACE'', ''NAME'', ''PROJECT'', ''REPOSITORY'', ''PHASE'']
              (map (\<lambda>b. [cbr_Namespace b, cbr_Name b, brs_ProjectRef (cbr_Spec b), brs_RepositoryRef (cbr_Spec b),
                 BuildRunPhase_string (bst_Phase (cbr_Status b))]) (pr_Items response))));
          next_token_line response output;
          State_Monad.return (Some 0)
        }))"

definition watch_flags :: "(string \<times> flag_kind) list" where
  "watch_flags = [(''timeout'', DurationFlag), (''interval'', DurationFlag)]"

definition logs_flags :: "(string \<times> flag_kind) list" where
  "logs_flags = [(''tail'', IntFlag), (''follow'', BoolFlag), (''interval'', DurationFlag)]"

definition buildLogs :: "nat \<Rightarrow> 'w cli_env \<Rightarrow> cli_Config \<Rightarrow> string list \<Rightarrow> ('w, int option) cli_io" where
  "buildLogs fuel env config args = with_name env logs_flags ''usage: cloudivision build logs NAME'' args (\<lambda>name vals.
     logs_loop fuel env config name (flag_of (ce_ParseInt env) vals ''tail'' 200) (flag_of (ce_ParseBool env) vals ''follow'' False)
       (flag_of (ce_ParseDuration env) vals ''interval'' (seconds 2)) 0)"

definition cli_build :: "nat \<Rightarrow> 'w cli_env \<Rightarrow> cli_Config \<Rightarrow> string \<Rightarrow> string list \<Rightarrow> ('w, int option) cli_io" where
  "cli_build fuel env config output args = (case args of
     [] \<Rightarrow> usage_error ''build requires trigger, list, get, logs, watch, cancel, retry, or rerun''
   | command # args \<Rightarrow>
       if command = ''trigger'' then cli_trigger fuel env config output args
       else if command = ''list'' then list_builds env config output args
       else if command = ''get'' then (case args of
           [name] \<Rightarrow> request_then (get_build env config name) (\<lambda>item. finished (printValue (ShownBuild item)
             (cbr_Name item @ [CHR 0x09] @ BuildRunPhase_string (bst_Phase (cbr_Status item)) @ [CHR 0x09]
               @ fail_Message (bst_Failure (cbr_Status item)) @ [CHR 0x0A]) output))
         | _ \<Rightarrow> usage_error ''usage: cloudivision build get NAME'')
       else if command = ''watch'' then with_name env watch_flags ''usage: cloudivision build watch NAME'' args (\<lambda>name vals.
         watchBuild fuel env config name (flag_of (ce_ParseDuration env) vals ''timeout'' (minutes 30))
           (flag_of (ce_ParseDuration env) vals ''interval'' (seconds 2)) output)
       else if command = ''logs'' then buildLogs fuel env config args
       else if command = ''cancel'' \<or> command = ''retry'' \<or> command = ''rerun'' then (case args of
           [name] \<Rightarrow> request_then (client_do env config ''POST'' (resource_path ''build-runs'' config name @ ''/'' @ command) None (ce_BuildRun env))
             (\<lambda>item. finished (printValue (ShownBuild item) (cbr_Name item @ '' '' @ command @ '' requested'') output))
         | _ \<Rightarrow> usage_error (''usage: cloudivision build '' @ command @ '' NAME''))
       else usage_error (''unknown build command '' @ quote command))"

text \<open>\<open>release get\<close> looks through the pages.\<close>

definition release_page :: "'w cli_env \<Rightarrow> cli_Config \<Rightarrow> string \<Rightarrow> string \<Rightarrow> ('w, cli_release page_response result) cli_io" where
  "release_page env config limit token = client_do env config ''GET'' (url_query ''/api/v1/releases''
     ([(''namespace'', cfg_Namespace config), (''limit'', limit)] @ (if token = '''' then [] else [(''pageToken'', token)]))) None (ce_Releases env)"

fun find_release :: "nat \<Rightarrow> 'w cli_env \<Rightarrow> cli_Config \<Rightarrow> string \<Rightarrow> string \<Rightarrow> string \<Rightarrow> ('w, int option) cli_io" where
  "find_release 0 env config output name token = State_Monad.return None"
| "find_release (Suc n) env config output name token = request_then (release_page env config ''200'' token) (\<lambda>response.
     case find (\<lambda>r. crl_Name r = name) (pr_Items response) of
       Some item \<Rightarrow> finished (printValue (ShownRelease item)
         (crl_Name item @ [CHR 0x09] @ ReleasePhase_string (rlst_Phase (crl_Status item)) @ [CHR 0x0A]) output)
     | None \<Rightarrow> if pr_NextPageToken response = '''' then usage_error (''release '' @ quote name @ '' not found'')
         else find_release n env config output name (pr_NextPageToken response))"

definition release_action :: "'w cli_env \<Rightarrow> cli_Config \<Rightarrow> string \<Rightarrow> string \<Rightarrow> string \<Rightarrow> (string \<times> string) list \<Rightarrow> string \<Rightarrow> ('w, int option) cli_io" where
  "release_action env config output name action body message =
     request_then (client_do env config ''POST'' (resource_path ''releases'' config name @ ''/'' @ action)
         (Some (ce_Encode env (BodyObject (map (\<lambda>(k, v). (k, BodyString v)) body)))) (ce_Release env))
       (\<lambda>item. finished (printValue (ShownRelease item) (crl_Name item @ message) output))"

definition decision_flags :: "(string \<times> flag_kind) list" where
  "decision_flags = [(''actor'', StringFlag), (''comment'', StringFlag)]"

definition rollback_flags :: "(string \<times> flag_kind) list" where
  "rollback_flags = [(''target-release'', StringFlag), (''actor'', StringFlag), (''reason'', StringFlag)]"

definition rollback_usage :: string where
  "rollback_usage = ''usage: cloudivision release rollback NAME --target-release RELEASE [--actor ACTOR] [--reason TEXT]''"

definition list_releases_cli :: "'w cli_env \<Rightarrow> cli_Config \<Rightarrow> string \<Rightarrow> string list \<Rightarrow> ('w, int option) cli_io" where
  "list_releases_cli env config output args = with_flags env [(''limit'', IntFlag), (''page-token'', StringFlag)] args (\<lambda>vals.
     request_then (release_page env config (Itoa (flag_of (ce_ParseInt env) vals ''limit'' 50)) (flag_string vals ''page-token'' '''')) (\<lambda>response. do {
       say (Show (if output = ''json'' then ShownReleases response
         else ShownTable [''NAMESPACE'', ''NAME'', ''ENVIRONMENT'', ''PHASE''] (map (\<lambda>r. [crl_Namespace r, crl_Name r,
           rls_EnvironmentRef (crl_Spec r), ReleasePhase_string (rlst_Phase (crl_Status r))]) (pr_Items response))));
       next_token_line response output;
       State_Monad.return (Some 0)
     }))"

definition cli_release_command :: "nat \<Rightarrow> 'w cli_env \<Rightarrow> cli_Config \<Rightarrow> string \<Rightarrow> string list \<Rightarrow> ('w, int option) cli_io" where
  "cli_release_command fuel env config output args = (case args of
     [] \<Rightarrow> usage_error ''release requires list, get, approve, reject, or rollback''
   | command # args \<Rightarrow>
       if command = ''list'' then list_releases_cli env config output args
       else if command = ''get'' then (case args of
           [name] \<Rightarrow> find_release fuel env config output name ''''
         | _ \<Rightarrow> usage_error ''usage: cloudivision release get NAME'')
       else if command = ''approve'' \<or> command = ''reject'' then with_name env decision_flags ''release name is required'' args (\<lambda>name vals.
         release_action env config output name command
           [(''actor'', flag_string vals ''actor'' ''cloudivision-cli''), (''comment'', flag_string vals ''comment'' '''')]
           ('' '' @ command @ ''d''))
       else if command = ''rollback'' then with_name env rollback_flags rollback_usage args (\<lambda>name vals.
         if flag_string vals ''target-release'' '''' = '''' then usage_error rollback_usage
         else release_action env config output name ''rollback''
           [(''targetReleaseRef'', flag_string vals ''target-release'' ''''), (''actor'', flag_string vals ''actor'' ''cloudivision-cli''),
            (''reason'', flag_string vals ''reason'' '''')] '' rollback created'')
       else usage_error (''unknown release command '' @ quote command))"


text \<open>\<open>doctor\<close>: the checks in their order. Only the API itself and the credentials can fail.\<close>

definition api_check :: "string \<Rightarrow> string \<Rightarrow> ('a \<Rightarrow> string \<times> string) \<Rightarrow> ('w, 'a result) cli_io \<Rightarrow> ('w, doctorCheck) cli_io" where
  "api_check name failed passed m = do {
     r \<leftarrow> m;
     State_Monad.return (case r of
       Inl err \<Rightarrow> \<lparr>dch_Name = name, dch_Status = failed, dch_Message = err_text err\<rparr>
     | Inr a \<Rightarrow> \<lparr>dch_Name = name, dch_Status = fst (passed a), dch_Message = snd (passed a)\<rparr>)
   }"

definition provider_verdict :: "provider_answer list \<Rightarrow> string \<times> string" where
  "provider_verdict providers =
     (let unhealthy = map (\<lambda>p. pra_Type p @ ''/'' @ pra_Name p) (filter (\<lambda>p. \<not> pra_Healthy p) providers) in
      if unhealthy = [] then (''PASS'', Itoa (int (length providers)) @ '' providers healthy'')
      else (''WARN'', ''unhealthy: '' @ Join unhealthy '', ''))"

definition kubectl_check :: "'w cli_env \<Rightarrow> string \<times> string list \<Rightarrow> ('w, doctorCheck) cli_io" where
  "kubectl_check env c = (case c of (name, args) \<Rightarrow> do {
     r \<leftarrow> call (Ran (''kubectl'' # args)) (ce_Kubectl env args);
     State_Monad.return (case r of
       (txt, Some err) \<Rightarrow> \<lparr>dch_Name = name, dch_Status = ''WARN'',
         dch_Message = ''kubectl unavailable or check failed: '' @ cli_first [txt, err_text err]\<rparr>
     | (txt, None) \<Rightarrow> \<lparr>dch_Name = name, dch_Status = ''PASS'', dch_Message = cli_first [txt, ''available'']\<rparr>)
   })"

fun kubectl_checks :: "'w cli_env \<Rightarrow> (string \<times> string list) list \<Rightarrow> ('w, doctorCheck list) cli_io" where
  "kubectl_checks env [] = State_Monad.return []"
| "kubectl_checks env (c # cs) = do {
     check \<leftarrow> kubectl_check env c;
     checks \<leftarrow> kubectl_checks env cs;
     State_Monad.return (check # checks)
   }"

definition command_checks :: "string \<Rightarrow> (string \<times> string list) list" where
  "command_checks namespace =
     [(''CRDs'', [''get'', ''crd'', ''buildruns.cicd.cloudivision.io'']),
      (''Deployments'', [''-n'', namespace, ''get'', ''deploy'', ''-l'', ''app.kubernetes.io/name=cloudivision'']),
      (''Runner image'', [''-n'', namespace, ''get'', ''configmap'', ''-l'', ''app.kubernetes.io/name=cloudivision'', ''-o'',
         ''jsonpath={.items[0].data.CLOU_DIVISION_RUNNER_IMAGE}'']),
      (''Runner RBAC'', [''auth'', ''can-i'', ''create'', ''jobs'', ''-n'', namespace])]"

definition doctor :: "'w cli_env \<Rightarrow> cli_Config \<Rightarrow> string \<Rightarrow> ('w, int) cli_io" where
  "doctor env config output = do {
     c1 \<leftarrow> api_check ''API health'' ''FAIL'' (\<lambda>_. (''PASS'', cfg_APIURL config)) (client_do env config ''GET'' ''/healthz'' None (ce_Object env));
     c2 \<leftarrow> api_check ''Authentication'' ''FAIL'' (\<lambda>_. (''PASS'', ''credentials accepted''))
       (client_do env config ''GET'' ''/api/v1/auth/me'' None (ce_Object env));
     c3 \<leftarrow> api_check ''Provider health'' ''WARN'' provider_verdict
       (client_do env config ''GET'' ''/api/v1/providers/health'' None (ce_Providers env));
     cs \<leftarrow> kubectl_checks env (command_checks (cfg_Namespace config));
     let checks = c1 # c2 # c3 # cs;
     say (Show (if output = ''json'' then ShownChecks checks
       else ShownTable [''STATUS'', ''CHECK'', ''DETAIL''] (map (\<lambda>c. [dch_Status c, dch_Name c, dch_Message c]) checks)));
     State_Monad.return (if list_ex (\<lambda>c. dch_Status c = ''FAIL'') checks then 1 else 0)
   }"


section \<open>The program\<close>

definition cli_usage :: string where
  "cli_usage = ''Usage: cloudivision [--api-url URL] [--token TOKEN] [--namespace NS] [--output table|json] COMMAND'' @ [CHR 0x0A]
     @ ''Commands: version, completion, login, project, repo, pipeline, build, release, doctor''"

text \<open>The scripts that \<open>completion\<close> prints are left out.\<close>

definition cli_completion :: "string list \<Rightarrow> ('w, int option) cli_io" where
  "cli_completion args = (case args of
     [shell] \<Rightarrow> if shell \<in> set [''bash'', ''zsh'', ''fish'', ''powershell''] then finished (do { say (Show (ShownCompletion shell)); exit_with 0 })
       else usage_error (''unsupported shell '' @ quote shell @ ''; use bash, zsh, fish, or powershell'')
   | _ \<Rightarrow> usage_error ''usage: cloudivision completion bash|zsh|fish|powershell'')"

definition cli_login :: "'w cli_env \<Rightarrow> cli_Config \<Rightarrow> string \<Rightarrow> ('w, int option) cli_io" where
  "cli_login env config path =
     (if cfg_Token config = '''' then usage_error ''token is required through --token or CLOU_DIVISION_TOKEN''
      else request_then (saveConfig env path config) (\<lambda>_. finished (do {
        say (Out (''Saved API URL and token to '' @ path));
        exit_with 0
      })))"

definition cli_version :: "'w cli_env \<Rightarrow> string \<Rightarrow> ('w, int) cli_io" where
  "cli_version env output = (case ce_Version env of (version, commit, date) \<Rightarrow>
     printValue (ShownVersion version commit date)
       (''cloudivision '' @ version @ '' (commit '' @ commit @ '', built '' @ date @ '')'') output)"

definition cli_dispatch :: "nat \<Rightarrow> 'w cli_env \<Rightarrow> globalOptions \<Rightarrow> cli_Config \<Rightarrow> string \<Rightarrow> string list \<Rightarrow> ('w, int option) cli_io" where
  "cli_dispatch fuel env options config path args = (let output = gopt_Output options in case args of
     [] \<Rightarrow> finished (do { say (Out cli_usage); exit_with 2 })
   | command # args \<Rightarrow>
       if command = ''version'' then finished (cli_version env output)
       else if command = ''completion'' then cli_completion args
       else if command = ''login'' then cli_login env config path
       else if command = ''project'' then cli_project env config output args
       else if command = ''repo'' then cli_repo env config output args
       else if command = ''pipeline'' then cli_pipeline env config output args
       else if command = ''build'' then cli_build fuel env config output args
       else if command = ''release'' then cli_release_command fuel env config output args
       else if command = ''doctor'' then finished (doctor env config output)
       else if command \<in> set [''help'', ''--help'', ''-h''] then finished (do { say (Out cli_usage); exit_with 0 })
       else usage_error (''unknown command '' @ quote command))"

definition cli_Run :: "nat \<Rightarrow> 'w cli_env \<Rightarrow> string list \<Rightarrow> ('w, int option) cli_io" where
  "cli_Run fuel env args = (case extractGlobals args of
     Inl err \<Rightarrow> finished (cli_fail err)
   | Inr (options, args) \<Rightarrow>
       request_then (query (ce_HomeDir env)) (\<lambda>home.
       request_then (resolveConfig env options home) (\<lambda>(config, path).
         cli_dispatch fuel env options config path args)))"



section \<open>What the commands do\<close>

lemma percent_no_slash: "CHR ''/'' \<notin> set (percent c)"
proof -
  have "byte (CHR ''/'') = 47" by (simp add: byte_def)
  moreover have "byte (upper_hex n) \<noteq> 47" if "n < 16" for n
    using that by (simp add: upper_hex_def byte_char_of)
  moreover have "byte c div 16 < 16" and "byte c mod 16 < 16" using byte_bound [of c] by simp_all
  ultimately have "upper_hex (byte c div 16) \<noteq> CHR ''/''" and "upper_hex (byte c mod 16) \<noteq> CHR ''/''" by metis+
  then show ?thesis by (simp add: percent_def)
qed

text \<open>A name is one segment of the address of its object.\<close>

lemma PathEscape_one_segment: "CHR ''/'' \<notin> set (PathEscape s)"
proof -
  have "\<not> unreserved (CHR ''/'')"
    by (simp add: unreserved_def is_letter_def is_upper_def is_lower_def is_digit_def byte_def)
  then show ?thesis using percent_no_slash by (auto simp: PathEscape_def split: if_splits)
qed

text \<open>
  C0: Where the name of a command on one object stands. The arguments are accepted exactly when the first one is the name - it is not
  empty and does not start with a dash - and everything after it is flags, with nothing left over. In particular the name is never taken from after
  the flags, although the code looks for it there.
\<close>

theorem name_stands_first:
  "name_and_flags env flags args = Named name vals \<longleftrightarrow>
     (\<exists>rest. args = name # rest \<and> name \<noteq> '''' \<and> HasPrefix name ''-'' = False \<and> parse_flags env flags [] rest = Some (vals, []))"
proof (cases args)
  case (Cons a rest)
  show ?thesis
  proof (cases "a = '''' \<or> HasPrefix a ''-''")
    case True
    have none: "(case p of None \<Rightarrow> BadFlags
      | Some (vals, rest) \<Rightarrow> let name = if [] = [] \<and> length rest = 1 then hd rest else [] in
          if name = '''' \<or> length rest > 0 then NoName else Named name vals) \<noteq> Named name vals" for p
      by (simp add: Let_def split: option.split prod.split)
    have "fst (leading_name args) = ''''"
      using True Cons by (auto simp: leading_name_def)
    then show ?thesis
      using True Cons none by (cases "leading_name args") (auto simp: name_and_flags_def)
  next
    case False
    then have "leading_name args = (a, rest)" by (simp add: leading_name_def Cons)
    then show ?thesis
      using False Cons by (auto simp: name_and_flags_def Let_def split: option.split prod.split)
  qed
qed (simp add: name_and_flags_def leading_name_def)

lemma wp_client_do:
  assumes "\<And>err u. ext u = ext t \<Longrightarrow> Q (Inl err) u"
    and "\<And>request err u. ext u = snd (ce_Exchange env request (ext t)) \<Longrightarrow> Q (Inl err) u"
    and "\<And>request response a u. hrq_Method request = method \<Longrightarrow> hrq_URL request = TrimRight (cfg_APIURL config) ''/'' @ path \<Longrightarrow>
      fst (ce_Exchange env request (ext t)) = Inr response \<Longrightarrow>
      200 \<le> hrp_StatusCode response \<Longrightarrow> hrp_StatusCode response < 300 \<Longrightarrow> decode (take 8388608 (hrp_Body response)) = Inr a \<Longrightarrow>
      ext u = snd (ce_Exchange env request (ext t)) \<Longrightarrow> Q (Inr a) u"
  shows "wp (client_do env config method path body decode) Q t"
proof (cases "ce_ValidRequest env method (TrimRight (cfg_APIURL config) ''/'' @ path)")
  case (Some err)
  then show ?thesis by (simp add: client_do_def wp_simps assms(1))
next
  case None
  define request where "request = \<lparr>hrq_Method = method, hrq_URL = TrimRight (cfg_APIURL config) ''/'' @ path,
    hrq_Headers = [(''Accept'', ''application/json'')] @ (if body = None then [] else [(''Content-Type'', ''application/json'')])
      @ (if cfg_Token config = '''' then [] else [(''Authorization'', ''Bearer '' @ cfg_Token config)]), hrq_Body = body\<rparr>"
  let ?u = "t\<lparr>ext := snd (ce_Exchange env request (ext t)), trace := trace t @ [Requested request]\<rparr>"
  have *: "wp (client_do env config method path body decode) Q t = wp (case fst (ce_Exchange env request (ext t)) of
      Inl err \<Rightarrow> fail (errorf_w ''API request failed'' err)
    | Inr response \<Rightarrow>
        if hrp_StatusCode response < 200 \<or> hrp_StatusCode response \<ge> 300
        then (case ce_ApiError env (take 1048576 (hrp_Body response)) of (code, message) \<Rightarrow>
          fail (errors_New (cli_first [code, ''http_error''] @ '': ''
            @ (if message = '''' then hrp_Status response else message))))
        else (case decode (take 8388608 (hrp_Body response)) of
            Inl err \<Rightarrow> fail (errorf_w ''decode API response'' err)
          | Inr a \<Rightarrow> ok a)) Q ?u"
    unfolding client_do_def Let_def None request_def [symmetric] option.case wp_bind wp_call ..
  have err: "Q (Inl err) ?u" for err by (rule assms(2) [of ?u request]) simp
  show ?thesis
  proof (cases "fst (ce_Exchange env request (ext t))")
    case (Inl err)
    then show ?thesis unfolding * by (simp add: wp_simps err)
  next
    case (Inr response)
    have "Q (Inr a) ?u" if "200 \<le> hrp_StatusCode response" "hrp_StatusCode response < 300"
      "decode (take 8388608 (hrp_Body response)) = Inr a" for a
      by (rule assms(3) [OF _ _ Inr that]) (simp_all add: request_def)
    then show ?thesis unfolding * Inr by (auto simp: wp_simps err not_less split: prod.split sum.split)
  qed
qed

text \<open>A clock that does not go back, and that a sleep moves on.\<close>

definition ticking :: "'w cli_env \<Rightarrow> ('w \<Rightarrow> gotime) \<Rightarrow> bool" where
  "ticking env clock \<longleftrightarrow> (\<forall>w. ce_Now env w = (clock w, w)) \<and> (\<forall>request w. clock w \<le> clock (snd (ce_Exchange env request w)))
     \<and> (\<forall>d w. clock w + d \<le> clock (ce_Sleep env d w))"

text \<open>The last answer before the world was \<open>w'\<close>: the API has answered the request for this build run with this phase.\<close>

definition reported :: "'w cli_env \<Rightarrow> cli_Config \<Rightarrow> string \<Rightarrow> BuildRunPhase \<Rightarrow> 'w \<Rightarrow> bool" where
  "reported env config name phase w' \<longleftrightarrow> (\<exists>request w response item. hrq_Method request = ''GET''
     \<and> hrq_URL request = TrimRight (cfg_APIURL config) ''/'' @ resource_path ''build-runs'' config name
     \<and> ce_Exchange env request w = (Inr response, w') \<and> 200 \<le> hrp_StatusCode response \<and> hrp_StatusCode response < 300
     \<and> ce_BuildRun env (take 8388608 (hrp_Body response)) = Inr item \<and> bst_Phase (cbr_Status item) = phase)"

definition watch_result :: "'w cli_env \<Rightarrow> cli_Config \<Rightarrow> string \<Rightarrow> int option \<Rightarrow> 'w \<Rightarrow> bool" where
  "watch_result env config name code w \<longleftrightarrow> code = Some 1 \<or> code = Some 0 \<and> reported env config name BuildRunPhaseSucceeded w"


lemma watch_turn_result:
  "wp (watch_turn env config name output lastPhase) (\<lambda>turn u. (turn = Inl 1 \<or> turn = Inl 0 \<and> reported env config name BuildRunPhaseSucceeded (ext u) \<or> \<not> isl turn)
     \<and> (\<not> isl turn \<longrightarrow> (\<exists>request. ext u = snd (ce_Exchange env request (ext t))))) t"
proof -
  have "wp (get_build env config name) (\<lambda>r u. case r of Inl err \<Rightarrow> True
     | Inr item \<Rightarrow> (bst_Phase (cbr_Status item) = BuildRunPhaseSucceeded \<longrightarrow> reported env config name BuildRunPhaseSucceeded (ext u))
         \<and> (\<exists>request. ext u = snd (ce_Exchange env request (ext t)))) t"
    unfolding get_build_def
  proof (rule wp_client_do)
    fix request response item and u :: "('a, cli_effect) sys"
    assume "hrq_Method request = ''GET''" "hrq_URL request = TrimRight (cfg_APIURL config) ''/'' @ resource_path ''build-runs'' config name"
      "fst (ce_Exchange env request (ext t)) = Inr response" "200 \<le> hrp_StatusCode response" "hrp_StatusCode response < 300"
      "ce_BuildRun env (take 8388608 (hrp_Body response)) = Inr item" "ext u = snd (ce_Exchange env request (ext t))"
    then show "case Inr item of Inl err \<Rightarrow> True
      | Inr item \<Rightarrow> (bst_Phase (cbr_Status item) = BuildRunPhaseSucceeded \<longrightarrow> reported env config name BuildRunPhaseSucceeded (ext u))
         \<and> (\<exists>request. ext u = snd (ce_Exchange env request (ext t)))"
      unfolding reported_def by (auto intro!: exI [of _ request] exI [of _ "ext t"] prod_eqI)
  qed simp_all
  then show ?thesis
    unfolding watch_turn_def wp_bind
  proof (rule wp_mono)
    fix r :: "cli_buildRun result" and u :: "('a, cli_effect) sys"
    assume "case r of Inl err \<Rightarrow> True
      | Inr item \<Rightarrow> (bst_Phase (cbr_Status item) = BuildRunPhaseSucceeded \<longrightarrow> reported env config name BuildRunPhaseSucceeded (ext u))
         \<and> (\<exists>request. ext u = snd (ce_Exchange env request (ext t)))"
    then show "wp (case r of
       Inl err \<Rightarrow> do { code \<leftarrow> cli_fail err; State_Monad.return (Inl code) }
     | Inr item \<Rightarrow> (let phase = bst_Phase (cbr_Status item); txt = BuildRunPhase_string phase;
           changed = (txt \<noteq> lastPhase \<and> output \<noteq> ''json'') in do {
         print_if changed (Out (name @ [CHR 0x09] @ cli_first [txt, ''Pending'']));
         if phase \<in> final_phases then do {
           print_if (output = ''json'') (Show (ShownBuild item));
           State_Monad.return (Inl (if phase = BuildRunPhaseSucceeded then 0 else 1))
         } else State_Monad.return (Inr (if changed then txt else lastPhase))
       })) (\<lambda>turn u. (turn = Inl 1 \<or> turn = Inl 0 \<and> reported env config name BuildRunPhaseSucceeded (ext u) \<or> \<not> isl turn)
     \<and> (\<not> isl turn \<longrightarrow> (\<exists>request. ext u = snd (ce_Exchange env request (ext t))))) u"
      by (cases r) (auto simp: wp_simps Let_def print_if_def say_def cli_fail_def)
  qed
qed

lemma watch_loop_returns:
  fixes t :: "('w, cli_effect) sys"
  assumes "ticking env clock"
  shows "deadline - clock (ext t) < int n * interval \<Longrightarrow>
    wp (watch_loop (Suc n) env config deadline name interval output lastPhase) (\<lambda>code u. watch_result env config name code (ext u)) t"
proof (induction n arbitrary: t lastPhase)
  case 0
  then show ?case using assms by (simp add: ticking_def wp_simps say_def watch_result_def)
next
  case (Suc n)
  have results: "watch_result env config name (Some 1) w" "reported env config name BuildRunPhaseSucceeded w \<Longrightarrow> watch_result env config name (Some 0) w" for w
    by (simp_all add: watch_result_def)
  have now: "ce_Now env w = (clock w, w)" for w using assms by (simp add: ticking_def)
  have slept: "deadline - clock (ce_Sleep env interval (snd (ce_Exchange env request (ext t)))) < int n * interval" for request
  proof -
    have "clock (ext t) \<le> clock (snd (ce_Exchange env request (ext t)))" using assms by (simp add: ticking_def)
    moreover have "clock (snd (ce_Exchange env request (ext t))) + interval
      \<le> clock (ce_Sleep env interval (snd (ce_Exchange env request (ext t))))" using assms by (simp add: ticking_def)
    ultimately show ?thesis using Suc.prems by (simp add: distrib_right)
  qed
  have rest: "wp (watch_loop (Suc n) env config deadline name interval output phase) (\<lambda>code u. watch_result env config name code (ext u)) v"
    if "ext v = ce_Sleep env interval (snd (ce_Exchange env request (ext t)))" for request phase and v :: "('w, cli_effect) sys"
    by (rule Suc.IH) (use slept [of request] that in simp)
  have "wp (watch_turn env config name output lastPhase) (\<lambda>turn u. wp (case turn of
       Inl code \<Rightarrow> State_Monad.return (Some code)
     | Inr lastPhase \<Rightarrow> do {
           cli_sleep env interval;
           watch_loop (Suc n) env config deadline name interval output lastPhase
         }) (\<lambda>code u. watch_result env config name code (ext u)) u) t"
  proof (rule wp_mono [OF watch_turn_result], elim conjE)
    fix turn :: "int + string" and u :: "('w, cli_effect) sys"
    assume "turn = Inl 1 \<or> turn = Inl 0 \<and> reported env config name BuildRunPhaseSucceeded (ext u) \<or> \<not> isl turn"
      and "\<not> isl turn \<longrightarrow> (\<exists>request. ext u = snd (ce_Exchange env request (ext t)))"
    then show "wp (case turn of
       Inl code \<Rightarrow> State_Monad.return (Some code)
     | Inr lastPhase \<Rightarrow> do {
           cli_sleep env interval;
           watch_loop (Suc n) env config deadline name interval output lastPhase
         }) (\<lambda>code u. watch_result env config name code (ext u)) u"
      by (cases turn) (auto simp: wp_simps cli_sleep_def rest results simp del: watch_loop.simps)
  qed
  then show ?case
    unfolding watch_loop.simps(2) [of "Suc n"] wp_bind wp_query now
    by (cases "deadline < clock (ext t)") (simp_all add: wp_bind wp_call wp_return say_def results del: watch_loop.simps)
qed

text \<open>
  C0: \<open>build watch\<close> ends, on a clock that advances with the sleeps, after at most one more poll than intervals fit into its timeout,
  and with exit code 0 only if the last thing that happened is that the API has answered the request for this build run with one
  that succeeded; otherwise the code is 1.
\<close>

theorem watch_ends_truthfully:
  assumes "ticking env clock" and "timeout < int n * interval"
  shows "wp (watchBuild (Suc n) env config name timeout interval output) (\<lambda>code u. watch_result env config name code (ext u)) t"
  using watch_loop_returns [OF assms(1), where t = t and deadline = "clock (ext t) + timeout" and n = n and interval = interval] assms
  by (simp add: watchBuild_def wp_simps ticking_def del: watch_loop.simps)

lemma only_client: "only {e. case e of Out line \<Rightarrow> False | _ \<Rightarrow> True} (client_do env config method path body decode)"
  unfolding client_do_def Let_def by (auto intro!: only_intros only_call split: option.split sum.split prod.split)

text \<open>
  C0: Following the log once the server's window is full. The server sends the last lines only; when as many lines as that have been
  printed and every response has this length, nothing is printed any more, however the log goes on.
\<close>

theorem follow_stalls_at_window:
  assumes "\<And>request w response lines. fst (ce_Exchange env request w) = Inr response \<Longrightarrow>
      ce_Lines env (take 8388608 (hrp_Body response)) = Inr lines \<Longrightarrow> length lines = window"
  shows "only {e. case e of Out line \<Rightarrow> False | _ \<Rightarrow> True} (logs_loop fuel env config name tail follow interval window)"
proof (induction fuel)
  case (Suc fuel)
  let ?E = "{e. case e of Out line \<Rightarrow> False | _ \<Rightarrow> True}"
  let ?lines = "client_do env config ''GET'' (logs_path config name tail) None (ce_Lines env)"
  have fail: "only ?E (finished (cli_fail err))" for err
    unfolding finished_def cli_fail_def say_def by (intro only_intros) auto
  have "only ?E (do {
       say_lines (unseen_lines window lines);
       if \<not> follow then State_Monad.return (Some 0)
       else do {
         r \<leftarrow> get_build env config name;
         case r of
           Inl err \<Rightarrow> finished (cli_fail err)
         | Inr item \<Rightarrow>
             if bst_Phase (cbr_Status item) \<in> final_phases then State_Monad.return (Some 0)
             else do {
               cli_sleep env interval;
               logs_loop fuel env config name tail follow interval (length lines)
             }
       }
     })" if "length lines = window" for lines
    unfolding that unseen_lines_def get_build_def cli_sleep_def
    by (intro only_intros only_client fail Suc.IH) (simp_all add: that only_return)
  moreover have "wp ?lines (\<lambda>r u. \<forall>lines. r = Inr lines \<longrightarrow> length lines = window) s" for s
    by (rule wp_client_do) (auto dest: assms)
  ultimately show ?case
    unfolding logs_loop.simps
    by (intro only_bind_wp [OF only_client, where P = "\<lambda>r. \<forall>lines. r = Inr lines \<longrightarrow> length lines = window"])
      (auto intro: fail split: sum.split)
qed (simp add: only_return)



section \<open>An example\<close>

text \<open>A world that is its clock, and a build run that succeeds after the instant 3.\<close>

definition sample_cli :: "int cli_env" where
  "sample_cli = \<lparr>
     ce_Getenv = (\<lambda>n. ''''), ce_ReadFile = (\<lambda>p w. (Inr None, w)), ce_HomeDir = (\<lambda>w. (Inr ''/home/dev'', w)),
     ce_MkdirAll = (\<lambda>p m w. (None, w)), ce_WriteFile = (\<lambda>p d m w. (None, w)), ce_EncodeConfig = (\<lambda>c. Inr (cfg_Token c)),
     ce_Version = (''dev'', ''none'', ''unknown''), ce_DecodeConfig = (\<lambda>d. Inl (errors_New ''bad'')), ce_ValidRequest = (\<lambda>m u. None),
     ce_Exchange = (\<lambda>r w. (Inr \<lparr>hrp_StatusCode = 200, hrp_Status = ''200 OK'',
       hrp_Body = (if w > 3 then ''finished'' else ''running'')\<rparr>, w)),
     ce_Now = (\<lambda>w. (w, w)), ce_Sleep = (\<lambda>d w. w + d), ce_Kubectl = (\<lambda>a w. (('''', None), w)), ce_ApiError = (\<lambda>b. ('''', '''')),
     ce_BuildRun = (\<lambda>b. Inr \<lparr>cbr_Name = ''b'', cbr_Namespace = ''ci'', cbr_Spec = BuildRunSpec_zero, cbr_Status = BuildRunStatus_zero
       \<lparr>bst_Phase := (if b = ''finished'' then BuildRunPhaseSucceeded else BuildRunPhaseRunning)\<rparr>\<rparr>),
     ce_BuildRuns = (\<lambda>b. Inl (errors_New ''bad'')), ce_Release = (\<lambda>b. Inl (errors_New ''bad'')), ce_Releases = (\<lambda>b. Inl (errors_New ''bad'')),
     ce_Lines = (\<lambda>b. Inr [b]), ce_Object = (\<lambda>b. Inr ()), ce_Providers = (\<lambda>b. Inr []), ce_Resources = (\<lambda>b. Inr []),
     ce_Encode = (\<lambda>b. ''''), ce_ParseInt = (\<lambda>s. Atoi s),
     ce_Resource = (\<lambda>b. Inl (errors_New ''bad'')), ce_ParseBool = (\<lambda>s. None), ce_ParseDuration = (\<lambda>s. None)\<rparr>"

definition sample_cli_config :: cli_Config where
  "sample_cli_config = \<lparr>cfg_APIURL = ''http://localhost:8080'', cfg_Token = '''', cfg_Namespace = ''ci''\<rparr>"

definition sample_request :: http_request where
  "sample_request = \<lparr>hrq_Method = ''GET'', hrq_URL = ''http://localhost:8080/healthz'', hrq_Headers = [], hrq_Body = None\<rparr>"

theorem watch_ends_truthfully_witness:
  "wp (watchBuild 11 sample_cli sample_cli_config ''b'' 9 1 ''table'') (\<lambda>code u. watch_result sample_cli sample_cli_config ''b'' code (ext u)) (start 0)"
proof -
  have "ticking sample_cli id" by (simp add: ticking_def sample_cli_def)
  then have "wp (watchBuild (Suc 10) sample_cli sample_cli_config ''b'' 9 1 ''table'')
      (\<lambda>code u. watch_result sample_cli sample_cli_config ''b'' code (ext u)) (start 0)"
    by (rule watch_ends_truthfully) simp
  then show ?thesis by simp
qed

theorem follow_stalls_at_window_witness:
  "only {e. case e of Out line \<Rightarrow> False | _ \<Rightarrow> True} (logs_loop 5 sample_cli sample_cli_config ''b'' 1 True 1 1)
   \<and> fst (ce_Exchange sample_cli sample_request 3) \<noteq> fst (ce_Exchange sample_cli sample_request 4)"
proof (rule conjI)
  show "only {e. case e of Out line \<Rightarrow> False | _ \<Rightarrow> True} (logs_loop 5 sample_cli sample_cli_config ''b'' 1 True 1 1)"
    by (rule follow_stalls_at_window) (auto simp: sample_cli_def)
qed (simp add: sample_cli_def)

end
