(* ===== verification/RemoteAgent.thy ===== *)
theory RemoteAgent
  imports ControllerKit
begin

text \<open>
  The experimental remote agent, \<open>internal/executor/remoteagent/executor.go\<close>: the executor, which refuses every operation, and the
  matching of registered agents with builds. The labels that a build requires are the entries of a Go map.
\<close>

datatype PoolType = PoolTypeUnset | PoolTypeKubernetesJob | PoolTypeRemoteAgent

record RunnerPool =
  rpl_Name :: string
  rpl_Type :: PoolType
  rpl_Labels :: strmap
  rpl_MaxConcurrentRuns :: int
  rpl_ActiveRuns :: int

record Registration =
  reg_RunnerID :: string
  reg_Pool :: string
  reg_Labels :: strmap
  reg_TokenID :: string
  reg_ProjectScopes :: "string list"

definition ErrExperimentalDisabled :: go_error where
  "ErrExperimentalDisabled = GoError ''remote-agent executor is experimental and disabled'' [Sentinel ''remoteagent.ErrExperimentalDisabled'']"

definition remote_agent :: "'w PipelineExecutor" where
  "remote_agent = \<lparr>ex_EnsureRun = (\<lambda>req w. (Inl ErrExperimentalDisabled, w)),
     ex_ReadRunStatus = (\<lambda>ref w. (Inl ErrExperimentalDisabled, w)), ex_CancelRun = (\<lambda>ref w. (Some ErrExperimentalDisabled, w))\<rparr>"

text \<open>A label that is not there reads as the empty string.\<close>

definition label_of :: "strmap \<Rightarrow> string \<Rightarrow> string" where
  "label_of labels key = (case labels key of None \<Rightarrow> '''' | Some v \<Rightarrow> v)"

definition Matches :: "RunnerPool \<Rightarrow> (string \<times> string) list \<Rightarrow> string \<Rightarrow> Registration \<Rightarrow> bool" where
  "Matches pool required project registration =
     (if rpl_Type pool \<noteq> PoolTypeRemoteAgent \<or> rpl_MaxConcurrentRuns pool < 1
         \<or> rpl_ActiveRuns pool \<ge> rpl_MaxConcurrentRuns pool \<or> rpl_Name pool \<noteq> reg_Pool registration then False
      else if project \<notin> set (reg_ProjectScopes registration) then False
      else list_all (\<lambda>(key, val). label_of (rpl_Labels pool) key = val \<and> label_of (reg_Labels registration) key = val) required)"

text \<open>An agent that serves a build also serves every build of the project that requires less, in whatever order it is written.\<close>

lemma Matches_fewer_labels:
  "Matches pool required project registration \<Longrightarrow> set fewer \<subseteq> set required \<Longrightarrow> Matches pool fewer project registration"
  by (auto simp: Matches_def list_all_iff split: if_splits)

text \<open>A full pool, another project and a label that one side lacks are refused.\<close>

lemma Matches_refuses:
  "rpl_ActiveRuns pool \<ge> rpl_MaxConcurrentRuns pool \<Longrightarrow> \<not> Matches pool required project registration"
  "project \<notin> set (reg_ProjectScopes registration) \<Longrightarrow> \<not> Matches pool required project registration"
  "(key, val) \<in> set required \<Longrightarrow> val \<noteq> '''' \<Longrightarrow> reg_Labels registration key = None \<Longrightarrow> \<not> Matches pool required project registration"
  by (auto simp: Matches_def list_all_iff label_of_def intro!: bexI [of _ "(key, val)"])

end
