(* ===== verification/Spec2Isabelle.thy ===== *)
theory Spec2Isabelle
  imports BuildRunController Redact GitOpsStrategies ReleaseSafety Oidc Pagination Conversion ApiWebhook ApiBuilds ReleaseWorkflow JobExecutor RunnerProgress
    Admission ProjectController TektonExecutor Notifications ClusterTargets Plugins Reports Cli RemoteAgent
begin

text \<open>
  Verification of the core of CloudiVision.
\<close>

end
